(* ===== verification/Prelude.thy ===== *)
theory Prelude
  imports Main "HOL-Library.State_Monad" "HOL-Library.Sublist"
begin

text \<open>
  The vocabulary every component shares: Go errors and results as values, the state monad
  in which the scopes run, a weakest-precondition calculus for it, and the relational frame
  rules that carry the component proofs.

  \<^item> A Go function returning \<open>(T, error)\<close> is a procedure \<open>('s, 'a) proc\<close>: it takes the
    state of the scope and gives an \<open>outcome\<close> and the next state. \<open>Ok x\<close> is a return with a
    nil error, \<open>Err e\<close> a return with a non-nil error (the callers test the error first and
    never look at the other results), \<open>Panic\<close> a nil-pointer dereference or an index out of
    range.
  \<^item> A call to a cloud or Kubernetes client returns a \<open>reply\<close>: \<open>Reply x\<close> with a nil error,
    or \<open>Fail e st\<close> with a non-nil one, where \<open>st\<close> is the status code of the detailed
    response (\<open>None\<close> when the response is nil or the client method returns none).
  \<^item> An error text that no code inspects is kept as the leading words of its format; the
    wrapped cause of a \<open>%w\<close> verb is kept as a value.
\<close>

section \<open>Errors, results, replies\<close>

datatype gerror =
    Errorf string                      \<comment> \<open>\<open>fmt.Errorf\<close>/\<open>errors.New\<close> without a cause\<close>
  | Wrapf string gerror                \<comment> \<open>\<open>fmt.Errorf("...: %w", err)\<close>\<close>
  | ClientErr string                   \<comment> \<open>an error value of a client, by its \<open>Error()\<close> text\<close>
  | AwsErr string                      \<comment> \<open>an \<open>awserr.Error\<close>, by its \<open>Code()\<close>\<close>
  | SecurityGroupByNameNotFound string \<comment> \<open>\<open>*vpc.SecurityGroupByNameNotFound\<close>\<close>
  | NotFoundErr string                 \<comment> \<open>an error for which \<open>apierrors.IsNotFound\<close> holds\<close>
  | ConfigurationErr string            \<comment> \<open>\<open>*powervs.ConfigurationError\<close>\<close>
  | AggregateErr "gerror list"         \<comment> \<open>\<open>kerrors.NewAggregate\<close>\<close>

datatype 'a outcome = Ok 'a | Err gerror | Panic

datatype 'a reply = Reply 'a | Fail gerror "int option"

type_synonym ('s, 'a) proc = "('s, 'a outcome) state"

abbreviation ok :: "'a \<Rightarrow> ('s, 'a) proc" where
  "ok x \<equiv> State_Monad.return (Ok x)"

abbreviation fail :: "gerror \<Rightarrow> ('s, 'a) proc" where
  "fail e \<equiv> State_Monad.return (Err e)"

abbreviation panic :: "('s, 'a) proc" where
  "panic \<equiv> State_Monad.return Panic"

text \<open>\<open>x, err := m; if err != nil \<close>then the handler \<open>h\<close>, else the continuation \<open>k\<close>.\<close>

definition attempt :: "('s, 'a) proc \<Rightarrow> (gerror \<Rightarrow> ('s, 'b) proc) \<Rightarrow> ('a \<Rightarrow> ('s, 'b) proc) \<Rightarrow> ('s, 'b) proc" where
  "attempt m h k = do {
     r \<leftarrow> m;
     case r of Ok x \<Rightarrow> k x | Err e \<Rightarrow> h e | Panic \<Rightarrow> panic }"

text \<open>\<open>if err != nil { return err }\<close> and \<open>if err != nil { return fmt.Errorf("t: %w", err) }\<close>.\<close>

abbreviation bindE :: "('s, 'a) proc \<Rightarrow> ('a \<Rightarrow> ('s, 'b) proc) \<Rightarrow> ('s, 'b) proc" where
  "bindE m k \<equiv> attempt m fail k"

abbreviation bindW :: "string \<Rightarrow> ('s, 'a) proc \<Rightarrow> ('a \<Rightarrow> ('s, 'b) proc) \<Rightarrow> ('s, 'b) proc" where
  "bindW t m k \<equiv> attempt m (\<lambda>e. fail (Wrapf t e)) k"

text \<open>A pointer is an \<open>option\<close>; dereferencing nil panics.\<close>

definition deref :: "'a option \<Rightarrow> ('a \<Rightarrow> ('s, 'b) proc) \<Rightarrow> ('s, 'b) proc" where
  "deref p k = (case p of None \<Rightarrow> panic | Some x \<Rightarrow> k x)"

text \<open>\<open>ptr.Deref(p, d)\<close>.\<close>

definition ptr_Deref :: "'a option \<Rightarrow> 'a \<Rightarrow> 'a" where
  "ptr_Deref p d = (case p of None \<Rightarrow> d | Some x \<Rightarrow> x)"

text \<open>A state update.\<close>

definition modify :: "('s \<Rightarrow> 's) \<Rightarrow> ('s, unit) state" where
  "modify f = State (\<lambda>s. ((), f s))"

text \<open>A \<open>for\<close> loop over a slice whose body returns a new accumulator, an error or a panic.\<close>

fun loopM :: "('a \<Rightarrow> 'b \<Rightarrow> ('s, 'b) proc) \<Rightarrow> 'a list \<Rightarrow> 'b \<Rightarrow> ('s, 'b) proc" where
  "loopM f [] b = ok b"
| "loopM f (x # xs) b = bindE (f x b) (loopM f xs)"

text \<open>The same with the index of the range clause.\<close>

fun loop_i :: "(nat \<Rightarrow> 'a \<Rightarrow> 'b \<Rightarrow> ('s, 'b) proc) \<Rightarrow> nat \<Rightarrow> 'a list \<Rightarrow> 'b \<Rightarrow> ('s, 'b) proc" where
  "loop_i f i [] b = ok b"
| "loop_i f i (x # xs) b = bindE (f i x b) (loop_i f (Suc i) xs)"

text \<open>A loop that returns out of its body: the first result that is not \<open>None\<close>, \<open>None\<close> if it runs to its end.\<close>

fun until_some :: "('a \<Rightarrow> ('s, 'b option) proc) \<Rightarrow> 'a list \<Rightarrow> ('s, 'b option) proc" where
  "until_some f [] = ok None"
| "until_some f (x # xs) = bindE (f x) (\<lambda>r. case r of None \<Rightarrow> until_some f xs | Some y \<Rightarrow> ok (Some y))"

section \<open>Subsequences\<close>

lemma subseq_set: "subseq xs ys \<Longrightarrow> set xs \<subseteq> set ys"
  by (auto elim: list_emb_set)

lemma subseq_distinct: "subseq xs ys \<Longrightarrow> distinct ys \<Longrightarrow> distinct xs"
  by (induction rule: list_emb.induct) (auto dest: subseq_set)

lemma subseq_snoc: "subseq xs ys \<Longrightarrow> subseq xs (ys @ [y])" "subseq xs ys \<Longrightarrow> subseq (xs @ [y]) (ys @ [y])"
  by (simp_all add: subseq_rev_drop_many)

section \<open>Weakest preconditions\<close>

definition wp :: "('s, 'a) state \<Rightarrow> ('a \<Rightarrow> 's \<Rightarrow> bool) \<Rightarrow> 's \<Rightarrow> bool" where
  "wp m Q s = (case run_state m s of (r, t) \<Rightarrow> Q r t)"

named_theorems wp_simps \<open>equations that compute the weakest precondition of a procedure\<close>

text \<open>
  \<open>simp only: wp_simps\<close> computes a precondition. A branch of the program becomes an implication
  from its condition; a following \<open>simp cong: imp_cong\<close> uses the condition in the rest of the
  branch, and branches that cannot be taken vanish.
\<close>

declare fst_conv [wp_simps] and snd_conv [wp_simps]

lemma wp_return [wp_simps]: "wp (State_Monad.return a) Q s = Q a s"
  by (simp add: wp_def)

lemma wp_bind [wp_simps]:
  "wp (State_Monad.bind m f) Q s = wp m (\<lambda>a t. wp (f a) Q t) s"
  by (simp add: wp_def split: prod.splits)

lemma wp_get [wp_simps]: "wp State_Monad.get Q s = Q s s"
  by (simp add: wp_def)

lemma wp_modify [wp_simps]: "wp (modify f) Q s = Q () (f s)"
  by (simp add: wp_def modify_def)

lemma wp_attempt [wp_simps]:
  "wp (attempt m h k) Q s =
     wp m (\<lambda>r t. (\<forall>x. r = Ok x \<longrightarrow> wp (k x) Q t) \<and> (\<forall>e. r = Err e \<longrightarrow> wp (h e) Q t) \<and>
                  (r = Panic \<longrightarrow> Q Panic t)) s"
proof -
  have "wp (case r of Ok x \<Rightarrow> k x | Err e \<Rightarrow> h e | Panic \<Rightarrow> panic) Q t \<longleftrightarrow>
      (\<forall>x. r = Ok x \<longrightarrow> wp (k x) Q t) \<and> (\<forall>e. r = Err e \<longrightarrow> wp (h e) Q t) \<and> (r = Panic \<longrightarrow> Q Panic t)" for r t
    by (cases r) (simp_all add: wp_return)
  then show ?thesis unfolding attempt_def wp_bind by presburger
qed

lemma wp_deref [wp_simps]:
  "wp (deref p k) Q s = ((p = None \<longrightarrow> Q Panic s) \<and> (\<forall>x. p = Some x \<longrightarrow> wp (k x) Q s))"
  by (cases p) (simp_all add: deref_def wp_return)

lemma wp_if [wp_simps]:
  "wp (if b then m else n) Q s = ((b \<longrightarrow> wp m Q s) \<and> (\<not> b \<longrightarrow> wp n Q s))"
  by simp

lemma wp_case_option [wp_simps]:
  "wp (case p of None \<Rightarrow> m | Some x \<Rightarrow> f x) Q s =
     ((p = None \<longrightarrow> wp m Q s) \<and> (\<forall>x. p = Some x \<longrightarrow> wp (f x) Q s))"
  by (cases p) simp_all

lemma wp_case_reply [wp_simps]:
  "wp (case p of Reply x \<Rightarrow> f x | Fail e st \<Rightarrow> g e st) Q s =
     ((\<forall>x. p = Reply x \<longrightarrow> wp (f x) Q s) \<and> (\<forall>e st. p = Fail e st \<longrightarrow> wp (g e st) Q s))"
  by (cases p) simp_all

lemma wp_case_outcome [wp_simps]:
  "wp (case p of Ok x \<Rightarrow> f x | Err e \<Rightarrow> g e | Panic \<Rightarrow> m) Q s =
     ((\<forall>x. p = Ok x \<longrightarrow> wp (f x) Q s) \<and> (\<forall>e. p = Err e \<longrightarrow> wp (g e) Q s) \<and> (p = Panic \<longrightarrow> wp m Q s))"
  by (cases p) simp_all

lemma wp_case_list [wp_simps]:
  "wp (case l of [] \<Rightarrow> m | x # xs \<Rightarrow> f x xs) Q s =
     ((l = [] \<longrightarrow> wp m Q s) \<and> (\<forall>x xs. l = x # xs \<longrightarrow> wp (f x xs) Q s))"
  by (cases l) simp_all

lemma wp_case_prod [wp_simps]:
  "wp (case p of (x, y) \<Rightarrow> f x y) Q s = wp (f (fst p) (snd p)) Q s"
  by (cases p) simp

lemma wp_mono: "wp m Q s \<Longrightarrow> (\<And>r t. Q r t \<Longrightarrow> Q' r t) \<Longrightarrow> wp m Q' s"
  by (auto simp: wp_def split: prod.splits)

lemma wp_conj: "wp m Q s \<Longrightarrow> wp m Q' s \<Longrightarrow> wp m (\<lambda>r t. Q r t \<and> Q' r t) s"
  by (auto simp: wp_def split: prod.splits)

text \<open>Sequencing by what is known of the first step, its error passed on, wrapped or not.\<close>

lemma wp_then:
  assumes "wp m P s" and "\<And>x t. P (Ok x) t \<Longrightarrow> wp (k x) Q t"
    and "\<And>e t. P (Err e) t \<Longrightarrow> Q (Err (g e)) t" and "\<And>t. P Panic t \<Longrightarrow> Q Panic t"
  shows "wp (attempt m (\<lambda>e. fail (g e)) k) Q s"
  unfolding wp_attempt using assms(1) by (rule wp_mono) (use assms(2-) in \<open>auto simp: wp_return\<close>)

lemma wp_run: "run_state m s = (r, t) \<Longrightarrow> wp m Q s = Q r t"
  by (simp add: wp_def)

lemma wp_eq: "run_state m s = (r, t) \<longleftrightarrow> wp m (\<lambda>r' t'. r' = r \<and> t' = t) s"
  by (auto simp: wp_def split: prod.splits)

lemma wpD: "wp m Q s \<Longrightarrow> run_state m s = (r, t) \<Longrightarrow> Q r t"
  by (simp add: wp_def)

text \<open>The state after a procedure has run \<open>n\<close> times, as the requeueing controller runs it.\<close>

primrec rerun :: "nat \<Rightarrow> ('s, 'a) state \<Rightarrow> 's \<Rightarrow> 's" where
  "rerun 0 m s = s"
| "rerun (Suc n) m s = rerun n m (snd (run_state m s))"

lemma rerun_Suc: "rerun (Suc n) m s = snd (run_state m (rerun n m s))"
  by (induction n arbitrary: s) simp_all

lemma wp_result: "wp m Q s \<Longrightarrow> Q (fst (run_state m s)) (snd (run_state m s))"
  by (simp add: wp_def split: prod.splits)

lemma wp_rerun:
  assumes "I s" and "\<And>s. I s \<Longrightarrow> wp m (\<lambda>_ t. I t) s"
  shows "I (rerun n m s)"
  using assms(1)
proof (induction n arbitrary: s)
  case (Suc n)
  then show ?case using wp_result [OF assms(2)] by simp
qed simp

lemma wp_True: "wp m (\<lambda>_ _. True) s"
  by (simp add: wp_def split: prod.splits)

text \<open>
  The walk for a postcondition that only concerns how a procedure ends: what earlier steps
  answered and left behind is arbitrary. A condition of the program is a hypothesis of the branch.
\<close>

lemma we_return: "Q a s \<Longrightarrow> wp (State_Monad.return a) Q s"
  by (simp add: wp_return)

lemma we_bind: "(\<And>a t. wp (f a) Q t) \<Longrightarrow> wp (State_Monad.bind m f) Q s"
  unfolding wp_bind by (rule wp_mono [OF wp_True]) simp

lemma we_attempt:
  "(\<And>x t. wp (k x) Q t) \<Longrightarrow> (\<And>e t. wp (h e) Q t) \<Longrightarrow> (\<And>t. Q Panic t) \<Longrightarrow> wp (attempt m h k) Q s"
  unfolding wp_attempt by (rule wp_mono [OF wp_True]) simp

lemma we_deref: "Q Panic s \<Longrightarrow> (\<And>x. p = Some x \<Longrightarrow> wp (k x) Q s) \<Longrightarrow> wp (deref p k) Q s"
  by (simp add: wp_deref)

lemma we_if: "(b \<Longrightarrow> wp m Q s) \<Longrightarrow> (\<not> b \<Longrightarrow> wp n Q s) \<Longrightarrow> wp (if b then m else n) Q s"
  by simp

lemma we_let: "wp (f a) Q s \<Longrightarrow> wp (Let a f) Q s"
  by simp

lemma we_case_option:
  "(p = None \<Longrightarrow> wp m Q s) \<Longrightarrow> (\<And>x. p = Some x \<Longrightarrow> wp (f x) Q s) \<Longrightarrow>
   wp (case p of None \<Rightarrow> m | Some x \<Rightarrow> f x) Q s"
  by (cases p) simp_all

lemma we_case_reply:
  "(\<And>x. p = Reply x \<Longrightarrow> wp (f x) Q s) \<Longrightarrow> (\<And>e st. p = Fail e st \<Longrightarrow> wp (g e st) Q s) \<Longrightarrow>
   wp (case p of Reply x \<Rightarrow> f x | Fail e st \<Rightarrow> g e st) Q s"
  by (cases p) simp_all

lemma we_case_prod:
  "(\<And>x y. p = (x, y) \<Longrightarrow> wp (f x y) Q s) \<Longrightarrow> wp (case p of (x, y) \<Rightarrow> f x y) Q s"
  by (cases p) simp

lemmas we_rules = we_return we_bind we_attempt we_deref we_if we_let we_case_option we_case_reply we_case_prod

text \<open>Loop rules: an invariant of the state, kept by every iteration.\<close>

lemma wp_loopM:
  assumes "I b s"
    and step: "\<And>x b t. x \<in> set xs \<Longrightarrow> I b t \<Longrightarrow>
          wp (f x b) (\<lambda>r t'. case r of Ok b' \<Rightarrow> I b' t' | _ \<Rightarrow> E r t') t"
    and "\<And>e t. E (Err e) t \<Longrightarrow> Q (Err e) t" and "\<And>t. E Panic t \<Longrightarrow> Q Panic t"
    and "\<And>b t. I b t \<Longrightarrow> Q (Ok b) t"
  shows "wp (loopM f xs b) Q s"
  using assms
proof (induction xs arbitrary: b s)
  case Nil
  then show ?case by (simp add: wp_return)
next
  case (Cons x xs)
  have "wp (f x b) (\<lambda>r t'. case r of Ok b' \<Rightarrow> I b' t' | _ \<Rightarrow> E r t') s"
    using Cons.prems by simp
  then show ?case
    unfolding loopM.simps wp_attempt
    by (rule wp_mono) (use Cons in \<open>auto simp: wp_return split: outcome.splits\<close>)
qed

lemma wp_loop_i:
  assumes "I b s"
    and step: "\<And>j x b t. x \<in> set xs \<Longrightarrow> I b t \<Longrightarrow>
          wp (f j x b) (\<lambda>r t'. case r of Ok b' \<Rightarrow> I b' t' | _ \<Rightarrow> E r t') t"
    and "\<And>e t. E (Err e) t \<Longrightarrow> Q (Err e) t" and "\<And>t. E Panic t \<Longrightarrow> Q Panic t"
    and "\<And>b t. I b t \<Longrightarrow> Q (Ok b) t"
  shows "wp (loop_i f i xs b) Q s"
  using assms
proof (induction xs arbitrary: i b s)
  case Nil
  then show ?case by (simp add: wp_return)
next
  case (Cons x xs)
  have "wp (f i x b) (\<lambda>r t'. case r of Ok b' \<Rightarrow> I b' t' | _ \<Rightarrow> E r t') s"
    using Cons.prems by simp
  then show ?case
    unfolding loop_i.simps wp_attempt
    by (rule wp_mono) (use Cons in \<open>auto simp: wp_return split: outcome.splits\<close>)
qed

lemma wp_until_some:
  assumes "I s" and "\<And>x t. x \<in> set xs \<Longrightarrow> I t \<Longrightarrow> wp (f x) (\<lambda>r t'. if r = Ok None then I t' else Q r t') t"
    and "\<And>t. I t \<Longrightarrow> Q (Ok None) t"
  shows "wp (until_some f xs) Q s"
  using assms(1,2)
proof (induction xs arbitrary: s)
  case Nil
  then show ?case using assms(3) by (simp add: wp_return)
next
  case (Cons x xs)
  have "wp (f x) (\<lambda>r t'. if r = Ok None then I t' else Q r t') s" using Cons.prems by simp
  then show ?case
    unfolding until_some.simps wp_attempt
    by (rule wp_mono) (use Cons in \<open>auto simp: wp_simps split: if_splits\<close>)
qed

text \<open>The same with an invariant that knows which elements are done.\<close>

lemma wp_loopM_done:
  assumes "I [] b s"
    and step: "\<And>ys x b t. set (x # ys) \<subseteq> set xs \<Longrightarrow> I ys b t \<Longrightarrow>
          wp (f x b) (\<lambda>r t'. (\<forall>b'. r = Ok b' \<longrightarrow> I (ys @ [x]) b' t') \<and> ((\<forall>b'. r \<noteq> Ok b') \<longrightarrow> Q r t')) t"
    and "\<And>b t. I xs b t \<Longrightarrow> Q (Ok b) t"
  shows "wp (loopM f xs b) Q s"
proof -
  have "wp (loopM f zs b) Q s" if "I ys b s" "xs = ys @ zs" for ys zs b s
    using that
  proof (induction zs arbitrary: ys b s)
    case Nil
    then show ?case using assms(3) by (simp add: wp_return)
  next
    case (Cons z zs)
    have "wp (f z b) (\<lambda>r t'. (\<forall>b'. r = Ok b' \<longrightarrow> I (ys @ [z]) b' t') \<and> ((\<forall>b'. r \<noteq> Ok b') \<longrightarrow> Q r t')) s"
      by (rule step) (use Cons.prems in auto)
    then show ?case
      unfolding loopM.simps wp_attempt
      by (rule wp_mono) (use Cons.IH [of "ys @ [z]"] Cons.prems(2) in \<open>auto simp: wp_return\<close>)
  qed
  from this [of "[]" b s xs] assms(1) show ?thesis by simp
qed

lemma wp_loop_i_done:
  assumes "I [] b s"
    and step: "\<And>ys x zs b t. xs = ys @ x # zs \<Longrightarrow> I ys b t \<Longrightarrow>
          wp (f (length ys) x b) (\<lambda>r t'. (\<forall>b'. r = Ok b' \<longrightarrow> I (ys @ [x]) b' t') \<and> ((\<forall>b'. r \<noteq> Ok b') \<longrightarrow> Q r t')) t"
    and "\<And>b t. I xs b t \<Longrightarrow> Q (Ok b) t"
  shows "wp (loop_i f 0 xs b) Q s"
proof -
  have "wp (loop_i f (length ys) zs b) Q s" if "I ys b s" "xs = ys @ zs" for ys zs b s
    using that
  proof (induction zs arbitrary: ys b s)
    case Nil
    then show ?case using assms(3) by (simp add: wp_return)
  next
    case (Cons z zs)
    have "wp (f (length ys) z b) (\<lambda>r t'. (\<forall>b'. r = Ok b' \<longrightarrow> I (ys @ [z]) b' t') \<and> ((\<forall>b'. r \<noteq> Ok b') \<longrightarrow> Q r t')) s"
      by (rule step) (use Cons.prems in auto)
    then show ?case
      unfolding loop_i.simps wp_attempt
      by (rule wp_mono) (use Cons.IH [of "ys @ [z]"] Cons.prems(2) in \<open>auto simp: wp_return\<close>)
  qed
  from this [of "[]" b s xs] assms(1) show ?thesis by simp
qed

lemma wp_snd: "snd (run_state m s) = t \<longleftrightarrow> wp m (\<lambda>_ t'. t' = t) s"
  by (auto simp: wp_def split: prod.splits)

lemma wp_let [wp_simps]: "wp (Let a f) Q s = wp (f a) Q s"
  by simp

section \<open>Frames: relations every run of a procedure respects\<close>

text \<open>
  A reflexive and transitive relation between the states before and after: what a procedure
  keeps, or how far it may change the state. The rules follow the shape of the procedure, so
  a frame of a whole handler is \<open>intro\<close> over the frames of its parts.
\<close>

locale frame =
  fixes R :: "'s \<Rightarrow> 's \<Rightarrow> bool"
  assumes R_refl: "R s s"
    and R_trans: "R s t \<Longrightarrow> R t u \<Longrightarrow> R s u"
begin

lemma fr_return: "state_io_rel R (State_Monad.return a)"
  by (simp add: state_io_rel_def R_refl)

lemma fr_get: "state_io_rel R State_Monad.get"
  by (simp add: state_io_rel_def R_refl)

lemma fr_modify: "(\<And>s. R s (f s)) \<Longrightarrow> state_io_rel R (modify f)"
  by (simp add: state_io_rel_def modify_def)

lemma fr_bind:
  assumes "state_io_rel R m" and "\<And>a. state_io_rel R (f a)"
  shows "state_io_rel R (State_Monad.bind m f)"
  unfolding state_io_rel_def
proof
  fix s
  obtain a t where m: "run_state m s = (a, t)" by (cases "run_state m s")
  have "R s t" using assms(1) m by (metis state_io_relD)
  moreover have "R t (snd (run_state (f a) t))" using assms(2) by (simp add: state_io_rel_def)
  ultimately show "R s (snd (run_state (State_Monad.bind m f) s))"
    using m by (auto intro: R_trans)
qed

lemma fr_if: "state_io_rel R m \<Longrightarrow> state_io_rel R n \<Longrightarrow> state_io_rel R (if b then m else n)"
  by simp

lemma fr_let: "state_io_rel R (f a) \<Longrightarrow> state_io_rel R (Let a f)"
  by simp

lemma fr_case_option:
  "state_io_rel R m \<Longrightarrow> (\<And>x. state_io_rel R (f x)) \<Longrightarrow>
   state_io_rel R (case p of None \<Rightarrow> m | Some x \<Rightarrow> f x)"
  by (cases p) simp_all

lemma fr_case_reply:
  "(\<And>x. state_io_rel R (f x)) \<Longrightarrow> (\<And>e st. state_io_rel R (g e st)) \<Longrightarrow>
   state_io_rel R (case p of Reply x \<Rightarrow> f x | Fail e st \<Rightarrow> g e st)"
  by (cases p) simp_all

lemma fr_case_outcome:
  "(\<And>x. state_io_rel R (f x)) \<Longrightarrow> (\<And>e. state_io_rel R (g e)) \<Longrightarrow> state_io_rel R m \<Longrightarrow>
   state_io_rel R (case p of Ok x \<Rightarrow> f x | Err e \<Rightarrow> g e | Panic \<Rightarrow> m)"
  by (cases p) simp_all

lemma fr_case_prod:
  "(\<And>x y. state_io_rel R (f x y)) \<Longrightarrow> state_io_rel R (case p of (x, y) \<Rightarrow> f x y)"
  by (cases p) simp

lemma fr_attempt:
  "state_io_rel R m \<Longrightarrow> (\<And>e. state_io_rel R (h e)) \<Longrightarrow> (\<And>x. state_io_rel R (k x)) \<Longrightarrow>
   state_io_rel R (attempt m h k)"
  unfolding attempt_def by (intro fr_bind fr_case_outcome fr_return)

lemma fr_deref: "(\<And>x. state_io_rel R (k x)) \<Longrightarrow> state_io_rel R (deref p k)"
  unfolding deref_def by (intro fr_case_option fr_return)

lemma fr_loopM: "(\<And>x b. x \<in> set xs \<Longrightarrow> state_io_rel R (f x b)) \<Longrightarrow> state_io_rel R (loopM f xs b)"
proof (induction xs arbitrary: b)
  case Nil
  then show ?case by (simp add: fr_return)
next
  case (Cons x xs)
  then show ?case by (auto intro!: fr_attempt fr_return)
qed

lemma fr_loop_i: "(\<And>j x b. x \<in> set xs \<Longrightarrow> state_io_rel R (f j x b)) \<Longrightarrow> state_io_rel R (loop_i f i xs b)"
proof (induction xs arbitrary: i b)
  case Nil
  then show ?case by (simp add: fr_return)
next
  case (Cons x xs)
  then show ?case by (auto intro!: fr_attempt fr_return)
qed

lemma fr_until_some: "(\<And>x. x \<in> set xs \<Longrightarrow> state_io_rel R (f x)) \<Longrightarrow> state_io_rel R (until_some f xs)"
  by (induction xs) (auto intro!: fr_attempt fr_return fr_case_option)

lemmas fr_rules = fr_until_some fr_return fr_get fr_bind fr_if fr_let fr_case_option fr_case_reply fr_case_outcome
  fr_case_prod fr_attempt fr_deref fr_loopM fr_loop_i

lemma wp_frame: "state_io_rel R m \<Longrightarrow> wp m (\<lambda>_ t. R s t) s"
  by (auto simp: wp_def split: prod.splits)

text \<open>
  The same walk when the conditions of the branches matter: from a state already reached from
  \<open>s0\<close>, every end is reached from \<open>s0\<close>. A condition of the program is a hypothesis of the
  branch, and a \<open>get\<close> names the state it reads.
\<close>

lemma fw_frame: "state_io_rel R m \<Longrightarrow> R s0 s \<Longrightarrow> wp m (\<lambda>_ t. R s0 t) s"
  by (rule wp_mono [OF wp_frame]) (auto intro: R_trans)

lemma fw_return: "R s0 s \<Longrightarrow> wp (State_Monad.return a) (\<lambda>_ t. R s0 t) s"
  by (simp add: wp_return)

lemma fw_get:
  "(R s0 s \<Longrightarrow> wp (f s) (\<lambda>_ t. R s0 t) s) \<Longrightarrow> R s0 s \<Longrightarrow> wp (State_Monad.bind State_Monad.get f) (\<lambda>_ t. R s0 t) s"
  by (simp add: wp_bind wp_get)

lemma fw_modify: "R s0 (g s) \<Longrightarrow> wp (modify g) (\<lambda>_ t. R s0 t) s"
  by (simp add: wp_modify)

lemma fw_bind:
  assumes "wp m (\<lambda>_ t. R s0 t) s" and "\<And>a t. R s0 t \<Longrightarrow> wp (f a) (\<lambda>_ t. R s0 t) t"
  shows "wp (State_Monad.bind m f) (\<lambda>_ t. R s0 t) s"
  unfolding wp_bind using assms(1) by (rule wp_mono) (rule assms(2))

lemma fw_attempt:
  assumes "wp m (\<lambda>_ t. R s0 t) s" and "\<And>x t. R s0 t \<Longrightarrow> wp (k x) (\<lambda>_ t. R s0 t) t"
    and "\<And>e t. R s0 t \<Longrightarrow> wp (h e) (\<lambda>_ t. R s0 t) t"
  shows "wp (attempt m h k) (\<lambda>_ t. R s0 t) s"
  unfolding wp_attempt using assms(1) by (rule wp_mono) (simp add: assms(2,3))

lemma fw_attempt_where:
  assumes "wp m (\<lambda>r t. R s0 t \<and> (\<forall>x. r = Ok x \<longrightarrow> P x)) s"
    and "\<And>x t. R s0 t \<Longrightarrow> P x \<Longrightarrow> wp (k x) (\<lambda>_ t. R s0 t) t"
    and "\<And>e t. R s0 t \<Longrightarrow> wp (h e) (\<lambda>_ t. R s0 t) t"
  shows "wp (attempt m h k) (\<lambda>_ t. R s0 t) s"
  unfolding wp_attempt using assms(1) by (rule wp_mono) (simp add: assms(2,3))

lemma fw_attempt_return:
  "R s0 s \<Longrightarrow> (\<And>x. a = Ok x \<Longrightarrow> wp (k x) (\<lambda>_ t. R s0 t) s) \<Longrightarrow>
   (\<And>e. a = Err e \<Longrightarrow> wp (h e) (\<lambda>_ t. R s0 t) s) \<Longrightarrow>
   wp (attempt (State_Monad.return a) h k) (\<lambda>_ t. R s0 t) s"
  by (simp add: wp_attempt wp_return)

lemma fw_deref:
  "R s0 s \<Longrightarrow> (\<And>x. p = Some x \<Longrightarrow> wp (k x) (\<lambda>_ t. R s0 t) s) \<Longrightarrow> wp (deref p k) (\<lambda>_ t. R s0 t) s"
  by (simp add: wp_deref)

lemma fw_if:
  "(b \<Longrightarrow> wp m (\<lambda>_ t. R s0 t) s) \<Longrightarrow> (\<not> b \<Longrightarrow> wp n (\<lambda>_ t. R s0 t) s) \<Longrightarrow>
   wp (if b then m else n) (\<lambda>_ t. R s0 t) s"
  by simp

lemma fw_let: "wp (f a) (\<lambda>_ t. R s0 t) s \<Longrightarrow> wp (Let a f) (\<lambda>_ t. R s0 t) s"
  by simp

lemma fw_case_option:
  "(p = None \<Longrightarrow> wp m (\<lambda>_ t. R s0 t) s) \<Longrightarrow> (\<And>x. p = Some x \<Longrightarrow> wp (f x) (\<lambda>_ t. R s0 t) s) \<Longrightarrow>
   wp (case p of None \<Rightarrow> m | Some x \<Rightarrow> f x) (\<lambda>_ t. R s0 t) s"
  by (cases p) simp_all

lemma fw_case_reply:
  "(\<And>x. p = Reply x \<Longrightarrow> wp (f x) (\<lambda>_ t. R s0 t) s) \<Longrightarrow>
   (\<And>e st. p = Fail e st \<Longrightarrow> wp (g e st) (\<lambda>_ t. R s0 t) s) \<Longrightarrow>
   wp (case p of Reply x \<Rightarrow> f x | Fail e st \<Rightarrow> g e st) (\<lambda>_ t. R s0 t) s"
  by (cases p) simp_all

lemma fw_case_list:
  "(l = [] \<Longrightarrow> wp m (\<lambda>_ t. R s0 t) s) \<Longrightarrow> (\<And>x xs. l = x # xs \<Longrightarrow> wp (f x xs) (\<lambda>_ t. R s0 t) s) \<Longrightarrow>
   wp (case l of [] \<Rightarrow> m | x # xs \<Rightarrow> f x xs) (\<lambda>_ t. R s0 t) s"
  by (cases l) simp_all

lemma fw_case_prod:
  "(\<And>x y. p = (x, y) \<Longrightarrow> wp (f x y) (\<lambda>_ t. R s0 t) s) \<Longrightarrow>
   wp (case p of (x, y) \<Rightarrow> f x y) (\<lambda>_ t. R s0 t) s"
  by (cases p) simp

lemma fw_loopM:
  assumes "R s0 s" and "\<And>x b t. x \<in> set xs \<Longrightarrow> R s0 t \<Longrightarrow> wp (f x b) (\<lambda>_ t. R s0 t) t"
  shows "wp (loopM f xs b) (\<lambda>_ t. R s0 t) s"
proof (rule wp_loopM [where I = "\<lambda>_. R s0" and E = "\<lambda>_. R s0"])
  show "wp (f x b) (\<lambda>r t'. case r of Ok b' \<Rightarrow> R s0 t' | _ \<Rightarrow> R s0 t') t" if "x \<in> set xs" "R s0 t" for x b t
    using assms(2) [OF that] by (rule wp_mono) (simp split: outcome.split)
qed (use assms(1) in auto)

lemma fw_loop_i:
  assumes "R s0 s" and "\<And>j x b t. x \<in> set xs \<Longrightarrow> R s0 t \<Longrightarrow> wp (f j x b) (\<lambda>_ t. R s0 t) t"
  shows "wp (loop_i f i xs b) (\<lambda>_ t. R s0 t) s"
proof (rule wp_loop_i [where I = "\<lambda>_. R s0" and E = "\<lambda>_. R s0"])
  show "wp (f j x b) (\<lambda>r t'. case r of Ok b' \<Rightarrow> R s0 t' | _ \<Rightarrow> R s0 t') t" if "x \<in> set xs" "R s0 t" for j x b t
    using assms(2) [OF that] by (rule wp_mono) (simp split: outcome.split)
qed (use assms(1) in auto)

lemmas fw_rules = fw_get fw_return fw_bind fw_attempt_return fw_attempt fw_deref fw_if fw_let fw_case_option fw_case_reply
  fw_case_list fw_case_prod fw_loopM fw_loop_i

end

lemma rerun_invariant:
  assumes "I s" and "\<And>s. I s \<Longrightarrow> I (snd (run_state m s))"
  shows "I (rerun n m s)"
  using assms by (induction n arbitrary: s) simp_all

text \<open>The frame of an invariant: what holds before holds after.\<close>

definition preserves :: "('s \<Rightarrow> bool) \<Rightarrow> 's \<Rightarrow> 's \<Rightarrow> bool" where
  "preserves I s t \<longleftrightarrow> (I s \<longrightarrow> I t)"

interpretation preserves: frame "preserves I" for I
  by unfold_locales (simp_all add: preserves_def)

lemma preserves_wp: "state_io_rel (preserves I) m \<Longrightarrow> I s \<Longrightarrow> wp m (\<lambda>_ t. I t) s"
  by (auto simp: wp_def preserves_def dest: state_io_relD split: prod.splits)

text \<open>The frame of a projection: what a run leaves as it was.\<close>

definition keeps :: "('s \<Rightarrow> 'a) \<Rightarrow> 's \<Rightarrow> 's \<Rightarrow> bool" where
  "keeps f s t \<longleftrightarrow> f t = f s"

interpretation keeps: frame "keeps f" for f
  by unfold_locales (simp_all add: keeps_def)

lemma keeps_run: "state_io_rel (keeps f) m \<Longrightarrow> f (snd (run_state m s)) = f s"
  by (simp add: state_io_rel_def keeps_def)

lemma keeps_wp: "state_io_rel (keeps f) m \<Longrightarrow> wp m (\<lambda>_ t. f t = f s) s"
  by (auto simp: wp_def keeps_def dest: state_io_relD split: prod.splits)

lemma keeps_comp: "state_io_rel (keeps f) m \<Longrightarrow> state_io_rel (keeps (\<lambda>s. g (f s))) m"
  by (simp add: state_io_rel_def keeps_def)

lemma state_io_relE: "state_io_rel P m \<Longrightarrow> P s (snd (run_state m s))"
  by (simp add: state_io_rel_def)

lemma state_io_rel_imp: "state_io_rel P m \<Longrightarrow> (\<And>s t. P s t \<Longrightarrow> Q s t) \<Longrightarrow> state_io_rel Q m"
  by (simp add: state_io_rel_def)

lemma keeps_preserves: "state_io_rel (keeps I) m \<Longrightarrow> state_io_rel (preserves I) m"
  by (simp add: state_io_rel_def keeps_def preserves_def)

end
