(* ===== verification/PowerVS_Types.thy ===== *)
theory PowerVS_Types
  imports Prelude
begin

text \<open>
  The \<^verbatim>\<open>v1beta3\<close> API types of the PowerVS cluster (\<^verbatim>\<open>api/powervs/v1beta3\<close>): a Go struct is a
  record with the struct's fields in the struct's order, each field prefixed by its struct's
  name (the spec and the status of the cluster by \<open>Spec\<close> and \<open>Status\<close>). A string type with
  named constants that the code switches on is a datatype whose last constructor carries any
  other string; the empty string is the absent value. Go's \<open>int32\<close> and \<open>int64\<close> fields are
  \<open>int\<close>: no arithmetic is done on them.
\<close>

section \<open>Enumerations\<close>

datatype ClusterTopology =
  PowerVSVirtualIPTopology | PowerVSLoadBalancerTopology | OtherTopology string

datatype SourceType = SourceTypeReference | SourceTypeProvision | OtherSourceType string

datatype DHCPSnatPolicy = DHCPSnatPolicyEnabled | DHCPSnatPolicyDisabled | OtherSnatPolicy string

datatype TransitGatewayRouting =
  TransitGatewayRoutingLocal | TransitGatewayRoutingGlobal | OtherRouting string

datatype LoadBalancerType = LoadBalancerTypePublic | LoadBalancerTypePrivate | OtherLBType string

datatype VPCSecurityGroupRuleDirection =
    VPCSecurityGroupRuleDirectionInbound
  | VPCSecurityGroupRuleDirectionOutbound
  | OtherDirection string

datatype VPCSecurityGroupRuleRemoteType =
    VPCSecurityGroupRuleRemoteTypeAny
  | VPCSecurityGroupRuleRemoteTypeCIDR
  | VPCSecurityGroupRuleRemoteTypeAddress
  | VPCSecurityGroupRuleRemoteTypeSG
  | OtherRemoteType string

text \<open>The string a direction is, as the request to the cloud carries it.\<close>

fun direction_string :: "VPCSecurityGroupRuleDirection \<Rightarrow> string" where
  "direction_string VPCSecurityGroupRuleDirectionInbound = ''inbound''"
| "direction_string VPCSecurityGroupRuleDirectionOutbound = ''outbound''"
| "direction_string (OtherDirection s) = s"

datatype VPCSecurityGroupRuleProtocol =
    VPCSecurityGroupRuleProtocolAny
  | VPCSecurityGroupRuleProtocolAll
  | VPCSecurityGroupRuleProtocolIcmpTCPUDP
  | VPCSecurityGroupRuleProtocolIcmp
  | VPCSecurityGroupRuleProtocolTCP
  | VPCSecurityGroupRuleProtocolUDP
  | OtherProtocol string

section \<open>States reported by the cloud\<close>

definition WorkspaceStateActive :: string where "WorkspaceStateActive = ''active''"
definition WorkspaceStateProvisioning :: string where "WorkspaceStateProvisioning = ''provisioning''"
definition WorkspaceStateFailed :: string where "WorkspaceStateFailed = ''failed''"
definition WorkspaceStateRemoved :: string where "WorkspaceStateRemoved = ''removed''"

definition TransitGatewayStateAvailable :: string where "TransitGatewayStateAvailable = ''available''"
definition TransitGatewayStatePending :: string where "TransitGatewayStatePending = ''pending''"
definition TransitGatewayStateFailed :: string where "TransitGatewayStateFailed = ''failed''"
definition TransitGatewayStateDeletePending :: string where
  "TransitGatewayStateDeletePending = ''deleting''"

definition TransitGatewayConnectionStateAttached :: string where
  "TransitGatewayConnectionStateAttached = ''attached''"
definition TransitGatewayConnectionStateFailed :: string where
  "TransitGatewayConnectionStateFailed = ''failed''"
definition TransitGatewayConnectionStatePending :: string where
  "TransitGatewayConnectionStatePending = ''pending''"
definition TransitGatewayConnectionStateDeleting :: string where
  "TransitGatewayConnectionStateDeleting = ''deleting''"

definition LoadBalancerStateActive :: string where "LoadBalancerStateActive = ''active''"
definition LoadBalancerStateCreatePending :: string where
  "LoadBalancerStateCreatePending = ''create_pending''"
definition LoadBalancerStateUpdatePending :: string where
  "LoadBalancerStateUpdatePending = ''update_pending''"
definition LoadBalancerStateDeletePending :: string where
  "LoadBalancerStateDeletePending = ''delete_pending''"

definition VPCSubnetStateDeleting :: string where "VPCSubnetStateDeleting = ''deleting''"
definition VPCStatePending :: string where "VPCStatePending = ''pending''"
definition VPCStateDeleting :: string where "VPCStateDeleting = ''deleting''"

definition DHCPServerStateActive :: string where "DHCPServerStateActive = ''ACTIVE''"
definition DHCPServerStateBuild :: string where "DHCPServerStateBuild = ''BUILD''"
definition DHCPServerStateError :: string where "DHCPServerStateError = ''ERROR''"

definition DefaultAPIServerPort :: int where "DefaultAPIServerPort = 6443"

lemmas state_consts =
  WorkspaceStateActive_def WorkspaceStateProvisioning_def WorkspaceStateFailed_def
  WorkspaceStateRemoved_def TransitGatewayStateAvailable_def TransitGatewayStatePending_def
  TransitGatewayStateFailed_def TransitGatewayStateDeletePending_def
  TransitGatewayConnectionStateAttached_def TransitGatewayConnectionStateFailed_def
  TransitGatewayConnectionStatePending_def TransitGatewayConnectionStateDeleting_def
  LoadBalancerStateActive_def LoadBalancerStateCreatePending_def
  LoadBalancerStateUpdatePending_def LoadBalancerStateDeletePending_def
  VPCSubnetStateDeleting_def VPCStatePending_def VPCStateDeleting_def
  DHCPServerStateActive_def DHCPServerStateBuild_def DHCPServerStateError_def

section \<open>References and sources\<close>

record ResourceReference =
  ResourceReference_ID :: string
  ResourceReference_Name :: string

record ResourceIdentifier =
  ResourceIdentifier_ID :: string
  ResourceIdentifier_Name :: string

record APIEndpoint =
  APIEndpoint_Host :: string
  APIEndpoint_Port :: int

record WorkspaceProvisionConfig =
  WorkspaceProvisionConfig_Name :: string

record WorkspaceSource =
  WorkspaceSource_Type :: SourceType
  WorkspaceSource_Reference :: ResourceIdentifier
  WorkspaceSource_Provision :: WorkspaceProvisionConfig

record DHCPServer =
  DHCPServer_Name :: string
  DHCPServer_CIDR :: string
  DHCPServer_DNSServer :: string
  DHCPServer_Snat :: DHCPSnatPolicy

record NetworkProvisionConfig =
  NetworkProvisionConfig_DHCPServer :: DHCPServer

record NetworkSource =
  NetworkSource_Type :: SourceType
  NetworkSource_Reference :: ResourceIdentifier
  NetworkSource_Provision :: NetworkProvisionConfig

record ResourceGroupSource =
  ResourceGroupSource_Type :: SourceType
  ResourceGroupSource_Reference :: ResourceIdentifier

record TransitGatewayProvision =
  TransitGatewayProvision_Name :: string
  TransitGatewayProvision_GlobalRouting :: TransitGatewayRouting

record TransitGatewayConnectionProvision =
  TransitGatewayConnectionProvision_Name :: string

record TransitGatewayConnectionSource =
  TransitGatewayConnectionSource_Type :: SourceType
  TransitGatewayConnectionSource_Reference :: ResourceIdentifier
  TransitGatewayConnectionSource_Provision :: TransitGatewayConnectionProvision

record TransitGatewaySource =
  TransitGatewaySource_Type :: SourceType
  TransitGatewaySource_Reference :: ResourceIdentifier
  TransitGatewaySource_Provision :: TransitGatewayProvision
  TransitGatewaySource_VPCConnection :: TransitGatewayConnectionSource
  TransitGatewaySource_PowerVSConnection :: TransitGatewayConnectionSource

record VPCProvision =
  VPCProvision_Name :: string

record VPCSource =
  VPCSource_Type :: SourceType
  VPCSource_Region :: string
  VPCSource_Reference :: ResourceIdentifier
  VPCSource_Provision :: VPCProvision

record VPCSubnetProvision =
  VPCSubnetProvision_Name :: string

record VPCSubnetSource =
  VPCSubnetSource_Type :: SourceType
  VPCSubnetSource_Zone :: string
  VPCSubnetSource_Reference :: ResourceIdentifier
  VPCSubnetSource_Provision :: VPCSubnetProvision

record LabelSelector =
  LabelSelector_MatchLabels :: "(string \<times> string) list"
  LabelSelector_MatchExpressions :: "(string \<times> string \<times> string list) list"

record AdditionalListener =
  AdditionalListener_DefaultPoolName :: string
  AdditionalListener_Port :: int
  AdditionalListener_Protocol :: string
  AdditionalListener_Selector :: LabelSelector

record LoadBalancerHealthMonitor =
  LoadBalancerHealthMonitor_Delay :: int
  LoadBalancerHealthMonitor_Retries :: int
  LoadBalancerHealthMonitor_Port :: int
  LoadBalancerHealthMonitor_Timeout :: int
  LoadBalancerHealthMonitor_Type :: string
  LoadBalancerHealthMonitor_URLPath :: string

record LoadBalancerBackendPool =
  LoadBalancerBackendPool_Name :: string
  LoadBalancerBackendPool_Algorithm :: string
  LoadBalancerBackendPool_HealthMonitor :: LoadBalancerHealthMonitor
  LoadBalancerBackendPool_Protocol :: string

record LoadBalancerProvision =
  LoadBalancerProvision_Name :: string
  LoadBalancerProvision_Type :: LoadBalancerType
  LoadBalancerProvision_AdditionalListeners :: "AdditionalListener list"
  LoadBalancerProvision_BackendPools :: "LoadBalancerBackendPool list"
  LoadBalancerProvision_SecurityGroups :: "ResourceIdentifier list"
  LoadBalancerProvision_Subnets :: "ResourceIdentifier list"

record LoadBalancerSource =
  LoadBalancerSource_Type :: SourceType
  LoadBalancerSource_Reference :: ResourceIdentifier
  LoadBalancerSource_Provision :: LoadBalancerProvision

record COSInstanceProvision =
  COSInstanceProvision_Name :: string

record COSInstanceSource =
  COSInstanceSource_Type :: SourceType
  COSInstanceSource_BucketName :: string
  COSInstanceSource_BucketRegion :: string
  COSInstanceSource_Reference :: ResourceIdentifier
  COSInstanceSource_Provision :: COSInstanceProvision

record VPCSecurityGroupPortRange =
  VPCSecurityGroupPortRange_MaximumPort :: int
  VPCSecurityGroupPortRange_MinimumPort :: int

record VPCSecurityGroupRuleRemote =
  VPCSecurityGroupRuleRemote_CIDRSubnetName :: string
  VPCSecurityGroupRuleRemote_Address :: string
  VPCSecurityGroupRuleRemote_RemoteType :: VPCSecurityGroupRuleRemoteType
  VPCSecurityGroupRuleRemote_SecurityGroupName :: string

record VPCSecurityGroupRulePrototype =
  VPCSecurityGroupRulePrototype_ICMPCode :: "int option"
  VPCSecurityGroupRulePrototype_ICMPType :: "int option"
  VPCSecurityGroupRulePrototype_PortRange :: VPCSecurityGroupPortRange
  VPCSecurityGroupRulePrototype_Protocol :: VPCSecurityGroupRuleProtocol
  VPCSecurityGroupRulePrototype_Remotes :: "VPCSecurityGroupRuleRemote list"

record VPCSecurityGroupRule =
  VPCSecurityGroupRule_Destination :: VPCSecurityGroupRulePrototype
  VPCSecurityGroupRule_Direction :: VPCSecurityGroupRuleDirection
  VPCSecurityGroupRule_SecurityGroupID :: string
  VPCSecurityGroupRule_Source :: VPCSecurityGroupRulePrototype

record VPCSecurityGroupProvision =
  VPCSecurityGroupProvision_Name :: string
  VPCSecurityGroupProvision_Rules :: "VPCSecurityGroupRule list"
  VPCSecurityGroupProvision_Tags :: "string list"

record VPCSecurityGroupSource =
  VPCSecurityGroupSource_Type :: SourceType
  VPCSecurityGroupSource_Reference :: ResourceIdentifier
  VPCSecurityGroupSource_Provision :: VPCSecurityGroupProvision

record Ignition =
  Ignition_Version :: string

record IBMPowerVSClusterSpec =
  Spec_ControlPlaneEndpoint :: APIEndpoint
  Spec_Topology :: ClusterTopology
  Spec_Workspace :: WorkspaceSource
  Spec_Network :: NetworkSource
  Spec_Zone :: string
  Spec_ResourceGroup :: ResourceGroupSource
  Spec_TransitGateway :: TransitGatewaySource
  Spec_VPC :: VPCSource
  Spec_VPCSubnets :: "VPCSubnetSource list"
  Spec_LoadBalancers :: "LoadBalancerSource list"
  Spec_VPCSecurityGroups :: "VPCSecurityGroupSource list"
  Spec_COSInstance :: COSInstanceSource
  Spec_Ignition :: Ignition

section \<open>Status\<close>

text \<open>
  \<open>metav1.Condition\<close> and the deprecated \<open>clusterv1.Condition\<close>, without the transition time and
  the observed generation, which the code here neither reads nor sets. The message of a
  condition is empty or the text of an error; it is kept as the error value.
\<close>

datatype ConditionStatus = ConditionTrue | ConditionFalse | ConditionUnknown

record Condition =
  Condition_Type :: string
  Condition_Status :: ConditionStatus
  Condition_Reason :: string
  Condition_Message :: "gerror option"

record DeprecatedCondition =
  DeprecatedCondition_Type :: string
  DeprecatedCondition_Status :: ConditionStatus
  DeprecatedCondition_Severity :: string
  DeprecatedCondition_Reason :: string
  DeprecatedCondition_Message :: "gerror option"

record IBMPowerVSClusterV1Beta2DeprecatedStatus =
  V1Beta2DeprecatedStatus_Conditions :: "DeprecatedCondition list"

record IBMPowerVSClusterDeprecatedStatus =
  DeprecatedStatus_V1Beta2 :: "IBMPowerVSClusterV1Beta2DeprecatedStatus option"

record NetworkStatus =
  NetworkStatus_ID :: string
  NetworkStatus_Name :: string
  NetworkStatus_DHCPServer :: ResourceReference

record ResourceConnectionStatus =
  ResourceConnectionStatus_ID :: string
  ResourceConnectionStatus_Name :: string
  ResourceConnectionStatus_State :: string

record TransitGatewayStatus =
  TransitGatewayStatus_ID :: string
  TransitGatewayStatus_Name :: string
  TransitGatewayStatus_VPCConnection :: ResourceConnectionStatus
  TransitGatewayStatus_PowerVSConnection :: ResourceConnectionStatus

record VPCStatus =
  VPCStatus_ID :: string
  VPCStatus_Name :: string
  VPCStatus_Region :: string

record VPCSubnetStatus =
  VPCSubnetStatus_ID :: string
  VPCSubnetStatus_Name :: string
  VPCSubnetStatus_Zone :: string

record LoadBalancerStatus =
  LoadBalancerStatus_Name :: string
  LoadBalancerStatus_ID :: string
  LoadBalancerStatus_State :: string
  LoadBalancerStatus_Hostname :: string

record VPCSecurityGroupRuleStatus =
  VPCSecurityGroupRuleStatus_ID :: string

record VPCSecurityGroupStatus =
  VPCSecurityGroupStatus_ID :: string
  VPCSecurityGroupStatus_Name :: string
  VPCSecurityGroupStatus_Rules :: "VPCSecurityGroupRuleStatus list"

record COSInstanceStatus =
  COSInstanceStatus_ID :: string
  COSInstanceStatus_Name :: string
  COSInstanceStatus_BucketName :: string
  COSInstanceStatus_BucketRegion :: string
  COSInstanceStatus_HMACSecretName :: string

record IBMPowerVSClusterInitializationStatus =
  Initialization_Provisioned :: "bool option"

record IBMPowerVSClusterStatus =
  Status_Conditions :: "Condition list"
  Status_Initialization :: IBMPowerVSClusterInitializationStatus
  Status_Workspace :: ResourceReference
  Status_Network :: NetworkStatus
  Status_ResourceGroup :: ResourceReference
  Status_TransitGateway :: TransitGatewayStatus
  Status_VPC :: VPCStatus
  Status_VPCSubnets :: "VPCSubnetStatus list"
  Status_LoadBalancers :: "LoadBalancerStatus list"
  Status_VPCSecurityGroups :: "VPCSecurityGroupStatus list"
  Status_COSInstance :: COSInstanceStatus
  Status_Deprecated :: "IBMPowerVSClusterDeprecatedStatus option"

text \<open>The cluster object; of its metadata, what the code reads and writes.\<close>

record IBMPowerVSCluster =
  Cluster_Name :: string
  Cluster_Namespace :: string
  Cluster_UID :: string
  Cluster_Finalizers :: "string list"
  Cluster_Spec :: IBMPowerVSClusterSpec
  Cluster_Status :: IBMPowerVSClusterStatus

definition IBMPowerVSClusterFinalizer :: string where
  "IBMPowerVSClusterFinalizer = ''ibmpowervscluster.infrastructure.cluster.x-k8s.io''"

section \<open>Condition accessors\<close>

definition GetConditions :: "IBMPowerVSCluster \<Rightarrow> Condition list" where
  "GetConditions r = Status_Conditions (Cluster_Status r)"

definition SetConditions :: "IBMPowerVSCluster \<Rightarrow> Condition list \<Rightarrow> IBMPowerVSCluster" where
  "SetConditions r cs = r\<lparr>Cluster_Status := (Cluster_Status r)\<lparr>Status_Conditions := cs\<rparr>\<rparr>"

definition GetV1Beta1Conditions :: "IBMPowerVSCluster \<Rightarrow> DeprecatedCondition list" where
  "GetV1Beta1Conditions r =
     (case Status_Deprecated (Cluster_Status r) of
        None \<Rightarrow> []
      | Some d \<Rightarrow> (case DeprecatedStatus_V1Beta2 d of
            None \<Rightarrow> []
          | Some v \<Rightarrow> V1Beta2DeprecatedStatus_Conditions v))"

definition SetV1Beta1Conditions :: "IBMPowerVSCluster \<Rightarrow> DeprecatedCondition list \<Rightarrow> IBMPowerVSCluster" where
  "SetV1Beta1Conditions r cs =
     (let d = (case Status_Deprecated (Cluster_Status r) of
                 None \<Rightarrow> \<lparr>DeprecatedStatus_V1Beta2 = None\<rparr> | Some d \<Rightarrow> d);
          v = (case DeprecatedStatus_V1Beta2 d of
                 None \<Rightarrow> \<lparr>V1Beta2DeprecatedStatus_Conditions = []\<rparr> | Some v \<Rightarrow> v)
      in r\<lparr>Cluster_Status := (Cluster_Status r)
           \<lparr>Status_Deprecated := Some (d\<lparr>DeprecatedStatus_V1Beta2 :=
              Some (v\<lparr>V1Beta2DeprecatedStatus_Conditions := cs\<rparr>)\<rparr>)\<rparr>\<rparr>)"

lemma Get_SetConditions [simp]: "GetConditions (SetConditions r cs) = cs"
  by (simp add: GetConditions_def SetConditions_def)

lemma Get_SetV1Beta1Conditions [simp]: "GetV1Beta1Conditions (SetV1Beta1Conditions r cs) = cs"
  by (simp add: GetV1Beta1Conditions_def SetV1Beta1Conditions_def Let_def)

section \<open>Zero values\<close>

text \<open>The zero values \<open>VPCStatus{}\<close> and \<open>TransitGatewayStatus{}\<close>.\<close>

definition zero_VPCStatus :: VPCStatus where
  "zero_VPCStatus = \<lparr>VPCStatus_ID = [], VPCStatus_Name = [], VPCStatus_Region = []\<rparr>"

definition zero_ResourceConnectionStatus :: ResourceConnectionStatus where
  "zero_ResourceConnectionStatus =
     \<lparr>ResourceConnectionStatus_ID = [], ResourceConnectionStatus_Name = [],
      ResourceConnectionStatus_State = []\<rparr>"

definition zero_TransitGatewayStatus :: TransitGatewayStatus where
  "zero_TransitGatewayStatus =
     \<lparr>TransitGatewayStatus_ID = [], TransitGatewayStatus_Name = [],
      TransitGatewayStatus_VPCConnection = zero_ResourceConnectionStatus,
      TransitGatewayStatus_PowerVSConnection = zero_ResourceConnectionStatus\<rparr>"

end
