(* ===== verification/Resource_Name.thy ===== *)
theory Resource_Name
  imports PowerVS_Types
begin

text \<open>
  Default names of IBM Cloud resources (\<^verbatim>\<open>pkg/cloud/scope/powervs/resource_name.go\<close>).
  Go strings are byte sequences and \<open>len\<close> counts bytes, as \<open>length\<close> does on \<open>string\<close>.
  \<open>ResourceName\<close> slices the cluster name with an upper bound that is negative when the
  suffix is longer than 62 bytes; the slice expression then panics, which is \<open>None\<close> here.
\<close>

datatype ResourceType =
    ResourceTypeWorkspace | ResourceTypeTransitGateway | ResourceTypeVPC | ResourceTypeSubnet
  | ResourceTypeLBPublic | ResourceTypeLBPrivate | ResourceTypeSG | ResourceTypeDHCP
  | ResourceTypeCOS | ResourceTypeCOSBucket | ResourceTypeCOSHMACKey

fun rt_string :: "ResourceType \<Rightarrow> string" where
  "rt_string ResourceTypeWorkspace = ''workspace''"
| "rt_string ResourceTypeTransitGateway = ''transitgateway''"
| "rt_string ResourceTypeVPC = ''vpc''"
| "rt_string ResourceTypeSubnet = ''subnet''"
| "rt_string ResourceTypeLBPublic = ''loadbalancer-public''"
| "rt_string ResourceTypeLBPrivate = ''loadbalancer-private''"
| "rt_string ResourceTypeSG = ''sg''"
| "rt_string ResourceTypeDHCP = ''dhcp''"
| "rt_string ResourceTypeCOS = ''cos''"
| "rt_string ResourceTypeCOSBucket = ''cos-bucket''"
| "rt_string ResourceTypeCOSHMACKey = ''cos-hmac''"

text \<open>\<open>strconv.Itoa\<close> on the (non-negative) loop indices it is applied to.\<close>

fun itoa :: "nat \<Rightarrow> string" where
  "itoa n = (if n < 10 then [char_of (48 + n)] else itoa (n div 10) @ [char_of (48 + n mod 10)])"

declare itoa.simps [simp del]

text \<open>\<open>%d\<close> on an integer.\<close>

definition format_int :: "int \<Rightarrow> string" where
  "format_int i = (if i < 0 then ''-'' @ itoa (nat (- i)) else itoa (nat i))"

text \<open>\<open>strings.TrimRight(s, "-")\<close>.\<close>

definition trim_hyphens :: "string \<Rightarrow> string" where
  "trim_hyphens s = rev (dropWhile (\<lambda>c. c = CHR ''-'') (rev s))"

definition resourceNameMaxLen :: int where "resourceNameMaxLen = 63"

definition name_suffix :: "ResourceType \<Rightarrow> string \<Rightarrow> string" where
  "name_suffix rt qualifier =
     (if qualifier \<noteq> [] then rt_string rt @ ''-'' @ qualifier else rt_string rt)"

definition ResourceName :: "string \<Rightarrow> ResourceType \<Rightarrow> string \<Rightarrow> string option" where
  "ResourceName clusterName rt qualifier =
     (let suffix = name_suffix rt qualifier;
          maxBase = resourceNameMaxLen - int (length suffix) - 1
      in if int (length clusterName) > maxBase
         then if maxBase < 0 then None
              else Some (trim_hyphens (take (nat maxBase) clusterName) @ ''-'' @ suffix)
         else Some (clusterName @ ''-'' @ suffix))"

definition tgVPCConnectionName :: "string \<Rightarrow> string" where
  "tgVPCConnectionName tgName = tgName @ ''-vpc-con''"

definition tgPowerVSConnectionName :: "string \<Rightarrow> string" where
  "tgPowerVSConnectionName tgName = tgName @ ''-pvs-con''"

definition dhcpNetworkName :: "string \<Rightarrow> string" where
  "dhcpNetworkName dhcpServerName = ''DHCPSERVER'' @ dhcpServerName @ ''_Private''"

section \<open>Decimal numerals\<close>

lemma itoa_nonempty [simp]: "itoa n \<noteq> []"
  by (subst itoa.simps) simp

lemma digit_not_hyphen: "d < 10 \<Longrightarrow> char_of (48 + d :: nat) \<noteq> CHR ''-''"
proof -
  assume "d < 10"
  then have "of_char (char_of (48 + d :: nat)) \<noteq> (of_char CHR ''-'' :: nat)" by simp
  then show ?thesis by metis
qed

lemma itoa_no_hyphen: "CHR ''-'' \<notin> set (itoa n)"
proof (induction n rule: itoa.induct)
  case (1 n)
  have "char_of (48 + n mod 10 :: nat) \<noteq> CHR ''-''" by (rule digit_not_hyphen) simp
  then show ?case
    using 1 digit_not_hyphen [of n] by (cases "n < 10") (auto simp: itoa.simps [of n])
qed

lemma itoa_digits: "c \<in> set (itoa n) \<Longrightarrow> 48 \<le> (of_char c :: nat) \<and> (of_char c :: nat) < 58"
proof (induction n rule: itoa.induct)
  case (1 n)
  have "48 + n mod 10 < 58" by simp
  with 1 show ?case by (cases "n < 10") (auto simp: itoa.simps [of n])
qed

text \<open>Reading the digits back: the numeral determines the number.\<close>

definition digits_value :: "string \<Rightarrow> nat" where
  "digits_value s = foldl (\<lambda>v c. 10 * v + (of_char c - 48)) 0 s"

lemma digits_value_itoa: "digits_value (itoa n) = n"
proof (induction n rule: itoa.induct)
  case (1 n)
  then show ?case
    by (cases "n < 10") (auto simp: itoa.simps [of n] digits_value_def)
qed

lemma itoa_inj: "itoa m = itoa n \<longleftrightarrow> m = n"
  by (metis digits_value_itoa)

section \<open>The last segment of a name\<close>

text \<open>The part of a name after its last hyphen, reversed.\<close>

definition last_segment :: "string \<Rightarrow> string" where
  "last_segment s = takeWhile (\<lambda>c. c \<noteq> CHR ''-'') (rev s)"

lemma last_segment_hyphen: "last_segment (b @ CHR ''-'' # s) = last_segment s"
  by (auto simp: last_segment_def takeWhile_append takeWhile_eq_all_conv [THEN iffD2])

lemma last_segment_plain: "CHR ''-'' \<notin> set s \<Longrightarrow> last_segment s = rev s"
  by (auto simp: last_segment_def takeWhile_eq_all_conv)

lemma last_segment_rt_inj: "last_segment (rt_string rt) = last_segment (rt_string rt') \<Longrightarrow> rt = rt'"
  by (cases rt; cases rt') (simp_all add: last_segment_def)

section \<open>Shape of the default names\<close>

lemma length_trim_hyphens: "length (trim_hyphens s) \<le> length s"
  unfolding trim_hyphens_def by (metis length_rev length_dropWhile_le)

lemma ResourceName_cases:
  assumes "ResourceName c rt q = Some n"
  obtains b where "n = b @ CHR ''-'' # name_suffix rt q"
    and "length b + 1 + length (name_suffix rt q) \<le> 63" and "take (length b) c = b"
proof -
  let ?m = "resourceNameMaxLen - int (length (name_suffix rt q)) - 1"
  let ?t = "trim_hyphens (take (nat ?m) c)"
  show ?thesis
  proof (cases "int (length c) > ?m")
    case True
    with assms have m: "0 \<le> ?m" and n: "n = ?t @ CHR ''-'' # name_suffix rt q"
      by (auto simp: ResourceName_def Let_def split: if_splits)
    have l: "length ?t \<le> nat ?m"
      using length_trim_hyphens [of "take (nat ?m) c"] by simp
    have "take (length ?t) (take (nat ?m) c) = ?t"
      unfolding trim_hyphens_def
      by (metis append_eq_conv_conj rev_append rev_rev_ident takeWhile_dropWhile_id)
    then have "take (length ?t) c = ?t" using l by (simp add: min_def)
    with n l m show ?thesis by (intro that [of ?t]) (auto simp: resourceNameMaxLen_def)
  next
    case False
    with assms show ?thesis
      by (intro that [of c]) (auto simp: ResourceName_def Let_def resourceNameMaxLen_def)
  qed
qed

lemma ResourceName_None: "ResourceName c rt q = None \<longleftrightarrow> 62 < length (name_suffix rt q)"
  by (auto simp: ResourceName_def Let_def resourceNameMaxLen_def)

lemma name_suffix_unqualified [simp]: "name_suffix rt [] = rt_string rt"
  by (simp add: name_suffix_def)

lemma rt_string_length: "length (rt_string rt) \<le> 20"
  by (cases rt) simp_all

lemma ResourceName_unqualified: "\<exists>n. ResourceName c rt [] = Some n"
  using ResourceName_None [of c rt "[]"] rt_string_length [of rt]
  by (cases "ResourceName c rt []") auto

lemma last_segment_ResourceName:
  assumes "ResourceName c rt q = Some n"
  shows "last_segment n = last_segment (name_suffix rt q)"
  using assms by (auto elim!: ResourceName_cases simp: last_segment_hyphen)

lemma last_segment_qualified:
  assumes "ResourceName c rt q = Some n" and "q \<noteq> []" and "CHR ''-'' \<notin> set q"
  shows "last_segment n = rev q"
  using assms
  by (simp add: last_segment_ResourceName name_suffix_def last_segment_hyphen last_segment_plain)

text \<open>
  a default name never exceeds IBM Cloud's 63 characters, ends in the resource type (and
  the qualifier), and what precedes the separator is a prefix of the cluster name: truncation
  takes characters from the cluster name only. The function panics exactly when the suffix
  leaves no room for the separator.
\<close>

theorem ResourceName_shape:
  "case ResourceName c rt q of
     None \<Rightarrow> 62 < length (name_suffix rt q)
   | Some n \<Rightarrow> length n \<le> 63 \<and>
       (\<exists>b. n = b @ ''-'' @ name_suffix rt q \<and> take (length b) c = b \<and>
            (b = c \<or> 63 < length c + 1 + length (name_suffix rt q)))"
proof (cases "ResourceName c rt q")
  case None
  then show ?thesis using ResourceName_None [of c rt q] by simp
next
  case (Some n)
  then obtain b where b: "n = b @ CHR ''-'' # name_suffix rt q"
    "length b + 1 + length (name_suffix rt q) \<le> 63" "take (length b) c = b"
    by (rule ResourceName_cases)
  moreover have "b = c \<or> 63 < length c + 1 + length (name_suffix rt q)"
    using Some b(1) by (auto simp: ResourceName_def Let_def resourceNameMaxLen_def split: if_splits)
  ultimately show ?thesis using Some by auto
qed

text \<open>
  Default names of different resource types never coincide, not even across clusters, so
  truncation cannot make two kinds of resources indistinguishable.
\<close>

theorem ResourceName_types_distinct:
  assumes "ResourceName c rt [] = Some n" and "ResourceName c' rt' [] = Some n"
  shows "rt = rt'"
  using assms [THEN last_segment_ResourceName] by (simp add: last_segment_rt_inj)

theorem ResourceName_types_distinct_witness:
  "{rt'. \<exists>c'. ResourceName c' rt' [] = Some ''demo-vpc''} = {ResourceTypeVPC}"
proof -
  have "ResourceName ''demo'' ResourceTypeVPC [] = Some ''demo-vpc''"
    by (simp add: ResourceName_def name_suffix_def resourceNameMaxLen_def)
  then show ?thesis using ResourceName_types_distinct by blast
qed

text \<open>
  The names of the indexed resources of a cluster (subnets and load balancers without a
  name of their own) are pairwise distinct, however long the cluster name is.
\<close>

theorem ResourceName_index_distinct:
  assumes "ResourceName c rt (itoa i) = Some n" and "ResourceName c' rt (itoa j) = Some n"
  shows "i = j"
  using assms [THEN last_segment_qualified] by (simp add: itoa_no_hyphen itoa_inj)

theorem ResourceName_index_distinct_witness:
  "\<exists>n. {j. \<exists>c'. ResourceName c' ResourceTypeSubnet (itoa j) = Some n} = {12}"
proof -
  have "length (name_suffix ResourceTypeSubnet (itoa 12)) \<le> 62"
    by (simp add: name_suffix_def itoa.simps)
  then obtain n where "ResourceName (replicate 60 CHR ''a'') ResourceTypeSubnet (itoa 12) = Some n"
    by (metis ResourceName_None not_le option.exhaust)
  then have "{j. \<exists>c'. ResourceName c' ResourceTypeSubnet (itoa j) = Some n} = {12}" using ResourceName_index_distinct by blast
  then show ?thesis ..
qed

end
