(* ===== verification/Cloud_Clients.thy ===== *)
theory Cloud_Clients
  imports PowerVS_Types
begin

text \<open>
  The interfaces the PowerVS scopes are written against (\<^verbatim>\<open>pkg/cloud/services/*\<close>, the
  controller-runtime client and the region tables of \<^verbatim>\<open>powervs-utils\<close>). What stands behind
  them is not part of this repository, so it is a parameter: the record \<open>clients\<close> holds, for
  every method the scopes call, a function from the history of calls made so far and the
  arguments to the reply. Nothing is assumed about these functions, so a theorem about a
  procedure quantifies over every behaviour of the cloud, also one that changes between calls
  or contradicts itself; facts a theorem relies on appear as its hypotheses.

  Every call is recorded in the \<open>trace\<close> of the world, with the request it carries. The SDK
  objects are records with the fields the code reads; pointer fields are \<open>option\<close>s.
\<close>

section \<open>Objects of the cloud SDKs\<close>

record ResourceGroup =
  rg_ID :: "string option"
  rg_Name :: "string option"

record ResourceInstance =
  ri_GUID :: "string option"
  ri_Name :: "string option"
  ri_State :: "string option"
  ri_CRN :: "string option"
  ri_RegionID :: "string option"

record Network =
  net_NetworkID :: "string option"
  net_Name :: "string option"

record DHCPServerNetwork =
  dhcpnet_ID :: "string option"
  dhcpnet_Name :: "string option"

record DHCPServerSummary =
  dhcp_ID :: "string option"
  dhcp_Network :: "DHCPServerNetwork option"

record DHCPServerDetail =
  dhcpd_ID :: "string option"
  dhcpd_Status :: "string option"

record Datacenter =
  dc_Capabilities :: "(string \<times> bool) list option"

record TransitGateway =
  tg_ID :: "string option"
  tg_Name :: "string option"
  tg_Status :: "string option"

record TransitGatewayConnectionCust =
  conn_ID :: "string option"
  conn_Name :: "string option"
  conn_Status :: "string option"
  conn_NetworkType :: "string option"
  conn_NetworkID :: "string option"

record VPC =
  vpc_ID :: "string option"
  vpc_Name :: "string option"
  vpc_Status :: "string option"
  vpc_CRN :: "string option"
  vpc_DefaultSecurityGroup :: "string option option"  \<comment> \<open>the reference, and its ID\<close>

record Subnet =
  subnet_ID :: "string option"
  subnet_Name :: "string option"
  subnet_Status :: "string option"
  subnet_Zone :: "string option option"               \<comment> \<open>the zone reference, and its name\<close>
  subnet_Ipv4CIDRBlock :: "string option"

record LoadBalancer =
  lb_ID :: "string option"
  lb_Name :: "string option"
  lb_ProvisioningStatus :: "string option"
  lb_Hostname :: "string option"

record SecurityGroup =
  sg_ID :: "string option"
  sg_Name :: "string option"
  sg_CRN :: "string option"

text \<open>The dynamic types behind \<open>SecurityGroupRuleIntf\<close>, each with its \<open>ID\<close>.\<close>

datatype SecurityGroupRuleIntf =
    SGRuleProtocolAny "string option"
  | SGRuleProtocolIcmptcpudp "string option"
  | SGRuleProtocolTcpudp "string option"
  | SGRuleProtocolIcmp "string option"
  | SGRuleProtocolIndividual "string option"
  | SGRuleOther

text \<open>The value of the property \<open>cos_hmac_keys\<close>: nil, a map (two fields of it), or another type.\<close>

datatype hmac_property = HmacNil | HmacMap "string option" "string option" | HmacOtherType

record ResourceKey =
  rk_Credentials :: "hmac_property option"

section \<open>Requests\<close>

record InstanceFilter =
  filter_ID :: string
  filter_Name :: string
  filter_ResourceID :: string
  filter_ResourcePlanID :: string
  filter_Zone :: "string option"

record CreateResourceInstanceOptions =
  cri_Name :: string
  cri_Target :: string
  cri_ResourceGroup :: string
  cri_ResourcePlanID :: string

record CreateResourceKeyOptions =
  crk_Name :: string
  crk_Source :: string
  crk_HMAC :: bool

record DHCPServerCreate =
  dsc_Name :: string
  dsc_Cidr :: "string option"
  dsc_DNSServer :: "string option"
  dsc_SnatEnabled :: bool

record CreateTransitGatewayOptions =
  ctg_Location :: "string option"
  ctg_Name :: string
  ctg_Global :: bool
  ctg_ResourceGroup :: string

record CreateTransitGatewayConnectionOptions =
  ctc_TransitGatewayID :: "string option"
  ctc_NetworkType :: string
  ctc_NetworkID :: "string option"
  ctc_Name :: string

record CreateVPCOptions =
  cvpc_ResourceGroup :: string
  cvpc_Name :: string
  cvpc_AddressPrefixManagement :: string

record SubnetPrototype =
  sp_IPVersion :: string
  sp_TotalIpv4AddressCount :: int
  sp_Name :: string
  sp_VPC :: string
  sp_Zone :: string
  sp_ResourceGroup :: string

record SecurityGroupRuleRemotePrototype =
  rrp_CIDRBlock :: "string option"
  rrp_Address :: "string option"
  rrp_CRN :: "string option"

record SecurityGroupRulePrototype =
  srp_Direction :: string
  srp_Protocol :: string
  srp_IPVersion :: "string option"
  srp_PortMin :: "int option"
  srp_PortMax :: "int option"
  srp_Remote :: "SecurityGroupRuleRemotePrototype option"

record CreateSecurityGroupOptions =
  csg_VPC :: string
  csg_Name :: string
  csg_ResourceGroup :: string

record HealthMonitorPrototype =
  hmp_Delay :: int
  hmp_MaxRetries :: int
  hmp_Timeout :: int
  hmp_Type :: string

record PoolPrototype =
  pool_Algorithm :: string
  pool_HealthMonitor :: HealthMonitorPrototype
  pool_Name :: string
  pool_Protocol :: string

record ListenerPrototype =
  listener_Protocol :: string
  listener_Port :: int
  listener_DefaultPool :: string

record CreateLoadBalancerOptions =
  clb_IsPublic :: bool
  clb_Name :: string
  clb_ResourceGroup :: string
  clb_Subnets :: "string list"
  clb_Pools :: "PoolPrototype list"
  clb_Listeners :: "ListenerPrototype list"

text \<open>The Kubernetes Secret that carries the HMAC credential.\<close>

record Secret =
  secret_Name :: string
  secret_Namespace :: string
  secret_OwnerName :: string
  secret_OwnerUID :: string
  secret_AccessKeyID :: string
  secret_SecretAccessKey :: string

section \<open>Calls\<close>

datatype rm_call = GetResourceGroup_call string | ListResourceGroups_call string string

datatype rc_call =
    GetResourceInstance_call string
  | GetResourceInstanceByFilter_call InstanceFilter
  | CreateResourceInstance_call CreateResourceInstanceOptions
  | DeleteResourceInstance_call string bool
  | CreateResourceKey_call CreateResourceKeyOptions

datatype pvs_call =
    GetDatacenterDetails_call string
  | GetNetworkByID_call string
  | GetNetworkByName_call string
  | ListDHCPServers_call
  | GetDHCPServer_call string
  | CreateDHCPServer_call DHCPServerCreate
  | DeleteDHCPServer_call string

datatype tg_call =
    GetTransitGateway_call string
  | GetTransitGatewayByName_call string
  | CreateTransitGateway_call CreateTransitGatewayOptions
  | ListTransitGatewayConnections_call "string option"
  | CreateTransitGatewayConnection_call CreateTransitGatewayConnectionOptions
  | GetTransitGatewayConnection_call "string option" string
  | DeleteTransitGatewayConnection_call "string option" string
  | DeleteTransitGateway_call string

datatype vpc_call =
    GetVPC_call string
  | GetVPCByName_call string
  | CreateVPC_call CreateVPCOptions
  | DeleteVPC_call "string option"
  | GetSubnet_call string
  | GetVPCSubnetByName_call string
  | CreateSubnet_call SubnetPrototype
  | DeleteSubnet_call "string option"
  | GetLoadBalancer_call string
  | GetLoadBalancerByName_call string
  | CreateLoadBalancer_call CreateLoadBalancerOptions
  | DeleteLoadBalancer_call string
  | GetSecurityGroup_call "string option"
  | GetSecurityGroupByName_call string
  | CreateSecurityGroup_call CreateSecurityGroupOptions
  | DeleteSecurityGroup_call string
  | CreateSecurityGroupRule_call string SecurityGroupRulePrototype

datatype cos_call = GetBucketByName_call string | CreateBucket_call string

datatype k8s_call =
    GetSecret_call string string
  | CreateSecret_call Secret
  | DeleteSecret_call string string
  | ListImages_call string string
  | DeleteImage_call string

datatype call =
    GetAuthenticator_call
  | GetAccount_call
  | GetCOSClient_call string string
  | RM rm_call
  | RC rc_call
  | PVS pvs_call
  | TG tg_call
  | VPCC vpc_call
  | COS cos_call
  | K8S k8s_call

text \<open>
  Calls that create or delete a resource of the cloud. Storing a Secret in the management
  cluster is not one of them, building a client neither.
\<close>

fun creates :: "call \<Rightarrow> bool" where
  "creates (RC (CreateResourceInstance_call _)) = True"
| "creates (RC (CreateResourceKey_call _)) = True"
| "creates (PVS (CreateDHCPServer_call _)) = True"
| "creates (TG (CreateTransitGateway_call _)) = True"
| "creates (TG (CreateTransitGatewayConnection_call _)) = True"
| "creates (VPCC (CreateVPC_call _)) = True"
| "creates (VPCC (CreateSubnet_call _)) = True"
| "creates (VPCC (CreateLoadBalancer_call _)) = True"
| "creates (VPCC (CreateSecurityGroup_call _)) = True"
| "creates (VPCC (CreateSecurityGroupRule_call _ _)) = True"
| "creates (COS (CreateBucket_call _)) = True"
| "creates _ = False"

fun deletes :: "call \<Rightarrow> bool" where
  "deletes (RC (DeleteResourceInstance_call _ _)) = True"
| "deletes (PVS (DeleteDHCPServer_call _)) = True"
| "deletes (TG (DeleteTransitGateway_call _)) = True"
| "deletes (TG (DeleteTransitGatewayConnection_call _ _)) = True"
| "deletes (VPCC (DeleteVPC_call _)) = True"
| "deletes (VPCC (DeleteSubnet_call _)) = True"
| "deletes (VPCC (DeleteLoadBalancer_call _)) = True"
| "deletes (VPCC (DeleteSecurityGroup_call _)) = True"
| "deletes _ = False"

section \<open>Clients\<close>

type_synonym history = "call list"

record rm_client =
  on_GetResourceGroup :: "history \<Rightarrow> string \<Rightarrow> ResourceGroup option reply"
  on_ListResourceGroups :: "history \<Rightarrow> string \<Rightarrow> string \<Rightarrow> ResourceGroup list option reply"

record rc_client =
  on_GetResourceInstance :: "history \<Rightarrow> string \<Rightarrow> ResourceInstance option reply"
  on_GetResourceInstanceByFilter :: "history \<Rightarrow> InstanceFilter \<Rightarrow> ResourceInstance option reply"
  on_CreateResourceInstance :: "history \<Rightarrow> CreateResourceInstanceOptions \<Rightarrow> ResourceInstance option reply"
  on_DeleteResourceInstance :: "history \<Rightarrow> string \<Rightarrow> bool \<Rightarrow> unit reply"
  on_CreateResourceKey :: "history \<Rightarrow> CreateResourceKeyOptions \<Rightarrow> ResourceKey option reply"

record pvs_client =
  on_GetDatacenterDetails :: "history \<Rightarrow> string \<Rightarrow> Datacenter option reply"
  on_GetNetworkByID :: "history \<Rightarrow> string \<Rightarrow> Network option reply"
  on_GetNetworkByName :: "history \<Rightarrow> string \<Rightarrow> Network option reply"
  on_ListDHCPServers :: "history \<Rightarrow> DHCPServerSummary option list reply"
  on_GetDHCPServer :: "history \<Rightarrow> string \<Rightarrow> DHCPServerDetail option reply"
  on_CreateDHCPServer :: "history \<Rightarrow> DHCPServerCreate \<Rightarrow> DHCPServerSummary option reply"
  on_DeleteDHCPServer :: "history \<Rightarrow> string \<Rightarrow> unit reply"

record tg_client =
  on_GetTransitGateway :: "history \<Rightarrow> string \<Rightarrow> TransitGateway option reply"
  on_GetTransitGatewayByName :: "history \<Rightarrow> string \<Rightarrow> TransitGateway option reply"
  on_CreateTransitGateway :: "history \<Rightarrow> CreateTransitGatewayOptions \<Rightarrow> TransitGateway option reply"
  on_ListTransitGatewayConnections ::
    "history \<Rightarrow> string option \<Rightarrow> TransitGatewayConnectionCust list option reply"
  on_CreateTransitGatewayConnection ::
    "history \<Rightarrow> CreateTransitGatewayConnectionOptions \<Rightarrow> TransitGatewayConnectionCust option reply"
  on_GetTransitGatewayConnection ::
    "history \<Rightarrow> string option \<Rightarrow> string \<Rightarrow> TransitGatewayConnectionCust option reply"
  on_DeleteTransitGatewayConnection :: "history \<Rightarrow> string option \<Rightarrow> string \<Rightarrow> unit reply"
  on_DeleteTransitGateway :: "history \<Rightarrow> string \<Rightarrow> unit reply"

record vpc_client =
  on_GetVPC :: "history \<Rightarrow> string \<Rightarrow> VPC option reply"
  on_GetVPCByName :: "history \<Rightarrow> string \<Rightarrow> VPC option reply"
  on_CreateVPC :: "history \<Rightarrow> CreateVPCOptions \<Rightarrow> VPC option reply"
  on_DeleteVPC :: "history \<Rightarrow> string option \<Rightarrow> unit reply"
  on_GetSubnet :: "history \<Rightarrow> string \<Rightarrow> Subnet option reply"
  on_GetVPCSubnetByName :: "history \<Rightarrow> string \<Rightarrow> Subnet option reply"
  on_CreateSubnet :: "history \<Rightarrow> SubnetPrototype \<Rightarrow> Subnet option reply"
  on_DeleteSubnet :: "history \<Rightarrow> string option \<Rightarrow> unit reply"
  on_GetLoadBalancer :: "history \<Rightarrow> string \<Rightarrow> LoadBalancer option reply"
  on_GetLoadBalancerByName :: "history \<Rightarrow> string \<Rightarrow> LoadBalancer option reply"
  on_CreateLoadBalancer :: "history \<Rightarrow> CreateLoadBalancerOptions \<Rightarrow> LoadBalancer option reply"
  on_DeleteLoadBalancer :: "history \<Rightarrow> string \<Rightarrow> unit reply"
  on_GetSecurityGroup :: "history \<Rightarrow> string option \<Rightarrow> SecurityGroup option reply"
  on_GetSecurityGroupByName :: "history \<Rightarrow> string \<Rightarrow> SecurityGroup option reply"
  on_CreateSecurityGroup :: "history \<Rightarrow> CreateSecurityGroupOptions \<Rightarrow> SecurityGroup option reply"
  on_DeleteSecurityGroup :: "history \<Rightarrow> string \<Rightarrow> unit reply"
  on_CreateSecurityGroupRule ::
    "history \<Rightarrow> string \<Rightarrow> SecurityGroupRulePrototype \<Rightarrow> SecurityGroupRuleIntf reply"

record cos_client =
  on_GetBucketByName :: "history \<Rightarrow> string \<Rightarrow> unit reply"
  on_CreateBucket :: "history \<Rightarrow> string \<Rightarrow> unit reply"

text \<open>An image object of the management cluster: of its metadata, what the controller looks at.\<close>

record OwnerReference =
  owner_APIVersion :: string
  owner_Kind :: string
  owner_Name :: string
  owner_UID :: string

record ImageObject =
  img_Name :: string
  img_OwnerReferences :: "OwnerReference list"
  img_Deleting :: bool                     \<comment> \<open>the deletion timestamp is set\<close>

record k8s_client =
  on_GetSecret :: "history \<Rightarrow> string \<Rightarrow> string \<Rightarrow> unit reply"
  on_CreateSecret :: "history \<Rightarrow> Secret \<Rightarrow> unit reply"
  on_DeleteSecret :: "history \<Rightarrow> string \<Rightarrow> string \<Rightarrow> unit reply"
  on_ListImages :: "history \<Rightarrow> string \<Rightarrow> string \<Rightarrow> ImageObject list reply"
  on_DeleteImage :: "history \<Rightarrow> string \<Rightarrow> unit reply"

text \<open>\<open>regionUtil\<close> of \<^verbatim>\<open>powervs-utils\<close>: static tables, so functions of their arguments only.\<close>

record region_util =
  VPCZonesForVPCRegion :: "string \<Rightarrow> string list reply"
  IsGlobalRoutingRequiredForTG :: "string \<Rightarrow> string \<Rightarrow> bool"
  VPCRegionForPowerVSRegion :: "string \<Rightarrow> string reply"

record clients =
  IBMPowerVSClient :: pvs_client
  IBMVPCClient :: vpc_client
  TransitGatewayClient :: tg_client
  ResourceClient :: rc_client
  ResourceManagerClient :: rm_client
  COSClientOps :: cos_client
  K8sClient :: k8s_client
  regionUtil :: region_util
  on_GetAuthenticator :: "history \<Rightarrow> unit reply"
  on_GetAccount :: "history \<Rightarrow> string reply"
  on_GetCOSClient :: "history \<Rightarrow> string \<Rightarrow> string \<Rightarrow> unit reply"

section \<open>Making a call\<close>

record world =
  trace :: history

definition api :: "(history \<Rightarrow> 'r) \<Rightarrow> call \<Rightarrow> ('w world_scheme, 'r) state" where
  "api f c = State (\<lambda>w. (f (trace w), w\<lparr>trace := trace w @ [c]\<rparr>))"

lemma wp_api [wp_simps]: "wp (api f c) Q w = Q (f (trace w)) (w\<lparr>trace := trace w @ [c]\<rparr>)"
  by (simp add: wp_def api_def)

lemma run_api [simp]: "run_state (api f c) w = (f (trace w), w\<lparr>trace := trace w @ [c]\<rparr>)"
  by (simp add: api_def)

text \<open>The methods, by their names in the Go interfaces.\<close>

abbreviation "GetResourceGroup C i \<equiv>
  api (\<lambda>h. on_GetResourceGroup (ResourceManagerClient C) h i) (RM (GetResourceGroup_call i))"
abbreviation "ListResourceGroups C n a \<equiv>
  api (\<lambda>h. on_ListResourceGroups (ResourceManagerClient C) h n a) (RM (ListResourceGroups_call n a))"

abbreviation "GetResourceInstance C i \<equiv>
  api (\<lambda>h. on_GetResourceInstance (ResourceClient C) h i) (RC (GetResourceInstance_call i))"
abbreviation "GetResourceInstanceByFilter C f \<equiv>
  api (\<lambda>h. on_GetResourceInstanceByFilter (ResourceClient C) h f) (RC (GetResourceInstanceByFilter_call f))"
abbreviation "CreateResourceInstance C r \<equiv>
  api (\<lambda>h. on_CreateResourceInstance (ResourceClient C) h r) (RC (CreateResourceInstance_call r))"
abbreviation "DeleteResourceInstance C i rec \<equiv>
  api (\<lambda>h. on_DeleteResourceInstance (ResourceClient C) h i rec) (RC (DeleteResourceInstance_call i rec))"
abbreviation "CreateResourceKey C r \<equiv>
  api (\<lambda>h. on_CreateResourceKey (ResourceClient C) h r) (RC (CreateResourceKey_call r))"

abbreviation "GetDatacenterDetails C z \<equiv>
  api (\<lambda>h. on_GetDatacenterDetails (IBMPowerVSClient C) h z) (PVS (GetDatacenterDetails_call z))"
abbreviation "GetNetworkByID C i \<equiv>
  api (\<lambda>h. on_GetNetworkByID (IBMPowerVSClient C) h i) (PVS (GetNetworkByID_call i))"
abbreviation "GetNetworkByName C n \<equiv>
  api (\<lambda>h. on_GetNetworkByName (IBMPowerVSClient C) h n) (PVS (GetNetworkByName_call n))"
abbreviation "ListDHCPServers C \<equiv>
  api (\<lambda>h. on_ListDHCPServers (IBMPowerVSClient C) h) (PVS ListDHCPServers_call)"
abbreviation "GetDHCPServer C i \<equiv>
  api (\<lambda>h. on_GetDHCPServer (IBMPowerVSClient C) h i) (PVS (GetDHCPServer_call i))"
abbreviation "CreateDHCPServer C r \<equiv>
  api (\<lambda>h. on_CreateDHCPServer (IBMPowerVSClient C) h r) (PVS (CreateDHCPServer_call r))"
abbreviation "DeleteDHCPServer_api C i \<equiv>
  api (\<lambda>h. on_DeleteDHCPServer (IBMPowerVSClient C) h i) (PVS (DeleteDHCPServer_call i))"

abbreviation "GetTransitGateway C i \<equiv>
  api (\<lambda>h. on_GetTransitGateway (TransitGatewayClient C) h i) (TG (GetTransitGateway_call i))"
abbreviation "GetTransitGatewayByName C n \<equiv>
  api (\<lambda>h. on_GetTransitGatewayByName (TransitGatewayClient C) h n) (TG (GetTransitGatewayByName_call n))"
abbreviation "CreateTransitGateway C r \<equiv>
  api (\<lambda>h. on_CreateTransitGateway (TransitGatewayClient C) h r) (TG (CreateTransitGateway_call r))"
abbreviation "ListTransitGatewayConnections C i \<equiv>
  api (\<lambda>h. on_ListTransitGatewayConnections (TransitGatewayClient C) h i)
      (TG (ListTransitGatewayConnections_call i))"
abbreviation "CreateTransitGatewayConnection C r \<equiv>
  api (\<lambda>h. on_CreateTransitGatewayConnection (TransitGatewayClient C) h r)
      (TG (CreateTransitGatewayConnection_call r))"
abbreviation "GetTransitGatewayConnection C t i \<equiv>
  api (\<lambda>h. on_GetTransitGatewayConnection (TransitGatewayClient C) h t i)
      (TG (GetTransitGatewayConnection_call t i))"
abbreviation "DeleteTransitGatewayConnection C t i \<equiv>
  api (\<lambda>h. on_DeleteTransitGatewayConnection (TransitGatewayClient C) h t i)
      (TG (DeleteTransitGatewayConnection_call t i))"
abbreviation "DeleteTransitGateway_api C i \<equiv>
  api (\<lambda>h. on_DeleteTransitGateway (TransitGatewayClient C) h i) (TG (DeleteTransitGateway_call i))"

abbreviation "GetVPC C i \<equiv> api (\<lambda>h. on_GetVPC (IBMVPCClient C) h i) (VPCC (GetVPC_call i))"
abbreviation "GetVPCByName C n \<equiv>
  api (\<lambda>h. on_GetVPCByName (IBMVPCClient C) h n) (VPCC (GetVPCByName_call n))"
abbreviation "CreateVPC C r \<equiv> api (\<lambda>h. on_CreateVPC (IBMVPCClient C) h r) (VPCC (CreateVPC_call r))"
abbreviation "DeleteVPC_api C i \<equiv> api (\<lambda>h. on_DeleteVPC (IBMVPCClient C) h i) (VPCC (DeleteVPC_call i))"
abbreviation "GetSubnet C i \<equiv> api (\<lambda>h. on_GetSubnet (IBMVPCClient C) h i) (VPCC (GetSubnet_call i))"
abbreviation "GetVPCSubnetByName C n \<equiv>
  api (\<lambda>h. on_GetVPCSubnetByName (IBMVPCClient C) h n) (VPCC (GetVPCSubnetByName_call n))"
abbreviation "CreateSubnet C r \<equiv>
  api (\<lambda>h. on_CreateSubnet (IBMVPCClient C) h r) (VPCC (CreateSubnet_call r))"
abbreviation "DeleteSubnet C i \<equiv>
  api (\<lambda>h. on_DeleteSubnet (IBMVPCClient C) h i) (VPCC (DeleteSubnet_call i))"
abbreviation "GetLoadBalancer C i \<equiv>
  api (\<lambda>h. on_GetLoadBalancer (IBMVPCClient C) h i) (VPCC (GetLoadBalancer_call i))"
abbreviation "GetLoadBalancerByName C n \<equiv>
  api (\<lambda>h. on_GetLoadBalancerByName (IBMVPCClient C) h n) (VPCC (GetLoadBalancerByName_call n))"
abbreviation "CreateLoadBalancer C r \<equiv>
  api (\<lambda>h. on_CreateLoadBalancer (IBMVPCClient C) h r) (VPCC (CreateLoadBalancer_call r))"
abbreviation "DeleteLoadBalancer_api C i \<equiv>
  api (\<lambda>h. on_DeleteLoadBalancer (IBMVPCClient C) h i) (VPCC (DeleteLoadBalancer_call i))"
abbreviation "GetSecurityGroup C i \<equiv>
  api (\<lambda>h. on_GetSecurityGroup (IBMVPCClient C) h i) (VPCC (GetSecurityGroup_call i))"
abbreviation "GetSecurityGroupByName C n \<equiv>
  api (\<lambda>h. on_GetSecurityGroupByName (IBMVPCClient C) h n) (VPCC (GetSecurityGroupByName_call n))"
abbreviation "CreateSecurityGroup C r \<equiv>
  api (\<lambda>h. on_CreateSecurityGroup (IBMVPCClient C) h r) (VPCC (CreateSecurityGroup_call r))"
abbreviation "DeleteSecurityGroup C i \<equiv>
  api (\<lambda>h. on_DeleteSecurityGroup (IBMVPCClient C) h i) (VPCC (DeleteSecurityGroup_call i))"
abbreviation "CreateSecurityGroupRule C g r \<equiv>
  api (\<lambda>h. on_CreateSecurityGroupRule (IBMVPCClient C) h g r) (VPCC (CreateSecurityGroupRule_call g r))"

abbreviation "GetBucketByName C n \<equiv>
  api (\<lambda>h. on_GetBucketByName (COSClientOps C) h n) (COS (GetBucketByName_call n))"
abbreviation "CreateBucket C n \<equiv>
  api (\<lambda>h. on_CreateBucket (COSClientOps C) h n) (COS (CreateBucket_call n))"

abbreviation "GetSecret C ns n \<equiv> api (\<lambda>h. on_GetSecret (K8sClient C) h ns n) (K8S (GetSecret_call ns n))"
abbreviation "CreateSecret C x \<equiv> api (\<lambda>h. on_CreateSecret (K8sClient C) h x) (K8S (CreateSecret_call x))"
abbreviation "DeleteSecret C ns n \<equiv>
  api (\<lambda>h. on_DeleteSecret (K8sClient C) h ns n) (K8S (DeleteSecret_call ns n))"
abbreviation "ListImages C ns n \<equiv> api (\<lambda>h. on_ListImages (K8sClient C) h ns n) (K8S (ListImages_call ns n))"
abbreviation "DeleteImage C n \<equiv> api (\<lambda>h. on_DeleteImage (K8sClient C) h n) (K8S (DeleteImage_call n))"

abbreviation "GetAuthenticator C \<equiv> api (\<lambda>h. on_GetAuthenticator C h) GetAuthenticator_call"
abbreviation "GetAccount C \<equiv> api (\<lambda>h. on_GetAccount C h) GetAccount_call"
abbreviation "GetCOSClient C i r \<equiv> api (\<lambda>h. on_GetCOSClient C h i r) (GetCOSClient_call i r)"

section \<open>What a procedure may call\<close>

text \<open>The calls a run appends to the trace all satisfy \<open>A\<close>.\<close>

definition calls_in :: "(call \<Rightarrow> bool) \<Rightarrow> 'w world_scheme \<Rightarrow> 'w world_scheme \<Rightarrow> bool" where
  "calls_in A w w' \<longleftrightarrow> (\<exists>cs. trace w' = trace w @ cs \<and> list_all A cs)"

text \<open>The calls made between two states of a run.\<close>

definition new_calls :: "'w world_scheme \<Rightarrow> 'w world_scheme \<Rightarrow> call list" where
  "new_calls w w' = drop (length (trace w)) (trace w')"

interpretation calls: frame "calls_in A" for A :: "call \<Rightarrow> bool"
proof unfold_locales
  show "calls_in A s s" for s :: "'a world_scheme"
    by (auto simp: calls_in_def)
  show "calls_in A s t \<Longrightarrow> calls_in A t u \<Longrightarrow> calls_in A s u" for s t u :: "'a world_scheme"
    by (fastforce simp: calls_in_def)
qed

lemma calls_in_api: "A c \<Longrightarrow> state_io_rel (calls_in A) (api f c)"
  by (auto simp: state_io_rel_def calls_in_def)

lemma calls_in_new: "calls_in A w w' \<Longrightarrow> list_all A (new_calls w w')"
  by (auto simp: calls_in_def new_calls_def)

lemma calls_in_mono: "calls_in A w w' \<Longrightarrow> (\<And>c. A c \<Longrightarrow> B c) \<Longrightarrow> calls_in B w w'"
  by (auto simp: calls_in_def list_all_iff)

end
