(* ===== verification/Cluster_Scope.thy ===== *)
theory Cluster_Scope
  imports Resource_Name Cloud_Clients
begin

text \<open>
  The PowerVS cluster scope (\<^verbatim>\<open>pkg/cloud/scope/powervs/powervs_cluster.go\<close>): its state, the
  accessors, the associative status lists, the zone check and the resource group. A scope is
  the world extended with the cluster object it works on; the procedures of the scope change
  the status of that object and the trace of calls, nothing else.
\<close>

section \<open>Error texts\<close>

definition msg_powervs_zone_required :: string where "msg_powervs_zone_required = ''PowerVS zone is required''"
definition msg_failed_get_datacenter_details :: string where "msg_failed_get_datacenter_details = ''failed to get datacenter details''"
definition msg_failed_get_datacenter_details_zone :: string where "msg_failed_get_datacenter_details_zone = ''failed to get datacenter details for zone''"
definition msg_capability_unknown_zone :: string where "msg_capability_unknown_zone = ''capability unknown for zone''"
definition msg_not_available_zone :: string where "msg_not_available_zone = ''not available for zone''"
definition msg_resource_group_name_not_set :: string where "msg_resource_group_name_not_set = ''resource group name is not set''"
definition msg_failed_get_authenticator :: string where "msg_failed_get_authenticator = ''failed to get authenticator''"
definition msg_failed_get_account :: string where "msg_failed_get_account = ''failed to get account''"
definition msg_failed_list_resource_groups :: string where "msg_failed_list_resource_groups = ''failed to list resource groups''"
definition msg_could_not_retrieve_resource_group :: string where "msg_could_not_retrieve_resource_group = ''could not retrieve resource group ID''"
definition msg_failed_fetch_resource_group :: string where "msg_failed_fetch_resource_group = ''failed to fetch resource group''"
definition msg_resource_group_not_found :: string where "msg_resource_group_not_found = ''resource group not found''"
definition msg_failed_resolve_resource_group_id :: string where "msg_failed_resolve_resource_group_id = ''failed to resolve resource group ID by name''"

definition ResourceNotFoundCode :: int where "ResourceNotFoundCode = 404"

section \<open>State\<close>

record ClusterScope = world +
  scope_cluster :: IBMPowerVSCluster       \<comment> \<open>\<open>s.IBMPowerVSCluster\<close>\<close>
  scope_APIServerPort :: int               \<comment> \<open>\<open>s.Cluster.Spec.ClusterNetwork.APIServerPort\<close>\<close>
  scope_ClientBuilder :: bool              \<comment> \<open>\<open>s.ClientBuilder != nil\<close>\<close>
  scope_COSClient :: bool                  \<comment> \<open>\<open>s.COSClient != nil\<close>\<close>

type_synonym 'a scope_proc = "(ClusterScope, 'a) proc"

abbreviation get_scope :: "(ClusterScope, ClusterScope) state" where
  "get_scope \<equiv> State_Monad.get"

definition spec :: "ClusterScope \<Rightarrow> IBMPowerVSClusterSpec" where
  "spec s = Cluster_Spec (scope_cluster s)"

definition status :: "ClusterScope \<Rightarrow> IBMPowerVSClusterStatus" where
  "status s = Cluster_Status (scope_cluster s)"

definition upd_status :: "(IBMPowerVSClusterStatus \<Rightarrow> IBMPowerVSClusterStatus) \<Rightarrow> ClusterScope \<Rightarrow> ClusterScope" where
  "upd_status f s =
     s\<lparr>scope_cluster := (scope_cluster s)\<lparr>Cluster_Status := f (Cluster_Status (scope_cluster s))\<rparr>\<rparr>"

definition set_status :: "(IBMPowerVSClusterStatus \<Rightarrow> IBMPowerVSClusterStatus) \<Rightarrow> (ClusterScope, unit) state" where
  "set_status f = modify (upd_status f)"

text \<open>What no procedure of the scope changes: the object but for its status, and the parameters.\<close>

definition fixed_part ::
  "ClusterScope \<Rightarrow> string \<times> string \<times> string \<times> string list \<times> IBMPowerVSClusterSpec \<times> int \<times> bool" where
  "fixed_part s =
     (Cluster_Name (scope_cluster s), Cluster_Namespace (scope_cluster s), Cluster_UID (scope_cluster s),
      Cluster_Finalizers (scope_cluster s), Cluster_Spec (scope_cluster s),
      scope_APIServerPort s, scope_ClientBuilder s)"

lemma upd_status_simps [simp]:
  "status (upd_status f s) = f (status s)"
  "spec (upd_status f s) = spec s"
  "trace (upd_status f s) = trace s"
  "fixed_part (upd_status f s) = fixed_part s"
  "scope_COSClient (upd_status f s) = scope_COSClient s"
  "scope_APIServerPort (upd_status f s) = scope_APIServerPort s"
  "scope_ClientBuilder (upd_status f s) = scope_ClientBuilder s"
  "Cluster_Name (scope_cluster (upd_status f s)) = Cluster_Name (scope_cluster s)"
  "Cluster_Namespace (scope_cluster (upd_status f s)) = Cluster_Namespace (scope_cluster s)"
  "Cluster_UID (scope_cluster (upd_status f s)) = Cluster_UID (scope_cluster s)"
  by (simp_all add: status_def spec_def upd_status_def fixed_part_def)

lemma trace_upd_simps [simp]:
  "status (s\<lparr>trace := h\<rparr>) = status s"
  "spec (s\<lparr>trace := h\<rparr>) = spec s"
  "fixed_part (s\<lparr>trace := h\<rparr>) = fixed_part s"
  by (simp_all add: status_def spec_def fixed_part_def)

lemma fixed_part_spec: "fixed_part t = fixed_part s \<Longrightarrow> spec t = spec s"
  by (simp add: fixed_part_def spec_def)

lemma wp_set_status [wp_simps]: "wp (set_status f) Q s = Q () (upd_status f s)"
  unfolding set_status_def by (rule wp_modify)

lemma calls_in_set_status: "state_io_rel (calls_in A) (set_status f)"
  unfolding set_status_def by (rule calls.fr_modify) (simp add: calls_in_def)

lemma keeps_api_status: "(\<And>s h. p (s\<lparr>trace := h\<rparr>) = p s) \<Longrightarrow> state_io_rel (keeps p) (api f c)"
  by (simp add: state_io_rel_def keeps_def)

lemma keeps_set_status: "(\<And>s. p (upd_status f s) = p s) \<Longrightarrow> state_io_rel (keeps p) (set_status f)"
  unfolding set_status_def by (rule keeps.fr_modify) (simp add: keeps_def)

lemma preserves_api: "(\<And>s h. I (s\<lparr>trace := h\<rparr>) = I s) \<Longrightarrow> state_io_rel (preserves I) (api f c)"
  by (simp add: state_io_rel_def preserves_def)

lemma preserves_set_status: "(\<And>s. I s \<Longrightarrow> I (upd_status f s)) \<Longrightarrow> state_io_rel (preserves I) (set_status f)"
  unfolding set_status_def by (rule preserves.fr_modify) (simp add: preserves_def)

text \<open>The rules that walk through a procedure: \<open>frame_calls\<close> for its calls, \<open>frame_keeps\<close> for a projection.\<close>

context frame
begin

lemma fr_case_SourceType:
  "state_io_rel R a \<Longrightarrow> state_io_rel R b \<Longrightarrow> (\<And>x. state_io_rel R (f x)) \<Longrightarrow>
   state_io_rel R (case t of SourceTypeReference \<Rightarrow> a | SourceTypeProvision \<Rightarrow> b | OtherSourceType x \<Rightarrow> f x)"
  by (cases t) simp_all

lemma fr_case_list:
  "state_io_rel R a \<Longrightarrow> (\<And>x xs. state_io_rel R (f x xs)) \<Longrightarrow>
   state_io_rel R (case l of [] \<Rightarrow> a | x # xs \<Rightarrow> f x xs)"
  by (cases l) simp_all

end

lemma wp_case_SourceType [wp_simps]:
  "wp (case t of SourceTypeReference \<Rightarrow> a | SourceTypeProvision \<Rightarrow> b | OtherSourceType x \<Rightarrow> f x) Q s =
   ((t = SourceTypeReference \<longrightarrow> wp a Q s) \<and> (t = SourceTypeProvision \<longrightarrow> wp b Q s) \<and>
    (\<forall>x. t = OtherSourceType x \<longrightarrow> wp (f x) Q s))"
  by (cases t) (simp_all only: SourceType.case SourceType.simps simp_thms)

text \<open>
  The calls allowed from a state on: the fixed part of the scope and a projection \<open>p\<close> of it are as
  at the start, and every call made since satisfies \<open>A\<close>. Its rules keep the conditions of the
  branches, so the condition under which a call is made can be read off.
\<close>

definition within :: "(ClusterScope \<Rightarrow> 'p) \<Rightarrow> (call \<Rightarrow> bool) \<Rightarrow> ClusterScope \<Rightarrow> ClusterScope \<Rightarrow> bool" where
  "within p A s t \<longleftrightarrow> fixed_part t = fixed_part s \<and> p t = p s \<and> calls_in A s t"

interpretation within: frame "within p A" for p A
  by unfold_locales (auto simp: within_def intro: calls.R_refl calls.R_trans)

lemma within_api:
  "A c \<Longrightarrow> (\<And>s h. p (s\<lparr>trace := h\<rparr>) = p s) \<Longrightarrow> within p A s0 s \<Longrightarrow> wp (api f c) (\<lambda>_ t. within p A s0 t) s"
  by (auto simp: wp_api within_def calls_in_def)

lemma within_set_status:
  "(\<And>s. p (upd_status f s) = p s) \<Longrightarrow> within p A s0 s \<Longrightarrow> wp (set_status f) (\<lambda>_ t. within p A s0 t) s"
  by (simp add: wp_set_status within_def calls_in_def)

lemma within_case_SourceType:
  "(t = SourceTypeReference \<Longrightarrow> wp a (\<lambda>_ t. within p A s0 t) s) \<Longrightarrow>
   (t = SourceTypeProvision \<Longrightarrow> wp b (\<lambda>_ t. within p A s0 t) s) \<Longrightarrow>
   (\<And>x. t = OtherSourceType x \<Longrightarrow> wp (f x) (\<lambda>_ t. within p A s0 t) s) \<Longrightarrow>
   wp (case t of SourceTypeReference \<Rightarrow> a | SourceTypeProvision \<Rightarrow> b | OtherSourceType x \<Rightarrow> f x)
     (\<lambda>_ t. within p A s0 t) s"
  by (cases t) simp_all

lemmas within_rules = within.fw_rules within_api within_set_status within_case_SourceType

lemma within_start: "(within p A s s \<Longrightarrow> wp m (\<lambda>_ t. within p A s t) s) \<Longrightarrow> wp m (\<lambda>_ t. within p A s t) s"
  by (simp add: within.R_refl)

lemma within_spec: "within p A s0 s \<Longrightarrow> spec s = spec s0"
  by (simp add: within_def fixed_part_def spec_def)

lemma within_forget: "within p A s t \<Longrightarrow> within (\<lambda>_. ()) A s t"
  by (simp add: within_def)

lemma within_new_calls: "wp m (\<lambda>_ t. within p A s t) s \<Longrightarrow> run_state m s = (r, t) \<Longrightarrow> c \<in> set (new_calls s t) \<Longrightarrow> A c"
  by (auto dest!: wpD calls_in_new simp: within_def list_all_iff)

text \<open>
  The contract of a step of the controller: the calls \<open>L sp\<close> it may make on a cluster with spec
  \<open>sp\<close>. A client that allows at least those calls may run the step anywhere: this is how the
  controllers are shown to touch only what the spec says they own.
\<close>

locale scope_contract =
  fixes m :: "'a scope_proc" and L :: "IBMPowerVSClusterSpec \<Rightarrow> call \<Rightarrow> bool"
  assumes allowed: "wp m (\<lambda>_ t. within (\<lambda>_. ()) (L (spec s)) s t) s"
begin

lemma run_within:
  assumes "\<And>c. L (spec s0) c \<Longrightarrow> A c" and "within (\<lambda>_. ()) A s0 s"
  shows "wp m (\<lambda>_ t. within (\<lambda>_. ()) A s0 t) s"
proof (rule wp_mono [OF allowed])
  fix t assume "within (\<lambda>_. ()) (L (spec s)) s t"
  then have "within (\<lambda>_. ()) A s t"
    using assms within_spec [OF assms(2)] unfolding within_def by (metis calls_in_mono)
  then show "within (\<lambda>_. ()) A s0 t" by (rule within.R_trans [OF assms(2)])
qed

lemma keeps_fixed: "state_io_rel (keeps fixed_part) m"
  using wp_result [OF allowed] by (simp add: state_io_rel_def keeps_def within_def)

end

lemmas frame_calls = calls.fr_rules calls.fr_case_SourceType calls.fr_case_list calls_in_api calls_in_set_status
lemmas frame_keeps = keeps.fr_rules keeps.fr_case_SourceType keeps.fr_case_list keeps_api_status keeps_set_status

lemmas frame_preserves = preserves.fr_rules preserves.fr_case_SourceType preserves.fr_case_list preserves_api preserves_set_status

section \<open>Accessors\<close>

definition Zone :: "ClusterScope \<Rightarrow> string" where
  "Zone s = Spec_Zone (spec s)"

definition InfraCluster :: "ClusterScope \<Rightarrow> string" where
  "InfraCluster s = Cluster_Name (scope_cluster s)"

definition GetResourceGroupID :: "ClusterScope \<Rightarrow> string" where
  "GetResourceGroupID s =
     (let r = ResourceGroupSource_Reference (Spec_ResourceGroup (spec s))
      in if ResourceIdentifier_ID r \<noteq> [] then ResourceIdentifier_ID r
         else ResourceReference_ID (Status_ResourceGroup (status s)))"

definition ResourceGroupName :: "ClusterScope \<Rightarrow> string" where
  "ResourceGroupName s =
     (if ResourceReference_Name (Status_ResourceGroup (status s)) \<noteq> []
      then ResourceReference_Name (Status_ResourceGroup (status s))
      else ResourceIdentifier_Name (ResourceGroupSource_Reference (Spec_ResourceGroup (spec s))))"

definition APIServerPort :: "ClusterScope \<Rightarrow> int" where
  "APIServerPort s = (if scope_APIServerPort s > 0 then scope_APIServerPort s else DefaultAPIServerPort)"

lemma accessor_simps [simp]:
  "Zone (s\<lparr>trace := h\<rparr>) = Zone s" "Zone (upd_status f s) = Zone s"
  "InfraCluster (s\<lparr>trace := h\<rparr>) = InfraCluster s" "InfraCluster (upd_status f s) = InfraCluster s"
  "APIServerPort (s\<lparr>trace := h\<rparr>) = APIServerPort s" "APIServerPort (upd_status f s) = APIServerPort s"
  "GetResourceGroupID (s\<lparr>trace := h\<rparr>) = GetResourceGroupID s"
  "ResourceGroupName (s\<lparr>trace := h\<rparr>) = ResourceGroupName s"
  by (simp_all add: Zone_def InfraCluster_def APIServerPort_def GetResourceGroupID_def ResourceGroupName_def
      Let_def)

fun GetLoadBalancerID :: "LoadBalancerStatus list \<Rightarrow> string \<Rightarrow> string" where
  "GetLoadBalancerID [] name = []"
| "GetLoadBalancerID (lb # lbs) name =
     (if LoadBalancerStatus_Name lb = name then LoadBalancerStatus_ID lb else GetLoadBalancerID lbs name)"

section \<open>The associative status lists\<close>

fun SetLoadBalancerStatus :: "string \<Rightarrow> LoadBalancerStatus \<Rightarrow> LoadBalancerStatus list \<Rightarrow> LoadBalancerStatus list" where
  "SetLoadBalancerStatus name st [] = [st]"
| "SetLoadBalancerStatus name st (current # rest) =
     (if LoadBalancerStatus_Name current = name then st # rest
      else current # SetLoadBalancerStatus name st rest)"

fun updateSubnetStatusList :: "VPCSubnetStatus \<Rightarrow> VPCSubnetStatus list \<Rightarrow> VPCSubnetStatus list" where
  "updateSubnetStatusList st [] = [st]"
| "updateSubnetStatusList st (existing # rest) =
     (if VPCSubnetStatus_Name existing = VPCSubnetStatus_Name st then st # rest
      else existing # updateSubnetStatusList st rest)"

text \<open>
  The contract of an associative list with a key (the lists Kubernetes merges by name under
  server-side apply): storing an entry makes it the one found under its key, leaves the
  entries under other keys alone and keeps the order of the keys.
\<close>

locale keyed_list =
  fixes key :: "'a \<Rightarrow> 'k" and put :: "'a \<Rightarrow> 'a list \<Rightarrow> 'a list"
  assumes put_keys: "map key (put x xs) =
      (if key x \<in> key ` set xs then map key xs else map key xs @ [key x])"
    and put_found: "find (\<lambda>y. key y = key x) (put x xs) = Some x"
    and put_other: "k \<noteq> key x \<Longrightarrow> find (\<lambda>y. key y = k) (put x xs) = find (\<lambda>y. key y = k) xs"
begin

lemma put_distinct: "distinct (map key xs) \<Longrightarrow> distinct (map key (put x xs))"
  by (auto simp: put_keys)

lemma put_key_set: "key ` set (put x xs) = insert (key x) (key ` set xs)"
proof -
  have "set (map key (put x xs)) = insert (key x) (set (map key xs))"
    by (auto simp: put_keys)
  then show ?thesis by simp
qed

lemma put_nonempty: "put x xs \<noteq> []"
  using put_found [of x xs] by auto

text \<open>Storing a sequence of entries, as a reconcile loop does.\<close>

lemma fold_put_distinct: "distinct (map key xs) \<Longrightarrow> distinct (map key (fold put ys xs))"
  by (induction ys arbitrary: xs) (simp_all add: put_distinct)

lemma fold_put_keys: "key ` set (fold put ys xs) = key ` set xs \<union> key ` set ys"
  by (induction ys arbitrary: xs) (auto simp: put_key_set)

end

interpretation subnets: keyed_list VPCSubnetStatus_Name updateSubnetStatusList
proof unfold_locales
  fix x :: VPCSubnetStatus and xs k
  show "map VPCSubnetStatus_Name (updateSubnetStatusList x xs) =
      (if VPCSubnetStatus_Name x \<in> VPCSubnetStatus_Name ` set xs
       then map VPCSubnetStatus_Name xs else map VPCSubnetStatus_Name xs @ [VPCSubnetStatus_Name x])"
    by (induction xs) auto
  show "find (\<lambda>y. VPCSubnetStatus_Name y = VPCSubnetStatus_Name x) (updateSubnetStatusList x xs) = Some x"
    by (induction xs) auto
  show "k \<noteq> VPCSubnetStatus_Name x \<Longrightarrow>
      find (\<lambda>y. VPCSubnetStatus_Name y = k) (updateSubnetStatusList x xs) =
      find (\<lambda>y. VPCSubnetStatus_Name y = k) xs"
    by (induction xs) auto
qed

interpretation lbs: keyed_list LoadBalancerStatus_Name "\<lambda>x. SetLoadBalancerStatus (LoadBalancerStatus_Name x) x"
proof unfold_locales
  fix x :: LoadBalancerStatus and xs k
  show "map LoadBalancerStatus_Name (SetLoadBalancerStatus (LoadBalancerStatus_Name x) x xs) =
      (if LoadBalancerStatus_Name x \<in> LoadBalancerStatus_Name ` set xs
       then map LoadBalancerStatus_Name xs else map LoadBalancerStatus_Name xs @ [LoadBalancerStatus_Name x])"
    by (induction xs) auto
  show "find (\<lambda>y. LoadBalancerStatus_Name y = LoadBalancerStatus_Name x)
      (SetLoadBalancerStatus (LoadBalancerStatus_Name x) x xs) = Some x"
    by (induction xs) auto
  show "k \<noteq> LoadBalancerStatus_Name x \<Longrightarrow>
      find (\<lambda>y. LoadBalancerStatus_Name y = k) (SetLoadBalancerStatus (LoadBalancerStatus_Name x) x xs) =
      find (\<lambda>y. LoadBalancerStatus_Name y = k) xs"
    by (induction xs) auto
qed

lemma GetLoadBalancerID_find:
  "GetLoadBalancerID xs n =
     (case find (\<lambda>y. LoadBalancerStatus_Name y = n) xs of None \<Rightarrow> [] | Some lb \<Rightarrow> LoadBalancerStatus_ID lb)"
  by (induction xs) auto

section \<open>The zone and the resource group\<close>

definition powerEdgeRouter :: string where "powerEdgeRouter = ''power-edge-router''"

definition ValidateZoneSupportsPER :: "clients \<Rightarrow> unit scope_proc" where
  "ValidateZoneSupportsPER C = do {
     s \<leftarrow> get_scope;
     let zone = Spec_Zone (spec s);
     if zone = [] then fail (Errorf msg_powervs_zone_required)
     else do {
       r \<leftarrow> GetDatacenterDetails C zone;
       case r of
         Fail e _ \<Rightarrow> fail (Wrapf msg_failed_get_datacenter_details e)
       | Reply None \<Rightarrow> fail (Errorf msg_failed_get_datacenter_details_zone)
       | Reply (Some d) \<Rightarrow>
           (case dc_Capabilities d of
              None \<Rightarrow> fail (Errorf msg_failed_get_datacenter_details_zone)
            | Some caps \<Rightarrow>
                (case map_of caps powerEdgeRouter of
                   None \<Rightarrow> fail (Errorf msg_capability_unknown_zone)
                 | Some perAvailable \<Rightarrow>
                     if perAvailable then ok () else fail (Errorf msg_not_available_zone)))
     } }"

definition resolveResourceGroupIDByName :: "clients \<Rightarrow> string scope_proc" where
  "resolveResourceGroupIDByName C = do {
     s \<leftarrow> get_scope;
     let name = ResourceIdentifier_Name (ResourceGroupSource_Reference (Spec_ResourceGroup (spec s)));
     if name = [] then fail (Errorf msg_resource_group_name_not_set)
     else do {
       a \<leftarrow> GetAuthenticator C;
       case a of
         Fail e _ \<Rightarrow> fail (Wrapf msg_failed_get_authenticator e)
       | Reply _ \<Rightarrow> do {
           acc \<leftarrow> GetAccount C;
           case acc of
             Fail e _ \<Rightarrow> fail (Wrapf msg_failed_get_account e)
           | Reply account \<Rightarrow> do {
               r \<leftarrow> ListResourceGroups C name account;
               case r of
                 Fail e _ \<Rightarrow> fail (Wrapf msg_failed_list_resource_groups e)
               | Reply (Some (rg # _)) \<Rightarrow>
                   (case rg_ID rg of
                      Some i \<Rightarrow> ok i
                    | None \<Rightarrow> fail (Errorf msg_could_not_retrieve_resource_group))
               | Reply _ \<Rightarrow> fail (Errorf msg_could_not_retrieve_resource_group)
             }
         }
     } }"

definition ReconcileResourceGroup :: "clients \<Rightarrow> unit scope_proc" where
  "ReconcileResourceGroup C = do {
     s \<leftarrow> get_scope;
     let ref = ResourceGroupSource_Reference (Spec_ResourceGroup (spec s));
     let statusID = ResourceReference_ID (Status_ResourceGroup (status s));
     let resourceGroupID = (if statusID = [] then ResourceIdentifier_ID ref else statusID);
     if resourceGroupID \<noteq> [] then do {
       r \<leftarrow> GetResourceGroup C resourceGroupID;
       case r of
         Fail e _ \<Rightarrow> fail (Wrapf msg_failed_fetch_resource_group e)
       | Reply None \<Rightarrow> fail (Errorf msg_resource_group_not_found)
       | Reply (Some rg) \<Rightarrow> do {
           set_status (\<lambda>st. st\<lparr>Status_ResourceGroup :=
             \<lparr>ResourceReference_ID = resourceGroupID,
              ResourceReference_Name =
                (case rg_Name rg of Some n \<Rightarrow> n | None \<Rightarrow> ResourceReference_Name (Status_ResourceGroup st))\<rparr>\<rparr>);
           ok ()
         }
     }
     else
       bindW msg_failed_resolve_resource_group_id (resolveResourceGroupIDByName C) (\<lambda>fetchedID. do {
         set_status (\<lambda>st. st\<lparr>Status_ResourceGroup :=
           \<lparr>ResourceReference_ID = fetchedID, ResourceReference_Name = ResourceIdentifier_Name ref\<rparr>\<rparr>);
         ok ()
       }) }"

lemma calls_ValidateZoneSupportsPER:
  "state_io_rel (calls_in (\<lambda>c. \<not> creates c \<and> \<not> deletes c)) (ValidateZoneSupportsPER C)"
  unfolding ValidateZoneSupportsPER_def by (intro frame_calls) simp_all

lemma calls_ReconcileResourceGroup:
  "state_io_rel (calls_in (\<lambda>c. \<not> creates c \<and> \<not> deletes c)) (ReconcileResourceGroup C)"
  unfolding ReconcileResourceGroup_def resolveResourceGroupIDByName_def
  by (intro frame_calls) simp_all

lemma keeps_ReconcileResourceGroup:
  assumes "\<And>s h. p (s\<lparr>trace := h\<rparr>) = p s"
    and "\<And>f s. p (upd_status (\<lambda>st. st\<lparr>Status_ResourceGroup := f st\<rparr>) s) = p s"
  shows "state_io_rel (keeps p) (ReconcileResourceGroup C)"
  unfolding ReconcileResourceGroup_def resolveResourceGroupIDByName_def
  by (intro frame_keeps) (simp_all add: assms)

end
