(* ===== verification/Conditions.thy ===== *)
theory Conditions
  imports Cluster_Scope
begin

text \<open>
  The conditions the PowerVS controllers report (\<^verbatim>\<open>api/powervs/v1beta3/conditions_consts.go\<close>,
  \<^verbatim>\<open>v1beta2_condition_consts.go\<close>), and the utilities of Cluster API the controllers call: these are
  not part of the repository, so they are a parameter, the record \<open>capi\<close>. \<open>conditions.Set\<close> and
  \<open>deprecatedv1beta1conditions.Set\<close> reach the object through its accessors.
\<close>

section \<open>Cluster API utilities\<close>

record capi =
  conditions_Set :: "Condition list \<Rightarrow> Condition \<Rightarrow> Condition list"
  conditions_IsTrue :: "Condition list \<Rightarrow> string \<Rightarrow> bool"
  deprecated_Set :: "DeprecatedCondition list \<Rightarrow> DeprecatedCondition \<Rightarrow> DeprecatedCondition list"
  IsOwnedByObject :: "ImageObject \<Rightarrow> IBMPowerVSCluster \<Rightarrow> bool"
  RemoveFinalizer :: "string list \<Rightarrow> string \<Rightarrow> string list"
  GVK_Empty :: "IBMPowerVSCluster \<Rightarrow> bool"
  GroupVersionKindFor :: "IBMPowerVSCluster \<Rightarrow> unit reply"

text \<open>
  The documented behaviour of \<open>conditions.Set\<close> and \<open>conditions.IsTrue\<close>: setting a condition
  decides the question for its type and for no other.
\<close>

definition conditions_by_type :: "capi \<Rightarrow> bool" where
  "conditions_by_type K \<longleftrightarrow> (\<forall>cs c ty. conditions_IsTrue K (conditions_Set K cs c) ty =
     (if ty = Condition_Type c then Condition_Status c = ConditionTrue else conditions_IsTrue K cs ty))"

section \<open>Results\<close>

text \<open>\<open>ctrl.Result\<close>: the seconds after which the request is queued again, 0 for not at all.\<close>

record Result =
  RequeueAfter :: nat

abbreviation finished :: Result where "finished \<equiv> \<lparr>RequeueAfter = 0\<rparr>"

section \<open>Conditions\<close>

definition ReadyReason :: string where "ReadyReason = ''Ready''"
definition NotReadyReason :: string where "NotReadyReason = ''NotReady''"
definition DeletingReason :: string where "DeletingReason = ''Deleting''"
definition ConditionSeverityError :: string where "ConditionSeverityError = ''Error''"

definition WorkspaceReadyCondition :: string where "WorkspaceReadyCondition = ''WorkspaceReady''"
definition NetworkReadyCondition :: string where "NetworkReadyCondition = ''NetworkReady''"
definition VPCReadyCondition :: string where "VPCReadyCondition = ''VPCReady''"
definition VPCSubnetReadyCondition :: string where "VPCSubnetReadyCondition = ''VPCSubnetReady''"
definition VPCSecurityGroupReadyCondition :: string where "VPCSecurityGroupReadyCondition = ''VPCSecurityGroupReady''"
definition VPCLoadBalancerReadyCondition :: string where "VPCLoadBalancerReadyCondition = ''LoadBalancerReady''"
definition TransitGatewayReadyCondition :: string where "TransitGatewayReadyCondition = ''TransitGatewayReady''"
definition COSInstanceReadyCondition :: string where "COSInstanceReadyCondition = ''COSInstanceCreated''"
definition VPCSecurityGroupReconciliationFailedReason :: string where
  "VPCSecurityGroupReconciliationFailedReason = ''VPCSecurityGroupReconciliationFailed''"

text \<open>The names of the deprecated conditions and reasons (\<^verbatim>\<open>v1beta2_condition_consts.go\<close>).\<close>

definition ServiceInstanceReadyV1Beta2Condition :: string where "ServiceInstanceReadyV1Beta2Condition = ''ServiceInstanceReady''"
definition NetworkReadyV1Beta2Condition :: string where "NetworkReadyV1Beta2Condition = ''NetworkReady''"
definition VPCReadyV1Beta2Condition :: string where "VPCReadyV1Beta2Condition = ''VPCReady''"
definition VPCSubnetReadyV1Beta2Condition :: string where "VPCSubnetReadyV1Beta2Condition = ''VPCSubnetReady''"
definition VPCSecurityGroupReadyV1Beta2Condition :: string where "VPCSecurityGroupReadyV1Beta2Condition = ''VPCSecurityGroupReady''"
definition LoadBalancerReadyV1Beta2Condition :: string where "LoadBalancerReadyV1Beta2Condition = ''LoadBalancerReady''"
definition TransitGatewayReadyV1Beta2Condition :: string where "TransitGatewayReadyV1Beta2Condition = ''TransitGatewayReady''"
definition COSInstanceReadyV1Beta2Condition :: string where "COSInstanceReadyV1Beta2Condition = ''COSInstanceCreated''"
definition ServiceInstanceReconciliationFailedV1Beta2Reason :: string where
  "ServiceInstanceReconciliationFailedV1Beta2Reason = ''ServiceInstanceReconciliationFailed''"
definition NetworkReconciliationFailedV1Beta2Reason :: string where
  "NetworkReconciliationFailedV1Beta2Reason = ''NetworkReconciliationFailed''"
definition VPCReconciliationFailedV1Beta2Reason :: string where
  "VPCReconciliationFailedV1Beta2Reason = ''VPCReconciliationFailed''"
definition VPCSubnetReconciliationFailedV1Beta2Reason :: string where
  "VPCSubnetReconciliationFailedV1Beta2Reason = ''VPCSubnetReconciliationFailed''"
definition VPCSecurityGroupReconciliationFailedV1Beta2Reason :: string where
  "VPCSecurityGroupReconciliationFailedV1Beta2Reason = ''VPCSecurityGroupReconciliationFailed''"
definition LoadBalancerReconciliationFailedV1Beta2Reason :: string where
  "LoadBalancerReconciliationFailedV1Beta2Reason = ''LoadBalancerReconciliationFailed''"
definition TransitGatewayReconciliationFailedV1Beta2Reason :: string where
  "TransitGatewayReconciliationFailedV1Beta2Reason = ''TransitGatewayReconciliationFailed''"
definition COSInstanceReconciliationFailedV1Beta2Reason :: string where
  "COSInstanceReconciliationFailedV1Beta2Reason = ''COSInstanceCreationFailed''"


section \<open>Setting conditions\<close>

text \<open>
  \<open>buildConditions\<close>: the message is empty (\<open>None\<close>) or the text of an error; the deprecated
  condition carries a severity only when the status is False.
\<close>

definition buildConditions ::
  "string \<Rightarrow> string \<Rightarrow> ConditionStatus \<Rightarrow> string \<Rightarrow> string \<Rightarrow> gerror option \<Rightarrow> Condition \<times> DeprecatedCondition" where
  "buildConditions condType legacyType st reason legacyReason msg =
     (\<lparr>Condition_Type = condType, Condition_Status = st, Condition_Reason = reason, Condition_Message = msg\<rparr>,
      \<lparr>DeprecatedCondition_Type = legacyType, DeprecatedCondition_Status = st,
       DeprecatedCondition_Severity = (if st = ConditionFalse then ConditionSeverityError else []),
       DeprecatedCondition_Reason = legacyReason, DeprecatedCondition_Message = msg\<rparr>)"

definition set_condition :: "capi \<Rightarrow> Condition \<Rightarrow> (ClusterScope, unit) state" where
  "set_condition K c = modify (\<lambda>s. s\<lparr>scope_cluster :=
     SetConditions (scope_cluster s) (conditions_Set K (GetConditions (scope_cluster s)) c)\<rparr>)"

definition set_legacy :: "capi \<Rightarrow> DeprecatedCondition \<Rightarrow> (ClusterScope, unit) state" where
  "set_legacy K c = modify (\<lambda>s. s\<lparr>scope_cluster :=
     SetV1Beta1Conditions (scope_cluster s) (deprecated_Set K (GetV1Beta1Conditions (scope_cluster s)) c)\<rparr>)"

text \<open>\<open>conditions.Set(cluster, c); deprecatedv1beta1conditions.Set(cluster, l)\<close>.\<close>

definition set_both :: "capi \<Rightarrow> Condition \<times> DeprecatedCondition \<Rightarrow> (ClusterScope, unit) state" where
  "set_both K p = do { set_condition K (fst p); set_legacy K (snd p) }"

text \<open>\<open>for i := range res.conditions\<close>: the legacy condition of the same index, a panic if there is none.\<close>

fun set_all :: "capi \<Rightarrow> Condition list \<Rightarrow> DeprecatedCondition list \<Rightarrow> unit scope_proc" where
  "set_all K [] ls = ok ()"
| "set_all K (c # cs) [] = do { set_condition K c; panic }"
| "set_all K (c # cs) (l # ls) = do { set_both K (c, l); set_all K cs ls }"

text \<open>Setting a condition is an update of the status.\<close>

lemma set_condition_status:
  "set_condition K c = set_status (\<lambda>st. st\<lparr>Status_Conditions := conditions_Set K (Status_Conditions st) c\<rparr>)"
  unfolding set_condition_def set_status_def
  by (rule arg_cong [where f = modify]) (simp add: fun_eq_iff upd_status_def SetConditions_def GetConditions_def)

definition legacy_put :: "capi \<Rightarrow> DeprecatedCondition \<Rightarrow> IBMPowerVSClusterDeprecatedStatus option \<Rightarrow> IBMPowerVSClusterDeprecatedStatus option" where
  "legacy_put K c old =
     (let d = (case old of None \<Rightarrow> \<lparr>DeprecatedStatus_V1Beta2 = None\<rparr> | Some d \<Rightarrow> d);
          v = (case DeprecatedStatus_V1Beta2 d of None \<Rightarrow> \<lparr>V1Beta2DeprecatedStatus_Conditions = []\<rparr> | Some v \<Rightarrow> v)
      in Some (d\<lparr>DeprecatedStatus_V1Beta2 :=
           Some (v\<lparr>V1Beta2DeprecatedStatus_Conditions := deprecated_Set K (V1Beta2DeprecatedStatus_Conditions v) c\<rparr>)\<rparr>))"

lemma set_legacy_status:
  "set_legacy K c = set_status (\<lambda>st. st\<lparr>Status_Deprecated := legacy_put K c (Status_Deprecated st)\<rparr>)"
  unfolding set_legacy_def set_status_def
  by (rule arg_cong [where f = modify])
     (simp add: fun_eq_iff upd_status_def SetV1Beta1Conditions_def GetV1Beta1Conditions_def legacy_put_def Let_def split: option.split)

lemmas set_both_status = set_both_def set_condition_status set_legacy_status

section \<open>An instance of the utilities\<close>

text \<open>Conditions kept in a list, newest first; ownership by UID.\<close>

definition example_capi :: capi where
  "example_capi =
     \<lparr>conditions_Set = \<lambda>cs c. c # filter (\<lambda>x. Condition_Type x \<noteq> Condition_Type c) cs,
      conditions_IsTrue = \<lambda>cs ty. list_ex (\<lambda>x. Condition_Type x = ty \<and> Condition_Status x = ConditionTrue) cs,
      deprecated_Set = \<lambda>cs c. c # filter (\<lambda>x. DeprecatedCondition_Type x \<noteq> DeprecatedCondition_Type c) cs,
      IsOwnedByObject = \<lambda>i cluster. list_ex (\<lambda>o'. owner_UID o' = Cluster_UID cluster) (img_OwnerReferences i),
      RemoveFinalizer = \<lambda>fs f. filter (\<lambda>x. x \<noteq> f) fs,
      GVK_Empty = \<lambda>_. False, GroupVersionKindFor = \<lambda>_. Reply ()\<rparr>"

lemma example_capi_by_type: "conditions_by_type example_capi"
  by (auto simp: conditions_by_type_def example_capi_def list_ex_iff)

end
