(* ===== verification/Example_Cluster.thy ===== *)
theory Example_Cluster
  imports Cluster_Scope
begin

text \<open>
  A concrete cluster and a concrete cloud, on which the theorems of the components are applied.
  \<open>example_spec\<close> asks for everything to be provisioned; \<open>fresh\<close> is its scope before the first
  reconcile, \<open>settled\<close> the scope when every resource is tracked. \<open>example_cloud\<close> knows no resource
  by name, answers every creation with an object and every question by ID with a healthy object.
\<close>

definition no_identifier :: ResourceIdentifier where
  "no_identifier = \<lparr>ResourceIdentifier_ID = [], ResourceIdentifier_Name = []\<rparr>"

definition connection_provision :: TransitGatewayConnectionSource where
  "connection_provision =
     \<lparr>TransitGatewayConnectionSource_Type = SourceTypeProvision,
      TransitGatewayConnectionSource_Reference = no_identifier,
      TransitGatewayConnectionSource_Provision = \<lparr>TransitGatewayConnectionProvision_Name = []\<rparr>\<rparr>"

definition any_remote :: VPCSecurityGroupRuleRemote where
  "any_remote =
     \<lparr>VPCSecurityGroupRuleRemote_CIDRSubnetName = [], VPCSecurityGroupRuleRemote_Address = [],
      VPCSecurityGroupRuleRemote_RemoteType = VPCSecurityGroupRuleRemoteTypeAny,
      VPCSecurityGroupRuleRemote_SecurityGroupName = []\<rparr>"

definition https_side :: VPCSecurityGroupRulePrototype where
  "https_side =
     \<lparr>VPCSecurityGroupRulePrototype_ICMPCode = None, VPCSecurityGroupRulePrototype_ICMPType = None,
      VPCSecurityGroupRulePrototype_PortRange =
        \<lparr>VPCSecurityGroupPortRange_MaximumPort = 443, VPCSecurityGroupPortRange_MinimumPort = 443\<rparr>,
      VPCSecurityGroupRulePrototype_Protocol = VPCSecurityGroupRuleProtocolTCP,
      VPCSecurityGroupRulePrototype_Remotes = [any_remote]\<rparr>"

definition https_group :: VPCSecurityGroupSource where
  "https_group =
     \<lparr>VPCSecurityGroupSource_Type = SourceTypeProvision, VPCSecurityGroupSource_Reference = no_identifier,
      VPCSecurityGroupSource_Provision =
        \<lparr>VPCSecurityGroupProvision_Name = ''web'',
         VPCSecurityGroupProvision_Rules =
           [\<lparr>VPCSecurityGroupRule_Destination = https_side,
             VPCSecurityGroupRule_Direction = VPCSecurityGroupRuleDirectionInbound,
             VPCSecurityGroupRule_SecurityGroupID = [], VPCSecurityGroupRule_Source = https_side\<rparr>],
         VPCSecurityGroupProvision_Tags = []\<rparr>\<rparr>"

definition example_spec :: IBMPowerVSClusterSpec where
  "example_spec =
     \<lparr>Spec_ControlPlaneEndpoint = \<lparr>APIEndpoint_Host = [], APIEndpoint_Port = 0\<rparr>,
      Spec_Topology = PowerVSLoadBalancerTopology,
      Spec_Workspace = \<lparr>WorkspaceSource_Type = SourceTypeProvision, WorkspaceSource_Reference = no_identifier,
        WorkspaceSource_Provision = \<lparr>WorkspaceProvisionConfig_Name = []\<rparr>\<rparr>,
      Spec_Network = \<lparr>NetworkSource_Type = SourceTypeProvision, NetworkSource_Reference = no_identifier,
        NetworkSource_Provision = \<lparr>NetworkProvisionConfig_DHCPServer =
          \<lparr>DHCPServer_Name = [], DHCPServer_CIDR = [], DHCPServer_DNSServer = [], DHCPServer_Snat = OtherSnatPolicy []\<rparr>\<rparr>\<rparr>,
      Spec_Zone = ''dal10'',
      Spec_ResourceGroup = \<lparr>ResourceGroupSource_Type = SourceTypeReference,
        ResourceGroupSource_Reference = \<lparr>ResourceIdentifier_ID = ''rg'', ResourceIdentifier_Name = []\<rparr>\<rparr>,
      Spec_TransitGateway = \<lparr>TransitGatewaySource_Type = SourceTypeProvision, TransitGatewaySource_Reference = no_identifier,
        TransitGatewaySource_Provision = \<lparr>TransitGatewayProvision_Name = [], TransitGatewayProvision_GlobalRouting = OtherRouting []\<rparr>,
        TransitGatewaySource_VPCConnection = connection_provision, TransitGatewaySource_PowerVSConnection = connection_provision\<rparr>,
      Spec_VPC = \<lparr>VPCSource_Type = SourceTypeProvision, VPCSource_Region = ''us-south'', VPCSource_Reference = no_identifier,
        VPCSource_Provision = \<lparr>VPCProvision_Name = []\<rparr>\<rparr>,
      Spec_VPCSubnets = [], Spec_LoadBalancers = [], Spec_VPCSecurityGroups = [https_group],
      Spec_COSInstance = \<lparr>COSInstanceSource_Type = SourceTypeProvision, COSInstanceSource_BucketName = [],
        COSInstanceSource_BucketRegion = [], COSInstanceSource_Reference = no_identifier,
        COSInstanceSource_Provision = \<lparr>COSInstanceProvision_Name = []\<rparr>\<rparr>,
      Spec_Ignition = \<lparr>Ignition_Version = []\<rparr>\<rparr>"

definition no_reference :: ResourceReference where
  "no_reference = \<lparr>ResourceReference_ID = [], ResourceReference_Name = []\<rparr>"

definition fresh_status :: IBMPowerVSClusterStatus where
  "fresh_status =
     \<lparr>Status_Conditions = [], Status_Initialization = \<lparr>Initialization_Provisioned = None\<rparr>,
      Status_Workspace = no_reference,
      Status_Network = \<lparr>NetworkStatus_ID = [], NetworkStatus_Name = [], NetworkStatus_DHCPServer = no_reference\<rparr>,
      Status_ResourceGroup = no_reference, Status_TransitGateway = zero_TransitGatewayStatus, Status_VPC = zero_VPCStatus,
      Status_VPCSubnets = [], Status_LoadBalancers = [], Status_VPCSecurityGroups = [],
      Status_COSInstance = \<lparr>COSInstanceStatus_ID = [], COSInstanceStatus_Name = [], COSInstanceStatus_BucketName = [],
        COSInstanceStatus_BucketRegion = [], COSInstanceStatus_HMACSecretName = []\<rparr>,
      Status_Deprecated = None\<rparr>"

definition attached :: "string \<Rightarrow> ResourceConnectionStatus" where
  "attached i = \<lparr>ResourceConnectionStatus_ID = i, ResourceConnectionStatus_Name = i,
     ResourceConnectionStatus_State = TransitGatewayConnectionStateAttached\<rparr>"

definition settled_status :: IBMPowerVSClusterStatus where
  "settled_status = fresh_status
     \<lparr>Status_Workspace := \<lparr>ResourceReference_ID = ''ws'', ResourceReference_Name = ''w''\<rparr>,
      Status_Network := \<lparr>NetworkStatus_ID = ''net'', NetworkStatus_Name = ''n'',
        NetworkStatus_DHCPServer = \<lparr>ResourceReference_ID = ''dhcp'', ResourceReference_Name = []\<rparr>\<rparr>,
      Status_TransitGateway := \<lparr>TransitGatewayStatus_ID = ''tg'', TransitGatewayStatus_Name = ''t'',
        TransitGatewayStatus_VPCConnection = attached ''cv'', TransitGatewayStatus_PowerVSConnection = attached ''cp''\<rparr>,
      Status_VPC := \<lparr>VPCStatus_ID = ''vpc'', VPCStatus_Name = ''v'', VPCStatus_Region = ''us-south''\<rparr>,
      Status_VPCSubnets := [\<lparr>VPCSubnetStatus_ID = ''sub'', VPCSubnetStatus_Name = ''c-subnet-us-south-1'', VPCSubnetStatus_Zone = ''us-south-1''\<rparr>],
      Status_LoadBalancers := [\<lparr>LoadBalancerStatus_Name = ''c-loadbalancer-public'', LoadBalancerStatus_ID = ''lb'',
        LoadBalancerStatus_State = LoadBalancerStateActive, LoadBalancerStatus_Hostname = ''host''\<rparr>],
      Status_COSInstance := \<lparr>COSInstanceStatus_ID = ''cos'', COSInstanceStatus_Name = ''c-cos'', COSInstanceStatus_BucketName = ''b'',
        COSInstanceStatus_BucketRegion = ''us-south'', COSInstanceStatus_HMACSecretName = ''hmac''\<rparr>\<rparr>"

definition scope_of :: "IBMPowerVSClusterSpec \<Rightarrow> IBMPowerVSClusterStatus \<Rightarrow> ClusterScope" where
  "scope_of sp st =
     \<lparr>trace = [],
      scope_cluster = \<lparr>Cluster_Name = ''c'', Cluster_Namespace = ''ns'', Cluster_UID = ''u'',
        Cluster_Finalizers = [IBMPowerVSClusterFinalizer], Cluster_Spec = sp, Cluster_Status = st\<rparr>,
      scope_APIServerPort = 8, scope_ClientBuilder = True, scope_COSClient = False\<rparr>"

abbreviation fresh :: ClusterScope where "fresh \<equiv> scope_of example_spec fresh_status"
abbreviation settled :: ClusterScope where "settled \<equiv> scope_of example_spec settled_status"

section \<open>The cloud\<close>

definition gone :: "'a reply" where "gone = Fail (ClientErr ''not found'') (Some 404)"

definition active_instance :: "string \<Rightarrow> ResourceInstance" where
  "active_instance i = \<lparr>ri_GUID = Some i, ri_Name = Some i, ri_State = Some WorkspaceStateActive, ri_CRN = Some ''crn'', ri_RegionID = None\<rparr>"

definition cloud_connection :: "string \<Rightarrow> string \<Rightarrow> TransitGatewayConnectionCust" where
  "cloud_connection i ty =
     \<lparr>conn_ID = Some i, conn_Name = Some i, conn_Status = Some TransitGatewayConnectionStateAttached,
      conn_NetworkType = Some ty, conn_NetworkID = Some ''crn''\<rparr>"

definition cloud_lb :: "string \<Rightarrow> LoadBalancer" where
  "cloud_lb n = \<lparr>lb_ID = Some ''lb'', lb_Name = Some n, lb_ProvisioningStatus = Some LoadBalancerStateActive, lb_Hostname = Some ''host''\<rparr>"

definition cloud_vpc :: "string \<Rightarrow> VPC" where
  "cloud_vpc n = \<lparr>vpc_ID = Some ''vpc'', vpc_Name = Some n, vpc_Status = Some ''available'', vpc_CRN = Some ''crn'',
     vpc_DefaultSecurityGroup = Some (Some ''default'')\<rparr>"

definition cloud_subnet :: "string \<Rightarrow> Subnet" where
  "cloud_subnet n = \<lparr>subnet_ID = Some ''sub'', subnet_Name = Some n, subnet_Status = Some ''available'', subnet_Zone = None,
     subnet_Ipv4CIDRBlock = None\<rparr>"

definition cloud_sg :: "string \<Rightarrow> SecurityGroup" where
  "cloud_sg n = \<lparr>sg_ID = Some ''sg'', sg_Name = Some n, sg_CRN = Some ''crn''\<rparr>"

definition cloud_tg :: TransitGateway where
  "cloud_tg = \<lparr>tg_ID = Some ''tg'', tg_Name = Some ''t'', tg_Status = Some TransitGatewayStateAvailable\<rparr>"

definition example_cloud :: clients where
  "example_cloud =
     \<lparr>IBMPowerVSClient = \<lparr>
        on_GetDatacenterDetails = \<lambda>_ _. Reply (Some \<lparr>dc_Capabilities = Some [(powerEdgeRouter, True)]\<rparr>),
        on_GetNetworkByID = \<lambda>_ i. Reply (Some \<lparr>net_NetworkID = Some i, net_Name = Some ''n''\<rparr>),
        on_GetNetworkByName = \<lambda>_ n. Reply (Some \<lparr>net_NetworkID = Some ''net'', net_Name = Some n\<rparr>),
        on_ListDHCPServers = \<lambda>_. Reply [],
        on_GetDHCPServer = \<lambda>_ i. Reply (Some \<lparr>dhcpd_ID = Some i, dhcpd_Status = Some DHCPServerStateActive\<rparr>),
        on_CreateDHCPServer = \<lambda>_ r. Reply (Some \<lparr>dhcp_ID = Some ''dhcp'', dhcp_Network = Some \<lparr>dhcpnet_ID = Some ''net'', dhcpnet_Name = None\<rparr>\<rparr>),
        on_DeleteDHCPServer = \<lambda>_ _. Reply ()\<rparr>,
      IBMVPCClient = \<lparr>
        on_GetVPC = \<lambda>_ i. Reply (Some (cloud_vpc ''v'')), on_GetVPCByName = \<lambda>_ _. Reply None,
        on_CreateVPC = \<lambda>_ r. Reply (Some (cloud_vpc (cvpc_Name r))), on_DeleteVPC = \<lambda>_ _. Reply (),
        on_GetSubnet = \<lambda>_ i. Reply (Some (cloud_subnet ''s'')), on_GetVPCSubnetByName = \<lambda>_ _. Reply None,
        on_CreateSubnet = \<lambda>_ r. Reply (Some (cloud_subnet (sp_Name r))), on_DeleteSubnet = \<lambda>_ _. Reply (),
        on_GetLoadBalancer = \<lambda>_ i. Reply (Some (cloud_lb ''l'')), on_GetLoadBalancerByName = \<lambda>_ _. Reply None,
        on_CreateLoadBalancer = \<lambda>_ r. Reply (Some (cloud_lb (clb_Name r))), on_DeleteLoadBalancer = \<lambda>_ _. Reply (),
        on_GetSecurityGroup = \<lambda>_ i. Reply (Some (cloud_sg ''g'')),
        on_GetSecurityGroupByName = \<lambda>_ n. Fail (SecurityGroupByNameNotFound n) None,
        on_CreateSecurityGroup = \<lambda>_ r. Reply (Some (cloud_sg (csg_Name r))), on_DeleteSecurityGroup = \<lambda>_ _. Reply (),
        on_CreateSecurityGroupRule = \<lambda>_ _ _. Reply (SGRuleProtocolTcpudp (Some ''rule''))\<rparr>,
      TransitGatewayClient = \<lparr>
        on_GetTransitGateway = \<lambda>_ _. Reply (Some cloud_tg), on_GetTransitGatewayByName = \<lambda>_ _. Reply None,
        on_CreateTransitGateway = \<lambda>_ _. Reply (Some cloud_tg),
        on_ListTransitGatewayConnections = \<lambda>_ _. Reply (Some [cloud_connection ''cp'' ''power_virtual_server'', cloud_connection ''cv'' ''vpc'']),
        on_CreateTransitGatewayConnection = \<lambda>_ r. Reply (Some (cloud_connection ''new'' (ctc_NetworkType r))),
        on_GetTransitGatewayConnection = \<lambda>_ _ i. Reply (Some (cloud_connection i ''vpc'')),
        on_DeleteTransitGatewayConnection = \<lambda>_ _ _. Reply (), on_DeleteTransitGateway = \<lambda>_ _. Reply ()\<rparr>,
      ResourceClient = \<lparr>
        on_GetResourceInstance = \<lambda>_ i. Reply (Some (active_instance i)), on_GetResourceInstanceByFilter = \<lambda>_ _. Reply None,
        on_CreateResourceInstance = \<lambda>_ r. Reply (Some (active_instance (cri_Name r))), on_DeleteResourceInstance = \<lambda>_ _ _. Reply (),
        on_CreateResourceKey = \<lambda>_ _. Reply (Some \<lparr>rk_Credentials = Some (HmacMap (Some ''key'') (Some ''secret''))\<rparr>)\<rparr>,
      ResourceManagerClient = \<lparr>
        on_GetResourceGroup = \<lambda>_ i. Reply (Some \<lparr>rg_ID = Some i, rg_Name = Some ''default''\<rparr>),
        on_ListResourceGroups = \<lambda>_ n _. Reply (Some [\<lparr>rg_ID = Some ''rg'', rg_Name = Some n\<rparr>])\<rparr>,
      COSClientOps = \<lparr>on_GetBucketByName = \<lambda>_ _. Reply (), on_CreateBucket = \<lambda>_ _. Reply ()\<rparr>,
      K8sClient = \<lparr>on_GetSecret = \<lambda>_ _ _. Reply (), on_CreateSecret = \<lambda>_ _. Reply (), on_DeleteSecret = \<lambda>_ _ _. Reply (),
        on_ListImages = \<lambda>_ _ _. Reply [], on_DeleteImage = \<lambda>_ _. Reply ()\<rparr>,
      regionUtil = \<lparr>VPCZonesForVPCRegion = \<lambda>_. Reply [''us-south-1''], IsGlobalRoutingRequiredForTG = \<lambda>_ _. False,
        VPCRegionForPowerVSRegion = \<lambda>_. Reply ''us-south''\<rparr>,
      on_GetAuthenticator = \<lambda>_. Reply (), on_GetAccount = \<lambda>_. Reply ''acc'', on_GetCOSClient = \<lambda>_ _ _. Reply ()\<rparr>"

section \<open>Variations\<close>

text \<open>The VPC is found by name once something has been asked, and rules are refused.\<close>

definition rule_refusing_cloud :: clients where
  "rule_refusing_cloud = example_cloud\<lparr>IBMVPCClient := (IBMVPCClient example_cloud)
     \<lparr>on_GetVPCByName := \<lambda>h n. Reply (if h = [] then None else Some (cloud_vpc n)),
      on_CreateSecurityGroupRule := \<lambda>_ _ _. Fail (ClientErr ''quota'') None\<rparr>\<rparr>"

text \<open>Load balancers and security groups are found by name, the load balancers still pending.\<close>

definition pending_cloud :: clients where
  "pending_cloud = example_cloud\<lparr>IBMVPCClient := (IBMVPCClient example_cloud)
     \<lparr>on_GetLoadBalancerByName := \<lambda>_ n. Reply (Some ((cloud_lb n)\<lparr>lb_ProvisioningStatus := Some LoadBalancerStateCreatePending\<rparr>)),
      on_GetSecurityGroupByName := \<lambda>_ n. Reply (Some (cloud_sg n))\<rparr>\<rparr>"

text \<open>No Secret can be stored.\<close>

definition secretless_cloud :: clients where
  "secretless_cloud = example_cloud\<lparr>K8sClient := (K8sClient example_cloud)
     \<lparr>on_CreateSecret := \<lambda>_ _. Fail (ClientErr ''exists'') None\<rparr>\<rparr>"

text \<open>Everything the controller owned is gone.\<close>

definition empty_cloud :: clients where
  "empty_cloud = example_cloud
     \<lparr>IBMVPCClient := (IBMVPCClient example_cloud)
       \<lparr>on_GetVPC := \<lambda>_ _. gone, on_GetSubnet := \<lambda>_ _. gone, on_GetLoadBalancer := \<lambda>_ _. gone, on_GetSecurityGroup := \<lambda>_ _. gone\<rparr>,
      TransitGatewayClient := (TransitGatewayClient example_cloud)\<lparr>on_GetTransitGateway := \<lambda>_ _. gone\<rparr>,
      ResourceClient := (ResourceClient example_cloud)\<lparr>on_GetResourceInstance := \<lambda>_ _. gone\<rparr>\<rparr>"

text \<open>The user brought the workspace.\<close>

definition own_workspace_spec :: IBMPowerVSClusterSpec where
  "own_workspace_spec = example_spec\<lparr>Spec_Workspace := (Spec_Workspace example_spec)\<lparr>WorkspaceSource_Type := SourceTypeReference\<rparr>\<rparr>"

text \<open>One public load balancer without a name.\<close>

definition unnamed_lb :: LoadBalancerSource where
  "unnamed_lb =
     \<lparr>LoadBalancerSource_Type = SourceTypeProvision, LoadBalancerSource_Reference = no_identifier,
      LoadBalancerSource_Provision = \<lparr>LoadBalancerProvision_Name = [], LoadBalancerProvision_Type = LoadBalancerTypePublic,
        LoadBalancerProvision_AdditionalListeners = [], LoadBalancerProvision_BackendPools = [],
        LoadBalancerProvision_SecurityGroups = [], LoadBalancerProvision_Subnets = []\<rparr>\<rparr>"

text \<open>The record of the DHCP server was lost.\<close>

definition lost_dhcp_status :: IBMPowerVSClusterStatus where
  "lost_dhcp_status = settled_status\<lparr>Status_Network := (Status_Network settled_status)\<lparr>NetworkStatus_DHCPServer := no_reference\<rparr>\<rparr>"

end
