(* ===== verification/Workspace.thy ===== *)
theory Workspace
  imports Example_Cluster
begin

text \<open>
  The PowerVS workspace of a cluster (\<^verbatim>\<open>powervs_cluster.go\<close>: \<open>ReconcileWorkspace\<close> and what it
  calls, \<open>DeleteWorkspace\<close>). A reconcile returns whether it must be repeated (requeue). The
  argument list of a log call is evaluated whatever the log level, so a nil dereference in it
  panics, and is modelled.
\<close>

section \<open>Error texts\<close>

definition msg_powervs_workspace_failed_state :: string where "msg_powervs_workspace_failed_state = ''PowerVS workspace is in failed state''"
definition msg_powervs_workspacee_state :: string where "msg_powervs_workspacee_state = ''PowerVS workspacee is in state''"
definition msg_failed_fetch_resource_group_id :: string where "msg_failed_fetch_resource_group_id = ''failed to fetch resource group ID''"
definition msg_powervs_zone_not_set :: string where "msg_powervs_zone_not_set = ''PowerVS zone is not set''"
definition msg_failed_create_worksapce :: string where "msg_failed_create_worksapce = ''failed to create worksapce''"
definition msg_failed_fetch_workspace_by_ref :: string where "msg_failed_fetch_workspace_by_ref = ''failed to fetch workspace by ref''"
definition msg_workspace_with_reference_not_found :: string where "msg_workspace_with_reference_not_found = ''workspace with reference not found''"
definition msg_workspace_has_missing_guid_name :: string where "msg_workspace_has_missing_guid_name = ''workspace has missing GUID or name''"
definition msg_failed_check_existing_workspace :: string where "msg_failed_check_existing_workspace = ''failed to check for existing workspace''"
definition msg_failed_provision_workspace :: string where "msg_failed_provision_workspace = ''failed to provision workspace''"
definition msg_provisioned_workspace_guid_nil :: string where "msg_provisioned_workspace_guid_nil = ''provisioned workspace or GUID is nil''"
definition msg_failed_fetch_workspace :: string where "msg_failed_fetch_workspace = ''failed to fetch workspace''"
definition msg_workspace_not_found_with_id :: string where "msg_workspace_not_found_with_id = ''workspace not found with ID''"
definition msg_failed_check_workspace_state :: string where "msg_failed_check_workspace_state = ''failed to check workspace state''"
definition msg_unknown_workspace_source_type :: string where "msg_unknown_workspace_source_type = ''unknown workspace source type''"
definition msg_failed_fetch_powervs_workspace :: string where "msg_failed_fetch_powervs_workspace = ''failed to fetch PowerVS workspace''"
definition msg_failed_delete_powervs_workspace :: string where "msg_failed_delete_powervs_workspace = ''failed to delete PowerVS workspace''"

definition PowerVSResourceID :: string where
  "PowerVSResourceID = ''abd259f0-9990-11e8-acc8-b9f54a8f1661''"
definition PowerVSResourcePlanID :: string where
  "PowerVSResourcePlanID = ''f165dd34-3a40-423b-9d95-e90a23f724dd''"

definition checkWorkspaceState :: "ResourceInstance \<Rightarrow> bool scope_proc" where
  "checkWorkspaceState workspace =
     deref (ri_Name workspace) (\<lambda>_. deref (ri_State workspace) (\<lambda>state.
       if state = WorkspaceStateActive then ok False
       else if state = WorkspaceStateProvisioning then ok True
       else if state = WorkspaceStateFailed then fail (Errorf msg_powervs_workspace_failed_state)
       else fail (Errorf msg_powervs_workspacee_state)))"

definition createWorkspace :: "clients \<Rightarrow> string \<Rightarrow> ResourceInstance option scope_proc" where
  "createWorkspace C workspaceName = do {
     s \<leftarrow> get_scope;
     let resourceGroupID = GetResourceGroupID s;
     if resourceGroupID = [] then fail (Errorf msg_failed_fetch_resource_group_id)
     else if Zone s = [] then fail (Errorf msg_powervs_zone_not_set)
     else do {
       r \<leftarrow> CreateResourceInstance C
              \<lparr>cri_Name = workspaceName, cri_Target = Zone s, cri_ResourceGroup = resourceGroupID,
               cri_ResourcePlanID = PowerVSResourcePlanID\<rparr>;
       case r of
         Fail e _ \<Rightarrow> fail (Wrapf msg_failed_create_worksapce e)
       | Reply w \<Rightarrow> ok w
     } }"

definition reconcileWorkspaceReference :: "clients \<Rightarrow> bool scope_proc" where
  "reconcileWorkspaceReference C = do {
     s \<leftarrow> get_scope;
     let ref = WorkspaceSource_Reference (Spec_Workspace (spec s));
     r \<leftarrow> GetResourceInstanceByFilter C
            \<lparr>filter_ID = ResourceIdentifier_ID ref, filter_Name = ResourceIdentifier_Name ref,
             filter_ResourceID = PowerVSResourceID, filter_ResourcePlanID = PowerVSResourcePlanID,
             filter_Zone = Some (Spec_Zone (spec s))\<rparr>;
     case r of
       Fail e _ \<Rightarrow> fail (Wrapf msg_failed_fetch_workspace_by_ref e)
     | Reply None \<Rightarrow> fail (Errorf msg_workspace_with_reference_not_found)
     | Reply (Some w) \<Rightarrow>
         (case (ri_GUID w, ri_Name w) of
            (Some g, Some n) \<Rightarrow> do {
              set_status (\<lambda>st. st\<lparr>Status_Workspace := \<lparr>ResourceReference_ID = g, ResourceReference_Name = n\<rparr>\<rparr>);
              ok True }
          | _ \<Rightarrow> fail (Errorf msg_workspace_has_missing_guid_name)) }"

definition workspace_name :: "ClusterScope \<Rightarrow> string option" where
  "workspace_name s =
     (let n = WorkspaceProvisionConfig_Name (WorkspaceSource_Provision (Spec_Workspace (spec s)))
      in if n = [] then ResourceName (InfraCluster s) ResourceTypeWorkspace [] else Some n)"

definition workspace_filter :: "ClusterScope \<Rightarrow> string \<Rightarrow> InstanceFilter" where
  "workspace_filter s name =
     \<lparr>filter_ID = [], filter_Name = name, filter_ResourceID = PowerVSResourceID,
      filter_ResourcePlanID = PowerVSResourcePlanID, filter_Zone = Some (Spec_Zone (spec s))\<rparr>"

definition reconcileWorkspaceProvision :: "clients \<Rightarrow> bool scope_proc" where
  "reconcileWorkspaceProvision C = do {
     s \<leftarrow> get_scope;
     deref (workspace_name s) (\<lambda>workspaceName. do {
       r \<leftarrow> GetResourceInstanceByFilter C (workspace_filter s workspaceName);
       case r of
         Fail e _ \<Rightarrow> fail (Wrapf msg_failed_check_existing_workspace e)
       | Reply found \<Rightarrow>
           (case Option.bind found ri_GUID of
              Some g \<Rightarrow> do {
                set_status (\<lambda>st. st\<lparr>Status_Workspace :=
                  \<lparr>ResourceReference_ID = g, ResourceReference_Name = workspaceName\<rparr>\<rparr>);
                ok True }
            | None \<Rightarrow>
                bindW msg_failed_provision_workspace (createWorkspace C workspaceName) (\<lambda>w.
                  case Option.bind w ri_GUID of
                    None \<Rightarrow> fail (Errorf msg_provisioned_workspace_guid_nil)
                  | Some g \<Rightarrow> do {
                      set_status (\<lambda>st. st\<lparr>Status_Workspace :=
                        \<lparr>ResourceReference_ID = g, ResourceReference_Name = workspaceName\<rparr>\<rparr>);
                      ok True }))
     }) }"

definition ReconcileWorkspace :: "clients \<Rightarrow> bool scope_proc" where
  "ReconcileWorkspace C = do {
     s \<leftarrow> get_scope;
     let workspaceID = ResourceReference_ID (Status_Workspace (status s));
     if workspaceID \<noteq> [] then do {
       r \<leftarrow> GetResourceInstance C workspaceID;
       case r of
         Fail e _ \<Rightarrow> fail (Wrapf msg_failed_fetch_workspace e)
       | Reply None \<Rightarrow> fail (Errorf msg_workspace_not_found_with_id)
       | Reply (Some w) \<Rightarrow> bindW msg_failed_check_workspace_state (checkWorkspaceState w) ok
     }
     else case WorkspaceSource_Type (Spec_Workspace (spec s)) of
         SourceTypeReference \<Rightarrow> reconcileWorkspaceReference C
       | SourceTypeProvision \<Rightarrow> reconcileWorkspaceProvision C
       | OtherSourceType _ \<Rightarrow> fail (Errorf msg_unknown_workspace_source_type) }"

definition DeleteWorkspace :: "clients \<Rightarrow> bool scope_proc" where
  "DeleteWorkspace C = do {
     s \<leftarrow> get_scope;
     let workspaceID = ResourceReference_ID (Status_Workspace (status s));
     if WorkspaceSource_Type (Spec_Workspace (spec s)) \<noteq> SourceTypeProvision then ok False
     else if workspaceID = [] then ok False
     else do {
       r \<leftarrow> GetResourceInstance C workspaceID;
       case r of
         Fail e _ \<Rightarrow> fail (Wrapf msg_failed_fetch_powervs_workspace e)
       | Reply w \<Rightarrow>
           if Option.bind w ri_State = Some WorkspaceStateRemoved then ok False
           else do {
             d \<leftarrow> DeleteResourceInstance C workspaceID False;
             case d of
               Fail e _ \<Rightarrow> fail (Wrapf msg_failed_delete_powervs_workspace e)
             | Reply _ \<Rightarrow> ok True
           }
     } }"

section \<open>Frames\<close>

lemmas workspace_defs = ReconcileWorkspace_def reconcileWorkspaceReference_def
  reconcileWorkspaceProvision_def createWorkspace_def checkWorkspaceState_def

lemma keeps_ReconcileWorkspace:
  assumes "\<And>s h. p (s\<lparr>trace := h\<rparr>) = p s"
    and "\<And>v s. p (upd_status (\<lambda>st. st\<lparr>Status_Workspace := v\<rparr>) s) = p s"
  shows "state_io_rel (keeps p) (ReconcileWorkspace C)"
  unfolding workspace_defs by (intro frame_keeps) (simp_all add: assms)

lemma calls_ReconcileWorkspace:
  "state_io_rel (calls_in (\<lambda>c. \<exists>x. c = RC x \<and> \<not> deletes c)) (ReconcileWorkspace C)"
  unfolding workspace_defs by (intro frame_calls) simp_all

lemma keeps_DeleteWorkspace:
  assumes "\<And>s h. p (s\<lparr>trace := h\<rparr>) = p s"
  shows "state_io_rel (keeps p) (DeleteWorkspace C)"
  unfolding DeleteWorkspace_def by (intro frame_keeps) (simp_all add: assms)

text \<open>What the steps may call on a cluster with a given spec.\<close>

definition workspace_calls :: "IBMPowerVSClusterSpec \<Rightarrow> call \<Rightarrow> bool" where
  "workspace_calls sp c \<longleftrightarrow> \<not> deletes c \<and> (creates c \<longrightarrow> WorkspaceSource_Type (Spec_Workspace sp) = SourceTypeProvision \<and>
     (\<exists>x. c = RC (CreateResourceInstance_call x) \<and> cri_ResourcePlanID x = PowerVSResourcePlanID))"

definition workspace_delete_calls :: "IBMPowerVSClusterSpec \<Rightarrow> call \<Rightarrow> bool" where
  "workspace_delete_calls sp c \<longleftrightarrow> \<not> creates c \<and> (deletes c \<longrightarrow>
     WorkspaceSource_Type (Spec_Workspace sp) = SourceTypeProvision \<and> (\<exists>i. c = RC (DeleteResourceInstance_call i False)))"

interpretation workspace_step: scope_contract "ReconcileWorkspace C" workspace_calls for C
proof unfold_locales
  fix s
  show "wp (ReconcileWorkspace C) (\<lambda>_ t. within (\<lambda>_. ()) (workspace_calls (spec s)) s t) s"
    unfolding workspace_defs by (rule within_start, intro within_rules) (simp_all add: workspace_calls_def)
qed

interpretation workspace_delete: scope_contract "DeleteWorkspace C" workspace_delete_calls for C
proof unfold_locales
  fix s
  show "wp (DeleteWorkspace C) (\<lambda>_ t. within (\<lambda>_. ()) (workspace_delete_calls (spec s)) s t) s"
    unfolding DeleteWorkspace_def by (rule within_start, intro within_rules) (simp_all add: workspace_delete_calls_def)
qed

section \<open>Properties\<close>

lemma ReconcileWorkspace_tracked:
  assumes "ResourceReference_ID (Status_Workspace (status s)) = i" and "i \<noteq> []"
  shows "snd (run_state (ReconcileWorkspace C) s) = s\<lparr>trace := trace s @ [RC (GetResourceInstance_call i)]\<rparr>"
  unfolding ReconcileWorkspace_def checkWorkspaceState_def wp_snd
  by (simp only: wp_simps) (simp add: assms cong: imp_cong)

lemma wp_ReconcileWorkspace_tracked:
  "wp (ReconcileWorkspace C) (\<lambda>r t. r = Ok False \<longrightarrow> ResourceReference_ID (Status_Workspace (status t)) \<noteq> []) s"
  unfolding workspace_defs by (simp only: wp_simps) (simp cong: imp_cong)

text \<open>When the deletion of the workspace needs no requeue, the cloud reported it removed, or there was nothing to delete.\<close>

definition workspace_removed :: "clients \<Rightarrow> ClusterScope \<Rightarrow> bool" where
  "workspace_removed C s \<longleftrightarrow> WorkspaceSource_Type (Spec_Workspace (spec s)) \<noteq> SourceTypeProvision \<or>
     ResourceReference_ID (Status_Workspace (status s)) = [] \<or>
     (\<exists>h w. on_GetResourceInstance (ResourceClient C) h (ResourceReference_ID (Status_Workspace (status s))) = Reply (Some w) \<and>
        ri_State w = Some WorkspaceStateRemoved)"

lemma wp_DeleteWorkspace: "wp (DeleteWorkspace C) (\<lambda>r t. r = Ok False \<longrightarrow> workspace_removed C s) s"
  unfolding DeleteWorkspace_def workspace_removed_def
  by (simp only: wp_simps) (auto simp: bind_eq_Some_conv cong: imp_cong)

text \<open>
  the workspace counts as ready (no requeue, no error) only if it is tracked in the status
  and the cloud, asked for that very ID in this reconcile, reported it active; and in that case
  nothing but that one question was put to the cloud and the status is unchanged.
\<close>

theorem ReconcileWorkspace_ready:
  assumes "run_state (ReconcileWorkspace C) s = (Ok False, t)"
  shows "\<exists>i w. ResourceReference_ID (Status_Workspace (status s)) = i \<and> i \<noteq> [] \<and>
      on_GetResourceInstance (ResourceClient C) (trace s) i = Reply (Some w) \<and>
      ri_State w = Some WorkspaceStateActive \<and>
      t = s\<lparr>trace := trace s @ [RC (GetResourceInstance_call i)]\<rparr>"
proof -
  have "wp (ReconcileWorkspace C) (\<lambda>r t. r = Ok False \<longrightarrow>
     (\<exists>i w. ResourceReference_ID (Status_Workspace (status s)) = i \<and> i \<noteq> [] \<and>
      on_GetResourceInstance (ResourceClient C) (trace s) i = Reply (Some w) \<and>
      ri_State w = Some WorkspaceStateActive \<and>
      t = s\<lparr>trace := trace s @ [RC (GetResourceInstance_call i)]\<rparr>)) s"
    unfolding workspace_defs
    by (simp only: wp_simps) (simp cong: imp_cong)
  from wpD [OF this assms] show ?thesis by blast
qed

theorem ReconcileWorkspace_ready_witness:
  "\<exists>i w. ResourceReference_ID (Status_Workspace (status settled)) = i \<and> i \<noteq> [] \<and>
     on_GetResourceInstance (ResourceClient example_cloud) (trace settled) i = Reply (Some w) \<and> ri_State w = Some WorkspaceStateActive"
proof -
  have "run_state (ReconcileWorkspace example_cloud) settled = (Ok False, settled\<lparr>trace := [RC (GetResourceInstance_call ''ws'')]\<rparr>)"
    by code_simp
  from ReconcileWorkspace_ready [OF this] show ?thesis by blast
qed

text \<open>The request that creates the workspace of a cluster.\<close>

definition workspace_request :: "ClusterScope \<Rightarrow> string \<Rightarrow> CreateResourceInstanceOptions" where
  "workspace_request s n =
     \<lparr>cri_Name = n, cri_Target = Zone s, cri_ResourceGroup = GetResourceGroupID s,
      cri_ResourcePlanID = PowerVSResourcePlanID\<rparr>"

text \<open>
  a reconcile creates a workspace only when the user asked for one to be provisioned, none
  is tracked yet, and the cloud, asked by name and zone, knows none; the request then carries
  that name, the zone of the cluster and its resource group. Nothing is ever deleted.
\<close>

theorem ReconcileWorkspace_create_guard:
  assumes "run_state (ReconcileWorkspace C) s = (r, t)"
    and "c \<in> set (new_calls s t)" and "creates c \<or> deletes c"
  shows "WorkspaceSource_Type (Spec_Workspace (spec s)) = SourceTypeProvision \<and>
    ResourceReference_ID (Status_Workspace (status s)) = [] \<and>
    (\<exists>n found. workspace_name s = Some n \<and>
       on_GetResourceInstanceByFilter (ResourceClient C) (trace s) (workspace_filter s n) = Reply found \<and>
       Option.bind found ri_GUID = None \<and>
       c = RC (CreateResourceInstance_call (workspace_request s n)))"
proof -
  let ?P = "\<lambda>c. WorkspaceSource_Type (Spec_Workspace (spec s)) = SourceTypeProvision \<and>
    ResourceReference_ID (Status_Workspace (status s)) = [] \<and>
    (\<exists>n found. workspace_name s = Some n \<and>
       on_GetResourceInstanceByFilter (ResourceClient C) (trace s) (workspace_filter s n) = Reply found \<and>
       Option.bind found ri_GUID = None \<and>
       c = RC (CreateResourceInstance_call (workspace_request s n)))"
  have "wp (ReconcileWorkspace C) (\<lambda>_ t. \<forall>c \<in> set (new_calls s t). creates c \<or> deletes c \<longrightarrow> ?P c) s"
    unfolding workspace_defs
    by (simp only: wp_simps) (simp add: new_calls_def workspace_request_def cong: imp_cong)
  from wpD [OF this assms(1)] assms(2,3) show ?thesis by blast
qed

theorem ReconcileWorkspace_create_guard_witness:
  "RC (CreateResourceInstance_call (workspace_request fresh ''c-workspace'')) \<in> set (new_calls (fresh) (snd (run_state (ReconcileWorkspace example_cloud) (fresh)))) \<and> ResourceReference_ID (Status_Workspace (status fresh)) = []"
proof -
  have made: "RC (CreateResourceInstance_call (workspace_request fresh ''c-workspace'')) \<in> set (new_calls (fresh) (snd (run_state (ReconcileWorkspace example_cloud) (fresh))))" by code_simp
  show ?thesis using made ReconcileWorkspace_create_guard [OF surjective_pairing made] by simp
qed

text \<open>
  C6: the workspace is created exactly once, however often the controller reconciles: when the
  lookup finds none and the creation answers with an ID, every number of further reconciles
  leaves that one creation the only one and its ID tracked in the status, whatever the cloud
  answers later.
\<close>

theorem workspace_created_once:
  assumes "WorkspaceSource_Type (Spec_Workspace (spec s)) = SourceTypeProvision"
    and "ResourceReference_ID (Status_Workspace (status s)) = []"
    and "workspace_name s = Some n" and "GetResourceGroupID s \<noteq> []" and "Zone s \<noteq> []"
    and "on_GetResourceInstanceByFilter (ResourceClient C) (trace s) (workspace_filter s n) = Reply None"
    and "on_CreateResourceInstance (ResourceClient C)
          (trace s @ [RC (GetResourceInstanceByFilter_call (workspace_filter s n))])
          (workspace_request s n) = Reply (Some w)"
    and "ri_GUID w = Some g" and "g \<noteq> []"
  shows "filter creates (new_calls s (rerun (Suc k) (ReconcileWorkspace C) s)) =
           [RC (CreateResourceInstance_call (workspace_request s n))] \<and>
         Status_Workspace (status (rerun (Suc k) (ReconcileWorkspace C) s)) =
           \<lparr>ResourceReference_ID = g, ResourceReference_Name = n\<rparr>"
proof -
  define I where "I t \<longleftrightarrow> (\<exists>cs. trace t = trace s @ cs \<and>
      filter creates cs = [RC (CreateResourceInstance_call (workspace_request s n))]) \<and>
      Status_Workspace (status t) = \<lparr>ResourceReference_ID = g, ResourceReference_Name = n\<rparr>" for t
  have "wp (ReconcileWorkspace C) (\<lambda>_ t. I t) s"
    unfolding workspace_defs I_def by (simp only: wp_simps) (simp add: assms workspace_request_def [symmetric] cong: imp_cong)
  then have "I (snd (run_state (ReconcileWorkspace C) s))"
    by (simp add: wp_def split: prod.splits)
  moreover have "I (snd (run_state (ReconcileWorkspace C) t))" if "I t" for t
    using that assms(9) unfolding I_def
    by (auto simp: ReconcileWorkspace_tracked [of t g])
  ultimately have "I (rerun k (ReconcileWorkspace C) (snd (run_state (ReconcileWorkspace C) s)))"
    by (rule rerun_invariant)
  then show ?thesis by (auto simp: I_def new_calls_def)
qed

theorem workspace_created_once_witness:
  "filter creates (new_calls fresh (rerun 3 (ReconcileWorkspace example_cloud) fresh)) =
     [RC (CreateResourceInstance_call (workspace_request fresh ''c-workspace''))]"
proof -
  have "rerun 3 (ReconcileWorkspace example_cloud) fresh = rerun (Suc 2) (ReconcileWorkspace example_cloud) fresh"
    by (simp only: eval_nat_numeral)
  moreover have "filter creates (new_calls fresh (rerun (Suc 2) (ReconcileWorkspace example_cloud) fresh)) =
     [RC (CreateResourceInstance_call (workspace_request fresh ''c-workspace''))]"
    by (rule workspace_created_once [where w = "active_instance ''c-workspace''" and g = "''c-workspace''", THEN conjunct1]) code_simp+
  ultimately show ?thesis by simp
qed

text \<open>
  Deleting never touches a workspace the controller did not provision: unless the source
  is of type Provision, nothing is asked of the cloud and the state is unchanged. Otherwise
  the only resource ever deleted is the tracked one, and only if the cloud does not report it
  removed already.
\<close>

theorem DeleteWorkspace_owned:
  "wp (DeleteWorkspace C) (\<lambda>r t.
     if WorkspaceSource_Type (Spec_Workspace (spec s)) = SourceTypeProvision
     then status t = status s \<and> set (filter deletes (new_calls s t)) \<subseteq>
        {RC (DeleteResourceInstance_call (ResourceReference_ID (Status_Workspace (status s))) False)}
     else r = Ok False \<and> t = s) s"
  unfolding DeleteWorkspace_def
  by (simp only: wp_simps) (simp add: new_calls_def cong: imp_cong)

end
