(* ===== verification/Network.thy ===== *)
theory Network
  imports Example_Cluster
begin

text \<open>
  The PowerVS network of a cluster and its DHCP server (\<^verbatim>\<open>powervs_cluster.go\<close>:
  \<open>ReconcileNetwork\<close> and what it calls, \<open>DeleteDHCPServer\<close>).
\<close>

section \<open>Error texts\<close>

definition msg_dhcp_server_status_nil :: string where "msg_dhcp_server_status_nil = ''DHCP server status is nil''"
definition msg_dhcp_server_creation_failed_error :: string where "msg_dhcp_server_creation_failed_error = ''DHCP server creation failed and is in error state''"
definition msg_dhcp_server_unknown_state :: string where "msg_dhcp_server_unknown_state = ''DHCP server is in an unknown state: %s''"
definition msg_dhcp_server_details_are_nil :: string where "msg_dhcp_server_details_are_nil = ''DHCP server details are nil for ID: %s''"
definition msg_created_dhcp_server_its_id :: string where "msg_created_dhcp_server_its_id = ''created DHCP server or its ID is nil''"
definition msg_created_dhcp_server_network_its :: string where "msg_created_dhcp_server_network_its = ''created DHCP server network or its ID is nil''"
definition msg_failed_fetch_existing_dhcp_servers :: string where "msg_failed_fetch_existing_dhcp_servers = ''failed to fetch existing DHCP servers for idempotency check: %w''"
definition msg_failed_provision_dhcp_server :: string where "msg_failed_provision_dhcp_server = ''failed to provision DHCP server: %w''"
definition msg_invalid_network_payload_received_from :: string where "msg_invalid_network_payload_received_from = ''invalid network payload received from IBM cloud''"
definition msg_failed_fetch_network_by_id :: string where "msg_failed_fetch_network_by_id = ''failed to fetch network by ID %q: %w''"
definition msg_failed_fetch_network_by_name :: string where "msg_failed_fetch_network_by_name = ''failed to fetch network by name %q: %w''"
definition msg_network_reference_must_contain_either :: string where "msg_network_reference_must_contain_either = ''network reference must contain either an ID or a Name''"
definition msg_failed_fetch_network_by_id2 :: string where "msg_failed_fetch_network_by_id2 = ''failed to fetch network by ID: %w''"
definition msg_failed_check_if_dhcp_server :: string where "msg_failed_check_if_dhcp_server = ''failed to check if DHCP server is active: %w''"
definition msg_unknown_network_source_type :: string where "msg_unknown_network_source_type = ''unknown network source type: %q''"
definition msg_failed_fetch_dhcp_server :: string where "msg_failed_fetch_dhcp_server = ''failed to fetch DHCP server: %w''"
definition msg_failed_delete_dhcp_server :: string where "msg_failed_delete_dhcp_server = ''failed to delete DHCP server: %w''"

section \<open>Operations\<close>

definition checkDHCPServerStatus :: "DHCPServerDetail \<Rightarrow> bool scope_proc" where
  "checkDHCPServerStatus dhcpServer =
     (case dhcpd_Status dhcpServer of
        None \<Rightarrow> fail (Errorf msg_dhcp_server_status_nil)
      | Some st \<Rightarrow>
          if st = DHCPServerStateActive then ok True
          else if st = DHCPServerStateBuild then ok False
          else if st = DHCPServerStateError
               then fail (Errorf msg_dhcp_server_creation_failed_error)
          else fail (Errorf msg_dhcp_server_unknown_state))"

definition isDHCPServerActive :: "clients \<Rightarrow> bool scope_proc" where
  "isDHCPServerActive C = do {
     s \<leftarrow> get_scope;
     r \<leftarrow> GetDHCPServer C (ResourceReference_ID (NetworkStatus_DHCPServer (Status_Network (status s))));
     case r of
       Fail e _ \<Rightarrow> fail e
     | Reply None \<Rightarrow> fail (Errorf msg_dhcp_server_details_are_nil)
     | Reply (Some d) \<Rightarrow> checkDHCPServerStatus d }"

definition dhcp_request :: "DHCPServer \<Rightarrow> string \<Rightarrow> DHCPServerCreate" where
  "dhcp_request dhcpSpec dhcpName =
     \<lparr>dsc_Name = dhcpName,
      dsc_Cidr = (if DHCPServer_CIDR dhcpSpec \<noteq> [] then Some (DHCPServer_CIDR dhcpSpec) else None),
      dsc_DNSServer = (if DHCPServer_DNSServer dhcpSpec \<noteq> [] then Some (DHCPServer_DNSServer dhcpSpec) else None),
      dsc_SnatEnabled = (DHCPServer_Snat dhcpSpec \<noteq> DHCPSnatPolicyDisabled)\<rparr>"

definition dhcp_spec :: "ClusterScope \<Rightarrow> DHCPServer" where
  "dhcp_spec s = NetworkProvisionConfig_DHCPServer (NetworkSource_Provision (Spec_Network (spec s)))"

definition createDHCPServer :: "clients \<Rightarrow> string \<Rightarrow> (string \<times> string) scope_proc" where
  "createDHCPServer C dhcpName = do {
     s \<leftarrow> get_scope;
     r \<leftarrow> CreateDHCPServer C (dhcp_request (dhcp_spec s) dhcpName);
     case r of
       Fail e _ \<Rightarrow> fail e
     | Reply d \<Rightarrow>
         (case Option.bind d dhcp_ID of
            None \<Rightarrow> fail (Errorf msg_created_dhcp_server_its_id)
          | Some i \<Rightarrow>
              (case Option.bind (Option.bind d dhcp_Network) dhcpnet_ID of
                 None \<Rightarrow> fail (Errorf msg_created_dhcp_server_network_its)
               | Some n \<Rightarrow> ok (i, n))) }"

text \<open>
  The search of \<open>reconcileNetworkProvision\<close> for a server created earlier: the first one whose
  network has the expected name and whose IDs are there, with its ID, its network's ID and name.
\<close>

fun recoverDHCPServer :: "string \<Rightarrow> DHCPServerSummary option list \<Rightarrow> (string \<times> string \<times> string) option outcome" where
  "recoverDHCPServer expected [] = Ok None"
| "recoverDHCPServer expected (None # _) = Panic"
| "recoverDHCPServer expected (Some server # rest) =
     (case dhcp_Network server of
        None \<Rightarrow> recoverDHCPServer expected rest
      | Some nw \<Rightarrow>
          if dhcpnet_Name nw \<noteq> Some expected then recoverDHCPServer expected rest
          else (case (dhcp_ID server, dhcpnet_ID nw) of
                  (Some i, Some ni) \<Rightarrow> Ok (Some (i, ni, expected))
                | _ \<Rightarrow> recoverDHCPServer expected rest))"

definition dhcp_name :: "ClusterScope \<Rightarrow> string option" where
  "dhcp_name s = (if DHCPServer_Name (dhcp_spec s) = []
                  then ResourceName (InfraCluster s) ResourceTypeDHCP []
                  else Some (DHCPServer_Name (dhcp_spec s)))"

definition network_resolved :: "string \<Rightarrow> string \<Rightarrow> string \<Rightarrow> IBMPowerVSClusterStatus \<Rightarrow> IBMPowerVSClusterStatus" where
  "network_resolved networkID networkName dhcpID st =
     st\<lparr>Status_Network := (Status_Network st)
         \<lparr>NetworkStatus_ID := networkID, NetworkStatus_Name := networkName,
          NetworkStatus_DHCPServer :=
            (NetworkStatus_DHCPServer (Status_Network st))\<lparr>ResourceReference_ID := dhcpID\<rparr>\<rparr>\<rparr>"

definition reconcileNetworkProvision :: "clients \<Rightarrow> bool scope_proc" where
  "reconcileNetworkProvision C = do {
     s \<leftarrow> get_scope;
     deref (dhcp_name s) (\<lambda>dhcpName. do {
       r \<leftarrow> ListDHCPServers C;
       case r of
         Fail e _ \<Rightarrow> fail (Wrapf msg_failed_fetch_existing_dhcp_servers e)
       | Reply servers \<Rightarrow>
           attempt (State_Monad.return (recoverDHCPServer (dhcpNetworkName dhcpName) servers)) fail
             (\<lambda>found. case found of
                Some (dhcpID, networkID, name) \<Rightarrow> do {
                  set_status (network_resolved networkID name dhcpID);
                  ok True }
              | None \<Rightarrow>
                  bindW msg_failed_provision_dhcp_server (createDHCPServer C dhcpName)
                    (\<lambda>(dhcpServerID, networkID). do {
                       set_status (network_resolved networkID (dhcpNetworkName dhcpName) dhcpServerID);
                       ok True }))
     }) }"

definition reconcileNetworkReference :: "clients \<Rightarrow> bool scope_proc" where
  "reconcileNetworkReference C = do {
     s \<leftarrow> get_scope;
     let ref = NetworkSource_Reference (Spec_Network (spec s));
     let resolve = (\<lambda>n. case (Option.bind n net_NetworkID, Option.bind n net_Name) of
          (Some i, Some name) \<Rightarrow> do {
            set_status (\<lambda>st. st\<lparr>Status_Network := (Status_Network st)
              \<lparr>NetworkStatus_ID := i, NetworkStatus_Name := name\<rparr>\<rparr>);
            ok True }
        | _ \<Rightarrow> fail (Errorf msg_invalid_network_payload_received_from));
     if ResourceIdentifier_ID ref \<noteq> [] then do {
       r \<leftarrow> GetNetworkByID C (ResourceIdentifier_ID ref);
       case r of
         Fail e _ \<Rightarrow> fail (Wrapf msg_failed_fetch_network_by_id e)
       | Reply n \<Rightarrow> resolve n
     }
     else if ResourceIdentifier_Name ref \<noteq> [] then do {
       r \<leftarrow> GetNetworkByName C (ResourceIdentifier_Name ref);
       case r of
         Fail e _ \<Rightarrow> fail (Wrapf msg_failed_fetch_network_by_name e)
       | Reply n \<Rightarrow> resolve n
     }
     else fail (Errorf msg_network_reference_must_contain_either) }"

definition ReconcileNetwork :: "clients \<Rightarrow> bool scope_proc" where
  "ReconcileNetwork C = do {
     s \<leftarrow> get_scope;
     let networkID = NetworkStatus_ID (Status_Network (status s));
     if networkID \<noteq> [] then do {
       r \<leftarrow> GetNetworkByID C networkID;
       case r of
         Fail e _ \<Rightarrow> fail (Wrapf msg_failed_fetch_network_by_id2 e)
       | Reply _ \<Rightarrow>
           if NetworkSource_Type (Spec_Network (spec s)) = SourceTypeProvision then
             if ResourceReference_ID (NetworkStatus_DHCPServer (Status_Network (status s))) = []
             then ok True
             else bindW msg_failed_check_if_dhcp_server (isDHCPServerActive C)
                    (\<lambda>active. ok (\<not> active))
           else ok False
     }
     else case NetworkSource_Type (Spec_Network (spec s)) of
         SourceTypeReference \<Rightarrow> reconcileNetworkReference C
       | SourceTypeProvision \<Rightarrow> reconcileNetworkProvision C
       | OtherSourceType _ \<Rightarrow> fail (Errorf msg_unknown_network_source_type) }"

text \<open>\<open>strings.Contains\<close>, and the text by which a missing DHCP server is recognised.\<close>

fun string_contains :: "string \<Rightarrow> string \<Rightarrow> bool" where
  "string_contains [] sub = (sub = [])"
| "string_contains (c # cs) sub = (take (length sub) (c # cs) = sub \<or> string_contains cs sub)"

definition DHCPServerNotFound :: string where
  "DHCPServerNotFound = ''dhcp server does not exist''"

fun Error_text :: "gerror \<Rightarrow> string" where
  "Error_text (Errorf m) = m"
| "Error_text (Wrapf m e) = m @ '': '' @ Error_text e"
| "Error_text (ClientErr m) = m"
| "Error_text (AwsErr c) = c"
| "Error_text (SecurityGroupByNameNotFound n) = n"
| "Error_text (NotFoundErr m) = m"
| "Error_text (ConfigurationErr m) = m"
| "Error_text (AggregateErr es) = concat (map Error_text es)"

definition DeleteDHCPServer :: "clients \<Rightarrow> unit scope_proc" where
  "DeleteDHCPServer C = do {
     s \<leftarrow> get_scope;
     let dhcpID = ResourceReference_ID (NetworkStatus_DHCPServer (Status_Network (status s)));
     if NetworkSource_Type (Spec_Network (spec s)) \<noteq> SourceTypeProvision then ok ()
     else if WorkspaceSource_Type (Spec_Workspace (spec s)) = SourceTypeProvision then ok ()
     else if dhcpID = [] then ok ()
     else do {
       r \<leftarrow> GetDHCPServer C dhcpID;
       case r of
         Fail e _ \<Rightarrow>
           if string_contains (Error_text e) DHCPServerNotFound then ok ()
           else fail (Wrapf msg_failed_fetch_dhcp_server e)
       | Reply server \<Rightarrow>
           deref (Option.bind server dhcpd_ID) (\<lambda>i. do {
             d \<leftarrow> DeleteDHCPServer_api C i;
             case d of
               Fail e _ \<Rightarrow> fail (Wrapf msg_failed_delete_dhcp_server e)
             | Reply _ \<Rightarrow> ok ()
           })
     } }"

section \<open>Frames\<close>

lemma dhcp_names_simps [simp]:
  "dhcp_spec (s\<lparr>trace := h\<rparr>) = dhcp_spec s" "dhcp_name (s\<lparr>trace := h\<rparr>) = dhcp_name s"
  by (simp_all add: dhcp_spec_def dhcp_name_def)

lemmas network_defs = ReconcileNetwork_def reconcileNetworkReference_def
  reconcileNetworkProvision_def createDHCPServer_def isDHCPServerActive_def checkDHCPServerStatus_def

lemma keeps_ReconcileNetwork:
  assumes "\<And>s h. p (s\<lparr>trace := h\<rparr>) = p s"
    and "\<And>f s. p (upd_status (\<lambda>st. st\<lparr>Status_Network := f st\<rparr>) s) = p s"
  shows "state_io_rel (keeps p) (ReconcileNetwork C)"
  unfolding network_defs network_resolved_def by (intro frame_keeps) (simp_all add: assms)

lemma calls_ReconcileNetwork:
  "state_io_rel (calls_in (\<lambda>c. \<exists>x. c = PVS x \<and> \<not> deletes c)) (ReconcileNetwork C)"
  unfolding network_defs by (intro frame_calls) simp_all

lemma keeps_DeleteDHCPServer:
  assumes "\<And>s h. p (s\<lparr>trace := h\<rparr>) = p s"
  shows "state_io_rel (keeps p) (DeleteDHCPServer C)"
  unfolding DeleteDHCPServer_def by (intro frame_keeps) (simp_all add: assms)

text \<open>What the steps may call on a cluster with a given spec.\<close>

definition network_calls :: "IBMPowerVSClusterSpec \<Rightarrow> call \<Rightarrow> bool" where
  "network_calls sp c \<longleftrightarrow> \<not> deletes c \<and> (creates c \<longrightarrow> NetworkSource_Type (Spec_Network sp) = SourceTypeProvision \<and>
     (\<exists>x. c = PVS (CreateDHCPServer_call x)))"

definition dhcp_delete_calls :: "IBMPowerVSClusterSpec \<Rightarrow> call \<Rightarrow> bool" where
  "dhcp_delete_calls sp c \<longleftrightarrow> \<not> creates c \<and> (deletes c \<longrightarrow>
     NetworkSource_Type (Spec_Network sp) = SourceTypeProvision \<and>
     WorkspaceSource_Type (Spec_Workspace sp) \<noteq> SourceTypeProvision \<and> (\<exists>i. c = PVS (DeleteDHCPServer_call i)))"

interpretation network_step: scope_contract "ReconcileNetwork C" network_calls for C
proof unfold_locales
  fix s
  show "wp (ReconcileNetwork C) (\<lambda>_ t. within (\<lambda>_. ()) (network_calls (spec s)) s t) s"
    unfolding network_defs by (rule within_start, intro within_rules) (simp_all add: network_calls_def)
qed

interpretation dhcp_delete: scope_contract "DeleteDHCPServer C" dhcp_delete_calls for C
proof unfold_locales
  fix s
  show "wp (DeleteDHCPServer C) (\<lambda>_ t. within (\<lambda>_. ()) (dhcp_delete_calls (spec s)) s t) s"
    unfolding DeleteDHCPServer_def by (rule within_start, intro within_rules) (simp_all add: dhcp_delete_calls_def)
qed

section \<open>Properties\<close>

text \<open>The recovery search finds an entry exactly when a complete one is listed.\<close>

definition complete_entry :: "string \<Rightarrow> string \<Rightarrow> string \<Rightarrow> DHCPServerSummary \<Rightarrow> bool" where
  "complete_entry name i ni server \<longleftrightarrow> dhcp_ID server = Some i \<and>
     (\<exists>nw. dhcp_Network server = Some nw \<and> dhcpnet_Name nw = Some name \<and> dhcpnet_ID nw = Some ni)"

lemma recoverDHCPServer_Some:
  "recoverDHCPServer e xs = Ok (Some (i, ni, n)) \<Longrightarrow> n = e \<and> (\<exists>x. Some x \<in> set xs \<and> complete_entry e i ni x)"
proof (induction xs)
  case (Cons x xs)
  then show ?case
    by (cases x) (fastforce simp: complete_entry_def split: option.splits if_splits)+
qed simp

lemma recoverDHCPServer_None:
  "recoverDHCPServer e xs = Ok None \<Longrightarrow> Some x \<in> set xs \<Longrightarrow> \<not> complete_entry e i ni x"
proof (induction xs)
  case (Cons y ys)
  then show ?case
    by (cases y) (fastforce simp: complete_entry_def split: option.splits if_splits)+
qed simp

text \<open>
  a DHCP server is created only when the user asked for one to be provisioned, no network
  is tracked yet, and the servers the cloud lists hold no complete entry whose network carries
  the name of this server; the request is the one the spec asks for, with source NAT on unless
  it is explicitly disabled. Nothing is deleted by a reconcile.
\<close>

theorem ReconcileNetwork_create_guard:
  assumes "run_state (ReconcileNetwork C) s = (r, t)"
    and "c \<in> set (new_calls s t)" and "creates c \<or> deletes c"
  shows "NetworkSource_Type (Spec_Network (spec s)) = SourceTypeProvision \<and>
    NetworkStatus_ID (Status_Network (status s)) = [] \<and>
    (\<exists>n servers. dhcp_name s = Some n \<and>
       on_ListDHCPServers (IBMPowerVSClient C) (trace s) = Reply servers \<and>
       (\<forall>x i ni. Some x \<in> set servers \<longrightarrow> \<not> complete_entry (dhcpNetworkName n) i ni x) \<and>
       c = PVS (CreateDHCPServer_call (dhcp_request (dhcp_spec s) n)))"
proof -
  let ?P = "\<lambda>c. NetworkSource_Type (Spec_Network (spec s)) = SourceTypeProvision \<and>
    NetworkStatus_ID (Status_Network (status s)) = [] \<and>
    (\<exists>n servers. dhcp_name s = Some n \<and>
       on_ListDHCPServers (IBMPowerVSClient C) (trace s) = Reply servers \<and>
       recoverDHCPServer (dhcpNetworkName n) servers = Ok None \<and>
       c = PVS (CreateDHCPServer_call (dhcp_request (dhcp_spec s) n)))"
  have "wp (ReconcileNetwork C) (\<lambda>_ t. \<forall>c \<in> set (new_calls s t). creates c \<or> deletes c \<longrightarrow> ?P c) s"
    unfolding network_defs
    by (simp only: wp_simps) (simp add: new_calls_def cong: imp_cong)
  from wpD [OF this assms(1)] assms(2,3) show ?thesis
    by (blast dest: recoverDHCPServer_None)
qed

theorem ReconcileNetwork_create_guard_witness:
  "PVS (CreateDHCPServer_call (dhcp_request (dhcp_spec fresh) ''c-dhcp'')) \<in> set (new_calls (fresh) (snd (run_state (ReconcileNetwork example_cloud) (fresh)))) \<and> NetworkStatus_ID (Status_Network (status fresh)) = []"
proof -
  have made: "PVS (CreateDHCPServer_call (dhcp_request (dhcp_spec fresh) ''c-dhcp'')) \<in> set (new_calls (fresh) (snd (run_state (ReconcileNetwork example_cloud) (fresh))))" by code_simp
  show ?thesis using made ReconcileNetwork_create_guard [OF surjective_pairing made] by simp
qed

text \<open>
  The network counts as ready only if it is tracked and the cloud answered for its ID, and,
  when the controller provisions it, the tracked DHCP server was reported ACTIVE.
\<close>

theorem ReconcileNetwork_ready:
  assumes "run_state (ReconcileNetwork C) s = (Ok False, t)"
  shows "\<exists>i n. NetworkStatus_ID (Status_Network (status s)) = i \<and> i \<noteq> [] \<and>
      on_GetNetworkByID (IBMPowerVSClient C) (trace s) i = Reply n \<and> status t = status s \<and>
      (NetworkSource_Type (Spec_Network (spec s)) \<noteq> SourceTypeProvision \<or>
       (\<exists>d. on_GetDHCPServer (IBMPowerVSClient C) (trace s @ [PVS (GetNetworkByID_call i)])
              (ResourceReference_ID (NetworkStatus_DHCPServer (Status_Network (status s)))) = Reply (Some d) \<and>
            dhcpd_Status d = Some DHCPServerStateActive))"
proof -
  have "wp (ReconcileNetwork C) (\<lambda>r t. r = Ok False \<longrightarrow>
     (\<exists>i n. NetworkStatus_ID (Status_Network (status s)) = i \<and> i \<noteq> [] \<and>
      on_GetNetworkByID (IBMPowerVSClient C) (trace s) i = Reply n \<and> status t = status s \<and>
      (NetworkSource_Type (Spec_Network (spec s)) \<noteq> SourceTypeProvision \<or>
       (\<exists>d. on_GetDHCPServer (IBMPowerVSClient C) (trace s @ [PVS (GetNetworkByID_call i)])
              (ResourceReference_ID (NetworkStatus_DHCPServer (Status_Network (status s)))) = Reply (Some d) \<and>
            dhcpd_Status d = Some DHCPServerStateActive)))) s"
    unfolding network_defs
    by (simp only: wp_simps) (simp cong: imp_cong)
  from wpD [OF this assms] show ?thesis by blast
qed

theorem ReconcileNetwork_ready_witness:
  "\<exists>i. NetworkStatus_ID (Status_Network (status settled)) = i \<and> i \<noteq> []"
proof -
  have "run_state (ReconcileNetwork example_cloud) settled =
      (Ok False, settled\<lparr>trace := [PVS (GetNetworkByID_call ''net''), PVS (GetDHCPServer_call ''dhcp'')]\<rparr>)"
    by code_simp
  from ReconcileNetwork_ready [OF this] show ?thesis by blast
qed

text \<open>
  C7: a provisioned network whose status has the network ID but not the DHCP server ID is
  never repaired: every further reconcile asks for a requeue (or reports the failed lookup of
  the network) and leaves the status as it is, although the log announces a recovery. The
  condition is stable, so the network never becomes ready again.
\<close>

theorem ReconcileNetwork_missing_dhcp_livelock:
  assumes "NetworkSource_Type (Spec_Network (spec s)) = SourceTypeProvision"
    and "NetworkStatus_ID (Status_Network (status s)) \<noteq> []"
    and "ResourceReference_ID (NetworkStatus_DHCPServer (Status_Network (status s))) = []"
  shows "status (rerun k (ReconcileNetwork C) s) = status s \<and>
     fst (run_state (ReconcileNetwork C) (rerun k (ReconcileNetwork C) s)) \<noteq> Ok False"
proof -
  define I where "I t \<longleftrightarrow> status t = status s \<and> spec t = spec s" for t
  have step: "wp (ReconcileNetwork C) (\<lambda>r t'. I t' \<and> r \<noteq> Ok False) t" if "I t" for t
    using that unfolding I_def ReconcileNetwork_def by (simp only: wp_simps) (simp add: assms cong: imp_cong)
  have I: "I (rerun k (ReconcileNetwork C) s)"
  proof (rule wp_rerun)
    show "I s" by (simp add: I_def)
    show "wp (ReconcileNetwork C) (\<lambda>_ t. I t) t" if "I t" for t
      using step [OF that] by (rule wp_mono) simp
  qed
  from wp_result [OF step [OF this]] I show ?thesis unfolding I_def by blast
qed

theorem ReconcileNetwork_missing_dhcp_livelock_witness:
  "fst (run_state (ReconcileNetwork example_cloud) (rerun 5 (ReconcileNetwork example_cloud) (scope_of example_spec lost_dhcp_status))) \<noteq> Ok False"
  by (rule ReconcileNetwork_missing_dhcp_livelock [THEN conjunct2]) code_simp+

text \<open>
  Deleting the DHCP server leaves alone what the controller does not own: a referenced
  network, and a server inside a workspace that is deleted as a whole; then the cloud is not
  even asked. A missing server is success.
\<close>

theorem DeleteDHCPServer_owned:
  "wp (DeleteDHCPServer C) (\<lambda>r t.
     if NetworkSource_Type (Spec_Network (spec s)) = SourceTypeProvision \<and>
        WorkspaceSource_Type (Spec_Workspace (spec s)) \<noteq> SourceTypeProvision
     then status t = status s \<and>
        (\<forall>c \<in> set (filter deletes (new_calls s t)). \<exists>d i. c = PVS (DeleteDHCPServer_call i) \<and>
           on_GetDHCPServer (IBMPowerVSClient C) (trace s)
             (ResourceReference_ID (NetworkStatus_DHCPServer (Status_Network (status s)))) = Reply (Some d) \<and>
           dhcpd_ID d = Some i)
     else r = Ok () \<and> t = s) s"
  unfolding DeleteDHCPServer_def
  apply (simp only: wp_simps)
  apply (simp add: new_calls_def cong: imp_cong)
  apply (auto split: Option.bind_splits)
  done

theorem DeleteDHCPServer_owned_witness:
  "filter deletes (new_calls (scope_of own_workspace_spec settled_status)
      (snd (run_state (DeleteDHCPServer example_cloud) (scope_of own_workspace_spec settled_status)))) = [PVS (DeleteDHCPServer_call ''dhcp'')] \<and>
   status (snd (run_state (DeleteDHCPServer example_cloud) (scope_of own_workspace_spec settled_status))) = settled_status"
proof -
  have "NetworkSource_Type (Spec_Network (spec (scope_of own_workspace_spec settled_status))) = SourceTypeProvision \<and>
      WorkspaceSource_Type (Spec_Workspace (spec (scope_of own_workspace_spec settled_status))) \<noteq> SourceTypeProvision"
      "status (scope_of own_workspace_spec settled_status) = settled_status"
    by code_simp+
  with wp_result [OF DeleteDHCPServer_owned [of example_cloud "scope_of own_workspace_spec settled_status"]]
  have "status (snd (run_state (DeleteDHCPServer example_cloud) (scope_of own_workspace_spec settled_status))) = settled_status"
    by simp
  moreover have "filter deletes (new_calls (scope_of own_workspace_spec settled_status)
      (snd (run_state (DeleteDHCPServer example_cloud) (scope_of own_workspace_spec settled_status)))) = [PVS (DeleteDHCPServer_call ''dhcp'')]"
    by code_simp
  ultimately show ?thesis by simp
qed

end
