(* ===== verification/Endpoints.thy ===== *)
theory Endpoints
  imports Prelude
begin

text \<open>
  The service endpoints given on the command line (\<^verbatim>\<open>pkg/cloud/endpoints/endpoints.go\<close>): the parser of
  \<^verbatim>\<open>--service-endpoint\<close> and the lookups of the endpoint of a service. \<open>url.ParseRequestURI\<close> is a
  parameter \<open>R\<close>: the text of the parsed URL, \<open>None\<close> if it does not parse.
\<close>

section \<open>Splitting strings\<close>

text \<open>\<open>strings.Split(s, sep)\<close> for a separator of one byte, and \<open>strings.SplitN(s, sep, 2)\<close>.\<close>

fun split_on :: "char \<Rightarrow> string \<Rightarrow> string list" where
  "split_on c [] = [[]]"
| "split_on c (x # xs) = (if x = c then [] # split_on c xs
     else (case split_on c xs of [] \<Rightarrow> [[x]] | y # ys \<Rightarrow> (x # y) # ys))"

fun split_first :: "char \<Rightarrow> string \<Rightarrow> string list" where
  "split_first c [] = [[]]"
| "split_first c (x # xs) = (if x = c then [[], xs]
     else (case split_first c xs of [] \<Rightarrow> [[x]] | y # ys \<Rightarrow> (x # y) # ys))"

fun join :: "char \<Rightarrow> string list \<Rightarrow> string" where
  "join c [] = []"
| "join c [x] = x"
| "join c (x # xs) = x @ c # join c xs"

lemma split_on_none: "c \<notin> set x \<Longrightarrow> split_on c x = [x]"
  by (induction x) auto

lemma split_on_append: "c \<notin> set x \<Longrightarrow> split_on c (x @ c # ys) = x # split_on c ys"
  by (induction x) auto

lemma split_join: "xs \<noteq> [] \<Longrightarrow> list_all (\<lambda>x. c \<notin> set x) xs \<Longrightarrow> split_on c (join c xs) = xs"
  by (induction c xs rule: join.induct) (simp_all add: split_on_none split_on_append)

lemma split_first_append: "c \<notin> set x \<Longrightarrow> split_first c (x @ c # ys) = [x, ys]"
  by (induction x) auto

lemma set_join: "set (join c xs) \<subseteq> insert c (\<Union> (set ` set xs))"
  by (induction c xs rule: join.induct) auto

section \<open>The region of a zone\<close>

definition is_digit :: "char \<Rightarrow> bool" where
  "is_digit c \<longleftrightarrow> c \<in> set ''0123456789''"

text \<open>\<open>regexp.MustCompile("[0-9]+$").ReplaceAllString(s, "")\<close>.\<close>

definition strip_digits :: "string \<Rightarrow> string" where
  "strip_digits s = rev (dropWhile is_digit (rev s))"

definition ConstructRegionFromZone :: "string \<Rightarrow> string" where
  "ConstructRegionFromZone zone =
     (if CHR ''-'' \<in> set zone
      then (let base = strip_digits zone
            in if base \<noteq> zone \<and> base \<noteq> [] \<and> last base = CHR ''-'' then butlast base else zone)
      else strip_digits zone)"

section \<open>Services\<close>

definition svc_VPC :: string where "svc_VPC = ''vpc''"
definition svc_PowerVS :: string where "svc_PowerVS = ''powervs''"
definition svc_RC :: string where "svc_RC = ''rc''"
definition svc_TransitGateway :: string where "svc_TransitGateway = ''transitgateway''"
definition svc_COS :: string where "svc_COS = ''cos''"
definition svc_RM :: string where "svc_RM = ''rm''"
definition svc_GlobalTagging :: string where "svc_GlobalTagging = ''globaltagging''"

definition serviceIDs :: "string list" where
  "serviceIDs = [svc_VPC, svc_PowerVS, svc_RC, svc_TransitGateway, svc_COS, svc_RM, svc_GlobalTagging]"

lemmas service_id_defs = serviceIDs_def svc_VPC_def svc_PowerVS_def svc_RC_def svc_TransitGateway_def svc_COS_def svc_RM_def svc_GlobalTagging_def

record ServiceEndpoint =
  Endpoint_ID :: string
  Endpoint_URL :: string
  Endpoint_Region :: string

definition errServiceEndpointFormat :: gerror where
  "errServiceEndpointFormat = Errorf ''must be formatted as ${ServiceID}=${URL}''"
definition errServiceEndpointRegion :: gerror where
  "errServiceEndpointRegion = Errorf ''must be formatted as ${ServiceRegion}:${ServiceID1}=${URL1},${ServiceID2}=${URL2...}''"
definition errServiceEndpointURL :: gerror where
  "errServiceEndpointURL = Errorf ''must use a valid URL as a service-endpoint''"
definition errServiceEndpointID :: gerror where
  "errServiceEndpointID = Errorf ''invalid service ID: %s must use a valid''"
definition errServiceEndpointDuplicateID :: gerror where
  "errServiceEndpointDuplicateID = Errorf ''same ID defined twice for service region''"

definition containsString :: "string list \<Rightarrow> string \<Rightarrow> bool" where
  "containsString slice s = list_ex (\<lambda>item. item = s) slice"

section \<open>The parser\<close>

text \<open>
  The loop over the pairs of one region: \<open>seen\<close> are the services of this region so far,
  \<open>endpoints\<close> everything parsed so far. An empty service ID is the sign for an unknown one.
\<close>

fun parse_pairs :: "(string \<Rightarrow> string option) \<Rightarrow> string \<Rightarrow> string list \<Rightarrow> string list \<Rightarrow> ServiceEndpoint list \<Rightarrow> ServiceEndpoint list outcome" where
  "parse_pairs R region [] seen endpoints = Ok endpoints"
| "parse_pairs R region (pair # pairs) seen endpoints =
     (case split_on (CHR ''='') pair of
        [k, v] \<Rightarrow>
          (let serviceID = (if k \<in> set serviceIDs then k else []) in
           if serviceID = [] then Err errServiceEndpointID
           else if containsString seen serviceID then Err errServiceEndpointDuplicateID
           else (case R v of
                   None \<Rightarrow> Err errServiceEndpointURL
                 | Some u \<Rightarrow> parse_pairs R region pairs (seen @ [serviceID])
                     (endpoints @ [\<lparr>Endpoint_ID = serviceID, Endpoint_URL = u, Endpoint_Region = region\<rparr>])))
      | _ \<Rightarrow> Err errServiceEndpointFormat)"

fun parse_regions :: "(string \<Rightarrow> string option) \<Rightarrow> string list \<Rightarrow> ServiceEndpoint list \<Rightarrow> ServiceEndpoint list outcome" where
  "parse_regions R [] endpoints = Ok endpoints"
| "parse_regions R (regionConfig # rest) endpoints =
     (case split_first (CHR '':'') regionConfig of
        [region, pairs] \<Rightarrow>
          (case parse_pairs R region (split_on (CHR '','') pairs) [] endpoints of
             Ok endpoints' \<Rightarrow> parse_regions R rest endpoints'
           | Err e \<Rightarrow> Err e
           | Panic \<Rightarrow> Panic)
      | _ \<Rightarrow> Err errServiceEndpointRegion)"

definition ParseServiceEndpointFlag :: "(string \<Rightarrow> string option) \<Rightarrow> string \<Rightarrow> ServiceEndpoint list outcome" where
  "ParseServiceEndpointFlag R serviceEndpoints =
     (if serviceEndpoints = [] \<or> serviceEndpoints = ''none'' then Ok []
      else parse_regions R (split_on (CHR '';'') serviceEndpoints) [])"

section \<open>Lookups\<close>

definition FetchVPCEndpoint :: "string \<Rightarrow> ServiceEndpoint list \<Rightarrow> string" where
  "FetchVPCEndpoint region endpoints =
     (case find (\<lambda>e. Endpoint_Region e = region \<and> Endpoint_ID e = svc_VPC) endpoints of
        Some e \<Rightarrow> Endpoint_URL e | None \<Rightarrow> ''https://'' @ region @ ''.iaas.cloud.ibm.com/v1'')"

definition FetchPVSEndpoint :: "string \<Rightarrow> ServiceEndpoint list \<Rightarrow> string" where
  "FetchPVSEndpoint region endpoints =
     (case find (\<lambda>e. Endpoint_Region e = region \<and> Endpoint_ID e = svc_PowerVS) endpoints of Some e \<Rightarrow> Endpoint_URL e | None \<Rightarrow> [])"

definition FetchRCEndpoint :: "ServiceEndpoint list \<Rightarrow> string" where
  "FetchRCEndpoint endpoints = (case find (\<lambda>e. Endpoint_ID e = svc_RC) endpoints of Some e \<Rightarrow> Endpoint_URL e | None \<Rightarrow> [])"

definition FetchEndpoints :: "string \<Rightarrow> ServiceEndpoint list \<Rightarrow> string" where
  "FetchEndpoints serviceID endpoints = (case find (\<lambda>e. Endpoint_ID e = serviceID) endpoints of Some e \<Rightarrow> Endpoint_URL e | None \<Rightarrow> [])"

section \<open>Properties\<close>

text \<open>The flag a configuration is written as: for every region its services with their URLs.\<close>

type_synonym config = "(string \<times> (string \<times> string) list) list"

definition print_pair :: "string \<times> string \<Rightarrow> string" where
  "print_pair p = fst p @ CHR ''='' # snd p"

definition print_region :: "string \<times> (string \<times> string) list \<Rightarrow> string" where
  "print_region c = fst c @ CHR '':'' # join (CHR '','') (map print_pair (snd c))"

definition print_flag :: "config \<Rightarrow> string" where
  "print_flag cs = join (CHR '';'') (map print_region cs)"

definition region_endpoints :: "string \<times> (string \<times> string) list \<Rightarrow> ServiceEndpoint list" where
  "region_endpoints c = map (\<lambda>p. \<lparr>Endpoint_ID = fst p, Endpoint_URL = snd p, Endpoint_Region = fst c\<rparr>) (snd c)"

text \<open>What can be written: separators do not occur in the parts, a URL is one and is its own text.\<close>

definition printable_pair :: "(string \<Rightarrow> string option) \<Rightarrow> string \<times> string \<Rightarrow> bool" where
  "printable_pair R p \<longleftrightarrow> fst p \<in> set serviceIDs \<and> R (snd p) = Some (snd p) \<and> set (snd p) \<inter> {CHR ''='', CHR '','', CHR '';''} = {}"

definition printable :: "(string \<Rightarrow> string option) \<Rightarrow> string \<times> (string \<times> string) list \<Rightarrow> bool" where
  "printable R c \<longleftrightarrow> set (fst c) \<inter> {CHR '':'', CHR '';''} = {} \<and> snd c \<noteq> [] \<and> distinct (map fst (snd c)) \<and> list_all (printable_pair R) (snd c)"

lemma service_id_chars: "k \<in> set serviceIDs \<Longrightarrow> k \<noteq> [] \<and> set k \<inter> {CHR ''='', CHR '','', CHR '';'', CHR '':''} = {}"
  by (auto simp: service_id_defs)

lemma parse_printed_pairs:
  "list_all (printable_pair R) ps \<Longrightarrow> distinct (seen @ map fst ps) \<Longrightarrow>
   parse_pairs R region (map print_pair ps) seen es = Ok (es @ region_endpoints (region, ps))"
proof (induction ps arbitrary: seen es)
  case (Cons p ps)
  obtain k v where p: "p = (k, v)" by (cases p)
  have kv: "k \<in> set serviceIDs" "R v = Some v" "CHR ''='' \<notin> set v" using Cons.prems(1) by (auto simp: printable_pair_def p)
  then have "split_on (CHR ''='') (print_pair p) = [k, v]"
    using service_id_chars [OF kv(1)] by (simp add: p print_pair_def split_on_append split_on_none)
  moreover have "\<not> containsString seen k" using Cons.prems(2) by (auto simp: p containsString_def list_ex_iff)
  ultimately show ?case
    using Cons.IH [of "seen @ [k]"] Cons.prems kv service_id_chars [OF kv(1)] by (simp add: p region_endpoints_def)
qed (simp add: region_endpoints_def)

lemma print_pair_chars: "printable_pair R p \<Longrightarrow> CHR '','' \<notin> set (print_pair p) \<and> CHR '';'' \<notin> set (print_pair p)"
  using service_id_chars [of "fst p"] by (auto simp: printable_pair_def print_pair_def)

lemma print_region_chars: "printable R c \<Longrightarrow> CHR '';'' \<notin> set (print_region c)"
  using set_join [of "CHR '',''" "map print_pair (snd c)"]
  by (auto simp: printable_def print_region_def list_all_iff dest!: subsetD print_pair_chars)

lemma parse_printed_regions:
  "list_all (printable R) cs \<Longrightarrow> parse_regions R (map print_region cs) es = Ok (es @ concat (map region_endpoints cs))"
proof (induction cs arbitrary: es)
  case (Cons c cs)
  obtain region ps where c: "c = (region, ps)" by (cases c)
  have good: "CHR '':'' \<notin> set region" "ps \<noteq> []" "distinct (map fst ps)" "list_all (printable_pair R) ps"
    using Cons.prems by (auto simp: c printable_def)
  then have "split_on (CHR '','') (join (CHR '','') (map print_pair ps)) = map print_pair ps"
    by (intro split_join) (auto simp: list_all_iff dest: print_pair_chars)
  then show ?case
    using Cons good by (simp add: c print_region_def split_first_append parse_printed_pairs)
qed simp

text \<open>
  C39: the parser of the service endpoint flag reads back what was written: for every configuration
  of regions, services and URLs whose parts do not contain the separators, parsing the printed flag
  gives exactly its endpoints, in order. The services are distinct within one region entry only: a
  region written twice may define a service twice.
\<close>

theorem ParseServiceEndpointFlag_print:
  assumes "cs \<noteq> []" and "list_all (printable R) cs"
  shows "ParseServiceEndpointFlag R (print_flag cs) = Ok (concat (map region_endpoints cs))"
proof -
  have split: "split_on (CHR '';'') (print_flag cs) = map print_region cs"
    unfolding print_flag_def using assms by (intro split_join) (auto simp: list_all_iff dest: print_region_chars)
  have "CHR '':'' \<in> set (print_flag cs)"
    using assms(1) by (cases cs rule: list.exhaust, simp, cases "tl cs") (auto simp: print_flag_def print_region_def neq_Nil_conv)
  then have "print_flag cs \<noteq> []" "print_flag cs \<noteq> ''none''" by auto
  then show ?thesis by (simp add: ParseServiceEndpointFlag_def split parse_printed_regions [OF assms(2)])
qed

theorem ParseServiceEndpointFlag_print_witness:
  "ParseServiceEndpointFlag Some (print_flag [(''us'', [(''vpc'', ''https://a''), (''rc'', ''https://b'')]), (''eu'', [(''vpc'', ''https://c'')])]) =
   Ok (concat (map region_endpoints [(''us'', [(''vpc'', ''https://a''), (''rc'', ''https://b'')]), (''eu'', [(''vpc'', ''https://c'')])]))"
  by (rule ParseServiceEndpointFlag_print) (simp_all add: printable_def printable_pair_def service_id_defs)


text \<open>
  What every endpoint the parser returns is made of: it is written in one of the region parts of the flag, as one
  of its pairs, under a known service ID, with a text the URL parser accepts.
\<close>

definition well_typed :: "(string \<Rightarrow> string option) \<Rightarrow> string \<Rightarrow> ServiceEndpoint \<Rightarrow> bool" where
  "well_typed R flag e \<longleftrightarrow> Endpoint_ID e \<in> set serviceIDs \<and> set (Endpoint_Region e) \<inter> {CHR '':'', CHR '';''} = {} \<and>
     (\<exists>pairs text. Endpoint_Region e @ CHR '':'' # pairs \<in> set (split_on (CHR '';'') flag) \<and>
        Endpoint_ID e @ CHR ''='' # text \<in> set (split_on (CHR '','') pairs) \<and> CHR ''='' \<notin> set text \<and> R text = Some (Endpoint_URL e))"

lemma split_on_parts: "x \<in> set (split_on c s) \<Longrightarrow> c \<notin> set x \<and> set x \<subseteq> set s"
  by (induction c s arbitrary: x rule: split_on.induct) (fastforce split: if_splits list.splits)+

lemma split_on_nonempty: "split_on c s \<noteq> []"
  by (induction c s rule: split_on.induct) (auto split: list.splits)

lemma split_on_one: "split_on c s = [x] \<Longrightarrow> s = x \<and> c \<notin> set x"
  by (induction c s arbitrary: x rule: split_on.induct) (auto split: if_splits list.splits simp: split_on_nonempty)

lemma split_on_two: "split_on c s = [x, y] \<Longrightarrow> s = x @ c # y \<and> c \<notin> set x \<and> c \<notin> set y"
  by (induction c s arbitrary: x rule: split_on.induct) (auto split: if_splits list.splits simp: split_on_nonempty dest: split_on_one)

lemma split_first_two: "split_first c s = [x, y] \<Longrightarrow> s = x @ c # y \<and> c \<notin> set x"
  by (induction c s arbitrary: x rule: split_first.induct) (auto split: if_splits list.splits)

lemma parse_pairs_typed:
  assumes "parse_pairs R region pairs seen es = Ok es'" and "set pairs \<subseteq> set (split_on (CHR '','') body)"
    and "region @ CHR '':'' # body \<in> set (split_on (CHR '';'') flag)" and "CHR '':'' \<notin> set region" and "list_all (well_typed R flag) es"
  shows "list_all (well_typed R flag) es'"
  using assms(1,2,5)
proof (induction pairs arbitrary: seen es)
  case (Cons pair pairs)
  then obtain k v u where kv: "split_on (CHR ''='') pair = [k, v]" "k \<in> set serviceIDs" "R v = Some u"
    and rest: "parse_pairs R region pairs (seen @ [k]) (es @ [\<lparr>Endpoint_ID = k, Endpoint_URL = u, Endpoint_Region = region\<rparr>]) = Ok es'"
    by (auto simp: Let_def split: list.splits if_splits option.splits)
  have "CHR '';'' \<notin> set region" using split_on_parts [OF assms(3)] by simp
  then have "well_typed R flag \<lparr>Endpoint_ID = k, Endpoint_URL = u, Endpoint_Region = region\<rparr>"
    using kv split_on_two [OF kv(1)] Cons.prems(2) assms(3,4) by (auto simp: well_typed_def)
  then show ?case using Cons.IH [OF rest] Cons.prems by simp
qed simp

lemma parse_regions_typed:
  "parse_regions R configs es = Ok es' \<Longrightarrow> set configs \<subseteq> set (split_on (CHR '';'') flag) \<Longrightarrow> list_all (well_typed R flag) es \<Longrightarrow>
   list_all (well_typed R flag) es'"
proof (induction R configs es arbitrary: es' rule: parse_regions.induct)
  case (2 R c rest es)
  then obtain region body es1 where split: "split_first (CHR '':'') c = [region, body]"
    and pairs: "parse_pairs R region (split_on (CHR '','') body) [] es = Ok es1" and rest: "parse_regions R rest es1 = Ok es'"
    by (auto split: list.splits outcome.splits)
  have "list_all (well_typed R flag) es1"
    by (rule parse_pairs_typed [OF pairs, of body]) (use "2.prems" split_first_two [OF split] in auto)
  then show ?case using "2.IH" split pairs rest "2.prems" by (simp split: list.splits)
qed simp



end
