(* ===== verification/Transit_Gateway.thy ===== *)
theory Transit_Gateway
  imports Example_Cluster Endpoints
begin

text \<open>
  The transit gateway of a cluster and its two connections (\<^verbatim>\<open>powervs_cluster.go\<close>:
  \<open>ReconcileTransitGateway\<close>, \<open>DeleteTransitGateway\<close> and what they call), with the helpers that
  choose its location and routing (\<^verbatim>\<open>internal/genutil/util.go\<close>).
\<close>

section \<open>Error texts\<close>

definition msg_powervs_zone_not_set2 :: string where "msg_powervs_zone_not_set2 = ''powervs zone is not set''"
definition msg_failed_fetch_vpc_region_associated :: string where "msg_failed_fetch_vpc_region_associated = ''failed to fetch vpc region associated with powervs region''"
definition msg_failed_get_transit_gateway_by :: string where "msg_failed_get_transit_gateway_by = ''failed to get transit gateway by ID''"
definition msg_failed_get_transit_gateway_by2 :: string where "msg_failed_get_transit_gateway_by2 = ''failed to get transit gateway by name''"
definition msg_transit_gateway_with_name_not :: string where "msg_transit_gateway_with_name_not = ''transit gateway with name not found''"
definition msg_transit_gateway_reference_must_have :: string where "msg_transit_gateway_reference_must_have = ''transit gateway reference must have either ID or Name''"
definition msg_failed_fetch_resource_group_id2 :: string where "msg_failed_fetch_resource_group_id2 = ''failed to fetch resource group ID''"
definition msg_failed_proceed_with_transit_gateway :: string where "msg_failed_proceed_with_transit_gateway = ''failed to proceed with transit gateway creation''"
definition msg_failed_get_transit_gateway_location :: string where "msg_failed_get_transit_gateway_location = ''failed to get transit gateway location and routing''"
definition msg_failed_create_transit_gateway :: string where "msg_failed_create_transit_gateway = ''failed to create transit gateway''"
definition msg_transit_gateway_returned_from_ibm :: string where "msg_transit_gateway_returned_from_ibm = ''transit gateway returned from IBM Cloud is missing Status''"
definition msg_failed_create_transit_gateway_current :: string where "msg_failed_create_transit_gateway_current = ''failed to create transit gateway, current status''"
definition msg_transit_gateway_unknown_state :: string where "msg_transit_gateway_unknown_state = ''transit gateway is in unknown state''"
definition msg_failed_fetch_vpc_id_vpc :: string where "msg_failed_fetch_vpc_id_vpc = ''failed to fetch VPC ID for VPC, ID is empty''"
definition msg_workspace_crn_empty :: string where "msg_workspace_crn_empty = ''workspace CRN is empty''"
definition msg_failed_attach_connection_transit_gateway :: string where "msg_failed_attach_connection_transit_gateway = ''failed to attach connection to transit gateway, current status''"
definition msg_transit_gateway_connection_unknown_state :: string where "msg_transit_gateway_connection_unknown_state = ''transit gateway connection is in unknown state''"
definition msg_connection_status_name_nil :: string where "msg_connection_status_name_nil = ''connection status or name is nil''"
definition msg_transit_gateway_connection_reference_not :: string where "msg_transit_gateway_connection_reference_not = ''transit gateway connection reference not found on Transit Gateway''"
definition msg_referenced_transit_gateway_connection_exists :: string where "msg_referenced_transit_gateway_connection_exists = ''referenced transit gateway connection exists, but it connects to the wrong network CRN''"
definition msg_ibm_cloud_returned_nil_fields :: string where "msg_ibm_cloud_returned_nil_fields = ''IBM cloud returned nil fields for existing connection''"
definition msg_ibm_cloud_returned_nil_fields2 :: string where "msg_ibm_cloud_returned_nil_fields2 = ''IBM Cloud returned nil fields for new connection''"
definition msg_unknown_connection_source_type :: string where "msg_unknown_connection_source_type = ''unknown connection source type''"
definition msg_failed_list_transit_gateway_connections :: string where "msg_failed_list_transit_gateway_connections = ''failed to list transit gateway connections''"
definition msg_failed_fetch_vpc_crn :: string where "msg_failed_fetch_vpc_crn = ''failed to fetch VPC CRN''"
definition msg_failed_fetch_powervs_service_instance :: string where "msg_failed_fetch_powervs_service_instance = ''failed to fetch PowerVS service instance CRN''"
definition msg_failed_reconcile_vpc_connection :: string where "msg_failed_reconcile_vpc_connection = ''failed to reconcile VPC connection''"
definition msg_failed_reconcile_powervs_connection :: string where "msg_failed_reconcile_powervs_connection = ''failed to reconcile PowerVS connection''"
definition msg_failed_fetch_transit_gateway_details :: string where "msg_failed_fetch_transit_gateway_details = ''failed to fetch transit gateway details''"
definition msg_transit_gateway_not_found_with :: string where "msg_transit_gateway_not_found_with = ''transit gateway not found with ID''"
definition msg_transit_gateway_reference_resolved_but :: string where "msg_transit_gateway_reference_resolved_but = ''transit gateway reference resolved, but IBM Cloud returned a nil ID or Name''"
definition msg_failed_provision_transit_gateway :: string where "msg_failed_provision_transit_gateway = ''failed to provision transit gateway''"
definition msg_unknown_transit_gateway_source_type :: string where "msg_unknown_transit_gateway_source_type = ''unknown transit gateway source type''"
definition msg_failed_get_transit_gateway_connection :: string where "msg_failed_get_transit_gateway_connection = ''failed to get transit gateway connection''"
definition msg_failed_delete_transit_gateway_connection :: string where "msg_failed_delete_transit_gateway_connection = ''failed to delete transit gateway connection''"
definition msg_transit_gateway_its_id_nil :: string where "msg_transit_gateway_its_id_nil = ''transit gateway or its ID is nil during connection deletion''"
definition msg_failed_fetch_transit_gateway_during :: string where "msg_failed_fetch_transit_gateway_during = ''failed to fetch transit gateway during deletion''"
definition msg_failed_issue_delete_transit_gateway :: string where "msg_failed_issue_delete_transit_gateway = ''failed to issue delete for transit gateway''"

section \<open>Location and routing\<close>

definition GetTransitGatewayLocationAndRouting ::
  "clients \<Rightarrow> string option \<Rightarrow> string option \<Rightarrow> (string \<times> bool) outcome" where
  "GetTransitGatewayLocationAndRouting C powerVSZone vpcRegion =
     (case powerVSZone of
        None \<Rightarrow> Err (Errorf msg_powervs_zone_not_set2)
      | Some zone \<Rightarrow>
          (let powerVSRegion = ConstructRegionFromZone zone
           in case vpcRegion of
                Some region \<Rightarrow>
                  Ok (region, IsGlobalRoutingRequiredForTG (regionUtil C) powerVSRegion region)
              | None \<Rightarrow>
                  (case VPCRegionForPowerVSRegion (regionUtil C) powerVSRegion of
                     Fail e _ \<Rightarrow> Err (Wrapf msg_failed_fetch_vpc_region_associated e)
                   | Reply location \<Rightarrow> Ok (location, False))))"

section \<open>Operations\<close>

datatype networkConnectionType = powervsNetworkConnectionType | vpcNetworkConnectionType

fun nct_string :: "networkConnectionType \<Rightarrow> string" where
  "nct_string powervsNetworkConnectionType = ''power_virtual_server''"
| "nct_string vpcNetworkConnectionType = ''vpc''"

definition resolveTransitGatewayReference :: "clients \<Rightarrow> ResourceIdentifier \<Rightarrow> TransitGateway option scope_proc" where
  "resolveTransitGatewayReference C ref =
     (if ResourceIdentifier_ID ref \<noteq> [] then do {
        r \<leftarrow> GetTransitGateway C (ResourceIdentifier_ID ref);
        case r of
          Fail e _ \<Rightarrow> fail (Wrapf msg_failed_get_transit_gateway_by e)
        | Reply tg \<Rightarrow> ok tg
      }
      else if ResourceIdentifier_Name ref \<noteq> [] then do {
        r \<leftarrow> GetTransitGatewayByName C (ResourceIdentifier_Name ref);
        case r of
          Fail e _ \<Rightarrow> fail (Wrapf msg_failed_get_transit_gateway_by2 e)
        | Reply None \<Rightarrow> fail (Errorf msg_transit_gateway_with_name_not)
        | Reply (Some tg) \<Rightarrow> ok (Some tg)
      }
      else fail (Errorf msg_transit_gateway_reference_must_have))"

definition tg_name :: "ClusterScope \<Rightarrow> string option" where
  "tg_name s =
     (let n = TransitGatewayProvision_Name (TransitGatewaySource_Provision (Spec_TransitGateway (spec s)))
      in if n = [] then ResourceName (InfraCluster s) ResourceTypeTransitGateway [] else Some n)"

text \<open>The gateway the lookup by name answers with; an error of the lookup is dropped.\<close>

definition existing_tg :: "TransitGateway option reply \<Rightarrow> TransitGateway option" where
  "existing_tg r = (case r of
      Reply (Some tg) \<Rightarrow> if tg_ID tg \<noteq> None then Some tg else None
    | _ \<Rightarrow> None)"

definition provisionTransitGateway :: "clients \<Rightarrow> TransitGateway option scope_proc" where
  "provisionTransitGateway C = do {
     s \<leftarrow> get_scope;
     deref (tg_name s) (\<lambda>tgName. do {
       existing \<leftarrow> GetTransitGatewayByName C tgName;
       case existing_tg existing of
         Some tg \<Rightarrow> ok (Some tg)
       | None \<Rightarrow>
           if GetResourceGroupID s = [] then fail (Errorf msg_failed_fetch_resource_group_id2)
           else if ResourceReference_ID (Status_Workspace (status s)) = [] \<or> VPCStatus_ID (Status_VPC (status s)) = []
           then fail (Errorf msg_failed_proceed_with_transit_gateway)
           else bindW msg_failed_get_transit_gateway_location
             (State_Monad.return (GetTransitGatewayLocationAndRouting C (Some (Zone s))
                (Some (VPCStatus_Region (Status_VPC (status s))))))
             (\<lambda>(location, sysGlobalRouting). do {
                r \<leftarrow> CreateTransitGateway C
                      \<lparr>ctg_Location = Some location, ctg_Name = tgName,
                       ctg_Global = (TransitGatewayProvision_GlobalRouting
                           (TransitGatewaySource_Provision (Spec_TransitGateway (spec s))) = TransitGatewayRoutingGlobal
                         \<or> sysGlobalRouting),
                       ctg_ResourceGroup = GetResourceGroupID s\<rparr>;
                case r of
                  Fail e _ \<Rightarrow> fail (Wrapf msg_failed_create_transit_gateway e)
                | Reply tg \<Rightarrow> ok tg
              })
     }) }"

definition checkTransitGatewayStatus :: "TransitGateway \<Rightarrow> bool scope_proc" where
  "checkTransitGatewayStatus tg =
     (case tg_Status tg of
        None \<Rightarrow> fail (Errorf msg_transit_gateway_returned_from_ibm)
      | Some st \<Rightarrow> deref (tg_Name tg) (\<lambda>_.
          if st = TransitGatewayStateAvailable then ok False
          else if st = TransitGatewayStateFailed then fail (Errorf msg_failed_create_transit_gateway_current)
          else if st = TransitGatewayStatePending then ok True
          else fail (Errorf msg_transit_gateway_unknown_state)))"

definition fetchVPCCRN :: "clients \<Rightarrow> string option scope_proc" where
  "fetchVPCCRN C = do {
     s \<leftarrow> get_scope;
     let vpcID = VPCStatus_ID (Status_VPC (status s));
     if vpcID = [] then fail (Errorf msg_failed_fetch_vpc_id_vpc)
     else do {
       r \<leftarrow> GetVPC C vpcID;
       case r of
         Fail e _ \<Rightarrow> fail e
       | Reply v \<Rightarrow> deref v (\<lambda>vpcDetails. ok (vpc_CRN vpcDetails))
     } }"

definition fetchPowerVSWorkspaceCRN :: "clients \<Rightarrow> string option scope_proc" where
  "fetchPowerVSWorkspaceCRN C = do {
     s \<leftarrow> get_scope;
     r \<leftarrow> GetResourceInstance C (ResourceReference_ID (Status_Workspace (status s)));
     case r of
       Fail e _ \<Rightarrow> fail e
     | Reply w \<Rightarrow> deref w (\<lambda>workspace.
         if ri_CRN workspace = None then fail (Errorf msg_workspace_crn_empty)
         else ok (ri_CRN workspace)) }"

definition checkTransitGatewayConnectionStatus :: "TransitGatewayConnectionCust option \<Rightarrow> bool scope_proc" where
  "checkTransitGatewayConnectionStatus con =
     (case (Option.bind con conn_Status, Option.bind con conn_Name) of
        (Some st, Some _) \<Rightarrow>
          if st = TransitGatewayConnectionStateAttached then ok False
          else if st = TransitGatewayConnectionStateFailed
               then fail (Errorf msg_failed_attach_connection_transit_gateway)
          else if st = TransitGatewayConnectionStatePending then ok True
          else fail (Errorf msg_transit_gateway_connection_unknown_state)
      | _ \<Rightarrow> fail (Errorf msg_connection_status_name_nil))"

definition setTransitGatewayConnectionStatus ::
  "networkConnectionType \<Rightarrow> string \<Rightarrow> string \<Rightarrow> string \<Rightarrow> (ClusterScope, unit) state" where
  "setTransitGatewayConnectionStatus networkType i name connState =
     (let connStatus = \<lparr>ResourceConnectionStatus_ID = i, ResourceConnectionStatus_Name = name,
                        ResourceConnectionStatus_State = connState\<rparr>
      in set_status (\<lambda>st. st\<lparr>Status_TransitGateway := (case networkType of
             powervsNetworkConnectionType \<Rightarrow>
               (Status_TransitGateway st)\<lparr>TransitGatewayStatus_PowerVSConnection := connStatus\<rparr>
           | vpcNetworkConnectionType \<Rightarrow>
               (Status_TransitGateway st)\<lparr>TransitGatewayStatus_VPCConnection := connStatus\<rparr>)\<rparr>))"

definition findConnectionByRef ::
  "TransitGatewayConnectionCust list \<Rightarrow> ResourceIdentifier \<Rightarrow> TransitGatewayConnectionCust option" where
  "findConnectionByRef existingConns ref = find (\<lambda>conn.
      (ResourceIdentifier_ID ref \<noteq> [] \<and> conn_ID conn = Some (ResourceIdentifier_ID ref)) \<or>
      (ResourceIdentifier_Name ref \<noteq> [] \<and> conn_Name conn = Some (ResourceIdentifier_Name ref))) existingConns"

definition findConnectionByNetwork ::
  "TransitGatewayConnectionCust list \<Rightarrow> networkConnectionType \<Rightarrow> string \<Rightarrow> TransitGatewayConnectionCust option" where
  "findConnectionByNetwork existingConns netType networkID = find (\<lambda>conn.
      conn_NetworkType conn = Some (nct_string netType) \<and> conn_NetworkID conn = Some networkID) existingConns"

definition reconcileConnectionReference ::
  "ResourceIdentifier \<Rightarrow> string option \<Rightarrow> networkConnectionType \<Rightarrow> TransitGatewayConnectionCust list \<Rightarrow> bool scope_proc" where
  "reconcileConnectionReference ref networkID netType existingConns =
     (case findConnectionByRef existingConns ref of
        None \<Rightarrow> fail (Errorf msg_transit_gateway_connection_reference_not)
      | Some foundConn \<Rightarrow>
          (case conn_NetworkID foundConn of
             None \<Rightarrow> fail (Errorf msg_referenced_transit_gateway_connection_exists)
           | Some foundNetwork \<Rightarrow> deref networkID (\<lambda>want.
               if foundNetwork \<noteq> want
               then fail (Errorf msg_referenced_transit_gateway_connection_exists)
               else deref (conn_ID foundConn) (\<lambda>i. deref (conn_Name foundConn) (\<lambda>n.
                 deref (conn_Status foundConn) (\<lambda>st. do {
                   setTransitGatewayConnectionStatus netType i n st;
                   checkTransitGatewayConnectionStatus (Some foundConn)
                 }))))))"

definition connection_request ::
  "TransitGateway \<Rightarrow> string option \<Rightarrow> networkConnectionType \<Rightarrow> string \<Rightarrow> CreateTransitGatewayConnectionOptions" where
  "connection_request tg networkID netType connName =
     \<lparr>ctc_TransitGatewayID = tg_ID tg, ctc_NetworkType = nct_string netType,
      ctc_NetworkID = networkID, ctc_Name = connName\<rparr>"

definition reconcileConnectionProvision ::
  "clients \<Rightarrow> TransitGateway \<Rightarrow> TransitGatewayConnectionProvision \<Rightarrow> string option \<Rightarrow> networkConnectionType \<Rightarrow>
   TransitGatewayConnectionCust list \<Rightarrow> bool scope_proc" where
  "reconcileConnectionProvision C tg provSpec networkID netType existingConns =
     deref networkID (\<lambda>nid.
       case findConnectionByNetwork existingConns netType nid of
         Some foundConn \<Rightarrow>
           (case (conn_ID foundConn, conn_Name foundConn, conn_Status foundConn) of
              (Some i, Some n, Some st) \<Rightarrow> do {
                setTransitGatewayConnectionStatus netType i n st;
                checkTransitGatewayConnectionStatus (Some foundConn) }
            | _ \<Rightarrow> fail (Errorf msg_ibm_cloud_returned_nil_fields))
       | None \<Rightarrow> do {
           let create = (\<lambda>connName. do {
             r \<leftarrow> CreateTransitGatewayConnection C (connection_request tg networkID netType connName);
             case r of
               Fail e _ \<Rightarrow> fail e
             | Reply newConn \<Rightarrow>
                 (case (Option.bind newConn conn_ID, Option.bind newConn conn_Name, Option.bind newConn conn_Status) of
                    (Some i, Some n, Some st) \<Rightarrow> do {
                      setTransitGatewayConnectionStatus netType i n st;
                      ok True }
                  | _ \<Rightarrow> fail (Errorf msg_ibm_cloud_returned_nil_fields2)) });
           if TransitGatewayConnectionProvision_Name provSpec = []
           then deref (tg_Name tg) (\<lambda>tgName. create (if netType = vpcNetworkConnectionType
                  then tgVPCConnectionName tgName else tgPowerVSConnectionName tgName))
           else create (TransitGatewayConnectionProvision_Name provSpec) })"

definition reconcileConnection ::
  "clients \<Rightarrow> TransitGateway \<Rightarrow> TransitGatewayConnectionSource \<Rightarrow> string option \<Rightarrow> networkConnectionType \<Rightarrow>
   TransitGatewayConnectionCust list \<Rightarrow> bool scope_proc" where
  "reconcileConnection C tg connSpec networkID netType existingConns =
     (case TransitGatewayConnectionSource_Type connSpec of
        SourceTypeReference \<Rightarrow>
          reconcileConnectionReference (TransitGatewayConnectionSource_Reference connSpec) networkID netType existingConns
      | SourceTypeProvision \<Rightarrow>
          reconcileConnectionProvision C tg (TransitGatewayConnectionSource_Provision connSpec) networkID netType existingConns
      | OtherSourceType _ \<Rightarrow> fail (Errorf msg_unknown_connection_source_type))"

definition checkAndUpdateTransitGatewayConnections :: "clients \<Rightarrow> TransitGateway \<Rightarrow> bool scope_proc" where
  "checkAndUpdateTransitGatewayConnections C transitGateway = do {
     r \<leftarrow> ListTransitGatewayConnections C (tg_ID transitGateway);
     case r of
       Fail e _ \<Rightarrow> fail (Wrapf msg_failed_list_transit_gateway_connections e)
     | Reply tgConnections \<Rightarrow>
         bindW msg_failed_fetch_vpc_crn (fetchVPCCRN C) (\<lambda>vpcCRN.
         bindW msg_failed_fetch_powervs_service_instance (fetchPowerVSWorkspaceCRN C) (\<lambda>pvsServiceInstanceCRN. do {
           s \<leftarrow> get_scope;
           let tgSpec = Spec_TransitGateway (spec s);
           deref tgConnections (\<lambda>conns.
             bindW msg_failed_reconcile_vpc_connection
               (reconcileConnection C transitGateway (TransitGatewaySource_VPCConnection tgSpec) vpcCRN
                  vpcNetworkConnectionType conns) (\<lambda>requeueVPC.
             bindW msg_failed_reconcile_powervs_connection
               (reconcileConnection C transitGateway (TransitGatewaySource_PowerVSConnection tgSpec) pvsServiceInstanceCRN
                  powervsNetworkConnectionType conns) (\<lambda>requeuePVS.
             ok (requeueVPC \<or> requeuePVS)))) })) }"

definition checkAndUpdateTransitGateway :: "clients \<Rightarrow> TransitGateway \<Rightarrow> bool scope_proc" where
  "checkAndUpdateTransitGateway C tg =
     bindE (checkTransitGatewayStatus tg) (\<lambda>requeue.
       if requeue then ok True else checkAndUpdateTransitGatewayConnections C tg)"

text \<open>\<open>TransitGatewayStatus{ID: *tg.ID, Name: *tg.Name}\<close>: the connections start out empty.\<close>

definition track_tg :: "string \<Rightarrow> string \<Rightarrow> (ClusterScope, unit) state" where
  "track_tg i n = set_status (\<lambda>st. st\<lparr>Status_TransitGateway :=
     zero_TransitGatewayStatus\<lparr>TransitGatewayStatus_ID := i, TransitGatewayStatus_Name := n\<rparr>\<rparr>)"

definition ReconcileTransitGateway :: "clients \<Rightarrow> bool scope_proc" where
  "ReconcileTransitGateway C = do {
     s \<leftarrow> get_scope;
     if Spec_Topology (spec s) = PowerVSVirtualIPTopology then ok False
     else do {
       let tgID = TransitGatewayStatus_ID (Status_TransitGateway (status s));
       if tgID \<noteq> [] then do {
         r \<leftarrow> GetTransitGateway C tgID;
         case r of
           Fail e _ \<Rightarrow> fail (Wrapf msg_failed_fetch_transit_gateway_details e)
         | Reply None \<Rightarrow> fail (Errorf msg_transit_gateway_not_found_with)
         | Reply (Some tg) \<Rightarrow> checkAndUpdateTransitGateway C tg
       }
       else case TransitGatewaySource_Type (Spec_TransitGateway (spec s)) of
           SourceTypeReference \<Rightarrow>
             bindE (resolveTransitGatewayReference C (TransitGatewaySource_Reference (Spec_TransitGateway (spec s))))
               (\<lambda>found. case found of
                  None \<Rightarrow> fail (Errorf msg_transit_gateway_reference_resolved_but)
                | Some tg \<Rightarrow>
                    (case (tg_ID tg, tg_Name tg) of
                       (Some i, Some n) \<Rightarrow> do {
                         track_tg i n;
                         checkAndUpdateTransitGateway C tg }
                     | _ \<Rightarrow> fail (Errorf msg_transit_gateway_reference_resolved_but)))
         | SourceTypeProvision \<Rightarrow>
             bindW msg_failed_provision_transit_gateway (provisionTransitGateway C)
               (\<lambda>found. case found of
                  None \<Rightarrow> fail (Errorf msg_transit_gateway_reference_resolved_but)
                | Some tg \<Rightarrow>
                    (case (tg_ID tg, tg_Name tg) of
                       (Some i, Some n) \<Rightarrow> do {
                         track_tg i n;
                         ok True }
                     | _ \<Rightarrow> fail (Errorf msg_transit_gateway_reference_resolved_but)))
         | OtherSourceType _ \<Rightarrow> fail (Errorf msg_unknown_transit_gateway_source_type)
     } }"

text \<open>The closure \<open>deleteConnection\<close> of \<open>deleteTransitGatewayConnections\<close>.\<close>

definition deleteConnection :: "clients \<Rightarrow> TransitGateway \<Rightarrow> string \<Rightarrow> bool scope_proc" where
  "deleteConnection C tg connID =
     (if connID = [] then ok False
      else do {
        r \<leftarrow> GetTransitGatewayConnection C (tg_ID tg) connID;
        case r of
          Fail e st \<Rightarrow>
            if st = Some ResourceNotFoundCode then ok False
            else fail (Wrapf msg_failed_get_transit_gateway_connection e)
        | Reply conn \<Rightarrow>
            if Option.bind conn conn_Status = Some TransitGatewayConnectionStateDeleting then ok True
            else do {
              d \<leftarrow> DeleteTransitGatewayConnection C (tg_ID tg) connID;
              case d of
                Fail e _ \<Rightarrow> fail (Wrapf msg_failed_delete_transit_gateway_connection e)
              | Reply _ \<Rightarrow> ok True
            }
      })"

definition deleteTransitGatewayConnections :: "clients \<Rightarrow> TransitGateway option \<Rightarrow> bool scope_proc" where
  "deleteTransitGatewayConnections C tgp =
     (case tgp of
        None \<Rightarrow> fail (Errorf msg_transit_gateway_its_id_nil)
      | Some tg \<Rightarrow>
          if tg_ID tg = None then fail (Errorf msg_transit_gateway_its_id_nil)
          else do {
            s \<leftarrow> get_scope;
            let tgSpec = Spec_TransitGateway (spec s);
            let pvsID = ResourceConnectionStatus_ID (TransitGatewayStatus_PowerVSConnection (Status_TransitGateway (status s)));
            let vpcID = ResourceConnectionStatus_ID (TransitGatewayStatus_VPCConnection (Status_TransitGateway (status s)));
            bindE (if TransitGatewayConnectionSource_Type (TransitGatewaySource_PowerVSConnection tgSpec) = SourceTypeProvision
                      \<and> pvsID \<noteq> [] then deleteConnection C tg pvsID else ok False) (\<lambda>requeue.
            if requeue then ok requeue
            else if TransitGatewayConnectionSource_Type (TransitGatewaySource_VPCConnection tgSpec) = SourceTypeProvision
                      \<and> vpcID \<noteq> [] then deleteConnection C tg vpcID
            else ok False)
          })"

definition DeleteTransitGateway :: "clients \<Rightarrow> bool scope_proc" where
  "DeleteTransitGateway C = do {
     s \<leftarrow> get_scope;
     let tgID = TransitGatewayStatus_ID (Status_TransitGateway (status s));
     if tgID = [] then ok False
     else do {
       r \<leftarrow> GetTransitGateway C tgID;
       case r of
         Fail e st \<Rightarrow>
           if st = Some ResourceNotFoundCode then do {
             set_status (\<lambda>st. st\<lparr>Status_TransitGateway := zero_TransitGatewayStatus\<rparr>);
             ok False }
           else fail (Wrapf msg_failed_fetch_transit_gateway_during e)
       | Reply tg \<Rightarrow> deref tg (\<lambda>gateway.
           if tg_Status gateway = Some TransitGatewayStateDeletePending then ok True
           else bindE (deleteTransitGatewayConnections C tg) (\<lambda>requeue.
             if requeue then ok True
             else if TransitGatewaySource_Type (Spec_TransitGateway (spec s)) = SourceTypeReference then do {
               set_status (\<lambda>st. st\<lparr>Status_TransitGateway := zero_TransitGatewayStatus\<rparr>);
               ok False }
             else do {
               d \<leftarrow> DeleteTransitGateway_api C tgID;
               case d of
                 Fail e _ \<Rightarrow> fail (Wrapf msg_failed_issue_delete_transit_gateway e)
               | Reply _ \<Rightarrow> ok True
             }))
     } }"

section \<open>Frames\<close>

lemmas connection_defs = reconcileConnection_def reconcileConnectionReference_def
  reconcileConnectionProvision_def checkTransitGatewayConnectionStatus_def setTransitGatewayConnectionStatus_def

lemmas tg_defs = ReconcileTransitGateway_def resolveTransitGatewayReference_def provisionTransitGateway_def
  checkTransitGatewayStatus_def track_tg_def checkAndUpdateTransitGateway_def
  checkAndUpdateTransitGatewayConnections_def fetchVPCCRN_def fetchPowerVSWorkspaceCRN_def

lemmas tg_delete_defs = DeleteTransitGateway_def deleteTransitGatewayConnections_def deleteConnection_def

lemma tg_name_simps [simp]:
  "tg_name (s\<lparr>trace := h\<rparr>) = tg_name s"
  by (simp add: tg_name_def Let_def)

lemma keeps_reconcileConnection:
  assumes "\<And>s h. p (s\<lparr>trace := h\<rparr>) = p s"
    and "\<And>f s. p (upd_status (\<lambda>st. st\<lparr>Status_TransitGateway := f st\<rparr>) s) = p s"
  shows "state_io_rel (keeps p) (reconcileConnection C tg cs nid ty conns)"
  unfolding connection_defs by (intro frame_keeps) (simp_all add: assms)

lemma keeps_ReconcileTransitGateway:
  assumes "\<And>s h. p (s\<lparr>trace := h\<rparr>) = p s"
    and "\<And>f s. p (upd_status (\<lambda>st. st\<lparr>Status_TransitGateway := f st\<rparr>) s) = p s"
  shows "state_io_rel (keeps p) (ReconcileTransitGateway C)"
  unfolding tg_defs by (intro frame_keeps keeps_reconcileConnection) (simp_all add: assms)

lemma keeps_DeleteTransitGateway:
  assumes "\<And>s h. p (s\<lparr>trace := h\<rparr>) = p s"
    and "\<And>f s. p (upd_status (\<lambda>st. st\<lparr>Status_TransitGateway := f st\<rparr>) s) = p s"
  shows "state_io_rel (keeps p) (DeleteTransitGateway C)"
  unfolding tg_delete_defs by (intro frame_keeps) (simp_all add: assms)

section \<open>Properties\<close>

text \<open>The source and the status of the connection to a network.\<close>

definition connection_source :: "networkConnectionType \<Rightarrow> IBMPowerVSClusterSpec \<Rightarrow> TransitGatewayConnectionSource" where
  "connection_source ty sp = (case ty of
      vpcNetworkConnectionType \<Rightarrow> TransitGatewaySource_VPCConnection (Spec_TransitGateway sp)
    | powervsNetworkConnectionType \<Rightarrow> TransitGatewaySource_PowerVSConnection (Spec_TransitGateway sp))"

definition connection_status :: "networkConnectionType \<Rightarrow> IBMPowerVSClusterStatus \<Rightarrow> ResourceConnectionStatus" where
  "connection_status ty st = (case ty of
      vpcNetworkConnectionType \<Rightarrow> TransitGatewayStatus_VPCConnection (Status_TransitGateway st)
    | powervsNetworkConnectionType \<Rightarrow> TransitGatewayStatus_PowerVSConnection (Status_TransitGateway st))"

text \<open>The request that creates the gateway of a cluster.\<close>

definition tg_request :: "clients \<Rightarrow> ClusterScope \<Rightarrow> string \<Rightarrow> CreateTransitGatewayOptions" where
  "tg_request C s n =
     (let region = VPCStatus_Region (Status_VPC (status s))
      in \<lparr>ctg_Location = Some region, ctg_Name = n,
          ctg_Global = (TransitGatewayProvision_GlobalRouting
              (TransitGatewaySource_Provision (Spec_TransitGateway (spec s))) = TransitGatewayRoutingGlobal
            \<or> IsGlobalRoutingRequiredForTG (regionUtil C) (ConstructRegionFromZone (Zone s)) region),
          ctg_ResourceGroup = GetResourceGroupID s\<rparr>)"

lemma within_reconcileConnection:
  assumes "\<And>n x. TransitGatewayConnectionSource_Type cs = SourceTypeProvision \<Longrightarrow> nid = Some x \<Longrightarrow>
      A (TG (CreateTransitGatewayConnection_call (connection_request tg (Some x) ty n)))"
    and "\<And>s h. p (s\<lparr>trace := h\<rparr>) = p s"
    and "\<And>f s. p (upd_status (\<lambda>st. st\<lparr>Status_TransitGateway := f st\<rparr>) s) = p s"
    and "within p A s0 s"
  shows "wp (reconcileConnection C tg cs nid ty conns) (\<lambda>_ t. within p A s0 t) s"
  unfolding connection_defs by (intro within_rules) (simp_all add: assms)

lemma within_provisionTransitGateway:
  assumes "\<And>n. tg_name s0 = Some n \<Longrightarrow> ResourceReference_ID (Status_Workspace (status s0)) \<noteq> [] \<Longrightarrow>
      VPCStatus_ID (Status_VPC (status s0)) \<noteq> [] \<Longrightarrow> A (TG (CreateTransitGateway_call (tg_request C s0 n)))"
    and "\<And>n. A (TG (GetTransitGatewayByName_call n))"
  shows "wp (provisionTransitGateway C) (\<lambda>_ t. within (\<lambda>_. ()) A s0 t) s0"
  unfolding provisionTransitGateway_def
  by (rule within_start, intro within_rules)
     (auto simp: assms(2) assms(1) [unfolded tg_request_def Let_def] GetTransitGatewayLocationAndRouting_def)

lemma within_checkAndUpdateTransitGateway:
  assumes "\<And>ty req. TransitGatewayConnectionSource_Type (connection_source ty (spec s0)) = SourceTypeProvision \<Longrightarrow>
      ctc_NetworkType req = nct_string ty \<Longrightarrow> A (TG (CreateTransitGatewayConnection_call req))"
    and "\<And>c. \<not> creates c \<Longrightarrow> \<not> deletes c \<Longrightarrow> A c" and "within (\<lambda>_. ()) A s0 s"
  shows "wp (checkAndUpdateTransitGateway C tg) (\<lambda>_ t. within (\<lambda>_. ()) A s0 t) s"
  unfolding checkAndUpdateTransitGateway_def checkTransitGatewayStatus_def
    checkAndUpdateTransitGatewayConnections_def fetchVPCCRN_def fetchPowerVSWorkspaceCRN_def
  apply (intro within_rules within_reconcileConnection)
                      apply (simp_all add: assms)
  subgoal by (rule assms(1) [of vpcNetworkConnectionType]) (auto simp: connection_source_def connection_request_def dest: within_spec)
  subgoal by (rule assms(1) [of powervsNetworkConnectionType]) (auto simp: connection_source_def connection_request_def dest: within_spec)
  done

text \<open>What the steps may call on a cluster with a given spec.\<close>

definition tg_calls :: "IBMPowerVSClusterSpec \<Rightarrow> call \<Rightarrow> bool" where
  "tg_calls sp c \<longleftrightarrow> \<not> deletes c \<and> (creates c \<longrightarrow> Spec_Topology sp \<noteq> PowerVSVirtualIPTopology \<and>
     (TransitGatewaySource_Type (Spec_TransitGateway sp) = SourceTypeProvision \<and> (\<exists>x. c = TG (CreateTransitGateway_call x)) \<or>
      (\<exists>ty req. TransitGatewayConnectionSource_Type (connection_source ty sp) = SourceTypeProvision \<and>
         ctc_NetworkType req = nct_string ty \<and> c = TG (CreateTransitGatewayConnection_call req))))"

definition tg_delete_calls :: "IBMPowerVSClusterSpec \<Rightarrow> call \<Rightarrow> bool" where
  "tg_delete_calls sp c \<longleftrightarrow> \<not> creates c \<and> (deletes c \<longrightarrow>
     TransitGatewaySource_Type (Spec_TransitGateway sp) \<noteq> SourceTypeReference \<and> (\<exists>i. c = TG (DeleteTransitGateway_call i)) \<or>
     (\<exists>ty g i. TransitGatewayConnectionSource_Type (connection_source ty sp) = SourceTypeProvision \<and>
        c = TG (DeleteTransitGatewayConnection_call g i)))"

interpretation tg_step: scope_contract "ReconcileTransitGateway C" tg_calls for C
proof unfold_locales
  fix s
  show "wp (ReconcileTransitGateway C) (\<lambda>_ t. within (\<lambda>_. ()) (tg_calls (spec s)) s t) s"
    unfolding ReconcileTransitGateway_def resolveTransitGatewayReference_def track_tg_def
    by (rule within_start, intro within_rules within_provisionTransitGateway within_checkAndUpdateTransitGateway)
       (auto simp: tg_calls_def)
qed

interpretation tg_delete: scope_contract "DeleteTransitGateway C" tg_delete_calls for C
proof unfold_locales
  fix s
  have conn: "wp (deleteTransitGatewayConnections C tgp) (\<lambda>_ t. within (\<lambda>_. ()) (tg_delete_calls (spec s)) s t) s'"
    if "within (\<lambda>_. ()) (tg_delete_calls (spec s)) s s'" for tgp s'
  proof -
    have "tg_delete_calls (spec s) (TG (DeleteTransitGatewayConnection_call g i))"
      if "TransitGatewayConnectionSource_Type (connection_source ty (spec s)) = SourceTypeProvision" for ty g i
      using that unfolding tg_delete_calls_def by auto
    note own = this [of powervsNetworkConnectionType] this [of vpcNetworkConnectionType]
    show ?thesis
      using that within_spec [OF that]
      unfolding deleteTransitGatewayConnections_def deleteConnection_def
      by (intro within_rules) (simp_all add: own connection_source_def, simp_all add: tg_delete_calls_def)
  qed
  show "wp (DeleteTransitGateway C) (\<lambda>_ t. within (\<lambda>_. ()) (tg_delete_calls (spec s)) s t) s"
    unfolding DeleteTransitGateway_def
    by (rule within_start, intro within_rules conn) (simp_all add: tg_delete_calls_def)
qed

text \<open>
  What a reconcile of the transit gateway may create, and when. Nothing with the virtual-IP
  topology; a gateway only if the source is of type Provision, none is tracked, and both the
  workspace and the VPC are tracked, and then with the name, the location, the routing (global if
  the regions need it or the user asked for it) and the resource group the spec and the status
  determine; a connection only to a network whose connection is of type Provision. Nothing is
  ever deleted.
\<close>

theorem ReconcileTransitGateway_create_guard:
  assumes "run_state (ReconcileTransitGateway C) s = (r, t)"
    and "c \<in> set (new_calls s t)" and "creates c \<or> deletes c"
  shows "Spec_Topology (spec s) \<noteq> PowerVSVirtualIPTopology \<and>
    (TransitGatewaySource_Type (Spec_TransitGateway (spec s)) = SourceTypeProvision \<and>
       TransitGatewayStatus_ID (Status_TransitGateway (status s)) = [] \<and>
       ResourceReference_ID (Status_Workspace (status s)) \<noteq> [] \<and> VPCStatus_ID (Status_VPC (status s)) \<noteq> [] \<and>
       (\<exists>n. tg_name s = Some n \<and> c = TG (CreateTransitGateway_call (tg_request C s n))) \<or>
     (\<exists>ty req. TransitGatewayConnectionSource_Type (connection_source ty (spec s)) = SourceTypeProvision \<and>
        ctc_NetworkType req = nct_string ty \<and> c = TG (CreateTransitGatewayConnection_call req)))"
    (is "?P c")
proof -
  let ?A = "\<lambda>c. creates c \<or> deletes c \<longrightarrow> ?P c"
  have "wp (ReconcileTransitGateway C) (\<lambda>_ t. within (\<lambda>_. ()) ?A s t) s"
    unfolding ReconcileTransitGateway_def resolveTransitGatewayReference_def track_tg_def
    by (rule within_start, intro within_rules within_provisionTransitGateway within_checkAndUpdateTransitGateway)
       auto
  from within_new_calls [OF this assms(1,2)] assms(3) show ?thesis by blast
qed

theorem ReconcileTransitGateway_create_guard_witness:
  "TG (CreateTransitGateway_call (tg_request example_cloud (scope_of example_spec (settled_status\<lparr>Status_TransitGateway := zero_TransitGatewayStatus\<rparr>)) ''c-transitgateway'')) \<in> set (new_calls (scope_of example_spec (settled_status\<lparr>Status_TransitGateway := zero_TransitGatewayStatus\<rparr>)) (snd (run_state (ReconcileTransitGateway example_cloud) (scope_of example_spec (settled_status\<lparr>Status_TransitGateway := zero_TransitGatewayStatus\<rparr>))))) \<and> Spec_Topology (spec (scope_of example_spec (settled_status\<lparr>Status_TransitGateway := zero_TransitGatewayStatus\<rparr>))) \<noteq> PowerVSVirtualIPTopology"
proof -
  have made: "TG (CreateTransitGateway_call (tg_request example_cloud (scope_of example_spec (settled_status\<lparr>Status_TransitGateway := zero_TransitGatewayStatus\<rparr>)) ''c-transitgateway'')) \<in> set (new_calls (scope_of example_spec (settled_status\<lparr>Status_TransitGateway := zero_TransitGatewayStatus\<rparr>)) (snd (run_state (ReconcileTransitGateway example_cloud) (scope_of example_spec (settled_status\<lparr>Status_TransitGateway := zero_TransitGatewayStatus\<rparr>)))))" by code_simp
  show ?thesis using made ReconcileTransitGateway_create_guard [OF surjective_pairing made] by simp
qed

text \<open>A connection that needs no requeue is attached, and no other connection's status is touched.\<close>

lemma reconcileConnection_ready:
  "wp (reconcileConnection C tg cs nid ty conns) (\<lambda>r t.
     (r = Ok False \<longrightarrow> ResourceConnectionStatus_State (connection_status ty (status t)) = TransitGatewayConnectionStateAttached) \<and>
     (\<forall>ty'. ty' \<noteq> ty \<longrightarrow> connection_status ty' (status t) = connection_status ty' (status s))) s"
  unfolding connection_defs
  by (simp only: wp_simps)
     (auto simp: connection_status_def split: networkConnectionType.split cong: imp_cong)

abbreviation connections_attached :: "ClusterScope \<Rightarrow> bool" where
  "connections_attached t \<equiv> (\<forall>ty.
     ResourceConnectionStatus_State (connection_status ty (status t)) = TransitGatewayConnectionStateAttached)"

lemma connections_ready:
  "wp (attempt (reconcileConnection C tg cs nid vpcNetworkConnectionType conns) h (\<lambda>a.
       attempt (reconcileConnection C tg cs' nid' powervsNetworkConnectionType conns) h' (\<lambda>b. ok (a \<or> b))))
     (\<lambda>r t. r = Ok False \<longrightarrow> connections_attached t) s"
  if "\<And>e t. wp (h e) (\<lambda>r _. r \<noteq> Ok False) t" and "\<And>e t. wp (h' e) (\<lambda>r _. r \<noteq> Ok False) t"
proof -
  let ?at = "\<lambda>ty t. ResourceConnectionStatus_State (connection_status ty (status t)) = TransitGatewayConnectionStateAttached"
  let ?Q = "\<lambda>r t. r = Ok False \<longrightarrow> connections_attached t"
  have *: "wp (attempt (reconcileConnection C tg cs' nid' powervsNetworkConnectionType conns) h' (\<lambda>b. ok (a \<or> b))) ?Q u"
    if "\<not> a \<longrightarrow> ?at vpcNetworkConnectionType u" for a u
    unfolding wp_attempt wp_return
    by (rule wp_mono [OF reconcileConnection_ready])
       (use \<open>\<And>e t. wp (h' e) (\<lambda>r _. r \<noteq> Ok False) t\<close> that in
        \<open>auto intro: wp_mono split: networkConnectionType.split, metis networkConnectionType.exhaust networkConnectionType.distinct(1)\<close>)
  show ?thesis
    unfolding wp_attempt [of "reconcileConnection C tg cs nid vpcNetworkConnectionType conns"]
    by (rule wp_mono [OF reconcileConnection_ready])
       (use \<open>\<And>e t. wp (h e) (\<lambda>r _. r \<noteq> Ok False) t\<close> in \<open>auto intro: * wp_mono\<close>)
qed

lemma checkAndUpdateTransitGateway_ready:
  "wp (checkAndUpdateTransitGateway C tg) (\<lambda>r t. r = Ok False \<longrightarrow>
     tg_Status tg = Some TransitGatewayStateAvailable \<and> connections_attached t) s"
proof -
  have "wp (checkAndUpdateTransitGatewayConnections C tg) (\<lambda>r t. r = Ok False \<longrightarrow> connections_attached t) s"
    unfolding checkAndUpdateTransitGatewayConnections_def
    by (intro connections_ready we_rules) (simp_all add: wp_return)
  then show ?thesis
    unfolding checkAndUpdateTransitGateway_def checkTransitGatewayStatus_def
    by (simp only: wp_simps) (auto cong: imp_cong elim: wp_mono)
qed

text \<open>The reply of the lookup a reconcile starts with: by the tracked ID, else by the reference.\<close>

definition tg_lookup :: "clients \<Rightarrow> ClusterScope \<Rightarrow> TransitGateway option reply" where
  "tg_lookup C s =
     (let tracked = TransitGatewayStatus_ID (Status_TransitGateway (status s));
          ref = TransitGatewaySource_Reference (Spec_TransitGateway (spec s))
      in if tracked \<noteq> [] then on_GetTransitGateway (TransitGatewayClient C) (trace s) tracked
         else if ResourceIdentifier_ID ref \<noteq> []
         then on_GetTransitGateway (TransitGatewayClient C) (trace s) (ResourceIdentifier_ID ref)
         else on_GetTransitGatewayByName (TransitGatewayClient C) (trace s) (ResourceIdentifier_Name ref))"

lemma wp_ReconcileTransitGateway_ready:
  assumes "Spec_Topology (spec s) \<noteq> PowerVSVirtualIPTopology"
  shows "wp (ReconcileTransitGateway C) (\<lambda>r t. r = Ok False \<longrightarrow>
    (\<exists>tg. tg_lookup C s = Reply (Some tg) \<and> tg_Status tg = Some TransitGatewayStateAvailable \<and> connections_attached t)) s"
  unfolding ReconcileTransitGateway_def resolveTransitGatewayReference_def track_tg_def
  by (simp only: wp_simps)
     (auto simp: assms tg_lookup_def Let_def intro!: wp_mono [OF checkAndUpdateTransitGateway_ready]
       wp_mono [OF wp_True [of "provisionTransitGateway C"]])

text \<open>
  With a topology that uses a transit gateway, the gateway counts as ready only if the
  cloud reported it available in this very reconcile and both connections, to the VPC and to the
  PowerVS workspace, are recorded as attached.
\<close>

theorem ReconcileTransitGateway_ready:
  assumes "run_state (ReconcileTransitGateway C) s = (Ok False, t)"
    and "Spec_Topology (spec s) \<noteq> PowerVSVirtualIPTopology"
  shows "\<exists>tg. tg_lookup C s = Reply (Some tg) \<and> tg_Status tg = Some TransitGatewayStateAvailable \<and>
    (\<forall>ty. ResourceConnectionStatus_State (connection_status ty (status t)) = TransitGatewayConnectionStateAttached)"
  using wpD [OF wp_ReconcileTransitGateway_ready [OF assms(2)] assms(1)] by blast

theorem ReconcileTransitGateway_ready_witness:
  "\<exists>tg. tg_lookup example_cloud settled = Reply (Some tg) \<and> tg_Status tg = Some TransitGatewayStateAvailable"
proof -
  have run: "fst (run_state (ReconcileTransitGateway example_cloud) settled) = Ok False" by code_simp
  have top: "Spec_Topology (spec settled) \<noteq> PowerVSVirtualIPTopology" by code_simp
  from ReconcileTransitGateway_ready [OF _ top] run show ?thesis by (metis prod.collapse)
qed

lemma DeleteTransitGateway_untracked:
  "wp (DeleteTransitGateway C) (\<lambda>r t. r = Ok False \<longrightarrow> TransitGatewayStatus_ID (Status_TransitGateway (status t)) = []) s"
  unfolding DeleteTransitGateway_def
  by (simp only: wp_simps) (auto simp: zero_TransitGatewayStatus_def intro: wp_mono [OF wp_True])

text \<open>
  A step of the deletion only asks and deletes; if it deletes a connection it reports it (it does
  not answer that everything is gone).
\<close>

definition deletion_step :: "(call \<Rightarrow> bool) \<Rightarrow> ClusterScope \<Rightarrow> bool outcome \<Rightarrow> ClusterScope \<Rightarrow> bool" where
  "deletion_step D s r t \<longleftrightarrow> spec t = spec s \<and> status t = status s \<and>
     (\<exists>cs. trace t = trace s @ cs \<and> (filter deletes cs = [] \<or> r \<noteq> Ok False \<and> (\<exists>c. D c \<and> filter deletes cs = [c])))"

lemma deleteConnection_step:
  "D (TG (DeleteTransitGatewayConnection_call (tg_ID tg) i)) \<Longrightarrow> wp (deleteConnection C tg i) (deletion_step D s) s"
  unfolding deleteConnection_def deletion_step_def by (simp only: wp_simps) (simp cong: imp_cong)

lemma deletion_step_trans:
  "deletion_step D s (Ok False) t \<Longrightarrow> deletion_step D t r u \<Longrightarrow> deletion_step D s r u"
  unfolding deletion_step_def by fastforce

lemma deletion_step_return: "deletion_step D s r s"
  by (simp add: deletion_step_def)

lemma deleteTransitGatewayConnections_step:
  assumes "\<And>ty g. TransitGatewayConnectionSource_Type (connection_source ty (spec s)) = SourceTypeProvision \<Longrightarrow>
      D (TG (DeleteTransitGatewayConnection_call g (ResourceConnectionStatus_ID (connection_status ty (status s)))))"
  shows "wp (deleteTransitGatewayConnections C tgp) (deletion_step D s) s"
proof -
  note own = assms [of powervsNetworkConnectionType, unfolded connection_source_def connection_status_def, simplified]
    assms [of vpcNetworkConnectionType, unfolded connection_source_def connection_status_def, simplified]
  have second: "wp (deleteConnection C tg i) (deletion_step D s) u"
    if "deletion_step D s (Ok False) u" "\<And>g. D (TG (DeleteTransitGatewayConnection_call g i))" for tg i u
    by (rule wp_mono [OF deleteConnection_step [of D]]) (use that in \<open>auto intro: deletion_step_trans\<close>)
  show ?thesis
    unfolding deleteTransitGatewayConnections_def
    by (simp only: wp_simps)
       (auto simp: deletion_step_return own intro!: second wp_mono [OF second] elim: deletion_step_trans)
qed

text \<open>
  deletion of the gateway. The only things deleted are the tracked connections whose source
  is of type Provision and the tracked gateway, the latter only if it is not a reference and
  never in the pass that still deletes a connection: connections go first. Only when the gateway
  is gone, or is a reference whose own connections are gone, does the reconcile finish (no
  requeue), and then the status no longer tracks it.
\<close>

theorem DeleteTransitGateway_owned:
  "wp (DeleteTransitGateway C) (\<lambda>r t.
     (filter deletes (new_calls s t) = [] \<or>
      TransitGatewaySource_Type (Spec_TransitGateway (spec s)) \<noteq> SourceTypeReference \<and>
        filter deletes (new_calls s t) = [TG (DeleteTransitGateway_call (TransitGatewayStatus_ID (Status_TransitGateway (status s))))] \<or>
      (\<exists>ty g. TransitGatewayConnectionSource_Type (connection_source ty (spec s)) = SourceTypeProvision \<and>
        filter deletes (new_calls s t) =
          [TG (DeleteTransitGatewayConnection_call g (ResourceConnectionStatus_ID (connection_status ty (status s))))])) \<and>
     (r \<noteq> Ok False \<or> TransitGatewayStatus_ID (Status_TransitGateway (status t)) = [])) s"
proof -
  let ?D = "\<lambda>c. \<exists>ty g. TransitGatewayConnectionSource_Type (connection_source ty (spec s)) = SourceTypeProvision \<and>
      c = TG (DeleteTransitGatewayConnection_call g (ResourceConnectionStatus_ID (connection_status ty (status s))))"
  note step = deleteTransitGatewayConnections_step
    [where D = ?D and s = "s\<lparr>trace := trace s @ [TG (GetTransitGateway_call (TransitGatewayStatus_ID (Status_TransitGateway (status s))))]\<rparr>"]
  show ?thesis
    unfolding DeleteTransitGateway_def
    apply (simp only: wp_simps)
    apply (auto simp: new_calls_def zero_TransitGatewayStatus_def intro!: wp_mono [OF step])
    apply (fastforce simp: deletion_step_def)+
    done
qed

theorem DeleteTransitGateway_owned_witness:
  "TransitGatewayStatus_ID (Status_TransitGateway (status (snd (run_state (DeleteTransitGateway empty_cloud) settled)))) = []"
proof -
  have "fst (run_state (DeleteTransitGateway empty_cloud) settled) = Ok False" by code_simp
  with wp_result [OF DeleteTransitGateway_owned [of empty_cloud settled]] show ?thesis by simp
qed

end
