(* ===== verification/Vpc.thy ===== *)
theory Vpc
  imports Example_Cluster
begin

text \<open>
  The VPC of a cluster (\<^verbatim>\<open>powervs_cluster.go\<close>: \<open>ReconcileVPC\<close> and what it calls, \<open>DeleteVPC\<close>).
\<close>

section \<open>Error texts\<close>

definition msg_vpc_reference_must_have_either :: string where "msg_vpc_reference_must_have_either = ''VPC reference must have either ID or Name set''"
definition msg_failed_get_referenced_vpc :: string where "msg_failed_get_referenced_vpc = ''failed to get referenced VPC''"
definition msg_referenced_vpc_not_found_returned :: string where "msg_referenced_vpc_not_found_returned = ''referenced VPC not found or returned nil fields''"
definition msg_failed_fetch_resource_group_id3 :: string where "msg_failed_fetch_resource_group_id3 = ''failed to fetch resource group ID for the VPC, ID is empty''"
definition msg_error_creating_security_group_rule :: string where "msg_error_creating_security_group_rule = ''error creating security group rule for VPC''"
definition msg_failed_check_if_vpc_exists :: string where "msg_failed_check_if_vpc_exists = ''failed to check if VPC exists''"
definition msg_failed_create_vpc :: string where "msg_failed_create_vpc = ''failed to create VPC''"
definition msg_failed_fetch_vpc_details :: string where "msg_failed_fetch_vpc_details = ''failed to fetch VPC details''"
definition msg_vpc_not_found_with_id :: string where "msg_vpc_not_found_with_id = ''vpc not found with ID''"
definition msg_unknown_vpc_source_type :: string where "msg_unknown_vpc_source_type = ''unknown VPC source type''"
definition msg_failed_fetch_vpc_details_during :: string where "msg_failed_fetch_vpc_details_during = ''failed to fetch VPC details during deletion''"
definition msg_failed_delete_vpc :: string where "msg_failed_delete_vpc = ''failed to delete VPC''"

section \<open>Operations\<close>

definition track_vpc :: "string \<Rightarrow> string \<Rightarrow> (ClusterScope, unit) state" where
  "track_vpc i n = do {
     s \<leftarrow> get_scope;
     set_status (\<lambda>st. st\<lparr>Status_VPC :=
       \<lparr>VPCStatus_ID = i, VPCStatus_Name = n, VPCStatus_Region = VPCSource_Region (Spec_VPC (spec s))\<rparr>\<rparr>) }"

definition reconcileVPCReference :: "clients \<Rightarrow> bool scope_proc" where
  "reconcileVPCReference C = do {
     s \<leftarrow> get_scope;
     let ref = VPCSource_Reference (Spec_VPC (spec s));
     if ResourceIdentifier_ID ref = [] \<and> ResourceIdentifier_Name ref = []
     then fail (Errorf msg_vpc_reference_must_have_either)
     else do {
       r \<leftarrow> (if ResourceIdentifier_ID ref \<noteq> [] then GetVPC C (ResourceIdentifier_ID ref)
             else GetVPCByName C (ResourceIdentifier_Name ref));
       case r of
         Fail e _ \<Rightarrow> fail (Wrapf msg_failed_get_referenced_vpc e)
       | Reply vpcDetails \<Rightarrow>
           (case (Option.bind vpcDetails vpc_ID, Option.bind vpcDetails vpc_Name) of
              (Some i, Some n) \<Rightarrow> do { track_vpc i n; ok False }
            | _ \<Rightarrow> fail (Errorf msg_referenced_vpc_not_found_returned))
     } }"

definition vpc_request :: "ClusterScope \<Rightarrow> string \<Rightarrow> CreateVPCOptions" where
  "vpc_request s name =
     \<lparr>cvpc_ResourceGroup = GetResourceGroupID s, cvpc_Name = name, cvpc_AddressPrefixManagement = ''auto''\<rparr>"

text \<open>The rule that opens the port of the API server in the default security group of the VPC.\<close>

definition api_server_rule :: "ClusterScope \<Rightarrow> SecurityGroupRulePrototype" where
  "api_server_rule s =
     \<lparr>srp_Direction = ''inbound'', srp_Protocol = ''tcp'', srp_IPVersion = Some ''ipv4'',
      srp_PortMin = Some (APIServerPort s), srp_PortMax = Some (APIServerPort s), srp_Remote = None\<rparr>"

definition createVPC :: "clients \<Rightarrow> string \<Rightarrow> VPC scope_proc" where
  "createVPC C name = do {
     s \<leftarrow> get_scope;
     if GetResourceGroupID s = [] then fail (Errorf msg_failed_fetch_resource_group_id3)
     else do {
       r \<leftarrow> CreateVPC C (vpc_request s name);
       case r of
         Fail e _ \<Rightarrow> fail e
       | Reply v \<Rightarrow> deref v (\<lambda>vpcDetails.
           case Option.bind (vpc_DefaultSecurityGroup vpcDetails) id of
             None \<Rightarrow> ok vpcDetails
           | Some sg \<Rightarrow> do {
               q \<leftarrow> CreateSecurityGroupRule C sg (api_server_rule s);
               case q of
                 Fail e _ \<Rightarrow> fail (Wrapf msg_error_creating_security_group_rule e)
               | Reply _ \<Rightarrow> ok vpcDetails
             })
     } }"

definition vpc_name :: "ClusterScope \<Rightarrow> string option" where
  "vpc_name s =
     (let n = VPCProvision_Name (VPCSource_Provision (Spec_VPC (spec s)))
      in if n = [] then ResourceName (InfraCluster s) ResourceTypeVPC [] else Some n)"

definition reconcileVPCProvision :: "clients \<Rightarrow> bool scope_proc" where
  "reconcileVPCProvision C = do {
     s \<leftarrow> get_scope;
     deref (vpc_name s) (\<lambda>vpcName. do {
       r \<leftarrow> GetVPCByName C vpcName;
       case r of
         Fail e _ \<Rightarrow> fail (Wrapf msg_failed_check_if_vpc_exists e)
       | Reply vpcDetails \<Rightarrow>
           (case (Option.bind vpcDetails vpc_ID, Option.bind vpcDetails vpc_Name) of
              (Some i, Some n) \<Rightarrow> do { track_vpc i n; ok False }
            | _ \<Rightarrow> bindW msg_failed_create_vpc (createVPC C vpcName) (\<lambda>newVPC.
                deref (vpc_ID newVPC) (\<lambda>i. deref (vpc_Name newVPC) (\<lambda>n. do {
                  track_vpc i n;
                  ok True }))))
     }) }"

definition ReconcileVPC :: "clients \<Rightarrow> bool scope_proc" where
  "ReconcileVPC C = do {
     s \<leftarrow> get_scope;
     let vpcID = VPCStatus_ID (Status_VPC (status s));
     if vpcID \<noteq> [] then do {
       r \<leftarrow> GetVPC C vpcID;
       case r of
         Fail e _ \<Rightarrow> fail (Wrapf msg_failed_fetch_vpc_details e)
       | Reply None \<Rightarrow> fail (Errorf msg_vpc_not_found_with_id)
       | Reply (Some vpcDetails) \<Rightarrow>
           if vpc_Status vpcDetails = Some VPCStatePending then ok True else ok False
     }
     else case VPCSource_Type (Spec_VPC (spec s)) of
         SourceTypeReference \<Rightarrow> reconcileVPCReference C
       | SourceTypeProvision \<Rightarrow> reconcileVPCProvision C
       | OtherSourceType _ \<Rightarrow> fail (Errorf msg_unknown_vpc_source_type) }"

definition DeleteVPC :: "clients \<Rightarrow> bool scope_proc" where
  "DeleteVPC C = do {
     s \<leftarrow> get_scope;
     let vpcID = VPCStatus_ID (Status_VPC (status s));
     if VPCSource_Type (Spec_VPC (spec s)) \<noteq> SourceTypeProvision then ok False
     else if vpcID = [] then ok False
     else do {
       r \<leftarrow> GetVPC C vpcID;
       case r of
         Fail e st \<Rightarrow>
           if st = Some ResourceNotFoundCode then do {
             set_status (\<lambda>st. st\<lparr>Status_VPC := zero_VPCStatus\<rparr>);
             ok False }
           else fail (Wrapf msg_failed_fetch_vpc_details_during e)
       | Reply None \<Rightarrow> do {
           set_status (\<lambda>st. st\<lparr>Status_VPC := zero_VPCStatus\<rparr>);
           ok False }
       | Reply (Some vpcDetails) \<Rightarrow>
           if vpc_Status vpcDetails = Some VPCStateDeleting then ok True
           else deref (vpc_Name vpcDetails) (\<lambda>_. do {
             d \<leftarrow> DeleteVPC_api C (vpc_ID vpcDetails);
             case d of
               Fail e _ \<Rightarrow> fail (Wrapf msg_failed_delete_vpc e)
             | Reply _ \<Rightarrow> ok True
           })
     } }"

section \<open>Frames and contracts\<close>

lemmas vpc_defs = ReconcileVPC_def reconcileVPCReference_def reconcileVPCProvision_def createVPC_def track_vpc_def

lemma vpc_name_simps [simp]:
  "vpc_name (s\<lparr>trace := h\<rparr>) = vpc_name s" "vpc_request (s\<lparr>trace := h\<rparr>) n = vpc_request s n"
  "api_server_rule (s\<lparr>trace := h\<rparr>) = api_server_rule s"
  by (simp_all add: vpc_name_def vpc_request_def api_server_rule_def Let_def)

lemma keeps_ReconcileVPC:
  assumes "\<And>s h. p (s\<lparr>trace := h\<rparr>) = p s"
    and "\<And>f s. p (upd_status (\<lambda>st. st\<lparr>Status_VPC := f st\<rparr>) s) = p s"
  shows "state_io_rel (keeps p) (ReconcileVPC C)"
  unfolding vpc_defs by (intro frame_keeps) (simp_all add: assms)

lemma keeps_DeleteVPC:
  assumes "\<And>s h. p (s\<lparr>trace := h\<rparr>) = p s"
    and "\<And>f s. p (upd_status (\<lambda>st. st\<lparr>Status_VPC := f st\<rparr>) s) = p s"
  shows "state_io_rel (keeps p) (DeleteVPC C)"
  unfolding DeleteVPC_def by (intro frame_keeps) (simp_all add: assms)

text \<open>What a reconcile of the VPC may call on a cluster with a given spec.\<close>

definition vpc_calls :: "IBMPowerVSClusterSpec \<Rightarrow> call \<Rightarrow> bool" where
  "vpc_calls sp c \<longleftrightarrow> \<not> deletes c \<and> (creates c \<longrightarrow> VPCSource_Type (Spec_VPC sp) = SourceTypeProvision \<and>
     ((\<exists>x. c = VPCC (CreateVPC_call x)) \<or> (\<exists>g x. c = VPCC (CreateSecurityGroupRule_call g x))))"

definition vpc_delete_calls :: "IBMPowerVSClusterSpec \<Rightarrow> call \<Rightarrow> bool" where
  "vpc_delete_calls sp c \<longleftrightarrow> \<not> creates c \<and>
     (deletes c \<longrightarrow> VPCSource_Type (Spec_VPC sp) = SourceTypeProvision \<and> (\<exists>x. c = VPCC (DeleteVPC_call x)))"

interpretation vpc_step: scope_contract "ReconcileVPC C" vpc_calls for C
proof unfold_locales
  fix s
  show "wp (ReconcileVPC C) (\<lambda>_ t. within (\<lambda>_. ()) (vpc_calls (spec s)) s t) s"
    unfolding vpc_defs by (rule within_start, intro within_rules) (simp_all add: vpc_calls_def)
qed

interpretation vpc_delete: scope_contract "DeleteVPC C" vpc_delete_calls for C
proof unfold_locales
  fix s
  show "wp (DeleteVPC C) (\<lambda>_ t. within (\<lambda>_. ()) (vpc_delete_calls (spec s)) s t) s"
    unfolding DeleteVPC_def by (rule within_start, intro within_rules) (simp_all add: vpc_delete_calls_def)
qed

section \<open>Properties\<close>

text \<open>
  A reconcile creates a VPC, or a rule in its default security group, only when the user asked
  for a VPC to be provisioned, none is tracked yet and the cloud, asked for the name, knows none
  with an ID and a name. The VPC is created in the cluster's resource group; the rule admits
  TCP traffic to exactly the port of the API server. Nothing is deleted.
\<close>

theorem ReconcileVPC_create_guard:
  assumes "run_state (ReconcileVPC C) s = (r, t)"
    and "c \<in> set (new_calls s t)" and "creates c \<or> deletes c"
  shows "VPCSource_Type (Spec_VPC (spec s)) = SourceTypeProvision \<and> VPCStatus_ID (Status_VPC (status s)) = [] \<and>
    (\<exists>n found. vpc_name s = Some n \<and> on_GetVPCByName (IBMVPCClient C) (trace s) n = Reply found \<and>
       (Option.bind found vpc_ID = None \<or> Option.bind found vpc_Name = None) \<and>
       (c = VPCC (CreateVPC_call (vpc_request s n)) \<or>
        (\<exists>sg. c = VPCC (CreateSecurityGroupRule_call sg (api_server_rule s)))))"
    (is "?P c")
proof -
  have "wp (ReconcileVPC C) (\<lambda>_ t. \<forall>c \<in> set (new_calls s t). creates c \<or> deletes c \<longrightarrow> ?P c) s"
    unfolding vpc_defs by (simp only: wp_simps) (simp add: new_calls_def cong: imp_cong)
  from wpD [OF this assms(1)] assms(2,3) show ?thesis by blast
qed

theorem ReconcileVPC_create_guard_witness:
  "VPCC (CreateVPC_call (vpc_request fresh ''c-vpc'')) \<in> set (new_calls (fresh) (snd (run_state (ReconcileVPC example_cloud) (fresh)))) \<and> VPCStatus_ID (Status_VPC (status fresh)) = []"
proof -
  have made: "VPCC (CreateVPC_call (vpc_request fresh ''c-vpc'')) \<in> set (new_calls (fresh) (snd (run_state (ReconcileVPC example_cloud) (fresh))))" by code_simp
  show ?thesis using made ReconcileVPC_create_guard [OF surjective_pairing made] by simp
qed

text \<open>
  a failure between the two creations is never made up for. If the VPC was created but the
  rule for the API server was refused, the reconcile fails with the VPC not tracked; the next
  one finds the VPC by its name, tracks it and reports it ready without asking for the rule, and
  from then on no reconcile creates anything.
\<close>

theorem ReconcileVPC_rule_lost:
  assumes "VPCSource_Type (Spec_VPC (spec s)) = SourceTypeProvision"
    and "VPCStatus_ID (Status_VPC (status s)) = []"
    and "vpc_name s = Some n" and "GetResourceGroupID s \<noteq> []"
    and "on_GetVPCByName (IBMVPCClient C) (trace s) n = Reply None"
    and "on_CreateVPC (IBMVPCClient C) (trace s @ [VPCC (GetVPCByName_call n)]) (vpc_request s n) = Reply (Some v)"
    and "vpc_DefaultSecurityGroup v = Some (Some sg)" and "vpc_ID v = Some i" and "i \<noteq> []" and "vpc_Name v = Some n"
    and "on_CreateSecurityGroupRule (IBMVPCClient C)
          (trace s @ [VPCC (GetVPCByName_call n), VPCC (CreateVPC_call (vpc_request s n))]) sg (api_server_rule s) = Fail e st"
    and "\<And>h. on_GetVPCByName (IBMVPCClient C) (trace s @ VPCC (GetVPCByName_call n) # h) n = Reply (Some v)"
  defines "s1 \<equiv> snd (run_state (ReconcileVPC C) s)"
  shows "(\<exists>err. fst (run_state (ReconcileVPC C) s) = Err err) \<and> fst (run_state (ReconcileVPC C) s1) = Ok False \<and>
    filter creates (new_calls s1 (rerun (Suc k) (ReconcileVPC C) s1)) = []"
proof -
  have first: "wp (ReconcileVPC C) (\<lambda>r t. (\<exists>err. r = Err err) \<and> t = s\<lparr>trace := trace s @
      [VPCC (GetVPCByName_call n), VPCC (CreateVPC_call (vpc_request s n)), VPCC (CreateSecurityGroupRule_call sg (api_server_rule s))]\<rparr>) s"
    unfolding vpc_defs by (simp only: wp_simps) (simp add: assms(1-11) cong: imp_cong)
  define I where "I t \<longleftrightarrow> VPCStatus_ID (Status_VPC (status t)) = i \<and>
     (\<exists>cs. trace t = trace s1 @ cs \<and> filter creates cs = [])" for t
  from wp_result [OF first] have s1: "s1 = s\<lparr>trace := trace s @
      [VPCC (GetVPCByName_call n), VPCC (CreateVPC_call (vpc_request s n)), VPCC (CreateSecurityGroupRule_call sg (api_server_rule s))]\<rparr>"
    by (simp add: s1_def)
  have second: "wp (ReconcileVPC C) (\<lambda>r t. r = Ok False \<and> I t) s1"
    unfolding vpc_defs I_def s1 by (simp only: wp_simps) (simp add: assms(1-3,8-10,12) cong: imp_cong)
  have later: "wp (ReconcileVPC C) (\<lambda>_ t'. I t') t" if "I t" for t
    using that unfolding ReconcileVPC_def I_def
    by (simp only: wp_simps) (auto simp: assms(9))
  have "I (rerun k (ReconcileVPC C) (snd (run_state (ReconcileVPC C) s1)))"
    by (rule wp_rerun [OF _ later]) (use wp_result [OF second] in simp_all)
  then have "filter creates (new_calls s1 (rerun (Suc k) (ReconcileVPC C) s1)) = []"
    by (auto simp: I_def new_calls_def)
  with wp_result [OF first] wp_result [OF second] show ?thesis by blast
qed

theorem ReconcileVPC_rule_lost_witness:
  "fst (run_state (ReconcileVPC rule_refusing_cloud) (snd (run_state (ReconcileVPC rule_refusing_cloud) fresh))) = Ok False"
  by (rule ReconcileVPC_rule_lost [where n = "''c-vpc''" and v = "cloud_vpc ''c-vpc''" and sg = "''default''" and i = "''vpc''"
        and e = "ClientErr ''quota''" and st = None, THEN conjunct2, THEN conjunct1])
     (code_simp | simp add: rule_refusing_cloud_def scope_of_def)+

lemma wp_DeleteVPC:
  "wp (DeleteVPC C) (\<lambda>r t. r = Ok False \<longrightarrow> VPCSource_Type (Spec_VPC (spec s)) \<noteq> SourceTypeProvision \<or> VPCStatus_ID (Status_VPC (status t)) = []) s"
  unfolding DeleteVPC_def by (simp only: wp_simps) (simp add: zero_VPCStatus_def cong: imp_cong)

text \<open>
  Deletion leaves a referenced VPC alone. An owned one is deleted only under the ID the cloud
  reports for the tracked one, and not while its deletion is already under way; the deletion is
  finished (no requeue) exactly when the VPC is no longer tracked, which happens when the cloud
  answers that it is not there.
\<close>

theorem DeleteVPC_owned:
  "wp (DeleteVPC C) (\<lambda>r t.
     if VPCSource_Type (Spec_VPC (spec s)) = SourceTypeProvision
     then (filter deletes (new_calls s t) = [] \<or>
            (\<exists>v. on_GetVPC (IBMVPCClient C) (trace s) (VPCStatus_ID (Status_VPC (status s))) = Reply (Some v) \<and>
               vpc_Status v \<noteq> Some VPCStateDeleting \<and>
               filter deletes (new_calls s t) = [VPCC (DeleteVPC_call (vpc_ID v))])) \<and>
          (r = Ok False) = (VPCStatus_ID (Status_VPC (status t)) = [])
     else r = Ok False \<and> t = s) s"
  unfolding DeleteVPC_def
  by (simp only: wp_simps) (simp add: new_calls_def zero_VPCStatus_def cong: imp_cong)

end
