(* ===== verification/Vpc_Subnets.thy ===== *)
theory Vpc_Subnets
  imports Example_Cluster
begin

text \<open>
  The subnets of the VPC (\<^verbatim>\<open>powervs_cluster.go\<close>: \<open>ReconcileVPCSubnets\<close> and what it calls,
  \<open>DeleteVPCSubnets\<close>). The status keeps them as a list keyed by name.
\<close>

section \<open>Error texts\<close>

definition msg_subnet_reference_configuration_must_have :: string where "msg_subnet_reference_configuration_must_have = ''subnet reference configuration must have either ID or Name defined''"
definition msg_failed_fetching_referenced_subnet :: string where "msg_failed_fetching_referenced_subnet = ''failed fetching referenced subnet''"
definition msg_referenced_subnet_could_not_be :: string where "msg_referenced_subnet_could_not_be = ''referenced subnet could not be located or returned partial results''"
definition msg_resource_group_id_empty :: string where "msg_resource_group_id_empty = ''resource group ID is empty''"
definition msg_cannot_create_subnet_managing_vpc :: string where "msg_cannot_create_subnet_managing_vpc = ''cannot create subnet: managing VPC ID is not found in status''"
definition msg_error_invoking_vpc_createsubnet_api :: string where "msg_error_invoking_vpc_createsubnet_api = ''error invoking VPC CreateSubnet API''"
definition msg_created_vpc_subnet_details_returned :: string where "msg_created_vpc_subnet_details_returned = ''created VPC subnet details returned nil response''"
definition msg_failed_checking_subnet_presence_by :: string where "msg_failed_checking_subnet_presence_by = ''failed checking subnet presence by name''"
definition msg_error_verifying_active_vpc_subnet :: string where "msg_error_verifying_active_vpc_subnet = ''error verifying active VPC subnet''"
definition msg_tracked_vpc_subnet_was_not :: string where "msg_tracked_vpc_subnet_was_not = ''tracked VPC subnet was not found in IBM Cloud''"
definition msg_failed_resolving_subnet :: string where "msg_failed_resolving_subnet = ''failed resolving subnet''"
definition msg_unknown_vpc_subnet_source_type :: string where "msg_unknown_vpc_subnet_source_type = ''unknown VPC subnet source type''"
definition msg_cannot_reconcile_vpc_subnets_vpc :: string where "msg_cannot_reconcile_vpc_subnets_vpc = ''cannot reconcile VPC subnets: VPC region is missing from spec''"
definition msg_error_fetching_vpc_zones_associated :: string where "msg_error_fetching_vpc_zones_associated = ''error fetching VPC zones associated with VPC region''"
definition msg_failed_fetch_vpc_zones_no :: string where "msg_failed_fetch_vpc_zones_no = ''failed to fetch VPC zones, no zones found for region''"
definition msg_failed_fetch_vpc_subnet_during :: string where "msg_failed_fetch_vpc_subnet_during = ''failed to fetch VPC subnet during deletion''"
definition msg_failed_delete_vpc_subnet :: string where "msg_failed_delete_vpc_subnet = ''failed to delete VPC subnet''"

section \<open>Operations\<close>

definition vpcSubnetIPVersion4 :: string where "vpcSubnetIPVersion4 = ''ipv4''"
definition vpcSubnetIPAddressCount :: int where "vpcSubnetIPAddressCount = 256"

definition reconcileSubnetReference :: "clients \<Rightarrow> ResourceIdentifier \<Rightarrow> Subnet option scope_proc" where
  "reconcileSubnetReference C ref =
     (if ResourceIdentifier_ID ref = [] \<and> ResourceIdentifier_Name ref = []
      then fail (Errorf msg_subnet_reference_configuration_must_have)
      else do {
        r \<leftarrow> (if ResourceIdentifier_ID ref \<noteq> [] then GetSubnet C (ResourceIdentifier_ID ref)
              else GetVPCSubnetByName C (ResourceIdentifier_Name ref));
        case r of
          Fail e _ \<Rightarrow> fail (Wrapf msg_failed_fetching_referenced_subnet e)
        | Reply d \<Rightarrow>
            if Option.bind d subnet_ID = None \<or> Option.bind d subnet_Name = None
            then fail (Errorf msg_referenced_subnet_could_not_be)
            else ok d
      })"

definition subnet_prototype :: "ClusterScope \<Rightarrow> string \<Rightarrow> string \<Rightarrow> SubnetPrototype" where
  "subnet_prototype s name zone =
     \<lparr>sp_IPVersion = vpcSubnetIPVersion4, sp_TotalIpv4AddressCount = vpcSubnetIPAddressCount, sp_Name = name,
      sp_VPC = VPCStatus_ID (Status_VPC (status s)), sp_Zone = zone, sp_ResourceGroup = GetResourceGroupID s\<rparr>"

definition createVPCSubnet :: "clients \<Rightarrow> string \<Rightarrow> string \<Rightarrow> Subnet option scope_proc" where
  "createVPCSubnet C name zone = do {
     s \<leftarrow> get_scope;
     if GetResourceGroupID s = [] then fail (Errorf msg_resource_group_id_empty)
     else if VPCStatus_ID (Status_VPC (status s)) = []
     then fail (Errorf msg_cannot_create_subnet_managing_vpc)
     else do {
       r \<leftarrow> CreateSubnet C (subnet_prototype s name zone);
       case r of
         Fail e _ \<Rightarrow> fail (Wrapf msg_error_invoking_vpc_createsubnet_api e)
       | Reply None \<Rightarrow> fail (Errorf msg_created_vpc_subnet_details_returned)
       | Reply (Some d) \<Rightarrow> ok (Some d)
     } }"

definition reconcileSubnetProvision :: "clients \<Rightarrow> string \<Rightarrow> string \<Rightarrow> Subnet option scope_proc" where
  "reconcileSubnetProvision C name zone = do {
     r \<leftarrow> GetVPCSubnetByName C name;
     case r of
       Fail e _ \<Rightarrow> fail (Wrapf msg_failed_checking_subnet_presence_by e)
     | Reply d \<Rightarrow>
         if Option.bind d subnet_ID \<noteq> None \<and> Option.bind d subnet_Name \<noteq> None then ok d
         else createVPCSubnet C name zone }"

text \<open>The name of the \<open>i\<close>-th entry when it is to be provisioned; both directions compute it alike.\<close>

definition provision_subnet_name :: "ClusterScope \<Rightarrow> nat \<Rightarrow> VPCSubnetSource \<Rightarrow> string option" where
  "provision_subnet_name s i src =
     (let n = VPCSubnetProvision_Name (VPCSubnetSource_Provision src)
      in if n = [] then ResourceName (InfraCluster s) ResourceTypeSubnet (itoa i) else Some n)"

definition subnet_name :: "ClusterScope \<Rightarrow> nat \<Rightarrow> VPCSubnetSource \<Rightarrow> string option" where
  "subnet_name s i src =
     (if VPCSubnetSource_Type src = SourceTypeReference
      then Some (ResourceIdentifier_Name (VPCSubnetSource_Reference src))
      else provision_subnet_name s i src)"

text \<open>The default entry of a zone when the spec lists no subnets.\<close>

definition default_subnet :: "ClusterScope \<Rightarrow> string \<Rightarrow> VPCSubnetSource option" where
  "default_subnet s zone =
     map_option (\<lambda>n. \<lparr>VPCSubnetSource_Type = SourceTypeProvision, VPCSubnetSource_Zone = zone,
         VPCSubnetSource_Reference = \<lparr>ResourceIdentifier_ID = [], ResourceIdentifier_Name = []\<rparr>,
         VPCSubnetSource_Provision = \<lparr>VPCSubnetProvision_Name = n\<rparr>\<rparr>)
       (ResourceName (InfraCluster s) ResourceTypeSubnet zone)"

definition desired_subnets :: "ClusterScope \<Rightarrow> string list \<Rightarrow> VPCSubnetSource list scope_proc" where
  "desired_subnets s vpcZones =
     (if Spec_VPCSubnets (spec s) = []
      then loopM (\<lambda>zone acc. deref (default_subnet s zone) (\<lambda>d. ok (acc @ [d]))) vpcZones []
      else ok (Spec_VPCSubnets (spec s)))"

text \<open>The zone a provisioned entry asks for: its own, or the region's zones in turn.\<close>

definition subnet_zone :: "string list \<Rightarrow> nat \<Rightarrow> VPCSubnetSource \<Rightarrow> string" where
  "subnet_zone vpcZones i src =
     (if VPCSubnetSource_Zone src = [] then vpcZones ! (i mod length vpcZones) else VPCSubnetSource_Zone src)"

definition record_subnet :: "Subnet option \<Rightarrow> string \<Rightarrow> bool \<Rightarrow> bool scope_proc" where
  "record_subnet subnetDetails specZone anyPending =
     (case (Option.bind subnetDetails subnet_ID, Option.bind subnetDetails subnet_Name) of
        (Some i, Some n) \<Rightarrow> do {
          set_status (\<lambda>st. st\<lparr>Status_VPCSubnets := updateSubnetStatusList
            \<lparr>VPCSubnetStatus_ID = i, VPCSubnetStatus_Name = n,
             VPCSubnetStatus_Zone =
               (case Option.bind (Option.bind subnetDetails subnet_Zone) id of Some z \<Rightarrow> z | None \<Rightarrow> specZone)\<rparr>
            (Status_VPCSubnets st)\<rparr>);
          ok anyPending }
      | _ \<Rightarrow> ok anyPending)"

text \<open>One iteration of the loop of \<open>ReconcileVPCSubnets\<close>.\<close>

definition reconcile_subnet :: "clients \<Rightarrow> string list \<Rightarrow> nat \<Rightarrow> VPCSubnetSource \<Rightarrow> bool \<Rightarrow> bool scope_proc" where
  "reconcile_subnet C vpcZones i subnetSpec anyPending = do {
     s \<leftarrow> get_scope;
     deref (subnet_name s i subnetSpec) (\<lambda>subnetName. do {
       let tracked = (case find (\<lambda>st. VPCSubnetStatus_Name st = subnetName) (Status_VPCSubnets (status s)) of
                        None \<Rightarrow> [] | Some st \<Rightarrow> VPCSubnetStatus_ID st);
       if tracked \<noteq> [] then do {
         r \<leftarrow> GetSubnet C tracked;
         case r of
           Fail e _ \<Rightarrow> fail (Wrapf msg_error_verifying_active_vpc_subnet e)
         | Reply None \<Rightarrow> fail (Errorf msg_tracked_vpc_subnet_was_not)
         | Reply (Some _) \<Rightarrow> ok anyPending
       }
       else case VPCSubnetSource_Type subnetSpec of
           SourceTypeReference \<Rightarrow>
             bindW msg_failed_resolving_subnet (reconcileSubnetReference C (VPCSubnetSource_Reference subnetSpec))
               (\<lambda>d. record_subnet d (VPCSubnetSource_Zone subnetSpec) anyPending)
         | SourceTypeProvision \<Rightarrow>
             bindW msg_failed_resolving_subnet (reconcileSubnetProvision C subnetName (subnet_zone vpcZones i subnetSpec))
               (\<lambda>d. record_subnet d (subnet_zone vpcZones i subnetSpec) True)
         | OtherSourceType _ \<Rightarrow> fail (Errorf msg_unknown_vpc_subnet_source_type)
     }) }"

definition ReconcileVPCSubnets :: "clients \<Rightarrow> bool scope_proc" where
  "ReconcileVPCSubnets C = do {
     s \<leftarrow> get_scope;
     let vpcRegion = VPCSource_Region (Spec_VPC (spec s));
     if Spec_Topology (spec s) = PowerVSVirtualIPTopology then ok False
     else if vpcRegion = [] then fail (Errorf msg_cannot_reconcile_vpc_subnets_vpc)
     else case VPCZonesForVPCRegion (regionUtil C) vpcRegion of
         Fail e _ \<Rightarrow> fail (Wrapf msg_error_fetching_vpc_zones_associated e)
       | Reply vpcZones \<Rightarrow>
           if vpcZones = [] then fail (Errorf msg_failed_fetch_vpc_zones_no)
           else bindE (desired_subnets s vpcZones) (\<lambda>desired.
             loop_i (reconcile_subnet C vpcZones) 0 desired False) }"

text \<open>The names \<open>DeleteVPCSubnets\<close> takes for its own.\<close>

definition managed_subnets :: "ClusterScope \<Rightarrow> string list scope_proc" where
  "managed_subnets s =
     (if Spec_VPCSubnets (spec s) = [] then ok (map VPCSubnetStatus_Name (Status_VPCSubnets (status s)))
      else loop_i (\<lambda>i src acc.
        if VPCSubnetSource_Type src = SourceTypeProvision
        then deref (provision_subnet_name s i src) (\<lambda>n. ok (n # acc)) else ok acc) 0 (Spec_VPCSubnets (spec s)) [])"

text \<open>One iteration of the deletion loop, over the entries to keep, the errors and the requeue flag.\<close>

definition delete_subnet ::
  "clients \<Rightarrow> string list \<Rightarrow> VPCSubnetStatus \<Rightarrow> VPCSubnetStatus list \<times> gerror list \<times> bool \<Rightarrow>
   (VPCSubnetStatus list \<times> gerror list \<times> bool) scope_proc" where
  "delete_subnet C managed ref acc =
     (case acc of (updated, errs, requeue) \<Rightarrow>
       if VPCSubnetStatus_Name ref \<notin> set managed then ok acc
       else if VPCSubnetStatus_ID ref = [] then ok acc
       else do {
         r \<leftarrow> GetSubnet C (VPCSubnetStatus_ID ref);
         case r of
           Fail e st \<Rightarrow>
             if st = Some ResourceNotFoundCode then ok acc
             else ok (updated @ [ref], errs @ [Wrapf msg_failed_fetch_vpc_subnet_during e], requeue)
         | Reply net \<Rightarrow>
             if Option.bind net subnet_Status = Some VPCSubnetStateDeleting then ok (updated @ [ref], errs, True)
             else deref net (\<lambda>n. do {
               d \<leftarrow> DeleteSubnet C (subnet_ID n);
               case d of
                 Fail e _ \<Rightarrow> ok (updated @ [ref], errs @ [Wrapf msg_failed_delete_vpc_subnet e], requeue)
               | Reply _ \<Rightarrow> ok (updated @ [ref], errs, True)
             })
       })"

definition DeleteVPCSubnets :: "clients \<Rightarrow> bool scope_proc" where
  "DeleteVPCSubnets C = do {
     s \<leftarrow> get_scope;
     bindE (managed_subnets s) (\<lambda>managed.
       bindE (loopM (delete_subnet C managed) (Status_VPCSubnets (status s)) ([], [], False))
         (\<lambda>(updated, errs, requeue). do {
            set_status (\<lambda>st. st\<lparr>Status_VPCSubnets := updated\<rparr>);
            if errs \<noteq> [] then fail (AggregateErr errs) else ok requeue })) }"

section \<open>Frames and contracts\<close>

lemmas subnet_defs = reconcileSubnetReference_def reconcileSubnetProvision_def createVPCSubnet_def record_subnet_def

lemma subnet_simps [simp]:
  "provision_subnet_name (s\<lparr>trace := h\<rparr>) = provision_subnet_name s" "subnet_name (s\<lparr>trace := h\<rparr>) = subnet_name s"
  "provision_subnet_name (upd_status f s) = provision_subnet_name s" "subnet_name (upd_status f s) = subnet_name s"
  by (auto simp: provision_subnet_name_def subnet_name_def fun_eq_iff Let_def)

lemma keeps_ReconcileVPCSubnets:
  assumes "\<And>s h. p (s\<lparr>trace := h\<rparr>) = p s"
    and "\<And>f s. p (upd_status (\<lambda>st. st\<lparr>Status_VPCSubnets := f st\<rparr>) s) = p s"
  shows "state_io_rel (keeps p) (ReconcileVPCSubnets C)"
  unfolding ReconcileVPCSubnets_def desired_subnets_def reconcile_subnet_def subnet_defs
  by (intro frame_keeps) (simp_all add: assms)

lemma keeps_DeleteVPCSubnets:
  assumes "\<And>s h. p (s\<lparr>trace := h\<rparr>) = p s"
    and "\<And>f s. p (upd_status (\<lambda>st. st\<lparr>Status_VPCSubnets := f st\<rparr>) s) = p s"
  shows "state_io_rel (keeps p) (DeleteVPCSubnets C)"
  unfolding DeleteVPCSubnets_def managed_subnets_def delete_subnet_def
  by (intro frame_keeps) (simp_all add: assms)

definition subnet_calls :: "IBMPowerVSClusterSpec \<Rightarrow> call \<Rightarrow> bool" where
  "subnet_calls sp c \<longleftrightarrow> \<not> deletes c \<and> (creates c \<longrightarrow> Spec_Topology sp \<noteq> PowerVSVirtualIPTopology \<and>
     (Spec_VPCSubnets sp = [] \<or> (\<exists>src \<in> set (Spec_VPCSubnets sp). VPCSubnetSource_Type src = SourceTypeProvision)) \<and>
     (\<exists>x. c = VPCC (CreateSubnet_call x)))"

definition subnet_delete_calls :: "IBMPowerVSClusterSpec \<Rightarrow> call \<Rightarrow> bool" where
  "subnet_delete_calls sp c \<longleftrightarrow> \<not> creates c \<and> (deletes c \<longrightarrow>
     (Spec_VPCSubnets sp = [] \<or> (\<exists>src \<in> set (Spec_VPCSubnets sp). VPCSubnetSource_Type src = SourceTypeProvision)) \<and>
     (\<exists>x. c = VPCC (DeleteSubnet_call x)))"

text \<open>The entries the reconcile loop goes over: those of the spec, or the defaults of the zones.\<close>

definition desired_entry :: "ClusterScope \<Rightarrow> string list \<Rightarrow> VPCSubnetSource \<Rightarrow> bool" where
  "desired_entry s zones src \<longleftrightarrow>
     (if Spec_VPCSubnets (spec s) = [] then \<exists>z \<in> set zones. default_subnet s z = Some src
      else src \<in> set (Spec_VPCSubnets (spec s)))"

lemma desired_subnets_entries:
  "wp (desired_subnets s zones) (\<lambda>r t. t = u \<and> (\<forall>x. r = Ok x \<longrightarrow> list_all (desired_entry s zones) x)) u"
proof (cases "Spec_VPCSubnets (spec s) = []")
  case True
  have "wp (loopM (\<lambda>zone acc. deref (default_subnet s zone) (\<lambda>d. ok (acc @ [d]))) zones [])
      (\<lambda>r t. t = u \<and> (\<forall>x. r = Ok x \<longrightarrow> list_all (desired_entry s zones) x)) u"
    by (rule wp_loopM [where I = "\<lambda>x t. t = u \<and> list_all (desired_entry s zones) x" and E = "\<lambda>_ t. t = u"])
       (auto simp: wp_simps desired_entry_def True list_all_iff)
  then show ?thesis by (simp add: desired_subnets_def True)
next
  case False
  then show ?thesis by (simp add: desired_subnets_def wp_simps desired_entry_def list_all_iff)
qed

text \<open>The subnets of the cluster that may be deleted: all of them under the defaults, else the provisioned ones.\<close>

definition managed_name :: "ClusterScope \<Rightarrow> string \<Rightarrow> bool" where
  "managed_name s n \<longleftrightarrow>
     (if Spec_VPCSubnets (spec s) = [] then n \<in> VPCSubnetStatus_Name ` set (Status_VPCSubnets (status s))
      else \<exists>i < length (Spec_VPCSubnets (spec s)).
             VPCSubnetSource_Type (Spec_VPCSubnets (spec s) ! i) = SourceTypeProvision \<and>
             provision_subnet_name s i (Spec_VPCSubnets (spec s) ! i) = Some n)"

lemma ex_less_snoc:
  "(\<exists>i < length (ys @ [x]). P i ((ys @ [x]) ! i)) \<longleftrightarrow> (\<exists>i < length ys. P i (ys ! i)) \<or> P (length ys) x"
proof
  assume "\<exists>i < length (ys @ [x]). P i ((ys @ [x]) ! i)"
  then obtain i where i: "i < Suc (length ys)" "P i ((ys @ [x]) ! i)" by auto
  show "(\<exists>i < length ys. P i (ys ! i)) \<or> P (length ys) x"
    by (cases "i = length ys") (use i in \<open>auto simp: nth_append less_Suc_eq\<close>)
next
  assume "(\<exists>i < length ys. P i (ys ! i)) \<or> P (length ys) x"
  then show "\<exists>i < length (ys @ [x]). P i ((ys @ [x]) ! i)"
    by (metis length_append_singleton less_Suc_eq nth_append nth_append_length)
qed

lemma managed_subnets_names:
  "wp (managed_subnets s) (\<lambda>r t. t = u \<and> (\<forall>x. r = Ok x \<longrightarrow> set x = Collect (managed_name s))) u"
proof (cases "Spec_VPCSubnets (spec s) = []")
  case True
  then show ?thesis by (auto simp: managed_subnets_def wp_simps managed_name_def)
next
  case False
  define own where "own ys n \<longleftrightarrow> (\<exists>i < length ys. VPCSubnetSource_Type (ys ! i) = SourceTypeProvision \<and>
      provision_subnet_name s i (ys ! i) = Some n)" for ys n
  have "own (ys @ [x]) n \<longleftrightarrow> own ys n \<or>
      VPCSubnetSource_Type x = SourceTypeProvision \<and> provision_subnet_name s (length ys) x = Some n" for ys x n
    unfolding own_def by (rule ex_less_snoc)
  then have snoc: "Collect (own (ys @ [x])) = Collect (own ys) \<union>
      (if VPCSubnetSource_Type x = SourceTypeProvision then set_option (provision_subnet_name s (length ys) x) else {})" for ys x
    by (cases "provision_subnet_name s (length ys) x") auto
  have all: "managed_name s = own (Spec_VPCSubnets (spec s))"
    by (simp add: managed_name_def own_def False fun_eq_iff)
  have "wp (loop_i (\<lambda>i src acc.
        if VPCSubnetSource_Type src = SourceTypeProvision
        then deref (provision_subnet_name s i src) (\<lambda>n. ok (n # acc)) else ok acc) 0 (Spec_VPCSubnets (spec s)) [])
      (\<lambda>r t. t = u \<and> (\<forall>x. r = Ok x \<longrightarrow> set x = Collect (managed_name s))) u"
  proof (rule wp_loop_i_done [where I = "\<lambda>ys x t. t = u \<and> set x = Collect (own ys)"])
    show "u = u \<and> set [] = Collect (own [])" by (simp add: own_def)
  qed (simp_all add: wp_simps all snoc)
  then show ?thesis by (simp add: managed_subnets_def False)
qed

abbreviation vpc_and_group :: "ClusterScope \<Rightarrow> VPCStatus \<times> ResourceReference" where
  "vpc_and_group s \<equiv> (Status_VPC (status s), Status_ResourceGroup (status s))"

lemma within_subnet_prototype:
  "within vpc_and_group A s0 s \<Longrightarrow> subnet_prototype s = subnet_prototype s0"
  by (auto simp: within_def subnet_prototype_def fixed_part_def spec_def GetResourceGroupID_def fun_eq_iff Let_def)

lemma within_subnet_name: "within p A s0 s \<Longrightarrow> subnet_name s = subnet_name s0"
  by (auto simp: within_def subnet_name_def provision_subnet_name_def fixed_part_def InfraCluster_def fun_eq_iff Let_def)

lemma within_reconcile_subnet:
  assumes "\<And>n. VPCSubnetSource_Type src = SourceTypeProvision \<Longrightarrow> subnet_name s0 i src = Some n \<Longrightarrow>
      VPCStatus_ID (Status_VPC (status s0)) \<noteq> [] \<Longrightarrow>
      A (VPCC (CreateSubnet_call (subnet_prototype s0 n (subnet_zone zones i src))))"
    and "\<And>c. \<not> creates c \<Longrightarrow> \<not> deletes c \<Longrightarrow> A c" and "within vpc_and_group A s0 s"
  shows "wp (reconcile_subnet C zones i src pend) (\<lambda>_ t. within vpc_and_group A s0 t) s"
proof -
  have create: "wp (createVPCSubnet C n (subnet_zone zones i src)) (\<lambda>_ t. within vpc_and_group A s0 t) u"
    if "VPCSubnetSource_Type src = SourceTypeProvision" "subnet_name s0 i src = Some n" "within vpc_and_group A s0 u" for n u
  proof -
    have "VPCStatus_ID (Status_VPC (status u)) = VPCStatus_ID (Status_VPC (status s0))"
      using that(3) by (simp add: within_def)
    then show ?thesis
      using that(3) unfolding createVPCSubnet_def
      by (intro within_rules) (simp_all add: within_subnet_prototype assms(1) [OF that(1,2)] assms(2))
  qed
  note sn = within_subnet_name [OF assms(3)]
  show ?thesis
    unfolding reconcile_subnet_def reconcileSubnetReference_def reconcileSubnetProvision_def record_subnet_def
    by (intro within_rules create) (simp_all add: assms(2,3) sn)
qed

lemma within_ReconcileVPCSubnets:
  assumes create: "\<And>zones i src n. Spec_Topology (spec s) \<noteq> PowerVSVirtualIPTopology \<Longrightarrow>
      VPCStatus_ID (Status_VPC (status s)) \<noteq> [] \<Longrightarrow>
      VPCZonesForVPCRegion (regionUtil C) (VPCSource_Region (Spec_VPC (spec s))) = Reply zones \<Longrightarrow>
      desired_entry s zones src \<Longrightarrow> VPCSubnetSource_Type src = SourceTypeProvision \<Longrightarrow> subnet_name s i src = Some n \<Longrightarrow>
      A (VPCC (CreateSubnet_call (subnet_prototype s n (subnet_zone zones i src))))"
    and reads: "\<And>c. \<not> creates c \<Longrightarrow> \<not> deletes c \<Longrightarrow> A c"
  shows "wp (ReconcileVPCSubnets C) (\<lambda>_ t. within vpc_and_group A s t) s"
proof -
  have loop: "wp (attempt (desired_subnets s zones) fail (\<lambda>desired. loop_i (reconcile_subnet C zones) 0 desired False))
      (\<lambda>_ t. within vpc_and_group A s t) s"
    if top: "Spec_Topology (spec s) \<noteq> PowerVSVirtualIPTopology" and
      zones: "VPCZonesForVPCRegion (regionUtil C) (VPCSource_Region (Spec_VPC (spec s))) = Reply zones" for zones
  proof (rule within.fw_attempt_where [where P = "list_all (desired_entry s zones)"])
    show "wp (desired_subnets s zones) (\<lambda>r t. within vpc_and_group A s t \<and> (\<forall>x. r = Ok x \<longrightarrow> list_all (desired_entry s zones) x)) s"
      by (rule wp_mono [OF desired_subnets_entries]) (simp add: within.R_refl)
    show "wp (loop_i (reconcile_subnet C zones) 0 x False) (\<lambda>_ t. within vpc_and_group A s t) u"
      if "within vpc_and_group A s u" "list_all (desired_entry s zones) x" for x u
      by (intro within.fw_loop_i within_reconcile_subnet create top zones reads)
         (use that in \<open>auto simp: list_all_iff\<close>)
  qed (rule within.fw_return)
  show ?thesis
    unfolding ReconcileVPCSubnets_def by (rule within_start, intro loop within_rules) simp_all
qed

text \<open>
  Subnets are created only with a topology that uses them, inside the tracked VPC and the
  resource group of the cluster, for an entry the user asked to be provisioned (or, when the
  spec lists none, for a zone of the region), under the entry's name and in its own zone or, if
  it names none, in the region's zones in turn. Nothing is deleted.
\<close>

theorem ReconcileVPCSubnets_create_guard:
  assumes "run_state (ReconcileVPCSubnets C) s = (r, t)"
    and "c \<in> set (new_calls s t)" and "creates c \<or> deletes c"
  shows "Spec_Topology (spec s) \<noteq> PowerVSVirtualIPTopology \<and> VPCStatus_ID (Status_VPC (status s)) \<noteq> [] \<and>
    (\<exists>zones i src n. VPCZonesForVPCRegion (regionUtil C) (VPCSource_Region (Spec_VPC (spec s))) = Reply zones \<and>
       desired_entry s zones src \<and> VPCSubnetSource_Type src = SourceTypeProvision \<and> subnet_name s i src = Some n \<and>
       c = VPCC (CreateSubnet_call (subnet_prototype s n (subnet_zone zones i src))))"
    (is "?P c")
proof -
  have "wp (ReconcileVPCSubnets C) (\<lambda>_ t. within vpc_and_group (\<lambda>c. creates c \<or> deletes c \<longrightarrow> ?P c) s t) s"
    by (rule within_ReconcileVPCSubnets) blast+
  from within_new_calls [OF this assms(1,2)] assms(3) show ?thesis by blast
qed

interpretation subnet_step: scope_contract "ReconcileVPCSubnets C" subnet_calls for C
proof unfold_locales
  fix s
  have "wp (ReconcileVPCSubnets C) (\<lambda>_ t. within vpc_and_group (subnet_calls (spec s)) s t) s"
    by (rule within_ReconcileVPCSubnets) (auto simp: subnet_calls_def desired_entry_def split: if_splits)
  then show "wp (ReconcileVPCSubnets C) (\<lambda>_ t. within (\<lambda>_. ()) (subnet_calls (spec s)) s t) s"
    by (rule wp_mono) (rule within_forget)
qed

theorem ReconcileVPCSubnets_create_guard_witness:
  "VPCC (CreateSubnet_call (subnet_prototype (scope_of example_spec (settled_status\<lparr>Status_VPCSubnets := []\<rparr>)) ''c-subnet-us-south-1'' ''us-south-1'')) \<in> set (new_calls (scope_of example_spec (settled_status\<lparr>Status_VPCSubnets := []\<rparr>)) (snd (run_state (ReconcileVPCSubnets example_cloud) (scope_of example_spec (settled_status\<lparr>Status_VPCSubnets := []\<rparr>))))) \<and> VPCStatus_ID (Status_VPC (status (scope_of example_spec (settled_status\<lparr>Status_VPCSubnets := []\<rparr>)))) \<noteq> []"
proof -
  have made: "VPCC (CreateSubnet_call (subnet_prototype (scope_of example_spec (settled_status\<lparr>Status_VPCSubnets := []\<rparr>)) ''c-subnet-us-south-1'' ''us-south-1'')) \<in> set (new_calls (scope_of example_spec (settled_status\<lparr>Status_VPCSubnets := []\<rparr>)) (snd (run_state (ReconcileVPCSubnets example_cloud) (scope_of example_spec (settled_status\<lparr>Status_VPCSubnets := []\<rparr>)))))" by code_simp
  show ?thesis using made ReconcileVPCSubnets_create_guard [OF surjective_pairing made] by simp
qed

text \<open>The deletion loop deletes managed subnets only, and drops an entry only once it is gone.\<close>

lemma within_delete_subnet:
  assumes "\<And>net. VPCSubnetStatus_Name ref \<in> set managed \<Longrightarrow> A (VPCC (DeleteSubnet_call net))"
    and "\<And>c. \<not> creates c \<Longrightarrow> \<not> deletes c \<Longrightarrow> A c" and "within p A s0 s" and "\<And>s h. p (s\<lparr>trace := h\<rparr>) = p s"
  shows "wp (delete_subnet C managed ref acc) (\<lambda>_ t. within p A s0 t) s"
  unfolding delete_subnet_def by (intro within_rules) (simp_all add: assms)

lemma within_DeleteVPCSubnets:
  assumes "\<And>ref net. ref \<in> set (Status_VPCSubnets (status s)) \<Longrightarrow> managed_name s (VPCSubnetStatus_Name ref) \<Longrightarrow>
      A (VPCC (DeleteSubnet_call net))"
    and "\<And>c. \<not> creates c \<Longrightarrow> \<not> deletes c \<Longrightarrow> A c"
  shows "wp (DeleteVPCSubnets C) (\<lambda>_ t. within (\<lambda>_. ()) A s t) s"
  unfolding DeleteVPCSubnets_def
proof (rule within_start, rule within.fw_get)
  show "wp (attempt (managed_subnets s) fail (\<lambda>managed.
      attempt (loopM (delete_subnet C managed) (Status_VPCSubnets (status s)) ([], [], False)) fail
        (\<lambda>(updated, errs, requeue). do {
            set_status (\<lambda>st. st\<lparr>Status_VPCSubnets := updated\<rparr>);
            if errs \<noteq> [] then fail (AggregateErr errs) else ok requeue }))) (\<lambda>_ t. within (\<lambda>_. ()) A s t) s"
  proof (rule within.fw_attempt_where [where P = "\<lambda>x. set x = Collect (managed_name s)"])
    show "wp (managed_subnets s) (\<lambda>r t. within (\<lambda>_. ()) A s t \<and> (\<forall>x. r = Ok x \<longrightarrow> set x = Collect (managed_name s))) s"
      by (rule wp_mono [OF managed_subnets_names]) (simp add: within.R_refl)
  qed (intro within_delete_subnet within_rules; auto simp: list_all_iff intro: assms)+
qed

interpretation subnet_delete: scope_contract "DeleteVPCSubnets C" subnet_delete_calls for C
proof unfold_locales
  fix s
  show "wp (DeleteVPCSubnets C) (\<lambda>_ t. within (\<lambda>_. ()) (subnet_delete_calls (spec s)) s t) s"
    by (rule within_DeleteVPCSubnets) (auto simp: subnet_delete_calls_def managed_name_def split: if_splits dest: nth_mem)
qed

lemma DeleteVPCSubnets_result:
  "wp (DeleteVPCSubnets C) (\<lambda>r t.
     (r \<noteq> Ok False \<or> Status_VPCSubnets (status t) = []) \<and>
     subseq (Status_VPCSubnets (status t)) (Status_VPCSubnets (status s)) \<and>
     set (Status_VPCSubnets (status s)) \<subseteq> set (Status_VPCSubnets (status t)) \<union>
       {ref. \<not> managed_name s (VPCSubnetStatus_Name ref) \<or> VPCSubnetStatus_ID ref = [] \<or>
          (\<exists>cs e. on_GetSubnet (IBMVPCClient C) (trace s @ cs) (VPCSubnetStatus_ID ref) = Fail e (Some ResourceNotFoundCode))}) s"
  (is "wp _ (\<lambda>r t. ?Q r t) s")
proof -
  let ?gone = "{ref. \<not> managed_name s (VPCSubnetStatus_Name ref) \<or> VPCSubnetStatus_ID ref = [] \<or>
      (\<exists>cs e. on_GetSubnet (IBMVPCClient C) (trace s @ cs) (VPCSubnetStatus_ID ref) = Fail e (Some ResourceNotFoundCode))}"
  let ?I = "\<lambda>ys (updated, errs, requeue) t. status t = status s \<and> (\<exists>cs. trace t = trace s @ cs) \<and>
      (errs = [] \<and> \<not> requeue \<longrightarrow> updated = []) \<and> subseq updated ys \<and> set ys \<subseteq> set updated \<union> ?gone"
  have step: "wp (delete_subnet C managed x b) (\<lambda>r t'. (\<forall>b'. r = Ok b' \<longrightarrow> ?I (ys @ [x]) b' t') \<and>
       ((\<forall>b'. r \<noteq> Ok b') \<longrightarrow> status t' = status s \<and> r = Panic)) t"
    if "set managed = Collect (managed_name s)" "?I ys b t" for managed x b ys t
    using that unfolding delete_subnet_def
    by (simp only: wp_simps) (auto simp: split_beta wp_simps subseq_snoc)
  have loop: "wp (loopM (delete_subnet C managed) (Status_VPCSubnets (status s)) ([], [], False))
      (\<lambda>r t. (\<forall>b. r = Ok b \<longrightarrow> ?I (Status_VPCSubnets (status s)) b t) \<and> (\<forall>e. r = Err e \<longrightarrow> False) \<and>
         (r = Panic \<longrightarrow> status t = status s)) s"
    if "set managed = Collect (managed_name s)" for managed
  proof (rule wp_loopM_done [where I = ?I])
    show "?I [] ([], [], False) s" by auto
    show "wp (delete_subnet C managed x b) (\<lambda>r t'. (\<forall>b'. r = Ok b' \<longrightarrow> ?I (ys @ [x]) b' t') \<and> ((\<forall>b'. r \<noteq> Ok b') \<longrightarrow>
        (\<forall>b. r = Ok b \<longrightarrow> ?I (Status_VPCSubnets (status s)) b t') \<and> (\<forall>e. r = Err e \<longrightarrow> False) \<and>
         (r = Panic \<longrightarrow> status t' = status s))) t" if I: "?I ys b t" for ys x b t
      using step [OF \<open>set managed = Collect (managed_name s)\<close> I] by (rule wp_mono) auto
  qed simp
  have "wp (managed_subnets s) (\<lambda>r t. (\<forall>x. r = Ok x \<longrightarrow>
      wp (attempt (loopM (delete_subnet C x) (Status_VPCSubnets (status s)) ([], [], False)) fail
         (\<lambda>(updated, errs, requeue). do {
            set_status (\<lambda>st. st\<lparr>Status_VPCSubnets := updated\<rparr>);
            if errs \<noteq> [] then fail (AggregateErr errs) else ok requeue })) ?Q t) \<and>
      (\<forall>e. r = Err e \<longrightarrow> wp (fail e) ?Q t) \<and> (r = Panic \<longrightarrow> ?Q Panic t)) s"
  proof (rule wp_mono [OF managed_subnets_names], intro conjI allI impI)
    fix r t x assume m: "t = s \<and> (\<forall>x. r = Ok x \<longrightarrow> set x = Collect (managed_name s))" and "r = Ok x"
    then have x: "set x = Collect (managed_name s)" and t: "t = s" by auto
    show "wp (attempt (loopM (delete_subnet C x) (Status_VPCSubnets (status s)) ([], [], False)) fail
         (\<lambda>(updated, errs, requeue). do {
            set_status (\<lambda>st. st\<lparr>Status_VPCSubnets := updated\<rparr>);
            if errs \<noteq> [] then fail (AggregateErr errs) else ok requeue })) ?Q t"
      unfolding t wp_attempt by (rule wp_mono [OF loop [OF x]]) (auto simp: wp_simps split_beta)
  qed (auto simp: wp_simps)
  then show ?thesis unfolding DeleteVPCSubnets_def wp_bind wp_get wp_attempt .
qed

text \<open>
  the deletion of the subnets is finished (no requeue, no error) only when none is tracked any
  more; and an entry leaves the status only if it is not the controller's (a referenced subnet),
  was never resolved, or the cloud answered, asked for its ID, that it does not exist.
\<close>

theorem DeleteVPCSubnets_complete:
  "wp (DeleteVPCSubnets C) (\<lambda>r t.
     (r \<noteq> Ok False \<or> Status_VPCSubnets (status t) = []) \<and>
     set (Status_VPCSubnets (status s)) \<subseteq> set (Status_VPCSubnets (status t)) \<union>
       {ref. \<not> managed_name s (VPCSubnetStatus_Name ref) \<or> VPCSubnetStatus_ID ref = [] \<or>
          (\<exists>cs e. on_GetSubnet (IBMVPCClient C) (trace s @ cs) (VPCSubnetStatus_ID ref) = Fail e (Some ResourceNotFoundCode))}) s"
  by (rule wp_mono [OF DeleteVPCSubnets_result]) blast

theorem DeleteVPCSubnets_complete_witness:
  "Status_VPCSubnets (status (snd (run_state (DeleteVPCSubnets empty_cloud) settled))) = []"
proof -
  have "fst (run_state (DeleteVPCSubnets empty_cloud) settled) = Ok False" by code_simp
  with wp_result [OF DeleteVPCSubnets_complete [of empty_cloud settled]] show ?thesis by simp
qed

text \<open>The names of the tracked subnets stay distinct (they are the keys of the list).\<close>

abbreviation subnets_distinct :: "ClusterScope \<Rightarrow> bool" where
  "subnets_distinct s \<equiv> distinct (map VPCSubnetStatus_Name (Status_VPCSubnets (status s)))"

lemma preserves_ReconcileVPCSubnets: "state_io_rel (preserves subnets_distinct) (ReconcileVPCSubnets C)"
  unfolding ReconcileVPCSubnets_def desired_subnets_def reconcile_subnet_def subnet_defs
  by (intro frame_preserves) (simp_all add: subnets.put_distinct)

lemma preserves_DeleteVPCSubnets: "state_io_rel (preserves subnets_distinct) (DeleteVPCSubnets C)"
  unfolding state_io_rel_def preserves_def
  using wp_result [OF DeleteVPCSubnets_result [of C]] by (blast intro: subseq_distinct subseq_map)

end
