(* ===== verification/Load_Balancers.thy ===== *)
theory Load_Balancers
  imports Example_Cluster
begin

text \<open>
  The VPC load balancers of a cluster (\<^verbatim>\<open>powervs_cluster.go\<close>: \<open>ReconcileLoadBalancers\<close> and what it
  calls, \<open>DeleteLoadBalancer\<close>, \<open>GetPublicLoadBalancerHostName\<close>). Unlike the other reconcile
  steps, \<open>ReconcileLoadBalancers\<close> returns whether everything is ready.
\<close>

section \<open>Error texts\<close>

definition msg_port_cannot_be_used_as :: string where "msg_port_cannot_be_used_as = ''port cannot be used as an additional listener port, as it is already assigned to the API server''"
definition msg_failed_fetch_load_balancer_details :: string where "msg_failed_fetch_load_balancer_details = ''failed to fetch load balancer details''"
definition msg_failed_fetch_resource_group_id4 :: string where "msg_failed_fetch_resource_group_id4 = ''failed to fetch resource group ID for load balancer, ID is empty''"
definition msg_no_vpc_subnets_are_present :: string where "msg_no_vpc_subnets_are_present = ''no VPC subnets are present in cluster status for load balancer creation''"
definition msg_failed_create_load_balancer :: string where "msg_failed_create_load_balancer = ''failed to create load balancer''"
definition msg_referenced_load_balancer_must_have :: string where "msg_referenced_load_balancer_must_have = ''referenced load balancer must have either an ID or Name''"
definition msg_failed_fetch_referenced_load_balancer :: string where "msg_failed_fetch_referenced_load_balancer = ''failed to fetch referenced load balancer details''"
definition msg_failed_fetch_load_balancer_details2 :: string where "msg_failed_fetch_load_balancer_details2 = ''failed to fetch load balancer details: received empty/nil response''"
definition msg_failed_check_if_load_balancer :: string where "msg_failed_check_if_load_balancer = ''failed to check if load balancer exists''"
definition msg_failed_check_load_balancer_port :: string where "msg_failed_check_load_balancer_port = ''failed to check load balancer port''"
definition msg_failed_trigger_deletion_load_balancer :: string where "msg_failed_trigger_deletion_load_balancer = ''failed to trigger deletion for load balancer''"
definition msg_failed_fetch_referenced_load_balancer2 :: string where "msg_failed_fetch_referenced_load_balancer2 = ''failed to fetch referenced load balancer hostname details''"

section \<open>Operations\<close>

text \<open>The name of the \<open>i\<close>-th load balancer to provision.\<close>

definition lb_name :: "ClusterScope \<Rightarrow> nat \<Rightarrow> LoadBalancerProvision \<Rightarrow> string option" where
  "lb_name s i provision =
     (let n = LoadBalancerProvision_Name provision;
          lbType = (if LoadBalancerProvision_Type provision = LoadBalancerTypePrivate
                    then ResourceTypeLBPrivate else ResourceTypeLBPublic);
          qualifier = (if i > 0 then itoa i else [])
      in if n = [] then ResourceName (InfraCluster s) lbType qualifier else Some n)"

text \<open>The load balancers to go over: those of the spec, or one public default.\<close>

definition default_lb :: "ClusterScope \<Rightarrow> LoadBalancerSource option" where
  "default_lb s = map_option (\<lambda>n.
     \<lparr>LoadBalancerSource_Type = SourceTypeProvision,
      LoadBalancerSource_Reference = \<lparr>ResourceIdentifier_ID = [], ResourceIdentifier_Name = []\<rparr>,
      LoadBalancerSource_Provision =
        \<lparr>LoadBalancerProvision_Name = n, LoadBalancerProvision_Type = LoadBalancerTypePublic,
         LoadBalancerProvision_AdditionalListeners = [], LoadBalancerProvision_BackendPools = [],
         LoadBalancerProvision_SecurityGroups = [], LoadBalancerProvision_Subnets = []\<rparr>\<rparr>)
     (ResourceName (InfraCluster s) ResourceTypeLBPublic [])"

definition desired_lbs :: "ClusterScope \<Rightarrow> LoadBalancerSource list option" where
  "desired_lbs s = (if Spec_LoadBalancers (spec s) = [] then map_option (\<lambda>d. [d]) (default_lb s)
                    else Some (Spec_LoadBalancers (spec s)))"

definition checkLoadBalancerState :: "LoadBalancer \<Rightarrow> bool scope_proc" where
  "checkLoadBalancerState lb =
     deref (lb_Name lb) (\<lambda>_. deref (lb_ProvisioningStatus lb) (\<lambda>st. ok (st = LoadBalancerStateActive)))"

text \<open>\<open>LoadBalancerStatus{Name: name, ID: *lb.ID, State: *lb.ProvisioningStatus, Hostname: ptr.Deref(lb.Hostname, "")}\<close>.\<close>

definition lb_status :: "string \<Rightarrow> LoadBalancer \<Rightarrow> LoadBalancerStatus scope_proc" where
  "lb_status name lb =
     deref (lb_ID lb) (\<lambda>i. deref (lb_ProvisioningStatus lb) (\<lambda>st.
       ok \<lparr>LoadBalancerStatus_Name = name, LoadBalancerStatus_ID = i, LoadBalancerStatus_State = st,
           LoadBalancerStatus_Hostname = ptr_Deref (lb_Hostname lb) []\<rparr>))"

definition store_lb :: "LoadBalancerStatus \<Rightarrow> (ClusterScope, unit) state" where
  "store_lb st = set_status (\<lambda>x. x\<lparr>Status_LoadBalancers :=
     SetLoadBalancerStatus (LoadBalancerStatus_Name st) st (Status_LoadBalancers x)\<rparr>)"

definition checkLoadBalancerPort :: "LoadBalancerProvision \<Rightarrow> unit scope_proc" where
  "checkLoadBalancerPort prov = do {
     s \<leftarrow> get_scope;
     if list_ex (\<lambda>l. AdditionalListener_Port l = APIServerPort s) (LoadBalancerProvision_AdditionalListeners prov)
     then fail (Errorf msg_port_cannot_be_used_as)
     else ok () }"

definition checkLoadBalancer :: "clients \<Rightarrow> string \<Rightarrow> LoadBalancerStatus option scope_proc" where
  "checkLoadBalancer C name = do {
     r \<leftarrow> GetLoadBalancerByName C name;
     case r of
       Fail e _ \<Rightarrow> fail (Wrapf msg_failed_fetch_load_balancer_details e)
     | Reply None \<Rightarrow> ok None
     | Reply (Some lb) \<Rightarrow> bindE (lb_status name lb) (\<lambda>st. ok (Some st)) }"

definition lb_health_monitor :: HealthMonitorPrototype where
  "lb_health_monitor = \<lparr>hmp_Delay = 5, hmp_MaxRetries = 2, hmp_Timeout = 2, hmp_Type = ''tcp''\<rparr>"

definition lb_pool :: "string \<Rightarrow> PoolPrototype" where
  "lb_pool name = \<lparr>pool_Algorithm = ''round_robin'', pool_HealthMonitor = lb_health_monitor,
                   pool_Name = name, pool_Protocol = ''tcp''\<rparr>"

definition lb_listener :: "int \<Rightarrow> string \<Rightarrow> ListenerPrototype" where
  "lb_listener port pool = \<lparr>listener_Protocol = ''tcp'', listener_Port = port, listener_DefaultPool = pool\<rparr>"

definition lb_request :: "ClusterScope \<Rightarrow> string \<Rightarrow> LoadBalancerProvision \<Rightarrow> CreateLoadBalancerOptions" where
  "lb_request s lbName prov =
     (let apiPool = lbName @ ''-pool-'' @ format_int (APIServerPort s);
          extra = map AdditionalListener_Port (LoadBalancerProvision_AdditionalListeners prov);
          extraPool = (\<lambda>port. ''additional-pool-'' @ format_int port)
      in \<lparr>clb_IsPublic = (LoadBalancerProvision_Type prov \<noteq> LoadBalancerTypePrivate),
          clb_Name = lbName, clb_ResourceGroup = GetResourceGroupID s,
          clb_Subnets = filter (\<lambda>i. i \<noteq> []) (map VPCSubnetStatus_ID (Status_VPCSubnets (status s))),
          clb_Pools = lb_pool apiPool # map (\<lambda>port. lb_pool (extraPool port)) extra,
          clb_Listeners = lb_listener (APIServerPort s) apiPool # map (\<lambda>port. lb_listener port (extraPool port)) extra\<rparr>)"

definition createLoadBalancer :: "clients \<Rightarrow> string \<Rightarrow> LoadBalancerProvision \<Rightarrow> LoadBalancerStatus scope_proc" where
  "createLoadBalancer C lbName prov = do {
     s \<leftarrow> get_scope;
     if GetResourceGroupID s = [] then fail (Errorf msg_failed_fetch_resource_group_id4)
     else if Status_VPCSubnets (status s) = []
     then fail (Errorf msg_no_vpc_subnets_are_present)
     else do {
       r \<leftarrow> CreateLoadBalancer C (lb_request s lbName prov);
       case r of
         Fail e _ \<Rightarrow> fail (Wrapf msg_failed_create_load_balancer e)
       | Reply p \<Rightarrow> deref p (lb_status lbName)
     } }"

text \<open>One iteration of the loop of \<open>ReconcileLoadBalancers\<close>; the flag says that some load balancer is not ready.\<close>

definition reconcile_lb_reference :: "clients \<Rightarrow> ResourceIdentifier \<Rightarrow> bool \<Rightarrow> bool scope_proc" where
  "reconcile_lb_reference C ref notReady =
     (if ResourceIdentifier_ID ref = [] \<and> ResourceIdentifier_Name ref = []
      then fail (Errorf msg_referenced_load_balancer_must_have)
      else do {
        r \<leftarrow> (if ResourceIdentifier_ID ref \<noteq> [] then GetLoadBalancer C (ResourceIdentifier_ID ref)
              else GetLoadBalancerByName C (ResourceIdentifier_Name ref));
        case r of
          Fail e _ \<Rightarrow> fail (Wrapf msg_failed_fetch_referenced_load_balancer e)
        | Reply None \<Rightarrow> fail (Errorf msg_failed_fetch_referenced_load_balancer)
        | Reply (Some lb) \<Rightarrow> deref (lb_Name lb) (\<lambda>lbName.
            bindE (checkLoadBalancerState lb) (\<lambda>isReady.
            bindE (lb_status lbName lb) (\<lambda>st. do {
              store_lb st;
              ok (notReady \<or> \<not> isReady) })))
      })"

definition reconcile_lb_provision :: "clients \<Rightarrow> nat \<Rightarrow> LoadBalancerProvision \<Rightarrow> bool \<Rightarrow> bool scope_proc" where
  "reconcile_lb_provision C i provision notReady = do {
     s \<leftarrow> get_scope;
     deref (lb_name s i provision) (\<lambda>lbName. do {
       let lbID = GetLoadBalancerID (Status_LoadBalancers (status s)) lbName;
       if lbID \<noteq> [] then do {
         r \<leftarrow> GetLoadBalancer C lbID;
         case r of
           Fail e _ \<Rightarrow> fail (Wrapf msg_failed_fetch_load_balancer_details e)
         | Reply None \<Rightarrow> fail (Errorf msg_failed_fetch_load_balancer_details2)
         | Reply (Some lb) \<Rightarrow>
             bindE (checkLoadBalancerState lb) (\<lambda>isReady.
             bindE (lb_status lbName lb) (\<lambda>st. do {
               store_lb st;
               ok (notReady \<or> \<not> isReady) }))
       }
       else bindW msg_failed_check_if_load_balancer (checkLoadBalancer C lbName) (\<lambda>found.
         case found of
           Some st \<Rightarrow> do { store_lb st; ok notReady }
         | None \<Rightarrow>
             bindW msg_failed_check_load_balancer_port (checkLoadBalancerPort provision) (\<lambda>_.
             bindW msg_failed_create_load_balancer (createLoadBalancer C lbName provision) (\<lambda>st. do {
               store_lb st;
               ok True })))
     }) }"

definition reconcile_lb :: "clients \<Rightarrow> nat \<Rightarrow> LoadBalancerSource \<Rightarrow> bool \<Rightarrow> bool scope_proc" where
  "reconcile_lb C i lbSource notReady =
     (if LoadBalancerSource_Type lbSource = SourceTypeReference
      then reconcile_lb_reference C (LoadBalancerSource_Reference lbSource) notReady
      else reconcile_lb_provision C i (LoadBalancerSource_Provision lbSource) notReady)"

definition ReconcileLoadBalancers :: "clients \<Rightarrow> bool scope_proc" where
  "ReconcileLoadBalancers C = do {
     s \<leftarrow> get_scope;
     deref (desired_lbs s) (\<lambda>loadBalancers.
       bindE (loop_i (reconcile_lb C) 0 loadBalancers False) (\<lambda>isAnyLoadBalancerNotReady.
         ok (\<not> isAnyLoadBalancerNotReady))) }"

text \<open>One iteration of the deletion loop, over the errors and the requeue flag.\<close>

definition delete_lb_in_cloud ::
  "clients \<Rightarrow> LoadBalancer \<Rightarrow> gerror list \<times> bool \<Rightarrow> (gerror list \<times> bool) scope_proc" where
  "delete_lb_in_cloud C cloudLB acc =
     (case acc of (errs, requeue) \<Rightarrow>
       if ptr_Deref (lb_ProvisioningStatus cloudLB) [] = LoadBalancerStateDeletePending then ok (errs, True)
       else do {
         d \<leftarrow> DeleteLoadBalancer_api C (ptr_Deref (lb_ID cloudLB) []);
         case d of
           Fail e _ \<Rightarrow> ok (errs @ [Wrapf msg_failed_trigger_deletion_load_balancer e], requeue)
         | Reply _ \<Rightarrow> ok (errs, True)
       })"

definition delete_lb :: "clients \<Rightarrow> nat \<Rightarrow> LoadBalancerSource \<Rightarrow> gerror list \<times> bool \<Rightarrow> (gerror list \<times> bool) scope_proc" where
  "delete_lb C i lbSource acc =
     (case acc of (errs, requeue) \<Rightarrow>
       if LoadBalancerSource_Type lbSource = SourceTypeReference then ok acc
       else do {
         s \<leftarrow> get_scope;
         deref (lb_name s i (LoadBalancerSource_Provision lbSource)) (\<lambda>lbName. do {
           let lbID = GetLoadBalancerID (Status_LoadBalancers (status s)) lbName;
           if lbID \<noteq> [] then do {
             r \<leftarrow> GetLoadBalancer C lbID;
             case r of
               Fail e st \<Rightarrow>
                 if st = Some ResourceNotFoundCode then ok acc
                 else ok (errs @ [Wrapf msg_failed_fetch_load_balancer_details e], requeue)
             | Reply None \<Rightarrow> ok acc
             | Reply (Some cloudLB) \<Rightarrow> delete_lb_in_cloud C cloudLB acc
           }
           else do {
             r \<leftarrow> GetLoadBalancerByName C lbName;
             case r of
               Fail e _ \<Rightarrow> ok (errs @ [Wrapf msg_failed_fetch_load_balancer_details e], requeue)
             | Reply None \<Rightarrow> ok acc
             | Reply (Some cloudLB) \<Rightarrow> delete_lb_in_cloud C cloudLB acc
           }
         })
       })"

definition DeleteLoadBalancer :: "clients \<Rightarrow> bool scope_proc" where
  "DeleteLoadBalancer C = do {
     s \<leftarrow> get_scope;
     deref (desired_lbs s) (\<lambda>loadBalancers.
       bindE (loop_i (delete_lb C) 0 loadBalancers ([], False)) (\<lambda>(errs, requeue).
         if errs \<noteq> [] then fail (AggregateErr errs) else ok requeue)) }"

text \<open>The first tracked load balancer of that name with a hostname.\<close>

definition tracked_hostname :: "LoadBalancerStatus list \<Rightarrow> string \<Rightarrow> string option" where
  "tracked_hostname lbs name = map_option LoadBalancerStatus_Hostname
     (find (\<lambda>lb. LoadBalancerStatus_Name lb = name \<and> LoadBalancerStatus_Hostname lb \<noteq> []) lbs)"

text \<open>The name \<open>GetPublicLoadBalancerHostName\<close> looks for: \<open>[]\<close> means none.\<close>

definition public_lb_target :: "clients \<Rightarrow> nat \<Rightarrow> LoadBalancerSource \<Rightarrow> string scope_proc" where
  "public_lb_target C i lb = do {
     s \<leftarrow> get_scope;
     case LoadBalancerSource_Type lb of
       SourceTypeProvision \<Rightarrow>
         if LoadBalancerProvision_Type (LoadBalancerSource_Provision lb) = LoadBalancerTypePrivate then ok []
         else if LoadBalancerProvision_Name (LoadBalancerSource_Provision lb) = []
         then deref (ResourceName (InfraCluster s) ResourceTypeLBPublic (itoa i)) ok
         else ok (LoadBalancerProvision_Name (LoadBalancerSource_Provision lb))
     | SourceTypeReference \<Rightarrow>
         if ResourceIdentifier_Name (LoadBalancerSource_Reference lb) \<noteq> []
         then ok (ResourceIdentifier_Name (LoadBalancerSource_Reference lb))
         else if ResourceIdentifier_ID (LoadBalancerSource_Reference lb) \<noteq> [] then do {
           r \<leftarrow> GetLoadBalancer C (ResourceIdentifier_ID (LoadBalancerSource_Reference lb));
           case r of
             Fail e _ \<Rightarrow> fail (Wrapf msg_failed_fetch_referenced_load_balancer2 e)
           | Reply d \<Rightarrow> ok (ptr_Deref (Option.bind d lb_Name) [])
         }
         else ok []
     | OtherSourceType _ \<Rightarrow> ok [] }"

definition GetPublicLoadBalancerHostName :: "clients \<Rightarrow> string option scope_proc" where
  "GetPublicLoadBalancerHostName C = do {
     s \<leftarrow> get_scope;
     let lbs = Status_LoadBalancers (status s);
     if lbs = [] then ok None
     else if Spec_LoadBalancers (spec s) = []
     then deref (ResourceName (InfraCluster s) ResourceTypeLBPublic []) (\<lambda>defaultName.
       ok (tracked_hostname lbs defaultName))
     else loop_i (\<lambda>i lb found.
       if found \<noteq> None then ok found
       else bindE (public_lb_target C i lb) (\<lambda>targetName.
         ok (if targetName \<noteq> [] then tracked_hostname lbs targetName else None)))
       0 (Spec_LoadBalancers (spec s)) None }"

section \<open>Frames and contracts\<close>

lemmas lb_defs = ReconcileLoadBalancers_def reconcile_lb_def reconcile_lb_reference_def reconcile_lb_provision_def
  checkLoadBalancerState_def lb_status_def store_lb_def checkLoadBalancerPort_def checkLoadBalancer_def createLoadBalancer_def

lemmas lb_delete_defs = DeleteLoadBalancer_def delete_lb_def delete_lb_in_cloud_def

lemma keeps_ReconcileLoadBalancers:
  assumes "\<And>s h. p (s\<lparr>trace := h\<rparr>) = p s"
    and "\<And>f s. p (upd_status (\<lambda>st. st\<lparr>Status_LoadBalancers := f st\<rparr>) s) = p s"
  shows "state_io_rel (keeps p) (ReconcileLoadBalancers C)"
  unfolding lb_defs by (intro frame_keeps) (simp_all add: assms)

lemma keeps_DeleteLoadBalancer:
  assumes "\<And>s h. p (s\<lparr>trace := h\<rparr>) = p s"
  shows "state_io_rel (keeps p) (DeleteLoadBalancer C)"
  unfolding lb_delete_defs by (intro frame_keeps) (simp_all add: assms)

lemma keeps_GetPublicLoadBalancerHostName:
  assumes "\<And>s h. p (s\<lparr>trace := h\<rparr>) = p s"
  shows "state_io_rel (keeps p) (GetPublicLoadBalancerHostName C)"
  unfolding GetPublicLoadBalancerHostName_def public_lb_target_def by (intro frame_keeps) (simp_all add: assms)

abbreviation lbs_distinct :: "ClusterScope \<Rightarrow> bool" where
  "lbs_distinct s \<equiv> distinct (map LoadBalancerStatus_Name (Status_LoadBalancers (status s)))"

lemma preserves_ReconcileLoadBalancers: "state_io_rel (preserves lbs_distinct) (ReconcileLoadBalancers C)"
  unfolding lb_defs by (intro frame_preserves) (simp_all add: lbs.put_distinct)

text \<open>Whether the spec leaves some load balancer to the controller.\<close>

definition lbs_owned :: "IBMPowerVSClusterSpec \<Rightarrow> bool" where
  "lbs_owned sp \<longleftrightarrow> Spec_LoadBalancers sp = [] \<or>
     list_ex (\<lambda>src. LoadBalancerSource_Type src \<noteq> SourceTypeReference) (Spec_LoadBalancers sp)"

definition lb_calls :: "IBMPowerVSClusterSpec \<Rightarrow> call \<Rightarrow> bool" where
  "lb_calls sp c \<longleftrightarrow> \<not> deletes c \<and> (creates c \<longrightarrow> lbs_owned sp \<and> (\<exists>x. c = VPCC (CreateLoadBalancer_call x)))"

definition lb_delete_calls :: "IBMPowerVSClusterSpec \<Rightarrow> call \<Rightarrow> bool" where
  "lb_delete_calls sp c \<longleftrightarrow> \<not> creates c \<and> (deletes c \<longrightarrow> lbs_owned sp \<and> (\<exists>x. c = VPCC (DeleteLoadBalancer_call x)))"

abbreviation subnets_and_group :: "ClusterScope \<Rightarrow> VPCSubnetStatus list \<times> ResourceReference" where
  "subnets_and_group s \<equiv> (Status_VPCSubnets (status s), Status_ResourceGroup (status s))"

lemma within_lb_request:
  "within subnets_and_group A s0 s \<Longrightarrow> lb_request s = lb_request s0"
  by (auto simp: within_def lb_request_def fixed_part_def spec_def GetResourceGroupID_def APIServerPort_def fun_eq_iff Let_def)

lemma within_lb_name: "within p A s0 s \<Longrightarrow> lb_name s = lb_name s0"
  by (auto simp: within_def lb_name_def fixed_part_def InfraCluster_def fun_eq_iff Let_def)

lemma within_APIServerPort: "within p A s0 s \<Longrightarrow> APIServerPort s = APIServerPort s0"
  by (auto simp: within_def fixed_part_def APIServerPort_def)

text \<open>No additional listener claims the port of the API server.\<close>

definition ports_free :: "ClusterScope \<Rightarrow> LoadBalancerProvision \<Rightarrow> bool" where
  "ports_free s prov \<longleftrightarrow> APIServerPort s \<notin> AdditionalListener_Port ` set (LoadBalancerProvision_AdditionalListeners prov)"

lemma within_check_port:
  assumes "within p A s0 s"
    and "\<And>t. within p A s0 t \<Longrightarrow> ports_free s0 prov \<Longrightarrow> wp (k ()) (\<lambda>_ t. within p A s0 t) t"
    and "\<And>e t. within p A s0 t \<Longrightarrow> wp (h e) (\<lambda>_ t. within p A s0 t) t"
  shows "wp (attempt (checkLoadBalancerPort prov) h k) (\<lambda>_ t. within p A s0 t) s"
proof (rule within.fw_attempt_where [where P = "\<lambda>_. ports_free s0 prov"])
  show "wp (checkLoadBalancerPort prov) (\<lambda>r t. within p A s0 t \<and> (\<forall>x. r = Ok x \<longrightarrow> ports_free s0 prov)) s"
    unfolding checkLoadBalancerPort_def using assms(1)
    by (simp only: wp_simps)
       (auto simp: ports_free_def within_APIServerPort [OF assms(1), symmetric] list_ex_iff)
qed (use assms(2,3) in auto)

lemma within_reconcile_lb:
  assumes "\<And>n. LoadBalancerSource_Type src \<noteq> SourceTypeReference \<Longrightarrow>
      lb_name s0 i (LoadBalancerSource_Provision src) = Some n \<Longrightarrow> ports_free s0 (LoadBalancerSource_Provision src) \<Longrightarrow>
      Status_VPCSubnets (status s0) \<noteq> [] \<Longrightarrow>
      A (VPCC (CreateLoadBalancer_call (lb_request s0 n (LoadBalancerSource_Provision src))))"
    and "\<And>c. \<not> creates c \<Longrightarrow> \<not> deletes c \<Longrightarrow> A c" and "within subnets_and_group A s0 s"
  shows "wp (reconcile_lb C i src notReady) (\<lambda>_ t. within subnets_and_group A s0 t) s"
proof -
  have create: "wp (createLoadBalancer C n (LoadBalancerSource_Provision src)) (\<lambda>_ t. within subnets_and_group A s0 t) u"
    if "LoadBalancerSource_Type src \<noteq> SourceTypeReference" "lb_name s0 i (LoadBalancerSource_Provision src) = Some n"
      "ports_free s0 (LoadBalancerSource_Provision src)" "within subnets_and_group A s0 u" for n u
  proof -
    have "Status_VPCSubnets (status u) = Status_VPCSubnets (status s0)"
      using that(4) by (simp add: within_def)
    then show ?thesis
      using that(4) unfolding createLoadBalancer_def lb_status_def
      by (intro within_rules) (simp_all add: within_lb_request assms(1) [OF that(1-3)])
  qed
  note n = within_lb_name [OF assms(3)]
  show ?thesis
    unfolding reconcile_lb_def reconcile_lb_reference_def reconcile_lb_provision_def checkLoadBalancerState_def
      lb_status_def store_lb_def checkLoadBalancer_def
    by (intro within_check_port create within_rules) (simp_all add: assms(2,3) n)
qed

lemma within_ReconcileLoadBalancers:
  assumes create: "\<And>i src n srcs. desired_lbs s = Some srcs \<Longrightarrow> src \<in> set srcs \<Longrightarrow>
      LoadBalancerSource_Type src \<noteq> SourceTypeReference \<Longrightarrow>
      lb_name s i (LoadBalancerSource_Provision src) = Some n \<Longrightarrow> ports_free s (LoadBalancerSource_Provision src) \<Longrightarrow>
      Status_VPCSubnets (status s) \<noteq> [] \<Longrightarrow>
      A (VPCC (CreateLoadBalancer_call (lb_request s n (LoadBalancerSource_Provision src))))"
    and "\<And>c. \<not> creates c \<Longrightarrow> \<not> deletes c \<Longrightarrow> A c"
  shows "wp (ReconcileLoadBalancers C) (\<lambda>_ t. within subnets_and_group A s t) s"
  unfolding ReconcileLoadBalancers_def
  by (rule within_start, intro within_reconcile_lb within_rules) (use assms in auto)

lemma desired_lbs_owned:
  "desired_lbs s = Some srcs \<Longrightarrow> src \<in> set srcs \<Longrightarrow> LoadBalancerSource_Type src \<noteq> SourceTypeReference \<Longrightarrow> lbs_owned (spec s)"
  by (auto simp: desired_lbs_def lbs_owned_def list_ex_iff split: if_splits)

interpretation lb_step: scope_contract "ReconcileLoadBalancers C" lb_calls for C
proof unfold_locales
  fix s
  have "wp (ReconcileLoadBalancers C) (\<lambda>_ t. within subnets_and_group (lb_calls (spec s)) s t) s"
    by (rule within_ReconcileLoadBalancers) (auto simp: lb_calls_def intro: desired_lbs_owned)
  then show "wp (ReconcileLoadBalancers C) (\<lambda>_ t. within (\<lambda>_. ()) (lb_calls (spec s)) s t) s"
    by (rule wp_mono) (rule within_forget)
qed

interpretation lb_delete: scope_contract "DeleteLoadBalancer C" lb_delete_calls for C
proof unfold_locales
  fix s
  have del: "wp (delete_lb C i src acc) (\<lambda>_ t. within (\<lambda>_. ()) (lb_delete_calls (spec s)) s t) u"
    if "within (\<lambda>_. ()) (lb_delete_calls (spec s)) s u"
      "LoadBalancerSource_Type src \<noteq> SourceTypeReference \<Longrightarrow> lbs_owned (spec s)" for i src acc u
    unfolding delete_lb_def delete_lb_in_cloud_def using that
    by (intro within_rules) (simp_all add: lb_delete_calls_def)
  show "wp (DeleteLoadBalancer C) (\<lambda>_ t. within (\<lambda>_. ()) (lb_delete_calls (spec s)) s t) s"
    unfolding DeleteLoadBalancer_def
    by (rule within_start, intro del within_rules) (auto intro: desired_lbs_owned)
qed

section \<open>Properties\<close>

text \<open>
  a load balancer is created only for an entry that is not a reference (or for the default,
  when the spec lists none), on the tracked subnets, in the resource group of the cluster. The
  first listener is the one of the API server, on its port, and no other listener uses that
  port. Nothing is deleted.
\<close>

theorem ReconcileLoadBalancers_create_guard:
  assumes "run_state (ReconcileLoadBalancers C) s = (r, t)"
    and "c \<in> set (new_calls s t)" and "creates c \<or> deletes c"
  shows "Status_VPCSubnets (status s) \<noteq> [] \<and>
    (\<exists>srcs src i n req ports. desired_lbs s = Some srcs \<and> src \<in> set srcs \<and> LoadBalancerSource_Type src \<noteq> SourceTypeReference \<and>
       lb_name s i (LoadBalancerSource_Provision src) = Some n \<and>
       req = lb_request s n (LoadBalancerSource_Provision src) \<and> c = VPCC (CreateLoadBalancer_call req) \<and>
       map listener_Port (clb_Listeners req) = APIServerPort s # ports \<and> APIServerPort s \<notin> set ports)"
    (is "?P c")
proof -
  have ports: "\<exists>ps. map listener_Port (clb_Listeners (lb_request s n prov)) = APIServerPort s # ps \<and> APIServerPort s \<notin> set ps"
    if "ports_free s prov" for n prov
    using that by (auto simp: lb_request_def Let_def lb_listener_def ports_free_def)
  have "wp (ReconcileLoadBalancers C) (\<lambda>_ t. within subnets_and_group (\<lambda>c. creates c \<or> deletes c \<longrightarrow> ?P c) s t) s"
  proof (rule within_ReconcileLoadBalancers, rule impI)
    fix i src n srcs
    assume src: "desired_lbs s = Some srcs" "src \<in> set srcs" "LoadBalancerSource_Type src \<noteq> SourceTypeReference"
      "lb_name s i (LoadBalancerSource_Provision src) = Some n" "Status_VPCSubnets (status s) \<noteq> []"
      and free: "ports_free s (LoadBalancerSource_Provision src)"
    from ports [OF free, of n] obtain ps where "map listener_Port (clb_Listeners (lb_request s n (LoadBalancerSource_Provision src))) = APIServerPort s # ps"
      "APIServerPort s \<notin> set ps" by (elim exE conjE)
    with src show "?P (VPCC (CreateLoadBalancer_call (lb_request s n (LoadBalancerSource_Provision src))))"
      by (intro conjI exI [of _ srcs] exI [of _ src] exI [of _ i] exI [of _ n] exI [of _ ps]
          exI [of _ "lb_request s n (LoadBalancerSource_Provision src)"] refl)
  qed blast
  from within_new_calls [OF this assms(1,2)] assms(3) show ?thesis by blast
qed

theorem ReconcileLoadBalancers_create_guard_witness:
  "VPCC (CreateLoadBalancer_call (lb_request (scope_of example_spec (settled_status\<lparr>Status_LoadBalancers := []\<rparr>)) ''c-loadbalancer-public'' (LoadBalancerSource_Provision unnamed_lb))) \<in> set (new_calls (scope_of example_spec (settled_status\<lparr>Status_LoadBalancers := []\<rparr>)) (snd (run_state (ReconcileLoadBalancers example_cloud) (scope_of example_spec (settled_status\<lparr>Status_LoadBalancers := []\<rparr>))))) \<and> Status_VPCSubnets (status (scope_of example_spec (settled_status\<lparr>Status_LoadBalancers := []\<rparr>))) \<noteq> []"
proof -
  have made: "VPCC (CreateLoadBalancer_call (lb_request (scope_of example_spec (settled_status\<lparr>Status_LoadBalancers := []\<rparr>)) ''c-loadbalancer-public'' (LoadBalancerSource_Provision unnamed_lb))) \<in> set (new_calls (scope_of example_spec (settled_status\<lparr>Status_LoadBalancers := []\<rparr>)) (snd (run_state (ReconcileLoadBalancers example_cloud) (scope_of example_spec (settled_status\<lparr>Status_LoadBalancers := []\<rparr>)))))" by code_simp
  show ?thesis using made ReconcileLoadBalancers_create_guard [OF surjective_pairing made] by simp
qed

text \<open>
  a load balancer that is found by its name, because its ID is not tracked, counts as ready
  whatever its state is: it is recorded and the step answers that everything is ready, also when
  the cloud reports it as still being created or being deleted.
\<close>

theorem ReconcileLoadBalancers_recovered_unchecked:
  assumes "Spec_LoadBalancers (spec s) = []" and "ResourceName (InfraCluster s) ResourceTypeLBPublic [] = Some n"
    and "n \<noteq> []" and "GetLoadBalancerID (Status_LoadBalancers (status s)) n = []"
    and "on_GetLoadBalancerByName (IBMVPCClient C) (trace s) n = Reply (Some lb)"
    and "lb_ID lb = Some i" and "lb_ProvisioningStatus lb = Some st"
  shows "wp (ReconcileLoadBalancers C) (\<lambda>r t. r = Ok True \<and>
    find (\<lambda>x. LoadBalancerStatus_Name x = n) (Status_LoadBalancers (status t)) =
      Some \<lparr>LoadBalancerStatus_Name = n, LoadBalancerStatus_ID = i, LoadBalancerStatus_State = st,
            LoadBalancerStatus_Hostname = ptr_Deref (lb_Hostname lb) []\<rparr>) s"
proof -
  have d: "desired_lbs s = Some [the (default_lb s)]" and
    p: "LoadBalancerSource_Type (the (default_lb s)) = SourceTypeProvision"
    "LoadBalancerProvision_Name (LoadBalancerSource_Provision (the (default_lb s))) = n"
    using assms(1,2) by (simp_all add: desired_lbs_def default_lb_def)
  show ?thesis
    unfolding ReconcileLoadBalancers_def reconcile_lb_def reconcile_lb_provision_def checkLoadBalancer_def
      lb_status_def store_lb_def
    apply (simp add: wp_simps d p assms lb_name_def Let_def)
    using lbs.put_found [of "\<lparr>LoadBalancerStatus_Name = n, LoadBalancerStatus_ID = i, LoadBalancerStatus_State = st,
            LoadBalancerStatus_Hostname = ptr_Deref (lb_Hostname lb) []\<rparr>"]
    by simp
qed

theorem ReconcileLoadBalancers_recovered_unchecked_witness:
  "wp (ReconcileLoadBalancers pending_cloud) (\<lambda>r t. r = Ok True \<and>
     find (\<lambda>x. LoadBalancerStatus_Name x = ''c-loadbalancer-public'') (Status_LoadBalancers (status t)) =
       Some \<lparr>LoadBalancerStatus_Name = ''c-loadbalancer-public'', LoadBalancerStatus_ID = ''lb'',
             LoadBalancerStatus_State = LoadBalancerStateCreatePending, LoadBalancerStatus_Hostname = ptr_Deref (Some ''host'') []\<rparr>) fresh"
  by (rule ReconcileLoadBalancers_recovered_unchecked
        [where lb = "(cloud_lb ''c-loadbalancer-public'')\<lparr>lb_ProvisioningStatus := Some LoadBalancerStateCreatePending\<rparr>",
         simplified cloud_lb_def LoadBalancer.simps]) code_simp+

lemma tracked_hostname_Some: "tracked_hostname lbs n = Some h \<Longrightarrow> h \<noteq> [] \<and> h \<in> LoadBalancerStatus_Hostname ` set lbs"
  by (auto simp: tracked_hostname_def find_Some_iff)

lemma wp_GetPublicLoadBalancerHostName:
  "wp (GetPublicLoadBalancerHostName C) (\<lambda>r t. status t = status s \<and> fixed_part t = fixed_part s \<and>
     (\<forall>h. r = Ok (Some h) \<longrightarrow> h \<noteq> [] \<and> h \<in> LoadBalancerStatus_Hostname ` set (Status_LoadBalancers (status s)))) s"
proof -
  let ?lbs = "Status_LoadBalancers (status s)"
  let ?same = "\<lambda>t. status t = status s \<and> fixed_part t = fixed_part s"
  have target: "wp (public_lb_target C i lb) (\<lambda>_ t. ?same t) u" if "?same u" for i lb u
    using that unfolding public_lb_target_def by (simp only: wp_simps) simp
  have "wp (loop_i (\<lambda>i lb found. if found \<noteq> None then ok found else bindE (public_lb_target C i lb) (\<lambda>targetName.
         ok (if targetName \<noteq> [] then tracked_hostname ?lbs targetName else None))) 0 (Spec_LoadBalancers (spec s)) None)
     (\<lambda>r t. ?same t \<and> (\<forall>h. r = Ok (Some h) \<longrightarrow> h \<noteq> [] \<and> h \<in> LoadBalancerStatus_Hostname ` set ?lbs)) s"
  proof (rule wp_loop_i [where I = "\<lambda>found t. ?same t \<and> (\<forall>h. found = Some h \<longrightarrow> h \<noteq> [] \<and> h \<in> LoadBalancerStatus_Hostname ` set ?lbs)"
        and E = "\<lambda>_ t. ?same t"])
    fix j lb found t assume I: "?same t \<and> (\<forall>h. found = Some h \<longrightarrow> h \<noteq> [] \<and> h \<in> LoadBalancerStatus_Hostname ` set ?lbs)"
    then show "wp (if found \<noteq> None then ok found else bindE (public_lb_target C j lb) (\<lambda>targetName.
         ok (if targetName \<noteq> [] then tracked_hostname ?lbs targetName else None)))
       (\<lambda>r t'. case r of Ok found \<Rightarrow> ?same t' \<and> (\<forall>h. found = Some h \<longrightarrow> h \<noteq> [] \<and> h \<in> LoadBalancerStatus_Hostname ` set ?lbs) | _ \<Rightarrow> ?same t') t"
      by (auto simp: wp_return wp_attempt intro!: wp_mono [OF target] dest: tracked_hostname_Some)
  qed auto
  then show ?thesis
    unfolding GetPublicLoadBalancerHostName_def
    by (simp only: wp_simps) (auto dest: tracked_hostname_Some)
qed

text \<open>
  the hostname of an unnamed public load balancer that stands first in the spec is never
  found. The reconcile step gives it the name without an index, the lookup of the hostname
  searches for the name with index 0, and the two differ; so the cluster never learns its
  control plane endpoint, whatever hostname the load balancer has.
\<close>

theorem GetPublicLoadBalancerHostName_unnamed_first:
  assumes "Spec_LoadBalancers (spec s) = [src]" and "LoadBalancerSource_Type src = SourceTypeProvision"
    and "LoadBalancerProvision_Type (LoadBalancerSource_Provision src) \<noteq> LoadBalancerTypePrivate"
    and "LoadBalancerProvision_Name (LoadBalancerSource_Provision src) = []"
    and "Status_LoadBalancers (status s) = [lb]" and "lb_name s 0 (LoadBalancerSource_Provision src) = Some (LoadBalancerStatus_Name lb)"
  shows "run_state (GetPublicLoadBalancerHostName C) s = (Ok None, s)"
proof -
  have i0: "length (name_suffix ResourceTypeLBPublic (itoa 0)) \<le> 62"
    by (simp add: name_suffix_def itoa.simps)
  obtain n where n: "ResourceName (InfraCluster s) ResourceTypeLBPublic (itoa 0) = Some n"
    using ResourceName_None [of "InfraCluster s" ResourceTypeLBPublic "itoa 0"] i0
    by (cases "ResourceName (InfraCluster s) ResourceTypeLBPublic (itoa 0)") auto
  have "ResourceName (InfraCluster s) ResourceTypeLBPublic [] = Some (LoadBalancerStatus_Name lb)"
    using assms(3,4,6) by (simp add: lb_name_def)
  then have "last_segment (LoadBalancerStatus_Name lb) = last_segment (rt_string ResourceTypeLBPublic)"
    by (simp add: last_segment_ResourceName)
  moreover have "last_segment n = rev (itoa 0)"
    using last_segment_qualified [OF n] by (simp add: itoa_no_hyphen)
  ultimately have "LoadBalancerStatus_Name lb \<noteq> n"
    by (auto simp: last_segment_def itoa.simps)
  then show ?thesis
    unfolding wp_eq GetPublicLoadBalancerHostName_def public_lb_target_def
    by (simp add: wp_simps assms(1-5) n tracked_hostname_def)
qed

theorem GetPublicLoadBalancerHostName_unnamed_first_witness:
  "run_state (GetPublicLoadBalancerHostName example_cloud) (scope_of (example_spec\<lparr>Spec_LoadBalancers := [unnamed_lb]\<rparr>) settled_status) =
     (Ok None, scope_of (example_spec\<lparr>Spec_LoadBalancers := [unnamed_lb]\<rparr>) settled_status)"
  by (rule GetPublicLoadBalancerHostName_unnamed_first [where src = unnamed_lb and
        lb = "\<lparr>LoadBalancerStatus_Name = ''c-loadbalancer-public'', LoadBalancerStatus_ID = ''lb'',
        LoadBalancerStatus_State = LoadBalancerStateActive, LoadBalancerStatus_Hostname = ''host''\<rparr>"]) code_simp+

text \<open>What the cloud answered for a load balancer of that name: it is not there.\<close>

definition lb_absent :: "clients \<Rightarrow> ClusterScope \<Rightarrow> history \<Rightarrow> string \<Rightarrow> bool" where
  "lb_absent C s h n \<longleftrightarrow>
     (let lbID = GetLoadBalancerID (Status_LoadBalancers (status s)) n
      in if lbID \<noteq> [] then
           (case on_GetLoadBalancer (IBMVPCClient C) h lbID of
              Reply x \<Rightarrow> x = None | Fail _ st \<Rightarrow> st = Some ResourceNotFoundCode)
         else on_GetLoadBalancerByName (IBMVPCClient C) h n = Reply None)"

lemma delete_lb_step:
  assumes "status u = status s" and "fixed_part u = fixed_part s"
    and "trace u = trace s @ cs"
  shows "wp (delete_lb C i src acc) (\<lambda>r t. r = Panic \<or> (\<exists>errs rq cs'. r = Ok (errs, rq) \<and>
      status t = status s \<and> fixed_part t = fixed_part s \<and> trace t = trace s @ cs @ cs' \<and>
      (fst acc \<noteq> [] \<longrightarrow> errs \<noteq> []) \<and> (snd acc \<longrightarrow> rq) \<and>
      (errs = [] \<and> \<not> rq \<longrightarrow> filter deletes cs' = [] \<and>
        (LoadBalancerSource_Type src = SourceTypeReference \<or>
         (\<exists>n. lb_name s i (LoadBalancerSource_Provision src) = Some n \<and> lb_absent C s (trace s @ cs) n))))) u"
proof -
  have n: "lb_name u = lb_name s"
    using assms(2) by (auto simp: lb_name_def fixed_part_def InfraCluster_def fun_eq_iff Let_def)
  obtain errs rq where acc: "acc = (errs, rq)" by (cases acc)
  show ?thesis
    unfolding delete_lb_def delete_lb_in_cloud_def acc
    by (simp only: wp_simps)
       (auto simp: assms n lb_absent_def Let_def cong: imp_cong)
qed

text \<open>The cloud answered for every entry the controller owns that it is not there.\<close>

definition lbs_absent :: "clients \<Rightarrow> ClusterScope \<Rightarrow> LoadBalancerSource list \<Rightarrow> bool" where
  "lbs_absent C s srcs \<longleftrightarrow> (\<forall>i < length srcs. LoadBalancerSource_Type (srcs ! i) = SourceTypeReference \<or>
     (\<exists>n h. lb_name s i (LoadBalancerSource_Provision (srcs ! i)) = Some n \<and> lb_absent C s (trace s @ h) n))"

definition lb_deletion :: "clients \<Rightarrow> ClusterScope \<Rightarrow> LoadBalancerSource list \<Rightarrow> gerror list \<times> bool \<Rightarrow> ClusterScope \<Rightarrow> bool" where
  "lb_deletion C s ys acc t \<longleftrightarrow> status t = status s \<and> fixed_part t = fixed_part s \<and>
     (\<exists>cs. trace t = trace s @ cs \<and> (fst acc = [] \<and> \<not> snd acc \<longrightarrow> filter deletes cs = [] \<and> lbs_absent C s ys))"

lemma lbs_absent_snoc:
  "lbs_absent C s (ys @ [x]) \<longleftrightarrow> lbs_absent C s ys \<and> (LoadBalancerSource_Type x = SourceTypeReference \<or>
     (\<exists>n h. lb_name s (length ys) (LoadBalancerSource_Provision x) = Some n \<and> lb_absent C s (trace s @ h) n))"
  unfolding lbs_absent_def by (auto simp: nth_append less_Suc_eq)

lemma delete_lb_deletion:
  assumes "lb_deletion C s ys acc u"
  shows "wp (delete_lb C (length ys) x acc) (\<lambda>r t. r = Panic \<or> (\<exists>acc'. r = Ok acc' \<and> lb_deletion C s (ys @ [x]) acc' t)) u"
proof -
  from assms obtain cs where u: "status u = status s" "fixed_part u = fixed_part s" "trace u = trace s @ cs"
    and sofar: "fst acc = [] \<and> \<not> snd acc \<longrightarrow> filter deletes cs = [] \<and> lbs_absent C s ys"
    unfolding lb_deletion_def by blast
  show ?thesis
    by (rule wp_mono [OF delete_lb_step [OF u]])
       (use sofar in \<open>auto simp: lb_deletion_def lbs_absent_snoc\<close>)
qed

lemma wp_DeleteLoadBalancer:
  "wp (DeleteLoadBalancer C) (\<lambda>r t. r = Ok False \<longrightarrow>
     filter deletes (new_calls s t) = [] \<and> (\<exists>srcs. desired_lbs s = Some srcs \<and> lbs_absent C s srcs)) s"
proof -
  have "wp (loop_i (delete_lb C) 0 srcs ([], False)) (\<lambda>r t. r = Panic \<or> (\<exists>acc. r = Ok acc \<and> lb_deletion C s srcs acc t)) s" for srcs
  proof (rule wp_loop_i_done [where I = "lb_deletion C s"])
    show "lb_deletion C s [] ([], False) s" by (simp add: lb_deletion_def lbs_absent_def)
    show "wp (delete_lb C (length ys) x acc) (\<lambda>r t. (\<forall>acc'. r = Ok acc' \<longrightarrow> lb_deletion C s (ys @ [x]) acc' t) \<and>
        ((\<forall>acc'. r \<noteq> Ok acc') \<longrightarrow> r = Panic \<or> (\<exists>acc. r = Ok acc \<and> lb_deletion C s srcs acc t))) u"
      if "lb_deletion C s ys acc u" for ys x acc u
      by (rule wp_mono [OF delete_lb_deletion [OF that]]) auto
  qed simp
  note loop = wp_mono [OF this]
  show ?thesis
    unfolding DeleteLoadBalancer_def
    apply (simp only: wp_simps)
    apply (auto intro!: loop simp: lb_deletion_def new_calls_def wp_simps)
    done
qed

text \<open>
  deleting the load balancers is finished (no requeue, no error) only when nothing had to be
  deleted in this pass and the cloud answered, for every entry that is not a reference, that no
  such load balancer exists.
\<close>

theorem DeleteLoadBalancer_complete:
  "wp (DeleteLoadBalancer C) (\<lambda>r t. r \<noteq> Ok False \<or>
     filter deletes (new_calls s t) = [] \<and> (\<exists>srcs. desired_lbs s = Some srcs \<and> lbs_absent C s srcs)) s"
  by (rule wp_mono [OF wp_DeleteLoadBalancer]) blast

theorem DeleteLoadBalancer_complete_witness:
  "\<exists>srcs. desired_lbs settled = Some srcs \<and> lbs_absent empty_cloud settled srcs"
proof -
  have "fst (run_state (DeleteLoadBalancer empty_cloud) settled) = Ok False" by code_simp
  with wp_result [OF DeleteLoadBalancer_complete [of empty_cloud settled]] show ?thesis by blast
qed

end
