(* ===== verification/Security_Groups.thy ===== *)
theory Security_Groups
  imports Example_Cluster
begin

text \<open>
  The VPC security groups of a cluster and their rules (\<^verbatim>\<open>powervs_cluster.go\<close>:
  \<open>ReconcileVPCSecurityGroups\<close> and what it calls, \<open>DeleteVPCSecurityGroups\<close>;
  \<open>normalizedVPCSecurityGroupRulePrototype\<close> of \<^verbatim>\<open>util.go\<close>).
\<close>

section \<open>Error texts\<close>

definition msg_referenced_security_group_must_have :: string where "msg_referenced_security_group_must_have = ''referenced security group must have either ID or Name specified''"
definition msg_failed_find_referenced_vpc_security :: string where "msg_failed_find_referenced_vpc_security = ''failed to find referenced VPC security group''"
definition msg_error_creating_vpc_security_group :: string where "msg_error_creating_vpc_security_group = ''error creating VPC security group''"
definition msg_failed_find_vpc_subnet_by :: string where "msg_failed_find_vpc_subnet_by = ''failed to find VPC subnet by name''"
definition msg_failed_find_vpc_security_group :: string where "msg_failed_find_vpc_security_group = ''failed to find VPC security group by name''"
definition msg_unrecognized_rule_type_returned_from :: string where "msg_unrecognized_rule_type_returned_from = ''unrecognized rule type returned from API''"
definition msg_failed_execute_createsecuritygrouprule_api :: string where "msg_failed_execute_createsecuritygrouprule_api = ''failed to execute CreateSecurityGroupRule API''"
definition msg_invalid_rule_direction_provided :: string where "msg_invalid_rule_direction_provided = ''invalid rule direction provided''"
definition msg_security_group_rule_has_empty :: string where "msg_security_group_rule_has_empty = ''security group rule has an empty protocol''"
definition msg_security_group_rule_has_no :: string where "msg_security_group_rule_has_no = ''security group rule has no remotes''"
definition msg_failed_create_vpc_security_group :: string where "msg_failed_create_vpc_security_group = ''failed to create VPC security group rule''"
definition msg_failed_fetch_newly_created_security :: string where "msg_failed_fetch_newly_created_security = ''failed to fetch newly created security group''"
definition msg_failed_query_vpc_security_group :: string where "msg_failed_query_vpc_security_group = ''failed to query VPC security group by name''"
definition msg_failed_create_vpc_security_group2 :: string where "msg_failed_create_vpc_security_group2 = ''failed to create VPC security group rules''"
definition msg_failed_reconcile_security_group :: string where "msg_failed_reconcile_security_group = ''failed to reconcile security group''"
definition msg_unknown_security_group_source_type :: string where "msg_unknown_security_group_source_type = ''unknown security group source type''"
definition msg_failed_fetch_vpc_security_group :: string where "msg_failed_fetch_vpc_security_group = ''failed to fetch VPC security group during deletion''"
definition msg_failed_execute_deletesecuritygroup_api :: string where "msg_failed_execute_deletesecuritygroup_api = ''failed to execute DeleteSecurityGroup API''"

section \<open>Operations\<close>

text \<open>The string a protocol is, as the request to the cloud carries it.\<close>

fun protocol_string :: "VPCSecurityGroupRuleProtocol \<Rightarrow> string" where
  "protocol_string VPCSecurityGroupRuleProtocolAny = ''any''"
| "protocol_string VPCSecurityGroupRuleProtocolAll = ''all''"
| "protocol_string VPCSecurityGroupRuleProtocolIcmpTCPUDP = ''icmp_tcp_udp''"
| "protocol_string VPCSecurityGroupRuleProtocolIcmp = ''icmp''"
| "protocol_string VPCSecurityGroupRuleProtocolTCP = ''tcp''"
| "protocol_string VPCSecurityGroupRuleProtocolUDP = ''udp''"
| "protocol_string (OtherProtocol s) = s"

definition normalizedVPCSecurityGroupRulePrototype :: "VPCSecurityGroupRulePrototype \<Rightarrow> VPCSecurityGroupRulePrototype" where
  "normalizedVPCSecurityGroupRulePrototype prototype =
     (if VPCSecurityGroupRulePrototype_Protocol prototype \<noteq> VPCSecurityGroupRuleProtocolAll then prototype
      else prototype\<lparr>VPCSecurityGroupRulePrototype_Protocol := VPCSecurityGroupRuleProtocolIcmpTCPUDP\<rparr>)"

definition reconcileVPCSecurityGroupReference :: "clients \<Rightarrow> ResourceIdentifier \<Rightarrow> VPCSecurityGroupStatus scope_proc" where
  "reconcileVPCSecurityGroupReference C ref =
     (if ResourceIdentifier_ID ref = [] \<and> ResourceIdentifier_Name ref = []
      then fail (Errorf msg_referenced_security_group_must_have)
      else do {
        r \<leftarrow> (if ResourceIdentifier_ID ref \<noteq> [] then GetSecurityGroup C (Some (ResourceIdentifier_ID ref))
              else GetSecurityGroupByName C (ResourceIdentifier_Name ref));
        case r of
          Fail e _ \<Rightarrow> fail (Wrapf msg_failed_find_referenced_vpc_security e)
        | Reply None \<Rightarrow> fail (Errorf msg_failed_find_referenced_vpc_security)
        | Reply (Some sg) \<Rightarrow> deref (sg_ID sg) (\<lambda>i. deref (sg_Name sg) (\<lambda>n.
            ok \<lparr>VPCSecurityGroupStatus_ID = i, VPCSecurityGroupStatus_Name = n, VPCSecurityGroupStatus_Rules = []\<rparr>))
      })"

definition createVPCSecurityGroup :: "clients \<Rightarrow> string \<Rightarrow> string option scope_proc" where
  "createVPCSecurityGroup C name = do {
     s \<leftarrow> get_scope;
     r \<leftarrow> CreateSecurityGroup C
           \<lparr>csg_VPC = VPCStatus_ID (Status_VPC (status s)), csg_Name = name, csg_ResourceGroup = GetResourceGroupID s\<rparr>;
     case r of
       Fail e _ \<Rightarrow> fail (Wrapf msg_error_creating_vpc_security_group e)
     | Reply p \<Rightarrow> deref p (\<lambda>securityGroup. ok (sg_ID securityGroup)) }"

text \<open>The remote of a rule: looked up by name for a subnet or a security group.\<close>

definition rule_remote :: "clients \<Rightarrow> VPCSecurityGroupRuleRemote \<Rightarrow> SecurityGroupRuleRemotePrototype scope_proc" where
  "rule_remote C remote =
     (if VPCSecurityGroupRuleRemote_RemoteType remote = VPCSecurityGroupRuleRemoteTypeCIDR then do {
        r \<leftarrow> GetVPCSubnetByName C (VPCSecurityGroupRuleRemote_CIDRSubnetName remote);
        case r of
          Fail e _ \<Rightarrow> fail (Wrapf msg_failed_find_vpc_subnet_by e)
        | Reply None \<Rightarrow> fail (Errorf msg_failed_find_vpc_subnet_by)
        | Reply (Some n) \<Rightarrow> ok \<lparr>rrp_CIDRBlock = subnet_Ipv4CIDRBlock n, rrp_Address = None, rrp_CRN = None\<rparr>
      }
      else if VPCSecurityGroupRuleRemote_RemoteType remote = VPCSecurityGroupRuleRemoteTypeAddress
      then ok \<lparr>rrp_CIDRBlock = None, rrp_Address = Some (VPCSecurityGroupRuleRemote_Address remote), rrp_CRN = None\<rparr>
      else if VPCSecurityGroupRuleRemote_RemoteType remote = VPCSecurityGroupRuleRemoteTypeSG then do {
        r \<leftarrow> GetSecurityGroupByName C (VPCSecurityGroupRuleRemote_SecurityGroupName remote);
        case r of
          Fail e _ \<Rightarrow> fail (Wrapf msg_failed_find_vpc_security_group e)
        | Reply None \<Rightarrow> fail (Errorf msg_failed_find_vpc_security_group)
        | Reply (Some g) \<Rightarrow> ok \<lparr>rrp_CIDRBlock = None, rrp_Address = None, rrp_CRN = sg_CRN g\<rparr>
      }
      else ok \<lparr>rrp_CIDRBlock = Some ''0.0.0.0/0'', rrp_Address = None, rrp_CRN = None\<rparr>)"

definition rule_prototype ::
  "string \<Rightarrow> string \<Rightarrow> int \<Rightarrow> int \<Rightarrow> SecurityGroupRuleRemotePrototype \<Rightarrow> SecurityGroupRulePrototype" where
  "rule_prototype direction protocol portMin portMax remoteOption =
     (let ports = (protocol = ''tcp'' \<or> protocol = ''udp'') \<and> portMin > 0
      in \<lparr>srp_Direction = direction, srp_Protocol = protocol, srp_IPVersion = None,
          srp_PortMin = (if ports then Some portMin else None),
          srp_PortMax = (if ports then Some portMax else None), srp_Remote = Some remoteOption\<rparr>)"

text \<open>The ID of the created rule, by the dynamic type of the answer; a nil ID panics.\<close>

definition deref_id :: "string option \<Rightarrow> string outcome" where
  "deref_id p = (case p of None \<Rightarrow> Panic | Some i \<Rightarrow> Ok i)"

fun rule_id :: "SecurityGroupRuleIntf \<Rightarrow> string outcome" where
  "rule_id (SGRuleProtocolAny i) = deref_id i"
| "rule_id (SGRuleProtocolIcmptcpudp i) = deref_id i"
| "rule_id (SGRuleProtocolTcpudp i) = deref_id i"
| "rule_id (SGRuleProtocolIcmp i) = deref_id i"
| "rule_id (SGRuleProtocolIndividual i) = deref_id i"
| "rule_id SGRuleOther = Err (Errorf msg_unrecognized_rule_type_returned_from)"

definition createVPCSecurityGroupRule ::
  "clients \<Rightarrow> string \<Rightarrow> string \<Rightarrow> string \<Rightarrow> int \<Rightarrow> int \<Rightarrow> VPCSecurityGroupRuleRemote \<Rightarrow> string scope_proc" where
  "createVPCSecurityGroupRule C securityGroupID direction protocol portMin portMax remote =
     bindE (rule_remote C remote) (\<lambda>remoteOption. do {
       r \<leftarrow> CreateSecurityGroupRule C securityGroupID (rule_prototype direction protocol portMin portMax remoteOption);
       case r of
         Fail e _ \<Rightarrow> fail (Wrapf msg_failed_execute_createsecuritygrouprule_api e)
       | Reply ruleIntf \<Rightarrow> State_Monad.return (rule_id ruleIntf) })"

text \<open>The side of a rule its direction selects, after normalization.\<close>

definition rule_side :: "VPCSecurityGroupRule \<Rightarrow> VPCSecurityGroupRulePrototype option" where
  "rule_side rule = (case VPCSecurityGroupRule_Direction rule of
      VPCSecurityGroupRuleDirectionInbound \<Rightarrow>
        Some (normalizedVPCSecurityGroupRulePrototype (VPCSecurityGroupRule_Source rule))
    | VPCSecurityGroupRuleDirectionOutbound \<Rightarrow>
        Some (normalizedVPCSecurityGroupRulePrototype (VPCSecurityGroupRule_Destination rule))
    | OtherDirection _ \<Rightarrow> None)"

definition create_rule :: "clients \<Rightarrow> string \<Rightarrow> VPCSecurityGroupRule \<Rightarrow> string list \<Rightarrow> string list scope_proc" where
  "create_rule C securityGroupID rule ruleIDs =
     (let direction = direction_string (VPCSecurityGroupRule_Direction rule)
      in case rule_side rule of
           None \<Rightarrow> fail (Errorf msg_invalid_rule_direction_provided)
         | Some side \<Rightarrow>
             (let protocol = protocol_string (VPCSecurityGroupRulePrototype_Protocol side);
                  portMin = VPCSecurityGroupPortRange_MinimumPort (VPCSecurityGroupRulePrototype_PortRange side);
                  portMax = VPCSecurityGroupPortRange_MaximumPort (VPCSecurityGroupRulePrototype_PortRange side);
                  remotes = VPCSecurityGroupRulePrototype_Remotes side
              in if protocol = [] then fail (Errorf msg_security_group_rule_has_empty)
                 else if remotes = [] then fail (Errorf msg_security_group_rule_has_no)
                 else loopM (\<lambda>remote ids.
                   bindW msg_failed_create_vpc_security_group
                     (createVPCSecurityGroupRule C securityGroupID direction protocol portMin portMax remote)
                     (\<lambda>i. ok (ids @ [i]))) remotes ruleIDs))"

definition createVPCSecurityGroupRules :: "clients \<Rightarrow> VPCSecurityGroupRule list \<Rightarrow> string \<Rightarrow> string list scope_proc" where
  "createVPCSecurityGroupRules C rules securityGroupID = loopM (create_rule C securityGroupID) rules []"

definition security_group_name :: "ClusterScope \<Rightarrow> VPCSecurityGroupProvision \<Rightarrow> string option" where
  "security_group_name s prov =
     (let n = VPCSecurityGroupProvision_Name prov
      in if n = [] then ResourceName (InfraCluster s) ResourceTypeSG [] else Some n)"

text \<open>\<open>err.(*vpc.SecurityGroupByNameNotFound)\<close>.\<close>

definition is_sg_not_found :: "gerror \<Rightarrow> bool" where
  "is_sg_not_found e = (case e of SecurityGroupByNameNotFound _ \<Rightarrow> True | _ \<Rightarrow> False)"

definition ensure_security_group :: "clients \<Rightarrow> string \<Rightarrow> SecurityGroup option scope_proc" where
  "ensure_security_group C targetName = do {
     r \<leftarrow> GetSecurityGroupByName C targetName;
     let create = bindE (createVPCSecurityGroup C targetName) (\<lambda>sgID. do {
           q \<leftarrow> GetSecurityGroup C sgID;
           case q of
             Fail e _ \<Rightarrow> fail (Wrapf msg_failed_fetch_newly_created_security e)
           | Reply sg \<Rightarrow> ok sg });
     case r of
       Fail e _ \<Rightarrow> if is_sg_not_found e then create else fail (Wrapf msg_failed_query_vpc_security_group e)
     | Reply None \<Rightarrow> create
     | Reply (Some sg) \<Rightarrow> ok (Some sg) }"

definition reconcileVPCSecurityGroupProvision :: "clients \<Rightarrow> VPCSecurityGroupProvision \<Rightarrow> VPCSecurityGroupStatus scope_proc" where
  "reconcileVPCSecurityGroupProvision C prov = do {
     s \<leftarrow> get_scope;
     deref (security_group_name s prov) (\<lambda>targetName.
       bindE (ensure_security_group C targetName) (\<lambda>found. deref found (\<lambda>sg. deref (sg_ID sg) (\<lambda>sgID.
         bindW msg_failed_create_vpc_security_group2
           (createVPCSecurityGroupRules C (VPCSecurityGroupProvision_Rules prov) sgID) (\<lambda>ruleIDs.
         deref (sg_Name sg) (\<lambda>n.
           ok \<lparr>VPCSecurityGroupStatus_ID = sgID, VPCSecurityGroupStatus_Name = n,
               VPCSecurityGroupStatus_Rules = map (\<lambda>i. \<lparr>VPCSecurityGroupRuleStatus_ID = i\<rparr>) ruleIDs\<rparr>)))))) }"

definition reconcile_security_group ::
  "clients \<Rightarrow> VPCSecurityGroupSource \<Rightarrow> VPCSecurityGroupStatus list \<Rightarrow> VPCSecurityGroupStatus list scope_proc" where
  "reconcile_security_group C sgSource updatedStatus =
     bindW msg_failed_reconcile_security_group
       (case VPCSecurityGroupSource_Type sgSource of
          SourceTypeReference \<Rightarrow> reconcileVPCSecurityGroupReference C (VPCSecurityGroupSource_Reference sgSource)
        | SourceTypeProvision \<Rightarrow> reconcileVPCSecurityGroupProvision C (VPCSecurityGroupSource_Provision sgSource)
        | OtherSourceType _ \<Rightarrow> fail (Errorf msg_unknown_security_group_source_type))
       (\<lambda>sgStatus. ok (updatedStatus @ [sgStatus]))"

definition ReconcileVPCSecurityGroups :: "clients \<Rightarrow> unit scope_proc" where
  "ReconcileVPCSecurityGroups C = do {
     s \<leftarrow> get_scope;
     bindE (loopM (reconcile_security_group C) (Spec_VPCSecurityGroups (spec s)) []) (\<lambda>updatedStatus. do {
       set_status (\<lambda>st. st\<lparr>Status_VPCSecurityGroups := updatedStatus\<rparr>);
       ok () }) }"

definition managed_security_groups :: "ClusterScope \<Rightarrow> string list scope_proc" where
  "managed_security_groups s = loopM (\<lambda>src acc.
     if VPCSecurityGroupSource_Type src = SourceTypeProvision
     then deref (security_group_name s (VPCSecurityGroupSource_Provision src)) (\<lambda>n. ok (n # acc))
     else ok acc) (Spec_VPCSecurityGroups (spec s)) []"

definition delete_security_group :: "clients \<Rightarrow> string list \<Rightarrow> VPCSecurityGroupStatus \<Rightarrow> unit \<Rightarrow> unit scope_proc" where
  "delete_security_group C managedSGs sgStatus _ =
     (if VPCSecurityGroupStatus_Name sgStatus \<notin> set managedSGs then ok ()
      else do {
        r \<leftarrow> GetSecurityGroup C (Some (VPCSecurityGroupStatus_ID sgStatus));
        case r of
          Fail e st \<Rightarrow>
            if st = Some ResourceNotFoundCode then ok ()
            else fail (Wrapf msg_failed_fetch_vpc_security_group e)
        | Reply _ \<Rightarrow> do {
            d \<leftarrow> DeleteSecurityGroup C (VPCSecurityGroupStatus_ID sgStatus);
            case d of
              Fail e _ \<Rightarrow> fail (Wrapf msg_failed_execute_deletesecuritygroup_api e)
            | Reply _ \<Rightarrow> ok ()
          }
      })"

definition DeleteVPCSecurityGroups :: "clients \<Rightarrow> unit scope_proc" where
  "DeleteVPCSecurityGroups C = do {
     s \<leftarrow> get_scope;
     bindE (managed_security_groups s) (\<lambda>managedSGs.
       loopM (delete_security_group C managedSGs) (Status_VPCSecurityGroups (status s)) ()) }"

section \<open>Frames and contracts\<close>

lemmas sg_rule_defs = createVPCSecurityGroupRules_def create_rule_def createVPCSecurityGroupRule_def rule_remote_def

lemmas sg_defs = ReconcileVPCSecurityGroups_def reconcile_security_group_def reconcileVPCSecurityGroupReference_def
  reconcileVPCSecurityGroupProvision_def ensure_security_group_def createVPCSecurityGroup_def

lemmas sg_delete_defs = DeleteVPCSecurityGroups_def managed_security_groups_def delete_security_group_def

lemma keeps_ReconcileVPCSecurityGroups:
  assumes "\<And>s h. p (s\<lparr>trace := h\<rparr>) = p s"
    and "\<And>f s. p (upd_status (\<lambda>st. st\<lparr>Status_VPCSecurityGroups := f st\<rparr>) s) = p s"
  shows "state_io_rel (keeps p) (ReconcileVPCSecurityGroups C)"
  unfolding sg_defs sg_rule_defs by (intro frame_keeps) (simp_all add: assms)

lemma keeps_DeleteVPCSecurityGroups:
  assumes "\<And>s h. p (s\<lparr>trace := h\<rparr>) = p s"
  shows "state_io_rel (keeps p) (DeleteVPCSecurityGroups C)"
  unfolding sg_delete_defs by (intro frame_keeps) (simp_all add: assms)

definition sgs_owned :: "IBMPowerVSClusterSpec \<Rightarrow> bool" where
  "sgs_owned sp \<longleftrightarrow> list_ex (\<lambda>src. VPCSecurityGroupSource_Type src = SourceTypeProvision) (Spec_VPCSecurityGroups sp)"

definition sg_calls :: "IBMPowerVSClusterSpec \<Rightarrow> call \<Rightarrow> bool" where
  "sg_calls sp c \<longleftrightarrow> \<not> deletes c \<and> (creates c \<longrightarrow> sgs_owned sp \<and>
     ((\<exists>x. c = VPCC (CreateSecurityGroup_call x)) \<or> (\<exists>g x. c = VPCC (CreateSecurityGroupRule_call g x))))"

definition sg_delete_calls :: "IBMPowerVSClusterSpec \<Rightarrow> call \<Rightarrow> bool" where
  "sg_delete_calls sp c \<longleftrightarrow> \<not> creates c \<and> (deletes c \<longrightarrow> sgs_owned sp \<and> (\<exists>x. c = VPCC (DeleteSecurityGroup_call x)))"

text \<open>The rules that may be asked for: a real protocol, and ports only for TCP and UDP.\<close>

definition sane_rule :: "SecurityGroupRulePrototype \<Rightarrow> bool" where
  "sane_rule r \<longleftrightarrow> srp_Protocol r \<noteq> [] \<and> (srp_PortMin r = None) = (srp_PortMax r = None) \<and>
     (case srp_PortMin r of None \<Rightarrow> True | Some p \<Rightarrow> 0 < p \<and> (srp_Protocol r = ''tcp'' \<or> srp_Protocol r = ''udp''))"

lemma sane_rule_prototype: "protocol \<noteq> [] \<Longrightarrow> sane_rule (rule_prototype d protocol mn mx rem)"
  by (simp add: sane_rule_def rule_prototype_def Let_def)

lemma within_createVPCSecurityGroupRules:
  assumes "\<And>x. sane_rule x \<Longrightarrow> A (VPCC (CreateSecurityGroupRule_call g x))"
    and "\<And>c. \<not> creates c \<Longrightarrow> \<not> deletes c \<Longrightarrow> A c" and "\<And>s h. p (s\<lparr>trace := h\<rparr>) = p s" and "within p A s0 s"
  shows "wp (createVPCSecurityGroupRules C rules g) (\<lambda>_ t. within p A s0 t) s"
  unfolding sg_rule_defs by (intro within_rules) (simp_all add: assms sane_rule_prototype)

lemma within_reconcile_security_group:
  assumes "\<And>g x. VPCSecurityGroupSource_Type src = SourceTypeProvision \<Longrightarrow> sane_rule x \<Longrightarrow> A (VPCC (CreateSecurityGroupRule_call g x))"
    and "\<And>x. VPCSecurityGroupSource_Type src = SourceTypeProvision \<Longrightarrow> A (VPCC (CreateSecurityGroup_call x))"
    and "\<And>c. \<not> creates c \<Longrightarrow> \<not> deletes c \<Longrightarrow> A c" and "within (\<lambda>_. ()) A s0 s"
  shows "wp (reconcile_security_group C src acc) (\<lambda>_ t. within (\<lambda>_. ()) A s0 t) s"
  unfolding reconcile_security_group_def reconcileVPCSecurityGroupReference_def
    reconcileVPCSecurityGroupProvision_def ensure_security_group_def createVPCSecurityGroup_def
  by (intro within_createVPCSecurityGroupRules within_rules) (simp_all add: assms)

lemma within_ReconcileVPCSecurityGroups:
  assumes "\<And>g x. sgs_owned (spec s) \<Longrightarrow> sane_rule x \<Longrightarrow> A (VPCC (CreateSecurityGroupRule_call g x))"
    and "\<And>x. sgs_owned (spec s) \<Longrightarrow> A (VPCC (CreateSecurityGroup_call x))"
    and "\<And>c. \<not> creates c \<Longrightarrow> \<not> deletes c \<Longrightarrow> A c"
  shows "wp (ReconcileVPCSecurityGroups C) (\<lambda>_ t. within (\<lambda>_. ()) A s t) s"
  unfolding ReconcileVPCSecurityGroups_def
  by (rule within_start, intro within_reconcile_security_group within_rules)
     (use assms in \<open>auto simp: sgs_owned_def list_ex_iff\<close>)

interpretation sg_step: scope_contract "ReconcileVPCSecurityGroups C" sg_calls for C
proof unfold_locales
  fix s
  show "wp (ReconcileVPCSecurityGroups C) (\<lambda>_ t. within (\<lambda>_. ()) (sg_calls (spec s)) s t) s"
    by (rule within_ReconcileVPCSecurityGroups) (simp_all add: sg_calls_def)
qed

text \<open>The names under which the controller created security groups.\<close>

definition managed_sg :: "ClusterScope \<Rightarrow> string \<Rightarrow> bool" where
  "managed_sg s n \<longleftrightarrow> (\<exists>src. src \<in> set (Spec_VPCSecurityGroups (spec s)) \<and>
     VPCSecurityGroupSource_Type src = SourceTypeProvision \<and>
     security_group_name s (VPCSecurityGroupSource_Provision src) = Some n)"

lemma managed_security_groups_names:
  "wp (managed_security_groups s) (\<lambda>r t. t = u \<and> (\<forall>x. r = Ok x \<longrightarrow> list_all (managed_sg s) x)) u"
  unfolding managed_security_groups_def
  by (rule wp_loopM [where I = "\<lambda>x t. t = u \<and> list_all (managed_sg s) x" and E = "\<lambda>_ t. t = u"])
     (auto simp: wp_simps managed_sg_def list_all_iff)

lemma within_DeleteVPCSecurityGroups:
  assumes "\<And>st. st \<in> set (Status_VPCSecurityGroups (status s)) \<Longrightarrow> managed_sg s (VPCSecurityGroupStatus_Name st) \<Longrightarrow>
      A (VPCC (DeleteSecurityGroup_call (VPCSecurityGroupStatus_ID st)))"
    and "\<And>c. \<not> creates c \<Longrightarrow> \<not> deletes c \<Longrightarrow> A c"
  shows "wp (DeleteVPCSecurityGroups C) (\<lambda>_ t. within (\<lambda>_. ()) A s t) s"
  unfolding DeleteVPCSecurityGroups_def
proof (rule within_start, rule within.fw_get)
  show "wp (attempt (managed_security_groups s) fail (\<lambda>managedSGs.
       loopM (delete_security_group C managedSGs) (Status_VPCSecurityGroups (status s)) ())) (\<lambda>_ t. within (\<lambda>_. ()) A s t) s"
  proof (rule within.fw_attempt_where [where P = "list_all (managed_sg s)"])
    show "wp (managed_security_groups s) (\<lambda>r t. within (\<lambda>_. ()) A s t \<and> (\<forall>x. r = Ok x \<longrightarrow> list_all (managed_sg s) x)) s"
      by (rule wp_mono [OF managed_security_groups_names]) (simp add: within.R_refl)
    show "wp (loopM (delete_security_group C x) (Status_VPCSecurityGroups (status s)) ()) (\<lambda>_ t. within (\<lambda>_. ()) A s t) u"
      if "within (\<lambda>_. ()) A s u" "list_all (managed_sg s) x" for x u
      unfolding delete_security_group_def using that
      by (intro within_rules) (auto simp: list_all_iff intro: assms)
  qed (rule within.fw_return)
qed

interpretation sg_delete: scope_contract "DeleteVPCSecurityGroups C" sg_delete_calls for C
proof unfold_locales
  fix s
  show "wp (DeleteVPCSecurityGroups C) (\<lambda>_ t. within (\<lambda>_. ()) (sg_delete_calls (spec s)) s t) s"
    by (rule within_DeleteVPCSecurityGroups) (auto simp: sg_delete_calls_def managed_sg_def sgs_owned_def list_ex_iff)
qed

section \<open>Properties\<close>

text \<open>
  what a reconcile of the security groups creates: groups and rules, only if the spec has a
  group to be provisioned, and only rules the cloud can make sense of: the protocol is never
  empty, and a port range, with a positive lower end, is sent only for TCP and UDP. Nothing is
  deleted.
\<close>

theorem ReconcileVPCSecurityGroups_create_guard:
  assumes "run_state (ReconcileVPCSecurityGroups C) s = (r, t)"
    and "c \<in> set (new_calls s t)" and "creates c \<or> deletes c"
  shows "sgs_owned (spec s) \<and>
    ((\<exists>x. c = VPCC (CreateSecurityGroup_call x)) \<or> (\<exists>g x. c = VPCC (CreateSecurityGroupRule_call g x) \<and> sane_rule x))"
    (is "?P c")
proof -
  have "wp (ReconcileVPCSecurityGroups C) (\<lambda>_ t. within (\<lambda>_. ()) (\<lambda>c. creates c \<or> deletes c \<longrightarrow> ?P c) s t) s"
    by (rule within_ReconcileVPCSecurityGroups) auto
  from within_new_calls [OF this assms(1,2)] assms(3) show ?thesis by blast
qed

theorem ReconcileVPCSecurityGroups_create_guard_witness:
  "\<exists>g x. VPCC (CreateSecurityGroupRule_call g x) \<in> set (new_calls settled (snd (run_state (ReconcileVPCSecurityGroups example_cloud) settled))) \<and> sane_rule x"
proof -
  define rule where "rule = rule_prototype ''inbound'' ''tcp'' 443 443 \<lparr>rrp_CIDRBlock = Some ''0.0.0.0/0'', rrp_Address = None, rrp_CRN = None\<rparr>"
  have made: "VPCC (CreateSecurityGroupRule_call ''sg'' rule)
      \<in> set (new_calls settled (snd (run_state (ReconcileVPCSecurityGroups example_cloud) settled)))"
    unfolding rule_def by code_simp
  show ?thesis using made ReconcileVPCSecurityGroups_create_guard [OF surjective_pairing made] by auto
qed

text \<open>
  Deletion touches only groups that are recorded in the status under a name the controller
  gives to a group of the spec that is to be provisioned: a referenced group is never deleted
  unless it carries such a name.
\<close>

theorem DeleteVPCSecurityGroups_owned:
  "wp (DeleteVPCSecurityGroups C) (\<lambda>_ t.
     set (filter deletes (new_calls s t)) \<subseteq>
       {c. \<exists>st. st \<in> set (Status_VPCSecurityGroups (status s)) \<and> managed_sg s (VPCSecurityGroupStatus_Name st) \<and>
               c = VPCC (DeleteSecurityGroup_call (VPCSecurityGroupStatus_ID st))}) s"
proof -
  have "wp (DeleteVPCSecurityGroups C) (\<lambda>_ t. within (\<lambda>_. ()) (\<lambda>c. deletes c \<longrightarrow>
       (\<exists>st. st \<in> set (Status_VPCSecurityGroups (status s)) \<and> managed_sg s (VPCSecurityGroupStatus_Name st) \<and>
               c = VPCC (DeleteSecurityGroup_call (VPCSecurityGroupStatus_ID st)))) s t) s"
    by (rule within_DeleteVPCSecurityGroups) auto
  then show ?thesis
    by (rule wp_mono) (auto simp: within_def dest!: calls_in_new simp: list_all_iff)
qed

text \<open>The number of rules the cloud is asked for: one per remote of the side the direction selects.\<close>

definition rule_remotes :: "VPCSecurityGroupRule \<Rightarrow> nat" where
  "rule_remotes rule = (case rule_side rule of None \<Rightarrow> 0 | Some side \<Rightarrow> length (VPCSecurityGroupRulePrototype_Remotes side))"

abbreviation created :: "ClusterScope \<Rightarrow> ClusterScope \<Rightarrow> nat \<Rightarrow> bool" where
  "created s t n \<equiv> (\<exists>cs. trace t = trace s @ cs \<and> length (filter creates cs) = n) \<and> status t = status s"

lemma createVPCSecurityGroupRule_created:
  assumes "created s u n"
  shows "wp (createVPCSecurityGroupRule C g d pr mn mx rem) (\<lambda>r t. \<forall>i. r = Ok i \<longrightarrow> created s t (Suc n)) u"
  using assms unfolding createVPCSecurityGroupRule_def rule_remote_def
  by (simp only: wp_simps) auto

lemma create_rule_created:
  assumes "created s u n"
  shows "wp (create_rule C g rule ids) (\<lambda>r t. \<forall>ids'. r = Ok ids' \<longrightarrow>
     created s t (n + rule_remotes rule) \<and> length ids' = length ids + rule_remotes rule) u"
proof -
  have "wp (loopM (\<lambda>remote ids. attempt (createVPCSecurityGroupRule C g d pr mn mx remote) h (\<lambda>i. ok (ids @ [i]))) rs ids)
      (\<lambda>r t. \<forall>ids'. r = Ok ids' \<longrightarrow> created s t (n + length rs) \<and> length ids' = length ids + length rs) u"
    if h: "\<And>e t. wp (h e) (\<lambda>r _. \<forall>x. r \<noteq> Ok x) t" for d pr mn mx rs and h :: "gerror \<Rightarrow> string list scope_proc"
  proof (rule wp_loopM_done [where I = "\<lambda>ys b t. created s t (n + length ys) \<and> length b = length ids + length ys"])
    show "wp (attempt (createVPCSecurityGroupRule C g d pr mn mx x) h (\<lambda>i. ok (b @ [i])))
       (\<lambda>r t'. (\<forall>b'. r = Ok b' \<longrightarrow> created s t' (n + length (ys @ [x])) \<and> length b' = length ids + length (ys @ [x])) \<and>
          ((\<forall>b'. r \<noteq> Ok b') \<longrightarrow> (\<forall>ids'. r = Ok ids' \<longrightarrow> created s t' (n + length rs) \<and> length ids' = length ids + length rs))) t"
      if "created s t (n + length ys) \<and> length b = length ids + length ys" for ys x b t
      unfolding wp_attempt
      by (rule wp_mono [OF createVPCSecurityGroupRule_created [where s = s and u = t and n = "n + length ys"]])
         (use that in \<open>auto simp: wp_return intro: wp_mono [OF h]\<close>)
  qed (use assms in auto)
  then show ?thesis
    unfolding create_rule_def
    by (simp only: wp_simps) (auto simp: rule_remotes_def wp_return)
qed

lemma createVPCSecurityGroupRules_created:
  "wp (createVPCSecurityGroupRules C rules g) (\<lambda>r t. \<forall>ids. r = Ok ids \<longrightarrow>
     created s t (sum_list (map rule_remotes rules)) \<and> length ids = sum_list (map rule_remotes rules)) s"
  unfolding createVPCSecurityGroupRules_def
proof (rule wp_loopM_done [where I = "\<lambda>ys ids t. created s t (sum_list (map rule_remotes ys)) \<and>
    length ids = sum_list (map rule_remotes ys)"])
  show "wp (create_rule C g x ids) (\<lambda>r t'. (\<forall>b'. r = Ok b' \<longrightarrow> created s t' (sum_list (map rule_remotes (ys @ [x]))) \<and>
        length b' = sum_list (map rule_remotes (ys @ [x]))) \<and>
     ((\<forall>b'. r \<noteq> Ok b') \<longrightarrow> (\<forall>ids. r = Ok ids \<longrightarrow>
        created s t' (sum_list (map rule_remotes rules)) \<and> length ids = sum_list (map rule_remotes rules)))) t"
    if "created s t (sum_list (map rule_remotes ys)) \<and> length ids = sum_list (map rule_remotes ys)" for ys x ids t
    by (rule wp_mono [OF create_rule_created [where s = s and u = t and n = "sum_list (map rule_remotes ys)"]]) (use that in auto)
qed auto

text \<open>
  reconciling a provisioned security group is not idempotent. Also when the group exists
  already and its rules were created and recorded before, every successful reconcile asks the
  cloud for all rules of the spec once more, one per remote, and records as many rule IDs.
\<close>

theorem ReconcileVPCSecurityGroups_rules_recreated:
  assumes "Spec_VPCSecurityGroups (spec s) = [src]" and "VPCSecurityGroupSource_Type src = SourceTypeProvision"
    and "security_group_name s (VPCSecurityGroupSource_Provision src) = Some n"
    and "on_GetSecurityGroupByName (IBMVPCClient C) (trace s) n = Reply (Some sg)"
    and "run_state (ReconcileVPCSecurityGroups C) s = (Ok (), t)"
  shows "length (filter creates (new_calls s t)) =
      sum_list (map rule_remotes (VPCSecurityGroupProvision_Rules (VPCSecurityGroupSource_Provision src))) \<and>
    (\<exists>st. Status_VPCSecurityGroups (status t) = [st] \<and>
      length (VPCSecurityGroupStatus_Rules st) = length (filter creates (new_calls s t)))"
proof -
  let ?rules = "VPCSecurityGroupProvision_Rules (VPCSecurityGroupSource_Provision src)"
  let ?u = "s\<lparr>trace := trace s @ [VPCC (GetSecurityGroupByName_call n)]\<rparr>"
  have "wp (ReconcileVPCSecurityGroups C) (\<lambda>r t. r = Ok () \<longrightarrow>
      length (filter creates (new_calls s t)) = sum_list (map rule_remotes ?rules) \<and>
      (\<exists>st. Status_VPCSecurityGroups (status t) = [st] \<and>
        length (VPCSecurityGroupStatus_Rules st) = length (filter creates (new_calls s t)))) s"
    unfolding ReconcileVPCSecurityGroups_def reconcile_security_group_def reconcileVPCSecurityGroupProvision_def
      ensure_security_group_def
    by (simp add: wp_simps assms(1-4))
       (auto intro!: wp_mono [OF createVPCSecurityGroupRules_created [of C ?rules _ ?u]] simp: wp_simps new_calls_def)
  from wpD [OF this assms(5)] show ?thesis by blast
qed

theorem ReconcileVPCSecurityGroups_rules_recreated_witness:
  "length (filter creates (new_calls settled (snd (run_state (ReconcileVPCSecurityGroups pending_cloud) settled)))) = 1"
proof -
  have "fst (run_state (ReconcileVPCSecurityGroups pending_cloud) settled) = Ok ()" by code_simp
  then have run: "run_state (ReconcileVPCSecurityGroups pending_cloud) settled =
      (Ok (), snd (run_state (ReconcileVPCSecurityGroups pending_cloud) settled))" by (metis prod.collapse)
  have "length (filter creates (new_calls settled (snd (run_state (ReconcileVPCSecurityGroups pending_cloud) settled)))) =
      sum_list (map rule_remotes (VPCSecurityGroupProvision_Rules (VPCSecurityGroupSource_Provision https_group)))"
    by (rule ReconcileVPCSecurityGroups_rules_recreated
          [where src = https_group and n = "''web''" and sg = "cloud_sg ''web''", OF _ _ _ _ run, THEN conjunct1]) code_simp+
  also have "\<dots> = 1" by code_simp
  finally show ?thesis .
qed

end
