(* ===== verification/Cos.thy ===== *)
theory Cos
  imports Example_Cluster
begin

text \<open>
  The Cloud Object Storage instance of a cluster, its bucket and its HMAC credential
  (\<^verbatim>\<open>powervs_cluster.go\<close>: \<open>ReconcileCOSInstance\<close> and what it calls, \<open>DeleteCOSInstance\<close>). The
  empty string as source type means that the user configured no instance.
\<close>

section \<open>Error texts\<close>

definition msg_failed_fetch_cos_instance_details :: string where "msg_failed_fetch_cos_instance_details = ''failed to fetch COS instance details''"
definition msg_cos_instance_not_found_cloud :: string where "msg_cos_instance_not_found_cloud = ''COS instance not found in cloud with ID''"
definition msg_cos_instance_state_nil :: string where "msg_cos_instance_state_nil = ''COS instance state is nil''"
definition msg_cos_instance_not_active_current :: string where "msg_cos_instance_not_active_current = ''COS instance is not active, current state''"
definition msg_cos_instance_has_no_crn :: string where "msg_cos_instance_has_no_crn = ''COS instance has no CRN; cannot create HMAC credential''"
definition msg_cos_instance_name_nil_id :: string where "msg_cos_instance_name_nil_id = ''COS instance name is nil for ID''"
definition msg_failed_fetching_referenced_cos_instance :: string where "msg_failed_fetching_referenced_cos_instance = ''failed fetching referenced COS instance by ID''"
definition msg_referenced_cos_instance_id_not :: string where "msg_referenced_cos_instance_id_not = ''referenced COS instance ID not found''"
definition msg_failed_fetching_referenced_cos_instance2 :: string where "msg_failed_fetching_referenced_cos_instance2 = ''failed fetching referenced COS instance by Name''"
definition msg_referenced_cos_instance_name_not :: string where "msg_referenced_cos_instance_name_not = ''referenced COS instance Name not found''"
definition msg_cos_reference_must_have_either :: string where "msg_cos_reference_must_have_either = ''COS reference must have either ID or Name set''"
definition msg_failed_checking_existing_cos_instance :: string where "msg_failed_checking_existing_cos_instance = ''failed checking for existing COS instance''"
definition msg_resource_group_id_empty_cos :: string where "msg_resource_group_id_empty_cos = ''resource group ID is empty for the COS instance''"
definition msg_failed_creating_cos_instance_via :: string where "msg_failed_creating_cos_instance_via = ''failed creating COS instance via API''"
definition msg_failed_resolve_cos_instance :: string where "msg_failed_resolve_cos_instance = ''failed to resolve COS instance''"
definition msg_cos_instance_resolved_nil :: string where "msg_cos_instance_resolved_nil = ''COS instance resolved to nil''"
definition msg_cos_instance_guid_nil :: string where "msg_cos_instance_guid_nil = ''COS instance GUID is nil''"
definition msg_cos_instance_not_yet_active :: string where "msg_cos_instance_not_yet_active = ''COS instance is not yet active, current state''"
definition msg_cos_instance_name_nil :: string where "msg_cos_instance_name_nil = ''COS instance name is nil''"
definition msg_unknown_cos_instance_source_type :: string where "msg_unknown_cos_instance_source_type = ''unknown COS instance source type''"
definition msg_failed_determine_cos_bucket_region :: string where "msg_failed_determine_cos_bucket_region = ''failed to determine COS bucket region: both bucket region and VPC region are unset''"
definition msg_clientbuilder_not_set_cannot_create :: string where "msg_clientbuilder_not_set_cannot_create = ''ClientBuilder is not set; cannot create COS client''"
definition msg_failed_create_cos_client :: string where "msg_failed_create_cos_client = ''failed to create COS client''"
definition msg_failed_check_if_cos_bucket :: string where "msg_failed_check_if_cos_bucket = ''failed to check if COS bucket exists''"
definition msg_bucket_name_already_taken_global :: string where "msg_bucket_name_already_taken_global = ''bucket name is already taken in the global IBM COS namespace by a different instance''"
definition msg_failed_execute_createbucket_api :: string where "msg_failed_execute_createbucket_api = ''failed to execute CreateBucket API''"
definition msg_unexpected_error_checking_bucket_presence :: string where "msg_unexpected_error_checking_bucket_presence = ''unexpected error checking bucket presence''"
definition msg_failed_create_cos_hmac_resource :: string where "msg_failed_create_cos_hmac_resource = ''failed to create COS HMAC resource key''"
definition msg_cos_hmac_key_created_but :: string where "msg_cos_hmac_key_created_but = ''COS HMAC key created but cos_hmac_keys property is missing in response''"
definition msg_cos_hmac_key_cos_hmac :: string where "msg_cos_hmac_key_cos_hmac = ''COS HMAC key cos_hmac_keys has unexpected type''"
definition msg_cos_hmac_key_missing_access :: string where "msg_cos_hmac_key_missing_access = ''COS HMAC key is missing access_key_id or secret_access_key''"
definition msg_failed_store_cos_hmac_secret :: string where "msg_failed_store_cos_hmac_secret = ''failed to store COS HMAC Secret''"
definition msg_failed_configure_cos_client :: string where "msg_failed_configure_cos_client = ''failed to configure COS client''"
definition msg_failed_reconcile_cos_bucket :: string where "msg_failed_reconcile_cos_bucket = ''failed to reconcile COS bucket''"
definition msg_failed_reconcile_cos_hmac_key :: string where "msg_failed_reconcile_cos_hmac_key = ''failed to reconcile COS HMAC key''"
definition msg_failed_fetch_cos_service_instance :: string where "msg_failed_fetch_cos_service_instance = ''failed to fetch COS service instance during deletion''"
definition msg_failed_execute_deleteresourceinstance_api :: string where "msg_failed_execute_deleteresourceinstance_api = ''failed to execute DeleteResourceInstance API''"

section \<open>Operations\<close>

definition CosResourceID :: string where "CosResourceID = ''dff97f5c-bc5e-4455-b470-411c3edbe49c''"
definition CosResourcePlanID :: string where "CosResourcePlanID = ''1e4e33e4-cfa6-4f12-9016-be594a6d5f87''"

text \<open>Error codes of the S3 interface.\<close>

definition ErrCodeNoSuchBucket :: string where "ErrCodeNoSuchBucket = ''NoSuchBucket''"
definition ErrCodeBucketAlreadyOwnedByYou :: string where "ErrCodeBucketAlreadyOwnedByYou = ''BucketAlreadyOwnedByYou''"
definition ErrCodeBucketAlreadyExists :: string where "ErrCodeBucketAlreadyExists = ''BucketAlreadyExists''"
definition ErrCodeForbidden :: string where "ErrCodeForbidden = ''Forbidden''"
definition ErrCodeNotFound :: string where "ErrCodeNotFound = ''NotFound''"

definition StatePendingReclamation :: string where "StatePendingReclamation = ''pending_reclamation''"

abbreviation cos_spec :: "ClusterScope \<Rightarrow> COSInstanceSource" where
  "cos_spec s \<equiv> Spec_COSInstance (spec s)"

abbreviation cos_status :: "ClusterScope \<Rightarrow> COSInstanceStatus" where
  "cos_status s \<equiv> Status_COSInstance (status s)"

definition upd_cos :: "(COSInstanceStatus \<Rightarrow> COSInstanceStatus) \<Rightarrow> (ClusterScope, unit) state" where
  "upd_cos f = set_status (\<lambda>st. st\<lparr>Status_COSInstance := f (Status_COSInstance st)\<rparr>)"

definition verifyCOSInstanceByID :: "clients \<Rightarrow> string \<Rightarrow> (string \<times> string \<times> string) scope_proc" where
  "verifyCOSInstanceByID C i = do {
     r \<leftarrow> GetResourceInstance C i;
     case r of
       Fail e _ \<Rightarrow> fail (Wrapf msg_failed_fetch_cos_instance_details e)
     | Reply None \<Rightarrow> fail (Errorf msg_cos_instance_not_found_cloud)
     | Reply (Some instance) \<Rightarrow>
         (case ri_State instance of
            None \<Rightarrow> fail (Errorf msg_cos_instance_state_nil)
          | Some st \<Rightarrow>
              if st \<noteq> WorkspaceStateActive then fail (Errorf msg_cos_instance_not_active_current)
              else case ri_CRN instance of
                  None \<Rightarrow> fail (Errorf msg_cos_instance_has_no_crn)
                | Some crn \<Rightarrow>
                    if crn = [] then fail (Errorf msg_cos_instance_has_no_crn)
                    else case ri_Name instance of
                        None \<Rightarrow> fail (Errorf msg_cos_instance_name_nil_id)
                      | Some n \<Rightarrow> ok (i, n, crn)) }"

definition cos_filter :: "string \<Rightarrow> InstanceFilter" where
  "cos_filter name =
     \<lparr>filter_ID = [], filter_Name = name, filter_ResourceID = CosResourceID,
      filter_ResourcePlanID = CosResourcePlanID, filter_Zone = None\<rparr>"

definition reconcileCOSReference :: "clients \<Rightarrow> ResourceIdentifier \<Rightarrow> ResourceInstance option scope_proc" where
  "reconcileCOSReference C ref =
     (if ResourceIdentifier_ID ref \<noteq> [] then do {
        r \<leftarrow> GetResourceInstance C (ResourceIdentifier_ID ref);
        case r of
          Fail e _ \<Rightarrow> fail (Wrapf msg_failed_fetching_referenced_cos_instance e)
        | Reply None \<Rightarrow> fail (Errorf msg_referenced_cos_instance_id_not)
        | Reply (Some i) \<Rightarrow> ok (Some i)
      }
      else if ResourceIdentifier_Name ref \<noteq> [] then do {
        r \<leftarrow> GetResourceInstanceByFilter C (cos_filter (ResourceIdentifier_Name ref));
        case r of
          Fail e _ \<Rightarrow> fail (Wrapf msg_failed_fetching_referenced_cos_instance2 e)
        | Reply None \<Rightarrow> fail (Errorf msg_referenced_cos_instance_name_not)
        | Reply (Some i) \<Rightarrow> ok (Some i)
      }
      else fail (Errorf msg_cos_reference_must_have_either))"

definition cos_request :: "ClusterScope \<Rightarrow> string \<Rightarrow> CreateResourceInstanceOptions" where
  "cos_request s name =
     \<lparr>cri_Name = name, cri_Target = ''Global'', cri_ResourceGroup = GetResourceGroupID s,
      cri_ResourcePlanID = CosResourcePlanID\<rparr>"

definition reconcileCOSProvision :: "clients \<Rightarrow> string \<Rightarrow> ResourceInstance option scope_proc" where
  "reconcileCOSProvision C name = do {
     s \<leftarrow> get_scope;
     r \<leftarrow> GetResourceInstanceByFilter C (cos_filter name);
     case r of
       Fail e _ \<Rightarrow> fail (Wrapf msg_failed_checking_existing_cos_instance e)
     | Reply (Some instance) \<Rightarrow> deref (ri_GUID instance) (\<lambda>_. ok (Some instance))
     | Reply None \<Rightarrow>
         if GetResourceGroupID s = [] then fail (Errorf msg_resource_group_id_empty_cos)
         else do {
           q \<leftarrow> CreateResourceInstance C (cos_request s name);
           case q of
             Fail e _ \<Rightarrow> fail (Wrapf msg_failed_creating_cos_instance_via e)
           | Reply i \<Rightarrow> ok i
         } }"

definition cos_name :: "ClusterScope \<Rightarrow> string option" where
  "cos_name s =
     (let n = COSInstanceProvision_Name (COSInstanceSource_Provision (cos_spec s))
      in if n = [] then ResourceName (InfraCluster s) ResourceTypeCOS [] else Some n)"

definition resolveCOSInstanceFromSpec :: "clients \<Rightarrow> (string \<times> string \<times> string) scope_proc" where
  "resolveCOSInstanceFromSpec C = do {
     s \<leftarrow> get_scope;
     let resolve = (\<lambda>m. bindW msg_failed_resolve_cos_instance m (\<lambda>found.
       case found of
         None \<Rightarrow> fail (Errorf msg_cos_instance_resolved_nil)
       | Some instance \<Rightarrow>
           (case ri_GUID instance of
              None \<Rightarrow> fail (Errorf msg_cos_instance_guid_nil)
            | Some g \<Rightarrow>
                if ri_State instance \<noteq> Some WorkspaceStateActive then do {
                  upd_cos (\<lambda>c. c\<lparr>COSInstanceStatus_ID := g,
                    COSInstanceStatus_Name := (case ri_Name instance of Some n \<Rightarrow> n | None \<Rightarrow> COSInstanceStatus_Name c)\<rparr>);
                  fail (Errorf msg_cos_instance_not_yet_active) }
                else case ri_CRN instance of
                    None \<Rightarrow> fail (Errorf msg_cos_instance_has_no_crn)
                  | Some crn \<Rightarrow>
                      if crn = [] then fail (Errorf msg_cos_instance_has_no_crn)
                      else case ri_Name instance of
                          None \<Rightarrow> fail (Errorf msg_cos_instance_name_nil)
                        | Some n \<Rightarrow> ok (g, n, crn))));
     case COSInstanceSource_Type (cos_spec s) of
       SourceTypeReference \<Rightarrow> resolve (reconcileCOSReference C (COSInstanceSource_Reference (cos_spec s)))
     | SourceTypeProvision \<Rightarrow> deref (cos_name s) (\<lambda>name. resolve (reconcileCOSProvision C name))
     | OtherSourceType _ \<Rightarrow> fail (Errorf msg_unknown_cos_instance_source_type) }"

definition resolveCOSInstance :: "clients \<Rightarrow> (string \<times> string \<times> string) scope_proc" where
  "resolveCOSInstance C = do {
     s \<leftarrow> get_scope;
     if COSInstanceStatus_ID (cos_status s) \<noteq> [] then verifyCOSInstanceByID C (COSInstanceStatus_ID (cos_status s))
     else resolveCOSInstanceFromSpec C }"

definition resolveCOSBucketParams :: "(string \<times> string) scope_proc" where
  "resolveCOSBucketParams = do {
     s \<leftarrow> get_scope;
     let statusName = COSInstanceStatus_BucketName (cos_status s);
     let specName = COSInstanceSource_BucketName (cos_spec s);
     let statusRegion = COSInstanceStatus_BucketRegion (cos_status s);
     let specRegion = COSInstanceSource_BucketRegion (cos_spec s);
     let vpcRegion = VPCStatus_Region (Status_VPC (status s));
     deref (if statusName \<noteq> [] then Some statusName
            else if specName \<noteq> [] then Some specName
            else ResourceName (InfraCluster s) ResourceTypeCOSBucket []) (\<lambda>bucketName.
       if statusRegion \<noteq> [] then ok (bucketName, statusRegion)
       else if specRegion \<noteq> [] then ok (bucketName, specRegion)
       else if vpcRegion \<noteq> [] then ok (bucketName, vpcRegion)
       else fail (Errorf msg_failed_determine_cos_bucket_region)) }"

definition set_COSClient :: "(ClusterScope, unit) state" where
  "set_COSClient = modify (\<lambda>s. s\<lparr>scope_COSClient := True\<rparr>)"

definition setupCOSClient :: "clients \<Rightarrow> string \<Rightarrow> string \<Rightarrow> unit scope_proc" where
  "setupCOSClient C instanceID bucketRegion = do {
     s \<leftarrow> get_scope;
     if scope_COSClient s then ok ()
     else if \<not> scope_ClientBuilder s then fail (Errorf msg_clientbuilder_not_set_cannot_create)
     else do {
       r \<leftarrow> GetCOSClient C instanceID bucketRegion;
       case r of
         Fail e _ \<Rightarrow> fail (Wrapf msg_failed_create_cos_client e)
       | Reply _ \<Rightarrow> do { set_COSClient; ok () }
     } }"

text \<open>\<open>err.(awserr.Error)\<close> and its code.\<close>

definition aws_code :: "gerror \<Rightarrow> string option" where
  "aws_code e = (case e of AwsErr c \<Rightarrow> Some c | _ \<Rightarrow> None)"

definition reconcileCOSBucket :: "clients \<Rightarrow> string \<Rightarrow> unit scope_proc" where
  "reconcileCOSBucket C bucketName = do {
     r \<leftarrow> GetBucketByName C bucketName;
     case r of
       Reply _ \<Rightarrow> ok ()
     | Fail e _ \<Rightarrow>
         (case aws_code e of
            None \<Rightarrow> fail (Wrapf msg_failed_check_if_cos_bucket e)
          | Some code \<Rightarrow>
              if code \<in> {ErrCodeNoSuchBucket, ErrCodeForbidden, ErrCodeNotFound} then do {
                q \<leftarrow> CreateBucket C bucketName;
                case q of
                  Reply _ \<Rightarrow> ok ()
                | Fail e _ \<Rightarrow>
                    if aws_code e = Some ErrCodeBucketAlreadyOwnedByYou then ok ()
                    else if aws_code e = Some ErrCodeBucketAlreadyExists
                    then fail (Wrapf msg_bucket_name_already_taken_global e)
                    else fail (Wrapf msg_failed_execute_createbucket_api e)
              }
              else fail (Wrapf msg_unexpected_error_checking_bucket_presence e)) }"

definition create_hmac_key :: "clients \<Rightarrow> string \<Rightarrow> string \<Rightarrow> unit scope_proc" where
  "create_hmac_key C secretName instanceCRN = do {
     s \<leftarrow> get_scope;
     r \<leftarrow> CreateResourceKey C \<lparr>crk_Name = secretName, crk_Source = instanceCRN, crk_HMAC = True\<rparr>;
     case r of
       Fail e _ \<Rightarrow> fail (Wrapf msg_failed_create_cos_hmac_resource e)
     | Reply p \<Rightarrow> deref p (\<lambda>resourceKey. deref (rk_Credentials resourceKey) (\<lambda>hmacRaw.
         case hmacRaw of
           HmacNil \<Rightarrow> fail (Errorf msg_cos_hmac_key_created_but)
         | HmacOtherType \<Rightarrow> fail (Errorf msg_cos_hmac_key_cos_hmac)
         | HmacMap access secret \<Rightarrow>
             if ptr_Deref access [] = [] \<or> ptr_Deref secret [] = []
             then fail (Errorf msg_cos_hmac_key_missing_access)
             else do {
               q \<leftarrow> CreateSecret C
                     \<lparr>secret_Name = secretName, secret_Namespace = Cluster_Namespace (scope_cluster s),
                      secret_OwnerName = Cluster_Name (scope_cluster s), secret_OwnerUID = Cluster_UID (scope_cluster s),
                      secret_AccessKeyID = ptr_Deref access [], secret_SecretAccessKey = ptr_Deref secret []\<rparr>;
               case q of
                 Fail e _ \<Rightarrow> fail (Wrapf msg_failed_store_cos_hmac_secret e)
               | Reply _ \<Rightarrow> do {
                   upd_cos (\<lambda>c. c\<lparr>COSInstanceStatus_HMACSecretName := secretName\<rparr>);
                   ok () }
             })) }"

definition reconcileCOSHMACKey :: "clients \<Rightarrow> string \<Rightarrow> unit scope_proc" where
  "reconcileCOSHMACKey C instanceCRN = do {
     s \<leftarrow> get_scope;
     deref (ResourceName (InfraCluster s) ResourceTypeCOSHMACKey []) (\<lambda>secretName.
       if COSInstanceStatus_HMACSecretName (cos_status s) \<noteq> [] then do {
         r \<leftarrow> GetSecret C (Cluster_Namespace (scope_cluster s)) (COSInstanceStatus_HMACSecretName (cos_status s));
         case r of
           Reply _ \<Rightarrow> ok ()
         | Fail _ _ \<Rightarrow> create_hmac_key C secretName instanceCRN
       }
       else create_hmac_key C secretName instanceCRN) }"

definition ReconcileCOSInstance :: "clients \<Rightarrow> unit scope_proc" where
  "ReconcileCOSInstance C = do {
     s \<leftarrow> get_scope;
     if COSInstanceSource_Type (cos_spec s) = OtherSourceType [] then ok ()
     else bindE (resolveCOSInstance C) (\<lambda>(instanceID, instanceName, instanceCRN). do {
       upd_cos (\<lambda>c. c\<lparr>COSInstanceStatus_ID := instanceID, COSInstanceStatus_Name := instanceName\<rparr>);
       bindE resolveCOSBucketParams (\<lambda>(targetBucketName, targetBucketRegion).
       bindW msg_failed_configure_cos_client (setupCOSClient C instanceID targetBucketRegion) (\<lambda>_.
       bindW msg_failed_reconcile_cos_bucket (reconcileCOSBucket C targetBucketName) (\<lambda>_. do {
         upd_cos (\<lambda>c. c\<lparr>COSInstanceStatus_BucketName := targetBucketName, COSInstanceStatus_BucketRegion := targetBucketRegion\<rparr>);
         bindW msg_failed_reconcile_cos_hmac_key (reconcileCOSHMACKey C instanceCRN) (\<lambda>_. ok ()) }))) }) }"

definition DeleteCOSInstance :: "clients \<Rightarrow> unit scope_proc" where
  "DeleteCOSInstance C = do {
     s \<leftarrow> get_scope;
     let instanceID = COSInstanceStatus_ID (cos_status s);
     let secretName = COSInstanceStatus_HMACSecretName (cos_status s);
     let ns = Cluster_Namespace (scope_cluster s);
     if instanceID = [] then ok ()
     else if COSInstanceSource_Type (cos_spec s) \<noteq> SourceTypeProvision then ok ()
     else do {
       r \<leftarrow> GetResourceInstance C instanceID;
       case r of
         Fail e st \<Rightarrow>
           if st = Some ResourceNotFoundCode then ok ()
           else fail (Wrapf msg_failed_fetch_cos_service_instance e)
       | Reply cosInstance \<Rightarrow>
           if Option.bind cosInstance ri_State \<in> {Some StatePendingReclamation, Some WorkspaceStateRemoved} then ok ()
           else do {
             _ \<leftarrow> (if secretName \<noteq> [] then do {
                     g \<leftarrow> GetSecret C ns secretName;
                     case g of
                       Reply _ \<Rightarrow> do { _ \<leftarrow> DeleteSecret C ns secretName; State_Monad.return () }
                     | Fail _ _ \<Rightarrow> State_Monad.return ()
                   } else State_Monad.return ());
             d \<leftarrow> DeleteResourceInstance C instanceID True;
             case d of
               Fail e _ \<Rightarrow> fail (Wrapf msg_failed_execute_deleteresourceinstance_api e)
             | Reply _ \<Rightarrow> ok ()
           }
     } }"

section \<open>Frames and contracts\<close>

context frame
begin

lemma fr_case_hmac:
  "state_io_rel R a \<Longrightarrow> (\<And>x y. state_io_rel R (f x y)) \<Longrightarrow> state_io_rel R b \<Longrightarrow>
   state_io_rel R (case h of HmacNil \<Rightarrow> a | HmacMap x y \<Rightarrow> f x y | HmacOtherType \<Rightarrow> b)"
  by (cases h) simp_all

lemma fw_case_hmac:
  "(h = HmacNil \<Longrightarrow> wp a (\<lambda>_ t. R s0 t) s) \<Longrightarrow> (\<And>x y. h = HmacMap x y \<Longrightarrow> wp (f x y) (\<lambda>_ t. R s0 t) s) \<Longrightarrow>
   (h = HmacOtherType \<Longrightarrow> wp b (\<lambda>_ t. R s0 t) s) \<Longrightarrow>
   wp (case h of HmacNil \<Rightarrow> a | HmacMap x y \<Rightarrow> f x y | HmacOtherType \<Rightarrow> b) (\<lambda>_ t. R s0 t) s"
  by (cases h) simp_all

end

lemma wp_case_hmac [wp_simps]:
  "wp (case h of HmacNil \<Rightarrow> a | HmacMap x y \<Rightarrow> f x y | HmacOtherType \<Rightarrow> b) Q s =
   ((h = HmacNil \<longrightarrow> wp a Q s) \<and> (\<forall>x y. h = HmacMap x y \<longrightarrow> wp (f x y) Q s) \<and> (h = HmacOtherType \<longrightarrow> wp b Q s))"
  by (cases h) simp_all

lemma wp_upd_cos [wp_simps]: "wp (upd_cos f) Q s = Q () (upd_status (\<lambda>st. st\<lparr>Status_COSInstance := f (Status_COSInstance st)\<rparr>) s)"
  unfolding upd_cos_def by (rule wp_set_status)

lemma wp_set_COSClient [wp_simps]: "wp set_COSClient Q s = Q () (s\<lparr>scope_COSClient := True\<rparr>)"
  unfolding set_COSClient_def by (rule wp_modify)

lemma COSClient_simps [simp]:
  "status (s\<lparr>scope_COSClient := b\<rparr>) = status s" "spec (s\<lparr>scope_COSClient := b\<rparr>) = spec s"
  "fixed_part (s\<lparr>scope_COSClient := b\<rparr>) = fixed_part s" "InfraCluster (s\<lparr>scope_COSClient := b\<rparr>) = InfraCluster s"
  by (simp_all add: status_def spec_def fixed_part_def InfraCluster_def)

lemma cos_name_simps [simp]:
  "cos_name (s\<lparr>trace := h\<rparr>) = cos_name s" "cos_request (s\<lparr>trace := h\<rparr>) n = cos_request s n"
  by (simp_all add: cos_name_def cos_request_def Let_def)

lemma keeps_set_COSClient: "(\<And>s. p (s\<lparr>scope_COSClient := True\<rparr>) = p s) \<Longrightarrow> state_io_rel (keeps p) set_COSClient"
  unfolding set_COSClient_def by (rule keeps.fr_modify) (simp add: keeps_def)

lemma within_set_COSClient:
  "(\<And>s. p (s\<lparr>scope_COSClient := True\<rparr>) = p s) \<Longrightarrow> within p A s0 s \<Longrightarrow> wp set_COSClient (\<lambda>_ t. within p A s0 t) s"
  by (simp add: wp_set_COSClient within_def calls_in_def)

lemmas cos_defs = resolveCOSInstance_def verifyCOSInstanceByID_def resolveCOSInstanceFromSpec_def
  reconcileCOSReference_def reconcileCOSProvision_def
lemmas cos_bucket_defs = resolveCOSBucketParams_def setupCOSClient_def reconcileCOSBucket_def
  reconcileCOSHMACKey_def create_hmac_key_def

lemma keeps_ReconcileCOSInstance:
  assumes "\<And>s h. p (s\<lparr>trace := h\<rparr>) = p s" and "\<And>s. p (s\<lparr>scope_COSClient := True\<rparr>) = p s"
    and "\<And>f s. p (upd_status (\<lambda>st. st\<lparr>Status_COSInstance := f st\<rparr>) s) = p s"
  shows "state_io_rel (keeps p) (ReconcileCOSInstance C)"
  unfolding ReconcileCOSInstance_def cos_defs cos_bucket_defs upd_cos_def
  by (intro frame_keeps keeps.fr_case_hmac keeps_set_COSClient) (simp_all add: assms)

lemma keeps_DeleteCOSInstance:
  assumes "\<And>s h. p (s\<lparr>trace := h\<rparr>) = p s"
  shows "state_io_rel (keeps p) (DeleteCOSInstance C)"
  unfolding DeleteCOSInstance_def by (intro frame_keeps) (simp_all add: assms)

definition cos_calls :: "IBMPowerVSClusterSpec \<Rightarrow> call \<Rightarrow> bool" where
  "cos_calls sp c \<longleftrightarrow> \<not> deletes c \<and> (creates c \<longrightarrow>
     COSInstanceSource_Type (Spec_COSInstance sp) = SourceTypeProvision \<and>
       (\<exists>x. c = RC (CreateResourceInstance_call x) \<and> cri_ResourcePlanID x = CosResourcePlanID) \<or>
     COSInstanceSource_Type (Spec_COSInstance sp) \<noteq> OtherSourceType [] \<and>
       ((\<exists>x. c = RC (CreateResourceKey_call x)) \<or> (\<exists>n. c = COS (CreateBucket_call n))))"

definition cos_delete_calls :: "IBMPowerVSClusterSpec \<Rightarrow> call \<Rightarrow> bool" where
  "cos_delete_calls sp c \<longleftrightarrow> \<not> creates c \<and> (deletes c \<longrightarrow>
     COSInstanceSource_Type (Spec_COSInstance sp) = SourceTypeProvision \<and> (\<exists>i. c = RC (DeleteResourceInstance_call i True)))"

interpretation cos_step: scope_contract "ReconcileCOSInstance C" cos_calls for C
proof unfold_locales
  fix s
  have found: "wp (resolveCOSInstance C) (\<lambda>_ t. within (\<lambda>_. ()) (cos_calls (spec s)) s t) s"
    unfolding cos_defs upd_cos_def
    by (rule within_start, intro within_rules) (simp_all add: cos_calls_def cos_request_def)
  show "wp (ReconcileCOSInstance C) (\<lambda>_ t. within (\<lambda>_. ()) (cos_calls (spec s)) s t) s"
    unfolding ReconcileCOSInstance_def cos_bucket_defs upd_cos_def
    by (rule within_start, intro found within_rules within.fw_case_hmac within_set_COSClient) (simp_all add: cos_calls_def)
qed

interpretation cos_delete: scope_contract "DeleteCOSInstance C" cos_delete_calls for C
proof unfold_locales
  fix s
  show "wp (DeleteCOSInstance C) (\<lambda>_ t. within (\<lambda>_. ()) (cos_delete_calls (spec s)) s t) s"
    unfolding DeleteCOSInstance_def by (rule within_start, intro within_rules) (simp_all add: cos_delete_calls_def)
qed

section \<open>Properties\<close>

text \<open>What resolving the instance may create, by the calls an allowance permits.\<close>

lemma within_resolveCOSInstance:
  assumes "\<And>c. \<not> creates c \<Longrightarrow> \<not> deletes c \<Longrightarrow> A c"
    and "\<And>n. COSInstanceSource_Type (cos_spec s) = SourceTypeProvision \<Longrightarrow> COSInstanceStatus_ID (cos_status s) = [] \<Longrightarrow>
      cos_name s = Some n \<Longrightarrow> on_GetResourceInstanceByFilter (ResourceClient C) (trace s) (cos_filter n) = Reply None \<Longrightarrow>
      GetResourceGroupID s \<noteq> [] \<Longrightarrow> A (RC (CreateResourceInstance_call (cos_request s n)))"
  shows "wp (resolveCOSInstance C) (\<lambda>_ t. within (\<lambda>_. ()) A s t) s"
  unfolding cos_defs upd_cos_def
  by (simp only: wp_simps) (simp add: within_def calls_in_def assms cong: imp_cong)

text \<open>
  A reconcile creates an object storage instance only when the user asked for one to be
  provisioned, none is tracked yet, the cloud, asked by name, knows none, and the resource group
  is known; the request then carries that name and that resource group.
\<close>

theorem ReconcileCOSInstance_create_guard:
  assumes "run_state (ReconcileCOSInstance C) s = (r, t)" and "RC (CreateResourceInstance_call x) \<in> set (new_calls s t)"
  shows "COSInstanceSource_Type (cos_spec s) = SourceTypeProvision \<and> COSInstanceStatus_ID (cos_status s) = [] \<and>
    GetResourceGroupID s \<noteq> [] \<and>
    (\<exists>n. cos_name s = Some n \<and>
       on_GetResourceInstanceByFilter (ResourceClient C) (trace s) (cos_filter n) = Reply None \<and> x = cos_request s n)"
proof -
  let ?P = "\<lambda>x. COSInstanceSource_Type (cos_spec s) = SourceTypeProvision \<and> COSInstanceStatus_ID (cos_status s) = [] \<and>
    GetResourceGroupID s \<noteq> [] \<and> (\<exists>n. cos_name s = Some n \<and>
       on_GetResourceInstanceByFilter (ResourceClient C) (trace s) (cos_filter n) = Reply None \<and> x = cos_request s n)"
  have found: "wp (resolveCOSInstance C) (\<lambda>_ t. within (\<lambda>_. ()) (\<lambda>c. \<forall>x. c = RC (CreateResourceInstance_call x) \<longrightarrow> ?P x) s t) s"
    by (rule within_resolveCOSInstance) auto
  have "wp (ReconcileCOSInstance C) (\<lambda>_ t. within (\<lambda>_. ()) (\<lambda>c. \<forall>x. c = RC (CreateResourceInstance_call x) \<longrightarrow> ?P x) s t) s"
    unfolding ReconcileCOSInstance_def cos_bucket_defs upd_cos_def
    by (rule within_start, intro found within_rules within.fw_case_hmac within_set_COSClient) simp_all
  from within_new_calls [OF this assms] show ?thesis by simp
qed

theorem ReconcileCOSInstance_create_guard_witness:
  "RC (CreateResourceInstance_call (cos_request (scope_of example_spec (settled_status\<lparr>Status_COSInstance := Status_COSInstance fresh_status\<rparr>)) ''c-cos'')) \<in> set (new_calls (scope_of example_spec (settled_status\<lparr>Status_COSInstance := Status_COSInstance fresh_status\<rparr>)) (snd (run_state (ReconcileCOSInstance example_cloud) (scope_of example_spec (settled_status\<lparr>Status_COSInstance := Status_COSInstance fresh_status\<rparr>))))) \<and> COSInstanceStatus_ID (cos_status (scope_of example_spec (settled_status\<lparr>Status_COSInstance := Status_COSInstance fresh_status\<rparr>))) = []"
proof -
  have made: "RC (CreateResourceInstance_call (cos_request (scope_of example_spec (settled_status\<lparr>Status_COSInstance := Status_COSInstance fresh_status\<rparr>)) ''c-cos'')) \<in> set (new_calls (scope_of example_spec (settled_status\<lparr>Status_COSInstance := Status_COSInstance fresh_status\<rparr>)) (snd (run_state (ReconcileCOSInstance example_cloud) (scope_of example_spec (settled_status\<lparr>Status_COSInstance := Status_COSInstance fresh_status\<rparr>)))))" by code_simp
  show ?thesis using made ReconcileCOSInstance_create_guard [OF surjective_pairing made] by simp
qed

lemma ResourceName_nonempty: "ResourceName c rt q \<noteq> Some []"
  by (auto elim: ResourceName_cases)

lemma wp_resolveCOSBucketParams:
  "wp resolveCOSBucketParams (\<lambda>r t. t = s \<and> (\<forall>p. r = Ok p \<longrightarrow> fst p \<noteq> [] \<and> snd p \<noteq> [])) s"
  unfolding resolveCOSBucketParams_def
  by (simp only: wp_simps) (auto split: if_splits dest: ResourceName_nonempty [THEN notE])

lemma wp_reconcileCOSHMACKey:
  "wp (reconcileCOSHMACKey C crn) (\<lambda>r t. r = Ok () \<longrightarrow> COSInstanceStatus_HMACSecretName (cos_status t) \<noteq> [] \<and>
     COSInstanceStatus_BucketName (cos_status t) = COSInstanceStatus_BucketName (cos_status s) \<and>
     COSInstanceStatus_BucketRegion (cos_status t) = COSInstanceStatus_BucketRegion (cos_status s)) s"
  unfolding reconcileCOSHMACKey_def create_hmac_key_def
  by (simp only: wp_simps) (auto dest: ResourceName_nonempty [THEN notE])

lemma wp_ReconcileCOSInstance_ready:
  assumes "COSInstanceSource_Type (cos_spec s) \<noteq> OtherSourceType []"
  shows "wp (ReconcileCOSInstance C) (\<lambda>r t. r = Ok () \<longrightarrow> COSInstanceStatus_BucketName (cos_status t) \<noteq> [] \<and>
    COSInstanceStatus_BucketRegion (cos_status t) \<noteq> [] \<and> COSInstanceStatus_HMACSecretName (cos_status t) \<noteq> []) s" (is "wp _ ?Q s")
proof -
  have key: "wp (attempt (reconcileCOSHMACKey C crn) (\<lambda>e. fail (Wrapf m e)) (\<lambda>_. ok ())) ?Q
      (upd_status (\<lambda>st. st\<lparr>Status_COSInstance := (Status_COSInstance st)
         \<lparr>COSInstanceStatus_BucketName := b, COSInstanceStatus_BucketRegion := g\<rparr>\<rparr>) u)"
    if "b \<noteq> []" "g \<noteq> []" for crn b g u m
    unfolding wp_attempt by (rule wp_mono [OF wp_reconcileCOSHMACKey]) (simp add: wp_return that)
  show ?thesis
    unfolding ReconcileCOSInstance_def
    by (simp only: wp_bind wp_get wp_if wp_return assms, simp, rule we_attempt)
       (auto simp: wp_bind wp_upd_cos wp_attempt [of resolveCOSBucketParams] wp_return
          intro!: wp_mono [OF wp_resolveCOSBucketParams] we_attempt key)
qed

text \<open>
  When the reconcile of a configured object storage succeeds, the status names a bucket, its
  region and the Secret with the credential, which are what the machines need to fetch their
  bootstrap data.
\<close>

theorem ReconcileCOSInstance_ready:
  assumes "run_state (ReconcileCOSInstance C) s = (Ok (), t)" and "COSInstanceSource_Type (cos_spec s) \<noteq> OtherSourceType []"
  shows "COSInstanceStatus_BucketName (cos_status t) \<noteq> [] \<and> COSInstanceStatus_BucketRegion (cos_status t) \<noteq> [] \<and>
    COSInstanceStatus_HMACSecretName (cos_status t) \<noteq> []"
  using wpD [OF wp_ReconcileCOSInstance_ready [OF assms(2)] assms(1)] by simp

theorem ReconcileCOSInstance_ready_witness:
  "COSInstanceStatus_BucketName (cos_status (snd (run_state (ReconcileCOSInstance example_cloud) settled))) \<noteq> []"
proof -
  have "fst (run_state (ReconcileCOSInstance example_cloud) settled) = Ok ()" by code_simp
  then have run: "run_state (ReconcileCOSInstance example_cloud) settled = (Ok (), snd (run_state (ReconcileCOSInstance example_cloud) settled))"
    by (metis prod.collapse)
  have "COSInstanceSource_Type (cos_spec settled) \<noteq> OtherSourceType []" by code_simp
  from ReconcileCOSInstance_ready [OF run this] show ?thesis by blast
qed

lemma wp_reconcileCOSHMACKey_leak:
  assumes "COSInstanceStatus_HMACSecretName (cos_status s) = []" and "\<And>h x. \<exists>e st. on_CreateSecret (K8sClient C) h x = Fail e st"
  shows "wp (reconcileCOSHMACKey C crn) (\<lambda>_ t. status t = status s \<and> (\<exists>cs. trace t = trace s @ cs \<and> length (filter creates cs) = 1)) s"
proof -
  have refused: "on_CreateSecret (K8sClient C) h x \<noteq> Reply u" for h x u using assms(2) [of h x] by auto
  obtain n where named: "ResourceName (InfraCluster s) ResourceTypeCOSHMACKey [] = Some n" using ResourceName_unqualified by blast
  define Q where "Q t \<longleftrightarrow> status t = status s \<and> (\<exists>cs. trace t = trace s @ cs \<and> length (filter creates cs) = 1)" for t
  have Q: "Q (s\<lparr>trace := trace s @ [RC (CreateResourceKey_call x)]\<rparr>)"
      "Q (s\<lparr>trace := trace s @ [RC (CreateResourceKey_call x), K8S (CreateSecret_call y)]\<rparr>)" for x y
    by (simp_all add: Q_def)
  have "wp (reconcileCOSHMACKey C crn) (\<lambda>_. Q) s"
    unfolding reconcileCOSHMACKey_def create_hmac_key_def
    by (simp only: wp_simps) (simp add: assms(1) refused named Q)
  then show ?thesis by (rule wp_mono) (simp add: Q_def)
qed

text \<open>
  C8: a credential is created in the cloud before the Secret that keeps it is stored, and it is
  forgotten when the Secret cannot be stored (a Secret of that name exists already, say): after
  \<open>k\<close> reconciles \<open>k\<close> credentials have been created and none is recorded or deleted.
\<close>

theorem reconcileCOSHMACKey_leak:
  assumes "COSInstanceStatus_HMACSecretName (cos_status s) = []" and "\<And>h x. \<exists>e st. on_CreateSecret (K8sClient C) h x = Fail e st"
  shows "length (filter creates (new_calls s (rerun k (reconcileCOSHMACKey C crn) s))) = k \<and>
    status (rerun k (reconcileCOSHMACKey C crn) s) = status s"
proof -
  have "\<exists>cs. trace (rerun k (reconcileCOSHMACKey C crn) s) = trace s @ cs \<and> length (filter creates cs) = k \<and>
      status (rerun k (reconcileCOSHMACKey C crn) s) = status s"
    using assms(1)
  proof (induction k arbitrary: s)
    case (Suc k)
    let ?u = "snd (run_state (reconcileCOSHMACKey C crn) s)"
    obtain cs where u: "status ?u = status s" "trace ?u = trace s @ cs" "length (filter creates cs) = 1"
      using wp_result [OF wp_reconcileCOSHMACKey_leak [OF Suc.prems assms(2)]] by blast
    with Suc.IH [of ?u] Suc.prems obtain ds where "trace (rerun k (reconcileCOSHMACKey C crn) ?u) = trace ?u @ ds"
        "length (filter creates ds) = k" "status (rerun k (reconcileCOSHMACKey C crn) ?u) = status ?u" by auto
    then show ?case using u by (auto intro!: exI [of _ "cs @ ds"])
  qed simp
  then show ?thesis by (auto simp: new_calls_def)
qed

theorem reconcileCOSHMACKey_leak_witness:
  "length (filter creates (new_calls fresh (rerun 4 (reconcileCOSHMACKey secretless_cloud ''crn'') fresh))) = 4"
proof (rule reconcileCOSHMACKey_leak [THEN conjunct1])
  show "COSInstanceStatus_HMACSecretName (cos_status fresh) = []" by code_simp
  show "\<exists>e st. on_CreateSecret (K8sClient secretless_cloud) h x = Fail e st" for h x by (simp add: secretless_cloud_def)
qed

text \<open>
  Deleting touches an object storage instance only when the controller provisioned it and the
  cloud does not report it gone, and then deletes the tracked instance with what is bound to it;
  the status is left as it was.
\<close>

theorem DeleteCOSInstance_owned:
  "wp (DeleteCOSInstance C) (\<lambda>r t.
     if COSInstanceSource_Type (cos_spec s) = SourceTypeProvision \<and> COSInstanceStatus_ID (cos_status s) \<noteq> []
     then status t = status s \<and> set (filter deletes (new_calls s t)) \<subseteq>
        {RC (DeleteResourceInstance_call (COSInstanceStatus_ID (cos_status s)) True)}
     else r = Ok () \<and> t = s) s"
  unfolding DeleteCOSInstance_def
  by (simp only: wp_simps) (simp add: new_calls_def cong: imp_cong)

end
