(* ===== verification/Independence.thy ===== *)
theory Independence
  imports Cluster_Controller
begin

text \<open>
  The two goroutines of \<open>reconcile\<close> do not interfere: the PowerVS part neither reads nor writes
  what the VPC part writes, and the other way round. A procedure that commutes with a write does
  neither look at what is written nor change it.
\<close>

section \<open>Procedures that commute with a write\<close>

definition commutes :: "('s \<Rightarrow> 's) \<Rightarrow> ('s, 'a) state \<Rightarrow> bool" where
  "commutes g m \<longleftrightarrow> (\<forall>s. run_state m (g s) = map_prod id g (run_state m s))"

lemma cm_return: "commutes g (State_Monad.return a)"
  by (simp add: commutes_def)

lemma cm_get:
  assumes "\<And>s. f (g s) = f s" and "\<And>s. commutes g (f s)"
  shows "commutes g (State_Monad.bind State_Monad.get f)"
  using assms by (simp add: commutes_def)

lemma cm_bind:
  assumes "commutes g m" and "\<And>a. commutes g (f a)"
  shows "commutes g (State_Monad.bind m f)"
  using assms by (simp add: commutes_def split_beta)

lemma cm_modify: "(\<And>s. f (g s) = g (f s)) \<Longrightarrow> commutes g (modify f)"
  by (simp add: commutes_def modify_def)

lemma cm_if: "commutes g m \<Longrightarrow> commutes g n \<Longrightarrow> commutes g (if b then m else n)"
  by simp

lemma cm_let: "commutes g (f a) \<Longrightarrow> commutes g (Let a f)"
  by simp

lemma cm_case_option: "commutes g m \<Longrightarrow> (\<And>x. commutes g (f x)) \<Longrightarrow> commutes g (case p of None \<Rightarrow> m | Some x \<Rightarrow> f x)"
  by (cases p) simp_all

lemma cm_case_reply:
  "(\<And>x. commutes g (f x)) \<Longrightarrow> (\<And>e st. commutes g (h e st)) \<Longrightarrow> commutes g (case p of Reply x \<Rightarrow> f x | Fail e st \<Rightarrow> h e st)"
  by (cases p) simp_all

lemma cm_case_outcome:
  "(\<And>x. commutes g (f x)) \<Longrightarrow> (\<And>e. commutes g (h e)) \<Longrightarrow> commutes g m \<Longrightarrow>
   commutes g (case p of Ok x \<Rightarrow> f x | Err e \<Rightarrow> h e | Panic \<Rightarrow> m)"
  by (cases p) simp_all

lemma cm_case_list: "commutes g m \<Longrightarrow> (\<And>x xs. commutes g (f x xs)) \<Longrightarrow> commutes g (case l of [] \<Rightarrow> m | x # xs \<Rightarrow> f x xs)"
  by (cases l) simp_all

lemma cm_case_prod: "(\<And>x y. commutes g (f x y)) \<Longrightarrow> commutes g (case p of (x, y) \<Rightarrow> f x y)"
  by (cases p) simp

lemma cm_case_SourceType:
  "commutes g a \<Longrightarrow> commutes g b \<Longrightarrow> (\<And>x. commutes g (f x)) \<Longrightarrow>
   commutes g (case t of SourceTypeReference \<Rightarrow> a | SourceTypeProvision \<Rightarrow> b | OtherSourceType x \<Rightarrow> f x)"
  by (cases t) simp_all

lemma cm_attempt:
  "commutes g m \<Longrightarrow> (\<And>e. commutes g (h e)) \<Longrightarrow> (\<And>x. commutes g (k x)) \<Longrightarrow> commutes g (attempt m h k)"
  unfolding attempt_def by (intro cm_bind cm_case_outcome cm_return)

lemma cm_deref: "(\<And>x. commutes g (k x)) \<Longrightarrow> commutes g (deref p k)"
  unfolding deref_def by (intro cm_case_option cm_return)

lemma cm_loopM: "(\<And>x b. commutes g (f x b)) \<Longrightarrow> commutes g (loopM f xs b)"
proof (induction xs arbitrary: b)
  case Nil
  then show ?case by (simp add: cm_return)
next
  case (Cons x xs)
  then show ?case by (auto intro!: cm_attempt cm_return)
qed

lemma cm_loop_i: "(\<And>i x b. commutes g (f i x b)) \<Longrightarrow> commutes g (loop_i f i xs b)"
proof (induction xs arbitrary: i b)
  case Nil
  then show ?case by (simp add: cm_return)
next
  case (Cons x xs)
  then show ?case by (auto intro!: cm_attempt cm_return)
qed

text \<open>The writes in question: updates of the status by a function.\<close>

lemma cm_api: "commutes (upd_status h) (api f c)"
  by (simp add: commutes_def upd_status_def)

lemma upd_status_comp: "upd_status f (upd_status g s) = upd_status (\<lambda>st. f (g st)) s"
  by (simp add: upd_status_def)

lemma cm_set_status: "(\<And>st. f (h st) = h (f st)) \<Longrightarrow> commutes (upd_status h) (set_status f)"
  unfolding set_status_def by (rule cm_modify) (simp add: upd_status_comp)

lemmas cm_rules = cm_return cm_get cm_bind cm_if cm_let cm_case_option cm_case_reply cm_case_outcome cm_case_list cm_case_prod
  cm_case_SourceType cm_attempt cm_deref cm_loopM cm_loop_i cm_api cm_set_status

text \<open>A procedure that commutes with writing back what is there leaves it alone.\<close>

lemma commutes_keeps:
  assumes "\<And>s. commutes (g s) m" and "\<And>s. g s s = s" and "\<And>s t. p (g s t) = p s"
  shows "p (snd (run_state m s)) = p s"
proof -
  have "run_state m (g s s) = map_prod id (g s) (run_state m s)"
    using assms(1) by (simp add: commutes_def)
  then have "snd (run_state m s) = g s (snd (run_state m s))"
    unfolding assms(2) by (metis snd_map_prod)
  then show ?thesis by (metis assms(3))
qed

section \<open>The writes of the two parts\<close>

definition write_vpc_part ::
  "VPCStatus \<Rightarrow> VPCSubnetStatus list \<Rightarrow> LoadBalancerStatus list \<Rightarrow> VPCSecurityGroupStatus list \<Rightarrow> ClusterScope \<Rightarrow> ClusterScope" where
  "write_vpc_part v sn lb sg = upd_status (\<lambda>st. st\<lparr>Status_VPC := v, Status_VPCSubnets := sn, Status_LoadBalancers := lb,
     Status_VPCSecurityGroups := sg\<rparr>)"

definition write_powervs_part :: "ResourceReference \<Rightarrow> NetworkStatus \<Rightarrow> ClusterScope \<Rightarrow> ClusterScope" where
  "write_powervs_part w n = upd_status (\<lambda>st. st\<lparr>Status_Workspace := w, Status_Network := n\<rparr>)"

lemmas open_branches = if_weak_cong option.case_cong_weak reply.case_cong_weak SourceType.case_cong_weak outcome.case_cong_weak
  list.case_cong_weak prod.case_cong_weak let_weak_cong

lemma cm_ReconcileWorkspace: "commutes (write_vpc_part v sn lb sg) (ReconcileWorkspace C)"
  unfolding workspace_defs write_vpc_part_def
  by (intro cm_rules) (simp_all add: GetResourceGroupID_def workspace_name_def workspace_filter_def cong del: open_branches)

lemma cm_ReconcileNetwork: "commutes (write_vpc_part v sn lb sg) (ReconcileNetwork C)"
  unfolding network_defs network_resolved_def write_vpc_part_def
  by (intro cm_rules) (simp_all add: dhcp_name_def dhcp_spec_def cong del: open_branches)

lemma cm_ReconcileVPC: "commutes (write_powervs_part w n) (ReconcileVPC C)"
  unfolding vpc_defs write_powervs_part_def
  by (intro cm_rules) (simp_all add: GetResourceGroupID_def vpc_name_def vpc_request_def api_server_rule_def cong del: open_branches)

lemma cm_ReconcileVPCSubnets: "commutes (write_powervs_part w n) (ReconcileVPCSubnets C)"
  unfolding ReconcileVPCSubnets_def desired_subnets_def reconcile_subnet_def subnet_defs write_powervs_part_def
  by (intro cm_rules) (simp_all add: GetResourceGroupID_def subnet_prototype_def subnet_name_def provision_subnet_name_def default_subnet_def cong del: open_branches)

lemma cm_ReconcileVPCSecurityGroups: "commutes (write_powervs_part w n) (ReconcileVPCSecurityGroups C)"
  unfolding sg_defs sg_rule_defs write_powervs_part_def
  by (intro cm_rules) (simp_all add: GetResourceGroupID_def security_group_name_def cong del: open_branches)

lemma cm_ReconcileLoadBalancers: "commutes (write_powervs_part w n) (ReconcileLoadBalancers C)"
  unfolding lb_defs write_powervs_part_def
  by (intro cm_rules) (simp_all add: GetResourceGroupID_def lb_name_def desired_lbs_def default_lb_def lb_request_def cong del: open_branches)

lemma cm_reconcilePowerVSResources: "commutes (write_vpc_part v sn lb sg) (reconcilePowerVSResources C)"
  unfolding reconcilePowerVSResources_def
  by (intro cm_let cm_attempt cm_if cm_return cm_ReconcileWorkspace cm_ReconcileNetwork)

lemma cm_reconcileVPCResources: "commutes (write_powervs_part w n) (reconcileVPCResources C)"
  unfolding reconcileVPCResources_def
  by (intro cm_let cm_attempt cm_if cm_return cm_ReconcileVPC cm_ReconcileVPCSubnets cm_ReconcileVPCSecurityGroups cm_ReconcileLoadBalancers)

section \<open>Independence of the goroutines\<close>


end
