(* ===== verification/Controller_Safety.thy ===== *)
theory Controller_Safety
  imports Cluster_Controller
begin

text \<open>
  What the controller may do to the cloud over the life of a cluster: the contracts of the steps
  are put together to one statement on every call of every reconcile, and on every sequence of
  reconciles by rule induction over the step relation of the controller.
\<close>

section \<open>Ownership\<close>

text \<open>The spec without the control plane endpoint, which is the one part the controller writes itself.\<close>

definition plan_of :: "IBMPowerVSClusterSpec \<Rightarrow> IBMPowerVSClusterSpec" where
  "plan_of sp = sp\<lparr>Spec_ControlPlaneEndpoint := \<lparr>APIEndpoint_Host = [], APIEndpoint_Port = 0\<rparr>\<rparr>"

definition subnets_owned :: "IBMPowerVSClusterSpec \<Rightarrow> bool" where
  "subnets_owned sp \<longleftrightarrow> Spec_VPCSubnets sp = [] \<or> list_ex (\<lambda>src. VPCSubnetSource_Type src = SourceTypeProvision) (Spec_VPCSubnets sp)"

abbreviation workspace_owned :: "IBMPowerVSClusterSpec \<Rightarrow> bool" where
  "workspace_owned sp \<equiv> WorkspaceSource_Type (Spec_Workspace sp) = SourceTypeProvision"

abbreviation cos_owned :: "IBMPowerVSClusterSpec \<Rightarrow> bool" where
  "cos_owned sp \<equiv> COSInstanceSource_Type (Spec_COSInstance sp) = SourceTypeProvision"

abbreviation connection_owned :: "networkConnectionType \<Rightarrow> IBMPowerVSClusterSpec \<Rightarrow> bool" where
  "connection_owned ty sp \<equiv> TransitGatewayConnectionSource_Type (connection_source ty sp) = SourceTypeProvision"

text \<open>
  The calls that create or delete a resource, and when the spec gives that resource to the
  controller. A referenced resource is never the controller's; a credential and a bucket are made
  also in a referenced object storage instance.
\<close>

fun owned :: "IBMPowerVSClusterSpec \<Rightarrow> call \<Rightarrow> bool" where
  "owned sp (RC (CreateResourceInstance_call x)) \<longleftrightarrow>
     cri_ResourcePlanID x = PowerVSResourcePlanID \<and> workspace_owned sp \<or> cri_ResourcePlanID x = CosResourcePlanID \<and> cos_owned sp"
| "owned sp (RC (DeleteResourceInstance_call i recursive)) \<longleftrightarrow> (if recursive then cos_owned sp else workspace_owned sp)"
| "owned sp (RC (CreateResourceKey_call x)) \<longleftrightarrow> COSInstanceSource_Type (Spec_COSInstance sp) \<noteq> OtherSourceType []"
| "owned sp (COS (CreateBucket_call n)) \<longleftrightarrow> COSInstanceSource_Type (Spec_COSInstance sp) \<noteq> OtherSourceType []"
| "owned sp (PVS (CreateDHCPServer_call x)) \<longleftrightarrow> NetworkSource_Type (Spec_Network sp) = SourceTypeProvision"
| "owned sp (PVS (DeleteDHCPServer_call i)) \<longleftrightarrow> NetworkSource_Type (Spec_Network sp) = SourceTypeProvision \<and> \<not> workspace_owned sp"
| "owned sp (TG (CreateTransitGateway_call x)) \<longleftrightarrow> TransitGatewaySource_Type (Spec_TransitGateway sp) = SourceTypeProvision"
| "owned sp (TG (DeleteTransitGateway_call i)) \<longleftrightarrow> TransitGatewaySource_Type (Spec_TransitGateway sp) \<noteq> SourceTypeReference"
| "owned sp (TG (CreateTransitGatewayConnection_call r)) \<longleftrightarrow>
     ctc_NetworkType r = nct_string vpcNetworkConnectionType \<and> connection_owned vpcNetworkConnectionType sp \<or>
     ctc_NetworkType r = nct_string powervsNetworkConnectionType \<and> connection_owned powervsNetworkConnectionType sp"
| "owned sp (TG (DeleteTransitGatewayConnection_call g i)) \<longleftrightarrow>
     connection_owned vpcNetworkConnectionType sp \<or> connection_owned powervsNetworkConnectionType sp"
| "owned sp (VPCC (CreateVPC_call x)) \<longleftrightarrow> VPCSource_Type (Spec_VPC sp) = SourceTypeProvision"
| "owned sp (VPCC (DeleteVPC_call i)) \<longleftrightarrow> VPCSource_Type (Spec_VPC sp) = SourceTypeProvision"
| "owned sp (VPCC (CreateSubnet_call x)) \<longleftrightarrow> subnets_owned sp"
| "owned sp (VPCC (DeleteSubnet_call i)) \<longleftrightarrow> subnets_owned sp"
| "owned sp (VPCC (CreateLoadBalancer_call x)) \<longleftrightarrow> lbs_owned sp"
| "owned sp (VPCC (DeleteLoadBalancer_call i)) \<longleftrightarrow> lbs_owned sp"
| "owned sp (VPCC (CreateSecurityGroup_call x)) \<longleftrightarrow> sgs_owned sp"
| "owned sp (VPCC (DeleteSecurityGroup_call i)) \<longleftrightarrow> sgs_owned sp"
| "owned sp (VPCC (CreateSecurityGroupRule_call g x)) \<longleftrightarrow> VPCSource_Type (Spec_VPC sp) = SourceTypeProvision \<or> sgs_owned sp"
| "owned sp _ \<longleftrightarrow> True"

lemma connection_source_plan [simp]: "connection_source ty (plan_of sp) = connection_source ty sp"
  by (cases ty) (simp_all add: connection_source_def plan_of_def)

lemma plan_of_simps [simp]:
  "Spec_Topology (plan_of sp) = Spec_Topology sp" "Spec_Workspace (plan_of sp) = Spec_Workspace sp"
  "Spec_Network (plan_of sp) = Spec_Network sp" "Spec_TransitGateway (plan_of sp) = Spec_TransitGateway sp"
  "Spec_VPC (plan_of sp) = Spec_VPC sp" "Spec_COSInstance (plan_of sp) = Spec_COSInstance sp"
  "subnets_owned (plan_of sp) = subnets_owned sp" "lbs_owned (plan_of sp) = lbs_owned sp" "sgs_owned (plan_of sp) = sgs_owned sp"
  by (simp_all add: plan_of_def subnets_owned_def lbs_owned_def sgs_owned_def)

lemma owned_plan [simp]: "owned (plan_of sp) c = owned sp c"
  by (cases "(sp, c)" rule: owned.cases) simp_all

lemma owned_other: "\<not> creates c \<Longrightarrow> \<not> deletes c \<Longrightarrow> owned sp c"
  by (cases "(sp, c)" rule: owned.cases) simp_all

section \<open>The frame of the controller\<close>

text \<open>
  Name, namespace, UID, plan and parameters stay, and every call made satisfies \<open>P\<close> for the plan.
  It is a frame, so it goes through the handlers by their shape alone.
\<close>

definition identity :: "ClusterScope \<Rightarrow> string \<times> string \<times> string \<times> IBMPowerVSClusterSpec \<times> int \<times> bool" where
  "identity s = (Cluster_Name (scope_cluster s), Cluster_Namespace (scope_cluster s), Cluster_UID (scope_cluster s),
     plan_of (spec s), scope_APIServerPort s, scope_ClientBuilder s)"

definition owning :: "(IBMPowerVSClusterSpec \<Rightarrow> call \<Rightarrow> bool) \<Rightarrow> ClusterScope \<Rightarrow> ClusterScope \<Rightarrow> bool" where
  "owning P s t \<longleftrightarrow> identity t = identity s \<and> calls_in (P (plan_of (spec s))) s t"

lemma identity_plan: "identity t = identity s \<Longrightarrow> plan_of (spec t) = plan_of (spec s)"
  by (simp add: identity_def)

interpretation owning: frame "owning P" for P
proof unfold_locales
  show "owning P s s" for s by (simp add: owning_def calls.R_refl)
  show "owning P s u" if st: "owning P s t" and tu: "owning P t u" for s t u
  proof -
    have "plan_of (spec t) = plan_of (spec s)" using st by (intro identity_plan) (simp add: owning_def)
    with st tu have "calls_in (P (plan_of (spec s))) s t" "calls_in (P (plan_of (spec s))) t u" by (simp_all add: owning_def)
    then have "calls_in (P (plan_of (spec s))) s u" by (rule calls.R_trans)
    with st tu show ?thesis by (simp add: owning_def)
  qed
qed

lemma fixed_part_identity: "fixed_part t = fixed_part s \<Longrightarrow> identity t = identity s"
  by (simp add: fixed_part_def identity_def spec_def)

context scope_contract
begin

lemma run_owning:
  assumes "\<And>sp c. L sp c \<Longrightarrow> P (plan_of sp) c"
  shows "state_io_rel (owning P) m"
proof -
  have "owning P s (snd (run_state m s))" for s
    using wp_result [OF allowed [of s]] assms
    by (auto simp: within_def owning_def dest: fixed_part_identity elim!: calls_in_mono)
  then show ?thesis by (simp add: state_io_rel_def)
qed

end

lemma owning_api: "(\<And>sp. P sp c) \<Longrightarrow> state_io_rel (owning P) (api f c)"
  by (auto simp: state_io_rel_def owning_def identity_def calls_in_def)

lemma owning_modify: "(\<And>s. identity (f s) = identity s \<and> trace (f s) = trace s) \<Longrightarrow> state_io_rel (owning P) (modify f)"
  by (simp add: state_io_rel_def owning_def modify_def calls_in_def)

lemma owning_set_status: "state_io_rel (owning P) (set_status f)"
  unfolding set_status_def by (rule owning_modify) (simp add: identity_def)

lemma owning_set_both: "state_io_rel (owning P) (set_both K p)"
  unfolding set_both_status by (intro owning.fr_bind owning_set_status)

lemma owning_set_all: "state_io_rel (owning P) (set_all K cs ls)"
proof (induction K cs ls rule: set_all.induct)
  case (2 K c cs)
  then show ?case by (simp add: set_condition_status) (intro owning.fr_bind owning_set_status owning.fr_return)
next
  case (3 K c cs l ls)
  then show ?case by simp (intro owning.fr_bind owning_set_both)
qed (simp add: owning.fr_return)

lemma owning_collect: "state_io_rel (owning P) (collect K rs errs rq)"
  by (induction K rs errs rq rule: collect.induct) (auto intro!: owning.fr_attempt owning_set_all owning.fr_return)

lemma owning_set_endpoint: "state_io_rel (owning P) (set_endpoint host port)"
  unfolding set_endpoint_def by (rule owning_modify) (simp add: identity_def spec_def plan_of_def)

lemma owning_remove_finalizer: "state_io_rel (owning P) (remove_finalizer K)"
  unfolding remove_finalizer_def by (rule owning_modify) (simp add: identity_def spec_def)

lemma owning_GetPublicLoadBalancerHostName: "(\<And>sp c. \<not> creates c \<Longrightarrow> \<not> deletes c \<Longrightarrow> P sp c) \<Longrightarrow> state_io_rel (owning P) (GetPublicLoadBalancerHostName C)"
  unfolding GetPublicLoadBalancerHostName_def public_lb_target_def
  by (intro owning.fr_rules owning.fr_case_SourceType owning.fr_case_list owning_api) simp_all

lemma owning_ValidateZoneSupportsPER: "(\<And>sp c. \<not> creates c \<Longrightarrow> \<not> deletes c \<Longrightarrow> P sp c) \<Longrightarrow> state_io_rel (owning P) (ValidateZoneSupportsPER C)"
  unfolding ValidateZoneSupportsPER_def by (intro owning.fr_rules owning_api) simp_all

lemma owning_ReconcileResourceGroup: "(\<And>sp c. \<not> creates c \<Longrightarrow> \<not> deletes c \<Longrightarrow> P sp c) \<Longrightarrow> state_io_rel (owning P) (ReconcileResourceGroup C)"
  unfolding ReconcileResourceGroup_def resolveResourceGroupIDByName_def
  by (intro owning.fr_rules owning.fr_case_list owning_api owning_set_status) simp_all

section \<open>Every call of a reconcile\<close>

abbreviation may_create :: "IBMPowerVSClusterSpec \<Rightarrow> call \<Rightarrow> bool" where
  "may_create sp c \<equiv> \<not> deletes c \<and> owned sp c"

abbreviation may_delete :: "IBMPowerVSClusterSpec \<Rightarrow> call \<Rightarrow> bool" where
  "may_delete sp c \<equiv> \<not> creates c \<and> owned sp c"

lemma ex_connection: "(\<exists>ty. P ty) \<longleftrightarrow> P vpcNetworkConnectionType \<or> P powervsNetworkConnectionType"
  by (metis networkConnectionType.exhaust)

text \<open>The contracts of the steps, each of them within the ownership of the spec.\<close>

lemma step_contracts_owned:
  "workspace_calls sp c \<Longrightarrow> may_create sp c" "network_calls sp c \<Longrightarrow> may_create sp c" "tg_calls sp c \<Longrightarrow> may_create sp c"
  "vpc_calls sp c \<Longrightarrow> may_create sp c" "subnet_calls sp c \<Longrightarrow> may_create sp c" "lb_calls sp c \<Longrightarrow> may_create sp c"
  "sg_calls sp c \<Longrightarrow> may_create sp c" "cos_calls sp c \<Longrightarrow> may_create sp c"
  by (cases "creates c"; force simp: workspace_calls_def network_calls_def tg_calls_def vpc_calls_def subnet_calls_def lb_calls_def
        sg_calls_def cos_calls_def subnets_owned_def list_ex_iff owned_other ex_connection)+

lemma delete_contracts_owned:
  "workspace_delete_calls sp c \<Longrightarrow> may_delete sp c" "dhcp_delete_calls sp c \<Longrightarrow> may_delete sp c"
  "tg_delete_calls sp c \<Longrightarrow> may_delete sp c" "vpc_delete_calls sp c \<Longrightarrow> may_delete sp c"
  "subnet_delete_calls sp c \<Longrightarrow> may_delete sp c" "lb_delete_calls sp c \<Longrightarrow> may_delete sp c"
  "sg_delete_calls sp c \<Longrightarrow> may_delete sp c" "cos_delete_calls sp c \<Longrightarrow> may_delete sp c"
  by (cases "deletes c"; force simp: workspace_delete_calls_def dhcp_delete_calls_def tg_delete_calls_def vpc_delete_calls_def
        subnet_delete_calls_def lb_delete_calls_def sg_delete_calls_def cos_delete_calls_def subnets_owned_def list_ex_iff owned_other
        ex_connection)+

lemma owning_parts:
  "state_io_rel (owning may_create) (reconcilePowerVSResources C)" "state_io_rel (owning may_create) (reconcileVPCResources C)"
  unfolding reconcilePowerVSResources_def reconcileVPCResources_def
  by (intro owning.fr_let owning.fr_attempt owning.fr_if owning.fr_return workspace_step.run_owning network_step.run_owning
        vpc_step.run_owning subnet_step.run_owning sg_step.run_owning lb_step.run_owning; simp add: step_contracts_owned)+

lemma owning_reconcile: "state_io_rel (owning may_create) (reconcile K C Cp Cv b)"
  unfolding reconcile_def run_parts_def reconcile_gateway_on_def reconcile_cos_and_endpoint_def publish_if_ready_def publish_endpoint_def set_provisioned_def
  by (intro owning.fr_rules owning_set_status owning_set_both owning_set_endpoint owning_collect owning_parts
        owning_ValidateZoneSupportsPER owning_ReconcileResourceGroup owning_GetPublicLoadBalancerHostName
        tg_step.run_owning cos_step.run_owning; simp add: step_contracts_owned owned_other)

lemma owning_delete_step:
  "state_io_rel (owning P) m \<Longrightarrow> (\<And>errs. state_io_rel (owning P) (k errs)) \<Longrightarrow> state_io_rel (owning P) (delete_step K ty m text delay errs k)"
  unfolding delete_step_def set_condition_status
  by (intro owning.fr_rules owning_set_status)

lemma owning_reconcileDelete: "state_io_rel (owning may_delete) (reconcileDelete K C)"
  unfolding reconcileDelete_def deleteIBMPowerVSImage_def delete_child_def delete_infrastructure_def no_requeue_def finish_delete_def
  by (intro owning.fr_rules owning_delete_step owning_api owning_remove_finalizer workspace_delete.run_owning dhcp_delete.run_owning
        tg_delete.run_owning vpc_delete.run_owning subnet_delete.run_owning lb_delete.run_owning sg_delete.run_owning cos_delete.run_owning;
      simp add: delete_contracts_owned)

section \<open>What a deletion deletes\<close>

text \<open>
  A deletion of a resource, after the calls \<open>h\<close>: it is one the status records and the spec gives to the
  controller, by its own entry where the spec has a list. Where the code deletes the ID the cloud answers with, the call
  before is the question for the recorded ID, or for the name of the entry, and the ID is that of the answer.
\<close>

definition asked :: "history \<Rightarrow> call \<Rightarrow> (history \<Rightarrow> 'r reply) \<Rightarrow> 'r \<Rightarrow> bool" where
  "asked h c f x \<longleftrightarrow> (\<exists>h'. h = h' @ [c] \<and> f h' = Reply x)"

fun tracked :: "clients \<Rightarrow> ClusterScope \<Rightarrow> history \<Rightarrow> call \<Rightarrow> bool" where
  "tracked C s h (RC (DeleteResourceInstance_call i recursive)) \<longleftrightarrow> i \<noteq> [] \<and>
     (if recursive then cos_owned (spec s) \<and> i = COSInstanceStatus_ID (Status_COSInstance (status s))
      else workspace_owned (spec s) \<and> i = ResourceReference_ID (Status_Workspace (status s)))"
| "tracked C s h (PVS (DeleteDHCPServer_call i)) \<longleftrightarrow>
     NetworkSource_Type (Spec_Network (spec s)) = SourceTypeProvision \<and> \<not> workspace_owned (spec s) \<and>
     (let dhcp = ResourceReference_ID (NetworkStatus_DHCPServer (Status_Network (status s))) in dhcp \<noteq> [] \<and>
        (\<exists>d. asked h (PVS (GetDHCPServer_call dhcp)) (\<lambda>h. on_GetDHCPServer (IBMPowerVSClient C) h dhcp) (Some d) \<and> dhcpd_ID d = Some i))"
| "tracked C s h (TG (DeleteTransitGateway_call i)) \<longleftrightarrow>
     TransitGatewaySource_Type (Spec_TransitGateway (spec s)) \<noteq> SourceTypeReference \<and>
     i \<noteq> [] \<and> i = TransitGatewayStatus_ID (Status_TransitGateway (status s))"
| "tracked C s h (TG (DeleteTransitGatewayConnection_call g i)) \<longleftrightarrow>
     i \<noteq> [] \<and> TransitGatewayStatus_ID (Status_TransitGateway (status s)) \<noteq> [] \<and>
     (\<exists>ty. connection_owned ty (spec s) \<and> i = ResourceConnectionStatus_ID (connection_status ty (status s))) \<and>
     (\<exists>h' k tg. h = h' @ TG (GetTransitGateway_call (TransitGatewayStatus_ID (Status_TransitGateway (status s)))) # k \<and>
        on_GetTransitGateway (TransitGatewayClient C) h' (TransitGatewayStatus_ID (Status_TransitGateway (status s))) = Reply (Some tg) \<and> tg_ID tg = g)"
| "tracked C s h (VPCC (DeleteVPC_call x)) \<longleftrightarrow> VPCSource_Type (Spec_VPC (spec s)) = SourceTypeProvision \<and>
     (let i = VPCStatus_ID (Status_VPC (status s)) in i \<noteq> [] \<and>
        (\<exists>v. asked h (VPCC (GetVPC_call i)) (\<lambda>h. on_GetVPC (IBMVPCClient C) h i) (Some v) \<and> vpc_ID v = x))"
| "tracked C s h (VPCC (DeleteSubnet_call x)) \<longleftrightarrow>
     (\<exists>ref \<in> set (Status_VPCSubnets (status s)). managed_name s (VPCSubnetStatus_Name ref) \<and> VPCSubnetStatus_ID ref \<noteq> [] \<and>
        (\<exists>n. asked h (VPCC (GetSubnet_call (VPCSubnetStatus_ID ref))) (\<lambda>h. on_GetSubnet (IBMVPCClient C) h (VPCSubnetStatus_ID ref)) (Some n) \<and>
           subnet_ID n = x))"
| "tracked C s h (VPCC (DeleteLoadBalancer_call x)) \<longleftrightarrow>
     (\<exists>srcs i n lb. desired_lbs s = Some srcs \<and> i < length srcs \<and> LoadBalancerSource_Type (srcs ! i) \<noteq> SourceTypeReference \<and>
        lb_name s i (LoadBalancerSource_Provision (srcs ! i)) = Some n \<and> ptr_Deref (lb_ID lb) [] = x \<and>
        (let j = GetLoadBalancerID (Status_LoadBalancers (status s)) n in
         if j \<noteq> [] then asked h (VPCC (GetLoadBalancer_call j)) (\<lambda>h. on_GetLoadBalancer (IBMVPCClient C) h j) (Some lb)
         else asked h (VPCC (GetLoadBalancerByName_call n)) (\<lambda>h. on_GetLoadBalancerByName (IBMVPCClient C) h n) (Some lb)))"
| "tracked C s h (VPCC (DeleteSecurityGroup_call x)) \<longleftrightarrow>
     (\<exists>g \<in> set (Status_VPCSecurityGroups (status s)). managed_sg s (VPCSecurityGroupStatus_Name g) \<and> VPCSecurityGroupStatus_ID g = x)"
| "tracked C s h _ \<longleftrightarrow> True"

lemma tracked_other: "\<not> deletes c \<Longrightarrow> tracked C s h c"
  by (cases "(C, s, h, c)" rule: tracked.cases) simp_all

text \<open>Every call between \<open>s\<close> and \<open>t\<close> satisfies \<open>P\<close> after the calls before it.\<close>

fun judged_calls :: "(history \<Rightarrow> call \<Rightarrow> bool) \<Rightarrow> history \<Rightarrow> call list \<Rightarrow> bool" where
  "judged_calls P h [] \<longleftrightarrow> True"
| "judged_calls P h (c # cs) \<longleftrightarrow> P h c \<and> judged_calls P (h @ [c]) cs"

definition judged :: "(history \<Rightarrow> call \<Rightarrow> bool) \<Rightarrow> ClusterScope \<Rightarrow> ClusterScope \<Rightarrow> bool" where
  "judged P s t \<longleftrightarrow> (\<exists>cs. trace t = trace s @ cs \<and> judged_calls P (trace s) cs)"

lemma judged_calls_append: "judged_calls P h (cs @ ds) \<longleftrightarrow> judged_calls P h cs \<and> judged_calls P (h @ cs) ds"
  by (induction cs arbitrary: h) auto

lemma judged_calls_mono: "judged_calls P h cs \<Longrightarrow> (\<And>h c. P h c \<Longrightarrow> Q h c) \<Longrightarrow> judged_calls Q h cs"
  by (induction cs arbitrary: h) auto

interpretation judged: frame "judged P" for P
proof unfold_locales
  show "judged P s s" for s by (simp add: judged_def)
  show "judged P s u" if "judged P s t" "judged P t u" for s t u
    using that by (auto simp: judged_def judged_calls_append)
qed

lemma judged_one: "judged P s (s\<lparr>trace := trace s @ [c]\<rparr>) \<longleftrightarrow> P (trace s) c"
  by (simp add: judged_def)

text \<open>
  A deletion step: its calls are judged by the status it started from, and what may be deleted
  after it could have been deleted before it, so the steps compose.
\<close>

definition tracking :: "clients \<Rightarrow> ClusterScope \<Rightarrow> ClusterScope \<Rightarrow> bool" where
  "tracking C s t \<longleftrightarrow> (\<forall>h c. tracked C t h c \<longrightarrow> tracked C s h c) \<and> judged (tracked C s) s t"

interpretation tracking: frame "tracking C" for C
proof unfold_locales
  show "tracking C s s" for s by (simp add: tracking_def judged.R_refl)
  show "tracking C s u" if st: "tracking C s t" and tu: "tracking C t u" for s t u
  proof -
    have "judged (tracked C s) t u"
      using st tu by (auto simp: tracking_def judged_def elim!: judged_calls_mono)
    then show ?thesis using st tu by (auto simp: tracking_def intro: judged.R_trans)
  qed
qed

text \<open>The part of the scope that \<open>tracked\<close> reads.\<close>

definition tracked_part where
  "tracked_part s = (fixed_part s, Status_Workspace (status s), Status_COSInstance (status s), Status_Network (status s),
     Status_TransitGateway (status s), Status_VPC (status s), Status_VPCSubnets (status s), Status_LoadBalancers (status s),
     Status_VPCSecurityGroups (status s))"

lemma tracked_names:
  assumes "fixed_part t = fixed_part s" and "Status_VPCSubnets (status t) = Status_VPCSubnets (status s)"
  shows "managed_name t = managed_name s"
  using assms by (auto simp: fixed_part_def managed_name_def provision_subnet_name_def InfraCluster_def spec_def fun_eq_iff Let_def)

lemma tracked_sg: "fixed_part t = fixed_part s \<Longrightarrow> managed_sg t = managed_sg s"
  by (auto simp: fixed_part_def managed_sg_def security_group_name_def InfraCluster_def spec_def fun_eq_iff Let_def)

lemma tracked_lbs: "fixed_part t = fixed_part s \<Longrightarrow> desired_lbs t = desired_lbs s \<and> lb_name t = lb_name s"
  by (auto simp: fixed_part_def desired_lbs_def default_lb_def lb_name_def InfraCluster_def spec_def fun_eq_iff Let_def)

lemma tracked_cong:
  assumes "tracked_part t = tracked_part s"
  shows "tracked C t h c = tracked C s h c"
proof -
  have "fixed_part t = fixed_part s" using assms by (simp add: tracked_part_def)
  note same = tracked_names [OF this] tracked_sg [OF this] tracked_lbs [OF this] fixed_part_spec [OF this]
  have "connection_status ty (status t) = connection_status ty (status s)" for ty
    using assms by (cases ty) (simp_all add: tracked_part_def connection_status_def)
  then show ?thesis using assms same
    by (cases "(C, t, h, c)" rule: tracked.cases) (simp_all add: tracked_part_def)
qed

lemma tracked_trace [simp]: "tracked C (s\<lparr>trace := h'\<rparr>) = tracked C s"
  by (intro ext tracked_cong) (simp add: tracked_part_def)

lemma trackingI: "judged (tracked C s) s t \<Longrightarrow> tracked_part t = tracked_part s \<Longrightarrow> tracking C s t"
  by (simp add: tracking_def tracked_cong [of t s])

lemma wp_tracking: "(\<And>s. wp m (\<lambda>_ t. tracking C s t) s) \<Longrightarrow> state_io_rel (tracking C) m"
  using wp_result [of m] by (fastforce simp: state_io_rel_def)

lemma judged_trace: "judged P s (u\<lparr>trace := h\<rparr>) \<longleftrightarrow> (\<exists>cs. h = trace s @ cs \<and> judged_calls P (trace s) cs)"
  "judged P s (upd_status f u) \<longleftrightarrow> judged P s u"
  by (simp_all add: judged_def)

text \<open>The steps, each judged by the status it starts from.\<close>

lemma judged_DeleteWorkspace: "wp (DeleteWorkspace C) (\<lambda>_ t. judged (tracked C s) s t) s"
  unfolding DeleteWorkspace_def by (simp only: wp_simps) (simp add: judged_def cong: imp_cong)

lemma judged_DeleteCOSInstance: "wp (DeleteCOSInstance C) (\<lambda>_ t. judged (tracked C s) s t) s"
  unfolding DeleteCOSInstance_def by (simp only: wp_simps) (simp add: judged_def cong: imp_cong)

lemma judged_DeleteDHCPServer: "wp (DeleteDHCPServer C) (\<lambda>_ t. judged (tracked C s) s t) s"
  unfolding DeleteDHCPServer_def by (simp only: wp_simps) (auto simp: judged_def asked_def bind_eq_Some_conv cong: imp_cong)

lemma judged_DeleteVPC: "wp (DeleteVPC C) (\<lambda>_ t. judged (tracked C s) s t) s"
  unfolding DeleteVPC_def by (simp only: wp_simps) (auto simp: judged_def asked_def bind_eq_Some_conv cong: imp_cong)

lemma judged_DeleteTransitGateway: "wp (DeleteTransitGateway C) (\<lambda>_ t. judged (tracked C s) s t) s"
proof -
  let ?i = "TransitGatewayStatus_ID (Status_TransitGateway (status s))"
  have conn: "wp (deleteConnection C tg j) (\<lambda>r t. status t = status s \<and> fixed_part t = fixed_part s \<and> judged (tracked C s) s t \<and>
      (\<exists>k. trace t = trace s @ TG (GetTransitGateway_call ?i) # k)) u"
    if "status u = status s" "fixed_part u = fixed_part s" "judged (tracked C s) s u" "trace u = trace s @ TG (GetTransitGateway_call ?i) # k"
      "on_GetTransitGateway (TransitGatewayClient C) (trace s) ?i = Reply (Some tg)" "?i \<noteq> []"
      "j = ResourceConnectionStatus_ID (connection_status ty (status s))" "connection_owned ty (spec s)" for tg j u ty k
    unfolding deleteConnection_def
    by (simp only: wp_simps) (use that in \<open>auto simp: judged_def judged_calls_append cong: imp_cong\<close>)
  have conns: "wp (deleteTransitGatewayConnections C (Some tg)) (\<lambda>_ t. status t = status s \<and> fixed_part t = fixed_part s \<and> judged (tracked C s) s t) 
      (s\<lparr>trace := trace s @ [TG (GetTransitGateway_call ?i)]\<rparr>)"
    if "on_GetTransitGateway (TransitGatewayClient C) (trace s) ?i = Reply (Some tg)" "?i \<noteq> []" for tg
  proof -
    have first: "wp (deleteConnection C tg (ResourceConnectionStatus_ID (connection_status powervsNetworkConnectionType (status s))))
        (\<lambda>r t. status t = status s \<and> fixed_part t = fixed_part s \<and> judged (tracked C s) s t \<and>
          (\<exists>k. trace t = trace s @ TG (GetTransitGateway_call ?i) # k)) (s\<lparr>trace := trace s @ [TG (GetTransitGateway_call ?i)]\<rparr>)"
      if "connection_owned powervsNetworkConnectionType (spec s)"
      by (rule conn [where k = "[]"]) (use that \<open>on_GetTransitGateway _ _ _ = _\<close> \<open>?i \<noteq> []\<close> in \<open>simp_all add: judged_def\<close>)
    have second: "wp (deleteConnection C tg (ResourceConnectionStatus_ID (connection_status vpcNetworkConnectionType (status s))))
        (\<lambda>r t. status t = status s \<and> fixed_part t = fixed_part s \<and> judged (tracked C s) s t) u"
      if u: "status u = status s" "fixed_part u = fixed_part s" "judged (tracked C s) s u" "\<exists>k. trace u = trace s @ TG (GetTransitGateway_call ?i) # k"
        "connection_owned vpcNetworkConnectionType (spec s)" for u
    proof -
      obtain k where "trace u = trace s @ TG (GetTransitGateway_call ?i) # k" using u(4) ..
      from conn [OF u(1-3) this \<open>on_GetTransitGateway _ _ _ = _\<close> \<open>?i \<noteq> []\<close> refl u(5)] show ?thesis by (rule wp_mono) simp
    qed
    show ?thesis
      unfolding deleteTransitGatewayConnections_def
      by (simp only: wp_simps)
         (auto simp: judged_trace intro!: wp_mono [OF first [unfolded connection_status_def connection_source_def, simplified]]
            second [unfolded connection_status_def connection_source_def, simplified])
  qed
  show ?thesis
    unfolding DeleteTransitGateway_def
    by (simp only: wp_simps)
       (auto simp: judged_trace bind_eq_Some_conv intro!: wp_mono [OF conns], auto simp: judged_def judged_calls_append)
qed

lemma judged_DeleteLoadBalancer: "wp (DeleteLoadBalancer C) (\<lambda>_ t. judged (tracked C s) s t) s"
proof -
  let ?I = "\<lambda>t. status t = status s \<and> fixed_part t = fixed_part s \<and> judged (tracked C s) s t"
  have step: "wp (delete_lb C i (srcs ! i) acc) (\<lambda>_ t. ?I t) u" if "?I u" "desired_lbs s = Some srcs" "i < length srcs" for i acc u srcs
  proof -
    have lb: "tracked C s (h @ h' @ [VPCC (GetLoadBalancer_call j)]) (VPCC (DeleteLoadBalancer_call (ptr_Deref (lb_ID lb) [])))"
      if "lb_name s i (LoadBalancerSource_Provision (srcs ! i)) = Some n" "LoadBalancerSource_Type (srcs ! i) \<noteq> SourceTypeReference"
        "GetLoadBalancerID (Status_LoadBalancers (status s)) n = j" "j \<noteq> []" "on_GetLoadBalancer (IBMVPCClient C) (h @ h') j = Reply (Some lb)" for n lb h h' j
      unfolding tracked.simps
      by (rule exI [of _ srcs], rule exI [of _ i], rule exI [of _ n], rule exI [of _ lb])
         (use that \<open>desired_lbs s = Some srcs\<close> \<open>i < length srcs\<close> in \<open>simp add: asked_def; intro exI [of _ "h @ h'"]; simp\<close>)
    have named: "tracked C s (h @ h' @ [VPCC (GetLoadBalancerByName_call n)]) (VPCC (DeleteLoadBalancer_call (ptr_Deref (lb_ID lb) [])))"
      if "lb_name s i (LoadBalancerSource_Provision (srcs ! i)) = Some n" "LoadBalancerSource_Type (srcs ! i) \<noteq> SourceTypeReference"
        "GetLoadBalancerID (Status_LoadBalancers (status s)) n = []" "on_GetLoadBalancerByName (IBMVPCClient C) (h @ h') n = Reply (Some lb)" for n lb h h'
      unfolding tracked.simps
      by (rule exI [of _ srcs], rule exI [of _ i], rule exI [of _ n], rule exI [of _ lb])
         (use that \<open>desired_lbs s = Some srcs\<close> \<open>i < length srcs\<close> in \<open>simp add: asked_def; intro exI [of _ "h @ h'"]; simp\<close>)
    have "lb_name u = lb_name s" using \<open>?I u\<close> tracked_lbs by blast
    then show ?thesis
      unfolding delete_lb_def delete_lb_in_cloud_def
      by (simp only: wp_simps)
        (use \<open>?I u\<close> in \<open>auto simp: judged_def judged_calls_append split_beta wp_simps Let_def tracked_other simp del: tracked.simps intro: lb named\<close>)
  qed
  have loop: "wp (loop_i (delete_lb C) 0 srcs ([], False)) (\<lambda>_ t. ?I t) s" if "desired_lbs s = Some srcs" for srcs
  proof (rule wp_loop_i_done [where I = "\<lambda>_ _. ?I"])
    show "?I s" by (simp add: judged.R_refl)
    fix ys x zs acc t assume srcs: "srcs = ys @ x # zs" and "?I t"
    from step [OF this(2) that, of "length ys" acc] srcs
    have "wp (delete_lb C (length ys) x acc) (\<lambda>_ t. ?I t) t" by (simp add: nth_append)
    then show "wp (delete_lb C (length ys) x acc) (\<lambda>r t. (\<forall>b. r = Ok b \<longrightarrow> ?I t) \<and> ((\<forall>b. r \<noteq> Ok b) \<longrightarrow> ?I t)) t"
      by (rule wp_mono) blast
  qed simp
  show ?thesis
    unfolding DeleteLoadBalancer_def wp_bind wp_get wp_deref wp_attempt
    by (intro conjI impI allI judged.R_refl; rule wp_mono [OF loop], assumption) (auto simp: wp_simps split_beta)
qed

lemma judged_DeleteVPCSecurityGroups: "wp (DeleteVPCSecurityGroups C) (\<lambda>_ t. judged (tracked C s) s t) s"
proof -
  have step: "wp (delete_security_group C managed g x) (\<lambda>_ t. judged (tracked C s) s t) u"
    if "judged (tracked C s) s u" "list_all (managed_sg s) managed" "g \<in> set (Status_VPCSecurityGroups (status s))" for managed g x u
  proof -
    have "tracked C s h (VPCC (DeleteSecurityGroup_call (VPCSecurityGroupStatus_ID g)))" if "VPCSecurityGroupStatus_Name g \<in> set managed" for h
      using that \<open>list_all _ _\<close> \<open>g \<in> _\<close> by (auto simp: list_all_iff)
    then show ?thesis
      unfolding delete_security_group_def
      by (simp only: wp_simps) (use \<open>judged _ s u\<close> in \<open>auto simp: judged_def judged_calls_append tracked_other simp del: tracked.simps\<close>)
  qed
  show ?thesis
    unfolding DeleteVPCSecurityGroups_def wp_bind wp_get wp_attempt
    by (rule wp_mono [OF managed_security_groups_names])
       (auto simp: wp_return judged.R_refl intro!: judged.fw_loopM step)
qed

lemma judged_DeleteVPCSubnets: "wp (DeleteVPCSubnets C) (\<lambda>_ t. judged (tracked C s) s t) s"
proof -
  have step: "wp (delete_subnet C managed ref acc) (\<lambda>_ t. judged (tracked C s) s t) u"
    if "judged (tracked C s) s u" "set managed = Collect (managed_name s)" "ref \<in> set (Status_VPCSubnets (status s))" for managed ref acc u
  proof -
    have del: "tracked C s (h @ h' @ [VPCC (GetSubnet_call (VPCSubnetStatus_ID ref))]) (VPCC (DeleteSubnet_call (subnet_ID n)))"
      if "VPCSubnetStatus_Name ref \<in> set managed" "VPCSubnetStatus_ID ref \<noteq> []"
        "on_GetSubnet (IBMVPCClient C) (h @ h') (VPCSubnetStatus_ID ref) = Reply (Some n)" for h h' n
      unfolding tracked.simps
      by (rule bexI [of _ ref]) (use that \<open>set managed = _\<close> \<open>ref \<in> _\<close> in \<open>auto simp: asked_def intro!: exI [of _ "h @ h'"]\<close>)
    show ?thesis
      unfolding delete_subnet_def
      by (simp only: wp_simps)
        (use \<open>judged _ s u\<close> in \<open>auto simp: judged_def judged_calls_append split_beta wp_simps tracked_other simp del: tracked.simps intro: del\<close>)
  qed
  show ?thesis
    unfolding DeleteVPCSubnets_def wp_bind wp_get wp_attempt [of "managed_subnets s"]
    by (rule wp_mono [OF managed_subnets_names], intro conjI allI impI; simp add: wp_return judged.R_refl del: tracked.simps)
       (intro judged.fw_rules judged.fw_loopM step; simp add: judged.R_refl judged_def wp_set_status del: tracked.simps)
qed

lemma tracking_kept:
  assumes "wp m (\<lambda>_ t. judged (tracked C s) s t) s" and "state_io_rel (keeps tracked_part) m"
  shows "wp m (\<lambda>_ t. tracking C s t) s"
  by (rule wp_mono [OF wp_conj [OF assms(1) keeps_wp [OF assms(2)]]]) (simp add: trackingI)

text \<open>A step that takes something out of the status leaves less to delete.\<close>

definition shrunk :: "ClusterScope \<Rightarrow> ClusterScope \<Rightarrow> bool" where
  "shrunk s t \<longleftrightarrow> fixed_part t = fixed_part s \<and> Status_Workspace (status t) = Status_Workspace (status s) \<and>
     Status_COSInstance (status t) = Status_COSInstance (status s) \<and> Status_Network (status t) = Status_Network (status s) \<and>
     Status_LoadBalancers (status t) = Status_LoadBalancers (status s) \<and> Status_VPCSecurityGroups (status t) = Status_VPCSecurityGroups (status s) \<and>
     Status_TransitGateway (status t) \<in> {Status_TransitGateway (status s), zero_TransitGatewayStatus} \<and>
     Status_VPC (status t) \<in> {Status_VPC (status s), zero_VPCStatus} \<and>
     set (Status_VPCSubnets (status t)) \<subseteq> set (Status_VPCSubnets (status s))"

lemma managed_fewer:
  "fixed_part t = fixed_part s \<Longrightarrow> set (Status_VPCSubnets (status t)) \<subseteq> set (Status_VPCSubnets (status s)) \<Longrightarrow> managed_name t n \<Longrightarrow> managed_name s n"
  by (auto simp: fixed_part_def managed_name_def provision_subnet_name_def InfraCluster_def spec_def Let_def split: if_splits)

lemma tracked_shrunk:
  assumes "shrunk s t" and "tracked C t h c"
  shows "tracked C s h c"
proof -
  have "fixed_part t = fixed_part s" using assms by (simp add: shrunk_def)
  note same = tracked_sg [OF this] tracked_lbs [OF this] fixed_part_spec [OF this] managed_fewer [OF this]
  have zero: "TransitGatewayStatus_ID zero_TransitGatewayStatus = []" "VPCStatus_ID zero_VPCStatus = []"
    by (simp_all add: zero_TransitGatewayStatus_def zero_VPCStatus_def)
  have gateway: "Status_TransitGateway (status t) = Status_TransitGateway (status s)" if "TransitGatewayStatus_ID (Status_TransitGateway (status t)) \<noteq> []"
    using assms(1) that zero by (auto simp: shrunk_def)
  have vpc: "Status_VPC (status t) = Status_VPC (status s)" if "VPCStatus_ID (Status_VPC (status t)) \<noteq> []"
    using assms(1) that zero by (auto simp: shrunk_def)
  show ?thesis
  proof (cases "(C, s, h, c)" rule: tracked.cases)
    case (6 C' s' h' x)
    then show ?thesis using assms same(4) by (auto simp: shrunk_def)
  next
    case (4 C' s' h' g i)
    then have "Status_TransitGateway (status t) = Status_TransitGateway (status s)" using assms(2) gateway by auto
    then have "connection_status ty (status t) = connection_status ty (status s)" for ty by (cases ty) (simp_all add: connection_status_def)
    then show ?thesis using 4 assms(2) same(3) \<open>Status_TransitGateway (status t) = _\<close> by auto
  qed (use assms same gateway vpc in \<open>auto simp: shrunk_def Let_def\<close>)
qed

interpretation shrunk: frame shrunk
  by unfold_locales (auto simp: shrunk_def)

lemma shrunk_api: "state_io_rel shrunk (api f c)"
  by (simp add: state_io_rel_def shrunk_def)

lemma shrunk_set_status: "(\<And>s. shrunk s (upd_status f s)) \<Longrightarrow> state_io_rel shrunk (set_status f)"
  unfolding set_status_def by (rule shrunk.fr_modify) simp

lemma shrunk_DeleteTransitGateway: "state_io_rel shrunk (DeleteTransitGateway C)"
  unfolding tg_delete_defs by (intro shrunk.fr_rules shrunk_api shrunk_set_status) (simp_all add: shrunk_def)

lemma shrunk_DeleteVPC: "state_io_rel shrunk (DeleteVPC C)"
  unfolding DeleteVPC_def by (intro shrunk.fr_rules shrunk_api shrunk_set_status) (simp_all add: shrunk_def)

lemma subseq_in_set: "subseq xs ys \<Longrightarrow> x \<in> set xs \<Longrightarrow> x \<in> set ys"
  by (induction rule: list_emb.induct) auto

lemma shrunk_DeleteVPCSubnets: "state_io_rel shrunk (DeleteVPCSubnets C)"
proof -
  let ?p = "\<lambda>s. (Status_Workspace (status s), Status_COSInstance (status s), Status_Network (status s), Status_TransitGateway (status s),
      Status_VPC (status s), Status_LoadBalancers (status s), Status_VPCSecurityGroups (status s))"
  have "wp (DeleteVPCSubnets C) (\<lambda>_ t. ?p t = ?p s) s" for s by (intro keeps_wp keeps_DeleteVPCSubnets) simp_all
  moreover have "wp (DeleteVPCSubnets C) (\<lambda>_ t. fixed_part t = fixed_part s) s" for s
    by (rule keeps_wp [OF subnet_delete.keeps_fixed])
  ultimately have "wp (DeleteVPCSubnets C) (\<lambda>_ t. shrunk s t) s" for s
    by (rule wp_mono [OF wp_conj [OF wp_conj DeleteVPCSubnets_result]]) (auto simp: shrunk_def dest: subseq_in_set)
  then show ?thesis using wp_result [of "DeleteVPCSubnets C"] by (fastforce simp: state_io_rel_def)
qed

lemma tracking_shrunk:
  assumes "\<And>s. wp m (\<lambda>_ t. judged (tracked C s) s t) s" and "state_io_rel shrunk m"
  shows "state_io_rel (tracking C) m"
  by (rule wp_tracking, rule wp_mono [OF wp_conj [OF assms(1) shrunk.wp_frame [OF assms(2)]]])
     (auto simp: tracking_def intro: tracked_shrunk)

lemma shrunk_kept: "state_io_rel (keeps tracked_part) m \<Longrightarrow> state_io_rel shrunk m"
  by (rule state_io_rel_imp, assumption) (simp add: keeps_def tracked_part_def shrunk_def)

lemma tracked_part_trace: "tracked_part (s\<lparr>trace := h\<rparr>) = tracked_part s"
  by (simp add: tracked_part_def)

lemma tracking_steps:
  "state_io_rel (tracking C) (DeleteTransitGateway C)" "state_io_rel (tracking C) (DeleteLoadBalancer C)"
  "state_io_rel (tracking C) (DeleteVPCSecurityGroups C)" "state_io_rel (tracking C) (DeleteVPCSubnets C)"
  "state_io_rel (tracking C) (DeleteVPC C)" "state_io_rel (tracking C) (DeleteDHCPServer C)"
  "state_io_rel (tracking C) (DeleteWorkspace C)" "state_io_rel (tracking C) (DeleteCOSInstance C)"
  by (rule tracking_shrunk, rule judged_DeleteTransitGateway, rule shrunk_DeleteTransitGateway)
     (rule tracking_shrunk, rule judged_DeleteLoadBalancer, intro shrunk_kept keeps_DeleteLoadBalancer tracked_part_trace,
      rule tracking_shrunk, rule judged_DeleteVPCSecurityGroups, intro shrunk_kept keeps_DeleteVPCSecurityGroups tracked_part_trace,
      rule tracking_shrunk, rule judged_DeleteVPCSubnets, rule shrunk_DeleteVPCSubnets,
      rule tracking_shrunk, rule judged_DeleteVPC, rule shrunk_DeleteVPC,
      rule tracking_shrunk, rule judged_DeleteDHCPServer, intro shrunk_kept keeps_DeleteDHCPServer tracked_part_trace,
      rule tracking_shrunk, rule judged_DeleteWorkspace, intro shrunk_kept keeps_DeleteWorkspace tracked_part_trace,
      rule tracking_shrunk, rule judged_DeleteCOSInstance, intro shrunk_kept keeps_DeleteCOSInstance tracked_part_trace)

lemma tracking_api: "\<not> deletes c \<Longrightarrow> state_io_rel (tracking C) (api f c)"
  by (simp add: state_io_rel_def tracking_def judged_def tracked_other)

lemma tracking_set_conditions: "state_io_rel (tracking C) (set_status (\<lambda>st. st\<lparr>Status_Conditions := f st\<rparr>))"
proof -
  have "tracking C s (upd_status (\<lambda>st. st\<lparr>Status_Conditions := f st\<rparr>) s)" for s
    by (rule trackingI) (simp_all add: judged_def tracked_part_def)
  then show ?thesis unfolding set_status_def by (intro tracking.fr_modify)
qed

lemma tracking_remove_finalizer: "state_io_rel (tracking C) (remove_finalizer K)"
proof -
  have "tracked C (s\<lparr>scope_cluster := (scope_cluster s)\<lparr>Cluster_Finalizers := fs\<rparr>\<rparr>) h c \<longleftrightarrow> tracked C s h c" for s fs h c
  proof -
    let ?t = "s\<lparr>scope_cluster := (scope_cluster s)\<lparr>Cluster_Finalizers := fs\<rparr>\<rparr>"
    have "status ?t = status s" "spec ?t = spec s" "managed_name ?t = managed_name s" "managed_sg ?t = managed_sg s"
      "desired_lbs ?t = desired_lbs s" "lb_name ?t = lb_name s"
      by (simp_all add: fun_eq_iff status_def spec_def managed_name_def provision_subnet_name_def InfraCluster_def managed_sg_def
          security_group_name_def desired_lbs_def default_lb_def lb_name_def Let_def)
    then show ?thesis by (cases "(C, s, h, c)" rule: tracked.cases) simp_all
  qed
  then show ?thesis unfolding remove_finalizer_def by (intro tracking.fr_modify) (simp add: tracking_def judged_def)
qed

lemma tracking_delete_step:
  "state_io_rel (tracking C) m \<Longrightarrow> (\<And>errs. state_io_rel (tracking C) (k errs)) \<Longrightarrow> state_io_rel (tracking C) (delete_step K ty m text delay errs k)"
  unfolding delete_step_def set_condition_status
  by (intro tracking.fr_rules tracking_set_conditions)

lemma tracking_reconcileDelete: "state_io_rel (tracking C) (reconcileDelete K C)"
  unfolding reconcileDelete_def deleteIBMPowerVSImage_def delete_child_def delete_infrastructure_def no_requeue_def finish_delete_def
  by (intro tracking.fr_rules tracking_delete_step tracking_steps tracking_api tracking_remove_finalizer) simp_all

section \<open>The invariant of the status\<close>

text \<open>The status lists that Kubernetes merges by name have no two entries of the same name.\<close>

definition status_wf :: "ClusterScope \<Rightarrow> bool" where
  "status_wf s \<longleftrightarrow> subnets_distinct s \<and> lbs_distinct s"

abbreviation keyed_lists :: "ClusterScope \<Rightarrow> VPCSubnetStatus list \<times> LoadBalancerStatus list" where
  "keyed_lists s \<equiv> (Status_VPCSubnets (status s), Status_LoadBalancers (status s))"

lemma wf_keeps: "state_io_rel (keeps keyed_lists) m \<Longrightarrow> state_io_rel (preserves status_wf) m"
  by (rule state_io_rel_imp, assumption) (simp add: keeps_def preserves_def status_wf_def)

lemma wf_both:
  "state_io_rel (preserves subnets_distinct) m \<Longrightarrow> state_io_rel (keeps (\<lambda>s. Status_LoadBalancers (status s))) m \<Longrightarrow> state_io_rel (preserves status_wf) m"
  "state_io_rel (preserves lbs_distinct) m \<Longrightarrow> state_io_rel (keeps (\<lambda>s. Status_VPCSubnets (status s))) m \<Longrightarrow> state_io_rel (preserves status_wf) m"
  by (simp_all add: state_io_rel_def keeps_def preserves_def status_wf_def)

lemma wf_steps:
  "state_io_rel (preserves status_wf) (ReconcileWorkspace C)" "state_io_rel (preserves status_wf) (ReconcileNetwork C)"
  "state_io_rel (preserves status_wf) (ReconcileVPC C)" "state_io_rel (preserves status_wf) (ReconcileVPCSubnets C)"
  "state_io_rel (preserves status_wf) (ReconcileVPCSecurityGroups C)" "state_io_rel (preserves status_wf) (ReconcileLoadBalancers C)"
  "state_io_rel (preserves status_wf) (ReconcileTransitGateway C)" "state_io_rel (preserves status_wf) (ReconcileCOSInstance C)"
  "state_io_rel (preserves status_wf) (GetPublicLoadBalancerHostName C)"
  by (rule wf_both(1) [OF preserves_ReconcileVPCSubnets keeps_ReconcileVPCSubnets]
      | rule wf_both(2) [OF preserves_ReconcileLoadBalancers keeps_ReconcileLoadBalancers]
      | intro wf_keeps keeps_ReconcileWorkspace keeps_ReconcileNetwork keeps_ReconcileVPC keeps_ReconcileVPCSecurityGroups
        keeps_ReconcileTransitGateway keeps_ReconcileCOSInstance keeps_GetPublicLoadBalancerHostName
      | simp)+

lemma wf_delete_steps:
  "state_io_rel (preserves status_wf) (DeleteWorkspace C)" "state_io_rel (preserves status_wf) (DeleteDHCPServer C)"
  "state_io_rel (preserves status_wf) (DeleteVPC C)" "state_io_rel (preserves status_wf) (DeleteVPCSubnets C)"
  "state_io_rel (preserves status_wf) (DeleteVPCSecurityGroups C)" "state_io_rel (preserves status_wf) (DeleteLoadBalancer C)"
  "state_io_rel (preserves status_wf) (DeleteTransitGateway C)" "state_io_rel (preserves status_wf) (DeleteCOSInstance C)"
  by (rule wf_both(1) [OF preserves_DeleteVPCSubnets keeps_DeleteVPCSubnets]
      | intro wf_keeps keeps_DeleteWorkspace keeps_DeleteDHCPServer keeps_DeleteVPC keeps_DeleteVPCSecurityGroups keeps_DeleteLoadBalancer
        keeps_DeleteTransitGateway keeps_DeleteCOSInstance
      | simp)+

lemma wf_api: "state_io_rel (preserves status_wf) (api f c)"
  by (rule preserves_api) (simp add: status_wf_def)

lemma wf_set_status: "(\<And>st. Status_VPCSubnets (f st) = Status_VPCSubnets st \<and> Status_LoadBalancers (f st) = Status_LoadBalancers st) \<Longrightarrow> state_io_rel (preserves status_wf) (set_status f)"
  by (rule preserves_set_status) (simp add: status_wf_def)

lemma wf_set_both: "state_io_rel (preserves status_wf) (set_both K p)"
  unfolding set_both_status by (intro preserves.fr_bind wf_set_status) simp_all

lemma wf_set_all: "state_io_rel (preserves status_wf) (set_all K cs ls)"
proof (induction K cs ls rule: set_all.induct)
  case (2 K c cs)
  then show ?case by (simp add: set_condition_status) (intro preserves.fr_bind wf_set_status preserves.fr_return, simp)
next
  case (3 K c cs l ls)
  then show ?case by simp (intro preserves.fr_bind wf_set_both)
qed (simp add: preserves.fr_return)

lemma wf_collect: "state_io_rel (preserves status_wf) (collect K rs errs rq)"
  by (induction K rs errs rq rule: collect.induct) (auto intro!: preserves.fr_attempt wf_set_all preserves.fr_return)

lemma wf_modify: "(\<And>s. status (f s) = status s) \<Longrightarrow> state_io_rel (preserves status_wf) (modify f)"
  by (rule preserves.fr_modify) (simp add: preserves_def status_wf_def)

lemma wf_reconcile: "state_io_rel (preserves status_wf) (reconcile K C Cp Cv b)"
  unfolding reconcile_def run_parts_def reconcilePowerVSResources_def reconcileVPCResources_def reconcile_gateway_on_def
    reconcile_cos_and_endpoint_def publish_if_ready_def publish_endpoint_def set_provisioned_def set_endpoint_def ValidateZoneSupportsPER_def
    ReconcileResourceGroup_def resolveResourceGroupIDByName_def
  by (intro preserves.fr_rules preserves.fr_case_list wf_steps wf_api wf_set_both wf_collect wf_set_status wf_modify)
     (simp_all add: status_def)

lemma wf_reconcileDelete: "state_io_rel (preserves status_wf) (reconcileDelete K C)"
  unfolding reconcileDelete_def deleteIBMPowerVSImage_def delete_child_def delete_infrastructure_def no_requeue_def finish_delete_def
    delete_step_def set_condition_status remove_finalizer_def
  by (intro preserves.fr_rules wf_delete_steps wf_api wf_set_status wf_modify) (simp_all add: status_def)

section \<open>The life of a cluster\<close>

text \<open>
  The steps of the controller on one cluster: a reconcile or a deletion against whatever the cloud
  answers then, and the new scope the next request starts with (its object storage client is nil).
\<close>

inductive controller_step :: "capi \<Rightarrow> ClusterScope \<Rightarrow> ClusterScope \<Rightarrow> bool" for K where
  reconciled: "run_state (reconcile K C Cp Cv b) s = (r, t) \<Longrightarrow> controller_step K s t"
| deleted: "run_state (reconcileDelete K C) s = (r, t) \<Longrightarrow> controller_step K s t"
| rescoped: "controller_step K s (s\<lparr>scope_COSClient := False\<rparr>)"

inductive_cases controller_stepE: "controller_step K s t"

lemma step_owning: "controller_step K s t \<Longrightarrow> owning (\<lambda>sp c. owned sp c) s t"
proof (induction rule: controller_step.induct)
  case (reconciled C Cp Cv b s r t)
  then have "owning may_create s t" using state_io_relE [OF owning_reconcile [of K C Cp Cv b], of s] by simp
  then show ?case by (auto simp: owning_def elim: calls_in_mono)
next
  case (deleted C s r t)
  then have "owning may_delete s t" using state_io_relE [OF owning_reconcileDelete [of K C], of s] by simp
  then show ?case by (auto simp: owning_def elim: calls_in_mono)
next
  case (rescoped s)
  then show ?case by (simp add: owning_def identity_def spec_def calls_in_def)
qed

lemma step_wf: "controller_step K s t \<Longrightarrow> status_wf s \<Longrightarrow> status_wf t"
proof (induction rule: controller_step.induct)
  case (reconciled C Cp Cv b s r t)
  then show ?case using state_io_relE [OF wf_reconcile [of K C Cp Cv b], of s] by (simp add: preserves_def)
next
  case (deleted C s r t)
  then show ?case using state_io_relE [OF wf_reconcileDelete [of K C], of s] by (simp add: preserves_def)
next
  case (rescoped s)
  then show ?case by (simp add: status_wf_def status_def)
qed

lemma steps_owning: "(controller_step K)\<^sup>*\<^sup>* s t \<Longrightarrow> owning (\<lambda>sp c. owned sp c) s t"
  by (induction rule: rtranclp_induct) (auto intro: owning.R_refl owning.R_trans step_owning)

text \<open>
  C99: over the whole life of a cluster, through any number of reconciles and deletions and whatever
  the cloud answers, every call that creates or deletes a resource is on a kind of resource the spec gives
  to the controller, and the identity and the spec of the cluster, but for the control plane endpoint, stay what
  they were. In the state reached, a reconcile deletes nothing, and a deletion deletes only what is
  \<open>tracked\<close> there: the recorded ID of a provisioned workspace, object storage instance, transit gateway
  or connection, and for DHCP server, VPC, subnets, load balancers and security groups the ID answered or recorded for
  an entry whose name is that of an entry of the spec the controller is to provision.
\<close>

theorem lifetime_owned:
  assumes "(controller_step K)\<^sup>*\<^sup>* s t"
  shows "list_all (owned (spec s)) (new_calls s t) \<and> identity t = identity s \<and>
    list_all (\<lambda>c. \<not> deletes c) (new_calls t (snd (run_state (reconcile K C Cp Cv b) t))) \<and>
    judged (tracked C t) t (snd (run_state (reconcileDelete K C) t))"
proof (intro conjI)
  have "owning may_create t (snd (run_state (reconcile K C Cp Cv b) t))"
    by (rule state_io_relE [OF owning_reconcile])
  then show "list_all (\<lambda>c. \<not> deletes c) (new_calls t (snd (run_state (reconcile K C Cp Cv b) t)))"
    by (auto simp: owning_def list_all_iff dest!: calls_in_new)
  show "judged (tracked C t) t (snd (run_state (reconcileDelete K C) t))"
    using state_io_relE [OF tracking_reconcileDelete] by (simp add: tracking_def)
qed (use steps_owning [OF assms] in \<open>auto simp: owning_def list_all_iff dest!: calls_in_new\<close>)

lemma example_step: "controller_step example_capi fresh (snd (run_state (reconcile example_capi example_cloud example_cloud example_cloud True) fresh))"
  by (rule controller_step.reconciled [OF surjective_pairing])

theorem lifetime_owned_witness:
  "list_all (owned (spec fresh)) (new_calls fresh (snd (run_state (reconcile example_capi example_cloud example_cloud example_cloud True) fresh))) \<and>
   (\<exists>c. c \<in> set (new_calls settled (snd (run_state (reconcileDelete example_capi example_cloud) settled))) \<and> deletes c) \<and>
   judged (tracked example_cloud settled) settled (snd (run_state (reconcileDelete example_capi example_cloud) settled))"
proof (intro conjI)
  show "list_all (owned (spec fresh)) (new_calls fresh (snd (run_state (reconcile example_capi example_cloud example_cloud example_cloud True) fresh)))"
    using lifetime_owned [OF r_into_rtranclp, OF example_step] by blast
  show "judged (tracked example_cloud settled) settled (snd (run_state (reconcileDelete example_capi example_cloud) settled))"
    using lifetime_owned [OF rtranclp.rtrancl_refl, where K = example_capi and s = settled and C = example_cloud] by blast
  have "list_ex deletes (new_calls settled (snd (run_state (reconcileDelete example_capi example_cloud) settled)))" by code_simp
  then show "\<exists>c. c \<in> set (new_calls settled (snd (run_state (reconcileDelete example_capi example_cloud) settled))) \<and> deletes c"
    by (auto simp: list_ex_iff)
qed

text \<open>
  C5: the lists of subnets and load balancers in the status, which Kubernetes merges by name, never
  have two entries of the same name, through the whole life of the cluster.
\<close>

theorem lifetime_status_wf:
  assumes "(controller_step K)\<^sup>*\<^sup>* s t" and "status_wf s"
  shows "status_wf t"
  using assms by (induction rule: rtranclp_induct) (auto intro: step_wf)

theorem lifetime_status_wf_witness:
  "status_wf (snd (run_state (reconcile example_capi example_cloud example_cloud example_cloud True) fresh))"
proof -
  have "status_wf fresh" by code_simp
  then show ?thesis using lifetime_status_wf [OF r_into_rtranclp, OF example_step] by blast
qed

end
