(* ===== verification/Controller_Outcome.thy ===== *)
theory Controller_Outcome
  imports Cluster_Controller
begin

text \<open>
  What a reconcile promises when it ends: the cluster is announced as provisioned, with its control
  plane endpoint, only when the infrastructure is there; the finalizer goes only when the
  infrastructure is gone; and what a stale condition can do to the first promise.
\<close>

section \<open>Announcing the cluster\<close>

text \<open>What tells Cluster API that the infrastructure is ready.\<close>

abbreviation announced :: "ClusterScope \<Rightarrow> IBMPowerVSClusterInitializationStatus \<times> APIEndpoint" where
  "announced s \<equiv> (Status_Initialization (status s), Spec_ControlPlaneEndpoint (spec s))"

definition endpoint_published :: "ClusterScope \<Rightarrow> bool" where
  "endpoint_published t \<longleftrightarrow>
     Initialization_Provisioned (Status_Initialization (status t)) = Some True \<and>
     APIEndpoint_Host (Spec_ControlPlaneEndpoint (spec t)) \<noteq> [] \<and>
     APIEndpoint_Host (Spec_ControlPlaneEndpoint (spec t)) \<in> LoadBalancerStatus_Hostname ` set (Status_LoadBalancers (status t)) \<and>
     APIEndpoint_Port (Spec_ControlPlaneEndpoint (spec t)) = APIServerPort t"

definition infrastructure_ready :: "capi \<Rightarrow> ClusterScope \<Rightarrow> bool" where
  "infrastructure_ready K t \<longleftrightarrow>
     ResourceReference_ID (Status_Workspace (status t)) \<noteq> [] \<and> connections_attached t \<and>
     (COSInstanceSource_Type (cos_spec t) = OtherSourceType [] \<or>
        COSInstanceStatus_BucketName (cos_status t) \<noteq> [] \<and> COSInstanceStatus_BucketRegion (cos_status t) \<noteq> [] \<and>
        COSInstanceStatus_HMACSecretName (cos_status t) \<noteq> []) \<and>
     conditions_IsTrue K (Status_Conditions (status t)) NetworkReadyCondition \<and>
     conditions_IsTrue K (Status_Conditions (status t)) VPCLoadBalancerReadyCondition"

text \<open>Setting the endpoint changes nothing of the status and nothing else of the spec.\<close>

definition at_endpoint :: "string \<Rightarrow> int \<Rightarrow> ClusterScope \<Rightarrow> ClusterScope" where
  "at_endpoint host port s = s\<lparr>scope_cluster := (scope_cluster s)\<lparr>Cluster_Spec := (Cluster_Spec (scope_cluster s))
     \<lparr>Spec_ControlPlaneEndpoint := \<lparr>APIEndpoint_Host = host, APIEndpoint_Port = port\<rparr>\<rparr>\<rparr>\<rparr>"

lemma wp_set_endpoint [wp_simps]: "wp (set_endpoint host port) Q s = Q () (at_endpoint host port s)"
  unfolding set_endpoint_def at_endpoint_def by (rule wp_modify)

lemma at_endpoint_simps [simp]:
  "status (at_endpoint host port s) = status s"
  "Spec_ControlPlaneEndpoint (spec (at_endpoint host port s)) = \<lparr>APIEndpoint_Host = host, APIEndpoint_Port = port\<rparr>"
  "Spec_COSInstance (spec (at_endpoint host port s)) = Spec_COSInstance (spec s)"
  "APIServerPort (at_endpoint host port s) = APIServerPort s"
  by (simp_all add: at_endpoint_def status_def spec_def APIServerPort_def)

lemma fixed_part_APIServerPort: "fixed_part t = fixed_part s \<Longrightarrow> APIServerPort t = APIServerPort s"
  by (simp add: fixed_part_def APIServerPort_def)

lemma infrastructure_ready_at_end:
  assumes "status u = status s" and "spec u = spec s"
  shows "infrastructure_ready K (upd_status (\<lambda>st. st\<lparr>Status_Initialization := f st\<rparr>) (at_endpoint h n u)) = infrastructure_ready K s"
  by (simp add: infrastructure_ready_def connection_status_def assms cong: networkConnectionType.case_cong)

definition ended :: "capi \<Rightarrow> ClusterScope \<Rightarrow> Result outcome \<Rightarrow> ClusterScope \<Rightarrow> bool" where
  "ended K s r t = (if r = Ok finished then infrastructure_ready K t \<and> endpoint_published t else announced t = announced s)"

lemma publish_endpoint_outcome:
  assumes "infrastructure_ready K s"
  shows "wp (publish_endpoint C) (ended K s) s"
  unfolding publish_endpoint_def wp_attempt set_provisioned_def
proof (rule wp_mono [OF wp_GetPublicLoadBalancerHostName], elim conjE, intro conjI allI impI)
  fix r u assume u: "status u = status s" and fixed: "fixed_part u = fixed_part s"
    and host: "\<forall>h. r = Ok (Some h) \<longrightarrow> h \<noteq> [] \<and> h \<in> LoadBalancerStatus_Hostname ` set (Status_LoadBalancers (status s))"
  have sp: "spec u = spec s" using fixed by (rule fixed_part_spec)
  show "ended K s Panic u" by (simp add: ended_def u sp)
  show "wp (fail (Wrapf msg_failed_fetch_public_loadbalancer e)) (ended K s) u" for e by (simp add: ended_def wp_return u sp)
  fix hostName assume r: "r = Ok hostName"
  show "wp (if ptr_Deref hostName [] = [] then ok \<lparr>RequeueAfter = 60\<rparr>
        else do { s \<leftarrow> get_scope; set_endpoint (ptr_Deref hostName []) (APIServerPort s);
          set_status (\<lambda>st. st\<lparr>Status_Initialization := (Status_Initialization st)\<lparr>Initialization_Provisioned := Some True\<rparr>\<rparr>); ok finished })
      (ended K s) u"
  proof (cases hostName)
    case None
    then show ?thesis by (simp add: ended_def ptr_Deref_def wp_return u sp)
  next
    case (Some h)
    then have h: "h \<noteq> []" "h \<in> LoadBalancerStatus_Hostname ` set (Status_LoadBalancers (status u))" using host r u by auto
    then show ?thesis
      by (simp add: ended_def Some ptr_Deref_def wp_simps infrastructure_ready_at_end [OF u sp] assms endpoint_published_def)
  qed
qed

text \<open>Setting a condition, as an update of the status.\<close>

definition conditioned :: "capi \<Rightarrow> Condition \<times> DeprecatedCondition \<Rightarrow> IBMPowerVSClusterStatus \<Rightarrow> IBMPowerVSClusterStatus" where
  "conditioned K p st = st\<lparr>Status_Conditions := conditions_Set K (Status_Conditions st) (fst p),
     Status_Deprecated := legacy_put K (snd p) (Status_Deprecated st)\<rparr>"

lemma wp_set_both [wp_simps]: "wp (set_both K p) Q s = Q () (upd_status (conditioned K p) s)"
  unfolding set_both_status wp_bind wp_set_status conditioned_def by (simp add: upd_status_def)

lemma conditioned_simps [simp]:
  "Status_Initialization (conditioned K p st) = Status_Initialization st" "Status_Workspace (conditioned K p st) = Status_Workspace st"
  "Status_TransitGateway (conditioned K p st) = Status_TransitGateway st" "Status_COSInstance (conditioned K p st) = Status_COSInstance st"
  "Status_VPC (conditioned K p st) = Status_VPC st" "Status_VPCSubnets (conditioned K p st) = Status_VPCSubnets st"
  "Status_LoadBalancers (conditioned K p st) = Status_LoadBalancers st"
  "Status_Conditions (conditioned K p st) = conditions_Set K (Status_Conditions st) (fst p)"
  "connection_status ty (conditioned K p st) = connection_status ty st"
  by (simp_all add: conditioned_def connection_status_def split: networkConnectionType.split)

lemma keeps_set_both: "(\<And>s f. p (upd_status (\<lambda>st. st\<lparr>Status_Conditions := f st\<rparr>) s) = p s) \<Longrightarrow>
   (\<And>s f. p (upd_status (\<lambda>st. st\<lparr>Status_Deprecated := f st\<rparr>) s) = p s) \<Longrightarrow> state_io_rel (keeps p) (set_both K c)"
  unfolding set_both_status by (intro keeps.fr_bind keeps_set_status)

lemma keeps_set_all: "(\<And>s f. p (upd_status (\<lambda>st. st\<lparr>Status_Conditions := f st\<rparr>) s) = p s) \<Longrightarrow>
   (\<And>s f. p (upd_status (\<lambda>st. st\<lparr>Status_Deprecated := f st\<rparr>) s) = p s) \<Longrightarrow> state_io_rel (keeps p) (set_all K cs ls)"
proof (induction K cs ls rule: set_all.induct)
  case (2 K c cs)
  then show ?case by (simp add: set_condition_status) (intro keeps.fr_bind keeps_set_status keeps.fr_return)
next
  case (3 K c cs l ls)
  then show ?case by simp (intro keeps.fr_bind keeps_set_both)
qed (simp add: keeps.fr_return)

text \<open>The conditions a part reports, set in their order.\<close>

definition reported :: "componentResult \<Rightarrow> (Condition \<times> DeprecatedCondition) list" where
  "reported res = zip (cr_conditions res) (cr_legacy res)"

lemma run_set_both: "run_state (set_both K p) s = ((), upd_status (conditioned K p) s)"
  by (simp add: wp_eq wp_set_both)

lemma run_set_all:
  "length cs = length ls \<Longrightarrow> run_state (set_all K cs ls) s = (Ok (), upd_status (fold (conditioned K) (zip cs ls)) s)"
proof (induction cs ls arbitrary: s rule: list_induct2)
  case (Cons c cs l ls)
  show ?case by (simp add: run_set_both Cons.IH) (simp add: upd_status_def)
qed (simp add: upd_status_def)

lemma run_collect:
  "list_all (\<lambda>res. cr_err res = None \<and> \<not> cr_requeue res \<and> length (cr_conditions res) = length (cr_legacy res)) rs \<Longrightarrow>
   run_state (collect K rs [] False) s = (Ok ([], False), upd_status (fold (conditioned K) (concat (map reported rs))) s)"
proof (induction rs arbitrary: s)
  case (Cons res rest)
  then show ?case by (simp add: attempt_def run_set_all reported_def upd_status_def)
qed (simp add: upd_status_def)

text \<open>What the steps after the two parts leave as it is.\<close>

abbreviation settled_part where
  "settled_part s \<equiv> (announced s, spec s, Status_Workspace (status s))"

lemma cos_and_endpoint_outcome:
  assumes "ResourceReference_ID (Status_Workspace (status u)) \<noteq> []" and "connections_attached u"
  shows "wp (reconcile_cos_and_endpoint K C) (ended K u) u"
proof -
  let ?store = "\<lambda>t. COSInstanceStatus_BucketName (cos_status t) \<noteq> [] \<and> COSInstanceStatus_BucketRegion (cos_status t) \<noteq> [] \<and>
      COSInstanceStatus_HMACSecretName (cos_status t) \<noteq> []"
  let ?kept = "\<lambda>t. settled_part t = settled_part u \<and> Status_TransitGateway (status t) = Status_TransitGateway (status u)"
  have finish: "wp (publish_if_ready K C) (ended K u) t"
    if t: "?kept t" and store: "COSInstanceSource_Type (cos_spec u) = OtherSourceType [] \<or> ?store t" for t
  proof -
    have ready: "infrastructure_ready K t" if "conditions_IsTrue K (Status_Conditions (status t)) NetworkReadyCondition"
        "conditions_IsTrue K (Status_Conditions (status t)) VPCLoadBalancerReadyCondition"
      using that assms t store by (auto simp: infrastructure_ready_def connection_status_def cong: networkConnectionType.case_cong)
    have "ended K u r v" if "ended K t r v" for r v using that t by (simp add: ended_def split: if_splits)
    then show ?thesis
      unfolding publish_if_ready_def wp_bind wp_get wp_if wp_return
      using t by (auto simp: ended_def [of _ _ "Ok _"] GetConditions_def status_def [symmetric] intro!: wp_mono [OF publish_endpoint_outcome [OF ready]])
  qed
  have cos: "wp (ReconcileCOSInstance C) (\<lambda>r t. ?kept t \<and> (r = Ok () \<longrightarrow> ?store t)) u" if "COSInstanceSource_Type (cos_spec u) \<noteq> OtherSourceType []"
  proof -
    have "wp (ReconcileCOSInstance C) (\<lambda>_ t. (settled_part t, Status_TransitGateway (status t)) = (settled_part u, Status_TransitGateway (status u))) u"
      by (intro keeps_wp keeps_ReconcileCOSInstance) simp_all
    from wp_conj [OF this wp_ReconcileCOSInstance_ready [OF that]] show ?thesis by (rule wp_mono) simp
  qed
  show ?thesis
    unfolding reconcile_cos_and_endpoint_def wp_bind wp_get wp_attempt wp_if
    by (auto simp: wp_simps ended_def [of _ _ "Err _"] ended_def [of _ _ Panic] intro!: finish wp_mono [OF cos])
qed


lemma ended_from: "announced u = announced s \<Longrightarrow> ended K u = ended K s"
  by (simp add: ended_def fun_eq_iff)

lemma gateway_on_outcome:
  assumes "ResourceReference_ID (Status_Workspace (status u)) \<noteq> []" and "Spec_Topology (spec u) \<noteq> PowerVSVirtualIPTopology"
  shows "wp (reconcile_gateway_on K C) (ended K u) u"
proof -
  have "wp (ReconcileTransitGateway C) (\<lambda>_ t. settled_part t = settled_part u) u"
    by (intro keeps_wp keeps_ReconcileTransitGateway) simp_all
  from wp_conj [OF this wp_ReconcileTransitGateway_ready [OF assms(2)]]
  have gateway: "wp (ReconcileTransitGateway C) (\<lambda>r t. settled_part t = settled_part u \<and> (r = Ok False \<longrightarrow> connections_attached t)) u"
    by (rule wp_mono) auto
  have finish: "wp (reconcile_cos_and_endpoint K C) (ended K u) (upd_status (conditioned K p) t)"
    if t: "settled_part t = settled_part u" and "connections_attached t" for t p
  proof -
    let ?v = "upd_status (conditioned K p) t"
    have "wp (reconcile_cos_and_endpoint K C) (ended K ?v) ?v" using that assms by (intro cos_and_endpoint_outcome) simp_all
    then show ?thesis using t by (subst (asm) ended_from [where s = u]) simp_all
  qed
  show ?thesis
    unfolding reconcile_gateway_on_def wp_attempt
    by (rule wp_mono [OF gateway]) (auto simp: wp_simps finish ended_def [of _ _ "Err _"] ended_def [of _ _ Panic] ended_def [of _ _ "Ok \<lparr>RequeueAfter = 60\<rparr>"])
qed

text \<open>Nothing of run_set_both parts is left to do when no error and no requeue came back.\<close>

lemma wp_collect:
  "wp (collect K rs errs q) (\<lambda>r t. settled_part t = settled_part s \<and>
     (r = Ok ([], False) \<longrightarrow> errs = [] \<and> \<not> q \<and> list_all (\<lambda>res. cr_err res = None \<and> \<not> cr_requeue res) rs)) s"
proof (induction rs arbitrary: errs q s)
  case (Cons res rest)
  have set_all: "wp (set_all K (cr_conditions res) (cr_legacy res)) (\<lambda>_ t. settled_part t = settled_part s) s"
    by (intro keeps_wp keeps_set_all) simp_all
  show ?case
    unfolding collect.simps wp_attempt
  proof (rule wp_mono [OF set_all], intro conjI allI impI)
    fix r t assume t: "settled_part t = settled_part s"
    show "wp (collect K rest (case cr_err res of None \<Rightarrow> errs | Some e \<Rightarrow> errs @ [e]) (q \<or> cr_requeue res))
        (\<lambda>r t. settled_part t = settled_part s \<and> (r = Ok ([], False) \<longrightarrow> errs = [] \<and> \<not> q \<and>
           list_all (\<lambda>res. cr_err res = None \<and> \<not> cr_requeue res) (res # rest))) t"
      by (rule wp_mono [OF Cons.IH]) (use t in \<open>auto split: option.splits\<close>)
  qed (simp_all add: wp_return)
qed (simp add: wp_return)

lemma powervs_part_outcome:
  "wp (reconcilePowerVSResources C) (\<lambda>r t. announced t = announced s \<and> spec t = spec s \<and>
     (\<forall>res. r = Ok res \<and> cr_err res = None \<and> \<not> cr_requeue res \<longrightarrow> ResourceReference_ID (Status_Workspace (status t)) \<noteq> [])) s"
proof -
  have "wp (ReconcileWorkspace C) (\<lambda>_ t. (announced t, spec t) = (announced s, spec s)) s"
    by (intro keeps_wp keeps_ReconcileWorkspace) simp_all
  note workspace = wp_conj [OF this wp_ReconcileWorkspace_tracked]
  have network: "wp (ReconcileNetwork C) (\<lambda>_ t. settled_part t = settled_part u) u" for u
    by (intro keeps_wp keeps_ReconcileNetwork) simp_all
  show ?thesis
    unfolding reconcilePowerVSResources_def wp_attempt Let_def
    by (rule wp_mono [OF workspace]) (auto simp: wp_simps step_failed_def intro!: wp_mono [OF network])
qed

lemma keeps_vpc_part: "state_io_rel (keeps settled_part) (reconcileVPCResources C)"
  unfolding reconcileVPCResources_def
  by (intro frame_keeps keeps_ReconcileVPC keeps_ReconcileVPCSubnets keeps_ReconcileVPCSecurityGroups keeps_ReconcileLoadBalancers) simp_all


definition parts_settled :: "ClusterScope \<Rightarrow> componentResult list outcome \<Rightarrow> ClusterScope \<Rightarrow> bool" where
  "parts_settled s r t \<longleftrightarrow> announced t = announced s \<and> spec t = spec s \<and>
     (\<forall>rs. r = Ok rs \<and> list_all (\<lambda>res. cr_err res = None \<and> \<not> cr_requeue res) rs \<longrightarrow>
        ResourceReference_ID (Status_Workspace (status t)) \<noteq> [])"

lemma parts_outcome: "wp (run_parts Cp Cv pvs_first) (parts_settled s) s"
proof -
  have vpc: "wp (reconcileVPCResources Cv) (\<lambda>_ u. settled_part u = settled_part t) t" for t
    by (intro keeps_wp keeps_vpc_part)
  show ?thesis
    unfolding run_parts_def wp_attempt
    by (rule wp_mono [OF powervs_part_outcome], elim conjE, intro conjI allI impI)
       (rule wp_mono [OF vpc] | force simp: parts_settled_def wp_return)+
qed

lemma keeps_zone_and_group:
  "state_io_rel (keeps (\<lambda>s. (announced s, spec s))) (ValidateZoneSupportsPER C)"
  "state_io_rel (keeps (\<lambda>s. (announced s, spec s))) (ReconcileResourceGroup C)"
  unfolding ValidateZoneSupportsPER_def by (intro frame_keeps keeps_ReconcileResourceGroup; simp)+

text \<open>The reconcile of the load balancer topology, up to the topology check.\<close>

definition collected :: "capi \<Rightarrow> clients \<Rightarrow> clients \<Rightarrow> clients \<Rightarrow> bool \<Rightarrow> Result scope_proc" where
  "collected K C Cp Cv pvs_first =
     bindE (run_parts Cp Cv pvs_first) (\<lambda>results.
     bindE (collect K results [] False) (\<lambda>(errList, needsRequeue).
       if errList \<noteq> [] then fail (AggregateErr errList)
       else if needsRequeue then ok \<lparr>RequeueAfter = 30\<rparr>
       else reconcile_gateway_on K C))"

lemma collected_outcome:
  assumes "Spec_Topology (spec s) \<noteq> PowerVSVirtualIPTopology"
  shows "wp (collected K C Cp Cv pvs_first) (ended K s) s"
proof -
  have same: "ended K s r t" if "announced t = announced s" "r \<noteq> Ok finished" for r t
    using that by (simp add: ended_def)
  have gateway: "wp (reconcile_gateway_on K C) (ended K s) u"
    if "announced u = announced s" "spec u = spec s" "ResourceReference_ID (Status_Workspace (status u)) \<noteq> []" for u
    using gateway_on_outcome [of u K C] that assms by (simp add: ended_from [of u s])
  have "wp (bindE (collect K results [] False) (\<lambda>(errList, needsRequeue).
       if errList \<noteq> [] then fail (AggregateErr errList)
       else if needsRequeue then ok \<lparr>RequeueAfter = 30\<rparr>
       else reconcile_gateway_on K C)) (ended K s) t"
    if "parts_settled s (Ok results) t" for results t
    unfolding wp_attempt
    by (rule wp_mono [OF wp_collect]) (use that in \<open>auto simp: wp_simps parts_settled_def intro!: same gateway\<close>)
  then show ?thesis
    unfolding collected_def wp_attempt
    by (intro wp_mono [OF parts_outcome]) (auto simp: wp_return parts_settled_def intro!: same)
qed


text \<open>
  C2: a reconcile that ends without error and without a requeue has announced the cluster: in the
  load balancer topology the workspace is tracked, run_set_both connections of the transit gateway are
  attached, the object storage (if asked for) has its bucket and Secret, the network and load
  balancer conditions are True, and the control plane endpoint is the host name of a recorded load
  balancer with the API server port; in the virtual IP topology only the flag is set. In every
  other case the flag and the endpoint are what they were.
\<close>

theorem reconcile_announces:
  assumes "run_state (reconcile K C Cp Cv pvs_first) s = (r, t)"
  shows "if Spec_Topology (spec s) = PowerVSVirtualIPTopology
         then r = Ok finished \<and> announced t = (\<lparr>Initialization_Provisioned = Some True\<rparr>, Spec_ControlPlaneEndpoint (spec s))
         else if r = Ok finished then infrastructure_ready K t \<and> endpoint_published t
         else announced t = announced s"
proof (cases "Spec_Topology (spec s) = PowerVSVirtualIPTopology")
  case True
  have "wp (reconcile K C Cp Cv pvs_first) (\<lambda>r t. r = Ok finished \<and>
      announced t = (\<lparr>Initialization_Provisioned = Some True\<rparr>, Spec_ControlPlaneEndpoint (spec s))) s"
    unfolding reconcile_def set_provisioned_def by (simp add: wp_simps True)
  then show ?thesis using wpD [OF _ assms] True by simp
next
  case False
  have "wp (reconcile K C Cp Cv pvs_first) (ended K s) s"
  proof -
    have same: "ended K s r t" if "announced t = announced s" "r \<noteq> Ok finished" for r t
      using that by (simp add: ended_def)
    have rest: "wp (collected K C Cp Cv pvs_first) (ended K s) u" if "announced u = announced s" "spec u = spec s" for u
      using collected_outcome [of u K C Cp Cv pvs_first] that False by (simp add: ended_from [of u s])
    note keep = wp_mono [OF keeps_wp [OF keeps_zone_and_group(1)]] wp_mono [OF keeps_wp [OF keeps_zone_and_group(2)]]
    show ?thesis
      unfolding reconcile_def collected_def [symmetric]
      by (simp only: wp_bind wp_get wp_if wp_attempt) (auto simp: False wp_return intro!: same rest keep)
  qed
  from wpD [OF this assms] show ?thesis using False by (simp add: ended_def)
qed

text \<open>A reconcile of the example with everything in place, step by step.\<close>

lemma run_bindE: "run_state m s = (Ok a, t) \<Longrightarrow> run_state (attempt m h k) s = run_state (k a) t"
  by (simp add: attempt_def)

lemma run_step: "fst (run_state m s) = a \<Longrightarrow> run_state m s = (a, snd (run_state m s))"
  by (simp add: prod_eq_iff)

abbreviation (input) workspace_and_network :: componentResult where
  "workspace_and_network \<equiv> step_ready NetworkReadyCondition NetworkReadyV1Beta2Condition
     (step_ready WorkspaceReadyCondition ServiceInstanceReadyV1Beta2Condition componentResult0)"

abbreviation (input) vpc_to_load_balancers :: componentResult where
  "vpc_to_load_balancers \<equiv> step_ready VPCLoadBalancerReadyCondition LoadBalancerReadyV1Beta2Condition
     (step_ready VPCSecurityGroupReadyCondition VPCSecurityGroupReadyV1Beta2Condition
       (step_ready VPCSubnetReadyCondition VPCSubnetReadyV1Beta2Condition
         (step_ready VPCReadyCondition VPCReadyV1Beta2Condition componentResult0)))"

definition after_group :: ClusterScope where
  "after_group = snd (run_state (ReconcileResourceGroup example_cloud) (snd (run_state (ValidateZoneSupportsPER example_cloud) settled)))"
definition after_powervs :: ClusterScope where "after_powervs = snd (run_state (reconcilePowerVSResources example_cloud) after_group)"
definition after_vpc :: ClusterScope where "after_vpc = snd (run_state (reconcileVPCResources example_cloud) after_powervs)"
definition after_collect :: ClusterScope where
  "after_collect = upd_status (\<lambda>st. fold (conditioned example_capi) (reported workspace_and_network @ reported vpc_to_load_balancers) st) after_vpc"
definition after_gateway :: ClusterScope where
  "after_gateway = upd_status (conditioned example_capi (buildConditions TransitGatewayReadyCondition TransitGatewayReadyV1Beta2Condition ConditionTrue ReadyReason [] None))
     (snd (run_state (ReconcileTransitGateway example_cloud) after_collect))"
definition after_cos :: ClusterScope where
  "after_cos = upd_status (conditioned example_capi (buildConditions COSInstanceReadyCondition COSInstanceReadyV1Beta2Condition ConditionTrue ReadyReason [] None))
     (snd (run_state (ReconcileCOSInstance example_cloud) after_gateway))"

lemma powervs_stage: "fst (run_state (reconcilePowerVSResources example_cloud) after_group) = Ok workspace_and_network"
  by code_simp
lemma vpc_stage: "fst (run_state (reconcileVPCResources example_cloud) after_powervs) = Ok vpc_to_load_balancers"
  by code_simp
lemma gateway_stage: "fst (run_state (ReconcileTransitGateway example_cloud) after_collect) = Ok False"
  by code_simp
lemma cos_stage: "fst (run_state (ReconcileCOSInstance example_cloud) after_gateway) = Ok ()"
  by code_simp
lemma publish_stage: "fst (run_state (publish_if_ready example_capi example_cloud) after_cos) = Ok finished"
  by code_simp


lemma zone_stage:
  "fst (run_state (ValidateZoneSupportsPER example_cloud) settled) = Ok ()"
  "fst (run_state (ReconcileResourceGroup example_cloud) (snd (run_state (ValidateZoneSupportsPER example_cloud) settled))) = Ok ()"
  by code_simp+

lemma topology_stage: "Spec_Topology (spec settled) = PowerVSLoadBalancerTopology" "COSInstanceSource_Type (Spec_COSInstance (spec after_gateway)) = SourceTypeProvision"
  by code_simp+

lemma example_parts:
  "run_state (run_parts example_cloud example_cloud True) after_group = (Ok [workspace_and_network, vpc_to_load_balancers], after_vpc)"
  unfolding run_parts_def
  by (simp add: run_bindE [OF run_step, OF powervs_stage] run_bindE [OF run_step, OF vpc_stage] after_powervs_def [symmetric] after_vpc_def [symmetric])

lemma example_collect:
  "run_state (collect example_capi [workspace_and_network, vpc_to_load_balancers] [] False) after_vpc = (Ok ([], False), after_collect)"
  unfolding after_collect_def
  by (subst run_collect) (simp_all add: step_ready_def add_condition_def componentResult0_def)

lemma example_from_gateway: "fst (run_state (reconcile_gateway_on example_capi example_cloud) after_collect) = Ok finished"
proof -
  have "run_state (reconcile_cos_and_endpoint example_capi example_cloud) after_gateway = run_state (publish_if_ready example_capi example_cloud) after_cos"
    unfolding reconcile_cos_and_endpoint_def after_cos_def
    by (simp add: topology_stage run_bindE [OF run_step, OF cos_stage] run_set_both attempt_def [of "attempt _ _ _"])
  then show ?thesis
    unfolding reconcile_gateway_on_def
    by (simp add: run_bindE [OF run_step, OF gateway_stage] run_set_both after_gateway_def [symmetric] publish_stage)
qed

lemma settled_reconcile: "fst (run_state (reconcile example_capi example_cloud example_cloud example_cloud True) settled) = Ok finished"
  unfolding reconcile_def
  by (simp add: topology_stage run_bindE [OF run_step, OF zone_stage(1)] run_bindE [OF run_step, OF zone_stage(2)] after_group_def [symmetric]
      run_bindE [OF example_parts] run_bindE [OF example_collect] example_from_gateway del: collect.simps)

theorem reconcile_announces_witness:
  "endpoint_published (snd (run_state (reconcile example_capi example_cloud example_cloud example_cloud True) settled))"
proof -
  have "Spec_Topology (spec settled) \<noteq> PowerVSVirtualIPTopology" by (simp add: topology_stage)
  then show ?thesis using reconcile_announces [OF surjective_pairing] settled_reconcile by metis
qed

section \<open>Stale conditions\<close>

text \<open>
  a network that is pending is reported by nothing: when the workspace is ready and
  \<open>ReconcileNetwork\<close> asks for a requeue, the PowerVS part returns without error and without a
  requeue, and after its conditions are set the network condition is what an earlier reconcile
  left. If that was True, the readiness check of \<open>reconcile\<close> passes on the stale value.
\<close>

theorem pending_network_unreported:
  assumes "conditions_by_type K"
    and "run_state (ReconcileWorkspace C) s = (Ok False, u)" and "run_state (ReconcileNetwork C) u = (Ok True, t)"
  shows "\<exists>res. run_state (reconcilePowerVSResources C) s = (Ok res, t) \<and>
     (\<exists>v. run_state (collect K [res] [] False) t = (Ok ([], False), v) \<and>
        conditions_IsTrue K (Status_Conditions (status v)) NetworkReadyCondition =
        conditions_IsTrue K (Status_Conditions (status t)) NetworkReadyCondition)"
proof -
  let ?res = "step_ready WorkspaceReadyCondition ServiceInstanceReadyV1Beta2Condition componentResult0"
  have "run_state (reconcilePowerVSResources C) s = (Ok ?res, t)"
    unfolding reconcilePowerVSResources_def Let_def by (simp add: run_bindE [OF assms(2)] run_bindE [OF assms(3)])
  moreover have "NetworkReadyCondition \<noteq> WorkspaceReadyCondition" by code_simp
  ultimately show ?thesis
    using assms(1) by (auto simp: run_collect step_ready_def add_condition_def componentResult0_def reported_def conditions_by_type_def buildConditions_def simp del: collect.simps)
qed

text \<open>The DHCP server of the settled cluster is being built again, its condition is True from before.\<close>

definition rebuilding_cloud :: clients where
  "rebuilding_cloud = example_cloud\<lparr>IBMPowerVSClient := (IBMPowerVSClient example_cloud)
     \<lparr>on_GetDHCPServer := \<lambda>_ i. Reply (Some \<lparr>dhcpd_ID = Some i, dhcpd_Status = Some DHCPServerStateBuild\<rparr>)\<rparr>\<rparr>"

definition was_ready :: ClusterScope where
  "was_ready = scope_of example_spec (settled_status\<lparr>Status_Conditions :=
     [\<lparr>Condition_Type = NetworkReadyCondition, Condition_Status = ConditionTrue, Condition_Reason = ReadyReason, Condition_Message = None\<rparr>]\<rparr>)"

theorem pending_network_unreported_witness:
  "\<exists>res t v. run_state (reconcilePowerVSResources rebuilding_cloud) was_ready = (Ok res, t) \<and>
     run_state (collect example_capi [res] [] False) t = (Ok ([], False), v) \<and>
     conditions_IsTrue example_capi (Status_Conditions (status v)) NetworkReadyCondition"
proof -
  let ?u = "snd (run_state (ReconcileWorkspace rebuilding_cloud) was_ready)"
  let ?t = "snd (run_state (ReconcileNetwork rebuilding_cloud) ?u)"
  have "fst (run_state (ReconcileWorkspace rebuilding_cloud) was_ready) = Ok False" by code_simp
  moreover have "fst (run_state (ReconcileNetwork rebuilding_cloud) ?u) = Ok True" by code_simp
  moreover have "conditions_IsTrue example_capi (Status_Conditions (status ?t)) NetworkReadyCondition" by code_simp
  ultimately show ?thesis
    using pending_network_unreported [OF example_capi_by_type, of rebuilding_cloud was_ready ?u ?t] by (auto simp: prod_eq_iff)
qed

end
