(* ===== verification/Deletion_Outcome.thy ===== *)
theory Deletion_Outcome
  imports Cluster_Controller
begin

text \<open>
  When the finalizer of a cluster goes. The deletion runs every step whatever the earlier ones
  returned and collects their errors, so the facts the steps establish are carried along as
  ``an error was collected, or all of them hold''. What the cloud answered is stated of the answers
  in this run of the deletion (\<open>told\<close>).
\<close>

section \<open>What was answered in a run\<close>

text \<open>A call between \<open>s\<close> and \<open>t\<close> that satisfies \<open>A\<close> together with the calls before it, on which its answer depends.\<close>

definition told :: "(history \<Rightarrow> call \<Rightarrow> bool) \<Rightarrow> ClusterScope \<Rightarrow> ClusterScope \<Rightarrow> bool" where
  "told A s t \<longleftrightarrow> (\<exists>h c k. trace t = trace s @ h @ c # k \<and> A (trace s @ h) c)"

abbreviation kept :: "(ClusterScope \<Rightarrow> 'p) \<Rightarrow> ClusterScope \<Rightarrow> ClusterScope \<Rightarrow> bool" where
  "kept p \<equiv> within p (\<lambda>_. True)"

lemma kept_iff: "kept p s t \<longleftrightarrow> fixed_part t = fixed_part s \<and> p t = p s \<and> (\<exists>k. trace t = trace s @ k)"
  by (auto simp: within_def calls_in_def list_all_iff)

lemma told_later: "told A s u \<Longrightarrow> kept p u t \<Longrightarrow> told A s t"
  unfolding told_def kept_iff by force

lemma told_now:
  assumes "kept p s u" and "trace t = trace u @ h @ c # k" and "A (trace u @ h) c"
  shows "told A s t"
proof -
  obtain k0 where "trace u = trace s @ k0" using assms(1) by (auto simp: kept_iff)
  then show ?thesis unfolding told_def using assms(2,3) by (intro exI [of _ "k0 @ h"] exI [of _ c] exI [of _ k]) simp
qed

lemma told_earlier: "told A u t \<Longrightarrow> kept p s u \<Longrightarrow> told A s t"
  unfolding told_def [of A u t] by (blast intro: told_now)

lemma kept_refl: "kept p s s"
  by (rule within.R_refl)

text \<open>The call that was told is one of the first four after \<open>u\<close>.\<close>

lemmas told_calls = told_now [where h = "[]"] told_now [where h = "[c]" for c] told_now [where h = "[c, d]" for c d]
  told_now [where h = "[c, d, e]" for c d e]

context scope_contract
begin

lemma run_kept: "state_io_rel (keeps p) m \<Longrightarrow> wp m (\<lambda>_ t. kept p s t) s"
  by (rule wp_mono [OF wp_conj [OF keeps_wp allowed]]) (auto simp: within_def calls_in_def list_all_iff)

end

section \<open>What the steps leave behind\<close>

definition gateway_gone :: "ClusterScope \<Rightarrow> bool" where
  "gateway_gone t \<longleftrightarrow> TransitGatewayStatus_ID (Status_TransitGateway (status t)) = []"

text \<open>The question whether a load balancer is there, by its recorded ID or by its name, was answered with no.\<close>

definition lb_question :: "ClusterScope \<Rightarrow> string \<Rightarrow> call" where
  "lb_question t n = (let lbID = GetLoadBalancerID (Status_LoadBalancers (status t)) n
     in VPCC (if lbID \<noteq> [] then GetLoadBalancer_call lbID else GetLoadBalancerByName_call n))"

definition lb_gone :: "clients \<Rightarrow> ClusterScope \<Rightarrow> ClusterScope \<Rightarrow> nat \<Rightarrow> LoadBalancerSource \<Rightarrow> bool" where
  "lb_gone C s t i src \<longleftrightarrow> LoadBalancerSource_Type src = SourceTypeReference \<or>
     (\<exists>n. lb_name t i (LoadBalancerSource_Provision src) = Some n \<and> told (\<lambda>h c. c = lb_question t n \<and> lb_absent C t h n) s t)"

definition lbs_gone :: "clients \<Rightarrow> ClusterScope \<Rightarrow> ClusterScope \<Rightarrow> bool" where
  "lbs_gone C s t \<longleftrightarrow> (\<exists>srcs. desired_lbs t = Some srcs \<and> (\<forall>i < length srcs. lb_gone C s t i (srcs ! i)))"

text \<open>Every recorded security group the controller made was answered as not found, or its deletion was accepted.\<close>

definition sg_gone :: "clients \<Rightarrow> ClusterScope \<Rightarrow> ClusterScope \<Rightarrow> string \<Rightarrow> bool" where
  "sg_gone C s t i \<longleftrightarrow> told (\<lambda>h c.
     c = VPCC (GetSecurityGroup_call (Some i)) \<and> (\<exists>e. on_GetSecurityGroup (IBMVPCClient C) h (Some i) = Fail e (Some ResourceNotFoundCode)) \<or>
     c = VPCC (DeleteSecurityGroup_call i) \<and> on_DeleteSecurityGroup (IBMVPCClient C) h i = Reply ()) s t"

definition sgs_gone :: "clients \<Rightarrow> ClusterScope \<Rightarrow> ClusterScope \<Rightarrow> bool" where
  "sgs_gone C s t \<longleftrightarrow> (\<forall>g \<in> set (Status_VPCSecurityGroups (status t)).
     managed_sg t (VPCSecurityGroupStatus_Name g) \<longrightarrow> sg_gone C s t (VPCSecurityGroupStatus_ID g))"

definition subnets_gone :: "ClusterScope \<Rightarrow> bool" where
  "subnets_gone t \<longleftrightarrow> Status_VPCSubnets (status t) = []"

definition vpc_gone :: "ClusterScope \<Rightarrow> bool" where
  "vpc_gone t \<longleftrightarrow> VPCSource_Type (Spec_VPC (spec t)) \<noteq> SourceTypeProvision \<or> VPCStatus_ID (Status_VPC (status t)) = []"

text \<open>
  The DHCP server of a network the controller made in a workspace it did not make: answered as not
  found, or the deletion of the ID it was answered with was accepted.
\<close>

definition dhcp_gone :: "clients \<Rightarrow> ClusterScope \<Rightarrow> ClusterScope \<Rightarrow> bool" where
  "dhcp_gone C s t \<longleftrightarrow> (let i = ResourceReference_ID (NetworkStatus_DHCPServer (Status_Network (status t))) in
     NetworkSource_Type (Spec_Network (spec t)) \<noteq> SourceTypeProvision \<or>
     WorkspaceSource_Type (Spec_Workspace (spec t)) = SourceTypeProvision \<or> i = [] \<or>
     told (\<lambda>h c. c = PVS (GetDHCPServer_call i) \<and>
         (\<exists>e st. on_GetDHCPServer (IBMPowerVSClient C) h i = Fail e st \<and> string_contains (Error_text e) DHCPServerNotFound) \<or>
       (\<exists>d j h'. c = PVS (DeleteDHCPServer_call j) \<and> on_DeleteDHCPServer (IBMPowerVSClient C) h j = Reply () \<and>
          h = h' @ [PVS (GetDHCPServer_call i)] \<and> on_GetDHCPServer (IBMPowerVSClient C) h' i = Reply (Some d) \<and> dhcpd_ID d = Some j)) s t)"

definition workspace_gone :: "clients \<Rightarrow> ClusterScope \<Rightarrow> ClusterScope \<Rightarrow> bool" where
  "workspace_gone C s t \<longleftrightarrow> (let i = ResourceReference_ID (Status_Workspace (status t)) in
     WorkspaceSource_Type (Spec_Workspace (spec t)) \<noteq> SourceTypeProvision \<or> i = [] \<or>
     told (\<lambda>h c. c = RC (GetResourceInstance_call i) \<and>
       (\<exists>w. on_GetResourceInstance (ResourceClient C) h i = Reply (Some w) \<and> ri_State w = Some WorkspaceStateRemoved)) s t)"

definition cos_gone :: "clients \<Rightarrow> ClusterScope \<Rightarrow> ClusterScope \<Rightarrow> bool" where
  "cos_gone C s t \<longleftrightarrow> (let i = COSInstanceStatus_ID (cos_status t) in
     COSInstanceSource_Type (cos_spec t) \<noteq> SourceTypeProvision \<or> i = [] \<or>
     told (\<lambda>h c. c = RC (GetResourceInstance_call i) \<and>
         ((\<exists>e. on_GetResourceInstance (ResourceClient C) h i = Fail e (Some ResourceNotFoundCode)) \<or>
          (\<exists>w. on_GetResourceInstance (ResourceClient C) h i = Reply (Some w) \<and>
             ri_State w \<in> {Some StatePendingReclamation, Some WorkspaceStateRemoved})) \<or>
       c = RC (DeleteResourceInstance_call i True) \<and> on_DeleteResourceInstance (ResourceClient C) h i True = Reply ()) s t)"

text \<open>All of it, in a deletion that began in \<open>s\<close>.\<close>

definition infrastructure_gone :: "clients \<Rightarrow> ClusterScope \<Rightarrow> ClusterScope \<Rightarrow> bool" where
  "infrastructure_gone C s t \<longleftrightarrow> gateway_gone t \<and> lbs_gone C s t \<and> sgs_gone C s t \<and> subnets_gone t \<and> vpc_gone t \<and>
     dhcp_gone C s t \<and> workspace_gone C s t \<and> cos_gone C s t"

section \<open>The steps\<close>

lemma lb_kept:
  assumes "kept (\<lambda>s. Status_LoadBalancers (status s)) u t"
  shows "lb_name t = lb_name u" "desired_lbs t = desired_lbs u" "lb_question t = lb_question u" "lb_absent C t = lb_absent C u"
  using assms by (auto simp: kept_iff fun_eq_iff lb_name_def desired_lbs_def default_lb_def lb_question_def lb_absent_def
      fixed_part_def InfraCluster_def spec_def Let_def)

lemma lb_gone_later: "lb_gone C s u i src \<Longrightarrow> kept (\<lambda>s. Status_LoadBalancers (status s)) u t \<Longrightarrow> lb_gone C s t i src"
  using told_later by (fastforce simp: lb_gone_def lb_kept)

lemma delete_lb_gone:
  assumes "kept (\<lambda>s. Status_LoadBalancers (status s)) s u"
  shows "wp (delete_lb C i src acc) (\<lambda>r t. r = Panic \<or> (\<exists>acc'. r = Ok acc' \<and> kept (\<lambda>s. Status_LoadBalancers (status s)) u t \<and>
     (fst acc \<noteq> [] \<longrightarrow> fst acc' \<noteq> []) \<and> (snd acc \<longrightarrow> snd acc') \<and> (fst acc' = [] \<and> \<not> snd acc' \<longrightarrow> lb_gone C s t i src))) u"
proof -
  have *: "lb_gone C s (u\<lparr>trace := trace u @ [c]\<rparr>) i src"
    if "lb_name u i (LoadBalancerSource_Provision src) = Some n" "c = lb_question u n" "lb_absent C u (trace u) n" for n c
  proof -
    have k: "kept (\<lambda>s. Status_LoadBalancers (status s)) u (u\<lparr>trace := trace u @ [c]\<rparr>)" by (simp add: kept_iff)
    have "told (\<lambda>h c. c = lb_question u n \<and> lb_absent C u h n) s (u\<lparr>trace := trace u @ [c]\<rparr>)"
      by (rule told_now [OF assms, where h = "[]" and c = c and k = "[]"]) (use that in simp_all)
    then show ?thesis using that(1) by (simp add: lb_gone_def lb_kept [OF k])
  qed
  obtain errs rq where acc: "acc = (errs, rq)" by (cases acc)
  show ?thesis
    unfolding delete_lb_def delete_lb_in_cloud_def acc
    by (simp only: wp_simps)
       (auto simp: kept_iff lb_question_def lb_absent_def Let_def intro!: * cong: imp_cong, auto simp: lb_gone_def)
qed

lemma DeleteLoadBalancer_gone: "wp (DeleteLoadBalancer C) (\<lambda>r t. r = Ok False \<longrightarrow> lbs_gone C s t) s"
proof -
  let ?I = "\<lambda>ys (acc :: gerror list \<times> bool) t. kept (\<lambda>s. Status_LoadBalancers (status s)) s t \<and>
      (fst acc = [] \<and> \<not> snd acc \<longrightarrow> (\<forall>i < length ys. lb_gone C s t i (ys ! i)))"
  have loop: "wp (loop_i (delete_lb C) 0 srcs ([], False)) (\<lambda>r t. r = Panic \<or> (\<exists>acc. r = Ok acc \<and> ?I srcs acc t)) s" for srcs
  proof (rule wp_loop_i_done [where I = ?I])
    show "?I [] ([], False) s" by (simp add: kept_iff)
    fix ys x acc u assume I: "?I ys acc u"
    then have u: "kept (\<lambda>s. Status_LoadBalancers (status s)) s u" by simp
    show "wp (delete_lb C (length ys) x acc) (\<lambda>r t. (\<forall>acc'. r = Ok acc' \<longrightarrow> ?I (ys @ [x]) acc' t) \<and>
        ((\<forall>acc'. r \<noteq> Ok acc') \<longrightarrow> r = Panic \<or> (\<exists>acc. r = Ok acc \<and> ?I srcs acc t))) u"
      by (rule wp_mono [OF delete_lb_gone [OF u]])
         (use I in \<open>auto simp: nth_append less_Suc_eq intro: within.R_trans lb_gone_later\<close>)
  qed simp
  show ?thesis
    unfolding DeleteLoadBalancer_def
    by (simp only: wp_simps) (auto intro!: wp_mono [OF loop] simp: lbs_gone_def lb_kept wp_simps split_beta)
qed

lemma managed_security_groups_all:
  "wp (managed_security_groups s) (\<lambda>r t. t = u \<and> (\<forall>x. r = Ok x \<longrightarrow> set x = Collect (managed_sg s))) u"
proof -
  define own where "own (ys :: VPCSecurityGroupSource list) n \<longleftrightarrow> (\<exists>src. src \<in> set ys \<and> VPCSecurityGroupSource_Type src = SourceTypeProvision \<and>
      security_group_name s (VPCSecurityGroupSource_Provision src) = Some n)" for ys n
  have snoc: "Collect (own (ys @ [x])) = Collect (own ys) \<union>
      (if VPCSecurityGroupSource_Type x = SourceTypeProvision then set_option (security_group_name s (VPCSecurityGroupSource_Provision x)) else {})" for ys x
    by (auto simp: own_def)
  have all: "managed_sg s = own (Spec_VPCSecurityGroups (spec s))"
    by (simp add: managed_sg_def own_def fun_eq_iff)
  show ?thesis
    unfolding managed_security_groups_def
  proof (rule wp_loopM_done [where I = "\<lambda>ys x t. t = u \<and> set x = Collect (own ys)"])
    show "u = u \<and> set [] = Collect (own [])" by (simp add: own_def)
  qed (auto simp: wp_simps all snoc split: option.splits)
qed

lemma sg_gone_later: "sg_gone C s u i \<Longrightarrow> kept p u t \<Longrightarrow> sg_gone C s t i"
  unfolding sg_gone_def by (rule told_later)

lemma DeleteVPCSecurityGroups_gone: "wp (DeleteVPCSecurityGroups C) (\<lambda>r t. r = Ok () \<longrightarrow> sgs_gone C s t) s"
proof -
  let ?gs = "Status_VPCSecurityGroups (status s)"
  let ?I = "\<lambda>(ys :: VPCSecurityGroupStatus list) _ t. kept status s t \<and>
      (\<forall>g \<in> set ys. managed_sg s (VPCSecurityGroupStatus_Name g) \<longrightarrow> sg_gone C s t (VPCSecurityGroupStatus_ID g))"
  have step: "wp (delete_security_group C managed g x) (\<lambda>r t. kept status u t \<and> (r = Ok () \<and> VPCSecurityGroupStatus_Name g \<in> set managed \<longrightarrow>
      sg_gone C s t (VPCSecurityGroupStatus_ID g))) u" if "kept status s u" for managed g x u
    unfolding delete_security_group_def
    by (simp only: wp_simps) (auto simp: kept_iff sg_gone_def intro: told_calls [OF that])
  have loop: "wp (loopM (delete_security_group C managed) ?gs ()) (\<lambda>r t. r = Ok () \<longrightarrow> ?I ?gs () t) s"
    if "set managed = Collect (managed_sg s)" for managed
  proof (rule wp_loopM_done [where I = ?I])
    show "?I [] () s" by (simp add: kept_iff)
    fix ys g x u assume I: "?I ys x u"
    then have u: "kept status s u" by simp
    show "wp (delete_security_group C managed g x) (\<lambda>r t. (\<forall>b. r = Ok b \<longrightarrow> ?I (ys @ [g]) b t) \<and>
        ((\<forall>b. r \<noteq> Ok b) \<longrightarrow> r = Ok () \<longrightarrow> ?I ?gs () t)) u"
      by (rule wp_mono [OF step [OF u]]) (use I that in \<open>auto intro: within.R_trans sg_gone_later\<close>)
  qed simp
  have sgs: "sgs_gone C s t" if "?I ?gs () t" for t
  proof -
    have "managed_sg t = managed_sg s" "status t = status s"
      using that by (auto simp: kept_iff fixed_part_def managed_sg_def security_group_name_def InfraCluster_def spec_def fun_eq_iff Let_def)
    then show ?thesis using that by (simp add: sgs_gone_def)
  qed
  show ?thesis
    unfolding DeleteVPCSecurityGroups_def wp_bind wp_get wp_attempt
    by (rule wp_mono [OF managed_security_groups_all]) (auto simp: wp_return intro!: wp_mono [OF loop] sgs)
qed

lemma DeleteDHCPServer_gone: "wp (DeleteDHCPServer C) (\<lambda>r t. r = Ok () \<longrightarrow> dhcp_gone C s t) s"
  unfolding DeleteDHCPServer_def dhcp_gone_def Let_def
  by (simp only: wp_simps) (auto simp: bind_eq_Some_conv intro: told_calls [OF kept_refl] cong: imp_cong)

lemma DeleteWorkspace_gone: "wp (DeleteWorkspace C) (\<lambda>r t. r = Ok False \<longrightarrow> workspace_gone C s t) s"
  unfolding DeleteWorkspace_def workspace_gone_def Let_def
  by (simp only: wp_simps) (auto simp: bind_eq_Some_conv intro: told_calls [OF kept_refl] cong: imp_cong)

lemma DeleteCOSInstance_gone: "wp (DeleteCOSInstance C) (\<lambda>r t. r = Ok () \<longrightarrow> cos_gone C s t) s"
  unfolding DeleteCOSInstance_def cos_gone_def Let_def
  by (simp only: wp_simps) (auto simp: bind_eq_Some_conv intro: told_calls [OF kept_refl] cong: imp_cong)


lemma DeleteVPCSubnets_gone: "wp (DeleteVPCSubnets C) (\<lambda>r t. r = Ok False \<longrightarrow> subnets_gone t) s"
  unfolding subnets_gone_def by (rule wp_mono [OF DeleteVPCSubnets_result]) blast

lemma DeleteVPC_gone: "wp (DeleteVPC C) (\<lambda>r t. r = Ok False \<longrightarrow> vpc_gone t) s"
  by (rule wp_mono [OF wp_conj [OF vpc_delete.run_kept [OF keeps_DeleteVPC [of "\<lambda>_. ()"]] wp_DeleteVPC]])
     (auto simp: vpc_gone_def kept_iff dest: fixed_part_spec)

section \<open>The facts along the deletion\<close>

lemma managed_sg_fixed: "fixed_part t = fixed_part u \<Longrightarrow> managed_sg t = managed_sg u"
  by (auto simp: fixed_part_def managed_sg_def security_group_name_def InfraCluster_def spec_def fun_eq_iff Let_def)

lemma gone_later:
  "gateway_gone u \<Longrightarrow> kept (\<lambda>s. Status_TransitGateway (status s)) u t \<Longrightarrow> gateway_gone t"
  "lbs_gone C s u \<Longrightarrow> kept (\<lambda>s. Status_LoadBalancers (status s)) u t \<Longrightarrow> lbs_gone C s t"
  "sgs_gone C s u \<Longrightarrow> kept (\<lambda>s. Status_VPCSecurityGroups (status s)) u t \<Longrightarrow> sgs_gone C s t"
  "subnets_gone u \<Longrightarrow> kept (\<lambda>s. Status_VPCSubnets (status s)) u t \<Longrightarrow> subnets_gone t"
  "vpc_gone u \<Longrightarrow> kept (\<lambda>s. Status_VPC (status s)) u t \<Longrightarrow> vpc_gone t"
  "dhcp_gone C s u \<Longrightarrow> kept (\<lambda>s. Status_Network (status s)) u t \<Longrightarrow> dhcp_gone C s t"
  "workspace_gone C s u \<Longrightarrow> kept (\<lambda>s. Status_Workspace (status s)) u t \<Longrightarrow> workspace_gone C s t"
  "cos_gone C s u \<Longrightarrow> kept (\<lambda>s. Status_COSInstance (status s)) u t \<Longrightarrow> cos_gone C s t"
proof -
  show "gateway_gone u \<Longrightarrow> kept (\<lambda>s. Status_TransitGateway (status s)) u t \<Longrightarrow> gateway_gone t" by (simp add: gateway_gone_def kept_iff)
  show "lbs_gone C s u \<Longrightarrow> kept (\<lambda>s. Status_LoadBalancers (status s)) u t \<Longrightarrow> lbs_gone C s t"
    by (auto simp: lbs_gone_def lb_kept intro: lb_gone_later)
  show "sgs_gone C s u \<Longrightarrow> kept (\<lambda>s. Status_VPCSecurityGroups (status s)) u t \<Longrightarrow> sgs_gone C s t"
  proof -
    assume g: "sgs_gone C s u" and k: "kept (\<lambda>s. Status_VPCSecurityGroups (status s)) u t"
    then have "managed_sg t = managed_sg u" "Status_VPCSecurityGroups (status t) = Status_VPCSecurityGroups (status u)"
      using managed_sg_fixed [of t u] by (simp_all add: kept_iff)
    then show "sgs_gone C s t" using g sg_gone_later [OF _ k] by (simp add: sgs_gone_def)
  qed
  show "subnets_gone u \<Longrightarrow> kept (\<lambda>s. Status_VPCSubnets (status s)) u t \<Longrightarrow> subnets_gone t" by (simp add: subnets_gone_def kept_iff)
  show "vpc_gone u \<Longrightarrow> kept (\<lambda>s. Status_VPC (status s)) u t \<Longrightarrow> vpc_gone t" by (auto simp: vpc_gone_def kept_iff dest: fixed_part_spec)
  have same: "spec t = spec u \<and> p t = p u \<and> (\<forall>A. told A s u \<longrightarrow> told A s t)" if "kept p u t" for p :: "ClusterScope \<Rightarrow> 'x"
    using that told_later [OF _ that] by (auto simp: kept_iff dest: fixed_part_spec)
  show "dhcp_gone C s u \<Longrightarrow> kept (\<lambda>s. Status_Network (status s)) u t \<Longrightarrow> dhcp_gone C s t"
    by (drule same, unfold dhcp_gone_def Let_def, elim conjE, simp only:, elim disjE) simp_all
  show "workspace_gone C s u \<Longrightarrow> kept (\<lambda>s. Status_Workspace (status s)) u t \<Longrightarrow> workspace_gone C s t"
    by (drule same, unfold workspace_gone_def Let_def, elim conjE, simp only:, elim disjE) simp_all
  show "cos_gone C s u \<Longrightarrow> kept (\<lambda>s. Status_COSInstance (status s)) u t \<Longrightarrow> cos_gone C s t"
    by (drule same, unfold cos_gone_def Let_def, elim conjE, simp only:, elim disjE) simp_all
qed


text \<open>The facts after each of the steps, and what they depend on besides the fixed part and the calls.\<close>

abbreviation part1 where "part1 s \<equiv> Status_TransitGateway (status s)"
abbreviation part2 where "part2 s \<equiv> (part1 s, Status_LoadBalancers (status s))"
abbreviation part3 where "part3 s \<equiv> (part2 s, Status_VPCSecurityGroups (status s))"
abbreviation part4 where "part4 s \<equiv> (part3 s, Status_VPCSubnets (status s))"
abbreviation part5 where "part5 s \<equiv> (part4 s, Status_VPC (status s))"
abbreviation part6 where "part6 s \<equiv> (part5 s, Status_Network (status s))"
abbreviation part7 where "part7 s \<equiv> (part6 s, Status_Workspace (status s))"

abbreviation gone1 where "gone1 (C :: clients) (s :: ClusterScope) t \<equiv> gateway_gone t"
abbreviation gone2 where "gone2 C s t \<equiv> gone1 C s t \<and> lbs_gone C s t"
abbreviation gone3 where "gone3 C s t \<equiv> gone2 C s t \<and> sgs_gone C s t"
abbreviation gone4 where "gone4 C s t \<equiv> gone3 C s t \<and> subnets_gone t"
abbreviation gone5 where "gone5 C s t \<equiv> gone4 C s t \<and> vpc_gone t"
abbreviation gone6 where "gone6 C s t \<equiv> gone5 C s t \<and> dhcp_gone C s t"
abbreviation gone7 where "gone7 C s t \<equiv> gone6 C s t \<and> workspace_gone C s t"

lemma kept_part: "kept (\<lambda>s. (p s, q s)) u t \<longleftrightarrow> kept p u t \<and> kept q u t"
  by (auto simp: kept_iff)

lemma gone_stays:
  "kept part1 u t \<Longrightarrow> gone1 C s u \<Longrightarrow> gone1 C s t" "kept part2 u t \<Longrightarrow> gone2 C s u \<Longrightarrow> gone2 C s t"
  "kept part3 u t \<Longrightarrow> gone3 C s u \<Longrightarrow> gone3 C s t" "kept part4 u t \<Longrightarrow> gone4 C s u \<Longrightarrow> gone4 C s t"
  "kept part5 u t \<Longrightarrow> gone5 C s u \<Longrightarrow> gone5 C s t" "kept part6 u t \<Longrightarrow> gone6 C s u \<Longrightarrow> gone6 C s t"
  "kept part7 u t \<Longrightarrow> gone7 C s u \<Longrightarrow> gone7 C s t"
  unfolding kept_part by (blast intro: gone_later)+

section \<open>A step of the deletion\<close>

abbreviation since :: "ClusterScope \<Rightarrow> ClusterScope \<Rightarrow> bool" where
  "since \<equiv> kept (\<lambda>_. ())"

definition released :: "clients \<Rightarrow> ClusterScope \<Rightarrow> Result outcome \<Rightarrow> ClusterScope \<Rightarrow> bool" where
  "released C s r t \<longleftrightarrow> Cluster_Finalizers (scope_cluster t) = Cluster_Finalizers (scope_cluster s) \<or> r = Ok finished \<and> infrastructure_gone C s t"

lemma released_since: "since s t \<Longrightarrow> released C s r t"
  by (simp add: released_def kept_iff fixed_part_def)

lemma delete_step_rule:
  assumes u: "since s u" "errs \<noteq> [] \<or> G u"
    and conditions: "\<And>f u. G u \<Longrightarrow> G (upd_status (\<lambda>st. st\<lparr>Status_Conditions := f st\<rparr>) u)"
    and m: "\<And>v. since s v \<Longrightarrow> wp m (\<lambda>r t. since v t \<and> (G v \<and> r = Ok False \<longrightarrow> G' t)) v"
    and k: "\<And>errs t. since s t \<Longrightarrow> errs \<noteq> [] \<or> G' t \<Longrightarrow> wp (k errs) (released C s) t"
  shows "wp (delete_step K ty m text delay errs k) (released C s) u"
proof -
  let ?c = "\<lambda>st. conditions_Set K (Status_Conditions st)
    \<lparr>Condition_Type = ty, Condition_Status = ConditionFalse, Condition_Reason = DeletingReason, Condition_Message = None\<rparr>"
  let ?v = "upd_status (\<lambda>st. st\<lparr>Status_Conditions := ?c st\<rparr>) u"
  have "since u ?v" by (simp add: kept_iff)
  with u(1) have v: "since s ?v" by (rule within.R_trans)
  show ?thesis
    unfolding delete_step_def set_condition_status wp_bind wp_set_status wp_attempt
  proof (rule wp_mono [OF m [OF v]], elim conjE, intro conjI allI impI)
    fix r t assume vt: "since ?v t" and G': "G ?v \<and> r = Ok False \<longrightarrow> G' t"
    from v vt have t: "since s t" by (rule within.R_trans)
    show "released C s Panic t" using t by (rule released_since)
    show "wp (k (errs @ [Wrapf text e])) (released C s) t" for e using t by (intro k) simp_all
    show "wp (if requeue then ok \<lparr>RequeueAfter = delay\<rparr> else k errs) (released C s) t" if r: "r = Ok requeue" for requeue
    proof (cases requeue)
      case True
      then show ?thesis by (simp add: wp_return released_since [OF t])
    next
      case False
      have "errs \<noteq> [] \<or> G' t"
      proof (cases "errs = []")
        case True
        then have "G u" using u(2) by simp
        from conditions [OF this] have "G ?v" .
        then show ?thesis using G' r False by simp
      qed simp
      then show ?thesis using k [OF t] False by simp
    qed
  qed
qed

text \<open>A step that keeps what the facts so far depend on, and adds its own.\<close>

lemma step_adds:
  assumes "wp m (\<lambda>_ t. kept p v t) v" and "\<And>t. kept p v t \<Longrightarrow> G v \<Longrightarrow> G t"
    and "wp m (\<lambda>r t. r = Ok False \<longrightarrow> H t) v" and "\<And>t. H t \<Longrightarrow> H' t"
  shows "wp m (\<lambda>r t. since v t \<and> (G v \<and> r = Ok False \<longrightarrow> G t \<and> H' t)) v"
  by (rule wp_mono [OF wp_conj [OF assms(1,3)]]) (use assms(2,4) in \<open>auto simp: kept_iff\<close>)

lemma no_requeue_wp:
  "wp m (\<lambda>_ t. kept p v t) v \<Longrightarrow> wp (no_requeue m) (\<lambda>_ t. kept p v t) v"
  "wp m (\<lambda>r t. r = Ok () \<longrightarrow> H t) v \<Longrightarrow> wp (no_requeue m) (\<lambda>r t. r = Ok False \<longrightarrow> H t) v"
  unfolding no_requeue_def wp_attempt by (erule wp_mono; simp add: wp_return)+

lemma gone_earlier:
  assumes "since s v"
  shows "lbs_gone C v t \<Longrightarrow> lbs_gone C s t" "sgs_gone C v t \<Longrightarrow> sgs_gone C s t" "dhcp_gone C v t \<Longrightarrow> dhcp_gone C s t"
    "workspace_gone C v t \<Longrightarrow> workspace_gone C s t" "cos_gone C v t \<Longrightarrow> cos_gone C s t"
proof -
  note told = told_earlier [OF _ assms]
  have "lb_gone C v t i src \<Longrightarrow> lb_gone C s t i src" for i src unfolding lb_gone_def by (auto dest: told)
  then show "lbs_gone C v t \<Longrightarrow> lbs_gone C s t" unfolding lbs_gone_def by blast
  show "sgs_gone C v t \<Longrightarrow> sgs_gone C s t" unfolding sgs_gone_def sg_gone_def by (auto dest: told)
  show "dhcp_gone C v t \<Longrightarrow> dhcp_gone C s t" unfolding dhcp_gone_def Let_def by (elim disjE) (simp_all add: told)
  show "workspace_gone C v t \<Longrightarrow> workspace_gone C s t" unfolding workspace_gone_def Let_def by (elim disjE) (simp_all add: told)
  show "cos_gone C v t \<Longrightarrow> cos_gone C s t" unfolding cos_gone_def Let_def by (elim disjE) (simp_all add: told)
qed

text \<open>Setting a condition keeps them.\<close>

lemma conditions_set: "kept part7 u (upd_status (\<lambda>st. st\<lparr>Status_Conditions := f st\<rparr>) u)"
  by (simp add: kept_iff)

lemma gone_conditions:
  "gone1 C s u \<Longrightarrow> gone1 C s (upd_status (\<lambda>st. st\<lparr>Status_Conditions := f st\<rparr>) u)"
  "gone2 C s u \<Longrightarrow> gone2 C s (upd_status (\<lambda>st. st\<lparr>Status_Conditions := f st\<rparr>) u)"
  "gone3 C s u \<Longrightarrow> gone3 C s (upd_status (\<lambda>st. st\<lparr>Status_Conditions := f st\<rparr>) u)"
  "gone4 C s u \<Longrightarrow> gone4 C s (upd_status (\<lambda>st. st\<lparr>Status_Conditions := f st\<rparr>) u)"
  "gone5 C s u \<Longrightarrow> gone5 C s (upd_status (\<lambda>st. st\<lparr>Status_Conditions := f st\<rparr>) u)"
  "gone6 C s u \<Longrightarrow> gone6 C s (upd_status (\<lambda>st. st\<lparr>Status_Conditions := f st\<rparr>) u)"
  "gone7 C s u \<Longrightarrow> gone7 C s (upd_status (\<lambda>st. st\<lparr>Status_Conditions := f st\<rparr>) u)"
  by ((rule gone_stays [rotated], assumption, use conditions_set [of u f] in \<open>simp only: kept_part\<close>)+)

text \<open>What each step adds to what held before it.\<close>

lemma adds1: "since s v \<Longrightarrow> wp (DeleteTransitGateway C) (\<lambda>r t. since v t \<and> (True \<and> r = Ok False \<longrightarrow> gone1 C s t)) v"
proof -
  assume s: "since s v"
  have k: "wp (DeleteTransitGateway C) (\<lambda>_ t. kept (\<lambda>_. ()) v t) v"
    by (rule tg_delete.run_kept [OF keeps_DeleteTransitGateway]) simp_all
  show ?thesis
    by (rule wp_mono [OF step_adds [OF k, where G = "\<lambda>t. True" and H' = "\<lambda>t. gateway_gone t", OF _ DeleteTransitGateway_untracked [folded gateway_gone_def]]])
       (simp, assumption, simp)
qed

lemma adds2: "since s v \<Longrightarrow> wp (DeleteLoadBalancer C) (\<lambda>r t. since v t \<and> (gone1 C s v \<and> r = Ok False \<longrightarrow> gone2 C s t)) v"
proof -
  assume s: "since s v"
  have k: "wp (DeleteLoadBalancer C) (\<lambda>_ t. kept (part1) v t) v"
    by (rule lb_delete.run_kept [OF keeps_DeleteLoadBalancer]) simp_all
  show ?thesis
    by (rule wp_mono [OF step_adds [OF k, where G = "\<lambda>t. gone1 C s t" and H' = "\<lambda>t. lbs_gone C s t", OF _ DeleteLoadBalancer_gone]])
       (rule gone_stays(1), assumption, assumption, erule gone_earlier(1) [OF s], simp)
qed

lemma adds3: "since s v \<Longrightarrow> wp (no_requeue (DeleteVPCSecurityGroups C)) (\<lambda>r t. since v t \<and> (gone2 C s v \<and> r = Ok False \<longrightarrow> gone3 C s t)) v"
proof -
  assume s: "since s v"
  have k: "wp (no_requeue (DeleteVPCSecurityGroups C)) (\<lambda>_ t. kept (part2) v t) v"
    by (rule no_requeue_wp(1), rule sg_delete.run_kept [OF keeps_DeleteVPCSecurityGroups]) simp_all
  show ?thesis
    by (rule wp_mono [OF step_adds [OF k, where G = "\<lambda>t. gone2 C s t" and H' = "\<lambda>t. sgs_gone C s t", OF _ no_requeue_wp(2) [OF DeleteVPCSecurityGroups_gone]]])
       (rule gone_stays(2), assumption, assumption, erule gone_earlier(2) [OF s], simp)
qed

lemma adds4: "since s v \<Longrightarrow> wp (DeleteVPCSubnets C) (\<lambda>r t. since v t \<and> (gone3 C s v \<and> r = Ok False \<longrightarrow> gone4 C s t)) v"
proof -
  assume s: "since s v"
  have k: "wp (DeleteVPCSubnets C) (\<lambda>_ t. kept (part3) v t) v"
    by (rule subnet_delete.run_kept [OF keeps_DeleteVPCSubnets]) simp_all
  show ?thesis
    by (rule wp_mono [OF step_adds [OF k, where G = "\<lambda>t. gone3 C s t" and H' = "\<lambda>t. subnets_gone t", OF _ DeleteVPCSubnets_gone]])
       (rule gone_stays(3), assumption, assumption, assumption, simp)
qed

lemma adds5: "since s v \<Longrightarrow> wp (DeleteVPC C) (\<lambda>r t. since v t \<and> (gone4 C s v \<and> r = Ok False \<longrightarrow> gone5 C s t)) v"
proof -
  assume s: "since s v"
  have k: "wp (DeleteVPC C) (\<lambda>_ t. kept (part4) v t) v"
    by (rule vpc_delete.run_kept [OF keeps_DeleteVPC]) simp_all
  show ?thesis
    by (rule wp_mono [OF step_adds [OF k, where G = "\<lambda>t. gone4 C s t" and H' = "\<lambda>t. vpc_gone t", OF _ DeleteVPC_gone]])
       (rule gone_stays(4), assumption, assumption, assumption, simp)
qed

lemma adds6: "since s v \<Longrightarrow> wp (no_requeue (DeleteDHCPServer C)) (\<lambda>r t. since v t \<and> (gone5 C s v \<and> r = Ok False \<longrightarrow> gone6 C s t)) v"
proof -
  assume s: "since s v"
  have k: "wp (no_requeue (DeleteDHCPServer C)) (\<lambda>_ t. kept (part5) v t) v"
    by (rule no_requeue_wp(1), rule dhcp_delete.run_kept [OF keeps_DeleteDHCPServer]) simp_all
  show ?thesis
    by (rule wp_mono [OF step_adds [OF k, where G = "\<lambda>t. gone5 C s t" and H' = "\<lambda>t. dhcp_gone C s t", OF _ no_requeue_wp(2) [OF DeleteDHCPServer_gone]]])
       (rule gone_stays(5), assumption, assumption, erule gone_earlier(3) [OF s], simp)
qed

lemma adds7: "since s v \<Longrightarrow> wp (DeleteWorkspace C) (\<lambda>r t. since v t \<and> (gone6 C s v \<and> r = Ok False \<longrightarrow> gone7 C s t)) v"
proof -
  assume s: "since s v"
  have k: "wp (DeleteWorkspace C) (\<lambda>_ t. kept (part6) v t) v"
    by (rule workspace_delete.run_kept [OF keeps_DeleteWorkspace]) simp_all
  show ?thesis
    by (rule wp_mono [OF step_adds [OF k, where G = "\<lambda>t. gone6 C s t" and H' = "\<lambda>t. workspace_gone C s t", OF _ DeleteWorkspace_gone]])
       (rule gone_stays(6), assumption, assumption, erule gone_earlier(4) [OF s], simp)
qed

lemma adds8: "since s v \<Longrightarrow> wp (no_requeue (DeleteCOSInstance C)) (\<lambda>r t. since v t \<and> (gone7 C s v \<and> r = Ok False \<longrightarrow> gone7 C s t \<and> cos_gone C s t)) v"
proof -
  assume s: "since s v"
  have k: "wp (no_requeue (DeleteCOSInstance C)) (\<lambda>_ t. kept (part7) v t) v"
    by (rule no_requeue_wp(1), rule cos_delete.run_kept [OF keeps_DeleteCOSInstance]) simp_all
  show ?thesis
    by (rule wp_mono [OF step_adds [OF k, where G = "\<lambda>t. gone7 C s t" and H' = "\<lambda>t. cos_gone C s t", OF _ no_requeue_wp(2) [OF DeleteCOSInstance_gone]]])
       (rule gone_stays(7), assumption, assumption, erule gone_earlier(5) [OF s], simp)
qed

section \<open>The finalizer\<close>

lemma infrastructure_gone_cong:
  assumes "InfraCluster t = InfraCluster u" and "spec t = spec u" and "status t = status u" and "trace t = trace u"
  shows "infrastructure_gone C s t = infrastructure_gone C s u"
proof -
  have "managed_sg t = managed_sg u" "lb_name t = lb_name u" "desired_lbs t = desired_lbs u" "lb_question t = lb_question u" "lb_absent C t = lb_absent C u"
    "told A s t = told A s u" for A
    using assms by (auto simp: fun_eq_iff managed_sg_def security_group_name_def lb_name_def desired_lbs_def default_lb_def lb_question_def lb_absent_def
        told_def Let_def)
  then show ?thesis using assms
    by (simp add: infrastructure_gone_def gateway_gone_def lbs_gone_def lb_gone_def sgs_gone_def sg_gone_def subnets_gone_def vpc_gone_def dhcp_gone_def
        workspace_gone_def cos_gone_def)
qed

lemma finish_delete_released: "since s t \<Longrightarrow> errs \<noteq> [] \<or> gone7 C s t \<and> cos_gone C s t \<Longrightarrow> wp (finish_delete K errs) (released C s) t"
  unfolding finish_delete_def remove_finalizer_def
proof (simp only: wp_if wp_bind wp_modify wp_return, intro conjI impI)
  assume t: "since s t" "errs \<noteq> [] \<or> gone7 C s t \<and> cos_gone C s t"
  show "released C s (Err (AggregateErr errs)) t" using t by (intro released_since)
  assume "\<not> errs \<noteq> []"
  then have "infrastructure_gone C s t" using t by (simp add: infrastructure_gone_def)
  let ?u = "t\<lparr>scope_cluster := (scope_cluster t)\<lparr>Cluster_Finalizers := RemoveFinalizer K (Cluster_Finalizers (scope_cluster t)) IBMPowerVSClusterFinalizer\<rparr>\<rparr>"
  have "infrastructure_gone C s ?u = infrastructure_gone C s t"
    by (rule infrastructure_gone_cong) (simp_all add: status_def spec_def InfraCluster_def)
  then show "released C s (Ok finished) ?u" using \<open>infrastructure_gone C s t\<close> by (simp add: released_def)
qed

lemma delete_from_cos_released:
  assumes "since s t" and "errs \<noteq> [] \<or> gone7 C s t"
  shows "wp (do {
       s \<leftarrow> get_scope;
       if COSInstanceSource_Type (Spec_COSInstance (spec s)) \<noteq> OtherSourceType []
       then delete_step K COSInstanceReadyCondition (no_requeue (DeleteCOSInstance C)) text 0 errs (finish_delete K)
       else finish_delete K errs }) (released C s) t"
  unfolding wp_bind wp_get wp_if
proof (intro conjI impI)
  show "wp (delete_step K COSInstanceReadyCondition (no_requeue (DeleteCOSInstance C)) text 0 errs (finish_delete K)) (released C s) t"
    by (rule delete_step_rule [OF assms gone_conditions(7) adds8 finish_delete_released])
  assume "\<not> COSInstanceSource_Type (cos_spec t) \<noteq> OtherSourceType []"
  then have "cos_gone C s t" by (simp add: cos_gone_def Let_def)
  then show "wp (finish_delete K errs) (released C s) t"
    by (intro finish_delete_released assms) (use assms(2) in blast)
qed

lemma delete_infrastructure_released: "since s u \<Longrightarrow> wp (delete_infrastructure K C) (released C s) u"
  unfolding delete_infrastructure_def
  by (rule delete_step_rule [where G = "\<lambda>_. True", OF _ _ _ adds1
        delete_step_rule [OF _ _ gone_conditions(1) adds2
        delete_step_rule [OF _ _ gone_conditions(2) adds3
        delete_step_rule [OF _ _ gone_conditions(3) adds4
        delete_step_rule [OF _ _ gone_conditions(4) adds5
        delete_step_rule [OF _ _ gone_conditions(5) adds6
        delete_step_rule [OF _ _ gone_conditions(6) adds7 delete_from_cos_released]]]]]]]) simp_all



text \<open>Everything that was recorded is gone from this cloud, the workspace and the object storage as removed.\<close>

definition removed_cloud :: clients where
  "removed_cloud = empty_cloud\<lparr>ResourceClient := (ResourceClient example_cloud)\<lparr>on_GetResourceInstance := \<lambda>h i.
     (case on_GetResourceInstance (ResourceClient example_cloud) h i of
        Reply (Some w) \<Rightarrow> Reply (Some (w\<lparr>ri_State := Some WorkspaceStateRemoved\<rparr>))
      | r \<Rightarrow> r)\<rparr>\<rparr>"


end
