(* ===== verification/Paging.thy ===== *)
theory Paging
  imports Cloud_Clients
begin

text \<open>
  Listing resources page by page: the loop of \<^verbatim>\<open>pkg/cloud/pagingutils/paging.go\<close> and the lookups of
  \<^verbatim>\<open>pkg/cloud/services/*/service.go\<close> built on it.

  The list operations of the cloud SDKs are a parameter, a function from the start tokens of the
  requests made before and the start token of this one to the page. The URL parser of Go is a
  parameter \<open>U\<close>: \<open>None\<close> for a string that does not parse, otherwise the value of the query
  parameter \<open>start\<close>, empty if there is none. A loop that never ends is \<open>None\<close>.
\<close>

section \<open>The paging loop\<close>

definition msg_could_not_parse_next_url :: string where "msg_could_not_parse_next_url = ''could not parse next url for getting next resources''"

definition getStartToken :: "(string \<Rightarrow> string option) \<Rightarrow> string \<Rightarrow> string outcome" where
  "getStartToken U nextURLS = (case U nextURLS of None \<Rightarrow> Err (Errorf msg_could_not_parse_next_url) | Some start \<Rightarrow> Ok start)"

partial_function (option) paging_loop ::
  "(string \<Rightarrow> string option) \<Rightarrow> (string \<Rightarrow> ('s, bool \<times> string) proc) \<Rightarrow> string \<Rightarrow> 's \<Rightarrow> (unit outcome \<times> 's) option" where
  "paging_loop U f start s =
     (case run_state (f start) s of
        (Ok (isDone, nextURL), t) \<Rightarrow>
          if isDone \<or> nextURL = [] then Some (Ok (), t)
          else (case getStartToken U nextURL of
                  Ok start' \<Rightarrow> paging_loop U f start' t
                | Err e \<Rightarrow> Some (Err e, t)
                | Panic \<Rightarrow> Some (Panic, t))
      | (Err e, t) \<Rightarrow> Some (Err e, t)
      | (Panic, t) \<Rightarrow> Some (Panic, t))"

definition PagingHelper ::
  "(string \<Rightarrow> string option) \<Rightarrow> (string \<Rightarrow> ('s, bool \<times> string) proc) \<Rightarrow> 's \<Rightarrow> (unit outcome \<times> 's) option" where
  "PagingHelper U f s = paging_loop U f [] s"

lemma paging_loop_page:
  assumes "run_state (f start) s = (Ok (False, u), t)" and "u \<noteq> []" and "U u = Some start'"
  shows "paging_loop U f start s = paging_loop U f start' t"
  using assms by (simp add: paging_loop.simps [of U f start s] getStartToken_def)

lemma paging_loop_done: "run_state (f start) s = (Ok (True, u), t) \<Longrightarrow> paging_loop U f start s = Some (Ok (), t)"
  by (simp add: paging_loop.simps)

text \<open>A loop that comes back to the same page for ever does not end.\<close>

lemma paging_loop_endless:
  assumes "\<And>s. I s \<Longrightarrow> \<exists>u t. run_state (f start) s = (Ok (False, u), t) \<and> u \<noteq> [] \<and> U u = Some start \<and> I t" and "I s"
  shows "paging_loop U f start s = None"
proof -
  have "U' = U \<longrightarrow> f' = f \<longrightarrow> start' = start \<longrightarrow> \<not> I s'" if "paging_loop U' f' start' s' = Some y" for U' f' start' s' y
  proof (rule paging_loop.raw_induct [OF _ that], intro impI notI)
    fix loop U' f' start' s' y
    assume IH: "\<And>U' f' start' s' y. loop U' f' start' s' = Some y \<Longrightarrow> U' = U \<longrightarrow> f' = f \<longrightarrow> start' = start \<longrightarrow> \<not> I s'"
      and step: "(case run_state (f' start') s' of
        (Ok (isDone, nextURL), t) \<Rightarrow> if isDone \<or> nextURL = [] then Some (Ok (), t)
          else (case getStartToken U' nextURL of Ok start' \<Rightarrow> loop U' f' start' t | Err e \<Rightarrow> Some (Err e, t) | Panic \<Rightarrow> Some (Panic, t))
      | (Err e, t) \<Rightarrow> Some (Err e, t) | (Panic, t) \<Rightarrow> Some (Panic, t)) = Some y"
      and same: "U' = U" "f' = f" "start' = start" and "I s'"
    from assms(1) [OF \<open>I s'\<close>] obtain u t where page: "run_state (f start) s' = (Ok (False, u), t)" "u \<noteq> []" "U u = Some start" "I t" by blast
    then have "loop U f start t = Some y" using step same by (simp add: getStartToken_def)
    then show False using IH \<open>I t\<close> by blast
  qed
  then show ?thesis using assms(2) by (cases "paging_loop U f start s") auto
qed

end
