(* ===== verification/Services.thy ===== *)
theory Services
  imports Paging Workspace
begin

text \<open>
  The lookups of the service wrappers (\<^verbatim>\<open>pkg/cloud/services/{vpc,transitgateway,resourcecontroller,powervs,resourcemanager,globaltagging}/service.go\<close>)
  that do more than pass a call on: by name, page by page, and by a filter. The scopes see these
  wrappers through the interfaces of \<^verbatim>\<open>Cloud_Clients\<close>; here is what stands behind the interface.
\<close>

section \<open>Error texts\<close>

definition msg_dedicated_hosts_list_nil :: string where "msg_dedicated_hosts_list_nil = ''dedicated hosts list returned is nil''"
definition msg_vpc_list_nil :: string where "msg_vpc_list_nil = ''vpc list returned is nil''"
definition msg_image_list_nil :: string where "msg_image_list_nil = ''image list returned is nil''"
definition msg_public_gateways_list_nil :: string where "msg_public_gateways_list_nil = ''public gateways list returned is nil''"
definition msg_subnet_list_nil :: string where "msg_subnet_list_nil = ''subnet list returned is nil''"
definition msg_loadbalancer_list_nil :: string where "msg_loadbalancer_list_nil = ''loadBalancer list returned is nil''"
definition msg_failed_list_transit_gateway :: string where "msg_failed_list_transit_gateway = ''failed to list transit gateway''"
definition msg_error_listing_resource_instances :: string where "msg_error_listing_resource_instances = ''error listing resource instances''"
definition msg_found_multiple_resource_instances :: string where "msg_found_multiple_resource_instances = ''found multiple resource instances matching filters''"
definition msg_error_listing_service_instances :: string where "msg_error_listing_service_instances = ''error listing service instances''"
definition msg_more_than_one_service_instance :: string where "msg_more_than_one_service_instance = ''there exist more than one service instance ID with same name''"
definition msg_error_listing_cos_instances :: string where "msg_error_listing_cos_instances = ''error listing COS instances''"
definition msg_more_than_one_cos_instance :: string where "msg_more_than_one_cos_instance = ''there exist more than one COS instance ID with same name''"
definition msg_error_listing_pools :: string where "msg_error_listing_pools = ''error listing pools for load balancer''"
definition msg_error_no_pools :: string where "msg_error_no_pools = ''error no pools for load balancer''"
definition msg_error_listing_security_group :: string where "msg_error_listing_security_group = ''error listing security group''"
definition msg_error_next_page_security_groups :: string where "msg_error_next_page_security_groups = ''error retrieving next page of security groups''"
definition msg_failed_getting_account_id :: string where "msg_failed_getting_account_id = ''failed getting account id for resource group lookup''"
definition msg_failed_listing_resource_groups :: string where "msg_failed_listing_resource_groups = ''failed listing Resource Groups''"
definition msg_failed_find_resource_group :: string where "msg_failed_find_resource_group = ''failed to find Resource Group''"
definition msg_failed_listing_user_tags :: string where "msg_failed_listing_user_tags = ''failed listing user tags''"
definition msg_failed_list_tags :: string where "msg_failed_list_tags = ''failed to list tags''"

section \<open>Pages\<close>

text \<open>A page of the VPC and transit gateway APIs: its items, \<open>Next\<close> and its \<open>Href\<close>.\<close>

record 'a page =
  page_items :: "'a list"
  page_next :: "string option option"

type_synonym 'p lister = "string option list \<Rightarrow> string option \<Rightarrow> 'p option reply"

text \<open>The start tokens requested, and the variable the closure assigns.\<close>

record 'v listing =
  lst_starts :: "string option list"
  lst_var :: 'v

definition start_param :: "string \<Rightarrow> string option" where
  "start_param start = (if start \<noteq> [] then Some start else None)"

definition list_page :: "'p lister \<Rightarrow> string \<Rightarrow> ('v listing, 'p option reply) state" where
  "list_page L start = State (\<lambda>s. (L (lst_starts s) (start_param start), s\<lparr>lst_starts := lst_starts s @ [start_param start]\<rparr>))"

definition set_var :: "'v \<Rightarrow> ('v listing, unit) state" where
  "set_var v = modify (\<lambda>s. s\<lparr>lst_var := v\<rparr>)"

definition append_var :: "'a list \<Rightarrow> ('a list listing, unit) state" where
  "append_var xs = modify (\<lambda>s. s\<lparr>lst_var := lst_var s @ xs\<rparr>)"

text \<open>\<open>pagingutils.PagingHelper(f)\<close> and what the function makes of the variable.\<close>

definition run_paging ::
  "(string \<Rightarrow> string option) \<Rightarrow> (string \<Rightarrow> ('v listing, bool \<times> string) proc) \<Rightarrow> 'v \<Rightarrow> (gerror \<Rightarrow> gerror) \<Rightarrow> ('v \<Rightarrow> 'r outcome) \<Rightarrow> 'r outcome option" where
  "run_paging U f v0 wrap fin = map_option (\<lambda>(r, t). case r of Ok _ \<Rightarrow> fin (lst_var t) | Err e \<Rightarrow> Err (wrap e) | Panic \<Rightarrow> Panic)
     (PagingHelper U f \<lparr>lst_starts = [], lst_var = v0\<rparr>)"

section \<open>Lookups by name\<close>

text \<open>\<open>for i, v := range list { if *v.Name == name { ... } }\<close>: a nil name panics.\<close>

fun first_named :: "('a \<Rightarrow> string option) \<Rightarrow> string \<Rightarrow> 'a list \<Rightarrow> 'a option outcome" where
  "first_named nm n [] = Ok None"
| "first_named nm n (x # xs) = (case nm x of None \<Rightarrow> Panic | Some m \<Rightarrow> if m = n then Ok (Some x) else first_named nm n xs)"

text \<open>\<open>if list.Next != nil && *list.Next.Href != "" { return false, *list.Next.Href, nil }; return true, "", nil\<close>.\<close>

definition next_page :: "'a page \<Rightarrow> ('s, bool \<times> string) proc" where
  "next_page p = (case page_next p of
      None \<Rightarrow> ok (True, [])
    | Some href \<Rightarrow> deref href (\<lambda>u. if u \<noteq> [] then ok (False, u) else ok (True, [])))"

definition lookup_page ::
  "string \<Rightarrow> ('a \<Rightarrow> string option) \<Rightarrow> 'a page lister \<Rightarrow> string \<Rightarrow> string \<Rightarrow> ('a option listing, bool \<times> string) proc" where
  "lookup_page nilText nm L n start = do {
     r \<leftarrow> list_page L start;
     case r of
       Fail e _ \<Rightarrow> fail e
     | Reply None \<Rightarrow> fail (Errorf nilText)
     | Reply (Some p) \<Rightarrow>
         (case first_named nm n (page_items p) of
            Panic \<Rightarrow> panic
          | Err e \<Rightarrow> fail e
          | Ok (Some x) \<Rightarrow> do { set_var (Some x); ok (True, []) }
          | Ok None \<Rightarrow> next_page p) }"

definition lookup_by_name ::
  "(string \<Rightarrow> string option) \<Rightarrow> string \<Rightarrow> ('a \<Rightarrow> string option) \<Rightarrow> 'a page lister \<Rightarrow> string \<Rightarrow> 'a option outcome option" where
  "lookup_by_name U nilText nm L n = run_paging U (lookup_page nilText nm L n) None id Ok"

record DedicatedHost =
  dhost_ID :: "string option"
  dhost_Name :: "string option"

record VPCImage =
  image_ID :: "string option"
  image_Name :: "string option"

record PublicGateway =
  pgw_ID :: "string option"
  pgw_Name :: "string option"

definition GetDedicatedHostByName where "GetDedicatedHostByName U L n = lookup_by_name U msg_dedicated_hosts_list_nil dhost_Name L n"
definition GetVPCByName where "GetVPCByName U L n = lookup_by_name U msg_vpc_list_nil vpc_Name L n"
definition GetImageByName where "GetImageByName U L n = lookup_by_name U msg_image_list_nil image_Name L n"
definition GetVPCSubnetByName where "GetVPCSubnetByName U L n = lookup_by_name U msg_subnet_list_nil subnet_Name L n"
definition GetLoadBalancerByName where "GetLoadBalancerByName U L n = lookup_by_name U msg_loadbalancer_list_nil lb_Name L n"

text \<open>The list of the public gateways is asked for one resource group.\<close>

definition GetVPCPublicGatewayByName where
  "GetVPCPublicGatewayByName U L n resourceGroupID = lookup_by_name U msg_public_gateways_list_nil pgw_Name (L resourceGroupID) n"


section \<open>Transit gateways\<close>

text \<open>
  \<open>GetTransitGatewayByName\<close>: gateways without a name are passed over, a nil list panics, and the
  variable is a struct, so the pointer returned is never nil.
\<close>

definition zero_TransitGateway :: TransitGateway where
  "zero_TransitGateway = \<lparr>tg_ID = None, tg_Name = None, tg_Status = None\<rparr>"

definition tg_page :: "TransitGateway page lister \<Rightarrow> string \<Rightarrow> string \<Rightarrow> (TransitGateway listing, bool \<times> string) proc" where
  "tg_page L n start = do {
     r \<leftarrow> list_page L start;
     case r of
       Fail e _ \<Rightarrow> fail (Wrapf msg_failed_list_transit_gateway e)
     | Reply None \<Rightarrow> panic
     | Reply (Some p) \<Rightarrow>
         (case find (\<lambda>tg. tg_Name tg = Some n) (page_items p) of
            Some tg \<Rightarrow> do { set_var tg; ok (True, []) }
          | None \<Rightarrow> next_page p) }"

definition GetTransitGatewayByName :: "(string \<Rightarrow> string option) \<Rightarrow> TransitGateway page lister \<Rightarrow> string \<Rightarrow> TransitGateway option outcome option" where
  "GetTransitGatewayByName U L n = run_paging U (tg_page L n) zero_TransitGateway id (\<lambda>tg. Ok (Some tg))"

section \<open>Resource instances\<close>

text \<open>
  A page of the resource controller: its resources, and what the SDK's \<open>GetNextStart()\<close> returns for
  it. The list operation gets the filters along with the start token.
\<close>

record instances_page =
  inst_resources :: "ResourceInstance list"
  inst_next_start :: "string option reply"

record ListResourceInstancesOptions =
  lri_GUID :: "string option"
  lri_Name :: "string option"
  lri_ResourceID :: "string option"
  lri_ResourcePlanID :: "string option"

text \<open>\<open>nextURL, err := list.GetNextStart()\<close> and on.\<close>

definition next_start :: "instances_page \<Rightarrow> ('s, bool \<times> string) proc" where
  "next_start p = (case inst_next_start p of
      Fail e _ \<Rightarrow> fail e
    | Reply None \<Rightarrow> ok (True, [])
    | Reply (Some nextURL) \<Rightarrow> ok (False, nextURL))"

text \<open>\<open>switch len(list)\<close>: none, the one, or an error.\<close>

definition the_only :: "string \<Rightarrow> 'a list \<Rightarrow> 'a option outcome" where
  "the_only text xs = (case xs of [] \<Rightarrow> Ok None | [x] \<Rightarrow> Ok (Some x) | _ \<Rightarrow> Err (Errorf text))"

definition ptr_to_nonempty :: "string \<Rightarrow> string option" where
  "ptr_to_nonempty s = (if s \<noteq> [] then Some s else None)"

definition filter_options :: "InstanceFilter \<Rightarrow> ListResourceInstancesOptions" where
  "filter_options f = \<lparr>lri_GUID = ptr_to_nonempty (filter_ID f), lri_Name = ptr_to_nonempty (filter_Name f),
     lri_ResourceID = ptr_to_nonempty (filter_ResourceID f), lri_ResourcePlanID = ptr_to_nonempty (filter_ResourcePlanID f)\<rparr>"

definition in_zone :: "string option \<Rightarrow> ResourceInstance \<Rightarrow> bool" where
  "in_zone zone x = (case zone of None \<Rightarrow> True | Some z \<Rightarrow> z = [] \<or> ri_RegionID x = Some z)"

definition instances_by_filter ::
  "(ListResourceInstancesOptions \<Rightarrow> instances_page lister) \<Rightarrow> InstanceFilter \<Rightarrow> string \<Rightarrow> (ResourceInstance list listing, bool \<times> string) proc" where
  "instances_by_filter L f start = do {
     r \<leftarrow> list_page (L (filter_options f)) start;
     case r of
       Fail e _ \<Rightarrow> fail e
     | Reply None \<Rightarrow> ok (True, [])
     | Reply (Some p) \<Rightarrow> do {
         append_var (filter (in_zone (filter_Zone f)) (inst_resources p));
         next_start p } }"

definition GetResourceInstanceByFilter ::
  "(string \<Rightarrow> string option) \<Rightarrow> (ListResourceInstancesOptions \<Rightarrow> instances_page lister) \<Rightarrow> InstanceFilter \<Rightarrow> ResourceInstance option outcome option" where
  "GetResourceInstanceByFilter U L f =
     run_paging U (instances_by_filter L f) [] (\<lambda>_. Errorf msg_error_listing_resource_instances) (the_only msg_found_multiple_resource_instances)"

text \<open>\<open>GetServiceInstance\<close> dereferences the region of every resource when a zone is given.\<close>

fun regions_in :: "string \<Rightarrow> ResourceInstance list \<Rightarrow> ResourceInstance list outcome" where
  "regions_in z [] = Ok []"
| "regions_in z (x # xs) = (case ri_RegionID x of
      None \<Rightarrow> Panic
    | Some r \<Rightarrow> (case regions_in z xs of Ok ys \<Rightarrow> Ok (if r = z then x # ys else ys) | Err e \<Rightarrow> Err e | Panic \<Rightarrow> Panic))"

definition service_options :: "string \<Rightarrow> string \<Rightarrow> ListResourceInstancesOptions" where
  "service_options i n = \<lparr>lri_GUID = ptr_to_nonempty i, lri_Name = ptr_to_nonempty n,
     lri_ResourceID = Some PowerVSResourceID, lri_ResourcePlanID = Some PowerVSResourcePlanID\<rparr>"

definition service_instances ::
  "(ListResourceInstancesOptions \<Rightarrow> instances_page lister) \<Rightarrow> string \<Rightarrow> string \<Rightarrow> string option \<Rightarrow> string \<Rightarrow> (ResourceInstance list listing, bool \<times> string) proc" where
  "service_instances L i n zone start = do {
     r \<leftarrow> list_page (L (service_options i n)) start;
     case r of
       Fail e _ \<Rightarrow> fail e
     | Reply None \<Rightarrow> ok (True, [])
     | Reply (Some p) \<Rightarrow>
         (case if zone \<noteq> None \<and> zone \<noteq> Some [] then regions_in (the zone) (inst_resources p) else Ok (inst_resources p) of
            Ok xs \<Rightarrow> do { append_var xs; next_start p }
          | Err e \<Rightarrow> fail e
          | Panic \<Rightarrow> panic) }"

definition GetServiceInstance ::
  "(string \<Rightarrow> string option) \<Rightarrow> (ListResourceInstancesOptions \<Rightarrow> instances_page lister) \<Rightarrow> string \<Rightarrow> string \<Rightarrow> string option \<Rightarrow> ResourceInstance option outcome option" where
  "GetServiceInstance U L i n zone =
     run_paging U (service_instances L i n zone) [] (\<lambda>_. Errorf msg_error_listing_service_instances) (the_only msg_more_than_one_service_instance)"

definition named_instances ::
  "(ListResourceInstancesOptions \<Rightarrow> instances_page lister) \<Rightarrow> string \<Rightarrow> string \<Rightarrow> string \<Rightarrow> string \<Rightarrow> (ResourceInstance list listing, bool \<times> string) proc" where
  "named_instances L n resourceID planID start = do {
     r \<leftarrow> list_page (L \<lparr>lri_GUID = None, lri_Name = Some n, lri_ResourceID = Some resourceID, lri_ResourcePlanID = Some planID\<rparr>) start;
     case r of
       Fail e _ \<Rightarrow> fail e
     | Reply None \<Rightarrow> ok (True, [])
     | Reply (Some p) \<Rightarrow> do { append_var (inst_resources p); next_start p } }"

definition GetInstanceByName ::
  "(string \<Rightarrow> string option) \<Rightarrow> (ListResourceInstancesOptions \<Rightarrow> instances_page lister) \<Rightarrow> string \<Rightarrow> string \<Rightarrow> string \<Rightarrow> ResourceInstance option outcome option" where
  "GetInstanceByName U L n resourceID planID =
     run_paging U (named_instances L n resourceID planID) [] (\<lambda>_. Errorf msg_error_listing_cos_instances) (the_only msg_more_than_one_cos_instance)"


section \<open>Lookups without pages\<close>

text \<open>\<open>GetNetworkByName\<close> of the PowerVS service goes through the whole list: the last match counts.\<close>

fun last_named :: "('a \<Rightarrow> string option) \<Rightarrow> string \<Rightarrow> 'a list \<Rightarrow> 'a option \<Rightarrow> 'a option outcome" where
  "last_named nm n [] found = Ok found"
| "last_named nm n (x # xs) found = (case nm x of None \<Rightarrow> Panic | Some m \<Rightarrow> last_named nm n xs (if m = n then Some x else found))"

definition GetNetworkByName :: "Network list option reply \<Rightarrow> string \<Rightarrow> Network option outcome" where
  "GetNetworkByName networks n = (case networks of
      Fail e _ \<Rightarrow> Err e
    | Reply None \<Rightarrow> Panic
    | Reply (Some xs) \<Rightarrow> last_named net_Name n xs None)"

record LoadBalancerPool =
  pool_ID :: "string option"
  pool_Name :: "string option"

definition GetLoadBalancerPoolByName :: "LoadBalancerPool list option reply \<Rightarrow> string \<Rightarrow> LoadBalancerPool option outcome" where
  "GetLoadBalancerPoolByName pools n = (case pools of
      Fail e _ \<Rightarrow> Err (Wrapf msg_error_listing_pools e)
    | Reply None \<Rightarrow> Err (Errorf msg_error_no_pools)
    | Reply (Some xs) \<Rightarrow> Ok (find (\<lambda>p. pool_Name p = Some n) xs))"

text \<open>
  \<open>GetSecurityGroupByName\<close> uses the pager of the SDK: the \<open>k\<close>-th \<open>HasNext()\<close> and \<open>GetNext()\<close>
  are the parameter, \<open>None\<close> when there is no next page.
\<close>

partial_function (option) sg_pager_loop :: "(nat \<Rightarrow> SecurityGroup list reply option) \<Rightarrow> string \<Rightarrow> nat \<Rightarrow> SecurityGroup option outcome option" where
  "sg_pager_loop pager n k = (case pager k of
      None \<Rightarrow> Some (Err (SecurityGroupByNameNotFound n))
    | Some (Fail e _) \<Rightarrow> Some (Err (Errorf msg_error_next_page_security_groups))
    | Some (Reply sgs) \<Rightarrow>
        (case first_named sg_Name n sgs of
           Ok None \<Rightarrow> sg_pager_loop pager n (Suc k)
         | r \<Rightarrow> Some r))"

definition GetSecurityGroupByName :: "(nat \<Rightarrow> SecurityGroup list reply option) reply \<Rightarrow> string \<Rightarrow> SecurityGroup option outcome option" where
  "GetSecurityGroupByName newPager n = (case newPager of
      Fail e _ \<Rightarrow> Some (Err (Errorf msg_error_listing_security_group))
    | Reply pager \<Rightarrow> sg_pager_loop pager n 0)"

text \<open>Zone names of a region; a nil result or a nil name panics.\<close>

fun zone_names :: "string option list \<Rightarrow> string list outcome" where
  "zone_names [] = Ok []"
| "zone_names (z # zs) = (case z of
      None \<Rightarrow> Panic
    | Some n \<Rightarrow> (case zone_names zs of Ok ns \<Rightarrow> Ok (n # ns) | Err e \<Rightarrow> Err e | Panic \<Rightarrow> Panic))"

definition GetVPCZonesByRegion :: "string option list option reply \<Rightarrow> string list outcome" where
  "GetVPCZonesByRegion zones = (case zones of
      Fail e _ \<Rightarrow> Err e
    | Reply None \<Rightarrow> Panic
    | Reply (Some zs) \<Rightarrow> zone_names zs)"

text \<open>
  Resource groups and tags. The account ID comes from the token; the reply carries the list (nil or
  not) and the status code of the response. A status 404 with a nil error counts as a failure.
\<close>

definition GetResourceGroupByName ::
  "string outcome \<Rightarrow> (string \<Rightarrow> string \<Rightarrow> (ResourceGroup list option \<times> int option) reply) \<Rightarrow> string \<Rightarrow> ResourceGroup option outcome" where
  "GetResourceGroupByName accountID listGroups rgName = (case accountID of
      Panic \<Rightarrow> Panic
    | Err e \<Rightarrow> Err (Wrapf msg_failed_getting_account_id e)
    | Ok acc \<Rightarrow> (case listGroups acc rgName of
         Fail e _ \<Rightarrow> Err (Wrapf msg_failed_listing_resource_groups e)
       | Reply (Some [g], st) \<Rightarrow> if st = Some 404 then Err (Errorf msg_failed_find_resource_group) else Ok (Some g)
       | Reply _ \<Rightarrow> Err (Errorf msg_failed_find_resource_group)))"

record Tag =
  tag_Name :: "string option"

definition GetTagByName :: "string outcome \<Rightarrow> (string \<Rightarrow> (Tag list option \<times> int option) reply) \<Rightarrow> string \<Rightarrow> Tag option outcome" where
  "GetTagByName accountID listTags n = (case accountID of
      Panic \<Rightarrow> Panic
    | Err e \<Rightarrow> Err e
    | Ok acc \<Rightarrow> (case listTags acc of
         Fail e _ \<Rightarrow> Err (Wrapf msg_failed_listing_user_tags e)
       | Reply (None, _) \<Rightarrow> Err (Errorf msg_failed_list_tags)
       | Reply (Some tags, st) \<Rightarrow>
           if st = Some 404 then Err (Errorf msg_failed_list_tags) else Ok (find (\<lambda>t. tag_Name t = Some n) tags)))"

section \<open>What a lookup finds\<close>

text \<open>
  A server that has the items \<open>concat pages\<close>, split into \<open>pages\<close>: the first page for the request
  without a start token, and with every page but the last the link to the next one.
\<close>

fun serves :: "(string \<Rightarrow> string option) \<Rightarrow> 'a page lister \<Rightarrow> string \<Rightarrow> 'a list list \<Rightarrow> bool" where
  "serves U L start [] = False"
| "serves U L start [xs] \<longleftrightarrow> (\<forall>h. L h (start_param start) = Reply (Some \<lparr>page_items = xs, page_next = None\<rparr>))"
| "serves U L start (xs # ys # rest) \<longleftrightarrow>
     (\<exists>u start'. u \<noteq> [] \<and> U u = Some start' \<and>
        (\<forall>h. L h (start_param start) = Reply (Some \<lparr>page_items = xs, page_next = Some (Some u)\<rparr>)) \<and> serves U L start' (ys # rest))"

lemma first_named_find: "list_all (\<lambda>x. nm x \<noteq> None) xs \<Longrightarrow> first_named nm n xs = Ok (find (\<lambda>x. nm x = Some n) xs)"
  by (induction xs) auto

lemma find_append: "find P (xs @ ys) = (case find P xs of None \<Rightarrow> find P ys | Some x \<Rightarrow> Some x)"
  by (induction xs) auto

text \<open>
  The step of a lookup: on a page with a match it stores the match and is done, on a page without
  it goes to the next one. \<open>good\<close> is what the step needs of the items, \<open>put\<close> what it stores.
\<close>

locale page_step =
  fixes f :: "'a page lister \<Rightarrow> string \<Rightarrow> ('v listing, bool \<times> string) proc"
    and P good :: "'a \<Rightarrow> bool" and put :: "'a \<Rightarrow> 'v"
  assumes found: "L (lst_starts s) (start_param start) = Reply (Some p) \<Longrightarrow> list_all good (page_items p) \<Longrightarrow> find P (page_items p) = Some x \<Longrightarrow>
      run_state (f L start) s = (Ok (True, []), s\<lparr>lst_starts := lst_starts s @ [start_param start], lst_var := put x\<rparr>)"
    and missed: "L (lst_starts s) (start_param start) = Reply (Some p) \<Longrightarrow> list_all good (page_items p) \<Longrightarrow> find P (page_items p) = None \<Longrightarrow>
      run_state (f L start) s = run_state (next_page p) (s\<lparr>lst_starts := lst_starts s @ [start_param start]\<rparr>)"
begin

lemma loop_finds:
  assumes "serves U L start pages" and "list_all (list_all good) pages"
  shows "\<exists>t. paging_loop U (f L) start s = Some (Ok (), t) \<and>
    lst_var t = (case find P (concat pages) of None \<Rightarrow> lst_var s | Some x \<Rightarrow> put x)"
  using assms
proof (induction U L start pages arbitrary: s rule: serves.induct)
  case (2 U L start xs)
  then show ?case
    by (cases "find P xs") (auto simp: paging_loop.simps [of U _ start] found missed next_page_def)
next
  case (3 U L start xs ys rest)
  then obtain u start' where u: "u \<noteq> []" "U u = Some start'" "serves U L start' (ys # rest)"
    and page: "\<And>h. L h (start_param start) = Reply (Some \<lparr>page_items = xs, page_next = Some (Some u)\<rparr>)" by auto
  have good: "list_all good xs" "list_all (list_all good) (ys # rest)" using "3.prems" by simp_all
  show ?case
  proof (cases "find P xs")
    case None
    let ?t = "s\<lparr>lst_starts := lst_starts s @ [start_param start]\<rparr>"
    have step: "run_state (f L start) s = (Ok (False, u), ?t)"
      using missed [of L s start, OF page] good None u(1) by (simp add: next_page_def deref_def)
    from "3.IH" [OF u(3) good(2), of ?t] obtain t where
      "paging_loop U (f L) start' ?t = Some (Ok (), t)" "lst_var t = (case find P (concat (ys # rest)) of None \<Rightarrow> lst_var s | Some x \<Rightarrow> put x)"
      by (auto split: option.splits)
    then show ?thesis using paging_loop_page [where f = "f L" and U = U, OF step u(1,2)] None by (auto simp: find_append)
  next
    case (Some x)
    then show ?thesis using found [of L s start, OF page] good by (auto simp: paging_loop_done find_append)
  qed
qed simp

end

interpretation named: page_step "\<lambda>L. lookup_page msg nm L n" "\<lambda>x. nm x = Some n" "\<lambda>x. nm x \<noteq> None" Some for msg nm n
  by unfold_locales (simp_all add: lookup_page_def list_page_def first_named_find set_var_def modify_def)

interpretation gateway: page_step "\<lambda>L. tg_page L n" "\<lambda>tg. tg_Name tg = Some n" "\<lambda>_. True" id for n
  by unfold_locales (simp_all add: tg_page_def list_page_def set_var_def modify_def)

lemma lookup_by_name_correct:
  assumes "serves U L [] pages" and "list_all (list_all (\<lambda>x. nm x \<noteq> None)) pages"
  shows "lookup_by_name U msg nm L n = Some (Ok (find (\<lambda>x. nm x = Some n) (concat pages)))"
  using named.loop_finds [OF assms, of msg n "\<lparr>lst_starts = [], lst_var = None\<rparr>"]
  by (auto simp: lookup_by_name_def run_paging_def PagingHelper_def split: option.splits)

text \<open>
  C37: a lookup by name page by page ends and is the lookup in the whole list: on a server whose
  pages, followed link by link, make up the list, it returns the first resource of that name, or
  nil, whatever the number and size of the pages.
\<close>

theorem lookup_refines_whole_list:
  assumes "serves U Lv [] vpcs" and "list_all (list_all (\<lambda>x. vpc_Name x \<noteq> None)) vpcs"
    and "serves U Ls [] subnets" and "list_all (list_all (\<lambda>x. subnet_Name x \<noteq> None)) subnets"
    and "serves U Lb [] balancers" and "list_all (list_all (\<lambda>x. lb_Name x \<noteq> None)) balancers"
  shows "GetVPCByName U Lv n = Some (Ok (find (\<lambda>x. vpc_Name x = Some n) (concat vpcs))) \<and>
    GetVPCSubnetByName U Ls n = Some (Ok (find (\<lambda>x. subnet_Name x = Some n) (concat subnets))) \<and>
    GetLoadBalancerByName U Lb n = Some (Ok (find (\<lambda>x. lb_Name x = Some n) (concat balancers)))"
  unfolding GetVPCByName_def GetVPCSubnetByName_def GetLoadBalancerByName_def using assms by (simp add: lookup_by_name_correct)

text \<open>Two pages, linked by a token, of items named by \<open>mk\<close>.\<close>

definition two_pages :: "(string \<Rightarrow> 'a) \<Rightarrow> 'a page lister" where
  "two_pages mk h start = (if start = None
     then Reply (Some \<lparr>page_items = [mk ''a'', mk ''b''], page_next = Some (Some ''next'')\<rparr>)
     else Reply (Some \<lparr>page_items = [mk ''c''], page_next = None\<rparr>))"

lemma two_pages_serves: "serves (\<lambda>u. if u = ''next'' then Some ''tok'' else None) (two_pages mk) [] [[mk ''a'', mk ''b''], [mk ''c'']]"
  by (auto simp: two_pages_def start_param_def intro!: exI [of _ "''next''"])

theorem lookup_refines_whole_list_witness:
  "GetVPCByName (\<lambda>u. if u = ''next'' then Some ''tok'' else None) (two_pages cloud_vpc) ''c'' = Some (Ok (Some (cloud_vpc ''c'')))"
proof -
  have find: "find (\<lambda>x. vpc_Name x = Some ''c'') (concat [[cloud_vpc ''a'', cloud_vpc ''b''], [cloud_vpc ''c'']]) = Some (cloud_vpc ''c'')"
    by (simp add: cloud_vpc_def)
  show ?thesis
    using lookup_refines_whole_list [OF two_pages_serves [of cloud_vpc] _ two_pages_serves [of cloud_subnet] _ two_pages_serves [of cloud_lb], of "''c''"]
      find by (simp add: cloud_vpc_def cloud_subnet_def cloud_lb_def)
qed

text \<open>
  C38: the lookup of a resource instance never ends when there is a second page. The SDK returns the
  start token of the next page, the paging loop takes it for a URL and reads the query parameter
  \<open>start\<close> of it, which a token does not have, so the loop asks for the first page again and again.
\<close>

theorem GetResourceInstanceByFilter_endless:
  assumes "\<And>h. L (filter_options f) h None = Reply (Some p)" and "inst_next_start p = Reply (Some token)"
    and "token \<noteq> []" and "U token = Some []"
  shows "GetResourceInstanceByFilter U L f = None"
proof -
  have "paging_loop U (instances_by_filter L f) [] s = None" for s
  proof (rule paging_loop_endless [where I = "\<lambda>_. True"])
    fix s :: "ResourceInstance list listing"
    show "\<exists>u t. run_state (instances_by_filter L f []) s = (Ok (False, u), t) \<and> u \<noteq> [] \<and> U u = Some [] \<and> True"
      using assms by (simp add: instances_by_filter_def list_page_def start_param_def next_start_def append_var_def modify_def)
  qed simp
  then show ?thesis by (simp add: GetResourceInstanceByFilter_def run_paging_def PagingHelper_def)
qed

theorem GetResourceInstanceByFilter_endless_witness:
  "GetResourceInstanceByFilter (\<lambda>_. Some []) (\<lambda>_ _ _. Reply (Some \<lparr>inst_resources = [active_instance ''w''], inst_next_start = Reply (Some ''tok'')\<rparr>))
     \<lparr>filter_ID = [], filter_Name = ''w'', filter_ResourceID = [], filter_ResourcePlanID = [], filter_Zone = None\<rparr> = None"
  by (rule GetResourceInstanceByFilter_endless [where token = "''tok''" and p = "\<lparr>inst_resources = [active_instance ''w''], inst_next_start = Reply (Some ''tok'')\<rparr>"]) simp_all

text \<open>With a single page the lookup by filter returns the one match, nil, or an error if there are several.\<close>

lemma GetResourceInstanceByFilter_one_page:
  assumes "L (filter_options f) [] None = Reply (Some p)" and "inst_next_start p = Reply None"
  shows "GetResourceInstanceByFilter U L f = Some (the_only msg_found_multiple_resource_instances (filter (in_zone (filter_Zone f)) (inst_resources p)))"
  using assms
  by (simp add: GetResourceInstanceByFilter_def run_paging_def PagingHelper_def paging_loop.simps instances_by_filter_def list_page_def
      start_param_def append_var_def modify_def next_start_def)

text \<open>
  The lookup of a transit gateway by name ends and returns the first gateway of that name; if
  there is none it does not return nil, but a gateway without ID, name and status. (The callers
  check the ID.)
\<close>

theorem GetTransitGatewayByName_never_nil:
  assumes "serves U L [] pages"
  shows "GetTransitGatewayByName U L n =
    Some (Ok (Some (case find (\<lambda>tg. tg_Name tg = Some n) (concat pages) of None \<Rightarrow> zero_TransitGateway | Some tg \<Rightarrow> tg)))"
proof -
  have "list_all (list_all (\<lambda>_. True)) pages" by (simp add: list_all_iff)
  from gateway.loop_finds [OF assms this, of n "\<lparr>lst_starts = [], lst_var = zero_TransitGateway\<rparr>"] show ?thesis
    by (auto simp: GetTransitGatewayByName_def run_paging_def PagingHelper_def split: option.splits)
qed

theorem GetTransitGatewayByName_never_nil_witness:
  "GetTransitGatewayByName (\<lambda>u. if u = ''next'' then Some ''tok'' else None) (two_pages (\<lambda>_. cloud_tg)) ''none'' = Some (Ok (Some zero_TransitGateway))"
  using GetTransitGatewayByName_never_nil [OF two_pages_serves [of "\<lambda>_. cloud_tg"], of "''none''"] by (simp add: cloud_tg_def)

end
