(* ===== verification/Image_Scope.thy ===== *)
theory Image_Scope
  imports Conditions Workspace
begin

text \<open>
  The scope of a PowerVS image (\<^verbatim>\<open>pkg/cloud/scope/powervs/powervs_image.go\<close>, the object in
  \<^verbatim>\<open>api/powervs/v1beta3/ibmpowervsimage_types.go\<close>): which workspace it goes to, finding it or starting
  its import, deleting it. As for the cluster, the clients are functions of the calls made before
  and the arguments, and every call is recorded.
\<close>

section \<open>The object\<close>

text \<open>The string enumerations of the image; other strings are possible values.\<close>

type_synonym PowerVSImageState = string

definition PowerVSImageStateACTIVE :: PowerVSImageState where "PowerVSImageStateACTIVE = ''active''"
definition PowerVSImageStateQueued :: PowerVSImageState where "PowerVSImageStateQueued = ''queued''"
definition PowerVSImageStateFailed :: PowerVSImageState where "PowerVSImageStateFailed = ''failed''"
definition PowerVSImageStateImporting :: PowerVSImageState where "PowerVSImageStateImporting = ''importing''"
definition PowerVSImageStateCompleted :: PowerVSImageState where "PowerVSImageStateCompleted = ''completed''"

lemmas image_state_defs = PowerVSImageStateACTIVE_def PowerVSImageStateQueued_def PowerVSImageStateFailed_def
  PowerVSImageStateImporting_def PowerVSImageStateCompleted_def

datatype PowerVSImageDeletePolicy = PowerVSImageDeletePolicyDelete | PowerVSImageDeletePolicyRetain | OtherDeletePolicy string

definition IBMPowerVSImageFinalizer :: string where
  "IBMPowerVSImageFinalizer = ''ibmpowervsimage.infrastructure.cluster.x-k8s.io''"

record IBMPowerVSImageSpec =
  ImageSpec_ClusterName :: string
  ImageSpec_Workspace :: ResourceIdentifier
  ImageSpec_Bucket :: string
  ImageSpec_Object :: string
  ImageSpec_Region :: string
  ImageSpec_StorageType :: string
  ImageSpec_DeletePolicy :: PowerVSImageDeletePolicy

record IBMPowerVSImageStatus =
  ImageStatus_Conditions :: "Condition list"
  ImageStatus_ImageID :: string
  ImageStatus_ImageState :: PowerVSImageState
  ImageStatus_JobID :: string
  ImageStatus_Deprecated :: "DeprecatedCondition list option option"  \<comment> \<open>\<open>Deprecated\<close>, \<open>V1Beta2\<close> and its conditions\<close>

record IBMPowerVSImage =
  Image_Name :: string
  Image_Namespace :: string
  Image_Labels :: "(string \<rightharpoonup> string) option"                    \<comment> \<open>\<open>None\<close> is the nil map\<close>
  Image_OwnerReferences :: "OwnerReference list"
  Image_Finalizers :: "string list"
  Image_Deleting :: bool                                        \<comment> \<open>the deletion timestamp is set\<close>
  Image_Spec :: IBMPowerVSImageSpec
  Image_Status :: IBMPowerVSImageStatus

definition Image_GetConditions :: "IBMPowerVSImage \<Rightarrow> Condition list" where
  "Image_GetConditions r = ImageStatus_Conditions (Image_Status r)"

definition Image_SetConditions :: "IBMPowerVSImage \<Rightarrow> Condition list \<Rightarrow> IBMPowerVSImage" where
  "Image_SetConditions r cs = r\<lparr>Image_Status := (Image_Status r)\<lparr>ImageStatus_Conditions := cs\<rparr>\<rparr>"

definition Image_GetV1Beta1Conditions :: "IBMPowerVSImage \<Rightarrow> DeprecatedCondition list" where
  "Image_GetV1Beta1Conditions r = (case ImageStatus_Deprecated (Image_Status r) of Some (Some cs) \<Rightarrow> cs | _ \<Rightarrow> [])"

definition Image_SetV1Beta1Conditions :: "IBMPowerVSImage \<Rightarrow> DeprecatedCondition list \<Rightarrow> IBMPowerVSImage" where
  "Image_SetV1Beta1Conditions r cs = r\<lparr>Image_Status := (Image_Status r)\<lparr>ImageStatus_Deprecated := Some (Some cs)\<rparr>\<rparr>"

section \<open>The clients\<close>

record ImageReference =
  imgref_ImageID :: "string option"
  imgref_Name :: "string option"

record PVSImage =
  pvsimg_ImageID :: "string option"
  pvsimg_State :: string

record JobReference =
  jobref_ID :: "string option"

text \<open>A job: its status, with the state and the message.\<close>

record JobStatus =
  job_State :: "string option"
  job_Message :: string

record CreateCosImageImportJob =
  cos_ImageName :: string
  cos_BucketName :: string
  cos_BucketAccess :: string
  cos_Region :: string
  cos_ImageFilename :: string
  cos_StorageType :: string

datatype image_call =
    Build_Authenticator
  | Build_ResourceController
  | Build_PowerVS string string
  | Image_FindInstance InstanceFilter
  | Image_GetInstance string
  | Image_List
  | Image_GetCosImages string
  | Image_CreateCosImage CreateCosImageImportJob
  | Image_GetJob string
  | Image_Get string
  | Image_Delete string
  | Image_DeleteJob string

type_synonym image_history = "image_call list"

text \<open>A job as the client returns it: a nil job, or a job with a nil or a given status.\<close>

record image_clients =
  on_Authenticator :: "image_history \<Rightarrow> unit reply"
  on_ResourceController :: "image_history \<Rightarrow> unit reply"
  on_PowerVS :: "image_history \<Rightarrow> string \<Rightarrow> string \<Rightarrow> unit reply"
  on_FindInstance :: "image_history \<Rightarrow> InstanceFilter \<Rightarrow> ResourceInstance option reply"
  on_GetInstance :: "image_history \<Rightarrow> string \<Rightarrow> ResourceInstance option reply"
  on_ListPVSImages :: "image_history \<Rightarrow> ImageReference list option reply"
  on_GetCosImages :: "image_history \<Rightarrow> string \<Rightarrow> JobStatus option option reply"
  on_CreateCosImage :: "image_history \<Rightarrow> CreateCosImageImportJob \<Rightarrow> JobReference option reply"
  on_GetJob :: "image_history \<Rightarrow> string \<Rightarrow> JobStatus option option reply"
  on_GetPVSImage :: "image_history \<Rightarrow> string \<Rightarrow> PVSImage option reply"
  on_DeletePVSImage :: "image_history \<Rightarrow> string \<Rightarrow> unit reply"
  on_DeleteJob :: "image_history \<Rightarrow> string \<Rightarrow> unit reply"

record ImageScope =
  image_trace :: image_history
  scope_image :: IBMPowerVSImage
  scope_workspaceID :: string

type_synonym 'a image_proc = "(ImageScope, 'a) proc"

definition image_api :: "(image_history \<Rightarrow> 'r) \<Rightarrow> image_call \<Rightarrow> (ImageScope, 'r) state" where
  "image_api f c = State (\<lambda>s. (f (image_trace s), s\<lparr>image_trace := image_trace s @ [c]\<rparr>))"

lemma wp_image_api [wp_simps]: "wp (image_api f c) Q s = Q (f (image_trace s)) (s\<lparr>image_trace := image_trace s @ [c]\<rparr>)"
  by (simp add: wp_def image_api_def)

abbreviation (input) image_spec :: "ImageScope \<Rightarrow> IBMPowerVSImageSpec" where
  "image_spec s \<equiv> Image_Spec (scope_image s)"

abbreviation (input) image_status :: "ImageScope \<Rightarrow> IBMPowerVSImageStatus" where
  "image_status s \<equiv> Image_Status (scope_image s)"

definition upd_image :: "(IBMPowerVSImage \<Rightarrow> IBMPowerVSImage) \<Rightarrow> (ImageScope, unit) state" where
  "upd_image f = modify (\<lambda>s. s\<lparr>scope_image := f (scope_image s)\<rparr>)"

definition upd_image_status :: "(IBMPowerVSImageStatus \<Rightarrow> IBMPowerVSImageStatus) \<Rightarrow> (ImageScope, unit) state" where
  "upd_image_status f = upd_image (\<lambda>i. i\<lparr>Image_Status := f (Image_Status i)\<rparr>)"

lemma wp_upd_image [wp_simps]:
  "wp (upd_image g) Q s = Q () (s\<lparr>scope_image := g (scope_image s)\<rparr>)"
  "wp (upd_image_status f) Q s = Q () (s\<lparr>scope_image := (scope_image s)\<lparr>Image_Status := f (image_status s)\<rparr>\<rparr>)"
  by (simp_all add: upd_image_status_def upd_image_def wp_modify)

section \<open>Creating the scope\<close>

definition msg_client_is_nil :: string where "msg_client_is_nil = ''failed to generate new scope: client is nil''"
definition msg_ibmpowervsimage_is_nil :: string where "msg_ibmpowervsimage_is_nil = ''failed to generate new scope: IBMPowerVSImage is nil''"
definition msg_clientbuilder_is_nil :: string where "msg_clientbuilder_is_nil = ''failed to generate new scope: ClientBuilder is nil''"
definition msg_failed_initialize_clients_image :: string where "msg_failed_initialize_clients_image = ''failed to initialize IBM Cloud clients for image''"
definition msg_failed_create_authenticator :: string where "msg_failed_create_authenticator = ''failed to create authenticator''"
definition msg_failed_create_resource_controller :: string where "msg_failed_create_resource_controller = ''failed to create Resource Controller client''"
definition msg_failed_create_powervs_client :: string where "msg_failed_create_powervs_client = ''failed to create PowerVS client''"
definition msg_failed_look_up_workspace :: string where "msg_failed_look_up_workspace = ''failed to look up workspace name''"
definition msg_workspace_not_yet_created :: string where "msg_workspace_not_yet_created = ''PowerVS workspace is not yet created or GUID is nil''"
definition msg_workspace_of_name :: string where "msg_workspace_of_name = ''workspace''"
definition msg_failed_get_resource_instance :: string where "msg_failed_get_resource_instance = ''failed to get resource instance by ID''"
definition msg_resource_instance_no_regionid :: string where "msg_resource_instance_no_regionid = ''resource instance has no RegionID''"

definition ErrWorkspaceNotInActiveState :: gerror where
  "ErrWorkspaceNotInActiveState = Errorf ''workspace is not in active state''"

text \<open>\<open>errors.Is\<close>: the target is somewhere in the chain of causes.\<close>

fun errors_Is :: "gerror \<Rightarrow> gerror \<Rightarrow> bool" where
  "errors_Is (Wrapf t e) target = (Wrapf t e = target \<or> errors_Is e target)"
| "errors_Is e target = (e = target)"

text \<open>\<open>validate\<close>: whether the client, the image and the client builder were given.\<close>

definition image_params_validate :: "bool \<Rightarrow> bool \<Rightarrow> bool \<Rightarrow> unit outcome" where
  "image_params_validate client img builder =
     (if \<not> client then Err (Errorf msg_client_is_nil)
      else if \<not> img then Err (Errorf msg_ibmpowervsimage_is_nil)
      else if \<not> builder then Err (Errorf msg_clientbuilder_is_nil)
      else Ok ())"

definition image_workspace_name :: "IBMPowerVSImageSpec \<Rightarrow> string" where
  "image_workspace_name sp =
     (let n = ResourceIdentifier_Name (ImageSpec_Workspace sp)
      in if n = [] then ImageSpec_ClusterName sp @ ''-workspace'' else n)"

definition image_workspace_filter :: "IBMPowerVSImageSpec \<Rightarrow> string \<Rightarrow> InstanceFilter" where
  "image_workspace_filter sp specZone =
     \<lparr>filter_ID = [], filter_Name = image_workspace_name sp, filter_ResourceID = PowerVSResourceID,
      filter_ResourcePlanID = PowerVSResourcePlanID, filter_Zone = Some specZone\<rparr>"

definition find_workspace :: "image_clients \<Rightarrow> string \<Rightarrow> string image_proc" where
  "find_workspace C specZone = do {
     s \<leftarrow> State_Monad.get;
     let f = image_workspace_filter (image_spec s) specZone;
     r \<leftarrow> image_api (\<lambda>h. on_FindInstance C h f) (Image_FindInstance f);
     case r of
       Fail e _ \<Rightarrow> fail (Wrapf msg_failed_look_up_workspace e)
     | Reply w \<Rightarrow>
         (case Option.bind w ri_GUID of
            None \<Rightarrow> fail (Errorf msg_workspace_not_yet_created)
          | Some guid \<Rightarrow>
              if Option.bind w ri_State \<noteq> Some WorkspaceStateActive
              then fail (Wrapf msg_workspace_of_name ErrWorkspaceNotInActiveState)
              else ok guid) }"

definition image_resolveWorkspace :: "image_clients \<Rightarrow> string \<Rightarrow> (string \<times> string) image_proc" where
  "image_resolveWorkspace C specZone = do {
     s \<leftarrow> State_Monad.get;
     let given = ResourceIdentifier_ID (ImageSpec_Workspace (image_spec s));
     bindE (if given \<noteq> [] then ok given else find_workspace C specZone) (\<lambda>workspaceID. do {
       r \<leftarrow> image_api (\<lambda>h. on_GetInstance C h workspaceID) (Image_GetInstance workspaceID);
       case r of
         Fail e _ \<Rightarrow> fail (Wrapf msg_failed_get_resource_instance e)
       | Reply None \<Rightarrow> panic
       | Reply (Some res) \<Rightarrow>
           (case ri_RegionID res of
              None \<Rightarrow> fail (Errorf msg_resource_instance_no_regionid)
            | Some region \<Rightarrow> ok (workspaceID, region)) }) }"

definition image_initClients :: "image_clients \<Rightarrow> string \<Rightarrow> unit image_proc" where
  "image_initClients C zone = do {
     r \<leftarrow> image_api (on_Authenticator C) Build_Authenticator;
     case r of
       Fail e _ \<Rightarrow> fail (Wrapf msg_failed_create_authenticator e)
     | Reply _ \<Rightarrow> do {
         r \<leftarrow> image_api (on_ResourceController C) Build_ResourceController;
         case r of
           Fail e _ \<Rightarrow> fail (Wrapf msg_failed_create_resource_controller e)
         | Reply _ \<Rightarrow>
             bindE (image_resolveWorkspace C zone) (\<lambda>(workspaceID, workspaceZone). do {
               r \<leftarrow> image_api (\<lambda>h. on_PowerVS C h workspaceID workspaceZone) (Build_PowerVS workspaceID workspaceZone);
               case r of
                 Fail e _ \<Rightarrow> fail (Wrapf msg_failed_create_powervs_client e)
               | Reply _ \<Rightarrow> do {
                   modify (\<lambda>s. s\<lparr>scope_workspaceID := workspaceID\<rparr>);
                   ok () } }) } }"

text \<open>The scope is the state after \<open>NewPowerVSImageScope\<close>; the parameters it validates are given by the controller.\<close>

definition NewPowerVSImageScope :: "image_clients \<Rightarrow> bool \<Rightarrow> bool \<Rightarrow> bool \<Rightarrow> string \<Rightarrow> unit image_proc" where
  "NewPowerVSImageScope C client img builder zone =
     (case image_params_validate client img builder of
        Err e \<Rightarrow> fail e
      | Panic \<Rightarrow> panic
      | Ok _ \<Rightarrow> bindW msg_failed_initialize_clients_image (image_initClients C zone) ok)"

section \<open>Accessors\<close>

definition SetImageActive :: "(ImageScope, unit) state" where
  "SetImageActive = upd_image_status (\<lambda>st. st\<lparr>ImageStatus_ImageState := PowerVSImageStateACTIVE\<rparr>)"

definition IsImageActive :: "ImageScope \<Rightarrow> bool" where
  "IsImageActive s \<longleftrightarrow> ImageStatus_ImageState (image_status s) = PowerVSImageStateACTIVE"

definition SetImageID :: "string option \<Rightarrow> (ImageScope, unit) state" where
  "SetImageID i = (case i of None \<Rightarrow> State_Monad.return () | Some x \<Rightarrow> upd_image_status (\<lambda>st. st\<lparr>ImageStatus_ImageID := x\<rparr>))"

definition GetImageID :: "ImageScope \<Rightarrow> string" where
  "GetImageID s = ImageStatus_ImageID (image_status s)"

definition SetImageState :: "string \<Rightarrow> (ImageScope, unit) state" where
  "SetImageState st' = upd_image_status (\<lambda>st. st\<lparr>ImageStatus_ImageState := st'\<rparr>)"

definition GetImageState :: "ImageScope \<Rightarrow> PowerVSImageState" where
  "GetImageState s = ImageStatus_ImageState (image_status s)"

definition SetJobID :: "string \<Rightarrow> (ImageScope, unit) state" where
  "SetJobID i = upd_image_status (\<lambda>st. st\<lparr>ImageStatus_JobID := i\<rparr>)"

definition GetJobID :: "ImageScope \<Rightarrow> string" where
  "GetJobID s = ImageStatus_JobID (image_status s)"

section \<open>Finding and importing the image\<close>

definition msg_failed_verify_image_uniqueness :: string where "msg_failed_verify_image_uniqueness = ''failed to verify image uniqueness''"
definition msg_failed_check_existing_import_job :: string where "msg_failed_check_existing_import_job = ''failed to check for existing import job''"
definition msg_failed_create_cos_image_import :: string where "msg_failed_create_cos_image_import = ''failed to create COS image import job''"
definition msg_failed_delete_powervs_image :: string where "msg_failed_delete_powervs_image = ''failed to delete PowerVS image''"
definition msg_failed_delete_import_job :: string where "msg_failed_delete_import_job = ''failed to delete COS image import job''"

definition BucketAccess :: string where "BucketAccess = ''public''"

text \<open>\<open>for _, img := range images.Images { if *img.Name == imageName { return img } }\<close>; a nil name panics.\<close>

fun image_named :: "string \<Rightarrow> ImageReference list \<Rightarrow> ImageReference option outcome" where
  "image_named n [] = Ok None"
| "image_named n (i # is) = (case imgref_Name i of None \<Rightarrow> Panic | Some m \<Rightarrow> if m = n then Ok (Some i) else image_named n is)"

definition ensureImageUnique :: "image_clients \<Rightarrow> string \<Rightarrow> ImageReference option image_proc" where
  "ensureImageUnique C imageName = do {
     r \<leftarrow> image_api (on_ListPVSImages C) Image_List;
     case r of
       Fail e _ \<Rightarrow> fail e
     | Reply None \<Rightarrow> panic
     | Reply (Some is) \<Rightarrow> State_Monad.return (image_named imageName is) }"

definition getImportJob :: "image_clients \<Rightarrow> JobStatus option option image_proc" where
  "getImportJob C = do {
     s \<leftarrow> State_Monad.get;
     r \<leftarrow> image_api (\<lambda>h. on_GetCosImages C h (scope_workspaceID s)) (Image_GetCosImages (scope_workspaceID s));
     case r of Fail e _ \<Rightarrow> fail e | Reply j \<Rightarrow> ok j }"

text \<open>The state of the last job is known and it has not ended.\<close>

definition job_in_progress :: "JobStatus option option \<Rightarrow> bool" where
  "job_in_progress lastJob = (case Option.bind (Option.bind lastJob id) job_State of
      None \<Rightarrow> False
    | Some state \<Rightarrow> state \<noteq> PowerVSImageStateCompleted \<and> state \<noteq> PowerVSImageStateFailed)"

definition import_request :: "IBMPowerVSImage \<Rightarrow> CreateCosImageImportJob" where
  "import_request i =
     \<lparr>cos_ImageName = Image_Name i, cos_BucketName = ImageSpec_Bucket (Image_Spec i), cos_BucketAccess = BucketAccess,
      cos_Region = ImageSpec_Region (Image_Spec i), cos_ImageFilename = ImageSpec_Object (Image_Spec i),
      cos_StorageType = ImageSpec_StorageType (Image_Spec i)\<rparr>"

text \<open>
  The image, or the job that was started, or neither while an earlier job is under way. Logging the
  job dereferences it and its ID.
\<close>

definition GetOrImportImage :: "image_clients \<Rightarrow> (ImageReference option \<times> JobReference option) image_proc" where
  "GetOrImportImage C = do {
     s \<leftarrow> State_Monad.get;
     bindW msg_failed_verify_image_uniqueness (ensureImageUnique C (Image_Name (scope_image s))) (\<lambda>imageReply.
       case imageReply of
         Some i \<Rightarrow> ok (Some i, None)
       | None \<Rightarrow>
           bindW msg_failed_check_existing_import_job (getImportJob C) (\<lambda>lastJob.
             if job_in_progress lastJob then ok (None, None)
             else do {
               let body = import_request (scope_image s);
               r \<leftarrow> image_api (\<lambda>h. on_CreateCosImage C h body) (Image_CreateCosImage body);
               case r of
                 Fail e _ \<Rightarrow> fail (Wrapf msg_failed_create_cos_image_import e)
               | Reply jobRef \<Rightarrow> deref jobRef (\<lambda>j. deref (jobref_ID j) (\<lambda>_. ok (None, Some j))) })) }"

definition DeletePVSImage :: "image_clients \<Rightarrow> unit image_proc" where
  "DeletePVSImage C = do {
     s \<leftarrow> State_Monad.get;
     let imageID = GetImageID s;
     if imageID = [] then ok ()
     else do {
       r \<leftarrow> image_api (\<lambda>h. on_DeletePVSImage C h imageID) (Image_Delete imageID);
       case r of Fail e _ \<Rightarrow> fail (Wrapf msg_failed_delete_powervs_image e) | Reply _ \<Rightarrow> ok () } }"

definition DeleteImportJob :: "image_clients \<Rightarrow> unit image_proc" where
  "DeleteImportJob C = do {
     s \<leftarrow> State_Monad.get;
     let jobID = GetJobID s;
     if jobID = [] then ok ()
     else do {
       r \<leftarrow> image_api (\<lambda>h. on_DeleteJob C h jobID) (Image_DeleteJob jobID);
       case r of Fail e _ \<Rightarrow> fail (Wrapf msg_failed_delete_import_job e) | Reply _ \<Rightarrow> ok () } }"

end
