(* ===== verification/Image_Controller.thy ===== *)
theory Image_Controller
  imports Image_Scope
begin

text \<open>
  The controller of the PowerVS images
  (\<^verbatim>\<open>internal/controllers/powervs/ibmpowervsimage_controller.go\<close>): adopting the image, polling the import job,
  importing it, deleting it, and the conditions it reports. What it uses of Cluster API and of the
  Kubernetes client beyond \<open>capi\<close> is a parameter, the record \<open>image_util\<close>.
\<close>

section \<open>Utilities\<close>

record image_util =
  HasOwner :: "OwnerReference list \<Rightarrow> string \<Rightarrow> string list \<Rightarrow> bool"
  EnsureOwnerRef :: "OwnerReference list \<Rightarrow> OwnerReference \<Rightarrow> OwnerReference list"
  ClusterNameLabel :: string
  conditions_Get :: "Condition list \<Rightarrow> string \<Rightarrow> Condition option"
  conditions_SetSummary :: "Condition list \<Rightarrow> string \<Rightarrow> string list \<Rightarrow> Condition list reply"  \<comment> \<open>target type, types to summarise\<close>
  deprecated_SetSummary :: "DeprecatedCondition list \<Rightarrow> string list \<Rightarrow> DeprecatedCondition list"
  k8s_GetImage :: "IBMPowerVSImage reply"
  k8s_GetCluster :: "string \<Rightarrow> string \<Rightarrow> IBMPowerVSCluster reply"
  EnsureFinalizer :: "IBMPowerVSImage \<Rightarrow> bool reply"
  patch_NewHelper :: "IBMPowerVSImage \<Rightarrow> unit reply"
  patch_Patch :: "IBMPowerVSImage \<Rightarrow> unit reply"

section \<open>Conditions\<close>

definition IBMPowerVSImageReadyCondition :: string where "IBMPowerVSImageReadyCondition = ''Ready''"
definition IBMPowerVSImageReadyReason :: string where "IBMPowerVSImageReadyReason = ''Ready''"
definition IBMPowerVSImageNotReadyReason :: string where "IBMPowerVSImageNotReadyReason = ''NotReady''"
definition IBMPowerVSImageReadyUnknownReason :: string where "IBMPowerVSImageReadyUnknownReason = ''ReadyUnknown''"
definition IBMPowerVSImageImportFailedReason :: string where "IBMPowerVSImageImportFailedReason = ''ImageImportFailed''"
definition IBMPowerVSImageQueuedReason :: string where "IBMPowerVSImageQueuedReason = ''ImageQueued''"
definition IBMPowerVSImageDeletingReason :: string where "IBMPowerVSImageDeletingReason = ''Deleting''"
definition ImageReadyV1Beta2Condition :: string where "ImageReadyV1Beta2Condition = ''ImageReady''"
definition ImageImportedV1Beta2Condition :: string where "ImageImportedV1Beta2Condition = ''ImageImported''"
definition ImageNotReadyV1Beta2Reason :: string where "ImageNotReadyV1Beta2Reason = ''ImageNotReady''"
definition ImageImportFailedV1Beta2Reason :: string where "ImageImportFailedV1Beta2Reason = ''ImageImportFailed''"
definition ImageStateUnknownV1Beta2Reason :: string where "ImageStateUnknownV1Beta2Reason = ''ImageStateUnknown''"
definition ConditionSeverityInfo :: string where "ConditionSeverityInfo = ''Info''"
definition ConditionSeverityWarning :: string where "ConditionSeverityWarning = ''Warning''"

text \<open>The text of a message; the empty one is \<open>None\<close>.\<close>

definition message :: "string \<Rightarrow> gerror option" where
  "message m = (if m = [] then None else Some (Errorf m))"

definition legacy_reason :: "string \<Rightarrow> string" where
  "legacy_reason reason =
     (if reason = IBMPowerVSImageNotReadyReason then ImageNotReadyV1Beta2Reason
      else if reason = IBMPowerVSImageQueuedReason then PowerVSImageStateQueued
      else if reason = IBMPowerVSImageImportFailedReason then ImageImportFailedV1Beta2Reason
      else if reason = IBMPowerVSImageReadyUnknownReason then ImageStateUnknownV1Beta2Reason
      else reason @ ''V1Beta2'')"

text \<open>\<open>MarkUnknown\<close>, \<open>MarkTrue\<close> and \<open>MarkFalse\<close> set a deprecated condition of that status.\<close>

definition legacy_mark :: "string \<Rightarrow> ConditionStatus \<Rightarrow> string \<Rightarrow> string \<Rightarrow> gerror option \<Rightarrow> DeprecatedCondition" where
  "legacy_mark ty st legacyReason severity msg =
     (case st of
        ConditionUnknown \<Rightarrow> \<lparr>DeprecatedCondition_Type = ty, DeprecatedCondition_Status = ConditionUnknown, DeprecatedCondition_Severity = [],
          DeprecatedCondition_Reason = legacyReason, DeprecatedCondition_Message = msg\<rparr>
      | ConditionTrue \<Rightarrow> \<lparr>DeprecatedCondition_Type = ty, DeprecatedCondition_Status = ConditionTrue, DeprecatedCondition_Severity = [],
          DeprecatedCondition_Reason = [], DeprecatedCondition_Message = None\<rparr>
      | ConditionFalse \<Rightarrow> \<lparr>DeprecatedCondition_Type = ty, DeprecatedCondition_Status = ConditionFalse, DeprecatedCondition_Severity = severity,
          DeprecatedCondition_Reason = legacyReason, DeprecatedCondition_Message = msg\<rparr>)"

definition mark :: "capi \<Rightarrow> string \<Rightarrow> string \<Rightarrow> ConditionStatus \<Rightarrow> string \<Rightarrow> string \<Rightarrow> gerror option \<Rightarrow> IBMPowerVSImage \<Rightarrow> IBMPowerVSImage" where
  "mark K condType legacyCondType st reason severity msg i =
     (let i' = Image_SetConditions i (conditions_Set K (Image_GetConditions i)
                 \<lparr>Condition_Type = condType, Condition_Status = st, Condition_Reason = reason, Condition_Message = msg\<rparr>)
      in Image_SetV1Beta1Conditions i' (deprecated_Set K (Image_GetV1Beta1Conditions i')
           (legacy_mark legacyCondType st (legacy_reason reason) severity msg)))"

definition markCondition :: "capi \<Rightarrow> string \<Rightarrow> string \<Rightarrow> ConditionStatus \<Rightarrow> string \<Rightarrow> string \<Rightarrow> gerror option \<Rightarrow> (ImageScope, unit) state" where
  "markCondition K condType legacyCondType st reason severity msg = upd_image (mark K condType legacyCondType st reason severity msg)"

section \<open>Reconcile\<close>

definition GroupVersion :: string where "GroupVersion = ''infrastructure.cluster.x-k8s.io/v1beta3''"
definition ibmPowerVSClusterKind :: string where "ibmPowerVSClusterKind = ''IBMPowerVSCluster''"

definition msg_failed_import_image :: string where "msg_failed_import_image = ''failed to import image''"
definition msg_failed_reconcile_image :: string where "msg_failed_reconcile_image = ''failed to reconcile Image''"
definition msg_error_deleting_import_job :: string where "msg_error_deleting_import_job = ''error deleting IBMPowerVSImage Import Job''"
definition msg_failed_to_delete_import_job :: string where "msg_failed_to_delete_import_job = ''Failed to delete import job''"
definition msg_failed_delete_ibmpowervsimage :: string where "msg_failed_delete_ibmpowervsimage = ''failed to delete IBMPowerVSImage''"
definition msg_error_deleting_ibmpowervsimage :: string where "msg_error_deleting_ibmpowervsimage = ''error deleting IBMPowerVSImage''"
definition msg_failed_get_ibmpowervsimage :: string where "msg_failed_get_ibmpowervsimage = ''failed to get IBMPowerVSImage''"
definition msg_failed_get_cluster :: string where "msg_failed_get_cluster = ''failed to get Cluster''"
definition msg_failed_init_patch_helper :: string where "msg_failed_init_patch_helper = ''failed to init patch helper''"
definition msg_failed_create_image_scope :: string where "msg_failed_create_image_scope = ''Failed to create image scope''"
definition msg_failed_create_scope :: string where "msg_failed_create_scope = ''failed to create scope''"
definition msg_failed_set_condition :: string where "msg_failed_set_condition = ''failed to set condition''"

definition shouldAdopt :: "image_util \<Rightarrow> IBMPowerVSImage \<Rightarrow> bool" where
  "shouldAdopt W i \<longleftrightarrow> \<not> HasOwner W (Image_OwnerReferences i) GroupVersion [ibmPowerVSClusterKind]"

text \<open>The label with the name of the cluster, if there is none.\<close>

definition ensure_label :: "image_util \<Rightarrow> IBMPowerVSImage \<Rightarrow> IBMPowerVSImage" where
  "ensure_label W i =
     (let labels = (case Image_Labels i of None \<Rightarrow> Map.empty | Some m \<Rightarrow> m)
      in i\<lparr>Image_Labels := Some (case labels (ClusterNameLabel W) of
             None \<Rightarrow> labels(ClusterNameLabel W \<mapsto> ImageSpec_ClusterName (Image_Spec i)) | Some _ \<Rightarrow> labels)\<rparr>)"

definition adopt :: "image_util \<Rightarrow> IBMPowerVSCluster \<Rightarrow> IBMPowerVSImage \<Rightarrow> IBMPowerVSImage" where
  "adopt W cluster i = i\<lparr>Image_OwnerReferences := EnsureOwnerRef W (Image_OwnerReferences i)
     \<lparr>owner_APIVersion = GroupVersion, owner_Kind = ibmPowerVSClusterKind, owner_Name = Cluster_Name cluster, owner_UID = Cluster_UID cluster\<rparr>\<rparr>"

definition reconcileImage :: "capi \<Rightarrow> image_clients \<Rightarrow> ImageReference option \<Rightarrow> Result image_proc" where
  "reconcileImage K C img =
     bindE (case Option.bind img imgref_ImageID of
              None \<Rightarrow> ok None
            | Some imageID \<Rightarrow> do {
                r \<leftarrow> image_api (\<lambda>h. on_GetPVSImage C h imageID) (Image_Get imageID);
                case r of
                  Fail e _ \<Rightarrow> fail e
                | Reply None \<Rightarrow> panic
                | Reply (Some pimg) \<Rightarrow> do {
                    SetImageID (pvsimg_ImageID pimg);
                    SetImageState (pvsimg_State pimg);
                    if pvsimg_State pimg = PowerVSImageStateQueued then do {
                      markCondition K IBMPowerVSImageReadyCondition ImageReadyV1Beta2Condition ConditionFalse IBMPowerVSImageNotReadyReason
                        ConditionSeverityWarning (message ''Image is queued'');
                      ok (Some \<lparr>RequeueAfter = 60\<rparr>) }
                    else if pvsimg_State pimg = PowerVSImageStateACTIVE then do {
                      SetImageActive;
                      markCondition K IBMPowerVSImageReadyCondition ImageReadyV1Beta2Condition ConditionTrue IBMPowerVSImageReadyReason
                        ConditionSeverityInfo None;
                      ok None }
                    else do {
                      markCondition K IBMPowerVSImageReadyCondition ImageReadyV1Beta2Condition ConditionUnknown IBMPowerVSImageReadyUnknownReason
                        ConditionSeverityInfo (message (''Unknown state: '' @ pvsimg_State pimg));
                      ok None } } })
       (\<lambda>early. case early of
          Some result \<Rightarrow> ok result
        | None \<Rightarrow> do {
            s \<leftarrow> State_Monad.get;
            if \<not> IsImageActive s then ok \<lparr>RequeueAfter = 60\<rparr> else ok finished })"

text \<open>The import job is polled; \<open>None\<close> when it is complete and the image is to be looked at.\<close>

definition poll_job :: "capi \<Rightarrow> image_clients \<Rightarrow> string \<Rightarrow> Result option image_proc" where
  "poll_job K C jobID = do {
     r \<leftarrow> image_api (\<lambda>h. on_GetJob C h jobID) (Image_GetJob jobID);
     case r of
       Fail e _ \<Rightarrow> fail e
     | Reply None \<Rightarrow> panic
     | Reply (Some None) \<Rightarrow> ok (Some \<lparr>RequeueAfter = 60\<rparr>)
     | Reply (Some (Some st)) \<Rightarrow>
         (case job_State st of
            None \<Rightarrow> ok (Some \<lparr>RequeueAfter = 60\<rparr>)
          | Some state \<Rightarrow> do {
              SetImageState state;
              if state = PowerVSImageStateCompleted then do {
                markCondition K IBMPowerVSImageReadyCondition ImageImportedV1Beta2Condition ConditionTrue IBMPowerVSImageReadyReason
                  ConditionSeverityInfo None;
                ok None }
              else if state = PowerVSImageStateFailed then do {
                markCondition K IBMPowerVSImageReadyCondition ImageImportedV1Beta2Condition ConditionFalse IBMPowerVSImageImportFailedReason
                  ConditionSeverityError (message (job_Message st));
                fail (Wrapf msg_failed_import_image (Errorf (job_Message st))) }
              else if state = PowerVSImageStateQueued then do {
                markCondition K IBMPowerVSImageReadyCondition ImageImportedV1Beta2Condition ConditionFalse IBMPowerVSImageQueuedReason
                  ConditionSeverityInfo (message (job_Message st));
                ok (Some \<lparr>RequeueAfter = 120\<rparr>) }
              else do {
                SetImageState PowerVSImageStateImporting;
                markCondition K IBMPowerVSImageReadyCondition ImageImportedV1Beta2Condition ConditionFalse IBMPowerVSImageNotReadyReason
                  ConditionSeverityInfo (message (job_Message st));
                ok (Some \<lparr>RequeueAfter = 120\<rparr>) } }) }"

text \<open>From \<open>GetOrImportImage\<close> on.\<close>

definition import_and_check :: "capi \<Rightarrow> image_clients \<Rightarrow> Result image_proc" where
  "import_and_check K C =
     bindW msg_failed_reconcile_image (GetOrImportImage C) (\<lambda>(img, jobRef). do {
       (case Option.bind jobRef jobref_ID of
          None \<Rightarrow> State_Monad.return ()
        | Some j \<Rightarrow> SetJobID j);
       reconcileImage K C img })"

definition image_reconcile :: "capi \<Rightarrow> image_util \<Rightarrow> image_clients \<Rightarrow> IBMPowerVSCluster \<Rightarrow> Result image_proc" where
  "image_reconcile K W C cluster = do {
     upd_image (ensure_label W);
     s \<leftarrow> State_Monad.get;
     if shouldAdopt W (scope_image s) then do {
       upd_image (adopt W cluster);
       ok finished }
     else do {
       markCondition K WorkspaceReadyCondition ServiceInstanceReadyV1Beta2Condition ConditionTrue ReadyReason ConditionSeverityInfo None;
       let jobID = GetJobID s;
       bindE (if jobID \<noteq> [] then poll_job K C jobID else ok None) (\<lambda>early. case early of
           Some result \<Rightarrow> ok result
         | None \<Rightarrow>
             import_and_check K C) } }"

section \<open>Deletion\<close>

text \<open>The body of \<open>reconcileDelete\<close>, without the deferred removal of the finalizer.\<close>

definition delete_image_body :: "capi \<Rightarrow> image_clients \<Rightarrow> Result image_proc" where
  "delete_image_body K C = do {
     s \<leftarrow> State_Monad.get;
     if GetImageID s = [] then
       if GetJobID s \<noteq> [] then
         attempt (DeleteImportJob C)
           (\<lambda>e. do {
             markCondition K IBMPowerVSImageReadyCondition ImageReadyV1Beta2Condition ConditionFalse IBMPowerVSImageDeletingReason
               ConditionSeverityWarning (Some (Wrapf msg_failed_to_delete_import_job e));
             fail (Wrapf msg_error_deleting_import_job e) })
           (\<lambda>_. ok finished)
       else ok finished
     else if ImageSpec_DeletePolicy (image_spec s) \<noteq> PowerVSImageDeletePolicyRetain then
       attempt (DeletePVSImage C)
         (\<lambda>e. do {
           markCondition K IBMPowerVSImageReadyCondition ImageReadyV1Beta2Condition ConditionFalse IBMPowerVSImageDeletingReason
             ConditionSeverityWarning (Some (Wrapf msg_failed_delete_ibmpowervsimage e));
           fail (Wrapf msg_error_deleting_ibmpowervsimage e) })
         (\<lambda>_. ok finished)
     else ok finished }"

definition remove_image_finalizer :: "capi \<Rightarrow> IBMPowerVSImage \<Rightarrow> IBMPowerVSImage" where
  "remove_image_finalizer K i = i\<lparr>Image_Finalizers := RemoveFinalizer K (Image_Finalizers i) IBMPowerVSImageFinalizer\<rparr>"

definition image_reconcileDelete :: "capi \<Rightarrow> image_clients \<Rightarrow> Result image_proc" where
  "image_reconcileDelete K C = do {
     markCondition K IBMPowerVSImageReadyCondition ImageReadyV1Beta2Condition ConditionFalse IBMPowerVSImageDeletingReason ConditionSeverityInfo None;
     bindE (delete_image_body K C) (\<lambda>result. do {
       upd_image (remove_image_finalizer K);
       ok result }) }"

section \<open>Patching\<close>

text \<open>What \<open>patchIBMPowerVSImage\<close> makes of the object before it patches it.\<close>

definition ready_default :: "capi \<Rightarrow> image_util \<Rightarrow> IBMPowerVSImage \<Rightarrow> IBMPowerVSImage" where
  "ready_default K W i =
     (if conditions_Get W (Image_GetConditions i) IBMPowerVSImageReadyCondition \<noteq> None then i
      else Image_SetConditions i (conditions_Set K (Image_GetConditions i)
        (if ImageStatus_ImageState (Image_Status i) = PowerVSImageStateACTIVE
         then \<lparr>Condition_Type = IBMPowerVSImageReadyCondition, Condition_Status = ConditionTrue, Condition_Reason = IBMPowerVSImageReadyReason, Condition_Message = None\<rparr>
         else \<lparr>Condition_Type = IBMPowerVSImageReadyCondition, Condition_Status = ConditionFalse, Condition_Reason = IBMPowerVSImageNotReadyReason, Condition_Message = None\<rparr>)))"

definition patchIBMPowerVSImage :: "capi \<Rightarrow> image_util \<Rightarrow> IBMPowerVSImage \<Rightarrow> unit outcome \<times> IBMPowerVSImage" where
  "patchIBMPowerVSImage K W i =
     (let i1 = ready_default K W i;
          i2 = Image_SetV1Beta1Conditions i1 (deprecated_SetSummary W (Image_GetV1Beta1Conditions i1) [ImageReadyV1Beta2Condition])
      in case conditions_SetSummary W (Image_GetConditions i2) IBMPowerVSImageReadyCondition [WorkspaceReadyCondition] of
           Fail e _ \<Rightarrow> (Err (Wrapf msg_failed_set_condition e), i2)
         | Reply cs \<Rightarrow>
             (let i3 = Image_SetConditions i2 cs
              in case patch_Patch W i3 of Fail e _ \<Rightarrow> (Err e, i3) | Reply _ \<Rightarrow> (Ok (), i3)))"

section \<open>The entry point\<close>

text \<open>
  \<open>Reconcile\<close>: the result, and the image as it was patched at the end (\<open>None\<close> if it was not). The
  deferred patch runs whatever was returned; its error is added to the one returned.
\<close>

definition deferred_patch :: "capi \<Rightarrow> image_util \<Rightarrow> Result outcome \<times> ImageScope \<Rightarrow> Result outcome \<times> IBMPowerVSImage option" where
  "deferred_patch K W x =
     (case patchIBMPowerVSImage K W (scope_image (snd x)) of
        (Ok _, i) \<Rightarrow> (fst x, Some i)
      | (Err e, i) \<Rightarrow> (case fst x of Err e0 \<Rightarrow> Err (AggregateErr [e0, e]) | Ok _ \<Rightarrow> Err (AggregateErr [e]) | Panic \<Rightarrow> Panic, Some i)
      | (Panic, i) \<Rightarrow> (Panic, Some i))"

text \<open>From the scope on; the deletion does not need the cluster.\<close>

definition image_scoped :: "capi \<Rightarrow> image_util \<Rightarrow> image_clients \<Rightarrow> IBMPowerVSCluster option \<Rightarrow> Result image_proc" where
  "image_scoped K W C cluster =
     attempt (NewPowerVSImageScope C True True True (case cluster of None \<Rightarrow> [] | Some c \<Rightarrow> Spec_Zone (Cluster_Spec c)))
       (\<lambda>e. do {
         (if errors_Is e ErrWorkspaceNotInActiveState
          then markCondition K WorkspaceReadyCondition ServiceInstanceReadyV1Beta2Condition ConditionFalse NotReadyReason ConditionSeverityError (Some e)
          else State_Monad.return ());
         markCondition K IBMPowerVSImageReadyCondition ImageReadyV1Beta2Condition ConditionUnknown IBMPowerVSImageReadyUnknownReason
           ConditionSeverityInfo (message msg_failed_create_image_scope);
         fail (Wrapf msg_failed_create_scope e) })
       (\<lambda>_. case cluster of None \<Rightarrow> image_reconcileDelete K C | Some c \<Rightarrow> image_reconcile K W C c)"

definition image_Reconcile :: "capi \<Rightarrow> image_util \<Rightarrow> image_clients \<Rightarrow> Result outcome \<times> IBMPowerVSImage option" where
  "image_Reconcile K W C =
     (case k8s_GetImage W of
        Fail (NotFoundErr _) _ \<Rightarrow> (Ok finished, None)
      | Fail e _ \<Rightarrow> (Err (Wrapf msg_failed_get_ibmpowervsimage e), None)
      | Reply i \<Rightarrow>
          (case EnsureFinalizer W i of
             Fail e _ \<Rightarrow> (Err e, None)
           | Reply True \<Rightarrow> (Ok finished, None)
           | Reply False \<Rightarrow>
               (let start = \<lparr>image_trace = [], scope_image = i, scope_workspaceID = []\<rparr>;
                    go = (\<lambda>cluster. case patch_NewHelper W i of
                           Fail e _ \<Rightarrow> (Err (Wrapf msg_failed_init_patch_helper e), None)
                         | Reply _ \<Rightarrow> deferred_patch K W (run_state (image_scoped K W C cluster) start))
                in if Image_Deleting i then go None
                   else (case k8s_GetCluster W (Image_Namespace i) (ImageSpec_ClusterName (Image_Spec i)) of
                           Fail e _ \<Rightarrow> (Err (Wrapf msg_failed_get_cluster e), None)
                         | Reply c \<Rightarrow> go (Some c)))))"

end
