(* ===== verification/Image_Properties.thy ===== *)
theory Image_Properties
  imports Image_Controller
begin

text \<open>What the image controller promises, and where it gets stuck or reports too much.\<close>

section \<open>Frames\<close>

lemma image_update_simps [simp]:
  "Image_Status (mark K ty lty st rs sv msg i) = (Image_Status i)
     \<lparr>ImageStatus_Conditions := conditions_Set K (ImageStatus_Conditions (Image_Status i))
        \<lparr>Condition_Type = ty, Condition_Status = st, Condition_Reason = rs, Condition_Message = msg\<rparr>,
      ImageStatus_Deprecated := Some (Some (deprecated_Set K (Image_GetV1Beta1Conditions i) (legacy_mark lty st (legacy_reason rs) sv msg)))\<rparr>"
  "Image_Name (mark K ty lty st rs sv msg i) = Image_Name i" "Image_Spec (mark K ty lty st rs sv msg i) = Image_Spec i"
  "Image_Finalizers (mark K ty lty st rs sv msg i) = Image_Finalizers i"
  "Image_OwnerReferences (mark K ty lty st rs sv msg i) = Image_OwnerReferences i"
  "Image_Status (ensure_label W i) = Image_Status i" "Image_Name (ensure_label W i) = Image_Name i"
  "Image_Spec (ensure_label W i) = Image_Spec i" "Image_OwnerReferences (ensure_label W i) = Image_OwnerReferences i"
  "Image_Status (adopt W c i) = Image_Status i"
  by (simp_all add: mark_def Let_def Image_SetConditions_def Image_SetV1Beta1Conditions_def Image_GetConditions_def Image_GetV1Beta1Conditions_def
      ensure_label_def adopt_def)

lemma shouldAdopt_label [simp]: "shouldAdopt W (ensure_label W i) = shouldAdopt W i"
  by (simp add: shouldAdopt_def)

lemmas image_step_defs = markCondition_def SetImageState_def SetImageID_def SetImageActive_def SetJobID_def

section \<open>An example\<close>

definition example_image :: IBMPowerVSImage where
  "example_image = \<lparr>Image_Name = ''i'', Image_Namespace = ''ns'', Image_Labels = None,
     Image_OwnerReferences = [\<lparr>owner_APIVersion = GroupVersion, owner_Kind = ibmPowerVSClusterKind, owner_Name = ''c'', owner_UID = ''u''\<rparr>],
     Image_Finalizers = [IBMPowerVSImageFinalizer], Image_Deleting = False,
     Image_Spec = \<lparr>ImageSpec_ClusterName = ''c'', ImageSpec_Workspace = \<lparr>ResourceIdentifier_ID = ''ws'', ResourceIdentifier_Name = []\<rparr>,
       ImageSpec_Bucket = ''b'', ImageSpec_Object = ''o'', ImageSpec_Region = ''r'', ImageSpec_StorageType = [],
       ImageSpec_DeletePolicy = PowerVSImageDeletePolicyDelete\<rparr>,
     Image_Status = \<lparr>ImageStatus_Conditions = [], ImageStatus_ImageID = [], ImageStatus_ImageState = [], ImageStatus_JobID = ''j'',
       ImageStatus_Deprecated = None\<rparr>\<rparr>"

definition example_image_scope :: ImageScope where
  "example_image_scope = \<lparr>image_trace = [], scope_image = example_image, scope_workspaceID = ''ws''\<rparr>"

text \<open>The image is there and active; the last job has failed.\<close>

definition image_cloud :: image_clients where
  "image_cloud = \<lparr>on_Authenticator = \<lambda>_. Reply (), on_ResourceController = \<lambda>_. Reply (), on_PowerVS = \<lambda>_ _ _. Reply (),
     on_FindInstance = \<lambda>_ f. Reply (Some (active_instance (filter_Name f))), on_GetInstance = \<lambda>_ i. Reply (Some (active_instance i)),
     on_ListPVSImages = \<lambda>_. Reply (Some [\<lparr>imgref_ImageID = Some ''id'', imgref_Name = Some ''i''\<rparr>]),
     on_GetCosImages = \<lambda>_ _. Reply None, on_CreateCosImage = \<lambda>_ _. Reply (Some \<lparr>jobref_ID = Some ''j''\<rparr>),
     on_GetJob = \<lambda>_ _. Reply (Some (Some \<lparr>job_State = Some PowerVSImageStateFailed, job_Message = ''bad''\<rparr>)),
     on_GetPVSImage = \<lambda>_ i. Reply (Some \<lparr>pvsimg_ImageID = Some i, pvsimg_State = PowerVSImageStateACTIVE\<rparr>),
     on_DeletePVSImage = \<lambda>_ _. Reply (), on_DeleteJob = \<lambda>_ _. Reply ()\<rparr>"

definition example_image_util :: image_util where
  "example_image_util = \<lparr>HasOwner = \<lambda>os v ks. list_ex (\<lambda>ow. owner_APIVersion ow = v \<and> owner_Kind ow \<in> set ks) os,
     EnsureOwnerRef = \<lambda>os ow. os @ [ow], ClusterNameLabel = ''cluster.x-k8s.io/cluster-name'',
     conditions_Get = \<lambda>cs ty. find (\<lambda>c. Condition_Type c = ty) cs,
     conditions_SetSummary = \<lambda>cs target tys. Reply (map (\<lambda>c. c\<lparr>Condition_Type := target\<rparr>) (filter (\<lambda>c. Condition_Type c \<in> set tys) cs) @
       filter (\<lambda>c. Condition_Type c \<noteq> target) cs),
     deprecated_SetSummary = \<lambda>cs tys. cs, k8s_GetImage = Reply example_image, k8s_GetCluster = \<lambda>_ _. Reply (scope_cluster fresh),
     EnsureFinalizer = \<lambda>_. Reply False, patch_NewHelper = \<lambda>_. Reply (), patch_Patch = \<lambda>_. Reply ()\<rparr>"

lemma example_owned: "\<not> shouldAdopt example_image_util (scope_image example_image_scope)"
  by code_simp

section \<open>Ready means active\<close>

lemma reconcileImage_finished: "wp (reconcileImage K C img) (\<lambda>r t. r = Ok finished \<longrightarrow> IsImageActive t) s"
  unfolding reconcileImage_def image_step_defs
  by (simp only: wp_simps) (simp add: cong: imp_cong)

lemma poll_job_requeues: "wp (poll_job K C j) (\<lambda>r t. r \<noteq> Ok (Some finished)) s"
  unfolding poll_job_def image_step_defs
  by (simp only: wp_simps) (simp cong: imp_cong)

lemma import_and_check_finished: "wp (import_and_check K C) (\<lambda>r t. r = Ok finished \<longrightarrow> IsImageActive t) s"
  unfolding import_and_check_def wp_attempt SetJobID_def
  by (rule wp_mono [OF wp_True]) (auto simp: wp_simps intro: reconcileImage_finished)

text \<open>
  a reconcile of an image ends without error and without a requeue only if the image was
  adopted in it (then nothing else happened and no client was called) or the image is recorded as
  active.
\<close>

theorem image_finished_active:
  assumes "run_state (image_reconcile K W C cluster) s = (Ok finished, t)"
  shows "if shouldAdopt W (scope_image s) then image_trace t = image_trace s \<and> image_status t = image_status s else IsImageActive t"
proof -
  have "wp (image_reconcile K W C cluster) (\<lambda>r t. r = Ok finished \<longrightarrow>
      (if shouldAdopt W (scope_image s) then image_trace t = image_trace s \<and> image_status t = image_status s else IsImageActive t)) s"
    unfolding image_reconcile_def image_step_defs
    by (simp only: wp_bind wp_upd_image wp_get wp_if wp_attempt wp_let wp_return)
       (auto simp: wp_simps intro!: wp_mono [OF poll_job_requeues] wp_mono [OF import_and_check_finished])
  from wpD [OF this assms] show ?thesis by simp
qed


definition without_job :: ImageScope where
  "without_job = example_image_scope\<lparr>scope_image := example_image\<lparr>Image_Status := (Image_Status example_image)\<lparr>ImageStatus_JobID := []\<rparr>\<rparr>\<rparr>"

theorem image_finished_active_witness:
  "IsImageActive (snd (run_state (image_reconcile example_capi example_image_util image_cloud (scope_cluster fresh)) without_job))"
proof -
  let ?x = "run_state (image_reconcile example_capi example_image_util image_cloud (scope_cluster fresh)) without_job"
  have "fst ?x = Ok finished" by code_simp
  then have "?x = (Ok finished, snd ?x)" by (simp add: prod_eq_iff)
  moreover have "\<not> shouldAdopt example_image_util (scope_image without_job)" by code_simp
  ultimately show ?thesis using image_finished_active by presburger
qed

section \<open>The import\<close>

text \<open>
  while the cloud reports the recorded import job as failed, no reconcile ever starts another
  import: each one asks for the job, returns an error, and leaves the job recorded. The branch of
  \<open>GetOrImportImage\<close> that starts a new import after a failed one is not reached.
\<close>

theorem failed_import_stuck:
  assumes "\<not> shouldAdopt W (scope_image s)" and "GetJobID s = job" and "job \<noteq> []"
    and "\<And>h. on_GetJob C h job = Reply (Some (Some st))" and "job_State st = Some PowerVSImageStateFailed"
  shows "image_trace (rerun n (image_reconcile K W C cluster) s) = image_trace s @ replicate n (Image_GetJob job) \<and>
    GetImageState (rerun (Suc n) (image_reconcile K W C cluster) s) = PowerVSImageStateFailed"
proof -
  let ?m = "image_reconcile K W C cluster"
  let ?I = "\<lambda>s. \<not> shouldAdopt W (scope_image s) \<and> GetJobID s = job"
  have step: "wp ?m (\<lambda>r t. ?I t \<and> image_trace t = image_trace s @ [Image_GetJob job] \<and> GetImageState t = PowerVSImageStateFailed) s" if "?I s" for s
    unfolding image_reconcile_def poll_job_def image_step_defs
    using that assms(3-5) by (simp only: wp_simps) (simp add: GetJobID_def GetImageState_def shouldAdopt_def image_state_defs)
  have run: "?I (rerun n ?m s) \<and> image_trace (rerun n ?m s) = image_trace s @ replicate n (Image_GetJob job)" if "?I s" for n s
    using that
  proof (induction n arbitrary: s)
    case (Suc n)
    then show ?case using wp_result [OF step [OF Suc.prems]] by simp
  qed simp
  have "rerun (Suc n) ?m s = snd (run_state ?m (rerun n ?m s))" by (rule rerun_Suc)
  then show ?thesis using run [of s n] wp_result [OF step [of "rerun n ?m s"]] assms(1,2) by simp
qed


theorem failed_import_stuck_witness:
  "image_trace (rerun 3 (image_reconcile example_capi example_image_util image_cloud (scope_cluster fresh)) example_image_scope) =
     replicate 3 (Image_GetJob ''j'')"
proof -
  have "GetJobID example_image_scope = ''j''" "image_trace example_image_scope = []"
    by (simp_all add: GetJobID_def example_image_scope_def example_image_def)
  then show ?thesis
    using failed_import_stuck [OF example_owned, of "''j''" image_cloud "\<lparr>job_State = Some PowerVSImageStateFailed, job_Message = ''bad''\<rparr>" 3 example_capi "scope_cluster fresh"]
    by (simp add: image_cloud_def)
qed

text \<open>What a run does between two states: the calls it adds.\<close>

definition image_calls :: "ImageScope \<Rightarrow> ImageScope \<Rightarrow> image_call list" where
  "image_calls s t = drop (length (image_trace s)) (image_trace t)"

lemma image_calls_append [simp]: "image_trace t = image_trace s @ cs \<Longrightarrow> image_calls s t = cs"
  by (simp add: image_calls_def)

text \<open>
  an import job is started only after the list of images, asked for in the same run, had no
  image of that name and the last job of the workspace was not under way, and with the bucket,
  object, region and storage type of the spec; a run starts one job at most, and then nothing else
  is asked of the cloud.
\<close>

theorem import_guard:
  assumes "run_state (GetOrImportImage C) s = (r, t)" and "Image_CreateCosImage body \<in> set (image_calls s t)"
  shows "image_calls s t = [Image_List, Image_GetCosImages (scope_workspaceID s), Image_CreateCosImage (import_request (scope_image s))] \<and>
    (\<exists>is. on_ListPVSImages C (image_trace s) = Reply (Some is) \<and> Some (Image_Name (scope_image s)) \<notin> imgref_Name ` set is) \<and>
    (\<exists>j. on_GetCosImages C (image_trace s @ [Image_List]) (scope_workspaceID s) = Reply j \<and> \<not> job_in_progress j)"
proof -
  have named: "image_named n is = Ok None \<Longrightarrow> Some n \<notin> imgref_Name ` set is" for n "is"
    by (induction n "is" rule: image_named.induct) (auto split: option.splits if_splits)
  have "wp (GetOrImportImage C) (\<lambda>r t. Image_CreateCosImage body \<in> set (image_calls s t) \<longrightarrow>
    image_calls s t = [Image_List, Image_GetCosImages (scope_workspaceID s), Image_CreateCosImage (import_request (scope_image s))] \<and>
    (\<exists>is. on_ListPVSImages C (image_trace s) = Reply (Some is) \<and> Some (Image_Name (scope_image s)) \<notin> imgref_Name ` set is) \<and>
    (\<exists>j. on_GetCosImages C (image_trace s @ [Image_List]) (scope_workspaceID s) = Reply j \<and> \<not> job_in_progress j)) s"
    unfolding GetOrImportImage_def ensureImageUnique_def getImportJob_def
    by (simp only: wp_simps) (auto simp: image_calls_def dest: named)
  from wpD [OF this assms(1)] assms(2) show ?thesis by simp
qed

definition no_images :: image_clients where
  "no_images = image_cloud\<lparr>on_ListPVSImages := \<lambda>_. Reply (Some [])\<rparr>"

theorem import_guard_witness:
  "image_calls without_job (snd (run_state (GetOrImportImage no_images) without_job)) =
     [Image_List, Image_GetCosImages ''ws'', Image_CreateCosImage (import_request (scope_image without_job))]"
proof -
  have "Image_CreateCosImage (import_request (scope_image without_job)) \<in> set (image_calls without_job (snd (run_state (GetOrImportImage no_images) without_job)))"
    by code_simp
  from import_guard [OF surjective_pairing this] show ?thesis by (simp add: without_job_def example_image_scope_def)
qed

section \<open>Deletion\<close>

text \<open>
  C10: a deletion removes the finalizer exactly when it succeeds. It deletes only the recorded image,
  and only if the policy is not to retain it, or, when no image is recorded, the recorded job; and
  when it succeeds for a recorded image not to be retained, the cloud has confirmed its deletion.
\<close>

theorem image_delete_policy:
  assumes "run_state (image_reconcileDelete K C) s = (r, t)"
  shows "Image_Finalizers (scope_image t) =
      (if r = Ok finished then RemoveFinalizer K (Image_Finalizers (scope_image s)) IBMPowerVSImageFinalizer else Image_Finalizers (scope_image s))
    \<and> image_calls s t =
      (if GetImageID s \<noteq> [] then if ImageSpec_DeletePolicy (image_spec s) = PowerVSImageDeletePolicyRetain then [] else [Image_Delete (GetImageID s)]
       else if GetJobID s \<noteq> [] then [Image_DeleteJob (GetJobID s)] else [])
    \<and> (r = Ok finished) =
      (if GetImageID s \<noteq> [] then ImageSpec_DeletePolicy (image_spec s) = PowerVSImageDeletePolicyRetain \<or>
         on_DeletePVSImage C (image_trace s) (GetImageID s) = Reply ()
       else GetJobID s = [] \<or> on_DeleteJob C (image_trace s) (GetJobID s) = Reply ())"
proof -
  have "wp (image_reconcileDelete K C) (\<lambda>r t. Image_Finalizers (scope_image t) =
      (if r = Ok finished then RemoveFinalizer K (Image_Finalizers (scope_image s)) IBMPowerVSImageFinalizer else Image_Finalizers (scope_image s))
    \<and> image_calls s t =
      (if GetImageID s \<noteq> [] then if ImageSpec_DeletePolicy (image_spec s) = PowerVSImageDeletePolicyRetain then [] else [Image_Delete (GetImageID s)]
       else if GetJobID s \<noteq> [] then [Image_DeleteJob (GetJobID s)] else [])
    \<and> (r = Ok finished) =
      (if GetImageID s \<noteq> [] then ImageSpec_DeletePolicy (image_spec s) = PowerVSImageDeletePolicyRetain \<or>
         on_DeletePVSImage C (image_trace s) (GetImageID s) = Reply ()
       else GetJobID s = [] \<or> on_DeleteJob C (image_trace s) (GetJobID s) = Reply ())) s"
    unfolding image_reconcileDelete_def delete_image_body_def DeletePVSImage_def DeleteImportJob_def markCondition_def
    by (simp only: wp_simps) (auto simp: GetImageID_def GetJobID_def image_calls_def remove_image_finalizer_def)
  from wpD [OF this assms] show ?thesis .
qed


theorem image_delete_policy_witness:
  "image_calls example_image_scope (snd (run_state (image_reconcileDelete example_capi image_cloud) example_image_scope)) = [Image_DeleteJob ''j'']"
proof -
  have "GetImageID example_image_scope = []" "GetJobID example_image_scope = ''j''"
    by (simp_all add: GetImageID_def GetJobID_def example_image_scope_def example_image_def)
  then show ?thesis using image_delete_policy [OF surjective_pairing, of example_capi image_cloud example_image_scope] by simp
qed

section \<open>The reported condition\<close>

text \<open>
  The documented behaviour of the condition utilities: a condition that was set is the one read, and
  the summary of a single condition has its status.
\<close>

definition condition_laws :: "capi \<Rightarrow> image_util \<Rightarrow> bool" where
  "condition_laws K W \<longleftrightarrow>
     (\<forall>cs c ty. conditions_Get W (conditions_Set K cs c) ty = (if ty = Condition_Type c then Some c else conditions_Get W cs ty)) \<and>
     (\<forall>cs target ty c. conditions_Get W cs ty = Some c \<longrightarrow>
        (\<exists>cs' c'. conditions_SetSummary W cs target [ty] = Reply cs' \<and> conditions_Get W cs' target = Some c' \<and>
           Condition_Status c' = Condition_Status c))"

lemma condition_laws_get: "condition_laws K W \<Longrightarrow> conditions_Get W (conditions_Set K cs c) ty = (if ty = Condition_Type c then Some c else conditions_Get W cs ty)"
  unfolding condition_laws_def by blast

lemma condition_laws_summary:
  "condition_laws K W \<Longrightarrow> conditions_Get W cs ty = Some c \<Longrightarrow>
   \<exists>cs' c'. conditions_SetSummary W cs target [ty] = Reply cs' \<and> conditions_Get W cs' target = Some c' \<and> Condition_Status c' = Condition_Status c"
  unfolding condition_laws_def by blast

lemma example_condition_laws: "condition_laws example_capi example_image_util"
proof -
  have get: "find (\<lambda>x. Condition_Type x = ty) (filter (\<lambda>x. Condition_Type x \<noteq> u) cs) = (if ty = u then None else find (\<lambda>x. Condition_Type x = ty) cs)" for ty u and cs :: "Condition list"
    by (induction cs) auto
  have first: "\<exists>ys. filter (\<lambda>x. Condition_Type x = ty) cs = c # ys" if "find (\<lambda>x. Condition_Type x = ty) cs = Some c" for ty c and cs :: "Condition list"
    using that by (induction cs) (auto split: if_splits)
  have "\<exists>cs' c'. conditions_SetSummary example_image_util cs target [ty] = Reply cs' \<and> conditions_Get example_image_util cs' target = Some c' \<and> Condition_Status c' = Condition_Status c"
    if "find (\<lambda>x. Condition_Type x = ty) cs = Some c" for cs target ty c
    using first [OF that] by (auto simp: example_image_util_def)
  then show ?thesis by (simp add: condition_laws_def example_capi_def) (simp add: example_image_util_def get)
qed

text \<open>
  C9: whatever the state of the image, the \<open>Ready\<close> condition of the patched object is that of the
  workspace: \<open>patchIBMPowerVSImage\<close> summarises the workspace condition alone, and writes the summary
  over the condition the reconcile has set. An image that is still queued or importing, or whose
  import has failed, is reported as ready.
\<close>

theorem image_reported_ready:
  assumes "condition_laws K W" and "patchIBMPowerVSImage K W i = (Ok (), i')"
    and "conditions_Get W (Image_GetConditions i) WorkspaceReadyCondition = Some c"
  shows "map_option Condition_Status (conditions_Get W (Image_GetConditions i') IBMPowerVSImageReadyCondition) = Some (Condition_Status c)"
proof -
  have diff: "WorkspaceReadyCondition \<noteq> IBMPowerVSImageReadyCondition" by code_simp
  have "conditions_Get W (Image_GetConditions (ready_default K W i)) WorkspaceReadyCondition = Some c"
    using assms(3) diff by (simp add: ready_default_def Image_SetConditions_def Image_GetConditions_def condition_laws_get [OF assms(1)])
  from condition_laws_summary [OF assms(1) this, of IBMPowerVSImageReadyCondition] obtain cs' c' where
    "conditions_SetSummary W (Image_GetConditions (ready_default K W i)) IBMPowerVSImageReadyCondition [WorkspaceReadyCondition] = Reply cs'"
    "conditions_Get W cs' IBMPowerVSImageReadyCondition = Some c'" "Condition_Status c' = Condition_Status c" by blast
  then show ?thesis
    using assms(2) by (auto simp: patchIBMPowerVSImage_def Let_def Image_SetV1Beta1Conditions_def Image_SetConditions_def Image_GetConditions_def
        split: reply.splits)
qed

text \<open>The import of the image has just failed.\<close>

definition failed_image :: IBMPowerVSImage where
  "failed_image = scope_image (snd (run_state (image_reconcile example_capi example_image_util image_cloud (scope_cluster fresh)) example_image_scope))"

theorem image_reported_ready_witness:
  "ImageStatus_ImageState (Image_Status failed_image) = PowerVSImageStateFailed \<and>
   map_option Condition_Status (conditions_Get example_image_util
     (Image_GetConditions (snd (patchIBMPowerVSImage example_capi example_image_util failed_image))) IBMPowerVSImageReadyCondition) = Some ConditionTrue"
proof -
  let ?c = "\<lparr>Condition_Type = WorkspaceReadyCondition, Condition_Status = ConditionTrue, Condition_Reason = ReadyReason, Condition_Message = None\<rparr>"
  have run: "fst (patchIBMPowerVSImage example_capi example_image_util failed_image) = Ok ()" by code_simp
  then have patched: "patchIBMPowerVSImage example_capi example_image_util failed_image =
      (Ok (), snd (patchIBMPowerVSImage example_capi example_image_util failed_image))" by (simp add: prod_eq_iff)
  have "conditions_Get example_image_util (Image_GetConditions failed_image) WorkspaceReadyCondition = Some ?c" by code_simp
  moreover have "ImageStatus_ImageState (Image_Status failed_image) = PowerVSImageStateFailed" by code_simp
  ultimately show ?thesis using image_reported_ready [OF example_condition_laws patched] by simp
qed

section \<open>The workspace of an image\<close>

text \<open>
  the workspace an image goes to by default is the default workspace of its cluster exactly
  when the cluster name has at most 53 characters; for a longer name the cluster scope truncates
  the name of the workspace it creates, the image scope does not, and never finds it.
\<close>

theorem image_default_workspace:
  assumes "WorkspaceProvisionConfig_Name (WorkspaceSource_Provision (Spec_Workspace (spec s))) = []"
    and "ResourceIdentifier_Name (ImageSpec_Workspace sp) = []" and "ImageSpec_ClusterName sp = InfraCluster s"
  shows "workspace_name s = Some (image_workspace_name sp) \<longleftrightarrow> length (InfraCluster s) \<le> 53"
proof
  assume "workspace_name s = Some (image_workspace_name sp)"
  then have "ResourceName (InfraCluster s) ResourceTypeWorkspace [] = Some (InfraCluster s @ ''-workspace'')"
    using assms by (simp add: workspace_name_def image_workspace_name_def)
  then show "length (InfraCluster s) \<le> 53" by (rule ResourceName_cases) auto
next
  assume "length (InfraCluster s) \<le> 53"
  then show "workspace_name s = Some (image_workspace_name sp)"
    using assms by (simp add: workspace_name_def image_workspace_name_def ResourceName_def resourceNameMaxLen_def)
qed

theorem image_default_workspace_witness:
  "workspace_name fresh = Some (image_workspace_name ((Image_Spec example_image)\<lparr>ImageSpec_Workspace := no_identifier\<rparr>))"
proof -
  have "WorkspaceProvisionConfig_Name (WorkspaceSource_Provision (Spec_Workspace (spec fresh))) = []" by code_simp
  moreover have "InfraCluster fresh = ''c''" by code_simp
  ultimately show ?thesis
    using image_default_workspace [of fresh "(Image_Spec example_image)\<lparr>ImageSpec_Workspace := no_identifier\<rparr>"]
    by (simp add: no_identifier_def example_image_def)
qed

end
