(* ===== verification/Machine_Types.thy ===== *)
theory Machine_Types
  imports Image_Controller Endpoints "HOL-Library.Char_ord" "HOL-Library.List_Lexorder"
begin

text \<open>
  The PowerVS machine object (\<^verbatim>\<open>api/powervs/v1beta3/ibmpowervsmachine_types.go\<close>), the objects of the SDKs
  its scope reads, the interfaces it calls and the state it keeps
  (\<^verbatim>\<open>pkg/cloud/scope/powervs/powervs_machine.go\<close>). As in the other scopes, a client is a function of the
  calls made before and of the arguments, and every call is recorded.
\<close>

section \<open>The object\<close>

text \<open>\<open>intstr.IntOrString\<close>; the number of processors may be given either way.\<close>

datatype IntOrString = IntVal int | StrVal string

text \<open>A \<open>float64\<close>: a finite one is a dyadic rational, the first argument over two to the second.\<close>

datatype float64 = Finite int nat | PosInf | NegInf | NaN

definition float_of_int :: "int \<Rightarrow> float64" where "float_of_int i = Finite i 0"

type_synonym PowerVSInstanceState = string

definition PowerVSInstanceStateACTIVE :: PowerVSInstanceState where "PowerVSInstanceStateACTIVE = ''ACTIVE''"
definition PowerVSInstanceStateBUILD :: PowerVSInstanceState where "PowerVSInstanceStateBUILD = ''BUILD''"
definition PowerVSInstanceStateSHUTOFF :: PowerVSInstanceState where "PowerVSInstanceStateSHUTOFF = ''SHUTOFF''"
definition PowerVSInstanceStateERROR :: PowerVSInstanceState where "PowerVSInstanceStateERROR = ''ERROR''"

lemmas instance_state_defs = PowerVSInstanceStateACTIVE_def PowerVSInstanceStateBUILD_def
  PowerVSInstanceStateSHUTOFF_def PowerVSInstanceStateERROR_def

definition IBMPowerVSMachineFinalizer :: string where
  "IBMPowerVSMachineFinalizer = ''ibmpowervsmachine.infrastructure.cluster.x-k8s.io''"

datatype ImageSourceType = ImageSourceTypeReference | ImageSourceTypeImport | OtherImageSourceType string

record IBMPowerVSMachineImage =
  MachineImage_Type :: ImageSourceType
  MachineImage_Reference :: ResourceIdentifier
  MachineImage_Import :: string                     \<comment> \<open>the name of the \<open>IBMPowerVSImage\<close>\<close>

record IBMPowerVSMachineSpec =
  MachineSpec_Workspace :: ResourceIdentifier
  MachineSpec_Network :: ResourceIdentifier
  MachineSpec_Image :: IBMPowerVSMachineImage
  MachineSpec_SSHKey :: string
  MachineSpec_SystemType :: string
  MachineSpec_ProcessorType :: string
  MachineSpec_Processors :: IntOrString
  MachineSpec_MemoryGiB :: int
  MachineSpec_ProviderID :: string

datatype MachineAddressType = MachineHostName | MachineInternalIP | MachineExternalIP | MachineInternalDNS | OtherMachineAddress string

record MachineAddress =
  Address_Type :: MachineAddressType
  Address_Address :: string

record IBMPowerVSMachineStatus =
  MachineStatus_Conditions :: "Condition list"
  MachineStatus_Provisioned :: "bool option"        \<comment> \<open>\<open>Initialization.Provisioned\<close>\<close>
  MachineStatus_InstanceID :: string
  MachineStatus_Addresses :: "MachineAddress list"
  MachineStatus_Health :: string
  MachineStatus_InstanceState :: PowerVSInstanceState
  MachineStatus_Region :: string
  MachineStatus_Zone :: string
  MachineStatus_Deprecated :: "DeprecatedCondition list option option"

record IBMPowerVSMachine =
  Machine_Name :: string
  Machine_Namespace :: string
  Machine_Labels :: "string \<rightharpoonup> string"
  Machine_Finalizers :: "string list"
  Machine_Deleting :: bool
  Machine_Spec :: IBMPowerVSMachineSpec
  Machine_Status :: IBMPowerVSMachineStatus

definition Machine_GetConditions :: "IBMPowerVSMachine \<Rightarrow> Condition list" where
  "Machine_GetConditions r = MachineStatus_Conditions (Machine_Status r)"

definition Machine_SetConditions :: "IBMPowerVSMachine \<Rightarrow> Condition list \<Rightarrow> IBMPowerVSMachine" where
  "Machine_SetConditions r cs = r\<lparr>Machine_Status := (Machine_Status r)\<lparr>MachineStatus_Conditions := cs\<rparr>\<rparr>"

definition Machine_GetV1Beta1Conditions :: "IBMPowerVSMachine \<Rightarrow> DeprecatedCondition list" where
  "Machine_GetV1Beta1Conditions r = (case MachineStatus_Deprecated (Machine_Status r) of Some (Some cs) \<Rightarrow> cs | _ \<Rightarrow> [])"

definition Machine_SetV1Beta1Conditions :: "IBMPowerVSMachine \<Rightarrow> DeprecatedCondition list \<Rightarrow> IBMPowerVSMachine" where
  "Machine_SetV1Beta1Conditions r cs = r\<lparr>Machine_Status := (Machine_Status r)\<lparr>MachineStatus_Deprecated := Some (Some cs)\<rparr>\<rparr>"

text \<open>What the code reads of the Cluster API objects \<open>Cluster\<close> and \<open>Machine\<close>.\<close>

record CAPICluster =
  Capi_InfrastructureProvisioned :: "bool option"
  Capi_Conditions :: "Condition list"
  Capi_InfrastructureRef :: "string option"         \<comment> \<open>the name, if the reference is defined\<close>

record CAPIMachine =
  Capi_Namespace :: string
  Capi_DataSecretName :: "string option"
  Capi_ControlPlane :: bool                         \<comment> \<open>\<open>util.IsControlPlaneMachine\<close>\<close>

section \<open>Objects of the SDKs\<close>

record PVMInstanceReference =
  pvmref_ServerName :: "string option"
  pvmref_PvmInstanceID :: "string option"

record PVMInstanceNetwork =
  pvmnet_NetworkID :: string
  pvmnet_IPAddress :: string
  pvmnet_ExternalIP :: string
  pvmnet_MacAddress :: string

record PVMInstance =
  pvm_PvmInstanceID :: "string option"
  pvm_ServerName :: "string option"
  pvm_Status :: "string option"
  pvm_Health :: "string option"                     \<comment> \<open>\<open>Health\<close>, its status\<close>
  pvm_Fault :: "string option"                      \<comment> \<open>\<open>Fault\<close>, its details\<close>
  pvm_Networks :: "PVMInstanceNetwork list"

record PVMInstanceCreate =
  pic_ServerName :: string
  pic_ImageID :: string
  pic_Memory :: float64
  pic_Processors :: float64
  pic_ProcType :: string
  pic_SysType :: string
  pic_UserData :: string
  pic_Networks :: "string list"
  pic_KeyPairName :: string

record DHCPLease =
  lease_InstanceMacAddress :: "string option"
  lease_InstanceIP :: "string option"

record PoolReference =
  poolref_ID :: "string option"
  poolref_Name :: "string option"

record PooledLoadBalancer =
  plb_ID :: "string option"
  plb_Name :: "string option"
  plb_ProvisioningStatus :: "string option"
  plb_Pools :: "PoolReference list"
  plb_Listeners :: "string option list"             \<comment> \<open>the IDs\<close>

record LoadBalancerListener =
  lbl_Port :: "int option"
  lbl_Protocol :: "string option"
  lbl_DefaultPool :: "string option option"         \<comment> \<open>the reference, and its name\<close>

text \<open>The dynamic types of \<open>LoadBalancerPoolMemberTargetIntf\<close>: the one the code asks for, with its address, or another.\<close>

datatype PoolMemberTarget = PoolMemberTarget "string option" | OtherTarget

record PoolMember =
  pm_ID :: "string option"
  pm_ProvisioningStatus :: "string option"

record CreatePoolMemberOptions =
  cpm_Port :: int
  cpm_LoadBalancerID :: string
  cpm_PoolID :: string
  cpm_Address :: string

text \<open>The document an Ignition configuration is replaced by, of version 2 or 3.\<close>

datatype IgnitionConfig = IgnitionV2 string string | IgnitionV3 string string

record selector =
  selector_Empty :: bool
  selector_Matches :: "(string \<rightharpoonup> string) \<Rightarrow> bool"

section \<open>The clients\<close>

datatype machine_call =
    BuildAuthenticator
  | BuildResourceController
  | BuildPowerVS string string
  | BuildVPC string
  | BuildCOS string string
  | BuildCOSWithHMAC string string string string    \<comment> \<open>endpoint, region, access key, secret key\<close>
  | FindWorkspace InstanceFilter
  | ListInstances
  | GetInstance string
  | CreateInstance PVMInstanceCreate
  | DeleteInstance string
  | ListImages
  | FindNetwork string
  | ListDHCP
  | GetDHCP string
  | GetDatacenter string
  | GetLoadBalancer_of string
  | GetLoadBalancerListener string string
  | ListPoolMembers string string
  | CreatePoolMember CreatePoolMemberOptions
  | PutObject string string string
  | PresignedURL string string
  | DeleteObject string string
  | GetSecret_of string string
  | CacheGet string
  | CacheAdd string string
  | CacheDelete string
  | Now

type_synonym machine_history = "machine_call list"

text \<open>An entry of the system type cache; times and durations are in nanoseconds.\<close>

record zoneCacheEntry =
  supportedTypes :: "string list"
  lastFetch :: int

type_synonym systemTypeCache = "string \<rightharpoonup> zoneCacheEntry"

text \<open>
  A nil pointer is \<open>None\<close>. Of a datacenter only the general system types are read; \<open>None\<close> is a nil
  pointer on the way to them. \<open>on_others\<close> is what other goroutines do to the system type cache while
  this one waits for its lock.
\<close>

record machine_clients =
  m_Authenticator :: "machine_history \<Rightarrow> unit reply"
  m_ResourceController :: "machine_history \<Rightarrow> unit reply"
  m_PowerVS :: "machine_history \<Rightarrow> string \<Rightarrow> string \<Rightarrow> unit reply"
  m_VPC :: "machine_history \<Rightarrow> string \<Rightarrow> unit reply"
  m_COS :: "machine_history \<Rightarrow> string \<Rightarrow> string \<Rightarrow> unit reply"
  m_COSWithHMAC :: "machine_history \<Rightarrow> string \<Rightarrow> string \<Rightarrow> string \<Rightarrow> string \<Rightarrow> unit reply"
  m_FindWorkspace :: "machine_history \<Rightarrow> InstanceFilter \<Rightarrow> ResourceInstance option reply"
  m_ListInstances :: "machine_history \<Rightarrow> PVMInstanceReference list option reply"
  m_GetInstance :: "machine_history \<Rightarrow> string \<Rightarrow> PVMInstance option reply"
  m_CreateInstance :: "machine_history \<Rightarrow> PVMInstanceCreate \<Rightarrow> unit reply"
  m_DeleteInstance :: "machine_history \<Rightarrow> string \<Rightarrow> unit reply"
  m_ListImages :: "machine_history \<Rightarrow> ImageReference list option reply"
  m_FindNetwork :: "machine_history \<Rightarrow> string \<Rightarrow> Network option reply"
  m_ListDHCP :: "machine_history \<Rightarrow> DHCPServerSummary list reply"
  m_GetDHCP :: "machine_history \<Rightarrow> string \<Rightarrow> DHCPLease list option reply"
  m_GetDatacenter :: "machine_history \<Rightarrow> string \<Rightarrow> string list option reply"
  m_GetLoadBalancer :: "machine_history \<Rightarrow> string \<Rightarrow> PooledLoadBalancer option reply"
  m_GetListener :: "machine_history \<Rightarrow> string \<Rightarrow> string \<Rightarrow> LoadBalancerListener option reply"
  m_ListPoolMembers :: "machine_history \<Rightarrow> string \<Rightarrow> string \<Rightarrow> PoolMemberTarget list option reply"
  m_CreatePoolMember :: "machine_history \<Rightarrow> CreatePoolMemberOptions \<Rightarrow> PoolMember option reply"
  m_PutObject :: "machine_history \<Rightarrow> string \<Rightarrow> string \<Rightarrow> string \<Rightarrow> unit reply"
  m_PresignedURL :: "machine_history \<Rightarrow> string \<Rightarrow> string \<Rightarrow> string reply"
  m_DeleteObject :: "machine_history \<Rightarrow> string \<Rightarrow> string \<Rightarrow> unit reply"
  m_GetSecret :: "machine_history \<Rightarrow> string \<Rightarrow> string \<Rightarrow> (string \<rightharpoonup> string) reply"
  m_CacheGet :: "machine_history \<Rightarrow> string \<Rightarrow> string option reply"
  m_CacheAdd :: "machine_history \<Rightarrow> string \<Rightarrow> string \<Rightarrow> unit reply"
  m_CacheDelete :: "machine_history \<Rightarrow> string \<Rightarrow> unit reply"
  m_Now :: "machine_history \<Rightarrow> int"
  on_others :: "machine_history \<Rightarrow> systemTypeCache \<Rightarrow> systemTypeCache"
  vpc_region_for :: "string \<Rightarrow> string reply"
  ParseFloat :: "string \<Rightarrow> float64 reply"
  ParseTolerant :: "string \<Rightarrow> (nat \<times> string) reply"     \<comment> \<open>major version and printed form\<close>
  json_Marshal :: "IgnitionConfig \<Rightarrow> string reply"
  LabelSelectorAsSelector :: "LabelSelector \<Rightarrow> selector reply"
  service_endpoints :: "ServiceEndpoint list"
  ProviderIDFormat :: string

section \<open>The scope\<close>

record MachineScope =
  machine_trace :: machine_history
  scope_machine :: IBMPowerVSMachine
  sysCache :: systemTypeCache
  machine_COSClient :: bool                            \<comment> \<open>whether \<open>COSClient\<close> is not nil\<close>
  machine_Cluster :: CAPICluster
  machine_Machine :: CAPIMachine
  machine_PVSCluster :: IBMPowerVSCluster
  machine_Image :: "IBMPowerVSImage option"

type_synonym 'a machine_proc = "(MachineScope, 'a) proc"

definition machine_api :: "(machine_history \<Rightarrow> 'r) \<Rightarrow> machine_call \<Rightarrow> (MachineScope, 'r) state" where
  "machine_api f c = State (\<lambda>s. (f (machine_trace s), s\<lparr>machine_trace := machine_trace s @ [c]\<rparr>))"

lemma wp_machine_api [wp_simps]:
  "wp (machine_api f c) Q s = Q (f (machine_trace s)) (s\<lparr>machine_trace := machine_trace s @ [c]\<rparr>)"
  by (simp add: wp_def machine_api_def)

abbreviation (input) machine_spec :: "MachineScope \<Rightarrow> IBMPowerVSMachineSpec" where
  "machine_spec s \<equiv> Machine_Spec (scope_machine s)"

abbreviation (input) machine_status :: "MachineScope \<Rightarrow> IBMPowerVSMachineStatus" where
  "machine_status s \<equiv> Machine_Status (scope_machine s)"

abbreviation (input) pvs_spec :: "MachineScope \<Rightarrow> IBMPowerVSClusterSpec" where
  "pvs_spec s \<equiv> Cluster_Spec (machine_PVSCluster s)"

abbreviation (input) pvs_status :: "MachineScope \<Rightarrow> IBMPowerVSClusterStatus" where
  "pvs_status s \<equiv> Cluster_Status (machine_PVSCluster s)"

definition upd_machine :: "(IBMPowerVSMachine \<Rightarrow> IBMPowerVSMachine) \<Rightarrow> (MachineScope, unit) state" where
  "upd_machine f = modify (\<lambda>s. s\<lparr>scope_machine := f (scope_machine s)\<rparr>)"

definition upd_machine_status :: "(IBMPowerVSMachineStatus \<Rightarrow> IBMPowerVSMachineStatus) \<Rightarrow> (MachineScope, unit) state" where
  "upd_machine_status f = upd_machine (\<lambda>m. m\<lparr>Machine_Status := f (Machine_Status m)\<rparr>)"

lemma wp_upd_machine [wp_simps]:
  "wp (upd_machine g) Q s = Q () (s\<lparr>scope_machine := g (scope_machine s)\<rparr>)"
  "wp (upd_machine_status f) Q s = Q () (s\<lparr>scope_machine := (scope_machine s)\<lparr>Machine_Status := f (machine_status s)\<rparr>\<rparr>)"
  by (simp_all add: upd_machine_status_def upd_machine_def wp_modify)

end
