(* ===== verification/Base64.thy ===== *)
theory Base64
  imports Main
begin

text \<open>
  The standard base64 encoding, \<open>base64.StdEncoding.EncodeToString\<close> of Go, in which the machine scope
  hands the user data to the cloud. Bytes are characters. The decoder is the reference definition the
  encoder is held against: it accepts padded text only.
\<close>

section \<open>Encoding\<close>

definition base64_alphabet :: string where
  "base64_alphabet = ''ABCDEFGHIJKLMNOPQRSTUVWXYZabcdefghijklmnopqrstuvwxyz0123456789+/''"

definition digit64 :: "nat \<Rightarrow> char" where
  "digit64 n = base64_alphabet ! (n mod 64)"

fun EncodeToString :: "string \<Rightarrow> string" where
  "EncodeToString [] = []"
| "EncodeToString [a] =
     [digit64 (of_char a div 4), digit64 (of_char a mod 4 * 16), CHR ''='', CHR ''='']"
| "EncodeToString [a, b] =
     [digit64 (of_char a div 4), digit64 (of_char a mod 4 * 16 + of_char b div 16),
      digit64 (of_char b mod 16 * 4), CHR ''='']"
| "EncodeToString (a # b # c # rest) =
     digit64 (of_char a div 4) # digit64 (of_char a mod 4 * 16 + of_char b div 16) #
     digit64 (of_char b mod 16 * 4 + of_char c div 64) # digit64 (of_char c mod 64) # EncodeToString rest"

section \<open>Decoding\<close>

definition value64 :: "char \<Rightarrow> nat option" where
  "value64 c = (if c \<in> set base64_alphabet then Some (length (takeWhile (\<lambda>x. x \<noteq> c) base64_alphabet)) else None)"

definition byte :: "nat \<Rightarrow> char" where "byte n = char_of n"

text \<open>The bytes of one group of four characters.\<close>

definition group64 :: "char \<Rightarrow> char \<Rightarrow> char \<Rightarrow> char \<Rightarrow> string option" where
  "group64 w x y z =
     (case (value64 w, value64 x) of
        (Some i, Some j) \<Rightarrow>
          (if y = CHR ''='' \<and> z = CHR ''='' then Some [byte (i * 4 + j div 16)]
           else (case value64 y of
                   None \<Rightarrow> None
                 | Some k \<Rightarrow>
                     if z = CHR ''='' then Some [byte (i * 4 + j div 16), byte (j mod 16 * 16 + k div 4)]
                     else map_option (\<lambda>l. [byte (i * 4 + j div 16), byte (j mod 16 * 16 + k div 4), byte (k mod 4 * 64 + l)]) (value64 z)))
      | _ \<Rightarrow> None)"

fun decode64 :: "string \<Rightarrow> string option" where
  "decode64 [] = Some []"
| "decode64 (w # x # y # z # rest) =
     (case (group64 w x y z, decode64 rest) of (Some xs, Some ys) \<Rightarrow> Some (xs @ ys) | _ \<Rightarrow> None)"
| "decode64 _ = None"

section \<open>Round trip\<close>

lemma alphabet_props: "length base64_alphabet = 64" "distinct base64_alphabet" "CHR ''='' \<notin> set base64_alphabet"
  by code_simp+

lemma takeWhile_nth: "distinct xs \<Longrightarrow> i < length xs \<Longrightarrow> length (takeWhile (\<lambda>x. x \<noteq> xs ! i) xs) = i"
proof (induction xs arbitrary: i)
  case (Cons a xs)
  then show ?case by (cases i) auto
qed simp

lemma value_digit [simp]: "n < 64 \<Longrightarrow> value64 (digit64 n) = Some n"
  using alphabet_props by (simp add: value64_def digit64_def takeWhile_nth)

lemma digit_not_pad [simp]: "digit64 n \<noteq> CHR ''=''"
proof -
  have "digit64 n \<in> set base64_alphabet" by (simp add: digit64_def alphabet_props(1))
  then show ?thesis using alphabet_props(3) by metis
qed

lemma of_char_less [simp]: "of_char c < (256 :: nat)"
  by (rule nat_of_char_less_256)

lemma byte_of_char [simp]: "byte (of_char c) = c"
  by (simp add: byte_def)

text \<open>A digit made of the low bits of one byte and the high bits of the next, and what it gives back.\<close>

lemma split_digit:
  fixes x y k :: nat
  assumes "y < k" and "0 < k"
  shows "(x * k + y) div k = x" "(x * k + y) mod k = y" "x < m \<Longrightarrow> x * k + y < m * k"
proof -
  show "(x * k + y) div k = x" "(x * k + y) mod k = y" using assms by simp_all
  assume "x < m"
  then have "x * k + y < Suc x * k" using assms by simp
  also have "\<dots> \<le> m * k" using \<open>x < m\<close> by (intro mult_le_mono1) simp
  finally show "x * k + y < m * k" .
qed

lemma char_parts [simp]:
  "of_char c div 4 < (64 :: nat)" "of_char c div 16 < (16 :: nat)" "of_char c div 64 < (4 :: nat)"
  using of_char_less [of c] by linarith+

lemma digit_bounds [simp]:
  "of_char a mod 4 * 16 < (64 :: nat)" "of_char a mod 4 * 16 + of_char b div 16 < (64 :: nat)"
  "of_char b mod 16 * 4 < (64 :: nat)" "of_char b mod 16 * 4 + of_char c div 64 < (64 :: nat)"
  using split_digit(3) [of 0 16 "of_char a mod 4" 4] split_digit(3) [of "of_char b div 16" 16 "of_char a mod 4" 4]
    split_digit(3) [of 0 4 "of_char b mod 16" 16] split_digit(3) [of "of_char c div 64" 4 "of_char b mod 16" 16]
  by simp_all

lemma decode_encode: "decode64 (EncodeToString xs) = Some xs"
  by (induction xs rule: EncodeToString.induct) (simp_all add: group64_def split_digit)

end
