(* ===== verification/Machine_Scope.thy ===== *)
theory Machine_Scope
  imports Machine_Types Base64
begin

text \<open>
  The scope of a PowerVS machine (\<^verbatim>\<open>pkg/cloud/scope/powervs/powervs_machine.go\<close>): building it, resolving
  what an instance needs, creating and deleting the instance, its bootstrap data and its addresses.
  Registration with the load balancers is in \<^verbatim>\<open>Pool_Members\<close>.
\<close>

section \<open>Error texts\<close>

definition msg_client_required :: string where "msg_client_required = ''client is required when creating a MachineScope''"
definition msg_machine_required :: string where "msg_machine_required = ''machine is required when creating a MachineScope''"
definition msg_cluster_required :: string where "msg_cluster_required = ''cluster is required when creating a MachineScope''"
definition msg_pvsmachine_required :: string where "msg_pvsmachine_required = ''ibmPowerVSMachine is required when creating a MachineScope''"
definition msg_pvscluster_required :: string where "msg_pvscluster_required = ''ibmPowerVSCluster is required when creating a MachineScope''"
definition msg_builder_required :: string where "msg_builder_required = ''ClientBuilder is required when creating a MachineScope''"
definition msg_failed_initialize_clients_machine :: string where "msg_failed_initialize_clients_machine = ''failed to initialize IBM Cloud clients for machine''"
definition msg_failed_determine_vpc_region :: string where "msg_failed_determine_vpc_region = ''failed to determine VPC region from PowerVS region''"
definition msg_failed_create_vpc_client :: string where "msg_failed_create_vpc_client = ''failed to create IBM VPC client''"
definition msg_failed_create_cos_client :: string where "msg_failed_create_cos_client = ''failed to create COS client''"
definition msg_workspace_not_populated :: string where "msg_workspace_not_populated = ''PowerVS workspace ID is not yet populated in the cluster status''"
definition msg_failed_get_workspace_details :: string where "msg_failed_get_workspace_details = ''failed to get PowerVS workspace details''"
definition msg_workspace_fields_nil :: string where "msg_workspace_fields_nil = ''PowerVS workspace or GUID or RegionID is nil''"
definition msg_workspace_not_active :: string where "msg_workspace_not_active = ''PowerVS workspace is not in active state''"
definition msg_failed_lookup_workspace :: string where "msg_failed_lookup_workspace = ''failed to lookup PowerVS workspace by name''"
definition msg_workspace_not_found :: string where "msg_workspace_not_found = ''PowerVS workspace not found or GUID is nil in IBM Cloud''"
definition msg_failed_find_workspace_id :: string where "msg_failed_find_workspace_id = ''failed to find workspace ID: not specified in Machine spec and not yet populated in Cluster status''"
definition msg_invalid_provider_id_format :: string where "msg_invalid_provider_id_format = ''invalid value for ProviderIDFormat''"
definition msg_bootstrap_name_nil :: string where "msg_bootstrap_name_nil = ''failed to retrieve bootstrap data: linked Machine's bootstrap.dataSecretName is nil''"
definition msg_failed_retrieve_bootstrap_secret :: string where "msg_failed_retrieve_bootstrap_secret = ''failed to retrieve bootstrap data secret''"
definition msg_bootstrap_value_missing :: string where "msg_bootstrap_value_missing = ''failed to retrieve bootstrap data: secret value key is missing''"
definition msg_user_data_empty :: string where "msg_user_data_empty = ''user data is empty''"
definition msg_bucket_not_populated :: string where "msg_bucket_not_populated = ''COS bucket name is not yet populated in cluster status. Waiting for cluster reconciler''"
definition msg_failed_push_object :: string where "msg_failed_push_object = ''failed to push object to COS bucket''"
definition msg_failed_presign :: string where "msg_failed_presign = ''failed to generate pre-signed URL for ignition data''"
definition msg_failed_create_user_data_object :: string where "msg_failed_create_user_data_object = ''failed to create user data object''"
definition msg_failed_parse_ignition_version :: string where "msg_failed_parse_ignition_version = ''failed to parse ignition version''"
definition msg_unsupported_ignition_version :: string where "msg_unsupported_ignition_version = ''unsupported ignition version''"
definition msg_region_not_populated :: string where "msg_region_not_populated = ''COS bucket region is not yet populated in cluster status. Waiting for cluster reconciler''"
definition msg_hmac_not_populated :: string where "msg_hmac_not_populated = ''COS HMAC Secret name is not yet populated in cluster status. Waiting for cluster reconciler''"
definition msg_failed_fetch_hmac_secret :: string where "msg_failed_fetch_hmac_secret = ''failed to fetch COS HMAC Secret''"
definition msg_hmac_secret_incomplete :: string where "msg_hmac_secret_incomplete = ''COS HMAC Secret is missing access_key_id or secret_access_key''"
definition msg_failed_create_hmac_client :: string where "msg_failed_create_hmac_client = ''failed to create HMAC COS client''"
definition msg_failed_cos_client_deletion :: string where "msg_failed_cos_client_deletion = ''failed to create COS client for ignition deletion''"
definition msg_failed_delete_cos_object :: string where "msg_failed_delete_cos_object = ''failed to delete COS object''"
definition msg_failed_get_images :: string where "msg_failed_get_images = ''failed to get images from IBM Cloud''"
definition msg_image_not_found :: string where "msg_image_not_found = ''image with name not found''"
definition msg_image_reference_empty :: string where "msg_image_reference_empty = ''image reference must contain either an ID or a Name''"
definition msg_failed_get_network_by_name :: string where "msg_failed_get_network_by_name = ''failed to get network by name''"
definition msg_network_not_found :: string where "msg_network_not_found = ''network with name not found''"
definition msg_network_identifier_empty :: string where "msg_network_identifier_empty = ''network identifier must contain either an ID or a Name''"
definition msg_system_type_not_set :: string where "msg_system_type_not_set = ''systemType is not set''"
definition msg_failed_get_datacenter :: string where "msg_failed_get_datacenter = ''failed to get datacenter details for zone''"
definition msg_capabilities_missing :: string where "msg_capabilities_missing = ''system capabilities details are missing for zone''"
definition msg_no_general_types :: string where "msg_no_general_types = ''no general system types available in zone''"
definition msg_failed_instance_uniqueness :: string where "msg_failed_instance_uniqueness = ''failed to verify instance uniqueness''"
definition msg_failed_validate_system_type :: string where "msg_failed_validate_system_type = ''failed to validate systemType''"
definition msg_system_type_unsupported :: string where "msg_system_type_unsupported = ''systemType is not supported in this zone''"
definition msg_failed_resolve_userdata :: string where "msg_failed_resolve_userdata = ''failed to resolve userdata''"
definition msg_failed_convert_processors :: string where "msg_failed_convert_processors = ''failed to convert Processors to float64''"
definition msg_imported_image_not_ready :: string where "msg_imported_image_not_ready = ''imported image is not ready yet''"
definition msg_error_getting_image_id :: string where "msg_error_getting_image_id = ''error getting image ID from reference''"
definition msg_network_not_resolved :: string where "msg_network_not_resolved = ''network ID is not yet resolved in cluster status and was not specified on machine''"
definition msg_error_getting_network_id :: string where "msg_error_getting_network_id = ''error getting network ID''"
definition msg_failed_create_instance :: string where "msg_failed_create_instance = ''failed to create PowerVS instance via SDK''"
definition msg_failed_fetch_network_id :: string where "msg_failed_fetch_network_id = ''failed to fetch network ID''"
definition msg_network_not_attached :: string where "msg_network_not_attached = ''failed to find network attached to machine with ID''"
definition msg_failed_list_dhcp :: string where "msg_failed_list_dhcp = ''failed to list DHCP servers''"
definition msg_no_dhcp_server :: string where "msg_no_dhcp_server = ''no DHCP server found associated with network''"
definition msg_failed_get_dhcp :: string where "msg_failed_get_dhcp = ''failed to get DHCP server details''"
definition msg_lease_not_found :: string where "msg_lease_not_found = ''DHCP lease not found for machine with MAC''"

section \<open>Creating the scope\<close>

text \<open>\<open>validate\<close>: whether each of the parameters was given, in the order of the checks.\<close>

definition machine_params_validate :: "bool \<Rightarrow> bool \<Rightarrow> bool \<Rightarrow> bool \<Rightarrow> bool \<Rightarrow> bool \<Rightarrow> unit outcome" where
  "machine_params_validate client machine cluster pvsMachine pvsCluster builder =
     (if \<not> client then Err (Errorf msg_client_required)
      else if \<not> machine then Err (Errorf msg_machine_required)
      else if \<not> cluster then Err (Errorf msg_cluster_required)
      else if \<not> pvsMachine then Err (Errorf msg_pvsmachine_required)
      else if \<not> pvsCluster then Err (Errorf msg_pvscluster_required)
      else if \<not> builder then Err (Errorf msg_builder_required)
      else Ok ())"

definition SetRegion :: "string \<Rightarrow> (MachineScope, unit) state" where
  "SetRegion region = upd_machine_status (\<lambda>st. st\<lparr>MachineStatus_Region := region\<rparr>)"

definition GetRegion :: "MachineScope \<Rightarrow> string" where
  "GetRegion s = MachineStatus_Region (machine_status s)"

definition SetZone :: "string \<Rightarrow> (MachineScope, unit) state" where
  "SetZone zone = upd_machine_status (\<lambda>st. st\<lparr>MachineStatus_Zone := zone\<rparr>)"

definition GetZone :: "MachineScope \<Rightarrow> string" where
  "GetZone s = MachineStatus_Zone (machine_status s)"

text \<open>Object storage is the switch for Ignition.\<close>

definition useIgnition :: "MachineScope \<Rightarrow> bool" where
  "useIgnition s \<longleftrightarrow> COSInstanceSource_Type (Spec_COSInstance (pvs_spec s)) \<noteq> OtherSourceType []"

text \<open>The workspace of the machine, or else of its cluster, by ID or by name.\<close>

definition machine_workspace :: "MachineScope \<Rightarrow> (string \<times> string) option" where
  "machine_workspace s =
     (let given = MachineSpec_Workspace (machine_spec s);
          inherited = ResourceReference_ID (Status_Workspace (pvs_status s))
      in if ResourceIdentifier_ID given \<noteq> [] then Some (ResourceIdentifier_ID given, [])
         else if ResourceIdentifier_Name given \<noteq> [] then Some ([], ResourceIdentifier_Name given)
         else if inherited \<noteq> [] then Some (inherited, [])
         else None)"

definition machine_filter :: "MachineScope \<Rightarrow> string \<Rightarrow> string \<Rightarrow> InstanceFilter" where
  "machine_filter s i n = \<lparr>filter_ID = i, filter_Name = n, filter_ResourceID = PowerVSResourceID,
     filter_ResourcePlanID = PowerVSResourcePlanID, filter_Zone = Some (Spec_Zone (pvs_spec s))\<rparr>"

definition machine_resolveWorkspace :: "machine_clients \<Rightarrow> (string \<times> string) machine_proc" where
  "machine_resolveWorkspace C = do {
     s \<leftarrow> State_Monad.get;
     case machine_workspace s of
       None \<Rightarrow> fail (Errorf msg_workspace_not_populated)
     | Some (i, n) \<Rightarrow> do {
         r \<leftarrow> machine_api (\<lambda>h. m_FindWorkspace C h (machine_filter s i n)) (FindWorkspace (machine_filter s i n));
         case r of
           Fail e _ \<Rightarrow> fail (Wrapf msg_failed_get_workspace_details e)
         | Reply w \<Rightarrow>
             (case (Option.bind w ri_GUID, Option.bind w ri_RegionID) of
                (Some guid, Some region) \<Rightarrow>
                  if Option.bind w ri_State \<noteq> Some WorkspaceStateActive then fail (Errorf msg_workspace_not_active)
                  else ok (guid, region)
              | _ \<Rightarrow> fail (Errorf msg_workspace_fields_nil)) } }"

text \<open>A client is built; its error is wrapped.\<close>

definition build :: "string \<Rightarrow> (machine_history \<Rightarrow> unit reply) \<Rightarrow> machine_call \<Rightarrow> unit machine_proc" where
  "build msg f c = do {
     r \<leftarrow> machine_api f c;
     case r of Fail e _ \<Rightarrow> fail (Wrapf msg e) | Reply _ \<Rightarrow> ok () }"

definition machine_vpc_region :: "machine_clients \<Rightarrow> MachineScope \<Rightarrow> string outcome" where
  "machine_vpc_region C s =
     (let given = VPCSource_Region (Spec_VPC (pvs_spec s))
      in if given \<noteq> [] then Ok given
         else (case vpc_region_for C (GetRegion s) of
                 Fail e _ \<Rightarrow> Err (Wrapf msg_failed_determine_vpc_region e) | Reply r \<Rightarrow> Ok r))"

definition build_cos :: "machine_clients \<Rightarrow> unit machine_proc" where
  "build_cos C = do {
     s \<leftarrow> State_Monad.get;
     let cos = Status_COSInstance (pvs_status s);
     bindE (build msg_failed_create_cos_client
         (\<lambda>h. m_COS C h (COSInstanceStatus_ID cos) (COSInstanceStatus_BucketRegion cos))
         (BuildCOS (COSInstanceStatus_ID cos) (COSInstanceStatus_BucketRegion cos))) (\<lambda>_. do {
       modify (\<lambda>s. s\<lparr>machine_COSClient := True\<rparr>);
       ok () }) }"

definition machine_initClients :: "machine_clients \<Rightarrow> unit machine_proc" where
  "machine_initClients C =
     bindE (build msg_failed_create_authenticator (m_Authenticator C) BuildAuthenticator) (\<lambda>_.
     bindE (build msg_failed_create_resource_controller (m_ResourceController C) BuildResourceController) (\<lambda>_.
     bindE (machine_resolveWorkspace C) (\<lambda>(workspaceID, workspaceZone). do {
       SetZone workspaceZone;
       SetRegion (ConstructRegionFromZone workspaceZone);
       bindE (build msg_failed_create_powervs_client (\<lambda>h. m_PowerVS C h workspaceID workspaceZone) (BuildPowerVS workspaceID workspaceZone)) (\<lambda>_. do {
         s \<leftarrow> State_Monad.get;
         bindE (State_Monad.return (machine_vpc_region C s)) (\<lambda>region.
         bindE (build msg_failed_create_vpc_client (\<lambda>h. m_VPC C h region) (BuildVPC region)) (\<lambda>_.
           if useIgnition s then build_cos C else ok ())) }) })))"

definition NewMachineScope :: "machine_clients \<Rightarrow> bool \<Rightarrow> bool \<Rightarrow> bool \<Rightarrow> bool \<Rightarrow> bool \<Rightarrow> bool \<Rightarrow> unit machine_proc" where
  "NewMachineScope C client machine cluster pvsMachine pvsCluster builder =
     bindE (State_Monad.return (machine_params_validate client machine cluster pvsMachine pvsCluster builder)) (\<lambda>_.
       bindW msg_failed_initialize_clients_machine (machine_initClients C) ok)"

section \<open>Accessors\<close>

definition SetReady :: "(MachineScope, unit) state" where
  "SetReady = upd_machine_status (\<lambda>st. st\<lparr>MachineStatus_Provisioned := Some True\<rparr>)"

definition SetNotReady :: "(MachineScope, unit) state" where
  "SetNotReady = upd_machine_status (\<lambda>st. st\<lparr>MachineStatus_Provisioned := Some False\<rparr>)"

definition IsReady :: "MachineScope \<Rightarrow> bool" where
  "IsReady s = ptr_Deref (MachineStatus_Provisioned (machine_status s)) False"

definition SetInstanceID :: "string option \<Rightarrow> (MachineScope, unit) state" where
  "SetInstanceID i = (case i of None \<Rightarrow> State_Monad.return ()
     | Some x \<Rightarrow> upd_machine_status (\<lambda>st. st\<lparr>MachineStatus_InstanceID := x\<rparr>))"

definition GetInstanceID :: "MachineScope \<Rightarrow> string" where
  "GetInstanceID s = MachineStatus_InstanceID (machine_status s)"

definition SetInstanceState :: "string option \<Rightarrow> unit machine_proc" where
  "SetInstanceState st' = deref st' (\<lambda>x. do {
     upd_machine_status (\<lambda>st. st\<lparr>MachineStatus_InstanceState := x\<rparr>);
     ok () })"

definition GetInstanceState :: "MachineScope \<Rightarrow> PowerVSInstanceState" where
  "GetInstanceState s = MachineStatus_InstanceState (machine_status s)"

definition SetHealth :: "string option \<Rightarrow> (MachineScope, unit) state" where
  "SetHealth health = (case health of None \<Rightarrow> State_Monad.return ()
     | Some x \<Rightarrow> upd_machine_status (\<lambda>st. st\<lparr>MachineStatus_Health := x\<rparr>))"

definition GetWorkspaceID :: "machine_clients \<Rightarrow> string machine_proc" where
  "GetWorkspaceID C = do {
     s \<leftarrow> State_Monad.get;
     let given = MachineSpec_Workspace (machine_spec s);
     let n = ResourceIdentifier_Name given;
     if ResourceIdentifier_ID given \<noteq> [] then ok (ResourceIdentifier_ID given)
     else if n \<noteq> [] then do {
       r \<leftarrow> machine_api (\<lambda>h. m_FindWorkspace C h (machine_filter s [] n)) (FindWorkspace (machine_filter s [] n));
       case r of
         Fail e _ \<Rightarrow> fail (Wrapf msg_failed_lookup_workspace e)
       | Reply w \<Rightarrow> (case Option.bind w ri_GUID of None \<Rightarrow> fail (Errorf msg_workspace_not_found) | Some g \<Rightarrow> ok g) }
     else if ResourceReference_ID (Status_Workspace (pvs_status s)) \<noteq> [] then
       ok (ResourceReference_ID (Status_Workspace (pvs_status s)))
     else fail (Errorf msg_failed_find_workspace_id) }"

definition ProviderIDFormatV2 :: string where "ProviderIDFormatV2 = ''v2''"

definition provider_id :: "string \<Rightarrow> string \<Rightarrow> string \<Rightarrow> string \<Rightarrow> string" where
  "provider_id region zone workspaceID instanceID =
     ''ibmpowervs://'' @ region @ ''/'' @ zone @ ''/'' @ workspaceID @ ''/'' @ instanceID"

definition SetProviderID :: "machine_clients \<Rightarrow> string \<Rightarrow> unit machine_proc" where
  "SetProviderID C instanceID =
     (if ProviderIDFormat C \<noteq> ProviderIDFormatV2 then fail (Errorf msg_invalid_provider_id_format)
      else bindE (GetWorkspaceID C) (\<lambda>workspaceID. do {
        s \<leftarrow> State_Monad.get;
        upd_machine (\<lambda>m. m\<lparr>Machine_Spec := (Machine_Spec m)
          \<lparr>MachineSpec_ProviderID := provider_id (GetRegion s) (GetZone s) workspaceID instanceID\<rparr>\<rparr>);
        ok () }))"

fun internal_ip :: "MachineAddress list \<Rightarrow> string" where
  "internal_ip [] = []"
| "internal_ip (a # as) = (if Address_Type a = MachineInternalIP then Address_Address a else internal_ip as)"

definition GetMachineInternalIP :: "MachineScope \<Rightarrow> string" where
  "GetMachineInternalIP s = internal_ip (MachineStatus_Addresses (machine_status s))"

section \<open>Bootstrap data\<close>

definition role :: "MachineScope \<Rightarrow> string" where
  "role s = (if Capi_ControlPlane (machine_Machine s) then ''control-plane'' else ''node'')"

text \<open>\<open>path.Clean\<close>, on the elements between the slashes, innermost last; \<open>path.Join\<close> of two elements.\<close>

fun clean_parts :: "bool \<Rightarrow> string list \<Rightarrow> string list \<Rightarrow> string list" where
  "clean_parts rooted kept [] = rev kept"
| "clean_parts rooted kept (p # ps) =
     (if p = [] \<or> p = ''.'' then clean_parts rooted kept ps
      else if p = ''..'' then
        (case kept of
           [] \<Rightarrow> clean_parts rooted (if rooted then [] else [p]) ps
         | k # ks \<Rightarrow> if k = ''..'' then clean_parts rooted (p # kept) ps else clean_parts rooted ks ps)
      else clean_parts rooted (p # kept) ps)"

definition path_Clean :: "string \<Rightarrow> string" where
  "path_Clean p =
     (let rooted = (p \<noteq> [] \<and> hd p = CHR ''/'');
          parts = clean_parts rooted [] (split_on (CHR ''/'') p);
          body = join (CHR ''/'') parts
      in if rooted then CHR ''/'' # body else if body = [] then ''.'' else body)"

definition path_Join :: "string \<Rightarrow> string \<Rightarrow> string" where
  "path_Join a b =
     (let elems = filter (\<lambda>e. e \<noteq> []) [a, b]
      in if elems = [] then [] else path_Clean (join (CHR ''/'') elems))"

definition bootstrapDataKey :: "MachineScope \<Rightarrow> string" where
  "bootstrapDataKey s = path_Join (role s) (Machine_Name (scope_machine s))"

definition DefaultIgnitionVersion :: string where "DefaultIgnitionVersion = ''2.3''"

definition getIgnitionVersion :: "MachineScope \<Rightarrow> string" where
  "getIgnitionVersion s =
     (let v = Ignition_Version (Spec_Ignition (pvs_spec s)) in if v = [] then DefaultIgnitionVersion else v)"

definition getRawBootstrapData :: "machine_clients \<Rightarrow> string machine_proc" where
  "getRawBootstrapData C = do {
     s \<leftarrow> State_Monad.get;
     case Capi_DataSecretName (machine_Machine s) of
       None \<Rightarrow> fail (Errorf msg_bootstrap_name_nil)
     | Some n \<Rightarrow> do {
         r \<leftarrow> machine_api (\<lambda>h. m_GetSecret C h (Capi_Namespace (machine_Machine s)) n) (GetSecret_of (Capi_Namespace (machine_Machine s)) n);
         case r of
           Fail _ _ \<Rightarrow> fail (Errorf msg_failed_retrieve_bootstrap_secret)
         | Reply m \<Rightarrow> (case m ''value'' of None \<Rightarrow> fail (Errorf msg_bootstrap_value_missing) | Some v \<Rightarrow> ok v) } }"

definition createIgnitionData :: "machine_clients \<Rightarrow> string \<Rightarrow> string machine_proc" where
  "createIgnitionData C d = do {
     s \<leftarrow> State_Monad.get;
     let key = bootstrapDataKey s;
     let bucket = COSInstanceStatus_BucketName (Status_COSInstance (pvs_status s));
     if d = [] then fail (Errorf msg_user_data_empty)
     else if bucket = [] then fail (Errorf msg_bucket_not_populated)
     else do {
       r \<leftarrow> machine_api (\<lambda>h. m_PutObject C h bucket key d) (PutObject bucket key d);
       case r of
         Fail e _ \<Rightarrow> fail (Wrapf msg_failed_push_object e)
       | Reply _ \<Rightarrow> do {
           u \<leftarrow> machine_api (\<lambda>h. m_PresignedURL C h bucket key) (PresignedURL bucket key);
           case u of Fail e _ \<Rightarrow> fail (Wrapf msg_failed_presign e) | Reply url \<Rightarrow> ok url } } }"

text \<open>The redirect document of the major version, or the error for another version.\<close>

definition ignition_document :: "machine_clients \<Rightarrow> string \<Rightarrow> nat \<times> string \<Rightarrow> string outcome" where
  "ignition_document C url v =
     (case v of (major, printed) \<Rightarrow>
        let marshal = (\<lambda>c. case json_Marshal C c of Fail e _ \<Rightarrow> Err e | Reply d \<Rightarrow> Ok d)
        in if major = 2 then marshal (IgnitionV2 printed url)
           else if major = 3 then marshal (IgnitionV3 printed url)
           else Err (Errorf msg_unsupported_ignition_version))"

definition ignitionUserData :: "machine_clients \<Rightarrow> string \<Rightarrow> string machine_proc" where
  "ignitionUserData C userData =
     bindW msg_failed_create_user_data_object (createIgnitionData C userData) (\<lambda>url. do {
       s \<leftarrow> State_Monad.get;
       case ParseTolerant C (getIgnitionVersion s) of
         Fail e _ \<Rightarrow> fail (Wrapf msg_failed_parse_ignition_version e)
       | Reply v \<Rightarrow> State_Monad.return (ignition_document C url v) })"

definition resolveUserData :: "machine_clients \<Rightarrow> string machine_proc" where
  "resolveUserData C =
     bindE (getRawBootstrapData C) (\<lambda>userData. do {
       s \<leftarrow> State_Monad.get;
       if useIgnition s then bindE (ignitionUserData C userData) (\<lambda>d. ok (EncodeToString d))
       else ok (EncodeToString userData) })"

definition cosURLDomain :: string where "cosURLDomain = ''cloud-object-storage.appdomain.cloud''"

text \<open>The object storage client from the credentials the cluster controller stored in a Secret.\<close>

definition machine_createCOSClient :: "machine_clients \<Rightarrow> unit machine_proc" where
  "machine_createCOSClient C = do {
     s \<leftarrow> State_Monad.get;
     let region = COSInstanceStatus_BucketRegion (Status_COSInstance (pvs_status s));
     let secretName = COSInstanceStatus_HMACSecretName (Status_COSInstance (pvs_status s));
     let ns = Cluster_Namespace (machine_PVSCluster s);
     if region = [] then fail (Errorf msg_region_not_populated)
     else if secretName = [] then fail (Errorf msg_hmac_not_populated)
     else do {
       r \<leftarrow> machine_api (\<lambda>h. m_GetSecret C h ns secretName) (GetSecret_of ns secretName);
       case r of
         Fail e _ \<Rightarrow> fail (Wrapf msg_failed_fetch_hmac_secret e)
       | Reply m \<Rightarrow>
           (let accessKeyID = ptr_Deref (m ''access_key_id'') [];
                secretAccessKey = ptr_Deref (m ''secret_access_key'') [];
                override = FetchEndpoints svc_COS (service_endpoints C);
                endpoint = (if override \<noteq> [] then override else ''s3.'' @ region @ ''.'' @ cosURLDomain)
            in if accessKeyID = [] \<or> secretAccessKey = [] then fail (Errorf msg_hmac_secret_incomplete)
               else build msg_failed_create_hmac_client (\<lambda>h. m_COSWithHMAC C h endpoint region accessKeyID secretAccessKey)
                      (BuildCOSWithHMAC endpoint region accessKeyID secretAccessKey)) } }"

end
