(* ===== verification/Machine_Instances.thy ===== *)
theory Machine_Instances
  imports Machine_Scope
begin

text \<open>
  Instances in the cloud (\<^verbatim>\<open>pkg/cloud/scope/powervs/powervs_machine.go\<close>): finding, validating, creating and
  deleting the instance of a machine, and reading its addresses.
\<close>

section \<open>Resolving images and networks\<close>

text \<open>\<open>for _, img := range images.Images { if image.Name == *img.Name { return *img.ImageID } }\<close>.\<close>

definition getImageID :: "machine_clients \<Rightarrow> ResourceIdentifier \<Rightarrow> string machine_proc" where
  "getImageID C img =
     (if ResourceIdentifier_ID img \<noteq> [] then ok (ResourceIdentifier_ID img)
      else if ResourceIdentifier_Name img \<noteq> [] then do {
        r \<leftarrow> machine_api (m_ListImages C) ListImages;
        case r of
          Fail e _ \<Rightarrow> fail (Wrapf msg_failed_get_images e)
        | Reply l \<Rightarrow> deref l (\<lambda>is.
            bindE (State_Monad.return (image_named (ResourceIdentifier_Name img) is)) (\<lambda>found. case found of
                None \<Rightarrow> fail (Errorf msg_image_not_found)
              | Some i \<Rightarrow> deref (imgref_ImageID i) ok)) }
      else fail (Errorf msg_image_reference_empty))"

definition getNetworkID :: "machine_clients \<Rightarrow> ResourceIdentifier \<Rightarrow> string machine_proc" where
  "getNetworkID C net =
     (if ResourceIdentifier_ID net \<noteq> [] then ok (ResourceIdentifier_ID net)
      else if ResourceIdentifier_Name net \<noteq> [] then do {
        r \<leftarrow> machine_api (\<lambda>h. m_FindNetwork C h (ResourceIdentifier_Name net)) (FindNetwork (ResourceIdentifier_Name net));
        case r of
          Fail e _ \<Rightarrow> fail (Wrapf msg_failed_get_network_by_name e)
        | Reply n \<Rightarrow> (case Option.bind n net_NetworkID of None \<Rightarrow> fail (Errorf msg_network_not_found) | Some i \<Rightarrow> ok i) }
      else fail (Errorf msg_network_identifier_empty))"

text \<open>The image of the machine: the imported one, or the referenced one.\<close>

definition resolve_image :: "machine_clients \<Rightarrow> string machine_proc" where
  "resolve_image C = do {
     s \<leftarrow> State_Monad.get;
     let img = MachineSpec_Image (machine_spec s);
     if MachineImage_Type img = ImageSourceTypeImport then
       (case machine_Image s of
          None \<Rightarrow> fail (Errorf msg_imported_image_not_ready)
        | Some i \<Rightarrow>
            if ImageStatus_ImageID (Image_Status i) = [] then fail (Errorf msg_imported_image_not_ready)
            else ok (ImageStatus_ImageID (Image_Status i)))
     else bindW msg_error_getting_image_id (getImageID C (MachineImage_Reference img)) ok }"

text \<open>The network of the machine, or else of its cluster.\<close>

definition machine_network :: "MachineScope \<Rightarrow> ResourceIdentifier" where
  "machine_network s =
     (let net = MachineSpec_Network (machine_spec s)
      in if ResourceIdentifier_ID net = [] \<and> ResourceIdentifier_Name net = []
         then net\<lparr>ResourceIdentifier_ID := NetworkStatus_ID (Status_Network (pvs_status s))\<rparr> else net)"

definition resolve_network :: "machine_clients \<Rightarrow> string machine_proc" where
  "resolve_network C = do {
     s \<leftarrow> State_Monad.get;
     let net = MachineSpec_Network (machine_spec s);
     if ResourceIdentifier_ID net = [] \<and> ResourceIdentifier_Name net = [] \<and> NetworkStatus_ID (Status_Network (pvs_status s)) = []
     then fail (Errorf msg_network_not_resolved)
     else bindW msg_error_getting_network_id (getNetworkID C (machine_network s)) ok }"

section \<open>System types\<close>

definition systemTypeCache_ttl :: int where "systemTypeCache_ttl = 6 * 60 * 60 * 1000000000"

text \<open>
  The entry of the zone, if there is one and it is fresh: \<open>time.Since\<close> reads the clock. The first look is
  under the read lock, the second under the write lock, after whatever other goroutines have done.
\<close>

definition fresh_entry :: "machine_clients \<Rightarrow> string \<Rightarrow> (MachineScope, string list option) state" where
  "fresh_entry C zone = do {
     s \<leftarrow> State_Monad.get;
     now \<leftarrow> machine_api (m_Now C) Now;
     State_Monad.return (case sysCache s zone of
         None \<Rightarrow> None
       | Some entry \<Rightarrow> if now - lastFetch entry < systemTypeCache_ttl then Some (supportedTypes entry) else None) }"

definition wait_lock :: "machine_clients \<Rightarrow> (MachineScope, unit) state" where
  "wait_lock C = modify (\<lambda>s. s\<lparr>sysCache := on_others C (machine_trace s) (sysCache s)\<rparr>)"

lemma wp_wait_lock [wp_simps]:
  "wp (wait_lock C) Q s = Q () (s\<lparr>sysCache := on_others C (machine_trace s) (sysCache s)\<rparr>)"
  by (simp add: wait_lock_def wp_modify)

text \<open>The types the cloud reports, sorted and stored.\<close>

definition fetch_types :: "machine_clients \<Rightarrow> string \<Rightarrow> string list machine_proc" where
  "fetch_types C zone = do {
     r \<leftarrow> machine_api (\<lambda>h. m_GetDatacenter C h zone) (GetDatacenter zone);
     case r of
       Fail e _ \<Rightarrow> fail (Wrapf msg_failed_get_datacenter e)
     | Reply None \<Rightarrow> fail (Errorf msg_capabilities_missing)
     | Reply (Some types) \<Rightarrow>
         if types = [] then fail (Errorf msg_no_general_types)
         else do {
           now \<leftarrow> machine_api (m_Now C) Now;
           modify (\<lambda>s. s\<lparr>sysCache := (sysCache s)(zone \<mapsto> \<lparr>supportedTypes = sort types, lastFetch = now\<rparr>)\<rparr>);
           ok (sort types) } }"

definition validateSystemType :: "machine_clients \<Rightarrow> (bool \<times> string list) machine_proc" where
  "validateSystemType C = do {
     s \<leftarrow> State_Monad.get;
     let systemType = MachineSpec_SystemType (machine_spec s);
     let zone = GetZone s;
     let answer = (\<lambda>types. (systemType \<in> set types, types));
     if systemType = [] then fail (Errorf msg_system_type_not_set)
     else do {
       cached \<leftarrow> fresh_entry C zone;
       case cached of
         Some types \<Rightarrow> ok (answer types)
       | None \<Rightarrow> do {
           wait_lock C;
           again \<leftarrow> fresh_entry C zone;
           case again of
             Some types \<Rightarrow> ok (answer types)
           | None \<Rightarrow> bindE (fetch_types C zone) (\<lambda>types. ok (answer types)) } } }"

section \<open>Creating an instance\<close>

text \<open>\<open>for _, ins := range instances.PvmInstances { if *ins.ServerName == instanceName { return ins } }\<close>.\<close>

fun instance_named :: "string \<Rightarrow> PVMInstanceReference list \<Rightarrow> PVMInstanceReference option outcome" where
  "instance_named n [] = Ok None"
| "instance_named n (i # is) =
     (case pvmref_ServerName i of None \<Rightarrow> Panic | Some m \<Rightarrow> if m = n then Ok (Some i) else instance_named n is)"

definition ensureInstanceUnique :: "machine_clients \<Rightarrow> string \<Rightarrow> PVMInstanceReference option machine_proc" where
  "ensureInstanceUnique C instanceName = do {
     r \<leftarrow> machine_api (m_ListInstances C) ListInstances;
     case r of
       Fail e _ \<Rightarrow> fail e
     | Reply l \<Rightarrow> deref l (\<lambda>is. State_Monad.return (instance_named instanceName is)) }"

definition InstanceReadyCondition :: string where "InstanceReadyCondition = ''InstanceReady''"

text \<open>The request was sent and the state of the instance is not known yet.\<close>

definition creation_triggered :: "IBMPowerVSMachine \<Rightarrow> bool" where
  "creation_triggered m \<longleftrightarrow>
     list_ex (\<lambda>c. Condition_Type c = InstanceReadyCondition \<and> Condition_Status c = ConditionUnknown) (MachineStatus_Conditions (Machine_Status m))"

definition parse_processors :: "machine_clients \<Rightarrow> IntOrString \<Rightarrow> float64 outcome" where
  "parse_processors C p = (case p of
      IntVal i \<Rightarrow> Ok (float_of_int i)
    | StrVal t \<Rightarrow> (case ParseFloat C t of Fail e _ \<Rightarrow> Err (Wrapf msg_failed_convert_processors e) | Reply f \<Rightarrow> Ok f))"

text \<open>\<open>strings.ToLower\<close> on ASCII text.\<close>

definition to_lower :: "string \<Rightarrow> string" where
  "to_lower = map (\<lambda>c. if c \<in> set ''ABCDEFGHIJKLMNOPQRSTUVWXYZ'' then char_of (of_char c + 32 :: nat) else c)"

definition instance_payload :: "IBMPowerVSMachine \<Rightarrow> string \<Rightarrow> float64 \<Rightarrow> string \<Rightarrow> string \<Rightarrow> PVMInstanceCreate" where
  "instance_payload m userData processors imageID networkID =
     (let sp = Machine_Spec m
      in \<lparr>pic_ServerName = Machine_Name m, pic_ImageID = imageID, pic_Memory = float_of_int (MachineSpec_MemoryGiB sp),
          pic_Processors = processors, pic_ProcType = to_lower (MachineSpec_ProcessorType sp), pic_SysType = MachineSpec_SystemType sp,
          pic_UserData = userData, pic_Networks = [networkID], pic_KeyPairName = MachineSpec_SSHKey sp\<rparr>)"

definition check_system_type :: "machine_clients \<Rightarrow> unit machine_proc" where
  "check_system_type C = do {
     s \<leftarrow> State_Monad.get;
     if MachineSpec_SystemType (machine_spec s) = [] then ok ()
     else bindW msg_failed_validate_system_type (validateSystemType C) (\<lambda>(valid, types).
       if \<not> valid then fail (ConfigurationErr msg_system_type_unsupported) else ok ()) }"

text \<open>The steps from 3 on: check, resolve, and create.\<close>

definition request_instance :: "machine_clients \<Rightarrow> string \<Rightarrow> float64 \<Rightarrow> string \<Rightarrow> string \<Rightarrow> PVMInstanceReference option machine_proc" where
  "request_instance C userData processors imageID networkID = do {
     s \<leftarrow> State_Monad.get;
     let payload = instance_payload (scope_machine s) userData processors imageID networkID;
     r \<leftarrow> machine_api (\<lambda>h. m_CreateInstance C h payload) (CreateInstance payload);
     case r of Fail e _ \<Rightarrow> fail (Wrapf msg_failed_create_instance e) | Reply _ \<Rightarrow> ok None }"

definition create_with :: "machine_clients \<Rightarrow> string \<Rightarrow> PVMInstanceReference option machine_proc" where
  "create_with C userData = do {
     s \<leftarrow> State_Monad.get;
     bindE (State_Monad.return (parse_processors C (MachineSpec_Processors (machine_spec s)))) (\<lambda>processors.
     bindE (resolve_image C) (\<lambda>imageID.
     bindE (resolve_network C) (\<lambda>networkID. request_instance C userData processors imageID networkID))) }"

definition create_instance :: "machine_clients \<Rightarrow> PVMInstanceReference option machine_proc" where
  "create_instance C =
     bindE (check_system_type C) (\<lambda>_.
     bindW msg_failed_resolve_userdata (resolveUserData C) (create_with C))"

text \<open>The log line on an existing instance dereferences its ID.\<close>

definition CreateMachine :: "machine_clients \<Rightarrow> PVMInstanceReference option machine_proc" where
  "CreateMachine C = do {
     s \<leftarrow> State_Monad.get;
     bindW msg_failed_instance_uniqueness (ensureInstanceUnique C (Machine_Name (scope_machine s))) (\<lambda>found. case found of
         Some i \<Rightarrow> deref (pvmref_PvmInstanceID i) (\<lambda>_. ok (Some i))
       | None \<Rightarrow> if creation_triggered (scope_machine s) then ok None else create_instance C) }"

section \<open>Deleting an instance\<close>

definition DeleteMachine :: "machine_clients \<Rightarrow> unit machine_proc" where
  "DeleteMachine C = do {
     s \<leftarrow> State_Monad.get;
     r \<leftarrow> machine_api (\<lambda>h. m_DeleteInstance C h (GetInstanceID s)) (DeleteInstance (GetInstanceID s));
     case r of Fail e _ \<Rightarrow> fail e | Reply _ \<Rightarrow> ok () }"

definition DeleteMachineIgnition :: "machine_clients \<Rightarrow> unit machine_proc" where
  "DeleteMachineIgnition C = do {
     s \<leftarrow> State_Monad.get;
     let bucket = COSInstanceStatus_BucketName (Status_COSInstance (pvs_status s));
     let key = bootstrapDataKey s;
     if \<not> useIgnition s then ok ()
     else if bucket = [] then ok ()
     else
       bindE (if machine_COSClient s then ok ()
              else bindW msg_failed_cos_client_deletion (machine_createCOSClient C) (\<lambda>_. do {
                modify (\<lambda>s. s\<lparr>machine_COSClient := True\<rparr>);
                ok () })) (\<lambda>_. do {
         r \<leftarrow> machine_api (\<lambda>h. m_DeleteObject C h bucket key) (DeleteObject bucket key);
         case r of Fail e _ \<Rightarrow> fail (Wrapf msg_failed_delete_cos_object e) | Reply _ \<Rightarrow> ok () }) }"

section \<open>Addresses\<close>

text \<open>\<open>strings.TrimSpace\<close> on ASCII text.\<close>

definition is_space :: "char \<Rightarrow> bool" where
  "is_space c \<longleftrightarrow> of_char c \<in> {9, 10, 11, 12, 13, 32 :: nat}"

definition TrimSpace :: "string \<Rightarrow> string" where
  "TrimSpace t = rev (dropWhile is_space (rev (dropWhile is_space t)))"

definition network_ips :: "PVMInstanceNetwork \<Rightarrow> MachineAddress list" where
  "network_ips n =
     (let ip = TrimSpace (pvmnet_IPAddress n); ext = TrimSpace (pvmnet_ExternalIP n)
      in (if ip \<noteq> [] then [\<lparr>Address_Type = MachineInternalIP, Address_Address = ip\<rparr>] else []) @
         (if ext \<noteq> [] then [\<lparr>Address_Type = MachineExternalIP, Address_Address = ext\<rparr>] else []))"

definition extractIPsFromInstance :: "PVMInstance \<Rightarrow> MachineAddress list" where
  "extractIPsFromInstance ins = concat (map network_ips (pvm_Networks ins))"

text \<open>An error of the cache store counts as a miss.\<close>

definition getIPFromCache :: "machine_clients \<Rightarrow> string \<Rightarrow> (MachineScope, string option) state" where
  "getIPFromCache C serverName = do {
     r \<leftarrow> machine_api (\<lambda>h. m_CacheGet C h serverName) (CacheGet serverName);
     State_Monad.return (case r of Fail _ _ \<Rightarrow> None | Reply ip \<Rightarrow> ip) }"

text \<open>The ID of the first DHCP server of the network, empty if there is none.\<close>

fun dhcp_server_of :: "string \<Rightarrow> DHCPServerSummary list \<Rightarrow> string outcome" where
  "dhcp_server_of networkID [] = Ok []"
| "dhcp_server_of networkID (d # ds) =
     (if Option.bind (dhcp_Network d) dhcpnet_ID = Some networkID
      then (case dhcp_ID d of None \<Rightarrow> Panic | Some i \<Rightarrow> Ok i)
      else dhcp_server_of networkID ds)"

text \<open>The IP of the first lease for the MAC address; a nil pointer on the way panics.\<close>

fun lease_for :: "string \<Rightarrow> DHCPLease list \<Rightarrow> string outcome" where
  "lease_for mac [] = Err (Errorf msg_lease_not_found)"
| "lease_for mac (l # ls) =
     (case lease_InstanceMacAddress l of
        None \<Rightarrow> Panic
      | Some m \<Rightarrow> if m = mac then (case lease_InstanceIP l of None \<Rightarrow> Panic | Some ip \<Rightarrow> Ok ip) else lease_for mac ls)"

definition getIPFromDHCPServer :: "machine_clients \<Rightarrow> PVMInstance \<Rightarrow> string machine_proc" where
  "getIPFromDHCPServer C ins = do {
     s \<leftarrow> State_Monad.get;
     bindW msg_failed_fetch_network_id (getNetworkID C (machine_network s)) (\<lambda>networkID.
       case find (\<lambda>n. pvmnet_NetworkID n = networkID) (pvm_Networks ins) of
         None \<Rightarrow> fail (Errorf msg_network_not_attached)
       | Some pvmNetwork \<Rightarrow> do {
           r \<leftarrow> machine_api (m_ListDHCP C) ListDHCP;
           case r of
             Fail e _ \<Rightarrow> fail (Wrapf msg_failed_list_dhcp e)
           | Reply servers \<Rightarrow>
               bindE (State_Monad.return (dhcp_server_of networkID servers)) (\<lambda>serverID.
                 if serverID = [] then fail (Errorf msg_no_dhcp_server)
                 else do {
                   d \<leftarrow> machine_api (\<lambda>h. m_GetDHCP C h serverID) (GetDHCP serverID);
                   case d of
                     Fail e _ \<Rightarrow> fail (Wrapf msg_failed_get_dhcp e)
                   | Reply details \<Rightarrow> deref details (\<lambda>leases. State_Monad.return (lease_for (pvmnet_MacAddress pvmNetwork) leases)) }) }) }"

definition base_addresses :: "string \<Rightarrow> MachineAddress list" where
  "base_addresses n = [\<lparr>Address_Type = MachineInternalDNS, Address_Address = n\<rparr>, \<lparr>Address_Type = MachineHostName, Address_Address = n\<rparr>]"

definition set_addresses :: "MachineAddress list \<Rightarrow> (MachineScope, unit) state" where
  "set_addresses as = upd_machine_status (\<lambda>st. st\<lparr>MachineStatus_Addresses := as\<rparr>)"

text \<open>An error of the DHCP lookup is not fatal; one of the cache store is only logged.\<close>

definition SetAddresses :: "machine_clients \<Rightarrow> PVMInstance \<Rightarrow> unit machine_proc" where
  "SetAddresses C ins = deref (pvm_ServerName ins) (\<lambda>n.
     let base = base_addresses n;
         with_ip = (\<lambda>ip. base @ [\<lparr>Address_Type = MachineInternalIP, Address_Address = ip\<rparr>])
     in if extractIPsFromInstance ins \<noteq> [] then do {
          set_addresses (base @ extractIPsFromInstance ins);
          ok () }
        else do {
          cached \<leftarrow> getIPFromCache C n;
          case cached of
            Some ip \<Rightarrow> do { set_addresses (with_ip ip); ok () }
          | None \<Rightarrow>
              attempt (getIPFromDHCPServer C ins)
                (\<lambda>_. do { set_addresses base; ok () })
                (\<lambda>ip. do {
                  machine_api (\<lambda>h. m_CacheAdd C h n ip) (CacheAdd n ip);
                  set_addresses (with_ip ip);
                  ok () }) })"

end
