(* ===== verification/Pool_Members.thy ===== *)
theory Pool_Members
  imports Machine_Scope
begin

text \<open>
  Registration of a machine with the pools of the cluster's load balancers
  (\<open>CreateVPCLoadBalancerPoolMember\<close> of \<^verbatim>\<open>pkg/cloud/scope/powervs/powervs_machine.go\<close>).
\<close>

section \<open>Error texts\<close>

definition msg_failed_determine_lb_name :: string where "msg_failed_determine_lb_name = ''failed to determine VPC load balancer name''"
definition msg_failed_find_lb_id :: string where "msg_failed_find_lb_id = ''failed to find VPC load balancer ID''"
definition msg_failed_find_lb_details :: string where "msg_failed_find_lb_details = ''failed to find VPC load balancer details''"
definition msg_lb_not_active :: string where "msg_lb_not_active = ''VPC load balancer is not in active state''"
definition msg_no_pools :: string where "msg_no_pools = ''no pools exist for the VPC load balancer''"
definition msg_failed_list_listener :: string where "msg_failed_list_listener = ''failed to list load balancer listener''"
definition msg_failed_list_pool :: string where "msg_failed_list_pool = ''failed to list VPC load balancer pool''"
definition msg_failed_fetch_lb_details :: string where "msg_failed_fetch_lb_details = ''failed to fetch VPC load balancer details with ID''"
definition msg_lb_not_active_update :: string where "msg_lb_not_active_update = ''VPC load balancer not in active state to update pool member''"
definition msg_failed_create_pool_member :: string where "msg_failed_create_pool_member = ''failed to create VPC load balancer pool member''"

section \<open>The load balancers\<close>

text \<open>The name an entry without one gets, and the entry with it; a suffix too long for a name panics.\<close>

definition name_lb :: "string \<Rightarrow> nat \<Rightarrow> LoadBalancerSource \<Rightarrow> LoadBalancerSource option" where
  "name_lb clusterName i lb =
     (let p = LoadBalancerSource_Provision lb;
          lbType = (if LoadBalancerProvision_Type p = LoadBalancerTypePrivate then ResourceTypeLBPrivate else ResourceTypeLBPublic);
          qualifier = (if i > 0 then itoa i else [])
      in if LoadBalancerSource_Type lb = SourceTypeProvision \<and> LoadBalancerProvision_Name p = []
         then map_option (\<lambda>n. lb\<lparr>LoadBalancerSource_Provision := p\<lparr>LoadBalancerProvision_Name := n\<rparr>\<rparr>)
                (ResourceName clusterName lbType qualifier)
         else Some lb)"

fun name_lbs :: "string \<Rightarrow> nat \<Rightarrow> LoadBalancerSource list \<Rightarrow> LoadBalancerSource list option" where
  "name_lbs clusterName i [] = Some []"
| "name_lbs clusterName i (lb # lbs) =
     Option.bind (name_lb clusterName i lb) (\<lambda>x. map_option (\<lambda>xs. x # xs) (name_lbs clusterName (Suc i) lbs))"

definition default_public_lb :: "string \<Rightarrow> LoadBalancerSource" where
  "default_public_lb n =
     \<lparr>LoadBalancerSource_Type = SourceTypeProvision,
      LoadBalancerSource_Reference = \<lparr>ResourceIdentifier_ID = [], ResourceIdentifier_Name = []\<rparr>,
      LoadBalancerSource_Provision =
        \<lparr>LoadBalancerProvision_Name = n, LoadBalancerProvision_Type = LoadBalancerTypePublic,
         LoadBalancerProvision_AdditionalListeners = [], LoadBalancerProvision_BackendPools = [],
         LoadBalancerProvision_SecurityGroups = [], LoadBalancerProvision_Subnets = []\<rparr>\<rparr>"

definition machine_lbs :: "MachineScope \<Rightarrow> LoadBalancerSource list option" where
  "machine_lbs s =
     (let n = Cluster_Name (machine_PVSCluster s); lbs = Spec_LoadBalancers (pvs_spec s)
      in if lbs = [] then map_option (\<lambda>x. [default_public_lb x]) (ResourceName n ResourceTypeLBPublic [])
         else name_lbs n 0 lbs)"

definition source_name :: "LoadBalancerSource \<Rightarrow> string" where
  "source_name lb = (case LoadBalancerSource_Type lb of
      SourceTypeReference \<Rightarrow> ResourceIdentifier_Name (LoadBalancerSource_Reference lb)
    | SourceTypeProvision \<Rightarrow> LoadBalancerProvision_Name (LoadBalancerSource_Provision lb)
    | OtherSourceType _ \<Rightarrow> [])"

text \<open>The ID recorded for a name in the status of the cluster, empty if there is none.\<close>

definition tracked_lb_id :: "MachineScope \<Rightarrow> string \<Rightarrow> string" where
  "tracked_lb_id s n =
     (case find (\<lambda>x. LoadBalancerStatus_Name x = n) (Status_LoadBalancers (pvs_status s)) of
        None \<Rightarrow> [] | Some x \<Rightarrow> LoadBalancerStatus_ID x)"

section \<open>Listeners\<close>

definition LoadBalancerListenerProtocolTCP :: string where "LoadBalancerListenerProtocolTCP = ''tcp''"

definition listener_key :: "int \<Rightarrow> string \<Rightarrow> string" where
  "listener_key port protocol = format_int port @ ''-'' @ protocol"

text \<open>The listeners of the spec by port and protocol; a later one replaces an earlier one.\<close>

definition additional_listeners :: "AdditionalListener list \<Rightarrow> (string \<rightharpoonup> AdditionalListener)" where
  "additional_listeners = foldl (\<lambda>m a.
     m(listener_key (AdditionalListener_Port a)
         (if AdditionalListener_Protocol a = [] then LoadBalancerListenerProtocolTCP else AdditionalListener_Protocol a) \<mapsto> a)) Map.empty"

definition no_selector :: LabelSelector where
  "no_selector = \<lparr>LabelSelector_MatchLabels = [], LabelSelector_MatchExpressions = []\<rparr>"

text \<open>
  One listener of the load balancer goes into the map from pool names to listeners: if the spec has
  it, or if it is the one of the API server. Port and protocol are dereferenced for the key.
\<close>

definition pool_listener ::
  "(string \<rightharpoonup> AdditionalListener) \<Rightarrow> LoadBalancerListener \<Rightarrow> (string \<rightharpoonup> AdditionalListener) \<Rightarrow> (string \<rightharpoonup> AdditionalListener) machine_proc" where
  "pool_listener additional l m =
     deref (lbl_Port l) (\<lambda>port. deref (lbl_Protocol l) (\<lambda>protocol.
       let put = (\<lambda>x. case lbl_DefaultPool l of None \<Rightarrow> ok m | Some p \<Rightarrow> deref p (\<lambda>n. ok (m(n \<mapsto> x))))
       in case additional (listener_key port protocol) of
            Some a \<Rightarrow> put a
          | None \<Rightarrow>
              if port = 6443
              then put \<lparr>AdditionalListener_DefaultPoolName = [], AdditionalListener_Port = port,
                        AdditionalListener_Protocol = protocol, AdditionalListener_Selector = no_selector\<rparr>
              else ok m))"

definition pool_listeners ::
  "machine_clients \<Rightarrow> (string \<rightharpoonup> AdditionalListener) \<Rightarrow> PooledLoadBalancer \<Rightarrow> (string \<rightharpoonup> AdditionalListener) machine_proc" where
  "pool_listeners C additional lb =
     loopM (\<lambda>l m. deref (plb_ID lb) (\<lambda>lbID. deref l (\<lambda>listenerID. do {
         r \<leftarrow> machine_api (\<lambda>h. m_GetListener C h lbID listenerID) (GetLoadBalancerListener lbID listenerID);
         case r of
           Fail e _ \<Rightarrow> fail (Wrapf msg_failed_list_listener e)
         | Reply x \<Rightarrow> deref x (\<lambda>listener. pool_listener additional listener m) })))
       (plb_Listeners lb) Map.empty"

section \<open>Pools\<close>

text \<open>
  Whether the machine belongs into a pool with this listener: its selector decides, an empty selector
  is for the control plane only, one that cannot be read for no machine.
\<close>

definition selected :: "machine_clients \<Rightarrow> MachineScope \<Rightarrow> AdditionalListener \<Rightarrow> bool" where
  "selected C s a =
     (case LabelSelectorAsSelector C (AdditionalListener_Selector a) of
        Fail _ _ \<Rightarrow> False
      | Reply sel \<Rightarrow>
          if selector_Empty sel then Capi_ControlPlane (machine_Machine s)
          else selector_Matches sel (Machine_Labels (scope_machine s)))"

text \<open>Whether the IP is a target already; a target without an address panics.\<close>

fun registered :: "string \<Rightarrow> PoolMemberTarget list \<Rightarrow> bool outcome" where
  "registered ip [] = Ok False"
| "registered ip (OtherTarget # ts) = registered ip ts"
| "registered ip (PoolMemberTarget a # ts) =
     (case a of
        None \<Rightarrow> Panic
      | Some x \<Rightarrow> (case registered ip ts of Ok b \<Rightarrow> Ok (x = ip \<or> b) | Err e \<Rightarrow> Err e | Panic \<Rightarrow> Panic))"

text \<open>The load balancer is looked up again, has to be active, and gets the member.\<close>

definition create_pool_member :: "machine_clients \<Rightarrow> string \<Rightarrow> string \<Rightarrow> int \<Rightarrow> string \<Rightarrow> PoolMember option machine_proc" where
  "create_pool_member C lbID poolID targetPort ip = do {
     r \<leftarrow> machine_api (\<lambda>h. m_GetLoadBalancer C h lbID) (GetLoadBalancer_of lbID);
     case r of
       Fail _ _ \<Rightarrow> fail (Errorf msg_failed_fetch_lb_details)
     | Reply x \<Rightarrow> deref x (\<lambda>lb.
         if plb_ProvisioningStatus lb \<noteq> Some LoadBalancerStateActive
         then deref (plb_Name lb) (\<lambda>_. deref (plb_ProvisioningStatus lb) (\<lambda>_. fail (Errorf msg_lb_not_active_update)))
         else deref (plb_ID lb) (\<lambda>i. do {
           let req = \<lparr>cpm_Port = targetPort, cpm_LoadBalancerID = i, cpm_PoolID = poolID, cpm_Address = ip\<rparr>;
           m \<leftarrow> machine_api (\<lambda>h. m_CreatePoolMember C h req) (CreatePoolMember req);
           case m of
             Fail e _ \<Rightarrow> deref (plb_Name lb) (\<lambda>_. fail (Wrapf msg_failed_create_pool_member e))
           | Reply member \<Rightarrow> deref member (\<lambda>y. deref (pm_ID y) (\<lambda>_. ok (Some y))) })) }"

text \<open>One pool: \<open>None\<close> goes on with the next one.\<close>

definition register_pool ::
  "machine_clients \<Rightarrow> PooledLoadBalancer \<Rightarrow> string \<Rightarrow> (string \<rightharpoonup> AdditionalListener) \<Rightarrow> PoolReference \<Rightarrow> PoolMember option machine_proc" where
  "register_pool C lb ip listeners pool = do {
     s \<leftarrow> State_Monad.get;
     deref (poolref_Name pool) (\<lambda>poolName. deref (plb_Name lb) (\<lambda>_.
     deref (plb_ID lb) (\<lambda>lbID. deref (poolref_ID pool) (\<lambda>poolID. do {
       r \<leftarrow> machine_api (\<lambda>h. m_ListPoolMembers C h lbID poolID) (ListPoolMembers lbID poolID);
       case r of
         Fail e _ \<Rightarrow> fail (Wrapf msg_failed_list_pool e)
       | Reply x \<Rightarrow>
           (let listener = listeners poolName
            in if (case listener of None \<Rightarrow> True | Some a \<Rightarrow> selected C s a)
               then deref x (\<lambda>members.
                 bindE (State_Monad.return (registered ip members)) (\<lambda>already.
                   if already then ok None
                   else create_pool_member C lbID poolID (case listener of None \<Rightarrow> 0 | Some a \<Rightarrow> AdditionalListener_Port a) ip))
               else ok None) })))) }"

section \<open>Registration\<close>

text \<open>One load balancer of the cluster.\<close>

definition register_lb :: "machine_clients \<Rightarrow> LoadBalancerSource \<Rightarrow> PoolMember option machine_proc" where
  "register_lb C src = do {
     s \<leftarrow> State_Monad.get;
     let lbID = tracked_lb_id s (source_name src);
     if source_name src = [] then fail (Errorf msg_failed_determine_lb_name)
     else if lbID = [] then fail (Errorf msg_failed_find_lb_id)
     else do {
       r \<leftarrow> machine_api (\<lambda>h. m_GetLoadBalancer C h lbID) (GetLoadBalancer_of lbID);
       case r of
         Fail e _ \<Rightarrow> fail (Wrapf msg_failed_find_lb_details e)
       | Reply x \<Rightarrow> deref x (\<lambda>lb.
           if plb_ProvisioningStatus lb \<noteq> Some LoadBalancerStateActive then fail (Errorf msg_lb_not_active)
           else if plb_Pools lb = [] then fail (Errorf msg_no_pools)
           else bindE (pool_listeners C (additional_listeners (LoadBalancerProvision_AdditionalListeners (LoadBalancerSource_Provision src))) lb) (\<lambda>listeners.
             until_some (register_pool C lb (GetMachineInternalIP s) listeners) (plb_Pools lb))) } }"

definition CreateVPCLoadBalancerPoolMember :: "machine_clients \<Rightarrow> PoolMember option machine_proc" where
  "CreateVPCLoadBalancerPoolMember C = do {
     s \<leftarrow> State_Monad.get;
     deref (machine_lbs s) (\<lambda>lbs. until_some (register_lb C) lbs) }"

end
