(* ===== verification/Machine_Controller.thy ===== *)
theory Machine_Controller
  imports Machine_Instances Pool_Members
begin

text \<open>
  The controller of the PowerVS machines
  (\<^verbatim>\<open>internal/controllers/powervs/ibmpowervsmachine_controller.go\<close>): waiting for what the instance needs, creating
  it, following its state, registering it with the load balancers, deleting it.
\<close>

section \<open>Conditions\<close>

definition InstanceReadyReason :: string where "InstanceReadyReason = ''InstanceReady''"
definition InstanceNotReadyReason :: string where "InstanceNotReadyReason = ''InstanceNotReady''"
definition InstanceProvisionFailedReason :: string where "InstanceProvisionFailedReason = ''InstanceProvisionFailed''"
definition InstanceStoppedReason :: string where "InstanceStoppedReason = ''InstanceStopped''"
definition InstanceErroredReason :: string where "InstanceErroredReason = ''InstanceErrored''"
definition InstanceStateUnknownReason :: string where "InstanceStateUnknownReason = ''InstanceStateUnknown''"
definition InstanceWaitingForClusterInfrastructureReadyReason :: string where
  "InstanceWaitingForClusterInfrastructureReadyReason = ''WaitingForClusterInfrastructureReady''"
definition InstanceWaitingForControlPlaneInitializedReason :: string where
  "InstanceWaitingForControlPlaneInitializedReason = ''WaitingForControlPlaneInitialized''"
definition InstanceWaitingForBootstrapDataReason :: string where "InstanceWaitingForBootstrapDataReason = ''WaitingForBootstrapData''"
definition InstanceDeletingReason :: string where "InstanceDeletingReason = ''Deleting''"
definition InstanceLoadBalancerConfigurationFailedReason :: string where
  "InstanceLoadBalancerConfigurationFailedReason = ''LoadBalancerConfigurationFailed''"
definition InstanceWaitingForNetworkAddressReason :: string where "InstanceWaitingForNetworkAddressReason = ''WaitingForNetworkAddress''"
definition InstanceWaitingForImageReason :: string where "InstanceWaitingForImageReason = ''WaitingForIBMImage''"
definition InvalidMachineConfigurationReason :: string where "InvalidMachineConfigurationReason = ''InvalidMachineConfiguration''"
definition IBMPowerVSMachineReadyCondition :: string where "IBMPowerVSMachineReadyCondition = ''Ready''"
definition InstanceReadyV1Beta2Condition :: string where "InstanceReadyV1Beta2Condition = ''InstanceReady''"
definition ClusterControlPlaneInitializedCondition :: string where "ClusterControlPlaneInitializedCondition = ''ControlPlaneInitialized''"

definition machine_severity :: "ConditionStatus \<Rightarrow> string \<Rightarrow> string" where
  "machine_severity st reason =
     (if st \<noteq> ConditionFalse then ConditionSeverityInfo
      else if reason \<in> {InstanceErroredReason, InstanceProvisionFailedReason, InstanceStoppedReason} then ConditionSeverityError
      else if reason \<in> {InstanceWaitingForClusterInfrastructureReadyReason, InstanceWaitingForControlPlaneInitializedReason,
                         InstanceWaitingForBootstrapDataReason, InstanceWaitingForImageReason} then ConditionSeverityInfo
      else ConditionSeverityWarning)"

definition mark_machine :: "capi \<Rightarrow> ConditionStatus \<Rightarrow> string \<Rightarrow> gerror option \<Rightarrow> IBMPowerVSMachine \<Rightarrow> IBMPowerVSMachine" where
  "mark_machine K st reason msg m =
     (let m' = Machine_SetConditions m (conditions_Set K (Machine_GetConditions m)
                 \<lparr>Condition_Type = InstanceReadyCondition, Condition_Status = st, Condition_Reason = reason, Condition_Message = msg\<rparr>)
      in Machine_SetV1Beta1Conditions m' (deprecated_Set K (Machine_GetV1Beta1Conditions m')
           (legacy_mark InstanceReadyV1Beta2Condition st reason (machine_severity st reason) msg)))"

definition machine_markCondition :: "capi \<Rightarrow> ConditionStatus \<Rightarrow> string \<Rightarrow> gerror option \<Rightarrow> (MachineScope, unit) state" where
  "machine_markCondition K st reason msg = upd_machine (mark_machine K st reason msg)"

section \<open>Deletion\<close>

definition msg_failed_delete_instance :: string where "msg_failed_delete_instance = ''failed to delete instance''"
definition msg_error_deleting_machine :: string where "msg_error_deleting_machine = ''error deleting IBMPowerVSMachine''"
definition msg_failed_delete_ignition :: string where "msg_failed_delete_ignition = ''failed to delete ignition data''"
definition msg_error_deleting_ignition :: string where "msg_error_deleting_ignition = ''error deleting IBMPowerVSMachine ignition''"

text \<open>The body of \<open>reconcileDelete\<close>, without the deferred removal of the finalizer.\<close>

definition delete_machine_body :: "capi \<Rightarrow> machine_clients \<Rightarrow> Result machine_proc" where
  "delete_machine_body K C = do {
     s \<leftarrow> State_Monad.get;
     if GetInstanceID s = [] then ok finished
     else attempt (DeleteMachine C)
       (\<lambda>e. do {
         machine_markCondition K ConditionFalse InstanceDeletingReason (Some (Wrapf msg_failed_delete_instance e));
         fail (Wrapf msg_error_deleting_machine e) })
       (\<lambda>_. attempt (DeleteMachineIgnition C)
         (\<lambda>e. do {
           machine_markCondition K ConditionFalse InstanceDeletingReason (Some (Wrapf msg_failed_delete_ignition e));
           fail (Wrapf msg_error_deleting_ignition e) })
         (\<lambda>_. do {
           machine_api (\<lambda>h. m_CacheDelete C h (Machine_Name (scope_machine s))) (CacheDelete (Machine_Name (scope_machine s)));
           ok finished })) }"

definition remove_machine_finalizer :: "capi \<Rightarrow> IBMPowerVSMachine \<Rightarrow> IBMPowerVSMachine" where
  "remove_machine_finalizer K m = m\<lparr>Machine_Finalizers := RemoveFinalizer K (Machine_Finalizers m) IBMPowerVSMachineFinalizer\<rparr>"

definition machine_reconcileDelete :: "capi \<Rightarrow> machine_clients \<Rightarrow> Result machine_proc" where
  "machine_reconcileDelete K C = do {
     machine_markCondition K ConditionFalse InstanceDeletingReason None;
     bindE (delete_machine_body K C) (\<lambda>result. do {
       upd_machine (remove_machine_finalizer K);
       ok result }) }"

section \<open>Reconcile\<close>

definition msg_failed_create_machine :: string where "msg_failed_create_machine = ''failed to create IBMPowerVSMachine''"
definition msg_failed_set_provider_id :: string where "msg_failed_set_provider_id = ''failed to set provider ID''"
definition msg_failed_configure_lb :: string where "msg_failed_configure_lb = ''failed to configure load balancer''"
definition msg_failed_create_lb_pool_member :: string where "msg_failed_create_lb_pool_member = ''failed to create VPC load balancer pool member''"

definition handleLoadBalancerPoolMemberConfiguration :: "machine_clients \<Rightarrow> Result machine_proc" where
  "handleLoadBalancerPoolMemberConfiguration C =
     bindW msg_failed_create_lb_pool_member (CreateVPCLoadBalancerPoolMember C) (\<lambda>poolMember. case poolMember of
         None \<Rightarrow> ok finished
       | Some m \<Rightarrow> if pm_ProvisioningStatus m \<noteq> Some LoadBalancerStateActive then ok \<lparr>RequeueAfter = 60\<rparr> else ok finished)"

text \<open>Step 7 and 8: registration with the load balancers.\<close>

definition register_machine :: "capi \<Rightarrow> machine_clients \<Rightarrow> Result machine_proc" where
  "register_machine K C = do {
     s \<leftarrow> State_Monad.get;
     if VPCSource_Region (Spec_VPC (pvs_spec s)) = [] then do {
       machine_markCondition K ConditionTrue InstanceReadyReason None;
       ok finished }
     else if GetMachineInternalIP s = [] then do {
       machine_markCondition K ConditionFalse InstanceWaitingForNetworkAddressReason (message ''Internal IP not yet set'');
       ok finished }
     else attempt (handleLoadBalancerPoolMemberConfiguration C)
       (\<lambda>e. do {
         machine_markCondition K ConditionFalse InstanceLoadBalancerConfigurationFailedReason (Some (Wrapf msg_failed_configure_lb e));
         fail (Wrapf msg_failed_configure_lb e) })
       (\<lambda>result. do {
         machine_markCondition K ConditionTrue InstanceReadyReason None;
         ok result }) }"

text \<open>Step 6: what the state of the instance means for the machine; \<open>None\<close> goes on.\<close>

definition evaluate_state :: "capi \<Rightarrow> PVMInstance \<Rightarrow> Result option machine_proc" where
  "evaluate_state K ins = do {
     s \<leftarrow> State_Monad.get;
     if GetInstanceState s = PowerVSInstanceStateBUILD then do {
       SetNotReady;
       machine_markCondition K ConditionFalse InstanceNotReadyReason (message ''Instance is building'');
       ok None }
     else if GetInstanceState s = PowerVSInstanceStateSHUTOFF then do {
       SetNotReady;
       machine_markCondition K ConditionFalse InstanceStoppedReason (message ''Instance is shutoff'');
       ok (Some finished) }
     else if GetInstanceState s = PowerVSInstanceStateACTIVE then do {
       SetReady;
       ok None }
     else if GetInstanceState s = PowerVSInstanceStateERROR then do {
       SetNotReady;
       machine_markCondition K ConditionFalse InstanceErroredReason (message (ptr_Deref (pvm_Fault ins) ''Unknown error''));
       ok (Some finished) }
     else do {
       SetNotReady;
       machine_markCondition K ConditionUnknown InstanceStateUnknownReason (message (''Unknown state: '' @ GetInstanceState s));
       ok None } }"

text \<open>Step 5: the state of the cloud goes into the status.\<close>

definition sync_instance :: "machine_clients \<Rightarrow> string \<Rightarrow> PVMInstance machine_proc" where
  "sync_instance C instanceID = do {
     r \<leftarrow> machine_api (\<lambda>h. m_GetInstance C h instanceID) (GetInstance instanceID);
     case r of
       Fail e _ \<Rightarrow> fail e
     | Reply x \<Rightarrow>
         bindW msg_failed_set_provider_id (SetProviderID C instanceID) (\<lambda>_.
         deref x (\<lambda>ins. do {
           SetInstanceID (pvm_PvmInstanceID ins);
           bindE (SetAddresses C ins) (\<lambda>_. do {
             SetHealth (pvm_Health ins);
             bindE (SetInstanceState (pvm_Status ins)) (\<lambda>_. ok ins) }) })) }"

fun is_configuration_error :: "gerror \<Rightarrow> bool" where
  "is_configuration_error (ConfigurationErr _) = True"
| "is_configuration_error (Wrapf _ e) = is_configuration_error e"
| "is_configuration_error _ = False"

text \<open>An instance was found: its state, and what follows from it.\<close>

definition follow_instance :: "capi \<Rightarrow> machine_clients \<Rightarrow> PVMInstanceReference \<Rightarrow> Result machine_proc" where
  "follow_instance K C i = deref (pvmref_PvmInstanceID i) (\<lambda>instanceID.
     bindE (sync_instance C instanceID) (\<lambda>ins.
     bindE (evaluate_state K ins) (\<lambda>early. case early of
         Some result \<Rightarrow> ok result
       | None \<Rightarrow> do {
           s \<leftarrow> State_Monad.get;
           if \<not> IsReady s then ok \<lparr>RequeueAfter = 120\<rparr> else register_machine K C })))"

text \<open>The steps from 4 on, once nothing has to be waited for.\<close>

definition reconcile_instance :: "capi \<Rightarrow> machine_clients \<Rightarrow> Result machine_proc" where
  "reconcile_instance K C =
     attempt (CreateMachine C)
       (\<lambda>e. do {
         machine_markCondition K ConditionFalse
           (if is_configuration_error e then InvalidMachineConfigurationReason else InstanceProvisionFailedReason) (Some e);
         fail (Wrapf msg_failed_create_machine e) })
       (\<lambda>machine. case machine of
          None \<Rightarrow> do {
            SetNotReady;
            machine_markCondition K ConditionUnknown InstanceStateUnknownReason (message ''Machine creation returned nil without error'');
            ok finished }
        | Some i \<Rightarrow> follow_instance K C i)"

definition reconcileNormal :: "capi \<Rightarrow> machine_clients \<Rightarrow> Result machine_proc" where
  "reconcileNormal K C = do {
     s \<leftarrow> State_Monad.get;
     if Capi_InfrastructureProvisioned (machine_Cluster s) \<noteq> Some True then do {
       machine_markCondition K ConditionFalse InstanceWaitingForClusterInfrastructureReadyReason None;
       ok \<lparr>RequeueAfter = 60\<rparr> }
     else if (case machine_Image s of None \<Rightarrow> False | Some i \<Rightarrow> ImageStatus_ImageState (Image_Status i) \<noteq> PowerVSImageStateACTIVE) then do {
       machine_markCondition K ConditionFalse InstanceWaitingForImageReason None;
       ok \<lparr>RequeueAfter = 60\<rparr> }
     else if Capi_DataSecretName (machine_Machine s) = None then
       if \<not> Capi_ControlPlane (machine_Machine s) \<and>
          \<not> conditions_IsTrue K (Capi_Conditions (machine_Cluster s)) ClusterControlPlaneInitializedCondition then do {
         machine_markCondition K ConditionFalse InstanceWaitingForControlPlaneInitializedReason None;
         ok finished }
       else do {
         machine_markCondition K ConditionFalse InstanceWaitingForBootstrapDataReason None;
         ok finished }
     else reconcile_instance K C }"

section \<open>Patching and the entry point\<close>

text \<open>What \<open>Reconcile\<close> uses of Cluster API and of the Kubernetes client.\<close>

record machine_util =
  mu_GetMachine :: "IBMPowerVSMachine reply"
  mu_EnsureFinalizer :: "IBMPowerVSMachine \<Rightarrow> bool reply"
  mu_GetOwnerMachine :: "IBMPowerVSMachine \<Rightarrow> CAPIMachine option reply"
  mu_AddOwners :: "IBMPowerVSMachine \<Rightarrow> unit reply"
  mu_GetCluster :: "CAPIMachine \<Rightarrow> CAPICluster option reply"
  mu_EnsurePaused :: "CAPICluster \<Rightarrow> IBMPowerVSMachine \<Rightarrow> (bool \<times> bool) reply"   \<comment> \<open>paused, requeue\<close>
  mu_GetPVSCluster :: "string \<Rightarrow> string \<Rightarrow> IBMPowerVSCluster reply"
  mu_GetImage :: "string \<Rightarrow> string \<Rightarrow> IBMPowerVSImage reply"
  mu_NewHelper :: "IBMPowerVSMachine \<Rightarrow> unit reply"
  mu_Patch :: "IBMPowerVSMachine \<Rightarrow> IBMPowerVSMachine \<Rightarrow> unit reply"   \<comment> \<open>the object the helper was made for, the object now\<close>
  mu_conditions_Get :: "Condition list \<Rightarrow> string \<Rightarrow> Condition option"
  mu_SetSummary :: "Condition list \<Rightarrow> string \<Rightarrow> string list \<Rightarrow> Condition list reply"
  mu_deprecated_SetSummary :: "DeprecatedCondition list \<Rightarrow> string list \<Rightarrow> DeprecatedCondition list"

definition msg_failed_get_ibmpowervsmachine :: string where "msg_failed_get_ibmpowervsmachine = ''failed to get IBMPowerVSMachine''"
definition msg_failed_get_machine :: string where "msg_failed_get_machine = ''failed to get machine for IBMPowerVSMachine''"
definition msg_failed_add_owners :: string where "msg_failed_add_owners = ''failed to add owners to log''"
definition msg_failed_get_ibmpowervscluster :: string where "msg_failed_get_ibmpowervscluster = ''failed to get IBMPowerVSCluster''"
definition msg_failed_create_machine_scope :: string where "msg_failed_create_machine_scope = ''failed to create IBMPowerVS machine scope''"

definition instance_ready_default :: "capi \<Rightarrow> machine_util \<Rightarrow> IBMPowerVSMachine \<Rightarrow> IBMPowerVSMachine" where
  "instance_ready_default K W m =
     (if mu_conditions_Get W (Machine_GetConditions m) InstanceReadyCondition \<noteq> None then m
      else Machine_SetConditions m (conditions_Set K (Machine_GetConditions m)
        (if ptr_Deref (MachineStatus_Provisioned (Machine_Status m)) False
         then \<lparr>Condition_Type = InstanceReadyCondition, Condition_Status = ConditionTrue, Condition_Reason = InstanceReadyReason, Condition_Message = None\<rparr>
         else \<lparr>Condition_Type = InstanceReadyCondition, Condition_Status = ConditionFalse, Condition_Reason = InstanceNotReadyReason, Condition_Message = None\<rparr>)))"

definition patchIBMPowerVSMachine :: "capi \<Rightarrow> machine_util \<Rightarrow> IBMPowerVSMachine \<Rightarrow> IBMPowerVSMachine \<Rightarrow> unit outcome \<times> IBMPowerVSMachine" where
  "patchIBMPowerVSMachine K W before m =
     (let m1 = instance_ready_default K W m;
          m2 = Machine_SetV1Beta1Conditions m1 (mu_deprecated_SetSummary W (Machine_GetV1Beta1Conditions m1) [InstanceReadyV1Beta2Condition])
      in case mu_SetSummary W (Machine_GetConditions m2) IBMPowerVSMachineReadyCondition [InstanceReadyCondition] of
           Fail e _ \<Rightarrow> (Err (Wrapf msg_failed_set_condition e), m2)
         | Reply cs \<Rightarrow>
             (let m3 = Machine_SetConditions m2 cs
              in case mu_Patch W before m3 of Fail e _ \<Rightarrow> (Err e, m3) | Reply _ \<Rightarrow> (Ok (), m3)))"

text \<open>
  The deferred patch runs whatever was returned, also when the handler panics; its error is added to the
  one returned.
\<close>

definition machine_deferred_patch :: "capi \<Rightarrow> machine_util \<Rightarrow> IBMPowerVSMachine \<Rightarrow> Result outcome \<times> MachineScope \<Rightarrow> Result outcome \<times> MachineScope" where
  "machine_deferred_patch K W before x =
     (case patchIBMPowerVSMachine K W before (scope_machine (snd x)) of
        (Ok _, m) \<Rightarrow> (fst x, (snd x)\<lparr>scope_machine := m\<rparr>)
      | (Err e, m) \<Rightarrow> (case fst x of Err e0 \<Rightarrow> Err (AggregateErr [e0, e]) | Ok _ \<Rightarrow> Err (AggregateErr [e]) | Panic \<Rightarrow> Panic, (snd x)\<lparr>scope_machine := m\<rparr>)
      | (Panic, m) \<Rightarrow> (Panic, (snd x)\<lparr>scope_machine := m\<rparr>))"

text \<open>
  From the scope on. The helper keeps a copy of the object as it is when the helper is made, and a patch
  carries what differs from it; both are part of the result: the copy, and the scope with the object as it
  was patched (\<open>None\<close> if it was not).
\<close>

definition machine_scoped :: "capi \<Rightarrow> machine_util \<Rightarrow> machine_clients \<Rightarrow> MachineScope \<Rightarrow> Result outcome \<times> (IBMPowerVSMachine \<times> MachineScope) option" where
  "machine_scoped K W C start =
     (case run_state (NewMachineScope C True True True True True True) start of
        (Err e, _) \<Rightarrow> (Err (Wrapf msg_failed_create_machine_scope e), None)
      | (Panic, _) \<Rightarrow> (Panic, None)
      | (Ok _, s) \<Rightarrow>
          (case mu_NewHelper W (scope_machine s) of
             Fail e _ \<Rightarrow> (Err (Wrapf msg_failed_init_patch_helper e), None)
           | Reply _ \<Rightarrow>
               (let (r, t) = machine_deferred_patch K W (scope_machine s)
                      (run_state (if Machine_Deleting (scope_machine s) then machine_reconcileDelete K C else reconcileNormal K C) s)
                in (r, Some (scope_machine s, t)))))"

text \<open>The image object the machine names, if it names one; one that cannot be fetched ends the reconcile.\<close>

definition fetch_image :: "machine_util \<Rightarrow> IBMPowerVSMachine \<Rightarrow> IBMPowerVSImage option option" where
  "fetch_image W m =
     (let img = MachineSpec_Image (Machine_Spec m)
      in if MachineImage_Type img = ImageSourceTypeImport \<and> MachineImage_Import img \<noteq> []
         then (case mu_GetImage W (Machine_Namespace m) (MachineImage_Import img) of Fail _ _ \<Rightarrow> None | Reply i \<Rightarrow> Some (Some i))
         else Some None)"

text \<open>From the Cluster API machine on; \<open>cache\<close> is the system type cache of the process.\<close>

definition machine_owned :: "capi \<Rightarrow> machine_util \<Rightarrow> machine_clients \<Rightarrow> systemTypeCache \<Rightarrow> IBMPowerVSMachine \<Rightarrow> CAPIMachine \<Rightarrow> Result outcome \<times> (IBMPowerVSMachine \<times> MachineScope) option" where
  "machine_owned K W C cache m machine =
     (case mu_AddOwners W m of
        Fail e _ \<Rightarrow> (Err (Wrapf msg_failed_add_owners e), None)
      | Reply _ \<Rightarrow>
         (case mu_GetCluster W machine of
            Fail _ _ \<Rightarrow> (Ok finished, None)
          | Reply None \<Rightarrow> (Ok finished, None)
          | Reply (Some cluster) \<Rightarrow>
             (case Capi_InfrastructureRef cluster of
                None \<Rightarrow> (Ok finished, None)
              | Some refName \<Rightarrow>
                 (case mu_EnsurePaused W cluster m of
                    Fail e _ \<Rightarrow> (Err e, None)
                  | Reply (isPaused, requeue) \<Rightarrow>
                     if isPaused \<or> requeue then (Ok finished, None)
                     else (case mu_GetPVSCluster W (Machine_Namespace m) refName of
                             Fail e _ \<Rightarrow> (Err (Wrapf msg_failed_get_ibmpowervscluster e), None)
                           | Reply pvs \<Rightarrow>
                              (case fetch_image W m of
                                 None \<Rightarrow> (Ok finished, None)
                               | Some img \<Rightarrow> machine_scoped K W C
                                   \<lparr>machine_trace = [], scope_machine = m, sysCache = cache, machine_COSClient = False,
                                    machine_Cluster = cluster, machine_Machine = machine, machine_PVSCluster = pvs, machine_Image = img\<rparr>))))))"

definition machine_Reconcile :: "capi \<Rightarrow> machine_util \<Rightarrow> machine_clients \<Rightarrow> systemTypeCache \<Rightarrow> Result outcome \<times> (IBMPowerVSMachine \<times> MachineScope) option" where
  "machine_Reconcile K W C cache =
     (case mu_GetMachine W of
        Fail (NotFoundErr _) _ \<Rightarrow> (Ok finished, None)
      | Fail e _ \<Rightarrow> (Err (Wrapf msg_failed_get_ibmpowervsmachine e), None)
      | Reply m \<Rightarrow>
         (case mu_EnsureFinalizer W m of
            Fail e _ \<Rightarrow> (Err e, None)
          | Reply True \<Rightarrow> (Ok finished, None)
          | Reply False \<Rightarrow>
             (case mu_GetOwnerMachine W m of
                Fail e _ \<Rightarrow> (Err (Wrapf msg_failed_get_machine e), None)
              | Reply None \<Rightarrow> (Ok finished, None)
              | Reply (Some machine) \<Rightarrow> machine_owned K W C cache m machine)))"

end
