(* ===== verification/Example_Machine.thy ===== *)
theory Example_Machine
  imports Machine_Controller
begin

text \<open>
  A machine of the settled example cluster and a cloud for it, on which the theorems are applied. The
  machine asks for a system type and Ignition; the cloud lists no instance, has two pools on the load
  balancer of the cluster and answers every creation.
\<close>

definition example_machine :: IBMPowerVSMachine where
  "example_machine = \<lparr>Machine_Name = ''m'', Machine_Namespace = ''ns'', Machine_Labels = Map.empty,
     Machine_Finalizers = [IBMPowerVSMachineFinalizer], Machine_Deleting = False,
     Machine_Spec = \<lparr>MachineSpec_Workspace = no_identifier, MachineSpec_Network = no_identifier,
       MachineSpec_Image = \<lparr>MachineImage_Type = ImageSourceTypeReference,
         MachineImage_Reference = \<lparr>ResourceIdentifier_ID = ''img'', ResourceIdentifier_Name = []\<rparr>, MachineImage_Import = []\<rparr>,
       MachineSpec_SSHKey = ''key'', MachineSpec_SystemType = ''s922'', MachineSpec_ProcessorType = ''Shared'',
       MachineSpec_Processors = IntVal 2, MachineSpec_MemoryGiB = 8, MachineSpec_ProviderID = []\<rparr>,
     Machine_Status = \<lparr>MachineStatus_Conditions = [], MachineStatus_Provisioned = None, MachineStatus_InstanceID = [],
       MachineStatus_Addresses = [], MachineStatus_Health = [], MachineStatus_InstanceState = [], MachineStatus_Region = ''dal'',
       MachineStatus_Zone = ''dal10'', MachineStatus_Deprecated = None\<rparr>\<rparr>"

definition example_machine_scope :: MachineScope where
  "example_machine_scope = \<lparr>machine_trace = [], scope_machine = example_machine, sysCache = Map.empty, machine_COSClient = True,
     machine_Cluster = \<lparr>Capi_InfrastructureProvisioned = Some True, Capi_Conditions = [], Capi_InfrastructureRef = Some ''c''\<rparr>,
     machine_Machine = \<lparr>Capi_Namespace = ''ns'', Capi_DataSecretName = Some ''boot'', Capi_ControlPlane = True\<rparr>,
     machine_PVSCluster = scope_cluster settled, machine_Image = None\<rparr>"

definition cloud_pvm :: PVMInstance where
  "cloud_pvm = \<lparr>pvm_PvmInstanceID = Some ''id'', pvm_ServerName = Some ''m'', pvm_Status = Some PowerVSInstanceStateACTIVE,
     pvm_Health = None, pvm_Fault = None,
     pvm_Networks = [\<lparr>pvmnet_NetworkID = ''net'', pvmnet_IPAddress = ''10.0.0.1'', pvmnet_ExternalIP = [], pvmnet_MacAddress = ''mac''\<rparr>]\<rparr>"

definition cloud_pooled_lb :: PooledLoadBalancer where
  "cloud_pooled_lb = \<lparr>plb_ID = Some ''lb'', plb_Name = Some ''c-loadbalancer-public'', plb_ProvisioningStatus = Some LoadBalancerStateActive,
     plb_Pools = [\<lparr>poolref_ID = Some ''p1'', poolref_Name = Some ''pool-6443''\<rparr>, \<lparr>poolref_ID = Some ''p2'', poolref_Name = Some ''pool-22623''\<rparr>],
     plb_Listeners = [Some ''l1'']\<rparr>"

definition machine_cloud :: machine_clients where
  "machine_cloud = \<lparr>m_Authenticator = \<lambda>_. Reply (), m_ResourceController = \<lambda>_. Reply (), m_PowerVS = \<lambda>_ _ _. Reply (), m_VPC = \<lambda>_ _. Reply (),
     m_COS = \<lambda>_ _ _. Reply (), m_COSWithHMAC = \<lambda>_ _ _ _ _. Reply (),
     m_FindWorkspace = \<lambda>_ f. Reply (Some ((active_instance (filter_ID f))\<lparr>ri_RegionID := Some ''dal10''\<rparr>)),
     m_ListInstances = \<lambda>_. Reply (Some []), m_GetInstance = \<lambda>_ _. Reply (Some cloud_pvm),
     m_CreateInstance = \<lambda>_ _. Reply (), m_DeleteInstance = \<lambda>_ _. Reply (), m_ListImages = \<lambda>_. Reply (Some []),
     m_FindNetwork = \<lambda>_ _. Reply None, m_ListDHCP = \<lambda>_. Reply [], m_GetDHCP = \<lambda>_ _. Reply (Some []),
     m_GetDatacenter = \<lambda>_ _. Reply (Some [''s922'', ''e980'']),
     m_GetLoadBalancer = \<lambda>_ _. Reply (Some cloud_pooled_lb),
     m_GetListener = \<lambda>_ _ _. Reply (Some \<lparr>lbl_Port = Some 6443, lbl_Protocol = Some ''tcp'', lbl_DefaultPool = Some (Some ''pool-6443'')\<rparr>),
     m_ListPoolMembers = \<lambda>_ _ _. Reply (Some []),
     m_CreatePoolMember = \<lambda>_ _. Reply (Some \<lparr>pm_ID = Some ''pm'', pm_ProvisioningStatus = Some LoadBalancerStateActive\<rparr>),
     m_PutObject = \<lambda>_ _ _ _. Reply (), m_PresignedURL = \<lambda>_ _ _. Reply ''https://u'', m_DeleteObject = \<lambda>_ _ _. Reply (),
     m_GetSecret = \<lambda>_ _ _. Reply [''value'' \<mapsto> ''boot''], m_CacheGet = \<lambda>_ _. Reply None, m_CacheAdd = \<lambda>_ _ _. Reply (), m_CacheDelete = \<lambda>_ _. Reply (),
     m_Now = \<lambda>h. int (length h), on_others = \<lambda>_ c. c, vpc_region_for = \<lambda>_. Reply ''us-south'', ParseFloat = \<lambda>_. Reply (Finite 1 1),
     ParseTolerant = \<lambda>_. Reply (2, ''2.3.0''), json_Marshal = \<lambda>c. Reply (case c of IgnitionV2 _ u \<Rightarrow> u | IgnitionV3 _ u \<Rightarrow> u),
     LabelSelectorAsSelector = \<lambda>_. Reply \<lparr>selector_Empty = True, selector_Matches = \<lambda>_. True\<rparr>,
     service_endpoints = [], ProviderIDFormat = ProviderIDFormatV2\<rparr>"

text \<open>The same cloud when it lists the instance.\<close>

definition running_cloud :: machine_clients where
  "running_cloud = machine_cloud\<lparr>m_ListInstances := \<lambda>_. Reply (Some [\<lparr>pvmref_ServerName = Some ''m'', pvmref_PvmInstanceID = Some ''id''\<rparr>])\<rparr>"

end
