(* ===== verification/Machine_Properties.thy ===== *)
theory Machine_Properties
  imports Example_Machine
begin

text \<open>What the machine controller promises, and where it loses an instance or gets stuck.\<close>

section \<open>Frames\<close>

text \<open>The calls of a run; \<open>traced A\<close>: a run issues only calls in \<open>A\<close>.\<close>

definition machine_calls :: "MachineScope \<Rightarrow> MachineScope \<Rightarrow> machine_call list" where
  "machine_calls s t = drop (length (machine_trace s)) (machine_trace t)"

definition traced :: "(machine_call \<Rightarrow> bool) \<Rightarrow> MachineScope \<Rightarrow> MachineScope \<Rightarrow> bool" where
  "traced A s t \<longleftrightarrow> (\<exists>cs. machine_trace t = machine_trace s @ cs \<and> list_all A cs)"

interpretation traced: frame "traced A" for A
proof unfold_locales
  show "traced A s s" for s by (simp add: traced_def)
  show "traced A s t \<Longrightarrow> traced A t u \<Longrightarrow> traced A s u" for s t u by (auto simp: traced_def)
qed

text \<open>The inputs of the scope, which no step changes.\<close>

definition machine_inputs :: "MachineScope \<Rightarrow> CAPICluster \<times> CAPIMachine \<times> IBMPowerVSCluster \<times> IBMPowerVSImage option" where
  "machine_inputs s = (machine_Cluster s, machine_Machine s, machine_PVSCluster s, machine_Image s)"

text \<open>A run that only incidental: it issues calls in \<open>A\<close> and leaves the object and the inputs as they are.\<close>

definition quiet :: "(machine_call \<Rightarrow> bool) \<Rightarrow> MachineScope \<Rightarrow> MachineScope \<Rightarrow> bool" where
  "quiet A s t \<longleftrightarrow> traced A s t \<and> scope_machine t = scope_machine s \<and> machine_inputs t = machine_inputs s"

interpretation quiet: frame "quiet A" for A
proof unfold_locales
  show "quiet A s s" for s by (simp add: quiet_def traced.R_refl)
  show "quiet A s t \<Longrightarrow> quiet A t u \<Longrightarrow> quiet A s u" for s t u by (auto simp: quiet_def intro: traced.R_trans)
qed

lemma machine_calls_append [simp]: "machine_trace t = machine_trace s @ cs \<Longrightarrow> machine_calls s t = cs"
  by (simp add: machine_calls_def)

lemma traced_set: "traced A s t \<Longrightarrow> c \<in> set (machine_calls s t) \<Longrightarrow> A c"
  by (auto simp: traced_def list_all_iff)

lemma traced_keep [simp]: "traced A s (t\<lparr>scope_machine := m\<rparr>) = traced A s t" "traced A s (t\<lparr>sysCache := c\<rparr>) = traced A s t"
  "traced A s (t\<lparr>machine_COSClient := b\<rparr>) = traced A s t"
  by (simp_all add: traced_def)

lemma traced_api: "A c \<Longrightarrow> state_io_rel (traced A) (machine_api f c)"
  by (auto simp: state_io_rel_def machine_api_def traced_def)

lemma quiet_api: "A c \<Longrightarrow> state_io_rel (quiet A) (machine_api f c)"
  using traced_api [of A c f] by (auto simp: state_io_rel_def machine_api_def quiet_def machine_inputs_def)

lemma traced_upd: "state_io_rel (traced A) (upd_machine f)" "state_io_rel (traced A) (upd_machine_status g)"
  by (simp_all add: upd_machine_def upd_machine_status_def traced.fr_modify traced.R_refl)

lemma quiet_modify:
  "state_io_rel (quiet A) (modify (\<lambda>s. s\<lparr>sysCache := g s\<rparr>))" "state_io_rel (quiet A) (modify (\<lambda>s. s\<lparr>machine_COSClient := b\<rparr>))"
  by (auto simp: state_io_rel_def modify_def quiet_def machine_inputs_def traced.R_refl)

lemma quiet_traced: "state_io_rel (quiet A) m \<Longrightarrow> state_io_rel (traced A) m"
  by (erule state_io_rel_imp) (simp add: quiet_def)

text \<open>All calls but those that create or delete an instance or a pool member, or delete bootstrap data.\<close>

definition incidental :: "machine_call \<Rightarrow> bool" where
  "incidental c = (case c of CreateInstance _ \<Rightarrow> False | DeleteInstance _ \<Rightarrow> False | CreatePoolMember _ \<Rightarrow> False | DeleteObject _ _ \<Rightarrow> False
     | _ \<Rightarrow> True)"

lemma incidental_simps [simp]: "\<not> incidental (CreateInstance p)" "\<not> incidental (DeleteInstance i)" "\<not> incidental (CreatePoolMember m)"
  by (simp_all add: incidental_def)

lemmas quiet_rules = quiet.fr_rules quiet_api quiet_modify

lemma quiet_resolve:
  "state_io_rel (quiet incidental) (getImageID C i)" "state_io_rel (quiet incidental) (getNetworkID C n)"
  "state_io_rel (quiet incidental) (resolveUserData C)" "state_io_rel (quiet incidental) (check_system_type C)"
  "state_io_rel (quiet incidental) (GetWorkspaceID C)"
  unfolding getImageID_def getNetworkID_def resolveUserData_def getRawBootstrapData_def ignitionUserData_def createIgnitionData_def
    check_system_type_def validateSystemType_def fresh_entry_def wait_lock_def fetch_types_def GetWorkspaceID_def
  by (intro quiet_rules; simp add: incidental_def)+


lemma scope_reads [simp]:
  "useIgnition (s\<lparr>machine_trace := h\<rparr>) = useIgnition s" "getIgnitionVersion (s\<lparr>machine_trace := h\<rparr>) = getIgnitionVersion s"
  "bootstrapDataKey (s\<lparr>machine_trace := h\<rparr>) = bootstrapDataKey s" "machine_network (s\<lparr>machine_trace := h\<rparr>) = machine_network s"
  "GetZone (s\<lparr>machine_trace := h\<rparr>) = GetZone s" "GetRegion (s\<lparr>machine_trace := h\<rparr>) = GetRegion s"
  "GetInstanceID (s\<lparr>machine_trace := h\<rparr>) = GetInstanceID s" "GetMachineInternalIP (s\<lparr>machine_trace := h\<rparr>) = GetMachineInternalIP s"
  by (simp_all add: useIgnition_def getIgnitionVersion_def bootstrapDataKey_def role_def machine_network_def Let_def GetZone_def GetRegion_def
      GetInstanceID_def GetMachineInternalIP_def)

text \<open>A step that only asks, its result known, then the rest; errors are passed on.\<close>

lemma quiet_attempt:
  assumes "wp m (\<lambda>r t. quiet A s t \<and> (\<forall>x. r = Ok x \<longrightarrow> P x)) s" and "quiet A start s"
    and "\<And>x t. quiet A start t \<Longrightarrow> P x \<Longrightarrow> wp (k x) Q t"
    and "\<And>e t. quiet A start t \<Longrightarrow> Q (Err e) t" and "\<And>t. quiet A start t \<Longrightarrow> Q Panic t"
  shows "wp (attempt m (\<lambda>e. fail (g e)) k) Q s"
  unfolding wp_attempt using assms(1)
proof (rule wp_mono)
  fix r t assume r: "quiet A s t \<and> (\<forall>x. r = Ok x \<longrightarrow> P x)"
  then have "quiet A start t" using assms(2) by (blast intro: quiet.R_trans)
  with r assms(3-) show "(\<forall>x. r = Ok x \<longrightarrow> wp (k x) Q t) \<and> (\<forall>e. r = Err e \<longrightarrow> wp (fail (g e)) Q t) \<and> (r = Panic \<longrightarrow> Q Panic t)"
    by (simp add: wp_return)
qed

lemma quiet_attempt_at:
  assumes "wp m (\<lambda>r t. quiet A s t \<and> (\<forall>x. r = Ok x \<longrightarrow> P x t)) s" and "quiet A start s"
    and "\<And>x t. quiet A start t \<Longrightarrow> quiet A s t \<Longrightarrow> P x t \<Longrightarrow> wp (k x) Q t"
    and "\<And>e t. quiet A start t \<Longrightarrow> Q (Err e) t" and "\<And>t. quiet A start t \<Longrightarrow> Q Panic t"
  shows "wp (attempt m (\<lambda>e. fail (g e)) k) Q s"
  unfolding wp_attempt using assms(1)
proof (rule wp_mono)
  fix r t assume r: "quiet A s t \<and> (\<forall>x. r = Ok x \<longrightarrow> P x t)"
  then have "quiet A start t" using assms(2) by (blast intro: quiet.R_trans)
  with r assms(3-) show "(\<forall>x. r = Ok x \<longrightarrow> wp (k x) Q t) \<and> (\<forall>e. r = Err e \<longrightarrow> wp (fail (g e)) Q t) \<and> (r = Panic \<longrightarrow> Q Panic t)"
    by (simp add: wp_return)
qed

lemma quiet_result: "state_io_rel (quiet A) m \<Longrightarrow> wp m (\<lambda>r t. \<forall>x. r = Ok x \<longrightarrow> P x t) s \<Longrightarrow>
  wp m (\<lambda>r t. quiet A s t \<and> (\<forall>x. r = Ok x \<longrightarrow> P x t)) s"
  by (intro wp_conj quiet.wp_frame)

section \<open>Creating an instance\<close>

text \<open>
  Which image and which network an instance may be made with, given the calls \<open>cs\<close> issued since \<open>s\<close>: the one with
  the ID in the object, or if there is only a name, one the cloud was asked for in these calls and answered with
  under exactly that name.
\<close>

definition asked :: "machine_call list \<Rightarrow> machine_call \<Rightarrow> MachineScope \<Rightarrow> machine_history \<Rightarrow> bool" where
  "asked cs c s h \<longleftrightarrow> (\<exists>before after. cs = before @ c # after \<and> h = machine_trace s @ before)"

definition image_for :: "machine_clients \<Rightarrow> MachineScope \<Rightarrow> machine_call list \<Rightarrow> string \<Rightarrow> bool" where
  "image_for C s cs i \<longleftrightarrow>
     (let img = MachineSpec_Image (machine_spec s); ref = MachineImage_Reference img in
      if MachineImage_Type img = ImageSourceTypeImport
      then i \<noteq> [] \<and> (\<exists>x. machine_Image s = Some x \<and> ImageStatus_ImageID (Image_Status x) = i)
      else if ResourceIdentifier_ID ref \<noteq> [] then i = ResourceIdentifier_ID ref
      else ResourceIdentifier_Name ref \<noteq> [] \<and>
        (\<exists>h is x. asked cs ListImages s h \<and> m_ListImages C h = Reply (Some is) \<and> x \<in> set is \<and>
           imgref_Name x = Some (ResourceIdentifier_Name ref) \<and> imgref_ImageID x = Some i))"

definition network_for :: "machine_clients \<Rightarrow> MachineScope \<Rightarrow> machine_call list \<Rightarrow> string \<Rightarrow> bool" where
  "network_for C s cs n \<longleftrightarrow>
     (let net = machine_network s in
      if ResourceIdentifier_ID net \<noteq> [] then n = ResourceIdentifier_ID net
      else ResourceIdentifier_Name net \<noteq> [] \<and>
        (\<exists>h x. asked cs (FindNetwork (ResourceIdentifier_Name net)) s h \<and>
           m_FindNetwork C h (ResourceIdentifier_Name net) = Reply (Some x) \<and> net_NetworkID x = Some n))"

lemma asked_mono: "asked cs c s h \<Longrightarrow> asked (cs @ rest) c s h"
  by (auto simp: asked_def)

lemma asked_once: "asked [c] c s (machine_trace s)"
  by (auto simp: asked_def)

lemma asked_later: "asked cs c (s\<lparr>machine_trace := machine_trace s @ before\<rparr>) h \<Longrightarrow> asked (before @ cs) c s h"
  by (auto simp: asked_def)

lemma image_named_Some: "image_named n is = Ok (Some x) \<Longrightarrow> x \<in> set is \<and> imgref_Name x = Some n"
  by (induction n "is" rule: image_named.induct) (auto split: option.splits if_splits)

text \<open>The user data is the bootstrap data, or with Ignition the redirect document, in base64.\<close>

definition user_data_of :: "machine_clients \<Rightarrow> MachineScope \<Rightarrow> string \<Rightarrow> bool" where
  "user_data_of C s u \<longleftrightarrow> (\<exists>h n m v. Capi_DataSecretName (machine_Machine s) = Some n \<and>
     m_GetSecret C h (Capi_Namespace (machine_Machine s)) n = Reply m \<and> m ''value'' = Some v \<and>
     (if useIgnition s
      then v \<noteq> [] \<and> (\<exists>h2 h3 url ver d. let bucket = COSInstanceStatus_BucketName (Status_COSInstance (pvs_status s)); key = bootstrapDataKey s in
             m_PutObject C h2 bucket key v = Reply () \<and> m_PresignedURL C h3 bucket key = Reply url \<and>
             ParseTolerant C (getIgnitionVersion s) = Reply ver \<and> ignition_document C url ver = Ok d \<and> u = EncodeToString d)
      else u = EncodeToString v))"

lemma resolve_image_result: "wp (resolve_image C) (\<lambda>r t. quiet incidental s t \<and> (\<forall>i. r = Ok i \<longrightarrow> image_for C s (machine_calls s t) i)) s"
proof (rule quiet_result)
  show "state_io_rel (quiet incidental) (resolve_image C)"
    unfolding resolve_image_def by (intro quiet_rules quiet_resolve)
  show "wp (resolve_image C) (\<lambda>r t. \<forall>i. r = Ok i \<longrightarrow> image_for C s (machine_calls s t) i) s"
    unfolding resolve_image_def getImageID_def image_for_def Let_def
    by (simp only: wp_simps) (auto simp: machine_calls_def dest!: image_named_Some intro: asked_once)
qed

lemma resolve_network_result: "wp (resolve_network C) (\<lambda>r t. quiet incidental s t \<and> (\<forall>n. r = Ok n \<longrightarrow> network_for C s (machine_calls s t) n)) s"
proof (rule quiet_result)
  show "state_io_rel (quiet incidental) (resolve_network C)"
    unfolding resolve_network_def by (intro quiet_rules quiet_resolve)
  show "wp (resolve_network C) (\<lambda>r t. \<forall>n. r = Ok n \<longrightarrow> network_for C s (machine_calls s t) n) s"
    unfolding resolve_network_def getNetworkID_def network_for_def machine_network_def Let_def
    by (simp only: wp_simps) (auto simp: machine_calls_def bind_eq_Some_conv intro!: exI asked_once)
qed

lemma resolveUserData_result: "wp (resolveUserData C) (\<lambda>r t. quiet incidental s t \<and> (\<forall>u. r = Ok u \<longrightarrow> user_data_of C s u)) s"
proof (rule quiet_result [OF quiet_resolve(3)])
  show "wp (resolveUserData C) (\<lambda>r t. \<forall>u. r = Ok u \<longrightarrow> user_data_of C s u) s"
    unfolding resolveUserData_def getRawBootstrapData_def ignitionUserData_def createIgnitionData_def user_data_of_def Let_def
    by (simp only: wp_simps) (simp, blast)
qed

text \<open>
  The calls of a run that creates an instance: nothing but questions before the one request, which is
  the payload for what was resolved, and nothing after it.
\<close>

definition creating :: "machine_clients \<Rightarrow> MachineScope \<Rightarrow> machine_call list \<Rightarrow> PVMInstanceCreate \<Rightarrow> bool" where
  "creating C s cs p \<longleftrightarrow> (\<exists>pre u ps i n. cs = pre @ [CreateInstance p] \<and> list_all incidental pre \<and>
     p = instance_payload (scope_machine s) u ps i n \<and> user_data_of C s u \<and>
     parse_processors C (MachineSpec_Processors (machine_spec s)) = Ok ps \<and> image_for C s pre i \<and> network_for C s pre n)"

definition created_or_quiet :: "machine_clients \<Rightarrow> MachineScope \<Rightarrow> PVMInstanceReference option outcome \<Rightarrow> MachineScope \<Rightarrow> bool" where
  "created_or_quiet C s r t \<longleftrightarrow> scope_machine t = scope_machine s \<and> machine_inputs t = machine_inputs s \<and>
     (\<exists>cs. machine_trace t = machine_trace s @ cs \<and>
       (list_all incidental cs \<and> (\<forall>x. r \<noteq> Ok x) \<or> (\<exists>p. creating C s cs p) \<and> (\<forall>x. r \<noteq> Ok (Some x))))"

lemma created_or_quiet_quiet: "quiet incidental s t \<Longrightarrow> (\<And>x. r \<noteq> Ok x) \<Longrightarrow> created_or_quiet C s r t"
  by (auto simp: created_or_quiet_def quiet_def traced_def)

lemma machine_inputsD:
  assumes "machine_inputs t = machine_inputs s" "scope_machine t = scope_machine s"
  shows "user_data_of C t = user_data_of C s" "machine_network t = machine_network s" "machine_Image t = machine_Image s"
  using assms by (auto simp: machine_inputs_def user_data_of_def useIgnition_def bootstrapDataKey_def role_def getIgnitionVersion_def
      machine_network_def fun_eq_iff Let_def)

text \<open>What was resolved after some calls was resolved in the run as a whole.\<close>

lemma quiet_calls:
  assumes "quiet A start s" "quiet A s t"
  shows "machine_calls start t = machine_calls start s @ machine_calls s t"
  using assms by (auto simp: quiet_def traced_def machine_calls_def)

lemma asked_within:
  assumes "quiet A start s" "quiet A s t" "asked (machine_calls s t) c s h"
  shows "asked (machine_calls start t) c start h"
proof -
  have trace: "machine_trace s = machine_trace start @ machine_calls start s" using assms(1) by (auto simp: quiet_def traced_def)
  obtain before after where "machine_calls s t = before @ c # after" and h: "h = machine_trace s @ before"
    using assms(3) by (auto simp: asked_def)
  then have "machine_calls start t = (machine_calls start s @ before) @ c # after"
    by (simp only: quiet_calls [OF assms(1,2)] append_assoc)
  moreover have "h = machine_trace start @ (machine_calls start s @ before)" by (simp only: h trace append_assoc)
  ultimately show ?thesis unfolding asked_def by blast
qed

lemma resolved_within:
  assumes "quiet A start s" "quiet A s t"
  shows "image_for C s (machine_calls s t) i \<Longrightarrow> image_for C start (machine_calls start t) i"
    "network_for C s (machine_calls s t) n \<Longrightarrow> network_for C start (machine_calls start t) n"
    "image_for C start (machine_calls start s) i \<Longrightarrow> image_for C start (machine_calls start t) i"
proof -
  have i: "machine_inputs s = machine_inputs start" "scope_machine s = scope_machine start" using assms by (simp_all add: quiet_def)
  note eqs = machine_inputsD [OF i] i(2)
  show "image_for C s (machine_calls s t) i \<Longrightarrow> image_for C start (machine_calls start t) i"
    unfolding image_for_def Let_def eqs by (auto dest: asked_within [OF assms] split: if_splits)
  show "network_for C s (machine_calls s t) n \<Longrightarrow> network_for C start (machine_calls start t) n"
    unfolding network_for_def Let_def eqs by (auto dest: asked_within [OF assms] split: if_splits)
  show "image_for C start (machine_calls start s) i \<Longrightarrow> image_for C start (machine_calls start t) i"
    unfolding image_for_def Let_def quiet_calls [OF assms] by (auto dest: asked_mono split: if_splits)
qed

lemma resolve_from:
  assumes q: "quiet incidental start s"
  shows "wp (resolve_image C) (\<lambda>r t. quiet incidental s t \<and> (\<forall>i. r = Ok i \<longrightarrow> image_for C start (machine_calls start t) i)) s"
    "wp (resolve_network C) (\<lambda>r t. quiet incidental s t \<and> (\<forall>n. r = Ok n \<longrightarrow> network_for C start (machine_calls start t) n)) s"
    "wp (resolveUserData C) (\<lambda>r t. quiet incidental s t \<and> (\<forall>u. r = Ok u \<longrightarrow> user_data_of C start u)) s"
proof -
  have i: "machine_inputs s = machine_inputs start" "scope_machine s = scope_machine start" using assms by (simp_all add: quiet_def)
  show "wp (resolve_image C) (\<lambda>r t. quiet incidental s t \<and> (\<forall>i. r = Ok i \<longrightarrow> image_for C start (machine_calls start t) i)) s"
    by (rule wp_mono [OF resolve_image_result]) (blast intro: resolved_within(1) [OF q])
  show "wp (resolve_network C) (\<lambda>r t. quiet incidental s t \<and> (\<forall>n. r = Ok n \<longrightarrow> network_for C start (machine_calls start t) n)) s"
    by (rule wp_mono [OF resolve_network_result]) (blast intro: resolved_within(2) [OF q])
  show "wp (resolveUserData C) (\<lambda>r t. quiet incidental s t \<and> (\<forall>u. r = Ok u \<longrightarrow> user_data_of C start u)) s"
    using resolveUserData_result [of C s] by (simp only: machine_inputsD [OF i])
qed

lemma create_request:
  assumes "quiet incidental start s" and "user_data_of C start u" and "image_for C start (machine_calls start s) i"
    and "network_for C start (machine_calls start s) n" and "parse_processors C (MachineSpec_Processors (machine_spec start)) = Ok ps"
  shows "wp (request_instance C u ps i n) (created_or_quiet C start) s"
proof -
  let ?p = "instance_payload (scope_machine start) u ps i n"
  obtain cs where cs: "machine_trace s = machine_trace start @ cs" "list_all incidental cs"
    using assms(1) by (auto simp: quiet_def traced_def)
  have "creating C start (cs @ [CreateInstance ?p]) ?p"
    using assms cs by (auto simp: creating_def)
  then have "created_or_quiet C start r (s\<lparr>machine_trace := machine_trace s @ [CreateInstance ?p]\<rparr>)" if "\<forall>x. r \<noteq> Ok (Some x)" for r
    using that cs assms(1) by (auto simp: created_or_quiet_def quiet_def machine_inputs_def)
  moreover have "scope_machine s = scope_machine start" using assms(1) by (simp add: quiet_def)
  ultimately show ?thesis by (simp add: request_instance_def wp_simps Let_def)
qed

lemma create_with_calls:
  assumes u: "user_data_of C s u" and t: "quiet incidental s t"
  shows "wp (create_with C u) (created_or_quiet C s) t"
proof -
  note step = quiet_attempt_at [where A = incidental and start = s and Q = "created_or_quiet C s"]
  have ends: "created_or_quiet C s (Err e) t'" "created_or_quiet C s Panic t'" if "quiet incidental s t'" for e t'
    using that by (auto intro: created_or_quiet_quiet)
  have same: "scope_machine t = scope_machine s" using t by (simp add: quiet_def)
  have processors: "wp (State_Monad.return (parse_processors C p)) (\<lambda>r t'. quiet incidental t t' \<and> (\<forall>x. r = Ok x \<longrightarrow> parse_processors C p = Ok x)) t" for p
    by (simp add: wp_return quiet.R_refl)
  have request: "wp (request_instance C u ps i n) (created_or_quiet C s) t3"
    if "parse_processors C (MachineSpec_Processors (machine_spec s)) = Ok ps" "image_for C s (machine_calls s t2) i"
      "quiet incidental s t2" "quiet incidental t2 t3" "quiet incidental s t3" "network_for C s (machine_calls s t3) n" for ps i n t2 t3
    using create_request [OF that(5) u resolved_within(3) [OF that(3,4,2)] that(6,1)] .
  have network: "wp (bindE (resolve_network C) (\<lambda>n. request_instance C u ps i n)) (created_or_quiet C s) t2"
    if ps: "parse_processors C (MachineSpec_Processors (machine_spec s)) = Ok ps" and i: "image_for C s (machine_calls s t2) i"
      and q: "quiet incidental s t2" for ps i t2
  proof (rule step [OF resolve_from(2) [OF q] q _ ends])
    fix n t3 assume "quiet incidental s t3" "quiet incidental t2 t3" "network_for C s (machine_calls s t3) n"
    from request [OF ps i q this(2,1,3)] show "wp (request_instance C u ps i n) (created_or_quiet C s) t3" .
  qed
  have image: "wp (bindE (resolve_image C) (\<lambda>i. bindE (resolve_network C) (\<lambda>n. request_instance C u ps i n))) (created_or_quiet C s) t1"
    if ps: "parse_processors C (MachineSpec_Processors (machine_spec s)) = Ok ps" and q: "quiet incidental s t1" for ps t1
    by (rule step [OF resolve_from(1) [OF q] q _ ends], rule network [OF ps])
  show ?thesis unfolding create_with_def wp_bind wp_get same
    by (rule step [OF processors t _ ends], rule image)
qed

lemma create_instance_calls: "wp (create_instance C) (created_or_quiet C s) s"
proof -
  note step = quiet_attempt [where A = incidental and start = s and Q = "created_or_quiet C s"]
  have check: "wp (check_system_type C) (\<lambda>r t. quiet incidental s t \<and> (\<forall>x. r = Ok x \<longrightarrow> True)) s"
    using quiet.wp_frame [OF quiet_resolve(4)] by simp
  show ?thesis unfolding create_instance_def
    by (rule step [OF check quiet.R_refl], rule step [OF resolve_from(3)], assumption+, rule create_with_calls)
       (auto intro: created_or_quiet_quiet)
qed

text \<open>Asking for the instances of the workspace: none of them has the name of the machine.\<close>

definition none_listed :: "machine_clients \<Rightarrow> MachineScope \<Rightarrow> bool" where
  "none_listed C s \<longleftrightarrow> (\<exists>is. m_ListInstances C (machine_trace s) = Reply (Some is) \<and>
     Some (Machine_Name (scope_machine s)) \<notin> pvmref_ServerName ` set is)"

lemma instance_named_None: "instance_named n is = Ok None \<Longrightarrow> Some n \<notin> pvmref_ServerName ` set is"
  by (induction n "is" rule: instance_named.induct) (auto split: option.splits if_splits)

text \<open>An instance the workspace, asked first, listed under the name of the machine.\<close>

definition listed_as :: "machine_clients \<Rightarrow> MachineScope \<Rightarrow> PVMInstanceReference \<Rightarrow> bool" where
  "listed_as C s x \<longleftrightarrow> (\<exists>is. m_ListInstances C (machine_trace s) = Reply (Some is) \<and> x \<in> set is \<and>
     pvmref_ServerName x = Some (Machine_Name (scope_machine s)))"

lemma instance_named_Some: "instance_named n is = Ok (Some x) \<Longrightarrow> x \<in> set is \<and> pvmref_ServerName x = Some n"
  by (induction n "is" rule: instance_named.induct) (auto split: option.splits if_splits)

definition creation :: "machine_clients \<Rightarrow> MachineScope \<Rightarrow> PVMInstanceReference option outcome \<Rightarrow> MachineScope \<Rightarrow> bool" where
  "creation C s r t \<longleftrightarrow> scope_machine t = scope_machine s \<and> machine_inputs t = machine_inputs s \<and>
     (\<exists>cs. machine_trace t = machine_trace s @ ListInstances # cs \<and>
       (list_all incidental cs \<and> (r = Ok None \<longrightarrow> none_listed C s \<and> creation_triggered (scope_machine s)) \<and>
          (\<forall>x. r = Ok (Some x) \<longrightarrow> cs = [] \<and> listed_as C s x) \<or>
        (\<exists>p. creating C s (ListInstances # cs) p) \<and> none_listed C s \<and> \<not> creation_triggered (scope_machine s) \<and> (\<forall>x. r \<noteq> Ok (Some x))))"

lemma creating_from:
  assumes "creating C (s\<lparr>machine_trace := machine_trace s @ before\<rparr>) cs p" and "list_all incidental before"
  shows "creating C s (before @ cs) p"
proof -
  let ?s = "s\<lparr>machine_trace := machine_trace s @ before\<rparr>"
  have i: "machine_inputs ?s = machine_inputs s" "scope_machine ?s = scope_machine s" by (simp_all add: machine_inputs_def)
  have "image_for C ?s pre x \<Longrightarrow> image_for C s (before @ pre) x" "network_for C ?s pre x \<Longrightarrow> network_for C s (before @ pre) x" for pre x
    unfolding image_for_def network_for_def Let_def machine_inputsD [OF i] i(2) by (auto dest: asked_later split: if_splits)
  moreover obtain pre u ps i n where "cs = pre @ [CreateInstance p]" "list_all incidental pre" "p = instance_payload (scope_machine s) u ps i n"
    "user_data_of C s u" "parse_processors C (MachineSpec_Processors (machine_spec s)) = Ok ps" "image_for C ?s pre i" "network_for C ?s pre n"
    using assms(1) unfolding creating_def machine_inputsD [OF i] i(2) by blast
  ultimately show ?thesis using assms(2) unfolding creating_def
    by (intro exI [of _ "before @ pre"] exI [of _ u] exI [of _ ps] exI [of _ i] exI [of _ n]) auto
qed

lemma create_instance_creation:
  assumes "none_listed C s" "\<not> creation_triggered (scope_machine s)"
  shows "wp (create_instance C) (creation C s) (s\<lparr>machine_trace := machine_trace s @ [ListInstances]\<rparr>)"
proof (rule wp_mono [OF create_instance_calls])
  fix r t assume "created_or_quiet C (s\<lparr>machine_trace := machine_trace s @ [ListInstances]\<rparr>) r t"
  then show "creation C s r t"
    using assms creating_from [of C s "[ListInstances]"] by (fastforce simp: created_or_quiet_def creation_def incidental_def machine_inputs_def)
qed

lemma CreateMachine_creation: "wp (CreateMachine C) (creation C s) s"
proof -
  have none: "none_listed C s" if "m_ListInstances C (machine_trace s) = Reply (Some is)" "instance_named (Machine_Name (scope_machine s)) is = Ok None" for "is"
    using that instance_named_None by (auto simp: none_listed_def)
  have found: "listed_as C s x" if "m_ListInstances C (machine_trace s) = Reply (Some is)" "instance_named (Machine_Name (scope_machine s)) is = Ok (Some x)" for "is" x
    using that instance_named_Some by (auto simp: listed_as_def)
  have ends: "creation C s r (s\<lparr>machine_trace := machine_trace s @ [ListInstances]\<rparr>)"
    if "r = Ok None \<longrightarrow> none_listed C s \<and> creation_triggered (scope_machine s)" "\<forall>x. r = Ok (Some x) \<longrightarrow> listed_as C s x" for r
    using that by (simp add: creation_def machine_inputs_def)
  show ?thesis unfolding CreateMachine_def ensureInstanceUnique_def
    by (simp only: wp_simps) (auto intro!: ends create_instance_creation dest: none found)
qed

text \<open>What follows the creation creates no instance.\<close>

definition no_instance :: "machine_call \<Rightarrow> bool" where
  "no_instance c \<longleftrightarrow> (case c of CreateInstance _ \<Rightarrow> False | _ \<Rightarrow> True)"

lemmas traced_rules = traced.fr_rules traced_api traced_upd

lemma traced_addresses: "state_io_rel (traced incidental) (SetAddresses C ins)"
  unfolding SetAddresses_def getIPFromCache_def getIPFromDHCPServer_def set_addresses_def
  by (intro traced_rules quiet_traced [OF quiet_resolve(2)]; simp add: incidental_def)

lemma traced_sync: "state_io_rel (traced incidental) (sync_instance C i)"
  unfolding sync_instance_def SetProviderID_def SetInstanceID_def SetHealth_def SetInstanceState_def
  by (intro traced_rules traced_addresses quiet_traced [OF quiet_resolve(5)]; simp add: incidental_def)

lemma traced_evaluate: "state_io_rel (traced A) (evaluate_state K ins)"
  unfolding evaluate_state_def SetNotReady_def SetReady_def machine_markCondition_def by (intro traced_rules)

lemma traced_pool: "state_io_rel (traced no_instance) (CreateVPCLoadBalancerPoolMember C)"
  unfolding CreateVPCLoadBalancerPoolMember_def register_lb_def pool_listeners_def pool_listener_def register_pool_def create_pool_member_def Let_def
  by (intro traced_rules; simp add: no_instance_def)

lemma traced_register: "state_io_rel (traced no_instance) (register_machine K C)"
  unfolding register_machine_def handleLoadBalancerPoolMemberConfiguration_def machine_markCondition_def
  by (intro traced_rules traced_pool)

lemma traced_mono: "state_io_rel (traced A) m \<Longrightarrow> (\<And>c. A c \<Longrightarrow> B c) \<Longrightarrow> state_io_rel (traced B) m"
  by (erule state_io_rel_imp) (auto simp: traced_def list_all_iff)

lemma incidental_no_instance: "incidental c \<Longrightarrow> no_instance c"
  by (simp add: incidental_def no_instance_def split: machine_call.splits)

lemma traced_follow: "state_io_rel (traced no_instance) (follow_instance K C i)"
  unfolding follow_instance_def
  by (intro traced_rules traced_evaluate traced_register traced_mono [OF traced_sync] incidental_no_instance)

text \<open>The creation, seen at the end of the reconcile.\<close>

definition created_once :: "machine_clients \<Rightarrow> MachineScope \<Rightarrow> MachineScope \<Rightarrow> bool" where
  "created_once C s t \<longleftrightarrow> traced no_instance s t \<or>
     (\<exists>cs p. machine_trace t = machine_trace s @ ListInstances # cs \<and> creating C s (ListInstances # cs) p \<and>
        none_listed C s \<and> \<not> creation_triggered (scope_machine s))"

lemma created_onceI: "traced no_instance s t \<Longrightarrow> created_once C s t"
  by (simp add: created_once_def)

lemma creation_once:
  assumes "creation C s r t"
  shows "created_once C s t" "r = Ok (Some x) \<Longrightarrow> traced no_instance s t"
proof -
  have *: "list_all no_instance (ListInstances # cs)" if "list_all incidental cs" for cs
    using that incidental_no_instance by (auto simp: list_all_iff no_instance_def)
  show "created_once C s t" using assms * unfolding creation_def created_once_def traced_def by blast
  show "r = Ok (Some x) \<Longrightarrow> traced no_instance s t" using assms * unfolding creation_def traced_def by blast
qed

lemma created_once_upd [simp]: "created_once C s (t\<lparr>scope_machine := m\<rparr>) = created_once C s t"
  by (simp add: created_once_def)

lemma reconcile_instance_once: "wp (reconcile_instance K C) (\<lambda>_ t. created_once C s t) s"
  unfolding reconcile_instance_def wp_attempt
proof (rule wp_mono [OF CreateMachine_creation], intro conjI allI impI)
  fix r t x assume c: "creation C s r t"
  note once = creation_once [OF c]
  show "wp (do {
      machine_markCondition K ConditionFalse
        (if is_configuration_error e then InvalidMachineConfigurationReason else InstanceProvisionFailedReason) (Some e);
      fail (Wrapf msg_failed_create_machine e) }) (\<lambda>_ t. created_once C s t) t" for e
    using once(1) by (simp add: wp_simps machine_markCondition_def)
  show "created_once C s t" by (fact once)
  assume "r = Ok x"
  then have "traced no_instance s t" if "x = Some i" for i using once(2) that by simp
  then have "wp (follow_instance K C i) (\<lambda>_ t. created_once C s t) t" if "x = Some i" for i
    using that by (blast intro: wp_mono [OF traced.fw_frame [OF traced_follow]] created_onceI)
  with once(1) show "wp (case x of None \<Rightarrow> do {
        SetNotReady;
        machine_markCondition K ConditionUnknown InstanceStateUnknownReason (message ''Machine creation returned nil without error'');
        ok finished }
      | Some i \<Rightarrow> follow_instance K C i) (\<lambda>_ t. created_once C s t) t"
    by (simp add: wp_simps machine_markCondition_def SetNotReady_def)
qed

lemma creating_unique:
  assumes "creating C s cs q" and "CreateInstance p \<in> set cs"
  shows "p = q"
proof -
  from assms(1) obtain pre where "cs = pre @ [CreateInstance q]" and "list_all incidental pre" by (auto simp: creating_def)
  then show ?thesis using assms(2) incidental_simps(1) [of p] by (auto simp del: incidental_simps simp: list_all_iff)
qed

text \<open>
  C11: a reconcile creates an instance at most once, and then only if the infrastructure of the cluster, the
  image and the bootstrap data are there, the workspace, asked first, listed no instance of that
  name, and no creation is under way. The request is the payload for the user data, the processors, and the image
  and network of the object: those with the IDs it has, or if it has only a name, an image that the answer of this
  run lists under that name, and the network this run was answered when it asked for that name. It is the last call
  of the run.
\<close>

theorem machine_create_guard:
  assumes "run_state (reconcileNormal K C) s = (r, t)" and "CreateInstance p \<in> set (machine_calls s t)"
  shows "hd (machine_calls s t) = ListInstances \<and> creating C s (machine_calls s t) p \<and> none_listed C s \<and> \<not> creation_triggered (scope_machine s) \<and>
    Capi_InfrastructureProvisioned (machine_Cluster s) = Some True \<and> Capi_DataSecretName (machine_Machine s) \<noteq> None \<and>
    (\<forall>i. machine_Image s = Some i \<longrightarrow> ImageStatus_ImageState (Image_Status i) = PowerVSImageStateACTIVE)"
proof -
  have *: "p = q" if "machine_trace t = machine_trace s @ ListInstances # cs" "creating C s (ListInstances # cs) q" for q cs
    using creating_unique [OF that(2), of p] assms(2) that(1) by simp
  have "wp (reconcileNormal K C) (\<lambda>_ t. traced no_instance s t \<or> created_once C s t \<and>
      Capi_InfrastructureProvisioned (machine_Cluster s) = Some True \<and> Capi_DataSecretName (machine_Machine s) \<noteq> None \<and>
      (\<forall>i. machine_Image s = Some i \<longrightarrow> ImageStatus_ImageState (Image_Status i) = PowerVSImageStateACTIVE)) s"
    unfolding reconcileNormal_def machine_markCondition_def
    by (simp only: wp_bind wp_get wp_if wp_upd_machine wp_return)
       (auto intro: traced.R_refl wp_mono [OF reconcile_instance_once] split: option.splits)
  from wpD [OF this assms(1)] have "\<not> traced no_instance s t \<Longrightarrow> ?thesis"
    unfolding created_once_def by (auto dest: *)
  moreover have "\<not> traced no_instance s t" using traced_set assms(2) by (fastforce simp: no_instance_def)
  ultimately show ?thesis by blast
qed

lemma example_creates:
  "machine_calls example_machine_scope (snd (run_state (reconcileNormal example_capi machine_cloud) example_machine_scope)) =
     [ListInstances, Now, Now, GetDatacenter ''dal10'', Now, GetSecret_of ''ns'' ''boot'', PutObject ''b'' ''control-plane/m'' ''boot'',
      PresignedURL ''b'' ''control-plane/m'',
      CreateInstance (instance_payload example_machine (EncodeToString ''https://u'') (Finite 2 0) ''img'' ''net'')]"
  by code_simp

theorem machine_create_guard_witness:
  "creating machine_cloud example_machine_scope
     (machine_calls example_machine_scope (snd (run_state (reconcileNormal example_capi machine_cloud) example_machine_scope)))
     (instance_payload example_machine (EncodeToString ''https://u'') (Finite 2 0) ''img'' ''net'')"
proof -
  let ?x = "run_state (reconcileNormal example_capi machine_cloud) example_machine_scope"
  have x: "?x = (fst ?x, snd ?x)" by simp
  have "CreateInstance (instance_payload example_machine (EncodeToString ''https://u'') (Finite 2 0) ''img'' ''net'') \<in> set (machine_calls example_machine_scope (snd ?x))"
    unfolding example_creates by simp
  from machine_create_guard [OF x this] show ?thesis by auto
qed

end
