(* ===== verification/Machine_Outcome.thy ===== *)
theory Machine_Outcome
  imports Machine_Properties
begin

text \<open>How a reconcile and a deletion of a machine end, and what is left then.\<close>

section \<open>Conditions\<close>

lemma mark_machine_simps [simp]:
  "Machine_Name (mark_machine K st rs msg m) = Machine_Name m" "Machine_Spec (mark_machine K st rs msg m) = Machine_Spec m"
  "Machine_Finalizers (mark_machine K st rs msg m) = Machine_Finalizers m" "Machine_Labels (mark_machine K st rs msg m) = Machine_Labels m"
  "Machine_Deleting (mark_machine K st rs msg m) = Machine_Deleting m" "Machine_Namespace (mark_machine K st rs msg m) = Machine_Namespace m"
  "Machine_Status (mark_machine K st rs msg m) = (Machine_Status m)
     \<lparr>MachineStatus_Conditions := conditions_Set K (MachineStatus_Conditions (Machine_Status m))
        \<lparr>Condition_Type = InstanceReadyCondition, Condition_Status = st, Condition_Reason = rs, Condition_Message = msg\<rparr>,
      MachineStatus_Deprecated := Some (Some (deprecated_Set K (Machine_GetV1Beta1Conditions m)
        (legacy_mark InstanceReadyV1Beta2Condition st rs (machine_severity st rs) msg)))\<rparr>"
  by (simp_all add: mark_machine_def Let_def Machine_SetConditions_def Machine_SetV1Beta1Conditions_def Machine_GetConditions_def
      Machine_GetV1Beta1Conditions_def)

text \<open>Whether the machine reports its instance as ready.\<close>

definition reported_ready :: "capi \<Rightarrow> MachineScope \<Rightarrow> bool" where
  "reported_ready K s \<longleftrightarrow> conditions_IsTrue K (MachineStatus_Conditions (machine_status s)) InstanceReadyCondition"

lemmas machine_step_defs = machine_markCondition_def SetNotReady_def SetReady_def SetInstanceID_def SetHealth_def SetInstanceState_def set_addresses_def

section \<open>Ready machines\<close>

definition machine_up :: "MachineScope \<Rightarrow> bool" where
  "machine_up t \<longleftrightarrow> GetInstanceState t = PowerVSInstanceStateACTIVE \<and> IsReady t"

lemma evaluate_state_outcome:
  assumes "conditions_by_type K"
  shows "wp (evaluate_state K ins) (\<lambda>r t. Machine_Spec (scope_machine t) = Machine_Spec (scope_machine s) \<and>
      machine_inputs t = machine_inputs s \<and> GetRegion t = GetRegion s \<and> GetZone t = GetZone s \<and>
      GetInstanceState t = GetInstanceState s \<and>
      (\<forall>x. r = Ok x \<longrightarrow> (IsReady t \<and> x = None \<and> machine_up t \<or> \<not> IsReady t \<and> \<not> reported_ready K t))) s"
  using assms unfolding evaluate_state_def machine_step_defs
  by (simp only: wp_simps)
     (simp add: machine_inputs_def GetRegion_def GetZone_def IsReady_def ptr_Deref_def reported_ready_def machine_up_def
       GetInstanceState_def conditions_by_type_def)

lemma quiet_pool: "state_io_rel (quiet (\<lambda>_. True)) (handleLoadBalancerPoolMemberConfiguration C)"
  unfolding handleLoadBalancerPoolMemberConfiguration_def CreateVPCLoadBalancerPoolMember_def register_lb_def pool_listeners_def pool_listener_def
    register_pool_def create_pool_member_def Let_def
  by (intro quiet_rules) simp_all

lemma register_machine_outcome:
  assumes "conditions_by_type K"
  shows "wp (register_machine K C) (\<lambda>r t. Machine_Spec (scope_machine t) = Machine_Spec (scope_machine s) \<and>
      machine_inputs t = machine_inputs s \<and> GetRegion t = GetRegion s \<and> GetZone t = GetZone s \<and>
      machine_up t = machine_up s \<and> GetMachineInternalIP t = GetMachineInternalIP s \<and>
      (\<forall>x. r = Ok x \<longrightarrow> reported_ready K t \<longrightarrow> VPCSource_Region (Spec_VPC (pvs_spec s)) = [] \<or> GetMachineInternalIP s \<noteq> [])) s"
proof -
  let ?Q = "\<lambda>r t. Machine_Spec (scope_machine t) = Machine_Spec (scope_machine s) \<and>
      machine_inputs t = machine_inputs s \<and> GetRegion t = GetRegion s \<and> GetZone t = GetZone s \<and>
      machine_up t = machine_up s \<and> GetMachineInternalIP t = GetMachineInternalIP s \<and>
      (\<forall>x. r = Ok x \<longrightarrow> reported_ready K t \<longrightarrow> VPCSource_Region (Spec_VPC (pvs_spec s)) = [] \<or> GetMachineInternalIP s \<noteq> [])"
  note projs = machine_inputs_def GetRegion_def GetZone_def IsReady_def reported_ready_def machine_up_def GetInstanceState_def GetMachineInternalIP_def
  have lb: "wp (attempt (handleLoadBalancerPoolMemberConfiguration C)
       (\<lambda>e. do {
         machine_markCondition K ConditionFalse InstanceLoadBalancerConfigurationFailedReason (Some (Wrapf msg_failed_configure_lb e));
         fail (Wrapf msg_failed_configure_lb e) })
       (\<lambda>result. do {
         machine_markCondition K ConditionTrue InstanceReadyReason None;
         ok result })) ?Q s" if "GetMachineInternalIP s \<noteq> []"
    unfolding wp_attempt
    by (rule wp_mono [OF quiet.wp_frame [OF quiet_pool]])
       (use that in \<open>auto simp: quiet_def wp_simps machine_step_defs projs\<close>)
  show ?thesis unfolding register_machine_def wp_bind wp_get wp_if
    using assms lb by (simp add: wp_simps machine_step_defs projs conditions_by_type_def)
qed

text \<open>The provider ID names the region, the zone, a workspace and the instance \<open>i\<close>.\<close>

definition provided :: "MachineScope \<Rightarrow> string \<Rightarrow> bool" where
  "provided t i \<longleftrightarrow> (\<exists>ws. MachineSpec_ProviderID (machine_spec t) = provider_id (GetRegion t) (GetZone t) ws i)"

text \<open>What stays as it is while the addresses and the state are recorded.\<close>

definition placed :: "MachineScope \<Rightarrow> IBMPowerVSMachineSpec \<times> string \<times> string \<times> CAPICluster \<times> CAPIMachine \<times> IBMPowerVSCluster \<times> IBMPowerVSImage option" where
  "placed s = (machine_spec s, GetRegion s, GetZone s, machine_inputs s)"

lemma placed_cong: "placed t = placed s \<Longrightarrow> provided t i = provided s i"
  by (simp add: placed_def provided_def)

lemma keeps_placed_api: "state_io_rel (keeps placed) (machine_api f c)"
  by (simp add: state_io_rel_def machine_api_def keeps_def placed_def machine_inputs_def)

lemma keeps_placed_status:
  assumes "\<And>st. MachineStatus_Region (f st) = MachineStatus_Region st" and "\<And>st. MachineStatus_Zone (f st) = MachineStatus_Zone st"
  shows "state_io_rel (keeps placed) (upd_machine_status f)"
  using assms by (simp add: state_io_rel_def upd_machine_status_def upd_machine_def modify_def keeps_def placed_def machine_inputs_def
      GetRegion_def GetZone_def)

lemma quiet_placed: "state_io_rel (quiet A) m \<Longrightarrow> state_io_rel (keeps placed) m"
  by (erule state_io_rel_imp) (simp add: quiet_def keeps_def placed_def GetRegion_def GetZone_def)

lemma keeps_placed_recording:
  "state_io_rel (keeps placed) (SetAddresses C ins)" "state_io_rel (keeps placed) (SetInstanceID i)"
  "state_io_rel (keeps placed) (SetHealth h)" "state_io_rel (keeps placed) (SetInstanceState x)"
  unfolding SetAddresses_def getIPFromCache_def getIPFromDHCPServer_def machine_step_defs
  by (intro keeps.fr_rules keeps_placed_api keeps_placed_status quiet_placed [OF quiet_resolve(2)]; simp)+

lemma SetProviderID_outcome: "wp (SetProviderID C i) (\<lambda>r t. machine_inputs t = machine_inputs s \<and> GetRegion t = GetRegion s \<and> GetZone t = GetZone s \<and>
    (r = Ok () \<longrightarrow> provided t i)) s"
proof -
  have "wp (GetWorkspaceID C) (\<lambda>_ t. quiet incidental s t) s" by (rule quiet.wp_frame [OF quiet_resolve(5)])
  then have *: "wp (GetWorkspaceID C) (\<lambda>_ t. machine_inputs t = machine_inputs s \<and> GetRegion t = GetRegion s \<and> GetZone t = GetZone s) s"
    by (rule wp_mono) (simp add: quiet_def GetRegion_def GetZone_def)
  show ?thesis unfolding SetProviderID_def
    by (simp only: wp_if wp_return wp_attempt) (auto intro!: wp_mono [OF *] simp: wp_simps provided_def GetRegion_def GetZone_def machine_inputs_def)
qed

text \<open>What the cloud answered about an instance is what is in the status.\<close>

definition synced :: "machine_clients \<Rightarrow> MachineScope \<Rightarrow> string \<Rightarrow> PVMInstance \<Rightarrow> MachineScope \<Rightarrow> bool" where
  "synced C s i ins t \<longleftrightarrow> provided t i \<and> m_GetInstance C (machine_trace s) i = Reply (Some ins) \<and> pvm_Status ins = Some (GetInstanceState t)"

lemma sync_outcome: "wp (sync_instance C i) (\<lambda>r t. machine_inputs t = machine_inputs s \<and> (\<forall>x. r = Ok x \<longrightarrow> synced C s i x t)) s"
proof -
  let ?rec = "\<lambda>ins. do { SetInstanceID (pvm_PvmInstanceID ins);
     bindE (SetAddresses C ins) (\<lambda>_. do {
       SetHealth (pvm_Health ins);
       bindE (SetInstanceState (pvm_Status ins)) (\<lambda>_. ok ins) }) }"
  have "state_io_rel (keeps placed) (?rec ins)" for ins
    by (intro keeps.fr_rules keeps_placed_recording)
  then have rec: "wp (?rec ins) (\<lambda>r t. machine_inputs t = machine_inputs u \<and> (provided u i \<longrightarrow> provided t i)) u" for ins u
    by (intro wp_mono [OF keeps_wp]) (auto dest: placed_cong simp: placed_def)
  have state: "wp (?rec ins) (\<lambda>r t. \<forall>x. r = Ok x \<longrightarrow> x = ins \<and> pvm_Status ins = Some (GetInstanceState t)) u" for ins u
    unfolding wp_bind wp_attempt
    by (rule wp_mono [OF wp_True], rule wp_mono [OF wp_True])
       (auto simp: wp_simps machine_step_defs GetInstanceState_def split: option.split)
  have rest: "wp (bindW msg_failed_set_provider_id (SetProviderID C i) (\<lambda>_. deref x ?rec))
      (\<lambda>r t. machine_inputs t = machine_inputs u \<and> (\<forall>y. r = Ok y \<longrightarrow> provided t i \<and> x = Some y \<and> pvm_Status y = Some (GetInstanceState t))) u" for x u
    unfolding wp_attempt
    by (rule wp_mono [OF SetProviderID_outcome]) (auto simp: wp_deref wp_return intro!: wp_mono [OF wp_conj [OF rec state]])
  have "machine_inputs (s\<lparr>machine_trace := h\<rparr>) = machine_inputs s" for h by (simp add: machine_inputs_def)
  then show ?thesis unfolding sync_instance_def wp_bind wp_machine_api wp_case_reply wp_return
    by (auto simp: synced_def intro!: wp_mono [OF rest])
qed

text \<open>
  The instance of a machine, seen active in a run from \<open>s\<close>: the workspace, asked first, listed it under the name of the
  machine, and, asked next, the cloud reported it as active.
\<close>

definition seen_active :: "machine_clients \<Rightarrow> MachineScope \<Rightarrow> string \<Rightarrow> bool" where
  "seen_active C s i \<longleftrightarrow> (\<exists>x ins. listed_as C s x \<and> pvmref_PvmInstanceID x = Some i \<and>
     m_GetInstance C (machine_trace s @ [ListInstances]) i = Reply (Some ins) \<and> pvm_Status ins = Some PowerVSInstanceStateACTIVE)"

text \<open>What a ready machine has: its instance active, a provider ID naming that instance and, with a VPC, an address.\<close>

definition machine_complete :: "machine_clients \<Rightarrow> MachineScope \<Rightarrow> MachineScope \<Rightarrow> bool" where
  "machine_complete C s t \<longleftrightarrow> machine_up t \<and> (\<exists>i. seen_active C s i \<and> provided t i) \<and>
     (VPCSource_Region (Spec_VPC (pvs_spec t)) = [] \<or> GetMachineInternalIP t \<noteq> [])"

definition ready_sound :: "capi \<Rightarrow> machine_clients \<Rightarrow> MachineScope \<Rightarrow> Result outcome \<Rightarrow> MachineScope \<Rightarrow> bool" where
  "ready_sound K C s r t \<longleftrightarrow> (\<forall>x. r = Ok x \<longrightarrow> reported_ready K t \<longrightarrow> machine_complete C s t)"

lemma ready_soundI [simp]: "ready_sound K C s (Err e) t" "ready_sound K C s Panic t" "\<not> reported_ready K t \<Longrightarrow> ready_sound K C s r t"
  by (simp_all add: ready_sound_def)

lemma register_complete:
  assumes "conditions_by_type K" and "machine_up u" and "provided u i" and "seen_active C s i"
  shows "wp (register_machine K C) (ready_sound K C s) u"
  by (rule wp_mono [OF register_machine_outcome [OF assms(1)]])
     (use assms(2-) in \<open>auto simp: ready_sound_def machine_complete_def provided_def machine_inputs_def\<close>)

lemma follow_complete:
  assumes "conditions_by_type K" and "listed_as C s x" and "machine_trace s' = machine_trace s @ [ListInstances]"
  shows "wp (follow_instance K C x) (ready_sound K C s) s'"
proof -
  have body: "wp (bindE (evaluate_state K ins) (\<lambda>early. case early of
         Some result \<Rightarrow> ok result
       | None \<Rightarrow> do {
           s \<leftarrow> State_Monad.get;
           if \<not> IsReady s then ok \<lparr>RequeueAfter = 120\<rparr> else register_machine K C })) (ready_sound K C s) u"
    if sync: "synced C s' i ins u" and i: "pvmref_PvmInstanceID x = Some i" for ins u i
  proof -
    have active: "seen_active C s i" if "machine_up t" "GetInstanceState t = GetInstanceState u" for t
      using that sync i assms(2,3) by (auto simp: seen_active_def synced_def machine_up_def)
    show ?thesis
      by (rule wp_then [OF evaluate_state_outcome [OF assms(1)]])
         (use sync active in \<open>auto simp: wp_simps provided_def synced_def split: option.split intro!: register_complete [OF assms(1)]\<close>)
  qed
  show ?thesis unfolding follow_instance_def wp_deref
    by (intro conjI allI impI wp_then [OF sync_outcome] body) auto
qed



end
