(* ===== verification/Machine_Lifecycle.thy ===== *)
theory Machine_Lifecycle
  imports Machine_Outcome
begin

text \<open>Deletion of a machine, instances that are lost or never made again, and what a patch does not carry.\<close>

section \<open>Deletion\<close>

lemma createCOSClient_quiet: "state_io_rel (quiet incidental) (machine_createCOSClient C)"
  unfolding machine_createCOSClient_def build_def by (intro quiet_rules; simp add: incidental_def)

text \<open>The bootstrap data was deleted in the calls \<open>cs\<close> issued since \<open>s\<close>, or there was none to delete.\<close>

definition ignition_deleted :: "machine_clients \<Rightarrow> MachineScope \<Rightarrow> machine_call list \<Rightarrow> bool" where
  "ignition_deleted C s cs \<longleftrightarrow>
     (let bucket = COSInstanceStatus_BucketName (Status_COSInstance (pvs_status s)); key = bootstrapDataKey s
      in useIgnition s \<and> bucket \<noteq> [] \<longrightarrow> (\<exists>h. asked cs (DeleteObject bucket key) s h \<and> m_DeleteObject C h bucket key = Reply ()))"

lemma not_asked: "list_all incidental cs \<Longrightarrow> \<not> incidental c \<Longrightarrow> \<not> asked cs c s h"
  by (auto simp: asked_def)

lemma asked_last: "list_all incidental cs \<Longrightarrow> \<not> incidental c \<Longrightarrow> asked (cs @ [c]) c s h \<longleftrightarrow> h = machine_trace s @ cs"
  by (fastforce simp: asked_def append_eq_append_conv2 Cons_eq_append_conv append_eq_Cons_conv)

lemma deletes_object [simp]: "\<not> incidental (DeleteObject b k)"
  by (simp add: incidental_def)

definition ignition_outcome :: "machine_clients \<Rightarrow> MachineScope \<Rightarrow> unit outcome \<Rightarrow> MachineScope \<Rightarrow> bool" where
  "ignition_outcome C s r t \<longleftrightarrow> scope_machine t = scope_machine s \<and> r \<noteq> Panic \<and>
     (\<exists>cs. machine_trace t = machine_trace s @ cs \<and> (r = Ok () \<longleftrightarrow> ignition_deleted C s cs))"

lemma DeleteMachineIgnition_outcome: "wp (DeleteMachineIgnition C) (ignition_outcome C s) s"
proof -
  let ?m = "if machine_COSClient s then ok ()
      else bindW msg_failed_cos_client_deletion (machine_createCOSClient C) (\<lambda>_. do { modify (\<lambda>s. s\<lparr>machine_COSClient := True\<rparr>); ok () })"
  have "wp (machine_createCOSClient C) (\<lambda>r _. r \<noteq> Panic) s"
    unfolding machine_createCOSClient_def build_def Let_def by (simp only: wp_simps) simp
  from wp_conj [OF quiet.wp_frame [OF createCOSClient_quiet] this]
  have c: "wp ?m (\<lambda>r t. quiet incidental s t \<and> r \<noteq> Panic) s"
    by (auto simp: wp_simps quiet_def machine_inputs_def traced.R_refl intro: wp_mono)
  show ?thesis unfolding DeleteMachineIgnition_def Let_def wp_bind wp_get wp_if wp_let
    by (intro conjI impI wp_then [OF c])
       (auto simp: wp_simps ignition_outcome_def ignition_deleted_def Let_def quiet_def traced_def asked_last not_asked)
qed

text \<open>
  The instance of the machine is gone after the calls \<open>cs\<close>: none was ever recorded and nothing was asked, or the first call
  deleted the recorded instance and the calls after it its bootstrap data.
\<close>

definition machine_gone :: "machine_clients \<Rightarrow> MachineScope \<Rightarrow> machine_call list \<Rightarrow> bool" where
  "machine_gone C s cs \<longleftrightarrow>
     (let i = GetInstanceID s in
      if i = [] then cs = []
      else m_DeleteInstance C (machine_trace s) i = Reply () \<and>
        (\<exists>later. cs = DeleteInstance i # later \<and> ignition_deleted C (s\<lparr>machine_trace := machine_trace s @ [DeleteInstance i]\<rparr>) later))"

text \<open>
  C13: a deletion of a machine does not panic, and it succeeds and takes the finalizer off exactly when either no
  instance was ever recorded, and then nothing is asked of the cloud, or the cloud accepted first the deletion of
  the recorded instance and after it, where there is a bucket with bootstrap data, the deletion of that data. In
  every other case it ends with an error and the finalizers are as they were.
\<close>

theorem machine_delete_complete:
  assumes "run_state (machine_reconcileDelete K C) s = (r, t)"
  shows "if machine_gone C s (machine_calls s t)
    then r = Ok finished \<and> Machine_Finalizers (scope_machine t) = RemoveFinalizer K (Machine_Finalizers (scope_machine s)) IBMPowerVSMachineFinalizer
    else (\<exists>e. r = Err e) \<and> Machine_Finalizers (scope_machine t) = Machine_Finalizers (scope_machine s)"
proof -
  let ?s = "s\<lparr>scope_machine := mark_machine K ConditionFalse InstanceDeletingReason None (scope_machine s)\<rparr>"
  let ?P = "\<lambda>r t. Machine_Finalizers (scope_machine t) = Machine_Finalizers (scope_machine s) \<and>
    (if machine_gone C s (machine_calls s t) then r = Ok finished else (\<exists>e. r = Err e))"
  let ?d = "?s\<lparr>machine_trace := machine_trace s @ [DeleteInstance (GetInstanceID s)]\<rparr>"
  have id: "GetInstanceID ?s = GetInstanceID s" by (simp add: GetInstanceID_def)
  have ign: "ignition_deleted C ?d cs = ignition_deleted C (s\<lparr>machine_trace := machine_trace s @ [DeleteInstance (GetInstanceID s)]\<rparr>) cs" for cs
    by (simp add: ignition_deleted_def useIgnition_def bootstrapDataKey_def role_def asked_def Let_def)
  have cached: "ignition_deleted C s' (cs @ [CacheDelete n]) = ignition_deleted C s' cs" for s' cs n
    by (auto simp: ignition_deleted_def Let_def asked_def append_eq_append_conv2 Cons_eq_append_conv append_eq_Cons_conv; blast)
  have body: "wp (delete_machine_body K C) ?P ?s"
    unfolding delete_machine_body_def DeleteMachine_def machine_markCondition_def wp_bind wp_get wp_if wp_return id
    by (intro conjI impI; simp add: wp_simps machine_calls_def machine_gone_def Let_def id; intro allI impI wp_mono [OF DeleteMachineIgnition_outcome])
       (auto simp: wp_simps ignition_outcome_def ign cached)
  have "wp (machine_reconcileDelete K C) (\<lambda>r t. if machine_gone C s (machine_calls s t)
    then r = Ok finished \<and> Machine_Finalizers (scope_machine t) = RemoveFinalizer K (Machine_Finalizers (scope_machine s)) IBMPowerVSMachineFinalizer
    else (\<exists>e. r = Err e) \<and> Machine_Finalizers (scope_machine t) = Machine_Finalizers (scope_machine s)) s"
    unfolding machine_reconcileDelete_def machine_markCondition_def wp_bind wp_upd_machine
    by (rule wp_then [OF body]) (auto simp: wp_simps remove_machine_finalizer_def machine_calls_def split: if_splits)
  from wpD [OF this assms] show ?thesis .
qed

definition recorded_machine :: MachineScope where
  "recorded_machine = example_machine_scope\<lparr>scope_machine := example_machine\<lparr>Machine_Status := (Machine_Status example_machine)
     \<lparr>MachineStatus_InstanceID := ''id''\<rparr>\<rparr>\<rparr>"

theorem machine_delete_complete_witness:
  "let t = snd (run_state (machine_reconcileDelete example_capi machine_cloud) recorded_machine) in
     machine_gone machine_cloud recorded_machine (machine_calls recorded_machine t) \<and> Machine_Finalizers (scope_machine t) = []"
proof -
  let ?x = "run_state (machine_reconcileDelete example_capi machine_cloud) recorded_machine"
  have r: "fst ?x = Ok finished" by code_simp
  have f: "RemoveFinalizer example_capi (Machine_Finalizers (scope_machine recorded_machine)) IBMPowerVSMachineFinalizer = []" by code_simp
  have "?x = (Ok finished, snd ?x)" using r by (simp add: prod_eq_iff)
  from machine_delete_complete [OF this] f show ?thesis by (simp add: Let_def split: if_splits)
qed

section \<open>A lost instance\<close>

text \<open>A reconcile that creates an instance does not record its ID and does not ask to be called again.\<close>

lemma creation_unrecorded:
  "wp (reconcileNormal K C) (\<lambda>r t. traced no_instance s t \<or> GetInstanceID t = GetInstanceID s \<and> (\<forall>x. r = Ok x \<longrightarrow> x = finished)) s"
proof -
  let ?Q = "\<lambda>r t. traced no_instance s t \<or> GetInstanceID t = GetInstanceID s \<and> (\<forall>x. r = Ok x \<longrightarrow> x = finished)"
  have "wp (CreateMachine C) (\<lambda>r t. (\<forall>x. r = Ok (Some x) \<longrightarrow> traced no_instance s t) \<and> GetInstanceID t = GetInstanceID s) s"
    by (rule wp_mono [OF CreateMachine_creation]) (auto dest: creation_once(2), simp add: creation_def GetInstanceID_def)
  note create = this [unfolded GetInstanceID_def]
  have follow: "wp (follow_instance K C i) ?Q t" if "traced no_instance s t" for i t
    by (rule wp_mono [OF traced.fw_frame [OF traced_follow that]]) simp
  have inst: "wp (reconcile_instance K C) ?Q s"
    unfolding reconcile_instance_def wp_attempt
    by (rule wp_mono [OF create]) (auto simp: wp_simps machine_step_defs GetInstanceID_def split: option.split intro!: follow [unfolded GetInstanceID_def])
  show ?thesis unfolding reconcileNormal_def machine_step_defs
    by (simp add: wp_simps inst traced.R_refl)
qed

text \<open>
  C15: a machine that is deleted after the reconcile that created its instance and before the next one
  leaves the instance behind: the reconcile ended without a requeue and without the ID of the instance,
  so the deletion asks nothing of the cloud, succeeds and takes the finalizer off.
\<close>

theorem created_instance_lost:
  assumes "run_state (reconcileNormal K C) s = (Ok x, t)" and "CreateInstance p \<in> set (machine_calls s t)" and "GetInstanceID s = []"
  shows "x = finished \<and> (\<exists>u. run_state (machine_reconcileDelete K C') t = (Ok finished, u) \<and> machine_trace u = machine_trace t \<and>
    Machine_Finalizers (scope_machine u) = RemoveFinalizer K (Machine_Finalizers (scope_machine t)) IBMPowerVSMachineFinalizer)"
proof -
  have "\<not> traced no_instance s t" using traced_set assms(2) by (fastforce simp: no_instance_def)
  with wpD [OF creation_unrecorded assms(1)] have x: "x = finished" and id: "GetInstanceID t = []" using assms(3) by simp_all
  have "wp (machine_reconcileDelete K C') (\<lambda>r u. r = Ok finished \<and> machine_trace u = machine_trace t \<and>
      Machine_Finalizers (scope_machine u) = RemoveFinalizer K (Machine_Finalizers (scope_machine t)) IBMPowerVSMachineFinalizer) t"
    unfolding machine_reconcileDelete_def delete_machine_body_def machine_step_defs remove_machine_finalizer_def
    using id by (simp add: wp_simps GetInstanceID_def)
  then show ?thesis using x by (auto simp: wp_def split: prod.splits)
qed

theorem created_instance_lost_witness:
  "\<exists>u. run_state (machine_reconcileDelete example_capi machine_cloud)
      (snd (run_state (reconcileNormal example_capi machine_cloud) example_machine_scope)) = (Ok finished, u) \<and>
    DeleteInstance ''id'' \<notin> set (machine_calls example_machine_scope u)"
proof -
  let ?x = "run_state (reconcileNormal example_capi machine_cloud) example_machine_scope"
  have "fst ?x = Ok finished" by code_simp
  then have x: "?x = (Ok finished, snd ?x)" by (simp add: prod_eq_iff)
  have "CreateInstance (instance_payload example_machine (EncodeToString ''https://u'') (Finite 2 0) ''img'' ''net'') \<in> set (machine_calls example_machine_scope (snd ?x))"
    unfolding example_creates by simp
  from created_instance_lost [OF x this] obtain u where
    "run_state (machine_reconcileDelete example_capi machine_cloud) (snd ?x) = (Ok finished, u)" and tr: "machine_trace u = machine_trace (snd ?x)"
    by (auto simp: example_machine_scope_def example_machine_def GetInstanceID_def)
  moreover have "machine_calls example_machine_scope u = machine_calls example_machine_scope (snd ?x)" using tr by (simp add: machine_calls_def)
  ultimately show ?thesis unfolding example_creates by simp
qed

section \<open>An instance that is never made again\<close>

text \<open>The documented behaviour of \<open>conditions.Set\<close>: the condition is in the list.\<close>

definition conditions_stored :: "capi \<Rightarrow> bool" where
  "conditions_stored K \<longleftrightarrow> (\<forall>cs c. c \<in> set (conditions_Set K cs c))"

lemma marked_unknown:
  assumes "conditions_stored K"
  shows "creation_triggered (mark_machine K ConditionUnknown rs msg m)"
proof -
  let ?c = "\<lparr>Condition_Type = InstanceReadyCondition, Condition_Status = ConditionUnknown, Condition_Reason = rs, Condition_Message = msg\<rparr>"
  have "?c \<in> set (conditions_Set K (MachineStatus_Conditions (Machine_Status m)) ?c)" using assms by (simp add: conditions_stored_def)
  then show ?thesis by (auto simp: creation_triggered_def list_ex_iff intro!: bexI [of _ ?c])
qed

text \<open>
  once a creation was requested and while the cloud lists no instance of that name (the request was
  lost, or the instance was deleted), no reconcile ever requests it again: each one only lists the instances,
  ends without error and without a requeue, and leaves the condition Unknown that blocks the next one.
\<close>

theorem lost_instance_never_recreated:
  assumes "conditions_stored K" and "creation_triggered (scope_machine s)"
    and "Capi_InfrastructureProvisioned (machine_Cluster s) = Some True" and "machine_Image s = None"
    and "Capi_DataSecretName (machine_Machine s) = Some n"
    and "\<And>h. \<exists>is. m_ListInstances C h = Reply (Some is) \<and> instance_named (Machine_Name (scope_machine s)) is = Ok None"
  shows "machine_trace (rerun k (reconcileNormal K C) s) = machine_trace s @ replicate k ListInstances \<and>
    fst (run_state (reconcileNormal K C) (rerun k (reconcileNormal K C) s)) = Ok finished"
proof -
  let ?m = "reconcileNormal K C"
  let ?I = "\<lambda>t. creation_triggered (scope_machine t) \<and> Machine_Name (scope_machine t) = Machine_Name (scope_machine s) \<and> machine_inputs t = machine_inputs s"
  have step: "wp ?m (\<lambda>r u. r = Ok finished \<and> ?I u \<and> machine_trace u = machine_trace t @ [ListInstances]) t" if t: "?I t" for t
  proof -
    obtain "is" where i: "m_ListInstances C (machine_trace t) = Reply (Some is)" "instance_named (Machine_Name (scope_machine s)) is = Ok None"
      using assms(6) by blast
    have g: "Capi_InfrastructureProvisioned (machine_Cluster t) = Some True" "machine_Image t = None" "Capi_DataSecretName (machine_Machine t) = Some n"
      using t assms(3-5) by (simp_all add: machine_inputs_def)
    show ?thesis unfolding reconcileNormal_def reconcile_instance_def CreateMachine_def ensureInstanceUnique_def machine_step_defs
      using t i g by (simp add: wp_simps marked_unknown [OF assms(1)] machine_inputs_def)
  qed
  have I: "?I (rerun k ?m s)" for k
    by (rule wp_rerun [where I = ?I]) (use assms(2) in \<open>auto intro: wp_mono [OF step]\<close>)
  have tr: "machine_trace (rerun k ?m s) = machine_trace s @ replicate k ListInstances" for k
  proof (induction k)
    case (Suc k)
    have "rerun (Suc k) ?m s = snd (run_state ?m (rerun k ?m s))" by (rule rerun_Suc)
    then show ?case using wp_result [OF step [OF I]] Suc by (simp add: replicate_append_same)
  qed simp
  show ?thesis using tr wp_result [OF step [OF I]] by blast
qed

definition triggered_machine :: MachineScope where
  "triggered_machine = example_machine_scope\<lparr>scope_machine :=
     mark_machine example_capi ConditionUnknown InstanceStateUnknownReason None example_machine\<rparr>"

lemma example_capi_stored: "conditions_stored example_capi"
  by (simp add: conditions_stored_def example_capi_def)

theorem lost_instance_never_recreated_witness:
  "machine_trace (rerun 3 (reconcileNormal example_capi machine_cloud) triggered_machine) = [ListInstances, ListInstances, ListInstances]"
proof -
  have "creation_triggered (scope_machine triggered_machine)" by code_simp
  moreover have "m_ListInstances machine_cloud h = Reply (Some [])" for h by (simp add: machine_cloud_def)
  moreover have "instance_named n [] = Ok None" for n by simp
  moreover have "Capi_InfrastructureProvisioned (machine_Cluster triggered_machine) = Some True" "machine_Image triggered_machine = None"
    "Capi_DataSecretName (machine_Machine triggered_machine) = Some ''boot''" "machine_trace triggered_machine = []"
    by (simp_all add: triggered_machine_def example_machine_scope_def)
  ultimately show ?thesis
    using lost_instance_never_recreated [OF example_capi_stored, of triggered_machine "''boot''" machine_cloud 3]
    by (simp add: numeral_3_eq_3)
qed

section \<open>What is never patched\<close>

definition place :: "MachineScope \<Rightarrow> string \<times> string" where
  "place s = (GetRegion s, GetZone s)"

lemma keeps_place_api: "state_io_rel (keeps place) (machine_api f c)"
  by (simp add: state_io_rel_def machine_api_def keeps_def place_def)

lemma keeps_place_machine:
  assumes "\<And>m. MachineStatus_Region (Machine_Status (f m)) = MachineStatus_Region (Machine_Status m)"
    and "\<And>m. MachineStatus_Zone (Machine_Status (f m)) = MachineStatus_Zone (Machine_Status m)"
  shows "state_io_rel (keeps place) (upd_machine f)"
  using assms by (simp add: state_io_rel_def upd_machine_def modify_def keeps_def place_def GetRegion_def GetZone_def)

lemma quiet_place: "state_io_rel (quiet A) m \<Longrightarrow> state_io_rel (keeps place) m"
  by (erule state_io_rel_imp) (simp add: quiet_def keeps_def place_def GetRegion_def GetZone_def)

lemma placed_place: "state_io_rel (keeps placed) m \<Longrightarrow> state_io_rel (keeps place) m"
  by (erule state_io_rel_imp) (simp add: keeps_def placed_def place_def)

lemma quiet_create: "state_io_rel (keeps place) (CreateMachine C)"
  unfolding CreateMachine_def ensureInstanceUnique_def create_instance_def create_with_def request_instance_def resolve_image_def resolve_network_def Let_def
  by (intro keeps.fr_rules keeps_place_api quiet_place [OF quiet_resolve(1)] quiet_place [OF quiet_resolve(2)] quiet_place [OF quiet_resolve(3)]
      quiet_place [OF quiet_resolve(4)])

lemmas place_rules = keeps.fr_rules keeps_place_api keeps_place_machine quiet_create quiet_place [OF quiet_resolve(5)] quiet_place [OF quiet_pool]
  quiet_place [OF createCOSClient_quiet] placed_place [OF keeps_placed_recording(1)] placed_place [OF keeps_placed_recording(2)]
  placed_place [OF keeps_placed_recording(3)] placed_place [OF keeps_placed_recording(4)]

lemma keeps_place_normal: "state_io_rel (keeps place) (reconcileNormal K C)"
  unfolding reconcileNormal_def reconcile_instance_def follow_instance_def sync_instance_def SetProviderID_def evaluate_state_def register_machine_def
    machine_markCondition_def SetNotReady_def SetReady_def upd_machine_status_def
  by (intro place_rules; simp)

lemma keeps_place_delete: "state_io_rel (keeps place) (machine_reconcileDelete K C)"
  unfolding machine_reconcileDelete_def delete_machine_body_def DeleteMachine_def DeleteMachineIgnition_def machine_markCondition_def Let_def
  by (intro place_rules quiet_place [OF quiet_modify(2)]; simp add: remove_machine_finalizer_def)

lemma patch_place:
  "machine_deferred_patch K W b (r, s) = (r', t) \<Longrightarrow> place t = place s"
  by (auto simp: machine_deferred_patch_def patchIBMPowerVSMachine_def instance_ready_default_def Let_def place_def GetRegion_def GetZone_def
      Machine_SetConditions_def Machine_SetV1Beta1Conditions_def split: prod.splits outcome.splits reply.splits)

text \<open>
  the region and the zone of a machine never reach the API server. They are set while the scope is
  built, before the patch helper takes its copy of the object, and not changed after it, so the object that
  is patched has the region and zone of the copy it is compared with.
\<close>

theorem machine_place_unpatched:
  assumes "machine_Reconcile K W C cache = (r, Some (before, t))"
  shows "MachineStatus_Region (Machine_Status (scope_machine t)) = MachineStatus_Region (Machine_Status before) \<and>
    MachineStatus_Zone (Machine_Status (scope_machine t)) = MachineStatus_Zone (Machine_Status before)"
proof -
  obtain start where "machine_scoped K W C start = (r, Some (before, t))"
    using assms by (auto simp: machine_Reconcile_def machine_owned_def split: reply.splits gerror.splits bool.splits option.splits prod.splits if_splits)
  then obtain s where b: "before = scope_machine s" and p: "machine_deferred_patch K W before
      (run_state (if Machine_Deleting (scope_machine s) then machine_reconcileDelete K C else reconcileNormal K C) s) = (r, t)"
    by (auto simp: machine_scoped_def Let_def split: outcome.splits reply.splits prod.splits)
  obtain r' u where run: "run_state (if Machine_Deleting (scope_machine s) then machine_reconcileDelete K C else reconcileNormal K C) s = (r', u)"
    by fastforce
  note u = p [unfolded run]
  have "state_io_rel (keeps place) (if Machine_Deleting (scope_machine s) then machine_reconcileDelete K C else reconcileNormal K C)"
    by (simp add: keeps_place_delete keeps_place_normal)
  from keeps_run [OF this, of s] have "place u = place s" by (simp add: run)
  with patch_place [OF u] have "place t = place s" by simp
  then show ?thesis by (simp add: place_def b GetRegion_def GetZone_def)
qed

text \<open>A machine as it is stored, without a region and a zone, and the utilities that fetch it.\<close>

definition example_machine_util :: machine_util where
  "example_machine_util = \<lparr>mu_GetMachine = Reply (example_machine\<lparr>Machine_Status := (Machine_Status example_machine)
       \<lparr>MachineStatus_Region := [], MachineStatus_Zone := []\<rparr>\<rparr>),
     mu_EnsureFinalizer = \<lambda>_. Reply False, mu_GetOwnerMachine = \<lambda>_. Reply (Some (machine_Machine example_machine_scope)),
     mu_AddOwners = \<lambda>_. Reply (), mu_GetCluster = \<lambda>_. Reply (Some (machine_Cluster example_machine_scope)),
     mu_EnsurePaused = \<lambda>_ _. Reply (False, False), mu_GetPVSCluster = \<lambda>_ _. Reply (machine_PVSCluster example_machine_scope),
     mu_GetImage = \<lambda>_ _. Fail (NotFoundErr []) None, mu_NewHelper = \<lambda>_. Reply (), mu_Patch = \<lambda>_ _. Reply (),
     mu_conditions_Get = \<lambda>cs ty. find (\<lambda>c. Condition_Type c = ty) cs,
     mu_SetSummary = \<lambda>cs target tys. Reply cs, mu_deprecated_SetSummary = \<lambda>cs tys. cs\<rparr>"

definition example_patch :: "IBMPowerVSMachine \<times> MachineScope" where
  "example_patch = the (snd (machine_Reconcile example_capi example_machine_util running_cloud Map.empty))"

theorem machine_place_unpatched_witness:
  "MachineStatus_Region (Machine_Status (scope_machine (snd example_patch))) = MachineStatus_Region (Machine_Status (fst example_patch)) \<and>
   MachineStatus_Zone (Machine_Status (fst example_patch)) = ''dal10''"
proof -
  let ?x = "machine_Reconcile example_capi example_machine_util running_cloud Map.empty"
  have "snd ?x \<noteq> None" by code_simp
  then have "?x = (fst ?x, Some (fst example_patch, snd example_patch))" by (simp add: example_patch_def prod_eq_iff)
  from machine_place_unpatched [OF this] have "MachineStatus_Region (Machine_Status (scope_machine (snd example_patch))) = MachineStatus_Region (Machine_Status (fst example_patch))"
    by simp
  moreover have "MachineStatus_Zone (Machine_Status (fst example_patch)) = ''dal10''" by code_simp
  ultimately show ?thesis by simp
qed

end
