(* ===== verification/Pool_Properties.thy ===== *)
theory Pool_Properties
  imports Machine_Outcome
begin

text \<open>When a machine is registered with a load balancer, and which pools a reconcile never looks at.\<close>

section \<open>Registration\<close>

lemma registered_False: "registered ip ts = Ok False \<Longrightarrow> PoolMemberTarget (Some ip) \<notin> set ts"
  by (induction ip ts rule: registered.induct) (auto split: option.splits outcome.splits)

text \<open>
  The end of a run that registers a machine: the members of the pool, then the load balancer, then the
  member. The IP was not among the members and the load balancer was active.
\<close>

definition member_added :: "machine_clients \<Rightarrow> MachineScope \<Rightarrow> string \<Rightarrow> machine_call list \<Rightarrow> CreatePoolMemberOptions \<Rightarrow> bool" where
  "member_added C s ip cs req \<longleftrightarrow> cpm_Address req = ip \<and>
     (\<exists>pre lb ms x. cs = pre @ [ListPoolMembers lb (cpm_PoolID req), GetLoadBalancer_of lb, CreatePoolMember req] \<and> list_all incidental pre \<and>
        m_ListPoolMembers C (machine_trace s @ pre) lb (cpm_PoolID req) = Reply (Some ms) \<and> PoolMemberTarget (Some ip) \<notin> set ms \<and>
        m_GetLoadBalancer C (machine_trace s @ pre @ [ListPoolMembers lb (cpm_PoolID req)]) lb = Reply (Some x) \<and>
        plb_ProvisioningStatus x = Some LoadBalancerStateActive \<and> plb_ID x = Some (cpm_LoadBalancerID req))"

definition pool_result :: "machine_clients \<Rightarrow> MachineScope \<Rightarrow> string \<Rightarrow> PoolMember option outcome \<Rightarrow> MachineScope \<Rightarrow> bool" where
  "pool_result C s ip r t \<longleftrightarrow> quiet incidental s t \<or>
     r \<noteq> Ok None \<and> (\<exists>cs req. machine_trace t = machine_trace s @ cs \<and> member_added C s ip cs req \<and>
       (\<forall>y. m_CreatePoolMember C (machine_trace s @ butlast cs) req = Reply (Some y) \<longrightarrow> pm_ID y \<noteq> None \<longrightarrow> r = Ok (Some y)) \<and>
       scope_machine t = scope_machine s \<and> machine_inputs t = machine_inputs s)"

lemma quiet_extend:
  "quiet incidental start s \<Longrightarrow> incidental c \<Longrightarrow> quiet incidental start (s\<lparr>machine_trace := machine_trace s @ [c]\<rparr>)"
  by (auto simp: quiet_def traced_def machine_inputs_def)

lemma register_pool_result:
  assumes "quiet incidental start s"
  shows "wp (register_pool C lb ip ls pool) (pool_result C start ip) s"
proof -
  obtain pre where pre: "machine_trace s = machine_trace start @ pre" "list_all incidental pre"
    using assms by (auto simp: quiet_def traced_def)
  have q1: "quiet incidental start (s\<lparr>machine_trace := machine_trace s @ [ListPoolMembers i p]\<rparr>)" for i p
    using assms by (rule quiet_extend) (simp add: incidental_def)
  have q2: "quiet incidental start (s\<lparr>machine_trace := machine_trace s @ [ListPoolMembers i p, GetLoadBalancer_of j]\<rparr>)" for i p j
    using quiet_extend [OF q1, of "GetLoadBalancer_of j"] by (simp add: incidental_def)
  have early: "pool_result C start ip r (s\<lparr>machine_trace := machine_trace s @ [ListPoolMembers i p]\<rparr>)"
    "pool_result C start ip r (s\<lparr>machine_trace := machine_trace s @ [ListPoolMembers i p, GetLoadBalancer_of j]\<rparr>)"
    "pool_result C start ip r s" for r i p j
    using q1 q2 assms by (simp_all add: pool_result_def)
  have added: "pool_result C start ip r (s\<lparr>machine_trace := machine_trace s @ [ListPoolMembers i p, GetLoadBalancer_of i,
        CreatePoolMember \<lparr>cpm_Port = port, cpm_LoadBalancerID = k, cpm_PoolID = p, cpm_Address = ip\<rparr>]\<rparr>)"
    if "m_ListPoolMembers C (machine_trace s) i p = Reply (Some ms)" "registered ip ms = Ok False"
      "m_GetLoadBalancer C (machine_trace s @ [ListPoolMembers i p]) i = Reply (Some x)" "plb_ProvisioningStatus x = Some LoadBalancerStateActive"
      "plb_ID x = Some k" "r \<noteq> Ok None"
      "\<And>y. m_CreatePoolMember C (machine_trace s @ [ListPoolMembers i p, GetLoadBalancer_of i])
        \<lparr>cpm_Port = port, cpm_LoadBalancerID = k, cpm_PoolID = p, cpm_Address = ip\<rparr> = Reply (Some y) \<Longrightarrow> pm_ID y \<noteq> None \<Longrightarrow> r = Ok (Some y)"
    for i p port k ms x r
  proof -
    let ?cs = "pre @ [ListPoolMembers i p, GetLoadBalancer_of i, CreatePoolMember \<lparr>cpm_Port = port, cpm_LoadBalancerID = k, cpm_PoolID = p, cpm_Address = ip\<rparr>]"
    have "member_added C start ip ?cs \<lparr>cpm_Port = port, cpm_LoadBalancerID = k, cpm_PoolID = p, cpm_Address = ip\<rparr>"
      using that pre unfolding member_added_def by (auto dest: registered_False intro!: exI)
    moreover have "scope_machine s = scope_machine start" "machine_inputs s = machine_inputs start"
      using assms by (simp_all add: quiet_def)
    ultimately show ?thesis using that pre unfolding pool_result_def
      by (intro disjI2 conjI exI [of _ ?cs] exI) (auto simp: butlast_append machine_inputs_def)
  qed
  show ?thesis unfolding register_pool_def create_pool_member_def Let_def
    by (simp only: wp_simps) (auto simp: early intro: added)
qed

text \<open>The listeners are only read, so the run before the members of a pool are listed stays incidental.\<close>

lemma quiet_pool_listeners: "state_io_rel (quiet incidental) (pool_listeners C a lb)"
  unfolding pool_listeners_def pool_listener_def Let_def
  by (intro quiet_rules; simp add: incidental_def)

lemma pool_result_quiet: "quiet incidental s t \<Longrightarrow> pool_result C s ip r t"
  by (simp add: pool_result_def)

lemma search_pools:
  assumes "quiet incidental start s" and "\<And>x t. quiet incidental start t \<Longrightarrow> wp (f x) (pool_result C start ip) t"
  shows "wp (until_some f xs) (pool_result C start ip) s"
proof (rule wp_until_some [where I = "quiet incidental start"])
  fix x t assume "quiet incidental start t"
  from assms(2) [OF this]
  show "wp (f x) (\<lambda>r t'. if r = Ok None then quiet incidental start t' else pool_result C start ip r t') t"
    by (rule wp_mono) (auto simp: pool_result_def)
qed (use assms in \<open>simp_all add: pool_result_quiet\<close>)

lemma quiet_IP: "quiet A s t \<Longrightarrow> GetMachineInternalIP t = GetMachineInternalIP s"
  by (simp add: quiet_def GetMachineInternalIP_def)

lemma register_lb_result:
  assumes "quiet incidental start s"
  shows "wp (register_lb C src) (pool_result C start (GetMachineInternalIP start)) s"
proof -
  have q: "quiet incidental start (s\<lparr>machine_trace := machine_trace s @ [GetLoadBalancer_of i]\<rparr>)" for i
    using assms by (rule quiet_extend) (simp add: incidental_def)
  have pools: "wp (bindE (pool_listeners C a lb) (\<lambda>ls. until_some (register_pool C lb (GetMachineInternalIP start) ls) (plb_Pools lb)))
      (pool_result C start (GetMachineInternalIP start)) (s\<lparr>machine_trace := machine_trace s @ [GetLoadBalancer_of i]\<rparr>)" for a lb i
    by (rule quiet_attempt [where start = start and P = "\<lambda>_. True", OF _ q])
       (auto intro: quiet.wp_frame [OF quiet_pool_listeners] search_pools register_pool_result pool_result_quiet)
  show ?thesis unfolding register_lb_def Let_def quiet_IP [OF assms]
    by (simp only: wp_get wp_bind wp_if) (auto simp: wp_simps quiet_IP [OF assms] intro: pools [unfolded wp_attempt wp_return] pool_result_quiet assms q)
qed

lemma pool_member_result: "wp (CreateVPCLoadBalancerPoolMember C) (pool_result C s (GetMachineInternalIP s)) s"
proof -
  have "wp (until_some (register_lb C) lbs) (pool_result C s (GetMachineInternalIP s)) s" for lbs
    by (intro search_pools register_lb_result quiet.R_refl)
  then show ?thesis unfolding CreateVPCLoadBalancerPoolMember_def
    by (auto simp: wp_simps intro: pool_result_quiet quiet.R_refl)
qed

section \<open>The properties\<close>

lemma member_created:
  assumes "pool_result C s ip r t" and "CreatePoolMember req \<in> set (machine_calls s t)"
  shows "member_added C s ip (machine_calls s t) req" and "last (machine_calls s t) = CreatePoolMember req"
    and "\<exists>h. \<forall>y. m_CreatePoolMember C h req = Reply (Some y) \<longrightarrow> pm_ID y \<noteq> None \<longrightarrow> r = Ok (Some y)"
proof -
  have "\<not> quiet incidental s t" using traced_set [of incidental s t, OF _ assms(2)] by (auto simp: quiet_def)
  then obtain cs q where *: "machine_trace t = machine_trace s @ cs" "member_added C s ip cs q"
    "\<forall>y. m_CreatePoolMember C (machine_trace s @ butlast cs) q = Reply (Some y) \<longrightarrow> pm_ID y \<noteq> None \<longrightarrow> r = Ok (Some y)"
    using assms(1) by (auto simp: pool_result_def)
  moreover have "CreatePoolMember req \<notin> set pre" if "list_all incidental pre" for pre
    using that by (force simp: list_all_iff)
  with * assms(2) have "req = q" by (auto simp: member_added_def)
  moreover from * have "last cs = CreatePoolMember q" by (auto simp: member_added_def)
  ultimately show "member_added C s ip (machine_calls s t) req" "last (machine_calls s t) = CreatePoolMember req"
    "\<exists>h. \<forall>y. m_CreatePoolMember C h req = Reply (Some y) \<longrightarrow> pm_ID y \<noteq> None \<longrightarrow> r = Ok (Some y)"
    by auto
qed

text \<open>
  C14: a machine is registered at most once in a run, as the last call, under its own internal IP, and
  only when the members just listed do not have that IP and the load balancer just read is active.
\<close>

theorem pool_member_guard:
  assumes "run_state (CreateVPCLoadBalancerPoolMember C) s = (r, t)" and "CreatePoolMember req \<in> set (machine_calls s t)"
  shows "member_added C s (GetMachineInternalIP s) (machine_calls s t) req"
  by (rule member_created(1) [OF wpD [OF pool_member_result assms(1)] assms(2)])

text \<open>
  the machine is reported as ready as soon as one member is active: nothing is called after its
  creation, so no other pool is looked at, and no further reconcile is asked for.
\<close>

theorem one_pool_is_enough:
  assumes K: "conditions_by_type K" and run: "run_state (register_machine K C) s = (r, t)" and req: "CreatePoolMember req \<in> set (machine_calls s t)"
    and active: "\<And>h q. \<exists>y. m_CreatePoolMember C h q = Reply (Some y) \<and> pm_ID y \<noteq> None \<and> pm_ProvisioningStatus y = Some LoadBalancerStateActive"
  shows "r = Ok finished \<and> reported_ready K t \<and> last (machine_calls s t) = CreatePoolMember req"
proof -
  let ?ip = "GetMachineInternalIP s"
  let ?Q = "\<lambda>r t. CreatePoolMember req \<in> set (machine_calls s t) \<longrightarrow>
     r = Ok finished \<and> reported_ready K t \<and> last (machine_calls s t) = CreatePoolMember req"
  let ?A = "\<lambda>r t. CreatePoolMember req \<in> set (machine_calls s t) \<longrightarrow> last (machine_calls s t) = CreatePoolMember req \<and>
     r = Ok finished"
  have calls [simp]: "machine_calls s (t\<lparr>scope_machine := m\<rparr>) = machine_calls s t" "machine_calls s s = []" for t m
    by (simp_all add: machine_calls_def)
  have "wp (CreateVPCLoadBalancerPoolMember C) (\<lambda>r t. CreatePoolMember req \<in> set (machine_calls s t) \<longrightarrow>
      last (machine_calls s t) = CreatePoolMember req \<and> (\<exists>y. r = Ok (Some y) \<and> pm_ProvisioningStatus y = Some LoadBalancerStateActive)) s"
    using pool_member_result by (rule wp_mono) (metis active member_created(2,3))
  then have "wp (handleLoadBalancerPoolMemberConfiguration C) ?A s"
    unfolding handleLoadBalancerPoolMemberConfiguration_def wp_attempt by (rule wp_mono) (auto simp: wp_simps split: option.splits)
  then have "wp (register_machine K C) ?Q s"
    unfolding register_machine_def wp_bind wp_get wp_if wp_attempt
    using K by (auto elim!: wp_mono simp: wp_simps machine_step_defs reported_ready_def conditions_by_type_def)
  from wpD [OF this run] req show ?thesis by simp
qed

text \<open>The running machine of the example: of the two pools of its load balancer one gets the member.\<close>

definition addressed_scope :: MachineScope where
  "addressed_scope = snd (run_state (sync_instance running_cloud ''id'') example_machine_scope)"

definition first_member :: CreatePoolMemberOptions where
  "first_member = \<lparr>cpm_Port = 6443, cpm_LoadBalancerID = ''lb'', cpm_PoolID = ''p1'', cpm_Address = ''10.0.0.1''\<rparr>"

lemma example_registers:
  "CreatePoolMember first_member \<in> set (machine_calls addressed_scope (snd (run_state (CreateVPCLoadBalancerPoolMember running_cloud) addressed_scope)))"
  "CreatePoolMember first_member \<in> set (machine_calls addressed_scope (snd (run_state (register_machine example_capi running_cloud) addressed_scope)))"
  by code_simp+

theorem pool_member_guard_witness:
  "member_added running_cloud addressed_scope ''10.0.0.1''
     (machine_calls addressed_scope (snd (run_state (CreateVPCLoadBalancerPoolMember running_cloud) addressed_scope))) first_member"
proof -
  let ?x = "run_state (CreateVPCLoadBalancerPoolMember running_cloud) addressed_scope"
  have "GetMachineInternalIP addressed_scope = ''10.0.0.1''" by code_simp
  with pool_member_guard [of running_cloud addressed_scope "fst ?x" "snd ?x" first_member] example_registers(1) show ?thesis by simp
qed

theorem one_pool_is_enough_witness:
  "fst (run_state (register_machine example_capi running_cloud) addressed_scope) = Ok finished \<and>
   reported_ready example_capi (snd (run_state (register_machine example_capi running_cloud) addressed_scope)) \<and>
   ListPoolMembers ''lb'' ''p2'' \<notin> set (machine_calls addressed_scope (snd (run_state (register_machine example_capi running_cloud) addressed_scope)))"
proof -
  let ?x = "run_state (register_machine example_capi running_cloud) addressed_scope"
  have "\<exists>y. m_CreatePoolMember running_cloud h q = Reply (Some y) \<and> pm_ID y \<noteq> None \<and> pm_ProvisioningStatus y = Some LoadBalancerStateActive" for h q
    by (simp add: running_cloud_def machine_cloud_def)
  note * = one_pool_is_enough [of example_capi running_cloud addressed_scope "fst ?x" "snd ?x" first_member, OF example_capi_by_type _ example_registers(2) this]
  have "ListPoolMembers ''lb'' ''p2'' \<notin> set (machine_calls addressed_scope (snd ?x))" by code_simp
  with * show ?thesis by simp
qed

end
