(* ===== verification/Webhooks.thy ===== *)
theory Webhooks
  imports Load_Balancers Transit_Gateway
begin

text \<open>
  The admission webhook of the PowerVS clusters (\<^verbatim>\<open>internal/webhooks/powervs/ibmpowervscluster.go\<close>):
  what a cluster has to satisfy to be created or updated. An error list is a list of \<open>field_error\<close>s,
  with the path, the index in it where there is one, and the name or text.
\<close>

section \<open>Errors and parameters\<close>

datatype field_error =
    field_Invalid string string
  | field_Duplicate string nat string
  | field_Forbidden string nat string

text \<open>The tables of \<^verbatim>\<open>powervs-utils\<close> the webhook reads beside those of the scope.\<close>

record zone_tables =
  ValidateZone :: "string \<Rightarrow> bool"
  ValidateVPCRegion :: "string \<Rightarrow> bool"

definition msg_zone_unsupported :: string where "msg_zone_unsupported = ''zone is not supported''"
definition msg_region_unsupported :: string where "msg_region_unsupported = ''vpc region is not supported''"
definition msg_one_public :: string where "msg_one_public = ''at least one load balancer must be public''"
definition msg_global_routing_required :: string where
  "msg_global_routing_required = ''global routing is required since PowerVS and VPC region are from different region''"

section \<open>Names\<close>

definition lb_source_name :: "LoadBalancerSource \<Rightarrow> string" where
  "lb_source_name lb = (case LoadBalancerSource_Type lb of
      SourceTypeReference \<Rightarrow> ResourceIdentifier_Name (LoadBalancerSource_Reference lb)
    | SourceTypeProvision \<Rightarrow> LoadBalancerProvision_Name (LoadBalancerSource_Provision lb)
    | OtherSourceType _ \<Rightarrow> [])"

definition subnet_source_name :: "VPCSubnetSource \<Rightarrow> string" where
  "subnet_source_name sn = (case VPCSubnetSource_Type sn of
      SourceTypeReference \<Rightarrow> ResourceIdentifier_Name (VPCSubnetSource_Reference sn)
    | SourceTypeProvision \<Rightarrow> VPCSubnetProvision_Name (VPCSubnetSource_Provision sn)
    | OtherSourceType _ \<Rightarrow> [])"

text \<open>The loop both name checks share, over the index, with the set of the names found so far.\<close>

fun duplicate_names :: "string \<Rightarrow> nat \<Rightarrow> string set \<Rightarrow> string list \<Rightarrow> field_error list" where
  "duplicate_names path i found [] = []"
| "duplicate_names path i found (n # ns) =
     (if n = [] then duplicate_names path (Suc i) found ns
      else if n \<in> found then field_Duplicate path i n # duplicate_names path (Suc i) found ns
      else duplicate_names path (Suc i) (insert n found) ns)"

definition validateIBMPowerVSClusterLoadBalancerNames :: "IBMPowerVSCluster \<Rightarrow> field_error list" where
  "validateIBMPowerVSClusterLoadBalancerNames c =
     duplicate_names ''spec.loadBalancers'' 0 {} (map lb_source_name (Spec_LoadBalancers (Cluster_Spec c)))"

definition validateIBMPowerVSClusterVPCSubnetNames :: "IBMPowerVSCluster \<Rightarrow> field_error list" where
  "validateIBMPowerVSClusterVPCSubnetNames c =
     duplicate_names ''spec.subnets'' 0 {} (map subnet_source_name (Spec_VPCSubnets (Cluster_Spec c)))"

section \<open>Load balancers and transit gateway\<close>

definition public_provision :: "LoadBalancerSource \<Rightarrow> bool" where
  "public_provision lb \<longleftrightarrow> LoadBalancerSource_Type lb = SourceTypeProvision \<and>
     LoadBalancerProvision_Type (LoadBalancerSource_Provision lb) \<in> {LoadBalancerTypePublic, OtherLBType []}"

definition validateIBMPowerVSClusterLoadBalancers :: "IBMPowerVSCluster \<Rightarrow> field_error list" where
  "validateIBMPowerVSClusterLoadBalancers c =
     (let allErrs = validateIBMPowerVSClusterLoadBalancerNames c; lbs = Spec_LoadBalancers (Cluster_Spec c)
      in if lbs = [] \<or> list_ex public_provision lbs then allErrs
         else allErrs @ [field_Invalid ''spec.loadBalancers'' msg_one_public])"

definition validateIBMPowerVSClusterTransitGateway :: "clients \<Rightarrow> IBMPowerVSCluster \<Rightarrow> field_error option" where
  "validateIBMPowerVSClusterTransitGateway C c =
     (let sp = Cluster_Spec c; region = VPCSource_Region (Spec_VPC sp); tg = Spec_TransitGateway sp
      in if Spec_Zone sp = [] \<or> region = [] then None
         else if TransitGatewaySource_Type tg = OtherSourceType [] then None
         else if TransitGatewaySource_Type tg = SourceTypeProvision then
           (case GetTransitGatewayLocationAndRouting C (Some (Spec_Zone sp)) (Some region) of
              Ok (_, globalRouting) \<Rightarrow>
                if TransitGatewayProvision_GlobalRouting (TransitGatewaySource_Provision tg) = TransitGatewayRoutingLocal \<and> globalRouting
                then Some (field_Invalid ''spec.transitGateway.provision.globalRouting'' msg_global_routing_required)
                else None
            | _ \<Rightarrow> None)
         else None)"

definition validateIBMPowerVSClusterCreateInfraPrereq :: "clients \<Rightarrow> zone_tables \<Rightarrow> IBMPowerVSCluster \<Rightarrow> field_error list" where
  "validateIBMPowerVSClusterCreateInfraPrereq C Z c =
     (let sp = Cluster_Spec c; region = VPCSource_Region (Spec_VPC sp)
      in if Spec_Topology sp \<noteq> PowerVSLoadBalancerTopology then []
         else (if Spec_Zone sp \<noteq> [] \<and> \<not> ValidateZone Z (Spec_Zone sp) then [field_Invalid ''spec.zone'' msg_zone_unsupported] else [])
            @ (if region \<noteq> [] \<and> \<not> ValidateVPCRegion Z region then [field_Invalid ''spec.vpc.region'' msg_region_unsupported] else [])
            @ validateIBMPowerVSClusterVPCSubnetNames c
            @ validateIBMPowerVSClusterLoadBalancers c
            @ (case validateIBMPowerVSClusterTransitGateway C c of None \<Rightarrow> [] | Some e \<Rightarrow> [e]))"

section \<open>Selectors of listeners\<close>

definition lbResourceNameMaxLen :: int where "lbResourceNameMaxLen = 63"

text \<open>A slice with a negative bound panics, which is \<open>None\<close>.\<close>

definition lbResourceName :: "string \<Rightarrow> string \<Rightarrow> string \<Rightarrow> string option" where
  "lbResourceName clusterName ending qualifier =
     (let full = (if qualifier \<noteq> [] then ending @ ''-'' @ qualifier else ending);
          maxBase = lbResourceNameMaxLen - int (length full) - 1
      in if int (length clusterName) > maxBase
         then if maxBase < 0 then None
              else Some (trim_hyphens (take (nat maxBase) clusterName) @ ''-'' @ full)
         else Some (clusterName @ ''-'' @ full))"

definition resolvedLBName :: "string \<Rightarrow> LoadBalancerSource \<Rightarrow> nat \<Rightarrow> string option" where
  "resolvedLBName clusterName lb i =
     (let p = LoadBalancerSource_Provision lb;
          ending = (if LoadBalancerProvision_Type p = LoadBalancerTypePrivate then ''loadbalancer-private'' else ''loadbalancer-public'');
          qualifier = (if i > 0 then itoa i else [])
      in if LoadBalancerProvision_Name p \<noteq> [] then Some (LoadBalancerProvision_Name p)
         else lbResourceName clusterName ending qualifier)"

type_synonym listenerKey = "string \<times> int \<times> string"

text \<open>The listeners of the provisioned load balancers in the order of the loops, with key and index.\<close>

fun keyed_listeners :: "string \<Rightarrow> nat \<Rightarrow> LoadBalancerSource list \<Rightarrow> (listenerKey \<times> nat \<times> LabelSelector) list option" where
  "keyed_listeners clusterName i [] = Some []"
| "keyed_listeners clusterName i (lb # lbs) =
     (if LoadBalancerSource_Type lb \<noteq> SourceTypeProvision then keyed_listeners clusterName (Suc i) lbs
      else (case (resolvedLBName clusterName lb i, keyed_listeners clusterName (Suc i) lbs) of
              (Some n, Some rest) \<Rightarrow>
                Some (map (\<lambda>al. ((n, AdditionalListener_Port al, AdditionalListener_Protocol al), i, AdditionalListener_Selector al))
                        (LoadBalancerProvision_AdditionalListeners (LoadBalancerSource_Provision lb)) @ rest)
            | _ \<Rightarrow> None))"

text \<open>\<open>reflect.DeepEqual\<close> on selectors: labels are a map, expressions a list. Nil and empty are one value here.\<close>

definition selector_DeepEqual :: "LabelSelector \<Rightarrow> LabelSelector \<Rightarrow> bool" where
  "selector_DeepEqual a b \<longleftrightarrow>
     (\<forall>k \<in> set (map fst (LabelSelector_MatchLabels a) @ map fst (LabelSelector_MatchLabels b)).
        map_of (LabelSelector_MatchLabels a) k = map_of (LabelSelector_MatchLabels b) k) \<and>
     LabelSelector_MatchExpressions a = LabelSelector_MatchExpressions b"

text \<open>A later listener with the same key replaces an earlier one in the map.\<close>

definition new_listeners :: "(listenerKey \<times> nat \<times> LabelSelector) list \<Rightarrow> (listenerKey \<rightharpoonup> LabelSelector)" where
  "new_listeners ls = map_of (rev (map (\<lambda>(k, _, sel). (k, sel)) ls))"

definition validateAdditionalListenerSelector :: "IBMPowerVSCluster \<Rightarrow> IBMPowerVSCluster \<Rightarrow> field_error list option" where
  "validateAdditionalListenerSelector newCluster oldCluster =
     (case (keyed_listeners (Cluster_Name newCluster) 0 (Spec_LoadBalancers (Cluster_Spec newCluster)),
            keyed_listeners (Cluster_Name oldCluster) 0 (Spec_LoadBalancers (Cluster_Spec oldCluster))) of
        (Some new, Some old) \<Rightarrow>
          Some (concat (map (\<lambda>(key, i, sel).
            case new_listeners new key of
              None \<Rightarrow> []
            | Some sel' \<Rightarrow> if selector_DeepEqual sel' sel then [] else [field_Forbidden ''spec.loadBalancers'' i (fst key)]) old))
      | _ \<Rightarrow> None)"

section \<open>The webhook\<close>

text \<open>\<open>None\<close> is a panic, \<open>Some []\<close> admission.\<close>

definition validateIBMPowerVSCluster :: "clients \<Rightarrow> zone_tables \<Rightarrow> IBMPowerVSCluster option \<Rightarrow> IBMPowerVSCluster \<Rightarrow> field_error list option" where
  "validateIBMPowerVSCluster C Z oldCluster newCluster =
     (let errs = validateIBMPowerVSClusterCreateInfraPrereq C Z newCluster
      in case oldCluster of
           None \<Rightarrow> Some errs
         | Some old \<Rightarrow> map_option (\<lambda>more. errs @ more) (validateAdditionalListenerSelector newCluster old))"

definition cluster_ValidateCreate :: "clients \<Rightarrow> zone_tables \<Rightarrow> IBMPowerVSCluster \<Rightarrow> field_error list option" where
  "cluster_ValidateCreate C Z obj = validateIBMPowerVSCluster C Z None obj"

definition cluster_ValidateUpdate :: "clients \<Rightarrow> zone_tables \<Rightarrow> IBMPowerVSCluster \<Rightarrow> IBMPowerVSCluster \<Rightarrow> field_error list option" where
  "cluster_ValidateUpdate C Z oldObj newObj = validateIBMPowerVSCluster C Z (Some oldObj) newObj"

text \<open>The templates of clusters: metadata and spec of the clusters made from one, which an update may not change.\<close>

record IBMPowerVSClusterTemplateSpec =
  ClusterTemplate_Labels :: "string \<rightharpoonup> string"
  ClusterTemplate_Annotations :: "string \<rightharpoonup> string"
  ClusterTemplate_Spec :: IBMPowerVSClusterSpec

definition msg_template_immutable :: string where "msg_template_immutable = ''IBMPowerVSClusterTemplate.Spec is immutable''"

definition clusterTemplate_ValidateUpdate :: "IBMPowerVSClusterTemplateSpec \<Rightarrow> IBMPowerVSClusterTemplateSpec \<Rightarrow> unit outcome" where
  "clusterTemplate_ValidateUpdate oldSpec newSpec = (if newSpec \<noteq> oldSpec then Err (Errorf msg_template_immutable) else Ok ())"

end
