(* ===== verification/Webhook_Properties.thy ===== *)
theory Webhook_Properties
  imports Webhooks Pool_Members
begin

text \<open>
  What the admission of a cluster guarantees to its controller, and what it lets through.
\<close>

section \<open>Names agree with the controller\<close>

lemma lbResourceName_ResourceName:
  "lbResourceName c ''loadbalancer-private'' q = ResourceName c ResourceTypeLBPrivate q"
  "lbResourceName c ''loadbalancer-public'' q = ResourceName c ResourceTypeLBPublic q"
  by (simp_all add: lbResourceName_def ResourceName_def name_suffix_def resourceNameMaxLen_def lbResourceNameMaxLen_def)

text \<open>
  the name the webhook gives a load balancer to tell its listeners apart is the name the controller
  creates, finds and deletes it under.
\<close>

theorem resolvedLBName_is_lb_name:
  "resolvedLBName (Cluster_Name (scope_cluster s)) lb i = lb_name s i (LoadBalancerSource_Provision lb)"
  by (simp add: resolvedLBName_def lb_name_def Let_def InfraCluster_def lbResourceName_ResourceName)

section \<open>What admission guarantees\<close>

lemma duplicate_names_none:
  "duplicate_names path i found ns = [] \<longleftrightarrow> distinct (filter (\<lambda>n. n \<noteq> []) ns) \<and> set (filter (\<lambda>n. n \<noteq> []) ns) \<inter> found = {}"
  by (induction path i found ns rule: duplicate_names.induct) auto

lemma filtered_nth_eq:
  assumes "distinct (filter P xs)" and "P (xs ! i)" and "i < length xs" and "j < length xs" and "xs ! i = xs ! j"
  shows "i = j"
  using assms
proof (induction xs arbitrary: i j)
  case (Cons x xs)
  have "x \<notin> set xs" if "P x" using Cons.prems(1) that by auto
  then show ?case using Cons by (cases i; cases j) (auto split: if_splits)
qed simp

text \<open>The names of the load balancers as the controller uses them, and the names it makes up.\<close>

definition effective_name :: "string \<Rightarrow> LoadBalancerSource list \<Rightarrow> nat \<Rightarrow> string option" where
  "effective_name c lbs i =
     (if LoadBalancerSource_Type (lbs ! i) = SourceTypeProvision then resolvedLBName c (lbs ! i) i else Some (lb_source_name (lbs ! i)))"

definition derived_names :: "string \<Rightarrow> string set" where
  "derived_names c = {n. \<exists>rt q. rt \<in> {ResourceTypeLBPublic, ResourceTypeLBPrivate} \<and> ResourceName c rt q = Some n}"

lemma last_segment_lb:
  assumes "ResourceName c rt q = Some n" and "rt \<in> {ResourceTypeLBPublic, ResourceTypeLBPrivate}" and "q = (if i > 0 then itoa i else [])"
  shows "if i > 0 then last_segment n = rev (itoa i) else last_segment n \<in> {rev ''public'', rev ''private''}"
proof (cases "i > 0")
  case True
  then show ?thesis using assms last_segment_qualified [of c rt "itoa i" n] by (simp add: itoa_no_hyphen)
next
  case False
  then show ?thesis using assms last_segment_ResourceName [of c rt q n] by (auto simp: last_segment_def)
qed

lemma itoa_not_type: "itoa n \<noteq> ''public''" "itoa n \<noteq> ''private''"
  using itoa_digits [of "CHR ''p''" n] by auto

lemma derived_index:
  assumes "ResourceName c rt (if i > 0 then itoa i else []) = Some n" "rt \<in> {ResourceTypeLBPublic, ResourceTypeLBPrivate}"
    and "ResourceName c rt' (if j > 0 then itoa j else []) = Some n" "rt' \<in> {ResourceTypeLBPublic, ResourceTypeLBPrivate}"
  shows "i = j"
  using last_segment_lb [OF assms(1,2) refl] last_segment_lb [OF assms(3,4) refl] itoa_not_type [of i] itoa_not_type [of j]
  by (auto simp: itoa_inj split: if_splits)

lemma resolved_cases:
  assumes "resolvedLBName c lb i = Some n"
  obtains "LoadBalancerProvision_Name (LoadBalancerSource_Provision lb) = n" "n \<noteq> []"
  | rt where "rt \<in> {ResourceTypeLBPublic, ResourceTypeLBPrivate}" "ResourceName c rt (if i > 0 then itoa i else []) = Some n"
      "LoadBalancerProvision_Name (LoadBalancerSource_Provision lb) = []"
  using assms that by (auto simp: resolvedLBName_def Let_def lbResourceName_ResourceName split: if_splits)

text \<open>The conditions of admission, stated without the order of the checks.\<close>

definition admissible :: "clients \<Rightarrow> zone_tables \<Rightarrow> IBMPowerVSCluster \<Rightarrow> bool" where
  "admissible C Z c \<longleftrightarrow>
     (let sp = Cluster_Spec c; region = VPCSource_Region (Spec_VPC sp); tg = Spec_TransitGateway sp in
      (Spec_Zone sp = [] \<or> ValidateZone Z (Spec_Zone sp)) \<and>
      (region = [] \<or> ValidateVPCRegion Z region) \<and>
      distinct (filter (\<lambda>n. n \<noteq> []) (map subnet_source_name (Spec_VPCSubnets sp))) \<and>
      distinct (filter (\<lambda>n. n \<noteq> []) (map lb_source_name (Spec_LoadBalancers sp))) \<and>
      (Spec_LoadBalancers sp = [] \<or> (\<exists>lb \<in> set (Spec_LoadBalancers sp). public_provision lb)) \<and>
      (TransitGatewaySource_Type tg = SourceTypeProvision \<and>
         TransitGatewayProvision_GlobalRouting (TransitGatewaySource_Provision tg) = TransitGatewayRoutingLocal \<and>
         Spec_Zone sp \<noteq> [] \<and> region \<noteq> [] \<longrightarrow>
         \<not> IsGlobalRoutingRequiredForTG (regionUtil C) (ConstructRegionFromZone (Spec_Zone sp)) region))"

text \<open>
  C17: a cluster is admitted exactly if it is not of the load balancer topology or satisfies the
  conditions: a known zone and region, no name twice among subnets and among load balancers, a public
  load balancer where there are any, and no local routing where the regions need global routing.
\<close>

theorem cluster_admission:
  "cluster_ValidateCreate C Z c = Some [] \<longleftrightarrow>
     Spec_Topology (Cluster_Spec c) \<noteq> PowerVSLoadBalancerTopology \<or> admissible C Z c"
proof -
  have tg: "validateIBMPowerVSClusterTransitGateway C c = None \<longleftrightarrow>
      (let sp = Cluster_Spec c; region = VPCSource_Region (Spec_VPC sp); tg = Spec_TransitGateway sp in
       TransitGatewaySource_Type tg = SourceTypeProvision \<and>
         TransitGatewayProvision_GlobalRouting (TransitGatewaySource_Provision tg) = TransitGatewayRoutingLocal \<and>
         Spec_Zone sp \<noteq> [] \<and> region \<noteq> [] \<longrightarrow>
         \<not> IsGlobalRoutingRequiredForTG (regionUtil C) (ConstructRegionFromZone (Spec_Zone sp)) region)"
    unfolding validateIBMPowerVSClusterTransitGateway_def GetTransitGatewayLocationAndRouting_def Let_def by auto
  have lbs: "validateIBMPowerVSClusterLoadBalancers c = [] \<longleftrightarrow>
      distinct (filter (\<lambda>n. n \<noteq> []) (map lb_source_name (Spec_LoadBalancers (Cluster_Spec c)))) \<and>
      (Spec_LoadBalancers (Cluster_Spec c) = [] \<or> (\<exists>lb \<in> set (Spec_LoadBalancers (Cluster_Spec c)). public_provision lb))"
    unfolding validateIBMPowerVSClusterLoadBalancers_def validateIBMPowerVSClusterLoadBalancerNames_def Let_def
    by (simp add: duplicate_names_none list_ex_iff)
  have sn: "validateIBMPowerVSClusterVPCSubnetNames c = [] \<longleftrightarrow>
      distinct (filter (\<lambda>n. n \<noteq> []) (map subnet_source_name (Spec_VPCSubnets (Cluster_Spec c))))"
    by (simp add: validateIBMPowerVSClusterVPCSubnetNames_def duplicate_names_none)
  have opt: "(case x of None \<Rightarrow> [] | Some e \<Rightarrow> [e]) = [] \<longleftrightarrow> x = None" for x :: "field_error option"
    by (cases x) simp_all
  show ?thesis
    unfolding cluster_ValidateCreate_def validateIBMPowerVSCluster_def validateIBMPowerVSClusterCreateInfraPrereq_def admissible_def Let_def
    using tg lbs sn opt by (simp add: Let_def)
qed

text \<open>
  in an admitted cluster no two load balancers have one name in the cloud, if no name in the spec is
  one the controller would make up for the cluster.
\<close>

theorem admitted_names_distinct:
  assumes "cluster_ValidateCreate C Z c = Some []" and "Spec_Topology (Cluster_Spec c) = PowerVSLoadBalancerTopology"
    and "lbs = Spec_LoadBalancers (Cluster_Spec c)" and "\<forall>lb \<in> set lbs. lb_source_name lb \<notin> derived_names (Cluster_Name c)"
    and "i < length lbs" and "j < length lbs" and "n \<noteq> []"
    and "effective_name (Cluster_Name c) lbs i = Some n" and "effective_name (Cluster_Name c) lbs j = Some n"
  shows "i = j"
proof -
  have dist: "distinct (filter (\<lambda>n. n \<noteq> []) (map lb_source_name lbs))"
    using assms(1-3) unfolding cluster_ValidateCreate_def validateIBMPowerVSCluster_def validateIBMPowerVSClusterCreateInfraPrereq_def
      validateIBMPowerVSClusterLoadBalancers_def validateIBMPowerVSClusterLoadBalancerNames_def Let_def
    by (auto simp: duplicate_names_none split: if_splits)
  have explicit: "lb_source_name (lbs ! k) = n \<or>
      (\<exists>rt. rt \<in> {ResourceTypeLBPublic, ResourceTypeLBPrivate} \<and> ResourceName (Cluster_Name c) rt (if k > 0 then itoa k else []) = Some n)"
    if "effective_name (Cluster_Name c) lbs k = Some n" for k
    using that unfolding effective_name_def by (auto split: if_splits elim!: resolved_cases simp: lb_source_name_def)
  have derived: "lb_source_name (lbs ! k) \<noteq> n" if "k < length lbs" "rt \<in> {ResourceTypeLBPublic, ResourceTypeLBPrivate}" "ResourceName (Cluster_Name c) rt q = Some n" for k rt q
    using assms(4) that nth_mem [of k lbs] unfolding derived_names_def by blast
  from explicit [OF assms(8)] explicit [OF assms(9)] show ?thesis
  proof (elim disjE exE conjE)
    assume "lb_source_name (lbs ! i) = n" "lb_source_name (lbs ! j) = n"
    then show ?thesis using filtered_nth_eq [OF dist, of i j] assms(5-7) by simp
  next
    fix rt assume "lb_source_name (lbs ! i) = n" "rt \<in> {ResourceTypeLBPublic, ResourceTypeLBPrivate}"
      "ResourceName (Cluster_Name c) rt (if j > 0 then itoa j else []) = Some n"
    with derived [OF assms(5)] show ?thesis by blast
  next
    fix rt assume "lb_source_name (lbs ! j) = n" "rt \<in> {ResourceTypeLBPublic, ResourceTypeLBPrivate}"
      "ResourceName (Cluster_Name c) rt (if i > 0 then itoa i else []) = Some n"
    with derived [OF assms(6)] show ?thesis by blast
  next
    fix rt rt' assume "rt \<in> {ResourceTypeLBPublic, ResourceTypeLBPrivate}" "ResourceName (Cluster_Name c) rt (if i > 0 then itoa i else []) = Some n"
      "rt' \<in> {ResourceTypeLBPublic, ResourceTypeLBPrivate}" "ResourceName (Cluster_Name c) rt' (if j > 0 then itoa j else []) = Some n"
    then show ?thesis by (intro derived_index)
  qed
qed

text \<open>The cluster of the example with two load balancers, and tables that know its zone.\<close>

definition some_lb :: "string \<Rightarrow> LoadBalancerType \<Rightarrow> AdditionalListener list \<Rightarrow> LoadBalancerSource" where
  "some_lb n ty ls =
     \<lparr>LoadBalancerSource_Type = SourceTypeProvision,
      LoadBalancerSource_Reference = \<lparr>ResourceIdentifier_ID = [], ResourceIdentifier_Name = []\<rparr>,
      LoadBalancerSource_Provision =
        \<lparr>LoadBalancerProvision_Name = n, LoadBalancerProvision_Type = ty,
         LoadBalancerProvision_AdditionalListeners = ls, LoadBalancerProvision_BackendPools = [],
         LoadBalancerProvision_SecurityGroups = [], LoadBalancerProvision_Subnets = []\<rparr>\<rparr>"

definition with_lbs :: "LoadBalancerSource list \<Rightarrow> IBMPowerVSCluster \<Rightarrow> IBMPowerVSCluster" where
  "with_lbs lbs c = c\<lparr>Cluster_Spec := (Cluster_Spec c)\<lparr>Spec_LoadBalancers := lbs\<rparr>\<rparr>"

lemma with_lbs_checks:
  "Cluster_Name (with_lbs lbs c) = Cluster_Name c" "Spec_LoadBalancers (Cluster_Spec (with_lbs lbs c)) = lbs"
  "Spec_Topology (Cluster_Spec (with_lbs lbs c)) = Spec_Topology (Cluster_Spec c)" "Spec_Zone (Cluster_Spec (with_lbs lbs c)) = Spec_Zone (Cluster_Spec c)"
  "Spec_VPC (Cluster_Spec (with_lbs lbs c)) = Spec_VPC (Cluster_Spec c)"
  "validateIBMPowerVSClusterTransitGateway C (with_lbs lbs c) = validateIBMPowerVSClusterTransitGateway C c"
  "validateIBMPowerVSClusterVPCSubnetNames (with_lbs lbs c) = validateIBMPowerVSClusterVPCSubnetNames c"
  by (simp_all add: with_lbs_def validateIBMPowerVSClusterVPCSubnetNames_def validateIBMPowerVSClusterTransitGateway_def
      GetTransitGatewayLocationAndRouting_def Let_def)

lemma prereq_with_lbs:
  assumes "cluster_ValidateCreate C Z c = Some []" and "validateIBMPowerVSClusterLoadBalancers (with_lbs lbs c) = []"
  shows "validateIBMPowerVSClusterCreateInfraPrereq C Z (with_lbs lbs c) = []"
  using assms
  by (auto simp: cluster_ValidateCreate_def validateIBMPowerVSCluster_def validateIBMPowerVSClusterCreateInfraPrereq_def Let_def with_lbs_checks
      split: if_splits)

definition all_zones :: zone_tables where
  "all_zones = \<lparr>ValidateZone = \<lambda>_. True, ValidateVPCRegion = \<lambda>_. True\<rparr>"

text \<open>
  a name in the spec may be one the controller makes up: every admitted cluster is still admitted
  when its load balancers are a named one and an unnamed one that gets the same name, so both are one
  load balancer in the status and in the cloud.
\<close>

theorem derived_name_taken:
  assumes "cluster_ValidateCreate C Z c = Some []"
  shows "\<exists>n. let lbs = [some_lb n LoadBalancerTypePublic [], some_lb [] LoadBalancerTypePublic []] in
     cluster_ValidateCreate C Z (with_lbs lbs c) = Some [] \<and>
     effective_name (Cluster_Name c) lbs 0 = Some n \<and> effective_name (Cluster_Name c) lbs 1 = Some n"
proof -
  have "length (name_suffix ResourceTypeLBPublic (itoa 1)) \<le> 62" by (simp add: name_suffix_def itoa.simps)
  then obtain n where n: "ResourceName (Cluster_Name c) ResourceTypeLBPublic (itoa 1) = Some n"
    by (metis ResourceName_None not_le option.exhaust)
  then have "n \<noteq> []" by (auto elim: ResourceName_cases)
  let ?lbs = "[some_lb n LoadBalancerTypePublic [], some_lb [] LoadBalancerTypePublic []]"
  have lbs: "validateIBMPowerVSClusterLoadBalancers (with_lbs ?lbs c) = []"
    using \<open>n \<noteq> []\<close>
    by (simp add: validateIBMPowerVSClusterLoadBalancers_def validateIBMPowerVSClusterLoadBalancerNames_def with_lbs_def lb_source_name_def
        public_provision_def some_lb_def)
  have "cluster_ValidateCreate C Z (with_lbs ?lbs c) = Some []"
    using prereq_with_lbs [OF assms lbs] by (simp add: cluster_ValidateCreate_def validateIBMPowerVSCluster_def)
  moreover have "effective_name (Cluster_Name c) ?lbs 0 = Some n" "effective_name (Cluster_Name c) ?lbs 1 = Some n"
    using n \<open>n \<noteq> []\<close>
    by (simp_all add: effective_name_def some_lb_def resolvedLBName_def Let_def lbResourceName_ResourceName)
  ultimately show ?thesis by (intro exI [of _ n]) (simp add: Let_def)
qed

section \<open>Selectors\<close>

lemma concat_map_empty: "concat (map f xs) = [] \<longleftrightarrow> (\<forall>x \<in> set xs. f x = [])"
  by (induction xs) auto

text \<open>
  The additional listener \<open>al\<close> of the cluster a scope works on, at position \<open>(i, j)\<close>: the \<open>j\<close>-th of the \<open>i\<close>-th entry,
  which is to be provisioned and which the controller creates under the name \<open>n\<close>.
\<close>

definition listener_at :: "ClusterScope \<Rightarrow> nat \<times> nat \<Rightarrow> string \<Rightarrow> AdditionalListener \<Rightarrow> bool" where
  "listener_at s p n al \<longleftrightarrow> (case p of (i, j) \<Rightarrow>
     (let lbs = Spec_LoadBalancers (spec s); als = LoadBalancerProvision_AdditionalListeners (LoadBalancerSource_Provision (lbs ! i)) in
      i < length lbs \<and> LoadBalancerSource_Type (lbs ! i) = SourceTypeProvision \<and>
      lb_name s i (LoadBalancerSource_Provision (lbs ! i)) = Some n \<and> j < length als \<and> als ! j = al))"

definition same_listener :: "AdditionalListener \<Rightarrow> AdditionalListener \<Rightarrow> bool" where
  "same_listener a b \<longleftrightarrow> AdditionalListener_Port a = AdditionalListener_Port b \<and> AdditionalListener_Protocol a = AdditionalListener_Protocol b"

abbreviation later :: "nat \<times> nat \<Rightarrow> nat \<times> nat \<Rightarrow> bool" where
  "later p q \<equiv> fst p < fst q \<or> fst p = fst q \<and> snd p < snd q"

text \<open>The listeners of a list of entries, the first of which has index \<open>i0\<close>, as the webhook names them.\<close>

definition keyed_at :: "string \<Rightarrow> nat \<Rightarrow> LoadBalancerSource list \<Rightarrow> nat \<times> nat \<Rightarrow> listenerKey \<Rightarrow> LabelSelector \<Rightarrow> bool" where
  "keyed_at c i0 lbs p k sel \<longleftrightarrow> (case p of (i, j) \<Rightarrow>
     (let als = LoadBalancerProvision_AdditionalListeners (LoadBalancerSource_Provision (lbs ! i)) in
      i < length lbs \<and> LoadBalancerSource_Type (lbs ! i) = SourceTypeProvision \<and> j < length als \<and>
      (\<exists>n. resolvedLBName c (lbs ! i) (i0 + i) = Some n \<and> k = (n, AdditionalListener_Port (als ! j), AdditionalListener_Protocol (als ! j))) \<and>
      sel = AdditionalListener_Selector (als ! j)))"

lemma keyed_at_Cons:
  "keyed_at c i0 (lb # lbs) (0, j) k sel \<longleftrightarrow> keyed_at c i0 [lb] (0, j) k sel"
  "keyed_at c i0 (lb # lbs) (Suc i, j) k sel \<longleftrightarrow> keyed_at c (Suc i0) lbs (i, j) k sel"
  by (simp_all add: keyed_at_def)

lemma keyed_members:
  "keyed_listeners c i0 lbs = Some ks \<Longrightarrow> (k, m, sel) \<in> set ks \<Longrightarrow> \<exists>p. keyed_at c i0 lbs p k sel"
proof (induction c i0 lbs arbitrary: ks rule: keyed_listeners.induct)
  case (2 c i0 lb lbs)
  show ?case
  proof (cases "LoadBalancerSource_Type lb = SourceTypeProvision")
    case False
    with 2 obtain i j where "keyed_at c (Suc i0) lbs (i, j) k sel" by fastforce
    then show ?thesis by (intro exI [of _ "(Suc i, j)"]) (simp add: keyed_at_Cons)
  next
    case True
    with 2(3) obtain n rest where n: "resolvedLBName c lb i0 = Some n" and rest: "keyed_listeners c (Suc i0) lbs = Some rest"
      and ks: "ks = map (\<lambda>al. ((n, AdditionalListener_Port al, AdditionalListener_Protocol al), i0, AdditionalListener_Selector al))
          (LoadBalancerProvision_AdditionalListeners (LoadBalancerSource_Provision lb)) @ rest"
      by (auto split: option.splits)
    show ?thesis
    proof (cases "(k, m, sel) \<in> set rest")
      case True
      with 2(2) rest \<open>LoadBalancerSource_Type lb = _\<close> obtain i j where "keyed_at c (Suc i0) lbs (i, j) k sel" by fastforce
      then show ?thesis by (intro exI [of _ "(Suc i, j)"]) (simp add: keyed_at_Cons)
    next
      case False
      with 2(4) ks obtain j where "j < length (LoadBalancerProvision_AdditionalListeners (LoadBalancerSource_Provision lb))"
        "(k, m, sel) = (\<lambda>al. ((n, AdditionalListener_Port al, AdditionalListener_Protocol al), i0, AdditionalListener_Selector al))
            (LoadBalancerProvision_AdditionalListeners (LoadBalancerSource_Provision lb) ! j)"
        by (auto simp: in_set_conv_nth)
      then show ?thesis using n True by (intro exI [of _ "(0, j)"]) (simp add: keyed_at_def)
    qed
  qed
qed simp

lemma keyed_split:
  "keyed_listeners c i0 lbs = Some ks \<Longrightarrow> keyed_at c i0 lbs p k sel \<Longrightarrow>
   \<exists>pre m post. ks = pre @ (k, m, sel) # post \<and> (\<forall>(k', _, sel') \<in> set post. \<exists>q. later p q \<and> keyed_at c i0 lbs q k' sel')"
proof (induction c i0 lbs arbitrary: ks p rule: keyed_listeners.induct)
  case (1 c i0)
  then show ?case by (simp add: keyed_at_def split: prod.splits)
next
  case (2 c i0 lb lbs)
  obtain i j where p: "p = (i, j)" by (cases p)
  have shift: "\<exists>q. later (Suc i', j) q \<and> keyed_at c i0 (lb # lbs) q k' sel'"
    if "\<exists>q. later (i', j) q \<and> keyed_at c (Suc i0) lbs q k' sel'" for i' k' sel'
  proof -
    from that obtain a b where "later (i', j) (a, b)" "keyed_at c (Suc i0) lbs (a, b) k' sel'" by auto
    then show ?thesis by (intro exI [of _ "(Suc a, b)"]) (simp add: keyed_at_Cons)
  qed
  show ?case
  proof (cases "LoadBalancerSource_Type lb = SourceTypeProvision")
    case False
    then have rest: "keyed_listeners c (Suc i0) lbs = Some ks" using 2(3) by simp
    have "i \<noteq> 0"
    proof
      assume "i = 0"
      then show False using 2(4) False by (simp add: p keyed_at_def Let_def)
    qed
    then obtain i' where i: "i = Suc i'" by (cases i) auto
    with 2(4) have "keyed_at c (Suc i0) lbs (i', j) k sel" by (simp add: p keyed_at_Cons)
    from 2(1) [OF False rest this] show ?thesis unfolding p i using shift by (elim exE conjE) (intro exI conjI, assumption, blast)
  next
    case True
    let ?als = "LoadBalancerProvision_AdditionalListeners (LoadBalancerSource_Provision lb)"
    from True 2(3) obtain n rest where n: "resolvedLBName c lb i0 = Some n" and rest: "keyed_listeners c (Suc i0) lbs = Some rest"
      and ks: "ks = map (\<lambda>al. ((n, AdditionalListener_Port al, AdditionalListener_Protocol al), i0, AdditionalListener_Selector al)) ?als @ rest"
      by (auto split: option.splits)
    let ?f = "\<lambda>al. ((n, AdditionalListener_Port al, AdditionalListener_Protocol al), i0, AdditionalListener_Selector al)"
    have in_rest: "\<exists>q. later (0, j) q \<and> keyed_at c i0 (lb # lbs) q k' sel'" if member: "(k', m, sel') \<in> set rest" for k' m sel'
    proof -
      from keyed_members [OF rest member] obtain a b where "keyed_at c (Suc i0) lbs (a, b) k' sel'" by auto
      then show ?thesis by (intro exI [of _ "(Suc a, b)"]) (simp add: keyed_at_Cons)
    qed
    show ?thesis
    proof (cases i)
      case 0
      then have j: "j < length ?als" and key: "?f (?als ! j) = (k, i0, sel)" using 2(4) n by (auto simp: p keyed_at_def Let_def)
      have "map ?f ?als = map ?f (take j ?als) @ (k, i0, sel) # map ?f (drop (Suc j) ?als)"
        unfolding key [symmetric] by (subst id_take_nth_drop [OF j]) (simp only: map_append list.map)
      then have split: "ks = map ?f (take j ?als) @ (k, i0, sel) # (map ?f (drop (Suc j) ?als) @ rest)" using ks by simp
      have "\<exists>q. later (0, j) q \<and> keyed_at c i0 (lb # lbs) q k' sel'" if "(k', m, sel') \<in> set (map ?f (drop (Suc j) ?als))" for k' m sel'
      proof -
        from that obtain al where "al \<in> set (drop (Suc j) ?als)" and al: "(k', m, sel') = ?f al" unfolding set_map by (elim imageE)
        then obtain a' where "a' < length (drop (Suc j) ?als)" "al = drop (Suc j) ?als ! a'" by (metis in_set_conv_nth)
        with al obtain a where a: "a < length ?als - Suc j" "(k', m, sel') = ?f (?als ! (Suc j + a))" by simp
        then have "keyed_at c i0 (lb # lbs) (0, Suc j + a) k' sel'" using True n by (simp add: keyed_at_def Let_def)
        then show ?thesis by (intro exI [of _ "(0, Suc j + a)"]) simp
      qed
      then have "\<forall>(k', _, sel') \<in> set (map ?f (drop (Suc j) ?als) @ rest). \<exists>q. later p q \<and> keyed_at c i0 (lb # lbs) q k' sel'"
        using in_rest unfolding p 0 set_append by (intro ballI) (clarify, erule UnE; blast)
      with split show ?thesis by blast
    next
      case (Suc i')
      with 2(4) have "keyed_at c (Suc i0) lbs (i', j) k sel" by (simp add: p keyed_at_Cons)
      with 2(2) [OF _ rest this] True obtain pre m post where "rest = pre @ (k, m, sel) # post"
        "\<forall>(k', _, sel') \<in> set post. \<exists>q. later (i', j) q \<and> keyed_at c (Suc i0) lbs q k' sel'" by blast
      then have "ks = (map ?f ?als @ pre) @ (k, m, sel) # post"
        and "\<forall>(k', _, sel') \<in> set post. \<exists>q. later (Suc i', j) q \<and> keyed_at c i0 (lb # lbs) q k' sel'"
        using shift unfolding ks by (simp, fast)
      then show ?thesis unfolding p Suc by blast
    qed
  qed
qed

lemma new_listeners_last:
  assumes "\<forall>(k', _, _) \<in> set post. k' \<noteq> k"
  shows "new_listeners (pre @ (k, m, sel) # post) k = Some sel"
proof -
  have "map_of (rev (map (\<lambda>(k, _, sel). (k, sel)) post)) k = None"
    using assms by (force simp: map_of_eq_None_iff)
  then show ?thesis by (simp add: new_listeners_def map_add_def)
qed

lemma listener_keyed:
  "listener_at s p n al \<Longrightarrow> keyed_at (Cluster_Name (scope_cluster s)) 0 (Spec_LoadBalancers (Cluster_Spec (scope_cluster s))) p
     (n, AdditionalListener_Port al, AdditionalListener_Protocol al) (AdditionalListener_Selector al)"
  "keyed_at (Cluster_Name (scope_cluster s)) 0 (Spec_LoadBalancers (Cluster_Spec (scope_cluster s))) p (n, port, proto) sel \<Longrightarrow>
     \<exists>al. listener_at s p n al \<and> AdditionalListener_Port al = port \<and> AdditionalListener_Protocol al = proto"
  by (auto simp: listener_at_def keyed_at_def spec_def Let_def resolvedLBName_is_lb_name)

text \<open>
  C99: an admitted update keeps the selector of every additional listener that is still there: where a listener of the
  old cluster and one of the new cluster belong to load balancers the controller gives the same name, and have the
  same port and protocol, their selectors are equal, if no later listener of the new cluster is the same one again, in
  which case the later one counts.
\<close>

theorem selectors_immutable:
  assumes "cluster_ValidateUpdate C Z (scope_cluster s) (scope_cluster t) = Some []"
    and "listener_at s p n old" and "listener_at t q n new" and "same_listener new old"
    and "\<And>q' new'. later q q' \<Longrightarrow> listener_at t q' n new' \<Longrightarrow> \<not> same_listener new' new"
  shows "selector_DeepEqual (AdditionalListener_Selector new) (AdditionalListener_Selector old)"
proof -
  let ?keys = "\<lambda>s. keyed_listeners (Cluster_Name (scope_cluster s)) 0 (Spec_LoadBalancers (Cluster_Spec (scope_cluster s)))"
  let ?k = "(n, AdditionalListener_Port new, AdditionalListener_Protocol new)"
  obtain olds news where ks: "?keys s = Some olds" "?keys t = Some news"
    and all: "\<And>k i sel. (k, i, sel) \<in> set olds \<Longrightarrow> (case new_listeners news k of None \<Rightarrow> True | Some sel' \<Rightarrow> selector_DeepEqual sel' sel)"
    using assms(1)
    by (fastforce simp: cluster_ValidateUpdate_def validateIBMPowerVSCluster_def validateAdditionalListenerSelector_def concat_map_empty Let_def
        split: if_splits option.splits)
  have key: "(n, AdditionalListener_Port old, AdditionalListener_Protocol old) = ?k" using assms(4) by (simp add: same_listener_def)
  obtain pre m post where "olds = pre @ (?k, m, AdditionalListener_Selector old) # post"
    using keyed_split [OF ks(1) listener_keyed(1) [OF assms(2)]] unfolding key by blast
  then have "(?k, m, AdditionalListener_Selector old) \<in> set olds" by simp
  moreover obtain pre i post where news: "news = pre @ (?k, i, AdditionalListener_Selector new) # post"
    and post: "\<forall>(k', _, sel') \<in> set post. \<exists>q'. later q q' \<and> keyed_at (Cluster_Name (scope_cluster t)) 0 (Spec_LoadBalancers (Cluster_Spec (scope_cluster t))) q' k' sel'"
    using keyed_split [OF ks(2) listener_keyed(1) [OF assms(3)]] by blast
  have "k' \<noteq> ?k" if "(k', m, sel') \<in> set post" for k' m sel'
  proof
    assume "k' = ?k"
    with post that obtain q' where "later q q'" and "keyed_at (Cluster_Name (scope_cluster t)) 0 (Spec_LoadBalancers (Cluster_Spec (scope_cluster t))) q' ?k sel'"
      by fastforce
    moreover obtain al where "listener_at t q' n al" "AdditionalListener_Port al = AdditionalListener_Port new"
      "AdditionalListener_Protocol al = AdditionalListener_Protocol new"
      using listener_keyed(2) [OF \<open>keyed_at _ _ _ q' ?k sel'\<close>] by blast
    ultimately show False using assms(5) [of q' al] by (simp add: same_listener_def)
  qed
  then have "new_listeners news ?k = Some (AdditionalListener_Selector new)"
    unfolding news by (intro new_listeners_last) fastforce
  ultimately show ?thesis using all by fastforce
qed

text \<open>
  the protocol may be left out, which the controller takes for TCP but the webhook does not: the
  selector of a listener can be changed by writing its protocol out. The update is admitted although
  old and new listener are one listener to the registration of machines.
\<close>

theorem selector_changed_by_protocol:
  assumes "cluster_ValidateCreate C Z c = Some []" and "n \<noteq> []"
    and "old = \<lparr>AdditionalListener_DefaultPoolName = p, AdditionalListener_Port = port, AdditionalListener_Protocol = [], AdditionalListener_Selector = a\<rparr>"
    and "new = old\<lparr>AdditionalListener_Protocol := LoadBalancerListenerProtocolTCP, AdditionalListener_Selector := b\<rparr>"
  shows "cluster_ValidateUpdate C Z (with_lbs [some_lb n LoadBalancerTypePublic [old]] c) (with_lbs [some_lb n LoadBalancerTypePublic [new]] c) = Some [] \<and>
    dom (additional_listeners [old]) = dom (additional_listeners [new])"
proof (intro conjI)
  let ?c = "with_lbs [some_lb n LoadBalancerTypePublic [new]] c"
  have lbs: "validateIBMPowerVSClusterLoadBalancers ?c = []"
    by (simp add: validateIBMPowerVSClusterLoadBalancers_def validateIBMPowerVSClusterLoadBalancerNames_def with_lbs_def lb_source_name_def
        public_provision_def some_lb_def)
  from prereq_with_lbs [OF assms(1) this] show "cluster_ValidateUpdate C Z (with_lbs [some_lb n LoadBalancerTypePublic [old]] c) ?c = Some []"
    using assms(2-)
    by (simp add: cluster_ValidateUpdate_def validateIBMPowerVSCluster_def validateAdditionalListenerSelector_def with_lbs_def some_lb_def
        resolvedLBName_def new_listeners_def LoadBalancerListenerProtocolTCP_def)
  show "dom (additional_listeners [old]) = dom (additional_listeners [new])"
    using assms(3,4) by (simp add: additional_listeners_def LoadBalancerListenerProtocolTCP_def)
qed

section \<open>Witnesses\<close>

definition hooked :: IBMPowerVSCluster where
  "hooked = with_lbs [some_lb ''front'' LoadBalancerTypePublic [], some_lb [] LoadBalancerTypePrivate []] (scope_cluster settled)"

lemma hooked_admitted: "cluster_ValidateCreate example_cloud all_zones hooked = Some []"
  by code_simp

theorem cluster_admission_witness:
  "admissible example_cloud all_zones hooked"
proof -
  have "Spec_Topology (Cluster_Spec hooked) = PowerVSLoadBalancerTopology" by code_simp
  with cluster_admission [of example_cloud all_zones hooked] hooked_admitted show ?thesis by simp
qed

lemma hooked_names:
  "effective_name ''c'' [some_lb ''front'' LoadBalancerTypePublic [], some_lb [] LoadBalancerTypePrivate []] 1 = Some ''c-loadbalancer-private-1''"
  "effective_name ''c'' [some_lb ''front'' LoadBalancerTypePublic [], some_lb [] LoadBalancerTypePrivate []] 0 = Some ''front''"
  by code_simp+

lemma front_not_derived: "''front'' \<notin> derived_names c" "[] \<notin> derived_names c"
proof -
  have "CHR ''-'' \<in> set n" if "n \<in> derived_names c" for n using that by (auto simp: derived_names_def elim: ResourceName_cases)
  then show "''front'' \<notin> derived_names c" "[] \<notin> derived_names c" by fastforce+
qed

theorem admitted_names_distinct_witness:
  "{i. i < 2 \<and> effective_name ''c'' [some_lb ''front'' LoadBalancerTypePublic [], some_lb [] LoadBalancerTypePrivate []] i = Some ''front''} = {0}"
proof -
  let ?lbs = "[some_lb ''front'' LoadBalancerTypePublic [], some_lb [] LoadBalancerTypePrivate []]"
  have lbs: "?lbs = Spec_LoadBalancers (Cluster_Spec hooked)" by (simp add: hooked_def with_lbs_checks)
  have top: "Spec_Topology (Cluster_Spec hooked) = PowerVSLoadBalancerTopology" and name: "Cluster_Name hooked = ''c''"
    by code_simp+
  have free: "\<forall>lb \<in> set ?lbs. lb_source_name lb \<notin> derived_names (Cluster_Name hooked)"
    using front_not_derived by (simp add: lb_source_name_def some_lb_def)
  have "i = 0" if "i < 2" "effective_name ''c'' ?lbs i = Some ''front''" for i
    using admitted_names_distinct [OF hooked_admitted top lbs free, of i 0 "''front''"] that hooked_names(2) by (simp add: name)
  then show ?thesis using hooked_names(2) by auto
qed

theorem derived_name_taken_witness:
  "\<exists>n. cluster_ValidateCreate example_cloud all_zones (with_lbs [some_lb n LoadBalancerTypePublic [], some_lb [] LoadBalancerTypePublic []] hooked) = Some []"
  using derived_name_taken [OF hooked_admitted] by (auto simp: Let_def)

text \<open>Two clusters with one listener, whose selector an update tries to change.\<close>

definition labelled :: "string \<Rightarrow> LabelSelector" where
  "labelled v = \<lparr>LabelSelector_MatchLabels = [(''app'', v)], LabelSelector_MatchExpressions = []\<rparr>"

definition listening :: "string \<Rightarrow> string \<Rightarrow> AdditionalListener" where
  "listening proto v = \<lparr>AdditionalListener_DefaultPoolName = ''p'', AdditionalListener_Port = 80, AdditionalListener_Protocol = proto,
     AdditionalListener_Selector = labelled v\<rparr>"

definition listening_cluster :: "AdditionalListener \<Rightarrow> IBMPowerVSCluster" where
  "listening_cluster l = with_lbs [some_lb ''front'' LoadBalancerTypePublic [l]] (scope_cluster settled)"

definition listening_scope :: "AdditionalListener \<Rightarrow> ClusterScope" where
  "listening_scope l = settled\<lparr>scope_cluster := listening_cluster l\<rparr>"

lemma listening_at: "listener_at (listening_scope l) p n x \<longleftrightarrow> p = (0, 0) \<and> n = ''front'' \<and> x = l"
  by (cases p) (auto simp: listener_at_def listening_scope_def listening_cluster_def spec_def with_lbs_checks some_lb_def lb_name_def Let_def)

theorem selectors_immutable_witness:
  "cluster_ValidateUpdate example_cloud all_zones (listening_cluster (listening ''tcp'' ''web'')) (listening_cluster (listening ''tcp'' ''web'')) = Some [] \<and>
   cluster_ValidateUpdate example_cloud all_zones (listening_cluster (listening ''tcp'' ''web'')) (listening_cluster (listening ''tcp'' ''db'')) \<noteq> Some []"
proof
  show "cluster_ValidateUpdate example_cloud all_zones (listening_cluster (listening ''tcp'' ''web'')) (listening_cluster (listening ''tcp'' ''web'')) = Some []"
    by code_simp
  show "cluster_ValidateUpdate example_cloud all_zones (listening_cluster (listening ''tcp'' ''web'')) (listening_cluster (listening ''tcp'' ''db'')) \<noteq> Some []"
  proof
    assume "cluster_ValidateUpdate example_cloud all_zones (listening_cluster (listening ''tcp'' ''web'')) (listening_cluster (listening ''tcp'' ''db'')) = Some []"
    then have "cluster_ValidateUpdate example_cloud all_zones (scope_cluster (listening_scope (listening ''tcp'' ''web'')))
        (scope_cluster (listening_scope (listening ''tcp'' ''db''))) = Some []"
      by (simp add: listening_scope_def)
    from selectors_immutable [OF this, of "(0, 0)" "''front''" "listening ''tcp'' ''web''" "(0, 0)" "listening ''tcp'' ''db''"]
    show False by (simp add: listening_at same_listener_def listening_def selector_DeepEqual_def labelled_def)
  qed
qed

theorem selector_changed_by_protocol_witness:
  "cluster_ValidateUpdate example_cloud all_zones (listening_cluster (listening [] ''web'')) (listening_cluster (listening ''tcp'' ''db'')) = Some []"
proof -
  have "cluster_ValidateCreate example_cloud all_zones (scope_cluster settled) = Some []" by code_simp
  from selector_changed_by_protocol [OF this, of "''front''" "listening [] ''web''" "''p''" 80 "labelled ''web''" "listening ''tcp'' ''db''" "labelled ''db''"]
  show ?thesis by (simp add: listening_cluster_def listening_def LoadBalancerListenerProtocolTCP_def)
qed

end
