(* ===== verification/Machine_Webhooks.thy ===== *)
theory Machine_Webhooks
  imports Webhooks Machine_Types
begin

text \<open>
  The admission webhooks of the PowerVS machines and machine templates
  (\<^verbatim>\<open>internal/webhooks/powervs/powervs.go\<close>, \<^verbatim>\<open>ibmpowervsmachine.go\<close>, \<^verbatim>\<open>ibmpowervsmachinetemplate.go\<close>) and the
  controller that computes the capacity of a template
  (\<^verbatim>\<open>internal/controllers/powervs/ibmpowervsmachinetemplate_controller.go\<close>).
\<close>

section \<open>Floating point\<close>

text \<open>
  Comparisons of \<open>float64\<close> values: none holds of a NaN but \<open>!=\<close>. The conversion to \<open>int64\<close> truncates; out of its range
  the language leaves the result open, so it is a parameter (\<open>fu_wrapped\<close>, after conversion back). Printing
  with \<open>%v\<close> is written out for whole numbers up to two to the 53; other finite values are left to \<open>fu_format\<close>.
\<close>

type_synonym Quantity = string

record float_util =
  fu_ParseFloat :: "string \<Rightarrow> float64 reply"
  fu_wrapped :: "float64 \<Rightarrow> float64"
  fu_format :: "float64 \<Rightarrow> string"
  fu_MustParse :: "string \<Rightarrow> Quantity option"        \<comment> \<open>\<open>resource.MustParse\<close>; \<open>None\<close> is its panic\<close>

fun float_less :: "float64 \<Rightarrow> float64 \<Rightarrow> bool" where
  "float_less (Finite a i) (Finite b j) = (a * 2 ^ j < b * 2 ^ i)"
| "float_less NegInf (Finite _ _) = True"
| "float_less (Finite _ _) PosInf = True"
| "float_less NegInf PosInf = True"
| "float_less _ _ = False"

fun float_eq :: "float64 \<Rightarrow> float64 \<Rightarrow> bool" where
  "float_eq (Finite a i) (Finite b j) = (a * 2 ^ j = b * 2 ^ i)"
| "float_eq NegInf NegInf = True"
| "float_eq PosInf PosInf = True"
| "float_eq _ _ = False"

definition truncated :: "int \<Rightarrow> nat \<Rightarrow> int" where
  "truncated n k = (if n < 0 then - ((- n) div 2 ^ k) else n div 2 ^ k)"

definition int64_and_back :: "float_util \<Rightarrow> float64 \<Rightarrow> float64" where
  "int64_and_back F f = (case f of
      Finite n k \<Rightarrow> if - (2 ^ 63) \<le> truncated n k \<and> truncated n k < 2 ^ 63 then Finite (truncated n k) 0 else fu_wrapped F f
    | _ \<Rightarrow> fu_wrapped F f)"

text \<open>\<open>math.Ceil(cores) * defaultSMT\<close>: the ceiling is exact, the product overflows to infinity. (Zero has one sign here.)\<close>

definition defaultSMT :: int where "defaultSMT = 8"

definition ceiling_of :: "int \<Rightarrow> nat \<Rightarrow> int" where "ceiling_of n k = - ((- n) div 2 ^ k)"

fun threads :: "float64 \<Rightarrow> float64" where
  "threads (Finite n k) =
     (let c = ceiling_of n k * defaultSMT
      in if 2 ^ 1024 \<le> c then PosInf else if c \<le> - (2 ^ 1024) then NegInf else Finite c 0)"
| "threads PosInf = PosInf"
| "threads NegInf = NegInf"
| "threads NaN = NaN"

text \<open>
  \<open>%v\<close>: a number with an exponent of six or more is printed in exponent form, with as many digits as it takes; on whole
  numbers up to \<open>2^53\<close>, which are exact, these are the digits without the zeros at the end. The exponent
  has at least two digits.
\<close>

definition exponent_form :: "nat \<Rightarrow> string" where
  "exponent_form n =
     (let digits = itoa n; e = length digits - 1; fraction = rev (dropWhile (\<lambda>c. c = CHR ''0'') (rev (tl digits)))
      in hd digits # (if fraction = [] then [] else CHR ''.'' # fraction) @ ''e+'' @ (if e < 10 then ''0'' else []) @ itoa e)"

definition sprint_float :: "float_util \<Rightarrow> float64 \<Rightarrow> string" where
  "sprint_float F f = (case f of
      NaN \<Rightarrow> ''NaN'' | PosInf \<Rightarrow> ''+Inf'' | NegInf \<Rightarrow> ''-Inf''
    | Finite n k \<Rightarrow>
        if k = 0 \<and> \<bar>n\<bar> < 10 ^ 6 then format_int n
        else if k = 0 \<and> \<bar>n\<bar> \<le> 2 ^ 53 then (if n < 0 then ''-'' else []) @ exponent_form (nat \<bar>n\<bar>)
        else fu_format F f)"

section \<open>Defaults\<close>

definition PowerVSProcessorTypeDedicated :: string where "PowerVSProcessorTypeDedicated = ''Dedicated''"
definition PowerVSProcessorTypeShared :: string where "PowerVSProcessorTypeShared = ''Shared''"
definition PowerVSProcessorTypeCapped :: string where "PowerVSProcessorTypeCapped = ''Capped''"
definition defaultSystemType :: string where "defaultSystemType = ''s1022''"

lemmas processor_type_defs = PowerVSProcessorTypeDedicated_def PowerVSProcessorTypeShared_def PowerVSProcessorTypeCapped_def

definition processors_unset :: "IntOrString \<Rightarrow> bool" where
  "processors_unset p \<longleftrightarrow> p \<in> {IntVal 0, StrVal []}"

definition defaultIBMPowerVSMachineSpec :: "IBMPowerVSMachineSpec \<Rightarrow> IBMPowerVSMachineSpec" where
  "defaultIBMPowerVSMachineSpec sp =
     (let sp1 = (if MachineSpec_MemoryGiB sp = 0 then sp\<lparr>MachineSpec_MemoryGiB := 2\<rparr> else sp);
          sp2 = (if MachineSpec_SystemType sp1 = [] then sp1\<lparr>MachineSpec_SystemType := defaultSystemType\<rparr> else sp1);
          sp3 = (if MachineSpec_ProcessorType sp2 = [] then sp2\<lparr>MachineSpec_ProcessorType := PowerVSProcessorTypeShared\<rparr> else sp2)
      in if processors_unset (MachineSpec_Processors sp3)
         then sp3\<lparr>MachineSpec_Processors :=
                (if MachineSpec_ProcessorType sp3 = PowerVSProcessorTypeDedicated then IntVal 1 else StrVal ''0.25'')\<rparr>
         else sp3)"

section \<open>Validation\<close>

definition msg_processors_number :: string where "msg_processors_number = ''processors must be a valid number''"
definition msg_processors_dedicated :: string where "msg_processors_dedicated = ''processors must be at least 1 when processorType is Dedicated''"
definition msg_processors_fractional :: string where "msg_processors_fractional = ''processors cannot be fractional when processorType is Dedicated''"
definition msg_processors_least :: string where "msg_processors_least = ''processors must be at least 0.25''"

definition processors_value :: "float_util \<Rightarrow> IntOrString \<Rightarrow> float64 reply" where
  "processors_value F p = (case p of IntVal i \<Rightarrow> Reply (float_of_int i) | StrVal t \<Rightarrow> fu_ParseFloat F t)"

definition validateIBMPowerVSProcessorValues :: "float_util \<Rightarrow> string \<Rightarrow> IntOrString \<Rightarrow> field_error option" where
  "validateIBMPowerVSProcessorValues F procType resValue =
     (let invalid = (\<lambda>msg. Some (field_Invalid ''spec.processors'' msg))
      in case processors_value F resValue of
           Fail _ _ \<Rightarrow> invalid msg_processors_number
         | Reply val \<Rightarrow>
             if procType = PowerVSProcessorTypeDedicated then
               if float_less val (Finite 1 0) then invalid msg_processors_dedicated
               else if \<not> float_eq val (int64_and_back F val) then invalid msg_processors_fractional
               else None
             else if float_less val (Finite 1 2) then invalid msg_processors_least
             else None)"

definition validateIBMPowerVSMachineProcessors :: "float_util \<Rightarrow> IBMPowerVSMachine \<Rightarrow> field_error option" where
  "validateIBMPowerVSMachineProcessors F m =
     validateIBMPowerVSProcessorValues F (MachineSpec_ProcessorType (Machine_Spec m)) (MachineSpec_Processors (Machine_Spec m))"

definition validateIBMPowerVSMachine :: "float_util \<Rightarrow> IBMPowerVSMachine \<Rightarrow> field_error list" where
  "validateIBMPowerVSMachine F m = (case validateIBMPowerVSMachineProcessors F m of None \<Rightarrow> [] | Some e \<Rightarrow> [e])"

text \<open>The webhook of the machines: an update is validated as a creation.\<close>

definition machine_Default :: "IBMPowerVSMachine \<Rightarrow> IBMPowerVSMachine" where
  "machine_Default m = m\<lparr>Machine_Spec := defaultIBMPowerVSMachineSpec (Machine_Spec m)\<rparr>"

definition machine_ValidateCreate :: "float_util \<Rightarrow> IBMPowerVSMachine \<Rightarrow> field_error list" where
  "machine_ValidateCreate F obj = validateIBMPowerVSMachine F obj"

definition machine_ValidateUpdate :: "float_util \<Rightarrow> IBMPowerVSMachine \<Rightarrow> IBMPowerVSMachine \<Rightarrow> field_error list" where
  "machine_ValidateUpdate F oldObj newObj = validateIBMPowerVSMachine F newObj"

section \<open>Templates\<close>

text \<open>The name, the spec of the template's machines and the capacity in the status.\<close>

record IBMPowerVSMachineTemplate =
  Template_Name :: string
  Template_Spec :: IBMPowerVSMachineSpec
  Template_Capacity :: "string \<rightharpoonup> Quantity"

definition validateIBMPowerVSMachineTemplateProcessors :: "float_util \<Rightarrow> IBMPowerVSMachineTemplate \<Rightarrow> field_error option" where
  "validateIBMPowerVSMachineTemplateProcessors F t =
     (case validateIBMPowerVSProcessorValues F (MachineSpec_ProcessorType (Template_Spec t)) (MachineSpec_Processors (Template_Spec t)) of
        None \<Rightarrow> None
      | Some (field_Invalid _ msg) \<Rightarrow> Some (field_Invalid ''spec.template.spec.processors'' msg)
      | Some e \<Rightarrow> Some e)"

definition validateIBMPowerVSMachineTemplate :: "float_util \<Rightarrow> IBMPowerVSMachineTemplate \<Rightarrow> field_error list" where
  "validateIBMPowerVSMachineTemplate F t = (case validateIBMPowerVSMachineTemplateProcessors F t of None \<Rightarrow> [] | Some e \<Rightarrow> [e])"

definition template_Default :: "IBMPowerVSMachineTemplate \<Rightarrow> IBMPowerVSMachineTemplate" where
  "template_Default t = t\<lparr>Template_Spec := defaultIBMPowerVSMachineSpec (Template_Spec t)\<rparr>"

definition template_ValidateCreate :: "float_util \<Rightarrow> IBMPowerVSMachineTemplate \<Rightarrow> field_error list" where
  "template_ValidateCreate F obj = validateIBMPowerVSMachineTemplate F obj"

definition template_ValidateUpdate :: "float_util \<Rightarrow> IBMPowerVSMachineTemplate \<Rightarrow> IBMPowerVSMachineTemplate \<Rightarrow> field_error list" where
  "template_ValidateUpdate F oldObj newObj = validateIBMPowerVSMachineTemplate F newObj"

text \<open>The capacity: memory in gigabytes, and the hardware threads of the processors, rounded up.\<close>

definition getIBMPowerVSMachineCapacity :: "float_util \<Rightarrow> IBMPowerVSMachineTemplate \<Rightarrow> (string \<rightharpoonup> Quantity) outcome" where
  "getIBMPowerVSMachineCapacity F t =
     (let sp = Template_Spec t
      in case fu_MustParse F (format_int (MachineSpec_MemoryGiB sp) @ ''G'') of
           None \<Rightarrow> Panic
         | Some memory \<Rightarrow>
             (case processors_value F (MachineSpec_Processors sp) of
                Fail e _ \<Rightarrow> Err e
              | Reply cores \<Rightarrow>
                  (case fu_MustParse F (sprint_float F (threads cores)) of
                     None \<Rightarrow> Panic
                   | Some cpu \<Rightarrow> Ok [''memory'' \<mapsto> memory, ''cpu'' \<mapsto> cpu])))"

text \<open>The Kubernetes client of the controller: what the request names, a patch helper and a patch.\<close>

record template_client =
  tc_Get :: "IBMPowerVSMachineTemplate reply"
  tc_NewHelper :: "IBMPowerVSMachineTemplate \<Rightarrow> unit reply"
  tc_Patch :: "IBMPowerVSMachineTemplate \<Rightarrow> unit reply"

definition msg_failed_get_capacity :: string where "msg_failed_get_capacity = ''failed to get capcity for machine template''"

text \<open>The result, and the template as it was handed to the patch.\<close>

definition template_Reconcile :: "float_util \<Rightarrow> template_client \<Rightarrow> Result outcome \<times> IBMPowerVSMachineTemplate option" where
  "template_Reconcile F T =
     (case tc_Get T of
        Fail (NotFoundErr _) _ \<Rightarrow> (Ok finished, None)
      | Fail e _ \<Rightarrow> (Err e, None)
      | Reply t \<Rightarrow>
         (case tc_NewHelper T t of
            Fail e _ \<Rightarrow> (Err (Wrapf msg_failed_init_patch_helper e), None)
          | Reply _ \<Rightarrow>
             (case getIBMPowerVSMachineCapacity F t of
                Panic \<Rightarrow> (Panic, None)
              | Err e \<Rightarrow> (Err (Wrapf msg_failed_get_capacity e), None)
              | Ok capacity \<Rightarrow>
                  if Template_Capacity t = capacity then (Ok finished, None)
                  else (let t' = t\<lparr>Template_Capacity := capacity\<rparr>
                        in case tc_Patch T t' of
                             Reply _ \<Rightarrow> (Ok finished, Some t')
                           | Fail (NotFoundErr _) _ \<Rightarrow> (Ok finished, Some t')
                           | Fail e _ \<Rightarrow> (Err e, Some t')))))"

end
