(* ===== verification/Capacity_Properties.thy ===== *)
theory Capacity_Properties
  imports Machine_Webhooks
begin

text \<open>What the webhooks of machines and templates admit, and the capacity computed from it.\<close>

section \<open>Defaults\<close>

lemma defaulted_fields:
  "MachineSpec_MemoryGiB (defaultIBMPowerVSMachineSpec sp) = (if MachineSpec_MemoryGiB sp = 0 then 2 else MachineSpec_MemoryGiB sp)"
  "MachineSpec_SystemType (defaultIBMPowerVSMachineSpec sp) = (if MachineSpec_SystemType sp = [] then defaultSystemType else MachineSpec_SystemType sp)"
  "MachineSpec_ProcessorType (defaultIBMPowerVSMachineSpec sp) =
     (if MachineSpec_ProcessorType sp = [] then PowerVSProcessorTypeShared else MachineSpec_ProcessorType sp)"
  "MachineSpec_Processors (defaultIBMPowerVSMachineSpec sp) =
     (if processors_unset (MachineSpec_Processors sp)
      then if MachineSpec_ProcessorType sp = PowerVSProcessorTypeDedicated then IntVal 1 else StrVal ''0.25''
      else MachineSpec_Processors sp)"
  by (auto simp: defaultIBMPowerVSMachineSpec_def Let_def processor_type_defs)

lemma defaulted_is_set:
  "MachineSpec_MemoryGiB (defaultIBMPowerVSMachineSpec sp) \<noteq> 0" "MachineSpec_SystemType (defaultIBMPowerVSMachineSpec sp) \<noteq> []"
  "MachineSpec_ProcessorType (defaultIBMPowerVSMachineSpec sp) \<noteq> []" "\<not> processors_unset (MachineSpec_Processors (defaultIBMPowerVSMachineSpec sp))"
  by (auto simp: defaulted_fields defaultSystemType_def PowerVSProcessorTypeShared_def processors_unset_def)

text \<open>
  a machine without processors is given ones the validation accepts, whatever its processor type;
  defaulting twice is defaulting once, and what the user gave is kept.
\<close>

theorem machine_defaults_admitted:
  assumes "fu_ParseFloat F ''0.25'' = Reply (Finite 1 2)"
  shows "machine_Default (machine_Default m) = machine_Default m \<and>
    (if processors_unset (MachineSpec_Processors (Machine_Spec m)) then machine_ValidateCreate F (machine_Default m) = []
     else MachineSpec_Processors (Machine_Spec (machine_Default m)) = MachineSpec_Processors (Machine_Spec m))"
proof -
  have "defaultIBMPowerVSMachineSpec sp = sp"
    if "MachineSpec_MemoryGiB sp \<noteq> 0" "MachineSpec_SystemType sp \<noteq> []" "MachineSpec_ProcessorType sp \<noteq> []"
      "\<not> processors_unset (MachineSpec_Processors sp)" for sp
    using that by (simp add: defaultIBMPowerVSMachineSpec_def)
  then have "machine_Default (machine_Default m) = machine_Default m" by (simp add: machine_Default_def defaulted_is_set)
  moreover have "machine_ValidateCreate F (machine_Default m) = []" if "processors_unset (MachineSpec_Processors (Machine_Spec m))"
    using that assms
    by (auto simp: machine_ValidateCreate_def validateIBMPowerVSMachine_def validateIBMPowerVSMachineProcessors_def
        validateIBMPowerVSProcessorValues_def machine_Default_def defaulted_fields processors_value_def float_of_int_def
        int64_and_back_def truncated_def processor_type_defs)
  ultimately show ?thesis by (simp add: machine_Default_def defaulted_fields)
qed

section \<open>Capacity\<close>

text \<open>From a million threads on the capacity is printed in exponent form, which a quantity may have as well.\<close>

lemma million_threads:
  "sprint_float F (threads (Finite 125000 0)) = ''1e+06'' \<and> sprint_float F (threads (Finite 124999 0)) = ''999992'' \<and>
   sprint_float F (threads (Finite 154321 0)) = ''1.234568e+06''"
  by (simp add: ceiling_of_def defaultSMT_def sprint_float_def exponent_form_def format_int_def itoa.simps Let_def char_of_def bit_iff_odd)

text \<open>A quantity may be a decimal integer, or one with the suffix for ten to the nine.\<close>

definition parses_decimals :: "float_util \<Rightarrow> bool" where
  "parses_decimals F \<longleftrightarrow> (\<forall>i. fu_MustParse F (format_int i) \<noteq> None \<and> fu_MustParse F (format_int i @ ''G'') \<noteq> None)"

lemma ceiling_of_bounds: "n \<le> ceiling_of n k * 2 ^ k \<and> ceiling_of n k * 2 ^ k < n + 2 ^ k"
proof -
  have "(- n) div 2 ^ k * 2 ^ k + (- n) mod 2 ^ k = - n" by (rule div_mult_mod_eq)
  moreover have "0 \<le> (- n) mod 2 ^ k" "(- n) mod 2 ^ k < 2 ^ k" by simp_all
  ultimately show ?thesis unfolding ceiling_of_def by linarith
qed

lemma truncated_whole: "truncated n k * 2 ^ k = n \<Longrightarrow> ceiling_of n k * 2 ^ k = n"
  using ceiling_of_bounds [of n k]
  by (metis ceiling_of_def minus_mult_left minus_mult_right nonzero_mult_div_cancel_right power_not_zero zero_neq_numeral minus_minus)

text \<open>
  C19: the CPU capacity of an admitted template is the quantity written as eight times the least whole number of cores not
  below its processors, which is at least one and for dedicated processors is their number. This is for
  processors with a finite value whose threads are fewer than a million, from where on the number is printed in exponent form
  (\<open>million_threads\<close>), and it relies on \<open>resource.MustParse\<close> to accept decimal integers, plain and
  with the suffix for ten to the nine.
\<close>

theorem template_capacity:
  assumes "template_ValidateCreate F t = []" and "processors_value F (MachineSpec_Processors (Template_Spec t)) = Reply (Finite n k)"
    and "8 * ceiling_of n k < 10 ^ 6" and "parses_decimals F"
  shows "\<exists>cap. getIBMPowerVSMachineCapacity F t = Ok cap \<and>
      cap ''cpu'' = fu_MustParse F (format_int (8 * ceiling_of n k)) \<and> 1 \<le> ceiling_of n k \<and>
      n \<le> ceiling_of n k * 2 ^ k \<and> ceiling_of n k * 2 ^ k < n + 2 ^ k \<and>
      (MachineSpec_ProcessorType (Template_Spec t) = PowerVSProcessorTypeDedicated \<longrightarrow> ceiling_of n k * 2 ^ k = n)"
proof -
  let ?c = "ceiling_of n k"
  have v: "validateIBMPowerVSProcessorValues F (MachineSpec_ProcessorType (Template_Spec t)) (MachineSpec_Processors (Template_Spec t)) = None"
    using assms(1)
    by (auto simp: template_ValidateCreate_def validateIBMPowerVSMachineTemplate_def validateIBMPowerVSMachineTemplateProcessors_def
        split: option.splits field_error.splits)
  have pos: "0 < n" and whole: "MachineSpec_ProcessorType (Template_Spec t) = PowerVSProcessorTypeDedicated \<longrightarrow> float_eq (Finite n k) (int64_and_back F (Finite n k))"
    using v assms(2) by (auto simp: validateIBMPowerVSProcessorValues_def Let_def not_less split: if_splits)
       (smt (verit) zero_less_power)+
  note b = ceiling_of_bounds [of n k]
  have "0 < ?c * 2 ^ k" using b pos by linarith
  then have c: "1 \<le> ?c" by (simp add: zero_less_mult_iff)
  have "threads (Finite n k) = Finite (8 * ?c) 0"
    using c assms(3) by (simp add: defaultSMT_def mult.commute)
  moreover have "sprint_float F (Finite (8 * ?c) 0) = format_int (8 * ?c)"
    using c assms(3) by (simp add: sprint_float_def)
  ultimately have printed: "sprint_float F (threads (Finite n k)) = format_int (8 * ?c)" by (simp only:)
  obtain mem cpu where "fu_MustParse F (format_int (MachineSpec_MemoryGiB (Template_Spec t)) @ ''G'') = Some mem"
    "fu_MustParse F (format_int (8 * ?c)) = Some cpu"
    using assms(4) unfolding parses_decimals_def by blast
  then have cap: "getIBMPowerVSMachineCapacity F t = Ok [''memory'' \<mapsto> mem, ''cpu'' \<mapsto> cpu]"
    "[''memory'' \<mapsto> mem, ''cpu'' \<mapsto> cpu] ''cpu'' = fu_MustParse F (format_int (8 * ?c))"
    unfolding getIBMPowerVSMachineCapacity_def Let_def assms(2) reply.case printed by simp_all
  have "n div 2 ^ k * 2 ^ k \<le> n" using div_mult_mod_eq [of n "2 ^ k"] by (smt (verit) pos_mod_sign zero_less_power)
  with b have "n div 2 ^ k * 2 ^ k \<le> ?c * 2 ^ k" by linarith
  then have "truncated n k \<le> ?c" using pos by (simp add: truncated_def)
  moreover have "0 \<le> n div 2 ^ k" using pos by (simp add: pos_imp_zdiv_nonneg_iff)
  ultimately have "?c * 2 ^ k = n" if "MachineSpec_ProcessorType (Template_Spec t) = PowerVSProcessorTypeDedicated"
    using whole that pos assms(3) by (intro truncated_whole) (auto simp: int64_and_back_def truncated_def split: if_splits)
  with cap c b show ?thesis by blast
qed

text \<open>
  shared or capped processors that are not a number are admitted, since no comparison holds of a
  NaN, and then the controller of the template panics in every reconcile.
\<close>

theorem template_nan_panics:
  assumes "fu_ParseFloat F ''NaN'' = Reply NaN" and "fu_MustParse F ''NaN'' = None"
    and "MachineSpec_Processors (Template_Spec t) = StrVal ''NaN''" and "MachineSpec_ProcessorType (Template_Spec t) \<noteq> PowerVSProcessorTypeDedicated"
    and "tc_Get T = Reply t" and "tc_NewHelper T t = Reply ()"
  shows "template_ValidateCreate F (template_Default t) = [] \<and> template_Reconcile F T = (Panic, None)"
proof -
  have "MachineSpec_ProcessorType (defaultIBMPowerVSMachineSpec (Template_Spec t)) \<noteq> PowerVSProcessorTypeDedicated"
    using assms(4) by (simp add: defaulted_fields processor_type_defs)
  then have "template_ValidateCreate F (template_Default t) = []"
    using assms(1,3)
    by (simp add: template_ValidateCreate_def validateIBMPowerVSMachineTemplate_def validateIBMPowerVSMachineTemplateProcessors_def
        validateIBMPowerVSProcessorValues_def template_Default_def defaulted_fields processors_unset_def processors_value_def)
  moreover have "getIBMPowerVSMachineCapacity F t = Panic"
    using assms(1-3)
    by (simp add: getIBMPowerVSMachineCapacity_def processors_value_def sprint_float_def Let_def split: option.splits)
  ultimately show ?thesis using assms(5,6) by (simp add: template_Reconcile_def)
qed

section \<open>Witnesses\<close>

definition example_floats :: float_util where
  "example_floats = \<lparr>fu_ParseFloat = \<lambda>t. if t = ''NaN'' then Reply NaN else Reply (Finite 1 2), fu_wrapped = \<lambda>f. f, fu_format = \<lambda>_. [],
     fu_MustParse = \<lambda>t. if t = ''NaN'' then None else Some t\<rparr>"

definition small_spec :: "IntOrString \<Rightarrow> IBMPowerVSMachineSpec" where
  "small_spec p = \<lparr>MachineSpec_Workspace = \<lparr>ResourceIdentifier_ID = [], ResourceIdentifier_Name = []\<rparr>,
     MachineSpec_Network = \<lparr>ResourceIdentifier_ID = [], ResourceIdentifier_Name = []\<rparr>,
     MachineSpec_Image = \<lparr>MachineImage_Type = ImageSourceTypeReference,
       MachineImage_Reference = \<lparr>ResourceIdentifier_ID = ''i'', ResourceIdentifier_Name = []\<rparr>, MachineImage_Import = []\<rparr>,
     MachineSpec_SSHKey = [], MachineSpec_SystemType = [], MachineSpec_ProcessorType = ''Shared'', MachineSpec_Processors = p,
     MachineSpec_MemoryGiB = 4, MachineSpec_ProviderID = []\<rparr>"

definition small_template :: "IntOrString \<Rightarrow> IBMPowerVSMachineTemplate" where
  "small_template p = \<lparr>Template_Name = ''t'', Template_Spec = small_spec p, Template_Capacity = Map.empty\<rparr>"

definition serving :: "IBMPowerVSMachineTemplate \<Rightarrow> template_client" where
  "serving t = \<lparr>tc_Get = Reply t, tc_NewHelper = \<lambda>_. Reply (), tc_Patch = \<lambda>_. Reply ()\<rparr>"

theorem machine_defaults_admitted_witness:
  "machine_ValidateCreate example_floats (machine_Default (\<lparr>Machine_Name = ''m'', Machine_Namespace = [], Machine_Labels = Map.empty,
     Machine_Finalizers = [], Machine_Deleting = False, Machine_Spec = small_spec (IntVal 0),
     Machine_Status = \<lparr>MachineStatus_Conditions = [], MachineStatus_Provisioned = None, MachineStatus_InstanceID = [],
       MachineStatus_Addresses = [], MachineStatus_Health = [], MachineStatus_InstanceState = [], MachineStatus_Region = [],
       MachineStatus_Zone = [], MachineStatus_Deprecated = None\<rparr>\<rparr>)) = []"
proof -
  have "fu_ParseFloat example_floats ''0.25'' = Reply (Finite 1 2)" by (simp add: example_floats_def)
  from machine_defaults_admitted [OF this, of "\<lparr>Machine_Name = ''m'', Machine_Namespace = [], Machine_Labels = Map.empty,
     Machine_Finalizers = [], Machine_Deleting = False, Machine_Spec = small_spec (IntVal 0),
     Machine_Status = \<lparr>MachineStatus_Conditions = [], MachineStatus_Provisioned = None, MachineStatus_InstanceID = [],
       MachineStatus_Addresses = [], MachineStatus_Health = [], MachineStatus_InstanceState = [], MachineStatus_Region = [],
       MachineStatus_Zone = [], MachineStatus_Deprecated = None\<rparr>\<rparr>"]
  show ?thesis by (simp add: small_spec_def processors_unset_def)
qed

lemma itoa_not_nan: "itoa n \<noteq> ''NaN''" "itoa n @ ''G'' \<noteq> ''NaN''"
  using itoa_digits [of "CHR ''N''" n] itoa_digits [of "CHR ''a''" n] by auto

theorem template_capacity_witness:
  "\<exists>cap. getIBMPowerVSMachineCapacity example_floats (small_template (StrVal ''0.25'')) = Ok cap \<and> cap ''cpu'' = Some ''8''"
proof -
  have "parses_decimals example_floats"
    using itoa_not_nan by (auto simp: parses_decimals_def example_floats_def format_int_def)
  moreover have "template_ValidateCreate example_floats (small_template (StrVal ''0.25'')) = []" "ceiling_of 1 2 = 1" by code_simp+
  moreover have "processors_value example_floats (MachineSpec_Processors (Template_Spec (small_template (StrVal ''0.25'')))) = Reply (Finite 1 2)"
    by (simp add: example_floats_def processors_value_def small_template_def small_spec_def)
  ultimately have "\<exists>cap. getIBMPowerVSMachineCapacity example_floats (small_template (StrVal ''0.25'')) = Ok cap \<and>
      cap ''cpu'' = fu_MustParse example_floats (format_int 8)"
    using template_capacity [of example_floats "small_template (StrVal ''0.25'')" 1 2] by auto
  moreover have "fu_MustParse example_floats (format_int 8) = Some ''8''" by code_simp
  ultimately show ?thesis by simp
qed

theorem template_nan_panics_witness:
  "template_Reconcile example_floats (serving (small_template (StrVal ''NaN''))) = (Panic, None)"
  using template_nan_panics [of example_floats "small_template (StrVal ''NaN'')" "serving (small_template (StrVal ''NaN''))"]
  by (simp add: example_floats_def small_template_def small_spec_def serving_def processor_type_defs)

end
