(* ===== verification/Cluster_Entry.thy ===== *)
theory Cluster_Entry
  imports Cluster_Controller Endpoints
begin

text \<open>
  The way into the cluster controller: the production builder of the SDK clients and the construction of
  the scope (\<^verbatim>\<open>pkg/cloud/scope/powervs/powervs_cluster.go\<close>), the patch of the object and \<open>Reconcile\<close>
  (\<^verbatim>\<open>internal/controllers/powervs/ibmpowervscluster_controller.go\<close>). A client is known by the request it was made
  with; the constructors of the SDKs, which read credentials, are a parameter.
\<close>

section \<open>Building clients\<close>

record ClientOptions =
  options_Zone :: string
  options_WorkspaceID :: string
  options_VPCRegion :: string
  options_ServiceEndpoint :: "ServiceEndpoint list"

text \<open>The services with what they are made for; the URL is \<open>None\<close> where the default is kept.\<close>

datatype service_request =
    PowerVSService "string option" string string      \<comment> \<open>URL, zone, workspace\<close>
  | VPCService string
  | TransitGatewayService "string option"
  | ResourceControllerService "string option"
  | ResourceManagerService "string option"
  | COSService string string string string            \<comment> \<open>endpoint, region, API key, instance\<close>

record sdk =
  sdk_Authenticator :: "unit reply"
  sdk_Properties :: "(string \<rightharpoonup> string) reply"
  sdk_NewService :: "service_request \<Rightarrow> unit reply"

definition msg_vpc_region_not_set :: string where "msg_vpc_region_not_set = ''failed to create VPC client: VPC region is not set''"
definition msg_failed_fetch_properties :: string where "msg_failed_fetch_properties = ''failed to fetch service properties''"
definition msg_api_key_missing :: string where "msg_api_key_missing = ''IBM Cloud API key is not provided, set IBMCLOUD_API_KEY environmental variable''"

text \<open>An endpoint of the flag overrides the default URL.\<close>

definition override :: "string \<Rightarrow> ServiceEndpoint list \<Rightarrow> string option" where
  "override svc eps = (let u = FetchEndpoints svc eps in if u \<noteq> [] then Some u else None)"

type_synonym 'a build_proc = "(service_request list, 'a) proc"

definition new_service :: "sdk \<Rightarrow> service_request \<Rightarrow> unit build_proc" where
  "new_service S req = do {
     modify (\<lambda>reqs. reqs @ [req]);
     State_Monad.return (case sdk_NewService S req of Fail e _ \<Rightarrow> Err e | Reply _ \<Rightarrow> Ok ()) }"

definition GetPowerVSClient :: "sdk \<Rightarrow> ClientOptions \<Rightarrow> unit build_proc" where
  "GetPowerVSClient S opts =
     new_service S (PowerVSService (override svc_PowerVS (options_ServiceEndpoint opts)) (options_Zone opts) (options_WorkspaceID opts))"

definition GetVPCClient :: "sdk \<Rightarrow> ClientOptions \<Rightarrow> unit build_proc" where
  "GetVPCClient S opts =
     (if options_VPCRegion opts = [] then fail (Errorf msg_vpc_region_not_set)
      else new_service S (VPCService (FetchVPCEndpoint (options_VPCRegion opts) (options_ServiceEndpoint opts))))"

definition GetTransitGatewayClient :: "sdk \<Rightarrow> ClientOptions \<Rightarrow> unit build_proc" where
  "GetTransitGatewayClient S opts = new_service S (TransitGatewayService (override svc_TransitGateway (options_ServiceEndpoint opts)))"

definition GetResourceControllerClient :: "sdk \<Rightarrow> ClientOptions \<Rightarrow> unit build_proc" where
  "GetResourceControllerClient S opts = new_service S (ResourceControllerService (override svc_RC (options_ServiceEndpoint opts)))"

definition GetResourceManagerClient :: "sdk \<Rightarrow> ClientOptions \<Rightarrow> unit build_proc" where
  "GetResourceManagerClient S opts = new_service S (ResourceManagerService (override svc_RM (options_ServiceEndpoint opts)))"

definition GetCOSClient_prod :: "sdk \<Rightarrow> string \<Rightarrow> string \<Rightarrow> ServiceEndpoint list \<Rightarrow> unit build_proc" where
  "GetCOSClient_prod S instanceID bucketRegion eps =
     (case sdk_Properties S of
        Fail e _ \<Rightarrow> fail (Wrapf msg_failed_fetch_properties e)
      | Reply props \<Rightarrow>
          (let apiKey = ptr_Deref (props ''APIKEY'') [];
               endpoint = ptr_Deref (override svc_COS eps) (''s3.'' @ bucketRegion @ ''.cloud-object-storage.appdomain.cloud'')
           in if apiKey = [] then fail (Errorf msg_api_key_missing)
              else new_service S (COSService endpoint bucketRegion apiKey instanceID)))"

section \<open>The scope\<close>

definition msg_scope_client_nil :: string where "msg_scope_client_nil = ''failed to generate new scope: client is nil''"
definition msg_scope_cluster_nil :: string where "msg_scope_cluster_nil = ''failed to generate new scope: cluster is nil''"
definition msg_scope_pvscluster_nil :: string where "msg_scope_pvscluster_nil = ''failed to generate new scope: IBMPowerVSCluster is nil''"
definition msg_scope_builder_nil :: string where "msg_scope_builder_nil = ''failed to generate new scope: ClientBuilder is nil''"
definition msg_failed_build_authenticator :: string where "msg_failed_build_authenticator = ''failed to create authenticator''"
definition msg_failed_build_rc :: string where "msg_failed_build_rc = ''failed to create Resource Controller client''"
definition msg_failed_build_rm :: string where "msg_failed_build_rm = ''failed to create Resource Manager client''"
definition msg_failed_build_powervs :: string where "msg_failed_build_powervs = ''failed to create PowerVS client''"
definition msg_failed_build_vpc :: string where "msg_failed_build_vpc = ''failed to create VPC client''"
definition msg_failed_build_tg :: string where "msg_failed_build_tg = ''failed to create Transit Gateway client''"
definition msg_failed_initialize_clients :: string where "msg_failed_initialize_clients = ''failed to initialize IBM Cloud clients''"
definition msg_scope_patch_helper :: string where "msg_scope_patch_helper = ''failed to init patch helper''"

definition cluster_params_validate :: "bool \<Rightarrow> bool \<Rightarrow> bool \<Rightarrow> bool \<Rightarrow> unit outcome" where
  "cluster_params_validate client cluster pvsCluster builder =
     (if \<not> client then Err (Errorf msg_scope_client_nil)
      else if \<not> cluster then Err (Errorf msg_scope_cluster_nil)
      else if \<not> pvsCluster then Err (Errorf msg_scope_pvscluster_nil)
      else if \<not> builder then Err (Errorf msg_scope_builder_nil)
      else Ok ())"

definition cluster_options :: "ServiceEndpoint list \<Rightarrow> IBMPowerVSCluster \<Rightarrow> ClientOptions" where
  "cluster_options eps c =
     \<lparr>options_Zone = Spec_Zone (Cluster_Spec c), options_WorkspaceID = ResourceReference_ID (Status_Workspace (Cluster_Status c)),
      options_VPCRegion = VPCSource_Region (Spec_VPC (Cluster_Spec c)), options_ServiceEndpoint = eps\<rparr>"

definition cluster_initClients :: "sdk \<Rightarrow> ServiceEndpoint list \<Rightarrow> IBMPowerVSCluster \<Rightarrow> unit build_proc" where
  "cluster_initClients S eps c =
     (let opts = cluster_options eps c in
      bindW msg_failed_build_authenticator
        (State_Monad.return (case sdk_Authenticator S of Fail e _ \<Rightarrow> Err e | Reply _ \<Rightarrow> Ok ())) (\<lambda>_.
      bindW msg_failed_build_rc (GetResourceControllerClient S opts) (\<lambda>_.
      bindW msg_failed_build_rm (GetResourceManagerClient S opts) (\<lambda>_.
      bindW msg_failed_build_powervs (GetPowerVSClient S opts) (\<lambda>_.
      bindW msg_failed_build_vpc (GetVPCClient S opts) (\<lambda>_.
      bindW msg_failed_build_tg (GetTransitGatewayClient S opts) ok))))))"

text \<open>The virtual IP topology needs no clients.\<close>

definition NewPowerVSClusterScope ::
  "sdk \<Rightarrow> ServiceEndpoint list \<Rightarrow> (IBMPowerVSCluster \<Rightarrow> unit reply) \<Rightarrow> IBMPowerVSCluster \<Rightarrow> int \<Rightarrow> ClusterScope build_proc" where
  "NewPowerVSClusterScope S eps newHelper c port =
     bindE (State_Monad.return (cluster_params_validate True True True True)) (\<lambda>_.
     bindW msg_scope_patch_helper (State_Monad.return (case newHelper c of Fail e _ \<Rightarrow> Err e | Reply _ \<Rightarrow> Ok ())) (\<lambda>_.
       let s = \<lparr>trace = [], scope_cluster = c, scope_APIServerPort = port, scope_ClientBuilder = True, scope_COSClient = False\<rparr>
       in if Spec_Topology (Cluster_Spec c) = PowerVSVirtualIPTopology then ok s
          else bindW msg_failed_initialize_clients (cluster_initClients S eps c) (\<lambda>_. ok s)))"

section \<open>Patching\<close>

definition IBMPowerVSClusterReadyCondition :: string where "IBMPowerVSClusterReadyCondition = ''Ready''"
definition PausedCondition :: string where "PausedCondition = ''Paused''"
definition msg_error_patching :: string where "msg_error_patching = ''error patching IBMPowerVSCluster''"
definition msg_failed_set_ready :: string where "msg_failed_set_ready = ''failed to set Ready condition''"

text \<open>
  What \<open>Reconcile\<close> uses of Cluster API and of the Kubernetes client. The object comes with whether it is being
  deleted, its owner as the port of its API server. A summary gets the types, those that may be missing, and
  the reasons for issues, unknown and ready; a patch the owned conditions, the copy and the object.
\<close>

record cluster_util =
  cu_Get :: "(IBMPowerVSCluster \<times> bool) reply"
  cu_EnsureFinalizer :: "IBMPowerVSCluster \<Rightarrow> bool reply"
  cu_GetOwnerCluster :: "IBMPowerVSCluster \<Rightarrow> int option reply"
  cu_EnsurePaused :: "IBMPowerVSCluster \<Rightarrow> (bool \<times> bool) reply"
  cu_NewHelper :: "IBMPowerVSCluster \<Rightarrow> unit reply"
  cu_SetSummary :: "Condition list \<Rightarrow> string \<Rightarrow> string list \<Rightarrow> string list \<Rightarrow> string \<times> string \<times> string \<Rightarrow> Condition list reply"
  cu_Patch :: "string list \<Rightarrow> IBMPowerVSCluster \<Rightarrow> IBMPowerVSCluster \<Rightarrow> unit reply"

definition summarised_conditions :: "string list" where
  "summarised_conditions = [WorkspaceReadyCondition, NetworkReadyCondition, VPCReadyCondition, VPCSubnetReadyCondition,
     VPCSecurityGroupReadyCondition, VPCLoadBalancerReadyCondition, TransitGatewayReadyCondition, COSInstanceReadyCondition]"

definition owned_conditions :: "string list" where
  "owned_conditions = [PausedCondition, IBMPowerVSClusterReadyCondition, WorkspaceReadyCondition, NetworkReadyCondition, VPCReadyCondition,
     VPCSubnetReadyCondition, VPCSecurityGroupReadyCondition, TransitGatewayReadyCondition, COSInstanceReadyCondition]"

definition IBMPowerVSClusterReadyReason :: string where "IBMPowerVSClusterReadyReason = ''Ready''"
definition IBMPowerVSClusterReadyUnknownReason :: string where "IBMPowerVSClusterReadyUnknownReason = ''ReadyUnknown''"

definition patchIBMPowerVSCluster :: "cluster_util \<Rightarrow> IBMPowerVSCluster \<Rightarrow> IBMPowerVSCluster \<Rightarrow> unit outcome \<times> IBMPowerVSCluster" where
  "patchIBMPowerVSCluster W before c =
     (if Spec_Topology (Cluster_Spec c) \<noteq> PowerVSLoadBalancerTopology then
        (case cu_Patch W [] before c of Fail e _ \<Rightarrow> (Err (Wrapf msg_error_patching e), c) | Reply _ \<Rightarrow> (Ok (), c))
      else
        (case cu_SetSummary W (GetConditions c) IBMPowerVSClusterReadyCondition summarised_conditions [COSInstanceReadyCondition]
                (IBMPowerVSClusterReadyReason, IBMPowerVSClusterReadyUnknownReason, IBMPowerVSClusterReadyReason) of
           Fail e _ \<Rightarrow> (Err (Wrapf msg_failed_set_ready e), c)
         | Reply cs \<Rightarrow>
             (let c' = SetConditions c cs
              in case cu_Patch W owned_conditions before c' of Fail e _ \<Rightarrow> (Err e, c') | Reply _ \<Rightarrow> (Ok (), c'))))"

text \<open>The deferred patch, also when the handler panics.\<close>

definition cluster_deferred_patch :: "cluster_util \<Rightarrow> IBMPowerVSCluster \<Rightarrow> Result outcome \<times> ClusterScope \<Rightarrow> Result outcome \<times> ClusterScope" where
  "cluster_deferred_patch W before x =
     (case patchIBMPowerVSCluster W before (scope_cluster (snd x)) of
        (Ok _, c) \<Rightarrow> (fst x, (snd x)\<lparr>scope_cluster := c\<rparr>)
      | (Err e, c) \<Rightarrow> (case fst x of Err e0 \<Rightarrow> Err (AggregateErr [e0, e]) | Ok _ \<Rightarrow> Err (AggregateErr [e]) | Panic \<Rightarrow> Panic, (snd x)\<lparr>scope_cluster := c\<rparr>)
      | (Panic, c) \<Rightarrow> (Panic, (snd x)\<lparr>scope_cluster := c\<rparr>))"

section \<open>Reconcile\<close>

definition msg_failed_get_pvs_cluster :: string where "msg_failed_get_pvs_cluster = ''failed to get IBMPowerVSCluster''"
definition msg_failed_get_owner :: string where "msg_failed_get_owner = ''failed to get cluster for IBMPowerVSCluster''"
definition msg_failed_create_cluster_scope :: string where "msg_failed_create_cluster_scope = ''failed to create IBMPowerVSCluster scope''"

text \<open>
  From the owner on. The result comes with the requests the clients were built with and, if the object was
  patched, the scope after the patch.
\<close>

definition cluster_scoped ::
  "capi \<Rightarrow> cluster_util \<Rightarrow> sdk \<Rightarrow> ServiceEndpoint list \<Rightarrow> clients \<Rightarrow> clients \<Rightarrow> clients \<Rightarrow> bool \<Rightarrow> IBMPowerVSCluster \<Rightarrow> bool \<Rightarrow> int \<Rightarrow>
   Result outcome \<times> service_request list \<times> ClusterScope option" where
  "cluster_scoped K W S eps C Cp Cv pvs_first c deleting port =
     (case run_state (NewPowerVSClusterScope S eps (cu_NewHelper W) c port) [] of
        (Err e, reqs) \<Rightarrow> (Err (Wrapf msg_failed_create_cluster_scope e), reqs, None)
      | (Panic, reqs) \<Rightarrow> (Panic, reqs, None)
      | (Ok s, reqs) \<Rightarrow>
          (case cu_NewHelper W c of
             Fail e _ \<Rightarrow> (Err e, reqs, None)
           | Reply _ \<Rightarrow>
               (let (r, t) = cluster_deferred_patch W c
                      (run_state (if deleting then reconcileDelete K C else reconcile K C Cp Cv pvs_first) s)
                in (r, reqs, Some t))))"

definition cluster_Reconcile ::
  "capi \<Rightarrow> cluster_util \<Rightarrow> sdk \<Rightarrow> ServiceEndpoint list \<Rightarrow> clients \<Rightarrow> clients \<Rightarrow> clients \<Rightarrow> bool \<Rightarrow>
   Result outcome \<times> service_request list \<times> ClusterScope option" where
  "cluster_Reconcile K W S eps C Cp Cv pvs_first =
     (case cu_Get W of
        Fail (NotFoundErr _) _ \<Rightarrow> (Ok finished, [], None)
      | Fail e _ \<Rightarrow> (Err (Wrapf msg_failed_get_pvs_cluster e), [], None)
      | Reply (c, deleting) \<Rightarrow>
         (case cu_EnsureFinalizer W c of
            Fail e _ \<Rightarrow> (Err e, [], None)
          | Reply True \<Rightarrow> (Ok finished, [], None)
          | Reply False \<Rightarrow>
             (case cu_GetOwnerCluster W c of
                Fail e _ \<Rightarrow> (Err (Wrapf msg_failed_get_owner e), [], None)
              | Reply None \<Rightarrow> (Ok finished, [], None)
              | Reply (Some port) \<Rightarrow>
                 (case cu_EnsurePaused W c of
                    Fail e _ \<Rightarrow> (Err e, [], None)
                  | Reply (isPaused, requeue) \<Rightarrow>
                      if isPaused \<or> requeue then (Ok finished, [], None)
                      else cluster_scoped K W S eps C Cp Cv pvs_first c deleting port))))"

end
