(* ===== verification/Entry_Properties.thy ===== *)
theory Entry_Properties
  imports Cluster_Entry Controller_Outcome
begin

text \<open>What holds of a whole \<open>Reconcile\<close> of a cluster, from the request to the patch.\<close>

section \<open>Calls to the workspace\<close>

text \<open>Calls that need a workspace: all of the PowerVS client but the details of a datacenter.\<close>

definition in_workspace :: "call \<Rightarrow> bool" where
  "in_workspace c \<longleftrightarrow> (\<exists>x. c = PVS x \<and> (\<forall>z. x \<noteq> GetDatacenterDetails_call z))"

abbreviation outside :: "'w world_scheme \<Rightarrow> 'w world_scheme \<Rightarrow> bool" where
  "outside \<equiv> calls_in (\<lambda>c. \<not> in_workspace c)"

lemma outside_simps [simp]:
  "\<not> in_workspace (RC x)" "\<not> in_workspace (RM y)" "\<not> in_workspace (TG z)" "\<not> in_workspace (VPCC u)" "\<not> in_workspace (COS v)" "\<not> in_workspace (K8S w)"
  "\<not> in_workspace GetAuthenticator_call" "\<not> in_workspace GetAccount_call" "\<not> in_workspace (GetCOSClient_call a b)"
  "\<not> in_workspace (PVS (GetDatacenterDetails_call d))"
  by (simp_all add: in_workspace_def)

lemma outside_same: "trace t = trace s \<Longrightarrow> outside s t"
  by (simp add: calls_in_def)

lemma wp_final: "wp m (\<lambda>_. P) s \<Longrightarrow> P (snd (run_state m s))"
  by (simp add: wp_def split: prod.splits)

lemma outside_set_both: "state_io_rel outside (set_both K c)"
  unfolding set_both_status by (intro calls.fr_bind calls_in_set_status)

lemma outside_set_all: "state_io_rel outside (set_all K cs ls)"
  by (induction K cs ls rule: set_all.induct)
     (auto simp: set_condition_status intro!: calls.fr_bind calls_in_set_status calls.fr_return outside_set_both)

lemmas outside_set = outside_set_both outside_set_all

lemma outside_vpc:
  "state_io_rel outside (ReconcileVPC C)" "state_io_rel outside (ReconcileVPCSubnets C)"
  "state_io_rel outside (ReconcileVPCSecurityGroups C)" "state_io_rel outside (ReconcileLoadBalancers C)"
  unfolding vpc_defs ReconcileVPCSubnets_def desired_subnets_def reconcile_subnet_def subnet_defs sg_defs sg_rule_defs lb_defs
  by (intro frame_calls; simp)+

lemma outside_gateway: "state_io_rel outside (ReconcileTransitGateway C)"
  unfolding tg_defs connection_defs by (intro frame_calls; simp)

lemma outside_cos: "state_io_rel outside (ReconcileCOSInstance C)"
  unfolding ReconcileCOSInstance_def cos_defs cos_bucket_defs upd_cos_def set_COSClient_def
  by (intro frame_calls calls.fr_case_hmac calls.fr_modify; simp add: calls_in_def)

lemma outside_host: "state_io_rel outside (GetPublicLoadBalancerHostName C)"
  unfolding GetPublicLoadBalancerHostName_def public_lb_target_def by (intro frame_calls; simp)

lemma outside_zone_and_group: "state_io_rel outside (ValidateZoneSupportsPER C)" "state_io_rel outside (ReconcileResourceGroup C)"
  unfolding ValidateZoneSupportsPER_def ReconcileResourceGroup_def resolveResourceGroupIDByName_def by (intro frame_calls; simp)+

lemma outside_collect: "state_io_rel outside (collect K rs errs rq)"
  by (induction K rs errs rq rule: collect.induct) (auto intro!: calls.fr_attempt outside_set calls.fr_return)

lemma outside_vpc_part: "state_io_rel outside (reconcileVPCResources C)"
  unfolding reconcileVPCResources_def by (intro calls.fr_rules outside_vpc)

lemma outside_gateway_on: "state_io_rel outside (reconcile_gateway_on K C)"
  unfolding reconcile_gateway_on_def reconcile_cos_and_endpoint_def publish_if_ready_def publish_endpoint_def set_provisioned_def set_endpoint_def
  by (intro calls.fr_rules calls.fr_modify calls_in_set_status outside_gateway outside_cos outside_host outside_set; simp add: calls_in_def)

text \<open>While no workspace is recorded, its reconcile ends with an error or a requeue, and the network waits.\<close>

abbreviation workspace_id :: "ClusterScope \<Rightarrow> string" where
  "workspace_id s \<equiv> ResourceReference_ID (Status_Workspace (status s))"

lemma workspace_pending:
  assumes "workspace_id s = []"
  shows "wp (ReconcileWorkspace C) (\<lambda>r t. outside s t \<and> (\<forall>x. r = Ok x \<longrightarrow> x)) s"
proof (rule wp_conj)
  show "wp (ReconcileWorkspace C) (\<lambda>_ t. outside s t) s"
    by (rule wp_mono [OF calls.wp_frame [OF calls_ReconcileWorkspace]]) (auto elim!: calls_in_mono)
  show "wp (ReconcileWorkspace C) (\<lambda>r t. \<forall>x. r = Ok x \<longrightarrow> x) s"
    using assms unfolding workspace_defs by (simp add: wp_simps split: SourceType.splits option.splits)
qed

lemma powervs_part_outside:
  assumes "workspace_id s = []" and "outside start s"
  shows "wp (reconcilePowerVSResources C) (\<lambda>_ t. outside start t) s"
proof -
  have "wp (ReconcileWorkspace C) (\<lambda>r t. outside start t \<and> (\<forall>x. r = Ok x \<longrightarrow> x)) s"
    using workspace_pending [OF assms(1)] by (rule wp_mono) (use assms(2) calls.R_trans in blast)
  then show ?thesis unfolding reconcilePowerVSResources_def Let_def
    by (rule calls.fw_attempt_where) (simp_all add: wp_return)
qed

lemma reconcile_outside:
  assumes "workspace_id s = []"
  shows "wp (reconcile K C Cp Cv pvs_first) (\<lambda>_ t. outside s t) s"
proof -
  let ?I = "\<lambda>t. outside s t \<and> workspace_id t = []"
  have keep: "state_io_rel (keeps workspace_id) (ValidateZoneSupportsPER C)" "state_io_rel (keeps workspace_id) (ReconcileResourceGroup C)"
    unfolding ValidateZoneSupportsPER_def by (intro frame_keeps keeps_ReconcileResourceGroup; simp)+
  have step: "wp m (\<lambda>_. ?I) t" if "state_io_rel outside m" "state_io_rel (keeps workspace_id) m" "?I t" for m :: "'z scope_proc" and t
    using wp_conj [OF calls.wp_frame [OF that(1)] keeps.wp_frame [OF that(2)], of t]
    by (rule wp_mono) (use that(3) in \<open>auto simp: keeps_def intro: calls.R_trans\<close>)
  have parts: "wp (run_parts Cp Cv pvs_first) (\<lambda>_ t. outside s t) t" if "?I t" for t
    unfolding run_parts_def
    by (rule calls.fw_attempt [OF powervs_part_outside])
       (use that in \<open>auto intro!: calls.fw_frame calls.fr_attempt outside_vpc_part calls.fr_return simp: wp_return\<close>)
  let ?rest = "bindE (run_parts Cp Cv pvs_first) (\<lambda>results.
       bindE (collect K results [] False) (\<lambda>(errList, needsRequeue).
         if errList \<noteq> [] then fail (AggregateErr errList)
         else if needsRequeue then ok \<lparr>RequeueAfter = 30\<rparr>
         else reconcile_gateway_on K C))"
  let ?group = "bindW msg_failed_reconcile_resource_group (ReconcileResourceGroup C) (\<lambda>_. ?rest)"
  have rest: "wp ?rest (\<lambda>_ t. outside s t) t" if "?I t" for t
    by (rule calls.fw_attempt [OF parts [OF that]])
       (auto intro!: calls.fw_frame calls.fr_rules outside_collect outside_gateway_on simp: wp_return split: prod.splits)
  have group: "wp ?group (\<lambda>_ t. outside s t) t" if "?I t" for t
    unfolding wp_attempt [of "ReconcileResourceGroup C"]
    by (rule wp_mono [OF step [OF outside_zone_and_group(2) keep(2) that]]) (use rest in \<open>auto simp: wp_return\<close>)
  have "?I s" using assms by (simp add: calls.R_refl)
  then have "wp (bindW msg_failed_validate_per_capability_powervs (ValidateZoneSupportsPER C) (\<lambda>_. ?group)) (\<lambda>_ t. outside s t) s"
    unfolding wp_attempt [of "ValidateZoneSupportsPER C"]
    by (intro wp_mono [OF step [OF outside_zone_and_group(1) keep(1)]]) (use group in \<open>auto simp: wp_return\<close>)
  then show ?thesis
    unfolding reconcile_def wp_bind [of get_scope] wp_get wp_if by (simp add: wp_bind wp_set_status wp_return set_provisioned_def outside_same)
qed

lemma wp_new_service [wp_simps]:
  "wp (new_service S req) Q reqs = Q (case sdk_NewService S req of Fail e _ \<Rightarrow> Err e | Reply _ \<Rightarrow> Ok ()) (reqs @ [req])"
  by (simp add: new_service_def wp_simps)

lemma wp_GetVPCClient [wp_simps]:
  "wp (GetVPCClient S opts) Q reqs =
     (if options_VPCRegion opts = [] then Q (Err (Errorf msg_vpc_region_not_set)) reqs
      else Q (case sdk_NewService S (VPCService (FetchVPCEndpoint (options_VPCRegion opts) (options_ServiceEndpoint opts))) of
                Fail e _ \<Rightarrow> Err e | Reply _ \<Rightarrow> Ok ())
             (reqs @ [VPCService (FetchVPCEndpoint (options_VPCRegion opts) (options_ServiceEndpoint opts))]))"
  by (simp add: GetVPCClient_def wp_simps)

text \<open>A scope that was built is empty but for the object, and its PowerVS client is for the recorded workspace.\<close>

definition made_for :: "IBMPowerVSCluster \<Rightarrow> service_request list \<Rightarrow> bool" where
  "made_for c reqs \<longleftrightarrow> (\<exists>url. PowerVSService url (Spec_Zone (Cluster_Spec c)) (ResourceReference_ID (Status_Workspace (Cluster_Status c))) \<in> set reqs)"

lemma initClients_result: "wp (cluster_initClients S eps c) (\<lambda>r reqs. r = Ok () \<longrightarrow> made_for c reqs) reqs"
  unfolding cluster_initClients_def GetResourceControllerClient_def GetResourceManagerClient_def GetPowerVSClient_def GetTransitGatewayClient_def Let_def
  by (auto simp: wp_simps made_for_def cluster_options_def)

lemma NewPowerVSClusterScope_result:
  "wp (NewPowerVSClusterScope S eps h c port) (\<lambda>r reqs. \<forall>s. r = Ok s \<longrightarrow> trace s = [] \<and> scope_cluster s = c \<and>
     (Spec_Topology (Cluster_Spec c) = PowerVSVirtualIPTopology \<or> made_for c reqs)) reqs"
  unfolding NewPowerVSClusterScope_def
  by (auto simp: wp_simps Let_def split: outcome.splits reply.splits intro!: wp_mono [OF initClients_result])

lemma deferred_patch_trace: "trace (snd (cluster_deferred_patch W before x)) = trace (snd x)"
  by (auto simp: cluster_deferred_patch_def split: prod.splits outcome.splits)

lemma virtual_ip_silent:
  "Spec_Topology (spec s) = PowerVSVirtualIPTopology \<Longrightarrow> trace (snd (run_state (reconcile K C Cp Cv b) s)) = trace s"
  by (rule wp_final) (simp add: reconcile_def wp_simps set_provisioned_def)

text \<open>
  C16: the PowerVS client of a reconcile is made for the workspace recorded when the scope is built, and no
  call of the client that needs a workspace is made unless one was recorded then: a workspace found or
  created in the run is used in the next one only.
\<close>

theorem workspace_client_scoped:
  assumes "cluster_Reconcile K W S eps C Cp Cv pvs_first = (r, reqs, Some t)" and "cu_Get W = Reply (c, False)"
    and "x \<in> set (trace t)" and "in_workspace x"
  shows "\<exists>url ws. ws \<noteq> [] \<and> ws = ResourceReference_ID (Status_Workspace (Cluster_Status c)) \<and>
     PowerVSService url (Spec_Zone (Cluster_Spec c)) ws \<in> set reqs"
proof -
  obtain port where "cluster_scoped K W S eps C Cp Cv pvs_first c False port = (r, reqs, Some t)"
    using assms(1,2) by (auto simp: cluster_Reconcile_def split: reply.splits option.splits bool.splits prod.splits if_splits)
  then obtain s where s: "run_state (NewPowerVSClusterScope S eps (cu_NewHelper W) c port) [] = (Ok s, reqs)"
    and t: "t = snd (cluster_deferred_patch W c (run_state (reconcile K C Cp Cv pvs_first) s))"
    by (auto simp: cluster_scoped_def split: outcome.splits reply.splits prod.splits)
  have start: "trace s = []" "scope_cluster s = c" "Spec_Topology (Cluster_Spec c) = PowerVSVirtualIPTopology \<or> made_for c reqs"
    using wpD [OF NewPowerVSClusterScope_result s] by simp_all
  let ?t = "snd (run_state (reconcile K C Cp Cv pvs_first) s)"
  have x: "x \<in> set (trace ?t)" using assms(3) t by (simp add: deferred_patch_trace)
  have "workspace_id s \<noteq> []"
  proof
    assume "workspace_id s = []"
    from wp_final [OF reconcile_outside [OF this]] have "outside s ?t" .
    with x assms(4) start(1) show False by (auto simp: calls_in_def list_all_iff)
  qed
  moreover have "made_for c reqs"
  proof (rule ccontr)
    assume "\<not> made_for c reqs"
    with start(2,3) have "Spec_Topology (spec s) = PowerVSVirtualIPTopology" by (auto simp: spec_def)
    from virtual_ip_silent [OF this] start(1) have "trace ?t = []" by simp
    with x show False by simp
  qed
  ultimately show ?thesis using start(2) by (auto simp: made_for_def status_def)
qed

section \<open>Witness\<close>

definition example_util :: cluster_util where
  "example_util = \<lparr>cu_Get = Reply (scope_cluster settled, False), cu_EnsureFinalizer = \<lambda>_. Reply False, cu_GetOwnerCluster = \<lambda>_. Reply (Some 8),
     cu_EnsurePaused = \<lambda>_. Reply (False, False), cu_NewHelper = \<lambda>_. Reply (), cu_SetSummary = \<lambda>cs _ _ _ _. Reply cs, cu_Patch = \<lambda>_ _ _. Reply ()\<rparr>"

definition example_sdk :: sdk where
  "example_sdk = \<lparr>sdk_Authenticator = Reply (), sdk_Properties = Reply [''APIKEY'' \<mapsto> ''k''], sdk_NewService = \<lambda>_. Reply ()\<rparr>"

text \<open>What was called before the rest of a run is in its trace at the end.\<close>

lemma called_before:
  assumes "run_state m s = (Ok x, u)" and "state_io_rel outside (k x)" and "c \<in> set (trace u)"
  shows "c \<in> set (trace (snd (run_state (attempt m h k) s)))"
proof -
  have "outside u (snd (run_state (k x) u))" using calls.wp_frame [OF assms(2)] by (rule wp_final)
  with assms(3) show ?thesis by (auto simp: run_bindE [OF assms(1)] calls_in_def)
qed

lemma example_asks_network: "PVS (GetNetworkByID_call ''net'') \<in> set (trace after_powervs)"
proof -
  have "list_ex (\<lambda>c. c = PVS (GetNetworkByID_call ''net'')) (trace after_powervs)" by code_simp
  then show ?thesis by (simp add: list_ex_iff)
qed

lemma example_in_workspace:
  "PVS (GetNetworkByID_call ''net'') \<in> set (trace (snd (run_state (reconcile example_capi example_cloud example_cloud example_cloud True) settled)))"
proof -
  have "PVS (GetNetworkByID_call ''net'') \<in> set (trace after_vpc)"
    using calls.wp_frame [OF outside_vpc_part, of example_cloud after_powervs] example_asks_network
    by (auto simp: after_vpc_def calls_in_def dest: wp_final)
  then show ?thesis
    unfolding reconcile_def
    by (simp add: topology_stage run_bindE [OF run_step, OF zone_stage(1)] run_bindE [OF run_step, OF zone_stage(2)] after_group_def [symmetric])
       (rule called_before [OF example_parts], intro calls.fr_rules outside_collect outside_gateway_on, simp_all)
qed

theorem workspace_client_scoped_witness:
  "\<exists>url. PowerVSService url ''dal10'' ''ws'' \<in> set (fst (snd (cluster_Reconcile example_capi example_util example_sdk [] example_cloud example_cloud example_cloud True)))"
proof -
  let ?x = "cluster_Reconcile example_capi example_util example_sdk [] example_cloud example_cloud example_cloud True"
  let ?t = "snd (cluster_deferred_patch example_util (scope_cluster settled) (run_state (reconcile example_capi example_cloud example_cloud example_cloud True) settled))"
  have "fst (run_state (NewPowerVSClusterScope example_sdk [] (cu_NewHelper example_util) (scope_cluster settled) 8) []) = Ok settled" by code_simp
  then obtain reqs where "run_state (NewPowerVSClusterScope example_sdk [] (cu_NewHelper example_util) (scope_cluster settled) 8) [] = (Ok settled, reqs)"
    by (cases "run_state (NewPowerVSClusterScope example_sdk [] (cu_NewHelper example_util) (scope_cluster settled) 8) []") simp
  moreover have get: "cu_Get example_util = Reply (scope_cluster settled, False)" "cu_EnsureFinalizer example_util c = Reply False"
    "cu_GetOwnerCluster example_util c = Reply (Some 8)" "cu_EnsurePaused example_util c = Reply (False, False)" "cu_NewHelper example_util c = Reply ()" for c
    by (simp_all add: example_util_def)
  ultimately have x: "?x = (fst ?x, fst (snd ?x), Some ?t)"
    by (simp add: cluster_Reconcile_def cluster_scoped_def Let_def split: prod.splits)
  have "PVS (GetNetworkByID_call ''net'') \<in> set (trace ?t)" using example_in_workspace by (simp add: deferred_patch_trace)
  from workspace_client_scoped [OF x get(1) this] show ?thesis
    by (simp add: in_workspace_def scope_of_def example_spec_def settled_status_def)
qed

end
