(* ===== verification/V1beta2_Types.thy ===== *)
theory V1beta2_Types
  imports Machine_Types
begin

text \<open>
  The \<^verbatim>\<open>v1beta2\<close> API types of PowerVS (\<^verbatim>\<open>api/powervs/v1beta2\<close>), which older clients still read and
  write. The conventions are those of the \<^verbatim>\<open>v1beta3\<close> types: a struct is a record with its fields in
  order, a pointer an option. A type that has the name of a \<^verbatim>\<open>v1beta3\<close> type has a 2 at the end. String
  enumerations have the same strings in both versions and share their datatypes. A nil slice or map
  and an empty one are one value, as they are in the encoded object.
\<close>

section \<open>References\<close>

record IBMPowerVSResourceReference =
  PVSRef_ID :: "string option"
  PVSRef_Name :: "string option"
  PVSRef_RegEx :: "string option"

record ResourceReference2 =
  ResourceReference2_ID :: "string option"
  ResourceReference2_ControllerCreated :: "bool option"

record VPCResourceReference =
  VPCRef_ID :: "string option"
  VPCRef_Name :: "string option"
  VPCRef_Region :: "string option"

record VPCResource =
  VPCResource_ID :: "string option"
  VPCResource_Name :: "string option"

section \<open>The spec of a cluster\<close>

record DHCPServer2 =
  DHCPServer2_Cidr :: "string option"
  DHCPServer2_DNSServer :: "string option"
  DHCPServer2_Name :: "string option"
  DHCPServer2_ID :: "string option"
  DHCPServer2_Snat :: "bool option"

record TransitGateway2 =
  TransitGateway2_Name :: "string option"
  TransitGateway2_ID :: "string option"
  TransitGateway2_GlobalRouting :: "bool option"

record CosInstance =
  CosInstance_Name :: string
  CosInstance_BucketName :: string
  CosInstance_BucketRegion :: string

record Subnet2 =
  Subnet2_Ipv4CidrBlock :: "string option"
  Subnet2_Name :: "string option"
  Subnet2_ID :: "string option"
  Subnet2_Zone :: "string option"

record AdditionalListenerSpec =
  ListenerSpec_DefaultPoolName :: "string option"
  ListenerSpec_Port :: int
  ListenerSpec_Protocol :: "string option"
  ListenerSpec_Selector :: LabelSelector

record VPCLoadBalancerHealthMonitorSpec =
  MonitorSpec_Delay :: int
  MonitorSpec_Retries :: int
  MonitorSpec_Port :: "int option"
  MonitorSpec_Timeout :: int
  MonitorSpec_Type :: string
  MonitorSpec_URLPath :: "string option"

record VPCLoadBalancerBackendPoolSpec =
  PoolSpec_Name :: "string option"
  PoolSpec_Algorithm :: string
  PoolSpec_HealthMonitor :: VPCLoadBalancerHealthMonitorSpec
  PoolSpec_Protocol :: string

record VPCLoadBalancerSpec =
  LBSpec_Name :: string
  LBSpec_ID :: "string option"
  LBSpec_Public :: "bool option"
  LBSpec_AdditionalListeners :: "AdditionalListenerSpec list"
  LBSpec_BackendPools :: "VPCLoadBalancerBackendPoolSpec list"
  LBSpec_SecurityGroups :: "VPCResource list"
  LBSpec_Subnets :: "VPCResource list"

record VPCSecurityGroupRuleRemote2 =
  Remote2_CIDRSubnetName :: "string option"
  Remote2_Address :: "string option"
  Remote2_RemoteType :: VPCSecurityGroupRuleRemoteType
  Remote2_SecurityGroupName :: "string option"

record VPCSecurityGroupRulePrototype2 =
  Prototype2_ICMPCode :: "int option"
  Prototype2_ICMPType :: "int option"
  Prototype2_PortRange :: "VPCSecurityGroupPortRange option"
  Prototype2_Protocol :: VPCSecurityGroupRuleProtocol
  Prototype2_Remotes :: "VPCSecurityGroupRuleRemote2 list"

record VPCSecurityGroupRule2 =
  Rule2_Destination :: "VPCSecurityGroupRulePrototype2 option"
  Rule2_Direction :: VPCSecurityGroupRuleDirection
  Rule2_SecurityGroupID :: "string option"
  Rule2_Source :: "VPCSecurityGroupRulePrototype2 option"

record VPCSecurityGroup =
  SecurityGroup2_ID :: "string option"
  SecurityGroup2_Name :: "string option"
  SecurityGroup2_Rules :: "VPCSecurityGroupRule2 option list"
  SecurityGroup2_Tags :: "string option list"

record IBMPowerVSClusterSpec2 =
  Spec2_ServiceInstanceID :: string
  Spec2_Network :: IBMPowerVSResourceReference
  Spec2_DHCPServer :: "DHCPServer2 option"
  Spec2_ControlPlaneEndpoint :: APIEndpoint
  Spec2_ServiceInstance :: "IBMPowerVSResourceReference option"
  Spec2_Zone :: "string option"
  Spec2_ResourceGroup :: "IBMPowerVSResourceReference option"
  Spec2_VPC :: "VPCResourceReference option"
  Spec2_VPCSubnets :: "Subnet2 list"
  Spec2_VPCSecurityGroups :: "VPCSecurityGroup list"
  Spec2_TransitGateway :: "TransitGateway2 option"
  Spec2_LoadBalancers :: "VPCLoadBalancerSpec list"
  Spec2_CosInstance :: "CosInstance option"
  Spec2_Ignition :: "Ignition option"

section \<open>The status of a cluster\<close>

record TransitGatewayStatus2 =
  TGStatus2_ID :: "string option"
  TGStatus2_ControllerCreated :: "bool option"
  TGStatus2_VPCConnection :: "ResourceReference2 option"
  TGStatus2_PowerVSConnection :: "ResourceReference2 option"

record VPCSecurityGroupStatus2 =
  SGStatus2_ID :: "string option"
  SGStatus2_RuleIDs :: "string option list"
  SGStatus2_ControllerCreated :: "bool option"

record VPCLoadBalancerStatus =
  LBStatus2_ID :: "string option"
  LBStatus2_State :: string
  LBStatus2_Hostname :: "string option"
  LBStatus2_ControllerCreated :: "bool option"

text \<open>The legacy conditions have the fields of the deprecated conditions of \<^verbatim>\<open>v1beta3\<close>; \<open>V1Beta2\<close> is the
  pointer to the new ones.\<close>

record IBMPowerVSClusterStatus2 =
  Status2_Ready :: bool
  Status2_ResourceGroup :: "ResourceReference2 option"
  Status2_ServiceInstance :: "ResourceReference2 option"
  Status2_Network :: "ResourceReference2 option"
  Status2_DHCPServer :: "ResourceReference2 option"
  Status2_VPC :: "ResourceReference2 option"
  Status2_VPCSubnet :: "string \<rightharpoonup> ResourceReference2"
  Status2_VPCSecurityGroups :: "string \<rightharpoonup> VPCSecurityGroupStatus2"
  Status2_TransitGateway :: "TransitGatewayStatus2 option"
  Status2_COSInstance :: "ResourceReference2 option"
  Status2_LoadBalancers :: "string \<rightharpoonup> VPCLoadBalancerStatus"
  Status2_Conditions :: "DeprecatedCondition list"
  Status2_V1Beta2 :: "Condition list option"

section \<open>Machines and images\<close>

record IBMPowerVSMachineSpec2 =
  MachineSpec2_ServiceInstanceID :: string
  MachineSpec2_ServiceInstance :: "IBMPowerVSResourceReference option"
  MachineSpec2_SSHKey :: string
  MachineSpec2_Image :: "IBMPowerVSResourceReference option"
  MachineSpec2_ImageRef :: "string option"
  MachineSpec2_SystemType :: string
  MachineSpec2_ProcessorType :: string
  MachineSpec2_Processors :: IntOrString
  MachineSpec2_MemoryGiB :: int
  MachineSpec2_Network :: IBMPowerVSResourceReference
  MachineSpec2_ProviderID :: "string option"

record IBMPowerVSMachineStatus2 =
  MachineStatus2_InstanceID :: string
  MachineStatus2_Ready :: bool
  MachineStatus2_Addresses :: "MachineAddress list"
  MachineStatus2_Health :: string
  MachineStatus2_InstanceState :: PowerVSInstanceState
  MachineStatus2_Fault :: string
  MachineStatus2_FailureReason :: "string option"
  MachineStatus2_FailureMessage :: "string option"
  MachineStatus2_Conditions :: "DeprecatedCondition list"
  MachineStatus2_Region :: "string option"
  MachineStatus2_Zone :: "string option"
  MachineStatus2_V1Beta2 :: "Condition list option"

record IBMPowerVSImageSpec2 =
  ImageSpec2_ClusterName :: string
  ImageSpec2_ServiceInstanceID :: string
  ImageSpec2_ServiceInstance :: "IBMPowerVSResourceReference option"
  ImageSpec2_Bucket :: "string option"
  ImageSpec2_Object :: "string option"
  ImageSpec2_Region :: "string option"
  ImageSpec2_StorageType :: string
  ImageSpec2_DeletePolicy :: PowerVSImageDeletePolicy

record IBMPowerVSImageStatus2 =
  ImageStatus2_Ready :: bool
  ImageStatus2_ImageID :: string
  ImageStatus2_ImageState :: PowerVSImageState
  ImageStatus2_JobID :: string
  ImageStatus2_Conditions :: "DeprecatedCondition list"
  ImageStatus2_V1Beta2 :: "Condition list option"

section \<open>Objects\<close>

text \<open>
  An object of either version: its annotations, the rest of its metadata (which the conversions copy),
  the spec and the status. A template has the labels and annotations of what is made from it.
\<close>

type_synonym annotations = "string \<rightharpoonup> string"

record ObjectMeta =
  Meta_Name :: string
  Meta_Namespace :: string
  Meta_Labels :: "string \<rightharpoonup> string"
  Meta_Finalizers :: "string list"

record ('spec, 'status) api_object =
  Object_Annotations :: annotations
  Object_Meta :: ObjectMeta
  Object_Spec :: 'spec
  Object_Status :: 'status

record template_meta =
  TemplateMeta_Labels :: "string \<rightharpoonup> string"
  TemplateMeta_Annotations :: annotations

section \<open>Pointers\<close>

text \<open>
  The zero value for nil, and nil for the zero value: \<open>ptr.Deref\<close> with the zero value, and what the
  conversions do with a string that is not to become a pointer to the empty string.
\<close>

definition str_Deref :: "string option \<Rightarrow> string" where
  "str_Deref p = (case p of None \<Rightarrow> [] | Some v \<Rightarrow> v)"

definition ptr_to :: "string \<Rightarrow> string option" where
  "ptr_to v = (if v = [] then None else Some v)"

definition is_set :: "string option \<Rightarrow> bool" where
  "is_set p \<longleftrightarrow> (case p of None \<Rightarrow> False | Some v \<Rightarrow> v \<noteq> [])"

lemma str_Deref_to [simp]: "str_Deref (ptr_to v) = v"
  by (simp add: str_Deref_def ptr_to_def)

lemma is_set_Deref [simp]: "is_set p \<longleftrightarrow> str_Deref p \<noteq> []"
  by (simp add: is_set_def str_Deref_def split: option.splits)

lemma str_Deref_simps [simp]: "str_Deref None = []" "str_Deref (Some v) = v"
  by (simp_all add: str_Deref_def)

lemma ptr_to_iff [simp]: "ptr_to v = None \<longleftrightarrow> v = []" "None = ptr_to v \<longleftrightarrow> v = []"
  by (auto simp: ptr_to_def)

lemma ptr_to_Nil [simp]: "ptr_to [] = None"
  by (simp add: ptr_to_def)

end
