(* ===== verification/Conversion.thy ===== *)
theory Conversion
  imports V1beta2_Types
begin

text \<open>
  The conversion of the spec of a PowerVS cluster between \<^verbatim>\<open>v1beta2\<close> and \<^verbatim>\<open>v1beta3\<close>
  (\<^verbatim>\<open>api/powervs/v1beta2/conversion.go\<close>, with the generated field by field part of
  \<^verbatim>\<open>zz_generated.conversion.go\<close>). A Go conversion fills an output that starts as the zero value; here it
  returns it. None of these conversions can fail.

  The two versions do not have the same content: a union of \<^verbatim>\<open>v1beta3\<close> has to be guessed from the pointers
  of \<^verbatim>\<open>v1beta2\<close>. The locale \<open>stable_conversion\<close> states what such a pair still promises: what was once
  converted up does not change any more on the way down and up again. It is interpreted by every part.
\<close>

section \<open>What a pair of conversions promises\<close>

locale stable_conversion =
  fixes up :: "'a \<Rightarrow> 'b" and down :: "'b \<Rightarrow> 'a" and ok :: "'a \<Rightarrow> bool"
  assumes stable: "ok x \<Longrightarrow> up (down (up x)) = up x"
    and down_ok: "ok (down y)"
begin

lemma survives_iff: "up (down y) = y \<longleftrightarrow> (\<exists>x. ok x \<and> y = up x)"
  using stable down_ok by metis

lemma settled: "up (down (up (down y))) = up (down y)"
  using stable down_ok by blast

lemma stable_list: "list_all ok xs \<Longrightarrow> map (\<lambda>x. up (down (up x))) xs = map up xs"
  by (simp add: list_all_iff stable)

lemma stable_opt: "pred_option ok p \<Longrightarrow> map_option up (map_option down (map_option up p)) = map_option up p"
  by (cases p) (simp_all add: stable)

lemma down_ok_list: "list_all ok (map down ys)"
  by (simp add: list_all_iff down_ok)

end

abbreviation always :: "'a \<Rightarrow> bool" where "always \<equiv> \<lambda>_. True"

section \<open>Zero values\<close>

definition no_source :: SourceType where "no_source = OtherSourceType []"

definition zero_identifier :: ResourceIdentifier where
  "zero_identifier = \<lparr>ResourceIdentifier_ID = [], ResourceIdentifier_Name = []\<rparr>"

definition zero_DHCPServer :: DHCPServer where
  "zero_DHCPServer = \<lparr>DHCPServer_Name = [], DHCPServer_CIDR = [], DHCPServer_DNSServer = [], DHCPServer_Snat = OtherSnatPolicy []\<rparr>"

definition zero_NetworkSource :: NetworkSource where
  "zero_NetworkSource = \<lparr>NetworkSource_Type = no_source, NetworkSource_Reference = zero_identifier,
     NetworkSource_Provision = \<lparr>NetworkProvisionConfig_DHCPServer = zero_DHCPServer\<rparr>\<rparr>"

definition zero_WorkspaceSource :: WorkspaceSource where
  "zero_WorkspaceSource = \<lparr>WorkspaceSource_Type = no_source, WorkspaceSource_Reference = zero_identifier,
     WorkspaceSource_Provision = \<lparr>WorkspaceProvisionConfig_Name = []\<rparr>\<rparr>"

definition zero_ResourceGroupSource :: ResourceGroupSource where
  "zero_ResourceGroupSource = \<lparr>ResourceGroupSource_Type = no_source, ResourceGroupSource_Reference = zero_identifier\<rparr>"

definition zero_ConnectionSource :: TransitGatewayConnectionSource where
  "zero_ConnectionSource = \<lparr>TransitGatewayConnectionSource_Type = no_source, TransitGatewayConnectionSource_Reference = zero_identifier,
     TransitGatewayConnectionSource_Provision = \<lparr>TransitGatewayConnectionProvision_Name = []\<rparr>\<rparr>"

definition zero_TransitGatewaySource :: TransitGatewaySource where
  "zero_TransitGatewaySource = \<lparr>TransitGatewaySource_Type = no_source, TransitGatewaySource_Reference = zero_identifier,
     TransitGatewaySource_Provision = \<lparr>TransitGatewayProvision_Name = [], TransitGatewayProvision_GlobalRouting = OtherRouting []\<rparr>,
     TransitGatewaySource_VPCConnection = zero_ConnectionSource, TransitGatewaySource_PowerVSConnection = zero_ConnectionSource\<rparr>"

definition zero_VPCSource :: VPCSource where
  "zero_VPCSource = \<lparr>VPCSource_Type = no_source, VPCSource_Region = [], VPCSource_Reference = zero_identifier,
     VPCSource_Provision = \<lparr>VPCProvision_Name = []\<rparr>\<rparr>"

definition zero_LoadBalancerProvision :: LoadBalancerProvision where
  "zero_LoadBalancerProvision = \<lparr>LoadBalancerProvision_Name = [], LoadBalancerProvision_Type = OtherLBType [],
     LoadBalancerProvision_AdditionalListeners = [], LoadBalancerProvision_BackendPools = [],
     LoadBalancerProvision_SecurityGroups = [], LoadBalancerProvision_Subnets = []\<rparr>"

definition zero_LoadBalancerSource :: LoadBalancerSource where
  "zero_LoadBalancerSource = \<lparr>LoadBalancerSource_Type = no_source, LoadBalancerSource_Reference = zero_identifier,
     LoadBalancerSource_Provision = zero_LoadBalancerProvision\<rparr>"

definition zero_COSInstanceSource :: COSInstanceSource where
  "zero_COSInstanceSource = \<lparr>COSInstanceSource_Type = no_source, COSInstanceSource_BucketName = [], COSInstanceSource_BucketRegion = [],
     COSInstanceSource_Reference = zero_identifier, COSInstanceSource_Provision = \<lparr>COSInstanceProvision_Name = []\<rparr>\<rparr>"

definition zero_Prototype :: VPCSecurityGroupRulePrototype where
  "zero_Prototype = \<lparr>VPCSecurityGroupRulePrototype_ICMPCode = None, VPCSecurityGroupRulePrototype_ICMPType = None,
     VPCSecurityGroupRulePrototype_PortRange = \<lparr>VPCSecurityGroupPortRange_MaximumPort = 0, VPCSecurityGroupPortRange_MinimumPort = 0\<rparr>,
     VPCSecurityGroupRulePrototype_Protocol = OtherProtocol [], VPCSecurityGroupRulePrototype_Remotes = []\<rparr>"

definition zero_SecurityGroupSource :: VPCSecurityGroupSource where
  "zero_SecurityGroupSource = \<lparr>VPCSecurityGroupSource_Type = no_source, VPCSecurityGroupSource_Reference = zero_identifier,
     VPCSecurityGroupSource_Provision = \<lparr>VPCSecurityGroupProvision_Name = [], VPCSecurityGroupProvision_Rules = [], VPCSecurityGroupProvision_Tags = []\<rparr>\<rparr>"

definition zero_LBSpec :: VPCLoadBalancerSpec where
  "zero_LBSpec = \<lparr>LBSpec_Name = [], LBSpec_ID = None, LBSpec_Public = None, LBSpec_AdditionalListeners = [], LBSpec_BackendPools = [],
     LBSpec_SecurityGroups = [], LBSpec_Subnets = []\<rparr>"

definition zero_SecurityGroup2 :: VPCSecurityGroup where
  "zero_SecurityGroup2 = \<lparr>SecurityGroup2_ID = None, SecurityGroup2_Name = None, SecurityGroup2_Rules = [], SecurityGroup2_Tags = []\<rparr>"

lemmas zero_defs = no_source_def zero_identifier_def zero_DHCPServer_def zero_NetworkSource_def zero_WorkspaceSource_def
  zero_ResourceGroupSource_def zero_ConnectionSource_def zero_TransitGatewaySource_def zero_VPCSource_def
  zero_LoadBalancerProvision_def zero_LoadBalancerSource_def zero_COSInstanceSource_def zero_Prototype_def
  zero_SecurityGroupSource_def zero_LBSpec_def zero_SecurityGroup2_def

section \<open>Identifiers\<close>

definition IBMPowerVSResourceReference_To_ResourceIdentifier :: "IBMPowerVSResourceReference \<Rightarrow> ResourceIdentifier" where
  "IBMPowerVSResourceReference_To_ResourceIdentifier r =
     \<lparr>ResourceIdentifier_ID = (if is_set (PVSRef_ID r) then str_Deref (PVSRef_ID r) else []),
      ResourceIdentifier_Name = (if is_set (PVSRef_Name r) then str_Deref (PVSRef_Name r) else [])\<rparr>"

definition ResourceIdentifier_To_IBMPowerVSResourceReference :: "ResourceIdentifier \<Rightarrow> IBMPowerVSResourceReference" where
  "ResourceIdentifier_To_IBMPowerVSResourceReference r =
     \<lparr>PVSRef_ID = ptr_to (ResourceIdentifier_ID r), PVSRef_Name = ptr_to (ResourceIdentifier_Name r), PVSRef_RegEx = None\<rparr>"

lemma identifier_ref [simp]:
  "IBMPowerVSResourceReference_To_ResourceIdentifier (ResourceIdentifier_To_IBMPowerVSResourceReference r) = r"
  by (simp add: IBMPowerVSResourceReference_To_ResourceIdentifier_def ResourceIdentifier_To_IBMPowerVSResourceReference_def)

section \<open>DHCP server\<close>

definition DHCPServer_To_v1beta3 :: "DHCPServer2 \<Rightarrow> DHCPServer" where
  "DHCPServer_To_v1beta3 d =
     \<lparr>DHCPServer_Name = str_Deref (DHCPServer2_Name d), DHCPServer_CIDR = str_Deref (DHCPServer2_Cidr d),
      DHCPServer_DNSServer = str_Deref (DHCPServer2_DNSServer d),
      DHCPServer_Snat = (case DHCPServer2_Snat d of None \<Rightarrow> OtherSnatPolicy []
         | Some b \<Rightarrow> if b then DHCPSnatPolicyEnabled else DHCPSnatPolicyDisabled)\<rparr>"

definition DHCPServer_To_v1beta2 :: "DHCPServer \<Rightarrow> DHCPServer2" where
  "DHCPServer_To_v1beta2 d =
     \<lparr>DHCPServer2_Cidr = ptr_to (DHCPServer_CIDR d), DHCPServer2_DNSServer = ptr_to (DHCPServer_DNSServer d),
      DHCPServer2_Name = ptr_to (DHCPServer_Name d), DHCPServer2_ID = None,
      DHCPServer2_Snat = (if DHCPServer_Snat d = OtherSnatPolicy [] then None else Some (DHCPServer_Snat d = DHCPSnatPolicyEnabled))\<rparr>"

interpretation dhcp: stable_conversion DHCPServer_To_v1beta3 DHCPServer_To_v1beta2 always
  by unfold_locales (auto simp: DHCPServer_To_v1beta3_def DHCPServer_To_v1beta2_def split: option.splits)

section \<open>Transit gateway\<close>

definition TransitGateway_To_v1beta3 :: "TransitGateway2 \<Rightarrow> TransitGatewaySource" where
  "TransitGateway_To_v1beta3 t =
     (let name = str_Deref (TransitGateway2_Name t); z = zero_TransitGatewaySource in
      if is_set (TransitGateway2_ID t) then
        z\<lparr>TransitGatewaySource_Type := SourceTypeReference,
          TransitGatewaySource_Reference := \<lparr>ResourceIdentifier_ID = str_Deref (TransitGateway2_ID t), ResourceIdentifier_Name = name\<rparr>\<rparr>
      else case TransitGateway2_GlobalRouting t of
        Some g \<Rightarrow>
          z\<lparr>TransitGatewaySource_Type := SourceTypeProvision,
            TransitGatewaySource_Provision := \<lparr>TransitGatewayProvision_Name = name,
              TransitGatewayProvision_GlobalRouting = (if g then TransitGatewayRoutingGlobal else TransitGatewayRoutingLocal)\<rparr>\<rparr>
      | None \<Rightarrow>
          if is_set (TransitGateway2_Name t) then
            z\<lparr>TransitGatewaySource_Type := SourceTypeReference,
              TransitGatewaySource_Reference := \<lparr>ResourceIdentifier_ID = [], ResourceIdentifier_Name = name\<rparr>\<rparr>
          else z)"

definition tg_reference :: "TransitGatewaySource \<Rightarrow> TransitGateway2" where
  "tg_reference t = \<lparr>TransitGateway2_Name = ptr_to (ResourceIdentifier_Name (TransitGatewaySource_Reference t)),
     TransitGateway2_ID = ptr_to (ResourceIdentifier_ID (TransitGatewaySource_Reference t)), TransitGateway2_GlobalRouting = None\<rparr>"

definition tg_provision :: "TransitGatewaySource \<Rightarrow> TransitGateway2" where
  "tg_provision t =
     (let p = TransitGatewaySource_Provision t; g = TransitGatewayProvision_GlobalRouting p in
      \<lparr>TransitGateway2_Name = ptr_to (TransitGatewayProvision_Name p), TransitGateway2_ID = None,
       TransitGateway2_GlobalRouting = (if g = OtherRouting [] then None else Some (g = TransitGatewayRoutingGlobal))\<rparr>)"

definition zero_TransitGateway2 :: TransitGateway2 where
  "zero_TransitGateway2 = \<lparr>TransitGateway2_Name = None, TransitGateway2_ID = None, TransitGateway2_GlobalRouting = None\<rparr>"

definition TransitGatewaySource_To_v1beta2 :: "TransitGatewaySource \<Rightarrow> TransitGateway2" where
  "TransitGatewaySource_To_v1beta2 t =
     (if TransitGatewaySource_Type t = no_source then
        (if TransitGatewaySource_Reference t \<noteq> zero_identifier then tg_reference t
         else if TransitGatewayProvision_Name (TransitGatewaySource_Provision t) \<noteq> []
           \<or> TransitGatewayProvision_GlobalRouting (TransitGatewaySource_Provision t) \<noteq> OtherRouting [] then tg_provision t
         else zero_TransitGateway2)
      else case TransitGatewaySource_Type t of
        SourceTypeReference \<Rightarrow> tg_reference t
      | SourceTypeProvision \<Rightarrow> tg_provision t
      | OtherSourceType _ \<Rightarrow> zero_TransitGateway2)"

lemmas tg_conversion_defs = TransitGateway_To_v1beta3_def TransitGatewaySource_To_v1beta2_def tg_reference_def tg_provision_def
  zero_TransitGateway2_def zero_defs Let_def

lemma tg_stable: "TransitGateway_To_v1beta3 (TransitGatewaySource_To_v1beta2 (TransitGateway_To_v1beta3 t)) = TransitGateway_To_v1beta3 t"
proof (cases "is_set (TransitGateway2_ID t)")
  case True
  then show ?thesis by (simp add: tg_conversion_defs)
next
  case False
  then show ?thesis
    by (cases "TransitGateway2_GlobalRouting t"; cases "is_set (TransitGateway2_Name t)") (simp_all add: tg_conversion_defs)
qed

interpretation tg: stable_conversion TransitGateway_To_v1beta3 TransitGatewaySource_To_v1beta2 always
  by unfold_locales (simp_all add: tg_stable)

section \<open>VPC and subnets\<close>

definition VPCResourceReference_To_v1beta3 :: "VPCResourceReference \<Rightarrow> VPCSource" where
  "VPCResourceReference_To_v1beta3 v =
     (let name = str_Deref (VPCRef_Name v); z = zero_VPCSource\<lparr>VPCSource_Region := str_Deref (VPCRef_Region v)\<rparr> in
      if is_set (VPCRef_ID v) then
        z\<lparr>VPCSource_Type := SourceTypeReference, VPCSource_Reference := \<lparr>ResourceIdentifier_ID = str_Deref (VPCRef_ID v), ResourceIdentifier_Name = name\<rparr>\<rparr>
      else z\<lparr>VPCSource_Type := SourceTypeProvision, VPCSource_Provision := \<lparr>VPCProvision_Name = name\<rparr>\<rparr>)"

definition VPCSource_To_v1beta2 :: "VPCSource \<Rightarrow> VPCResourceReference" where
  "VPCSource_To_v1beta2 v =
     (let r = VPCSource_Reference v; provisioned = VPCProvision_Name (VPCSource_Provision v) in
      \<lparr>VPCRef_ID = ptr_to (ResourceIdentifier_ID r),
       VPCRef_Name = (case VPCSource_Type v of
           SourceTypeReference \<Rightarrow> ptr_to (ResourceIdentifier_Name r)
         | _ \<Rightarrow> if provisioned \<noteq> [] then Some provisioned else ptr_to (ResourceIdentifier_Name r)),
       VPCRef_Region = ptr_to (VPCSource_Region v)\<rparr>)"

lemmas vpc_conversion_defs = VPCResourceReference_To_v1beta3_def VPCSource_To_v1beta2_def zero_defs Let_def

interpretation vpc_ref: stable_conversion VPCResourceReference_To_v1beta3 VPCSource_To_v1beta2 always
  by unfold_locales (auto simp: vpc_conversion_defs)

definition Subnet_To_v1beta3 :: "Subnet2 \<Rightarrow> VPCSubnetSource" where
  "Subnet_To_v1beta3 n =
     \<lparr>VPCSubnetSource_Type = (if is_set (Subnet2_ID n) then SourceTypeReference else SourceTypeProvision),
      VPCSubnetSource_Zone = str_Deref (Subnet2_Zone n),
      VPCSubnetSource_Reference =
        (if is_set (Subnet2_ID n) then \<lparr>ResourceIdentifier_ID = str_Deref (Subnet2_ID n), ResourceIdentifier_Name = str_Deref (Subnet2_Name n)\<rparr>
         else zero_identifier),
      VPCSubnetSource_Provision = \<lparr>VPCSubnetProvision_Name = (if is_set (Subnet2_ID n) then [] else str_Deref (Subnet2_Name n))\<rparr>\<rparr>"

definition VPCSubnetSource_To_v1beta2 :: "VPCSubnetSource \<Rightarrow> Subnet2" where
  "VPCSubnetSource_To_v1beta2 n =
     (let r = VPCSubnetSource_Reference n; provisioned = VPCSubnetProvision_Name (VPCSubnetSource_Provision n);
          z = \<lparr>Subnet2_Ipv4CidrBlock = None, Subnet2_Name = None, Subnet2_ID = None, Subnet2_Zone = ptr_to (VPCSubnetSource_Zone n)\<rparr> in
      case VPCSubnetSource_Type n of
        SourceTypeReference \<Rightarrow> z\<lparr>Subnet2_ID := ptr_to (ResourceIdentifier_ID r), Subnet2_Name := ptr_to (ResourceIdentifier_Name r)\<rparr>
      | SourceTypeProvision \<Rightarrow> z\<lparr>Subnet2_Name := ptr_to provisioned\<rparr>
      | OtherSourceType _ \<Rightarrow>
          if ResourceIdentifier_ID r \<noteq> [] then z\<lparr>Subnet2_ID := Some (ResourceIdentifier_ID r), Subnet2_Name := ptr_to (ResourceIdentifier_Name r)\<rparr>
          else if ResourceIdentifier_Name r \<noteq> [] then z\<lparr>Subnet2_Name := Some (ResourceIdentifier_Name r)\<rparr>
          else z\<lparr>Subnet2_Name := ptr_to provisioned\<rparr>)"

lemmas subnet_conversion_defs = Subnet_To_v1beta3_def VPCSubnetSource_To_v1beta2_def zero_defs Let_def

interpretation subnet: stable_conversion Subnet_To_v1beta3 VPCSubnetSource_To_v1beta2 always
  by unfold_locales (auto simp: subnet_conversion_defs)

section \<open>Load balancers\<close>

definition AdditionalListenerSpec_To_v1beta3 :: "AdditionalListenerSpec \<Rightarrow> AdditionalListener" where
  "AdditionalListenerSpec_To_v1beta3 l =
     \<lparr>AdditionalListener_DefaultPoolName = str_Deref (ListenerSpec_DefaultPoolName l), AdditionalListener_Port = ListenerSpec_Port l,
      AdditionalListener_Protocol = str_Deref (ListenerSpec_Protocol l), AdditionalListener_Selector = ListenerSpec_Selector l\<rparr>"

definition AdditionalListener_To_v1beta2 :: "AdditionalListener \<Rightarrow> AdditionalListenerSpec" where
  "AdditionalListener_To_v1beta2 l =
     \<lparr>ListenerSpec_DefaultPoolName = ptr_to (AdditionalListener_DefaultPoolName l), ListenerSpec_Port = AdditionalListener_Port l,
      ListenerSpec_Protocol = ptr_to (AdditionalListener_Protocol l), ListenerSpec_Selector = AdditionalListener_Selector l\<rparr>"

definition BackendPoolSpec_To_v1beta3 :: "VPCLoadBalancerBackendPoolSpec \<Rightarrow> LoadBalancerBackendPool" where
  "BackendPoolSpec_To_v1beta3 p =
     (let m = PoolSpec_HealthMonitor p in
      \<lparr>LoadBalancerBackendPool_Name = str_Deref (PoolSpec_Name p), LoadBalancerBackendPool_Algorithm = PoolSpec_Algorithm p,
       LoadBalancerBackendPool_HealthMonitor =
         \<lparr>LoadBalancerHealthMonitor_Delay = MonitorSpec_Delay m, LoadBalancerHealthMonitor_Retries = MonitorSpec_Retries m,
          LoadBalancerHealthMonitor_Port = (case MonitorSpec_Port m of None \<Rightarrow> 0 | Some n \<Rightarrow> n),
          LoadBalancerHealthMonitor_Timeout = MonitorSpec_Timeout m, LoadBalancerHealthMonitor_Type = MonitorSpec_Type m,
          LoadBalancerHealthMonitor_URLPath = str_Deref (MonitorSpec_URLPath m)\<rparr>,
       LoadBalancerBackendPool_Protocol = PoolSpec_Protocol p\<rparr>)"

definition BackendPool_To_v1beta2 :: "LoadBalancerBackendPool \<Rightarrow> VPCLoadBalancerBackendPoolSpec" where
  "BackendPool_To_v1beta2 p =
     (let m = LoadBalancerBackendPool_HealthMonitor p in
      \<lparr>PoolSpec_Name = ptr_to (LoadBalancerBackendPool_Name p), PoolSpec_Algorithm = LoadBalancerBackendPool_Algorithm p,
       PoolSpec_HealthMonitor =
         \<lparr>MonitorSpec_Delay = LoadBalancerHealthMonitor_Delay m, MonitorSpec_Retries = LoadBalancerHealthMonitor_Retries m,
          MonitorSpec_Port = (if LoadBalancerHealthMonitor_Port m \<noteq> 0 then Some (LoadBalancerHealthMonitor_Port m) else None),
          MonitorSpec_Timeout = LoadBalancerHealthMonitor_Timeout m, MonitorSpec_Type = LoadBalancerHealthMonitor_Type m,
          MonitorSpec_URLPath = ptr_to (LoadBalancerHealthMonitor_URLPath m)\<rparr>,
       PoolSpec_Protocol = LoadBalancerBackendPool_Protocol p\<rparr>)"

definition VPCResource_To_v1beta3 :: "VPCResource \<Rightarrow> ResourceIdentifier" where
  "VPCResource_To_v1beta3 r = \<lparr>ResourceIdentifier_ID = str_Deref (VPCResource_ID r), ResourceIdentifier_Name = str_Deref (VPCResource_Name r)\<rparr>"

definition ResourceIdentifier_To_VPCResource :: "ResourceIdentifier \<Rightarrow> VPCResource" where
  "ResourceIdentifier_To_VPCResource r = \<lparr>VPCResource_ID = ptr_to (ResourceIdentifier_ID r), VPCResource_Name = ptr_to (ResourceIdentifier_Name r)\<rparr>"

lemma listener_back [simp]: "AdditionalListenerSpec_To_v1beta3 (AdditionalListener_To_v1beta2 l) = l"
  by (simp add: AdditionalListenerSpec_To_v1beta3_def AdditionalListener_To_v1beta2_def)

lemma pool_back [simp]: "BackendPoolSpec_To_v1beta3 (BackendPool_To_v1beta2 p) = p"
  by (simp add: BackendPoolSpec_To_v1beta3_def BackendPool_To_v1beta2_def Let_def)

lemma vpc_resource_back [simp]: "VPCResource_To_v1beta3 (ResourceIdentifier_To_VPCResource r) = r"
  by (simp add: VPCResource_To_v1beta3_def ResourceIdentifier_To_VPCResource_def)

definition has_provision_data :: "VPCLoadBalancerSpec \<Rightarrow> bool" where
  "has_provision_data l \<longleftrightarrow> LBSpec_Public l \<noteq> None \<or> LBSpec_AdditionalListeners l \<noteq> [] \<or> LBSpec_BackendPools l \<noteq> [] \<or>
     LBSpec_SecurityGroups l \<noteq> [] \<or> LBSpec_Subnets l \<noteq> []"

definition lb_provision :: "VPCLoadBalancerSpec \<Rightarrow> LoadBalancerProvision" where
  "lb_provision l =
     \<lparr>LoadBalancerProvision_Name = LBSpec_Name l,
      LoadBalancerProvision_Type = (case LBSpec_Public l of None \<Rightarrow> OtherLBType []
         | Some b \<Rightarrow> if b then LoadBalancerTypePublic else LoadBalancerTypePrivate),
      LoadBalancerProvision_AdditionalListeners = map AdditionalListenerSpec_To_v1beta3 (LBSpec_AdditionalListeners l),
      LoadBalancerProvision_BackendPools = map BackendPoolSpec_To_v1beta3 (LBSpec_BackendPools l),
      LoadBalancerProvision_SecurityGroups = map VPCResource_To_v1beta3 (LBSpec_SecurityGroups l),
      LoadBalancerProvision_Subnets = map VPCResource_To_v1beta3 (LBSpec_Subnets l)\<rparr>"

definition VPCLoadBalancerSpec_To_v1beta3 :: "VPCLoadBalancerSpec \<Rightarrow> LoadBalancerSource" where
  "VPCLoadBalancerSpec_To_v1beta3 l =
     (let z = zero_LoadBalancerSource in
      if has_provision_data l \<or> (LBSpec_Name l \<noteq> [] \<and> \<not> is_set (LBSpec_ID l)) then
        z\<lparr>LoadBalancerSource_Type := SourceTypeProvision, LoadBalancerSource_Provision := lb_provision l\<rparr>
      else if is_set (LBSpec_ID l) then
        z\<lparr>LoadBalancerSource_Type := SourceTypeReference,
          LoadBalancerSource_Reference := \<lparr>ResourceIdentifier_ID = str_Deref (LBSpec_ID l), ResourceIdentifier_Name = LBSpec_Name l\<rparr>\<rparr>
      else if LBSpec_Name l \<noteq> [] then
        z\<lparr>LoadBalancerSource_Type := SourceTypeProvision,
          LoadBalancerSource_Provision := zero_LoadBalancerProvision\<lparr>LoadBalancerProvision_Name := LBSpec_Name l\<rparr>\<rparr>
      else z)"

definition LoadBalancerSource_To_v1beta2 :: "LoadBalancerSource \<Rightarrow> VPCLoadBalancerSpec" where
  "LoadBalancerSource_To_v1beta2 l =
     (case LoadBalancerSource_Type l of
        SourceTypeReference \<Rightarrow>
          zero_LBSpec\<lparr>LBSpec_ID := ptr_to (ResourceIdentifier_ID (LoadBalancerSource_Reference l)),
            LBSpec_Name := ResourceIdentifier_Name (LoadBalancerSource_Reference l)\<rparr>
      | SourceTypeProvision \<Rightarrow>
          (let p = LoadBalancerSource_Provision l in
           \<lparr>LBSpec_Name = LoadBalancerProvision_Name p, LBSpec_ID = None,
            LBSpec_Public = (if LoadBalancerProvision_Type p = OtherLBType [] then None
               else Some (LoadBalancerProvision_Type p = LoadBalancerTypePublic)),
            LBSpec_AdditionalListeners = map AdditionalListener_To_v1beta2 (LoadBalancerProvision_AdditionalListeners p),
            LBSpec_BackendPools = map BackendPool_To_v1beta2 (LoadBalancerProvision_BackendPools p),
            LBSpec_SecurityGroups = map ResourceIdentifier_To_VPCResource (LoadBalancerProvision_SecurityGroups p),
            LBSpec_Subnets = map ResourceIdentifier_To_VPCResource (LoadBalancerProvision_Subnets p)\<rparr>)
      | OtherSourceType _ \<Rightarrow> zero_LBSpec)"

lemma lb_provision_back:
  "lb_provision (LoadBalancerSource_To_v1beta2 \<lparr>LoadBalancerSource_Type = SourceTypeProvision, LoadBalancerSource_Reference = r,
     LoadBalancerSource_Provision = lb_provision l\<rparr>) = lb_provision l"
  by (simp add: lb_provision_def LoadBalancerSource_To_v1beta2_def Let_def o_def split: option.splits)

lemma lb_data_kept:
  "has_provision_data (LoadBalancerSource_To_v1beta2 \<lparr>LoadBalancerSource_Type = SourceTypeProvision, LoadBalancerSource_Reference = r,
     LoadBalancerSource_Provision = lb_provision l\<rparr>) \<longleftrightarrow> has_provision_data l"
  by (simp add: has_provision_data_def lb_provision_def LoadBalancerSource_To_v1beta2_def Let_def split: option.splits)

lemma lb_stable:
  "VPCLoadBalancerSpec_To_v1beta3 (LoadBalancerSource_To_v1beta2 (VPCLoadBalancerSpec_To_v1beta3 l)) = VPCLoadBalancerSpec_To_v1beta3 l"
proof (cases "has_provision_data l \<or> (LBSpec_Name l \<noteq> [] \<and> \<not> is_set (LBSpec_ID l))")
  case True
  let ?s = "\<lparr>LoadBalancerSource_Type = SourceTypeProvision, LoadBalancerSource_Reference = zero_identifier, LoadBalancerSource_Provision = lb_provision l\<rparr>"
  have s: "VPCLoadBalancerSpec_To_v1beta3 l = ?s"
    using True by (auto simp: VPCLoadBalancerSpec_To_v1beta3_def zero_LoadBalancerSource_def Let_def)
  have "LBSpec_Name (LoadBalancerSource_To_v1beta2 ?s) = LBSpec_Name l" "LBSpec_ID (LoadBalancerSource_To_v1beta2 ?s) = None"
    by (simp_all add: LoadBalancerSource_To_v1beta2_def lb_provision_def Let_def)
  with True show ?thesis
    unfolding s by (auto simp: VPCLoadBalancerSpec_To_v1beta3_def zero_LoadBalancerSource_def lb_data_kept lb_provision_back Let_def)
next
  case False
  then show ?thesis
    by (auto simp: VPCLoadBalancerSpec_To_v1beta3_def LoadBalancerSource_To_v1beta2_def has_provision_data_def zero_defs Let_def)
qed

interpretation lb: stable_conversion VPCLoadBalancerSpec_To_v1beta3 LoadBalancerSource_To_v1beta2 always
  by unfold_locales (simp_all add: lb_stable)

end
