(* ===== verification/Conversion_Spec.thy ===== *)
theory Conversion_Spec
  imports Conversion
begin

text \<open>
  The conversion of security groups and of the whole cluster spec (\<^verbatim>\<open>api/powervs/v1beta2/conversion.go\<close>).
  The last section has the stability of the whole spec, and with it what a spec keeps on a round trip.
\<close>

section \<open>Security groups\<close>

definition present :: "'a option list \<Rightarrow> 'a list" where
  "present xs = map the (filter (\<lambda>x. x \<noteq> None) xs)"

lemma present_map_Some [simp]: "present (map (\<lambda>x. Some (f x)) xs) = map f xs"
  by (induction xs) (simp_all add: present_def)

lemma present_all: "list_all (pred_option P) xs \<longleftrightarrow> list_all P (present xs)"
  by (induction xs) (auto simp: present_def pred_option_def split: option.splits)

definition Remote_To_v1beta3 :: "VPCSecurityGroupRuleRemote2 \<Rightarrow> VPCSecurityGroupRuleRemote" where
  "Remote_To_v1beta3 r =
     \<lparr>VPCSecurityGroupRuleRemote_CIDRSubnetName = str_Deref (Remote2_CIDRSubnetName r), VPCSecurityGroupRuleRemote_Address = str_Deref (Remote2_Address r),
      VPCSecurityGroupRuleRemote_RemoteType = Remote2_RemoteType r, VPCSecurityGroupRuleRemote_SecurityGroupName = str_Deref (Remote2_SecurityGroupName r)\<rparr>"

definition Remote_To_v1beta2 :: "VPCSecurityGroupRuleRemote \<Rightarrow> VPCSecurityGroupRuleRemote2" where
  "Remote_To_v1beta2 r =
     \<lparr>Remote2_CIDRSubnetName = ptr_to (VPCSecurityGroupRuleRemote_CIDRSubnetName r), Remote2_Address = ptr_to (VPCSecurityGroupRuleRemote_Address r),
      Remote2_RemoteType = VPCSecurityGroupRuleRemote_RemoteType r, Remote2_SecurityGroupName = ptr_to (VPCSecurityGroupRuleRemote_SecurityGroupName r)\<rparr>"

lemma remote_back [simp]: "Remote_To_v1beta3 (Remote_To_v1beta2 r) = r"
  by (simp add: Remote_To_v1beta3_def Remote_To_v1beta2_def)

definition Prototype_To_v1beta3 :: "VPCSecurityGroupRulePrototype2 \<Rightarrow> VPCSecurityGroupRulePrototype" where
  "Prototype_To_v1beta3 p =
     \<lparr>VPCSecurityGroupRulePrototype_ICMPCode = Prototype2_ICMPCode p, VPCSecurityGroupRulePrototype_ICMPType = Prototype2_ICMPType p,
      VPCSecurityGroupRulePrototype_PortRange = (case Prototype2_PortRange p of
          None \<Rightarrow> \<lparr>VPCSecurityGroupPortRange_MaximumPort = 0, VPCSecurityGroupPortRange_MinimumPort = 0\<rparr> | Some r \<Rightarrow> r),
      VPCSecurityGroupRulePrototype_Protocol = Prototype2_Protocol p,
      VPCSecurityGroupRulePrototype_Remotes = map Remote_To_v1beta3 (Prototype2_Remotes p)\<rparr>"

definition Prototype_To_v1beta2 :: "VPCSecurityGroupRulePrototype \<Rightarrow> VPCSecurityGroupRulePrototype2" where
  "Prototype_To_v1beta2 p =
     (let r = VPCSecurityGroupRulePrototype_PortRange p in
      \<lparr>Prototype2_ICMPCode = VPCSecurityGroupRulePrototype_ICMPCode p, Prototype2_ICMPType = VPCSecurityGroupRulePrototype_ICMPType p,
       Prototype2_PortRange = (if VPCSecurityGroupPortRange_MaximumPort r \<noteq> 0 \<or> VPCSecurityGroupPortRange_MinimumPort r \<noteq> 0 then Some r else None),
       Prototype2_Protocol = VPCSecurityGroupRulePrototype_Protocol p,
       Prototype2_Remotes = map Remote_To_v1beta2 (VPCSecurityGroupRulePrototype_Remotes p)\<rparr>)"

lemma prototype_back [simp]: "Prototype_To_v1beta3 (Prototype_To_v1beta2 p) = p"
  by (simp add: Prototype_To_v1beta3_def Prototype_To_v1beta2_def Let_def o_def)

definition Rule_To_v1beta3 :: "VPCSecurityGroupRule2 \<Rightarrow> VPCSecurityGroupRule" where
  "Rule_To_v1beta3 r =
     \<lparr>VPCSecurityGroupRule_Destination = (case Rule2_Destination r of None \<Rightarrow> zero_Prototype | Some p \<Rightarrow> Prototype_To_v1beta3 p),
      VPCSecurityGroupRule_Direction = Rule2_Direction r,
      VPCSecurityGroupRule_SecurityGroupID = str_Deref (Rule2_SecurityGroupID r),
      VPCSecurityGroupRule_Source = (case Rule2_Source r of None \<Rightarrow> zero_Prototype | Some p \<Rightarrow> Prototype_To_v1beta3 p)\<rparr>"

definition Rule_To_v1beta2 :: "VPCSecurityGroupRule \<Rightarrow> VPCSecurityGroupRule2" where
  "Rule_To_v1beta2 r =
     (let d = VPCSecurityGroupRule_Direction r in
      \<lparr>Rule2_Destination = (if d = VPCSecurityGroupRuleDirectionOutbound then Some (Prototype_To_v1beta2 (VPCSecurityGroupRule_Destination r)) else None),
       Rule2_Direction = d,
       Rule2_SecurityGroupID = ptr_to (VPCSecurityGroupRule_SecurityGroupID r),
       Rule2_Source = (if d = VPCSecurityGroupRuleDirectionInbound then Some (Prototype_To_v1beta2 (VPCSecurityGroupRule_Source r)) else None)\<rparr>)"

text \<open>A rule has a destination only if it is outbound and a source only if it is inbound.\<close>

definition rule_directed :: "VPCSecurityGroupRule2 \<Rightarrow> bool" where
  "rule_directed r \<longleftrightarrow> (Rule2_Direction r \<noteq> VPCSecurityGroupRuleDirectionOutbound \<longrightarrow> Rule2_Destination r = None) \<and>
     (Rule2_Direction r \<noteq> VPCSecurityGroupRuleDirectionInbound \<longrightarrow> Rule2_Source r = None)"

interpretation rule: stable_conversion Rule_To_v1beta3 Rule_To_v1beta2 rule_directed
  by unfold_locales (auto simp: rule_directed_def Rule_To_v1beta3_def Rule_To_v1beta2_def Let_def)

definition VPCSecurityGroup_To_v1beta3 :: "VPCSecurityGroup \<Rightarrow> VPCSecurityGroupSource" where
  "VPCSecurityGroup_To_v1beta3 g =
     (let z = zero_SecurityGroupSource; name = str_Deref (SecurityGroup2_Name g) in
      if is_set (SecurityGroup2_ID g) then
        z\<lparr>VPCSecurityGroupSource_Type := SourceTypeReference,
          VPCSecurityGroupSource_Reference := \<lparr>ResourceIdentifier_ID = str_Deref (SecurityGroup2_ID g), ResourceIdentifier_Name = name\<rparr>\<rparr>
      else
        z\<lparr>VPCSecurityGroupSource_Type := SourceTypeProvision,
          VPCSecurityGroupSource_Provision := \<lparr>VPCSecurityGroupProvision_Name = name,
            VPCSecurityGroupProvision_Rules = map Rule_To_v1beta3 (present (SecurityGroup2_Rules g)),
            VPCSecurityGroupProvision_Tags = present (SecurityGroup2_Tags g)\<rparr>\<rparr>)"

definition VPCSecurityGroupSource_To_v1beta2 :: "VPCSecurityGroupSource \<Rightarrow> VPCSecurityGroup" where
  "VPCSecurityGroupSource_To_v1beta2 g =
     (case VPCSecurityGroupSource_Type g of
        SourceTypeReference \<Rightarrow>
          zero_SecurityGroup2\<lparr>SecurityGroup2_ID := ptr_to (ResourceIdentifier_ID (VPCSecurityGroupSource_Reference g)),
            SecurityGroup2_Name := ptr_to (ResourceIdentifier_Name (VPCSecurityGroupSource_Reference g))\<rparr>
      | SourceTypeProvision \<Rightarrow>
          (let p = VPCSecurityGroupSource_Provision g in
           zero_SecurityGroup2\<lparr>SecurityGroup2_Name := ptr_to (VPCSecurityGroupProvision_Name p),
             SecurityGroup2_Tags := map Some (VPCSecurityGroupProvision_Tags p),
             SecurityGroup2_Rules := map (\<lambda>r. Some (Rule_To_v1beta2 r)) (VPCSecurityGroupProvision_Rules p)\<rparr>)
      | OtherSourceType _ \<Rightarrow> zero_SecurityGroup2)"

definition group_directed :: "VPCSecurityGroup \<Rightarrow> bool" where
  "group_directed g \<longleftrightarrow> list_all (pred_option rule_directed) (SecurityGroup2_Rules g)"

lemma present_map_Some_id [simp]: "present (map Some xs) = xs"
  using present_map_Some [of id xs] by simp

lemma group_stable:
  assumes "group_directed g"
  shows "VPCSecurityGroup_To_v1beta3 (VPCSecurityGroupSource_To_v1beta2 (VPCSecurityGroup_To_v1beta3 g)) = VPCSecurityGroup_To_v1beta3 g"
proof (cases "is_set (SecurityGroup2_ID g)")
  case True
  then show ?thesis
    by (simp add: VPCSecurityGroup_To_v1beta3_def VPCSecurityGroupSource_To_v1beta2_def zero_defs Let_def)
next
  case False
  have "map (\<lambda>r. Rule_To_v1beta3 (Rule_To_v1beta2 (Rule_To_v1beta3 r))) (present (SecurityGroup2_Rules g)) = map Rule_To_v1beta3 (present (SecurityGroup2_Rules g))"
    using assms by (intro rule.stable_list) (simp add: group_directed_def present_all)
  with False show ?thesis
    by (simp add: VPCSecurityGroup_To_v1beta3_def VPCSecurityGroupSource_To_v1beta2_def zero_defs Let_def o_def)
qed

lemma group_down_directed: "group_directed (VPCSecurityGroupSource_To_v1beta2 g)"
  by (simp add: group_directed_def VPCSecurityGroupSource_To_v1beta2_def zero_SecurityGroup2_def list_all_iff rule.down_ok Let_def
      split: SourceType.splits)

interpretation group: stable_conversion VPCSecurityGroup_To_v1beta3 VPCSecurityGroupSource_To_v1beta2 group_directed
  by unfold_locales (simp_all add: group_stable group_down_directed)

section \<open>Object storage\<close>

definition convertV1beta2CosInstanceToV1beta3 :: "CosInstance \<Rightarrow> COSInstanceSource" where
  "convertV1beta2CosInstanceToV1beta3 c =
     zero_COSInstanceSource\<lparr>COSInstanceSource_BucketName := CosInstance_BucketName c, COSInstanceSource_BucketRegion := CosInstance_BucketRegion c,
       COSInstanceSource_Provision := \<lparr>COSInstanceProvision_Name = CosInstance_Name c\<rparr>,
       COSInstanceSource_Type := (if CosInstance_Name c \<noteq> [] \<or> CosInstance_BucketName c \<noteq> [] \<or> CosInstance_BucketRegion c \<noteq> []
         then SourceTypeProvision else no_source)\<rparr>"

definition convertV1beta3CosInstanceToV1beta2 :: "COSInstanceSource \<Rightarrow> CosInstance" where
  "convertV1beta3CosInstanceToV1beta2 c =
     \<lparr>CosInstance_Name = (case COSInstanceSource_Type c of
         SourceTypeReference \<Rightarrow> [] | _ \<Rightarrow> COSInstanceProvision_Name (COSInstanceSource_Provision c)),
      CosInstance_BucketName = COSInstanceSource_BucketName c, CosInstance_BucketRegion = COSInstanceSource_BucketRegion c\<rparr>"

definition cos_up :: "CosInstance option \<Rightarrow> COSInstanceSource" where
  "cos_up p = (case p of None \<Rightarrow> zero_COSInstanceSource | Some c \<Rightarrow> convertV1beta2CosInstanceToV1beta3 c)"

definition cos_down :: "COSInstanceSource \<Rightarrow> CosInstance option" where
  "cos_down c = (if COSInstanceSource_BucketName c \<noteq> [] \<or> COSInstanceSource_BucketRegion c \<noteq> [] \<or> COSInstanceSource_Type c \<noteq> no_source
     then Some (convertV1beta3CosInstanceToV1beta2 c) else None)"

lemmas cos_conversion_defs = cos_up_def cos_down_def convertV1beta2CosInstanceToV1beta3_def convertV1beta3CosInstanceToV1beta2_def zero_defs

interpretation cos: stable_conversion cos_up cos_down always
  by unfold_locales (auto simp: cos_conversion_defs split: option.splits)

section \<open>Workspace, resource group, network, VPC and ignition\<close>

text \<open>The workspace comes from two fields, the service instance and its ID; the ID wins.\<close>

definition convertV1beta2WorkspaceToV1beta3 :: "IBMPowerVSResourceReference option \<times> string \<Rightarrow> WorkspaceSource" where
  "convertV1beta2WorkspaceToV1beta3 = (\<lambda>(inst, instID).
     if inst = None \<and> instID = [] then zero_WorkspaceSource\<lparr>WorkspaceSource_Type := SourceTypeProvision\<rparr>
     else zero_WorkspaceSource\<lparr>WorkspaceSource_Type := SourceTypeReference,
       WorkspaceSource_Reference :=
         \<lparr>ResourceIdentifier_ID = (if instID \<noteq> [] then instID else case inst of None \<Rightarrow> [] | Some r \<Rightarrow> str_Deref (PVSRef_ID r)),
          ResourceIdentifier_Name = (case inst of None \<Rightarrow> [] | Some r \<Rightarrow> str_Deref (PVSRef_Name r))\<rparr>\<rparr>)"

definition workspace_down :: "WorkspaceSource \<Rightarrow> IBMPowerVSResourceReference option \<times> string" where
  "workspace_down w =
     (let r = WorkspaceSource_Reference w in
      if WorkspaceSource_Type w = SourceTypeReference \<or> ResourceIdentifier_ID r \<noteq> [] \<or> ResourceIdentifier_Name r \<noteq> []
      then (Some \<lparr>PVSRef_ID = ptr_to (ResourceIdentifier_ID r), PVSRef_Name = ptr_to (ResourceIdentifier_Name r), PVSRef_RegEx = None\<rparr>, ResourceIdentifier_ID r)
      else (None, []))"

interpretation workspace: stable_conversion convertV1beta2WorkspaceToV1beta3 workspace_down always
  by unfold_locales (auto simp: convertV1beta2WorkspaceToV1beta3_def workspace_down_def zero_defs Let_def split: prod.splits option.splits)

definition convertV1beta2ResourceGroupToV1beta3 :: "IBMPowerVSResourceReference option \<Rightarrow> ResourceGroupSource" where
  "convertV1beta2ResourceGroupToV1beta3 p =
     (case p of None \<Rightarrow> zero_ResourceGroupSource
      | Some r \<Rightarrow> \<lparr>ResourceGroupSource_Type = SourceTypeReference,
          ResourceGroupSource_Reference = \<lparr>ResourceIdentifier_ID = str_Deref (PVSRef_ID r), ResourceIdentifier_Name = str_Deref (PVSRef_Name r)\<rparr>\<rparr>)"

definition resource_group_down :: "ResourceGroupSource \<Rightarrow> IBMPowerVSResourceReference option" where
  "resource_group_down g =
     (let r = ResourceGroupSource_Reference g in
      if ResourceGroupSource_Type g = SourceTypeReference \<or> ResourceIdentifier_ID r \<noteq> [] \<or> ResourceIdentifier_Name r \<noteq> []
      then Some \<lparr>PVSRef_ID = ptr_to (ResourceIdentifier_ID r), PVSRef_Name = ptr_to (ResourceIdentifier_Name r), PVSRef_RegEx = None\<rparr> else None)"

interpretation resource_group: stable_conversion convertV1beta2ResourceGroupToV1beta3 resource_group_down always
  by unfold_locales (auto simp: convertV1beta2ResourceGroupToV1beta3_def resource_group_down_def zero_defs Let_def split: option.splits)

text \<open>The network and the DHCP server of \<^verbatim>\<open>v1beta2\<close> are one union in \<^verbatim>\<open>v1beta3\<close>; a network that is named wins.\<close>

definition convertV1beta2NetworkToV1beta3 :: "IBMPowerVSResourceReference \<times> DHCPServer2 option \<Rightarrow> NetworkSource" where
  "convertV1beta2NetworkToV1beta3 = (\<lambda>(net, dhcp).
     if is_set (PVSRef_ID net) \<or> is_set (PVSRef_Name net) then
       zero_NetworkSource\<lparr>NetworkSource_Type := SourceTypeReference,
         NetworkSource_Reference := \<lparr>ResourceIdentifier_ID = str_Deref (PVSRef_ID net), ResourceIdentifier_Name = str_Deref (PVSRef_Name net)\<rparr>\<rparr>
     else case dhcp of
       None \<Rightarrow> zero_NetworkSource
     | Some d \<Rightarrow> zero_NetworkSource\<lparr>NetworkSource_Type := SourceTypeProvision,
         NetworkSource_Provision := \<lparr>NetworkProvisionConfig_DHCPServer = DHCPServer_To_v1beta3 d\<rparr>\<rparr>)"

definition network_down :: "NetworkSource \<Rightarrow> IBMPowerVSResourceReference \<times> DHCPServer2 option" where
  "network_down n =
     (let none = \<lparr>PVSRef_ID = None, PVSRef_Name = None, PVSRef_RegEx = None\<rparr>; r = NetworkSource_Reference n in
      case NetworkSource_Type n of
        SourceTypeReference \<Rightarrow> (none\<lparr>PVSRef_ID := ptr_to (ResourceIdentifier_ID r), PVSRef_Name := ptr_to (ResourceIdentifier_Name r)\<rparr>, None)
      | SourceTypeProvision \<Rightarrow> (none, Some (DHCPServer_To_v1beta2 (NetworkProvisionConfig_DHCPServer (NetworkSource_Provision n))))
      | OtherSourceType _ \<Rightarrow> (none, None))"

interpretation network: stable_conversion convertV1beta2NetworkToV1beta3 network_down always
  by unfold_locales (auto simp: convertV1beta2NetworkToV1beta3_def network_down_def zero_NetworkSource_def no_source_def Let_def dhcp.stable
      split: prod.splits option.splits)

definition vpc_up :: "VPCResourceReference option \<Rightarrow> VPCSource" where
  "vpc_up p = (case p of Some v \<Rightarrow> VPCResourceReference_To_v1beta3 v | None \<Rightarrow> zero_VPCSource\<lparr>VPCSource_Type := SourceTypeProvision\<rparr>)"

definition vpc_unset :: "VPCResourceReference \<Rightarrow> bool" where
  "vpc_unset v \<longleftrightarrow> VPCRef_ID v = None \<and> VPCRef_Name v = None \<and> VPCRef_Region v = None"

definition vpc_down :: "VPCSource \<Rightarrow> VPCResourceReference option" where
  "vpc_down v =
     (let r = VPCSource_Reference v; provisioned = VPCProvision_Name (VPCSource_Provision v) in
      if VPCSource_Type v \<noteq> no_source \<or> ResourceIdentifier_ID r \<noteq> [] \<or> ResourceIdentifier_Name r \<noteq> [] \<or> provisioned \<noteq> [] \<or> VPCSource_Region v \<noteq> [] then
        (let v2 = VPCSource_To_v1beta2 v;
             v3 = (if vpc_unset v2 then
                     \<lparr>VPCRef_ID = ptr_to (ResourceIdentifier_ID r),
                      VPCRef_Name = (if ResourceIdentifier_Name r \<noteq> [] then Some (ResourceIdentifier_Name r) else ptr_to provisioned),
                      VPCRef_Region = ptr_to (VPCSource_Region v)\<rparr>
                   else v2)
         in if vpc_unset v3 then None else Some v3)
      else None)"

lemma vpc_stable: "vpc_up (vpc_down (vpc_up p)) = vpc_up p"
proof (cases p)
  case None
  then show ?thesis by (simp add: vpc_up_def vpc_down_def vpc_unset_def vpc_conversion_defs)
next
  case (Some v)
  then show ?thesis
    by (cases "is_set (VPCRef_ID v)"; cases "VPCRef_Name v"; cases "VPCRef_Region v")
      (auto simp: vpc_up_def vpc_down_def vpc_unset_def vpc_conversion_defs ptr_to_def)
qed

interpretation vpc: stable_conversion vpc_up vpc_down always
  by unfold_locales (simp_all add: vpc_stable)

definition ignition_up :: "Ignition option \<Rightarrow> Ignition" where
  "ignition_up p = (case p of None \<Rightarrow> \<lparr>Ignition_Version = []\<rparr> | Some i \<Rightarrow> \<lparr>Ignition_Version = Ignition_Version i\<rparr>)"

definition ignition_down :: "Ignition \<Rightarrow> Ignition option" where
  "ignition_down i = (if Ignition_Version i \<noteq> [] then Some \<lparr>Ignition_Version = Ignition_Version i\<rparr> else None)"

interpretation ignition: stable_conversion ignition_up ignition_down always
  by unfold_locales (auto simp: ignition_up_def ignition_down_def split: option.splits)

definition tg_up :: "TransitGateway2 option \<Rightarrow> TransitGatewaySource" where
  "tg_up p = (case p of None \<Rightarrow> zero_TransitGatewaySource | Some t \<Rightarrow> TransitGateway_To_v1beta3 t)"

definition tg_down :: "TransitGatewaySource \<Rightarrow> TransitGateway2 option" where
  "tg_down s = (let t = TransitGatewaySource_To_v1beta2 s in if t = zero_TransitGateway2 then None else Some t)"

lemma tg_up_zero: "TransitGateway_To_v1beta3 zero_TransitGateway2 = zero_TransitGatewaySource"
  by (simp add: TransitGateway_To_v1beta3_def zero_TransitGateway2_def Let_def)

lemma tg_down_zero: "TransitGatewaySource_To_v1beta2 zero_TransitGatewaySource = zero_TransitGateway2"
  by (simp add: tg_conversion_defs)

lemma tg_opt_stable: "tg_up (tg_down (tg_up p)) = tg_up p"
proof (cases p)
  case None
  then show ?thesis by (simp add: tg_up_def tg_down_def tg_down_zero)
next
  case (Some t)
  then show ?thesis
    using tg.stable [of t] by (auto simp: tg_up_def tg_down_def tg_up_zero Let_def)
qed

interpretation tg_opt: stable_conversion tg_up tg_down always
  by unfold_locales (simp_all add: tg_opt_stable)

section \<open>The spec\<close>

text \<open>\<open>Topology\<close> is not in \<^verbatim>\<open>v1beta2\<close>: it comes from an annotation when the object is converted.\<close>

definition ClusterSpec_To_v1beta3 :: "IBMPowerVSClusterSpec2 \<Rightarrow> IBMPowerVSClusterSpec" where
  "ClusterSpec_To_v1beta3 s =
     \<lparr>Spec_ControlPlaneEndpoint = Spec2_ControlPlaneEndpoint s, Spec_Topology = OtherTopology [],
      Spec_Workspace = convertV1beta2WorkspaceToV1beta3 (Spec2_ServiceInstance s, Spec2_ServiceInstanceID s),
      Spec_Network = convertV1beta2NetworkToV1beta3 (Spec2_Network s, Spec2_DHCPServer s),
      Spec_Zone = str_Deref (Spec2_Zone s),
      Spec_ResourceGroup = convertV1beta2ResourceGroupToV1beta3 (Spec2_ResourceGroup s),
      Spec_TransitGateway = tg_up (Spec2_TransitGateway s),
      Spec_VPC = vpc_up (Spec2_VPC s),
      Spec_VPCSubnets = map Subnet_To_v1beta3 (Spec2_VPCSubnets s),
      Spec_LoadBalancers = map VPCLoadBalancerSpec_To_v1beta3 (Spec2_LoadBalancers s),
      Spec_VPCSecurityGroups = map VPCSecurityGroup_To_v1beta3 (Spec2_VPCSecurityGroups s),
      Spec_COSInstance = cos_up (Spec2_CosInstance s),
      Spec_Ignition = ignition_up (Spec2_Ignition s)\<rparr>"

definition ClusterSpec_To_v1beta2 :: "IBMPowerVSClusterSpec \<Rightarrow> IBMPowerVSClusterSpec2" where
  "ClusterSpec_To_v1beta2 s =
     \<lparr>Spec2_ServiceInstanceID = snd (workspace_down (Spec_Workspace s)),
      Spec2_Network = fst (network_down (Spec_Network s)),
      Spec2_DHCPServer = snd (network_down (Spec_Network s)),
      Spec2_ControlPlaneEndpoint = Spec_ControlPlaneEndpoint s,
      Spec2_ServiceInstance = fst (workspace_down (Spec_Workspace s)),
      Spec2_Zone = ptr_to (Spec_Zone s),
      Spec2_ResourceGroup = resource_group_down (Spec_ResourceGroup s),
      Spec2_VPC = vpc_down (Spec_VPC s),
      Spec2_VPCSubnets = map VPCSubnetSource_To_v1beta2 (Spec_VPCSubnets s),
      Spec2_VPCSecurityGroups = map VPCSecurityGroupSource_To_v1beta2 (Spec_VPCSecurityGroups s),
      Spec2_TransitGateway = tg_down (Spec_TransitGateway s),
      Spec2_LoadBalancers = map LoadBalancerSource_To_v1beta2 (Spec_LoadBalancers s),
      Spec2_CosInstance = cos_down (Spec_COSInstance s),
      Spec2_Ignition = ignition_down (Spec_Ignition s)\<rparr>"

definition spec_directed :: "IBMPowerVSClusterSpec2 \<Rightarrow> bool" where
  "spec_directed s \<longleftrightarrow> list_all group_directed (Spec2_VPCSecurityGroups s)"

lemma spec_stable:
  assumes "spec_directed s"
  shows "ClusterSpec_To_v1beta3 (ClusterSpec_To_v1beta2 (ClusterSpec_To_v1beta3 s)) = ClusterSpec_To_v1beta3 s"
  using group.stable_list [of "Spec2_VPCSecurityGroups s"] assms
  by (simp add: ClusterSpec_To_v1beta3_def ClusterSpec_To_v1beta2_def spec_directed_def o_def workspace.stable network.stable
      resource_group.stable tg_opt.stable vpc.stable cos.stable ignition.stable lb.stable subnet.stable)

lemma spec_down_directed: "spec_directed (ClusterSpec_To_v1beta2 s)"
  using group.down_ok_list by (simp add: spec_directed_def ClusterSpec_To_v1beta2_def)

interpretation spec: stable_conversion ClusterSpec_To_v1beta3 ClusterSpec_To_v1beta2 spec_directed
  by unfold_locales (simp_all add: spec_stable spec_down_directed)

end
