(* ===== verification/Conversion_Objects.thy ===== *)
theory Conversion_Objects
  imports Conversion_Spec
begin

text \<open>
  The conversion of the status of a cluster and of whole objects: clusters, cluster templates, machines,
  machine templates and images (\<^verbatim>\<open>api/powervs/v1beta2/conversion.go\<close>).

  Go ranges over a map in an order of its own: it is the parameter \<open>order\<close>, a list of the keys. What is
  taken from Cluster API is the parameter \<open>conversion_lib\<close>: the conversion of legacy conditions and of
  template metadata, \<open>Convert_bool_To_Pointer_bool\<close>, and \<open>MarshalData\<close> and \<open>UnmarshalData\<close>, which put an object
  into an annotation and take it out again. \<open>conversion_laws\<close> is their documented behaviour. The conversions
  of one condition that the generated code calls never fail, and what they give is overwritten.
\<close>

section \<open>The status of a cluster\<close>

definition TransitGatewayStatus_To_v1beta3 :: "TransitGatewayStatus2 \<Rightarrow> TransitGatewayStatus" where
  "TransitGatewayStatus_To_v1beta3 t =
     (let connection = (\<lambda>p. zero_ResourceConnectionStatus\<lparr>ResourceConnectionStatus_ID :=
            (case p of None \<Rightarrow> [] | Some r \<Rightarrow> str_Deref (ResourceReference2_ID r))\<rparr>) in
      \<lparr>TransitGatewayStatus_ID = str_Deref (TGStatus2_ID t), TransitGatewayStatus_Name = [],
       TransitGatewayStatus_VPCConnection = connection (TGStatus2_VPCConnection t),
       TransitGatewayStatus_PowerVSConnection = connection (TGStatus2_PowerVSConnection t)\<rparr>)"

definition reference_to :: "string \<Rightarrow> ResourceReference2 option" where
  "reference_to i = (if i \<noteq> [] then Some \<lparr>ResourceReference2_ID = Some i, ResourceReference2_ControllerCreated = None\<rparr> else None)"

definition TransitGatewayStatus_To_v1beta2 :: "TransitGatewayStatus \<Rightarrow> TransitGatewayStatus2" where
  "TransitGatewayStatus_To_v1beta2 t =
     \<lparr>TGStatus2_ID = ptr_to (TransitGatewayStatus_ID t), TGStatus2_ControllerCreated = None,
      TGStatus2_VPCConnection = reference_to (ResourceConnectionStatus_ID (TransitGatewayStatus_VPCConnection t)),
      TGStatus2_PowerVSConnection = reference_to (ResourceConnectionStatus_ID (TransitGatewayStatus_PowerVSConnection t))\<rparr>"

definition reference_id :: "ResourceReference2 option \<Rightarrow> string" where
  "reference_id p = (case p of None \<Rightarrow> [] | Some r \<Rightarrow> str_Deref (ResourceReference2_ID r))"

lemma reference_id_to [simp]: "reference_id (reference_to i) = i"
  by (simp add: reference_id_def reference_to_def)

definition LoadBalancerStatus_To_v1beta3 :: "string \<Rightarrow> VPCLoadBalancerStatus \<Rightarrow> LoadBalancerStatus" where
  "LoadBalancerStatus_To_v1beta3 name l =
     \<lparr>LoadBalancerStatus_Name = name, LoadBalancerStatus_ID = str_Deref (LBStatus2_ID l), LoadBalancerStatus_State = LBStatus2_State l,
      LoadBalancerStatus_Hostname = str_Deref (LBStatus2_Hostname l)\<rparr>"

definition LoadBalancerStatus_To_v1beta2 :: "LoadBalancerStatus \<Rightarrow> VPCLoadBalancerStatus" where
  "LoadBalancerStatus_To_v1beta2 l =
     \<lparr>LBStatus2_ID = ptr_to (LoadBalancerStatus_ID l), LBStatus2_State = LoadBalancerStatus_State l,
      LBStatus2_Hostname = ptr_to (LoadBalancerStatus_Hostname l), LBStatus2_ControllerCreated = None\<rparr>"

definition SecurityGroupStatus_To_v1beta3 :: "string \<Rightarrow> VPCSecurityGroupStatus2 \<Rightarrow> VPCSecurityGroupStatus" where
  "SecurityGroupStatus_To_v1beta3 name g =
     \<lparr>VPCSecurityGroupStatus_ID = str_Deref (SGStatus2_ID g), VPCSecurityGroupStatus_Name = name,
      VPCSecurityGroupStatus_Rules = map (\<lambda>i. \<lparr>VPCSecurityGroupRuleStatus_ID = i\<rparr>) (present (SGStatus2_RuleIDs g))\<rparr>"

definition SecurityGroupStatus_To_v1beta2 :: "VPCSecurityGroupStatus \<Rightarrow> VPCSecurityGroupStatus2" where
  "SecurityGroupStatus_To_v1beta2 g =
     \<lparr>SGStatus2_ID = ptr_to (VPCSecurityGroupStatus_ID g),
      SGStatus2_RuleIDs = map Some (filter (\<lambda>i. i \<noteq> []) (map VPCSecurityGroupRuleStatus_ID (VPCSecurityGroupStatus_Rules g))),
      SGStatus2_ControllerCreated = None\<rparr>"

text \<open>A map of \<^verbatim>\<open>v1beta2\<close> read in some order of its keys, without the empty one, and a list of \<^verbatim>\<open>v1beta3\<close> put into a
  map: under its name, or its ID if it has none, and not at all if it has neither.\<close>

definition map_entries :: "(string set \<Rightarrow> string list) \<Rightarrow> (string \<Rightarrow> 'a \<Rightarrow> 'b option) \<Rightarrow> (string \<rightharpoonup> 'a) \<Rightarrow> 'b list" where
  "map_entries order f m = present (map (\<lambda>k. if k = [] then None else case m k of None \<Rightarrow> None | Some v \<Rightarrow> f k v) (order (dom m)))"

fun keyed_entries :: "('b \<Rightarrow> string) \<Rightarrow> ('b \<Rightarrow> string) \<Rightarrow> ('b \<Rightarrow> 'a) \<Rightarrow> 'b list \<Rightarrow> (string \<rightharpoonup> 'a) \<Rightarrow> (string \<rightharpoonup> 'a)" where
  "keyed_entries name ident f [] m = m"
| "keyed_entries name ident f (x # xs) m =
     (let k = (if name x = [] then ident x else name x)
      in keyed_entries name ident f xs (if k = [] then m else m(k \<mapsto> f x)))"

definition subnet_entry :: "string \<Rightarrow> ResourceReference2 \<Rightarrow> VPCSubnetStatus option" where
  "subnet_entry name r =
     (if is_set (ResourceReference2_ID r)
      then Some \<lparr>VPCSubnetStatus_ID = str_Deref (ResourceReference2_ID r), VPCSubnetStatus_Name = name, VPCSubnetStatus_Zone = []\<rparr> else None)"

record conversion_lib =
  lib_conditions_up :: "DeprecatedCondition list \<Rightarrow> DeprecatedCondition list"
  lib_conditions_down :: "DeprecatedCondition list \<Rightarrow> DeprecatedCondition list"
  lib_meta_up :: "template_meta \<Rightarrow> template_meta"
  lib_meta_down :: "template_meta \<Rightarrow> template_meta"
  lib_bool :: "bool \<Rightarrow> bool \<Rightarrow> bool option \<Rightarrow> bool option"

definition ClusterStatus_To_v1beta3 :: "conversion_lib \<Rightarrow> (string set \<Rightarrow> string list) \<Rightarrow> IBMPowerVSClusterStatus2 \<Rightarrow> IBMPowerVSClusterStatus" where
  "ClusterStatus_To_v1beta3 L order s =
     \<lparr>Status_Conditions = (case Status2_V1Beta2 s of None \<Rightarrow> [] | Some cs \<Rightarrow> cs),
      Status_Initialization = \<lparr>Initialization_Provisioned = None\<rparr>,
      Status_Workspace = \<lparr>ResourceReference_ID = reference_id (Status2_ServiceInstance s), ResourceReference_Name = []\<rparr>,
      Status_Network = \<lparr>NetworkStatus_ID = reference_id (Status2_Network s), NetworkStatus_Name = [],
        NetworkStatus_DHCPServer = \<lparr>ResourceReference_ID = reference_id (Status2_DHCPServer s), ResourceReference_Name = []\<rparr>\<rparr>,
      Status_ResourceGroup = \<lparr>ResourceReference_ID = reference_id (Status2_ResourceGroup s), ResourceReference_Name = []\<rparr>,
      Status_TransitGateway = (case Status2_TransitGateway s of None \<Rightarrow> zero_TransitGatewayStatus | Some t \<Rightarrow> TransitGatewayStatus_To_v1beta3 t),
      Status_VPC = zero_VPCStatus\<lparr>VPCStatus_ID := reference_id (Status2_VPC s)\<rparr>,
      Status_VPCSubnets = map_entries order subnet_entry (Status2_VPCSubnet s),
      Status_LoadBalancers = map_entries order (\<lambda>k l. Some (LoadBalancerStatus_To_v1beta3 k l)) (Status2_LoadBalancers s),
      Status_VPCSecurityGroups = map_entries order (\<lambda>k g. Some (SecurityGroupStatus_To_v1beta3 k g)) (Status2_VPCSecurityGroups s),
      Status_COSInstance = \<lparr>COSInstanceStatus_ID = reference_id (Status2_COSInstance s), COSInstanceStatus_Name = [],
        COSInstanceStatus_BucketName = [], COSInstanceStatus_BucketRegion = [], COSInstanceStatus_HMACSecretName = []\<rparr>,
      Status_Deprecated = (if Status2_Conditions s = [] then None
        else Some \<lparr>DeprecatedStatus_V1Beta2 = Some \<lparr>V1Beta2DeprecatedStatus_Conditions = lib_conditions_up L (Status2_Conditions s)\<rparr>\<rparr>)\<rparr>"

definition ClusterStatus_To_v1beta2 :: "conversion_lib \<Rightarrow> IBMPowerVSClusterStatus \<Rightarrow> IBMPowerVSClusterStatus2" where
  "ClusterStatus_To_v1beta2 L s =
     (let tg = TransitGatewayStatus_To_v1beta2 (Status_TransitGateway s); net = Status_Network s; dhcp = NetworkStatus_DHCPServer net;
          named = (\<lambda>i n. if i \<noteq> [] \<or> n \<noteq> [] then Some \<lparr>ResourceReference2_ID = ptr_to i, ResourceReference2_ControllerCreated = None\<rparr> else None) in
      \<lparr>Status2_Ready = (Initialization_Provisioned (Status_Initialization s) = Some True),
       Status2_ResourceGroup = reference_to (ResourceReference_ID (Status_ResourceGroup s)),
       Status2_ServiceInstance = reference_to (ResourceReference_ID (Status_Workspace s)),
       Status2_Network = named (NetworkStatus_ID net) (NetworkStatus_Name net),
       Status2_DHCPServer = named (ResourceReference_ID dhcp) (ResourceReference_Name dhcp),
       Status2_VPC = reference_to (VPCStatus_ID (Status_VPC s)),
       Status2_VPCSubnet = keyed_entries VPCSubnetStatus_Name VPCSubnetStatus_ID
         (\<lambda>n. \<lparr>ResourceReference2_ID = ptr_to (VPCSubnetStatus_ID n), ResourceReference2_ControllerCreated = None\<rparr>) (Status_VPCSubnets s) Map.empty,
       Status2_VPCSecurityGroups = keyed_entries VPCSecurityGroupStatus_Name VPCSecurityGroupStatus_ID
         SecurityGroupStatus_To_v1beta2 (Status_VPCSecurityGroups s) Map.empty,
       Status2_TransitGateway =
         (if TGStatus2_ID tg = None \<and> TGStatus2_VPCConnection tg = None \<and> TGStatus2_PowerVSConnection tg = None then None else Some tg),
       Status2_COSInstance = reference_to (COSInstanceStatus_ID (Status_COSInstance s)),
       Status2_LoadBalancers = keyed_entries LoadBalancerStatus_Name LoadBalancerStatus_ID
         LoadBalancerStatus_To_v1beta2 (Status_LoadBalancers s) Map.empty,
       Status2_Conditions = (case Status_Deprecated s of
           Some d \<Rightarrow> (case DeprecatedStatus_V1Beta2 d of
               Some v \<Rightarrow> if V1Beta2DeprecatedStatus_Conditions v \<noteq> [] then lib_conditions_down L (V1Beta2DeprecatedStatus_Conditions v) else []
             | None \<Rightarrow> [])
         | None \<Rightarrow> []),
       Status2_V1Beta2 = (if Status_Conditions s = [] then None else Some (Status_Conditions s))\<rparr>)"

section \<open>Data in an annotation\<close>

text \<open>
  \<open>MarshalData\<close> writes an object into an annotation; \<open>UnmarshalData\<close> reads it back over an object of the same
  type, or into a new object of the other version, and removes the annotation.
\<close>

record ('m, 'r) data_codec =
  MarshalData :: "'m \<Rightarrow> annotations \<Rightarrow> annotations reply"
  UnmarshalData :: "annotations \<Rightarrow> 'm \<Rightarrow> (bool \<times> 'm \<times> annotations) reply"
  RestoreData :: "annotations \<Rightarrow> ('r option \<times> annotations) reply"

definition DataAnnotation :: string where "DataAnnotation = ''cluster.x-k8s.io/conversion-data''"

definition createInfraAnnotation :: string where "createInfraAnnotation = ''powervs.cluster.x-k8s.io/create-infra''"

section \<open>Clusters\<close>

type_synonym hub_cluster = "(IBMPowerVSClusterSpec, IBMPowerVSClusterStatus) api_object"
type_synonym spoke_cluster = "(IBMPowerVSClusterSpec2, IBMPowerVSClusterStatus2) api_object"

text \<open>The type of a restored object storage, guessed if it was lost.\<close>

definition infer_cos_type :: "COSInstanceSource \<Rightarrow> COSInstanceSource" where
  "infer_cos_type c =
     (if COSInstanceSource_Type c = no_source then
        (if COSInstanceSource_Reference c \<noteq> zero_identifier then c\<lparr>COSInstanceSource_Type := SourceTypeReference\<rparr>
         else if COSInstanceSource_BucketName c \<noteq> [] \<or> COSInstanceSource_BucketRegion c \<noteq> [] \<or> COSInstanceProvision_Name (COSInstanceSource_Provision c) \<noteq> []
         then c\<lparr>COSInstanceSource_Type := SourceTypeProvision\<rparr>
         else c)
      else c)"

definition restore_cluster :: "hub_cluster \<Rightarrow> hub_cluster \<Rightarrow> hub_cluster" where
  "restore_cluster r d =
     (let rs = Object_Spec r; rt = Object_Status r in
      d\<lparr>Object_Annotations := Object_Annotations r,
        Object_Spec := (Object_Spec d)
          \<lparr>Spec_Workspace := Spec_Workspace rs, Spec_ResourceGroup := Spec_ResourceGroup rs, Spec_Network := Spec_Network rs,
           Spec_TransitGateway := Spec_TransitGateway rs, Spec_VPC := Spec_VPC rs, Spec_VPCSubnets := Spec_VPCSubnets rs,
           Spec_LoadBalancers := Spec_LoadBalancers rs, Spec_COSInstance := infer_cos_type (Spec_COSInstance rs), Spec_Ignition := Spec_Ignition rs\<rparr>,
        Object_Status := (Object_Status d)
          \<lparr>Status_VPC := Status_VPC rt, Status_VPCSubnets := Status_VPCSubnets rt, Status_LoadBalancers := Status_LoadBalancers rt,
           Status_COSInstance := Status_COSInstance rt\<rparr>\<rparr>)"

text \<open>The source and the result share the map of annotations, so the result loses the data annotation too.\<close>

definition cluster_ConvertTo ::
  "conversion_lib \<Rightarrow> (spoke_cluster, hub_cluster) data_codec \<Rightarrow> (string set \<Rightarrow> string list) \<Rightarrow> spoke_cluster \<Rightarrow> hub_cluster reply" where
  "cluster_ConvertTo L D order src =
     (case RestoreData D (Object_Annotations src) of
        Fail e c \<Rightarrow> Fail e c
      | Reply (restored, ann) \<Rightarrow>
          (let provisioned = lib_bool L (Status2_Ready (Object_Status src)) (restored \<noteq> None)
                 (case restored of None \<Rightarrow> None | Some r \<Rightarrow> Initialization_Provisioned (Status_Initialization (Object_Status r)));
               dst = \<lparr>Object_Annotations = ann, Object_Meta = Object_Meta src, Object_Spec = ClusterSpec_To_v1beta3 (Object_Spec src),
                 Object_Status = (ClusterStatus_To_v1beta3 L order (Object_Status src))
                   \<lparr>Status_Initialization := \<lparr>Initialization_Provisioned = provisioned\<rparr>\<rparr>\<rparr>;
               dst = (case restored of None \<Rightarrow> dst | Some r \<Rightarrow> restore_cluster r dst);
               dst = (case ann createInfraAnnotation of
                   None \<Rightarrow> dst
                 | Some v \<Rightarrow> dst\<lparr>Object_Spec := (Object_Spec dst)
                     \<lparr>Spec_Topology := (if v = ''true'' then PowerVSLoadBalancerTopology else PowerVSVirtualIPTopology)\<rparr>\<rparr>)
           in Reply (dst\<lparr>Object_Annotations := (Object_Annotations dst)(createInfraAnnotation := None)\<rparr>)))"

text \<open>The part of the converted object that is written to the annotation and read back.\<close>

definition zero_Spec2 :: IBMPowerVSClusterSpec2 where
  "zero_Spec2 = \<lparr>Spec2_ServiceInstanceID = [], Spec2_Network = \<lparr>PVSRef_ID = None, PVSRef_Name = None, PVSRef_RegEx = None\<rparr>, Spec2_DHCPServer = None,
     Spec2_ControlPlaneEndpoint = \<lparr>APIEndpoint_Host = [], APIEndpoint_Port = 0\<rparr>, Spec2_ServiceInstance = None, Spec2_Zone = None,
     Spec2_ResourceGroup = None, Spec2_VPC = None, Spec2_VPCSubnets = [], Spec2_VPCSecurityGroups = [], Spec2_TransitGateway = None,
     Spec2_LoadBalancers = [], Spec2_CosInstance = None, Spec2_Ignition = None\<rparr>"

definition kept_spec :: "IBMPowerVSClusterSpec2 \<Rightarrow> IBMPowerVSClusterSpec2" where
  "kept_spec s = zero_Spec2\<lparr>Spec2_VPC := Spec2_VPC s, Spec2_VPCSubnets := Spec2_VPCSubnets s, Spec2_LoadBalancers := Spec2_LoadBalancers s,
     Spec2_CosInstance := Spec2_CosInstance s, Spec2_Ignition := Spec2_Ignition s\<rparr>"

definition take_kept_spec :: "IBMPowerVSClusterSpec2 \<Rightarrow> IBMPowerVSClusterSpec2 \<Rightarrow> IBMPowerVSClusterSpec2" where
  "take_kept_spec r s = s\<lparr>Spec2_VPC := Spec2_VPC r, Spec2_VPCSubnets := Spec2_VPCSubnets r, Spec2_LoadBalancers := Spec2_LoadBalancers r,
     Spec2_CosInstance := Spec2_CosInstance r, Spec2_Ignition := Spec2_Ignition r\<rparr>"

definition zero_Status2 :: IBMPowerVSClusterStatus2 where
  "zero_Status2 = \<lparr>Status2_Ready = False, Status2_ResourceGroup = None, Status2_ServiceInstance = None, Status2_Network = None,
     Status2_DHCPServer = None, Status2_VPC = None, Status2_VPCSubnet = Map.empty, Status2_VPCSecurityGroups = Map.empty,
     Status2_TransitGateway = None, Status2_COSInstance = None, Status2_LoadBalancers = Map.empty, Status2_Conditions = [], Status2_V1Beta2 = None\<rparr>"

definition kept_status :: "IBMPowerVSClusterStatus2 \<Rightarrow> IBMPowerVSClusterStatus2" where
  "kept_status s = zero_Status2\<lparr>Status2_VPC := Status2_VPC s, Status2_VPCSubnet := Status2_VPCSubnet s,
     Status2_LoadBalancers := Status2_LoadBalancers s, Status2_COSInstance := Status2_COSInstance s\<rparr>"

definition zero_meta :: ObjectMeta where
  "zero_meta = \<lparr>Meta_Name = [], Meta_Namespace = [], Meta_Labels = Map.empty, Meta_Finalizers = []\<rparr>"

definition kept_cluster :: "spoke_cluster \<Rightarrow> spoke_cluster" where
  "kept_cluster d = \<lparr>Object_Annotations = Map.empty, Object_Meta = zero_meta, Object_Spec = kept_spec (Object_Spec d), Object_Status = kept_status (Object_Status d)\<rparr>"

definition cluster_ConvertFrom ::
  "conversion_lib \<Rightarrow> (spoke_cluster, hub_cluster) data_codec \<Rightarrow> hub_cluster \<Rightarrow> spoke_cluster reply" where
  "cluster_ConvertFrom L D src =
     (let ann = (case Spec_Topology (Object_Spec src) of
            PowerVSLoadBalancerTopology \<Rightarrow> (Object_Annotations src)(createInfraAnnotation \<mapsto> ''true'')
          | PowerVSVirtualIPTopology \<Rightarrow> (Object_Annotations src)(createInfraAnnotation := None)
          | OtherTopology _ \<Rightarrow> Object_Annotations src);
          dst = \<lparr>Object_Annotations = ann, Object_Meta = Object_Meta src, Object_Spec = ClusterSpec_To_v1beta2 (Object_Spec src),
            Object_Status = ClusterStatus_To_v1beta2 L (Object_Status src)\<rparr>
      in case MarshalData D (kept_cluster dst) ann of
           Fail e c \<Rightarrow> Fail e c
         | Reply ann1 \<Rightarrow>
             (case UnmarshalData D ann1 (kept_cluster dst) of
                Fail e c \<Rightarrow> Fail e c
              | Reply (found, restored, ann2) \<Rightarrow>
                  Reply (if found then
                    dst\<lparr>Object_Annotations := ann2, Object_Spec := take_kept_spec (Object_Spec restored) (Object_Spec dst),
                      Object_Status := (Object_Status dst)
                        \<lparr>Status2_VPC := Status2_VPC (Object_Status restored), Status2_VPCSubnet := Status2_VPCSubnet (Object_Status restored),
                         Status2_LoadBalancers := Status2_LoadBalancers (Object_Status restored), Status2_COSInstance := Status2_COSInstance (Object_Status restored)\<rparr>\<rparr>
                    else dst\<lparr>Object_Annotations := ann2\<rparr>)))"

section \<open>Cluster templates\<close>

type_synonym hub_cluster_template = "(template_meta \<times> IBMPowerVSClusterSpec, unit) api_object"
type_synonym spoke_cluster_template = "(template_meta \<times> IBMPowerVSClusterSpec2, unit) api_object"

definition clusterTemplate_ConvertTo ::
  "conversion_lib \<Rightarrow> (spoke_cluster_template, hub_cluster_template) data_codec \<Rightarrow> spoke_cluster_template \<Rightarrow> hub_cluster_template reply" where
  "clusterTemplate_ConvertTo L D src =
     (case RestoreData D (Object_Annotations src) of
        Fail e c \<Rightarrow> Fail e c
      | Reply (restored, ann) \<Rightarrow>
          (let (m, s) = Object_Spec src in
           Reply \<lparr>Object_Annotations = ann, Object_Meta = Object_Meta src,
             Object_Spec = (case restored of
                 None \<Rightarrow> (lib_meta_up L m, ClusterSpec_To_v1beta3 s)
               | Some r \<Rightarrow> (let (rm, rs) = Object_Spec r in (rm, rs\<lparr>Spec_COSInstance := infer_cos_type (Spec_COSInstance rs)\<rparr>))),
             Object_Status = ()\<rparr>))"

definition clusterTemplate_ConvertFrom ::
  "conversion_lib \<Rightarrow> (spoke_cluster_template, hub_cluster_template) data_codec \<Rightarrow> hub_cluster_template \<Rightarrow> spoke_cluster_template reply" where
  "clusterTemplate_ConvertFrom L D src =
     (let (m, s) = Object_Spec src; m2 = lib_meta_down L m; s2 = ClusterSpec_To_v1beta2 s; ann = Object_Annotations src;
          kept = \<lparr>Object_Annotations = Map.empty, Object_Meta = zero_meta, Object_Spec = (m2, kept_spec s2), Object_Status = ()\<rparr>;
          tidy = (\<lambda>x. if Spec2_ResourceGroup x = Some \<lparr>PVSRef_ID = None, PVSRef_Name = None, PVSRef_RegEx = None\<rparr>
            then x\<lparr>Spec2_ResourceGroup := None\<rparr> else x)
      in case MarshalData D kept ann of
           Fail e c \<Rightarrow> Fail e c
         | Reply ann1 \<Rightarrow>
             (case UnmarshalData D ann1 kept of
                Fail e c \<Rightarrow> Fail e c
              | Reply (found, restored, ann2) \<Rightarrow>
                  Reply \<lparr>Object_Annotations = ann2, Object_Meta = Object_Meta src,
                    Object_Spec = (if found then (fst (Object_Spec restored), tidy (take_kept_spec (snd (Object_Spec restored)) s2)) else (m2, tidy s2)),
                    Object_Status = ()\<rparr>))"

end
