(* ===== verification/Conversion_Survival.thy ===== *)
theory Conversion_Survival
  imports Conversion_Objects
begin

text \<open>
  What of a \<^verbatim>\<open>v1beta3\<close> cluster survives when it is read and written back through \<^verbatim>\<open>v1beta2\<close>: for every part of
  the spec a predicate that decides it, for the status what comes back, and the round trip of the object.
\<close>

section \<open>The parts of the spec\<close>

definition workspace_survives :: "WorkspaceSource \<Rightarrow> bool" where
  "workspace_survives w \<longleftrightarrow> WorkspaceProvisionConfig_Name (WorkspaceSource_Provision w) = [] \<and>
     (WorkspaceSource_Type w = SourceTypeReference \<or> WorkspaceSource_Type w = SourceTypeProvision \<and> WorkspaceSource_Reference w = zero_identifier)"

lemma identifier_zero_iff: "r = zero_identifier \<longleftrightarrow> ResourceIdentifier_ID r = [] \<and> ResourceIdentifier_Name r = []"
  by (cases r) (simp add: zero_identifier_def)

lemma workspace_survives: "convertV1beta2WorkspaceToV1beta3 (workspace_down w) = w \<longleftrightarrow> workspace_survives w"
proof (cases w)
  case (fields ty ref prov)
  then show ?thesis
    by (cases ref; cases prov)
      (auto simp: workspace_survives_def convertV1beta2WorkspaceToV1beta3_def workspace_down_def zero_defs Let_def split: if_splits)
qed

definition resource_group_survives :: "ResourceGroupSource \<Rightarrow> bool" where
  "resource_group_survives g \<longleftrightarrow> ResourceGroupSource_Type g = SourceTypeReference \<or> g = zero_ResourceGroupSource"

lemma resource_group_survives: "convertV1beta2ResourceGroupToV1beta3 (resource_group_down g) = g \<longleftrightarrow> resource_group_survives g"
proof (cases g)
  case (fields ty ref)
  then show ?thesis
    by (cases ref) (auto simp: resource_group_survives_def convertV1beta2ResourceGroupToV1beta3_def resource_group_down_def zero_defs Let_def split: if_splits)
qed

definition snat_known :: "DHCPServer \<Rightarrow> bool" where
  "snat_known d \<longleftrightarrow> DHCPServer_Snat d \<in> {DHCPSnatPolicyEnabled, DHCPSnatPolicyDisabled, OtherSnatPolicy []}"

lemma dhcp_survives: "DHCPServer_To_v1beta3 (DHCPServer_To_v1beta2 d) = d \<longleftrightarrow> snat_known d"
  by (cases d; cases "DHCPServer_Snat d") (auto simp: snat_known_def DHCPServer_To_v1beta3_def DHCPServer_To_v1beta2_def split: if_splits)

definition network_survives :: "NetworkSource \<Rightarrow> bool" where
  "network_survives n \<longleftrightarrow> (case NetworkSource_Type n of
       SourceTypeReference \<Rightarrow> NetworkSource_Reference n \<noteq> zero_identifier \<and> NetworkSource_Provision n = NetworkSource_Provision zero_NetworkSource
     | SourceTypeProvision \<Rightarrow> NetworkSource_Reference n = zero_identifier \<and> snat_known (NetworkProvisionConfig_DHCPServer (NetworkSource_Provision n))
     | OtherSourceType _ \<Rightarrow> n = zero_NetworkSource)"

lemma network_survives: "convertV1beta2NetworkToV1beta3 (network_down n) = n \<longleftrightarrow> network_survives n"
proof (cases n)
  case (fields ty ref prov)
  then show ?thesis
    by (cases ty; cases prov; cases ref)
      (auto simp: network_survives_def convertV1beta2NetworkToV1beta3_def network_down_def zero_NetworkSource_def no_source_def
         identifier_zero_iff dhcp_survives Let_def zero_identifier_def)
qed

definition tg_survives :: "TransitGatewaySource \<Rightarrow> bool" where
  "tg_survives t \<longleftrightarrow> TransitGatewaySource_VPCConnection t = zero_ConnectionSource \<and> TransitGatewaySource_PowerVSConnection t = zero_ConnectionSource \<and>
     (case TransitGatewaySource_Type t of
        SourceTypeReference \<Rightarrow> TransitGatewaySource_Reference t \<noteq> zero_identifier \<and>
          TransitGatewaySource_Provision t = TransitGatewaySource_Provision zero_TransitGatewaySource
      | SourceTypeProvision \<Rightarrow> TransitGatewaySource_Reference t = zero_identifier \<and>
          TransitGatewayProvision_GlobalRouting (TransitGatewaySource_Provision t) \<in> {TransitGatewayRoutingLocal, TransitGatewayRoutingGlobal}
      | OtherSourceType _ \<Rightarrow> t = zero_TransitGatewaySource)"

lemma tg_up_down: "tg_up (tg_down t) = TransitGateway_To_v1beta3 (TransitGatewaySource_To_v1beta2 t)"
  by (simp add: tg_up_def tg_down_def tg_up_zero Let_def)

lemma tg_survives: "tg_up (tg_down t) = t \<longleftrightarrow> tg_survives t"
proof (cases t)
  case (fields ty ref prov c1 c2)
  obtain i n where ref: "ref = \<lparr>ResourceIdentifier_ID = i, ResourceIdentifier_Name = n\<rparr>" by (cases ref)
  obtain m g where prov: "prov = \<lparr>TransitGatewayProvision_Name = m, TransitGatewayProvision_GlobalRouting = g\<rparr>" by (cases prov)
  show ?thesis
    unfolding tg_up_down fields ref prov
    by (cases ty; cases g) (auto simp: tg_survives_def tg_conversion_defs split: if_splits)
qed

definition vpc_survives :: "VPCSource \<Rightarrow> bool" where
  "vpc_survives v \<longleftrightarrow> (case VPCSource_Type v of
       SourceTypeReference \<Rightarrow> ResourceIdentifier_ID (VPCSource_Reference v) \<noteq> [] \<and> VPCProvision_Name (VPCSource_Provision v) = []
     | SourceTypeProvision \<Rightarrow> VPCSource_Reference v = zero_identifier
     | OtherSourceType _ \<Rightarrow> False)"

lemma vpc_survives: "vpc_up (vpc_down v) = v \<longleftrightarrow> vpc_survives v"
proof (cases v)
  case (fields ty region ref prov)
  obtain i n where ref: "ref = \<lparr>ResourceIdentifier_ID = i, ResourceIdentifier_Name = n\<rparr>" by (cases ref)
  obtain m where prov: "prov = \<lparr>VPCProvision_Name = m\<rparr>" by (cases prov)
  show ?thesis
    unfolding fields ref prov
    by (cases ty; cases "i = []"; cases "n = []"; cases "m = []"; cases "region = []")
      (simp_all add: vpc_survives_def vpc_up_def vpc_down_def vpc_unset_def vpc_conversion_defs ptr_to_def)
qed

definition subnet_survives :: "VPCSubnetSource \<Rightarrow> bool" where
  "subnet_survives n \<longleftrightarrow> (case VPCSubnetSource_Type n of
       SourceTypeReference \<Rightarrow> ResourceIdentifier_ID (VPCSubnetSource_Reference n) \<noteq> [] \<and> VPCSubnetProvision_Name (VPCSubnetSource_Provision n) = []
     | SourceTypeProvision \<Rightarrow> VPCSubnetSource_Reference n = zero_identifier
     | OtherSourceType _ \<Rightarrow> False)"

lemma subnet_survives: "Subnet_To_v1beta3 (VPCSubnetSource_To_v1beta2 n) = n \<longleftrightarrow> subnet_survives n"
proof (cases n)
  case (fields ty zone ref prov)
  obtain i m where ref: "ref = \<lparr>ResourceIdentifier_ID = i, ResourceIdentifier_Name = m\<rparr>" by (cases ref)
  obtain p where prov: "prov = \<lparr>VPCSubnetProvision_Name = p\<rparr>" by (cases prov)
  show ?thesis
    unfolding fields ref prov
    by (cases ty; cases "i = []"; cases "m = []"; cases "p = []")
      (simp_all add: subnet_survives_def subnet_conversion_defs)
qed

definition lb_survives :: "LoadBalancerSource \<Rightarrow> bool" where
  "lb_survives l \<longleftrightarrow> (let p = LoadBalancerSource_Provision l in case LoadBalancerSource_Type l of
       SourceTypeReference \<Rightarrow> ResourceIdentifier_ID (LoadBalancerSource_Reference l) \<noteq> [] \<and> p = zero_LoadBalancerProvision
     | SourceTypeProvision \<Rightarrow> LoadBalancerSource_Reference l = zero_identifier \<and> p \<noteq> zero_LoadBalancerProvision \<and>
         LoadBalancerProvision_Type p \<in> {LoadBalancerTypePublic, LoadBalancerTypePrivate, OtherLBType []}
     | OtherSourceType _ \<Rightarrow> l = zero_LoadBalancerSource)"

lemma lb_survives: "VPCLoadBalancerSpec_To_v1beta3 (LoadBalancerSource_To_v1beta2 l) = l \<longleftrightarrow> lb_survives l"
proof (cases l)
  case (fields ty ref prov)
  obtain i n where ref: "ref = \<lparr>ResourceIdentifier_ID = i, ResourceIdentifier_Name = n\<rparr>" by (cases ref)
  show ?thesis
  proof (cases ty)
    case SourceTypeReference
    then show ?thesis
      unfolding fields ref
      by (cases "i = []"; cases "n = []")
        (auto simp: lb_survives_def VPCLoadBalancerSpec_To_v1beta3_def LoadBalancerSource_To_v1beta2_def has_provision_data_def lb_provision_def zero_defs Let_def)
  next
    case SourceTypeProvision
    then show ?thesis
      unfolding fields ref
      by (cases prov; cases "LoadBalancerProvision_Type prov")
        (auto simp: lb_survives_def VPCLoadBalancerSpec_To_v1beta3_def LoadBalancerSource_To_v1beta2_def has_provision_data_def lb_provision_def
           zero_defs Let_def o_def split: if_splits)
  next
    case (OtherSourceType t)
    then show ?thesis
      unfolding fields ref
      by (auto simp: lb_survives_def VPCLoadBalancerSpec_To_v1beta3_def LoadBalancerSource_To_v1beta2_def has_provision_data_def zero_defs Let_def)
  qed
qed

definition rule_survives :: "VPCSecurityGroupRule \<Rightarrow> bool" where
  "rule_survives r \<longleftrightarrow>
     (VPCSecurityGroupRule_Direction r \<noteq> VPCSecurityGroupRuleDirectionOutbound \<longrightarrow> VPCSecurityGroupRule_Destination r = zero_Prototype) \<and>
     (VPCSecurityGroupRule_Direction r \<noteq> VPCSecurityGroupRuleDirectionInbound \<longrightarrow> VPCSecurityGroupRule_Source r = zero_Prototype)"

lemma rule_survives: "Rule_To_v1beta3 (Rule_To_v1beta2 r) = r \<longleftrightarrow> rule_survives r"
  by (cases r) (auto simp: rule_survives_def Rule_To_v1beta3_def Rule_To_v1beta2_def Let_def)

definition group_survives :: "VPCSecurityGroupSource \<Rightarrow> bool" where
  "group_survives g \<longleftrightarrow> (case VPCSecurityGroupSource_Type g of
       SourceTypeReference \<Rightarrow> ResourceIdentifier_ID (VPCSecurityGroupSource_Reference g) \<noteq> [] \<and>
         VPCSecurityGroupSource_Provision g = VPCSecurityGroupSource_Provision zero_SecurityGroupSource
     | SourceTypeProvision \<Rightarrow> VPCSecurityGroupSource_Reference g = zero_identifier \<and>
         list_all rule_survives (VPCSecurityGroupProvision_Rules (VPCSecurityGroupSource_Provision g))
     | OtherSourceType _ \<Rightarrow> False)"

lemma map_fixpoint: "map f xs = xs \<longleftrightarrow> list_all (\<lambda>x. f x = x) xs"
  by (induction xs) simp_all

lemma group_survives: "VPCSecurityGroup_To_v1beta3 (VPCSecurityGroupSource_To_v1beta2 g) = g \<longleftrightarrow> group_survives g"
proof (cases g)
  case (fields ty ref prov)
  obtain i n where ref: "ref = \<lparr>ResourceIdentifier_ID = i, ResourceIdentifier_Name = n\<rparr>" by (cases ref)
  obtain m rules tags where prov: "prov = \<lparr>VPCSecurityGroupProvision_Name = m, VPCSecurityGroupProvision_Rules = rules, VPCSecurityGroupProvision_Tags = tags\<rparr>"
    by (cases prov)
  show ?thesis
    unfolding fields ref prov
    by (cases ty)
      (auto simp: group_survives_def VPCSecurityGroup_To_v1beta3_def VPCSecurityGroupSource_To_v1beta2_def zero_SecurityGroupSource_def
         zero_SecurityGroup2_def zero_identifier_def no_source_def Let_def o_def map_fixpoint rule_survives)
qed

definition cos_survives :: "COSInstanceSource \<Rightarrow> bool" where
  "cos_survives c \<longleftrightarrow> c = zero_COSInstanceSource \<or> COSInstanceSource_Type c = SourceTypeProvision \<and> COSInstanceSource_Reference c = zero_identifier \<and>
     (COSInstanceProvision_Name (COSInstanceSource_Provision c) \<noteq> [] \<or> COSInstanceSource_BucketName c \<noteq> [] \<or> COSInstanceSource_BucketRegion c \<noteq> [])"

lemma cos_survives: "cos_up (cos_down c) = c \<longleftrightarrow> cos_survives c"
proof (cases c)
  case (fields ty b r ref prov)
  obtain i n where ref: "ref = \<lparr>ResourceIdentifier_ID = i, ResourceIdentifier_Name = n\<rparr>" by (cases ref)
  obtain m where prov: "prov = \<lparr>COSInstanceProvision_Name = m\<rparr>" by (cases prov)
  show ?thesis
    unfolding fields ref prov
    by (cases ty; cases "b = []"; cases "r = []"; cases "m = []") (auto simp: cos_survives_def cos_conversion_defs)
qed

lemma ignition_survives: "ignition_up (ignition_down i) = i"
  by (cases i) (simp add: ignition_up_def ignition_down_def)

text \<open>All parts together; the topology is not part of \<^verbatim>\<open>v1beta2\<close>.\<close>

definition spec_survives :: "IBMPowerVSClusterSpec \<Rightarrow> bool" where
  "spec_survives s \<longleftrightarrow> workspace_survives (Spec_Workspace s) \<and> network_survives (Spec_Network s) \<and>
     resource_group_survives (Spec_ResourceGroup s) \<and> tg_survives (Spec_TransitGateway s) \<and> vpc_survives (Spec_VPC s) \<and>
     list_all subnet_survives (Spec_VPCSubnets s) \<and> list_all lb_survives (Spec_LoadBalancers s) \<and>
     list_all group_survives (Spec_VPCSecurityGroups s) \<and> cos_survives (Spec_COSInstance s)"

lemma spec_survives:
  "(ClusterSpec_To_v1beta3 (ClusterSpec_To_v1beta2 s))\<lparr>Spec_Topology := t\<rparr> = s\<lparr>Spec_Topology := t\<rparr> \<longleftrightarrow> spec_survives s"
  by (cases s) (simp add: spec_survives_def ClusterSpec_To_v1beta3_def ClusterSpec_To_v1beta2_def map_fixpoint o_def workspace_survives
      network_survives resource_group_survives tg_survives vpc_survives subnet_survives lb_survives group_survives cos_survives ignition_survives)

end
