(* ===== verification/Conversion_Machines.thy ===== *)
theory Conversion_Machines
  imports Conversion_Objects Machine_Webhooks
begin

text \<open>
  The conversion of machines, machine templates and images (\<^verbatim>\<open>api/powervs/v1beta2/conversion.go\<close>), with the
  objects of the older version. The generated code turns a string into a pointer even when it is empty;
  the conversions of whole objects set such pointers to nil.
\<close>

section \<open>Machines\<close>

text \<open>The workspace of a machine or an image: the reference wins over the ID.\<close>

definition instance_workspace :: "IBMPowerVSResourceReference option \<Rightarrow> string \<Rightarrow> ResourceIdentifier" where
  "instance_workspace inst instID =
     (case inst of
        Some r \<Rightarrow> \<lparr>ResourceIdentifier_ID = str_Deref (PVSRef_ID r), ResourceIdentifier_Name = str_Deref (PVSRef_Name r)\<rparr>
      | None \<Rightarrow> \<lparr>ResourceIdentifier_ID = instID, ResourceIdentifier_Name = []\<rparr>)"

definition workspace_instance :: "ResourceIdentifier \<Rightarrow> IBMPowerVSResourceReference option \<times> string" where
  "workspace_instance w =
     (if ResourceIdentifier_ID w \<noteq> [] \<or> ResourceIdentifier_Name w \<noteq> []
      then (Some \<lparr>PVSRef_ID = ptr_to (ResourceIdentifier_ID w), PVSRef_Name = ptr_to (ResourceIdentifier_Name w), PVSRef_RegEx = None\<rparr>, ResourceIdentifier_ID w)
      else (None, []))"

lemma workspace_instance_back [simp]: "instance_workspace (fst (workspace_instance w)) (snd (workspace_instance w)) = w"
  by (cases w) (simp add: instance_workspace_def workspace_instance_def)

definition machine_image_up :: "string option \<Rightarrow> IBMPowerVSResourceReference option \<Rightarrow> IBMPowerVSMachineImage" where
  "machine_image_up ref img =
     (let z = \<lparr>MachineImage_Type = OtherImageSourceType [], MachineImage_Reference = zero_identifier, MachineImage_Import = []\<rparr> in
      if is_set ref then z\<lparr>MachineImage_Type := ImageSourceTypeImport, MachineImage_Import := str_Deref ref\<rparr>
      else case img of
        None \<Rightarrow> z
      | Some r \<Rightarrow> z\<lparr>MachineImage_Type := ImageSourceTypeReference,
          MachineImage_Reference := \<lparr>ResourceIdentifier_ID = str_Deref (PVSRef_ID r), ResourceIdentifier_Name = str_Deref (PVSRef_Name r)\<rparr>\<rparr>)"

definition machine_image_down :: "IBMPowerVSMachineImage \<Rightarrow> string option \<times> IBMPowerVSResourceReference option" where
  "machine_image_down i =
     (case MachineImage_Type i of
        ImageSourceTypeImport \<Rightarrow> (ptr_to (MachineImage_Import i), None)
      | ImageSourceTypeReference \<Rightarrow>
          (None, Some \<lparr>PVSRef_ID = ptr_to (ResourceIdentifier_ID (MachineImage_Reference i)), PVSRef_Name = ptr_to (ResourceIdentifier_Name (MachineImage_Reference i)), PVSRef_RegEx = None\<rparr>)
      | OtherImageSourceType _ \<Rightarrow> (None, None))"

definition MachineSpec_To_v1beta3 :: "IBMPowerVSMachineSpec2 \<Rightarrow> IBMPowerVSMachineSpec" where
  "MachineSpec_To_v1beta3 s =
     \<lparr>MachineSpec_Workspace = instance_workspace (MachineSpec2_ServiceInstance s) (MachineSpec2_ServiceInstanceID s),
      MachineSpec_Network = IBMPowerVSResourceReference_To_ResourceIdentifier (MachineSpec2_Network s),
      MachineSpec_Image = machine_image_up (MachineSpec2_ImageRef s) (MachineSpec2_Image s),
      MachineSpec_SSHKey = MachineSpec2_SSHKey s, MachineSpec_SystemType = MachineSpec2_SystemType s,
      MachineSpec_ProcessorType = MachineSpec2_ProcessorType s, MachineSpec_Processors = MachineSpec2_Processors s,
      MachineSpec_MemoryGiB = MachineSpec2_MemoryGiB s, MachineSpec_ProviderID = str_Deref (MachineSpec2_ProviderID s)\<rparr>"

definition MachineSpec_To_v1beta2 :: "IBMPowerVSMachineSpec \<Rightarrow> IBMPowerVSMachineSpec2" where
  "MachineSpec_To_v1beta2 s =
     (let (inst, instID) = workspace_instance (MachineSpec_Workspace s); (ref, img) = machine_image_down (MachineSpec_Image s) in
      \<lparr>MachineSpec2_ServiceInstanceID = instID, MachineSpec2_ServiceInstance = inst, MachineSpec2_SSHKey = MachineSpec_SSHKey s,
       MachineSpec2_Image = img, MachineSpec2_ImageRef = ref, MachineSpec2_SystemType = MachineSpec_SystemType s,
       MachineSpec2_ProcessorType = MachineSpec_ProcessorType s, MachineSpec2_Processors = MachineSpec_Processors s,
       MachineSpec2_MemoryGiB = MachineSpec_MemoryGiB s, MachineSpec2_Network = ResourceIdentifier_To_IBMPowerVSResourceReference (MachineSpec_Network s),
       MachineSpec2_ProviderID = Some (MachineSpec_ProviderID s)\<rparr>)"

definition nil_if_empty :: "string option \<Rightarrow> string option" where
  "nil_if_empty p = (if p = Some [] then None else p)"

lemma str_Deref_nil_if_empty [simp]: "str_Deref (nil_if_empty p) = str_Deref p"
  by (simp add: nil_if_empty_def)

definition MachineStatus_To_v1beta3 :: "conversion_lib \<Rightarrow> IBMPowerVSMachineStatus2 \<Rightarrow> IBMPowerVSMachineStatus" where
  "MachineStatus_To_v1beta3 L s =
     \<lparr>MachineStatus_Conditions = (case MachineStatus2_V1Beta2 s of None \<Rightarrow> [] | Some cs \<Rightarrow> cs), MachineStatus_Provisioned = None,
      MachineStatus_InstanceID = MachineStatus2_InstanceID s, MachineStatus_Addresses = MachineStatus2_Addresses s,
      MachineStatus_Health = MachineStatus2_Health s, MachineStatus_InstanceState = MachineStatus2_InstanceState s,
      MachineStatus_Region = str_Deref (MachineStatus2_Region s), MachineStatus_Zone = str_Deref (MachineStatus2_Zone s),
      MachineStatus_Deprecated = (if MachineStatus2_Conditions s = [] then None else Some (Some (lib_conditions_up L (MachineStatus2_Conditions s))))\<rparr>"

definition legacy_conditions :: "conversion_lib \<Rightarrow> DeprecatedCondition list option option \<Rightarrow> DeprecatedCondition list" where
  "legacy_conditions L d = (case d of Some (Some cs) \<Rightarrow> if cs \<noteq> [] then lib_conditions_down L cs else [] | _ \<Rightarrow> [])"

definition MachineStatus_To_v1beta2 :: "conversion_lib \<Rightarrow> IBMPowerVSMachineStatus \<Rightarrow> IBMPowerVSMachineStatus2" where
  "MachineStatus_To_v1beta2 L s =
     \<lparr>MachineStatus2_InstanceID = MachineStatus_InstanceID s, MachineStatus2_Ready = (MachineStatus_Provisioned s = Some True),
      MachineStatus2_Addresses = MachineStatus_Addresses s, MachineStatus2_Health = MachineStatus_Health s,
      MachineStatus2_InstanceState = MachineStatus_InstanceState s, MachineStatus2_Fault = [], MachineStatus2_FailureReason = None,
      MachineStatus2_FailureMessage = None, MachineStatus2_Conditions = legacy_conditions L (MachineStatus_Deprecated s),
      MachineStatus2_Region = nil_if_empty (Some (MachineStatus_Region s)), MachineStatus2_Zone = nil_if_empty (Some (MachineStatus_Zone s)),
      MachineStatus2_V1Beta2 = (if MachineStatus_Conditions s = [] then None else Some (MachineStatus_Conditions s))\<rparr>"

type_synonym hub_machine = "(IBMPowerVSMachineSpec, IBMPowerVSMachineStatus) api_object"
type_synonym spoke_machine = "(IBMPowerVSMachineSpec2, IBMPowerVSMachineStatus2) api_object"

definition machine_ConvertTo :: "conversion_lib \<Rightarrow> (hub_machine, hub_machine) data_codec \<Rightarrow> spoke_machine \<Rightarrow> hub_machine reply" where
  "machine_ConvertTo L D src =
     (case RestoreData D (Object_Annotations src) of
        Fail e c \<Rightarrow> Fail e c
      | Reply (restored, ann) \<Rightarrow>
          Reply \<lparr>Object_Annotations = ann, Object_Meta = Object_Meta src, Object_Spec = MachineSpec_To_v1beta3 (Object_Spec src),
            Object_Status = (MachineStatus_To_v1beta3 L (Object_Status src))\<lparr>MachineStatus_Provisioned :=
              lib_bool L (MachineStatus2_Ready (Object_Status src)) (restored \<noteq> None)
                (case restored of None \<Rightarrow> None | Some r \<Rightarrow> MachineStatus_Provisioned (Object_Status r))\<rparr>\<rparr>)"

definition machine_ConvertFrom :: "conversion_lib \<Rightarrow> (hub_machine, hub_machine) data_codec \<Rightarrow> hub_machine \<Rightarrow> spoke_machine reply" where
  "machine_ConvertFrom L D src =
     (let spec = MachineSpec_To_v1beta2 (Object_Spec src) in
      case MarshalData D src (Object_Annotations src) of
        Fail e c \<Rightarrow> Fail e c
      | Reply ann \<Rightarrow>
          Reply \<lparr>Object_Annotations = ann, Object_Meta = Object_Meta src,
            Object_Spec = spec\<lparr>MachineSpec2_ProviderID := nil_if_empty (MachineSpec2_ProviderID spec)\<rparr>,
            Object_Status = MachineStatus_To_v1beta2 L (Object_Status src)\<rparr>)"

section \<open>Machine templates\<close>

text \<open>\<^verbatim>\<open>v1beta2\<close> has no metadata in the template.\<close>

type_synonym hub_machine_template = "(template_meta \<times> IBMPowerVSMachineSpec, string \<rightharpoonup> Quantity) api_object"
type_synonym spoke_machine_template = "(IBMPowerVSMachineSpec2, string \<rightharpoonup> Quantity) api_object"

definition no_template_meta :: template_meta where
  "no_template_meta = \<lparr>TemplateMeta_Labels = Map.empty, TemplateMeta_Annotations = Map.empty\<rparr>"

definition TemplateResource_To_v1beta2 :: "template_meta \<times> IBMPowerVSMachineSpec \<Rightarrow> IBMPowerVSMachineSpec2" where
  "TemplateResource_To_v1beta2 t =
     (let s = MachineSpec_To_v1beta2 (snd t); n = MachineSpec2_Network s in
      s\<lparr>MachineSpec2_Network := \<lparr>PVSRef_ID = nil_if_empty (PVSRef_ID n), PVSRef_Name = nil_if_empty (PVSRef_Name n), PVSRef_RegEx = None\<rparr>\<rparr>)"

definition machineTemplate_ConvertTo ::
  "(hub_machine_template, hub_machine_template) data_codec \<Rightarrow> spoke_machine_template \<Rightarrow> hub_machine_template reply" where
  "machineTemplate_ConvertTo D src =
     (case RestoreData D (Object_Annotations src) of
        Fail e c \<Rightarrow> Fail e c
      | Reply (restored, ann) \<Rightarrow>
          Reply \<lparr>Object_Annotations = ann, Object_Meta = Object_Meta src, Object_Spec = (no_template_meta, MachineSpec_To_v1beta3 (Object_Spec src)),
            Object_Status = (case restored of None \<Rightarrow> Object_Status src | Some r \<Rightarrow> Object_Status r)\<rparr>)"

definition machineTemplate_ConvertFrom ::
  "(hub_machine_template, hub_machine_template) data_codec \<Rightarrow> hub_machine_template \<Rightarrow> spoke_machine_template reply" where
  "machineTemplate_ConvertFrom D src =
     (let spec = TemplateResource_To_v1beta2 (Object_Spec src) in
      case MarshalData D src (Object_Annotations src) of
        Fail e c \<Rightarrow> Fail e c
      | Reply ann \<Rightarrow>
          Reply \<lparr>Object_Annotations = ann, Object_Meta = Object_Meta src,
            Object_Spec = spec\<lparr>MachineSpec2_ProviderID := nil_if_empty (MachineSpec2_ProviderID spec),
              MachineSpec2_Network := (MachineSpec2_Network spec)\<lparr>PVSRef_RegEx := None\<rparr>\<rparr>,
            Object_Status = Object_Status src\<rparr>)"

section \<open>Images\<close>

definition ImageSpec_To_v1beta3 :: "IBMPowerVSImageSpec2 \<Rightarrow> IBMPowerVSImageSpec" where
  "ImageSpec_To_v1beta3 s =
     \<lparr>ImageSpec_ClusterName = ImageSpec2_ClusterName s,
      ImageSpec_Workspace = instance_workspace (ImageSpec2_ServiceInstance s) (ImageSpec2_ServiceInstanceID s),
      ImageSpec_Bucket = str_Deref (ImageSpec2_Bucket s), ImageSpec_Object = str_Deref (ImageSpec2_Object s), ImageSpec_Region = str_Deref (ImageSpec2_Region s),
      ImageSpec_StorageType = ImageSpec2_StorageType s, ImageSpec_DeletePolicy = ImageSpec2_DeletePolicy s\<rparr>"

definition ImageSpec_To_v1beta2 :: "IBMPowerVSImageSpec \<Rightarrow> IBMPowerVSImageSpec2" where
  "ImageSpec_To_v1beta2 s =
     (let (inst, instID) = workspace_instance (ImageSpec_Workspace s) in
      \<lparr>ImageSpec2_ClusterName = ImageSpec_ClusterName s, ImageSpec2_ServiceInstanceID = instID, ImageSpec2_ServiceInstance = inst,
       ImageSpec2_Bucket = nil_if_empty (Some (ImageSpec_Bucket s)), ImageSpec2_Object = nil_if_empty (Some (ImageSpec_Object s)),
       ImageSpec2_Region = nil_if_empty (Some (ImageSpec_Region s)),
       ImageSpec2_StorageType = ImageSpec_StorageType s, ImageSpec2_DeletePolicy = ImageSpec_DeletePolicy s\<rparr>)"

definition ImageStatus_To_v1beta3 :: "conversion_lib \<Rightarrow> IBMPowerVSImageStatus2 \<Rightarrow> IBMPowerVSImageStatus" where
  "ImageStatus_To_v1beta3 L s =
     \<lparr>ImageStatus_Conditions = (case ImageStatus2_V1Beta2 s of None \<Rightarrow> [] | Some cs \<Rightarrow> cs),
      ImageStatus_ImageID = ImageStatus2_ImageID s, ImageStatus_ImageState = ImageStatus2_ImageState s, ImageStatus_JobID = ImageStatus2_JobID s,
      ImageStatus_Deprecated = (if ImageStatus2_Conditions s = [] then None else Some (Some (lib_conditions_up L (ImageStatus2_Conditions s))))\<rparr>"

definition ImageStatus_To_v1beta2 :: "conversion_lib \<Rightarrow> IBMPowerVSImageStatus \<Rightarrow> IBMPowerVSImageStatus2" where
  "ImageStatus_To_v1beta2 L s =
     \<lparr>ImageStatus2_Ready = False, ImageStatus2_ImageID = ImageStatus_ImageID s, ImageStatus2_ImageState = ImageStatus_ImageState s,
      ImageStatus2_JobID = ImageStatus_JobID s, ImageStatus2_Conditions = legacy_conditions L (ImageStatus_Deprecated s),
      ImageStatus2_V1Beta2 = (if ImageStatus_Conditions s = [] then None else Some (ImageStatus_Conditions s))\<rparr>"

type_synonym hub_image = "(IBMPowerVSImageSpec, IBMPowerVSImageStatus) api_object"
type_synonym spoke_image = "(IBMPowerVSImageSpec2, IBMPowerVSImageStatus2) api_object"

definition image_ConvertTo :: "conversion_lib \<Rightarrow> (hub_image, hub_image) data_codec \<Rightarrow> spoke_image \<Rightarrow> hub_image reply" where
  "image_ConvertTo L D src =
     (case RestoreData D (Object_Annotations src) of
        Fail e c \<Rightarrow> Fail e c
      | Reply (restored, ann) \<Rightarrow>
          Reply \<lparr>Object_Annotations = ann, Object_Meta = Object_Meta src,
            Object_Spec = (case restored of None \<Rightarrow> ImageSpec_To_v1beta3 (Object_Spec src) | Some r \<Rightarrow> Object_Spec r),
            Object_Status = ImageStatus_To_v1beta3 L (Object_Status src)\<rparr>)"

definition image_ConvertFrom :: "conversion_lib \<Rightarrow> (hub_image, hub_image) data_codec \<Rightarrow> hub_image \<Rightarrow> spoke_image reply" where
  "image_ConvertFrom L D src =
     (case MarshalData D src (Object_Annotations src) of
        Fail e c \<Rightarrow> Fail e c
      | Reply ann \<Rightarrow>
          Reply \<lparr>Object_Annotations = ann, Object_Meta = Object_Meta src, Object_Spec = ImageSpec_To_v1beta2 (Object_Spec src),
            Object_Status = (ImageStatus_To_v1beta2 L (Object_Status src))
              \<lparr>ImageStatus2_Ready := (ImageStatus_ImageState (Object_Status src) = PowerVSImageStateACTIVE)\<rparr>\<rparr>)"

end
