(* ===== verification/Conversion_Properties.thy ===== *)
theory Conversion_Properties
  imports Conversion_Survival Conversion_Machines Controller_Safety
begin

text \<open>
  What an object keeps when a client reads it in \<^verbatim>\<open>v1beta2\<close> and writes it back: the cluster with its spec,
  topology and status, the machine, the image and the template; and where the conversion changes who owns
  a resource, or drops what the client wrote.
\<close>

section \<open>What is assumed of Cluster API\<close>

definition conversion_laws :: "conversion_lib \<Rightarrow> bool" where
  "conversion_laws L \<longleftrightarrow>
     (\<forall>cs. lib_conditions_up L (lib_conditions_down L cs) = cs \<and> length (lib_conditions_down L cs) = length cs) \<and>
     (\<forall>found r. lib_bool L True found r = Some True) \<and>
     (\<forall>found r. lib_bool L False found r = (if found \<and> r = Some False then Some False else None))"

definition codec_laws :: "('m, 'r) data_codec \<Rightarrow> bool" where
  "codec_laws D \<longleftrightarrow>
     (\<forall>x a a1. MarshalData D x a = Reply a1 \<longrightarrow> UnmarshalData D a1 x = Reply (True, x, a(DataAnnotation := None))) \<and>
     (\<forall>a. a DataAnnotation = None \<longrightarrow> RestoreData D a = Reply (None, a))"

text \<open>The metadata is not encoded.\<close>

definition without_meta :: "('spec, 'status) api_object \<Rightarrow> ('spec, 'status) api_object" where
  "without_meta x = x\<lparr>Object_Annotations := Map.empty, Object_Meta := zero_meta\<rparr>"

definition restoring :: "(('spec, 'status) api_object, ('spec, 'status) api_object) data_codec \<Rightarrow> bool" where
  "restoring D \<longleftrightarrow>
     (\<forall>x a a1. MarshalData D x a = Reply a1 \<longrightarrow> a1 DataAnnotation \<noteq> None \<and> a1(DataAnnotation := None) = a(DataAnnotation := None)) \<and>
     (\<forall>x a a1 b. MarshalData D x a = Reply a1 \<longrightarrow> b DataAnnotation = a1 DataAnnotation \<longrightarrow>
        RestoreData D b = Reply (Some (without_meta x), b(DataAnnotation := None)))"

section \<open>Clusters\<close>

lemma annotations_distinct: "createInfraAnnotation \<noteq> DataAnnotation"
  by (simp add: createInfraAnnotation_def DataAnnotation_def)

definition topology_annotations :: "hub_cluster \<Rightarrow> annotations" where
  "topology_annotations h = (case Spec_Topology (Object_Spec h) of
       PowerVSLoadBalancerTopology \<Rightarrow> (Object_Annotations h)(createInfraAnnotation \<mapsto> ''true'')
     | PowerVSVirtualIPTopology \<Rightarrow> (Object_Annotations h)(createInfraAnnotation := None)
     | OtherTopology _ \<Rightarrow> Object_Annotations h)"

lemma kept_taken: "take_kept_spec (kept_spec s) s = s"
  by (simp add: take_kept_spec_def kept_spec_def)

lemma ConvertFrom_result:
  assumes "codec_laws D" and "cluster_ConvertFrom L D h = Reply d"
  shows "d = \<lparr>Object_Annotations = (topology_annotations h)(DataAnnotation := None), Object_Meta = Object_Meta h,
     Object_Spec = ClusterSpec_To_v1beta2 (Object_Spec h), Object_Status = ClusterStatus_To_v1beta2 L (Object_Status h)\<rparr>"
  using assms
  by (auto simp: cluster_ConvertFrom_def codec_laws_def kept_cluster_def kept_taken kept_status_def topology_annotations_def Let_def
      split: reply.splits prod.splits)

definition topology_read :: "annotations \<Rightarrow> ClusterTopology" where
  "topology_read a = (case a createInfraAnnotation of None \<Rightarrow> OtherTopology []
     | Some v \<Rightarrow> if v = ''true'' then PowerVSLoadBalancerTopology else PowerVSVirtualIPTopology)"

lemma ConvertTo_result:
  assumes "codec_laws D" and "Object_Annotations d DataAnnotation = None"
  shows "cluster_ConvertTo L D order d = Reply
     \<lparr>Object_Annotations = (Object_Annotations d)(createInfraAnnotation := None), Object_Meta = Object_Meta d,
      Object_Spec = (ClusterSpec_To_v1beta3 (Object_Spec d))\<lparr>Spec_Topology := topology_read (Object_Annotations d)\<rparr>,
      Object_Status = (ClusterStatus_To_v1beta3 L order (Object_Status d))
        \<lparr>Status_Initialization := \<lparr>Initialization_Provisioned = lib_bool L (Status2_Ready (Object_Status d)) False None\<rparr>\<rparr>\<rparr>"
proof -
  have "RestoreData D (Object_Annotations d) = Reply (None, Object_Annotations d)" using assms by (simp add: codec_laws_def)
  then show ?thesis
    by (auto simp: cluster_ConvertTo_def topology_read_def ClusterSpec_To_v1beta3_def Let_def split: option.splits)
qed

text \<open>The cluster that comes back.\<close>

definition round_tripped :: "conversion_lib \<Rightarrow> (string set \<Rightarrow> string list) \<Rightarrow> hub_cluster \<Rightarrow> hub_cluster" where
  "round_tripped L order h =
     \<lparr>Object_Annotations = (Object_Annotations h)(DataAnnotation := None, createInfraAnnotation := None), Object_Meta = Object_Meta h,
      Object_Spec = (ClusterSpec_To_v1beta3 (ClusterSpec_To_v1beta2 (Object_Spec h)))
        \<lparr>Spec_Topology := topology_read (topology_annotations h)\<rparr>,
      Object_Status = (ClusterStatus_To_v1beta3 L order (ClusterStatus_To_v1beta2 L (Object_Status h)))
        \<lparr>Status_Initialization := \<lparr>Initialization_Provisioned =
           lib_bool L (Initialization_Provisioned (Status_Initialization (Object_Status h)) = Some True) False None\<rparr>\<rparr>\<rparr>"

lemma round_trip:
  assumes "codec_laws D" and "cluster_ConvertFrom L D h = Reply d"
  shows "cluster_ConvertTo L D order d = Reply (round_tripped L order h)"
proof -
  have d: "d = \<lparr>Object_Annotations = (topology_annotations h)(DataAnnotation := None), Object_Meta = Object_Meta h,
     Object_Spec = ClusterSpec_To_v1beta2 (Object_Spec h), Object_Status = ClusterStatus_To_v1beta2 L (Object_Status h)\<rparr>"
    by (rule ConvertFrom_result [OF assms])
  have "topology_read ((topology_annotations h)(DataAnnotation := None)) = topology_read (topology_annotations h)"
    by (simp add: topology_read_def annotations_distinct)
  moreover have "(topology_annotations h)(DataAnnotation := None, createInfraAnnotation := None) = (Object_Annotations h)(DataAnnotation := None, createInfraAnnotation := None)"
    by (auto simp: topology_annotations_def split: ClusterTopology.splits)
  ultimately show ?thesis
    unfolding round_tripped_def using ConvertTo_result [OF assms(1), of d L order] by (simp add: d ClusterStatus_To_v1beta2_def Let_def)
qed

text \<open>The topology survives if it is the load balancer's, or if there is none and no old annotation.\<close>

definition topology_survives :: "hub_cluster \<Rightarrow> bool" where
  "topology_survives h \<longleftrightarrow> (case Spec_Topology (Object_Spec h) of
       PowerVSLoadBalancerTopology \<Rightarrow> True
     | PowerVSVirtualIPTopology \<Rightarrow> False
     | OtherTopology t \<Rightarrow> t = [] \<and> Object_Annotations h createInfraAnnotation = None)"

lemma topology_survives: "topology_read (topology_annotations h) = Spec_Topology (Object_Spec h) \<longleftrightarrow> topology_survives h"
  by (auto simp: topology_survives_def topology_read_def topology_annotations_def split: ClusterTopology.splits option.splits)

text \<open>
  C20: a cluster that is read in \<^verbatim>\<open>v1beta2\<close> and written back has the spec it had exactly if its topology and each of
  its parts survive: unions without leftovers, VPC, subnets, load balancers and security groups
  referred to by ID, a transit gateway referred to or provisioned with its routing and without connections of its
  own, an unnamed provisioned workspace, and object storage that is not referred to.
\<close>

theorem cluster_round_trip:
  assumes "codec_laws D" and "cluster_ConvertFrom L D h = Reply d"
  shows "\<exists>r. cluster_ConvertTo L D order d = Reply r \<and> Object_Meta r = Object_Meta h \<and>
     (Object_Spec r = Object_Spec h \<longleftrightarrow> topology_survives h \<and> spec_survives (Object_Spec h))"
proof -
  let ?s = "Object_Spec h" and ?t = "topology_read (topology_annotations h)"
  have "(ClusterSpec_To_v1beta3 (ClusterSpec_To_v1beta2 ?s))\<lparr>Spec_Topology := ?t\<rparr> = ?s \<longleftrightarrow> ?t = Spec_Topology ?s \<and> spec_survives ?s"
    using spec_survives [of ?t ?s] by (cases ?s) (auto simp: ClusterSpec_To_v1beta3_def)
  then show ?thesis
    using round_trip [OF assms] by (simp add: round_tripped_def topology_survives)
qed

text \<open>A scope that works on the spec and the status of an object.\<close>

definition holding :: "ClusterScope \<Rightarrow> hub_cluster \<Rightarrow> ClusterScope" where
  "holding s h = s\<lparr>scope_cluster := (scope_cluster s)\<lparr>Cluster_Spec := Object_Spec h, Cluster_Status := Object_Status h\<rparr>\<rparr>"

lemma holding_simps [simp]:
  "spec (holding s h) = Object_Spec h" "status (holding s h) = Object_Status h" "trace (holding s h) = trace s"
  by (simp_all add: holding_def spec_def status_def)

text \<open>
  C23: a VPC the user refers to by name is left alone when the cluster is deleted; once the cluster was read in
  \<^verbatim>\<open>v1beta2\<close> and written back, nothing else changed, the same deletion deletes it: a name without an
  ID comes back as a VPC to be provisioned under that name.
\<close>

theorem named_vpc_given_away:
  assumes "codec_laws D" and "cluster_ConvertFrom L D h = Reply d"
    and vpc: "Spec_VPC (Object_Spec h) = \<lparr>VPCSource_Type = SourceTypeReference, VPCSource_Region = region,
      VPCSource_Reference = \<lparr>ResourceIdentifier_ID = [], ResourceIdentifier_Name = n\<rparr>, VPCSource_Provision = \<lparr>VPCProvision_Name = []\<rparr>\<rparr>"
    and "n \<noteq> []" and "VPCStatus_ID (Status_VPC (Object_Status h)) = i" and "i \<noteq> []"
    and cloud: "on_GetVPC (IBMVPCClient C) (trace s) i = Reply (Some v)" "vpc_Status v \<noteq> Some VPCStateDeleting" "vpc_Name v \<noteq> None"
  shows "\<exists>r. cluster_ConvertTo L D order d = Reply r \<and>
     run_state (DeleteVPC C) (holding s h) = (Ok False, holding s h) \<and>
     VPCC (DeleteVPC_call (vpc_ID v)) \<in> set (new_calls (holding s r) (snd (run_state (DeleteVPC C) (holding s r))))"
proof -
  let ?r = "round_tripped L order h"
  have "Spec_VPC (Object_Spec ?r) = \<lparr>VPCSource_Type = SourceTypeProvision, VPCSource_Region = region,
      VPCSource_Reference = zero_identifier, VPCSource_Provision = \<lparr>VPCProvision_Name = n\<rparr>\<rparr>"
    using assms(4) by (simp add: round_tripped_def ClusterSpec_To_v1beta3_def ClusterSpec_To_v1beta2_def vpc vpc_up_def vpc_down_def
        vpc_unset_def vpc_conversion_defs ptr_to_def)
  moreover have "VPCStatus_ID (Status_VPC (Object_Status ?r)) = i"
    by (simp add: round_tripped_def ClusterStatus_To_v1beta3_def ClusterStatus_To_v1beta2_def Let_def assms(5))
  ultimately have "wp (DeleteVPC C) (\<lambda>_ t. VPCC (DeleteVPC_call (vpc_ID v)) \<in> set (new_calls (holding s ?r) t)) (holding s ?r)"
    unfolding DeleteVPC_def using cloud assms(6) by (simp only: wp_simps) (auto simp: new_calls_def split: option.splits)
  then have "VPCC (DeleteVPC_call (vpc_ID v)) \<in> set (new_calls (holding s ?r) (snd (run_state (DeleteVPC C) (holding s ?r))))"
    by (simp add: wp_def split: prod.splits)
  moreover have "run_state (DeleteVPC C) (holding s h) = (Ok False, holding s h)"
    by (simp add: DeleteVPC_def vpc)
  ultimately show ?thesis using round_trip [OF assms(1,2)] by blast
qed

text \<open>
  a \<^verbatim>\<open>v1beta2\<close> cluster whose annotation says that no infrastructure is created is stored with the virtual IP
  topology; when it is read in \<^verbatim>\<open>v1beta2\<close> and written back it has no topology any more.
\<close>

theorem virtual_ip_lost:
  assumes "codec_laws D" and "Object_Annotations d DataAnnotation = None"
    and "Object_Annotations d createInfraAnnotation = Some v" and "v \<noteq> ''true''"
  shows "\<exists>h. cluster_ConvertTo L D order d = Reply h \<and> Spec_Topology (Object_Spec h) = PowerVSVirtualIPTopology \<and>
     (\<forall>e. cluster_ConvertFrom L D h = Reply e \<longrightarrow>
        (\<exists>r. cluster_ConvertTo L D order e = Reply r \<and> Spec_Topology (Object_Spec r) = OtherTopology []))"
proof -
  obtain h where h: "cluster_ConvertTo L D order d = Reply h" "Spec_Topology (Object_Spec h) = PowerVSVirtualIPTopology"
    using ConvertTo_result [OF assms(1,2), of L order] assms(3,4) by (simp add: topology_read_def)
  have "Spec_Topology (Object_Spec (round_tripped L order h)) = OtherTopology []"
    by (simp add: round_tripped_def topology_read_def topology_annotations_def h(2))
  with h round_trip [OF assms(1), of L h _ order] show ?thesis by blast
qed

section \<open>Machines, images and templates\<close>

definition machine_image_survives :: "IBMPowerVSMachineImage \<Rightarrow> bool" where
  "machine_image_survives i \<longleftrightarrow> (case MachineImage_Type i of
       ImageSourceTypeImport \<Rightarrow> MachineImage_Import i \<noteq> [] \<and> MachineImage_Reference i = zero_identifier
     | ImageSourceTypeReference \<Rightarrow> MachineImage_Import i = []
     | OtherImageSourceType t \<Rightarrow> t = [] \<and> MachineImage_Import i = [] \<and> MachineImage_Reference i = zero_identifier)"

lemma machine_image_survives:
  "machine_image_up (fst (machine_image_down i)) (snd (machine_image_down i)) = i \<longleftrightarrow> machine_image_survives i"
proof (cases i)
  case (fields ty ref imp)
  then show ?thesis
    by (cases ty; cases ref) (auto simp: machine_image_survives_def machine_image_up_def machine_image_down_def zero_identifier_def Let_def)
qed

lemma machine_spec_back:
  "MachineSpec_To_v1beta3 ((MachineSpec_To_v1beta2 s)\<lparr>MachineSpec2_ProviderID := nil_if_empty (MachineSpec2_ProviderID (MachineSpec_To_v1beta2 s))\<rparr>) =
     s\<lparr>MachineSpec_Image := machine_image_up (fst (machine_image_down (MachineSpec_Image s))) (snd (machine_image_down (MachineSpec_Image s)))\<rparr>"
  by (cases s) (simp add: MachineSpec_To_v1beta3_def MachineSpec_To_v1beta2_def Let_def case_prod_beta)

lemma conditions_back [simp]: "(case if cs = [] then None else Some cs of None \<Rightarrow> [] | Some x \<Rightarrow> x) = cs"
  by simp

text \<open>Legacy conditions survive unless they are an empty shell.\<close>

definition no_empty_shell :: "DeprecatedCondition list option option \<Rightarrow> bool" where
  "no_empty_shell d \<longleftrightarrow> d \<noteq> Some None \<and> d \<noteq> Some (Some [])"

lemma legacy_back:
  assumes "conversion_laws L"
  shows "(if legacy_conditions L d = [] then None else Some (Some (lib_conditions_up L (legacy_conditions L d)))) = d \<longleftrightarrow> no_empty_shell d"
proof -
  have "lib_conditions_down L cs = [] \<longleftrightarrow> cs = []" for cs
    using assms by (metis conversion_laws_def length_0_conv)
  then show ?thesis
    using assms by (auto simp: legacy_conditions_def no_empty_shell_def conversion_laws_def split: option.splits)
qed

text \<open>
  C22: a machine that is read in \<^verbatim>\<open>v1beta2\<close> and written back has the spec it had exactly if its image is a proper
  union, and the status it had exactly if its legacy conditions are not an empty shell; whether it is
  provisioned comes back even where \<^verbatim>\<open>v1beta2\<close> cannot tell \<open>false\<close> from nothing.
\<close>

theorem machine_round_trip:
  assumes "conversion_laws L" and "restoring D" and "machine_ConvertFrom L D h = Reply d"
  shows "\<exists>r. machine_ConvertTo L D d = Reply r \<and> Object_Meta r = Object_Meta h \<and>
     Object_Annotations r = (Object_Annotations h)(DataAnnotation := None) \<and>
     (Object_Spec r = Object_Spec h \<longleftrightarrow> machine_image_survives (MachineSpec_Image (Object_Spec h))) \<and>
     (Object_Status r = Object_Status h \<longleftrightarrow> no_empty_shell (MachineStatus_Deprecated (Object_Status h)))"
proof -
  let ?s = "MachineSpec_To_v1beta2 (Object_Spec h)" and ?t = "Object_Status h"
  obtain ann where ann: "MarshalData D h (Object_Annotations h) = Reply ann"
    and d: "d = \<lparr>Object_Annotations = ann, Object_Meta = Object_Meta h,
       Object_Spec = ?s\<lparr>MachineSpec2_ProviderID := nil_if_empty (MachineSpec2_ProviderID ?s)\<rparr>, Object_Status = MachineStatus_To_v1beta2 L ?t\<rparr>"
    using assms(3) by (auto simp: machine_ConvertFrom_def Let_def split: reply.splits)
  have r: "RestoreData D ann = Reply (Some (without_meta h), (Object_Annotations h)(DataAnnotation := None))"
    using assms(2) ann unfolding restoring_def by metis
  have prov: "lib_bool L (MachineStatus_Provisioned ?t = Some True) True (MachineStatus_Provisioned ?t) = MachineStatus_Provisioned ?t"
    using assms(1) by (cases "MachineStatus_Provisioned ?t"; cases "the (MachineStatus_Provisioned ?t)") (auto simp: conversion_laws_def)
  have "(MachineStatus_To_v1beta3 L (MachineStatus_To_v1beta2 L ?t))\<lparr>MachineStatus_Provisioned := MachineStatus_Provisioned ?t\<rparr> =
      ?t\<lparr>MachineStatus_Deprecated := (if legacy_conditions L (MachineStatus_Deprecated ?t) = [] then None
         else Some (Some (lib_conditions_up L (legacy_conditions L (MachineStatus_Deprecated ?t)))))\<rparr>"
    by (cases ?t) (simp add: MachineStatus_To_v1beta3_def MachineStatus_To_v1beta2_def)
  moreover have "(MachineStatus_Deprecated_update (\<lambda>_. x) ?t = ?t) = (x = MachineStatus_Deprecated ?t)" for x
    by (cases ?t) simp
  moreover have "(MachineSpec_Image_update (\<lambda>_. y) (Object_Spec h) = Object_Spec h) = (y = MachineSpec_Image (Object_Spec h))" for y
    by (cases "Object_Spec h") simp
  moreover have "MachineStatus2_Ready (MachineStatus_To_v1beta2 L ?t) = (MachineStatus_Provisioned ?t = Some True)"
    by (simp add: MachineStatus_To_v1beta2_def)
  ultimately show ?thesis
    unfolding d machine_ConvertTo_def
    by (simp add: r without_meta_def prov machine_spec_back machine_image_survives legacy_back [OF assms(1)])
qed

text \<open>
  what a client changes in the spec of an image it has read in \<^verbatim>\<open>v1beta2\<close> is dropped: whatever it writes, the
  stored spec stays the old one.
\<close>

theorem image_edit_lost:
  assumes "restoring D" and "image_ConvertFrom L D h = Reply d"
  shows "\<forall>s. \<exists>r. image_ConvertTo L D (d\<lparr>Object_Spec := s\<rparr>) = Reply r \<and> Object_Spec r = Object_Spec h"
proof -
  obtain ann where "MarshalData D h (Object_Annotations h) = Reply ann" "Object_Annotations d = ann"
    using assms(2) by (auto simp: image_ConvertFrom_def split: reply.splits)
  then have "RestoreData D (Object_Annotations d) = Reply (Some (without_meta h), (Object_Annotations h)(DataAnnotation := None))"
    using assms(1) unfolding restoring_def by metis
  then show ?thesis by (simp add: image_ConvertTo_def without_meta_def)
qed

text \<open>
  the labels and annotations that a machine template has for its machines do not survive, although the
  template is written to an annotation as a whole: only its status is taken from there.
\<close>

theorem template_meta_lost:
  assumes "restoring D" and "machineTemplate_ConvertFrom D h = Reply d"
  shows "\<exists>r. machineTemplate_ConvertTo D d = Reply r \<and> Object_Status r = Object_Status h \<and> fst (Object_Spec r) = no_template_meta"
proof -
  obtain ann where "MarshalData D h (Object_Annotations h) = Reply ann" "Object_Annotations d = ann"
    using assms(2) by (auto simp: machineTemplate_ConvertFrom_def Let_def split: reply.splits)
  then have "RestoreData D (Object_Annotations d) = Reply (Some (without_meta h), (Object_Annotations h)(DataAnnotation := None))"
    using assms(1) unfolding restoring_def by metis
  then show ?thesis by (simp add: machineTemplate_ConvertTo_def without_meta_def)
qed

end
