(* ===== verification/Conversion_Outcome.thy ===== *)
theory Conversion_Outcome
  imports Conversion_Properties Example_Cluster "HOL-Library.Multiset"
begin

text \<open>
  The status of a cluster on a round trip through \<^verbatim>\<open>v1beta2\<close>, whose maps are read in an order Go chooses, and the
  concrete objects on which the properties of the conversion are applied.
\<close>

section \<open>Maps and lists\<close>

text \<open>Ranging over a map visits every key once.\<close>

definition ranges :: "(string set \<Rightarrow> string list) \<Rightarrow> bool" where
  "ranges order \<longleftrightarrow> (\<forall>S. finite S \<longrightarrow> set (order S) = S \<and> distinct (order S))"

lemma keyed_entries_map_of:
  assumes "distinct (map name xs)" and "[] \<notin> set (map name xs)"
  shows "keyed_entries name ident f xs m = m ++ map_of (map (\<lambda>x. (name x, f x)) xs)"
  using assms
proof (induction xs arbitrary: m)
  case (Cons x xs)
  have "m(name x \<mapsto> f x) ++ map_of (map (\<lambda>x. (name x, f x)) xs) = m ++ map_of ((name x, f x) # map (\<lambda>x. (name x, f x)) xs)"
    using Cons.prems(1) by (auto simp: fun_eq_iff map_add_def map_of_eq_None_iff image_iff split: option.splits dest!: map_of_SomeD)
  moreover have "keyed_entries name ident f (x # xs) m = keyed_entries name ident f xs (m(name x \<mapsto> f x))"
    using Cons.prems(2) by (auto simp: Let_def)
  moreover have "keyed_entries name ident f xs (m(name x \<mapsto> f x)) = m(name x \<mapsto> f x) ++ map_of (map (\<lambda>x. (name x, f x)) xs)"
    using Cons.prems by (intro Cons.IH) auto
  ultimately show ?case by (simp only: list.map)
qed simp

lemma mset_present: "mset (present (map F ys)) = image_mset the (filter_mset (\<lambda>x. x \<noteq> None) (image_mset F (mset ys)))"
  by (simp add: present_def mset_filter)

lemma map_entries_mset:
  assumes "ranges order" and "distinct (map name xs)" and "[] \<notin> set (map name xs)"
  shows "mset (map_entries order f (map_of (map (\<lambda>x. (name x, g x)) xs))) = mset (present (map (\<lambda>x. f (name x) (g x)) xs))"
proof -
  let ?m = "map_of (map (\<lambda>x. (name x, g x)) xs)"
  let ?F = "\<lambda>k. if k = [] then None else case ?m k of None \<Rightarrow> None | Some v \<Rightarrow> f k v"
  have dom: "dom ?m = set (map name xs)" by (simp add: dom_map_of_conv_image_fst image_image)
  have "mset (order (dom ?m)) = mset (map name xs)"
    using assms(1,2) unfolding ranges_def dom by (metis List.finite_set set_eq_iff_mset_eq_distinct)
  then have "mset (map_entries order f ?m) = mset (present (map ?F (map name xs)))"
    by (simp only: map_entries_def mset_present)
  moreover have "?F (name x) = f (name x) (g x)" if "x \<in> set xs" for x
  proof -
    have "?m (name x) = Some (g x)" using assms(2) that by (force intro!: map_of_is_SomeI simp: o_def)
    moreover have "name x \<noteq> []" using assms(3) that by force
    ultimately show ?thesis by simp
  qed
  then have "map ?F (map name xs) = map (\<lambda>x. f (name x) (g x)) xs" unfolding map_map o_def by (rule list.map_cong0)
  ultimately show ?thesis by (simp only:)
qed

lemma named_round_trip:
  assumes "ranges order" and "distinct (map name xs)" and "[] \<notin> set (map name xs)"
    and "\<And>x. x \<in> set xs \<Longrightarrow> f (name x) (g x) = Some (k x)"
  shows "mset (map_entries order f (keyed_entries name ident g xs Map.empty)) = image_mset k (mset xs)"
proof -
  have "map (\<lambda>x. f (name x) (g x)) xs = map (\<lambda>x. Some (k x)) xs" using assms(4) by simp
  then have "mset (present (map (\<lambda>x. f (name x) (g x)) xs)) = image_mset k (mset xs)" by (simp only: present_map_Some mset_map)
  then show ?thesis
    unfolding keyed_entries_map_of [OF assms(2,3)] empty_map_add by (simp only: map_entries_mset [OF assms(1-3)])
qed

section \<open>The status\<close>

text \<open>Entries of a list in the status are named, no two alike; subnets have an ID and recorded rules have one.\<close>

definition named_apart :: "('a \<Rightarrow> string) \<Rightarrow> 'a list \<Rightarrow> bool" where
  "named_apart name xs \<longleftrightarrow> distinct (map name xs) \<and> [] \<notin> set (map name xs)"

definition status_named :: "IBMPowerVSClusterStatus \<Rightarrow> bool" where
  "status_named s \<longleftrightarrow> named_apart VPCSubnetStatus_Name (Status_VPCSubnets s) \<and> list_all (\<lambda>n. VPCSubnetStatus_ID n \<noteq> []) (Status_VPCSubnets s) \<and>
     named_apart LoadBalancerStatus_Name (Status_LoadBalancers s) \<and> named_apart VPCSecurityGroupStatus_Name (Status_VPCSecurityGroups s) \<and>
     list_all (\<lambda>g. list_all (\<lambda>r. VPCSecurityGroupRuleStatus_ID r \<noteq> []) (VPCSecurityGroupStatus_Rules g)) (Status_VPCSecurityGroups s)"

lemma subnet_back:
  assumes "VPCSubnetStatus_ID n \<noteq> []"
  shows "subnet_entry (VPCSubnetStatus_Name n) \<lparr>ResourceReference2_ID = ptr_to (VPCSubnetStatus_ID n), ResourceReference2_ControllerCreated = None\<rparr> =
     Some (n\<lparr>VPCSubnetStatus_Zone := []\<rparr>)"
  using assms by (cases n) (simp add: subnet_entry_def)

lemma lb_back: "LoadBalancerStatus_To_v1beta3 (LoadBalancerStatus_Name l) (LoadBalancerStatus_To_v1beta2 l) = l"
  by (cases l) (simp add: LoadBalancerStatus_To_v1beta3_def LoadBalancerStatus_To_v1beta2_def)

lemma sg_back:
  assumes "list_all (\<lambda>r. VPCSecurityGroupRuleStatus_ID r \<noteq> []) (VPCSecurityGroupStatus_Rules g)"
  shows "SecurityGroupStatus_To_v1beta3 (VPCSecurityGroupStatus_Name g) (SecurityGroupStatus_To_v1beta2 g) = g"
proof -
  have "filter (\<lambda>i. i \<noteq> []) (map VPCSecurityGroupRuleStatus_ID (VPCSecurityGroupStatus_Rules g)) = map VPCSecurityGroupRuleStatus_ID (VPCSecurityGroupStatus_Rules g)"
    using assms by (auto simp: filter_id_conv list_all_iff)
  moreover have "map (\<lambda>r. \<lparr>VPCSecurityGroupRuleStatus_ID = VPCSecurityGroupRuleStatus_ID r\<rparr>) rs = rs" for rs
    by (simp add: map_fixpoint list_all_iff)
  ultimately show ?thesis
    by (cases g) (simp add: SecurityGroupStatus_To_v1beta3_def SecurityGroupStatus_To_v1beta2_def o_def)
qed

lemma reference_id_simps: "reference_id None = []" "reference_id (Some r) = str_Deref (ResourceReference2_ID r)"
  by (simp_all add: reference_id_def)

text \<open>
  A status with what \<^verbatim>\<open>v1beta2\<close> has room for, its lists and legacy conditions aside: the IDs of the workspace, the resource
  group, the network, its DHCP server, the transit gateway, its two connections, the VPC and the object
  storage instance, the conditions, and that the cluster is provisioned, which is all the flag can say there.
\<close>

definition ids_only :: "IBMPowerVSClusterStatus \<Rightarrow> IBMPowerVSClusterStatus" where
  "ids_only s =
     (let unnamed = ResourceReference_Name_update (\<lambda>_. []);
          connection = (\<lambda>c. zero_ResourceConnectionStatus\<lparr>ResourceConnectionStatus_ID := ResourceConnectionStatus_ID c\<rparr>);
          tg = Status_TransitGateway s; cos = Status_COSInstance s in
      s\<lparr>Status_Initialization := \<lparr>Initialization_Provisioned =
          (if Initialization_Provisioned (Status_Initialization s) = Some True then Some True else None)\<rparr>,
        Status_Workspace := unnamed (Status_Workspace s), Status_ResourceGroup := unnamed (Status_ResourceGroup s),
        Status_Network := \<lparr>NetworkStatus_ID = NetworkStatus_ID (Status_Network s), NetworkStatus_Name = [],
          NetworkStatus_DHCPServer = unnamed (NetworkStatus_DHCPServer (Status_Network s))\<rparr>,
        Status_TransitGateway := \<lparr>TransitGatewayStatus_ID = TransitGatewayStatus_ID tg, TransitGatewayStatus_Name = [],
          TransitGatewayStatus_VPCConnection = connection (TransitGatewayStatus_VPCConnection tg),
          TransitGatewayStatus_PowerVSConnection = connection (TransitGatewayStatus_PowerVSConnection tg)\<rparr>,
        Status_VPC := zero_VPCStatus\<lparr>VPCStatus_ID := VPCStatus_ID (Status_VPC s)\<rparr>,
        Status_COSInstance := \<lparr>COSInstanceStatus_ID = COSInstanceStatus_ID cos, COSInstanceStatus_Name = [],
          COSInstanceStatus_BucketName = [], COSInstanceStatus_BucketRegion = [], COSInstanceStatus_HMACSecretName = []\<rparr>,
        Status_VPCSubnets := [], Status_LoadBalancers := [], Status_VPCSecurityGroups := [], Status_Deprecated := None\<rparr>)"

lemma ids_back:
  assumes "conversion_laws L"
  shows "ids_only (Object_Status (round_tripped L order h)) = ids_only (Object_Status h)"
    and "(Object_Status (round_tripped L order h))\<lparr>Status_VPCSubnets := [], Status_LoadBalancers := [], Status_VPCSecurityGroups := [], Status_Deprecated := None\<rparr> =
      ids_only (Object_Status h)"
  using assms
  by (simp_all add: round_tripped_def ids_only_def ClusterStatus_To_v1beta3_def ClusterStatus_To_v1beta2_def TransitGatewayStatus_To_v1beta2_def
      TransitGatewayStatus_To_v1beta3_def reference_to_def zero_TransitGatewayStatus_def zero_ResourceConnectionStatus_def reference_id_simps
      conversion_laws_def Let_def)

text \<open>
  C99: what of the status of a cluster survives a round trip through \<^verbatim>\<open>v1beta2\<close>, if the entries of its lists have
  distinct names, its subnets and recorded rules have an ID, and the library converts flags and ranges over maps as documented:
  outside its lists and its legacy conditions exactly \<open>ids_only\<close>, the IDs, the conditions and whether it is provisioned; in
  whatever order Go reads the maps, the load balancers and security groups as they were, and the subnets but for their zones.
\<close>

theorem status_round_trip:
  assumes "conversion_laws L" and "codec_laws D" and "ranges order" and "cluster_ConvertFrom L D h = Reply d" and "status_named (Object_Status h)"
  shows "\<exists>r. cluster_ConvertTo L D order d = Reply r \<and> (let s = Object_Status h; t = Object_Status r in
     t\<lparr>Status_VPCSubnets := [], Status_LoadBalancers := [], Status_VPCSecurityGroups := [], Status_Deprecated := None\<rparr> = ids_only s \<and>
     mset (Status_VPCSubnets t) = image_mset (\<lambda>n. n\<lparr>VPCSubnetStatus_Zone := []\<rparr>) (mset (Status_VPCSubnets s)) \<and>
     mset (Status_LoadBalancers t) = mset (Status_LoadBalancers s) \<and>
     mset (Status_VPCSecurityGroups t) = mset (Status_VPCSecurityGroups s))"
proof -
  let ?s = "Object_Status h" and ?t = "Object_Status (round_tripped L order h)"
  have named: "named_apart VPCSubnetStatus_Name (Status_VPCSubnets ?s)" "named_apart LoadBalancerStatus_Name (Status_LoadBalancers ?s)"
    "named_apart VPCSecurityGroupStatus_Name (Status_VPCSecurityGroups ?s)"
    and ids: "\<And>n. n \<in> set (Status_VPCSubnets ?s) \<Longrightarrow> VPCSubnetStatus_ID n \<noteq> []"
    and rules: "\<And>g. g \<in> set (Status_VPCSecurityGroups ?s) \<Longrightarrow> list_all (\<lambda>r. VPCSecurityGroupRuleStatus_ID r \<noteq> []) (VPCSecurityGroupStatus_Rules g)"
    using assms(5) by (simp_all add: status_named_def list_all_iff)
  have "mset (Status_VPCSubnets ?t) = image_mset (\<lambda>n. n\<lparr>VPCSubnetStatus_Zone := []\<rparr>) (mset (Status_VPCSubnets ?s))"
    using named_round_trip [OF assms(3), of VPCSubnetStatus_Name "Status_VPCSubnets ?s" subnet_entry, OF _ _ subnet_back] named(1) ids
    by (simp add: round_tripped_def ClusterStatus_To_v1beta3_def ClusterStatus_To_v1beta2_def named_apart_def Let_def)
  moreover have "mset (Status_LoadBalancers ?t) = mset (Status_LoadBalancers ?s)"
    using named_round_trip [OF assms(3), where k = id and name = LoadBalancerStatus_Name and g = LoadBalancerStatus_To_v1beta2
        and f = "\<lambda>k l. Some (LoadBalancerStatus_To_v1beta3 k l)"] named(2)
    by (simp add: round_tripped_def ClusterStatus_To_v1beta3_def ClusterStatus_To_v1beta2_def named_apart_def Let_def lb_back)
  moreover have "mset (Status_VPCSecurityGroups ?t) = mset (Status_VPCSecurityGroups ?s)"
    using named_round_trip [OF assms(3), where k = id and name = VPCSecurityGroupStatus_Name and g = SecurityGroupStatus_To_v1beta2
        and f = "\<lambda>k g. Some (SecurityGroupStatus_To_v1beta3 k g)" and xs = "Status_VPCSecurityGroups ?s"] named(3) rules
    by (simp add: round_tripped_def ClusterStatus_To_v1beta3_def ClusterStatus_To_v1beta2_def named_apart_def Let_def sg_back)
  ultimately show ?thesis
    using round_trip [OF assms(2,4), of order] ids_back(2) [OF assms(1), of order h]
    by (intro exI [of _ "round_tripped L order h"]) (simp add: Let_def)
qed

section \<open>Concrete objects\<close>

text \<open>A library that copies, codecs that keep the object beside the annotation, and ranging in the order of the keys.\<close>

definition example_lib :: conversion_lib where
  "example_lib = \<lparr>lib_conditions_up = id, lib_conditions_down = id, lib_meta_up = id, lib_meta_down = id,
     lib_bool = (\<lambda>b found r. if b then Some True else if found \<and> r = Some False then Some False else None)\<rparr>"

definition example_codec :: "('m, 'r) data_codec" where
  "example_codec = \<lparr>MarshalData = (\<lambda>x a. Reply (a(DataAnnotation \<mapsto> ''data''))),
     UnmarshalData = (\<lambda>a x. Reply (a DataAnnotation \<noteq> None, x, a(DataAnnotation := None))),
     RestoreData = (\<lambda>a. if a DataAnnotation = None then Reply (None, a) else Fail (ClientErr ''bad data'') None)\<rparr>"

definition one_object :: "('s, 't) api_object \<Rightarrow> (('s, 't) api_object, ('s, 't) api_object) data_codec" where
  "one_object x0 = \<lparr>MarshalData = (\<lambda>x a. if without_meta x = x0 then Reply (a(DataAnnotation \<mapsto> ''data'')) else Fail (ClientErr ''no data'') None),
     UnmarshalData = (\<lambda>a x. Reply (a DataAnnotation \<noteq> None, x, a(DataAnnotation := None))),
     RestoreData = (\<lambda>a. Reply (if a DataAnnotation = Some ''data'' then Some x0 else None, a(DataAnnotation := None)))\<rparr>"

lemma example_lib_laws: "conversion_laws example_lib"
  by (simp add: conversion_laws_def example_lib_def)

lemma example_codec_laws: "codec_laws example_codec"
  by (simp add: codec_laws_def example_codec_def)

lemma one_object_restoring: "restoring (one_object x0)"
  by (auto simp: restoring_def one_object_def split: if_splits)

lemma sorted_ranges: "ranges (\<lambda>S. sorted_list_of_set S)"
  by (simp add: ranges_def)

definition example_meta :: ObjectMeta where
  "example_meta = \<lparr>Meta_Name = ''c'', Meta_Namespace = ''ns'', Meta_Labels = Map.empty, Meta_Finalizers = []\<rparr>"

definition named_vpc :: VPCSource where
  "named_vpc = \<lparr>VPCSource_Type = SourceTypeReference, VPCSource_Region = ''us-south'',
     VPCSource_Reference = \<lparr>ResourceIdentifier_ID = [], ResourceIdentifier_Name = ''mine''\<rparr>, VPCSource_Provision = \<lparr>VPCProvision_Name = []\<rparr>\<rparr>"

text \<open>A cluster that survives, and one with a VPC referred to by name.\<close>

definition plain_cluster :: hub_cluster where
  "plain_cluster = \<lparr>Object_Annotations = Map.empty, Object_Meta = example_meta,
     Object_Spec = (example_spec :: IBMPowerVSClusterSpec)\<lparr>Spec_TransitGateway := zero_TransitGatewaySource, Spec_VPCSecurityGroups := [],
       Spec_COSInstance := zero_COSInstanceSource\<rparr>,
     Object_Status = settled_status\<rparr>"

definition named_vpc_cluster :: hub_cluster where
  "named_vpc_cluster = plain_cluster\<lparr>Object_Spec := (Object_Spec plain_cluster)\<lparr>Spec_VPC := named_vpc\<rparr>\<rparr>"

lemma plain_survives: "topology_survives plain_cluster \<and> spec_survives (Object_Spec plain_cluster)"
  by (simp add: topology_survives_def spec_survives_def plain_cluster_def example_spec_def workspace_survives_def network_survives_def
      resource_group_survives_def tg_survives_def vpc_survives_def cos_survives_def snat_known_def zero_defs no_identifier_def)

lemma example_converts: "\<exists>d. cluster_ConvertFrom example_lib example_codec h = Reply d"
  by (simp add: cluster_ConvertFrom_def example_codec_def Let_def)

theorem cluster_round_trip_witness:
  "\<exists>d r. cluster_ConvertFrom example_lib example_codec plain_cluster = Reply d \<and>
     cluster_ConvertTo example_lib example_codec (\<lambda>S. sorted_list_of_set S) d = Reply r \<and> Object_Spec r = Object_Spec plain_cluster"
proof -
  obtain d where d: "cluster_ConvertFrom example_lib example_codec plain_cluster = Reply d" using example_converts by blast
  show ?thesis
    using cluster_round_trip [OF example_codec_laws d] plain_survives d by blast
qed

theorem status_round_trip_witness:
  "\<exists>d r. cluster_ConvertFrom example_lib example_codec plain_cluster = Reply d \<and>
     cluster_ConvertTo example_lib example_codec (\<lambda>S. sorted_list_of_set S) d = Reply r \<and>
     TransitGatewayStatus_VPCConnection (Status_TransitGateway (Object_Status r)) = zero_ResourceConnectionStatus\<lparr>ResourceConnectionStatus_ID := ''cv''\<rparr> \<and>
     mset (Status_LoadBalancers (Object_Status r)) = mset (Status_LoadBalancers settled_status)"
proof -
  obtain d where d: "cluster_ConvertFrom example_lib example_codec plain_cluster = Reply d" using example_converts by blast
  have "status_named (Object_Status plain_cluster)"
    by (simp add: status_named_def named_apart_def plain_cluster_def settled_status_def fresh_status_def)
  then obtain r where r: "cluster_ConvertTo example_lib example_codec (\<lambda>S. sorted_list_of_set S) d = Reply r"
    "(Object_Status r)\<lparr>Status_VPCSubnets := [], Status_LoadBalancers := [], Status_VPCSecurityGroups := [], Status_Deprecated := None\<rparr> = ids_only settled_status"
    "mset (Status_LoadBalancers (Object_Status r)) = mset (Status_LoadBalancers settled_status)"
    using status_round_trip [OF example_lib_laws example_codec_laws sorted_ranges d] unfolding Let_def by (auto simp: plain_cluster_def)
  have "Status_TransitGateway (Object_Status r) = Status_TransitGateway (ids_only settled_status)"
    unfolding r(2) [symmetric] by simp
  then show ?thesis using d r(1,3) by (auto simp: ids_only_def settled_status_def attached_def Let_def)
qed

theorem named_vpc_given_away_witness:
  "\<exists>d r. cluster_ConvertFrom example_lib example_codec named_vpc_cluster = Reply d \<and>
     cluster_ConvertTo example_lib example_codec (\<lambda>S. sorted_list_of_set S) d = Reply r \<and>
     VPCC (DeleteVPC_call (Some ''vpc'')) \<in> set (new_calls (holding settled r) (snd (run_state (DeleteVPC example_cloud) (holding settled r))))"
proof -
  obtain d where d: "cluster_ConvertFrom example_lib example_codec named_vpc_cluster = Reply d" using example_converts by blast
  have "on_GetVPC (IBMVPCClient example_cloud) (trace settled) ''vpc'' = Reply (Some (cloud_vpc ''v''))"
    "vpc_Status (cloud_vpc ''v'') \<noteq> Some VPCStateDeleting" "vpc_Name (cloud_vpc ''v'') \<noteq> None" "vpc_ID (cloud_vpc ''v'') = Some ''vpc''"
    by (simp_all add: example_cloud_def cloud_vpc_def scope_of_def state_consts)
  then show ?thesis
    using named_vpc_given_away [OF example_codec_laws d, of "''us-south''" "''mine''" "''vpc''" example_cloud settled "cloud_vpc ''v''"] d
    by (force simp: named_vpc_cluster_def plain_cluster_def named_vpc_def settled_status_def)
qed

theorem virtual_ip_lost_witness:
  "\<exists>h. cluster_ConvertTo example_lib example_codec (\<lambda>S. sorted_list_of_set S)
      \<lparr>Object_Annotations = [createInfraAnnotation \<mapsto> ''false''], Object_Meta = example_meta, Object_Spec = zero_Spec2, Object_Status = zero_Status2\<rparr> = Reply h \<and>
     Spec_Topology (Object_Spec h) = PowerVSVirtualIPTopology"
  using virtual_ip_lost [OF example_codec_laws, of "\<lparr>Object_Annotations = [createInfraAnnotation \<mapsto> ''false''], Object_Meta = example_meta,
     Object_Spec = zero_Spec2, Object_Status = zero_Status2\<rparr>" "''false''" example_lib "\<lambda>S. sorted_list_of_set S"]
  by (auto simp: annotations_distinct [symmetric])

definition example_machine_object :: hub_machine where
  "example_machine_object =
     \<lparr>Object_Annotations = Map.empty, Object_Meta = zero_meta,
      Object_Spec = \<lparr>MachineSpec_Workspace = zero_identifier, MachineSpec_Network = \<lparr>ResourceIdentifier_ID = [], ResourceIdentifier_Name = ''net''\<rparr>,
        MachineSpec_Image = \<lparr>MachineImage_Type = ImageSourceTypeImport, MachineImage_Reference = zero_identifier, MachineImage_Import = ''img''\<rparr>,
        MachineSpec_SSHKey = [], MachineSpec_SystemType = ''s1022'', MachineSpec_ProcessorType = ''Shared'', MachineSpec_Processors = StrVal ''0.25'',
        MachineSpec_MemoryGiB = 2, MachineSpec_ProviderID = []\<rparr>,
      Object_Status = \<lparr>MachineStatus_Conditions = [], MachineStatus_Provisioned = Some False, MachineStatus_InstanceID = [], MachineStatus_Addresses = [],
        MachineStatus_Health = [], MachineStatus_InstanceState = [], MachineStatus_Region = [], MachineStatus_Zone = [], MachineStatus_Deprecated = None\<rparr>\<rparr>"

lemma example_machine_bare: "without_meta example_machine_object = example_machine_object"
  by (simp add: without_meta_def example_machine_object_def)

theorem machine_round_trip_witness:
  "\<exists>d r. machine_ConvertFrom example_lib (one_object example_machine_object) example_machine_object = Reply d \<and>
     machine_ConvertTo example_lib (one_object example_machine_object) d = Reply r \<and>
     Object_Spec r = Object_Spec example_machine_object \<and> Object_Status r = Object_Status example_machine_object"
proof -
  obtain d where d: "machine_ConvertFrom example_lib (one_object example_machine_object) example_machine_object = Reply d"
    by (simp add: machine_ConvertFrom_def one_object_def example_machine_bare Let_def)
  have "machine_image_survives (MachineSpec_Image (Object_Spec example_machine_object))"
    "no_empty_shell (MachineStatus_Deprecated (Object_Status example_machine_object))"
    by (simp_all add: machine_image_survives_def no_empty_shell_def example_machine_object_def)
  then show ?thesis
    using machine_round_trip [OF example_lib_laws one_object_restoring d] d by blast
qed

definition example_image_object :: hub_image where
  "example_image_object =
     \<lparr>Object_Annotations = Map.empty, Object_Meta = zero_meta,
      Object_Spec = \<lparr>ImageSpec_ClusterName = ''c'', ImageSpec_Workspace = zero_identifier, ImageSpec_Bucket = ''b'', ImageSpec_Object = ''o'',
        ImageSpec_Region = ''us-south'', ImageSpec_StorageType = ''tier1'', ImageSpec_DeletePolicy = PowerVSImageDeletePolicyDelete\<rparr>,
      Object_Status = \<lparr>ImageStatus_Conditions = [], ImageStatus_ImageID = [], ImageStatus_ImageState = [], ImageStatus_JobID = [], ImageStatus_Deprecated = None\<rparr>\<rparr>"

text \<open>The client asks to retain the image; the stored policy stays to delete it.\<close>

theorem image_edit_lost_witness:
  "\<exists>d r. image_ConvertFrom example_lib (one_object example_image_object) example_image_object = Reply d \<and>
     image_ConvertTo example_lib (one_object example_image_object)
       (d\<lparr>Object_Spec := (Object_Spec d)\<lparr>ImageSpec2_DeletePolicy := PowerVSImageDeletePolicyRetain\<rparr>\<rparr>) = Reply r \<and>
     ImageSpec_DeletePolicy (Object_Spec r) = PowerVSImageDeletePolicyDelete"
proof -
  have "without_meta example_image_object = example_image_object"
    by (simp add: without_meta_def example_image_object_def)
  then obtain d where d: "image_ConvertFrom example_lib (one_object example_image_object) example_image_object = Reply d"
    by (simp add: image_ConvertFrom_def one_object_def)
  have "ImageSpec_DeletePolicy (Object_Spec example_image_object) = PowerVSImageDeletePolicyDelete"
    by (simp add: example_image_object_def)
  with image_edit_lost [OF one_object_restoring d] d show ?thesis by metis
qed

definition example_template_object :: hub_machine_template where
  "example_template_object =
     \<lparr>Object_Annotations = Map.empty, Object_Meta = zero_meta,
      Object_Spec = (\<lparr>TemplateMeta_Labels = [''pool'' \<mapsto> ''blue''], TemplateMeta_Annotations = Map.empty\<rparr>, Object_Spec example_machine_object),
      Object_Status = [''cpu'' \<mapsto> ''8'']\<rparr>"

theorem template_meta_lost_witness:
  "\<exists>d r. machineTemplate_ConvertFrom (one_object example_template_object) example_template_object = Reply d \<and>
     machineTemplate_ConvertTo (one_object example_template_object) d = Reply r \<and> TemplateMeta_Labels (fst (Object_Spec r)) ''pool'' = None"
proof -
  have "without_meta example_template_object = example_template_object"
    by (simp add: without_meta_def example_template_object_def)
  then obtain d where d: "machineTemplate_ConvertFrom (one_object example_template_object) example_template_object = Reply d"
    by (simp add: machineTemplate_ConvertFrom_def one_object_def Let_def)
  from template_meta_lost [OF one_object_restoring d] obtain r where
    "machineTemplate_ConvertTo (one_object example_template_object) d = Reply r" "fst (Object_Spec r) = no_template_meta" by blast
  with d show ?thesis by (auto simp: no_template_meta_def)
qed

end
