(* ===== verification/Ibmvpc_Types.thy ===== *)
theory Ibmvpc_Types
  imports PowerVS_Types
begin

text \<open>
  The API objects of the VPC provider (\<^verbatim>\<open>api/vpc/v1beta2\<close>): the cluster with its spec and status, the
  machine, and the resource types and states. Pointers are \<open>option\<close>s; a Go map is an association list, its
  keys distinct, \<open>None\<close> when it is nil. The nil slice and the empty slice differ where the code tells them
  apart (\<open>None\<close> and \<open>Some []\<close>).
\<close>

section \<open>Constants\<close>

definition ClusterFinalizer :: string where "ClusterFinalizer = ''ibmvpccluster.infrastructure.cluster.x-k8s.io''"
definition MachineFinalizer :: string where "MachineFinalizer = ''ibmvpcmachine.infrastructure.cluster.x-k8s.io''"
definition CIDRBlockAny :: string where "CIDRBlockAny = ''0.0.0.0/0''"
definition vpc_DefaultAPIServerPort :: int where "vpc_DefaultAPIServerPort = 6443"
definition UpdateMachineError :: string where "UpdateMachineError = ''UpdateError''"

type_synonym VPCLoadBalancerState = string

definition VPCLoadBalancerStateActive :: VPCLoadBalancerState where "VPCLoadBalancerStateActive = ''active''"
definition VPCLoadBalancerStateCreatePending :: VPCLoadBalancerState where "VPCLoadBalancerStateCreatePending = ''create_pending''"
definition VPCLoadBalancerStateDeletePending :: VPCLoadBalancerState where "VPCLoadBalancerStateDeletePending = ''delete_pending''"

text \<open>The resource types of \<open>types.go\<close> that the scopes switch over.\<close>

datatype VPCResourceType =
    ResourceTypeLoadBalancer | ResourceTypeLoadBalancerPool | ResourceTypeVPC | ResourceTypeSubnet
  | ResourceTypeControlPlaneSubnet | ResourceTypeWorkerSubnet | ResourceTypeSecurityGroup
  | ResourceTypeCOSInstance | ResourceTypeCOSBucket | ResourceTypeResourceGroup
  | ResourceTypePublicGateway | ResourceTypeCustomImage

text \<open>Algorithm, protocol and health monitor names are passed on to the cloud as they are.\<close>

definition VPCLoadBalancerBackendPoolAlgorithmRoundRobin :: string where "VPCLoadBalancerBackendPoolAlgorithmRoundRobin = ''round_robin''"
definition VPCLoadBalancerBackendPoolHealthMonitorTypeTCP :: string where "VPCLoadBalancerBackendPoolHealthMonitorTypeTCP = ''tcp''"
definition VPCLoadBalancerBackendPoolProtocolTCP :: string where "VPCLoadBalancerBackendPoolProtocolTCP = ''tcp''"
definition VPCLoadBalancerListenerProtocolTCP :: string where "VPCLoadBalancerListenerProtocolTCP = ''tcp''"

section \<open>References and resources\<close>

record VPCResource =
  VPCResource_ID :: "string option"
  VPCResource_Name :: "string option"

record IBMCloudResourceReference =
  CloudReference_ID :: string
  CloudReference_Name :: "string option"

record ResourceStatus =
  ResourceStatus_ID :: string
  ResourceStatus_Name :: "string option"
  ResourceStatus_Ready :: bool

text \<open>\<open>(*ResourceStatus).Set\<close>: a name once set is kept.\<close>

definition ResourceStatus_Set :: "ResourceStatus \<Rightarrow> ResourceStatus \<Rightarrow> ResourceStatus" where
  "ResourceStatus_Set s r = s\<lparr>ResourceStatus_ID := ResourceStatus_ID r,
     ResourceStatus_Name := (if ResourceStatus_Name s = None then ResourceStatus_Name r else ResourceStatus_Name s),
     ResourceStatus_Ready := ResourceStatus_Ready r\<rparr>"

record SubnetSpec =
  SubnetSpec_Ipv4CidrBlock :: "string option"
  SubnetSpec_Name :: "string option"
  SubnetSpec_ID :: "string option"
  SubnetSpec_Zone :: "string option"

section \<open>Security groups\<close>

datatype RuleDirection = RuleInbound | RuleOutbound | RuleDirectionOther string

datatype RuleProtocol = RuleProtocolAny | RuleProtocolAll | RuleProtocolIcmpTCPUDP | RuleProtocolIcmp
  | RuleProtocolTCP | RuleProtocolUDP | RuleProtocolOther string

definition RuleDirection_string :: "RuleDirection \<Rightarrow> string" where
  "RuleDirection_string d = (case d of RuleInbound \<Rightarrow> ''inbound'' | RuleOutbound \<Rightarrow> ''outbound'' | RuleDirectionOther s \<Rightarrow> s)"

definition RuleProtocol_string :: "RuleProtocol \<Rightarrow> string" where
  "RuleProtocol_string p = (case p of RuleProtocolAny \<Rightarrow> ''any'' | RuleProtocolAll \<Rightarrow> ''all''
     | RuleProtocolIcmpTCPUDP \<Rightarrow> ''icmp_tcp_udp'' | RuleProtocolIcmp \<Rightarrow> ''icmp'' | RuleProtocolTCP \<Rightarrow> ''tcp''
     | RuleProtocolUDP \<Rightarrow> ''udp'' | RuleProtocolOther s \<Rightarrow> s)"

datatype RuleRemoteType = RuleRemoteAny | RuleRemoteCIDR | RuleRemoteAddress | RuleRemoteSG | RuleRemoteOther string

record RuleRemote =
  RuleRemote_CIDRSubnetName :: "string option"
  RuleRemote_Address :: "string option"
  RuleRemote_Type :: RuleRemoteType
  RuleRemote_SecurityGroupName :: "string option"

text \<open>A port range is its minimum and its maximum port.\<close>

record RulePortRange =
  RulePortRange_Maximum :: int
  RulePortRange_Minimum :: int

record RulePrototype =
  RulePrototype_ICMPCode :: "int option"
  RulePrototype_ICMPType :: "int option"
  RulePrototype_PortRange :: "RulePortRange option"
  RulePrototype_Protocol :: RuleProtocol
  RulePrototype_Remotes :: "RuleRemote list"

record GroupRule =
  GroupRule_Destination :: "RulePrototype option"
  GroupRule_Direction :: RuleDirection
  GroupRule_SecurityGroupID :: "string option"
  GroupRule_Source :: "RulePrototype option"

record VPCSecurityGroupSpec =
  SecurityGroupSpec_ID :: "string option"
  SecurityGroupSpec_Name :: "string option"
  SecurityGroupSpec_Rules :: "GroupRule option list"
  SecurityGroupSpec_Tags :: "string option list"

section \<open>Load balancers\<close>

record AdditionalListenerSpec =
  ListenerSpec_DefaultPoolName :: "string option"
  ListenerSpec_Port :: int
  ListenerSpec_Protocol :: "string option"
  ListenerSpec_Selector :: LabelSelector

record HealthMonitorSpec =
  HealthMonitorSpec_Delay :: int
  HealthMonitorSpec_Retries :: int
  HealthMonitorSpec_Port :: "int option"
  HealthMonitorSpec_Timeout :: int
  HealthMonitorSpec_Type :: string
  HealthMonitorSpec_URLPath :: "string option"

record BackendPoolSpec =
  BackendPoolSpec_Name :: "string option"
  BackendPoolSpec_Algorithm :: string
  BackendPoolSpec_HealthMonitor :: HealthMonitorSpec
  BackendPoolSpec_Protocol :: string

record LoadBalancerSpec =
  LoadBalancerSpec_Name :: string
  LoadBalancerSpec_ID :: "string option"
  LoadBalancerSpec_Public :: "bool option"
  LoadBalancerSpec_AdditionalListeners :: "AdditionalListenerSpec list option"
  LoadBalancerSpec_BackendPools :: "BackendPoolSpec list option"
  LoadBalancerSpec_SecurityGroups :: "VPCResource list option"
  LoadBalancerSpec_Subnets :: "VPCResource list option"

record VPCLoadBalancerStatus =
  VPCLoadBalancerStatus_ID :: "string option"
  VPCLoadBalancerStatus_State :: VPCLoadBalancerState
  VPCLoadBalancerStatus_Hostname :: "string option"
  VPCLoadBalancerStatus_ControllerCreated :: "bool option"

section \<open>The cluster\<close>

record ImageSpec =
  ImageSpec_Name :: "string option"
  ImageSpec_CRN :: "string option"
  ImageSpec_COSInstance :: "string option"
  ImageSpec_COSBucket :: "string option"
  ImageSpec_COSBucketRegion :: "string option"
  ImageSpec_COSObject :: "string option"
  ImageSpec_OperatingSystem :: "string option"
  ImageSpec_ResourceGroup :: "IBMCloudResourceReference option"

record VPCNetworkSpec =
  NetworkSpec_ControlPlaneSubnets :: "SubnetSpec list"
  NetworkSpec_LoadBalancers :: "LoadBalancerSpec list"
  NetworkSpec_ResourceGroup :: "IBMCloudResourceReference option"
  NetworkSpec_SecurityGroups :: "VPCSecurityGroupSpec list"
  NetworkSpec_WorkerSubnets :: "SubnetSpec list"
  NetworkSpec_VPC :: "VPCResource option"

record IBMVPCClusterSpec =
  VSpec_Region :: string
  VSpec_ResourceGroup :: string
  VSpec_VPC :: string
  VSpec_Zone :: string
  VSpec_EndpointHost :: string                       \<comment> \<open>\<open>ControlPlaneEndpoint\<close>\<close>
  VSpec_EndpointPort :: int
  VSpec_ControlPlaneLoadBalancer :: "LoadBalancerSpec option"
  VSpec_Image :: "ImageSpec option"
  VSpec_Network :: "VPCNetworkSpec option"

type_synonym 'v gomap = "(string \<times> 'v) list"

record VPCNetworkStatus =
  NetworkStatus_ControlPlaneSubnets :: "ResourceStatus gomap option"
  NetworkStatus_LoadBalancers :: "VPCLoadBalancerStatus gomap option"
  NetworkStatus_PublicGateways :: "ResourceStatus gomap option"
  NetworkStatus_ResourceGroup :: "ResourceStatus option"
  NetworkStatus_SecurityGroups :: "ResourceStatus gomap option"
  NetworkStatus_WorkerSubnets :: "ResourceStatus gomap option"
  NetworkStatus_VPC :: "ResourceStatus option"

record VPCStatusRef =
  VPCStatusRef_ID :: string
  VPCStatusRef_Name :: string

record VPCEndpoint =
  VPCEndpoint_Address :: "string option"
  VPCEndpoint_FIPID :: "string option"
  VPCEndpoint_LBID :: "string option"

record IBMVPCClusterStatus =
  VStatus_VPC :: VPCStatusRef
  VStatus_Image :: "ResourceStatus option"
  VStatus_Network :: "VPCNetworkStatus option"
  VStatus_Ready :: bool
  VStatus_ResourceGroup :: "ResourceStatus option"
  VStatus_Subnet :: SubnetSpec
  VStatus_VPCEndpoint :: VPCEndpoint
  VStatus_ControlPlaneLoadBalancerState :: VPCLoadBalancerState
  VStatus_Conditions :: "DeprecatedCondition list"
  VStatus_V1Beta2 :: "Condition list option"         \<comment> \<open>the conditions, if \<open>V1Beta2\<close> is not nil\<close>

record IBMVPCCluster =
  VCluster_Name :: string
  VCluster_Namespace :: string
  VCluster_Finalizers :: "string list"
  VCluster_Deleting :: bool
  VCluster_Spec :: IBMVPCClusterSpec
  VCluster_Status :: IBMVPCClusterStatus

definition vpc_GetConditions :: "IBMVPCCluster \<Rightarrow> DeprecatedCondition list" where
  "vpc_GetConditions r = VStatus_Conditions (VCluster_Status r)"

definition vpc_SetConditions :: "IBMVPCCluster \<Rightarrow> DeprecatedCondition list \<Rightarrow> IBMVPCCluster" where
  "vpc_SetConditions r cs = r\<lparr>VCluster_Status := (VCluster_Status r)\<lparr>VStatus_Conditions := cs\<rparr>\<rparr>"

definition vpc_GetV1Beta2Conditions :: "IBMVPCCluster \<Rightarrow> Condition list" where
  "vpc_GetV1Beta2Conditions r = (case VStatus_V1Beta2 (VCluster_Status r) of None \<Rightarrow> [] | Some cs \<Rightarrow> cs)"

definition vpc_SetV1Beta2Conditions :: "IBMVPCCluster \<Rightarrow> Condition list \<Rightarrow> IBMVPCCluster" where
  "vpc_SetV1Beta2Conditions r cs = r\<lparr>VCluster_Status := (VCluster_Status r)\<lparr>VStatus_V1Beta2 := Some cs\<rparr>\<rparr>"

section \<open>The machine\<close>

record VPCMachineNetworkInterface =
  Interface_SecurityGroups :: "VPCResource list"
  Interface_Subnet :: string

record VPCLoadBalancerBackendPoolMember =
  BackendMember_LoadBalancer :: VPCResource
  BackendMember_Pool :: VPCResource
  BackendMember_Port :: int
  BackendMember_Weight :: "int option"

record VPCMachinePlacementTarget =
  Placement_DedicatedHost :: "VPCResource option"
  Placement_DedicatedHostGroup :: "VPCResource option"
  Placement_PlacementGroup :: "VPCResource option"

record IBMCloudCatalogOffering =
  Catalog_OfferingCRN :: "string option"
  Catalog_PlanCRN :: "string option"
  Catalog_VersionCRN :: "string option"

record VPCVolume =
  Volume_DeleteOnInstanceDelete :: bool
  Volume_Name :: string
  Volume_SizeGiB :: int
  Volume_Profile :: string
  Volume_Iops :: int
  Volume_Bandwidth :: int
  Volume_EncryptionKeyCRN :: string

text \<open>The name of an element of a list of pointers is dereferenced by the code, so nil elements are kept.\<close>

record IBMVPCMachineSpec =
  VMSpec_Name :: string
  VMSpec_CatalogOffering :: "IBMCloudCatalogOffering option"
  VMSpec_PlacementTarget :: "VPCMachinePlacementTarget option"
  VMSpec_Image :: "VPCResource option"
  VMSpec_LoadBalancerPoolMembers :: "VPCLoadBalancerBackendPoolMember list"
  VMSpec_Zone :: string
  VMSpec_Profile :: string
  VMSpec_BootVolume :: "VPCVolume option"
  VMSpec_ProviderID :: "string option"
  VMSpec_PrimaryNetworkInterface :: VPCMachineNetworkInterface
  VMSpec_SSHKeys :: "VPCResource option list"
  VMSpec_AdditionalVolumes :: "VPCVolume option list"

datatype NodeAddressType = NodeInternalDNS | NodeHostName | NodeInternalIP | OtherNodeAddress string

record IBMVPCMachineV1Beta2Status =
  VMV1Beta2_Conditions :: "Condition list"
  VMV1Beta2_AdditionalVolumeIDs :: "string list option"

record IBMVPCMachineStatus =
  VMStatus_InstanceID :: string
  VMStatus_Ready :: bool
  VMStatus_Addresses :: "(NodeAddressType \<times> string) list"
  VMStatus_Conditions :: "DeprecatedCondition list"
  VMStatus_FailureReason :: "string option"
  VMStatus_FailureMessage :: "string option"
  VMStatus_InstanceStatus :: string
  VMStatus_LoadBalancerPoolMembers :: "VPCLoadBalancerBackendPoolMember list"
  VMStatus_V1Beta2 :: "IBMVPCMachineV1Beta2Status option"

record IBMVPCMachine =
  VMachine_Name :: string
  VMachine_Namespace :: string
  VMachine_Labels :: "string \<rightharpoonup> string"
  VMachine_Finalizers :: "string list"
  VMachine_Deleting :: bool
  VMachine_Spec :: IBMVPCMachineSpec
  VMachine_Status :: IBMVPCMachineStatus

definition vpcmachine_GetConditions :: "IBMVPCMachine \<Rightarrow> DeprecatedCondition list" where
  "vpcmachine_GetConditions r = VMStatus_Conditions (VMachine_Status r)"

definition vpcmachine_SetConditions :: "IBMVPCMachine \<Rightarrow> DeprecatedCondition list \<Rightarrow> IBMVPCMachine" where
  "vpcmachine_SetConditions r cs = r\<lparr>VMachine_Status := (VMachine_Status r)\<lparr>VMStatus_Conditions := cs\<rparr>\<rparr>"

definition vpcmachine_GetV1Beta2Conditions :: "IBMVPCMachine \<Rightarrow> Condition list" where
  "vpcmachine_GetV1Beta2Conditions r = (case VMStatus_V1Beta2 (VMachine_Status r) of None \<Rightarrow> [] | Some v \<Rightarrow> VMV1Beta2_Conditions v)"

definition vpcmachine_SetV1Beta2Conditions :: "IBMVPCMachine \<Rightarrow> Condition list \<Rightarrow> IBMVPCMachine" where
  "vpcmachine_SetV1Beta2Conditions r cs =
     (let v = (case VMStatus_V1Beta2 (VMachine_Status r) of
                 None \<Rightarrow> \<lparr>VMV1Beta2_Conditions = [], VMV1Beta2_AdditionalVolumeIDs = None\<rparr> | Some v \<Rightarrow> v)
      in r\<lparr>VMachine_Status := (VMachine_Status r)\<lparr>VMStatus_V1Beta2 := Some (v\<lparr>VMV1Beta2_Conditions := cs\<rparr>)\<rparr>\<rparr>)"

end
