(* ===== verification/Ibmvpc_Clients.thy ===== *)
theory Ibmvpc_Clients
  imports Ibmvpc_Types Cloud_Clients
begin

text \<open>
  The interfaces the VPC scopes are written against (\<^verbatim>\<open>pkg/cloud/services/{vpc,globaltagging,resourcemanager}\<close>,
  the controller-runtime client, the account lookup). As for PowerVS, a client is a function from the calls
  made before and the arguments to the reply, nothing is assumed of it, and every call is recorded. The
  SDK objects have the fields the code reads.
\<close>

section \<open>Objects of the SDKs\<close>

record CloudSubnet = Subnet +
  subnet_CRN :: "string option"

record CloudLoadBalancer = LoadBalancer +
  lb_OperatingStatus :: "string option"
  lb_CRN :: "string option"
  lb_Pools :: "string option list"                   \<comment> \<open>the IDs of the pools\<close>

record CloudImage =
  cimage_ID :: "string option"
  cimage_Name :: "string option"
  cimage_Status :: "string option"
  cimage_CRN :: "string option"

record CloudGateway =
  cgw_ID :: "string option"
  cgw_Name :: "string option"
  cgw_CRN :: "string option"

record AddressPrefix =
  prefix_CIDR :: "string option"
  prefix_Zone :: "string option option"              \<comment> \<open>the zone reference, and its name\<close>

text \<open>What a \<open>*vpcv1.SecurityGroupRuleRemote\<close> carries, and any other dynamic type behind the interface.\<close>

record CloudRemote =
  remote_CIDRBlock :: "string option"
  remote_Address :: "string option"
  remote_Name :: "string option"
  remote_ID :: "string option"
  remote_CRN :: "string option"

datatype RemoteIntf = RemoteOf CloudRemote | RemoteOfOtherType

text \<open>The dynamic types of a rule, each with its direction, its remote and what else the code reads.\<close>

datatype CloudRule =
    CloudRuleAny "string option" RemoteIntf
  | CloudRuleIcmptcpudp "string option" RemoteIntf
  | CloudRuleIcmp "string option" RemoteIntf "int option" "int option"                \<comment> \<open>code, type\<close>
  | CloudRuleTcpudp "string option" "string option" "string option" RemoteIntf "int option" "int option"  \<comment> \<open>ID, direction, protocol, remote, ports\<close>
  | CloudRuleIndividual "string option" "string option" RemoteIntf                    \<comment> \<open>direction, protocol\<close>
  | CloudRuleOther

record CloudKey =
  key_ID :: "string option"
  key_Name :: "string option"

record VolumeAttachment =
  attachment_Name :: "string option"

record HealthReason =
  reason_Code :: "string option"
  reason_Message :: "string option"

text \<open>The primary IP address of an instance is three pointers away.\<close>

record VSInstance =
  vsi_ID :: "string option"
  vsi_Name :: "string option"
  vsi_CRN :: "string option"
  vsi_Status :: "string option"
  vsi_PrimaryIP :: "string option option option"
  vsi_HealthReasons :: "HealthReason list"

datatype MemberTarget = MemberTarget "string option" | MemberOtherTarget

record CloudPoolMember =
  cpmember_ID :: "string option"
  cpmember_Port :: "int option"
  cpmember_Target :: MemberTarget
  cpmember_ProvisioningStatus :: "string option"

text \<open>A page of a list operation: its items, \<open>Next\<close> and its \<open>Href\<close>.\<close>

record 'a vpage =
  vpage_items :: "'a list"
  vpage_next :: "string option option"

section \<open>Requests\<close>

record VCreateVPC =
  vcv_ResourceGroup :: string
  vcv_Name :: "string option"
  vcv_AddressPrefixManagement :: "string option"

record VCreateSubnet =
  vcs_Ipv4CIDRBlock :: "string option"
  vcs_IPVersion :: "string option"
  vcs_TotalIpv4AddressCount :: "int option"
  vcs_Name :: "string option"
  vcs_VPC :: "string option"
  vcs_Zone :: string
  vcs_ResourceGroup :: string
  vcs_PublicGateway :: "string option"

record VCreateGateway =
  vcg_Name :: "string option"
  vcg_ResourceGroup :: string
  vcg_VPC :: string
  vcg_Zone :: string

record VCreateSecurityGroup =
  vcsg_Name :: "string option"
  vcsg_VPC :: "string option"
  vcsg_ResourceGroup :: string

datatype RuleKind = KindGeneric | KindAny | KindIcmptcpudp | KindIcmp | KindTcpudp | KindIndividual

record NewRule =
  rule_Kind :: RuleKind
  rule_Direction :: string
  rule_Protocol :: string
  rule_IPVersion :: "string option"
  rule_Remote :: "SecurityGroupRuleRemotePrototype option"
  rule_Code :: "int option"
  rule_Type :: "int option"
  rule_PortMin :: "int option"
  rule_PortMax :: "int option"

record VMonitor =
  vmon_Delay :: int
  vmon_MaxRetries :: int
  vmon_Timeout :: int
  vmon_Type :: string
  vmon_Port :: "int option"
  vmon_URLPath :: "string option"

record VPool =
  vpool_Algorithm :: string
  vpool_HealthMonitor :: VMonitor
  vpool_Name :: "string option"
  vpool_Protocol :: string

record VListener =
  vlisten_Port :: int
  vlisten_Protocol :: string
  vlisten_DefaultPool :: "string option option"      \<comment> \<open>the identity, and the name in it\<close>

record VCreateLoadBalancer =
  vclb_IsPublic :: bool
  vclb_Name :: string
  vclb_ResourceGroup :: string
  vclb_Subnets :: "string option list"
  vclb_SecurityGroups :: "string list"
  vclb_Pools :: "VPool list"
  vclb_Listeners :: "VListener list"

record VCreateImage =
  vci_Name :: "string option"
  vci_Href :: "string option"
  vci_OperatingSystem :: "string option"
  vci_ResourceGroup :: "string option"

record VBootVolume =
  boot_DeleteVolumeOnInstanceDelete :: bool
  boot_Name :: "string option"
  boot_Profile :: "string option"
  boot_Capacity :: "int option"
  boot_Iops :: "int option"
  boot_Bandwidth :: "int option"
  boot_EncryptionKey :: "string option"

text \<open>The source of an instance: an image, or a catalog offering or version with a plan.\<close>

datatype VSource =
    ByImage "string option"
  | ByOffering string "string option"
  | ByVersion string "string option"

text \<open>The types the placement target may have, each with an ID.\<close>

datatype PlacementPrototype = PlacementDedicatedHost "string option" | PlacementDedicatedHostGroup "string option"

record VCreateInstance =
  vin_Name :: string
  vin_Profile :: string
  vin_Subnet :: "string option"
  vin_SecurityGroups :: "string option list option"
  vin_ResourceGroup :: string
  vin_UserData :: string
  vin_VPC :: "string option"
  vin_Zone :: string
  vin_Placement :: "PlacementPrototype option"
  vin_Keys :: "string option list option"
  vin_BootVolume :: "VBootVolume option"
  vin_Source :: VSource

record VCreatePoolMember =
  vcm_LoadBalancerID :: string
  vcm_PoolID :: string
  vcm_Port :: int
  vcm_Address :: "string option"
  vcm_Weight :: "int option"

record VCreateVolume =
  vvol_ResourceGroup :: string
  vvol_Profile :: string
  vvol_Zone :: string
  vvol_Capacity :: int
  vvol_Iops :: "int option"
  vvol_Bandwidth :: "int option"

section \<open>Calls\<close>

datatype rm_vcall =
    VGetTagByName string
  | VCreateTag string
  | VAttachTag string string
  | VGetResourceGroup string
  | VGetResourceGroupByName string
  | VGetAccountID

datatype vpc_vcall =
    VGetVPCByName string
  | VGetVPC "string option"
  | VListVpcs string
  | VCreateVPC VCreateVPC
  | VDeleteVPC string
  | VGetImageByName string
  | VGetImage string
  | VCreateImage VCreateImage
  | VListImages string string
  | VGetZones string

datatype subnet_vcall =
    VGetSubnet string
  | VGetSubnetByName string
  | VListSubnets string
  | VCreateSubnet VCreateSubnet
  | VDeleteSubnet string
  | VListAddressPrefixes string string
  | VGetGatewayByName string string
  | VCreateGateway VCreateGateway
  | VSetSubnetGateway string string
  | VGetSubnetGateway string
  | VUnsetSubnetGateway string
  | VDeleteGateway string

datatype group_vcall =
    VGetSecurityGroup string
  | VGetSecurityGroupByName string
  | VCreateSecurityGroup VCreateSecurityGroup
  | VListRules string
  | VCreateRule string NewRule

datatype balancer_vcall =
    VGetLoadBalancer "string option"
  | VGetLoadBalancerByName string
  | VListLoadBalancers string
  | VCreateLoadBalancer VCreateLoadBalancer
  | VDeleteLoadBalancer string
  | VGetPoolByName string string
  | VListMembers string string
  | VCreateMember VCreatePoolMember
  | VDeleteMember "string option" "string option" "string option"

datatype instance_vcall =
    VCountInstances string
  | VListInstances string
  | VGetInstance string
  | VCreateInstance VCreateInstance
  | VDeleteInstance string
  | VGetDedicatedHostByName string
  | VListKeys string
  | VGetAttachments string
  | VGetVolume string
  | VCreateVolume VCreateVolume
  | VAttachVolume string bool string string

datatype kube_vcall =
    VGetBootstrapSecret string string
  | VGetMachineObject string string

datatype vcall =
    VRM rm_vcall
  | VPCS vpc_vcall
  | VNET subnet_vcall
  | VSG group_vcall
  | VLB balancer_vcall
  | VSI instance_vcall
  | VK8S kube_vcall

type_synonym vhistory = "vcall list"

section \<open>Clients\<close>

text \<open>
  Where the code looks at more than the error, the reply is spelled out: \<open>GetLoadBalancer\<close> answers with the
  object, the status code and the error; \<open>CreateSubnet\<close> of the classic scope with the object and the error;
  \<open>ListLoadBalancerPoolMembers\<close> with the status code of a successful response. \<open>range_order\<close> is the order in
  which Go ranges over a map.
\<close>

record tag_rm_clients =
  c_GetTagByName :: "vhistory \<Rightarrow> string \<Rightarrow> unit option reply"
  c_CreateTag :: "vhistory \<Rightarrow> string \<Rightarrow> unit reply"
  c_AttachTag :: "vhistory \<Rightarrow> string \<Rightarrow> string \<Rightarrow> unit reply"
  c_GetResourceGroup :: "vhistory \<Rightarrow> string \<Rightarrow> ResourceGroup option reply"
  c_GetResourceGroupByName :: "vhistory \<Rightarrow> string \<Rightarrow> ResourceGroup option reply"

record vpc_image_clients = tag_rm_clients +
  c_GetVPCByName :: "vhistory \<Rightarrow> string \<Rightarrow> VPC option reply"
  c_GetVPC :: "vhistory \<Rightarrow> string option \<Rightarrow> VPC option reply"
  c_ListVpcs :: "vhistory \<Rightarrow> string \<Rightarrow> VPC vpage option reply"
  c_CreateVPC :: "vhistory \<Rightarrow> VCreateVPC \<Rightarrow> VPC option reply"
  c_DeleteVPC :: "vhistory \<Rightarrow> string \<Rightarrow> unit reply"
  c_GetImageByName :: "vhistory \<Rightarrow> string \<Rightarrow> CloudImage option reply"
  c_GetImage :: "vhistory \<Rightarrow> string \<Rightarrow> CloudImage option reply"
  c_CreateImage :: "vhistory \<Rightarrow> VCreateImage \<Rightarrow> CloudImage option reply"
  c_ListImages :: "vhistory \<Rightarrow> string \<Rightarrow> string \<Rightarrow> CloudImage vpage option reply"
  c_GetZones :: "vhistory \<Rightarrow> string \<Rightarrow> string list reply"

record subnet_clients = vpc_image_clients +
  c_GetSubnet :: "vhistory \<Rightarrow> string \<Rightarrow> CloudSubnet option reply"
  c_GetSubnetByName :: "vhistory \<Rightarrow> string \<Rightarrow> CloudSubnet option reply"
  c_ListSubnets :: "vhistory \<Rightarrow> string \<Rightarrow> CloudSubnet vpage option reply"
  c_CreateSubnet :: "vhistory \<Rightarrow> VCreateSubnet \<Rightarrow> CloudSubnet option \<times> gerror option"
  c_DeleteSubnet :: "vhistory \<Rightarrow> string \<Rightarrow> unit reply"
  c_ListAddressPrefixes :: "vhistory \<Rightarrow> string \<Rightarrow> string \<Rightarrow> AddressPrefix vpage option reply"
  c_GetGatewayByName :: "vhistory \<Rightarrow> string \<Rightarrow> string \<Rightarrow> CloudGateway option reply"
  c_CreateGateway :: "vhistory \<Rightarrow> VCreateGateway \<Rightarrow> CloudGateway option reply"
  c_SetSubnetGateway :: "vhistory \<Rightarrow> string \<Rightarrow> string \<Rightarrow> unit reply"
  c_GetSubnetGateway :: "vhistory \<Rightarrow> string \<Rightarrow> CloudGateway option reply"
  c_UnsetSubnetGateway :: "vhistory \<Rightarrow> string \<Rightarrow> unit reply"
  c_DeleteGateway :: "vhistory \<Rightarrow> string \<Rightarrow> unit reply"

record group_clients = subnet_clients +
  c_GetSecurityGroup :: "vhistory \<Rightarrow> string \<Rightarrow> SecurityGroup option reply"
  c_GetSecurityGroupByName :: "vhistory \<Rightarrow> string \<Rightarrow> SecurityGroup option reply"
  c_CreateSecurityGroup :: "vhistory \<Rightarrow> VCreateSecurityGroup \<Rightarrow> SecurityGroup option reply"
  c_ListRules :: "vhistory \<Rightarrow> string \<Rightarrow> CloudRule list option reply"
  c_CreateRule :: "vhistory \<Rightarrow> string \<Rightarrow> NewRule \<Rightarrow> unit option reply"

record balancer_clients = group_clients +
  c_GetLoadBalancer :: "vhistory \<Rightarrow> string option \<Rightarrow> CloudLoadBalancer option \<times> int option \<times> gerror option"
  c_GetLoadBalancerByName :: "vhistory \<Rightarrow> string \<Rightarrow> CloudLoadBalancer option reply"
  c_ListLoadBalancers :: "vhistory \<Rightarrow> string \<Rightarrow> CloudLoadBalancer vpage option reply"
  c_CreateLoadBalancer :: "vhistory \<Rightarrow> VCreateLoadBalancer \<Rightarrow> CloudLoadBalancer option reply"
  c_DeleteLoadBalancer :: "vhistory \<Rightarrow> string \<Rightarrow> unit reply"
  c_GetPoolByName :: "vhistory \<Rightarrow> string \<Rightarrow> string \<Rightarrow> string option option reply"          \<comment> \<open>the pool, and its ID\<close>
  c_ListMembers :: "vhistory \<Rightarrow> string \<Rightarrow> string \<Rightarrow> (CloudPoolMember list option \<times> int option) reply"
  c_CreateMember :: "vhistory \<Rightarrow> VCreatePoolMember \<Rightarrow> CloudPoolMember option reply"
  c_DeleteMember :: "vhistory \<Rightarrow> string option \<Rightarrow> string option \<Rightarrow> string option \<Rightarrow> unit reply"

record instance_clients = balancer_clients +
  c_CountInstances :: "vhistory \<Rightarrow> string \<Rightarrow> int option option reply"                        \<comment> \<open>the collection, and its \<open>TotalCount\<close>\<close>
  c_ListInstances :: "vhistory \<Rightarrow> string \<Rightarrow> VSInstance vpage option reply"
  c_GetInstance :: "vhistory \<Rightarrow> string \<Rightarrow> VSInstance option reply"
  c_CreateInstance :: "vhistory \<Rightarrow> VCreateInstance \<Rightarrow> VSInstance option reply"
  c_DeleteInstance :: "vhistory \<Rightarrow> string \<Rightarrow> unit reply"
  c_GetDedicatedHostByName :: "vhistory \<Rightarrow> string \<Rightarrow> string option option reply"            \<comment> \<open>the host, and its ID\<close>
  c_ListKeys :: "vhistory \<Rightarrow> string \<Rightarrow> CloudKey vpage option reply"

record vpc_clients = instance_clients +
  c_GetAttachments :: "vhistory \<Rightarrow> string \<Rightarrow> VolumeAttachment list option reply"
  c_GetVolume :: "vhistory \<Rightarrow> string \<Rightarrow> string option option reply"                           \<comment> \<open>the volume, and its status\<close>
  c_CreateVolume :: "vhistory \<Rightarrow> VCreateVolume \<Rightarrow> string option option reply"                \<comment> \<open>the volume, and its ID\<close>
  c_AttachVolume :: "vhistory \<Rightarrow> string \<Rightarrow> bool \<Rightarrow> string \<Rightarrow> string \<Rightarrow> unit reply"
  c_GetBootstrapSecret :: "vhistory \<Rightarrow> string \<Rightarrow> string \<Rightarrow> (string \<rightharpoonup> string) reply"
  c_GetAccountID :: "vhistory \<Rightarrow> string reply"
  c_GetMachineObject :: "vhistory \<Rightarrow> string \<Rightarrow> string \<Rightarrow> IBMVPCMachine reply"
  range_order :: "vhistory \<Rightarrow> ResourceStatus gomap \<Rightarrow> ResourceStatus gomap"
  url_start :: "string \<Rightarrow> string option"             \<comment> \<open>the query parameter \<open>start\<close> of a URL, \<open>None\<close> if it does not parse\<close>
  vProviderIDFormat :: string

section \<open>Making a call\<close>

record vworld =
  vtrace :: vhistory

definition vapi :: "(vhistory \<Rightarrow> 'r) \<Rightarrow> vcall \<Rightarrow> ('w vworld_scheme, 'r) state" where
  "vapi f c = State (\<lambda>w. (f (vtrace w), w\<lparr>vtrace := vtrace w @ [c]\<rparr>))"

lemma wp_vapi [wp_simps]: "wp (vapi f c) Q w = Q (f (vtrace w)) (w\<lparr>vtrace := vtrace w @ [c]\<rparr>)"
  by (simp add: wp_def vapi_def)

lemma run_vapi [simp]: "run_state (vapi f c) w = (f (vtrace w), w\<lparr>vtrace := vtrace w @ [c]\<rparr>)"
  by (simp add: vapi_def)

text \<open>The methods.\<close>

abbreviation "do_GetTagByName C x \<equiv> vapi (\<lambda>h. c_GetTagByName C h x) (VRM (VGetTagByName x))"
abbreviation "do_CreateTag C x \<equiv> vapi (\<lambda>h. c_CreateTag C h x) (VRM (VCreateTag x))"
abbreviation "do_AttachTag C x y \<equiv> vapi (\<lambda>h. c_AttachTag C h x y) (VRM (VAttachTag x y))"
abbreviation "do_GetResourceGroup C x \<equiv> vapi (\<lambda>h. c_GetResourceGroup C h x) (VRM (VGetResourceGroup x))"
abbreviation "do_GetResourceGroupByName C x \<equiv> vapi (\<lambda>h. c_GetResourceGroupByName C h x) (VRM (VGetResourceGroupByName x))"
abbreviation "do_GetVPCByName C x \<equiv> vapi (\<lambda>h. c_GetVPCByName C h x) (VPCS (VGetVPCByName x))"
abbreviation "do_GetVPC C x \<equiv> vapi (\<lambda>h. c_GetVPC C h x) (VPCS (VGetVPC x))"
abbreviation "do_ListVpcs C x \<equiv> vapi (\<lambda>h. c_ListVpcs C h x) (VPCS (VListVpcs x))"
abbreviation "do_CreateVPC C x \<equiv> vapi (\<lambda>h. c_CreateVPC C h x) (VPCS (VCreateVPC x))"
abbreviation "do_DeleteVPC C x \<equiv> vapi (\<lambda>h. c_DeleteVPC C h x) (VPCS (VDeleteVPC x))"
abbreviation "do_GetImageByName C x \<equiv> vapi (\<lambda>h. c_GetImageByName C h x) (VPCS (VGetImageByName x))"
abbreviation "do_GetImage C x \<equiv> vapi (\<lambda>h. c_GetImage C h x) (VPCS (VGetImage x))"
abbreviation "do_CreateImage C x \<equiv> vapi (\<lambda>h. c_CreateImage C h x) (VPCS (VCreateImage x))"
abbreviation "do_ListImages C x y \<equiv> vapi (\<lambda>h. c_ListImages C h x y) (VPCS (VListImages x y))"
abbreviation "do_GetZones C x \<equiv> vapi (\<lambda>h. c_GetZones C h x) (VPCS (VGetZones x))"
abbreviation "do_GetSubnet C x \<equiv> vapi (\<lambda>h. c_GetSubnet C h x) (VNET (VGetSubnet x))"
abbreviation "do_GetSubnetByName C x \<equiv> vapi (\<lambda>h. c_GetSubnetByName C h x) (VNET (VGetSubnetByName x))"
abbreviation "do_ListSubnets C x \<equiv> vapi (\<lambda>h. c_ListSubnets C h x) (VNET (VListSubnets x))"
abbreviation "do_CreateSubnet C x \<equiv> vapi (\<lambda>h. c_CreateSubnet C h x) (VNET (VCreateSubnet x))"
abbreviation "do_DeleteSubnet C x \<equiv> vapi (\<lambda>h. c_DeleteSubnet C h x) (VNET (VDeleteSubnet x))"
abbreviation "do_ListAddressPrefixes C x y \<equiv> vapi (\<lambda>h. c_ListAddressPrefixes C h x y) (VNET (VListAddressPrefixes x y))"
abbreviation "do_GetGatewayByName C x y \<equiv> vapi (\<lambda>h. c_GetGatewayByName C h x y) (VNET (VGetGatewayByName x y))"
abbreviation "do_CreateGateway C x \<equiv> vapi (\<lambda>h. c_CreateGateway C h x) (VNET (VCreateGateway x))"
abbreviation "do_SetSubnetGateway C x y \<equiv> vapi (\<lambda>h. c_SetSubnetGateway C h x y) (VNET (VSetSubnetGateway x y))"
abbreviation "do_GetSubnetGateway C x \<equiv> vapi (\<lambda>h. c_GetSubnetGateway C h x) (VNET (VGetSubnetGateway x))"
abbreviation "do_UnsetSubnetGateway C x \<equiv> vapi (\<lambda>h. c_UnsetSubnetGateway C h x) (VNET (VUnsetSubnetGateway x))"
abbreviation "do_DeleteGateway C x \<equiv> vapi (\<lambda>h. c_DeleteGateway C h x) (VNET (VDeleteGateway x))"
abbreviation "do_GetSecurityGroup C x \<equiv> vapi (\<lambda>h. c_GetSecurityGroup C h x) (VSG (VGetSecurityGroup x))"
abbreviation "do_GetSecurityGroupByName C x \<equiv> vapi (\<lambda>h. c_GetSecurityGroupByName C h x) (VSG (VGetSecurityGroupByName x))"
abbreviation "do_CreateSecurityGroup C x \<equiv> vapi (\<lambda>h. c_CreateSecurityGroup C h x) (VSG (VCreateSecurityGroup x))"
abbreviation "do_ListRules C x \<equiv> vapi (\<lambda>h. c_ListRules C h x) (VSG (VListRules x))"
abbreviation "do_CreateRule C x y \<equiv> vapi (\<lambda>h. c_CreateRule C h x y) (VSG (VCreateRule x y))"
abbreviation "do_GetLoadBalancer C x \<equiv> vapi (\<lambda>h. c_GetLoadBalancer C h x) (VLB (VGetLoadBalancer x))"
abbreviation "do_GetLoadBalancerByName C x \<equiv> vapi (\<lambda>h. c_GetLoadBalancerByName C h x) (VLB (VGetLoadBalancerByName x))"
abbreviation "do_ListLoadBalancers C x \<equiv> vapi (\<lambda>h. c_ListLoadBalancers C h x) (VLB (VListLoadBalancers x))"
abbreviation "do_CreateLoadBalancer C x \<equiv> vapi (\<lambda>h. c_CreateLoadBalancer C h x) (VLB (VCreateLoadBalancer x))"
abbreviation "do_DeleteLoadBalancer C x \<equiv> vapi (\<lambda>h. c_DeleteLoadBalancer C h x) (VLB (VDeleteLoadBalancer x))"
abbreviation "do_GetPoolByName C x y \<equiv> vapi (\<lambda>h. c_GetPoolByName C h x y) (VLB (VGetPoolByName x y))"
abbreviation "do_ListMembers C x y \<equiv> vapi (\<lambda>h. c_ListMembers C h x y) (VLB (VListMembers x y))"
abbreviation "do_CreateMember C x \<equiv> vapi (\<lambda>h. c_CreateMember C h x) (VLB (VCreateMember x))"
abbreviation "do_DeleteMember C x y z \<equiv> vapi (\<lambda>h. c_DeleteMember C h x y z) (VLB (VDeleteMember x y z))"
abbreviation "do_CountInstances C x \<equiv> vapi (\<lambda>h. c_CountInstances C h x) (VSI (VCountInstances x))"
abbreviation "do_ListInstances C x \<equiv> vapi (\<lambda>h. c_ListInstances C h x) (VSI (VListInstances x))"
abbreviation "do_GetInstance C x \<equiv> vapi (\<lambda>h. c_GetInstance C h x) (VSI (VGetInstance x))"
abbreviation "do_CreateInstance C x \<equiv> vapi (\<lambda>h. c_CreateInstance C h x) (VSI (VCreateInstance x))"
abbreviation "do_DeleteInstance C x \<equiv> vapi (\<lambda>h. c_DeleteInstance C h x) (VSI (VDeleteInstance x))"
abbreviation "do_GetDedicatedHostByName C x \<equiv> vapi (\<lambda>h. c_GetDedicatedHostByName C h x) (VSI (VGetDedicatedHostByName x))"
abbreviation "do_ListKeys C x \<equiv> vapi (\<lambda>h. c_ListKeys C h x) (VSI (VListKeys x))"
abbreviation "do_GetAttachments C x \<equiv> vapi (\<lambda>h. c_GetAttachments C h x) (VSI (VGetAttachments x))"
abbreviation "do_GetVolume C x \<equiv> vapi (\<lambda>h. c_GetVolume C h x) (VSI (VGetVolume x))"
abbreviation "do_CreateVolume C x \<equiv> vapi (\<lambda>h. c_CreateVolume C h x) (VSI (VCreateVolume x))"
abbreviation "do_AttachVolume C x y z u \<equiv> vapi (\<lambda>h. c_AttachVolume C h x y z u) (VSI (VAttachVolume x y z u))"
abbreviation "do_GetBootstrapSecret C x y \<equiv> vapi (\<lambda>h. c_GetBootstrapSecret C h x y) (VK8S (VGetBootstrapSecret x y))"
abbreviation "do_GetAccountID C \<equiv> vapi (\<lambda>h. c_GetAccountID C h) (VRM VGetAccountID)"
abbreviation "do_GetMachineObject C x y \<equiv> vapi (\<lambda>h. c_GetMachineObject C h x y) (VK8S (VGetMachineObject x y))"

text \<open>The calls of a run.\<close>

definition vcalls :: "'w vworld_scheme \<Rightarrow> 'v vworld_scheme \<Rightarrow> vcall list" where
  "vcalls w w' = drop (length (vtrace w)) (vtrace w')"

definition vcalls_in :: "(vcall \<Rightarrow> bool) \<Rightarrow> 'w vworld_scheme \<Rightarrow> 'w vworld_scheme \<Rightarrow> bool" where
  "vcalls_in A w w' \<longleftrightarrow> (\<exists>cs. vtrace w' = vtrace w @ cs \<and> list_all A cs)"

interpretation vcalls: frame "vcalls_in A" for A :: "vcall \<Rightarrow> bool"
proof unfold_locales
  show "vcalls_in A s s" for s :: "'a vworld_scheme"
    by (auto simp: vcalls_in_def)
  show "vcalls_in A s t \<Longrightarrow> vcalls_in A t u \<Longrightarrow> vcalls_in A s u" for s t u :: "'a vworld_scheme"
    by (fastforce simp: vcalls_in_def)
qed

lemma vcalls_in_api: "A c \<Longrightarrow> state_io_rel (vcalls_in A) (vapi f c)"
  by (auto simp: state_io_rel_def vcalls_in_def)

lemma vcalls_in_set: "vcalls_in A w w' \<Longrightarrow> c \<in> set (vcalls w w') \<Longrightarrow> A c"
  by (auto simp: vcalls_in_def vcalls_def list_all_iff)

lemma vcalls_append [simp]: "vtrace w' = vtrace w @ cs \<Longrightarrow> vcalls w w' = cs"
  by (simp add: vcalls_def)

section \<open>Maps\<close>

text \<open>\<open>m[k]\<close> and \<open>m[k] = v\<close> on a Go map.\<close>

fun gomap_put :: "string \<Rightarrow> 'v \<Rightarrow> 'v gomap \<Rightarrow> 'v gomap" where
  "gomap_put k v [] = [(k, v)]"
| "gomap_put k v ((k', v') # m) = (if k' = k then (k, v) # m else (k', v') # gomap_put k v m)"

lemma map_of_gomap_put [simp]: "map_of (gomap_put k v m) = (map_of m)(k \<mapsto> v)"
  by (induction m) auto

lemma gomap_put_keys [simp]: "fst ` set (gomap_put k v m) = insert k (fst ` set m)"
  by (simp add: dom_map_of_conv_image_fst [symmetric])

lemma gomap_put_distinct: "distinct (map fst m) \<Longrightarrow> distinct (map fst (gomap_put k v m))"
proof (induction m)
  case (Cons x m)
  then show ?case by (cases x) (auto simp del: gomap_put_keys simp: gomap_put_keys [unfolded set_map])
qed simp

end
