(* ===== verification/Ibmvpc_Scope.thy ===== *)
theory Ibmvpc_Scope
  imports Ibmvpc_Clients Endpoints
begin

text \<open>
  The scope of a VPC cluster with extended infrastructure support
  (\<^verbatim>\<open>pkg/cloud/scope/vpc/cluster_v2.go\<close>, \<open>ClusterScopeV2\<close>): its accessors and status setters, tagging, the
  resource group, the VPC and the custom image; and the CRN parser of \<^verbatim>\<open>pkg/cloud/scope/vpc/util.go\<close>.
\<close>

section \<open>Error texts\<close>

definition msg_failed_checking_for_tag :: string where "msg_failed_checking_for_tag = ''failed checking for tag''"
definition msg_failure_checking_if_tag_exists :: string where "msg_failure_checking_if_tag_exists = ''failure checking if tag exists''"
definition msg_failure_creating_tag :: string where "msg_failure_creating_tag = ''failure creating tag''"
definition msg_failure_tagging_resource :: string where "msg_failure_tagging_resource = ''failure tagging resource''"
definition msg_failed_to_retrieve_resource_group_by_name :: string where "msg_failed_to_retrieve_resource_group_by_name = ''failed to retrieve resource group by name''"
definition msg_failed_to_find_resource_group_by_name :: string where "msg_failed_to_find_resource_group_by_name = ''failed to find resource group by name''"
definition msg_failed_to_retrieve_newtork_resource_group_by_id :: string where "msg_failed_to_retrieve_newtork_resource_group_by_id = ''failed to retrieve newtork resource group by id''"
definition msg_error_retrieving_network_resource_group_by_id :: string where "msg_error_retrieving_network_resource_group_by_id = ''error retrieving network resource group by id''"
definition msg_failed_to_retrieve_network_resource_group_id_by_name :: string where "msg_failed_to_retrieve_network_resource_group_id_by_name = ''failed to retrieve network resource group id by name''"
definition msg_error_retrieving_network_resource_group_by_name :: string where "msg_error_retrieving_network_resource_group_by_name = ''error retrieving network resource group by name''"
definition msg_failed_subnet_id_lookup_by_name :: string where "msg_failed_subnet_id_lookup_by_name = ''failed subnet id lookup by name''"
definition msg_error_no_control_plane_subnets_available_in_status :: string where "msg_error_no_control_plane_subnets_available_in_status = ''error no control plane subnets available in status''"
definition msg_failed_vpc_id_lookup :: string where "msg_failed_vpc_id_lookup = ''failed vpc id lookup''"
definition msg_failed_retreiving_resource_group_id_during_vpc_creation :: string where "msg_failed_retreiving_resource_group_id_during_vpc_creation = ''failed retreiving resource group id during vpc creation''"
definition msg_resource_group_id_is_empty_cannot_create_vpc :: string where "msg_resource_group_id_is_empty_cannot_create_vpc = ''resource group id is empty cannot create vpc''"
definition msg_error_creating_vpc :: string where "msg_error_creating_vpc = ''error creating vpc''"
definition msg_no_vpc_details_after_creation :: string where "msg_no_vpc_details_after_creation = ''no vpc details after creation''"
definition msg_error_tagging_vpc :: string where "msg_error_tagging_vpc = ''error tagging vpc''"
definition msg_failed_to_retrieve_vpc_id :: string where "msg_failed_to_retrieve_vpc_id = ''failed to retrieve vpc id''"
definition msg_failed_to_retrieve_vpc_by_id :: string where "msg_failed_to_retrieve_vpc_by_id = ''failed to retrieve vpc by id''"
definition msg_failed_to_retrieve_vpc_with_id :: string where "msg_failed_to_retrieve_vpc_with_id = ''failed to retrieve vpc with id''"
definition msg_failed_to_create_vpc :: string where "msg_failed_to_create_vpc = ''failed to create vpc''"
definition msg_malformed_scope_in_crn :: string where "msg_malformed_scope_in_crn = ''malformed scope in CRN''"
definition msg_malformed_crn :: string where "msg_malformed_crn = ''malformed CRN''"
definition msg_error_failed_to_build_cos_object_href_cos_details_missing :: string where "msg_error_failed_to_build_cos_object_href_cos_details_missing = ''error failed to build cos object href, cos details missing''"
definition msg_error_retrieving_resource_group_by_name :: string where "msg_error_retrieving_resource_group_by_name = ''error retrieving resource group by name''"
definition msg_error_retrieving_resource_group_id :: string where "msg_error_retrieving_resource_group_id = ''error retrieving resource group id''"
definition msg_error_failed_to_create_vpc_custom_image_due_to_missing_operatingsystem :: string where "msg_error_failed_to_create_vpc_custom_image_due_to_missing_operatingsystem = ''error failed to create vpc custom image due to missing operatingSystem''"
definition msg_error_building_vpc_custom_image_file_href :: string where "msg_error_building_vpc_custom_image_file_href = ''error building vpc custom image file href''"
definition msg_error_unknown_failure_creating_vpc_custom_image :: string where "msg_error_unknown_failure_creating_vpc_custom_image = ''error unknown failure creating vpc custom image''"
definition msg_error_failure_tagging_vpc_custom_image :: string where "msg_error_failure_tagging_vpc_custom_image = ''error failure tagging vpc custom image''"
definition msg_error_failed_creating_custom_image :: string where "msg_error_failed_creating_custom_image = ''error failed creating custom image''"
definition msg_error_checking_vpc_custom_image_by_name :: string where "msg_error_checking_vpc_custom_image_by_name = ''error checking vpc custom image by name''"
definition msg_error_parsing_vpc_custom_image_crn :: string where "msg_error_parsing_vpc_custom_image_crn = ''error parsing vpc custom image crn''"
definition msg_error_parsing_vpc_custom_image_crn_missing_resource_id :: string where "msg_error_parsing_vpc_custom_image_crn_missing_resource_id = ''error parsing vpc custom image crn, missing resource id''"
definition msg_error_retrieving_vpc_custom_image_by_id :: string where "msg_error_retrieving_vpc_custom_image_by_id = ''error retrieving vpc custom image by id''"
definition msg_error_failed_to_retrieve_vpc_custom_image_with_id :: string where "msg_error_failed_to_retrieve_vpc_custom_image_with_id = ''error failed to retrieve vpc custom image with id''"
definition msg_error_failure_trying_to_create_vpc_custom_image :: string where "msg_error_failure_trying_to_create_vpc_custom_image = ''error failure trying to create vpc custom image''"

section \<open>The scope\<close>

record vscope = vworld +
  v_cluster :: IBMVPCCluster
  v_Name :: string                                   \<comment> \<open>the name of the Cluster API cluster\<close>
  v_APIServerPort :: int                             \<comment> \<open>the port in its \<open>ClusterNetwork\<close>\<close>

type_synonym 'a vproc = "(vscope, 'a) proc"

abbreviation (input) v_spec :: "vscope \<Rightarrow> IBMVPCClusterSpec" where
  "v_spec s \<equiv> VCluster_Spec (v_cluster s)"

abbreviation (input) v_status :: "vscope \<Rightarrow> IBMVPCClusterStatus" where
  "v_status s \<equiv> VCluster_Status (v_cluster s)"

definition v_NetworkSpec :: "vscope \<Rightarrow> VPCNetworkSpec option" where
  "v_NetworkSpec s = VSpec_Network (v_spec s)"

definition v_NetworkStatus :: "vscope \<Rightarrow> VPCNetworkStatus option" where
  "v_NetworkStatus s = VStatus_Network (v_status s)"

definition upd_vcluster :: "(IBMVPCCluster \<Rightarrow> IBMVPCCluster) \<Rightarrow> (vscope, unit) state" where
  "upd_vcluster f = modify (\<lambda>s. s\<lparr>v_cluster := f (v_cluster s)\<rparr>)"

definition upd_vstatus :: "(IBMVPCClusterStatus \<Rightarrow> IBMVPCClusterStatus) \<Rightarrow> (vscope, unit) state" where
  "upd_vstatus f = upd_vcluster (\<lambda>c. c\<lparr>VCluster_Status := f (VCluster_Status c)\<rparr>)"

lemma wp_upd_vcluster [wp_simps]:
  "wp (upd_vcluster g) Q s = Q () (s\<lparr>v_cluster := g (v_cluster s)\<rparr>)"
  "wp (upd_vstatus f) Q s = Q () (s\<lparr>v_cluster := (v_cluster s)\<lparr>VCluster_Status := f (v_status s)\<rparr>\<rparr>)"
  by (simp_all add: upd_vstatus_def upd_vcluster_def wp_modify)

lemma wp_case_sum [wp_simps]:
  "wp (case p of Inl x \<Rightarrow> f x | Inr y \<Rightarrow> g y) Q s = ((\<forall>x. p = Inl x \<longrightarrow> wp (f x) Q s) \<and> (\<forall>y. p = Inr y \<longrightarrow> wp (g y) Q s))"
  by (cases p) simp_all

section \<open>Setting the status\<close>

definition no_network_status :: VPCNetworkStatus where
  "no_network_status = \<lparr>NetworkStatus_ControlPlaneSubnets = None, NetworkStatus_LoadBalancers = None,
     NetworkStatus_PublicGateways = None, NetworkStatus_ResourceGroup = None, NetworkStatus_SecurityGroups = None,
     NetworkStatus_WorkerSubnets = None, NetworkStatus_VPC = None\<rparr>"

text \<open>The network status is allocated if it is nil, then updated.\<close>

definition upd_network :: "(VPCNetworkStatus \<Rightarrow> VPCNetworkStatus) \<Rightarrow> (vscope, unit) state" where
  "upd_network f = upd_vstatus (\<lambda>st. st\<lparr>VStatus_Network :=
     Some (f (case VStatus_Network st of None \<Rightarrow> no_network_status | Some n \<Rightarrow> n))\<rparr>)"

text \<open>A resource that is not there yet is stored, one that is there is \<open>Set\<close>.\<close>

definition put_status :: "ResourceStatus option \<Rightarrow> ResourceStatus \<Rightarrow> ResourceStatus" where
  "put_status old r = (case old of None \<Rightarrow> r | Some x \<Rightarrow> ResourceStatus_Set x r)"

definition put_entry :: "string \<Rightarrow> ResourceStatus \<Rightarrow> ResourceStatus gomap option \<Rightarrow> ResourceStatus gomap option" where
  "put_entry name r m = (let m' = (case m of None \<Rightarrow> [] | Some x \<Rightarrow> x) in Some (gomap_put name (put_status (map_of m' name) r) m'))"

text \<open>
  \<open>SetResourceStatus\<close>: the maps are keyed by the name of the resource, which is dereferenced after the map
  has been allocated.
\<close>

definition make_map :: "'v gomap option \<Rightarrow> 'v gomap option" where
  "make_map m = (case m of None \<Rightarrow> Some [] | Some x \<Rightarrow> Some x)"

definition SetResourceStatus :: "VPCResourceType \<Rightarrow> ResourceStatus option \<Rightarrow> unit vproc" where
  "SetResourceStatus ty resource = (case resource of
      None \<Rightarrow> ok ()
    | Some r \<Rightarrow>
       (case ty of
          ResourceTypeResourceGroup \<Rightarrow> do {
            upd_vstatus (\<lambda>st. st\<lparr>VStatus_ResourceGroup := Some (put_status (VStatus_ResourceGroup st) r)\<rparr>);
            ok () }
        | ResourceTypeVPC \<Rightarrow> do {
            upd_network (\<lambda>n. n\<lparr>NetworkStatus_VPC := Some (put_status (NetworkStatus_VPC n) r)\<rparr>);
            ok () }
        | ResourceTypeCustomImage \<Rightarrow> do {
            upd_vstatus (\<lambda>st. st\<lparr>VStatus_Image := Some (put_status (VStatus_Image st) r)\<rparr>);
            ok () }
        | ResourceTypeControlPlaneSubnet \<Rightarrow> do {
            upd_network (\<lambda>n. n\<lparr>NetworkStatus_ControlPlaneSubnets := make_map (NetworkStatus_ControlPlaneSubnets n)\<rparr>);
            deref (ResourceStatus_Name r) (\<lambda>name. do {
              upd_network (\<lambda>n. n\<lparr>NetworkStatus_ControlPlaneSubnets := put_entry name r (NetworkStatus_ControlPlaneSubnets n)\<rparr>);
              ok () }) }
        | ResourceTypeWorkerSubnet \<Rightarrow> do {
            upd_network (\<lambda>n. n\<lparr>NetworkStatus_WorkerSubnets := make_map (NetworkStatus_WorkerSubnets n)\<rparr>);
            deref (ResourceStatus_Name r) (\<lambda>name. do {
              upd_network (\<lambda>n. n\<lparr>NetworkStatus_WorkerSubnets := put_entry name r (NetworkStatus_WorkerSubnets n)\<rparr>);
              ok () }) }
        | ResourceTypeSecurityGroup \<Rightarrow> do {
            upd_network (\<lambda>n. n\<lparr>NetworkStatus_SecurityGroups := make_map (NetworkStatus_SecurityGroups n)\<rparr>);
            deref (ResourceStatus_Name r) (\<lambda>name. do {
              upd_network (\<lambda>n. n\<lparr>NetworkStatus_SecurityGroups := put_entry name r (NetworkStatus_SecurityGroups n)\<rparr>);
              ok () }) }
        | _ \<Rightarrow> ok ()))"

text \<open>\<open>setLoadBalancerStatus\<close>: an entry that is there keeps its ID and whether the controller created it.\<close>

definition put_balancer :: "VPCLoadBalancerStatus \<Rightarrow> string \<Rightarrow> VPCLoadBalancerStatus gomap \<Rightarrow> VPCLoadBalancerStatus gomap" where
  "put_balancer lb i m = gomap_put i (case map_of m i of
      None \<Rightarrow> lb
    | Some old \<Rightarrow> old\<lparr>VPCLoadBalancerStatus_State := VPCLoadBalancerStatus_State lb,
                     VPCLoadBalancerStatus_Hostname := VPCLoadBalancerStatus_Hostname lb\<rparr>) m"

definition setLoadBalancerStatus :: "VPCLoadBalancerStatus \<Rightarrow> unit vproc" where
  "setLoadBalancerStatus lb = do {
     upd_network (\<lambda>n. n\<lparr>NetworkStatus_LoadBalancers := make_map (NetworkStatus_LoadBalancers n)\<rparr>);
     deref (VPCLoadBalancerStatus_ID lb) (\<lambda>i. do {
       upd_network (\<lambda>n. n\<lparr>NetworkStatus_LoadBalancers := map_option (put_balancer lb i) (NetworkStatus_LoadBalancers n)\<rparr>);
       ok () }) }"

section \<open>Names\<close>

definition v_privateLBSuffix :: string where "v_privateLBSuffix = ''private''"
definition v_publicLBSuffix :: string where "v_publicLBSuffix = ''public''"

text \<open>\<open>GetServiceName\<close>; the name of the VPC is asked of the network spec, which must not be nil.\<close>

definition GetServiceName :: "VPCResourceType \<Rightarrow> string option vproc" where
  "GetServiceName ty = do {
     s \<leftarrow> State_Monad.get;
     case ty of
       ResourceTypeVPC \<Rightarrow> deref (v_NetworkSpec s) (\<lambda>n. case NetworkSpec_VPC n of
           None \<Rightarrow> ok (Some (v_Name s @ ''-vpc''))
         | Some v \<Rightarrow>
             if VPCResource_Name v = None \<and> VPCResource_ID v = None then ok (Some (v_Name s @ ''-vpc''))
             else ok (VPCResource_Name v))
     | ResourceTypeSubnet \<Rightarrow> ok (Some (VCluster_Name (v_cluster s) @ ''-subnet''))
     | ResourceTypePublicGateway \<Rightarrow> ok (Some (VCluster_Name (v_cluster s) @ ''-pgateway''))
     | ResourceTypeLoadBalancer \<Rightarrow> ok (Some (VCluster_Name (v_cluster s) @ ''-lb''))
     | ResourceTypeLoadBalancerPool \<Rightarrow> ok (Some (VCluster_Name (v_cluster s) @ ''-lbpool''))
     | _ \<Rightarrow> ok None }"

definition GetAPIServerPort :: int where "GetAPIServerPort = vpc_DefaultAPIServerPort"

section \<open>Tags\<close>

definition v_CheckTagExists :: "vpc_clients \<Rightarrow> string \<Rightarrow> ('w vworld_scheme, bool) proc" where
  "v_CheckTagExists C tagName = do {
     r \<leftarrow> do_GetTagByName C tagName;
     case r of Fail e _ \<Rightarrow> fail (Wrapf msg_failed_checking_for_tag e) | Reply x \<Rightarrow> ok (x \<noteq> None) }"

definition v_TagResource :: "vpc_clients \<Rightarrow> string \<Rightarrow> string \<Rightarrow> ('w vworld_scheme, unit) proc" where
  "v_TagResource C tagName resourceCRN =
     bindW msg_failure_checking_if_tag_exists (v_CheckTagExists C tagName) (\<lambda>exists.
     bindE (if exists then ok () else do {
              r \<leftarrow> do_CreateTag C tagName;
              case r of Fail e _ \<Rightarrow> fail (Wrapf msg_failure_creating_tag e) | Reply _ \<Rightarrow> ok () }) (\<lambda>_. do {
       r \<leftarrow> do_AttachTag C tagName resourceCRN;
       case r of Fail e _ \<Rightarrow> fail (Wrapf msg_failure_tagging_resource e) | Reply _ \<Rightarrow> ok () }))"

section \<open>Resource groups\<close>

definition ready_status :: "string \<Rightarrow> string option \<Rightarrow> bool \<Rightarrow> ResourceStatus" where
  "ready_status i n b = \<lparr>ResourceStatus_ID = i, ResourceStatus_Name = n, ResourceStatus_Ready = b\<rparr>"

definition v_GetResourceGroupID :: "vpc_clients \<Rightarrow> string vproc" where
  "v_GetResourceGroupID C = do {
     s \<leftarrow> State_Monad.get;
     let known = (case VStatus_ResourceGroup (v_status s) of None \<Rightarrow> [] | Some r \<Rightarrow> ResourceStatus_ID r);
     if known \<noteq> [] then ok known
     else do {
       let name = (if VSpec_ResourceGroup (v_spec s) = [] then v_Name s else VSpec_ResourceGroup (v_spec s));
       r \<leftarrow> do_GetResourceGroupByName C name;
       case r of
         Fail e _ \<Rightarrow> fail (Wrapf msg_failed_to_retrieve_resource_group_by_name e)
       | Reply x \<Rightarrow> (case Option.bind x rg_ID of
           None \<Rightarrow> fail (Errorf msg_failed_to_find_resource_group_by_name)
         | Some i \<Rightarrow> bindE (SetResourceStatus ResourceTypeResourceGroup (Some (ready_status i (Some name) True))) (\<lambda>_. ok i)) } }"

text \<open>The resource group of the network, by the ID or the name in the network spec.\<close>

definition network_group :: "vpc_clients \<Rightarrow> IBMCloudResourceReference \<Rightarrow> (string \<times> string option) vproc" where
  "network_group C g =
     (if CloudReference_ID g \<noteq> [] then do {
        r \<leftarrow> do_GetResourceGroup C (CloudReference_ID g);
        case r of
          Fail e _ \<Rightarrow> fail (Wrapf msg_failed_to_retrieve_newtork_resource_group_by_id e)
        | Reply x \<Rightarrow> (case Option.bind x rg_Name of
            None \<Rightarrow> fail (Errorf msg_error_retrieving_network_resource_group_by_id)
          | Some n \<Rightarrow> ok (CloudReference_ID g, Some n)) }
      else deref (CloudReference_Name g) (\<lambda>n. do {
        r \<leftarrow> do_GetResourceGroupByName C n;
        case r of
          Fail e _ \<Rightarrow> fail (Wrapf msg_failed_to_retrieve_network_resource_group_id_by_name e)
        | Reply x \<Rightarrow> (case Option.bind x rg_ID of
            None \<Rightarrow> fail (Errorf msg_error_retrieving_network_resource_group_by_name)
          | Some i \<Rightarrow> ok (i, CloudReference_Name g)) }))"

definition GetNetworkResourceGroupID :: "vpc_clients \<Rightarrow> string vproc" where
  "GetNetworkResourceGroupID C = do {
     s \<leftarrow> State_Monad.get;
     let known = (case Option.bind (v_NetworkStatus s) NetworkStatus_ResourceGroup of None \<Rightarrow> [] | Some r \<Rightarrow> ResourceStatus_ID r);
     if known \<noteq> [] then ok known
     else (case Option.bind (v_NetworkSpec s) NetworkSpec_ResourceGroup of
         None \<Rightarrow> v_GetResourceGroupID C
       | Some g \<Rightarrow>
           if CloudReference_ID g = [] \<and> CloudReference_Name g = None then v_GetResourceGroupID C
           else bindE (network_group C g) (\<lambda>(i, n).
             bindE (SetResourceStatus ResourceTypeResourceGroup (Some (ready_status i n True))) (\<lambda>_. ok i))) }"

section \<open>Lookups in the status\<close>

definition status_map :: "(VPCNetworkStatus \<Rightarrow> 'v gomap option) \<Rightarrow> vscope \<Rightarrow> string \<Rightarrow> 'v option" where
  "status_map f s k = (case Option.bind (v_NetworkStatus s) f of None \<Rightarrow> None | Some m \<Rightarrow> map_of m k)"

definition getSecurityGroupIDFromStatus :: "vscope \<Rightarrow> string \<Rightarrow> string option" where
  "getSecurityGroupIDFromStatus s name = map_option ResourceStatus_ID (status_map NetworkStatus_SecurityGroups s name)"

definition GetSecurityGroupID :: "vpc_clients \<Rightarrow> string \<Rightarrow> string option vproc" where
  "GetSecurityGroupID C name = do {
     s \<leftarrow> State_Monad.get;
     case getSecurityGroupIDFromStatus s name of
       Some i \<Rightarrow> ok (Some i)
     | None \<Rightarrow> do {
         r \<leftarrow> do_GetSecurityGroupByName C name;
         case r of Fail e _ \<Rightarrow> fail e | Reply x \<Rightarrow> ok (Option.bind x sg_ID) } }"

definition GetSubnetID :: "vpc_clients \<Rightarrow> string \<Rightarrow> string option vproc" where
  "GetSubnetID C name = do {
     s \<leftarrow> State_Monad.get;
     case status_map NetworkStatus_ControlPlaneSubnets s name of
       Some r \<Rightarrow> ok (Some (ResourceStatus_ID r))
     | None \<Rightarrow> (case status_map NetworkStatus_WorkerSubnets s name of
         Some r \<Rightarrow> ok (Some (ResourceStatus_ID r))
       | None \<Rightarrow> do {
           r \<leftarrow> do_GetSubnetByName C name;
           case r of Fail e _ \<Rightarrow> fail (Wrapf msg_failed_subnet_id_lookup_by_name e) | Reply x \<Rightarrow> ok (Option.bind x subnet_ID) }) }"

text \<open>The IDs come in the order in which Go ranges over the map.\<close>

definition GetControlPlaneSubnetIDs :: "vpc_clients \<Rightarrow> string list vproc" where
  "GetControlPlaneSubnetIDs C = do {
     s \<leftarrow> State_Monad.get;
     case Option.bind (v_NetworkStatus s) NetworkStatus_ControlPlaneSubnets of
       None \<Rightarrow> fail (Errorf msg_error_no_control_plane_subnets_available_in_status)
     | Some m \<Rightarrow> ok (map (\<lambda>(_, r). ResourceStatus_ID r) (range_order C (vtrace s) m)) }"

definition v_GetVPCID :: "vpc_clients \<Rightarrow> string option vproc" where
  "v_GetVPCID C = do {
     s \<leftarrow> State_Monad.get;
     case Option.bind (v_NetworkStatus s) NetworkStatus_VPC of
       Some r \<Rightarrow> ok (Some (ResourceStatus_ID r))
     | None \<Rightarrow> (case Option.bind (v_NetworkSpec s) NetworkSpec_VPC of
         None \<Rightarrow> ok None
       | Some v \<Rightarrow> (case VPCResource_ID v of
           Some i \<Rightarrow> ok (Some i)
         | None \<Rightarrow> (case VPCResource_Name v of
             None \<Rightarrow> ok None
           | Some n \<Rightarrow> do {
               r \<leftarrow> do_GetVPCByName C n;
               case r of
                 Fail e _ \<Rightarrow> fail (Wrapf msg_failed_vpc_id_lookup e)
               | Reply x \<Rightarrow> (case Option.bind x vpc_ID of
                   None \<Rightarrow> ok None
                 | Some i \<Rightarrow> bindE (SetResourceStatus ResourceTypeVPC (Some (ready_status i (Some n) True))) (\<lambda>_. ok (Some i))) }))) }"

section \<open>The VPC\<close>

definition VPCStatusAvailable :: string where "VPCStatusAvailable = ''available''"

definition v_vpc_request :: "string option \<Rightarrow> string \<Rightarrow> VCreateVPC" where
  "v_vpc_request n g = \<lparr>vcv_ResourceGroup = g, vcv_Name = n, vcv_AddressPrefixManagement = Some ''auto''\<rparr>"

definition v_createVPC :: "vpc_clients \<Rightarrow> unit vproc" where
  "v_createVPC C =
     bindW msg_failed_retreiving_resource_group_id_during_vpc_creation (v_GetResourceGroupID C) (\<lambda>g.
       if g = [] then fail (Errorf msg_resource_group_id_is_empty_cannot_create_vpc)
       else bindE (GetServiceName ResourceTypeVPC) (\<lambda>serviceName. do {
         s \<leftarrow> State_Monad.get;
         let specName = Option.bind (Option.bind (v_NetworkSpec s) NetworkSpec_VPC) VPCResource_Name;
         let req = v_vpc_request (if specName \<noteq> None then specName else serviceName) g;
         r \<leftarrow> do_CreateVPC C req;
         case r of
           Fail e _ \<Rightarrow> fail (Wrapf msg_error_creating_vpc e)
         | Reply None \<Rightarrow> fail (Errorf msg_no_vpc_details_after_creation)
         | Reply (Some v) \<Rightarrow> deref (vpc_ID v) (\<lambda>i.
             bindE (SetResourceStatus ResourceTypeVPC (Some (ready_status i (vpc_Name v) False))) (\<lambda>_.
             deref (vpc_CRN v) (\<lambda>crn. do {
               s' \<leftarrow> State_Monad.get;
               bindW msg_error_tagging_vpc (v_TagResource C (v_Name s') crn) (\<lambda>_. ok ()) }))) }))"

definition v_ReconcileVPC :: "vpc_clients \<Rightarrow> bool vproc" where
  "v_ReconcileVPC C =
     bindW msg_failed_to_retrieve_vpc_id (v_GetVPCID C) (\<lambda>vpcID. case vpcID of
       Some i \<Rightarrow> do {
         r \<leftarrow> do_GetVPC C (Some i);
         case r of
           Fail e _ \<Rightarrow> fail (Wrapf msg_failed_to_retrieve_vpc_by_id e)
         | Reply None \<Rightarrow> fail (Errorf msg_failed_to_retrieve_vpc_with_id)
         | Reply (Some v) \<Rightarrow>
             (let requeue = (vpc_Status v \<noteq> Some VPCStatusAvailable)
              in bindE (SetResourceStatus ResourceTypeVPC (Some (ready_status i (vpc_Name v) (\<not> requeue)))) (\<lambda>_. ok requeue)) }
     | None \<Rightarrow> bindW msg_failed_to_create_vpc (v_createVPC C) (\<lambda>_. ok True))"

section \<open>CRNs\<close>

record CRN =
  CRN_Scheme :: string
  CRN_Version :: string
  CRN_CName :: string
  CRN_CType :: string
  CRN_ServiceName :: string
  CRN_Region :: string
  CRN_ScopeType :: string
  CRN_Scope :: string
  CRN_ServiceInstance :: string
  CRN_ResourceType :: string
  CRN_Resource :: string

text \<open>\<open>parseCRN\<close>: \<open>None\<close> for the empty string.\<close>

definition parse_scope :: "string \<Rightarrow> (string \<times> string) outcome" where
  "parse_scope sc =
     (if sc = [] then Ok ([], [])
      else if sc = ''global'' then Ok ([], sc)
      else (case split_on CHR ''/'' sc of [a, b] \<Rightarrow> Ok (a, b) | _ \<Rightarrow> Err (Errorf msg_malformed_scope_in_crn)))"

definition parseCRN :: "string \<Rightarrow> CRN option outcome" where
  "parseCRN s =
     (if s = [] then Ok None
      else (case split_on CHR '':'' s of
          [s0, s1, s2, s3, s4, s5, s6, s7, s8, s9] \<Rightarrow>
            if s0 \<noteq> ''crn'' then Err (Errorf msg_malformed_crn)
            else (case parse_scope s6 of
                Ok (scopeType, scope) \<Rightarrow> Ok (Some \<lparr>CRN_Scheme = s0, CRN_Version = s1, CRN_CName = s2, CRN_CType = s3,
                  CRN_ServiceName = s4, CRN_Region = s5, CRN_ScopeType = scopeType, CRN_Scope = scope,
                  CRN_ServiceInstance = s7, CRN_ResourceType = s8, CRN_Resource = s9\<rparr>)
              | Err e \<Rightarrow> Err e
              | Panic \<Rightarrow> Panic)
        | _ \<Rightarrow> Err (Errorf msg_malformed_crn)))"

section \<open>The custom image\<close>

definition ImageStatusAvailable :: string where "ImageStatusAvailable = ''available''"

definition buildCOSObjectHRef :: "vscope \<Rightarrow> ImageSpec \<Rightarrow> string option outcome" where
  "buildCOSObjectHRef s img = (case (ImageSpec_COSInstance img, ImageSpec_COSBucket img, ImageSpec_COSObject img) of
      (Some _, Some bucket, Some obj) \<Rightarrow>
        Ok (Some (''cos://'' @ ptr_Deref (ImageSpec_COSBucketRegion img) (VSpec_Region (v_spec s)) @ ''/'' @ bucket @ ''/'' @ obj))
    | _ \<Rightarrow> Err (Errorf msg_error_failed_to_build_cos_object_href_cos_details_missing))"

text \<open>The resource group of the image: its own, by ID or by name, or the one of the cluster.\<close>

definition image_group :: "vpc_clients \<Rightarrow> ImageSpec \<Rightarrow> string option vproc" where
  "image_group C img = (case ImageSpec_ResourceGroup img of
      Some g \<Rightarrow>
        if CloudReference_ID g \<noteq> [] then ok (Some (CloudReference_ID g))
        else (case CloudReference_Name g of
            None \<Rightarrow> ok None
          | Some n \<Rightarrow> do {
              r \<leftarrow> do_GetResourceGroupByName C n;
              case r of
                Fail e _ \<Rightarrow> fail (Wrapf msg_error_retrieving_resource_group_by_name e)
              | Reply x \<Rightarrow> deref x (\<lambda>rg. ok (rg_ID rg)) })
    | None \<Rightarrow> bindW msg_error_retrieving_resource_group_id (v_GetResourceGroupID C) (\<lambda>i. ok (Some i)))"

definition createCustomImage :: "vpc_clients \<Rightarrow> unit vproc" where
  "createCustomImage C = do {
     s \<leftarrow> State_Monad.get;
     deref (VSpec_Image (v_spec s)) (\<lambda>img.
       if ImageSpec_OperatingSystem img = None then fail (Errorf msg_error_failed_to_create_vpc_custom_image_due_to_missing_operatingsystem)
       else bindE (image_group C img) (\<lambda>g.
         bindW msg_error_building_vpc_custom_image_file_href (State_Monad.return (buildCOSObjectHRef s img)) (\<lambda>href. do {
           let req = \<lparr>vci_Name = ImageSpec_Name img, vci_Href = href, vci_OperatingSystem = ImageSpec_OperatingSystem img, vci_ResourceGroup = g\<rparr>;
           r \<leftarrow> do_CreateImage C req;
           case r of
             Fail e _ \<Rightarrow> fail (Wrapf msg_error_unknown_failure_creating_vpc_custom_image e)
           | Reply x \<Rightarrow> (case (Option.bind x cimage_ID, Option.bind x cimage_Name, Option.bind x cimage_CRN) of
               (Some i, Some n, Some crn) \<Rightarrow>
                 bindE (SetResourceStatus ResourceTypeCustomImage (Some (ready_status i (Some n) False))) (\<lambda>_. do {
                   s' \<leftarrow> State_Monad.get;
                   bindW msg_error_failure_tagging_vpc_custom_image (v_TagResource C (v_Name s') crn) (\<lambda>_. ok ()) })
             | _ \<Rightarrow> fail (Errorf msg_error_failed_creating_custom_image)) }))) }"

text \<open>An image that was found goes into the status; what is returned is whether to requeue.\<close>

definition track_image :: "string \<Rightarrow> string option \<Rightarrow> string option \<Rightarrow> bool vproc" where
  "track_image i n st =
     (let requeue = (st \<noteq> Some ImageStatusAvailable)
      in bindE (SetResourceStatus ResourceTypeCustomImage (Some (ready_status i n (\<not> requeue)))) (\<lambda>_. ok requeue))"

text \<open>
  What is known of the image before it is looked at by ID: \<open>Inl\<close> ends the reconcile, \<open>Inr\<close> is the image ID,
  if there is one.
\<close>

definition image_known :: "vpc_clients \<Rightarrow> (bool + string option) vproc" where
  "image_known C = do {
     s \<leftarrow> State_Monad.get;
     case VStatus_Image (v_status s) of
       Some st \<Rightarrow> ok (Inr (if ResourceStatus_ID st \<noteq> [] then Some (ResourceStatus_ID st) else None))
     | None \<Rightarrow> (case VSpec_Image (v_spec s) of
         None \<Rightarrow> ok (Inl False)
       | Some img \<Rightarrow> (case ImageSpec_Name img of
           Some n \<Rightarrow> do {
             r \<leftarrow> do_GetImageByName C n;
             case r of
               Fail e _ \<Rightarrow> fail (Wrapf msg_error_checking_vpc_custom_image_by_name e)
             | Reply x \<Rightarrow> (case Option.bind x cimage_ID of
                 None \<Rightarrow> ok (Inr None)
               | Some i \<Rightarrow> bindE (track_image i (ImageSpec_Name img) (Option.bind x cimage_Status)) (\<lambda>b. ok (Inl b))) }
         | None \<Rightarrow> (case ImageSpec_CRN img of
             None \<Rightarrow> ok (Inr None)
           | Some crn \<Rightarrow>
               bindW msg_error_parsing_vpc_custom_image_crn (State_Monad.return (parseCRN crn)) (\<lambda>parsed. case parsed of
                   None \<Rightarrow> fail (Errorf msg_error_parsing_vpc_custom_image_crn_missing_resource_id)
                 | Some p \<Rightarrow>
                     if CRN_Resource p = [] then fail (Errorf msg_error_parsing_vpc_custom_image_crn_missing_resource_id)
                     else ok (Inr (Some (CRN_Resource p))))))) }"

definition ReconcileVPCCustomImage :: "vpc_clients \<Rightarrow> bool vproc" where
  "ReconcileVPCCustomImage C =
     bindE (image_known C) (\<lambda>known. case known of
       Inl b \<Rightarrow> ok b
     | Inr (Some i) \<Rightarrow> do {
         r \<leftarrow> do_GetImage C i;
         case r of
           Fail e _ \<Rightarrow> fail (Wrapf msg_error_retrieving_vpc_custom_image_by_id e)
         | Reply None \<Rightarrow> fail (Errorf msg_error_failed_to_retrieve_vpc_custom_image_with_id)
         | Reply (Some x) \<Rightarrow> track_image i (cimage_Name x) (cimage_Status x) }
     | Inr None \<Rightarrow> bindW msg_error_failure_trying_to_create_vpc_custom_image (createCustomImage C) (\<lambda>_. ok True))"

end
