(* ===== verification/Ibmvpc_Rules.thy ===== *)
theory Ibmvpc_Rules
  imports Ibmvpc_Scope Resource_Name
begin

text \<open>
  The security groups of a VPC cluster and their rules (\<open>ReconcileSecurityGroups\<close> and what it calls,
  \<^verbatim>\<open>pkg/cloud/scope/vpc/cluster_v2.go\<close> and \<^verbatim>\<open>util.go\<close>): groups are found or created first, then every remote of
  every rule is matched against the rules that exist, and created if none matches.
\<close>

section \<open>Error texts\<close>

definition msg_error_retrieving_vpc_id_for_security_group_creation :: string where "msg_error_retrieving_vpc_id_for_security_group_creation = ''error retrieving vpc id for security group creation''"
definition msg_error_retrieving_resource_id_for_security_group_creation :: string where "msg_error_retrieving_resource_id_for_security_group_creation = ''error retrieving resource id for security group creation''"
definition msg_error_failed_to_create_security_group :: string where "msg_error_failed_to_create_security_group = ''error failed to create security group''"
definition msg_error_failed_creating_security_group :: string where "msg_error_failed_creating_security_group = ''error failed creating security group''"
definition msg_error_failed_to_tag_security_group :: string where "msg_error_failed_to_tag_security_group = ''error failed to tag security group''"
definition msg_error_securitygroup_has_no_name_or_id :: string where "msg_error_securitygroup_has_no_name_or_id = ''error securityGroup has no name or id''"
definition msg_error_failed_lookup_of_security_group_by_name :: string where "msg_error_failed_lookup_of_security_group_by_name = ''error failed lookup of security group by name''"
definition msg_error_failed_lookup_of_security_group :: string where "msg_error_failed_lookup_of_security_group = ''error failed lookup of security group''"
definition msg_error_could_not_find_security_group_with_id :: string where "msg_error_could_not_find_security_group_with_id = ''error could not find security group with id''"
definition msg_error_failed_lookup_of_subnet_during_security_group_rule_remote_creation :: string where "msg_error_failed_lookup_of_subnet_during_security_group_rule_remote_creation = ''error failed lookup of subnet during security group rule remote creation''"
definition msg_error_failed_lookup_of_security_group_during_security_group_rule_remote_creation :: string where "msg_error_failed_lookup_of_security_group_during_security_group_rule_remote_creation = ''error failed lookup of security group during security group rule remote creation''"
definition msg_error_failed_creating_security_group_rule_remote :: string where "msg_error_failed_creating_security_group_rule_remote = ''error failed creating security group rule remote''"
definition msg_error_failed_to_create_security_group_rule_remote :: string where "msg_error_failed_to_create_security_group_rule_remote = ''error failed to create security group rule remote''"
definition msg_error_failed_creating_security_group_rule_unknown_protocol :: string where "msg_error_failed_creating_security_group_rule_unknown_protocol = ''error failed creating security group rule, unknown protocol''"
definition msg_error_unexpected_failure_creating_security_group_rule :: string where "msg_error_unexpected_failure_creating_security_group_rule = ''error unexpected failure creating security group rule''"
definition msg_error_failed_creating_security_group_rule :: string where "msg_error_failed_creating_security_group_rule = ''error failed creating security group rule''"
definition msg_error_failed_getting_subnet_by_name_for_security_group_rule :: string where "msg_error_failed_getting_subnet_by_name_for_security_group_rule = ''error failed getting subnet by name for security group rule''"
definition msg_error_failed_getting_security_group_by_name_for_security_group_rule :: string where "msg_error_failed_getting_security_group_by_name_for_security_group_rule = ''error failed getting security group by name for security group rule''"
definition msg_error_failed_checking_security_group_rule_icmp_remote :: string where "msg_error_failed_checking_security_group_rule_icmp_remote = ''error failed checking security group rule icmp remote''"
definition msg_error_failed_checking_security_group_rule_tcp_udp_remote :: string where "msg_error_failed_checking_security_group_rule_tcp_udp_remote = ''error failed checking security group rule tcp-udp remote''"
definition msg_error_failed_checking_security_group_rule_individual_remote :: string where "msg_error_failed_checking_security_group_rule_individual_remote = ''error failed checking security group rule individual remote''"
definition msg_error_failure_checking_security_group_rule_protocol_any :: string where "msg_error_failure_checking_security_group_rule_protocol_any = ''error failure checking security group rule protocol any''"
definition msg_error_failed_checking_security_group_rule_any_remote :: string where "msg_error_failed_checking_security_group_rule_any_remote = ''error failed checking security group rule any remote''"
definition msg_error_failure_checking_security_group_rule_protocol_icmp_tcp_udp :: string where "msg_error_failure_checking_security_group_rule_protocol_icmp_tcp_udp = ''error failure checking security group rule protocol icmp_tcp_udp''"
definition msg_error_failed_checking_security_group_rule_icmp_tcp_udp_remote :: string where "msg_error_failed_checking_security_group_rule_icmp_tcp_udp_remote = ''error failed checking security group rule icmp-tcp-udp remote''"
definition msg_error_failure_checking_security_group_rule_protocol_icmp :: string where "msg_error_failure_checking_security_group_rule_protocol_icmp = ''error failure checking security group rule protocol icmp''"
definition msg_error_failure_checking_security_group_rule_protocol_tcp_udp :: string where "msg_error_failure_checking_security_group_rule_protocol_tcp_udp = ''error failure checking security group rule protocol tcp-udp''"
definition msg_error_failure_checking_security_group_rule_protocol :: string where "msg_error_failure_checking_security_group_rule_protocol = ''error failure checking security group rule protocol''"
definition msg_error_failure_creating_security_group_rule :: string where "msg_error_failure_creating_security_group_rule = ''error failure creating security group rule''"
definition msg_error_unsupported_securitygroupruledirection_defined :: string where "msg_error_unsupported_securitygroupruledirection_defined = ''error unsupported SecurityGroupRuleDirection defined''"
definition msg_error_failed_listing_security_group_rules_during_reconcile_of_security_group :: string where "msg_error_failed_listing_security_group_rules_during_reconcile_of_security_group = ''error failed listing security group rules during reconcile of security group''"
definition msg_error_failed_creating_all_security_group_rule_remotes :: string where "msg_error_failed_creating_all_security_group_rule_remotes = ''error failed creating all security group rule remotes''"
definition msg_error_failed_to_find_or_create_security_group_rule :: string where "msg_error_failed_to_find_or_create_security_group_rule = ''error failed to find or create security group rule''"
definition msg_error_failed_to_reconcile_security_group_rule :: string where "msg_error_failed_to_reconcile_security_group_rule = ''error failed to reconcile security group rule''"
definition msg_error_failed_reonciling_security_groups :: string where "msg_error_failed_reonciling_security_groups = ''error failed reonciling security groups''"
definition msg_error_failed_reconciling_security_group_rules :: string where "msg_error_failed_reconciling_security_group_rules = ''error failed reconciling security group rules''"

section \<open>Protocols by name or number\<close>

text \<open>\<open>individualSgrRegex\<close>: its names, and the alternatives after \<open>number_\<close> as sequences of character classes.\<close>

definition digit_range :: "nat \<Rightarrow> nat \<Rightarrow> string" where
  "digit_range a b = map (\<lambda>d. char_of (48 + d)) [a..<Suc b]"

definition digit_class :: "nat \<Rightarrow> string" where "digit_class d = digit_range d d"

definition individual_names :: "string list" where
  "individual_names = [''ah'', ''esp'', ''gre'', ''ip_in_ip'', ''l2tp'', ''rsvp'', ''sctp'', ''vrrp'']"

definition number_alternatives :: "string list list" where
  "number_alternatives =
     [[digit_class 0], [digit_class 2], [digit_class 3], [digit_class 5], [digit_range 7 9],
      [digit_class 1, digit_range 0 6], [digit_class 1, digit_range 8 9], [digit_range 2 3, digit_range 0 9],
      [digit_class 4, digit_range 0 5], [digit_class 4, digit_range 8 9], [digit_class 5, digit_range 2 9],
      [digit_range 6 9, digit_range 0 9], [digit_class 1, digit_class 0, digit_range 0 9],
      [digit_class 1, digit_class 1, digit_range 0 1], [digit_class 1, digit_class 1, digit_range 3 4],
      [digit_class 1, digit_class 1, digit_range 6 9], [digit_class 1, digit_class 2, digit_range 0 9],
      [digit_class 1, digit_class 3, digit_range 0 1], [digit_class 1, digit_class 3, digit_range 3 9],
      [digit_class 1, digit_range 4 9, digit_range 0 9], [digit_class 2, digit_range 0 4, digit_range 0 9],
      [digit_class 2, digit_class 5, digit_range 0 5]]"

text \<open>A sequence of classes matches a string of its length; the whole string has to match.\<close>

fun classes_match :: "string list \<Rightarrow> string \<Rightarrow> bool" where
  "classes_match [] s = (s = [])"
| "classes_match (k # ks) [] = False"
| "classes_match (k # ks) (c # s) = (c \<in> set k \<and> classes_match ks s)"

definition individualSgr_match :: "string \<Rightarrow> bool" where
  "individualSgr_match s \<longleftrightarrow> s \<in> set individual_names \<or>
     (take 7 s = ''number_'' \<and> list_ex (\<lambda>a. classes_match a (drop 7 s)) number_alternatives)"

section \<open>Normal form\<close>

text \<open>The deprecated protocol \<open>all\<close> stands for \<open>icmp_tcp_udp\<close>.\<close>

definition v_normalizedPrototype :: "RulePrototype option \<Rightarrow> RulePrototype option" where
  "v_normalizedPrototype p = (case p of
      None \<Rightarrow> None
    | Some x \<Rightarrow> if RulePrototype_Protocol x \<noteq> RuleProtocolAll then Some x
               else Some (x\<lparr>RulePrototype_Protocol := RuleProtocolIcmpTCPUDP\<rparr>))"

section \<open>Groups\<close>

definition track_group :: "string \<Rightarrow> string option \<Rightarrow> unit vproc" where
  "track_group i n = SetResourceStatus ResourceTypeSecurityGroup (Some (ready_status i n True))"

definition v_createSecurityGroup :: "vpc_clients \<Rightarrow> VPCSecurityGroupSpec \<Rightarrow> unit vproc" where
  "v_createSecurityGroup C sg =
     bindW msg_error_retrieving_vpc_id_for_security_group_creation (v_GetVPCID C) (\<lambda>vpcID.
     bindW msg_error_retrieving_resource_id_for_security_group_creation (v_GetResourceGroupID C) (\<lambda>g. do {
       let req = \<lparr>vcsg_Name = SecurityGroupSpec_Name sg, vcsg_VPC = vpcID, vcsg_ResourceGroup = g\<rparr>;
       r \<leftarrow> do_CreateSecurityGroup C req;
       case r of
         Fail e _ \<Rightarrow> fail (Wrapf msg_error_failed_to_create_security_group e)
       | Reply None \<Rightarrow> fail (Errorf msg_error_failed_creating_security_group)
       | Reply (Some d) \<Rightarrow> deref (sg_ID d) (\<lambda>i. bindE (track_group i (sg_Name d)) (\<lambda>_. deref (sg_CRN d) (\<lambda>crn. do {
           s \<leftarrow> State_Monad.get;
           bindW msg_error_failed_to_tag_security_group (v_TagResource C (VCluster_Name (v_cluster s)) crn) (\<lambda>_. ok ()) }))) }))"

text \<open>
  What is known of the group: \<open>Inl\<close> when it was found by name and is in the status now, otherwise the ID to
  look it up by, if there is one. That no group has the name is the one error that is not passed on.
\<close>

definition group_known :: "vpc_clients \<Rightarrow> VPCSecurityGroupSpec \<Rightarrow> (unit + string option) vproc" where
  "group_known C sg = (case SecurityGroupSpec_ID sg of
      Some i \<Rightarrow> ok (Inr (Some i))
    | None \<Rightarrow> (case SecurityGroupSpec_Name sg of
        None \<Rightarrow> fail (Errorf msg_error_securitygroup_has_no_name_or_id)
      | Some name \<Rightarrow> do {
          s \<leftarrow> State_Monad.get;
          case getSecurityGroupIDFromStatus s name of
            Some i \<Rightarrow> ok (Inr (Some i))
          | None \<Rightarrow> do {
              r \<leftarrow> do_GetSecurityGroupByName C name;
              case r of
                Fail e _ \<Rightarrow> if (case e of SecurityGroupByNameNotFound _ \<Rightarrow> True | _ \<Rightarrow> False) then ok (Inr None)
                            else fail (Wrapf msg_error_failed_lookup_of_security_group_by_name e)
              | Reply None \<Rightarrow> ok (Inr None)
              | Reply (Some d) \<Rightarrow> deref (sg_ID d) (\<lambda>i. bindE (track_group i (sg_Name d)) (\<lambda>_. ok (Inl ()))) } }))"

definition v_reconcileSecurityGroup :: "vpc_clients \<Rightarrow> VPCSecurityGroupSpec \<Rightarrow> unit vproc" where
  "v_reconcileSecurityGroup C sg =
     bindE (group_known C sg) (\<lambda>known. case known of
       Inl _ \<Rightarrow> ok ()
     | Inr (Some i) \<Rightarrow> do {
         r \<leftarrow> do_GetSecurityGroup C i;
         case r of
           Fail e _ \<Rightarrow> fail (Wrapf msg_error_failed_lookup_of_security_group e)
         | Reply None \<Rightarrow> fail (Errorf msg_error_could_not_find_security_group_with_id)
         | Reply (Some d) \<Rightarrow> track_group i (sg_Name d) }
     | Inr None \<Rightarrow> v_createSecurityGroup C sg)"

section \<open>Creating a rule\<close>

definition no_remote :: SecurityGroupRuleRemotePrototype where
  "no_remote = \<lparr>rrp_CIDRBlock = None, rrp_Address = None, rrp_CRN = None\<rparr>"

definition v_createRuleRemote :: "vpc_clients \<Rightarrow> RuleRemote \<Rightarrow> SecurityGroupRuleRemotePrototype vproc" where
  "v_createRuleRemote C rem = (case RuleRemote_Type rem of
      RuleRemoteAny \<Rightarrow> ok (no_remote\<lparr>rrp_CIDRBlock := Some CIDRBlockAny\<rparr>)
    | RuleRemoteCIDR \<Rightarrow> deref (RuleRemote_CIDRSubnetName rem) (\<lambda>n. do {
        r \<leftarrow> do_GetSubnetByName C n;
        case r of
          Fail e _ \<Rightarrow> fail (Wrapf msg_error_failed_lookup_of_subnet_during_security_group_rule_remote_creation e)
        | Reply None \<Rightarrow> fail (Errorf msg_error_failed_lookup_of_subnet_during_security_group_rule_remote_creation)
        | Reply (Some d) \<Rightarrow> ok (no_remote\<lparr>rrp_CIDRBlock := subnet_Ipv4CIDRBlock d\<rparr>) })
    | RuleRemoteAddress \<Rightarrow> ok (no_remote\<lparr>rrp_Address := RuleRemote_Address rem\<rparr>)
    | RuleRemoteSG \<Rightarrow> deref (RuleRemote_SecurityGroupName rem) (\<lambda>n. do {
        r \<leftarrow> do_GetSecurityGroupByName C n;
        case r of
          Fail e _ \<Rightarrow> fail (Wrapf msg_error_failed_lookup_of_security_group_during_security_group_rule_remote_creation e)
        | Reply None \<Rightarrow> fail (Errorf msg_error_failed_lookup_of_security_group_during_security_group_rule_remote_creation)
        | Reply (Some d) \<Rightarrow> ok (no_remote\<lparr>rrp_CRN := sg_CRN d\<rparr>) })
    | RuleRemoteOther _ \<Rightarrow> fail (Errorf msg_error_failed_creating_security_group_rule_remote))"

text \<open>The prototype of the rule by its protocol; \<open>None\<close> for a protocol that is not supported.\<close>

definition new_rule :: "RuleDirection \<Rightarrow> RulePrototype \<Rightarrow> SecurityGroupRuleRemotePrototype \<Rightarrow> NewRule option" where
  "new_rule dir p rem =
     (let mk = (\<lambda>k. \<lparr>rule_Kind = k, rule_Direction = RuleDirection_string dir, rule_Protocol = RuleProtocol_string (RulePrototype_Protocol p),
                  rule_IPVersion = None, rule_Remote = Some rem, rule_Code = None, rule_Type = None, rule_PortMin = None, rule_PortMax = None\<rparr>)
      in case RulePrototype_Protocol p of
           RuleProtocolAny \<Rightarrow> Some (mk KindAny)
         | RuleProtocolIcmpTCPUDP \<Rightarrow> Some (mk KindIcmptcpudp)
         | RuleProtocolIcmp \<Rightarrow> Some (if RulePrototype_ICMPCode p \<noteq> None \<and> RulePrototype_ICMPType p \<noteq> None
             then (mk KindIcmp)\<lparr>rule_Code := RulePrototype_ICMPCode p, rule_Type := RulePrototype_ICMPType p\<rparr> else mk KindIcmp)
         | RuleProtocolTCP \<Rightarrow> Some (case RulePrototype_PortRange p of None \<Rightarrow> mk KindTcpudp
             | Some pr \<Rightarrow> (mk KindTcpudp)\<lparr>rule_PortMin := Some (RulePortRange_Minimum pr), rule_PortMax := Some (RulePortRange_Maximum pr)\<rparr>)
         | RuleProtocolUDP \<Rightarrow> Some (case RulePrototype_PortRange p of None \<Rightarrow> mk KindTcpudp
             | Some pr \<Rightarrow> (mk KindTcpudp)\<lparr>rule_PortMin := Some (RulePortRange_Minimum pr), rule_PortMax := Some (RulePortRange_Maximum pr)\<rparr>)
         | _ \<Rightarrow> if individualSgr_match (RuleProtocol_string (RulePrototype_Protocol p)) then Some (mk KindIndividual) else None)"

definition v_createRule :: "vpc_clients \<Rightarrow> string \<Rightarrow> GroupRule \<Rightarrow> RuleRemote \<Rightarrow> unit vproc" where
  "v_createRule C groupID rule rem =
     (let side = (if GroupRule_Direction rule = RuleInbound then GroupRule_Source rule else GroupRule_Destination rule)
      in bindW msg_error_failed_to_create_security_group_rule_remote (v_createRuleRemote C rem) (\<lambda>prototypeRemote.
         deref side (\<lambda>p. case new_rule (GroupRule_Direction rule) p prototypeRemote of
             None \<Rightarrow> fail (Errorf msg_error_failed_creating_security_group_rule_unknown_protocol)
           | Some req \<Rightarrow> do {
               r \<leftarrow> do_CreateRule C groupID req;
               case r of
                 Fail e _ \<Rightarrow> fail (Wrapf msg_error_unexpected_failure_creating_security_group_rule e)
               | Reply None \<Rightarrow> fail (Errorf msg_error_failed_creating_security_group_rule)
               | Reply (Some _) \<Rightarrow> ok () })))"

definition v_createRuleAllRemotes :: "vpc_clients \<Rightarrow> string \<Rightarrow> GroupRule \<Rightarrow> unit vproc" where
  "v_createRuleAllRemotes C groupID rule =
     (let create = (\<lambda>remotes. loopM (\<lambda>rem _. bindW msg_error_failed_creating_security_group_rule (v_createRule C groupID rule rem) ok) remotes ())
      in case GroupRule_Direction rule of
           RuleInbound \<Rightarrow> deref (GroupRule_Source rule) (\<lambda>p. create (RulePrototype_Remotes p))
         | RuleOutbound \<Rightarrow> deref (GroupRule_Destination rule) (\<lambda>p. create (RulePrototype_Remotes p))
         | RuleDirectionOther _ \<Rightarrow> ok ())"

section \<open>Matching a rule\<close>

text \<open>The type assertion on the remote of the existing rule.\<close>

definition as_remote :: "RemoteIntf \<Rightarrow> (CloudRemote \<Rightarrow> 'a vproc) \<Rightarrow> 'a vproc" where
  "as_remote x k = (case x of RemoteOf y \<Rightarrow> k y | RemoteOfOtherType \<Rightarrow> panic)"

definition check_cidr :: "vpc_clients \<Rightarrow> RuleRemote \<Rightarrow> CloudRemote \<Rightarrow> bool vproc" where
  "check_cidr C rem x = (case remote_CIDRBlock x of
      None \<Rightarrow> ok False
    | Some cidr \<Rightarrow> deref (RuleRemote_CIDRSubnetName rem) (\<lambda>n. do {
        r \<leftarrow> do_GetSubnetByName C n;
        case r of
          Fail e _ \<Rightarrow> fail (Wrapf msg_error_failed_getting_subnet_by_name_for_security_group_rule e)
        | Reply None \<Rightarrow> fail (Errorf msg_error_failed_getting_subnet_by_name_for_security_group_rule)
        | Reply (Some d) \<Rightarrow> deref (subnet_Ipv4CIDRBlock d) (\<lambda>c. ok (c = cidr)) }))"

text \<open>By name, then by the ID in the status, then by CRN.\<close>

definition check_group :: "vpc_clients \<Rightarrow> RuleRemote \<Rightarrow> CloudRemote \<Rightarrow> bool vproc" where
  "check_group C rem x = (case remote_Name x of
      None \<Rightarrow> ok False
    | Some name \<Rightarrow> deref (RuleRemote_SecurityGroupName rem) (\<lambda>n.
        if name = n then ok True
        else do {
          s \<leftarrow> State_Monad.get;
          let known = getSecurityGroupIDFromStatus s n;
          if known \<noteq> None \<and> remote_ID x = known then ok True
          else do {
            r \<leftarrow> (case known of Some i \<Rightarrow> do_GetSecurityGroup C i | None \<Rightarrow> do_GetSecurityGroupByName C n);
            case r of
              Fail e _ \<Rightarrow> fail (Wrapf msg_error_failed_getting_security_group_by_name_for_security_group_rule e)
            | Reply None \<Rightarrow> fail (Errorf msg_error_failed_getting_security_group_by_name_for_security_group_rule)
            | Reply (Some d) \<Rightarrow> deref (sg_CRN d) (\<lambda>a. deref (remote_CRN x) (\<lambda>b. ok (a = b))) } }))"

definition checkRemote :: "vpc_clients \<Rightarrow> RuleRemote \<Rightarrow> RemoteIntf \<Rightarrow> bool vproc" where
  "checkRemote C rem existing = (case RuleRemote_Type rem of
      RuleRemoteCIDR \<Rightarrow> as_remote existing (check_cidr C rem)
    | RuleRemoteAddress \<Rightarrow> as_remote existing (\<lambda>x. case remote_Address x of
          None \<Rightarrow> ok False | Some a \<Rightarrow> deref (RuleRemote_Address rem) (\<lambda>b. ok (b = a)))
    | RuleRemoteSG \<Rightarrow> as_remote existing (check_group C rem)
    | RuleRemoteAny \<Rightarrow> as_remote existing (\<lambda>x. case remote_Address x of
          None \<Rightarrow> ok True | Some a \<Rightarrow> ok (a = CIDRBlockAny))
    | RuleRemoteOther _ \<Rightarrow> ok False)"

definition checkIcmp :: "vpc_clients \<Rightarrow> RulePrototype \<Rightarrow> RuleRemote \<Rightarrow> RemoteIntf \<Rightarrow> int option \<Rightarrow> int option \<Rightarrow> bool vproc" where
  "checkIcmp C p rem existing code ty =
     bindW msg_error_failed_checking_security_group_rule_icmp_remote (checkRemote C rem existing) (\<lambda>exists.
       if \<not> exists then ok False
       else (case (RulePrototype_ICMPCode p, RulePrototype_ICMPType p) of
           (Some c, Some t) \<Rightarrow> deref code (\<lambda>c'. if c = c' then deref ty (\<lambda>t'. ok (t = t')) else ok False)
         | _ \<Rightarrow> ok (code = None \<and> ty = None)))"

definition checkTcpudp ::
  "vpc_clients \<Rightarrow> RulePrototype \<Rightarrow> RuleRemote \<Rightarrow> string option \<Rightarrow> string option \<Rightarrow> RemoteIntf \<Rightarrow> int option \<Rightarrow> int option \<Rightarrow> bool vproc" where
  "checkTcpudp C p rem ruleID protocol existing portMin portMax = deref protocol (\<lambda>pr.
     if RuleProtocol_string (RulePrototype_Protocol p) \<noteq> pr then ok False
     else bindW msg_error_failed_checking_security_group_rule_tcp_udp_remote (checkRemote C rem existing) (\<lambda>exists.
       if exists then (case RulePrototype_PortRange p of
           None \<Rightarrow> ok False
         | Some bounds \<Rightarrow>
             if portMin = Some (RulePortRange_Minimum bounds) \<and> portMax = Some (RulePortRange_Maximum bounds)
             then deref ruleID (\<lambda>_. ok True) else ok False)
       else ok False))"

definition checkIndividual :: "vpc_clients \<Rightarrow> RulePrototype \<Rightarrow> RuleRemote \<Rightarrow> string option \<Rightarrow> RemoteIntf \<Rightarrow> bool vproc" where
  "checkIndividual C p rem protocol existing = deref protocol (\<lambda>pr.
     if RuleProtocol_string (RulePrototype_Protocol p) \<noteq> pr then ok False
     else bindW msg_error_failed_checking_security_group_rule_individual_remote (checkRemote C rem existing) ok)"

text \<open>One existing rule: first the protocol, then the direction, then the rest.\<close>

definition same_direction :: "RuleDirection \<Rightarrow> string option \<Rightarrow> bool vproc \<Rightarrow> bool vproc" where
  "same_direction dir existing k = deref existing (\<lambda>d. if RuleDirection_string dir \<noteq> d then ok False else k)"

definition checkRule :: "vpc_clients \<Rightarrow> RuleDirection \<Rightarrow> RulePrototype \<Rightarrow> RuleRemote \<Rightarrow> CloudRule \<Rightarrow> bool vproc" where
  "checkRule C dir p rem existing = (case existing of
      CloudRuleAny d x \<Rightarrow>
        if RulePrototype_Protocol p \<noteq> RuleProtocolAny then ok False
        else same_direction dir d (bindW msg_error_failure_checking_security_group_rule_protocol_any
          (bindW msg_error_failed_checking_security_group_rule_any_remote (checkRemote C rem x) ok) ok)
    | CloudRuleIcmptcpudp d x \<Rightarrow>
        if RulePrototype_Protocol p \<noteq> RuleProtocolIcmpTCPUDP then ok False
        else same_direction dir d (bindW msg_error_failure_checking_security_group_rule_protocol_icmp_tcp_udp
          (bindW msg_error_failed_checking_security_group_rule_icmp_tcp_udp_remote (checkRemote C rem x) ok) ok)
    | CloudRuleIcmp d x code ty \<Rightarrow>
        if RulePrototype_Protocol p \<noteq> RuleProtocolIcmp then ok False
        else same_direction dir d (bindW msg_error_failure_checking_security_group_rule_protocol_icmp (checkIcmp C p rem x code ty) ok)
    | CloudRuleTcpudp i d protocol x portMin portMax \<Rightarrow>
        if RulePrototype_Protocol p \<noteq> RuleProtocolTCP \<and> RulePrototype_Protocol p \<noteq> RuleProtocolUDP then ok False
        else same_direction dir d (bindW msg_error_failure_checking_security_group_rule_protocol_tcp_udp
          (checkTcpudp C p rem i protocol x portMin portMax) ok)
    | CloudRuleIndividual d protocol x \<Rightarrow>
        if \<not> individualSgr_match (RuleProtocol_string (RulePrototype_Protocol p)) then ok False
        else same_direction dir d (bindW msg_error_failure_checking_security_group_rule_protocol (checkIndividual C p rem protocol x) ok)
    | CloudRuleOther \<Rightarrow> ok False)"

text \<open>
  Whether one of the rules matches. The \<open>break\<close> after a match only leaves the switch, so the rules behind
  it are looked at too.
\<close>

definition match_rules :: "vpc_clients \<Rightarrow> RuleDirection \<Rightarrow> RulePrototype \<Rightarrow> RuleRemote \<Rightarrow> CloudRule list \<Rightarrow> bool vproc" where
  "match_rules C dir p rem existing =
     loopM (\<lambda>x remoteMatch. bindE (checkRule C dir p rem x) (\<lambda>found. ok (if found then True else remoteMatch))) existing False"

section \<open>Rules\<close>

definition find_or_create :: "vpc_clients \<Rightarrow> string \<Rightarrow> GroupRule \<Rightarrow> RulePrototype \<Rightarrow> CloudRule list \<Rightarrow> RuleRemote \<Rightarrow> unit vproc" where
  "find_or_create C groupID rule p existing rem =
     bindE (match_rules C (GroupRule_Direction rule) p rem existing) (\<lambda>remoteMatch.
       if remoteMatch then ok ()
       else bindW msg_error_failure_creating_security_group_rule (v_createRule C groupID rule rem) ok)"

definition findOrCreateSecurityGroupRule :: "vpc_clients \<Rightarrow> string \<Rightarrow> GroupRule \<Rightarrow> CloudRule list \<Rightarrow> unit vproc" where
  "findOrCreateSecurityGroupRule C groupID rule existing =
     (let run = (\<lambda>p. loopM (\<lambda>rem _. find_or_create C groupID rule p existing rem) (RulePrototype_Remotes p) ())
      in case GroupRule_Direction rule of
           RuleInbound \<Rightarrow> deref (GroupRule_Source rule) run
         | RuleOutbound \<Rightarrow> deref (GroupRule_Destination rule) run
         | RuleDirectionOther _ \<Rightarrow> fail (Errorf msg_error_unsupported_securitygroupruledirection_defined))"

definition v_reconcileRule :: "vpc_clients \<Rightarrow> string \<Rightarrow> GroupRule \<Rightarrow> unit vproc" where
  "v_reconcileRule C groupID rule0 =
     (let rule = rule0\<lparr>GroupRule_Destination := v_normalizedPrototype (GroupRule_Destination rule0),
                     GroupRule_Source := v_normalizedPrototype (GroupRule_Source rule0)\<rparr>
      in do {
        r \<leftarrow> do_ListRules C groupID;
        case r of
          Fail e _ \<Rightarrow> fail (Wrapf msg_error_failed_listing_security_group_rules_during_reconcile_of_security_group e)
        | Reply x \<Rightarrow>
            (let existing = (case x of None \<Rightarrow> [] | Some xs \<Rightarrow> xs)
             in if existing = [] then bindW msg_error_failed_creating_all_security_group_rule_remotes (v_createRuleAllRemotes C groupID rule) ok
                else bindW msg_error_failed_to_find_or_create_security_group_rule (findOrCreateSecurityGroupRule C groupID rule existing) ok) })"

definition v_reconcileRules :: "vpc_clients \<Rightarrow> VPCSecurityGroupSpec \<Rightarrow> bool vproc" where
  "v_reconcileRules C sg =
     (if SecurityGroupSpec_Rules sg = [] then ok False
      else do {
        s \<leftarrow> State_Monad.get;
        let groupID = (case SecurityGroupSpec_Name sg of Some n \<Rightarrow> getSecurityGroupIDFromStatus s n | None \<Rightarrow> SecurityGroupSpec_ID sg);
        case groupID of
          None \<Rightarrow> ok True
        | Some i \<Rightarrow> bindE (loopM (\<lambda>rule _. deref rule (\<lambda>r.
              bindW msg_error_failed_to_reconcile_security_group_rule (v_reconcileRule C i r) ok)) (SecurityGroupSpec_Rules sg) ()) (\<lambda>_. ok False) })"

definition v_ReconcileSecurityGroups :: "vpc_clients \<Rightarrow> bool vproc" where
  "v_ReconcileSecurityGroups C = do {
     s \<leftarrow> State_Monad.get;
     deref (v_NetworkSpec s) (\<lambda>n.
       if NetworkSpec_SecurityGroups n = [] then ok False
       else bindE (loopM (\<lambda>sg _. bindW msg_error_failed_reonciling_security_groups (v_reconcileSecurityGroup C sg) ok) (NetworkSpec_SecurityGroups n) ()) (\<lambda>_.
         loopM (\<lambda>sg requeue. bindW msg_error_failed_reconciling_security_group_rules (v_reconcileRules C sg) (\<lambda>again. ok (if again then True else requeue)))
           (NetworkSpec_SecurityGroups n) False)) }"

end
