(* ===== verification/Ibmvpc_Example.thy ===== *)
theory Ibmvpc_Example
  imports Ibmvpc_Scope
begin

text \<open>
  A concrete VPC cluster and a concrete cloud, on which the theorems of the VPC side are applied. In
  \<open>example_vpc_cloud\<close> the VPC, subnets, groups and load balancers that are asked for exist and are healthy;
  everything else is not found.
\<close>

definition example_vpc :: VPC where
  "example_vpc = \<lparr>vpc_ID = Some ''vpc'', vpc_Name = Some ''vpc'', vpc_Status = Some ''available'', vpc_CRN = Some ''crn:vpc'',
     vpc_DefaultSecurityGroup = Some (Some ''sg'')\<rparr>"

definition example_subnet :: "string \<Rightarrow> CloudSubnet" where
  "example_subnet n = \<lparr>subnet_ID = Some n, subnet_Name = Some n, subnet_Status = Some ''available'', subnet_Zone = Some (Some ''us-south-1''),
     subnet_Ipv4CIDRBlock = Some ''10.0.0.0/24'', subnet_CRN = Some (''crn:'' @ n)\<rparr>"

definition example_group :: "string \<Rightarrow> SecurityGroup" where
  "example_group n = \<lparr>sg_ID = Some n, sg_Name = Some n, sg_CRN = Some (''crn:'' @ n)\<rparr>"

definition example_balancer :: "string \<Rightarrow> CloudLoadBalancer" where
  "example_balancer n = \<lparr>lb_ID = Some n, lb_Name = Some n, lb_ProvisioningStatus = Some ''active'', lb_Hostname = Some ''lb.example.com'',
      lb_OperatingStatus = Some ''online'', lb_CRN = Some (''crn:'' @ n), lb_Pools = [Some ''pool'']\<rparr>"

definition example_vpc_cloud :: vpc_clients where
  "example_vpc_cloud =
    \<lparr>c_GetTagByName = (\<lambda>_ _. Reply None),
     c_CreateTag = (\<lambda>_ _. Reply ()),
     c_AttachTag = (\<lambda>_ _ _. Reply ()),
     c_GetResourceGroup = (\<lambda>_ _. Reply None),
     c_GetResourceGroupByName = (\<lambda>_ n. Reply (Some \<lparr>rg_ID = Some ''rg'', rg_Name = Some n\<rparr>)),
     c_GetVPCByName = (\<lambda>_ _. Reply None),
     c_GetVPC = (\<lambda>_ _. Reply (Some example_vpc)),
     c_ListVpcs = (\<lambda>_ _. Reply None),
     c_CreateVPC = (\<lambda>_ _. Reply (Some example_vpc)),
     c_DeleteVPC = (\<lambda>_ _. Reply ()),
     c_GetImageByName = (\<lambda>_ _. Reply None),
     c_GetImage = (\<lambda>_ _. Reply None),
     c_CreateImage = (\<lambda>_ _. Reply None),
     c_ListImages = (\<lambda>_ _ _. Reply None),
     c_GetZones = (\<lambda>_ _. Reply [''us-south-1'']),
     c_GetSubnet = (\<lambda>_ i. Reply (Some (example_subnet i))),
     c_GetSubnetByName = (\<lambda>_ n. Reply (Some (example_subnet n))),
     c_ListSubnets = (\<lambda>_ _. Reply None),
     c_CreateSubnet = (\<lambda>_ _. (None, None)),
     c_DeleteSubnet = (\<lambda>_ _. Reply ()),
     c_ListAddressPrefixes = (\<lambda>_ _ _. Reply None),
     c_GetGatewayByName = (\<lambda>_ _ _. Reply None),
     c_CreateGateway = (\<lambda>_ _. Reply None),
     c_SetSubnetGateway = (\<lambda>_ _ _. Reply ()),
     c_GetSubnetGateway = (\<lambda>_ _. Reply None),
     c_UnsetSubnetGateway = (\<lambda>_ _. Reply ()),
     c_DeleteGateway = (\<lambda>_ _. Reply ()),
     c_GetSecurityGroup = (\<lambda>_ i. Reply (Some (example_group i))),
     c_GetSecurityGroupByName = (\<lambda>_ n. Reply (Some (example_group n))),
     c_CreateSecurityGroup = (\<lambda>_ _. Reply (Some (example_group ''new''))),
     c_ListRules = (\<lambda>_ _. Reply None),
     c_CreateRule = (\<lambda>_ _ _. Reply (Some ())),
     c_GetLoadBalancer = (\<lambda>_ i. (Some (example_balancer (the i)), Some 200, None)),
     c_GetLoadBalancerByName = (\<lambda>_ n. Reply (Some (example_balancer n))),
     c_ListLoadBalancers = (\<lambda>_ _. Reply None),
     c_CreateLoadBalancer = (\<lambda>_ _. Reply None),
     c_DeleteLoadBalancer = (\<lambda>_ _. Reply ()),
     c_GetPoolByName = (\<lambda>_ _ _. Reply None),
     c_ListMembers = (\<lambda>_ _ _. Reply (None, None)),
     c_CreateMember = (\<lambda>_ _. Reply None),
     c_DeleteMember = (\<lambda>_ _ _ _. Reply ()),
     c_CountInstances = (\<lambda>_ _. Reply None),
     c_ListInstances = (\<lambda>_ _. Reply None),
     c_GetInstance = (\<lambda>_ _. Reply None),
     c_CreateInstance = (\<lambda>_ _. Reply None),
     c_DeleteInstance = (\<lambda>_ _. Reply ()),
     c_GetDedicatedHostByName = (\<lambda>_ _. Reply None),
     c_ListKeys = (\<lambda>_ _. Reply None),
     c_GetAttachments = (\<lambda>_ _. Reply None),
     c_GetVolume = (\<lambda>_ _. Reply None),
     c_CreateVolume = (\<lambda>_ _. Reply None),
     c_AttachVolume = (\<lambda>_ _ _ _ _. Reply ()),
     c_GetBootstrapSecret = (\<lambda>_ _ _. Reply Map.empty),
     c_GetAccountID = (\<lambda>_. Reply ''account''),
     c_GetMachineObject = (\<lambda>_ _ _. Fail (NotFoundErr ''ibmvpcmachine'') None),
     range_order = (\<lambda>_ m. m),
     url_start = (\<lambda>_. None),
     vProviderIDFormat = ''v2''\<rparr>"


text \<open>A cluster with one control plane subnet, one security group with the given rules and one load balancer.\<close>

definition example_lb_spec :: LoadBalancerSpec where
  "example_lb_spec = \<lparr>LoadBalancerSpec_Name = ''api'', LoadBalancerSpec_ID = None, LoadBalancerSpec_Public = None,
     LoadBalancerSpec_AdditionalListeners = None, LoadBalancerSpec_BackendPools = None,
     LoadBalancerSpec_SecurityGroups = None, LoadBalancerSpec_Subnets = None\<rparr>"

definition example_vpc_spec :: "GroupRule list \<Rightarrow> IBMVPCClusterSpec" where
  "example_vpc_spec rules =
     \<lparr>VSpec_Region = ''us-south'', VSpec_ResourceGroup = ''group'', VSpec_VPC = ''vpc'', VSpec_Zone = ''us-south-1'',
      VSpec_EndpointHost = [], VSpec_EndpointPort = 0, VSpec_ControlPlaneLoadBalancer = Some example_lb_spec, VSpec_Image = None,
      VSpec_Network = Some \<lparr>NetworkSpec_ControlPlaneSubnets = [\<lparr>SubnetSpec_Ipv4CidrBlock = None, SubnetSpec_Name = Some ''cp'',
          SubnetSpec_ID = None, SubnetSpec_Zone = Some ''us-south-1''\<rparr>],
        NetworkSpec_LoadBalancers = [example_lb_spec], NetworkSpec_ResourceGroup = None,
        NetworkSpec_SecurityGroups = [\<lparr>SecurityGroupSpec_ID = None, SecurityGroupSpec_Name = Some ''web'',
          SecurityGroupSpec_Rules = map Some rules, SecurityGroupSpec_Tags = []\<rparr>],
        NetworkSpec_WorkerSubnets = [], NetworkSpec_VPC = Some \<lparr>VPCResource_ID = Some ''vpc'', VPCResource_Name = None\<rparr>\<rparr>\<rparr>"

definition example_vpc_status :: IBMVPCClusterStatus where
  "example_vpc_status =
     \<lparr>VStatus_VPC = \<lparr>VPCStatusRef_ID = [], VPCStatusRef_Name = []\<rparr>, VStatus_Image = None, VStatus_Network = None,
      VStatus_Ready = False, VStatus_ResourceGroup = None,
      VStatus_Subnet = \<lparr>SubnetSpec_Ipv4CidrBlock = None, SubnetSpec_Name = None, SubnetSpec_ID = None, SubnetSpec_Zone = None\<rparr>,
      VStatus_VPCEndpoint = \<lparr>VPCEndpoint_Address = None, VPCEndpoint_FIPID = None, VPCEndpoint_LBID = None\<rparr>,
      VStatus_ControlPlaneLoadBalancerState = [], VStatus_Conditions = [], VStatus_V1Beta2 = None\<rparr>"

definition example_vscope :: "GroupRule list \<Rightarrow> vscope" where
  "example_vscope rules = \<lparr>vtrace = [],
     v_cluster = \<lparr>VCluster_Name = ''c'', VCluster_Namespace = ''default'', VCluster_Finalizers = [ClusterFinalizer],
       VCluster_Deleting = False, VCluster_Spec = example_vpc_spec rules, VCluster_Status = example_vpc_status\<rparr>,
     v_Name = ''c'', v_APIServerPort = 6443\<rparr>"

end
