(* ===== verification/Ibmvpc_Rule_Properties.thy ===== *)
theory Ibmvpc_Rule_Properties
  imports Ibmvpc_Rules Ibmvpc_Example
begin

text \<open>
  The rules of the security groups of a VPC cluster: which protocols go by number, which rule of the cloud
  is taken for a rule of the spec, and what follows for the rules that are created.
\<close>

section \<open>Protocols\<close>

text \<open>The strings that a sequence of character classes matches.\<close>

fun expansions :: "'a list list \<Rightarrow> 'a list list" where
  "expansions [] = [[]]"
| "expansions (k # ks) = concat (map (\<lambda>c. map ((#) c) (expansions ks)) k)"

lemma classes_match_expansions: "classes_match ks s \<longleftrightarrow> s \<in> set (expansions ks)"
  by (induction ks s rule: classes_match.induct) (auto simp: image_iff)

lemma expansions_map: "expansions (map (map f) ks) = map (map f) (expansions ks)"
  by (induction ks) (simp_all add: map_concat comp_def)

text \<open>The same over digits instead of characters.\<close>

definition numeral_char :: "nat \<Rightarrow> char" where "numeral_char d = char_of (48 + d)"

fun digits :: "nat \<Rightarrow> nat list" where
  "digits n = (if n < 10 then [n] else digits (n div 10) @ [n mod 10])"

declare digits.simps [simp del]

lemma itoa_digits_map: "itoa n = map numeral_char (digits n)"
  by (induction n rule: digits.induct) (subst digits.simps, subst itoa.simps, simp add: numeral_char_def)

definition digit_alternatives :: "nat list list list" where
  "digit_alternatives =
     [[[0]], [[2]], [[3]], [[5]], [[7..<10]], [[1], [0..<7]], [[1], [8..<10]], [[2..<4], [0..<10]], [[4], [0..<6]],
      [[4], [8..<10]], [[5], [2..<10]], [[6..<10], [0..<10]], [[1], [0], [0..<10]], [[1], [1], [0..<2]],
      [[1], [1], [3..<5]], [[1], [1], [6..<10]], [[1], [2], [0..<10]], [[1], [3], [0..<2]], [[1], [3], [3..<10]],
      [[1], [4..<10], [0..<10]], [[2], [0..<5], [0..<10]], [[2], [5], [0..<6]]]"

lemma digit_range_map: "digit_range a b = map numeral_char [a..<Suc b]" "digit_class a = map numeral_char [a]"
  by (simp_all add: digit_class_def digit_range_def numeral_char_def)

lemma number_alternatives_digits: "number_alternatives = map (map (map numeral_char)) digit_alternatives"
  unfolding number_alternatives_def digit_alternatives_def digit_range_map
  by (simp add: numeral_2_eq_2 [symmetric] del: upt_Suc upt_rec_numeral One_nat_def)

definition reserved_numbers :: "nat list" where
  "reserved_numbers = [1, 4, 6, 17, 46, 47, 50, 51, 112, 115, 132]"

lemma digit_alternatives_expanded:
  "concat (map expansions digit_alternatives) = map digits (filter (\<lambda>n. n \<notin> set reserved_numbers) [0..<256])"
  by code_simp

lemma alternatives_expanded:
  "concat (map expansions number_alternatives) = map itoa (filter (\<lambda>n. n \<notin> set reserved_numbers) [0..<256])"
proof -
  have "concat (map expansions number_alternatives) = map (map numeral_char) (concat (map expansions digit_alternatives))"
    by (simp add: number_alternatives_digits comp_def expansions_map map_concat)
  then show ?thesis
    by (simp add: digit_alternatives_expanded itoa_digits_map comp_def)
qed

lemma number_alternatives_match:
  "list_ex (\<lambda>a. classes_match a s) number_alternatives \<longleftrightarrow> (\<exists>n < 256. n \<notin> set reserved_numbers \<and> s = itoa n)"
proof -
  have "list_ex (\<lambda>a. classes_match a s) number_alternatives \<longleftrightarrow> s \<in> set (concat (map expansions number_alternatives))"
    by (simp add: list_ex_iff classes_match_expansions)
  also have "\<dots> \<longleftrightarrow> (\<exists>n < 256. n \<notin> set reserved_numbers \<and> s = itoa n)"
    by (auto simp: alternatives_expanded)
  finally show ?thesis .
qed

lemma prefix_split: "take (length p) s = p \<and> Q (drop (length p) s) \<longleftrightarrow> (\<exists>t. s = p @ t \<and> Q t)"
  by (metis append_eq_conv_conj append_take_drop_id)

lemma number_split: "take 7 s = ''number_'' \<and> Q (drop 7 s) \<longleftrightarrow> (\<exists>t. s = ''number_'' @ t \<and> Q t)"
  using prefix_split [of "''number_''" s Q] by (simp add: eval_nat_numeral)

lemma ex_split: "(\<exists>t. s = p @ t \<and> (\<exists>n < k. P n \<and> t = f n)) \<longleftrightarrow> (\<exists>n < k. P n \<and> s = p @ f n)"
  by blast

text \<open>
  C36: The protocols that are created and recognised as individual ones are the eight names and
  \<open>number_n\<close> for the numbers below 256 in decimal without leading zeros, less the eleven numbers that have a name of
  their own (such as 1, ICMP, 6, TCP and 17, UDP).
\<close>

theorem individual_protocols:
  "individualSgr_match s =
     (s \<in> set individual_names \<or> (\<exists>n < 256. n \<notin> set reserved_numbers \<and> s = ''number_'' @ itoa n))"
  unfolding individualSgr_match_def number_alternatives_match
  using number_split [of s "\<lambda>t. \<exists>n < 256. n \<notin> set reserved_numbers \<and> t = itoa n"]
  by (simp only: ex_split)

section \<open>Round trip of a rule\<close>

text \<open>How a rule that was created with a request is listed, with the remote \<open>y\<close> and an ID.\<close>

definition listed :: "string \<Rightarrow> NewRule \<Rightarrow> CloudRemote \<Rightarrow> CloudRule" where
  "listed i q y = (case rule_Kind q of
      KindGeneric \<Rightarrow> CloudRuleOther
    | KindAny \<Rightarrow> CloudRuleAny (Some (rule_Direction q)) (RemoteOf y)
    | KindIcmptcpudp \<Rightarrow> CloudRuleIcmptcpudp (Some (rule_Direction q)) (RemoteOf y)
    | KindIcmp \<Rightarrow> CloudRuleIcmp (Some (rule_Direction q)) (RemoteOf y) (rule_Code q) (rule_Type q)
    | KindTcpudp \<Rightarrow> CloudRuleTcpudp (Some i) (Some (rule_Direction q)) (Some (rule_Protocol q)) (RemoteOf y) (rule_PortMin q) (rule_PortMax q)
    | KindIndividual \<Rightarrow> CloudRuleIndividual (Some (rule_Direction q)) (Some (rule_Protocol q)) (RemoteOf y))"

text \<open>The remote as it is listed: what was sent, and the name of a security group.\<close>

definition listed_remote :: "RuleRemote \<Rightarrow> SecurityGroupRuleRemotePrototype \<Rightarrow> CloudRemote \<Rightarrow> bool" where
  "listed_remote rem rp y \<longleftrightarrow> remote_CIDRBlock y = rrp_CIDRBlock rp \<and> remote_Address y = rrp_Address rp \<and> remote_CRN y = rrp_CRN rp \<and>
     (RuleRemote_Type rem = RuleRemoteSG \<longrightarrow> remote_Name y = RuleRemote_SecurityGroupName rem)"

text \<open>What was sent says where the traffic is from: an address, or the block of a subnet.\<close>

definition remote_given :: "RuleRemote \<Rightarrow> SecurityGroupRuleRemotePrototype \<Rightarrow> bool" where
  "remote_given rem rp \<longleftrightarrow> (RuleRemote_Type rem = RuleRemoteCIDR \<longrightarrow> rrp_CIDRBlock rp \<noteq> None) \<and>
     (RuleRemote_Type rem = RuleRemoteAddress \<longrightarrow> rrp_Address rp \<noteq> None)"

lemma created_remote_found:
  assumes "run_state (v_createRuleRemote C rem) s = (Ok rp, t)" and "listed_remote rem rp y" "remote_given rem rp"
    and "\<And>h h' n. c_GetSubnetByName C h n = c_GetSubnetByName C h' n"
  shows "wp (checkRemote C rem (RemoteOf y)) (\<lambda>r _. r = Ok True) s2"
proof -
  have sub: "c_GetSubnetByName C (vtrace s2) n = c_GetSubnetByName C (vtrace s) n" for n
    using assms(4) .
  have "wp (v_createRuleRemote C rem) (\<lambda>r _. r = Ok rp \<longrightarrow> wp (checkRemote C rem (RemoteOf y)) (\<lambda>r _. r = Ok True) s2) s"
    using assms(2,3)
    by (cases "RuleRemote_Type rem"; cases "RuleRemote_CIDRSubnetName rem"; cases "RuleRemote_SecurityGroupName rem")
      (auto simp: v_createRuleRemote_def checkRemote_def as_remote_def check_cidr_def check_group_def no_remote_def wp_simps
        listed_remote_def remote_given_def sub split: option.splits reply.splits)
  then show ?thesis
    using assms(1) by (auto dest: wpD)
qed

lemma wp_bindW_ok: "wp m (\<lambda>r _. r = Ok x) s \<Longrightarrow> wp (bindW t m ok) (\<lambda>r _. r = Ok x) s"
  by (simp add: wp_simps) (erule wp_mono, simp)

text \<open>
  C30: A rule that was created for a remote of a rule of the spec is recognised as that rule, so that later
  reconciles do not create it again: for every protocol, direction and type of remote, with the one
  exception of TCP and UDP without a port range.
\<close>

theorem created_rule_recognised:
  assumes "run_state (v_createRuleRemote C rem) s = (Ok rp, t)" and "new_rule dir p rp = Some q"
    and "listed_remote rem rp y" "remote_given rem rp"
    and "\<And>h h' n. c_GetSubnetByName C h n = c_GetSubnetByName C h' n"
    and "RulePrototype_Protocol p \<in> {RuleProtocolTCP, RuleProtocolUDP} \<Longrightarrow> RulePrototype_PortRange p \<noteq> None"
  shows "fst (run_state (checkRule C dir p rem (listed i q y)) u) = Ok True"
proof -
  note R = created_remote_found [OF assms(1,3,4,5), of u]
  have "wp (checkRule C dir p rem (listed i q y)) (\<lambda>r _. r = Ok True) u"
    using assms(2,6) R
    by (cases "RulePrototype_Protocol p") (auto simp: new_rule_def listed_def checkRule_def same_direction_def
        checkIcmp_def checkTcpudp_def checkIndividual_def RuleProtocol_string_def wp_simps Let_def
        intro!: wp_bindW_ok elim!: wp_mono split: if_splits option.splits)
  then show ?thesis
    by (simp add: wp_def split: prod.splits)
qed

definition example_remote :: "RuleRemoteType \<Rightarrow> RuleRemote" where
  "example_remote k = \<lparr>RuleRemote_CIDRSubnetName = Some ''cp'', RuleRemote_Address = Some ''10.1.0.1'', RuleRemote_Type = k,
     RuleRemote_SecurityGroupName = Some ''web''\<rparr>"

definition example_side :: "RuleProtocol \<Rightarrow> RulePortRange option \<Rightarrow> RulePrototype" where
  "example_side pr bounds = \<lparr>RulePrototype_ICMPCode = None, RulePrototype_ICMPType = None, RulePrototype_PortRange = bounds,
     RulePrototype_Protocol = pr, RulePrototype_Remotes = [example_remote RuleRemoteCIDR]\<rparr>"

lemma created_rule_recognised_witness:
  "fst (run_state (checkRule example_vpc_cloud RuleInbound
       (example_side RuleProtocolTCP (Some \<lparr>RulePortRange_Maximum = 443, RulePortRange_Minimum = 443\<rparr>)) (example_remote RuleRemoteCIDR)
       (listed ''rule''
         \<lparr>rule_Kind = KindTcpudp, rule_Direction = ''inbound'', rule_Protocol = ''tcp'', rule_IPVersion = None,
          rule_Remote = Some (no_remote\<lparr>rrp_CIDRBlock := Some ''10.0.0.0/24''\<rparr>), rule_Code = None, rule_Type = None,
          rule_PortMin = Some 443, rule_PortMax = Some 443\<rparr>
         \<lparr>remote_CIDRBlock = Some ''10.0.0.0/24'', remote_Address = None, remote_Name = None, remote_ID = None, remote_CRN = None\<rparr>))
     (example_vscope [])) = Ok True"
  by (rule created_rule_recognised [where rp = "no_remote\<lparr>rrp_CIDRBlock := Some ''10.0.0.0/24''\<rparr>" and s = "example_vscope []"
        and t = "(example_vscope [])\<lparr>vtrace := [VNET (VGetSubnetByName ''cp'')]\<rparr>"])
    (simp_all add: v_createRuleRemote_def example_remote_def example_vpc_cloud_def example_subnet_def deref_def example_vscope_def
      new_rule_def example_side_def RuleDirection_string_def RuleProtocol_string_def listed_remote_def remote_given_def no_remote_def)

section \<open>Counting the rules that are created\<close>

definition is_rule_creation :: "vcall \<Rightarrow> bool" where
  "is_rule_creation c = (case c of VSG (VCreateRule _ _) \<Rightarrow> True | _ \<Rightarrow> False)"

definition rules_created :: "vscope \<Rightarrow> nat" where
  "rules_created s = length (filter is_rule_creation (vtrace s))"

lemma rules_created_call: "rules_created (s\<lparr>vtrace := vtrace s @ [c]\<rparr>) = rules_created s + (if is_rule_creation c then 1 else 0)"
  by (simp add: rules_created_def)

lemma is_rule_creation_simps [simp]:
  "is_rule_creation (VSG x) = (case x of VCreateRule _ _ \<Rightarrow> True | _ \<Rightarrow> False)"
  "\<not> is_rule_creation (VNET y)" "\<not> is_rule_creation (VRM z)" "\<not> is_rule_creation (VPCS u)"
  by (simp_all add: is_rule_creation_def)

lemma keeps_rules_api: "\<not> is_rule_creation c \<Longrightarrow> state_io_rel (keeps rules_created) (vapi f c)"
  by (simp add: state_io_rel_def keeps_def rules_created_call)

lemma keeps_rules_createRuleRemote: "state_io_rel (keeps rules_created) (v_createRuleRemote C rem)"
  unfolding v_createRuleRemote_def
  by (cases "RuleRemote_Type rem") (simp_all, (intro keeps.fr_rules keeps_rules_api; simp)+)

lemma keeps_rules_as_remote:
  "(\<And>y. state_io_rel (keeps rules_created) (k y)) \<Longrightarrow> state_io_rel (keeps rules_created) (as_remote x k)"
  unfolding as_remote_def by (cases x) (simp_all add: keeps.fr_return)

lemma keeps_rules_checkRemote: "state_io_rel (keeps rules_created) (checkRemote C rem x)"
  unfolding checkRemote_def check_cidr_def check_group_def
  by (cases "RuleRemote_Type rem") (simp_all, (intro keeps_rules_as_remote keeps.fr_rules keeps_rules_api; simp)+)

lemma keeps_rules_checkRule: "state_io_rel (keeps rules_created) (checkRule C dir p rem existing)"
  unfolding checkRule_def same_direction_def checkIcmp_def checkTcpudp_def checkIndividual_def
  by (cases existing) (simp_all only: CloudRule.case, (intro keeps.fr_rules keeps_rules_checkRemote)+)

lemma keeps_rules_match_rules: "state_io_rel (keeps rules_created) (match_rules C dir p rem existing)"
  unfolding match_rules_def by (intro keeps.fr_rules keeps_rules_checkRule)

text \<open>Without a port range a TCP or UDP rule matches nothing.\<close>

definition portless :: "RulePrototype \<Rightarrow> bool" where
  "portless p \<longleftrightarrow> RulePrototype_Protocol p \<in> {RuleProtocolTCP, RuleProtocolUDP} \<and> RulePrototype_PortRange p = None"

lemma portless_not_individual: "portless p \<Longrightarrow> \<not> individualSgr_match (RuleProtocol_string (RulePrototype_Protocol p))"
  by (auto simp: portless_def individualSgr_match_def individual_names_def RuleProtocol_string_def)

lemma portless_checkRule: "portless p \<Longrightarrow> wp (checkRule C dir p rem existing) (\<lambda>r _. r \<noteq> Ok True) s"
  using portless_not_individual [of p]
  by (cases existing) (auto simp: checkRule_def same_direction_def checkTcpudp_def portless_def wp_simps intro!: wp_mono [OF wp_True])

lemma portless_match_rules: "portless p \<Longrightarrow> wp (match_rules C dir p rem existing) (\<lambda>r _. r \<noteq> Ok True) s"
  unfolding match_rules_def
  by (rule wp_loopM [where I = "\<lambda>b _. \<not> b" and E = "\<lambda>r _. r \<noteq> Ok True"])
    (auto simp: wp_simps split: outcome.split intro!: wp_mono [OF portless_checkRule])

definition side_of_rule :: "GroupRule \<Rightarrow> RulePrototype option" where
  "side_of_rule rule = (case GroupRule_Direction rule of RuleInbound \<Rightarrow> GroupRule_Source rule | RuleOutbound \<Rightarrow> GroupRule_Destination rule
     | RuleDirectionOther _ \<Rightarrow> None)"

text \<open>A run that succeeds adds \<open>n\<close> rules.\<close>

definition adds :: "nat \<Rightarrow> vscope \<Rightarrow> 'a outcome \<Rightarrow> vscope \<Rightarrow> bool" where
  "adds n s r t \<longleftrightarrow> (case r of Ok _ \<Rightarrow> rules_created t = rules_created s + n | _ \<Rightarrow> True)"

lemma adds_simps [simp]:
  "adds n s (Ok x) t \<longleftrightarrow> rules_created t = rules_created s + n" "adds n s (Err e) t" "adds n s Panic t"
  by (simp_all add: adds_def)

lemma bindW_adds: "wp m (adds n s) s \<Longrightarrow> wp (bindW msg m ok) (adds n s) s"
  by (auto simp: wp_simps elim!: wp_mono)

lemma bindW_adds': "wp m (adds n s) s \<Longrightarrow> wp (bindW msg m (\<lambda>_. ok ())) (adds n s) s"
  by (auto simp: wp_simps elim!: wp_mono)

lemma createRule_adds: "wp (v_createRule C g rule rem) (adds (Suc 0) s) s"
proof -
  have "wp (v_createRuleRemote C rem) (\<lambda>_ t. rules_created t = rules_created s) s"
    by (rule keeps_wp [OF keeps_rules_createRuleRemote])
  then show ?thesis
    unfolding v_createRule_def Let_def
    by (auto simp: wp_simps rules_created_call elim!: wp_mono)
qed

lemma loopM_adds:
  assumes "\<And>x b s. x \<in> set xs \<Longrightarrow> wp (f x b) (adds (Suc 0) s) s"
  shows "wp (loopM f xs b) (adds (length xs) s) s"
  using assms
proof (induction xs arbitrary: b s)
  case (Cons x xs)
  have "wp (f x b) (adds (Suc 0) s) s"
    by (rule Cons.prems) simp
  moreover have "wp (loopM f xs y) (adds (length xs) u) u" for y u
    by (rule Cons.IH) (simp add: Cons.prems)
  then have "wp (loopM f xs y) (adds (Suc (length xs)) s) u" if "rules_created u = Suc (rules_created s)" for y u
    by (rule wp_mono) (use that in \<open>auto simp: adds_def split: outcome.splits\<close>)
  ultimately show ?case
    by (auto simp: wp_simps elim!: wp_mono)
qed (simp add: wp_simps)

lemma portless_find_or_create:
  assumes "portless p"
  shows "wp (find_or_create C g rule p existing rem) (adds (Suc 0) s) s"
proof -
  have "wp (match_rules C (GroupRule_Direction rule) p rem existing) (\<lambda>r t. r \<noteq> Ok True \<and> rules_created t = rules_created s) s"
    by (intro wp_conj portless_match_rules [OF assms] keeps_wp keeps_rules_match_rules)
  moreover have "wp (bindW msg (v_createRule C g rule rem) ok) (adds (Suc 0) s) u" if "rules_created u = rules_created s" for u msg
    by (rule wp_mono [OF bindW_adds [OF createRule_adds]]) (use that in \<open>auto simp: adds_def split: outcome.splits\<close>)
  ultimately show ?thesis
    unfolding find_or_create_def wp_attempt wp_if by (fastforce elim!: wp_mono simp: wp_return)
qed

definition normalized_rule :: "GroupRule \<Rightarrow> GroupRule" where
  "normalized_rule rule = rule\<lparr>GroupRule_Destination := v_normalizedPrototype (GroupRule_Destination rule),
     GroupRule_Source := v_normalizedPrototype (GroupRule_Source rule)\<rparr>"

lemma normalized_side:
  "side_of_rule rule = Some p \<Longrightarrow> RulePrototype_Protocol p \<noteq> RuleProtocolAll \<Longrightarrow> side_of_rule (normalized_rule rule) = Some p"
  by (cases "GroupRule_Direction rule") (auto simp: side_of_rule_def normalized_rule_def v_normalizedPrototype_def)

lemma portless_findOrCreate:
  "side_of_rule rule = Some p \<Longrightarrow> portless p \<Longrightarrow>
     wp (findOrCreateSecurityGroupRule C g rule existing) (adds (length (RulePrototype_Remotes p)) s) s"
  by (cases "GroupRule_Direction rule")
    (auto simp: findOrCreateSecurityGroupRule_def side_of_rule_def deref_def intro!: loopM_adds portless_find_or_create)

lemma createRuleAllRemotes_adds:
  "side_of_rule rule = Some p \<Longrightarrow> wp (v_createRuleAllRemotes C g rule) (adds (length (RulePrototype_Remotes p)) s) s"
  by (cases "GroupRule_Direction rule")
    (auto simp: v_createRuleAllRemotes_def side_of_rule_def deref_def Let_def intro!: loopM_adds bindW_adds' createRule_adds)

lemma adds_from: "wp m (adds n u) u \<Longrightarrow> rules_created u = rules_created s \<Longrightarrow> wp m (adds n s) u"
  by (erule wp_mono) (auto simp: adds_def split: outcome.splits)

text \<open>
  C31: A rule for TCP or UDP without a port range matches no rule that exists, not even its own: every
  reconcile of it that succeeds sends one creation for each of its remotes again, whatever rules the group
  has.
\<close>

theorem portless_rule_created_again:
  assumes "run_state (v_reconcileRule C g rule) s = (Ok (), t)" and "side_of_rule rule = Some p" "portless p"
  shows "rules_created t = rules_created s + length (RulePrototype_Remotes p)"
proof -
  have side: "side_of_rule (normalized_rule rule) = Some p"
    by (rule normalized_side) (use assms(2,3) in \<open>auto simp: portless_def\<close>)
  have "wp (bindW msg (v_createRuleAllRemotes C g (normalized_rule rule)) ok) (adds (length (RulePrototype_Remotes p)) s) u"
    "wp (bindW msg (findOrCreateSecurityGroupRule C g (normalized_rule rule) xs) ok) (adds (length (RulePrototype_Remotes p)) s) u"
    if "rules_created u = rules_created s" for u msg xs
    by (rule adds_from [OF bindW_adds that], intro createRuleAllRemotes_adds portless_findOrCreate side assms(3))+
  then have "wp (v_reconcileRule C g rule) (adds (length (RulePrototype_Remotes p)) s) s"
    unfolding v_reconcileRule_def Let_def normalized_rule_def [symmetric]
    by (simp add: wp_bind wp_vapi wp_case_reply wp_if wp_return rules_created_call)
  then show ?thesis
    using assms(1) by (auto dest: wpD)
qed

definition example_rule :: "RulePrototype \<Rightarrow> GroupRule" where
  "example_rule p = \<lparr>GroupRule_Destination = None, GroupRule_Direction = RuleInbound, GroupRule_SecurityGroupID = None,
     GroupRule_Source = Some p\<rparr>"

definition listing :: "CloudRule list \<Rightarrow> vpc_clients" where
  "listing xs = example_vpc_cloud\<lparr>c_ListRules := \<lambda>_ _. Reply (Some xs)\<rparr>"

text \<open>A group that has a TCP rule for the subnet already.\<close>

definition example_tcp :: CloudRule where
  "example_tcp = CloudRuleTcpudp (Some ''rule'') (Some ''inbound'') (Some ''tcp'')
     (RemoteOf \<lparr>remote_CIDRBlock = Some ''10.0.0.0/24'', remote_Address = None, remote_Name = None, remote_ID = None, remote_CRN = None\<rparr>)
     (Some 1) (Some 65535)"

lemma portless_rule_created_again_witness:
  "rules_created (snd (run_state (v_reconcileRule (listing [example_tcp]) ''sg'' (example_rule (example_side RuleProtocolTCP None)))
     (example_vscope []))) = 1"
proof -
  let ?run = "run_state (v_reconcileRule (listing [example_tcp]) ''sg'' (example_rule (example_side RuleProtocolTCP None))) (example_vscope [])"
  have "fst ?run = Ok ()"
    by code_simp
  then have "?run = (Ok (), snd ?run)"
    by (simp add: prod_eq_iff)
  then have "rules_created (snd ?run) = rules_created (example_vscope []) + length (RulePrototype_Remotes (example_side RuleProtocolTCP None))"
    by (rule portless_rule_created_again) (simp_all add: side_of_rule_def example_rule_def example_side_def portless_def)
  then show ?thesis
    by (simp add: rules_created_def example_vscope_def example_side_def)
qed

section \<open>Rules that are open to any address\<close>

text \<open>Where the checks have no effect, the loop over the rules says whether one of them matches.\<close>

lemma match_rules_pure:
  assumes "\<And>x. x \<in> set existing \<Longrightarrow> run_state (checkRule C dir p rem x) u = (Ok (g x), u)"
  shows "run_state (match_rules C dir p rem existing) u = (Ok (\<exists>x \<in> set existing. g x), u)"
proof -
  have "run_state (loopM (\<lambda>x m. bindE (checkRule C dir p rem x) (\<lambda>found. ok (if found then True else m))) xs b) u =
      (Ok (b \<or> (\<exists>x \<in> set xs. g x)), u)" if "set xs \<subseteq> set existing" for xs b
    using that by (induction xs arbitrary: b) (auto simp: attempt_def assms)
  then show ?thesis by (simp add: match_rules_def)
qed

lemma any_not_individual: "\<not> individualSgr_match (RuleProtocol_string RuleProtocolAny)"
  by (simp add: individualSgr_match_def individual_names_def RuleProtocol_string_def)

lemma open_checkRule:
  assumes "RulePrototype_Protocol p = RuleProtocolAny" "RuleRemote_Type rem = RuleRemoteAny"
    and "\<And>d y. existing = CloudRuleAny d y \<Longrightarrow> d \<noteq> None \<and> y \<noteq> RemoteOfOtherType"
  shows "run_state (checkRule C dir p rem existing) u = (Ok (case existing of CloudRuleAny (Some d) (RemoteOf y) \<Rightarrow>
     d = RuleDirection_string dir \<and> (remote_Address y = None \<or> remote_Address y = Some CIDRBlockAny) | _ \<Rightarrow> False), u)"
  using assms any_not_individual
  by (cases existing)
    (auto simp: checkRule_def same_direction_def checkRemote_def as_remote_def deref_def attempt_def split: option.splits RemoteIntf.splits)

text \<open>
  A rule of the spec that lets in traffic from any address counts as there as soon as some rule of the
  group with its protocol and direction has a remote without a single address, such as the block of
  one subnet: the reconcile only lists the rules, and the rule of the spec is never created.
\<close>

theorem open_rule_taken_as_there:
  assumes "side_of_rule rule = Some p" and "RulePrototype_Protocol p = RuleProtocolAny"
    and "\<forall>rem \<in> set (RulePrototype_Remotes p). RuleRemote_Type rem = RuleRemoteAny"
    and "c_ListRules C (vtrace s) g = Reply (Some existing)"
    and "CloudRuleAny (Some (RuleDirection_string (GroupRule_Direction rule))) (RemoteOf x) \<in> set existing" "remote_Address x = None"
    and "\<And>d y. CloudRuleAny d y \<in> set existing \<Longrightarrow> d \<noteq> None \<and> y \<noteq> RemoteOfOtherType"
  shows "run_state (v_reconcileRule C g rule) s = (Ok (), s\<lparr>vtrace := vtrace s @ [VSG (VListRules g)]\<rparr>)"
proof -
  have dir: "GroupRule_Direction (normalized_rule rule) = GroupRule_Direction rule"
    by (simp add: normalized_rule_def)
  have one: "run_state (find_or_create C g (normalized_rule rule) p existing rem) u = (Ok (), u)"
    if "RuleRemote_Type rem = RuleRemoteAny" for rem u
  proof -
    have "run_state (match_rules C (GroupRule_Direction rule) p rem existing) u = (Ok True, u)"
      by (subst match_rules_pure [OF open_checkRule [OF assms(2) that]])
        (use assms(5,6,7) in \<open>auto intro!: bexI [of _ "CloudRuleAny _ (RemoteOf x)"]\<close>)
    then show ?thesis
      by (simp add: find_or_create_def attempt_def dir)
  qed
  have all: "run_state (loopM (\<lambda>rem _. find_or_create C g (normalized_rule rule) p existing rem) rems ()) u = (Ok (), u)"
    if "\<forall>rem \<in> set rems. RuleRemote_Type rem = RuleRemoteAny" for rems u
    using that by (induction rems) (simp_all add: one attempt_def)
  have "side_of_rule (normalized_rule rule) = Some p"
    by (rule normalized_side) (simp_all add: assms(1,2))
  then have "run_state (findOrCreateSecurityGroupRule C g (normalized_rule rule) existing) u = (Ok (), u)" for u
    using all [OF assms(3)]
    by (cases "GroupRule_Direction rule") (simp_all add: findOrCreateSecurityGroupRule_def side_of_rule_def dir deref_def)
  moreover have "existing \<noteq> []" using assms(5) by auto
  ultimately show ?thesis
    by (simp add: v_reconcileRule_def Let_def normalized_rule_def [symmetric] assms(4) attempt_def)
qed

lemma open_rule_taken_as_there_witness:
  "run_state (v_reconcileRule (listing [CloudRuleAny (Some ''inbound'') (RemoteOf
         \<lparr>remote_CIDRBlock = Some ''10.0.0.0/24'', remote_Address = None, remote_Name = None, remote_ID = None, remote_CRN = None\<rparr>)]) ''sg''
       (example_rule ((example_side RuleProtocolAny None)\<lparr>RulePrototype_Remotes := [example_remote RuleRemoteAny]\<rparr>))) (example_vscope []) =
     (Ok (), (example_vscope [])\<lparr>vtrace := vtrace (example_vscope []) @ [VSG (VListRules ''sg'')]\<rparr>)"
  by (rule open_rule_taken_as_there [where p = "(example_side RuleProtocolAny None)\<lparr>RulePrototype_Remotes := [example_remote RuleRemoteAny]\<rparr>"
        and x = "\<lparr>remote_CIDRBlock = Some ''10.0.0.0/24'', remote_Address = None, remote_Name = None, remote_ID = None, remote_CRN = None\<rparr>"
        and existing = "[CloudRuleAny (Some ''inbound'') (RemoteOf
          \<lparr>remote_CIDRBlock = Some ''10.0.0.0/24'', remote_Address = None, remote_Name = None, remote_ID = None, remote_CRN = None\<rparr>)]"])
    (simp_all add: side_of_rule_def example_rule_def example_side_def example_remote_def listing_def example_vpc_cloud_def
      RuleDirection_string_def)

text \<open>
  A rule for an ICMP code and type stops the controller with a nil dereference when the group has an
  ICMP rule of the same direction without a code as its first rule, for a remote of any address.
\<close>

theorem icmp_rule_panics:
  assumes "side_of_rule rule = Some p" and "RulePrototype_Protocol p = RuleProtocolIcmp"
    and "RulePrototype_ICMPCode p = Some code" "RulePrototype_ICMPType p = Some ty"
    and "RulePrototype_Remotes p = rem # rems" "RuleRemote_Type rem = RuleRemoteAny"
    and "c_ListRules C (vtrace s) g =
      Reply (Some (CloudRuleIcmp (Some (RuleDirection_string (GroupRule_Direction rule))) (RemoteOf x) None t # rest))"
    and "remote_Address x = None"
  shows "fst (run_state (v_reconcileRule C g rule) s) = Panic"
proof -
  let ?existing = "CloudRuleIcmp (Some (RuleDirection_string (GroupRule_Direction rule))) (RemoteOf x) None t # rest"
  have dir: "GroupRule_Direction (normalized_rule rule) = GroupRule_Direction rule"
    by (simp add: normalized_rule_def)
  have "run_state (find_or_create C g (normalized_rule rule) p ?existing rem) u = (Panic, u)" for u
    using assms(2,3,4,6,8)
    by (simp add: find_or_create_def match_rules_def checkRule_def same_direction_def checkIcmp_def checkRemote_def as_remote_def deref_def
        attempt_def dir)
  then have "fst (run_state (loopM (\<lambda>rem _. find_or_create C g (normalized_rule rule) p ?existing rem) (RulePrototype_Remotes p) ()) u) = Panic" for u
    by (simp add: assms(5) attempt_def)
  moreover have side: "side_of_rule (normalized_rule rule) = Some p"
    by (rule normalized_side) (simp_all add: assms(1,2))
  ultimately have "fst (run_state (findOrCreateSecurityGroupRule C g (normalized_rule rule) ?existing) u) = Panic" for u
    by (cases "GroupRule_Direction rule") (simp_all add: findOrCreateSecurityGroupRule_def side_of_rule_def dir deref_def)
  then show ?thesis
    by (simp add: v_reconcileRule_def Let_def normalized_rule_def [symmetric] assms(7) attempt_def split: prod.split outcome.split)
      (metis fst_conv outcome.distinct(3,5))
qed

definition example_icmp :: RulePrototype where
  "example_icmp = \<lparr>RulePrototype_ICMPCode = Some 0, RulePrototype_ICMPType = Some 8, RulePrototype_PortRange = None,
     RulePrototype_Protocol = RuleProtocolIcmp, RulePrototype_Remotes = [example_remote RuleRemoteAny]\<rparr>"

lemma icmp_rule_panics_witness:
  "fst (run_state (v_reconcileRule (listing [CloudRuleIcmp (Some ''inbound'') (RemoteOf
         \<lparr>remote_CIDRBlock = Some ''0.0.0.0/0'', remote_Address = None, remote_Name = None, remote_ID = None, remote_CRN = None\<rparr>) None None]) ''sg''
       (example_rule example_icmp)) (example_vscope [])) = Panic"
  by (rule icmp_rule_panics [where p = example_icmp and rest = "[]" and rem = "example_remote RuleRemoteAny" and rems = "[]" and code = 0 and ty = 8
        and t = None and x = "\<lparr>remote_CIDRBlock = Some ''0.0.0.0/0'', remote_Address = None, remote_Name = None, remote_ID = None, remote_CRN = None\<rparr>"])
    (simp_all add: side_of_rule_def example_rule_def example_icmp_def example_remote_def listing_def example_vpc_cloud_def
      RuleDirection_string_def)

end
