(* ===== verification/Ibmvpc_Subnets.thy ===== *)
theory Ibmvpc_Subnets
  imports Ibmvpc_Scope
begin

text \<open>
  The subnets of a VPC cluster with their public gateways (\<open>ReconcileSubnets\<close> and what it calls,
  \<^verbatim>\<open>pkg/cloud/scope/vpc/cluster_v2.go\<close>).
\<close>

section \<open>Error texts\<close>

definition msg_error_unknown_failure_retrieving_zones_for_region :: string where "msg_error_unknown_failure_retrieving_zones_for_region = ''error unknown failure retrieving zones for region''"
definition msg_error_retrieving_subnet_zones_no_zones_found_in :: string where "msg_error_retrieving_subnet_zones_no_zones_found_in = ''error retrieving subnet zones, no zones found in''"
definition msg_error_unknown_failure_retrieving_resource_group_id_for_public_gateway :: string where "msg_error_unknown_failure_retrieving_resource_group_id_for_public_gateway = ''error unknown failure retrieving resource group id for public gateway''"
definition msg_error_unknown_failure_retrieving_public_gateway_for_zone :: string where "msg_error_unknown_failure_retrieving_public_gateway_for_zone = ''error unknown failure retrieving public gateway for zone''"
definition msg_error_failed_retrieving_vpc_id_for_public_gateway_creation :: string where "msg_error_failed_retrieving_vpc_id_for_public_gateway_creation = ''error failed retrieving vpc id for public gateway creation''"
definition msg_error_failed_to_retrieve_vpc_id_for_public_gateway_creation :: string where "msg_error_failed_to_retrieve_vpc_id_for_public_gateway_creation = ''error failed to retrieve vpc id for public gateway creation''"
definition msg_error_unknown_failure_creating_public_gateway :: string where "msg_error_unknown_failure_creating_public_gateway = ''error unknown failure creating public gateway''"
definition msg_error_failed_creating_public_gateway_for_zone :: string where "msg_error_failed_creating_public_gateway_for_zone = ''error failed creating public gateway for zone''"
definition msg_error_failed_to_tag_public_gateway :: string where "msg_error_failed_to_tag_public_gateway = ''error failed to tag public gateway''"
definition msg_error_subnet_zone_must_be_defined_for_subnet :: string where "msg_error_subnet_zone_must_be_defined_for_subnet = ''error subnet zone must be defined for subnet''"
definition msg_error_retrieving_resource_group_id_for_subnet_creation :: string where "msg_error_retrieving_resource_group_id_for_subnet_creation = ''error retrieving resource group id for subnet creation''"
definition msg_error_retrieving_resource_group_id_for_resource_group :: string where "msg_error_retrieving_resource_group_id_for_resource_group = ''error retrieving resource group id for resource group''"
definition msg_error_retrieving_vpc_id_for_subnet_creation :: string where "msg_error_retrieving_vpc_id_for_subnet_creation = ''error retrieving vpc id for subnet creation''"
definition msg_error_failed_to_find_or_create_public_gateway_for_subnet :: string where "msg_error_failed_to_find_or_create_public_gateway_for_subnet = ''error failed to find or create public gateway for subnet''"
definition msg_error_unknown_failure_creating_vpc_subnet :: string where "msg_error_unknown_failure_creating_vpc_subnet = ''error unknown failure creating vpc subnet''"
definition msg_error_failed_to_tag_subnet :: string where "msg_error_failed_to_tag_subnet = ''error failed to tag subnet''"
definition msg_error_failed_creating_subnet :: string where "msg_error_failed_creating_subnet = ''error failed creating subnet''"
definition msg_error_retrieving_subnet_by_id :: string where "msg_error_retrieving_subnet_by_id = ''error retrieving subnet by id''"
definition msg_error_failed_to_find_subnet_with_id :: string where "msg_error_failed_to_find_subnet_with_id = ''error failed to find subnet with id''"
definition msg_error_retrieving_subnet_by_name :: string where "msg_error_retrieving_subnet_by_name = ''error retrieving subnet by name''"
definition msg_error_subnet_has_no_defined_id_or_name_one_is_required :: string where "msg_error_subnet_has_no_defined_id_or_name_one_is_required = ''error subnet has no defined id or name, one is required''"
definition msg_error_retrieving_existing_subnet_by_id :: string where "msg_error_retrieving_existing_subnet_by_id = ''error retrieving existing subnet by id''"
definition msg_error_failed_to_find_existing_subnet_by_id :: string where "msg_error_failed_to_find_existing_subnet_by_id = ''error failed to find existing subnet by id''"
definition msg_error_retrieving_existing_subnet_by_name :: string where "msg_error_retrieving_existing_subnet_by_name = ''error retrieving existing subnet by name''"
definition msg_error_failed_to_find_existing_subnet_by_name :: string where "msg_error_failed_to_find_existing_subnet_by_name = ''error failed to find existing subnet by name''"
definition msg_error_failed_building_control_plane_subnets :: string where "msg_error_failed_building_control_plane_subnets = ''error failed building control plane subnets''"
definition msg_error_failed_reconciling_control_plane_subnet :: string where "msg_error_failed_reconciling_control_plane_subnet = ''error failed reconciling control plane subnet''"
definition msg_error_failed_building_worker_subnets :: string where "msg_error_failed_building_worker_subnets = ''error failed building worker subnets''"
definition msg_error_failed_reconciling_worker_subnet :: string where "msg_error_failed_reconciling_worker_subnet = ''error failed reconciling worker subnet''"

section \<open>Which subnets\<close>

definition SubnetStatusAvailable :: string where "SubnetStatusAvailable = ''available''"
definition v_vpcSubnetIPVersion4 :: string where "v_vpcSubnetIPVersion4 = ''ipv4''"

text \<open>One subnet with a default name in every zone of the region.\<close>

definition zone_subnet :: "string \<Rightarrow> string \<Rightarrow> SubnetSpec" where
  "zone_subnet base zone = \<lparr>SubnetSpec_Ipv4CidrBlock = None, SubnetSpec_Name = Some (base @ ''-'' @ zone),
     SubnetSpec_ID = None, SubnetSpec_Zone = Some zone\<rparr>"

definition buildSubnetsForZones :: "vpc_clients \<Rightarrow> SubnetSpec list vproc" where
  "buildSubnetsForZones C = do {
     s \<leftarrow> State_Monad.get;
     r \<leftarrow> do_GetZones C (VSpec_Region (v_spec s));
     case r of
       Fail e _ \<Rightarrow> fail (Wrapf msg_error_unknown_failure_retrieving_zones_for_region e)
     | Reply zones \<Rightarrow>
         if zones = [] then fail (Errorf msg_error_retrieving_subnet_zones_no_zones_found_in)
         else bindE (GetServiceName ResourceTypeSubnet) (\<lambda>n. deref n (\<lambda>base. ok (map (zone_subnet base) zones))) }"

section \<open>Public gateways\<close>

text \<open>The public gateway of a zone, found by its name in the resource group, or created and tagged.\<close>

definition findOrCreatePublicGateway :: "vpc_clients \<Rightarrow> string \<Rightarrow> CloudGateway vproc" where
  "findOrCreatePublicGateway C zone =
     bindE (GetServiceName ResourceTypePublicGateway) (\<lambda>n. deref n (\<lambda>base.
     bindW msg_error_unknown_failure_retrieving_resource_group_id_for_public_gateway (v_GetResourceGroupID C) (\<lambda>g. do {
       let name = base @ ''-'' @ zone;
       r \<leftarrow> do_GetGatewayByName C name g;
       case r of
         Fail e _ \<Rightarrow> fail (Wrapf msg_error_unknown_failure_retrieving_public_gateway_for_zone e)
       | Reply x \<Rightarrow>
           if Option.bind x cgw_ID \<noteq> None then deref x (\<lambda>gw. ok gw)
           else bindW msg_error_failed_retrieving_vpc_id_for_public_gateway_creation (v_GetVPCID C) (\<lambda>vpcID. case vpcID of
               None \<Rightarrow> fail (Errorf msg_error_failed_to_retrieve_vpc_id_for_public_gateway_creation)
             | Some v \<Rightarrow> do {
                 let req = \<lparr>vcg_Name = Some name, vcg_ResourceGroup = g, vcg_VPC = v, vcg_Zone = zone\<rparr>;
                 c \<leftarrow> do_CreateGateway C req;
                 case c of
                   Fail e _ \<Rightarrow> fail (Wrapf msg_error_unknown_failure_creating_public_gateway e)
                 | Reply None \<Rightarrow> fail (Errorf msg_error_failed_creating_public_gateway_for_zone)
                 | Reply (Some gw) \<Rightarrow> (case (cgw_ID gw, cgw_CRN gw) of
                     (Some _, Some crn) \<Rightarrow> do {
                       s \<leftarrow> State_Monad.get;
                       attempt (v_TagResource C (VCluster_Name (v_cluster s)) crn)
                         (\<lambda>e. deref (cgw_Name gw) (\<lambda>_. fail (Wrapf msg_error_failed_to_tag_public_gateway e)))
                         (\<lambda>_. ok gw) }
                   | _ \<Rightarrow> fail (Errorf msg_error_failed_creating_public_gateway_for_zone)) }) })))"

section \<open>One subnet\<close>

definition plane_type :: "bool \<Rightarrow> VPCResourceType" where
  "plane_type isControlPlane = (if isControlPlane then ResourceTypeControlPlaneSubnet else ResourceTypeWorkerSubnet)"

definition updateSubnetStatus :: "CloudSubnet \<Rightarrow> bool \<Rightarrow> bool vproc" where
  "updateSubnetStatus d isControlPlane =
     (let requeue = (subnet_Status d \<noteq> Some SubnetStatusAvailable)
      in deref (subnet_ID d) (\<lambda>i.
           bindE (SetResourceStatus (plane_type isControlPlane) (Some (ready_status i (subnet_Name d) (\<not> requeue)))) (\<lambda>_. ok requeue)))"

definition v_subnet_request :: "SubnetSpec \<Rightarrow> string \<Rightarrow> string option \<Rightarrow> string \<Rightarrow> string option \<Rightarrow> VCreateSubnet" where
  "v_subnet_request subnet zone vpcID g gateway =
     \<lparr>vcs_Ipv4CIDRBlock = None, vcs_IPVersion = Some v_vpcSubnetIPVersion4, vcs_TotalIpv4AddressCount = Some 256,
      vcs_Name = SubnetSpec_Name subnet, vcs_VPC = vpcID, vcs_Zone = zone, vcs_ResourceGroup = g, vcs_PublicGateway = gateway\<rparr>"

text \<open>The name is dereferenced wherever an error is reported.\<close>

definition subnet_error :: "SubnetSpec \<Rightarrow> gerror \<Rightarrow> 'a vproc" where
  "subnet_error subnet e = deref (SubnetSpec_Name subnet) (\<lambda>_. fail e)"

definition v_createSubnet :: "vpc_clients \<Rightarrow> SubnetSpec \<Rightarrow> bool \<Rightarrow> unit vproc" where
  "v_createSubnet C subnet isControlPlane = (case SubnetSpec_Zone subnet of
      None \<Rightarrow> subnet_error subnet (Errorf msg_error_subnet_zone_must_be_defined_for_subnet)
    | Some zone \<Rightarrow>
        bindW msg_error_retrieving_resource_group_id_for_subnet_creation (v_GetResourceGroupID C) (\<lambda>g.
          if g = [] then fail (Errorf msg_error_retrieving_resource_group_id_for_resource_group)
          else bindW msg_error_retrieving_vpc_id_for_subnet_creation (v_GetVPCID C) (\<lambda>vpcID.
            attempt (findOrCreatePublicGateway C zone)
              (\<lambda>e. subnet_error subnet (Wrapf msg_error_failed_to_find_or_create_public_gateway_for_subnet e))
              (\<lambda>gw. do {
                let req = v_subnet_request subnet zone vpcID g (cgw_ID gw);
                r \<leftarrow> do_CreateSubnet C req;
                case snd r of
                  Some e \<Rightarrow> fail (Wrapf msg_error_unknown_failure_creating_vpc_subnet e)
                | None \<Rightarrow> (case (Option.bind (fst r) subnet_ID, Option.bind (fst r) subnet_CRN) of
                    (Some i, Some crn) \<Rightarrow>
                      bindE (SetResourceStatus (plane_type isControlPlane) (Some (ready_status i (Option.bind (fst r) subnet_Name) False))) (\<lambda>_. do {
                        s \<leftarrow> State_Monad.get;
                        attempt (v_TagResource C (VCluster_Name (v_cluster s)) crn)
                          (\<lambda>e. deref (Option.bind (fst r) subnet_Name) (\<lambda>_. fail (Wrapf msg_error_failed_to_tag_subnet e)))
                          (\<lambda>_. ok ()) })
                  | _ \<Rightarrow> subnet_error subnet (Errorf msg_error_failed_creating_subnet)) }))))"

text \<open>How a subnet that is in the status is looked up: by ID (\<open>Inl\<close>) or by name (\<open>Inr\<close>).\<close>

definition tracked_subnet :: "vscope \<Rightarrow> SubnetSpec \<Rightarrow> bool \<Rightarrow> (string + string) option" where
  "tracked_subnet s subnet isControlPlane = (case v_NetworkStatus s of
      None \<Rightarrow> None
    | Some n \<Rightarrow>
        (let m = (case (if isControlPlane then NetworkStatus_ControlPlaneSubnets n else NetworkStatus_WorkerSubnets n) of None \<Rightarrow> [] | Some x \<Rightarrow> x)
         in case SubnetSpec_Name subnet of
              Some name \<Rightarrow> if map_of m name \<noteq> None then Some (Inr name) else None
            | None \<Rightarrow> (case SubnetSpec_ID subnet of
                None \<Rightarrow> None
              | Some i \<Rightarrow> if \<exists>(k, st) \<in> set m. ResourceStatus_ID st = i then Some (Inl i) else None)))"

definition subnet_by_id :: "vpc_clients \<Rightarrow> string \<Rightarrow> string \<Rightarrow> string \<Rightarrow> bool \<Rightarrow> bool vproc" where
  "subnet_by_id C failed missing i isControlPlane = do {
     r \<leftarrow> do_GetSubnet C i;
     case r of
       Fail e _ \<Rightarrow> fail (Wrapf failed e)
     | Reply None \<Rightarrow> fail (Errorf missing)
     | Reply (Some d) \<Rightarrow> updateSubnetStatus d isControlPlane }"

definition reconcile_new_subnet :: "vpc_clients \<Rightarrow> SubnetSpec \<Rightarrow> bool \<Rightarrow> bool vproc" where
  "reconcile_new_subnet C subnet isControlPlane = (case SubnetSpec_ID subnet of
      Some i \<Rightarrow> subnet_by_id C msg_error_retrieving_subnet_by_id msg_error_failed_to_find_subnet_with_id i isControlPlane
    | None \<Rightarrow> deref (SubnetSpec_Name subnet) (\<lambda>name. do {
        r \<leftarrow> do_GetSubnetByName C name;
        case r of
          Fail e _ \<Rightarrow> fail (Wrapf msg_error_retrieving_subnet_by_name e)
        | Reply (Some d) \<Rightarrow> updateSubnetStatus d isControlPlane
        | Reply None \<Rightarrow> bindE (v_createSubnet C subnet isControlPlane) (\<lambda>_. ok True) }))"

definition v_reconcileSubnet :: "vpc_clients \<Rightarrow> SubnetSpec \<Rightarrow> bool \<Rightarrow> bool vproc" where
  "v_reconcileSubnet C subnet isControlPlane =
     (if SubnetSpec_ID subnet = None \<and> SubnetSpec_Name subnet = None
      then fail (Errorf msg_error_subnet_has_no_defined_id_or_name_one_is_required)
      else do {
        s \<leftarrow> State_Monad.get;
        case tracked_subnet s subnet isControlPlane of
          Some (Inl i) \<Rightarrow> subnet_by_id C msg_error_retrieving_existing_subnet_by_id msg_error_failed_to_find_existing_subnet_by_id i isControlPlane
        | Some (Inr name) \<Rightarrow> do {
            r \<leftarrow> do_GetSubnetByName C name;
            case r of
              Fail e _ \<Rightarrow> fail (Wrapf msg_error_retrieving_existing_subnet_by_name e)
            | Reply None \<Rightarrow> fail (Errorf msg_error_failed_to_find_existing_subnet_by_name)
            | Reply (Some d) \<Rightarrow> updateSubnetStatus d isControlPlane }
        | None \<Rightarrow> reconcile_new_subnet C subnet isControlPlane })"

section \<open>All subnets\<close>

text \<open>Every subnet of a plane is attempted; whether any of them needs another round.\<close>

definition reconcile_plane :: "vpc_clients \<Rightarrow> string \<Rightarrow> bool \<Rightarrow> SubnetSpec list \<Rightarrow> bool \<Rightarrow> bool vproc" where
  "reconcile_plane C failed isControlPlane =
     loopM (\<lambda>subnet requeue. bindW failed (v_reconcileSubnet C subnet isControlPlane) (\<lambda>again. ok (if again then True else requeue)))"

definition ReconcileSubnets :: "vpc_clients \<Rightarrow> bool vproc" where
  "ReconcileSubnets C = do {
     s \<leftarrow> State_Monad.get;
     deref (v_NetworkSpec s) (\<lambda>n.
       bindE (if NetworkSpec_ControlPlaneSubnets n = []
              then bindW msg_error_failed_building_control_plane_subnets (buildSubnetsForZones C) ok
              else ok (NetworkSpec_ControlPlaneSubnets n)) (\<lambda>cps.
       bindE (reconcile_plane C msg_error_failed_reconciling_control_plane_subnet True cps False) (\<lambda>requeue.
       bindE (if NetworkSpec_WorkerSubnets n \<noteq> [] then ok (NetworkSpec_WorkerSubnets n)
              else if NetworkSpec_ControlPlaneSubnets n \<noteq> [] then bindW msg_error_failed_building_worker_subnets (buildSubnetsForZones C) ok
              else ok cps) (\<lambda>workers.
       reconcile_plane C msg_error_failed_reconciling_worker_subnet False workers requeue)))) }"

end
