(* ===== verification/Ibmvpc_Balancers.thy ===== *)
theory Ibmvpc_Balancers
  imports Ibmvpc_Scope
begin

text \<open>
  The load balancers of a VPC cluster (\<open>ReconcileLoadBalancers\<close> and what it calls, and the host name the
  cluster is reached at, \<^verbatim>\<open>pkg/cloud/scope/vpc/cluster_v2.go\<close>).
\<close>

section \<open>Error texts\<close>

definition msg_error_failed_to_retrieve_load_balancer_with_id :: string where "msg_error_failed_to_retrieve_load_balancer_with_id = ''error failed to retrieve load balancer with id''"
definition msg_error_attempting_to_retrieve_load_balancer :: string where "msg_error_attempting_to_retrieve_load_balancer = ''error attempting to retrieve load balancer''"
definition msg_error_looking_up_load_balancer_subnet_by_id :: string where "msg_error_looking_up_load_balancer_subnet_by_id = ''error looking up load balancer subnet by id''"
definition msg_error_load_balancer_subnet_no_found :: string where "msg_error_load_balancer_subnet_no_found = ''error load balancer subnet no found''"
definition msg_error_looking_up_load_balancer_subnet_by_name :: string where "msg_error_looking_up_load_balancer_subnet_by_name = ''error looking up load balancer subnet by name''"
definition msg_error_load_balancer_subnet_not_found :: string where "msg_error_load_balancer_subnet_not_found = ''error load balancer subnet not found''"
definition msg_error_parsing_load_balancer_subnet_no_id_or_name_provided :: string where "msg_error_parsing_load_balancer_subnet_no_id_or_name_provided = ''error parsing load balancer subnet, no id or name provided''"
definition msg_error_collecting_subnet_ids_for_load_balancer_creation :: string where "msg_error_collecting_subnet_ids_for_load_balancer_creation = ''error collecting subnet IDs for load balancer creation''"
definition msg_error_looking_up_load_balancer_security_group_by_id :: string where "msg_error_looking_up_load_balancer_security_group_by_id = ''error looking up load balancer security group by id''"
definition msg_error_load_balancer_security_group_not_found :: string where "msg_error_load_balancer_security_group_not_found = ''error load balancer security group not found''"
definition msg_error_looking_up_load_balancer_security_group_by_name :: string where "msg_error_looking_up_load_balancer_security_group_by_name = ''error looking up load balancer security group by name''"
definition msg_error_parsing_load_balancer_security_group_no_id_or_name_provided :: string where "msg_error_parsing_load_balancer_security_group_no_id_or_name_provided = ''error parsing load balancer security group, no id or name provided''"
definition msg_error_collecting_load_balancer_subnets :: string where "msg_error_collecting_load_balancer_subnets = ''error collecting load balancer subnets''"
definition msg_error_collecting_load_balancer_security_groups :: string where "msg_error_collecting_load_balancer_security_groups = ''error collecting load balancer security groups''"
definition msg_error_getting_resource_group_id_for_resource_group :: string where "msg_error_getting_resource_group_id_for_resource_group = ''error getting resource group id for resource group''"
definition msg_error_creating_load_balancer :: string where "msg_error_creating_load_balancer = ''error creating load balancer''"
definition msg_error_tagging_load_balancer :: string where "msg_error_tagging_load_balancer = ''error tagging load balancer''"
definition msg_error_retrieving_load_balancer :: string where "msg_error_retrieving_load_balancer = ''error retrieving load balancer''"
definition msg_error_no_load_balancers_specified_for_cluster :: string where "msg_error_no_load_balancers_specified_for_cluster = ''error no load balancers specified for cluster''"
definition msg_error_maximum_of_two_load_balancers_can_be_defined_for_a_cluster :: string where "msg_error_maximum_of_two_load_balancers_can_be_defined_for_a_cluster = ''error maximum of two load balancers can be defined for a cluster''"
definition msg_error_defined_load_balancer_not_found_in_status :: string where "msg_error_defined_load_balancer_not_found_in_status = ''error defined load balancer not found in status''"
definition msg_error_retrieving_load_balancer_hostname_for :: string where "msg_error_retrieving_load_balancer_hostname_for = ''error retrieving load balancer hostname for''"
definition msg_error_retrieving_load_balancer_hostname_load_balancer_not_found :: string where "msg_error_retrieving_load_balancer_hostname_load_balancer_not_found = ''error retrieving load balancer hostname, load balancer not found''"
definition msg_error_no_load_balancers_defined_for_cluster :: string where "msg_error_no_load_balancers_defined_for_cluster = ''error no load balancers defined for cluster''"
definition msg_error_no_valid_load_balancer_found_to_retrieve_hostname :: string where "msg_error_no_valid_load_balancer_found_to_retrieve_hostname = ''error no valid load balancer found to retrieve hostname''"

section \<open>Names\<close>

text \<open>A load balancer without a name gets a default one, by whether it is public; public is the default.\<close>

definition lb_is_public :: "LoadBalancerSpec \<Rightarrow> bool" where
  "lb_is_public lb = (LoadBalancerSpec_Public lb \<noteq> Some False)"

definition v_lb_name :: "LoadBalancerSpec \<Rightarrow> string vproc" where
  "v_lb_name lb =
     (if LoadBalancerSpec_Name lb \<noteq> [] then ok (LoadBalancerSpec_Name lb)
      else bindE (GetServiceName ResourceTypeLoadBalancer) (\<lambda>n. deref n (\<lambda>base.
        ok (base @ ''-'' @ (if lb_is_public lb then v_publicLBSuffix else v_privateLBSuffix)))))"

section \<open>Lookup\<close>

definition isLoadBalancerReady :: "VPCLoadBalancerState \<Rightarrow> bool" where
  "isLoadBalancerReady st = (st = VPCLoadBalancerStateActive)"

definition lb_found :: "CloudLoadBalancer option \<Rightarrow> VPCLoadBalancerStatus option vproc" where
  "lb_found x = (case x of
      None \<Rightarrow> ok None
    | Some lb \<Rightarrow> deref (lb_ProvisioningStatus lb) (\<lambda>st.
        ok (Some \<lparr>VPCLoadBalancerStatus_ID = lb_ID lb, VPCLoadBalancerStatus_State = st,
                  VPCLoadBalancerStatus_Hostname = lb_Hostname lb, VPCLoadBalancerStatus_ControllerCreated = None\<rparr>)))"

definition getLoadBalancer :: "vpc_clients \<Rightarrow> LoadBalancerSpec \<Rightarrow> VPCLoadBalancerStatus option vproc" where
  "getLoadBalancer C lb = (case LoadBalancerSpec_ID lb of
      Some i \<Rightarrow> do {
        r \<leftarrow> do_GetLoadBalancer C (Some i);
        if fst (snd r) = Some 404 \<or> fst r = None then fail (Errorf msg_error_failed_to_retrieve_load_balancer_with_id)
        else (case snd (snd r) of
            Some e \<Rightarrow> fail (Wrapf msg_error_attempting_to_retrieve_load_balancer e)
          | None \<Rightarrow> lb_found (fst r)) }
    | None \<Rightarrow> bindE (v_lb_name lb) (\<lambda>name. do {
        r \<leftarrow> do_GetLoadBalancerByName C name;
        case r of
          Fail e _ \<Rightarrow> fail (Wrapf msg_error_attempting_to_retrieve_load_balancer e)
        | Reply x \<Rightarrow> lb_found x }))"

section \<open>The request\<close>

definition v_lb_pool :: "BackendPoolSpec \<Rightarrow> VPool" where
  "v_lb_pool p = (let m = BackendPoolSpec_HealthMonitor p in
     \<lparr>vpool_Algorithm = BackendPoolSpec_Algorithm p,
      vpool_HealthMonitor = \<lparr>vmon_Delay = HealthMonitorSpec_Delay m, vmon_MaxRetries = HealthMonitorSpec_Retries m,
        vmon_Timeout = HealthMonitorSpec_Timeout m, vmon_Type = HealthMonitorSpec_Type m, vmon_Port = HealthMonitorSpec_Port m,
        vmon_URLPath = HealthMonitorSpec_URLPath m\<rparr>,
      vpool_Name = BackendPoolSpec_Name p, vpool_Protocol = BackendPoolSpec_Protocol p\<rparr>)"

definition default_pool :: "string option \<Rightarrow> BackendPoolSpec" where
  "default_pool name = \<lparr>BackendPoolSpec_Name = name, BackendPoolSpec_Algorithm = VPCLoadBalancerBackendPoolAlgorithmRoundRobin,
     BackendPoolSpec_HealthMonitor = \<lparr>HealthMonitorSpec_Delay = 5, HealthMonitorSpec_Retries = 2, HealthMonitorSpec_Port = None,
       HealthMonitorSpec_Timeout = 2, HealthMonitorSpec_Type = VPCLoadBalancerBackendPoolHealthMonitorTypeTCP, HealthMonitorSpec_URLPath = None\<rparr>,
     BackendPoolSpec_Protocol = VPCLoadBalancerBackendPoolProtocolTCP\<rparr>"

definition getDefaultBackendPools :: "VPool list vproc" where
  "getDefaultBackendPools = bindE (GetServiceName ResourceTypeLoadBalancerPool) (\<lambda>n. ok [v_lb_pool (default_pool n)])"

definition v_lb_listener :: "AdditionalListenerSpec \<Rightarrow> VListener" where
  "v_lb_listener a = \<lparr>vlisten_Port = ListenerSpec_Port a,
     vlisten_Protocol = ptr_Deref (ListenerSpec_Protocol a) VPCLoadBalancerListenerProtocolTCP,
     vlisten_DefaultPool = map_option Some (ListenerSpec_DefaultPoolName a)\<rparr>"

definition getDefaultListeners :: "bool \<Rightarrow> VListener list vproc" where
  "getDefaultListeners defaultBackendPool =
     bindE (if defaultBackendPool then GetServiceName ResourceTypeLoadBalancerPool else ok None) (\<lambda>n.
       ok [v_lb_listener \<lparr>ListenerSpec_DefaultPoolName = n, ListenerSpec_Port = GetAPIServerPort,
             ListenerSpec_Protocol = Some VPCLoadBalancerListenerProtocolTCP,
             ListenerSpec_Selector = \<lparr>LabelSelector_MatchLabels = [], LabelSelector_MatchExpressions = []\<rparr>\<rparr>])"

text \<open>The subnets named in the spec, each by ID or name; without any, those of the control plane.\<close>

definition lb_subnet :: "vpc_clients \<Rightarrow> VPCResource \<Rightarrow> string vproc" where
  "lb_subnet C x = (case VPCResource_ID x of
      Some i \<Rightarrow> do {
        r \<leftarrow> do_GetSubnet C i;
        case r of
          Fail e _ \<Rightarrow> fail (Wrapf msg_error_looking_up_load_balancer_subnet_by_id e)
        | Reply None \<Rightarrow> fail (Errorf msg_error_load_balancer_subnet_no_found)
        | Reply (Some _) \<Rightarrow> ok i }
    | None \<Rightarrow> (case VPCResource_Name x of
        Some n \<Rightarrow> bindW msg_error_looking_up_load_balancer_subnet_by_name (GetSubnetID C n) (\<lambda>i. case i of
            None \<Rightarrow> fail (Errorf msg_error_load_balancer_subnet_not_found)
          | Some i' \<Rightarrow> ok i')
      | None \<Rightarrow> fail (Errorf msg_error_parsing_load_balancer_subnet_no_id_or_name_provided)))"

definition getLoadBalancerSubnetIDs :: "vpc_clients \<Rightarrow> LoadBalancerSpec \<Rightarrow> string list vproc" where
  "getLoadBalancerSubnetIDs C lb = (case LoadBalancerSpec_Subnets lb of
      Some xs \<Rightarrow> loopM (\<lambda>x ids. bindE (lb_subnet C x) (\<lambda>i. ok (ids @ [i]))) xs []
    | None \<Rightarrow> bindW msg_error_collecting_subnet_ids_for_load_balancer_creation (GetControlPlaneSubnetIDs C) ok)"

definition lb_group :: "vpc_clients \<Rightarrow> VPCResource \<Rightarrow> string vproc" where
  "lb_group C x = (case VPCResource_ID x of
      Some i \<Rightarrow> do {
        r \<leftarrow> do_GetSecurityGroup C i;
        case r of
          Fail e _ \<Rightarrow> fail (Wrapf msg_error_looking_up_load_balancer_security_group_by_id e)
        | Reply None \<Rightarrow> fail (Errorf msg_error_load_balancer_security_group_not_found)
        | Reply (Some _) \<Rightarrow> ok i }
    | None \<Rightarrow> (case VPCResource_Name x of
        Some n \<Rightarrow> bindW msg_error_looking_up_load_balancer_security_group_by_name (GetSecurityGroupID C n) (\<lambda>i. case i of
            None \<Rightarrow> fail (Errorf msg_error_load_balancer_security_group_not_found)
          | Some i' \<Rightarrow> ok i')
      | None \<Rightarrow> fail (Errorf msg_error_parsing_load_balancer_security_group_no_id_or_name_provided)))"

definition getLoadBalancerSecurityGroupIDs :: "vpc_clients \<Rightarrow> LoadBalancerSpec \<Rightarrow> string list vproc" where
  "getLoadBalancerSecurityGroupIDs C lb = (case LoadBalancerSpec_SecurityGroups lb of
      Some xs \<Rightarrow> loopM (\<lambda>x ids. bindE (lb_group C x) (\<lambda>i. ok (ids @ [i]))) xs []
    | None \<Rightarrow> ok [])"

definition v_lb_request :: "vpc_clients \<Rightarrow> LoadBalancerSpec \<Rightarrow> string \<Rightarrow> VCreateLoadBalancer vproc" where
  "v_lb_request C lb g =
     bindE (v_lb_name lb) (\<lambda>name.
     bindW msg_error_collecting_load_balancer_subnets (getLoadBalancerSubnetIDs C lb) (\<lambda>subnetIDs.
     bindW msg_error_collecting_load_balancer_security_groups (getLoadBalancerSecurityGroupIDs C lb) (\<lambda>groupIDs.
     bindE (case LoadBalancerSpec_BackendPools lb of Some ps \<Rightarrow> ok (map v_lb_pool ps) | None \<Rightarrow> getDefaultBackendPools) (\<lambda>pools.
     bindE (case LoadBalancerSpec_AdditionalListeners lb of Some ls \<Rightarrow> ok (map v_lb_listener ls)
            | None \<Rightarrow> getDefaultListeners (LoadBalancerSpec_BackendPools lb = None)) (\<lambda>listeners.
       ok \<lparr>vclb_IsPublic = lb_is_public lb, vclb_Name = name, vclb_ResourceGroup = g, vclb_Subnets = map Some subnetIDs,
           vclb_SecurityGroups = groupIDs, vclb_Pools = pools, vclb_Listeners = listeners\<rparr>)))))"

definition v_createLoadBalancer :: "vpc_clients \<Rightarrow> LoadBalancerSpec \<Rightarrow> unit vproc" where
  "v_createLoadBalancer C lb =
     bindE (v_GetResourceGroupID C) (\<lambda>g.
       if g = [] then fail (Errorf msg_error_getting_resource_group_id_for_resource_group)
       else bindE (v_lb_request C lb g) (\<lambda>req. do {
         r \<leftarrow> do_CreateLoadBalancer C req;
         case r of
           Fail e _ \<Rightarrow> fail (Wrapf msg_error_creating_load_balancer e)
         | Reply x \<Rightarrow> deref x (\<lambda>d. deref (lb_ProvisioningStatus d) (\<lambda>st.
             bindE (setLoadBalancerStatus \<lparr>VPCLoadBalancerStatus_ID = lb_ID d, VPCLoadBalancerStatus_State = st,
                 VPCLoadBalancerStatus_Hostname = lb_Hostname d, VPCLoadBalancerStatus_ControllerCreated = Some True\<rparr>) (\<lambda>_.
             deref (lb_CRN d) (\<lambda>crn. do {
               s \<leftarrow> State_Monad.get;
               bindW msg_error_tagging_load_balancer (v_TagResource C (VCluster_Name (v_cluster s)) crn) (\<lambda>_. ok ()) })))) }))"

section \<open>Reconciliation\<close>

definition reconcile_balancer :: "vpc_clients \<Rightarrow> LoadBalancerSpec \<Rightarrow> bool \<Rightarrow> bool vproc" where
  "reconcile_balancer C lb requeue =
     bindW msg_error_retrieving_load_balancer (getLoadBalancer C lb) (\<lambda>st. case st of
       Some x \<Rightarrow> bindE (setLoadBalancerStatus x) (\<lambda>_.
         ok (if isLoadBalancerReady (VPCLoadBalancerStatus_State x) then requeue else True))
     | None \<Rightarrow> bindW msg_error_creating_load_balancer (v_createLoadBalancer C lb) (\<lambda>_. ok True))"

definition ReconcileLoadBalancers :: "vpc_clients \<Rightarrow> bool vproc" where
  "ReconcileLoadBalancers C = do {
     s \<leftarrow> State_Monad.get;
     deref (v_NetworkSpec s) (\<lambda>n.
       if NetworkSpec_LoadBalancers n = [] then fail (Errorf msg_error_no_load_balancers_specified_for_cluster)
       else if length (NetworkSpec_LoadBalancers n) > 2 then fail (Errorf msg_error_maximum_of_two_load_balancers_can_be_defined_for_a_cluster)
       else loopM (reconcile_balancer C) (NetworkSpec_LoadBalancers n) False) }"

section \<open>The host name\<close>

text \<open>The first load balancer that is not private decides.\<close>

definition public_hostname :: "vpc_clients \<Rightarrow> VPCLoadBalancerStatus gomap \<Rightarrow> LoadBalancerSpec \<Rightarrow> string option vproc" where
  "public_hostname C tracked lb = (case LoadBalancerSpec_ID lb of
      Some i \<Rightarrow> (case map_of tracked i of
          Some x \<Rightarrow> ok (VPCLoadBalancerStatus_Hostname x)
        | None \<Rightarrow> fail (Errorf msg_error_defined_load_balancer_not_found_in_status))
    | None \<Rightarrow> bindE (v_lb_name lb) (\<lambda>name. do {
        r \<leftarrow> do_GetLoadBalancerByName C name;
        case r of
          Fail e _ \<Rightarrow> fail (Wrapf msg_error_retrieving_load_balancer_hostname_for e)
        | Reply None \<Rightarrow> fail (Errorf msg_error_retrieving_load_balancer_hostname_load_balancer_not_found)
        | Reply (Some d) \<Rightarrow> ok (lb_Hostname d) }))"

definition GetLoadBalancerHostName :: "vpc_clients \<Rightarrow> string option vproc" where
  "GetLoadBalancerHostName C = do {
     s \<leftarrow> State_Monad.get;
     let tracked = (case Option.bind (v_NetworkStatus s) NetworkStatus_LoadBalancers of None \<Rightarrow> [] | Some m \<Rightarrow> m);
     case tracked of
       [] \<Rightarrow> ok None
     | [(_, lb)] \<Rightarrow> ok (VPCLoadBalancerStatus_Hostname lb)
     | _ \<Rightarrow> deref (v_NetworkSpec s) (\<lambda>n.
         if NetworkSpec_LoadBalancers n = [] then fail (Errorf msg_error_no_load_balancers_defined_for_cluster)
         else (case find lb_is_public (NetworkSpec_LoadBalancers n) of
             Some lb \<Rightarrow> public_hostname C tracked lb
           | None \<Rightarrow> fail (Errorf msg_error_no_valid_load_balancer_found_to_retrieve_hostname))) }"

end
