(* ===== verification/Ibmvpc_Cluster_Controller.thy ===== *)
theory Ibmvpc_Cluster_Controller
  imports Ibmvpc_Subnets Ibmvpc_Rules Ibmvpc_Balancers Conditions
begin

text \<open>
  The controller of a VPC cluster with extended infrastructure support (\<open>reconcileCluster\<close> and
  \<open>reconcileDeleteV2\<close> of \<^verbatim>\<open>internal/controllers/vpc/ibmvpccluster_controller.go\<close>).
\<close>

section \<open>Conditions\<close>

text \<open>The parts of the cluster, with the names of their conditions (\<^verbatim>\<open>api/vpc/v1beta2/conditions_consts.go\<close>).\<close>

datatype vpc_part = PartVPC | PartImage | PartSubnets | PartGroups | PartBalancers

definition part_condition :: "vpc_part \<Rightarrow> string" where
  "part_condition p = (case p of PartVPC \<Rightarrow> ''VPCReady'' | PartImage \<Rightarrow> ''ImageReady'' | PartSubnets \<Rightarrow> ''VPCSubnetReady''
     | PartGroups \<Rightarrow> ''VPCSecurityGroupReady'' | PartBalancers \<Rightarrow> ''LoadBalancerReady'')"

definition part_failed :: "vpc_part \<Rightarrow> string" where
  "part_failed p = (case p of PartVPC \<Rightarrow> ''VPCReconciliationFailed'' | PartImage \<Rightarrow> ''ImageReconciliationFailed''
     | PartSubnets \<Rightarrow> ''VPCSubnetReconciliationFailed'' | PartGroups \<Rightarrow> ''VPCSecurityGroupReconciliationFailed''
     | PartBalancers \<Rightarrow> ''LoadBalancerReconciliationFailed'')"

definition part_condition_v1beta2 :: "vpc_part \<Rightarrow> string" where
  "part_condition_v1beta2 p = (case p of PartVPC \<Rightarrow> ''VPCReady'' | PartImage \<Rightarrow> ''VPCImageReady'' | PartSubnets \<Rightarrow> ''VPCSubnetReady''
     | PartGroups \<Rightarrow> ''VPCSecurityGroupReady'' | PartBalancers \<Rightarrow> ''LoadBalancerReady'')"

text \<open>\<open>MarkTrue\<close>, \<open>MarkFalse\<close> and \<open>MarkUnknown\<close> of the deprecated conditions, and \<open>Set\<close> of the others.\<close>

definition marked :: "string \<Rightarrow> ConditionStatus \<Rightarrow> string \<Rightarrow> string \<Rightarrow> gerror option \<Rightarrow> DeprecatedCondition" where
  "marked ty st reason severity msg =
     \<lparr>DeprecatedCondition_Type = ty, DeprecatedCondition_Status = st, DeprecatedCondition_Severity = severity,
      DeprecatedCondition_Reason = reason, DeprecatedCondition_Message = msg\<rparr>"

definition condition_of :: "string \<Rightarrow> ConditionStatus \<Rightarrow> string \<Rightarrow> gerror option \<Rightarrow> Condition" where
  "condition_of ty st reason msg =
     \<lparr>Condition_Type = ty, Condition_Status = st, Condition_Reason = reason, Condition_Message = msg\<rparr>"

definition put_conditions :: "capi \<Rightarrow> DeprecatedCondition list \<Rightarrow> Condition list \<Rightarrow> IBMVPCCluster \<Rightarrow> IBMVPCCluster" where
  "put_conditions K ds cs c =
     (let c' = vpc_SetConditions c (foldl (deprecated_Set K) (vpc_GetConditions c) ds)
      in if cs = [] then c' else vpc_SetV1Beta2Conditions c' (foldl (conditions_Set K) (vpc_GetV1Beta2Conditions c') cs))"

definition mark_part_failed :: "capi \<Rightarrow> vpc_part \<Rightarrow> gerror \<Rightarrow> (vscope, unit) state" where
  "mark_part_failed K p e = upd_vcluster (put_conditions K
     [marked (part_condition p) ConditionFalse (part_failed p) ConditionSeverityError (Some e)]
     [condition_of (part_condition_v1beta2 p) ConditionFalse NotReadyReason (Some e)])"

definition mark_part_ready :: "capi \<Rightarrow> vpc_part \<Rightarrow> (vscope, unit) state" where
  "mark_part_ready K p = upd_vcluster (put_conditions K
     [marked (part_condition p) ConditionTrue [] [] None]
     [condition_of (part_condition_v1beta2 p) ConditionTrue ReadyReason None])"

section \<open>Reconcile\<close>

text \<open>
  One part: a failure is reported and returned, a part that is pending ends the reconcile with a requeue after
  15 seconds (\<open>None\<close> is passed on when it is done).
\<close>

definition reconcile_part :: "capi \<Rightarrow> vpc_part \<Rightarrow> bool vproc \<Rightarrow> Result vproc \<Rightarrow> Result vproc" where
  "reconcile_part K p step rest =
     attempt step
       (\<lambda>e. do { mark_part_failed K p e; fail e })
       (\<lambda>requeue. if requeue then ok \<lparr>RequeueAfter = 15\<rparr> else do { mark_part_ready K p; rest })"

definition msg_error_retrieving_lb_hostname :: string where "msg_error_retrieving_lb_hostname = ''error retrieving load balancer hostname''"

definition announce_cluster :: "string \<Rightarrow> IBMVPCCluster \<Rightarrow> IBMVPCCluster" where
  "announce_cluster host c =
     c\<lparr>VCluster_Spec := (VCluster_Spec c)\<lparr>VSpec_EndpointHost := host, VSpec_EndpointPort := GetAPIServerPort\<rparr>,
       VCluster_Status := (VCluster_Status c)\<lparr>VStatus_Ready := True\<rparr>\<rparr>"

definition publish_cluster :: "vpc_clients \<Rightarrow> Result vproc" where
  "publish_cluster C =
     bindW msg_error_retrieving_lb_hostname (GetLoadBalancerHostName C) (\<lambda>hostName.
       case hostName of
         None \<Rightarrow> ok \<lparr>RequeueAfter = 15\<rparr>
       | Some host \<Rightarrow> if host = [] then ok \<lparr>RequeueAfter = 15\<rparr>
                     else do { upd_vcluster (announce_cluster host); ok finished })"

text \<open>\<open>controllerutil.AddFinalizer\<close> returns the list and whether the finalizer was added.\<close>

definition reconcileCluster :: "capi \<Rightarrow> (string list \<Rightarrow> string \<Rightarrow> string list \<times> bool) \<Rightarrow> vpc_clients \<Rightarrow> Result vproc" where
  "reconcileCluster K AddFinalizer C = do {
     s \<leftarrow> State_Monad.get;
     let added = AddFinalizer (VCluster_Finalizers (v_cluster s)) ClusterFinalizer;
     upd_vcluster (\<lambda>c. c\<lparr>VCluster_Finalizers := fst added\<rparr>);
     if snd added then ok finished
     else reconcile_part K PartVPC (v_ReconcileVPC C)
         (reconcile_part K PartImage (ReconcileVPCCustomImage C)
         (reconcile_part K PartSubnets (ReconcileSubnets C)
         (reconcile_part K PartGroups (v_ReconcileSecurityGroups C)
         (reconcile_part K PartBalancers (ReconcileLoadBalancers C) (publish_cluster C))))) }"

text \<open>Deletion is not implemented: nothing is deleted, the finalizer goes.\<close>

definition reconcileDeleteV2 :: "capi \<Rightarrow> Result vproc" where
  "reconcileDeleteV2 K = do {
     upd_vcluster (\<lambda>c. c\<lparr>VCluster_Finalizers := RemoveFinalizer K (VCluster_Finalizers c) ClusterFinalizer\<rparr>);
     ok finished }"

end
