(* ===== verification/Ibmvpc_Frames.thy ===== *)
theory Ibmvpc_Frames
  imports Ibmvpc_Cluster_Controller
begin

text \<open>
  What the parts of a VPC cluster leave alone: the parts that follow the VPC make no VPC, and they keep the
  spec, the name and the VPC entry of the status. \<open>steady\<close> is the frame of such a part.
\<close>

section \<open>The frame\<close>

definition is_vpc_creation :: "vcall \<Rightarrow> bool" where
  "is_vpc_creation c = (case c of VPCS (VCreateVPC _) \<Rightarrow> True | _ \<Rightarrow> False)"

lemma is_vpc_creation_simps [simp]:
  "is_vpc_creation (VPCS x) = (case x of VCreateVPC _ \<Rightarrow> True | _ \<Rightarrow> False)"
  "\<not> is_vpc_creation (VRM a)" "\<not> is_vpc_creation (VNET b)" "\<not> is_vpc_creation (VSG c)" "\<not> is_vpc_creation (VLB d)"
  by (simp_all add: is_vpc_creation_def)

definition vpc_entry :: "vscope \<Rightarrow> ResourceStatus option" where
  "vpc_entry s = Option.bind (v_NetworkStatus s) NetworkStatus_VPC"

definition steady :: "vscope \<Rightarrow> vscope \<Rightarrow> bool" where
  "steady s t \<longleftrightarrow> (\<exists>cs. vtrace t = vtrace s @ cs \<and> list_all (\<lambda>c. \<not> is_vpc_creation c) cs) \<and>
     v_spec t = v_spec s \<and> VCluster_Name (v_cluster t) = VCluster_Name (v_cluster s) \<and> (vpc_entry s \<noteq> None \<longrightarrow> vpc_entry t = vpc_entry s)"

interpretation steady: frame steady
proof unfold_locales
  show "steady s s" for s
    by (auto simp: steady_def)
  show "steady s u" if st: "steady s t" and tu: "steady t u" for s t u
  proof -
    obtain cs ds where "vtrace t = vtrace s @ cs" "list_all (\<lambda>c. \<not> is_vpc_creation c) cs"
      "vtrace u = vtrace t @ ds" "list_all (\<lambda>c. \<not> is_vpc_creation c) ds"
      using st tu by (auto simp: steady_def)
    then have "vtrace u = vtrace s @ (cs @ ds) \<and> list_all (\<lambda>c. \<not> is_vpc_creation c) (cs @ ds)"
      by simp
    then show ?thesis
      using st tu unfolding steady_def by metis
  qed
qed

lemma steady_call: "\<not> is_vpc_creation c \<Longrightarrow> steady s (s\<lparr>vtrace := vtrace s @ [c]\<rparr>)"
  by (auto simp: steady_def vpc_entry_def v_NetworkStatus_def)

lemma steady_api: "\<not> is_vpc_creation c \<Longrightarrow> state_io_rel steady (vapi f c)"
  by (simp add: state_io_rel_def steady_call)

lemma steady_update:
  assumes "\<And>c. VCluster_Spec (f c) = VCluster_Spec c" "\<And>c. VCluster_Name (f c) = VCluster_Name c"
    and "\<And>c. VStatus_Network (VCluster_Status (f c)) = VStatus_Network (VCluster_Status c)"
  shows "state_io_rel steady (upd_vcluster f)"
  unfolding upd_vcluster_def
  by (rule steady.fr_modify) (simp add: steady_def vpc_entry_def v_NetworkStatus_def assms)

text \<open>A change to the network status other than to the entry of the VPC.\<close>

lemma steady_network:
  assumes "\<And>n. NetworkStatus_VPC (f n) = NetworkStatus_VPC n"
  shows "state_io_rel steady (upd_network f)"
  unfolding upd_network_def upd_vstatus_def upd_vcluster_def
  by (rule steady.fr_modify) (auto simp: steady_def vpc_entry_def v_NetworkStatus_def assms no_network_status_def split: option.splits)

section \<open>The status\<close>

lemma steady_SetResourceStatus: "ty \<noteq> VPCResourceType.ResourceTypeVPC \<Longrightarrow> state_io_rel steady (SetResourceStatus ty r)"
  unfolding SetResourceStatus_def
  by (cases ty) (auto intro!: steady.fr_rules steady_network steady_update simp: upd_vstatus_def)

lemma steady_setLoadBalancerStatus: "state_io_rel steady (setLoadBalancerStatus lb)"
  unfolding setLoadBalancerStatus_def by (intro steady.fr_rules steady_network; simp)

section \<open>Shared lookups\<close>

lemma steady_GetServiceName: "state_io_rel steady (GetServiceName ty)"
  unfolding GetServiceName_def by (cases ty) (simp_all, (intro steady.fr_rules; simp)+)

lemma steady_TagResource: "state_io_rel steady (v_TagResource C x y)"
  unfolding v_TagResource_def v_CheckTagExists_def by (intro steady.fr_rules steady_api; simp)

lemma steady_GetResourceGroupID: "state_io_rel steady (v_GetResourceGroupID C)"
  unfolding v_GetResourceGroupID_def by (intro steady.fr_rules steady_api steady_SetResourceStatus; simp)

text \<open>The ID of the VPC changes the status only when there is no entry yet.\<close>

lemma wp_upd_network [wp_simps]:
  "wp (upd_network f) Q s = Q () (s\<lparr>v_cluster := (v_cluster s)\<lparr>VCluster_Status := (v_status s)\<lparr>VStatus_Network :=
     Some (f (case VStatus_Network (v_status s) of None \<Rightarrow> no_network_status | Some n \<Rightarrow> n))\<rparr>\<rparr>\<rparr>)"
  by (simp add: upd_network_def wp_simps)

lemma SetResourceStatus_VPC:
  "wp (SetResourceStatus VPCResourceType.ResourceTypeVPC (Some x)) (\<lambda>r t. r = Ok () \<and> vtrace t = vtrace s \<and> v_spec t = v_spec s \<and>
     VCluster_Name (v_cluster t) = VCluster_Name (v_cluster s) \<and> vpc_entry t = Some (put_status (vpc_entry s) x)) s"
  by (simp add: SetResourceStatus_def wp_simps vpc_entry_def v_NetworkStatus_def no_network_status_def split: option.splits)

lemma steady_GetVPCID: "state_io_rel steady (v_GetVPCID C)"
proof -
  have "wp (v_GetVPCID C) (\<lambda>_ t. steady s t) s" for s
  proof (cases "vpc_entry s")
    case (Some x)
    then show ?thesis
      by (simp add: v_GetVPCID_def wp_simps vpc_entry_def steady.R_refl)
  next
    case None
    have set: "wp (SetResourceStatus VPCResourceType.ResourceTypeVPC (Some x)) (\<lambda>r t. r = Ok () \<and> steady s t) (s\<lparr>vtrace := vtrace s @ [VPCS (VGetVPCByName n)]\<rparr>)" for x n
      using steady_call [of "VPCS (VGetVPCByName n)" s] None
      by (intro wp_mono [OF SetResourceStatus_VPC]) (auto simp: steady_def)
    have "steady s (s\<lparr>vtrace := vtrace s @ [VPCS (VGetVPCByName n)]\<rparr>)" for n
      by (rule steady_call) simp
    then show ?thesis
      by (auto simp: v_GetVPCID_def wp_simps steady.R_refl intro!: wp_mono [OF set])
  qed
  then show ?thesis
    by (simp add: state_io_rel_def wp_def case_prod_beta)
qed

section \<open>The custom image\<close>

lemma steady_track_image: "state_io_rel steady (track_image i n st)"
  unfolding track_image_def by (intro steady.fr_rules steady_SetResourceStatus; simp)

lemma steady_createCustomImage: "state_io_rel steady (createCustomImage C)"
  unfolding createCustomImage_def image_group_def
  by (intro steady.fr_rules steady_api steady_GetResourceGroupID steady_SetResourceStatus steady_TagResource; simp)

lemma steady_case_sum:
  "(\<And>x. state_io_rel steady (f x)) \<Longrightarrow> (\<And>y. state_io_rel steady (g y)) \<Longrightarrow>
     state_io_rel steady (case p of Inl x \<Rightarrow> f x | Inr y \<Rightarrow> g y)"
  by (cases p) simp_all

lemma steady_ReconcileVPCCustomImage: "state_io_rel steady (ReconcileVPCCustomImage C)"
  unfolding ReconcileVPCCustomImage_def image_known_def
  by (intro steady.fr_rules steady_case_sum steady_api steady_track_image steady_createCustomImage; simp)

section \<open>Subnets\<close>

lemma steady_buildSubnetsForZones: "state_io_rel steady (buildSubnetsForZones C)"
  unfolding buildSubnetsForZones_def by (intro steady.fr_rules steady_api steady_GetServiceName; simp)

lemma steady_findOrCreatePublicGateway: "state_io_rel steady (findOrCreatePublicGateway C z)"
  unfolding findOrCreatePublicGateway_def
  by (intro steady.fr_rules steady_api steady_GetServiceName steady_GetResourceGroupID steady_GetVPCID steady_TagResource; simp)

lemma plane_type_not_vpc [simp]: "plane_type b \<noteq> VPCResourceType.ResourceTypeVPC"
  by (simp add: plane_type_def)

lemma steady_updateSubnetStatus: "state_io_rel steady (updateSubnetStatus d b)"
  unfolding updateSubnetStatus_def by (intro steady.fr_rules steady_SetResourceStatus; simp)

lemma steady_createSubnet: "state_io_rel steady (v_createSubnet C sub b)"
  unfolding v_createSubnet_def subnet_error_def
  by (intro steady.fr_rules steady_api steady_GetResourceGroupID steady_GetVPCID steady_findOrCreatePublicGateway
      steady_SetResourceStatus steady_TagResource; simp)

lemma steady_subnet_by_id: "state_io_rel steady (subnet_by_id C x y i b)"
  unfolding subnet_by_id_def by (intro steady.fr_rules steady_api steady_updateSubnetStatus; simp)

lemma steady_reconcileSubnet: "state_io_rel steady (v_reconcileSubnet C sub b)"
  unfolding v_reconcileSubnet_def reconcile_new_subnet_def
  by (intro steady.fr_rules steady_case_sum steady_api steady_subnet_by_id steady_updateSubnetStatus steady_createSubnet; simp)

lemma steady_reconcile_plane: "state_io_rel steady (reconcile_plane C e b xs r)"
  unfolding reconcile_plane_def by (intro steady.fr_rules steady_reconcileSubnet)

lemma steady_ReconcileSubnets: "state_io_rel steady (ReconcileSubnets C)"
  unfolding ReconcileSubnets_def by (intro steady.fr_rules steady_buildSubnetsForZones steady_reconcile_plane)

section \<open>Security groups\<close>

lemma steady_track_group: "state_io_rel steady (track_group i n)"
  unfolding track_group_def by (rule steady_SetResourceStatus) simp

lemma steady_createSecurityGroup: "state_io_rel steady (v_createSecurityGroup C sg)"
  unfolding v_createSecurityGroup_def
  by (intro steady.fr_rules steady_api steady_GetVPCID steady_GetResourceGroupID steady_track_group steady_TagResource; simp)

lemma steady_reconcileSecurityGroup: "state_io_rel steady (v_reconcileSecurityGroup C sg)"
  unfolding v_reconcileSecurityGroup_def group_known_def
  by (intro steady.fr_rules steady_case_sum steady_api steady_track_group steady_createSecurityGroup; simp)

lemma steady_createRuleRemote: "state_io_rel steady (v_createRuleRemote C rem)"
  unfolding v_createRuleRemote_def
  by (cases "RuleRemote_Type rem") (simp_all, (intro steady.fr_rules steady_api; simp)+)

lemma steady_createRule: "state_io_rel steady (v_createRule C g rule rem)"
  unfolding v_createRule_def by (intro steady.fr_rules steady_api steady_createRuleRemote; simp)

lemma steady_createRuleAllRemotes: "state_io_rel steady (v_createRuleAllRemotes C g rule)"
  unfolding v_createRuleAllRemotes_def
  by (cases "GroupRule_Direction rule") (simp_all only: RuleDirection.case, (intro steady.fr_rules steady_createRule)+)

lemma steady_as_remote: "(\<And>y. state_io_rel steady (k y)) \<Longrightarrow> state_io_rel steady (as_remote x k)"
  unfolding as_remote_def by (cases x) (simp_all add: steady.fr_return)

lemma steady_checkRemote: "state_io_rel steady (checkRemote C rem x)"
  unfolding checkRemote_def check_cidr_def check_group_def
  by (cases "RuleRemote_Type rem") (simp_all, (intro steady_as_remote steady.fr_rules steady_api; simp)+)

lemma steady_checkRule: "state_io_rel steady (checkRule C dir p rem existing)"
  unfolding checkRule_def same_direction_def checkIcmp_def checkTcpudp_def checkIndividual_def
  by (cases existing) (simp_all only: CloudRule.case, (intro steady.fr_rules steady_checkRemote)+)

lemma steady_match_rules: "state_io_rel steady (match_rules C dir p rem existing)"
  unfolding match_rules_def by (intro steady.fr_rules steady_checkRule)

lemma steady_findOrCreate: "state_io_rel steady (findOrCreateSecurityGroupRule C g rule existing)"
  unfolding findOrCreateSecurityGroupRule_def find_or_create_def
  by (cases "GroupRule_Direction rule")
    (simp_all only: RuleDirection.case, (intro steady.fr_rules steady_match_rules steady_createRule)+)

lemma steady_reconcileRules: "state_io_rel steady (v_reconcileRules C sg)"
  unfolding v_reconcileRules_def v_reconcileRule_def
  by (intro steady.fr_rules steady_api steady_createRuleAllRemotes steady_findOrCreate; simp)

lemma steady_ReconcileSecurityGroups: "state_io_rel steady (v_ReconcileSecurityGroups C)"
  unfolding v_ReconcileSecurityGroups_def by (intro steady.fr_rules steady_reconcileSecurityGroup steady_reconcileRules)

section \<open>Load balancers\<close>

lemma steady_lb_name: "state_io_rel steady (v_lb_name lb)"
  unfolding v_lb_name_def by (intro steady.fr_rules steady_GetServiceName)

lemma steady_lb_found: "state_io_rel steady (lb_found x)"
  unfolding lb_found_def by (intro steady.fr_rules)

lemma steady_getLoadBalancer: "state_io_rel steady (getLoadBalancer C lb)"
  unfolding getLoadBalancer_def by (intro steady.fr_rules steady_api steady_lb_name steady_lb_found; simp)

lemma steady_lb_subnet: "state_io_rel steady (lb_subnet C x)"
  unfolding lb_subnet_def GetSubnetID_def by (intro steady.fr_rules steady_api; simp)

lemma steady_lb_group: "state_io_rel steady (lb_group C x)"
  unfolding lb_group_def GetSecurityGroupID_def by (intro steady.fr_rules steady_api; simp)

lemma steady_lb_request: "state_io_rel steady (v_lb_request C lb g)"
  unfolding v_lb_request_def getLoadBalancerSubnetIDs_def getLoadBalancerSecurityGroupIDs_def GetControlPlaneSubnetIDs_def
    getDefaultBackendPools_def getDefaultListeners_def
  by (intro steady.fr_rules steady_lb_name steady_lb_subnet steady_lb_group steady_GetServiceName)

lemma steady_createLoadBalancer: "state_io_rel steady (v_createLoadBalancer C lb)"
  unfolding v_createLoadBalancer_def
  by (intro steady.fr_rules steady_api steady_GetResourceGroupID steady_lb_request steady_setLoadBalancerStatus steady_TagResource; simp)

lemma steady_reconcile_balancer: "state_io_rel steady (reconcile_balancer C lb r)"
  unfolding reconcile_balancer_def
  by (intro steady.fr_rules steady_getLoadBalancer steady_setLoadBalancerStatus steady_createLoadBalancer)

lemma steady_ReconcileLoadBalancers: "state_io_rel steady (ReconcileLoadBalancers C)"
  unfolding ReconcileLoadBalancers_def by (intro steady.fr_rules steady_reconcile_balancer)

lemma steady_case_list:
  "state_io_rel steady m \<Longrightarrow> (\<And>x xs. state_io_rel steady (f x xs)) \<Longrightarrow> state_io_rel steady (case l of [] \<Rightarrow> m | x # xs \<Rightarrow> f x xs)"
  by (cases l) simp_all

lemma steady_GetLoadBalancerHostName: "state_io_rel steady (GetLoadBalancerHostName C)"
  unfolding GetLoadBalancerHostName_def public_hostname_def
  by (intro steady.fr_rules steady_case_list steady_api steady_lb_name; simp)

section \<open>Conditions\<close>

lemma put_conditions_keeps [simp]:
  "VCluster_Spec (put_conditions K ds cs c) = VCluster_Spec c" "VCluster_Name (put_conditions K ds cs c) = VCluster_Name c"
  "VStatus_Network (VCluster_Status (put_conditions K ds cs c)) = VStatus_Network (VCluster_Status c)"
  by (simp_all add: put_conditions_def Let_def vpc_SetConditions_def vpc_SetV1Beta2Conditions_def)

lemma steady_marks: "state_io_rel steady (mark_part_failed K p e)" "state_io_rel steady (mark_part_ready K p)"
  unfolding mark_part_failed_def mark_part_ready_def by (rule steady_update; simp)+

end
