(* ===== verification/Ibmvpc_Properties.thy ===== *)
theory Ibmvpc_Properties
  imports Ibmvpc_Frames Ibmvpc_Example
begin

text \<open>
  Properties of the reconcile of a VPC cluster as a whole: one VPC over any number of reconciles, and what a
  cluster that is announced ready was seen to have.
\<close>

section \<open>One VPC\<close>

text \<open>Call \<open>i\<close> of the history created a VPC.\<close>

definition makes_vpc :: "vpc_clients \<Rightarrow> vhistory \<Rightarrow> vcall \<Rightarrow> bool" where
  "makes_vpc C h c = (case c of
     VPCS (VCreateVPC r) \<Rightarrow> (case c_CreateVPC C h r of Reply (Some v) \<Rightarrow> vpc_ID v \<noteq> None | _ \<Rightarrow> False)
   | _ \<Rightarrow> False)"

definition vpc_made :: "vpc_clients \<Rightarrow> vhistory \<Rightarrow> nat \<Rightarrow> bool" where
  "vpc_made C tr i \<longleftrightarrow> i < length tr \<and> makes_vpc C (take i tr) (tr ! i)"

definition one_vpc :: "vpc_clients \<Rightarrow> vhistory \<Rightarrow> bool" where
  "one_vpc C tr \<longleftrightarrow> (\<forall>i j. vpc_made C tr i \<longrightarrow> i < j \<longrightarrow> j < length tr \<longrightarrow> \<not> is_vpc_creation (tr ! j))"

definition vpc_invariant :: "vpc_clients \<Rightarrow> vscope \<Rightarrow> bool" where
  "vpc_invariant C s \<longleftrightarrow> one_vpc C (vtrace s) \<and> ((\<exists>i. vpc_made C (vtrace s) i) \<longrightarrow> vpc_entry s \<noteq> None)"

lemma vpc_made_creation: "vpc_made C tr i \<Longrightarrow> is_vpc_creation (tr ! i)"
  by (auto simp: vpc_made_def makes_vpc_def is_vpc_creation_def split: vcall.splits vpc_vcall.splits)

lemma vpc_made_append: "i < length tr \<Longrightarrow> vpc_made C (tr @ cs) i \<longleftrightarrow> vpc_made C tr i"
  by (simp add: vpc_made_def nth_append)

lemma vpc_made_quiet:
  assumes "list_all (\<lambda>c. \<not> is_vpc_creation c) cs"
  shows "vpc_made C (tr @ cs) i \<longleftrightarrow> vpc_made C tr i"
proof (cases "i < length tr")
  case False
  then have "\<not> vpc_made C (tr @ cs) i"
    using assms vpc_made_creation [of C "tr @ cs" i] by (auto simp: vpc_made_def nth_append list_all_length)
  then show ?thesis
    using False by (simp add: vpc_made_def)
qed (simp add: vpc_made_append)

lemma one_vpc_quiet:
  assumes "one_vpc C tr" "list_all (\<lambda>c. \<not> is_vpc_creation c) cs"
  shows "one_vpc C (tr @ cs)"
  unfolding one_vpc_def vpc_made_quiet [OF assms(2)]
  using assms by (auto simp: one_vpc_def nth_append list_all_length)

lemma steady_invariant: "steady s t \<Longrightarrow> vpc_invariant C s \<Longrightarrow> vpc_invariant C t"
  by (auto simp: steady_def vpc_invariant_def one_vpc_quiet vpc_made_quiet)

definition none_made :: "vpc_clients \<Rightarrow> vscope \<Rightarrow> bool" where
  "none_made C s \<longleftrightarrow> (\<forall>i. \<not> vpc_made C (vtrace s) i)"

lemma none_made_invariant: "none_made C s \<Longrightarrow> vpc_invariant C s"
  by (simp add: none_made_def vpc_invariant_def one_vpc_def)

lemma steady_none_made: "steady s t \<Longrightarrow> none_made C s \<Longrightarrow> none_made C t"
  by (auto simp: steady_def none_made_def vpc_made_quiet)

lemma vpc_made_snoc: "vpc_made C (tr @ [c]) i \<longleftrightarrow> vpc_made C tr i \<or> (i = length tr \<and> makes_vpc C tr c)"
  by (auto simp: vpc_made_def nth_append less_Suc_eq)

lemma creation_failed:
  "none_made C s \<Longrightarrow> vtrace t = vtrace s @ [c] \<Longrightarrow> \<not> makes_vpc C (vtrace s) c \<Longrightarrow> vpc_invariant C t"
  by (rule none_made_invariant) (simp add: none_made_def vpc_made_snoc)

lemma creation_tracked:
  "none_made C s \<Longrightarrow> vtrace t = vtrace s @ [c] \<Longrightarrow> vpc_entry t \<noteq> None \<Longrightarrow> vpc_invariant C t"
  by (auto simp: none_made_def vpc_invariant_def one_vpc_def vpc_made_snoc less_Suc_eq)

lemma none_made_step:
  assumes "state_io_rel steady m" "none_made C s" and "\<And>x t. none_made C t \<Longrightarrow> wp (k x) (\<lambda>_ t. vpc_invariant C t) t"
  shows "wp (attempt m (\<lambda>e. fail (g e)) k) (\<lambda>_ t. vpc_invariant C t) s"
  by (rule wp_then [OF steady.wp_frame [OF assms(1)]])
    (use assms(2,3) in \<open>auto intro: none_made_invariant dest: steady_none_made\<close>)

lemma steady_wp: "state_io_rel steady m \<Longrightarrow> vpc_invariant C s \<Longrightarrow> wp m (\<lambda>_ t. vpc_invariant C t) s"
  by (rule wp_mono [OF steady.wp_frame]) (auto intro: steady_invariant)

text \<open>A creation while none was made before: if it makes the VPC, the VPC is tracked before anything else is done.\<close>

lemma tag_after_creation:
  "vpc_invariant C s \<Longrightarrow> wp (bindW msg (v_TagResource C x y) (\<lambda>_. ok ())) (\<lambda>_ t. vpc_invariant C t) s"
  by (rule steady_wp) (intro steady.fr_rules steady_TagResource)

lemma track_creation:
  "none_made C t \<Longrightarrow> vtrace u = vtrace t @ [c] \<Longrightarrow>
     wp (SetResourceStatus VPCResourceType.ResourceTypeVPC (Some x)) (\<lambda>r u'. r = Ok () \<and> vpc_invariant C u') u"
  by (rule wp_mono [OF SetResourceStatus_VPC]) (auto intro: creation_tracked)

lemma created_vpc_invariant:
  assumes "none_made C t" "vtrace u = vtrace t @ [VPCS (VCreateVPC req)]" "c_CreateVPC C (vtrace t) req = Reply (Some v)"
  shows "wp (deref (vpc_ID v) (\<lambda>i. bindE (SetResourceStatus VPCResourceType.ResourceTypeVPC (Some (x i))) (\<lambda>_.
       deref (vpc_CRN v) (\<lambda>crn. do { s \<leftarrow> State_Monad.get; bindW msg (v_TagResource C (v_Name s) crn) (\<lambda>_. ok ()) }))))
     (\<lambda>_ t. vpc_invariant C t) u"
proof (cases "vpc_ID v")
  case None
  then show ?thesis
    using creation_failed [OF assms(1,2)] assms(3) by (simp add: wp_deref makes_vpc_def)
next
  case (Some i)
  have "wp (SetResourceStatus VPCResourceType.ResourceTypeVPC (Some (x i))) (\<lambda>r u'. r = Ok () \<and> vpc_invariant C u') u"
    by (rule track_creation [OF assms(1,2)])
  then show ?thesis
    unfolding wp_deref wp_attempt using Some
    by (auto simp: wp_bind wp_get intro!: tag_after_creation elim!: wp_mono)
qed

lemma createVPC_invariant:
  assumes "none_made C s"
  shows "wp (v_createVPC C) (\<lambda>_ t. vpc_invariant C t) s"
  unfolding v_createVPC_def
proof (rule none_made_step [OF steady_GetResourceGroupID assms], subst wp_if, intro conjI impI)
  fix g t assume "none_made C t"
  then show "wp (fail e) (\<lambda>_ t. vpc_invariant C t) t" for e
    by (simp add: wp_return none_made_invariant)
  show "wp (bindE (GetServiceName VPCResourceType.ResourceTypeVPC) (\<lambda>serviceName. do {
         s \<leftarrow> State_Monad.get;
         let specName = Option.bind (Option.bind (v_NetworkSpec s) NetworkSpec_VPC) VPCResource_Name;
         let req = v_vpc_request (if specName \<noteq> None then specName else serviceName) g;
         r \<leftarrow> do_CreateVPC C req;
         case r of
           Fail e _ \<Rightarrow> fail (Wrapf msg_error_creating_vpc e)
         | Reply None \<Rightarrow> fail (Errorf msg_no_vpc_details_after_creation)
         | Reply (Some v) \<Rightarrow> deref (vpc_ID v) (\<lambda>i.
             bindE (SetResourceStatus VPCResourceType.ResourceTypeVPC (Some (ready_status i (vpc_Name v) False))) (\<lambda>_.
             deref (vpc_CRN v) (\<lambda>crn. do {
               s' \<leftarrow> State_Monad.get;
               bindW msg_error_tagging_vpc (v_TagResource C (v_Name s') crn) (\<lambda>_. ok ()) }))) }))
      (\<lambda>_ t. vpc_invariant C t) t"
    by (rule none_made_step [OF steady_GetServiceName \<open>none_made C t\<close>])
      (auto simp: wp_bind wp_get wp_let wp_vapi wp_case_reply wp_case_option wp_return makes_vpc_def
        intro!: created_vpc_invariant elim!: creation_failed)
qed

text \<open>When none is tracked none was made.\<close>

lemma GetVPCID_none:
  assumes "vpc_invariant C s"
  shows "wp (v_GetVPCID C) (\<lambda>r t. vpc_invariant C t \<and> (r = Ok None \<longrightarrow> none_made C t)) s"
proof (cases "vpc_entry s")
  case None
  then have "none_made C s"
    using assms by (auto simp: vpc_invariant_def none_made_def)
  then show ?thesis
    using steady.wp_frame [OF steady_GetVPCID, of C s]
    by (auto elim!: wp_mono intro: none_made_invariant dest: steady_none_made)
next
  case (Some x)
  then show ?thesis
    using assms by (simp add: v_GetVPCID_def vpc_entry_def wp_simps)
qed

lemma set_vpc_invariant:
  "vpc_invariant C s \<Longrightarrow> wp (SetResourceStatus VPCResourceType.ResourceTypeVPC (Some x)) (\<lambda>_ t. vpc_invariant C t) s"
  by (rule wp_mono [OF SetResourceStatus_VPC]) (auto simp: vpc_invariant_def)

lemma call_invariant: "\<not> is_vpc_creation c \<Longrightarrow> vpc_invariant C s \<Longrightarrow> vpc_invariant C (s\<lparr>vtrace := vtrace s @ [c]\<rparr>)"
  by (rule steady_invariant [OF steady_call])

lemma ReconcileVPC_invariant:
  assumes "vpc_invariant C s"
  shows "wp (v_ReconcileVPC C) (\<lambda>_ t. vpc_invariant C t) s"
proof -
  have found: "wp (do {
         r \<leftarrow> do_GetVPC C (Some i);
         case r of
           Fail e _ \<Rightarrow> fail (Wrapf msg_failed_to_retrieve_vpc_by_id e)
         | Reply None \<Rightarrow> fail (Errorf msg_failed_to_retrieve_vpc_with_id)
         | Reply (Some v) \<Rightarrow>
             (let requeue = (vpc_Status v \<noteq> Some VPCStatusAvailable)
              in bindE (SetResourceStatus VPCResourceType.ResourceTypeVPC (Some (ready_status i (vpc_Name v) (\<not> requeue)))) (\<lambda>_. ok requeue)) })
      (\<lambda>_ t. vpc_invariant C t) t" if "vpc_invariant C t" for i t
    using call_invariant [OF _ that, of "VPCS (VGetVPC (Some i))"]
    by (auto simp: wp_bind wp_vapi wp_case_reply wp_case_option wp_return wp_let wp_attempt intro!: wp_mono [OF set_vpc_invariant])
  have new: "wp (bindW msg (v_createVPC C) (\<lambda>_. ok True)) (\<lambda>_ t. vpc_invariant C t) t" if "none_made C t" for t msg
    unfolding wp_attempt using createVPC_invariant [OF that] by (rule wp_mono) (auto simp: wp_return)
  show ?thesis
    unfolding v_ReconcileVPC_def
    by (rule wp_then [OF GetVPCID_none [OF assms]]) (simp_all only: wp_case_option, (blast intro: found new)+)
qed

lemma reconcile_part_invariant:
  assumes "\<And>s. vpc_invariant C s \<Longrightarrow> wp step (\<lambda>_ t. vpc_invariant C t) s"
    and "\<And>s. vpc_invariant C s \<Longrightarrow> wp rest (\<lambda>_ t. vpc_invariant C t) s" and "vpc_invariant C s"
  shows "wp (reconcile_part K p step rest) (\<lambda>_ t. vpc_invariant C t) s"
proof -
  have "wp (mark_part_failed K p e) (\<lambda>_ t. vpc_invariant C t) t" "wp (mark_part_ready K p) (\<lambda>_ t. vpc_invariant C t) t"
    if "vpc_invariant C t" for e t
    by (rule steady_wp [OF _ that], rule steady_marks)+
  then show ?thesis
    unfolding reconcile_part_def wp_attempt using assms(1) [OF assms(3)]
    by (auto simp: wp_bind wp_if wp_return intro: wp_mono assms(2) elim!: wp_mono)
qed

lemma publish_cluster_invariant: "vpc_invariant C s \<Longrightarrow> wp (publish_cluster C) (\<lambda>_ t. vpc_invariant C t) s"
  unfolding publish_cluster_def
  by (rule wp_then [OF steady_wp [OF steady_GetLoadBalancerHostName]], assumption)
    (auto simp: wp_simps vpc_invariant_def vpc_entry_def v_NetworkStatus_def announce_cluster_def)

lemma reconcileCluster_invariant:
  assumes "vpc_invariant C s"
  shows "wp (reconcileCluster K A C) (\<lambda>_ t. vpc_invariant C t) s"
proof -
  have finalized: "vpc_invariant C (s\<lparr>v_cluster := (v_cluster s)\<lparr>VCluster_Finalizers := xs\<rparr>\<rparr>)" for xs
    using assms by (simp add: vpc_invariant_def vpc_entry_def v_NetworkStatus_def)
  show ?thesis
    unfolding reconcileCluster_def
    by (simp only: wp_bind wp_get wp_let wp_upd_vcluster wp_if wp_return finalized simp_thms)
      (intro conjI impI finalized reconcile_part_invariant ReconcileVPC_invariant publish_cluster_invariant
        steady_wp steady_ReconcileVPCCustomImage steady_ReconcileSubnets steady_ReconcileSecurityGroups steady_ReconcileLoadBalancers)
qed

definition add_finalizer :: "string list \<Rightarrow> string \<Rightarrow> string list \<times> bool" where
  "add_finalizer xs x = (if x \<in> set xs then (xs, False) else (xs @ [x], True))"



section \<open>A cluster that is ready\<close>

text \<open>Something that was seen in the answer to a call.\<close>

definition seen :: "(vhistory \<Rightarrow> vcall \<Rightarrow> bool) \<Rightarrow> vscope \<Rightarrow> bool" where
  "seen P s \<longleftrightarrow> (\<exists>i < length (vtrace s). P (take i (vtrace s)) (vtrace s ! i))"

lemma seen_steady: "steady s t \<Longrightarrow> seen P s \<Longrightarrow> seen P t"
  by (fastforce simp: steady_def seen_def nth_append)

lemma seen_call: "P (vtrace s) c \<Longrightarrow> seen P (s\<lparr>vtrace := vtrace s @ [c]\<rparr>)"
  by (auto simp: seen_def)

text \<open>The load balancer of a spec was active, the subnet of a spec available, in the cluster named \<open>nm\<close>.\<close>

definition lb_resolved :: "string \<Rightarrow> LoadBalancerSpec \<Rightarrow> string" where
  "lb_resolved nm lb = (if LoadBalancerSpec_Name lb \<noteq> [] then LoadBalancerSpec_Name lb
     else nm @ ''-lb-'' @ (if lb_is_public lb then v_publicLBSuffix else v_privateLBSuffix))"

definition is_active :: "CloudLoadBalancer option \<Rightarrow> bool" where
  "is_active x = (case x of Some d \<Rightarrow> lb_ProvisioningStatus d = Some VPCLoadBalancerStateActive | None \<Rightarrow> False)"

definition lb_active :: "vpc_clients \<Rightarrow> string \<Rightarrow> LoadBalancerSpec \<Rightarrow> vhistory \<Rightarrow> vcall \<Rightarrow> bool" where
  "lb_active C nm lb h c = (case LoadBalancerSpec_ID lb of
      Some i \<Rightarrow> c = VLB (VGetLoadBalancer (Some i)) \<and> is_active (fst (c_GetLoadBalancer C h (Some i)))
    | None \<Rightarrow> c = VLB (VGetLoadBalancerByName (lb_resolved nm lb)) \<and>
        (case c_GetLoadBalancerByName C h (lb_resolved nm lb) of Reply x \<Rightarrow> is_active x | Fail _ _ \<Rightarrow> False))"

definition is_available :: "CloudSubnet option reply \<Rightarrow> bool" where
  "is_available r = (case r of Reply (Some d) \<Rightarrow> subnet_Status d = Some SubnetStatusAvailable | _ \<Rightarrow> False)"

definition subnet_available :: "vpc_clients \<Rightarrow> SubnetSpec \<Rightarrow> vhistory \<Rightarrow> vcall \<Rightarrow> bool" where
  "subnet_available C sub h c \<longleftrightarrow>
     (\<exists>i. SubnetSpec_ID sub = Some i \<and> c = VNET (VGetSubnet i) \<and> is_available (c_GetSubnet C h i)) \<or>
     (\<exists>n. SubnetSpec_Name sub = Some n \<and> c = VNET (VGetSubnetByName n) \<and> is_available (c_GetSubnetByName C h n))"

lemma wp_lb_name:
  "wp (v_lb_name lb) (\<lambda>r t. r = Ok (lb_resolved (VCluster_Name (v_cluster s)) lb) \<and> t = s) s"
  by (simp add: v_lb_name_def GetServiceName_def wp_simps lb_resolved_def)

lemma wp_lb_found:
  "wp (lb_found x) (\<lambda>r t. t = s \<and> (\<forall>y. r = Ok (Some y) \<and> isLoadBalancerReady (VPCLoadBalancerStatus_State y) \<longrightarrow> is_active x)) s"
  by (auto simp: lb_found_def wp_simps is_active_def isLoadBalancerReady_def)

lemma getLoadBalancer_seen:
  "wp (getLoadBalancer C lb) (\<lambda>r t. \<forall>y. r = Ok (Some y) \<and> isLoadBalancerReady (VPCLoadBalancerStatus_State y) \<longrightarrow>
     seen (lb_active C (VCluster_Name (v_cluster s)) lb) t) s"
proof (cases "LoadBalancerSpec_ID lb")
  case (Some i)
  then show ?thesis
    unfolding getLoadBalancer_def
    by (auto simp: wp_bind wp_vapi wp_if wp_return wp_case_option lb_active_def intro!: wp_mono [OF wp_lb_found] seen_call)
next
  case None
  then show ?thesis
    unfolding getLoadBalancer_def
    by (auto simp: wp_bind wp_vapi wp_attempt wp_case_reply wp_return lb_active_def intro!: wp_mono [OF wp_lb_name] wp_mono [OF wp_lb_found]
        intro!: seen_call)
qed

lemma reconcile_balancer_seen:
  "wp (reconcile_balancer C lb requeue) (\<lambda>r t. r = Ok False \<longrightarrow> \<not> requeue \<and> seen (lb_active C (VCluster_Name (v_cluster s)) lb) t) s"
proof -
  have set: "wp (setLoadBalancerStatus x) (\<lambda>_ t. steady u t) u" for x u
    by (rule steady.wp_frame [OF steady_setLoadBalancerStatus])
  show ?thesis
    unfolding reconcile_balancer_def
    by (rule wp_then [OF getLoadBalancer_seen])
      (auto simp: wp_case_option wp_attempt wp_return intro!: wp_mono [OF set] wp_mono [OF wp_True [of "v_createLoadBalancer C lb"]] dest: seen_steady split: if_splits)
qed

lemma balancers_seen:
  "wp (ReconcileLoadBalancers C) (\<lambda>r t. r = Ok False \<longrightarrow> (\<exists>n. v_NetworkSpec s = Some n \<and> NetworkSpec_LoadBalancers n \<noteq> [] \<and>
     (\<forall>lb \<in> set (NetworkSpec_LoadBalancers n). seen (lb_active C (VCluster_Name (v_cluster s)) lb) t))) s"
proof -
  have loop: "wp (loopM (reconcile_balancer C) xs False) (\<lambda>r t. r = Ok False \<longrightarrow>
      (\<forall>lb \<in> set xs. seen (lb_active C (VCluster_Name (v_cluster s)) lb) t)) s" for xs
  proof (rule wp_loopM_done [where I = "\<lambda>ys b t. steady s t \<and> (\<not> b \<longrightarrow> (\<forall>lb \<in> set ys. seen (lb_active C (VCluster_Name (v_cluster s)) lb) t))"])
    fix ys lb b t
    assume inv: "steady s t \<and> (\<not> b \<longrightarrow> (\<forall>lb \<in> set ys. seen (lb_active C (VCluster_Name (v_cluster s)) lb) t))"
    have "VCluster_Name (v_cluster t) = VCluster_Name (v_cluster s)"
      using inv by (simp add: steady_def)
    then have "wp (reconcile_balancer C lb b) (\<lambda>r u. r = Ok False \<longrightarrow> \<not> b \<and> seen (lb_active C (VCluster_Name (v_cluster s)) lb) u) t"
      using reconcile_balancer_seen [of C lb b t] by simp
    from wp_conj [OF steady.wp_frame [OF steady_reconcile_balancer] this] show "wp (reconcile_balancer C lb b) (\<lambda>r u. (\<forall>b'. r = Ok b' \<longrightarrow> steady s u \<and>
        (\<not> b' \<longrightarrow> (\<forall>lb \<in> set (ys @ [lb]). seen (lb_active C (VCluster_Name (v_cluster s)) lb) u))) \<and>
        ((\<forall>b'. r \<noteq> Ok b') \<longrightarrow> r = Ok False \<longrightarrow> (\<forall>lb \<in> set xs. seen (lb_active C (VCluster_Name (v_cluster s)) lb) u))) t"
      by (rule wp_mono) (use inv in \<open>auto dest: seen_steady steady.R_trans\<close>)
  qed (simp_all add: steady.R_refl)
  show ?thesis
    unfolding ReconcileLoadBalancers_def
    by (auto simp: wp_bind wp_get wp_deref wp_if wp_return intro!: wp_mono [OF loop])
qed

text \<open>Subnets.\<close>

lemma updateSubnetStatus_seen:
  assumes "subnet_Status d = Some SubnetStatusAvailable \<Longrightarrow> seen P s"
  shows "wp (updateSubnetStatus d b) (\<lambda>r t. r = Ok False \<longrightarrow> seen P t) s"
  unfolding updateSubnetStatus_def
  by (auto simp: wp_let wp_deref wp_attempt wp_return intro!: wp_mono [OF steady.wp_frame [OF steady_SetResourceStatus]]
      intro: seen_steady assms)

lemma subnet_by_id_seen:
  "SubnetSpec_ID sub = Some i \<Longrightarrow> wp (subnet_by_id C x y i b) (\<lambda>r t. r = Ok False \<longrightarrow> seen (subnet_available C sub) t) s"
  unfolding subnet_by_id_def
  by (auto simp: wp_bind wp_vapi wp_case_reply wp_case_option wp_return subnet_available_def is_available_def
      intro!: updateSubnetStatus_seen seen_call)

lemma tracked_subnet_by:
  "tracked_subnet s sub b = Some (Inl i) \<Longrightarrow> SubnetSpec_ID sub = Some i"
  "tracked_subnet s sub b = Some (Inr n) \<Longrightarrow> SubnetSpec_Name sub = Some n"
  by (auto simp: tracked_subnet_def Let_def split: option.splits if_splits)

lemma reconcileSubnet_seen:
  "wp (v_reconcileSubnet C sub b) (\<lambda>r t. r = Ok False \<longrightarrow> seen (subnet_available C sub) t) s"
  unfolding v_reconcileSubnet_def reconcile_new_subnet_def
  by (auto simp: wp_bind wp_get wp_if wp_vapi wp_case_reply wp_case_option wp_case_sum wp_return wp_deref wp_attempt
      subnet_available_def [of C sub] is_available_def
      dest: tracked_subnet_by intro!: updateSubnetStatus_seen subnet_by_id_seen seen_call wp_mono [OF wp_True [of "v_createSubnet C sub b"]])

lemma plane_seen:
  "wp (reconcile_plane C e b xs requeue) (\<lambda>r t. r = Ok False \<longrightarrow> \<not> requeue \<and> (\<forall>sub \<in> set xs. seen (subnet_available C sub) t)) s"
  unfolding reconcile_plane_def
proof (rule wp_loopM_done [where I = "\<lambda>ys r t. \<not> r \<longrightarrow> \<not> requeue \<and> (\<forall>sub \<in> set ys. seen (subnet_available C sub) t)"])
  fix ys sub r t
  assume inv: "\<not> r \<longrightarrow> \<not> requeue \<and> (\<forall>sub \<in> set ys. seen (subnet_available C sub) t)"
  have "wp (v_reconcileSubnet C sub b) (\<lambda>r u. steady t u \<and> (r = Ok False \<longrightarrow> seen (subnet_available C sub) u)) t"
    by (rule wp_conj [OF steady.wp_frame [OF steady_reconcileSubnet] reconcileSubnet_seen])
  then show "wp (bindW e (v_reconcileSubnet C sub b) (\<lambda>again. ok (if again then True else r)))
      (\<lambda>r u. (\<forall>b'. r = Ok b' \<longrightarrow> \<not> b' \<longrightarrow> \<not> requeue \<and> (\<forall>sub \<in> set (ys @ [sub]). seen (subnet_available C sub) u)) \<and>
        ((\<forall>b'. r \<noteq> Ok b') \<longrightarrow> r = Ok False \<longrightarrow> \<not> requeue \<and> (\<forall>sub \<in> set xs. seen (subnet_available C sub) u))) t"
    unfolding wp_attempt wp_return by (rule wp_mono) (use inv in \<open>auto dest: seen_steady split: if_splits\<close>)
qed simp_all

lemma subnets_seen:
  "wp (ReconcileSubnets C) (\<lambda>r t. r = Ok False \<longrightarrow> (\<exists>n. v_NetworkSpec s = Some n \<and>
     (\<forall>sub \<in> set (NetworkSpec_ControlPlaneSubnets n) \<union> set (NetworkSpec_WorkerSubnets n). seen (subnet_available C sub) t))) s"
proof (cases "v_NetworkSpec s")
  case None
  then show ?thesis
    by (simp add: ReconcileSubnets_def wp_simps)
next
  case (Some n)
  let ?Q = "\<lambda>r t. r = Ok False \<longrightarrow>
    (\<forall>sub \<in> set (NetworkSpec_ControlPlaneSubnets n) \<union> set (NetworkSpec_WorkerSubnets n). seen (subnet_available C sub) t)"
  have workers: "wp (reconcile_plane C e False ws requeue) ?Q t"
    if "\<not> requeue \<longrightarrow> (\<forall>sub \<in> set (NetworkSpec_ControlPlaneSubnets n). seen (subnet_available C sub) t)"
      "NetworkSpec_WorkerSubnets n \<noteq> [] \<longrightarrow> ws = NetworkSpec_WorkerSubnets n" for e ws requeue t
    by (rule wp_mono [OF wp_conj [OF plane_seen steady.wp_frame [OF steady_reconcile_plane]]])
      (use that in \<open>auto dest: seen_steady\<close>)
  have build: "wp (bindW e (buildSubnetsForZones C) ok) (\<lambda>_ t. steady u t) u" for e u
    by (rule steady.wp_frame) (intro steady.fr_rules steady_buildSubnetsForZones)
  have choose: "wp (if NetworkSpec_WorkerSubnets n \<noteq> [] then ok (NetworkSpec_WorkerSubnets n)
              else if NetworkSpec_ControlPlaneSubnets n \<noteq> [] then bindW e (buildSubnetsForZones C) ok
              else ok cps)
      (\<lambda>r u. steady t u \<and> (NetworkSpec_WorkerSubnets n \<noteq> [] \<longrightarrow> r = Ok (NetworkSpec_WorkerSubnets n))) t" for e cps t
    using build [of e t] by (auto simp: wp_return steady.R_refl elim!: wp_mono)
  have both: "wp (bindE (reconcile_plane C e True cps False) (\<lambda>requeue.
       bindE (if NetworkSpec_WorkerSubnets n \<noteq> [] then ok (NetworkSpec_WorkerSubnets n)
              else if NetworkSpec_ControlPlaneSubnets n \<noteq> [] then bindW e' (buildSubnetsForZones C) ok
              else ok cps) (\<lambda>ws. reconcile_plane C e'' False ws requeue))) ?Q t"
    if "NetworkSpec_ControlPlaneSubnets n \<noteq> [] \<longrightarrow> cps = NetworkSpec_ControlPlaneSubnets n" for e e' e'' cps t
  proof (rule wp_then [OF plane_seen], rule wp_then [OF choose], rule workers)
    fix requeue u ws v
    assume "Ok requeue = Ok False \<longrightarrow> \<not> False \<and> (\<forall>sub \<in> set cps. seen (subnet_available C sub) u)"
      and "steady u v \<and> (NetworkSpec_WorkerSubnets n \<noteq> [] \<longrightarrow> Ok ws = Ok (NetworkSpec_WorkerSubnets n))"
    then show "\<not> requeue \<longrightarrow> (\<forall>sub \<in> set (NetworkSpec_ControlPlaneSubnets n). seen (subnet_available C sub) v)"
      "NetworkSpec_WorkerSubnets n \<noteq> [] \<longrightarrow> ws = NetworkSpec_WorkerSubnets n"
      using that by (cases "NetworkSpec_ControlPlaneSubnets n"; auto dest: seen_steady)+
  qed simp_all
  have first: "wp (if NetworkSpec_ControlPlaneSubnets n = [] then bindW e (buildSubnetsForZones C) ok else ok (NetworkSpec_ControlPlaneSubnets n))
      (\<lambda>r _. NetworkSpec_ControlPlaneSubnets n \<noteq> [] \<longrightarrow> r = Ok (NetworkSpec_ControlPlaneSubnets n)) s" for e
    by (simp add: wp_return wp_True)
  have "wp (ReconcileSubnets C) ?Q s"
    unfolding ReconcileSubnets_def wp_bind wp_get Some deref_def option.case
    by (rule wp_then [OF first], rule both) simp_all
  then show ?thesis
    using Some by simp
qed

text \<open>The VPC.\<close>

definition vpc_ready :: "vscope \<Rightarrow> bool" where
  "vpc_ready s \<longleftrightarrow> (case vpc_entry s of Some r \<Rightarrow> ResourceStatus_Ready r | None \<Rightarrow> False)"

lemma put_status_ready [simp]: "ResourceStatus_Ready (put_status old r) = ResourceStatus_Ready r"
  by (simp add: put_status_def ResourceStatus_Set_def split: option.splits)

lemma ReconcileVPC_ready: "wp (v_ReconcileVPC C) (\<lambda>r t. r = Ok False \<longrightarrow> vpc_ready t) s"
proof -
  have set: "wp (SetResourceStatus VPCResourceType.ResourceTypeVPC (Some x)) (\<lambda>r t. r = Ok () \<and> vpc_ready t = ResourceStatus_Ready x) t" for x t
    by (rule wp_mono [OF SetResourceStatus_VPC]) (simp add: vpc_ready_def)
  show ?thesis
    unfolding v_ReconcileVPC_def
    by (rule wp_then [OF wp_True])
      (auto simp: wp_bind wp_vapi wp_case_reply wp_case_option wp_return wp_let wp_attempt ready_status_def
        intro!: wp_mono [OF set] wp_mono [OF wp_True [of "v_createVPC C"]])
qed

text \<open>One part after the other: what a part has shown still holds when the reconcile is finished.\<close>

lemma reconcile_part_done:
  assumes "wp step (\<lambda>r t. R s t \<and> (r = Ok False \<longrightarrow> P t)) s"
    and "\<And>t u. R s t \<Longrightarrow> P t \<Longrightarrow> steady t u \<Longrightarrow> wp rest (\<lambda>r v. r = Ok finished \<longrightarrow> Q v) u"
  shows "wp (reconcile_part K p step rest) (\<lambda>r v. r = Ok finished \<longrightarrow> Q v) s"
proof -
  have mark: "wp (mark_part_ready K p) (\<lambda>_ u. steady t u) t" for t
    by (rule steady.wp_frame [OF steady_marks(2)])
  show ?thesis
    unfolding reconcile_part_def wp_attempt using assms(1)
    by (rule wp_mono) (auto simp: wp_bind wp_if wp_return intro!: wp_mono [OF wp_True [of "mark_part_failed K p _"]] wp_mono [OF mark] assms(2))
qed

lemma steady_vpc_ready: "steady s t \<Longrightarrow> vpc_ready s \<Longrightarrow> vpc_ready t"
  by (auto simp: steady_def vpc_ready_def split: option.splits)

lemma steady_same: "steady s t \<Longrightarrow> v_NetworkSpec t = v_NetworkSpec s \<and> VCluster_Name (v_cluster t) = VCluster_Name (v_cluster s)"
  by (auto simp: steady_def v_NetworkSpec_def)

text \<open>What has been seen of the subnets and of the load balancers of the spec.\<close>

definition subnets_checked :: "vpc_clients \<Rightarrow> vscope \<Rightarrow> bool" where
  "subnets_checked C s \<longleftrightarrow> (\<exists>n. v_NetworkSpec s = Some n \<and>
     (\<forall>sub \<in> set (NetworkSpec_ControlPlaneSubnets n) \<union> set (NetworkSpec_WorkerSubnets n). seen (subnet_available C sub) s))"

definition balancers_checked :: "vpc_clients \<Rightarrow> vscope \<Rightarrow> bool" where
  "balancers_checked C s \<longleftrightarrow> (\<exists>n. v_NetworkSpec s = Some n \<and> NetworkSpec_LoadBalancers n \<noteq> [] \<and>
     (\<forall>lb \<in> set (NetworkSpec_LoadBalancers n). seen (lb_active C (VCluster_Name (v_cluster s)) lb) s))"

lemma steady_subnets_checked: "steady s t \<Longrightarrow> subnets_checked C s \<Longrightarrow> subnets_checked C t"
  using steady_same [of s t] by (auto simp: subnets_checked_def dest: seen_steady)

lemma steady_balancers_checked: "steady s t \<Longrightarrow> balancers_checked C s \<Longrightarrow> balancers_checked C t"
  using steady_same [of s t] by (auto simp: balancers_checked_def dest: seen_steady)

lemma ReconcileSubnets_checked: "wp (ReconcileSubnets C) (\<lambda>r t. steady s t \<and> (r = Ok False \<longrightarrow> subnets_checked C t)) s"
  using wp_conj [OF steady.wp_frame [OF steady_ReconcileSubnets] subnets_seen]
  by (rule wp_mono) (auto simp: subnets_checked_def dest: steady_same)

lemma ReconcileLoadBalancers_checked: "wp (ReconcileLoadBalancers C) (\<lambda>r t. steady s t \<and> (r = Ok False \<longrightarrow> balancers_checked C t)) s"
  using wp_conj [OF steady.wp_frame [OF steady_ReconcileLoadBalancers] balancers_seen]
  by (rule wp_mono) (auto simp: balancers_checked_def dest: steady_same)

definition announced :: "vpc_clients \<Rightarrow> vscope \<Rightarrow> bool" where
  "announced C s \<longleftrightarrow> VStatus_Ready (v_status s) \<and> VSpec_EndpointHost (v_spec s) \<noteq> [] \<and> VSpec_EndpointPort (v_spec s) = 6443 \<and>
     vpc_ready s \<and> subnets_checked C s \<and> balancers_checked C s"

lemma seen_cong: "vtrace t = vtrace s \<Longrightarrow> seen P t = seen P s"
  by (simp add: seen_def)

lemma publish_cluster_announces:
  assumes "vpc_ready s" "subnets_checked C s" "balancers_checked C s"
  shows "wp (publish_cluster C) (\<lambda>r t. r = Ok finished \<longrightarrow> announced C t) s"
proof -
  have host: "announced C (t\<lparr>v_cluster := announce_cluster h (v_cluster t)\<rparr>)" if "steady s t" "h \<noteq> []" for t h
  proof -
    let ?t = "t\<lparr>v_cluster := announce_cluster h (v_cluster t)\<rparr>"
    have "vpc_ready t" "subnets_checked C t" "balancers_checked C t"
      using that assms by (blast dest: steady_vpc_ready steady_subnets_checked steady_balancers_checked)+
    moreover have "vpc_entry ?t = vpc_entry t" "v_NetworkSpec ?t = v_NetworkSpec t" "VCluster_Name (v_cluster ?t) = VCluster_Name (v_cluster t)"
      by (simp_all add: vpc_entry_def v_NetworkStatus_def v_NetworkSpec_def announce_cluster_def)
    ultimately show ?thesis
      using that(2)
      by (simp add: announced_def vpc_ready_def subnets_checked_def balancers_checked_def seen_cong [of ?t t])
        (simp add: announce_cluster_def GetAPIServerPort_def vpc_DefaultAPIServerPort_def)
  qed
  show ?thesis
    unfolding publish_cluster_def
    by (rule wp_then [OF steady.wp_frame [OF steady_GetLoadBalancerHostName]])
      (auto simp: wp_case_option wp_if wp_return wp_bind wp_upd_vcluster intro: host)
qed

lemma later_parts:
  assumes "vpc_ready s"
  shows "wp (reconcile_part K PartImage (ReconcileVPCCustomImage C)
       (reconcile_part K PartSubnets (ReconcileSubnets C)
       (reconcile_part K PartGroups (v_ReconcileSecurityGroups C)
       (reconcile_part K PartBalancers (ReconcileLoadBalancers C) (publish_cluster C)))))
     (\<lambda>r t. r = Ok finished \<longrightarrow> announced C t) s"
proof -
  have quiet: "wp m (\<lambda>r t. steady u t \<and> (r = Ok False \<longrightarrow> True)) u" if "state_io_rel steady m" for m :: "bool vproc" and u
    by (rule wp_mono [OF steady.wp_frame [OF that]]) simp
  show ?thesis
  proof (intro reconcile_part_done [OF quiet [OF steady_ReconcileVPCCustomImage]] reconcile_part_done [OF ReconcileSubnets_checked]
      reconcile_part_done [OF quiet [OF steady_ReconcileSecurityGroups]] reconcile_part_done [OF ReconcileLoadBalancers_checked]
      publish_cluster_announces)
    fix t1 s1 t2 s2 t3 s3 t4 s4
    assume st: "steady s t1" "steady t1 s1" "steady s1 t2" "subnets_checked C t2" "steady t2 s2" "steady s2 t3" "steady t3 s3" "steady s3 t4"
      "balancers_checked C t4" "steady t4 s4"
    show "vpc_ready s4"
      using assms st by (meson steady_vpc_ready)
    show "subnets_checked C s4"
      using st by (meson steady_subnets_checked)
    show "balancers_checked C s4"
      using st by (meson steady_balancers_checked)
  qed
qed



end
