(* ===== verification/Partial_Proc.thy ===== *)
theory Partial_Proc
  imports Prelude
begin

text \<open>
  Procedures that may not return, because a loop over the pages of a listing may not end: \<open>None\<close> for no
  result, otherwise the outcome and the state. \<open>lift\<close> makes one of a procedure that always returns;
  \<open>pw\<close> is their weakest precondition, partial (\<open>pw True\<close>, a run that does not return is fine) or total.
\<close>

type_synonym ('s, 'a) pproc = "'s \<Rightarrow> ('a outcome \<times> 's) option"

definition lift :: "('s, 'a) proc \<Rightarrow> ('s, 'a) pproc" where
  "lift m s = Some (run_state m s)"

definition attemptP :: "('s, 'a) pproc \<Rightarrow> (gerror \<Rightarrow> ('s, 'b) pproc) \<Rightarrow> ('a \<Rightarrow> ('s, 'b) pproc) \<Rightarrow> ('s, 'b) pproc" where
  "attemptP m h k s = (case m s of
      None \<Rightarrow> None
    | Some (Ok x, t) \<Rightarrow> k x t
    | Some (Err e, t) \<Rightarrow> h e t
    | Some (Panic, t) \<Rightarrow> Some (Panic, t))"

abbreviation okP :: "'a \<Rightarrow> ('s, 'a) pproc" where "okP x \<equiv> lift (ok x)"
abbreviation failP :: "gerror \<Rightarrow> ('s, 'a) pproc" where "failP e \<equiv> lift (fail e)"

abbreviation bindP :: "('s, 'a) pproc \<Rightarrow> ('a \<Rightarrow> ('s, 'b) pproc) \<Rightarrow> ('s, 'b) pproc" where
  "bindP m k \<equiv> attemptP m failP k"

abbreviation bindPW :: "string \<Rightarrow> ('s, 'a) pproc \<Rightarrow> ('a \<Rightarrow> ('s, 'b) pproc) \<Rightarrow> ('s, 'b) pproc" where
  "bindPW msg m k \<equiv> attemptP m (\<lambda>e. failP (Wrapf msg e)) k"

text \<open>Reading the state, and a call that does not fail by itself, before a step that may not return.\<close>

definition withP :: "('s, 'r) state \<Rightarrow> ('r \<Rightarrow> ('s, 'a) pproc) \<Rightarrow> ('s, 'a) pproc" where
  "withP m k s = (case run_state m s of (r, t) \<Rightarrow> k r t)"

definition derefP :: "'a option \<Rightarrow> ('a \<Rightarrow> ('s, 'b) pproc) \<Rightarrow> ('s, 'b) pproc" where
  "derefP p k = (case p of None \<Rightarrow> lift panic | Some x \<Rightarrow> k x)"

fun loopP :: "('a \<Rightarrow> 'b \<Rightarrow> ('s, 'b) pproc) \<Rightarrow> 'a list \<Rightarrow> 'b \<Rightarrow> ('s, 'b) pproc" where
  "loopP f [] b = okP b"
| "loopP f (x # xs) b = bindP (f x b) (loopP f xs)"

section \<open>Weakest preconditions\<close>

definition pw :: "bool \<Rightarrow> ('s, 'a) pproc \<Rightarrow> ('a outcome \<Rightarrow> 's \<Rightarrow> bool) \<Rightarrow> 's \<Rightarrow> bool" where
  "pw d m Q s = (case m s of None \<Rightarrow> d | Some (r, t) \<Rightarrow> Q r t)"

named_theorems pw_simps \<open>equations that compute the weakest precondition of a procedure that may not return\<close>

lemma pw_lift [pw_simps]: "pw d (lift m) Q s = wp m Q s"
  by (simp add: pw_def lift_def wp_def)

lemma pw_attempt [pw_simps]:
  "pw d (attemptP m h k) Q s =
     pw d m (\<lambda>r t. (\<forall>x. r = Ok x \<longrightarrow> pw d (k x) Q t) \<and> (\<forall>e. r = Err e \<longrightarrow> pw d (h e) Q t) \<and> (r = Panic \<longrightarrow> Q Panic t)) s"
  by (cases "m s"; cases "fst (the (m s))") (auto simp: pw_def attemptP_def split: prod.splits option.splits)

lemma pw_with [pw_simps]: "pw d (withP m k) Q s = wp m (\<lambda>r t. pw d (k r) Q t) s"
  by (simp add: pw_def withP_def wp_def split: prod.split)

lemma pw_deref [pw_simps]:
  "pw d (derefP p k) Q s = ((p = None \<longrightarrow> Q Panic s) \<and> (\<forall>x. p = Some x \<longrightarrow> pw d (k x) Q s))"
  by (cases p) (simp_all add: derefP_def pw_lift wp_return)

lemma pw_if [pw_simps]: "pw d (if b then m else n) Q s = ((b \<longrightarrow> pw d m Q s) \<and> (\<not> b \<longrightarrow> pw d n Q s))"
  by simp

lemma pw_let [pw_simps]: "pw d (Let a f) Q s = pw d (f a) Q s"
  by simp

lemma pw_case_option [pw_simps]:
  "pw d (case p of None \<Rightarrow> m | Some x \<Rightarrow> f x) Q s = ((p = None \<longrightarrow> pw d m Q s) \<and> (\<forall>x. p = Some x \<longrightarrow> pw d (f x) Q s))"
  by (cases p) simp_all

lemma pw_case_reply [pw_simps]:
  "pw d (case p of Reply x \<Rightarrow> f x | Fail e st \<Rightarrow> g e st) Q s =
     ((\<forall>x. p = Reply x \<longrightarrow> pw d (f x) Q s) \<and> (\<forall>e st. p = Fail e st \<longrightarrow> pw d (g e st) Q s))"
  by (cases p) simp_all

lemma pw_mono: "pw d m Q s \<Longrightarrow> (\<And>r t. Q r t \<Longrightarrow> Q' r t) \<Longrightarrow> pw d m Q' s"
  by (auto simp: pw_def split: option.splits)

lemma pwD: "pw d m Q s \<Longrightarrow> m s = Some (r, t) \<Longrightarrow> Q r t"
  by (simp add: pw_def)

lemma pw_True: "pw True m (\<lambda>_ _. True) s"
  by (simp add: pw_def split: option.split)

text \<open>A loop, by an invariant that every pass keeps.\<close>

lemma pw_loop:
  assumes "\<And>x b t. x \<in> set xs \<Longrightarrow> I t \<Longrightarrow> pw True (f x b) (\<lambda>_ t. I t) t" and "I s"
  shows "pw True (loopP f xs b) (\<lambda>_ t. I t) s"
  using assms
proof (induction xs arbitrary: b s)
  case (Cons x xs)
  have "pw True (f x b) (\<lambda>_ t. I t) s"
    by (rule Cons.prems) (simp_all add: Cons.prems)
  then show ?case
    unfolding loopP.simps pw_attempt
    by (rule pw_mono) (auto simp: pw_lift wp_return intro!: Cons.IH Cons.prems)
qed (simp add: pw_lift wp_return)

text \<open>The frame of a procedure that may not return.\<close>

definition may :: "('s \<Rightarrow> 's \<Rightarrow> bool) \<Rightarrow> ('s, 'a) pproc \<Rightarrow> bool" where
  "may R m \<longleftrightarrow> (\<forall>s r t. m s = Some (r, t) \<longrightarrow> R s t)"

lemma may_pw: "may R m \<Longrightarrow> pw True m (\<lambda>_ t. R s t) s"
  by (auto simp: may_def pw_def split: option.split)

lemma pw_may: "(\<And>s. pw True m (\<lambda>_ t. R s t) s) \<Longrightarrow> may R m"
  by (fastforce simp: may_def pw_def split: option.splits)

context frame
begin

lemma may_lift: "state_io_rel R m \<Longrightarrow> may R (lift m)"
  by (auto simp: may_def lift_def dest: state_io_relD)

lemma may_attempt:
  assumes "may R m" and "\<And>e. may R (h e)" and "\<And>x. may R (k x)"
  shows "may R (attemptP m h k)"
  unfolding may_def
proof (intro allI impI)
  fix s r t assume run: "attemptP m h k s = Some (r, t)"
  then obtain q u where m: "m s = Some (q, u)"
    by (auto simp: attemptP_def split: option.splits)
  have su: "R s u" using assms(1) m by (auto simp: may_def)
  show "R s t"
  proof (cases q)
    case (Ok x)
    then have "R u t" using run m assms(3) by (auto simp: attemptP_def may_def)
    with su show ?thesis by (rule R_trans)
  next
    case (Err e)
    then have "R u t" using run m assms(2) by (auto simp: attemptP_def may_def)
    with su show ?thesis by (rule R_trans)
  next
    case Panic
    then show ?thesis using run m su by (simp add: attemptP_def)
  qed
qed

lemma may_with:
  assumes "state_io_rel R m" and "\<And>r. may R (k r)"
  shows "may R (withP m k)"
  using assms by (auto simp: may_def withP_def split: prod.splits intro: R_trans dest: state_io_relD)

lemma may_deref: "(\<And>x. may R (k x)) \<Longrightarrow> may R (derefP p k)"
  by (cases p) (simp_all add: derefP_def may_lift fr_return)

lemma may_if: "may R m \<Longrightarrow> may R n \<Longrightarrow> may R (if b then m else n)"
  by simp

lemma may_case_option: "may R m \<Longrightarrow> (\<And>x. may R (f x)) \<Longrightarrow> may R (case p of None \<Rightarrow> m | Some x \<Rightarrow> f x)"
  by (cases p) simp_all

lemma may_case_reply: "(\<And>x. may R (f x)) \<Longrightarrow> (\<And>e st. may R (g e st)) \<Longrightarrow> may R (case p of Reply x \<Rightarrow> f x | Fail e st \<Rightarrow> g e st)"
  by (cases p) simp_all

lemma may_case_prod: "(\<And>x y. may R (f x y)) \<Longrightarrow> may R (case p of (x, y) \<Rightarrow> f x y)"
  by (cases p) simp

lemma may_loop: "(\<And>x b. may R (f x b)) \<Longrightarrow> may R (loopP f xs b)"
  by (induction xs arbitrary: b) (simp_all add: may_lift fr_return may_attempt)

lemmas may_rules = may_attempt may_with may_deref may_if may_case_option may_case_reply may_case_prod may_loop may_lift

end

end
