(* ===== verification/Ibmvpc_Paging.thy ===== *)
theory Ibmvpc_Paging
  imports Partial_Proc Ibmvpc_Clients Services
begin

text \<open>
  Looking something up by name on the pages of a listing, inside a scope: the closure that is passed to
  \<open>PagingHelper\<close> runs on the state of the scope and on the variable it assigns.
\<close>

section \<open>The closure\<close>

definition on_scope :: "('s, 'r) state \<Rightarrow> ('s \<times> 'v, 'r) state" where
  "on_scope m = State (\<lambda>(s, v). case run_state m s of (r, t) \<Rightarrow> (r, (t, v)))"

definition assign :: "'v \<Rightarrow> ('s \<times> 'v, unit) state" where
  "assign v = modify (\<lambda>(s, _). (s, v))"

lemma run_on_scope [simp]: "run_state (on_scope m) (s, v) = (fst (run_state m s), (snd (run_state m s), v))"
  by (simp add: on_scope_def split: prod.split)

text \<open>\<open>if list.Next != nil && *list.Next.Href != ""\<close>.\<close>

definition next_vpage :: "'x vpage \<Rightarrow> ('s, bool \<times> string) proc" where
  "next_vpage p = (case vpage_next p of
      None \<Rightarrow> ok (True, [])
    | Some href \<Rightarrow> deref href (\<lambda>u. if u \<noteq> [] then ok (False, u) else ok (True, [])))"

text \<open>
  One page: \<open>list\<close> asks for it, an error of it is passed through \<open>wrap\<close>; the first item of the name is
  what is looked for, and \<open>pick\<close> is what the closure assigns, \<open>None\<close> where it dereferences nil.
\<close>

definition vlookup_page ::
  "(string \<Rightarrow> ('s, 'x vpage option reply) state) \<Rightarrow> (gerror \<Rightarrow> gerror) \<Rightarrow> string \<Rightarrow> ('x \<Rightarrow> string option) \<Rightarrow> ('x \<Rightarrow> 'v option) \<Rightarrow>
     string \<Rightarrow> string \<Rightarrow> ('s \<times> 'v option, bool \<times> string) proc" where
  "vlookup_page list wrap nilText nm pick name start = do {
     r \<leftarrow> on_scope (list start);
     case r of
       Fail e _ \<Rightarrow> fail (wrap e)
     | Reply None \<Rightarrow> fail (Errorf nilText)
     | Reply (Some p) \<Rightarrow>
         (case first_named nm name (vpage_items p) of
            Panic \<Rightarrow> panic
          | Err e \<Rightarrow> fail e
          | Ok (Some x) \<Rightarrow> deref (pick x) (\<lambda>v. do { assign (Some v); ok (True, []) })
          | Ok None \<Rightarrow> next_vpage p) }"

definition vlookup ::
  "(string \<Rightarrow> string option) \<Rightarrow> (string \<Rightarrow> ('s, 'x vpage option reply) state) \<Rightarrow> (gerror \<Rightarrow> gerror) \<Rightarrow> string \<Rightarrow>
     ('x \<Rightarrow> string option) \<Rightarrow> ('x \<Rightarrow> 'v option) \<Rightarrow> string \<Rightarrow> ('s, 'v option) pproc" where
  "vlookup U list wrap nilText nm pick name s =
     (case PagingHelper U (vlookup_page list wrap nilText nm pick name) (s, None) of
        None \<Rightarrow> None
      | Some (Ok _, (t, v)) \<Rightarrow> Some (Ok v, t)
      | Some (Err e, (t, v)) \<Rightarrow> Some (Err e, t)
      | Some (Panic, (t, v)) \<Rightarrow> Some (Panic, t))"

section \<open>What a lookup does\<close>

text \<open>A frame of the listing is a frame of the lookup.\<close>

lemma paging_loop_frame:
  assumes "\<And>start. state_io_rel R (f start)" and "paging_loop U f start s = Some (r, t)"
    and trans: "\<And>s t u. R s t \<Longrightarrow> R t u \<Longrightarrow> R s u"
  shows "R s t"
proof -
  have "U' = U \<longrightarrow> f' = f \<longrightarrow> R s' (snd y)" if "paging_loop U' f' start' s' = Some y" for U' f' start' s' y
  proof (rule paging_loop.raw_induct [OF _ that], intro impI)
    fix loop U' f' start' s' y
    assume IH: "\<And>U' f' start' s' y. loop U' f' start' s' = Some y \<Longrightarrow> U' = U \<longrightarrow> f' = f \<longrightarrow> R s' (snd y)"
      and step: "(case run_state (f' start') s' of
        (Ok (isDone, nextURL), t) \<Rightarrow> if isDone \<or> nextURL = [] then Some (Ok (), t)
          else (case getStartToken U' nextURL of Ok start' \<Rightarrow> loop U' f' start' t | Err e \<Rightarrow> Some (Err e, t) | Panic \<Rightarrow> Some (Panic, t))
      | (Err e, t) \<Rightarrow> Some (Err e, t) | (Panic, t) \<Rightarrow> Some (Panic, t)) = Some y"
      and same: "U' = U" "f' = f"
    obtain q u where run: "run_state (f start') s' = (q, u)" by (cases "run_state (f start') s'")
    have su: "R s' u" using assms(1) run by (metis state_io_relD)
    show "R s' (snd y)"
    proof (cases "y = (Ok (), u) \<or> (\<exists>e. y = (Err e, u)) \<or> y = (Panic, u)")
      case True
      then show ?thesis using su by auto
    next
      case False
      then obtain start'' where "loop U f start'' u = Some y"
        using step same run by (auto split: outcome.splits if_splits)
      then have "R u (snd y)" using IH by blast
      then show ?thesis using su trans by blast
    qed
  qed
  then show ?thesis using assms(2) by fastforce
qed

lemma frame_fst: "frame R \<Longrightarrow> frame (\<lambda>p q. R (fst p) (fst q))"
  by (auto simp: frame_def)

lemma fr_on_scope: "state_io_rel R m \<Longrightarrow> state_io_rel (\<lambda>p q. R (fst p) (fst q)) (on_scope m)"
  by (auto simp: state_io_rel_def)

lemma fr_assign: "frame R \<Longrightarrow> state_io_rel (\<lambda>p q. R (fst p) (fst q)) (assign v)"
  by (auto simp: state_io_rel_def assign_def modify_def frame_def)

lemma vlookup_page_frame:
  assumes "frame R" and "\<And>start. state_io_rel R (list start)"
  shows "state_io_rel (\<lambda>p q. R (fst p) (fst q)) (vlookup_page list wrap nilText nm pick name start)"
  unfolding vlookup_page_def next_vpage_def
  by (intro frame.fr_rules [OF frame_fst [OF assms(1)]] fr_on_scope fr_assign assms)

lemma vlookup_may:
  assumes "frame R" and "\<And>start. state_io_rel R (list start)"
  shows "may R (vlookup U list wrap nilText nm pick name)"
  unfolding may_def vlookup_def PagingHelper_def
  using paging_loop_frame [OF vlookup_page_frame [OF assms]] frame.R_trans [OF assms(1)]
  by (fastforce split: option.splits prod.splits outcome.splits)

text \<open>What is found has the name, and is on a page of the listing.\<close>

lemma first_named_name: "first_named nm n xs = Ok (Some x) \<Longrightarrow> nm x = Some n \<and> x \<in> set xs"
  by (induction xs) (auto split: option.splits if_splits)

end
