(* ===== verification/Ibmvpc_Machine_Scope.thy ===== *)
theory Ibmvpc_Machine_Scope
  imports Ibmvpc_Scope Ibmvpc_Paging
begin

text \<open>
  The scope of a VPC machine (\<^verbatim>\<open>pkg/cloud/scope/vpc/machine.go\<close>, \<open>MachineScope\<close>): finding or creating the
  instance, its volumes, its addresses and provider ID, and deleting it.
\<close>

section \<open>Error texts\<close>

definition msg_failed_to_get_cloud_account_id :: string where "msg_failed_to_get_cloud_account_id = ''failed to get cloud account id''"
definition msg_invalid_value_for_provideridformat :: string where "msg_invalid_value_for_provideridformat = ''invalid value for ProviderIDFormat''"
definition msg_instance_list_returned_is_nil :: string where "msg_instance_list_returned_is_nil = ''instance list returned is nil''"
definition msg_error_retrieving_bootstrap_data_linked_bootstrap_datasecretname_is_nil :: string where "msg_error_retrieving_bootstrap_data_linked_bootstrap_datasecretname_is_nil = ''error retrieving bootstrap data: linked bootstrap.dataSecretName is nil''"
definition msg_failed_to_retrieve_bootstrap_data_secret_for_ibmvpcmachine :: string where "msg_failed_to_retrieve_bootstrap_data_secret_for_ibmvpcmachine = ''failed to retrieve bootstrap data secret for ibmvpcmachine''"
definition msg_error_retrieving_bootstrap_data_secret_value_key_is_missing :: string where "msg_error_retrieving_bootstrap_data_secret_value_key_is_missing = ''error retrieving bootstrap data: secret value key is missing''"
definition msg_error_retrieving_subnet_id_for_machine :: string where "msg_error_retrieving_subnet_id_for_machine = ''error retrieving subnet id for machine''"
definition msg_error_retrieving_security_group_id_with_name :: string where "msg_error_retrieving_security_group_id_with_name = ''error retrieving security group id with name''"
definition msg_error_cannot_find_security_group :: string where "msg_error_cannot_find_security_group = ''error cannot find security group''"
definition msg_error_no_name_or_id_provided_for_security_group_for_machine :: string where "msg_error_no_name_or_id_provided_for_security_group_for_machine = ''error no name or id provided for security group for machine''"
definition msg_error_retrieving_security_by_id :: string where "msg_error_retrieving_security_by_id = ''error retrieving security by id''"
definition msg_error_security_group_not_found_with_id :: string where "msg_error_security_group_not_found_with_id = ''error security group not found with id''"
definition msg_error_failed_lookup_of_dedicated_host_by_name :: string where "msg_error_failed_lookup_of_dedicated_host_by_name = ''error failed lookup of dedicated host by name''"
definition msg_error_no_dedicated_host_found_with_name :: string where "msg_error_no_dedicated_host_found_with_name = ''error no dedicated host found with name''"
definition msg_both_id_and_name_cannot_be_nil :: string where "msg_both_id_and_name_cannot_be_nil = ''both id and name cannot be nil''"
definition msg_failed_to_get_keys :: string where "msg_failed_to_get_keys = ''failed to get keys''"
definition msg_key_list_returned_is_nil :: string where "msg_key_list_returned_is_nil = ''key list returned is nil''"
definition msg_sshkey_does_not_exist_failed_to_find_key_id :: string where "msg_sshkey_does_not_exist_failed_to_find_key_id = ''sshkey does not exist - failed to find key id''"
definition msg_failed_to_get_images :: string where "msg_failed_to_get_images = ''failed to get images''"
definition msg_image_does_not_exist_failed_to_find_an_image_id :: string where "msg_image_does_not_exist_failed_to_find_an_image_id = ''image does not exist - failed to find an image id''"
definition msg_error_while_fetching_image_id :: string where "msg_error_while_fetching_image_id = ''error while fetching image id''"
definition msg_error_no_machine_image_or_catalog_offering_provided_to_build :: string where "msg_error_no_machine_image_or_catalog_offering_provided_to_build = ''error no machine image or catalog offering provided to build''"
definition msg_error_catalog_offering_missing_offering_crn_and_version_crn_one_must_be_provided :: string where "msg_error_catalog_offering_missing_offering_crn_and_version_crn_one_must_be_provided = ''error catalog offering missing offering crn and version crn, one must be provided''"
definition msg_error_profile_is_empty_for_machine :: string where "msg_error_profile_is_empty_for_machine = ''error profile is empty for machine''"
definition msg_error_configuration_machine_placement_target :: string where "msg_error_configuration_machine_placement_target = ''error configuration machine placement target''"
definition msg_error_while_fetching_sshkey :: string where "msg_error_while_fetching_sshkey = ''error while fetching sshkey''"
definition msg_error_while_getting_volume_attachments :: string where "msg_error_while_getting_volume_attachments = ''error while getting volume attachments''"
definition msg_could_not_fetch_volume_status :: string where "msg_could_not_fetch_volume_status = ''could not fetch volume status''"
definition msg_error_while_creating_volume :: string where "msg_error_while_creating_volume = ''error while creating volume''"
definition msg_error_while_attaching_volume_to_instance :: string where "msg_error_while_attaching_volume_to_instance = ''error while attaching volume to instance''"

section \<open>The scope\<close>

record vmscope = vworld +
  vm_machine :: IBMVPCMachine
  vm_cluster :: IBMVPCCluster
  vm_DataSecretName :: "string option"               \<comment> \<open>\<open>Bootstrap.DataSecretName\<close> of the Cluster API machine\<close>
  vm_OwnerNamespace :: string                        \<comment> \<open>its namespace\<close>
  vm_ClusterName :: string                           \<comment> \<open>and the name of its cluster\<close>
  vm_APIServerPort :: int                            \<comment> \<open>the port in the \<open>ClusterNetwork\<close> of the cluster\<close>

type_synonym 'a vmproc = "(vmscope, 'a) proc"
type_synonym 'a vmpproc = "(vmscope, 'a) pproc"

abbreviation (input) vm_spec :: "vmscope \<Rightarrow> IBMVPCMachineSpec" where
  "vm_spec s \<equiv> VMachine_Spec (vm_machine s)"

abbreviation (input) vm_status :: "vmscope \<Rightarrow> IBMVPCMachineStatus" where
  "vm_status s \<equiv> VMachine_Status (vm_machine s)"

definition upd_vmachine :: "(IBMVPCMachine \<Rightarrow> IBMVPCMachine) \<Rightarrow> (vmscope, unit) state" where
  "upd_vmachine f = modify (\<lambda>s. s\<lparr>vm_machine := f (vm_machine s)\<rparr>)"

definition upd_vmstatus :: "(IBMVPCMachineStatus \<Rightarrow> IBMVPCMachineStatus) \<Rightarrow> (vmscope, unit) state" where
  "upd_vmstatus f = upd_vmachine (\<lambda>m. m\<lparr>VMachine_Status := f (VMachine_Status m)\<rparr>)"

lemma wp_upd_vmachine [wp_simps]:
  "wp (upd_vmachine g) Q s = Q () (s\<lparr>vm_machine := g (vm_machine s)\<rparr>)"
  "wp (upd_vmstatus f) Q s = Q () (s\<lparr>vm_machine := (vm_machine s)\<lparr>VMachine_Status := f (vm_status s)\<rparr>\<rparr>)"
  by (simp_all add: upd_vmstatus_def upd_vmachine_def wp_modify)

section \<open>Status\<close>

definition v_GetMachineInternalIP :: "IBMVPCMachine \<Rightarrow> string option" where
  "v_GetMachineInternalIP m = map_option snd (find (\<lambda>(ty, _). ty = NodeInternalIP) (VMStatus_Addresses (VMachine_Status m)))"

text \<open>The address is three pointers away.\<close>

definition primary_ip :: "VSInstance \<Rightarrow> (string \<Rightarrow> ('s, 'a) proc) \<Rightarrow> ('s, 'a) proc" where
  "primary_ip ins k = deref (vsi_PrimaryIP ins) (\<lambda>p. deref p (\<lambda>q. deref q k))"

definition v_SetAddresses :: "VSInstance \<Rightarrow> unit vmproc" where
  "v_SetAddresses ins = deref (vsi_Name ins) (\<lambda>n. primary_ip ins (\<lambda>ip. do {
     upd_vmstatus (\<lambda>st. st\<lparr>VMStatus_Addresses := [(NodeInternalDNS, n), (NodeHostName, n), (NodeInternalIP, ip)]\<rparr>);
     ok () }))"

definition v_SetInstanceID :: "string \<Rightarrow> (vmscope, unit) state" where
  "v_SetInstanceID i = upd_vmstatus (\<lambda>st. st\<lparr>VMStatus_InstanceID := i\<rparr>)"

definition v_SetInstanceStatus :: "string \<Rightarrow> (vmscope, unit) state" where
  "v_SetInstanceStatus x = upd_vmstatus (\<lambda>st. st\<lparr>VMStatus_InstanceStatus := x\<rparr>)"

definition v_SetReadiness :: "bool \<Rightarrow> (vmscope, unit) state" where
  "v_SetReadiness b = upd_vmstatus (\<lambda>st. st\<lparr>VMStatus_Ready := b\<rparr>)"

definition v_SetFailure :: "string \<Rightarrow> string \<Rightarrow> (vmscope, unit) state" where
  "v_SetFailure reason msg = upd_vmstatus (\<lambda>st. st\<lparr>VMStatus_FailureReason := Some reason, VMStatus_FailureMessage := Some msg\<rparr>)"

definition v_SetProviderID :: "vpc_clients \<Rightarrow> string option \<Rightarrow> unit vmproc" where
  "v_SetProviderID C i =
     (if vProviderIDFormat C = ''v2'' then do {
        r \<leftarrow> do_GetAccountID C;
        case r of
          Fail e _ \<Rightarrow> fail (Wrapf msg_failed_to_get_cloud_account_id e)
        | Reply account \<Rightarrow> deref i (\<lambda>i'. do {
            s \<leftarrow> State_Monad.get;
            upd_vmachine (\<lambda>m. m\<lparr>VMachine_Spec := (VMachine_Spec m)\<lparr>VMSpec_ProviderID :=
              Some (''ibm://'' @ account @ ''///'' @ vm_ClusterName s @ ''/'' @ i')\<rparr>\<rparr>);
            ok () }) }
      else fail (Errorf msg_invalid_value_for_provideridformat))"

definition v_MachineAPIServerPort :: "vmscope \<Rightarrow> int" where
  "v_MachineAPIServerPort s = (if vm_APIServerPort s > 0 then vm_APIServerPort s else vpc_DefaultAPIServerPort)"

section \<open>Finding what the instance needs\<close>

text \<open>An instance with the name of the machine, anywhere in the account.\<close>

definition ensureInstanceUnique :: "vpc_clients \<Rightarrow> string \<Rightarrow> VSInstance option vmpproc" where
  "ensureInstanceUnique C name = vlookup (url_start C) (\<lambda>start. do_ListInstances C start) id msg_instance_list_returned_is_nil vsi_Name Some name"

definition v_GetBootstrapData :: "vpc_clients \<Rightarrow> string vmproc" where
  "v_GetBootstrapData C = do {
     s \<leftarrow> State_Monad.get;
     case vm_DataSecretName s of
       None \<Rightarrow> fail (Errorf msg_error_retrieving_bootstrap_data_linked_bootstrap_datasecretname_is_nil)
     | Some n \<Rightarrow> do {
         r \<leftarrow> do_GetBootstrapSecret C (vm_OwnerNamespace s) n;
         case r of
           Fail e _ \<Rightarrow> fail (Wrapf msg_failed_to_retrieve_bootstrap_data_secret_for_ibmvpcmachine e)
         | Reply data \<Rightarrow> (case data ''value'' of
             None \<Rightarrow> fail (Errorf msg_error_retrieving_bootstrap_data_secret_value_key_is_missing)
           | Some v \<Rightarrow> ok v) } }"

text \<open>The subnet by its name in the status of the cluster, worker before control plane, then by a lookup, or an ID itself.\<close>

definition tracked_id :: "ResourceStatus gomap option \<Rightarrow> string \<Rightarrow> string option" where
  "tracked_id m k = (case m of None \<Rightarrow> None | Some m' \<Rightarrow> map_option ResourceStatus_ID (map_of m' k))"

definition subnet_in_status :: "IBMVPCCluster \<Rightarrow> string \<Rightarrow> string option" where
  "subnet_in_status c k = (case VStatus_Network (VCluster_Status c) of
      None \<Rightarrow> None
    | Some n \<Rightarrow> (case tracked_id (NetworkStatus_WorkerSubnets n) k of
        Some i \<Rightarrow> Some i
      | None \<Rightarrow> tracked_id (NetworkStatus_ControlPlaneSubnets n) k))"

definition subnet_identity :: "vpc_clients \<Rightarrow> string option vmproc" where
  "subnet_identity C = do {
     s \<leftarrow> State_Monad.get;
     let k = Interface_Subnet (VMSpec_PrimaryNetworkInterface (vm_spec s));
     case subnet_in_status (vm_cluster s) k of
       Some i \<Rightarrow> ok (Some i)
     | None \<Rightarrow> do {
         r \<leftarrow> do_GetSubnetByName C k;
         case r of
           Fail e _ \<Rightarrow> fail (Wrapf msg_error_retrieving_subnet_id_for_machine e)
         | Reply None \<Rightarrow> ok (Some k)
         | Reply (Some d) \<Rightarrow> ok (subnet_ID d) } }"

definition group_identity :: "vpc_clients \<Rightarrow> VPCResource \<Rightarrow> string option vmproc" where
  "group_identity C sg = do {
     s \<leftarrow> State_Monad.get;
     case VPCResource_Name sg of
       Some n \<Rightarrow> (case (case VStatus_Network (VCluster_Status (vm_cluster s)) of None \<Rightarrow> None | Some x \<Rightarrow> tracked_id (NetworkStatus_SecurityGroups x) n) of
           Some i \<Rightarrow> ok (Some i)
         | None \<Rightarrow> do {
             r \<leftarrow> do_GetSecurityGroupByName C n;
             case r of
               Fail e _ \<Rightarrow> fail (Wrapf msg_error_retrieving_security_group_id_with_name e)
             | Reply None \<Rightarrow> fail (Errorf msg_error_cannot_find_security_group)
             | Reply (Some d) \<Rightarrow> ok (sg_ID d) })
     | None \<Rightarrow> (case VPCResource_ID sg of
           None \<Rightarrow> fail (Errorf msg_error_no_name_or_id_provided_for_security_group_for_machine)
         | Some i \<Rightarrow> do {
             r \<leftarrow> do_GetSecurityGroup C i;
             case r of
               Fail e _ \<Rightarrow> fail (Wrapf msg_error_retrieving_security_by_id e)
             | Reply None \<Rightarrow> fail (Errorf msg_error_security_group_not_found_with_id)
             | Reply (Some _) \<Rightarrow> ok (Some i) }) }"

definition group_identities :: "vpc_clients \<Rightarrow> string option list option vmproc" where
  "group_identities C = do {
     s \<leftarrow> State_Monad.get;
     let sgs = Interface_SecurityGroups (VMSpec_PrimaryNetworkInterface (vm_spec s));
     if sgs = [] then ok None
     else bindE (loopM (\<lambda>sg ids. bindE (group_identity C sg) (\<lambda>i. ok (ids @ [i]))) sgs []) (\<lambda>ids. ok (Some ids)) }"

definition machine_group :: "IBMVPCCluster \<Rightarrow> string" where
  "machine_group c = (case VStatus_ResourceGroup (VCluster_Status c) of Some r \<Rightarrow> ResourceStatus_ID r | None \<Rightarrow> VSpec_ResourceGroup (VCluster_Spec c))"

definition machine_vpc :: "IBMVPCCluster \<Rightarrow> string option" where
  "machine_vpc c = map_option ResourceStatus_ID (Option.bind (VStatus_Network (VCluster_Status c)) NetworkStatus_VPC)"

text \<open>The ID of a dedicated host goes into a prototype for a dedicated host group.\<close>

definition configurePlacementTarget :: "vpc_clients \<Rightarrow> VPCMachinePlacementTarget \<Rightarrow> PlacementPrototype option vmproc" where
  "configurePlacementTarget C target = (case Placement_DedicatedHost target of
      None \<Rightarrow> ok None
    | Some host \<Rightarrow>
        bindE (case VPCResource_ID host of
            Some i \<Rightarrow> ok (Some i)
          | None \<Rightarrow> (case VPCResource_Name host of
              None \<Rightarrow> ok None
            | Some n \<Rightarrow> do {
                r \<leftarrow> do_GetDedicatedHostByName C n;
                case r of
                  Fail e _ \<Rightarrow> fail (Wrapf msg_error_failed_lookup_of_dedicated_host_by_name e)
                | Reply None \<Rightarrow> fail (Errorf msg_error_no_dedicated_host_found_with_name)
                | Reply (Some i) \<Rightarrow> ok i })) (\<lambda>hostID.
        deref hostID (\<lambda>i. ok (Some (PlacementDedicatedHostGroup (Some i))))))"

definition fetchKeyID :: "vpc_clients \<Rightarrow> VPCResource option \<Rightarrow> string vmpproc" where
  "fetchKeyID C key = derefP key (\<lambda>k. case VPCResource_ID k of
      Some i \<Rightarrow> okP i
    | None \<Rightarrow> (case VPCResource_Name k of
        None \<Rightarrow> failP (Errorf msg_both_id_and_name_cannot_be_nil)
      | Some n \<Rightarrow> bindP (vlookup (url_start C) (\<lambda>start. do_ListKeys C start) (Wrapf msg_failed_to_get_keys) msg_key_list_returned_is_nil key_Name key_ID n) (\<lambda>i.
          case i of
            Some i' \<Rightarrow> okP i'
          | None \<Rightarrow> failP (Errorf msg_sshkey_does_not_exist_failed_to_find_key_id))))"

definition fetchImageID :: "vpc_clients \<Rightarrow> VPCResource \<Rightarrow> string vmpproc" where
  "fetchImageID C img = (case VPCResource_ID img of
      Some i \<Rightarrow> okP i
    | None \<Rightarrow> (case VPCResource_Name img of
        None \<Rightarrow> failP (Errorf msg_both_id_and_name_cannot_be_nil)
      | Some n \<Rightarrow> withP State_Monad.get (\<lambda>s.
          bindP (vlookup (url_start C) (\<lambda>start. do_ListImages C (machine_group (vm_cluster s)) start) (Wrapf msg_failed_to_get_images) msg_image_list_nil
            cimage_Name cimage_ID n) (\<lambda>i. case i of
              Some i' \<Rightarrow> okP i'
            | None \<Rightarrow> failP (Errorf msg_image_does_not_exist_failed_to_find_an_image_id)))))"

definition nonzero :: "int \<Rightarrow> int option" where "nonzero n = (if n \<noteq> 0 then Some n else None)"
definition nonempty :: "string \<Rightarrow> string option" where "nonempty x = (if x \<noteq> [] then Some x else None)"

definition volumeToVPCVolumeAttachment :: "VPCVolume \<Rightarrow> VBootVolume" where
  "volumeToVPCVolumeAttachment v =
     \<lparr>boot_DeleteVolumeOnInstanceDelete = Volume_DeleteOnInstanceDelete v, boot_Name = nonempty (Volume_Name v),
      boot_Profile = nonempty (Volume_Profile v), boot_Capacity = nonzero (Volume_SizeGiB v), boot_Iops = nonzero (Volume_Iops v),
      boot_Bandwidth = nonzero (Volume_Bandwidth v), boot_EncryptionKey = nonempty (Volume_EncryptionKeyCRN v)\<rparr>"

text \<open>An image if there is one, otherwise a catalog offering or a version of one.\<close>

definition instance_source :: "vpc_clients \<Rightarrow> VSource vmpproc" where
  "instance_source C = withP State_Monad.get (\<lambda>s. case VMSpec_Image (vm_spec s) of
      Some img \<Rightarrow> bindPW msg_error_while_fetching_image_id (fetchImageID C img) (\<lambda>i. okP (ByImage (Some i)))
    | None \<Rightarrow> (case VMSpec_CatalogOffering (vm_spec s) of
        None \<Rightarrow> failP (Errorf msg_error_no_machine_image_or_catalog_offering_provided_to_build)
      | Some o' \<Rightarrow> (case (Catalog_OfferingCRN o', Catalog_VersionCRN o') of
          (Some crn, _) \<Rightarrow> okP (ByOffering crn (Catalog_PlanCRN o'))
        | (None, Some crn) \<Rightarrow> okP (ByVersion crn (Catalog_PlanCRN o'))
        | (None, None) \<Rightarrow> failP (Errorf msg_error_catalog_offering_missing_offering_crn_and_version_crn_one_must_be_provided))))"

section \<open>The instance\<close>

definition create_instance :: "vpc_clients \<Rightarrow> VCreateInstance \<Rightarrow> VSInstance option vmproc" where
  "create_instance C req = do {
     r \<leftarrow> do_CreateInstance C req;
     case r of
       Fail e _ \<Rightarrow> fail e
     | Reply x \<Rightarrow> deref x (\<lambda>ins. deref (vsi_Name ins) (\<lambda>_. ok (Some ins))) }"

definition build_instance :: "vpc_clients \<Rightarrow> string \<Rightarrow> VSInstance option vmpproc" where
  "build_instance C cloudInitData = withP State_Monad.get (\<lambda>s. let m = vm_machine s; spec = VMachine_Spec m in
     if VMSpec_Profile spec = [] then failP (Errorf msg_error_profile_is_empty_for_machine)
     else bindP (lift (subnet_identity C)) (\<lambda>sub.
          bindP (lift (group_identities C)) (\<lambda>sgs.
          bindPW msg_error_configuration_machine_placement_target
            (lift (case VMSpec_PlacementTarget spec of None \<Rightarrow> ok None | Some target \<Rightarrow> configurePlacementTarget C target)) (\<lambda>placement.
          bindP (loopP (\<lambda>key ids. attemptP (fetchKeyID C key) (\<lambda>_. failP (Errorf msg_error_while_fetching_sshkey)) (\<lambda>i. okP (ids @ [Some i])))
            (VMSpec_SSHKeys spec) []) (\<lambda>keys.
          bindP (instance_source C) (\<lambda>source.
            lift (create_instance C
              \<lparr>vin_Name = VMachine_Name m, vin_Profile = VMSpec_Profile spec, vin_Subnet = sub, vin_SecurityGroups = sgs,
               vin_ResourceGroup = machine_group (vm_cluster s), vin_UserData = cloudInitData, vin_VPC = machine_vpc (vm_cluster s),
               vin_Zone = VMSpec_Zone spec, vin_Placement = placement, vin_Keys = (if keys = [] then None else Some keys),
               vin_BootVolume = map_option volumeToVPCVolumeAttachment (VMSpec_BootVolume spec), vin_Source = source\<rparr>)))))))"

definition v_CreateMachine :: "vpc_clients \<Rightarrow> VSInstance option vmpproc" where
  "v_CreateMachine C = withP State_Monad.get (\<lambda>s.
     bindP (ensureInstanceUnique C (VMachine_Name (vm_machine s))) (\<lambda>x. case x of
         Some ins \<Rightarrow> okP (Some ins)
       | None \<Rightarrow> bindP (lift (v_GetBootstrapData C)) (\<lambda>cloudInitData. build_instance C cloudInitData)))"

definition v_DeleteMachine :: "vpc_clients \<Rightarrow> unit vmproc" where
  "v_DeleteMachine C = do {
     s \<leftarrow> State_Monad.get;
     if VMStatus_InstanceID (vm_status s) = [] then ok ()
     else do {
       r \<leftarrow> do_DeleteInstance C (VMStatus_InstanceID (vm_status s));
       case r of Fail e _ \<Rightarrow> fail e | Reply _ \<Rightarrow> ok () } }"

section \<open>Volumes\<close>

definition GetVolumeAttachments :: "vpc_clients \<Rightarrow> VolumeAttachment list vmproc" where
  "GetVolumeAttachments C = do {
     s \<leftarrow> State_Monad.get;
     r \<leftarrow> do_GetAttachments C (VMStatus_InstanceID (vm_status s));
     case r of Fail e _ \<Rightarrow> fail (Wrapf msg_error_while_getting_volume_attachments e) | Reply x \<Rightarrow> deref x (\<lambda>xs. ok xs) }"

definition GetVolumeState :: "vpc_clients \<Rightarrow> string \<Rightarrow> string vmproc" where
  "GetVolumeState C i = do {
     r \<leftarrow> do_GetVolume C i;
     case r of Fail e _ \<Rightarrow> fail (Wrapf msg_could_not_fetch_volume_status e) | Reply x \<Rightarrow> deref x (\<lambda>st. deref st (\<lambda>st'. ok st')) }"

definition volume_request :: "vmscope \<Rightarrow> VPCVolume \<Rightarrow> VCreateVolume" where
  "volume_request s v =
     \<lparr>vvol_ResourceGroup = machine_group (vm_cluster s), vvol_Profile = Volume_Profile v, vvol_Zone = VMSpec_Zone (vm_spec s),
      vvol_Capacity = Volume_SizeGiB v,
      vvol_Iops = (if Volume_Profile v = ''custom'' then Some (Volume_Iops v)
                   else if Volume_Profile v = ''sdp'' then nonzero (Volume_Iops v) else None),
      vvol_Bandwidth = (if Volume_Profile v = ''sdp'' then nonzero (Volume_Bandwidth v) else None)\<rparr>"

definition CreateVolume :: "vpc_clients \<Rightarrow> VPCVolume \<Rightarrow> string vmproc" where
  "CreateVolume C v = do {
     s \<leftarrow> State_Monad.get;
     r \<leftarrow> do_CreateVolume C (volume_request s v);
     case r of Fail e _ \<Rightarrow> fail (Wrapf msg_error_while_creating_volume e) | Reply x \<Rightarrow> deref x (\<lambda>i. deref i (\<lambda>i'. ok i')) }"

definition AttachVolume :: "vpc_clients \<Rightarrow> bool \<Rightarrow> string \<Rightarrow> string \<Rightarrow> unit vmproc" where
  "AttachVolume C deleteOnInstanceDelete volumeID volumeName = do {
     s \<leftarrow> State_Monad.get;
     r \<leftarrow> do_AttachVolume C (VMStatus_InstanceID (vm_status s)) deleteOnInstanceDelete volumeID volumeName;
     case r of Fail e _ \<Rightarrow> fail (Wrapf msg_error_while_attaching_volume_to_instance e) | Reply _ \<Rightarrow> ok () }"

end
