(* ===== verification/Ibmvpc_Pool_Members.thy ===== *)
theory Ibmvpc_Pool_Members
  imports Ibmvpc_Machine_Scope
begin

text \<open>
  The membership of a VPC machine in the backend pools of load balancers
  (\<^verbatim>\<open>pkg/cloud/scope/vpc/machine.go\<close>): the members its spec asks for, or the one of the control plane, and
  their removal.
\<close>

section \<open>Error texts\<close>

definition msg_error_no_load_balancer_id_or_name_provided :: string where "msg_error_no_load_balancer_id_or_name_provided = ''error no load balancer id or name provided''"
definition msg_error_failed_to_lookup_load_balancer_id_by_name :: string where "msg_error_failed_to_lookup_load_balancer_id_by_name = ''error failed to lookup load balancer id by name''"
definition msg_error_unable_to_find_load_balancer_id_with_name :: string where "msg_error_unable_to_find_load_balancer_id_with_name = ''error unable to find load balancer id with name''"
definition msg_error_no_load_balancer_pool_id_or_name_provided :: string where "msg_error_no_load_balancer_pool_id_or_name_provided = ''error no load balancer pool id or name provided''"
definition msg_error_failed_to_lookup_load_balancer_pool_id_by_name :: string where "msg_error_failed_to_lookup_load_balancer_pool_id_by_name = ''error failed to lookup load balancer pool id by name''"
definition msg_error_unable_to_find_load_balancer_pool_id_with_name :: string where "msg_error_unable_to_find_load_balancer_pool_id_with_name = ''error unable to find load balancer pool id with name''"
definition msg_error_checking_if_load_balancer_pool_member_exists :: string where "msg_error_checking_if_load_balancer_pool_member_exists = ''error checking if load balancer pool member exists''"
definition msg_error_listing_members_for_load_balancer_pool :: string where "msg_error_listing_members_for_load_balancer_pool = ''error listing members for load balancer pool''"
definition msg_error_unable_to_find_load_balancer_or_pool_members :: string where "msg_error_unable_to_find_load_balancer_or_pool_members = ''error unable to find load balancer or pool members''"
definition msg_error_no_load_balancer_pool_members_returned :: string where "msg_error_no_load_balancer_pool_members_returned = ''error no load balancer pool members returned''"
definition msg_error_creating_load_balancer_pool_member :: string where "msg_error_creating_load_balancer_pool_member = ''error creating load balancer pool member''"
definition msg_error_failed_creating_load_balancer_backend_pool_member :: string where "msg_error_failed_creating_load_balancer_backend_pool_member = ''error failed creating load balancer backend pool member''"
definition msg_error_unable_to_find_machine_internal_ip_to_use_for_load_balancer_pool :: string where "msg_error_unable_to_find_machine_internal_ip_to_use_for_load_balancer_pool = ''error unable to find machine internal ip to use for load balancer pool''"
definition msg_error_failed_to_check_if_member_exists_in_pool :: string where "msg_error_failed_to_check_if_member_exists_in_pool = ''error failed to check if member exists in pool''"
definition msg_error_load_balancer_is_not_in_active_state :: string where "msg_error_load_balancer_is_not_in_active_state = ''error load balancer is not in active state''"
definition msg_error_no_pools_exist_for_the_load_balancer :: string where "msg_error_no_pools_exist_for_the_load_balancer = ''error no pools exist for the load balancer''"
definition msg_error_failed_to_bind_listloadbalancerpoolmembers_to_control_plane :: string where "msg_error_failed_to_bind_listloadbalancerpoolmembers_to_control_plane = ''error failed to bind listloadbalancerpoolmembers to control plane''"
definition msg_load_balancer_is_not_in_active_state :: string where "msg_load_balancer_is_not_in_active_state = ''load balancer is not in active state''"
definition msg_error_deleting_load_balancer_pool_member_for_machine :: string where "msg_error_deleting_load_balancer_pool_member_for_machine = ''error deleting load balancer pool member for machine''"
definition msg_error_retrieving_load_balancer_for_load_balancer_pool_member_deletion_for_machine :: string where "msg_error_retrieving_load_balancer_for_load_balancer_pool_member_deletion_for_machine = ''error retrieving load balancer for load balancer pool member deletion for machine''"
definition msg_error_load_balancer_has_no_id_or_name_for_load_balancer_pool_member_deleteion :: string where "msg_error_load_balancer_has_no_id_or_name_for_load_balancer_pool_member_deleteion = ''error load balancer has no id or name for load balancer pool member deleteion''"
definition msg_error_retrieving_load_balancer_pool_id_for_load_balancer_pool_member_deletion_for_machine :: string where "msg_error_retrieving_load_balancer_pool_id_for_load_balancer_pool_member_deletion_for_machine = ''error retrieving load balancer pool id for load balancer pool member deletion for machine''"
definition msg_error_retrieving_load_balancer_pool_members_for_load_balancer_pool_member_deletion_for_machine :: string where "msg_error_retrieving_load_balancer_pool_members_for_load_balancer_pool_member_deletion_for_machine = ''error retrieving load balancer pool members for load balancer pool member deletion for machine''"
definition msg_error_retrieving_instance_for_load_balancer_pool_member_deletion_for_machine :: string where "msg_error_retrieving_instance_for_load_balancer_pool_member_deletion_for_machine = ''error retrieving instance for load balancer pool member deletion for machine''"
definition msg_error_instance_is_missing_the_primary_network_interface_ip_address_for_load_balancer_pool_member_deletion_for_machine :: string where "msg_error_instance_is_missing_the_primary_network_interface_ip_address_for_load_balancer_pool_member_deletion_for_machine = ''error instance is missing the primary network interface ip address for load balancer pool member deletion for machine''"
definition msg_error_load_balancer_pool_member_deletion_could_not_complete_as_a_load_balancer_was_not_active_for_machine :: string where "msg_error_load_balancer_pool_member_deletion_could_not_complete_as_a_load_balancer_was_not_active_for_machine = ''error load balancer pool member deletion could not complete as a load balancer was not active for machine''"

section \<open>Load balancer and pool\<close>

definition v_getLoadBalancerID :: "vpc_clients \<Rightarrow> VPCResource \<Rightarrow> string vmproc" where
  "v_getLoadBalancerID C lb = (case VPCResource_ID lb of
      Some i \<Rightarrow> ok i
    | None \<Rightarrow> (case VPCResource_Name lb of
        None \<Rightarrow> fail (Errorf msg_error_no_load_balancer_id_or_name_provided)
      | Some n \<Rightarrow> do {
          r \<leftarrow> do_GetLoadBalancerByName C n;
          case r of
            Fail e _ \<Rightarrow> fail (Wrapf msg_error_failed_to_lookup_load_balancer_id_by_name e)
          | Reply x \<Rightarrow> (case Option.bind x lb_ID of
              None \<Rightarrow> fail (Errorf msg_error_unable_to_find_load_balancer_id_with_name)
            | Some i \<Rightarrow> ok i) }))"

definition v_getLoadBalancerPoolID :: "vpc_clients \<Rightarrow> VPCResource \<Rightarrow> string \<Rightarrow> string vmproc" where
  "v_getLoadBalancerPoolID C pool loadBalancerID = (case VPCResource_ID pool of
      Some i \<Rightarrow> ok i
    | None \<Rightarrow> (case VPCResource_Name pool of
        None \<Rightarrow> fail (Errorf msg_error_no_load_balancer_pool_id_or_name_provided)
      | Some n \<Rightarrow> do {
          r \<leftarrow> do_GetPoolByName C loadBalancerID n;
          case r of
            Fail e _ \<Rightarrow> fail (Wrapf msg_error_failed_to_lookup_load_balancer_pool_id_by_name e)
          | Reply x \<Rightarrow> (case Option.bind x id of
              None \<Rightarrow> fail (Errorf msg_error_unable_to_find_load_balancer_pool_id_with_name)
            | Some i \<Rightarrow> ok i) }))"

text \<open>Both IDs of a pool member of the spec.\<close>

definition member_ids :: "vpc_clients \<Rightarrow> string \<Rightarrow> VPCLoadBalancerBackendPoolMember \<Rightarrow> (string \<times> string) vmproc" where
  "member_ids C failed pm =
     bindW failed (v_getLoadBalancerID C (BackendMember_LoadBalancer pm)) (\<lambda>lb.
     bindW failed (v_getLoadBalancerPoolID C (BackendMember_Pool pm) lb) (\<lambda>pool. ok (lb, pool)))"

section \<open>The members of the spec\<close>

text \<open>The first member with the address; only members of type \<open>LoadBalancerPoolMemberTarget\<close> are looked at, the port is not.\<close>

fun member_with_address :: "string \<Rightarrow> CloudPoolMember list \<Rightarrow> CloudPoolMember option outcome" where
  "member_with_address ip [] = Ok None"
| "member_with_address ip (m # ms) = (case cpmember_Target m of
      MemberTarget a \<Rightarrow> (case a of None \<Rightarrow> Panic | Some x \<Rightarrow> if x = ip then Ok (Some m) else member_with_address ip ms)
    | MemberOtherTarget \<Rightarrow> member_with_address ip ms)"

definition checkVPCLoadBalancerPoolMemberExists :: "vpc_clients \<Rightarrow> VPCLoadBalancerBackendPoolMember \<Rightarrow> string \<Rightarrow> CloudPoolMember option vmproc" where
  "checkVPCLoadBalancerPoolMemberExists C pm internalIP =
     bindE (member_ids C msg_error_checking_if_load_balancer_pool_member_exists pm) (\<lambda>(lb, pool). do {
       r \<leftarrow> do_ListMembers C lb pool;
       case r of
         Fail e _ \<Rightarrow> fail (Wrapf msg_error_listing_members_for_load_balancer_pool e)
       | Reply (members, code) \<Rightarrow>
           if code = Some 404 then fail (Errorf msg_error_unable_to_find_load_balancer_or_pool_members)
           else (case members of
               None \<Rightarrow> fail (Errorf msg_error_no_load_balancer_pool_members_returned)
             | Some ms \<Rightarrow> State_Monad.return (member_with_address internalIP ms)) })"

definition createVPCLoadBalancerPoolMember :: "vpc_clients \<Rightarrow> VPCLoadBalancerBackendPoolMember \<Rightarrow> string \<Rightarrow> bool vmproc" where
  "createVPCLoadBalancerPoolMember C pm internalIP =
     bindE (member_ids C msg_error_creating_load_balancer_pool_member pm) (\<lambda>(lb, pool). do {
       r \<leftarrow> do_CreateMember C \<lparr>vcm_LoadBalancerID = lb, vcm_PoolID = pool, vcm_Port = BackendMember_Port pm,
              vcm_Address = Some internalIP, vcm_Weight = BackendMember_Weight pm\<rparr>;
       case r of
         Fail e _ \<Rightarrow> fail (Wrapf msg_error_failed_creating_load_balancer_backend_pool_member e)
       | Reply x \<Rightarrow> deref x (\<lambda>_. do {
           upd_vmstatus (\<lambda>st. st\<lparr>VMStatus_LoadBalancerPoolMembers := VMStatus_LoadBalancerPoolMembers st @
             [\<lparr>BackendMember_LoadBalancer = \<lparr>VPCResource_ID = Some lb, VPCResource_Name = None\<rparr>,
               BackendMember_Pool = \<lparr>VPCResource_ID = Some pool, VPCResource_Name = None\<rparr>,
               BackendMember_Port = BackendMember_Port pm, BackendMember_Weight = BackendMember_Weight pm\<rparr>]\<rparr>);
           ok True }) })"

definition ReconcileVPCLoadBalancerPoolMember :: "vpc_clients \<Rightarrow> VPCLoadBalancerBackendPoolMember \<Rightarrow> bool vmproc" where
  "ReconcileVPCLoadBalancerPoolMember C pm = do {
     s \<leftarrow> State_Monad.get;
     case v_GetMachineInternalIP (vm_machine s) of
       None \<Rightarrow> fail (Errorf msg_error_unable_to_find_machine_internal_ip_to_use_for_load_balancer_pool)
     | Some ip \<Rightarrow>
         attempt (checkVPCLoadBalancerPoolMemberExists C pm ip)
           (\<lambda>_. fail (Errorf msg_error_failed_to_check_if_member_exists_in_pool))
           (\<lambda>existing. case existing of
              Some m \<Rightarrow> deref (cpmember_ProvisioningStatus m) (\<lambda>st. ok (st \<noteq> ''active''))
            | None \<Rightarrow> createVPCLoadBalancerPoolMember C pm ip) }"

section \<open>The member of the control plane\<close>

fun member_with_port :: "string \<Rightarrow> int \<Rightarrow> CloudPoolMember list \<Rightarrow> bool outcome" where
  "member_with_port ip port [] = Ok False"
| "member_with_port ip port (m # ms) = (case cpmember_Target m of
      MemberOtherTarget \<Rightarrow> member_with_port ip port ms
    | MemberTarget None \<Rightarrow> Panic
    | MemberTarget (Some a) \<Rightarrow>
        if a \<noteq> ip then member_with_port ip port ms
        else (case cpmember_Port m of None \<Rightarrow> Panic | Some p \<Rightarrow> if p = port then Ok True else member_with_port ip port ms))"

text \<open>The load balancer of the cluster status.\<close>

definition endpoint_lb :: "vpc_clients \<Rightarrow> CloudLoadBalancer vmproc" where
  "endpoint_lb C = do {
     s \<leftarrow> State_Monad.get;
     r \<leftarrow> do_GetLoadBalancer C (VPCEndpoint_LBID (VStatus_VPCEndpoint (VCluster_Status (vm_cluster s))));
     case snd (snd r) of Some e \<Rightarrow> fail e | None \<Rightarrow> deref (fst r) (\<lambda>lb. ok lb) }"

definition CreateVPCLoadBalancerPoolMember :: "vpc_clients \<Rightarrow> string \<Rightarrow> int \<Rightarrow> CloudPoolMember option vmproc" where
  "CreateVPCLoadBalancerPoolMember C internalIP targetPort =
     bindE (endpoint_lb C) (\<lambda>lb. deref (lb_ProvisioningStatus lb) (\<lambda>st.
       if st \<noteq> VPCLoadBalancerStateActive then fail (Errorf msg_error_load_balancer_is_not_in_active_state)
       else (case lb_Pools lb of
           [] \<Rightarrow> fail (Errorf msg_error_no_pools_exist_for_the_load_balancer)
         | p # _ \<Rightarrow> deref (lb_ID lb) (\<lambda>lbID. deref p (\<lambda>pool. do {
             r \<leftarrow> do_ListMembers C lbID pool;
             case r of
               Fail e _ \<Rightarrow> fail (Wrapf msg_error_failed_to_bind_listloadbalancerpoolmembers_to_control_plane e)
             | Reply (members, _) \<Rightarrow> deref members (\<lambda>ms.
                 bindE (State_Monad.return (member_with_port internalIP targetPort ms)) (\<lambda>exists.
                   if exists then ok None
                   else do {
                     c \<leftarrow> do_CreateMember C \<lparr>vcm_LoadBalancerID = lbID, vcm_PoolID = pool, vcm_Port = targetPort,
                            vcm_Address = Some internalIP, vcm_Weight = None\<rparr>;
                     case c of Fail e _ \<Rightarrow> fail e | Reply x \<Rightarrow> ok x })) })))))"

section \<open>Removal\<close>

text \<open>The first member with the address of the instance is removed, if the load balancer is active.\<close>

fun remove_member :: "vpc_clients \<Rightarrow> VSInstance option \<Rightarrow> CloudLoadBalancer \<Rightarrow> string \<Rightarrow> string \<Rightarrow> CloudPoolMember list \<Rightarrow> unit vmproc" where
  "remove_member C ins lb lbID pool [] = ok ()"
| "remove_member C ins lb lbID pool (m # ms) = (case cpmember_Target m of
      MemberOtherTarget \<Rightarrow> remove_member C ins lb lbID pool ms
    | MemberTarget a \<Rightarrow> deref a (\<lambda>addr. deref ins (\<lambda>x. primary_ip x (\<lambda>ip.
        if addr \<noteq> ip then remove_member C ins lb lbID pool ms
        else deref (lb_ProvisioningStatus lb) (\<lambda>st.
          if st \<noteq> VPCLoadBalancerStateActive then fail (Errorf msg_load_balancer_is_not_in_active_state)
          else deref (cpmember_ID m) (\<lambda>i. do {
            r \<leftarrow> do_DeleteMember C (Some lbID) (Some pool) (Some i);
            case r of Fail e _ \<Rightarrow> fail e | Reply _ \<Rightarrow> ok () }))))))"

text \<open>One member of the status: all members of the pool with the address go; \<open>True\<close> if the load balancer was not active.\<close>

fun remove_members :: "vpc_clients \<Rightarrow> string \<Rightarrow> CloudLoadBalancer \<Rightarrow> string \<Rightarrow> CloudPoolMember list \<Rightarrow> bool \<Rightarrow> bool vmproc" where
  "remove_members C ip lb pool [] incomplete = ok incomplete"
| "remove_members C ip lb pool (m # ms) incomplete =
     (if cpmember_Target m \<noteq> MemberTarget (Some ip) then remove_members C ip lb pool ms incomplete
      else deref (cpmember_ID m) (\<lambda>i. deref (lb_ProvisioningStatus lb) (\<lambda>st.
        if st \<noteq> VPCLoadBalancerStateActive then ok True
        else do {
          r \<leftarrow> do_DeleteMember C (lb_ID lb) (Some pool) (Some i);
          case r of
            Fail e _ \<Rightarrow> fail (Wrapf msg_error_deleting_load_balancer_pool_member_for_machine e)
          | Reply _ \<Rightarrow> remove_members C ip lb pool ms incomplete })))"

definition member_lb :: "vpc_clients \<Rightarrow> VPCLoadBalancerBackendPoolMember \<Rightarrow> CloudLoadBalancer vmproc" where
  "member_lb C pm = (case VPCResource_ID (BackendMember_LoadBalancer pm) of
      Some i \<Rightarrow> do {
        r \<leftarrow> do_GetLoadBalancer C (Some i);
        case snd (snd r) of
          Some e \<Rightarrow> fail (Wrapf msg_error_retrieving_load_balancer_for_load_balancer_pool_member_deletion_for_machine e)
        | None \<Rightarrow> deref (fst r) (\<lambda>lb. ok lb) }
    | None \<Rightarrow> (case VPCResource_Name (BackendMember_LoadBalancer pm) of
        None \<Rightarrow> fail (Errorf msg_error_load_balancer_has_no_id_or_name_for_load_balancer_pool_member_deleteion)
      | Some n \<Rightarrow> do {
          r \<leftarrow> do_GetLoadBalancerByName C n;
          case r of
            Fail e _ \<Rightarrow> fail (Wrapf msg_error_retrieving_load_balancer_for_load_balancer_pool_member_deletion_for_machine e)
          | Reply x \<Rightarrow> deref x (\<lambda>lb. ok lb) }))"

definition remove_status_member :: "vpc_clients \<Rightarrow> string \<Rightarrow> VPCLoadBalancerBackendPoolMember \<Rightarrow> bool \<Rightarrow> bool vmproc" where
  "remove_status_member C ip pm incomplete =
     bindE (member_lb C pm) (\<lambda>lb. deref (lb_ID lb) (\<lambda>lbID.
       bindW msg_error_retrieving_load_balancer_pool_id_for_load_balancer_pool_member_deletion_for_machine
         (v_getLoadBalancerPoolID C (BackendMember_Pool pm) lbID) (\<lambda>pool. do {
           r \<leftarrow> do_ListMembers C lbID pool;
           case r of
             Fail e _ \<Rightarrow> fail (Wrapf msg_error_retrieving_load_balancer_pool_members_for_load_balancer_pool_member_deletion_for_machine e)
           | Reply (members, _) \<Rightarrow> deref members (\<lambda>ms. remove_members C ip lb pool ms incomplete) })))"

definition deleteVPCLoadBalancerPoolMembers :: "vpc_clients \<Rightarrow> unit vmproc" where
  "deleteVPCLoadBalancerPoolMembers C = do {
     s \<leftarrow> State_Monad.get;
     r \<leftarrow> do_GetInstance C (VMStatus_InstanceID (vm_status s));
     case r of
       Fail e _ \<Rightarrow> fail (Wrapf msg_error_retrieving_instance_for_load_balancer_pool_member_deletion_for_machine e)
     | Reply x \<Rightarrow> deref x (\<lambda>ins. case Option.bind (Option.bind (vsi_PrimaryIP ins) id) id of
           None \<Rightarrow> fail (Errorf msg_error_instance_is_missing_the_primary_network_interface_ip_address_for_load_balancer_pool_member_deletion_for_machine)
         | Some ip \<Rightarrow> deref (vsi_ID ins) (\<lambda>_.
             bindE (loopM (remove_status_member C ip) (VMStatus_LoadBalancerPoolMembers (vm_status s)) False) (\<lambda>incomplete.
               if incomplete then fail (Errorf msg_error_load_balancer_pool_member_deletion_could_not_complete_as_a_load_balancer_was_not_active_for_machine)
               else ok ()))) }"

definition DeleteVPCLoadBalancerPoolMember :: "vpc_clients \<Rightarrow> unit vmproc" where
  "DeleteVPCLoadBalancerPoolMember C = do {
     s \<leftarrow> State_Monad.get;
     if VMStatus_InstanceID (vm_status s) = [] then ok ()
     else if VMStatus_LoadBalancerPoolMembers (vm_status s) \<noteq> [] then deleteVPCLoadBalancerPoolMembers C
     else bindE (endpoint_lb C) (\<lambda>lb. case lb_Pools lb of
         [] \<Rightarrow> ok ()
       | p # _ \<Rightarrow> do {
           r \<leftarrow> do_GetInstance C (VMStatus_InstanceID (vm_status s));
           case r of
             Fail e _ \<Rightarrow> fail e
           | Reply ins \<Rightarrow> deref (lb_ID lb) (\<lambda>lbID. deref p (\<lambda>pool. do {
               l \<leftarrow> do_ListMembers C lbID pool;
               case l of
                 Fail e _ \<Rightarrow> fail e
               | Reply (members, _) \<Rightarrow> deref members (\<lambda>ms. remove_member C ins lb lbID pool ms) })) }) }"

end
