(* ===== verification/Ibmvpc_Machine_Controller.thy ===== *)
theory Ibmvpc_Machine_Controller
  imports Ibmvpc_Pool_Members Ibmvpc_Cluster_Controller
begin

text \<open>
  The controller of the VPC machines (\<^verbatim>\<open>internal/controllers/vpc/ibmvpcmachine_controller.go\<close>): finding or
  creating the instance, following its state, registering it with load balancers, its additional volumes,
  and its deletion.
\<close>

section \<open>Error texts\<close>

definition msg_volume_in_unexpected_state :: string where "msg_volume_in_unexpected_state = ''volume in unexpected state''"
definition msg_error_failed_to_reconcile_machine_pool_member :: string where "msg_error_failed_to_reconcile_machine_pool_member = ''error failed to reconcile machine pool member''"
definition msg_failed_to_set_provider_id_ibmvpcmachine :: string where "msg_failed_to_set_provider_id_ibmvpcmachine = ''failed to set provider id ibmvpcmachine''"
definition msg_invalid_primary_ip_address :: string where "msg_invalid_primary_ip_address = ''invalid primary ip address''"
definition msg_failed_to_bind_port_to_control_plane :: string where "msg_failed_to_bind_port_to_control_plane = ''failed to bind port to control plane''"
definition msg_error_reconciling_additional_volumes :: string where "msg_error_reconciling_additional_volumes = ''error reconciling additional volumes''"
definition msg_error_failed_to_tag_machine :: string where "msg_error_failed_to_tag_machine = ''error failed to tag machine''"
definition msg_error_failed_to_set_machine_provider_id :: string where "msg_error_failed_to_set_machine_provider_id = ''error failed to set machine provider id''"
definition msg_failed_to_reconcile_vsi_for_ibmvpcmachine :: string where "msg_failed_to_reconcile_vsi_for_ibmvpcmachine = ''failed to reconcile vsi for ibmvpcmachine''"
definition msg_failed_to_delete_loadbalancer_pool_member :: string where "msg_failed_to_delete_loadbalancer_pool_member = ''failed to delete loadbalancer pool member''"
definition msg_error_deleting_ibmvpcmachine :: string where "msg_error_deleting_ibmvpcmachine = ''error deleting ibmvpcmachine''"

section \<open>Conditions\<close>

definition MachineControlPlaneNameLabel :: string where "MachineControlPlaneNameLabel = ''cluster.x-k8s.io/control-plane-name''"
definition vm_InstanceReadyCondition :: string where "vm_InstanceReadyCondition = ''InstanceReady''"
definition vm_InstanceReadyV1Beta2Condition :: string where "vm_InstanceReadyV1Beta2Condition = ''InstanceReady''"
definition vm_ReadyV1Beta2Condition :: string where "vm_ReadyV1Beta2Condition = ''Ready''"
definition vm_InstanceReadyReason :: string where "vm_InstanceReadyReason = ''InstanceReady''"
definition vm_InstanceNotReadyReason :: string where "vm_InstanceNotReadyReason = ''InstanceNotReady''"
definition vm_InstanceStoppedReason :: string where "vm_InstanceStoppedReason = ''InstanceStopped''"
definition vm_InstanceErroredReason :: string where "vm_InstanceErroredReason = ''InstanceErrored''"
definition vm_InstanceDeletingReason :: string where "vm_InstanceDeletingReason = ''InstanceDeleting''"
definition vm_InstanceStateUnknownReason :: string where "vm_InstanceStateUnknownReason = ''InstanceStateUnknown''"
definition vm_SeverityWarning :: string where "vm_SeverityWarning = ''Warning''"

text \<open>The deprecated condition, then the other one.\<close>

definition put_machine_conditions :: "capi \<Rightarrow> DeprecatedCondition \<Rightarrow> Condition \<Rightarrow> (vmscope, unit) state" where
  "put_machine_conditions K d c = upd_vmachine (\<lambda>m.
     (let m' = vpcmachine_SetConditions m (deprecated_Set K (vpcmachine_GetConditions m) d)
      in vpcmachine_SetV1Beta2Conditions m' (conditions_Set K (vpcmachine_GetV1Beta2Conditions m') c)))"

definition vm_mark :: "capi \<Rightarrow> ConditionStatus \<Rightarrow> string \<Rightarrow> string \<Rightarrow> gerror option \<Rightarrow> ConditionStatus \<Rightarrow> string \<Rightarrow> (vmscope, unit) state" where
  "vm_mark K st reason severity msg st' reason' =
     put_machine_conditions K (marked vm_InstanceReadyCondition st reason severity msg)
       (condition_of vm_InstanceReadyV1Beta2Condition st' reason' None)"

section \<open>The state of the instance\<close>

text \<open>The code and the message of the last health reason.\<close>

definition health_message :: "HealthReason list \<Rightarrow> string outcome" where
  "health_message rs = (if rs = [] then Ok []
     else (case (reason_Code (last rs), reason_Message (last rs)) of
         (Some c, Some m) \<Rightarrow> Ok (c @ '': '' @ m) | _ \<Rightarrow> Panic))"

text \<open>\<open>None\<close> ends the reconcile, otherwise whether the machine is running.\<close>

definition follow_status :: "capi \<Rightarrow> VSInstance \<Rightarrow> string \<Rightarrow> bool option vmproc" where
  "follow_status K ins st =
     (if st = ''pending'' \<or> st = ''starting'' then do {
        v_SetReadiness False;
        vm_mark K ConditionFalse vm_InstanceNotReadyReason vm_SeverityWarning None ConditionFalse vm_InstanceNotReadyReason;
        ok (Some False) }
      else if st = ''stopped'' then do {
        v_SetReadiness False;
        vm_mark K ConditionFalse vm_InstanceStoppedReason ConditionSeverityError None ConditionFalse vm_InstanceStoppedReason;
        ok (Some False) }
      else if st = ''deleting'' then do {
        vm_mark K ConditionFalse vm_InstanceDeletingReason ConditionSeverityError None ConditionFalse vm_InstanceDeletingReason;
        ok (Some False) }
      else if st = ''failed'' then
        bindE (State_Monad.return (health_message (vsi_HealthReasons ins))) (\<lambda>msg. do {
          v_SetReadiness False;
          v_SetFailure UpdateMachineError msg;
          vm_mark K ConditionFalse vm_InstanceErroredReason ConditionSeverityError (Some (Errorf msg)) ConditionFalse vm_InstanceErroredReason;
          ok None })
      else if st = ''running'' then ok (Some True)
      else do {
        v_SetReadiness False;
        vm_mark K ConditionUnknown [] [] None ConditionFalse vm_InstanceStateUnknownReason;
        ok (Some False) })"

section \<open>Additional volumes\<close>

definition nth_id :: "string list \<Rightarrow> nat \<Rightarrow> (string \<Rightarrow> 'a vmproc) \<Rightarrow> 'a vmproc" where
  "nth_id ids v k = (if v < length ids then k (ids ! v) else panic)"

definition AdditionalVolumeIDs :: "vmscope \<Rightarrow> string list" where
  "AdditionalVolumeIDs s = (case VMStatus_V1Beta2 (vm_status s) of None \<Rightarrow> []
     | Some v \<Rightarrow> (case VMV1Beta2_AdditionalVolumeIDs v of None \<Rightarrow> [] | Some ids \<Rightarrow> ids))"

definition set_volume_ids :: "(string list option \<Rightarrow> string list option) \<Rightarrow> (vmscope, unit) state" where
  "set_volume_ids f = upd_vmstatus (\<lambda>st. st\<lparr>VMStatus_V1Beta2 :=
     map_option (\<lambda>v. v\<lparr>VMV1Beta2_AdditionalVolumeIDs := f (VMV1Beta2_AdditionalVolumeIDs v)\<rparr>) (VMStatus_V1Beta2 st)\<rparr>)"

definition volume_wait :: Result where "volume_wait = \<lparr>RequeueAfter = 10\<rparr>"

text \<open>A volume that was created: there once it is available.\<close>

definition follow_volume :: "vpc_clients \<Rightarrow> VPCVolume \<Rightarrow> string \<Rightarrow> Result \<times> gerror list \<Rightarrow> (Result \<times> gerror list) vmproc" where
  "follow_volume C vol i acc =
     attempt (GetVolumeState C i) (\<lambda>e. ok (fst acc, snd acc @ [e])) (\<lambda>st.
       if st = ''pending'' \<or> st = ''updating'' then ok (volume_wait, snd acc)
       else if st = ''failed'' \<or> st = ''unusable'' then ok (fst acc, snd acc @ [Errorf msg_volume_in_unexpected_state])
       else if st = ''available'' then
         attempt (AttachVolume C (Volume_DeleteOnInstanceDelete vol) i (Volume_Name vol)) (\<lambda>e. ok (fst acc, snd acc @ [e])) (\<lambda>_. ok acc)
       else ok acc)"

definition reconcile_volume :: "vpc_clients \<Rightarrow> (string \<Rightarrow> bool) \<Rightarrow> nat \<Rightarrow> VPCVolume option \<Rightarrow> Result \<times> gerror list \<Rightarrow> (Result \<times> gerror list) vmproc" where
  "reconcile_volume C there v volume acc = deref volume (\<lambda>vol.
     if there (Volume_Name vol) then ok acc
     else do {
       s \<leftarrow> State_Monad.get;
       nth_id (AdditionalVolumeIDs s) v (\<lambda>i.
         if i \<noteq> [] then follow_volume C vol i acc
         else attempt (CreateVolume C vol)
           (\<lambda>e. ok (volume_wait, snd acc @ [e]))
           (\<lambda>i'. do {
              set_volume_ids (map_option (\<lambda>ids. ids[v := i']));
              ok (volume_wait, snd acc) })) })"

text \<open>The names of the attachments; each is dereferenced.\<close>

fun attachment_names :: "VolumeAttachment list \<Rightarrow> string list outcome" where
  "attachment_names [] = Ok []"
| "attachment_names (a # as) = (case attachment_Name a of
      None \<Rightarrow> Panic
    | Some n \<Rightarrow> (case attachment_names as of Ok ns \<Rightarrow> Ok (n # ns) | Err e \<Rightarrow> Err e | Panic \<Rightarrow> Panic))"

text \<open>The machine object is fetched again, over the one of the scope.\<close>

definition reconcileAdditionalVolumes :: "vpc_clients \<Rightarrow> Result vmproc" where
  "reconcileAdditionalVolumes C = do {
     s \<leftarrow> State_Monad.get;
     if VMSpec_AdditionalVolumes (vm_spec s) = [] then ok finished
     else do {
       r \<leftarrow> do_GetMachineObject C (VMachine_Namespace (vm_machine s)) (VMachine_Name (vm_machine s));
       case r of
         Fail e _ \<Rightarrow> fail e
       | Reply m \<Rightarrow> do {
           upd_vmachine (\<lambda>_. m);
           deref (VMStatus_V1Beta2 (VMachine_Status m)) (\<lambda>_. do {
             set_volume_ids (\<lambda>ids. case ids of None \<Rightarrow> Some (replicate (length (VMSpec_AdditionalVolumes (VMachine_Spec m))) []) | Some x \<Rightarrow> Some x);
             bindE (GetVolumeAttachments C) (\<lambda>attachments.
             bindE (State_Monad.return (attachment_names attachments)) (\<lambda>names.
             bindE (loop_i (reconcile_volume C (\<lambda>n. n \<in> set names)) 0 (VMSpec_AdditionalVolumes (VMachine_Spec m)) (finished, [])) (\<lambda>(result, errs).
               if errs = [] then ok result else fail (AggregateErr errs)))) }) } } }"

section \<open>Reconcile\<close>

text \<open>The pool members of the spec, all of them attempted; whether any needs another round.\<close>

definition reconcile_spec_members :: "vpc_clients \<Rightarrow> VPCLoadBalancerBackendPoolMember list \<Rightarrow> bool vmproc" where
  "reconcile_spec_members C pms = loopM (\<lambda>pm needsRequeue.
     bindW msg_error_failed_to_reconcile_machine_pool_member (ReconcileVPCLoadBalancerPoolMember C pm) (\<lambda>requeue. ok (if requeue then True else needsRequeue))) pms False"

text \<open>The member of the control plane; \<open>True\<close> asks for another round.\<close>

definition reconcile_control_plane_member :: "vpc_clients \<Rightarrow> VSInstance \<Rightarrow> bool vmproc" where
  "reconcile_control_plane_member C ins = do {
     s0 \<leftarrow> State_Monad.get;
     let labelled = (VMachine_Labels (vm_machine s0) MachineControlPlaneNameLabel \<noteq> None);
     bindW msg_failed_to_set_provider_id_ibmvpcmachine (v_SetProviderID C (vsi_ID ins)) (\<lambda>_.
       if \<not> labelled then ok False
       else deref (vsi_PrimaryIP ins) (\<lambda>p. deref p (\<lambda>ip. do {
         s \<leftarrow> State_Monad.get;
         if ip = None \<or> ip = Some ''0.0.0.0'' then fail (Errorf msg_invalid_primary_ip_address)
         else deref ip (\<lambda>internalIP.
           bindW msg_failed_to_bind_port_to_control_plane (CreateVPCLoadBalancerPoolMember C internalIP (v_MachineAPIServerPort s)) (\<lambda>member. case member of
               None \<Rightarrow> ok False
             | Some m \<Rightarrow> deref (cpmember_ProvisioningStatus m) (\<lambda>st. ok (st \<noteq> VPCLoadBalancerStateActive)))) }))) }"

definition retry_minute :: Result where "retry_minute = \<lparr>RequeueAfter = 60\<rparr>"

definition reconcile_running :: "capi \<Rightarrow> vpc_clients \<Rightarrow> VSInstance \<Rightarrow> Result vmproc" where
  "reconcile_running K C ins = do {
     s \<leftarrow> State_Monad.get;
     bindE (if VMSpec_LoadBalancerPoolMembers (vm_spec s) \<noteq> [] then reconcile_spec_members C (VMSpec_LoadBalancerPoolMembers (vm_spec s))
            else reconcile_control_plane_member C ins) (\<lambda>again.
       if again then ok retry_minute
       else bindW msg_error_reconciling_additional_volumes (reconcileAdditionalVolumes C) (\<lambda>result. do {
         v_SetReadiness True;
         vm_mark K ConditionTrue [] [] None ConditionTrue vm_InstanceReadyReason;
         ok result })) }"

text \<open>An instance that was found or created: it is tagged before anything of it goes into the status.\<close>

definition reconcile_found :: "capi \<Rightarrow> vpc_clients \<Rightarrow> VSInstance \<Rightarrow> Result vmproc" where
  "reconcile_found K C ins = deref (vsi_CRN ins) (\<lambda>crn. do {
     s \<leftarrow> State_Monad.get;
     bindW msg_error_failed_to_tag_machine (v_TagResource C (VCluster_Name (vm_cluster s)) crn) (\<lambda>_. deref (vsi_ID ins) (\<lambda>i. do {
       v_SetInstanceID i;
       bindW msg_error_failed_to_set_machine_provider_id (v_SetProviderID C (Some i)) (\<lambda>_.
       bindE (v_SetAddresses ins) (\<lambda>_. deref (vsi_Status ins) (\<lambda>st. do {
         v_SetInstanceStatus st;
         bindE (follow_status K ins st) (\<lambda>running. case running of
             None \<Rightarrow> ok finished
           | Some False \<Rightarrow> ok retry_minute
           | Some True \<Rightarrow> reconcile_running K C ins) }))) })) })"

definition reconcile_missing :: "capi \<Rightarrow> Result vmproc" where
  "reconcile_missing K = do {
     v_SetReadiness False;
     vm_mark K ConditionUnknown vm_InstanceStateUnknownReason [] None ConditionFalse vm_InstanceStateUnknownReason;
     ok retry_minute }"

definition use_cluster_subnet :: "IBMVPCCluster \<Rightarrow> IBMVPCMachine \<Rightarrow> IBMVPCMachine" where
  "use_cluster_subnet c m = (case SubnetSpec_ID (VStatus_Subnet (VCluster_Status c)) of
      None \<Rightarrow> m
    | Some i \<Rightarrow> m\<lparr>VMachine_Spec := (VMachine_Spec m)\<lparr>VMSpec_PrimaryNetworkInterface := \<lparr>Interface_SecurityGroups = [], Interface_Subnet = i\<rparr>\<rparr>\<rparr>)"

definition v_reconcileNormal :: "capi \<Rightarrow> (string list \<Rightarrow> string \<Rightarrow> string list \<times> bool) \<Rightarrow> vpc_clients \<Rightarrow> Result vmpproc" where
  "v_reconcileNormal K AddFinalizer C = withP State_Monad.get (\<lambda>s.
     (let added = AddFinalizer (VMachine_Finalizers (vm_machine s)) MachineFinalizer
      in withP (upd_vmachine (\<lambda>m. m\<lparr>VMachine_Finalizers := fst added\<rparr>)) (\<lambda>_.
           if snd added then okP finished
           else if vm_DataSecretName s = None then okP retry_minute
           else withP (upd_vmachine (use_cluster_subnet (vm_cluster s))) (\<lambda>_.
             bindPW msg_failed_to_reconcile_vsi_for_ibmvpcmachine (v_CreateMachine C) (\<lambda>ins. case ins of
                 Some x \<Rightarrow> lift (reconcile_found K C x)
               | None \<Rightarrow> lift (reconcile_missing K))))))"

section \<open>Deletion\<close>

definition v_machine_reconcileDelete :: "capi \<Rightarrow> vpc_clients \<Rightarrow> Result vmproc" where
  "v_machine_reconcileDelete K C = do {
     s \<leftarrow> State_Monad.get;
     bindW msg_failed_to_delete_loadbalancer_pool_member
       (if VMachine_Labels (vm_machine s) MachineControlPlaneNameLabel \<noteq> None then DeleteVPCLoadBalancerPoolMember C else ok ()) (\<lambda>_.
     bindW msg_error_deleting_ibmvpcmachine (v_DeleteMachine C) (\<lambda>_. do {
       upd_vmachine (\<lambda>m. m\<lparr>VMachine_Finalizers := RemoveFinalizer K (VMachine_Finalizers m) MachineFinalizer\<rparr>);
       ok finished })) }"

end
