(* ===== verification/Ibmvpc_Machine_Properties.thy ===== *)
theory Ibmvpc_Machine_Properties
  imports Ibmvpc_Machine_Controller Ibmvpc_Example
begin

text \<open>
  Properties of the VPC machines: when an instance is created and what happens to it when tagging fails,
  what a machine that is ready has, additional volumes, pool members, and deletion.
\<close>

section \<open>A machine\<close>

definition example_vm :: IBMVPCMachine where
  "example_vm =
     \<lparr>VMachine_Name = ''vm'', VMachine_Namespace = ''default'', VMachine_Labels = Map.empty, VMachine_Finalizers = [MachineFinalizer],
      VMachine_Deleting = False,
      VMachine_Spec = \<lparr>VMSpec_Name = ''vm'', VMSpec_CatalogOffering = None, VMSpec_PlacementTarget = None,
        VMSpec_Image = Some \<lparr>VPCResource_ID = Some ''image'', VPCResource_Name = None\<rparr>, VMSpec_LoadBalancerPoolMembers = [],
        VMSpec_Zone = ''us-south-1'', VMSpec_Profile = ''bx2-2x8'', VMSpec_BootVolume = None, VMSpec_ProviderID = None,
        VMSpec_PrimaryNetworkInterface = \<lparr>Interface_SecurityGroups = [], Interface_Subnet = ''cp''\<rparr>, VMSpec_SSHKeys = [],
        VMSpec_AdditionalVolumes = []\<rparr>,
      VMachine_Status = \<lparr>VMStatus_InstanceID = [], VMStatus_Ready = False, VMStatus_Addresses = [], VMStatus_Conditions = [],
        VMStatus_FailureReason = None, VMStatus_FailureMessage = None, VMStatus_InstanceStatus = [],
        VMStatus_LoadBalancerPoolMembers = [], VMStatus_V1Beta2 = None\<rparr>\<rparr>"

definition example_vmscope :: "IBMVPCMachine \<Rightarrow> vmscope" where
  "example_vmscope m = \<lparr>vtrace = [], vm_machine = m, vm_cluster = v_cluster (example_vscope []), vm_DataSecretName = Some ''bootstrap'',
     vm_OwnerNamespace = ''default'', vm_ClusterName = ''c'', vm_APIServerPort = 0\<rparr>"

definition example_instance :: VSInstance where
  "example_instance = \<lparr>vsi_ID = Some ''i-1'', vsi_Name = Some ''vm'', vsi_CRN = Some ''crn:i-1'', vsi_Status = Some ''running'',
     vsi_PrimaryIP = Some (Some (Some ''10.0.0.4'')), vsi_HealthReasons = []\<rparr>"

text \<open>A cloud with no instances that creates the example, and one that has it already.\<close>

definition creating :: vpc_clients where
  "creating = example_vpc_cloud\<lparr>c_ListInstances := \<lambda>_ _. Reply (Some \<lparr>vpage_items = [], vpage_next = None\<rparr>),
     c_GetBootstrapSecret := \<lambda>_ _ _. Reply [''value'' \<mapsto> ''#cloud-config''],
     c_CreateInstance := \<lambda>_ _. Reply (Some example_instance)\<rparr>"

definition has_instance :: vpc_clients where
  "has_instance = example_vpc_cloud\<lparr>c_ListInstances := \<lambda>_ _. Reply (Some \<lparr>vpage_items = [example_instance], vpage_next = None\<rparr>)\<rparr>"

section \<open>Steps that leave the machine alone\<close>

text \<open>Creating the instance reads the machine and changes nothing of it.\<close>

lemma vm_frame_api: "state_io_rel (keeps vm_machine) (vapi f c)"
  by (simp add: state_io_rel_def keeps_def)

lemma vm_frame: "frame (keeps vm_machine)"
  by (simp add: keeps.frame_axioms)

lemmas vm_lookup = vlookup_may [OF vm_frame vm_frame_api]

lemma keeps_CreateMachine: "may (keeps vm_machine) (v_CreateMachine C)"
  unfolding v_CreateMachine_def ensureInstanceUnique_def build_instance_def v_GetBootstrapData_def subnet_identity_def group_identities_def
    group_identity_def configurePlacementTarget_def fetchKeyID_def instance_source_def fetchImageID_def create_instance_def Let_def
  by (intro keeps.may_rules keeps.fr_rules vm_lookup vm_frame_api)

lemma machine_kept: "may (keeps vm_machine) m \<Longrightarrow> m s = Some (r, t) \<Longrightarrow> vm_machine t = vm_machine s"
  by (simp add: may_def keeps_def)

lemma keeps_machine_tag: "state_io_rel (keeps vm_machine) (v_TagResource C x y)"
  unfolding v_TagResource_def v_CheckTagExists_def by (intro keeps.fr_rules vm_frame_api)

section \<open>A lost instance\<close>

text \<open>Without a tag nothing of the instance reaches the status.\<close>

lemma untagged_found:
  assumes "\<And>h x. \<exists>e st. c_GetTagByName C h x = Fail e st"
  shows "wp (reconcile_found K C ins) (\<lambda>r t. (\<forall>x. r \<noteq> Ok x) \<and> vm_machine t = vm_machine s) s"
proof -
  have tag: "wp (v_TagResource C x y) (\<lambda>r t. (\<forall>u. r \<noteq> Ok u) \<and> vm_machine t = vm_machine s') s'" for x y and s' :: vmscope
    using assms [of "vtrace s'" x] by (auto simp: v_TagResource_def v_CheckTagExists_def wp_simps)
  show ?thesis
    unfolding reconcile_found_def by (auto simp: wp_deref wp_bind wp_get wp_attempt wp_return intro!: wp_mono [OF tag])
qed

lemma delete_without_id:
  assumes "VMStatus_InstanceID (vm_status s) = []"
  shows "run_state (v_machine_reconcileDelete K C) s =
     (Ok finished, s\<lparr>vm_machine := (vm_machine s)\<lparr>VMachine_Finalizers := RemoveFinalizer K (VMachine_Finalizers (vm_machine s)) MachineFinalizer\<rparr>\<rparr>)"
  using assms
  by (simp add: v_machine_reconcileDelete_def DeleteVPCLoadBalancerPoolMember_def v_DeleteMachine_def attempt_def upd_vmachine_def modify_def)


definition failing_tags :: "vpc_clients \<Rightarrow> vpc_clients" where
  "failing_tags C = C\<lparr>c_GetTagByName := \<lambda>_ _. Fail (ClientErr ''tagging is down'') None\<rparr>"

declare paging_loop.simps [code]

definition is_creation :: "vcall \<Rightarrow> bool" where
  "is_creation c = (case c of VSI (VCreateInstance _) \<Rightarrow> True | _ \<Rightarrow> False)"

definition add_vm_finalizer :: "string list \<Rightarrow> string \<Rightarrow> string list \<times> bool" where
  "add_vm_finalizer xs x = (if x \<in> set xs then (xs, False) else (xs @ [x], True))"


section \<open>A machine that becomes ready\<close>

definition vm_ready :: "vmscope \<Rightarrow> bool" where
  "vm_ready s \<longleftrightarrow> VMStatus_Ready (vm_status s)"

lemmas mark_defs = vm_mark_def put_machine_conditions_def Let_def vpcmachine_SetConditions_def vpcmachine_SetV1Beta2Conditions_def
  v_SetReadiness_def v_SetFailure_def vm_ready_def

lemma mark_ready:
  "wp (do { v_SetReadiness v; vm_mark K a b c d e f; ok x }) (\<lambda>r t. r = Ok x \<and> vm_ready t = v) s"
  "wp (do { v_SetReadiness v; v_SetFailure p q; vm_mark K a b c d e f; ok x }) (\<lambda>r t. r = Ok x \<and> vm_ready t = v) s"
  "wp (do { vm_mark K a b c d e f; ok x }) (\<lambda>r t. r = Ok x \<and> vm_ready t = vm_ready s) s"
  by (simp_all add: mark_defs wp_simps)

lemma follow_status_ready:
  assumes "\<not> vm_ready s"
  shows "wp (follow_status K ins st) (\<lambda>r t. (r = Ok (Some True) \<longrightarrow> st = ''running'') \<and> \<not> vm_ready t) s"
proof -
  have failed: "wp (bindE (State_Monad.return msg) (\<lambda>q. do { v_SetReadiness False; v_SetFailure p q; vm_mark K a b c (g q) e f; ok None }))
      (\<lambda>r t. (r = Ok (Some True) \<longrightarrow> Q) \<and> \<not> vm_ready t) s" for msg p a b c g e f Q
    unfolding wp_attempt wp_return using assms by (auto intro!: wp_mono [OF mark_ready(2)] simp: wp_return)
  show ?thesis
    unfolding follow_status_def
    by (intro wp_if [THEN iffD2] conjI impI; (rule failed | rule wp_mono [OF mark_ready(1)] | rule wp_mono [OF mark_ready(3)] | simp add: wp_return);
        use assms in \<open>auto\<close>)
qed

text \<open>Only a running instance makes a machine ready.\<close>

lemma reconcile_found_ready:
  assumes "\<not> vm_ready s"
  shows "wp (reconcile_found K C ins) (\<lambda>_ t. vm_ready t \<longrightarrow> vsi_Status ins = Some ''running'') s"
proof -
  have tag: "wp (v_TagResource C x y) (\<lambda>_ t. \<not> vm_ready t) u" if "\<not> vm_ready u" for x y u
    using that
    by (intro wp_mono [OF keeps_wp [OF keeps_machine_tag]]) (simp add: vm_ready_def)
  have provider: "wp (v_SetProviderID C i) (\<lambda>_ t. \<not> vm_ready t) u" if "\<not> vm_ready u" for i u
    using that by (auto simp: v_SetProviderID_def wp_simps vm_ready_def)
  have addresses: "wp (v_SetAddresses ins) (\<lambda>_ t. \<not> vm_ready t) u" if "\<not> vm_ready u" for u
    using that by (auto simp: v_SetAddresses_def primary_ip_def wp_simps vm_ready_def)
  have ids: "\<not> vm_ready (u\<lparr>vm_machine := (vm_machine u)\<lparr>VMachine_Status := (vm_status u)\<lparr>VMStatus_InstanceID := i\<rparr>\<rparr>\<rparr>)"
    "\<not> vm_ready (u\<lparr>vm_machine := (vm_machine u)\<lparr>VMachine_Status := (vm_status u)\<lparr>VMStatus_InstanceStatus := x\<rparr>\<rparr>\<rparr>)"
    if "\<not> vm_ready u" for u i x
    using that by (simp_all add: vm_ready_def)
  have follow: "wp (follow_status K ins st) (\<lambda>r t. (r = Ok (Some True) \<longrightarrow> st = ''running'') \<and> \<not> vm_ready t) u" if "\<not> vm_ready u" for st u
    using that by (rule follow_status_ready)
  show ?thesis
    unfolding reconcile_found_def v_SetInstanceID_def v_SetInstanceStatus_def
    by (auto simp: wp_deref wp_bind wp_get wp_attempt wp_upd_vmachine wp_case_option wp_if wp_return assms
        intro!: wp_mono [OF tag] wp_mono [OF provider] wp_mono [OF addresses] wp_mono [OF follow] wp_True ids split: bool.splits)
qed



section \<open>One instance of a name\<close>

text \<open>No instance of the name was on a page that was listed between the two states.\<close>

definition none_listed :: "vpc_clients \<Rightarrow> string \<Rightarrow> vmscope \<Rightarrow> vmscope \<Rightarrow> bool" where
  "none_listed C name s t \<longleftrightarrow> (\<exists>cs. vtrace t = vtrace s @ cs \<and> (\<forall>i < length cs. \<forall>start p.
     cs ! i = VSI (VListInstances start) \<longrightarrow> c_ListInstances C (vtrace s @ take i cs) start = Reply (Some p) \<longrightarrow>
     (\<forall>x \<in> set (vpage_items p). vsi_Name x \<noteq> Some name)))"

lemma none_listed_refl: "none_listed C name s s"
  by (simp add: none_listed_def)

lemma none_listed_trans:
  assumes "none_listed C name s t" "none_listed C name t u"
  shows "none_listed C name s u"
proof -
  obtain cs ds where cs: "vtrace t = vtrace s @ cs" "\<forall>i < length cs. \<forall>start p. cs ! i = VSI (VListInstances start) \<longrightarrow>
      c_ListInstances C (vtrace s @ take i cs) start = Reply (Some p) \<longrightarrow> (\<forall>x \<in> set (vpage_items p). vsi_Name x \<noteq> Some name)"
    and ds: "vtrace u = vtrace t @ ds" "\<forall>i < length ds. \<forall>start p. ds ! i = VSI (VListInstances start) \<longrightarrow>
      c_ListInstances C (vtrace t @ take i ds) start = Reply (Some p) \<longrightarrow> (\<forall>x \<in> set (vpage_items p). vsi_Name x \<noteq> Some name)"
    using assms unfolding none_listed_def by blast
  have "\<forall>x \<in> set (vpage_items p). vsi_Name x \<noteq> Some name"
    if i: "i < length (cs @ ds)" and call: "(cs @ ds) ! i = VSI (VListInstances start)"
      "c_ListInstances C (vtrace s @ take i (cs @ ds)) start = Reply (Some p)" for i start p
  proof (cases "i < length cs")
    case True
    then show ?thesis using cs(2) call by (simp add: nth_append)
  next
    case False
    then have "i - length cs < length ds" using i by simp
    then show ?thesis using ds(2) call cs(1) False by (simp add: nth_append)
  qed
  then show ?thesis
    unfolding none_listed_def using cs(1) ds(1) by (intro exI [of _ "cs @ ds"]) (simp add: Ball_def)
qed

text \<open>A listing that ends without an assignment has gone through all its pages without one.\<close>

lemma paging_loop_until:
  assumes "paging_loop U f start s = Some (Ok (), t)" "P s" "P t"
    and "\<And>start s u t. run_state (f start) s = (Ok (False, u), t) \<Longrightarrow> P s \<Longrightarrow> P t"
    and "\<And>start s d t. run_state (f start) s = (Ok d, t) \<Longrightarrow> P s \<Longrightarrow> P t \<Longrightarrow> R s t"
    and trans: "\<And>s t u. R s t \<Longrightarrow> R t u \<Longrightarrow> R s u"
  shows "R s t"
proof -
  have "U' = U \<longrightarrow> f' = f \<longrightarrow> P s' \<longrightarrow> fst y = Ok () \<longrightarrow> P (snd y) \<longrightarrow> R s' (snd y)" if "paging_loop U' f' start' s' = Some y" for U' f' start' s' y
  proof (rule paging_loop.raw_induct [OF _ that], intro impI)
    fix loop U' f' start' s' y
    assume IH: "\<And>U' f' start' s' y. loop U' f' start' s' = Some y \<Longrightarrow>
        U' = U \<longrightarrow> f' = f \<longrightarrow> P s' \<longrightarrow> fst y = Ok () \<longrightarrow> P (snd y) \<longrightarrow> R s' (snd y)"
      and step: "(case run_state (f' start') s' of
        (Ok (isDone, nextURL), t) \<Rightarrow> if isDone \<or> nextURL = [] then Some (Ok (), t)
          else (case getStartToken U' nextURL of Ok start' \<Rightarrow> loop U' f' start' t | Err e \<Rightarrow> Some (Err e, t) | Panic \<Rightarrow> Some (Panic, t))
      | (Err e, t) \<Rightarrow> Some (Err e, t) | (Panic, t) \<Rightarrow> Some (Panic, t)) = Some y"
      and same: "U' = U" "f' = f" and ends: "P s'" "fst y = Ok ()" "P (snd y)"
    obtain q u where run: "run_state (f start') s' = (q, u)" by (cases "run_state (f start') s'")
    then obtain d n where q: "q = Ok (d, n)"
      using step same ends(2) by (cases q) auto
    show "R s' (snd y)"
    proof (cases "d \<or> n = []")
      case True
      then have "y = (Ok (), u)" using step same run q by auto
      then show ?thesis using assms(5) [OF run [unfolded q] ends(1)] ends(3) by simp
    next
      case False
      then have u: "P u" using assms(4) [of start' s' n u] run q ends(1) by simp
      obtain start'' where "loop U f start'' u = Some y"
        using step same run q False ends(2) by (auto split: outcome.splits)
      then have "R u (snd y)" using IH u ends by blast
      moreover have "R s' u" using assms(5) [OF run [unfolded q] ends(1) u] .
      ultimately show ?thesis using trans by blast
    qed
  qed
  then show ?thesis using assms(1-3) by fastforce
qed

lemma first_named_none: "first_named nm n xs = Ok None \<Longrightarrow> \<forall>x \<in> set xs. nm x \<noteq> Some n"
  by (induction xs) (auto split: option.splits if_splits)

lemma next_vpage_state: "snd (run_state (next_vpage p) s) = s"
  by (simp add: next_vpage_def deref_def split: option.split)

lemma none_listed_page:
  assumes "run_state (vlookup_page (\<lambda>start. do_ListInstances C start) g nilText vsi_Name Some name start) (s, None) = (Ok d, (t, w))"
  shows "(w \<noteq> None \<longrightarrow> fst d) \<and> (w = None \<longrightarrow> none_listed C name s t)"
proof -
  let ?s = "s\<lparr>vtrace := vtrace s @ [VSI (VListInstances start)]\<rparr>"
  obtain p where p: "c_ListInstances C (vtrace s) start = Reply (Some p)"
    using assms by (auto simp: vlookup_page_def split: reply.splits option.splits)
  show ?thesis
  proof (cases "first_named vsi_Name name (vpage_items p)")
    case (Ok x)
    then show ?thesis
    proof (cases x)
      case None
      have "t = ?s \<and> w = None"
        using assms p Ok None next_vpage_state [of p "(?s, None :: VSInstance option)"] by (auto simp: vlookup_page_def)
      then show ?thesis
        using p first_named_none [OF Ok [unfolded None]] by (auto simp: none_listed_def)
    next
      case (Some y)
      then show ?thesis
        using assms p Ok by (auto simp: vlookup_page_def deref_def assign_def modify_def)
    qed
  qed (use assms p in \<open>auto simp: vlookup_page_def\<close>)
qed

lemma ensureInstanceUnique_none:
  assumes "ensureInstanceUnique C name s = Some (Ok None, t)"
  shows "none_listed C name s t"
proof -
  let ?f = "vlookup_page (\<lambda>start. do_ListInstances C start) id msg_instance_list_returned_is_nil vsi_Name Some name"
  have loop: "paging_loop (url_start C) ?f [] (s, None) = Some (Ok (), (t, None))"
    using assms by (auto simp: ensureInstanceUnique_def vlookup_def PagingHelper_def split: option.splits prod.splits outcome.splits)
  have "none_listed C name (fst (s, None :: VSInstance option)) (fst (t, None :: VSInstance option))"
  proof (rule paging_loop_until [OF loop, where P = "\<lambda>p :: vmscope \<times> VSInstance option. snd p = None" and R = "\<lambda>p q. none_listed C name (fst p) (fst q)"])
    fix start u and p q :: "vmscope \<times> VSInstance option" assume "run_state (?f start) p = (Ok (False, u), q)" "snd p = None"
    then show "snd q = None"
      using none_listed_page [of C id msg_instance_list_returned_is_nil name start "fst p" "(False, u)" "fst q" "snd q"] by (cases p; cases q) auto
  next
    fix start d and p q :: "vmscope \<times> VSInstance option" assume "run_state (?f start) p = (Ok d, q)" "snd p = None" "snd q = None"
    then show "none_listed C name (fst p) (fst q)"
      using none_listed_page [of C id msg_instance_list_returned_is_nil name start "fst p" d "fst q" "snd q"] by (cases p; cases q) auto
  qed (auto intro: none_listed_trans)
  then show ?thesis by simp
qed

text \<open>The calls of a run that creates no instance.\<close>

definition uncreative :: "vmscope \<Rightarrow> vmscope \<Rightarrow> bool" where
  "uncreative = vcalls_in (\<lambda>c. \<not> is_creation c)"

interpretation uncreative: frame uncreative
  unfolding uncreative_def by (rule vcalls.frame_axioms)

lemma uncreative_api: "\<not> is_creation c \<Longrightarrow> state_io_rel uncreative (vapi f c)"
  by (simp add: uncreative_def vcalls_in_api)

lemma no_creation: "uncreative s t \<Longrightarrow> \<not> list_ex is_creation (vcalls s t)"
  by (auto simp: uncreative_def list_ex_iff dest: vcalls_in_set)

lemma listing_uncreative: "may uncreative (ensureInstanceUnique C name)"
  unfolding ensureInstanceUnique_def
  by (intro vlookup_may uncreative.frame_axioms uncreative_api) (simp add: is_creation_def)

text \<open>Building the instance only adds calls.\<close>

abbreviation extends :: "vmscope \<Rightarrow> vmscope \<Rightarrow> bool" where
  "extends \<equiv> vcalls_in (\<lambda>_. True)"

lemma extends_api: "state_io_rel extends (vapi f c)"
  by (simp add: vcalls_in_api)

lemmas extends_lookup = vlookup_may [OF vcalls.frame_axioms extends_api]

lemma build_extends: "may extends (build_instance C d)"
  unfolding build_instance_def subnet_identity_def group_identities_def group_identity_def configurePlacementTarget_def fetchKeyID_def
    instance_source_def fetchImageID_def create_instance_def Let_def
  by (intro frame.may_rules [OF vcalls.frame_axioms] vcalls.fr_rules extends_lookup extends_api)

lemma bootstrap_extends: "state_io_rel extends (v_GetBootstrapData C)"
  unfolding v_GetBootstrapData_def by (intro vcalls.fr_rules extends_api)



section \<open>Additional volumes\<close>

lemma attachment_names_ok:
  "\<forall>a \<in> set as. attachment_Name a \<noteq> None \<Longrightarrow> \<exists>ns. attachment_names as = Ok ns \<and> set ns = {n. Some n \<in> attachment_Name ` set as}"
  by (induction as) auto

text \<open>Attached volumes are passed over; the first one that is not needs an ID at its index.\<close>

lemma volumes_past_ids:
  assumes "\<forall>o' \<in> set olds. there (Volume_Name o')" and "\<not> there (Volume_Name new)"
    and "length (AdditionalVolumeIDs s) = length olds"
  shows "wp (loop_i (reconcile_volume C there) 0 (map Some olds @ Some new # rest) acc) (\<lambda>r _. r = Panic) s"
proof (rule wp_loop_i_done [where I = "\<lambda>ys _ t. t = s \<and> length ys \<le> length olds"])
  fix ys x zs b and t :: vmscope
  assume split: "map Some olds @ Some new # rest = ys @ x # zs" and inv: "t = s \<and> length ys \<le> length olds"
  have x: "x = (map Some olds @ Some new # rest) ! length ys"
    unfolding split by simp
  show "wp (reconcile_volume C there (length ys) x b)
      (\<lambda>r t'. (\<forall>b'. r = Ok b' \<longrightarrow> t' = s \<and> length (ys @ [x]) \<le> length olds) \<and> ((\<forall>b'. r \<noteq> Ok b') \<longrightarrow> r = Panic)) t"
  proof (cases "length ys < length olds")
    case True
    then show ?thesis
      using x inv assms(1) by (simp add: nth_append reconcile_volume_def wp_simps)
  next
    case False
    then show ?thesis
      using x inv assms(2,3) by (simp add: nth_append reconcile_volume_def nth_id_def wp_simps)
  qed
qed auto

text \<open>
  C29: A volume added to the spec of a machine whose volumes are all there makes the controller panic: the
  list of IDs in the status keeps its length of the first reconcile, and the new volume is looked up
  behind its end.
\<close>

theorem added_volume_panics:
  assumes "VMSpec_AdditionalVolumes (vm_spec s) \<noteq> []"
    and "c_GetMachineObject C (vtrace s) (VMachine_Namespace (vm_machine s)) (VMachine_Name (vm_machine s)) = Reply m"
    and "VMSpec_AdditionalVolumes (VMachine_Spec m) = map Some olds @ Some new # rest"
    and "VMStatus_V1Beta2 (VMachine_Status m) = Some \<lparr>VMV1Beta2_Conditions = cs, VMV1Beta2_AdditionalVolumeIDs = Some ids\<rparr>"
    and "length ids = length olds"
    and "\<And>h x. c_GetAttachments C h x = Reply (Some as)" "\<forall>a \<in> set as. attachment_Name a \<noteq> None"
    and "\<forall>o' \<in> set olds. Some (Volume_Name o') \<in> attachment_Name ` set as" "Some (Volume_Name new) \<notin> attachment_Name ` set as"
  shows "fst (run_state (reconcileAdditionalVolumes C) s) = Panic"
proof -
  obtain ns where ns: "attachment_names as = Ok ns" "set ns = {n. Some n \<in> attachment_Name ` set as}"
    using attachment_names_ok [OF assms(7)] by blast
  have loop: "wp (loop_i (reconcile_volume C (\<lambda>n. n \<in> set ns)) 0 (map Some olds @ Some new # rest) (finished, [])) (\<lambda>r _. r = Panic) t"
    if "length (AdditionalVolumeIDs t) = length olds" for t
    by (rule volumes_past_ids) (use that ns(2) assms(8,9) in auto)
  have "wp (reconcileAdditionalVolumes C) (\<lambda>r _. r = Panic) s"
    unfolding reconcileAdditionalVolumes_def set_volume_ids_def GetVolumeAttachments_def
    by (auto simp: wp_simps assms(1-4,6) ns(1) AdditionalVolumeIDs_def assms(5) intro!: wp_mono [OF loop])
  then show ?thesis
    by (simp add: wp_def split: prod.splits)
qed

definition example_volume :: "string \<Rightarrow> VPCVolume" where
  "example_volume n = \<lparr>Volume_DeleteOnInstanceDelete = True, Volume_Name = n, Volume_SizeGiB = 10, Volume_Profile = ''general-purpose'',
     Volume_Iops = 0, Volume_Bandwidth = 0, Volume_EncryptionKeyCRN = []\<rparr>"

text \<open>A machine with two volumes of which the first has been made.\<close>

definition grown_vm :: IBMVPCMachine where
  "grown_vm = example_vm
     \<lparr>VMachine_Spec := (VMachine_Spec example_vm)\<lparr>VMSpec_AdditionalVolumes := [Some (example_volume ''data''), Some (example_volume ''logs'')]\<rparr>,
      VMachine_Status := (VMachine_Status example_vm)
        \<lparr>VMStatus_V1Beta2 := Some \<lparr>VMV1Beta2_Conditions = [], VMV1Beta2_AdditionalVolumeIDs = Some [''v-1'']\<rparr>\<rparr>\<rparr>"

definition grown_cloud :: vpc_clients where
  "grown_cloud = has_instance\<lparr>c_GetMachineObject := \<lambda>_ _ _. Reply grown_vm,
     c_GetAttachments := \<lambda>_ _. Reply (Some [\<lparr>attachment_Name = Some ''data''\<rparr>])\<rparr>"

lemma added_volume_panics_witness:
  "fst (run_state (reconcileAdditionalVolumes grown_cloud) (example_vmscope grown_vm)) = Panic"
  by (rule added_volume_panics [where m = grown_vm and new = "example_volume ''logs''" and ids = "[''v-1'']"
        and olds = "[example_volume ''data'']" and rest = "[]" and cs = "[]" and as = "[\<lparr>attachment_Name = Some ''data''\<rparr>]"])
    (simp_all add: grown_cloud_def grown_vm_def example_vmscope_def example_volume_def)

end
