(* ===== verification/Ibmvpc_Machine_Entry.thy ===== *)
theory Ibmvpc_Machine_Entry
  imports Ibmvpc_Machine_Controller
begin

text \<open>
  The entry points of the VPC machine controllers: \<open>Reconcile\<close>, \<open>NewMachineScope\<close> and the deferred patch of
  \<^verbatim>\<open>ibmvpcmachine_controller.go\<close> and \<^verbatim>\<open>machine.go\<close>, and \<^verbatim>\<open>ibmvpcmachinetemplate_controller.go\<close>.
\<close>

section \<open>Error texts\<close>

definition msg_failed_to_generate_new_scope_from_nil_machine :: string where "msg_failed_to_generate_new_scope_from_nil_machine = ''failed to generate new scope from nil machine''"
definition msg_failed_to_generate_new_scope_from_nil_ibmvpcmachine :: string where "msg_failed_to_generate_new_scope_from_nil_ibmvpcmachine = ''failed to generate new scope from nil ibmvpcmachine''"
definition msg_failed_to_init_patch_helper :: string where "msg_failed_to_init_patch_helper = ''failed to init patch helper''"
definition msg_failed_to_create_ibm_vpc_session :: string where "msg_failed_to_create_ibm_vpc_session = ''failed to create ibm vpc session''"
definition msg_error_failed_to_create_authenticator :: string where "msg_error_failed_to_create_authenticator = ''error failed to create authenticator''"
definition msg_failed_to_create_global_tagging_client :: string where "msg_failed_to_create_global_tagging_client = ''failed to create global tagging client''"
definition msg_failed_to_set_ready_condition :: string where "msg_failed_to_set_ready_condition = ''failed to set ready condition''"
definition msg_failed_to_initialize_patch_helper :: string where "msg_failed_to_initialize_patch_helper = ''failed to initialize patch helper''"
definition msg_failed_to_create_scope :: string where "msg_failed_to_create_scope = ''failed to create scope''"
definition msg_failed_to_fetch_profile_details :: string where "msg_failed_to_fetch_profile_details = ''failed to fetch profile details''"
definition msg_failed_to_find_profiledetails :: string where "msg_failed_to_find_profiledetails = ''failed to find profiledetails''"
definition msg_failed_to_create_ibm_vpc_client :: string where "msg_failed_to_create_ibm_vpc_client = ''failed to create ibm vpc client''"

section \<open>Cluster API and the Kubernetes client\<close>

text \<open>The Cluster API objects, by the fields the code reads.\<close>

record OwnerMachine =
  owner_Namespace :: string
  owner_ClusterName :: string
  owner_DataSecretName :: "string option"

record OwnerCluster =
  owner_InfrastructureRef :: string
  owner_APIServerPort :: int

record vm_util =
  vmu_Get :: "IBMVPCMachine reply"
  vmu_GetOwnerMachine :: "IBMVPCMachine \<Rightarrow> OwnerMachine option reply"
  vmu_GetCluster :: "IBMVPCMachine \<Rightarrow> OwnerCluster reply"
  vmu_GetVPCCluster :: "string \<Rightarrow> string \<Rightarrow> IBMVPCCluster reply"
  vmu_EnsureFinalizer :: "IBMVPCMachine \<Rightarrow> bool reply"
  vmu_EnsurePaused :: "OwnerCluster \<Rightarrow> IBMVPCMachine \<Rightarrow> (bool \<times> bool) reply"   \<comment> \<open>paused, requeue\<close>
  vmu_NewHelper :: "IBMVPCMachine \<Rightarrow> unit reply"
  vmu_Patch :: "IBMVPCMachine \<Rightarrow> IBMVPCMachine \<Rightarrow> unit reply"        \<comment> \<open>the object the helper was made for, the object now\<close>
  vmu_conditions_Get :: "Condition list \<Rightarrow> string \<Rightarrow> Condition option"
  vmu_SetSummary :: "Condition list \<Rightarrow> string \<Rightarrow> string list \<Rightarrow> Condition list reply"
  vmu_deprecated_SetSummary :: "DeprecatedCondition list \<Rightarrow> string list \<Rightarrow> DeprecatedCondition list"
  vmu_NewVPCService :: "string \<Rightarrow> unit reply"                          \<comment> \<open>the endpoint\<close>
  vmu_GetAuthenticator :: "unit reply"
  vmu_NewTaggingService :: "string option \<Rightarrow> unit reply"              \<comment> \<open>the URL that overrides the default\<close>

section \<open>The scope\<close>

definition v_NewMachineScope :: "vm_util \<Rightarrow> ServiceEndpoint list \<Rightarrow> bool \<Rightarrow> IBMVPCMachine option \<Rightarrow> IBMVPCCluster \<Rightarrow> unit outcome" where
  "v_NewMachineScope W endpoints has_machine vm c =
     (if \<not> has_machine then Err (Errorf msg_failed_to_generate_new_scope_from_nil_machine)
      else (case vm of
          None \<Rightarrow> Err (Errorf msg_failed_to_generate_new_scope_from_nil_ibmvpcmachine)
        | Some m \<Rightarrow> (case vmu_NewHelper W m of
            Fail e _ \<Rightarrow> Err (Wrapf msg_failed_to_init_patch_helper e)
          | Reply _ \<Rightarrow> (case vmu_NewVPCService W (FetchVPCEndpoint (VSpec_Region (VCluster_Spec c)) endpoints) of
              Fail e _ \<Rightarrow> Err (Wrapf msg_failed_to_create_ibm_vpc_session e)
            | Reply _ \<Rightarrow> (case vmu_GetAuthenticator W of
                Fail e _ \<Rightarrow> Err (Wrapf msg_error_failed_to_create_authenticator e)
              | Reply _ \<Rightarrow> (case vmu_NewTaggingService W (nonempty (FetchEndpoints svc_GlobalTagging endpoints)) of
                  Fail e _ \<Rightarrow> Err (Wrapf msg_failed_to_create_global_tagging_client e)
                | Reply _ \<Rightarrow> Ok ()))))))"

section \<open>The patch\<close>

definition vm_ready_default :: "capi \<Rightarrow> vm_util \<Rightarrow> IBMVPCMachine \<Rightarrow> IBMVPCMachine" where
  "vm_ready_default K W m =
     (if vmu_conditions_Get W (vpcmachine_GetV1Beta2Conditions m) vm_InstanceReadyV1Beta2Condition \<noteq> None then m
      else vpcmachine_SetV1Beta2Conditions m (conditions_Set K (vpcmachine_GetV1Beta2Conditions m)
        (if VMStatus_Ready (VMachine_Status m) then condition_of vm_InstanceReadyV1Beta2Condition ConditionTrue vm_InstanceReadyReason None
         else condition_of vm_InstanceReadyV1Beta2Condition ConditionFalse vm_InstanceNotReadyReason None)))"

definition patchIBMVPCMachine :: "capi \<Rightarrow> vm_util \<Rightarrow> IBMVPCMachine \<Rightarrow> IBMVPCMachine \<Rightarrow> unit outcome \<times> IBMVPCMachine" where
  "patchIBMVPCMachine K W before m =
     (let m1 = vm_ready_default K W m;
          m2 = vpcmachine_SetConditions m1 (vmu_deprecated_SetSummary W (vpcmachine_GetConditions m1) [vm_InstanceReadyCondition])
      in case vmu_SetSummary W (vpcmachine_GetV1Beta2Conditions m2) vm_ReadyV1Beta2Condition [vm_InstanceReadyV1Beta2Condition] of
           Fail e _ \<Rightarrow> (Err (Wrapf msg_failed_to_set_ready_condition e), m2)
         | Reply cs \<Rightarrow>
             (let m3 = vpcmachine_SetV1Beta2Conditions m2 cs
              in case vmu_Patch W before m3 of Fail e _ \<Rightarrow> (Err e, m3) | Reply _ \<Rightarrow> (Ok (), m3)))"

text \<open>The deferred patch, also when the handler panics; its error is added to the one returned.\<close>

definition vm_deferred_patch :: "capi \<Rightarrow> vm_util \<Rightarrow> IBMVPCMachine \<Rightarrow> Result outcome \<Rightarrow> IBMVPCMachine \<Rightarrow> Result outcome \<times> IBMVPCMachine" where
  "vm_deferred_patch K W before r m =
     (case patchIBMVPCMachine K W before m of
        (Ok _, m') \<Rightarrow> (r, m')
      | (Err e, m') \<Rightarrow> (case r of Err e0 \<Rightarrow> Err (AggregateErr [e0, e]) | Ok _ \<Rightarrow> Err (AggregateErr [e]) | Panic \<Rightarrow> Panic, m')
      | (Panic, m') \<Rightarrow> (Panic, m'))"

section \<open>Reconcile\<close>

text \<open>From the patch helper on; what was patched, if anything was. \<open>None\<close> if the reconcile does not return.\<close>

definition vm_scoped ::
  "capi \<Rightarrow> (string list \<Rightarrow> string \<Rightarrow> string list \<times> bool) \<Rightarrow> vm_util \<Rightarrow> vpc_clients \<Rightarrow> ServiceEndpoint list \<Rightarrow> vhistory \<Rightarrow>
     IBMVPCMachine \<Rightarrow> OwnerMachine \<Rightarrow> OwnerCluster \<Rightarrow> IBMVPCCluster \<Rightarrow> (Result outcome \<times> IBMVPCMachine option) option" where
  "vm_scoped K A W C endpoints h m owner cluster c =
     (let patched = (\<lambda>(r, m'). (r, Some m'))
      in case vmu_NewHelper W m of
           Fail e _ \<Rightarrow> Some (Err (Wrapf msg_failed_to_initialize_patch_helper e), None)
         | Reply _ \<Rightarrow>
             (case vmu_EnsurePaused W cluster m of
                Fail e _ \<Rightarrow> Some (patched (vm_deferred_patch K W m (Err e) m))
              | Reply (isPaused, requeue) \<Rightarrow>
                  if isPaused \<or> requeue then Some (patched (vm_deferred_patch K W m (Ok finished) m))
                  else (case v_NewMachineScope W endpoints True (Some m) c of
                      Err e \<Rightarrow> Some (patched (vm_deferred_patch K W m (Err (Wrapf msg_failed_to_create_scope e)) m))
                    | Panic \<Rightarrow> Some (patched (vm_deferred_patch K W m Panic m))
                    | Ok _ \<Rightarrow>
                        (let s = \<lparr>vtrace = h, vm_machine = m, vm_cluster = c, vm_DataSecretName = owner_DataSecretName owner,
                                  vm_OwnerNamespace = owner_Namespace owner, vm_ClusterName = owner_ClusterName owner,
                                  vm_APIServerPort = owner_APIServerPort cluster\<rparr>
                         in map_option (\<lambda>(r, t). patched (vm_deferred_patch K W m r (vm_machine t)))
                              (if VMachine_Deleting m then lift (v_machine_reconcileDelete K C) s else v_reconcileNormal K A C s)))))"

definition v_machine_Reconcile ::
  "capi \<Rightarrow> (string list \<Rightarrow> string \<Rightarrow> string list \<times> bool) \<Rightarrow> vm_util \<Rightarrow> vpc_clients \<Rightarrow> ServiceEndpoint list \<Rightarrow> vhistory \<Rightarrow>
     (Result outcome \<times> IBMVPCMachine option) option" where
  "v_machine_Reconcile K A W C endpoints h =
     (case vmu_Get W of
        Fail e _ \<Rightarrow> Some (case e of NotFoundErr _ \<Rightarrow> Ok finished | _ \<Rightarrow> Err e, None)
      | Reply m \<Rightarrow>
         (case vmu_GetOwnerMachine W m of
            Fail e _ \<Rightarrow> Some (Err e, None)
          | Reply None \<Rightarrow> Some (Ok finished, None)
          | Reply (Some owner) \<Rightarrow>
             (case vmu_GetCluster W m of
                Fail _ _ \<Rightarrow> Some (Ok finished, None)
              | Reply cluster \<Rightarrow>
                 (case vmu_GetVPCCluster W (VMachine_Namespace m) (owner_InfrastructureRef cluster) of
                    Fail _ _ \<Rightarrow> Some (Ok finished, None)
                  | Reply c \<Rightarrow>
                     (case vmu_EnsureFinalizer W m of
                        Fail e _ \<Rightarrow> Some (Err e, None)
                      | Reply True \<Rightarrow> Some (Ok finished, None)
                      | Reply False \<Rightarrow> vm_scoped K A W C endpoints h m owner cluster c)))))"

section \<open>Machine templates\<close>

text \<open>
  The template of VPC machines: its zone and profile, and the capacity that is computed of the profile.
  A profile has the type and the value of its memory and of its virtual processors, three and two
  pointers away (\<open>None\<close> where a pointer is nil or the dynamic type another).
\<close>

record 'q VPCMachineTemplate =
  VTemplate_Zone :: string
  VTemplate_Profile :: string
  VTemplate_Capacity :: "string \<rightharpoonup> 'q"

record 'q vtemplate_client =
  vtc_Get :: "'q VPCMachineTemplate reply"
  vtc_NewVPCService :: "string \<Rightarrow> unit reply"
  vtc_NewHelper :: "'q VPCMachineTemplate \<Rightarrow> unit reply"
  vtc_GetInstanceProfile :: "string \<Rightarrow> (int option \<times> int option) option reply"    \<comment> \<open>memory, processors\<close>
  vtc_MustParse :: "string \<Rightarrow> 'q option"
  vtc_Patch :: "'q VPCMachineTemplate \<Rightarrow> unit reply"

definition profile_capacity :: "'q vtemplate_client \<Rightarrow> int option \<Rightarrow> int option \<Rightarrow> (string \<rightharpoonup> 'q) outcome" where
  "profile_capacity T memory cpu = (case (memory, cpu) of
      (Some m, Some c) \<Rightarrow> (case (vtc_MustParse T (format_int c), vtc_MustParse T (format_int m @ ''G'')) of
          (Some qc, Some qm) \<Rightarrow> Ok [''cpu'' \<mapsto> qc, ''memory'' \<mapsto> qm]
        | _ \<Rightarrow> Panic)
    | _ \<Rightarrow> Panic)"

text \<open>The result, and the template as it was handed to the patch.\<close>

definition vtemplate_reconcileNormal :: "'q vtemplate_client \<Rightarrow> 'q VPCMachineTemplate \<Rightarrow> Result outcome \<times> 'q VPCMachineTemplate option" where
  "vtemplate_reconcileNormal T t =
     (case vtc_NewHelper T t of
        Fail e _ \<Rightarrow> (Err (Wrapf msg_failed_to_init_patch_helper e), None)
      | Reply _ \<Rightarrow> (case vtc_GetInstanceProfile T (VTemplate_Profile t) of
          Fail e _ \<Rightarrow> (Err (Wrapf msg_failed_to_fetch_profile_details e), None)
        | Reply None \<Rightarrow> (Err (Errorf msg_failed_to_find_profiledetails), None)
        | Reply (Some (memory, cpu)) \<Rightarrow> (case profile_capacity T memory cpu of
            Err e \<Rightarrow> (Err e, None)
          | Panic \<Rightarrow> (Panic, None)
          | Ok capacity \<Rightarrow>
              if VTemplate_Capacity t = capacity then (Ok finished, None)
              else (let t' = t\<lparr>VTemplate_Capacity := capacity\<rparr>
                    in case vtc_Patch T t' of
                         Fail (NotFoundErr _) _ \<Rightarrow> (Ok finished, Some t')
                       | Fail e _ \<Rightarrow> (Err e, Some t')
                       | Reply _ \<Rightarrow> (Ok finished, Some t')))))"

definition vtemplate_Reconcile :: "'q vtemplate_client \<Rightarrow> ServiceEndpoint list \<Rightarrow> Result outcome \<times> 'q VPCMachineTemplate option" where
  "vtemplate_Reconcile T endpoints =
     (case vtc_Get T of
        Fail (NotFoundErr _) _ \<Rightarrow> (Ok finished, None)
      | Fail e _ \<Rightarrow> (Err e, None)
      | Reply t \<Rightarrow> (case vtc_NewVPCService T (FetchVPCEndpoint (ConstructRegionFromZone (VTemplate_Zone t)) endpoints) of
          Fail e _ \<Rightarrow> (Err (Wrapf msg_failed_to_create_ibm_vpc_client e), None)
        | Reply _ \<Rightarrow> vtemplate_reconcileNormal T t))"

end
