(* ===== verification/Ibmvpc_Classic_Scope.thy ===== *)
theory Ibmvpc_Classic_Scope
  imports Ibmvpc_Scope Ibmvpc_Paging
begin

text \<open>
  The scope of a VPC cluster without a network spec (\<^verbatim>\<open>pkg/cloud/scope/vpc/cluster.go\<close>, \<open>ClusterScope\<close>): one
  VPC with one subnet, its public gateway and one load balancer, each found by name on the pages of a listing
  or created, and their deletion. It works on the object and the Cluster API cluster that \<open>vscope\<close> holds.
\<close>

section \<open>Error texts\<close>

definition msg_vpc_list_returned_is_nil :: string where "msg_vpc_list_returned_is_nil = ''vpc list returned is nil''"
definition msg_subnet_list_returned_is_nil :: string where "msg_subnet_list_returned_is_nil = ''subnet list returned is nil''"
definition msg_vpcaddressprefix_list_returned_is_nil :: string where "msg_vpcaddressprefix_list_returned_is_nil = ''vpcAddressPrefix list returned is nil''"
definition msg_not_found_a_valid_cidr_for_vpc_in_zone :: string where "msg_not_found_a_valid_cidr_for_vpc_in_zone = ''not found a valid CIDR for VPC in zone''"
definition msg_error_when_unsetting_publicgateway_for_subnet :: string where "msg_error_when_unsetting_publicgateway_for_subnet = ''error when unsetting publicgateway for subnet''"
definition msg_error_when_deleting_publicgateway_for_subnet :: string where "msg_error_when_deleting_publicgateway_for_subnet = ''error when deleting publicgateway for subnet''"
definition msg_error_when_detaching_publicgateway_for_subnet :: string where "msg_error_when_detaching_publicgateway_for_subnet = ''error when detaching publicgateway for subnet''"
definition msg_error_when_deleting_subnet :: string where "msg_error_when_deleting_subnet = ''error when deleting subnet''"
definition msg_loadbalancer_list_returned_is_nil :: string where "msg_loadbalancer_list_returned_is_nil = ''loadBalancer list returned is nil''"
definition msg_error_subnet_required_for_load_balancer_creation :: string where "msg_error_subnet_required_for_load_balancer_creation = ''error subnet required for load balancer creation''"

section \<open>Accessors\<close>

type_synonym 'a vpproc = "(vscope, 'a) pproc"

definition subnetSuffix :: string where "subnetSuffix = ''-subnet''"

definition classic_APIServerPort :: "vscope \<Rightarrow> int" where
  "classic_APIServerPort s = (if v_APIServerPort s > 0 then v_APIServerPort s else vpc_DefaultAPIServerPort)"

definition classic_SetReady :: "(vscope, unit) state" where
  "classic_SetReady = upd_vstatus (\<lambda>st. st\<lparr>VStatus_Ready := True\<rparr>)"

definition classic_SetNotReady :: "(vscope, unit) state" where
  "classic_SetNotReady = upd_vstatus (\<lambda>st. st\<lparr>VStatus_Ready := False\<rparr>)"

definition classic_IsReady :: "vscope \<Rightarrow> bool" where
  "classic_IsReady s = VStatus_Ready (v_status s)"

definition SetLoadBalancerState :: "string \<Rightarrow> (vscope, unit) state" where
  "SetLoadBalancerState x = upd_vstatus (\<lambda>st. st\<lparr>VStatus_ControlPlaneLoadBalancerState := x\<rparr>)"

definition GetLoadBalancerState :: "vscope \<Rightarrow> VPCLoadBalancerState" where
  "GetLoadBalancerState s = VStatus_ControlPlaneLoadBalancerState (v_status s)"

definition SetLoadBalancerID :: "string option \<Rightarrow> (vscope, unit) state" where
  "SetLoadBalancerID i = upd_vstatus (\<lambda>st. st\<lparr>VStatus_VPCEndpoint := (VStatus_VPCEndpoint st)\<lparr>VPCEndpoint_LBID := i\<rparr>\<rparr>)"

definition classic_GetLoadBalancerID :: "vscope \<Rightarrow> string" where
  "classic_GetLoadBalancerID s = ptr_Deref (VPCEndpoint_LBID (VStatus_VPCEndpoint (v_status s))) []"

definition SetLoadBalancerAddress :: "string option \<Rightarrow> (vscope, unit) state" where
  "SetLoadBalancerAddress x = upd_vstatus (\<lambda>st. st\<lparr>VStatus_VPCEndpoint := (VStatus_VPCEndpoint st)\<lparr>VPCEndpoint_Address := x\<rparr>\<rparr>)"

definition classic_GetLoadBalancerAddress :: "vscope \<Rightarrow> string" where
  "classic_GetLoadBalancerAddress s = ptr_Deref (VPCEndpoint_Address (VStatus_VPCEndpoint (v_status s))) []"

text \<open>A call of which only the error counts.\<close>

definition done_unless :: "'r reply \<Rightarrow> (gerror \<Rightarrow> gerror) \<Rightarrow> ('s, unit) proc" where
  "done_unless r wrap = (case r of Fail e _ \<Rightarrow> fail (wrap e) | Reply _ \<Rightarrow> ok ())"

section \<open>The VPC\<close>

definition ensureVPCUnique :: "vpc_clients \<Rightarrow> string \<Rightarrow> VPC option vpproc" where
  "ensureVPCUnique C name = vlookup (url_start C) (\<lambda>start. do_ListVpcs C start) id msg_vpc_list_returned_is_nil vpc_Name Some name"

definition default_sg_rule :: "int \<Rightarrow> NewRule" where
  "default_sg_rule port =
     \<lparr>rule_Kind = KindGeneric, rule_Direction = ''inbound'', rule_Protocol = ''tcp'', rule_IPVersion = Some ''ipv4'', rule_Remote = None,
      rule_Code = None, rule_Type = None, rule_PortMin = Some port, rule_PortMax = Some port\<rparr>"

definition updateDefaultSG :: "vpc_clients \<Rightarrow> string \<Rightarrow> unit vproc" where
  "updateDefaultSG C sgID = do {
     s \<leftarrow> State_Monad.get;
     r \<leftarrow> do_CreateRule C sgID (default_sg_rule (classic_APIServerPort s));
     done_unless r id }"

text \<open>The event after the creation reads the name.\<close>

definition make_vpc :: "vpc_clients \<Rightarrow> VPC option vproc" where
  "make_vpc C = do {
     s \<leftarrow> State_Monad.get;
     let req = \<lparr>vcv_ResourceGroup = VSpec_ResourceGroup (v_spec s), vcv_Name = Some (VSpec_VPC (v_spec s)), vcv_AddressPrefixManagement = None\<rparr>;
     r \<leftarrow> do_CreateVPC C req;
     case r of
       Fail e _ \<Rightarrow> fail e
     | Reply vpc \<Rightarrow> deref vpc (\<lambda>v. deref (vpc_DefaultSecurityGroup v) (\<lambda>sg. deref sg (\<lambda>sgID.
         bindE (updateDefaultSG C sgID) (\<lambda>_. deref (vpc_Name v) (\<lambda>_. ok (Some v)))))) }"

definition classic_CreateVPC :: "vpc_clients \<Rightarrow> VPC option vpproc" where
  "classic_CreateVPC C = withP State_Monad.get (\<lambda>s.
     bindP (ensureVPCUnique C (VSpec_VPC (v_spec s))) (\<lambda>vpcReply. case vpcReply of
         Some v \<Rightarrow> okP (Some v)
       | None \<Rightarrow> lift (make_vpc C)))"

definition classic_DeleteVPC :: "vpc_clients \<Rightarrow> unit vproc" where
  "classic_DeleteVPC C = do {
     s \<leftarrow> State_Monad.get;
     let vpcID = VPCStatusRef_ID (VStatus_VPC (v_status s));
     if vpcID = [] then ok ()
     else do { r \<leftarrow> do_DeleteVPC C vpcID; done_unless r id } }"

section \<open>The subnet\<close>

definition ensureSubnetUnique :: "vpc_clients \<Rightarrow> string \<Rightarrow> CloudSubnet option vpproc" where
  "ensureSubnetUnique C name =
     vlookup (url_start C) (\<lambda>start. do_ListSubnets C start) id msg_subnet_list_returned_is_nil subnet_Name Some name"

text \<open>The zone of a prefix is a reference with a name.\<close>

definition prefix_zone_name :: "AddressPrefix \<Rightarrow> string option" where
  "prefix_zone_name p = Option.bind (prefix_Zone p) id"

definition getSubnetAddrPrefix :: "vpc_clients \<Rightarrow> string \<Rightarrow> string \<Rightarrow> string vpproc" where
  "getSubnetAddrPrefix C vpcID zone =
     bindP (vlookup (url_start C) (\<lambda>start. do_ListAddressPrefixes C vpcID start) id msg_vpcaddressprefix_list_returned_is_nil
              prefix_zone_name Some zone) (\<lambda>addrPrefix. case addrPrefix of
         Some p \<Rightarrow> derefP (prefix_CIDR p) okP
       | None \<Rightarrow> failP (Errorf msg_not_found_a_valid_cidr_for_vpc_in_zone))"

definition createPublicGateWay :: "vpc_clients \<Rightarrow> string \<Rightarrow> string \<Rightarrow> string \<Rightarrow> CloudGateway option vproc" where
  "createPublicGateWay C vpcID zoneName resourceGroupID = do {
     let req = \<lparr>vcg_Name = None, vcg_ResourceGroup = resourceGroupID, vcg_VPC = vpcID, vcg_Zone = zoneName\<rparr>;
     r \<leftarrow> do_CreateGateway C req;
     case r of Fail e _ \<Rightarrow> fail e | Reply g \<Rightarrow> ok g }"

definition attachPublicGateWay :: "vpc_clients \<Rightarrow> string \<Rightarrow> string \<Rightarrow> unit vproc" where
  "attachPublicGateWay C subnetID pgwID = do {
     r \<leftarrow> do_SetSubnetGateway C subnetID pgwID;
     done_unless r id }"

definition classic_subnet_request :: "vscope \<Rightarrow> string \<Rightarrow> VCreateSubnet" where
  "classic_subnet_request s cidrBlock =
     \<lparr>vcs_Ipv4CIDRBlock = Some cidrBlock, vcs_IPVersion = None, vcs_TotalIpv4AddressCount = None,
      vcs_Name = Some (VCluster_Name (v_cluster s) @ subnetSuffix), vcs_VPC = Some (VPCStatusRef_ID (VStatus_VPC (v_status s))),
      vcs_Zone = VSpec_Zone (v_spec s), vcs_ResourceGroup = VSpec_ResourceGroup (v_spec s), vcs_PublicGateway = None\<rparr>"

text \<open>A subnet that comes with an error gets its gateway too; the error is returned behind it.\<close>

definition make_subnet :: "vpc_clients \<Rightarrow> string \<Rightarrow> CloudSubnet option vproc" where
  "make_subnet C cidrBlock = do {
     s \<leftarrow> State_Monad.get;
     r \<leftarrow> do_CreateSubnet C (classic_subnet_request s cidrBlock);
     let result = (case snd r of Some e \<Rightarrow> fail e | None \<Rightarrow> ok (fst r));
     case fst r of
       None \<Rightarrow> result
     | Some subnet \<Rightarrow>
         bindE (createPublicGateWay C (VPCStatusRef_ID (VStatus_VPC (v_status s))) (VSpec_Zone (v_spec s)) (VSpec_ResourceGroup (v_spec s))) (\<lambda>pgw.
           case pgw of
             None \<Rightarrow> result
           | Some g \<Rightarrow> deref (subnet_ID subnet) (\<lambda>i. deref (cgw_ID g) (\<lambda>j. bindE (attachPublicGateWay C i j) (\<lambda>_. result)))) }"

definition classic_CreateSubnet :: "vpc_clients \<Rightarrow> CloudSubnet option vpproc" where
  "classic_CreateSubnet C = withP State_Monad.get (\<lambda>s.
     bindP (ensureSubnetUnique C (VCluster_Name (v_cluster s) @ subnetSuffix)) (\<lambda>subnetReply. case subnetReply of
         Some d \<Rightarrow> okP (Some d)
       | None \<Rightarrow>
           bindP (getSubnetAddrPrefix C (VPCStatusRef_ID (VStatus_VPC (v_status s))) (VSpec_Zone (v_spec s))) (\<lambda>cidrBlock.
             lift (make_subnet C cidrBlock))))"

definition detachPublicGateway :: "vpc_clients \<Rightarrow> string \<Rightarrow> string \<Rightarrow> unit vproc" where
  "detachPublicGateway C subnetID pgwID = do {
     r \<leftarrow> do_UnsetSubnetGateway C subnetID;
     bindE (done_unless r (Wrapf msg_error_when_unsetting_publicgateway_for_subnet)) (\<lambda>_. do {
       r \<leftarrow> do_DeleteGateway C pgwID;
       done_unless r (Wrapf msg_error_when_deleting_publicgateway_for_subnet) }) }"

definition remove_subnet :: "vpc_clients \<Rightarrow> string \<Rightarrow> unit vproc" where
  "remove_subnet C subnetID = do {
     r \<leftarrow> do_GetSubnetGateway C subnetID;
     case r of
       Fail e _ \<Rightarrow> fail e
     | Reply pgw \<Rightarrow>
         bindE (case pgw of
             None \<Rightarrow> ok ()
           | Some g \<Rightarrow> deref (cgw_ID g) (\<lambda>j. bindW msg_error_when_detaching_publicgateway_for_subnet (detachPublicGateway C subnetID j) ok)) (\<lambda>_. do {
         r \<leftarrow> do_DeleteSubnet C subnetID;
         done_unless r (Wrapf msg_error_when_deleting_subnet) }) }"

text \<open>The subnet is looked for by its ID before it is deleted.\<close>

definition subnet_listed :: "vpc_clients \<Rightarrow> string \<Rightarrow> unit option vpproc" where
  "subnet_listed C subnetID =
     vlookup (url_start C) (\<lambda>start. do_ListSubnets C start) id msg_subnet_list_returned_is_nil subnet_ID (\<lambda>_. Some ()) subnetID"

definition classic_DeleteSubnet :: "vpc_clients \<Rightarrow> unit vpproc" where
  "classic_DeleteSubnet C = withP State_Monad.get (\<lambda>s. case SubnetSpec_ID (VStatus_Subnet (v_status s)) of
       None \<Rightarrow> okP ()
     | Some subnetID \<Rightarrow> bindP (subnet_listed C subnetID) (\<lambda>found. case found of
           None \<Rightarrow> okP ()
         | Some _ \<Rightarrow> lift (remove_subnet C subnetID)))"

section \<open>The load balancer\<close>

definition ensureLoadBalancerUnique :: "vpc_clients \<Rightarrow> string \<Rightarrow> CloudLoadBalancer option vpproc" where
  "ensureLoadBalancerUnique C name =
     vlookup (url_start C) (\<lambda>start. do_ListLoadBalancers C start) id msg_loadbalancer_list_returned_is_nil lb_Name Some name"

definition classic_GetLoadBalancerByHostname :: "vpc_clients \<Rightarrow> string \<Rightarrow> CloudLoadBalancer option vpproc" where
  "classic_GetLoadBalancerByHostname C hostname =
     vlookup (url_start C) (\<lambda>start. do_ListLoadBalancers C start) id msg_loadbalancer_list_returned_is_nil lb_Hostname Some hostname"

definition classic_lb_request :: "vscope \<Rightarrow> string \<Rightarrow> string option \<Rightarrow> VCreateLoadBalancer" where
  "classic_lb_request s name subnet =
     \<lparr>vclb_IsPublic = True, vclb_Name = name, vclb_ResourceGroup = VSpec_ResourceGroup (v_spec s), vclb_Subnets = [subnet],
      vclb_SecurityGroups = [],
      vclb_Pools = [\<lparr>vpool_Algorithm = ''round_robin'',
        vpool_HealthMonitor = \<lparr>vmon_Delay = 5, vmon_MaxRetries = 2, vmon_Timeout = 2, vmon_Type = ''tcp'', vmon_Port = None, vmon_URLPath = None\<rparr>,
        vpool_Name = Some (name @ ''-pool''), vpool_Protocol = ''tcp''\<rparr>],
      vclb_Listeners = [\<lparr>vlisten_Port = classic_APIServerPort s, vlisten_Protocol = ''tcp'', vlisten_DefaultPool = Some (Some (name @ ''-pool''))\<rparr>]\<rparr>"

definition make_balancer :: "vpc_clients \<Rightarrow> string \<Rightarrow> CloudLoadBalancer option vproc" where
  "make_balancer C name = do {
     s \<leftarrow> State_Monad.get;
     let subnet = SubnetSpec_ID (VStatus_Subnet (v_status s));
     if subnet = None then fail (Errorf msg_error_subnet_required_for_load_balancer_creation)
     else do {
       r \<leftarrow> do_CreateLoadBalancer C (classic_lb_request s name subnet);
       case r of
         Fail e _ \<Rightarrow> fail e
       | Reply lb \<Rightarrow> deref lb (\<lambda>l. deref (lb_Name l) (\<lambda>_. ok (Some l))) } }"

definition classic_CreateLoadBalancer :: "vpc_clients \<Rightarrow> CloudLoadBalancer option vpproc" where
  "classic_CreateLoadBalancer C = withP State_Monad.get (\<lambda>s. derefP (VSpec_ControlPlaneLoadBalancer (v_spec s)) (\<lambda>lb.
     bindP (ensureLoadBalancerUnique C (LoadBalancerSpec_Name lb)) (\<lambda>loadBalancerReply. case loadBalancerReply of
         Some l \<Rightarrow> okP (Some l)
       | None \<Rightarrow> lift (make_balancer C (LoadBalancerSpec_Name lb)))))"

text \<open>
  \<open>DeleteLoadBalancer\<close> goes through all pages. The variable of its closure is whether the load balancer was
  listed; one that is listed and not yet being deleted is deleted.
\<close>

definition delete_listed :: "vpc_clients \<Rightarrow> string \<Rightarrow> CloudLoadBalancer \<Rightarrow> (vscope \<times> bool, unit) proc" where
  "delete_listed C lbipID lb = deref (lb_ID lb) (\<lambda>i.
     if i \<noteq> lbipID then ok ()
     else do {
       assign True;
       deref (lb_ProvisioningStatus lb) (\<lambda>st.
         if st = VPCLoadBalancerStateDeletePending then ok ()
         else do { r \<leftarrow> on_scope (do_DeleteLoadBalancer C lbipID); done_unless r id }) })"

definition delete_lb_page :: "vpc_clients \<Rightarrow> string \<Rightarrow> string \<Rightarrow> (vscope \<times> bool, bool \<times> string) proc" where
  "delete_lb_page C lbipID start = do {
     r \<leftarrow> on_scope (do_ListLoadBalancers C start);
     case r of
       Fail e _ \<Rightarrow> fail e
     | Reply None \<Rightarrow> fail (Errorf msg_loadbalancer_list_returned_is_nil)
     | Reply (Some p) \<Rightarrow> bindE (loopM (\<lambda>lb _. delete_listed C lbipID lb) (vpage_items p) ()) (\<lambda>_. next_vpage p) }"

definition classic_DeleteLoadBalancer :: "vpc_clients \<Rightarrow> bool vpproc" where
  "classic_DeleteLoadBalancer C s =
     (if classic_GetLoadBalancerID s = [] then Some (Ok False, s)
      else (case PagingHelper (url_start C) (delete_lb_page C (classic_GetLoadBalancerID s)) (s, False) of
          None \<Rightarrow> None
        | Some (Ok _, (t, deleted)) \<Rightarrow> Some (Ok deleted, t)
        | Some (Err e, (t, _)) \<Rightarrow> Some (Err e, t)
        | Some (Panic, (t, _)) \<Rightarrow> Some (Panic, t)))"

end
