(* ===== verification/Ibmvpc_Classic_Controller.thy ===== *)
theory Ibmvpc_Classic_Controller
  imports Ibmvpc_Classic_Scope Ibmvpc_Cluster_Controller
begin

text \<open>
  The controller of a VPC cluster without a network spec (\<open>reconcile\<close>, \<open>reconcileDelete\<close> and
  \<open>reconcileLBState\<close> of \<^verbatim>\<open>internal/controllers/vpc/ibmvpccluster_controller.go\<close>).
\<close>

section \<open>Error texts\<close>

definition msg_vpc_load_balancer_is_in_creating_state :: string where "msg_vpc_load_balancer_is_in_creating_state = ''VPC load balancer is in creating state''"
definition msg_vpc_load_balancer_is_in_active_state :: string where "msg_vpc_load_balancer_is_in_active_state = ''VPC load balancer is in active state''"
definition msg_vpc_load_balancer_is_in_an_unknown_state :: string where "msg_vpc_load_balancer_is_in_an_unknown_state = ''VPC load balancer is in an unknown state''"
definition msg_error_when_retrieving_load_balancer_with_specified_hostname :: string where "msg_error_when_retrieving_load_balancer_with_specified_hostname = ''error when retrieving load balancer with specified hostname''"
definition msg_no_loadbalancer_found_with_hostname :: string where "msg_no_loadbalancer_found_with_hostname = ''no loadBalancer found with hostname''"
definition msg_failed_to_reconcile_vpc_for_ibmvpccluster :: string where "msg_failed_to_reconcile_vpc_for_ibmvpccluster = ''failed to reconcile VPC for IBMVPCCluster''"
definition msg_failed_to_reconcile_subnet_for_ibmvpccluster :: string where "msg_failed_to_reconcile_subnet_for_ibmvpccluster = ''failed to reconcile Subnet for IBMVPCCluster''"
definition msg_failed_to_reconcile_control_plane_loadbalancer_for_ibmvpccluster :: string where "msg_failed_to_reconcile_control_plane_loadbalancer_for_ibmvpccluster = ''failed to reconcile Control Plane LoadBalancer for IBMVPCCluster''"
definition msg_failed_to_delete_subnet :: string where "msg_failed_to_delete_subnet = ''failed to delete subnet''"
definition msg_failed_to_delete_vpc :: string where "msg_failed_to_delete_vpc = ''failed to delete VPC''"
definition msg_failed_to_delete_loadbalancer :: string where "msg_failed_to_delete_loadbalancer = ''failed to delete loadBalancer''"
definition msg_error_when_listing_vsis_when_tried_to_delete_subnet :: string where "msg_error_when_listing_vsis_when_tried_to_delete_subnet = ''error when listing VSIs when tried to delete subnet''"

section \<open>Conditions\<close>

definition requeue_minute :: Result where "requeue_minute = \<lparr>RequeueAfter = 60\<rparr>"
definition vpc_SeverityInfo :: string where "vpc_SeverityInfo = ''Info''"

definition classic_mark :: "capi \<Rightarrow> DeprecatedCondition \<Rightarrow> Condition \<Rightarrow> (vscope, unit) state" where
  "classic_mark K d c = upd_vcluster (put_conditions K [d] [c])"

text \<open>A part that is being deleted gets the other condition only.\<close>

definition mark_part_deleting :: "capi \<Rightarrow> vpc_part \<Rightarrow> (vscope, unit) state" where
  "mark_part_deleting K p =
     upd_vcluster (put_conditions K [] [condition_of (part_condition_v1beta2 p) ConditionFalse DeletingReason None])"

section \<open>The state of the load balancer\<close>

text \<open>
  \<open>reconcileLBState\<close>: port, ID, address and state are recorded; the cluster is ready exactly in the active
  state. The operating status is read only while the load balancer is being created.
\<close>

definition set_endpoint_port :: "(vscope, unit) state" where
  "set_endpoint_port = do {
     s \<leftarrow> State_Monad.get;
     if VSpec_EndpointPort (v_spec s) = 0
     then upd_vcluster (\<lambda>c. c\<lparr>VCluster_Spec := (VCluster_Spec c)\<lparr>VSpec_EndpointPort := classic_APIServerPort s\<rparr>\<rparr>)
     else State_Monad.return () }"

definition follow_lb_state :: "capi \<Rightarrow> CloudLoadBalancer \<Rightarrow> string \<Rightarrow> unit vproc" where
  "follow_lb_state K lb st =
     (let ty = part_condition PartBalancers; ty' = part_condition_v1beta2 PartBalancers in
      if st = VPCLoadBalancerStateCreatePending then do {
        classic_SetNotReady;
        deref (lb_OperatingStatus lb) (\<lambda>op. do {
          classic_mark K (marked ty ConditionFalse VPCLoadBalancerStateCreatePending vpc_SeverityInfo (Some (Errorf op)))
            (condition_of ty' ConditionFalse NotReadyReason (Some (Errorf msg_vpc_load_balancer_is_in_creating_state)));
          ok () }) }
      else if st = VPCLoadBalancerStateActive then do {
        classic_SetReady;
        classic_mark K (marked ty ConditionTrue [] [] None)
          (condition_of ty' ConditionTrue ReadyReason (Some (Errorf msg_vpc_load_balancer_is_in_active_state)));
        ok () }
      else do {
        classic_SetNotReady;
        classic_mark K (marked ty ConditionUnknown st [] None)
          (condition_of ty' ConditionUnknown NotReadyReason (Some (Wrapf msg_vpc_load_balancer_is_in_an_unknown_state (Errorf st))));
        ok () })"

definition reconcileLBState :: "capi \<Rightarrow> CloudLoadBalancer \<Rightarrow> unit vproc" where
  "reconcileLBState K lb = do {
     set_endpoint_port;
     SetLoadBalancerID (lb_ID lb);
     SetLoadBalancerAddress (lb_Hostname lb);
     deref (lb_ProvisioningStatus lb) (\<lambda>st. do {
       SetLoadBalancerState st;
       follow_lb_state K lb st }) }"

section \<open>Reconcile\<close>

text \<open>The load balancer whose host name is the endpoint, if one is set.\<close>

definition classic_endpoint :: "capi \<Rightarrow> vpc_clients \<Rightarrow> unit vpproc" where
  "classic_endpoint K C = withP State_Monad.get (\<lambda>s. let host = VSpec_EndpointHost (v_spec s) in
     if host = [] then okP ()
     else bindPW msg_error_when_retrieving_load_balancer_with_specified_hostname (classic_GetLoadBalancerByHostname C host) (\<lambda>x. case x of
         None \<Rightarrow> failP (Errorf msg_no_loadbalancer_found_with_hostname)
       | Some lb \<Rightarrow> lift (reconcileLBState K lb)))"

definition record_vpc :: "capi \<Rightarrow> VPC \<Rightarrow> unit vproc" where
  "record_vpc K v = deref (vpc_ID v) (\<lambda>i. deref (vpc_Name v) (\<lambda>n. do {
     upd_vstatus (\<lambda>st. st\<lparr>VStatus_VPC := \<lparr>VPCStatusRef_ID = i, VPCStatusRef_Name = n\<rparr>\<rparr>);
     mark_part_ready K PartVPC;
     ok () }))"

definition classic_vpc :: "capi \<Rightarrow> vpc_clients \<Rightarrow> unit vpproc" where
  "classic_vpc K C = attemptP (classic_CreateVPC C)
     (\<lambda>e. lift (do { mark_part_failed K PartVPC e; fail (Wrapf msg_failed_to_reconcile_vpc_for_ibmvpccluster e) }))
     (\<lambda>x. case x of None \<Rightarrow> okP () | Some v \<Rightarrow> lift (record_vpc K v))"

definition record_vpc_subnet :: "capi \<Rightarrow> CloudSubnet \<Rightarrow> unit vproc" where
  "record_vpc_subnet K d = deref (subnet_Zone d) (\<lambda>zone. do {
     upd_vstatus (\<lambda>st. st\<lparr>VStatus_Subnet :=
       \<lparr>SubnetSpec_Ipv4CidrBlock = subnet_Ipv4CIDRBlock d, SubnetSpec_Name = subnet_Name d, SubnetSpec_ID = subnet_ID d, SubnetSpec_Zone = zone\<rparr>\<rparr>);
     mark_part_ready K PartSubnets;
     ok () })"

definition classic_subnet :: "capi \<Rightarrow> vpc_clients \<Rightarrow> unit vpproc" where
  "classic_subnet K C = withP State_Monad.get (\<lambda>s.
     if SubnetSpec_ID (VStatus_Subnet (v_status s)) \<noteq> None then okP ()
     else attemptP (classic_CreateSubnet C)
       (\<lambda>e. lift (do { mark_part_failed K PartSubnets e; fail (Wrapf msg_failed_to_reconcile_subnet_for_ibmvpccluster e) }))
       (\<lambda>x. case x of None \<Rightarrow> okP () | Some d \<Rightarrow> lift (record_vpc_subnet K d)))"

definition record_balancer :: "capi \<Rightarrow> CloudLoadBalancer \<Rightarrow> unit vproc" where
  "record_balancer K lb = deref (lb_Hostname lb) (\<lambda>host. do {
     upd_vcluster (\<lambda>c. c\<lparr>VCluster_Spec := (VCluster_Spec c)\<lparr>VSpec_EndpointHost := host\<rparr>\<rparr>);
     reconcileLBState K lb })"

definition getOrCreate :: "vpc_clients \<Rightarrow> CloudLoadBalancer option vpproc" where
  "getOrCreate C = classic_CreateLoadBalancer C"

definition classic_balancer :: "capi \<Rightarrow> vpc_clients \<Rightarrow> unit vpproc" where
  "classic_balancer K C = withP State_Monad.get (\<lambda>s.
     if VSpec_ControlPlaneLoadBalancer (v_spec s) = None \<or> VSpec_EndpointHost (v_spec s) \<noteq> [] then okP ()
     else bindPW msg_failed_to_reconcile_control_plane_loadbalancer_for_ibmvpccluster (getOrCreate C) (\<lambda>x. case x of
         None \<Rightarrow> okP ()
       | Some lb \<Rightarrow> lift (record_balancer K lb)))"

definition classic_reconcile :: "capi \<Rightarrow> (string list \<Rightarrow> string \<Rightarrow> string list \<times> bool) \<Rightarrow> vpc_clients \<Rightarrow> Result vpproc" where
  "classic_reconcile K AddFinalizer C = withP State_Monad.get (\<lambda>s.
     (let added = AddFinalizer (VCluster_Finalizers (v_cluster s)) ClusterFinalizer
      in withP (upd_vcluster (\<lambda>c. c\<lparr>VCluster_Finalizers := fst added\<rparr>)) (\<lambda>_.
           if snd added then okP finished
           else bindP (classic_endpoint K C) (\<lambda>_. bindP (classic_vpc K C) (\<lambda>_. bindP (classic_subnet K C) (\<lambda>_. bindP (classic_balancer K C) (\<lambda>_.
                  withP State_Monad.get (\<lambda>t. okP (if classic_IsReady t then finished else requeue_minute)))))))))"

section \<open>Deletion\<close>

definition handleFinalizerRemoval :: "capi \<Rightarrow> Result vproc" where
  "handleFinalizerRemoval K = do {
     upd_vcluster (\<lambda>c. c\<lparr>VCluster_Finalizers := RemoveFinalizer K (VCluster_Finalizers c) ClusterFinalizer\<rparr>);
     ok finished }"

text \<open>The subnet and the VPC, once no load balancer is in the way.\<close>

definition delete_network :: "capi \<Rightarrow> vpc_clients \<Rightarrow> Result vpproc" where
  "delete_network K C = withP (mark_part_deleting K PartSubnets) (\<lambda>_.
     bindPW msg_failed_to_delete_subnet (classic_DeleteSubnet C) (\<lambda>_. withP (mark_part_deleting K PartVPC) (\<lambda>_.
     bindPW msg_failed_to_delete_vpc (lift (classic_DeleteVPC C)) (\<lambda>_. lift (handleFinalizerRemoval K)))))"

text \<open>
  The load balancer. Without one of the host name, and unless the last state seen was that it is being deleted,
  the finalizer is removed; as it is when the load balancer has another name than that of the spec.
\<close>

definition delete_found_balancer :: "capi \<Rightarrow> vpc_clients \<Rightarrow> LoadBalancerSpec \<Rightarrow> CloudLoadBalancer \<Rightarrow> Result vpproc" where
  "delete_found_balancer K C lbSpec lb = derefP (lb_ProvisioningStatus lb) (\<lambda>st.
     withP (SetLoadBalancerState st) (\<lambda>_. derefP (lb_Name lb) (\<lambda>n.
       if n \<noteq> LoadBalancerSpec_Name lbSpec then lift (handleFinalizerRemoval K)
       else withP (mark_part_deleting K PartBalancers) (\<lambda>_.
         bindPW msg_failed_to_delete_loadbalancer (classic_DeleteLoadBalancer C) (\<lambda>deleted.
           if deleted then okP requeue_minute else delete_network K C)))))"

definition delete_balancer :: "capi \<Rightarrow> vpc_clients \<Rightarrow> LoadBalancerSpec \<Rightarrow> Result vpproc" where
  "delete_balancer K C lbSpec = withP State_Monad.get (\<lambda>s.
     bindPW msg_error_when_retrieving_load_balancer_with_specified_hostname
       (classic_GetLoadBalancerByHostname C (VSpec_EndpointHost (v_spec s))) (\<lambda>x. withP State_Monad.get (\<lambda>t. case x of
         None \<Rightarrow> if GetLoadBalancerState t \<noteq> VPCLoadBalancerStateDeletePending then lift (handleFinalizerRemoval K)
                 else delete_network K C
       | Some lb \<Rightarrow> delete_found_balancer K C lbSpec lb)))"

definition classic_reconcileDelete :: "capi \<Rightarrow> vpc_clients \<Rightarrow> Result vpproc" where
  "classic_reconcileDelete K C = withP State_Monad.get (\<lambda>s.
     withP (do_CountInstances C (VPCStatusRef_ID (VStatus_VPC (v_status s)))) (\<lambda>r. case r of
       Fail e _ \<Rightarrow> failP (Wrapf msg_error_when_listing_vsis_when_tried_to_delete_subnet e)
     | Reply vsis \<Rightarrow> derefP vsis (\<lambda>count. derefP count (\<lambda>n.
         if n \<noteq> 0 then okP requeue_minute
         else (case VSpec_ControlPlaneLoadBalancer (v_spec s) of
             None \<Rightarrow> if VSpec_EndpointHost (v_spec s) \<noteq> [] then lift (handleFinalizerRemoval K) else delete_network K C
           | Some lbSpec \<Rightarrow> delete_balancer K C lbSpec)))))"

end
