(* ===== verification/Ibmvpc_Cluster_Entry.thy ===== *)
theory Ibmvpc_Cluster_Entry
  imports Ibmvpc_Classic_Controller
begin

text \<open>
  The entry points of the controller of VPC clusters: \<open>Reconcile\<close> and \<open>reconcileV2\<close> with the deferred patch
  (\<^verbatim>\<open>internal/controllers/vpc/ibmvpccluster_controller.go\<close>) and the construction of the two scopes
  (\<^verbatim>\<open>pkg/cloud/scope/vpc/cluster.go\<close>, \<^verbatim>\<open>cluster_v2.go\<close>).
\<close>

section \<open>Error texts\<close>

definition msg_failed_to_generate_new_scope_from_nil_cluster :: string where "msg_failed_to_generate_new_scope_from_nil_cluster = ''failed to generate new scope from nil Cluster''"
definition msg_failed_to_generate_new_scope_from_nil_ibmvpccluster :: string where "msg_failed_to_generate_new_scope_from_nil_ibmvpccluster = ''failed to generate new scope from nil IBMVPCCluster''"
definition msg_failed_to_init_patch_helper :: string where "msg_failed_to_init_patch_helper = ''failed to init patch helper''"
definition msg_failed_to_create_ibm_vpc_session :: string where "msg_failed_to_create_ibm_vpc_session = ''failed to create IBM VPC session''"
definition msg_error_failed_to_generate_new_scope_from_nil_client :: string where "msg_error_failed_to_generate_new_scope_from_nil_client = ''error failed to generate new scope from nil Client''"
definition msg_error_failed_to_generate_new_scope_from_nil_cluster :: string where "msg_error_failed_to_generate_new_scope_from_nil_cluster = ''error failed to generate new scope from nil Cluster''"
definition msg_error_failed_to_generate_new_scope_from_nil_ibmvpccluster :: string where "msg_error_failed_to_generate_new_scope_from_nil_ibmvpccluster = ''error failed to generate new scope from nil IBMVPCCluster''"
definition msg_error_failed_to_init_patch_helper :: string where "msg_error_failed_to_init_patch_helper = ''error failed to init patch helper''"
definition msg_error_failed_to_create_ibm_vpc_client :: string where "msg_error_failed_to_create_ibm_vpc_client = ''error failed to create IBM VPC client''"
definition msg_error_failed_to_generate_vpc_client_as_network_or_region_is_nil :: string where "msg_error_failed_to_generate_vpc_client_as_network_or_region_is_nil = ''error failed to generate vpc client as Network or Region is nil''"
definition msg_error_failed_to_create_authenticator :: string where "msg_error_failed_to_create_authenticator = ''error failed to create authenticator''"
definition msg_failed_to_create_global_tagging_client :: string where "msg_failed_to_create_global_tagging_client = ''failed to create global tagging client''"
definition msg_failed_to_create_resource_controller_client :: string where "msg_failed_to_create_resource_controller_client = ''failed to create resource controller client''"
definition msg_failed_to_create_resource_manager_client :: string where "msg_failed_to_create_resource_manager_client = ''failed to create resource manager client''"
definition msg_failed_to_set_ready_condition :: string where "msg_failed_to_set_ready_condition = ''failed to set Ready condition''"
definition msg_failed_to_create_scope :: string where "msg_failed_to_create_scope = ''failed to create scope''"
definition msg_failed_to_initialize_patch_helper :: string where "msg_failed_to_initialize_patch_helper = ''failed to initialize patch helper''"

section \<open>Cluster API and the Kubernetes client\<close>

text \<open>
  The owner is the name of the Cluster API cluster and the API server port in its network. A \<open>Get\<close> knows how many
  there were before it in the reconcile. A summary gets the target, the types, those that may be missing, and
  the reasons for issues, unknown and ready; a patch the owned conditions, the object it was made for and the object.
\<close>

record vcluster_util =
  vcu_Get :: "nat \<Rightarrow> IBMVPCCluster reply"
  vcu_GetOwnerCluster :: "IBMVPCCluster \<Rightarrow> (string \<times> int) option reply"
  vcu_EnsureFinalizer :: "IBMVPCCluster \<Rightarrow> bool reply"
  vcu_EnsurePaused :: "IBMVPCCluster \<Rightarrow> (bool \<times> bool) reply"                      \<comment> \<open>paused, requeue\<close>
  vcu_NewHelper :: "IBMVPCCluster \<Rightarrow> unit reply"
  vcu_SetSummary :: "Condition list \<Rightarrow> string \<Rightarrow> string list \<Rightarrow> string list \<Rightarrow> string \<times> string \<times> string \<Rightarrow> Condition list reply"
  vcu_Patch :: "string list \<Rightarrow> IBMVPCCluster \<Rightarrow> IBMVPCCluster \<Rightarrow> unit reply"
  vcu_NewVPCService :: "string \<Rightarrow> unit reply"
  vcu_GetAuthenticator :: "unit reply"
  vcu_NewTagging :: "string option \<Rightarrow> unit reply"                                  \<comment> \<open>the URL that overrides the default\<close>
  vcu_NewResourceController :: "string option \<Rightarrow> unit reply"
  vcu_NewResourceManager :: "string option \<Rightarrow> unit reply"

section \<open>The scopes\<close>

definition NewClusterScope :: "vcluster_util \<Rightarrow> ServiceEndpoint list \<Rightarrow> bool \<Rightarrow> IBMVPCCluster option \<Rightarrow> unit outcome" where
  "NewClusterScope W endpoints has_cluster vc =
     (if \<not> has_cluster then Err (Errorf msg_failed_to_generate_new_scope_from_nil_cluster)
      else (case vc of
          None \<Rightarrow> Err (Errorf msg_failed_to_generate_new_scope_from_nil_ibmvpccluster)
        | Some c \<Rightarrow> (case vcu_NewHelper W c of
            Fail e _ \<Rightarrow> Err (Wrapf msg_failed_to_init_patch_helper e)
          | Reply _ \<Rightarrow> (case vcu_NewVPCService W (FetchVPCEndpoint (VSpec_Region (VCluster_Spec c)) endpoints) of
              Fail e _ \<Rightarrow> Err (Wrapf msg_failed_to_create_ibm_vpc_session e)
            | Reply _ \<Rightarrow> Ok ()))))"

text \<open>A service of its own URL, if the flag names one.\<close>

definition service_url :: "string \<Rightarrow> ServiceEndpoint list \<Rightarrow> string option" where
  "service_url svc endpoints = (let u = FetchEndpoints svc endpoints in if u \<noteq> [] then Some u else None)"

definition NewClusterScopeV2 :: "vcluster_util \<Rightarrow> ServiceEndpoint list \<Rightarrow> bool \<Rightarrow> bool \<Rightarrow> IBMVPCCluster option \<Rightarrow> unit outcome" where
  "NewClusterScopeV2 W endpoints has_client has_cluster vc =
     (if \<not> has_client then Err (Errorf msg_error_failed_to_generate_new_scope_from_nil_client)
      else if \<not> has_cluster then Err (Errorf msg_error_failed_to_generate_new_scope_from_nil_cluster)
      else (case vc of
          None \<Rightarrow> Err (Errorf msg_error_failed_to_generate_new_scope_from_nil_ibmvpccluster)
        | Some c \<Rightarrow> (case vcu_NewHelper W c of
            Fail e _ \<Rightarrow> Err (Wrapf msg_error_failed_to_init_patch_helper e)
          | Reply _ \<Rightarrow> (case vcu_NewVPCService W (FetchVPCEndpoint (VSpec_Region (VCluster_Spec c)) endpoints) of
              Fail e _ \<Rightarrow> Err (Wrapf msg_error_failed_to_create_ibm_vpc_client e)
            | Reply _ \<Rightarrow>
                if VSpec_Network (VCluster_Spec c) = None \<or> VSpec_Region (VCluster_Spec c) = []
                then Err (Errorf msg_error_failed_to_generate_vpc_client_as_network_or_region_is_nil)
                else (case vcu_GetAuthenticator W of
                    Fail e _ \<Rightarrow> Err (Wrapf msg_error_failed_to_create_authenticator e)
                  | Reply _ \<Rightarrow> (case vcu_NewTagging W (service_url svc_GlobalTagging endpoints) of
                      Fail e _ \<Rightarrow> Err (Wrapf msg_failed_to_create_global_tagging_client e)
                    | Reply _ \<Rightarrow> (case vcu_NewResourceController W (service_url svc_RC endpoints) of
                        Fail e _ \<Rightarrow> Err (Wrapf msg_failed_to_create_resource_controller_client e)
                      | Reply _ \<Rightarrow> (case vcu_NewResourceManager W (service_url svc_RM endpoints) of
                          Fail e _ \<Rightarrow> Err (Wrapf msg_failed_to_create_resource_manager_client e)
                        | Reply _ \<Rightarrow> Ok ()))))))))"

section \<open>The patch\<close>

definition IBMVPCClusterReadyV1Beta2Condition :: string where "IBMVPCClusterReadyV1Beta2Condition = ''Ready''"
definition IBMVPCClusterReadyUnknownV1Beta2Reason :: string where "IBMVPCClusterReadyUnknownV1Beta2Reason = ''ReadyUnknown''"
definition PausedV1Beta2Condition :: string where "PausedV1Beta2Condition = ''Paused''"

definition vpc_summarised :: "string list" where
  "vpc_summarised = map part_condition_v1beta2 [PartVPC, PartSubnets, PartBalancers]"

definition vpc_optional :: "string list" where
  "vpc_optional = map part_condition_v1beta2 [PartGroups, PartImage]"

definition vpc_owned :: "string list" where
  "vpc_owned = IBMVPCClusterReadyV1Beta2Condition # PausedV1Beta2Condition #
     map part_condition_v1beta2 [PartVPC, PartSubnets, PartGroups, PartBalancers, PartImage]"

definition patchIBMVPCCluster :: "vcluster_util \<Rightarrow> IBMVPCCluster \<Rightarrow> IBMVPCCluster \<Rightarrow> unit outcome \<times> IBMVPCCluster" where
  "patchIBMVPCCluster W before c =
     (case vcu_SetSummary W (vpc_GetV1Beta2Conditions c) IBMVPCClusterReadyV1Beta2Condition vpc_summarised vpc_optional
             (NotReadyReason, IBMVPCClusterReadyUnknownV1Beta2Reason, ReadyReason) of
        Fail e _ \<Rightarrow> (Err (Wrapf msg_failed_to_set_ready_condition e), c)
      | Reply cs \<Rightarrow>
          (let c' = vpc_SetV1Beta2Conditions c cs
           in case vcu_Patch W vpc_owned before c' of Fail e _ \<Rightarrow> (Err e, c') | Reply _ \<Rightarrow> (Ok (), c')))"

text \<open>The deferred patch, also when the handler panics; its error is added to the one returned.\<close>

definition vcluster_deferred_patch :: "vcluster_util \<Rightarrow> IBMVPCCluster \<Rightarrow> Result outcome \<Rightarrow> IBMVPCCluster \<Rightarrow> Result outcome \<times> IBMVPCCluster" where
  "vcluster_deferred_patch W before r c =
     (case patchIBMVPCCluster W before c of
        (Ok _, c') \<Rightarrow> (r, c')
      | (Err e, c') \<Rightarrow> (case r of Err e0 \<Rightarrow> Err (AggregateErr [e0, e]) | Ok _ \<Rightarrow> Err (AggregateErr [e]) | Panic \<Rightarrow> Panic, c')
      | (Panic, c') \<Rightarrow> (Panic, c'))"

section \<open>Reconcile\<close>

text \<open>
  From the scope on: the handler \<open>onLive\<close> or, for an object that is being deleted, \<open>onDeleted\<close>, and the patch. The
  result comes with the object as it was patched, if it was; \<open>None\<close> if the reconcile does not return.
\<close>

definition vcluster_scoped ::
  "vcluster_util \<Rightarrow> unit outcome \<Rightarrow> (gerror \<Rightarrow> gerror) \<Rightarrow> Result vpproc \<Rightarrow> Result vpproc \<Rightarrow> vhistory \<Rightarrow> IBMVPCCluster \<Rightarrow> string \<times> int \<Rightarrow>
     (Result outcome \<times> IBMVPCCluster option) option" where
  "vcluster_scoped W made wrap onLive onDeleted h c owner =
     (case made of
        Err e \<Rightarrow> Some (Err (Wrapf msg_failed_to_create_scope e), None)
      | Panic \<Rightarrow> Some (Panic, None)
      | Ok _ \<Rightarrow> (case vcu_NewHelper W c of
          Fail e _ \<Rightarrow> Some (Err (wrap e), None)
        | Reply _ \<Rightarrow>
            (let s = \<lparr>vtrace = h, v_cluster = c, v_Name = fst owner, v_APIServerPort = snd owner\<rparr>
             in map_option (\<lambda>(r, t). case vcluster_deferred_patch W c r (v_cluster t) of (r', c') \<Rightarrow> (r', Some c'))
                  (if VCluster_Deleting c then onDeleted s else onLive s))))"

definition reconcileV2 ::
  "capi \<Rightarrow> (string list \<Rightarrow> string \<Rightarrow> string list \<times> bool) \<Rightarrow> vcluster_util \<Rightarrow> vpc_clients \<Rightarrow> ServiceEndpoint list \<Rightarrow> vhistory \<Rightarrow>
     (Result outcome \<times> IBMVPCCluster option) option" where
  "reconcileV2 K A W C endpoints h =
     (case vcu_Get W 1 of
        Fail (NotFoundErr _) _ \<Rightarrow> Some (Ok finished, None)
      | Fail e _ \<Rightarrow> Some (Err e, None)
      | Reply c \<Rightarrow>
         (case vcu_EnsureFinalizer W c of
            Fail e _ \<Rightarrow> Some (Err e, None)
          | Reply True \<Rightarrow> Some (Ok finished, None)
          | Reply False \<Rightarrow>
             (case vcu_GetOwnerCluster W c of
                Fail e _ \<Rightarrow> Some (Err e, None)
              | Reply None \<Rightarrow> Some (Ok finished, None)
              | Reply (Some owner) \<Rightarrow>
                 (case vcu_EnsurePaused W c of
                    Fail e _ \<Rightarrow> Some (Err e, None)
                  | Reply (isPaused, requeue) \<Rightarrow>
                      if isPaused \<or> requeue then Some (Ok finished, None)
                      else vcluster_scoped W (NewClusterScopeV2 W endpoints True True (Some c)) id
                             (lift (reconcileCluster K A C)) (lift (reconcileDeleteV2 K)) h c owner))))"

definition vcluster_Reconcile ::
  "capi \<Rightarrow> (string list \<Rightarrow> string \<Rightarrow> string list \<times> bool) \<Rightarrow> vcluster_util \<Rightarrow> vpc_clients \<Rightarrow> ServiceEndpoint list \<Rightarrow> vhistory \<Rightarrow>
     (Result outcome \<times> IBMVPCCluster option) option" where
  "vcluster_Reconcile K A W C endpoints h =
     (case vcu_Get W 0 of
        Fail (NotFoundErr _) _ \<Rightarrow> Some (Ok finished, None)
      | Fail e _ \<Rightarrow> Some (Err e, None)
      | Reply c \<Rightarrow>
          if VSpec_Network (VCluster_Spec c) \<noteq> None then reconcileV2 K A W C endpoints h
          else
           (case vcu_GetOwnerCluster W c of
              Fail e _ \<Rightarrow> Some (Err e, None)
            | Reply None \<Rightarrow> Some (Ok finished, None)
            | Reply (Some owner) \<Rightarrow>
               (case vcu_EnsureFinalizer W c of
                  Fail e _ \<Rightarrow> Some (Err e, None)
                | Reply True \<Rightarrow> Some (Ok finished, None)
                | Reply False \<Rightarrow>
                   (case vcu_EnsurePaused W c of
                      Fail e _ \<Rightarrow> Some (Err e, None)
                    | Reply (isPaused, requeue) \<Rightarrow>
                        if isPaused \<or> requeue then Some (Ok finished, None)
                        else vcluster_scoped W (NewClusterScope W endpoints True (Some c)) (Wrapf msg_failed_to_initialize_patch_helper)
                               (classic_reconcile K A C) (classic_reconcileDelete K C) h c owner))))"

end
