(* ===== verification/Ibmvpc_Classic_Properties.thy ===== *)
theory Ibmvpc_Classic_Properties
  imports Ibmvpc_Classic_Controller Ibmvpc_Example Ibmvpc_Frames
begin

text \<open>
  Properties of VPC clusters without a network spec: what the deletion of one deletes and in which order, and
  what it leaves behind when the load balancer was never made.
\<close>

section \<open>Deleting calls\<close>

definition is_classic_deletion :: "vcall \<Rightarrow> bool" where
  "is_classic_deletion c = (case c of
      VPCS (VDeleteVPC _) \<Rightarrow> True
    | VNET (VDeleteSubnet _) \<Rightarrow> True | VNET (VUnsetSubnetGateway _) \<Rightarrow> True | VNET (VDeleteGateway _) \<Rightarrow> True
    | VLB (VDeleteLoadBalancer _) \<Rightarrow> True
    | _ \<Rightarrow> False)"

text \<open>The IDs the status records: VPC, subnet and load balancer.\<close>

definition classic_ids :: "vscope \<Rightarrow> string \<times> string option \<times> string" where
  "classic_ids s = (VPCStatusRef_ID (VStatus_VPC (v_status s)), SubnetSpec_ID (VStatus_Subnet (v_status s)), classic_GetLoadBalancerID s)"

text \<open>What the steps may call: only reads, reads and the subnet with its gateway, reads and the load balancer.\<close>

definition reads :: "vcall \<Rightarrow> bool" where
  "reads c \<longleftrightarrow> \<not> is_classic_deletion c"

definition subnet_calls :: "string \<times> string option \<times> string \<Rightarrow> vcall \<Rightarrow> bool" where
  "subnet_calls ids c \<longleftrightarrow> reads c \<or> (case c of
      VNET (VDeleteSubnet i) \<Rightarrow> fst (snd ids) = Some i
    | VNET (VUnsetSubnetGateway i) \<Rightarrow> fst (snd ids) = Some i
    | VNET (VDeleteGateway _) \<Rightarrow> fst (snd ids) \<noteq> None
    | _ \<Rightarrow> False)"

definition balancer_calls :: "string \<times> string option \<times> string \<Rightarrow> vcall \<Rightarrow> bool" where
  "balancer_calls ids c \<longleftrightarrow> reads c \<or> (snd (snd ids) \<noteq> [] \<and> c = VLB (VDeleteLoadBalancer (snd (snd ids))))"

section \<open>Steps\<close>

text \<open>A step that makes only some calls and leaves the recorded IDs and the finalizers alone.\<close>

definition tidy :: "(vcall \<Rightarrow> bool) \<Rightarrow> vscope \<Rightarrow> vscope \<Rightarrow> bool" where
  "tidy A s t \<longleftrightarrow> vcalls_in A s t \<and> classic_ids t = classic_ids s \<and>
     VCluster_Finalizers (v_cluster t) = VCluster_Finalizers (v_cluster s)"

interpretation tidy: frame "tidy A" for A
  by unfold_locales (auto simp: tidy_def vcalls.R_refl intro: vcalls.R_trans)

lemma tidy_api: "A c \<Longrightarrow> state_io_rel (tidy A) (vapi f c)"
  by (auto simp: state_io_rel_def tidy_def vcalls_in_def classic_ids_def classic_GetLoadBalancerID_def)

lemma tidy_mono: "tidy A s t \<Longrightarrow> (\<And>c. A c \<Longrightarrow> B c) \<Longrightarrow> tidy B s t"
  by (fastforce simp: tidy_def vcalls_in_def list_all_iff)

lemma reads_simps [simp]:
  "reads (VPCS (VListVpcs x))" "reads (VNET (VListSubnets x))" "reads (VLB (VListLoadBalancers x))" "reads (VSI c)"
  "reads (VNET (VGetSubnetGateway x))" "\<not> reads (VPCS (VDeleteVPC x))" "\<not> reads (VLB (VDeleteLoadBalancer x))"
  "\<not> reads (VNET (VDeleteSubnet x))" "\<not> reads (VNET (VUnsetSubnetGateway x))" "\<not> reads (VNET (VDeleteGateway x))"
  by (simp_all add: reads_def is_classic_deletion_def)

lemma tidy_lookup:
  assumes "\<And>start. state_io_rel (tidy A) (list start)"
  shows "may (tidy A) (vlookup U list wrap nilText nm pick name)"
  using tidy.frame_axioms assms by (rule vlookup_may)

lemma tidy_balancer_by_name: "may (tidy reads) (classic_GetLoadBalancerByHostname C h)"
  unfolding classic_GetLoadBalancerByHostname_def by (intro tidy_lookup tidy_api) simp

lemma put_conditions_status [simp]:
  "VStatus_VPC (VCluster_Status (put_conditions K ds cs c)) = VStatus_VPC (VCluster_Status c)"
  "VStatus_Subnet (VCluster_Status (put_conditions K ds cs c)) = VStatus_Subnet (VCluster_Status c)"
  "VStatus_VPCEndpoint (VCluster_Status (put_conditions K ds cs c)) = VStatus_VPCEndpoint (VCluster_Status c)"
  "VStatus_ControlPlaneLoadBalancerState (VCluster_Status (put_conditions K ds cs c)) = VStatus_ControlPlaneLoadBalancerState (VCluster_Status c)"
  "VCluster_Finalizers (put_conditions K ds cs c) = VCluster_Finalizers c"
  by (simp_all add: put_conditions_def Let_def vpc_SetConditions_def vpc_SetV1Beta2Conditions_def)

lemma tidy_mark: "state_io_rel (tidy A) (mark_part_deleting K p)"
  unfolding mark_part_deleting_def upd_vcluster_def
  by (rule tidy.fr_modify) (simp add: tidy_def vcalls_in_def classic_ids_def classic_GetLoadBalancerID_def)

lemma tidy_SetLoadBalancerState: "state_io_rel (tidy A) (SetLoadBalancerState x)"
  unfolding SetLoadBalancerState_def upd_vstatus_def upd_vcluster_def
  by (rule tidy.fr_modify) (simp add: tidy_def vcalls_in_def classic_ids_def classic_GetLoadBalancerID_def)

lemma tidy_DeleteSubnet: "pw True (classic_DeleteSubnet C) (\<lambda>_ t. tidy (subnet_calls (classic_ids s)) s t) s"
proof (cases "SubnetSpec_ID (VStatus_Subnet (v_status s))")
  case None
  then show ?thesis
    by (simp add: classic_DeleteSubnet_def pw_with wp_get pw_lift wp_return tidy.R_refl)
next
  case (Some i)
  let ?A = "subnet_calls (classic_ids s)"
  have calls: "?A (VNET (VDeleteSubnet i))" "?A (VNET (VUnsetSubnetGateway i))" "?A (VNET (VDeleteGateway j))" "?A (VNET (VGetSubnetGateway i))"
      "?A (VNET (VListSubnets x))" for j x
    using Some by (simp_all add: subnet_calls_def classic_ids_def)
  have "state_io_rel (tidy ?A) (remove_subnet C i)"
    unfolding remove_subnet_def detachPublicGateway_def done_unless_def by (intro tidy.fr_rules tidy_api calls)
  then have "may (tidy ?A) (bindP (subnet_listed C i) (\<lambda>found. case found of None \<Rightarrow> okP () | Some _ \<Rightarrow> lift (remove_subnet C i)))"
    unfolding subnet_listed_def by (intro tidy.may_rules tidy_lookup tidy_api calls tidy.fr_return)
  from may_pw [OF this] Some show ?thesis
    by (simp add: classic_DeleteSubnet_def pw_with wp_get)
qed

text \<open>Of the load balancer it is known too that nothing was deleted if it was not listed.\<close>

definition listed_only :: "(vcall \<Rightarrow> bool) \<Rightarrow> vscope \<times> bool \<Rightarrow> vscope \<times> bool \<Rightarrow> bool" where
  "listed_only A p q \<longleftrightarrow> tidy A (fst p) (fst q) \<and> (\<not> snd q \<longrightarrow> \<not> snd p \<and> tidy reads (fst p) (fst q))"

interpretation listed_only: frame "listed_only A" for A
  by unfold_locales (auto simp: listed_only_def tidy.R_refl intro: tidy.R_trans)

lemma listed_only_read: "A c \<Longrightarrow> reads c \<Longrightarrow> state_io_rel (listed_only A) (on_scope (vapi f c))"
  using tidy_api [of A c f] tidy_api [of reads c f] by (auto simp: state_io_rel_def listed_only_def)

lemma listed_only_delete:
  assumes "A (VLB (VDeleteLoadBalancer i))"
  shows "state_io_rel (listed_only A) (delete_listed C i lb)"
proof -
  have call: "tidy A s (s\<lparr>vtrace := vtrace s @ [VLB (VDeleteLoadBalancer i)]\<rparr>)" for s
    using assms by (simp add: tidy_def vcalls_in_def classic_ids_def classic_GetLoadBalancerID_def)
  have "wp (delete_listed C i lb) (\<lambda>_ q. listed_only A (s, v) q) (s, v)" for s v
    by (simp add: delete_listed_def done_unless_def assign_def wp_simps wp_def [of "on_scope m" for m] listed_only_def tidy.R_refl call)
  then show ?thesis
    by (auto simp: state_io_rel_def wp_def case_prod_beta)
qed

lemma tidy_DeleteLoadBalancer:
  "pw True (classic_DeleteLoadBalancer C) (\<lambda>r t. tidy (balancer_calls (classic_ids s)) s t \<and> (r = Ok False \<longrightarrow> tidy reads s t)) s"
proof (cases "classic_GetLoadBalancerID s = []")
  case True
  then show ?thesis
    by (simp add: classic_DeleteLoadBalancer_def pw_def tidy.R_refl)
next
  case False
  let ?A = "balancer_calls (classic_ids s)" and ?i = "classic_GetLoadBalancerID s"
  have "state_io_rel (listed_only ?A) (delete_lb_page C ?i start)" for start
    unfolding delete_lb_page_def next_vpage_def using False
    by (intro listed_only.fr_rules listed_only_read listed_only_delete) (simp_all add: balancer_calls_def classic_ids_def)
  then have page: "listed_only ?A (s, False) q" if "PagingHelper (url_start C) (delete_lb_page C ?i) (s, False) = Some (r, q)" for r q
    using that listed_only.R_trans unfolding PagingHelper_def by (rule paging_loop_frame)
  show ?thesis
    using False page by (fastforce simp: classic_DeleteLoadBalancer_def pw_def listed_only_def split: option.splits prod.splits outcome.splits)
qed

section \<open>A deletion\<close>

text \<open>
  How a deletion that starts in \<open>s\<close> ends: it made reads and deleted the load balancer, or reads and deletions of
  the subnet with, at the end, the VPC; the finalizers changed only if it returned without error and requeue.
\<close>

definition ended :: "vscope \<Rightarrow> Result outcome \<Rightarrow> vscope \<Rightarrow> bool" where
  "ended s r t \<longleftrightarrow> (\<exists>cs ds. vtrace t = vtrace s @ cs @ ds \<and>
       (list_all (balancer_calls (classic_ids s)) cs \<and> ds = [] \<or>
        list_all (subnet_calls (classic_ids s)) cs \<and> (ds = [] \<or> fst (classic_ids s) \<noteq> [] \<and> ds = [VPCS (VDeleteVPC (fst (classic_ids s)))]))) \<and>
     (VCluster_Finalizers (v_cluster t) \<noteq> VCluster_Finalizers (v_cluster s) \<longrightarrow> r = Ok finished)"

lemma tidy_ended:
  assumes "tidy (balancer_calls (classic_ids s)) s t \<or> tidy (subnet_calls (classic_ids s)) s t"
  shows "ended s r t"
proof -
  obtain cs where "vtrace t = vtrace s @ cs @ []" "list_all (balancer_calls (classic_ids s)) cs \<or> list_all (subnet_calls (classic_ids s)) cs"
    using assms by (auto simp: tidy_def vcalls_in_def)
  then show ?thesis
    using assms unfolding ended_def tidy_def by blast
qed

lemma reads_allowed: "reads c \<Longrightarrow> balancer_calls ids c" "reads c \<Longrightarrow> subnet_calls ids c"
  by (simp_all add: balancer_calls_def subnet_calls_def)

lemma list_all_reads:
  "list_all reads cs \<Longrightarrow> list_all (balancer_calls ids) cs" "list_all reads cs \<Longrightarrow> list_all (subnet_calls ids) cs"
  by (auto simp: list_all_iff reads_allowed)

lemma ended_after:
  assumes "tidy reads s u" "ended u r t"
  shows "ended s r t"
proof -
  obtain as where as: "vtrace u = vtrace s @ as" "list_all reads as"
    using assms(1) by (auto simp: tidy_def vcalls_in_def)
  have same: "classic_ids u = classic_ids s" "VCluster_Finalizers (v_cluster u) = VCluster_Finalizers (v_cluster s)"
    using assms(1) by (simp_all add: tidy_def)
  obtain cs ds where cs: "vtrace t = vtrace u @ cs @ ds"
      "list_all (balancer_calls (classic_ids s)) cs \<and> ds = [] \<or>
       list_all (subnet_calls (classic_ids s)) cs \<and> (ds = [] \<or> fst (classic_ids s) \<noteq> [] \<and> ds = [VPCS (VDeleteVPC (fst (classic_ids s)))])"
    using assms(2) unfolding ended_def same by blast
  then have "vtrace t = vtrace s @ (as @ cs) @ ds"
      "list_all (balancer_calls (classic_ids s)) (as @ cs) \<and> ds = [] \<or>
       list_all (subnet_calls (classic_ids s)) (as @ cs) \<and> (ds = [] \<or> fst (classic_ids s) \<noteq> [] \<and> ds = [VPCS (VDeleteVPC (fst (classic_ids s)))])"
    using as list_all_reads [OF as(2)] by auto
  then show ?thesis
    using assms(2) unfolding ended_def same by blast
qed

lemma handleFinalizerRemoval_ended: "tidy reads s u \<Longrightarrow> pw True (lift (handleFinalizerRemoval K)) (ended s) u"
  using tidy_ended [of s u "Ok finished"]
  by (auto simp: pw_lift handleFinalizerRemoval_def wp_simps ended_def intro: tidy_mono reads_allowed)

text \<open>The first steps of a deletion only read.\<close>

lemma ended_step:
  assumes "may (tidy reads) m" and "tidy reads s u"
    and "\<And>x t. tidy reads s t \<Longrightarrow> pw True (k x) (ended s) t"
  shows "pw True (bindPW msg m k) (ended s) u"
proof -
  have "pw True m (\<lambda>_ t. tidy reads s t) u"
    by (rule pw_mono [OF may_pw [OF assms(1)]]) (rule tidy.R_trans [OF assms(2)])
  then show ?thesis
    unfolding pw_attempt by (rule pw_mono) (simp add: assms(3) pw_lift wp_return tidy_ended tidy_mono reads_allowed)
qed

lemma ended_with:
  assumes "state_io_rel (tidy reads) m" and "tidy reads s u" and "\<And>x t. tidy reads s t \<Longrightarrow> pw True (k x) (ended s) t"
  shows "pw True (withP m k) (ended s) u"
  unfolding pw_with by (rule wp_mono [OF tidy.wp_frame [OF assms(1)]]) (simp add: assms(3) tidy.R_trans [OF assms(2)])

lemma ended_read: "tidy reads s t \<Longrightarrow> pw True (okP x) (ended s) t" "tidy reads s t \<Longrightarrow> pw True (failP e) (ended s) t"
    "tidy reads s t \<Longrightarrow> ended s r t"
  by (simp_all add: pw_lift wp_return tidy_ended tidy_mono reads_allowed)

lemma ended_deref: "tidy reads s t \<Longrightarrow> (\<And>x. pw True (k x) (ended s) t) \<Longrightarrow> pw True (derefP p k) (ended s) t"
  by (simp add: pw_deref ended_read)

text \<open>The subnet, then the VPC.\<close>

lemma classic_DeleteVPC_ended:
  assumes "tidy (subnet_calls (classic_ids s)) s u"
  shows "wp (classic_DeleteVPC C) (\<lambda>r t. ended s (Err e) t \<and> VCluster_Finalizers (v_cluster t) = VCluster_Finalizers (v_cluster s)) u"
proof -
  obtain cs where cs: "vtrace u = vtrace s @ cs" "list_all (subnet_calls (classic_ids s)) cs"
    using assms by (auto simp: tidy_def vcalls_in_def)
  have ids: "fst (classic_ids s) = VPCStatusRef_ID (VStatus_VPC (v_status u))" and fin: "VCluster_Finalizers (v_cluster u) = VCluster_Finalizers (v_cluster s)"
    using assms by (auto simp: tidy_def classic_ids_def)
  have "ended s (Err e) u"
    using assms by (simp add: tidy_ended)
  moreover have "ended s (Err e) (u\<lparr>vtrace := vtrace u @ [VPCS (VDeleteVPC (fst (classic_ids s)))]\<rparr>)" if "fst (classic_ids s) \<noteq> []"
    using that cs fin unfolding ended_def by auto
  ultimately show ?thesis
    by (simp add: classic_DeleteVPC_def done_unless_def wp_simps Let_def fin ids)
qed

lemma ended_result: "ended s r t \<Longrightarrow> VCluster_Finalizers (v_cluster t) = VCluster_Finalizers (v_cluster s) \<Longrightarrow> ended s r' t"
  by (simp add: ended_def)

lemma delete_network_from: "pw True (delete_network K C) (ended s) s"
proof -
  let ?A = "subnet_calls (classic_ids s)"
  have mark: "pw True (withP (mark_part_deleting K p) k) Q u" if "tidy ?A s u" "\<And>t. tidy ?A s t \<Longrightarrow> pw True (k ()) Q t" for p k Q u
    unfolding pw_with by (rule wp_mono [OF tidy.wp_frame [OF tidy_mark [of ?A]]]) (simp add: that(2) tidy.R_trans [OF that(1)])
  have release: "wp (handleFinalizerRemoval K) (ended s) t" if "ended s (Err e) t" for e t
    using that by (auto simp: handleFinalizerRemoval_def wp_simps ended_def)
  have vpc: "pw True (bindPW msg (lift (classic_DeleteVPC C)) (\<lambda>_. lift (handleFinalizerRemoval K))) (ended s) u" if "tidy ?A s u" for msg u
    unfolding pw_attempt pw_lift
    by (rule wp_mono [OF classic_DeleteVPC_ended [OF that, of C "Errorf []"]]) (auto simp: wp_return intro: release ended_result)
  have subnet: "pw True (classic_DeleteSubnet C) (\<lambda>_ t. tidy ?A s t) u" if "tidy ?A s u" for u
    using tidy_DeleteSubnet [of C u] tidy.R_trans [OF that] that by (auto simp: tidy_def elim!: pw_mono)
  show ?thesis
    unfolding delete_network_def
    by (intro mark tidy.R_refl, unfold pw_attempt, rule pw_mono [OF subnet])
      (auto simp: pw_lift wp_return tidy_ended intro!: mark vpc)
qed

lemma delete_network_ended: "tidy reads s u \<Longrightarrow> pw True (delete_network K C) (ended s) u"
  by (rule pw_mono [OF delete_network_from]) (rule ended_after)

lemma delete_found_balancer_ended:
  assumes "tidy reads s u"
  shows "pw True (delete_found_balancer K C lbSpec lb) (ended s) u"
proof -
  have delete: "pw True (bindPW msg (classic_DeleteLoadBalancer C) (\<lambda>deleted. if deleted then okP requeue_minute else delete_network K C)) (ended s) v"
    if v: "tidy reads s v" for msg v
  proof -
    have "pw True (classic_DeleteLoadBalancer C) (\<lambda>r t. (\<forall>q. ended s q t) \<and> (r = Ok False \<longrightarrow> tidy reads s t)) v"
      by (rule pw_mono [OF tidy_DeleteLoadBalancer]) (use ended_after [OF v] tidy_ended tidy.R_trans [OF v] in blast)
    then show ?thesis
      unfolding pw_attempt by (rule pw_mono) (auto simp: pw_lift wp_return delete_network_ended)
  qed
  show ?thesis
    unfolding delete_found_balancer_def using assms
    by (intro ended_deref ended_with tidy_SetLoadBalancerState tidy_mark delete) (auto intro!: handleFinalizerRemoval_ended ended_with tidy_mark delete)
qed

lemma delete_balancer_ended:
  assumes "tidy reads s u"
  shows "pw True (delete_balancer K C lbSpec) (ended s) u"
  unfolding delete_balancer_def using assms
  by (intro ended_with tidy.fr_get ended_step tidy_balancer_by_name; simp split: option.split
      add: handleFinalizerRemoval_ended delete_network_ended delete_found_balancer_ended)

lemma reconcileDelete_ended: "pw True (classic_reconcileDelete K C) (ended s) s"
  unfolding classic_reconcileDelete_def
proof (rule ended_with [OF tidy.fr_get tidy.R_refl])
  fix x t assume "tidy reads s t"
  then show "pw True (withP (do_CountInstances C (VPCStatusRef_ID (VStatus_VPC (v_status x)))) (\<lambda>r. case r of
       Fail e _ \<Rightarrow> failP (Wrapf msg_error_when_listing_vsis_when_tried_to_delete_subnet e)
     | Reply vsis \<Rightarrow> derefP vsis (\<lambda>count. derefP count (\<lambda>n.
         if n \<noteq> 0 then okP requeue_minute
         else (case VSpec_ControlPlaneLoadBalancer (v_spec x) of
             None \<Rightarrow> if VSpec_EndpointHost (v_spec x) \<noteq> [] then lift (handleFinalizerRemoval K) else delete_network K C
           | Some lbSpec \<Rightarrow> delete_balancer K C lbSpec))))) (ended s) t"
    by (intro ended_with [OF tidy_api]; simp split: reply.split option.split
        add: ended_read ended_deref handleFinalizerRemoval_ended delete_network_ended delete_balancer_ended)
qed

text \<open>Without the answer that there are no instances nothing follows.\<close>

lemma reconcileDelete_instances:
  assumes "c_CountInstances C (vtrace s) (fst (classic_ids s)) \<noteq> Reply (Some (Some 0))"
  shows "pw True (classic_reconcileDelete K C) (\<lambda>_ t. vtrace t = vtrace s @ [VSI (VCountInstances (fst (classic_ids s)))]) s"
  using assms
  by (auto simp: classic_reconcileDelete_def classic_ids_def pw_simps wp_simps split: reply.split option.split)


section \<open>A deletion in one piece\<close>

text \<open>A cluster whose VPC, subnet and load balancer are recorded, and a cloud that has the subnet but no load balancer any more.\<close>

definition classic_scope :: "string \<Rightarrow> string \<Rightarrow> string option \<Rightarrow> string \<Rightarrow> string \<Rightarrow> vscope" where
  "classic_scope host vpcID subnetID lbID lbState = example_vscope []\<lparr>v_cluster := (v_cluster (example_vscope []))\<lparr>
     VCluster_Spec := (example_vpc_spec [])\<lparr>VSpec_VPC := ''vpc'', VSpec_Zone := ''us-south-1'', VSpec_EndpointHost := host, VSpec_Network := None,
       VSpec_ControlPlaneLoadBalancer := Some \<lparr>LoadBalancerSpec_Name = ''lb'', LoadBalancerSpec_ID = None, LoadBalancerSpec_Public = None,
         LoadBalancerSpec_AdditionalListeners = None, LoadBalancerSpec_BackendPools = None, LoadBalancerSpec_SecurityGroups = None,
         LoadBalancerSpec_Subnets = None\<rparr>\<rparr>,
     VCluster_Status := example_vpc_status\<lparr>VStatus_VPC := \<lparr>VPCStatusRef_ID = vpcID, VPCStatusRef_Name = ''vpc''\<rparr>,
       VStatus_Subnet := \<lparr>SubnetSpec_Ipv4CidrBlock = None, SubnetSpec_Name = None, SubnetSpec_ID = subnetID, SubnetSpec_Zone = None\<rparr>,
       VStatus_VPCEndpoint := \<lparr>VPCEndpoint_Address = None, VPCEndpoint_FIPID = None, VPCEndpoint_LBID = Some lbID\<rparr>,
       VStatus_ControlPlaneLoadBalancerState := lbState\<rparr>\<rparr>\<rparr>"

definition page_of :: "'a list \<Rightarrow> 'a vpage option reply" where
  "page_of xs = Reply (Some \<lparr>vpage_items = xs, vpage_next = None\<rparr>)"

definition classic_cloud :: vpc_clients where
  "classic_cloud = example_vpc_cloud\<lparr>c_CountInstances := \<lambda>_ _. Reply (Some (Some 0)), c_ListLoadBalancers := \<lambda>_ _. page_of [],
     c_ListVpcs := \<lambda>_ _. page_of [], c_ListSubnets := \<lambda>h _. page_of (if VPCS (VDeleteVPC ''vpc'') \<in> set h then [] else [example_subnet ''c-subnet'']),
     c_GetSubnetGateway := \<lambda>_ _. Reply (Some \<lparr>cgw_ID = Some ''gw'', cgw_Name = None, cgw_CRN = None\<rparr>)\<rparr>"

declare paging_loop.simps [code]


section \<open>A cluster without a load balancer\<close>

text \<open>Whether a call made a VPC or a subnet.\<close>

definition is_classic_creation :: "vcall \<Rightarrow> bool" where
  "is_classic_creation c = (case c of VPCS (VCreateVPC _) \<Rightarrow> True | VNET (VCreateSubnet _) \<Rightarrow> True | _ \<Rightarrow> False)"

text \<open>A step that leaves the endpoint, the load balancer of the spec and its state alone.\<close>

definition balancer_view :: "vscope \<Rightarrow> string \<times> LoadBalancerSpec option \<times> VPCLoadBalancerState" where
  "balancer_view s = (VSpec_EndpointHost (v_spec s), VSpec_ControlPlaneLoadBalancer (v_spec s), GetLoadBalancerState s)"

lemma view_api: "state_io_rel (keeps balancer_view) (vapi f c)"
  by (simp add: state_io_rel_def keeps_def balancer_view_def GetLoadBalancerState_def)

lemma view_lookup: "may (keeps balancer_view) (vlookup U (\<lambda>start. vapi (f start) (c start)) wrap nilText nm pick name)"
  by (intro vlookup_may keeps.frame_axioms view_api)

lemma view_marks:
  "state_io_rel (keeps balancer_view) (mark_part_failed K p e)" "state_io_rel (keeps balancer_view) (mark_part_ready K p)"
  unfolding mark_part_failed_def mark_part_ready_def upd_vcluster_def
  by (intro keeps.fr_modify; simp add: keeps_def balancer_view_def GetLoadBalancerState_def)+

lemma view_status:
  assumes "\<And>st. VStatus_ControlPlaneLoadBalancerState (f st) = VStatus_ControlPlaneLoadBalancerState st"
  shows "state_io_rel (keeps balancer_view) (upd_vstatus f)"
  unfolding upd_vstatus_def upd_vcluster_def
  by (rule keeps.fr_modify) (simp add: keeps_def balancer_view_def GetLoadBalancerState_def assms)

lemma view_vpc: "may (keeps balancer_view) (classic_vpc K C)"
  unfolding classic_vpc_def classic_CreateVPC_def ensureVPCUnique_def make_vpc_def updateDefaultSG_def done_unless_def record_vpc_def
  by (intro keeps.may_rules keeps.fr_rules view_lookup view_api view_marks view_status) simp

lemma view_subnet: "may (keeps balancer_view) (classic_subnet K C)"
  unfolding classic_subnet_def classic_CreateSubnet_def ensureSubnetUnique_def getSubnetAddrPrefix_def make_subnet_def createPublicGateWay_def
    attachPublicGateWay_def done_unless_def record_vpc_subnet_def Let_def
  by (intro keeps.may_rules keeps.fr_rules view_lookup view_api view_marks view_status) simp

text \<open>Up to the load balancer an error comes with the view as it was.\<close>

definition kept_on_error :: "vscope \<Rightarrow> 'a outcome \<Rightarrow> vscope \<Rightarrow> bool" where
  "kept_on_error s r t \<longleftrightarrow> (\<forall>e. r = Err e \<longrightarrow> balancer_view t = balancer_view s)"

lemma record_balancer_no_error: "wp (record_balancer K lb) (\<lambda>r t. \<forall>e. r \<noteq> Err e) s"
  unfolding record_balancer_def reconcileLBState_def follow_lb_state_def Let_def by (intro we_rules; simp)

lemma view_balancer: "pw True (classic_balancer K C) (kept_on_error s) s"
proof -
  have make: "may (keeps balancer_view) (getOrCreate C)"
    unfolding getOrCreate_def classic_CreateLoadBalancer_def ensureLoadBalancerUnique_def make_balancer_def Let_def
    by (intro keeps.may_rules keeps.fr_rules view_lookup view_api)
  have "pw True (bindPW msg (getOrCreate C) (\<lambda>x. case x of None \<Rightarrow> okP () | Some lb \<Rightarrow> lift (record_balancer K lb))) (kept_on_error s) s" for msg
    unfolding pw_attempt
    by (rule pw_mono [OF may_pw [OF make]])
      (auto simp: keeps_def kept_on_error_def pw_lift wp_return split: option.split intro!: wp_mono [OF record_balancer_no_error])
  then show ?thesis
    by (simp add: classic_balancer_def pw_with wp_get pw_lift wp_return kept_on_error_def)
qed

lemma view_kept: "may (keeps balancer_view) m \<Longrightarrow> balancer_view u = balancer_view s \<Longrightarrow>
    (\<And>x t. balancer_view t = balancer_view s \<Longrightarrow> pw True (k x) (kept_on_error s) t) \<Longrightarrow> pw True (bindP m k) (kept_on_error s) u"
  unfolding pw_attempt
  by (erule pw_mono [OF may_pw]) (simp add: keeps_def pw_lift wp_return kept_on_error_def)

lemma pw_attempt_ok: "m s = Some (Ok x, t) \<Longrightarrow> pw d (attemptP m h k) Q s = pw d (k x) Q t"
  by (simp add: pw_def attemptP_def)

lemma reconcile_without_endpoint:
  assumes "VSpec_EndpointHost (v_spec s) = []"
  shows "pw True (classic_reconcile K A C) (kept_on_error s) s"
proof -
  have upd: "balancer_view (u\<lparr>v_cluster := v_cluster u\<lparr>VCluster_Finalizers := x\<rparr>\<rparr>) = balancer_view u" for u x
    by (simp add: balancer_view_def GetLoadBalancerState_def)
  have endpoint: "classic_endpoint K C u = Some (Ok (), u)" if "balancer_view u = balancer_view s" for u
    using that assms by (simp add: classic_endpoint_def balancer_view_def withP_def lift_def)
  have balancer: "pw True (bindP (classic_balancer K C) (\<lambda>_. withP State_Monad.get (\<lambda>t. okP (if classic_IsReady t then finished else requeue_minute))))
      (kept_on_error s) u" if "balancer_view u = balancer_view s" for u
    unfolding pw_attempt
    by (rule pw_mono [OF view_balancer]) (use that in \<open>simp add: kept_on_error_def pw_with pw_lift wp_get wp_return\<close>)
  have rest: "pw True (bindP (classic_endpoint K C) (\<lambda>_. bindP (classic_vpc K C) (\<lambda>_. bindP (classic_subnet K C) (\<lambda>_. bindP (classic_balancer K C) (\<lambda>_.
      withP State_Monad.get (\<lambda>t. okP (if classic_IsReady t then finished else requeue_minute))))))) (kept_on_error s) u"
    if "balancer_view u = balancer_view s" for u
    unfolding pw_attempt_ok [of "classic_endpoint K C", OF endpoint [OF that]]
    by (intro view_kept [OF view_vpc] view_kept [OF view_subnet] balancer that)
  have finished: "pw True (okP finished) (kept_on_error s) u" for u
    by (simp add: pw_lift wp_return kept_on_error_def)
  show ?thesis
    unfolding classic_reconcile_def Let_def pw_with wp_get pw_if wp_upd_vcluster
    by (intro conjI impI finished rest upd)
qed

text \<open>Looking for a load balancer without a host name among those that have one.\<close>

lemma none_named: "list_all (\<lambda>lb. \<exists>n. lb_Hostname lb = Some n \<and> n \<noteq> []) lbs \<Longrightarrow> first_named lb_Hostname [] lbs = Ok None"
  by (induction lbs) auto

lemma no_balancer_found:
  assumes "c_ListLoadBalancers D (vtrace s) [] = page_of lbs" "list_all (\<lambda>lb. \<exists>n. lb_Hostname lb = Some n \<and> n \<noteq> []) lbs"
  shows "classic_GetLoadBalancerByHostname D [] s = Some (Ok None, s\<lparr>vtrace := vtrace s @ [VLB (VListLoadBalancers [])]\<rparr>)"
  using assms none_named [OF assms(2)]
  by (simp add: classic_GetLoadBalancerByHostname_def vlookup_def PagingHelper_def paging_loop.simps vlookup_page_def page_of_def next_vpage_def)

text \<open>
  C33: A cluster whose load balancer could not be made leaves its VPC and subnet behind: when a reconcile of a
  cluster without an endpoint failed, the deletion that follows finds no load balancer of the empty host name, takes
  the infrastructure for deleted and removes the finalizer, with no deleting call at all.
\<close>

theorem unbalanced_cluster_lost:
  assumes "classic_reconcile K A C s = Some (Err e, t)"
    and "VSpec_EndpointHost (v_spec s) = []" "VSpec_ControlPlaneLoadBalancer (v_spec s) \<noteq> None"
      "GetLoadBalancerState s \<noteq> VPCLoadBalancerStateDeletePending"
    and "\<And>h i. c_CountInstances D h i = Reply (Some (Some 0))"
    and "\<And>h. \<exists>lbs. c_ListLoadBalancers D h [] = page_of lbs \<and> list_all (\<lambda>lb. \<exists>n. lb_Hostname lb = Some n \<and> n \<noteq> []) lbs"
  shows "\<exists>u. classic_reconcileDelete K D t = Some (Ok finished, u) \<and>
     VCluster_Finalizers (v_cluster u) = RemoveFinalizer K (VCluster_Finalizers (v_cluster t)) ClusterFinalizer \<and>
     (\<nexists>c. c \<in> set (vcalls t u) \<and> is_classic_deletion c)"
proof -
  have view: "balancer_view t = balancer_view s"
    using pwD [OF reconcile_without_endpoint [OF assms(2)] assms(1)] by (simp add: kept_on_error_def)
  then obtain lb where t: "VSpec_EndpointHost (v_spec t) = []" "VSpec_ControlPlaneLoadBalancer (v_spec t) = Some lb"
      "GetLoadBalancerState t \<noteq> VPCLoadBalancerStateDeletePending"
    using assms(2-4) by (auto simp: balancer_view_def)
  let ?i = "VPCStatusRef_ID (VStatus_VPC (v_status t))"
  let ?t = "t\<lparr>vtrace := vtrace t @ [VSI (VCountInstances ?i)]\<rparr>"
  obtain lbs where "c_ListLoadBalancers D (vtrace ?t) [] = page_of lbs" "list_all (\<lambda>lb. \<exists>n. lb_Hostname lb = Some n \<and> n \<noteq> []) lbs"
    using assms(6) by blast
  from no_balancer_found [OF this] t show ?thesis
    by (simp add: classic_reconcileDelete_def delete_balancer_def withP_def assms(5) derefP_def attemptP_def lift_def
        handleFinalizerRemoval_def upd_vcluster_def modify_def GetLoadBalancerState_def vcalls_def is_classic_deletion_def)
qed

text \<open>The cloud that takes the VPC and the subnet but no load balancer.\<close>

definition unbalanced_cloud :: vpc_clients where
  "unbalanced_cloud = classic_cloud\<lparr>c_ListSubnets := \<lambda>_ _. page_of [], c_CreateVPC := \<lambda>_ _. Reply (Some example_vpc),
     c_ListAddressPrefixes := \<lambda>_ _ _. page_of [\<lparr>prefix_CIDR = Some ''10.0.0.0/24'', prefix_Zone = Some (Some ''us-south-1'')\<rparr>],
     c_CreateSubnet := \<lambda>_ _. (Some (example_subnet ''c-subnet''), None),
     c_CreateGateway := \<lambda>_ _. Reply (Some \<lparr>cgw_ID = Some ''gw'', cgw_Name = None, cgw_CRN = None\<rparr>),
     c_CreateRule := \<lambda>_ _ _. Reply None, c_CreateLoadBalancer := \<lambda>_ _. Fail (ClientErr ''quota exceeded'') None\<rparr>"

lemma unbalanced_cluster_lost_witness:
  "\<exists>e t u. classic_reconcile example_capi (\<lambda>xs x. (xs, x \<notin> set xs)) unbalanced_cloud (classic_scope [] [] None [] []) = Some (Err e, t) \<and>
     length (filter is_classic_creation (vtrace t)) = 2 \<and>
     classic_reconcileDelete example_capi classic_cloud t = Some (Ok finished, u) \<and> (\<nexists>c. c \<in> set (vcalls t u) \<and> is_classic_deletion c)"
proof -
  let ?s = "classic_scope [] [] None [] []"
  let ?run = "classic_reconcile example_capi (\<lambda>xs x. (xs, x \<notin> set xs)) unbalanced_cloud ?s"
  have made: "(case ?run of Some (Err e, t) \<Rightarrow> length (filter is_classic_creation (vtrace t)) = 2 | _ \<Rightarrow> False)"
    by code_simp
  then obtain r t where rt: "?run = Some (r, t)"
    by (cases ?run) auto
  with made obtain e where run: "?run = Some (Err e, t)" and two: "length (filter is_classic_creation (vtrace t)) = 2"
    by (cases r) auto
  have "\<exists>u. classic_reconcileDelete example_capi classic_cloud t = Some (Ok finished, u) \<and>
      VCluster_Finalizers (v_cluster u) = RemoveFinalizer example_capi (VCluster_Finalizers (v_cluster t)) ClusterFinalizer \<and>
      (\<nexists>c. c \<in> set (vcalls t u) \<and> is_classic_deletion c)"
    by (rule unbalanced_cluster_lost [OF run])
      (simp_all add: classic_scope_def GetLoadBalancerState_def VPCLoadBalancerStateDeletePending_def classic_cloud_def page_of_def)
  then show ?thesis
    using run two by blast
qed

end
