(* ===== verification/Ibmvpc_Webhooks.thy ===== *)
theory Ibmvpc_Webhooks
  imports Ibmvpc_Types Webhooks
begin

text \<open>
  The admission webhooks of the VPC objects (\<^verbatim>\<open>internal/webhooks/vpc\<close>): what a cluster, a machine and a machine
  template have to satisfy, the default profile, and the regular expression of CRNs. \<open>Some []\<close> is admission,
  \<open>None\<close> a panic.
\<close>

section \<open>The regular expression of CRNs\<close>

text \<open>
  The expressions that the pattern is made of: a character of a class, any number of them, and an optional part.
  \<open>piece_match\<close> tries what a backtracking matcher tries; it is anchored at both ends.
\<close>

datatype piece = OneOf "char \<Rightarrow> bool" | Many "char \<Rightarrow> bool" | Maybe "piece list"

fun piece_cost :: "piece \<Rightarrow> nat" where
  "piece_cost (OneOf P) = 1"
| "piece_cost (Many P) = 1"
| "piece_cost (Maybe ps) = Suc (sum_list (map piece_cost ps))"

function piece_match :: "piece list \<Rightarrow> string \<Rightarrow> bool" where
  "piece_match [] s = (s = [])"
| "piece_match (OneOf P # ps) s = (case s of [] \<Rightarrow> False | c # cs \<Rightarrow> P c \<and> piece_match ps cs)"
| "piece_match (Many P # ps) s = (piece_match ps s \<or> (case s of [] \<Rightarrow> False | c # cs \<Rightarrow> P c \<and> piece_match (Many P # ps) cs))"
| "piece_match (Maybe qs # ps) s = (piece_match (qs @ ps) s \<or> piece_match ps s)"
  by pat_completeness auto
termination
  by (relation "measures [\<lambda>(ps, s). length s + sum_list (map piece_cost ps)]") auto

definition char_in :: "char \<Rightarrow> char \<Rightarrow> char \<Rightarrow> bool" where
  "char_in a b c \<longleftrightarrow> of_char a \<le> (of_char c :: nat) \<and> of_char c \<le> (of_char b :: nat)"

definition crn_digit :: "char \<Rightarrow> bool" where "crn_digit = char_in CHR ''0'' CHR ''9''"
definition crn_lower :: "char \<Rightarrow> bool" where "crn_lower = char_in CHR ''a'' CHR ''z''"

text \<open>\<open>[a-z0-9-]\<close> and \<open>[a-zA-Z0-9-_\.\/]\<close>.\<close>

definition crn_char :: "char \<Rightarrow> bool" where
  "crn_char c \<longleftrightarrow> crn_lower c \<or> crn_digit c \<or> c = CHR ''-''"

definition crn_resource_char :: "char \<Rightarrow> bool" where
  "crn_resource_char c \<longleftrightarrow> crn_char c \<or> char_in CHR ''A'' CHR ''Z'' c \<or> c \<in> {CHR ''_'', CHR ''.'', CHR ''/''}"

abbreviation literally :: "string \<Rightarrow> piece list" where
  "literally s \<equiv> map (\<lambda>c. OneOf (\<lambda>x. x = c)) s"

abbreviation some_of :: "(char \<Rightarrow> bool) \<Rightarrow> piece list" where
  "some_of P \<equiv> [OneOf P, Many P]"

definition crnRegex :: "piece list" where
  "crnRegex = literally ''crn:v'' @ some_of crn_digit @ literally '':'' @ some_of crn_char @ literally '':'' @ some_of crn_char @ literally '':''
     @ some_of crn_char @ literally '':'' @ [Many crn_char] @ literally '':''
     @ [Maybe (OneOf crn_lower # literally ''/'' @ some_of crn_char)] @ literally '':''
     @ [Many crn_char] @ literally '':'' @ [Many crn_char] @ literally '':'' @ [Many crn_resource_char]"

definition isValidCRN :: "string \<Rightarrow> bool" where
  "isValidCRN crn = piece_match crnRegex crn"

section \<open>Volumes\<close>

definition msg_sizegib_has_to_be_specified :: string where "msg_sizegib_has_to_be_specified = ''sizeGiB has to be specified''"
definition msg_iops_has_to_be_specified_when_profile_is_set_to_custom :: string where "msg_iops_has_to_be_specified_when_profile_is_set_to_custom = ''iops has to be specified when profile is set to custom''"
definition msg_iops_applicable_only_to_volumes_using_a_profile_of_type_custom_or_sdp :: string where "msg_iops_applicable_only_to_volumes_using_a_profile_of_type_custom_or_sdp = ''iops applicable only to volumes using a profile of type custom or sdp''"
definition msg_bandwidth_applicable_only_to_volumes_using_a_profile_of_type_sdp :: string where "msg_bandwidth_applicable_only_to_volumes_using_a_profile_of_type_sdp = ''bandwidth applicable only to volumes using a profile of type sdp''"
definition msg_encryptionkeycrn_not_in_proper_ibm_cloud_crn_format :: string where "msg_encryptionkeycrn_not_in_proper_ibm_cloud_crn_format = ''encryptionKeyCRN not in proper IBM Cloud CRN format''"
definition msg_valid_boot_vpcvolume_size :: string where "msg_valid_boot_vpcvolume_size = ''valid Boot VPCVolume size''"
definition msg_one_of_controlplaneendpoint_or_controlplaneloadbalancer_must_be_specified :: string where "msg_one_of_controlplaneendpoint_or_controlplaneloadbalancer_must_be_specified = ''One of - ControlPlaneEndpoint or ControlPlaneLoadBalancer must be specified''"

definition customProfile :: string where "customProfile = ''custom''"
definition sdpProfile :: string where "sdpProfile = ''sdp''"

definition volumeProfileSupportsIops :: "string \<Rightarrow> bool" where
  "volumeProfileSupportsIops profile \<longleftrightarrow> profile = customProfile \<or> profile = sdpProfile"

definition invalid_if :: "bool \<Rightarrow> string \<Rightarrow> string \<Rightarrow> field_error list" where
  "invalid_if b path msg = (if b then [field_Invalid path msg] else [])"

text \<open>The profile, IOPS, bandwidth and key of one additional volume.\<close>

definition additional_volume_errors :: "nat \<Rightarrow> VPCVolume \<Rightarrow> field_error list" where
  "additional_volume_errors i v =
     (let path = ''spec.AdditionalVolumes['' @ itoa i @ '']'' in
        invalid_if (Volume_SizeGiB v = 0) path msg_sizegib_has_to_be_specified
      @ invalid_if (Volume_Profile v = customProfile \<and> Volume_Iops v = 0) path msg_iops_has_to_be_specified_when_profile_is_set_to_custom
      @ invalid_if (Volume_Iops v \<noteq> 0 \<and> \<not> volumeProfileSupportsIops (Volume_Profile v)) path msg_iops_applicable_only_to_volumes_using_a_profile_of_type_custom_or_sdp
      @ invalid_if (Volume_Bandwidth v \<noteq> 0 \<and> Volume_Profile v \<noteq> sdpProfile) path msg_bandwidth_applicable_only_to_volumes_using_a_profile_of_type_sdp
      @ invalid_if (Volume_EncryptionKeyCRN v \<noteq> [] \<and> \<not> isValidCRN (Volume_EncryptionKeyCRN v)) path msg_encryptionkeycrn_not_in_proper_ibm_cloud_crn_format)"

text \<open>A nil element is dereferenced.\<close>

fun additional_volumes_errors :: "nat \<Rightarrow> VPCVolume option list \<Rightarrow> field_error list option" where
  "additional_volumes_errors i [] = Some []"
| "additional_volumes_errors i (None # vs) = None"
| "additional_volumes_errors i (Some v # vs) = map_option (\<lambda>more. additional_volume_errors i v @ more) (additional_volumes_errors (Suc i) vs)"

definition validateAdditionalVolumes :: "IBMVPCMachineSpec \<Rightarrow> field_error list option" where
  "validateAdditionalVolumes sp = additional_volumes_errors 0 (VMSpec_AdditionalVolumes sp)"

definition boot_volume_limit :: "VPCVolume \<Rightarrow> int" where
  "boot_volume_limit v = (if Volume_Profile v = sdpProfile then 32000 else 250)"

definition validateBootVolume :: "VPCVolume \<Rightarrow> field_error list" where
  "validateBootVolume v =
       invalid_if (Volume_SizeGiB v < 10 \<or> Volume_SizeGiB v > boot_volume_limit v) ''spec.bootVolume.sizeGiB'' msg_valid_boot_vpcvolume_size
     @ invalid_if (Volume_Iops v \<noteq> 0 \<and> \<not> volumeProfileSupportsIops (Volume_Profile v)) ''spec.bootVolume.iops'' msg_iops_applicable_only_to_volumes_using_a_profile_of_type_custom_or_sdp
     @ invalid_if (Volume_Bandwidth v \<noteq> 0 \<and> Volume_Profile v \<noteq> sdpProfile) ''spec.bootVolume.bandwidth'' msg_bandwidth_applicable_only_to_volumes_using_a_profile_of_type_sdp
     @ invalid_if (Volume_EncryptionKeyCRN v \<noteq> [] \<and> \<not> isValidCRN (Volume_EncryptionKeyCRN v)) ''spec.bootVolume.encryptionKeyCRN'' msg_encryptionkeycrn_not_in_proper_ibm_cloud_crn_format"

definition validateVolumes :: "IBMVPCMachineSpec \<Rightarrow> field_error list option" where
  "validateVolumes sp = map_option (\<lambda>errs. errs @ (case VMSpec_BootVolume sp of None \<Rightarrow> [] | Some v \<Rightarrow> validateBootVolume v))
     (validateAdditionalVolumes sp)"

section \<open>The webhooks\<close>

definition defaultIBMVPCMachineSpec :: "IBMVPCMachineSpec \<Rightarrow> IBMVPCMachineSpec" where
  "defaultIBMVPCMachineSpec sp = (if VMSpec_Profile sp = [] then sp\<lparr>VMSpec_Profile := ''bx2-2x8''\<rparr> else sp)"

text \<open>Machines and, with the spec in their template, machine templates; updates are not looked at.\<close>

definition validateIBMVPCMachineVolume :: "IBMVPCMachineSpec \<Rightarrow> field_error list option" where
  "validateIBMVPCMachineVolume sp = validateVolumes sp"

definition vpcmachine_Default :: "IBMVPCMachine \<Rightarrow> IBMVPCMachine" where
  "vpcmachine_Default m = m\<lparr>VMachine_Spec := defaultIBMVPCMachineSpec (VMachine_Spec m)\<rparr>"

definition vpcmachine_ValidateCreate :: "IBMVPCMachine \<Rightarrow> field_error list option" where
  "vpcmachine_ValidateCreate m = validateIBMVPCMachineVolume (VMachine_Spec m)"

definition vpcmachine_ValidateUpdate :: "IBMVPCMachine \<Rightarrow> IBMVPCMachine \<Rightarrow> field_error list option" where
  "vpcmachine_ValidateUpdate oldObj newObj = Some []"

definition vpctemplate_Default :: "IBMVPCMachineSpec \<Rightarrow> IBMVPCMachineSpec" where
  "vpctemplate_Default sp = defaultIBMVPCMachineSpec sp"

definition vpctemplate_ValidateCreate :: "IBMVPCMachineSpec \<Rightarrow> field_error list option" where
  "vpctemplate_ValidateCreate sp = validateIBMVPCMachineVolume sp"

definition validateIBMVPCClusterControlPlane :: "IBMVPCCluster \<Rightarrow> field_error option" where
  "validateIBMVPCClusterControlPlane c =
     (if VSpec_EndpointHost (VCluster_Spec c) = [] \<and> VSpec_ControlPlaneLoadBalancer (VCluster_Spec c) = None
      then Some (field_Invalid [] msg_one_of_controlplaneendpoint_or_controlplaneloadbalancer_must_be_specified) else None)"

definition validateIBMVPCCluster :: "IBMVPCCluster \<Rightarrow> field_error list" where
  "validateIBMVPCCluster c = (case validateIBMVPCClusterControlPlane c of None \<Rightarrow> [] | Some e \<Rightarrow> [e])"

definition vpccluster_ValidateCreate :: "IBMVPCCluster \<Rightarrow> field_error list" where
  "vpccluster_ValidateCreate obj = validateIBMVPCCluster obj"

definition vpccluster_ValidateUpdate :: "IBMVPCCluster \<Rightarrow> IBMVPCCluster \<Rightarrow> field_error list" where
  "vpccluster_ValidateUpdate oldObj newObj = validateIBMVPCCluster newObj"

end
