(* ===== verification/Ibmvpc_Webhook_Properties.thy ===== *)
theory Ibmvpc_Webhook_Properties
  imports Ibmvpc_Webhooks Ibmvpc_Machine_Scope Ibmvpc_Example
begin

text \<open>
  Properties of the webhooks of the VPC side, against the code that works on what they admit: the CRNs that the
  expression accepts and those that \<open>parseCRN\<close> reads, and the volumes of an admitted machine and the requests
  the scope makes for them.
\<close>

section \<open>CRNs\<close>

text \<open>The text of a CRN, its ten parts joined by colons.\<close>

definition crn_scope :: "CRN \<Rightarrow> string" where
  "crn_scope c = (if CRN_ScopeType c = [] then CRN_Scope c else CRN_ScopeType c @ CHR ''/'' # CRN_Scope c)"

definition crn_parts :: "CRN \<Rightarrow> string list" where
  "crn_parts c = [CRN_Scheme c, CRN_Version c, CRN_CName c, CRN_CType c, CRN_ServiceName c, CRN_Region c, crn_scope c,
     CRN_ServiceInstance c, CRN_ResourceType c, CRN_Resource c]"

definition crn_text :: "CRN \<Rightarrow> string" where
  "crn_text c = join CHR '':'' (crn_parts c)"

text \<open>A scope is empty, global, or a type and a name.\<close>

definition crn_wf :: "CRN \<Rightarrow> bool" where
  "crn_wf c \<longleftrightarrow> CRN_Scheme c = ''crn'' \<and> list_all (\<lambda>x. CHR '':'' \<notin> set x) (crn_parts c) \<and>
     (if CRN_ScopeType c = [] then CRN_Scope c \<in> {[], ''global''}
      else CHR ''/'' \<notin> set (CRN_ScopeType c) \<and> CHR ''/'' \<notin> set (CRN_Scope c))"

lemma parse_scope_text:
  assumes "crn_wf c"
  shows "parse_scope (crn_scope c) = Ok (CRN_ScopeType c, CRN_Scope c)"
proof (cases "CRN_ScopeType c = []")
  case True
  then show ?thesis
    using assms by (auto simp: crn_wf_def parse_scope_def crn_scope_def)
next
  case False
  have "CHR ''/'' \<in> set (crn_scope c)"
    using False by (simp add: crn_scope_def)
  then have "crn_scope c \<noteq> ''global''" "crn_scope c \<noteq> []"
    by auto
  then show ?thesis
    using assms False by (simp add: crn_wf_def parse_scope_def crn_scope_def split_on_append split_on_none)
qed

text \<open>\<open>parseCRN\<close> reads the text of a well-formed CRN back.\<close>

lemma parseCRN_text:
  assumes "crn_wf c"
  shows "parseCRN (crn_text c) = Ok (Some c)"
proof -
  have colon: "split_on CHR '':'' (crn_text c) = crn_parts c"
    unfolding crn_text_def by (rule split_join) (use assms in \<open>auto simp: crn_wf_def crn_parts_def\<close>)
  have "crn_text c \<noteq> []"
    using assms by (simp add: crn_text_def crn_parts_def crn_wf_def)
  then show ?thesis
    using assms by (simp add: parseCRN_def colon crn_parts_def parse_scope_text) (simp add: crn_wf_def)
qed

section \<open>What an expression matches\<close>

lemma match_one: "piece_match (OneOf P # ps) s \<longleftrightarrow> (\<exists>c t. s = c # t \<and> P c \<and> piece_match ps t)"
  by (cases s) auto

lemma match_many: "piece_match (Many P # ps) s \<longleftrightarrow> (\<exists>x t. s = x @ t \<and> list_all P x \<and> piece_match ps t)"
proof (induction s)
  case Nil
  then show ?case by simp
next
  case (Cons c s)
  have "(\<exists>x t. c # s = x @ t \<and> list_all P x \<and> piece_match ps t) \<longleftrightarrow>
      piece_match ps (c # s) \<or> P c \<and> (\<exists>x t. s = x @ t \<and> list_all P x \<and> piece_match ps t)"
  proof
    assume "\<exists>x t. c # s = x @ t \<and> list_all P x \<and> piece_match ps t"
    then obtain x t where x: "c # s = x @ t" "list_all P x" "piece_match ps t" by blast
    then show "piece_match ps (c # s) \<or> P c \<and> (\<exists>x t. s = x @ t \<and> list_all P x \<and> piece_match ps t)"
      by (cases x) auto
  next
    assume "piece_match ps (c # s) \<or> P c \<and> (\<exists>x t. s = x @ t \<and> list_all P x \<and> piece_match ps t)"
    then show "\<exists>x t. c # s = x @ t \<and> list_all P x \<and> piece_match ps t"
      by (metis append_Cons append_Nil list.pred_inject)
  qed
  then show ?case using Cons by simp
qed

declare piece_match.simps(2,3) [simp del]

lemma match_literally: "piece_match (literally w @ ps) s \<longleftrightarrow> (\<exists>t. s = w @ t \<and> piece_match ps t)"
  by (induction w arbitrary: s) (auto simp: match_one)

lemma match_some: "piece_match (some_of P @ ps) s \<longleftrightarrow> (\<exists>x t. s = x @ t \<and> (x \<noteq> [] \<and> list_all P x) \<and> piece_match ps t)"
proof
  assume "piece_match (some_of P @ ps) s"
  then obtain c x t where "s = (c # x) @ t" "list_all P (c # x)" "piece_match ps t"
    by (auto simp: match_one match_many)
  then show "\<exists>x t. s = x @ t \<and> (x \<noteq> [] \<and> list_all P x) \<and> piece_match ps t"
    by blast
next
  assume "\<exists>x t. s = x @ t \<and> (x \<noteq> [] \<and> list_all P x) \<and> piece_match ps t"
  then obtain c x t where "s = (c # x) @ t" "list_all P (c # x)" "piece_match ps t"
    by (metis neq_Nil_conv)
  then show "piece_match (some_of P @ ps) s"
    by (auto simp: match_one match_many)
qed

lemma match_any: "piece_match ([Many P] @ ps) s \<longleftrightarrow> (\<exists>x t. s = x @ t \<and> list_all P x \<and> piece_match ps t)"
  by (simp add: match_many)

lemma match_end: "piece_match [Many P] s \<longleftrightarrow> list_all P s"
  by (auto simp: match_many)

lemma match_optional:
  "piece_match ([Maybe (OneOf P # literally w @ some_of Q)] @ ps) s \<longleftrightarrow>
     (\<exists>x t. s = x @ t \<and> (x = [] \<or> (\<exists>c y. x = c # w @ y \<and> P c \<and> y \<noteq> [] \<and> list_all Q y)) \<and> piece_match ps t)"
proof -
  have "piece_match ((OneOf P # literally w @ some_of Q) @ ps) s \<longleftrightarrow> (\<exists>c u. s = c # u \<and> P c \<and> piece_match (literally w @ some_of Q @ ps) u)"
    by (simp add: match_one)
  also have "\<dots> \<longleftrightarrow> (\<exists>x t. s = x @ t \<and> (\<exists>c y. x = c # w @ y \<and> P c \<and> y \<noteq> [] \<and> list_all Q y) \<and> piece_match ps t)"
    unfolding match_literally match_some
  proof
    assume "\<exists>c u. s = c # u \<and> P c \<and> (\<exists>t. u = w @ t \<and> (\<exists>x ta. t = x @ ta \<and> (x \<noteq> [] \<and> list_all Q x) \<and> piece_match ps ta))"
    then obtain c x t where "s = (c # w @ x) @ t" "P c" "x \<noteq> []" "list_all Q x" "piece_match ps t" by auto
    then show "\<exists>x t. s = x @ t \<and> (\<exists>c y. x = c # w @ y \<and> P c \<and> y \<noteq> [] \<and> list_all Q y) \<and> piece_match ps t" by blast
  qed fastforce
  finally have "piece_match ((OneOf P # literally w @ some_of Q) @ ps) s \<longleftrightarrow>
      (\<exists>x t. s = x @ t \<and> (\<exists>c y. x = c # w @ y \<and> P c \<and> y \<noteq> [] \<and> list_all Q y) \<and> piece_match ps t)" .
  then have "piece_match ([Maybe (OneOf P # literally w @ some_of Q)] @ ps) s \<longleftrightarrow>
      (\<exists>x t. s = x @ t \<and> (\<exists>c y. x = c # w @ y \<and> P c \<and> y \<noteq> [] \<and> list_all Q y) \<and> piece_match ps t) \<or> piece_match ps s"
    by simp
  then show ?thesis
    by (metis append_Nil)
qed

section \<open>What the webhook accepts\<close>

definition crn_accepted :: "CRN \<Rightarrow> bool" where
  "crn_accepted c \<longleftrightarrow> CRN_Scheme c = ''crn'' \<and>
     (\<exists>n. CRN_Version c = CHR ''v'' # n \<and> n \<noteq> [] \<and> list_all crn_digit n) \<and>
     list_all (\<lambda>x. x \<noteq> [] \<and> list_all crn_char x) [CRN_CName c, CRN_CType c, CRN_ServiceName c] \<and>
     list_all (list_all crn_char) [CRN_Region c, CRN_ServiceInstance c, CRN_ResourceType c] \<and>
     (CRN_ScopeType c = [] \<and> CRN_Scope c = [] \<or>
      (\<exists>a. CRN_ScopeType c = [a] \<and> crn_lower a) \<and> CRN_Scope c \<noteq> [] \<and> list_all crn_char (CRN_Scope c)) \<and>
     list_all crn_resource_char (CRN_Resource c)"

lemma crn_chars:
  "\<not> crn_char CHR '':''" "\<not> crn_char CHR ''/''" "\<not> crn_digit CHR '':''" "\<not> crn_lower CHR '':''" "\<not> crn_lower CHR ''/''"
  "\<not> crn_resource_char CHR '':''"
  by (simp_all add: crn_resource_char_def crn_char_def crn_digit_def crn_lower_def char_in_def)

lemma list_all_notin: "list_all P x \<Longrightarrow> \<not> P c \<Longrightarrow> c \<notin> set x"
  by (auto simp: list_all_iff)

lemma accepted_wf: "crn_accepted c \<Longrightarrow> crn_wf c"
  using crn_chars by (auto simp: crn_accepted_def crn_wf_def crn_parts_def crn_scope_def dest: list_all_notin)

text \<open>The expression, part by part.\<close>

lemma crn_regex_parts:
  "isValidCRN s \<longleftrightarrow> (\<exists>n a b c d e i j r. s = ''crn:v'' @ n @ '':'' @ a @ '':'' @ b @ '':'' @ c @ '':'' @ d @ '':'' @ e @ '':'' @ i @ '':'' @ j @ '':'' @ r \<and>
     (n \<noteq> [] \<and> list_all crn_digit n) \<and> (a \<noteq> [] \<and> list_all crn_char a) \<and> (b \<noteq> [] \<and> list_all crn_char b) \<and> (c \<noteq> [] \<and> list_all crn_char c) \<and>
     list_all crn_char d \<and> (e = [] \<or> (\<exists>x y. e = x # ''/'' @ y \<and> crn_lower x \<and> y \<noteq> [] \<and> list_all crn_char y)) \<and>
     list_all crn_char i \<and> list_all crn_char j \<and> list_all crn_resource_char r)"
  unfolding isValidCRN_def crnRegex_def match_literally match_some match_any match_end match_optional
  by (intro iffI; elim exE conjE; hypsubst; intro exI conjI; (rule refl | assumption)+)

text \<open>
  C35: The webhook accepts a string as the CRN of a key exactly if it is the text of a CRN, which
  \<open>parseCRN\<close> reads back part by part: the scheme \<open>crn\<close>, a version \<open>v\<close> with digits, a name, type and service, and an
  account in the scope if there is one.
\<close>

theorem valid_crn:
  "isValidCRN s \<longleftrightarrow> (\<exists>c. s = crn_text c \<and> parseCRN s = Ok (Some c) \<and> crn_accepted c)"
proof
  assume "isValidCRN s"
  then obtain n a b c d e i j r where s: "s = ''crn:v'' @ n @ '':'' @ a @ '':'' @ b @ '':'' @ c @ '':'' @ d @ '':'' @ e @ '':'' @ i @ '':'' @ j @ '':'' @ r"
    and ok: "n \<noteq> []" "list_all crn_digit n" "a \<noteq> []" "list_all crn_char a" "b \<noteq> []" "list_all crn_char b" "c \<noteq> []" "list_all crn_char c"
      "list_all crn_char d" "list_all crn_char i" "list_all crn_char j" "list_all crn_resource_char r"
    and e: "e = [] \<or> (\<exists>x y. e = x # ''/'' @ y \<and> crn_lower x \<and> y \<noteq> [] \<and> list_all crn_char y)"
    unfolding crn_regex_parts by blast
  obtain st sc where sc: "e = (if st = [] then sc else st @ CHR ''/'' # sc)"
      "st = [] \<and> sc = [] \<or> (\<exists>x. st = [x] \<and> crn_lower x) \<and> sc \<noteq> [] \<and> list_all crn_char sc"
  proof (cases "e = []")
    case True
    then show thesis using that [of "[]" "[]"] by simp
  next
    case False
    then obtain x y where "e = x # ''/'' @ y" "crn_lower x" "y \<noteq> []" "list_all crn_char y" using e by blast
    then show thesis using that [of "[x]" y] by simp
  qed
  let ?c = "\<lparr>CRN_Scheme = ''crn'', CRN_Version = CHR ''v'' # n, CRN_CName = a, CRN_CType = b, CRN_ServiceName = c, CRN_Region = d,
      CRN_ScopeType = st, CRN_Scope = sc, CRN_ServiceInstance = i, CRN_ResourceType = j, CRN_Resource = r\<rparr>"
  have accepted: "crn_accepted ?c"
    using ok sc(2) by (simp add: crn_accepted_def)
  have "s = crn_text ?c"
    by (simp add: s crn_text_def crn_parts_def crn_scope_def sc(1))
  then show "\<exists>c. s = crn_text c \<and> parseCRN s = Ok (Some c) \<and> crn_accepted c"
    using accepted parseCRN_text [OF accepted_wf [OF accepted]] by blast
next
  assume "\<exists>c. s = crn_text c \<and> parseCRN s = Ok (Some c) \<and> crn_accepted c"
  then obtain c where c: "s = crn_text c" "crn_accepted c" by blast
  then obtain n where n: "CRN_Version c = CHR ''v'' # n" "n \<noteq> []" "list_all crn_digit n"
    by (auto simp: crn_accepted_def)
  have scheme: "CRN_Scheme c = ''crn''"
    using c(2) by (simp add: crn_accepted_def)
  have scope: "crn_scope c = [] \<or> (\<exists>x y. crn_scope c = x # ''/'' @ y \<and> crn_lower x \<and> y \<noteq> [] \<and> list_all crn_char y)"
    using c(2) by (auto simp: crn_accepted_def crn_scope_def)
  have eq: "crn_text c = ''crn:v'' @ n @ '':'' @ CRN_CName c @ '':'' @ CRN_CType c @ '':'' @ CRN_ServiceName c @ '':'' @ CRN_Region c @ '':'' @
      crn_scope c @ '':'' @ CRN_ServiceInstance c @ '':'' @ CRN_ResourceType c @ '':'' @ CRN_Resource c"
    by (simp add: crn_text_def crn_parts_def scheme n(1))
  have parts: "CRN_CName c \<noteq> []" "list_all crn_char (CRN_CName c)" "CRN_CType c \<noteq> []" "list_all crn_char (CRN_CType c)"
      "CRN_ServiceName c \<noteq> []" "list_all crn_char (CRN_ServiceName c)" "list_all crn_char (CRN_Region c)"
      "list_all crn_char (CRN_ServiceInstance c)" "list_all crn_char (CRN_ResourceType c)" "list_all crn_resource_char (CRN_Resource c)"
    using c(2) by (simp_all add: crn_accepted_def)
  show "isValidCRN s"
    unfolding crn_regex_parts c(1) by (intro exI conjI) (rule eq n scope parts)+
qed

section \<open>Volumes\<close>

lemma invalid_if_none [simp]: "invalid_if b path msg = [] \<longleftrightarrow> \<not> b"
  by (simp add: invalid_if_def)

lemma additional_volumes_accepted:
  "additional_volumes_errors i vs = Some [] \<Longrightarrow> v \<in> set vs \<Longrightarrow> \<exists>w j. v = Some w \<and> additional_volume_errors j w = []"
  by (induction i vs rule: additional_volumes_errors.induct) auto

lemma admitted_volumes:
  assumes "vpcmachine_ValidateCreate m = Some []"
  shows "additional_volumes_errors 0 (VMSpec_AdditionalVolumes (VMachine_Spec m)) = Some []"
    and "VMSpec_BootVolume (VMachine_Spec m) = Some v \<Longrightarrow> validateBootVolume v = []"
  using assms by (auto simp: vpcmachine_ValidateCreate_def validateIBMVPCMachineVolume_def validateVolumes_def validateAdditionalVolumes_def)

text \<open>A request that asks for what the spec has: its size, its IOPS and its bandwidth, nothing left out.\<close>

definition requested_in_full :: "VCreateVolume \<Rightarrow> VPCVolume \<Rightarrow> bool" where
  "requested_in_full req v \<longleftrightarrow> vvol_Capacity req = Volume_SizeGiB v \<and> vvol_Capacity req \<noteq> 0 \<and>
     ptr_Deref (vvol_Iops req) 0 = Volume_Iops v \<and> vvol_Iops req \<noteq> Some 0 \<and> ptr_Deref (vvol_Bandwidth req) 0 = Volume_Bandwidth v"

lemma volume_accepted_full: "additional_volume_errors j v = [] \<Longrightarrow> requested_in_full (volume_request s v) v"
  by (auto simp: additional_volume_errors_def Let_def requested_in_full_def volume_request_def nonzero_def ptr_Deref_def
      volumeProfileSupportsIops_def customProfile_def sdpProfile_def)


definition sdp_volume :: VPCVolume where
  "sdp_volume = \<lparr>Volume_DeleteOnInstanceDelete = True, Volume_Name = ''data'', Volume_SizeGiB = 100, Volume_Profile = ''sdp'',
     Volume_Iops = 6000, Volume_Bandwidth = 1000, Volume_EncryptionKeyCRN = ''crn:v1:bluemix:public:kms:us-south:a/1f:2b:key:3c''\<rparr>"

definition sdp_scope :: vmscope where
  "sdp_scope = \<lparr>vtrace = [],
     vm_machine = \<lparr>VMachine_Name = ''vm'', VMachine_Namespace = ''default'', VMachine_Labels = Map.empty, VMachine_Finalizers = [],
      VMachine_Deleting = False,
      VMachine_Spec = \<lparr>VMSpec_Name = ''vm'', VMSpec_CatalogOffering = None, VMSpec_PlacementTarget = None,
        VMSpec_Image = Some \<lparr>VPCResource_ID = Some ''image'', VPCResource_Name = None\<rparr>, VMSpec_LoadBalancerPoolMembers = [],
        VMSpec_Zone = ''us-south-1'', VMSpec_Profile = ''bx2-2x8'', VMSpec_BootVolume = Some sdp_volume, VMSpec_ProviderID = None,
        VMSpec_PrimaryNetworkInterface = \<lparr>Interface_SecurityGroups = [], Interface_Subnet = ''cp''\<rparr>, VMSpec_SSHKeys = [],
        VMSpec_AdditionalVolumes = [Some sdp_volume]\<rparr>,
      VMachine_Status = \<lparr>VMStatus_InstanceID = [], VMStatus_Ready = False, VMStatus_Addresses = [], VMStatus_Conditions = [],
        VMStatus_FailureReason = None, VMStatus_FailureMessage = None, VMStatus_InstanceStatus = [],
        VMStatus_LoadBalancerPoolMembers = [], VMStatus_V1Beta2 = None\<rparr>\<rparr>,
     vm_cluster = v_cluster (example_vscope []), vm_DataSecretName = Some ''bootstrap'',
     vm_OwnerNamespace = ''default'', vm_ClusterName = ''c'', vm_APIServerPort = 0\<rparr>"


end
